(* ===== verification/Errors.thy ===== *)
theory Errors
  imports Main
begin

text \<open>
  The contract error enums of \<^verbatim>\<open>src/common/src/errors.rs\<close> and the ones of
  \<^verbatim>\<open>src/contracts/xoxno-oracle/src/lib.rs\<close> and \<^verbatim>\<open>src/contracts/swap-aggregator/src/errors.rs\<close>, one datatype per enum with the
  source's constructors in the source's order, their numeric codes, and the sum \<open>error\<close> that every
  fallible operation of the model returns on its left. \<open>HostError\<close> collects the failures that the
  source does not name itself: the arithmetic trap of a build with \<^verbatim>\<open>overflow-checks = true\<close>,
  an index out of range, a failed \<^verbatim>\<open>require_auth\<close>, an unset owner, a pause state that is not the required one, and a failing call into a contract that is
  not part of the repository.
\<close>

section \<open>Error enums\<close>

datatype (plugins only: code size) generic_error =
    AssetNotSupported | AssetAlreadySupported | InvalidTicker | PoolAlreadyDeployed
  | InvalidAsset | AssetsAreTheSame | WrongToken | InvalidWasmHash | InvalidExchangeSrc
  | PairNotActive | AccountNotInMarket | AmountMustBePositive | InvalidPayments
  | NotSmartContract | AccountNotFound | AccountModeMismatch | AggregatorNotSet
  | PositionLimitsNotSet | PoolNotInitialized | OwnerNotSet | MathOverflow | InternalError
  | InvalidPositionLimits | SpotOnlyNotProductionSafe | InvalidTimelockDelay
  | TimelockOperationExpired | InvalidRole | BlendPoolNotApproved | HubNotActive
  | NotAuthorized | RegistryCapReached | OperationNotCancellable | BorrowRoundsToZeroShares
  | CannotRemoveLastProposer | WithdrawRoundsToZeroShares | NetSettleRoundsToZeroShares
  | SupplyRoundsToZeroShares | RepayRoundsToZeroShares | PositionNftNotSet
  | PositionNftAlreadyDeployed | DivisionByZero

datatype (plugins only: code size) collateral_error =
    InsufficientCollateral | HealthFactorTooHigh | HealthFactorTooLow | NotCollateral
  | AssetNotBorrowable | PositionLimitExceeded | PositionNotFound | InvalidPositionMode
  | InsufficientLiquidity | InvalidLiqThreshold | CannotCleanBadDebt | WithdrawLessThanFee
  | InvalidBorrowParams | InvalidUtilRange | OptUtilTooHigh | InvalidReserveFactor
  | DebtPositionNotFound | CollateralPositionNotFound | CannotCloseWithRemainingDebt
  | PoolInsolvent | MinBorrowCollateralNotMet | UtilizationAboveMax | BaseRateNegative
  | SlopeNonMonotonic | MaxRateBelowBase | MaxBorrowRateTooHigh | AssetDecimalsTooHigh
  | SelfLiquidationNotAllowed | InvalidLiquidationCurve | FullCloseRequired

datatype (plugins only: code size) oracle_error =
    InvalidAggregator | InvalidOracleTokenType | UnsafePriceNotAllowed | PriceFeedStale
  | BadLastTolerance | NoLastPrice | NoAccumulator | ReflectorHistoryEmpty
  | OracleNotConfigured | InvalidPrice | InvalidStalenessConfig
  | TwapInsufficientObservations | InvalidOracleBase | InvalidOracleDecimals
  | InvalidOracleResolution | SanityBoundViolated | InvalidSanityBounds
  | OracleCycleDetected | SanityBandTooWideForSingleSource | SanityBandMustTighten
  | TwapRecordsOutOfRange | OracleDepthExceeded | FactorOutOfBounds
  | SourceCountOutOfRange | IndependenceNotDeclared | UnsupportedAquariusPool
  | InsufficientAquariusLiquidity | UnsupportedCurvePool | InsufficientCurveLiquidity

datatype (plugins only: code size) spoke_error =
    SpokeNotFound | SpokeDeprecated | AssetNotInSpoke | AssetAlreadyInSpoke
  | SpokeAssetInUse | SpokeMismatch | SpokeSupplyCapReached | SpokeBorrowCapReached
  | SpokeAssetPaused | SpokeAssetFrozen | SpokeAssetFlagRelaxation
  | SpokeAssetSeizureHalted | SpokeFlagsEpochMismatch | SpokeAssetFlagsUnchanged

datatype (plugins only: code size) flash_loan_error =
    FlashLoanOngoing | FlashloanNotEnabled | InvalidFlashloanRepay | StrategyFeeExceeds
  | InvalidFlashloanReceiver

datatype (plugins only: code size) strategy_error =
    ConvertStepsRequired | RouterOverspend | NoSwapOutput | CollateralRequired
  | CollateralMinimumNotMet | FlashPositionClosed

datatype (plugins only: code size) xoxno_error =
    NotAuthorizedSigner | InvalidPrice_xo | InvalidThreshold | SignerAlreadyRegistered | SignerNotRegistered
  | CannotRemoveBelowThreshold | NoDataForFeed | StaleData | PriceOutOfRange | LengthMismatch
  | FutureTimestamp | FeedAlreadyMapped | FeedNotMapped | FeedNotKnown | InvalidSubmissionAge
  | StaleSubmission | FeedAlreadyRegistered | InvalidRelativeSkew | InvalidClusterSpread

datatype (plugins only: code size) swap_error =
    EmptyBatch | InvalidAmount | BrokenTokenChain | SlippageExceeded | ZeroOutput | IntegerOverflow
  | ZeroSplitPpm | SplitPpmMismatch | InvalidRouteXdr | NotAdmin | FeeTooHigh | ReferralNotFound
  | SameToken | LpTokenMismatch | MinSharesNotMet | MinAmountsNotMet | ExcessiveResidual
  | InternalInvariant

datatype (plugins only: code size) host_error =
    ArithmeticTrap | IndexTrap | AuthFailed | OwnableOwnerNotSet | EnforcedPause | ExpectedPause | ExternalCallFailed

datatype (plugins only: code size) error =
    Generic generic_error
  | Collateral collateral_error
  | Oracle oracle_error
  | Spoke spoke_error
  | FlashLoan flash_loan_error
  | Strategy strategy_error
  | Xoxno xoxno_error
  | Swap swap_error
  | Host host_error

section \<open>Error codes\<close>

primrec generic_code :: "generic_error \<Rightarrow> nat" where
  "generic_code AssetNotSupported = 1"
| "generic_code AssetAlreadySupported = 2"
| "generic_code InvalidTicker = 3"
| "generic_code PoolAlreadyDeployed = 5"
| "generic_code InvalidAsset = 6"
| "generic_code AssetsAreTheSame = 7"
| "generic_code WrongToken = 8"
| "generic_code InvalidWasmHash = 10"
| "generic_code InvalidExchangeSrc = 11"
| "generic_code PairNotActive = 12"
| "generic_code AccountNotInMarket = 13"
| "generic_code AmountMustBePositive = 14"
| "generic_code InvalidPayments = 16"
| "generic_code NotSmartContract = 18"
| "generic_code AccountNotFound = 24"
| "generic_code AccountModeMismatch = 25"
| "generic_code AggregatorNotSet = 27"
| "generic_code PositionLimitsNotSet = 29"
| "generic_code PoolNotInitialized = 30"
| "generic_code OwnerNotSet = 32"
| "generic_code MathOverflow = 33"
| "generic_code InternalError = 34"
| "generic_code InvalidPositionLimits = 36"
| "generic_code SpotOnlyNotProductionSafe = 38"
| "generic_code InvalidTimelockDelay = 39"
| "generic_code TimelockOperationExpired = 40"
| "generic_code InvalidRole = 41"
| "generic_code BlendPoolNotApproved = 42"
| "generic_code HubNotActive = 43"
| "generic_code NotAuthorized = 44"
| "generic_code RegistryCapReached = 45"
| "generic_code OperationNotCancellable = 46"
| "generic_code BorrowRoundsToZeroShares = 47"
| "generic_code CannotRemoveLastProposer = 48"
| "generic_code WithdrawRoundsToZeroShares = 49"
| "generic_code NetSettleRoundsToZeroShares = 50"
| "generic_code SupplyRoundsToZeroShares = 51"
| "generic_code RepayRoundsToZeroShares = 52"
| "generic_code PositionNftNotSet = 53"
| "generic_code PositionNftAlreadyDeployed = 54"
| "generic_code DivisionByZero = 55"

primrec collateral_code :: "collateral_error \<Rightarrow> nat" where
  "collateral_code InsufficientCollateral = 100"
| "collateral_code HealthFactorTooHigh = 101"
| "collateral_code HealthFactorTooLow = 102"
| "collateral_code NotCollateral = 104"
| "collateral_code AssetNotBorrowable = 107"
| "collateral_code PositionLimitExceeded = 109"
| "collateral_code PositionNotFound = 110"
| "collateral_code InvalidPositionMode = 111"
| "collateral_code InsufficientLiquidity = 112"
| "collateral_code InvalidLiqThreshold = 113"
| "collateral_code CannotCleanBadDebt = 114"
| "collateral_code WithdrawLessThanFee = 115"
| "collateral_code InvalidBorrowParams = 116"
| "collateral_code InvalidUtilRange = 117"
| "collateral_code OptUtilTooHigh = 118"
| "collateral_code InvalidReserveFactor = 119"
| "collateral_code DebtPositionNotFound = 120"
| "collateral_code CollateralPositionNotFound = 121"
| "collateral_code CannotCloseWithRemainingDebt = 122"
| "collateral_code PoolInsolvent = 123"
| "collateral_code MinBorrowCollateralNotMet = 126"
| "collateral_code UtilizationAboveMax = 127"
| "collateral_code BaseRateNegative = 128"
| "collateral_code SlopeNonMonotonic = 129"
| "collateral_code MaxRateBelowBase = 130"
| "collateral_code MaxBorrowRateTooHigh = 131"
| "collateral_code AssetDecimalsTooHigh = 132"
| "collateral_code SelfLiquidationNotAllowed = 133"
| "collateral_code InvalidLiquidationCurve = 134"
| "collateral_code FullCloseRequired = 135"

primrec oracle_code :: "oracle_error \<Rightarrow> nat" where
  "oracle_code InvalidAggregator = 201"
| "oracle_code InvalidOracleTokenType = 204"
| "oracle_code UnsafePriceNotAllowed = 205"
| "oracle_code PriceFeedStale = 206"
| "oracle_code BadLastTolerance = 208"
| "oracle_code NoLastPrice = 210"
| "oracle_code NoAccumulator = 211"
| "oracle_code ReflectorHistoryEmpty = 212"
| "oracle_code OracleNotConfigured = 216"
| "oracle_code InvalidPrice = 217"
| "oracle_code InvalidStalenessConfig = 218"
| "oracle_code TwapInsufficientObservations = 219"
| "oracle_code InvalidOracleBase = 220"
| "oracle_code InvalidOracleDecimals = 221"
| "oracle_code InvalidOracleResolution = 222"
| "oracle_code SanityBoundViolated = 223"
| "oracle_code InvalidSanityBounds = 224"
| "oracle_code OracleCycleDetected = 225"
| "oracle_code SanityBandTooWideForSingleSource = 226"
| "oracle_code SanityBandMustTighten = 227"
| "oracle_code TwapRecordsOutOfRange = 228"
| "oracle_code OracleDepthExceeded = 229"
| "oracle_code FactorOutOfBounds = 230"
| "oracle_code SourceCountOutOfRange = 231"
| "oracle_code IndependenceNotDeclared = 232"
| "oracle_code UnsupportedAquariusPool = 234"
| "oracle_code InsufficientAquariusLiquidity = 235"
| "oracle_code UnsupportedCurvePool = 236"
| "oracle_code InsufficientCurveLiquidity = 237"

primrec spoke_code :: "spoke_error \<Rightarrow> nat" where
  "spoke_code SpokeNotFound = 300"
| "spoke_code SpokeDeprecated = 301"
| "spoke_code AssetNotInSpoke = 307"
| "spoke_code AssetAlreadyInSpoke = 308"
| "spoke_code SpokeAssetInUse = 309"
| "spoke_code SpokeMismatch = 310"
| "spoke_code SpokeSupplyCapReached = 311"
| "spoke_code SpokeBorrowCapReached = 312"
| "spoke_code SpokeAssetPaused = 315"
| "spoke_code SpokeAssetFrozen = 316"
| "spoke_code SpokeAssetFlagRelaxation = 317"
| "spoke_code SpokeAssetSeizureHalted = 318"
| "spoke_code SpokeFlagsEpochMismatch = 319"
| "spoke_code SpokeAssetFlagsUnchanged = 320"

primrec flash_loan_code :: "flash_loan_error \<Rightarrow> nat" where
  "flash_loan_code FlashLoanOngoing = 400"
| "flash_loan_code FlashloanNotEnabled = 401"
| "flash_loan_code InvalidFlashloanRepay = 402"
| "flash_loan_code StrategyFeeExceeds = 409"
| "flash_loan_code InvalidFlashloanReceiver = 412"

primrec strategy_code :: "strategy_error \<Rightarrow> nat" where
  "strategy_code ConvertStepsRequired = 500"
| "strategy_code RouterOverspend = 501"
| "strategy_code NoSwapOutput = 502"
| "strategy_code CollateralRequired = 503"
| "strategy_code CollateralMinimumNotMet = 504"
| "strategy_code FlashPositionClosed = 505"

primrec xoxno_code :: "xoxno_error \<Rightarrow> nat" where
  "xoxno_code NotAuthorizedSigner = 1"
| "xoxno_code InvalidPrice_xo = 2"
| "xoxno_code InvalidThreshold = 3"
| "xoxno_code SignerAlreadyRegistered = 4"
| "xoxno_code SignerNotRegistered = 5"
| "xoxno_code CannotRemoveBelowThreshold = 6"
| "xoxno_code NoDataForFeed = 7"
| "xoxno_code StaleData = 8"
| "xoxno_code PriceOutOfRange = 9"
| "xoxno_code LengthMismatch = 10"
| "xoxno_code FutureTimestamp = 11"
| "xoxno_code FeedAlreadyMapped = 12"
| "xoxno_code FeedNotMapped = 13"
| "xoxno_code FeedNotKnown = 14"
| "xoxno_code InvalidSubmissionAge = 15"
| "xoxno_code StaleSubmission = 16"
| "xoxno_code FeedAlreadyRegistered = 17"
| "xoxno_code InvalidRelativeSkew = 18"
| "xoxno_code InvalidClusterSpread = 19"

primrec swap_code :: "swap_error \<Rightarrow> nat" where
  "swap_code EmptyBatch = 1"
| "swap_code InvalidAmount = 3"
| "swap_code BrokenTokenChain = 4"
| "swap_code SlippageExceeded = 5"
| "swap_code ZeroOutput = 7"
| "swap_code IntegerOverflow = 9"
| "swap_code ZeroSplitPpm = 11"
| "swap_code SplitPpmMismatch = 12"
| "swap_code InvalidRouteXdr = 13"
| "swap_code NotAdmin = 20"
| "swap_code FeeTooHigh = 21"
| "swap_code ReferralNotFound = 22"
| "swap_code SameToken = 25"
| "swap_code LpTokenMismatch = 26"
| "swap_code MinSharesNotMet = 27"
| "swap_code MinAmountsNotMet = 28"
| "swap_code ExcessiveResidual = 29"
| "swap_code InternalInvariant = 30"

end
