(* ===== verification/Prelude.thy ===== *)
theory Prelude
  imports Errors "HOL-Library.Signed_Division"
begin

text \<open>
  What the component theories share: the result type \<open>'a res\<close> with its sequencing operator
  \<open>rbind\<close> (a panic is \<open>Inl\<close>, and a transaction that panics leaves no state), the machine
  integers \<^verbatim>\<open>i128\<close> and \<^verbatim>\<open>u64\<close> as unbounded numbers with their range checks written out,
  and the arithmetic of rounded quotients. Two collections carry the component proofs:
  \<open>res_iff\<close> turns the success of an operation into its conditions, and \<open>share_arith\<close>
  holds facts about rounded quotients.
\<close>

named_theorems res_iff \<open>success and failure of fallible operations as conditions\<close>
named_theorems share_arith \<open>bounds of rounded quotients\<close>

section \<open>Results\<close>

type_synonym 'a res = "error + 'a"

definition rbind :: "'a res \<Rightarrow> ('a \<Rightarrow> 'b res) \<Rightarrow> 'b res" where
  "rbind m f = (case m of Inl e \<Rightarrow> Inl e | Inr x \<Rightarrow> f x)"

definition assert_with_error :: "bool \<Rightarrow> error \<Rightarrow> unit res" where
  "assert_with_error b e = (if b then Inr () else Inl e)"

definition unwrap_or_panic :: "'a option \<Rightarrow> error \<Rightarrow> 'a res" where
  "unwrap_or_panic m e = (case m of None \<Rightarrow> Inl e | Some x \<Rightarrow> Inr x)"

definition is_ok :: "'a res \<Rightarrow> bool" where
  "is_ok m \<longleftrightarrow> (\<exists>x. m = Inr x)"

lemma rbind_simps [simp]:
  "rbind (Inl e) f = Inl e"
  "rbind (Inr x) f = f x"
  by (simp_all add: rbind_def)

lemma rbind_cong [fundef_cong]:
  assumes "m = m'" and "\<And>x. m' = Inr x \<Longrightarrow> f x = f' x"
  shows "rbind m f = rbind m' f'"
  using assms by (cases m') auto

text \<open>Evaluation proceeds left to right: a continuation is simplified only once it has its argument.\<close>

lemma rbind_weak_cong: "m = m' \<Longrightarrow> rbind m f = rbind m' f"
  by simp

lemma rbind_Inr_iff [res_iff]: "rbind m f = Inr y \<longleftrightarrow> (\<exists>x. m = Inr x \<and> f x = Inr y)"
  by (cases m) auto

lemma rbind_assoc: "rbind (rbind m f) g = rbind m (\<lambda>x. rbind (f x) g)"
  by (cases m) auto

lemma rbind_cases [consumes 1, case_names bind]:
  assumes "rbind m f = Inr y"
  obtains x where "m = Inr x" and "f x = Inr y"
  using assms by (auto simp: res_iff)

lemma is_ok_simps [simp]: "is_ok (Inr x)" "\<not> is_ok (Inl e)"
  by (simp_all add: is_ok_def)

lemma is_ok_rbind: "is_ok m \<Longrightarrow> (\<And>x. m = Inr x \<Longrightarrow> is_ok (f x)) \<Longrightarrow> is_ok (rbind m f)"
  by (cases m) (auto simp: is_ok_def)

lemma assert_Inr_iff [res_iff]: "assert_with_error b e = Inr u \<longleftrightarrow> b"
  by (simp add: assert_with_error_def)

lemma assert_simps [simp]:
  "assert_with_error True e = Inr ()"
  "assert_with_error False e = Inl e"
  by (simp_all add: assert_with_error_def)

lemma unwrap_Inr_iff [res_iff]: "unwrap_or_panic m e = Inr x \<longleftrightarrow> m = Some x"
  by (simp add: unwrap_or_panic_def split: option.splits)

lemma unwrap_simps [simp]:
  "unwrap_or_panic None e = Inl e"
  "unwrap_or_panic (Some x) e = Inr x"
  by (simp_all add: unwrap_or_panic_def)

section \<open>Machine integers\<close>

text \<open>
  An \<^verbatim>\<open>i128\<close> is an \<open>int\<close> for which \<open>in_i128\<close> holds; \<^verbatim>\<open>I256\<close> intermediates are exact
  integers (a product of two \<^verbatim>\<open>i128\<close> values and the additions made to it stay inside 256 bits,
  \<open>i256_product_fits\<close> below). \<^verbatim>\<open>u32\<close> and \<^verbatim>\<open>u64\<close> values are \<open>nat\<close>; \<^verbatim>\<open>saturating_sub\<close>
  on them is subtraction on \<open>nat\<close>. The native operators panic on overflow
  (\<^verbatim>\<open>overflow-checks = true\<close> in \<^verbatim>\<open>src/Cargo.toml\<close>).
\<close>

definition i128_max :: int where
  "i128_max = 2 ^ 127 - 1"

definition i128_min :: int where
  "i128_min = - (2 ^ 127)"

definition u64_max :: nat where
  "u64_max = 2 ^ 64 - 1"

definition u32_max :: nat where
  "u32_max = 2 ^ 32 - 1"

definition in_i128 :: "int \<Rightarrow> bool" where
  "in_i128 x \<longleftrightarrow> i128_min \<le> x \<and> x \<le> i128_max"

definition in_i256 :: "int \<Rightarrow> bool" where
  "in_i256 x \<longleftrightarrow> - (2 ^ 255) \<le> x \<and> x < 2 ^ 255"

definition to_i128_opt :: "int \<Rightarrow> int option" where
  "to_i128_opt x = (if in_i128 x then Some x else None)"

definition i128_checked_add :: "int \<Rightarrow> int \<Rightarrow> int option" where
  "i128_checked_add a b = to_i128_opt (a + b)"

definition i128_checked_sub :: "int \<Rightarrow> int \<Rightarrow> int option" where
  "i128_checked_sub a b = to_i128_opt (a - b)"

definition i128_checked_mul :: "int \<Rightarrow> int \<Rightarrow> int option" where
  "i128_checked_mul a b = to_i128_opt (a * b)"

definition i128_checked_div :: "int \<Rightarrow> int \<Rightarrow> int option" where
  "i128_checked_div a b = (if b = 0 then None else to_i128_opt (a sdiv b))"

definition i128_checked_pow10 :: "nat \<Rightarrow> int option" where
  "i128_checked_pow10 n = to_i128_opt (10 ^ n)"

definition i128_saturate :: "int \<Rightarrow> int" where
  "i128_saturate x = max i128_min (min x i128_max)"

definition i128_saturating_sub :: "int \<Rightarrow> int \<Rightarrow> int" where
  "i128_saturating_sub a b = i128_saturate (a - b)"

definition i128_saturating_mul :: "int \<Rightarrow> int \<Rightarrow> int" where
  "i128_saturating_mul a b = i128_saturate (a * b)"

definition native :: "int \<Rightarrow> int res" where
  "native x = (if in_i128 x then Inr x else Inl (Host ArithmeticTrap))"

lemma native_Inr_iff [res_iff]: "native x = Inr y \<longleftrightarrow> y = x \<and> in_i128 x"
  by (auto simp: native_def)

lemma to_i128_Some_iff [res_iff]: "to_i128_opt x = Some y \<longleftrightarrow> y = x \<and> in_i128 x"
  by (auto simp: to_i128_opt_def)

lemma to_i128_None_iff: "to_i128_opt x = None \<longleftrightarrow> \<not> in_i128 x"
  by (simp add: to_i128_opt_def)

lemma i128_bounds: "i128_max = 170141183460469231731687303715884105727"
  "i128_min = - 170141183460469231731687303715884105728"
  by (simp_all add: i128_max_def i128_min_def)

lemma in_i128_iff: "in_i128 x \<longleftrightarrow>
    - 170141183460469231731687303715884105728 \<le> x \<and> x \<le> 170141183460469231731687303715884105727"
  by (simp add: in_i128_def i128_bounds)

lemma in_i128_nonneg: "0 \<le> x \<Longrightarrow> in_i128 x \<longleftrightarrow> x \<le> i128_max"
  by (simp add: in_i128_def i128_bounds)

lemma in_i128_between: "in_i128 a \<Longrightarrow> in_i128 b \<Longrightarrow> a \<le> x \<Longrightarrow> x \<le> b \<Longrightarrow> in_i128 x"
  by (simp add: in_i128_def)

lemma in_i128_le: "in_i128 b \<Longrightarrow> 0 \<le> x \<Longrightarrow> x \<le> b \<Longrightarrow> in_i128 x"
  by (simp add: in_i128_iff)

lemma in_i128_0 [simp]: "in_i128 0" "in_i128 1"
  by (simp_all add: in_i128_iff)

lemma i128_max_pos [simp]: "0 < i128_max" "0 \<le> i128_max"
  by (simp_all add: i128_bounds)

lemma in_i128_min_max [simp]: "in_i128 i128_min" "in_i128 i128_max"
  by (simp_all add: in_i128_def i128_bounds)

lemma in_i128_min: "in_i128 a \<Longrightarrow> in_i128 b \<Longrightarrow> in_i128 (min a b)"
  by (simp add: min_def)

lemma in_i128_max: "in_i128 a \<Longrightarrow> in_i128 b \<Longrightarrow> in_i128 (max a b)"
  by (simp add: max_def)

lemma saturate_id: "in_i128 x \<Longrightarrow> i128_saturate x = x"
  by (simp add: i128_saturate_def in_i128_def)

lemma in_i128_saturate [simp]: "in_i128 (i128_saturate x)"
  by (auto simp: i128_saturate_def in_i128_def i128_bounds)

lemma i256_product_fits:
  assumes "in_i128 x" and "in_i128 y" and "0 \<le> h" and "h \<le> i128_max"
  shows "in_i256 (x * y)" and "in_i256 (x * y + h)"
proof -
  have "\<bar>x\<bar> \<le> 2 ^ 127" and "\<bar>y\<bar> \<le> 2 ^ 127"
    using assms by (auto simp: in_i128_def i128_max_def i128_min_def)
  then have "\<bar>x * y\<bar> \<le> 2 ^ 127 * 2 ^ 127"
    unfolding abs_mult by (intro mult_mono) auto
  then show "in_i256 (x * y)" and "in_i256 (x * y + h)"
    using assms(3,4) by (auto simp: in_i256_def i128_max_def abs_le_iff)
qed

section \<open>Rounded quotients\<close>

definition ceil_div :: "int \<Rightarrow> int \<Rightarrow> int" where
  "ceil_div a b = - ((- a) div b)"

definition half_up_div :: "int \<Rightarrow> int \<Rightarrow> int" where
  "half_up_div a b = (a + b div 2) div b"

lemma floor_bounds: "0 < d \<Longrightarrow> (a::int) div d * d \<le> a \<and> a < (a div d + 1) * d"
  using div_mult_mod_eq [of a d] pos_mod_bound [of d a] pos_mod_sign [of d a]
  unfolding distrib_right mult_1 by linarith

lemma floor_ge_iff: "0 < d \<Longrightarrow> q \<le> a div d \<longleftrightarrow> q * d \<le> (a::int)"
proof
  assume d: "0 < d" and "q \<le> a div d"
  then have "q * d \<le> a div d * d" by (simp add: mult_right_mono)
  with floor_bounds [OF d, of a] show "q * d \<le> a" by linarith
next
  assume d: "0 < d" and "q * d \<le> a"
  then have "q * d div d \<le> a div d" by (intro zdiv_mono1) auto
  with d show "q \<le> a div d" by simp
qed

lemma floor_less_iff: "0 < d \<Longrightarrow> a div d < q \<longleftrightarrow> (a::int) < q * d"
  using floor_ge_iff [of d q a] by linarith

lemma floor_le_iff: "0 < d \<Longrightarrow> a div d \<le> q \<longleftrightarrow> (a::int) < (q + 1) * d"
  using floor_less_iff [of d a "q + 1"] by linarith

lemma ceil_le_iff: "0 < d \<Longrightarrow> ceil_div a d \<le> q \<longleftrightarrow> a \<le> q * d"
  using floor_ge_iff [of d "- q" "- a"] unfolding ceil_div_def
  by (metis minus_le_iff minus_mult_left neg_le_iff_le)

lemma ceil_gt_iff: "0 < d \<Longrightarrow> q < ceil_div a d \<longleftrightarrow> q * d < a"
  using ceil_le_iff [of d a q] by linarith

lemma ceil_ge_iff: "0 < d \<Longrightarrow> q \<le> ceil_div a d \<longleftrightarrow> (q - 1) * d < a"
  using ceil_gt_iff [of d "q - 1" a] by linarith

lemma ceil_bounds: "0 < d \<Longrightarrow> a \<le> ceil_div a d * d \<and> (ceil_div a d - 1) * d < a"
  using ceil_le_iff [of d a "ceil_div a d"] ceil_gt_iff [of d "ceil_div a d - 1" a] by simp

lemma half_up_ge_iff: "0 < d \<Longrightarrow> q \<le> half_up_div a d \<longleftrightarrow> q * d \<le> a + d div 2"
  by (simp add: half_up_div_def floor_ge_iff)

lemma half_up_le_iff: "0 < d \<Longrightarrow> half_up_div a d \<le> q \<longleftrightarrow> a + d div 2 < (q + 1) * d"
  by (simp add: half_up_div_def floor_le_iff)

lemma half_up_bounds:
  assumes "0 < d"
  shows "half_up_div a d * d \<le> a + d div 2" and "a < half_up_div a d * d + d - d div 2"
  using assms half_up_ge_iff [of d "half_up_div a d" a] half_up_le_iff [of d a "half_up_div a d"]
  by (simp_all add: algebra_simps)

lemma half_up_error:
  assumes "0 < d"
  shows "2 * \<bar>half_up_div a d * d - a\<bar> \<le> d"
proof -
  have "2 * (d div 2) \<le> d" and "d \<le> 2 * (d div 2) + 1" by linarith+
  with half_up_bounds [OF assms, of a] show ?thesis
    by (cases "a \<le> half_up_div a d * d") (simp_all add: abs_if)
qed

lemma floor_le_half_up: "0 < d \<Longrightarrow> a div d \<le> half_up_div a d"
  by (auto simp: half_up_div_def intro!: zdiv_mono1)

lemma half_up_le_ceil: "0 < d \<Longrightarrow> half_up_div a d \<le> ceil_div a d"
  using ceil_bounds [of d a] by (simp add: half_up_le_iff algebra_simps) linarith

lemma half_up_le_Suc_floor: "0 < d \<Longrightarrow> half_up_div a d \<le> a div d + 1"
  using floor_bounds [of d a] by (simp add: half_up_le_iff algebra_simps) linarith

lemma ceil_le_Suc_floor: "0 < d \<Longrightarrow> ceil_div a d \<le> a div d + 1"
  using floor_bounds [of d a] by (simp add: ceil_le_iff)

lemma ceil_le_Suc_half_up: "0 < d \<Longrightarrow> ceil_div a d \<le> half_up_div a d + 1"
  using ceil_le_Suc_floor [of d a] floor_le_half_up [of d a] by linarith

lemma half_up_mono: "0 < d \<Longrightarrow> a \<le> b \<Longrightarrow> half_up_div a d \<le> half_up_div b d"
  by (auto simp: half_up_div_def intro!: zdiv_mono1)

lemma ceil_mono: "0 < d \<Longrightarrow> a \<le> b \<Longrightarrow> ceil_div a d \<le> ceil_div b d"
  by (auto simp: ceil_div_def intro!: zdiv_mono1)

lemma ceil_eq_floor_iff: "0 < d \<Longrightarrow> ceil_div a d = a div d \<longleftrightarrow> d dvd a"
  using zdiv_zminus1_eq_if [of d a] by (auto simp: ceil_div_def dvd_eq_mod_eq_0)

lemma ceil_eq_if: "0 < d \<Longrightarrow> ceil_div a d = (if d dvd a then a div d else a div d + 1)"
  using zdiv_zminus1_eq_if [of d a] by (auto simp: ceil_div_def dvd_eq_mod_eq_0)

lemma exact_quotients [simp]:
  assumes "0 < (d::int)"
  shows "ceil_div (a * d) d = a" and "half_up_div (a * d) d = a"
    and "ceil_div (d * a) d = a" and "half_up_div (d * a) d = a"
proof -
  have h: "half_up_div (a * d) d = a"
    using assms by (simp add: half_up_div_def div_plus_div_distrib_dvd_left)
  then show "half_up_div (a * d) d = a" and "half_up_div (d * a) d = a"
    by (simp_all add: mult.commute)
  show "ceil_div (a * d) d = a" and "ceil_div (d * a) d = a"
    using assms by (simp_all add: ceil_eq_if)
qed

lemma zero_quotients [simp]: "ceil_div 0 d = 0" "0 < d \<Longrightarrow> half_up_div 0 d = 0"
  by (simp_all add: ceil_div_def half_up_div_def)

lemma nonneg_quotients:
  assumes "0 \<le> (a::int)" and "0 < d"
  shows "0 \<le> a div d" and "0 \<le> ceil_div a d" and "0 \<le> half_up_div a d"
  using assms half_up_mono [of d 0 a] ceil_mono [of d 0 a]
  by (simp_all add: pos_imp_zdiv_nonneg_iff)

lemma pos_ceil: "0 < (a::int) \<Longrightarrow> 0 < d \<Longrightarrow> 0 < ceil_div a d"
  by (simp add: ceil_gt_iff)

section \<open>Truncating division\<close>

lemma sdiv_nonneg: "0 \<le> (a::int) \<Longrightarrow> 0 < d \<Longrightarrow> a sdiv d = a div d"
  by (cases "a = 0") (simp_all add: signed_divide_int_def)

lemma smod_nonneg: "0 \<le> (a::int) \<Longrightarrow> 0 < d \<Longrightarrow> a smod d = a mod d"
  by (cases "a = 0") (simp_all add: signed_modulo_int_eq_modulo_int)

lemma smod_eq_0_iff: "a smod d = 0 \<longleftrightarrow> d dvd (a::int)"
  by (auto simp: signed_modulo_int_def sgn_0_0 dvd_eq_mod_eq_0 [symmetric])

lemma sdiv_floor_if:
  assumes "(d::int) \<noteq> 0"
  shows "a div d = (if \<not> d dvd a \<and> (a < 0) \<noteq> (d < 0) then a sdiv d - 1 else a sdiv d)"
  using assms by (cases "a = 0") (auto simp: divide_int_eq_signed_divide_int sgn_if)

lemma sdiv_ceil_if:
  assumes "(d::int) \<noteq> 0"
  shows "ceil_div a d = (if \<not> d dvd a \<and> (a < 0) = (d < 0) then a sdiv d + 1 else a sdiv d)"
proof -
  have "ceil_div a d = - (if \<not> d dvd a \<and> (- a < 0) \<noteq> (d < 0) then - (a sdiv d) - 1 else - (a sdiv d))"
    using sdiv_floor_if [OF assms, of "- a"] by (simp add: ceil_div_def)
  with assms show ?thesis by (cases "a = 0") (auto split: if_splits)
qed

end
