(* ===== verification/Fp_Core.thy ===== *)
theory Fp_Core
  imports Prelude
begin

text \<open>
  \<^verbatim>\<open>src/common/src/math/fp_core.rs\<close>: the raw \<^verbatim>\<open>i128\<close> primitives behind the fixed-point
  types. Every multiply-divide tries \<^verbatim>\<open>i128\<close> first and widens to \<^verbatim>\<open>I256\<close> when the product does
  not fit; the lemmas show that both paths compute the same rounded rational
  (\<open>mul_div_floor_eq\<close>, \<open>mul_div_ceil_eq\<close>, \<open>mul_div_half_up_eq\<close>,
  \<open>mul_div_floor_saturating_eq\<close>), and that rescaling rounds as documented.
\<close>

section \<open>Definitions\<close>

definition require_nonzero_divisor :: "int \<Rightarrow> unit res" where
  "require_nonzero_divisor d = assert_with_error (d \<noteq> 0) (Generic DivisionByZero)"

definition quotient_is_negative :: "int \<Rightarrow> int \<Rightarrow> int \<Rightarrow> bool" where
  "quotient_is_negative x y d =
     (if x = 0 \<or> y = 0 then False else ((x < 0) \<noteq> (y < 0)) \<noteq> (d < 0))"

definition div_floor_i128 :: "int \<Rightarrow> int \<Rightarrow> int option" where
  "div_floor_i128 p d =
     (case i128_checked_div p d of None \<Rightarrow> None
      | Some quot \<Rightarrow>
          if p smod d \<noteq> 0 \<and> (p < 0) \<noteq> (d < 0) then i128_checked_sub quot 1
          else Some quot)"

definition div_ceil_i128 :: "int \<Rightarrow> int \<Rightarrow> int option" where
  "div_ceil_i128 p d =
     (case i128_checked_div p d of None \<Rightarrow> None
      | Some quot \<Rightarrow>
          if p smod d \<noteq> 0 \<and> (p < 0) = (d < 0) then i128_checked_add quot 1
          else Some quot)"

definition rem_euclid :: "int \<Rightarrow> int \<Rightarrow> int" where
  "rem_euclid p d = p mod \<bar>d\<bar>"

definition div_floor_i256 :: "int \<Rightarrow> int \<Rightarrow> bool \<Rightarrow> int" where
  "div_floor_i256 p d nonneg =
     (if nonneg then p sdiv d
      else let quot = p sdiv d in
        if rem_euclid p d \<noteq> 0 \<and> (p < 0) \<noteq> (d < 0) then quot - 1 else quot)"

definition div_ceil_i256 :: "int \<Rightarrow> int \<Rightarrow> bool \<Rightarrow> int" where
  "div_ceil_i256 p d nonneg =
     (let quot = p sdiv d;
          remainder_is_nonzero = rem_euclid p d \<noteq> 0;
          round_up = (if nonneg then remainder_is_nonzero
                      else remainder_is_nonzero \<and> (p < 0) = (d < 0))
      in if round_up then quot + 1 else quot)"

definition quotient_is_nonnegative :: "int \<Rightarrow> int \<Rightarrow> int \<Rightarrow> bool" where
  "quotient_is_nonnegative x y d = (\<not> quotient_is_negative x y d)"

definition to_i128 :: "int \<Rightarrow> int res" where
  "to_i128 v = unwrap_or_panic (to_i128_opt v) (Generic MathOverflow)"

definition try_mul_div_half_up :: "int \<Rightarrow> int \<Rightarrow> int \<Rightarrow> int option" where
  "try_mul_div_half_up x y d =
     (if x < 0 \<or> y < 0 \<or> d \<le> 0 then None
      else let half = d sdiv 2 in
        case Option.bind (i128_checked_mul x y) (\<lambda>product. i128_checked_add product half) of
          Some biased \<Rightarrow> Some (biased sdiv d)
        | None \<Rightarrow> to_i128_opt ((x * y + half) sdiv d))"

definition mul_div_half_up :: "int \<Rightarrow> int \<Rightarrow> int \<Rightarrow> int res" where
  "mul_div_half_up x y d =
     rbind (require_nonzero_divisor d) (\<lambda>_.
     unwrap_or_panic (try_mul_div_half_up x y d) (Generic MathOverflow))"

definition mul_div_floor :: "int \<Rightarrow> int \<Rightarrow> int \<Rightarrow> int res" where
  "mul_div_floor x y d =
     rbind (require_nonzero_divisor d) (\<lambda>_.
     case Option.bind (i128_checked_mul x y) (\<lambda>product. div_floor_i128 product d) of
       Some quot \<Rightarrow> Inr quot
     | None \<Rightarrow> to_i128 (div_floor_i256 (x * y) d (quotient_is_nonnegative x y d)))"

definition mul_div_ceil :: "int \<Rightarrow> int \<Rightarrow> int \<Rightarrow> int res" where
  "mul_div_ceil x y d =
     rbind (require_nonzero_divisor d) (\<lambda>_.
     case Option.bind (i128_checked_mul x y) (\<lambda>product. div_ceil_i128 product d) of
       Some quot \<Rightarrow> Inr quot
     | None \<Rightarrow> to_i128 (div_ceil_i256 (x * y) d (quotient_is_nonnegative x y d)))"

definition mul_div_floor_saturating :: "int \<Rightarrow> int \<Rightarrow> int \<Rightarrow> int res" where
  "mul_div_floor_saturating x y d =
     rbind (require_nonzero_divisor d) (\<lambda>_.
     case Option.bind (i128_checked_mul x y) (\<lambda>product. div_floor_i128 product d) of
       Some quot \<Rightarrow> Inr quot
     | None \<Rightarrow>
         (case to_i128_opt (div_floor_i256 (x * y) d (quotient_is_nonnegative x y d)) of
            Some v \<Rightarrow> Inr v
          | None \<Rightarrow> Inr (if quotient_is_negative x y d then i128_min else i128_max)))"

definition abs_diff :: "nat \<Rightarrow> nat \<Rightarrow> nat" where
  "abs_diff a b = (if a < b then b - a else a - b)"

definition rescale :: "(int \<Rightarrow> int option \<Rightarrow> int res) \<Rightarrow> int \<Rightarrow> nat \<Rightarrow> nat \<Rightarrow> int res" where
  "rescale round_down a from_decimals to_decimals =
     (if from_decimals = to_decimals then Inr a
      else let factor = i128_checked_pow10 (abs_diff to_decimals from_decimals) in
        if to_decimals > from_decimals then
          unwrap_or_panic (Option.bind factor (\<lambda>f. i128_checked_mul a f)) (Generic MathOverflow)
        else round_down a factor)"

definition div_by_int_half_up :: "int \<Rightarrow> int \<Rightarrow> int res" where
  "div_by_int_half_up a b =
     rbind (require_nonzero_divisor b) (\<lambda>_.
     if b < 0 then Inl (Generic MathOverflow)
     else let quot = a sdiv b; remainder = a smod b; half = b sdiv 2 + b smod 2 in
       if remainder \<ge> half then native (quot + 1)
       else if remainder \<le> - half then native (quot - 1)
       else Inr quot)"

definition rescale_half_up :: "int \<Rightarrow> nat \<Rightarrow> nat \<Rightarrow> int res" where
  "rescale_half_up = rescale (\<lambda>a factor.
     case factor of None \<Rightarrow> Inr 0 | Some f \<Rightarrow> div_by_int_half_up a f)"

definition rescale_floor :: "int \<Rightarrow> nat \<Rightarrow> nat \<Rightarrow> int res" where
  "rescale_floor = rescale (\<lambda>a factor.
     case factor of None \<Rightarrow> Inr 0 | Some f \<Rightarrow> Inr (a sdiv f))"

definition rescale_ceil :: "int \<Rightarrow> nat \<Rightarrow> nat \<Rightarrow> int res" where
  "rescale_ceil = rescale (\<lambda>a factor.
     case factor of None \<Rightarrow> Inr (if a > 0 then 1 else 0)
     | Some f \<Rightarrow>
         let quot = a sdiv f in
           if a \<ge> 0 \<and> a smod f \<noteq> 0 then native (quot + 1) else Inr quot)"

section \<open>Both paths of a multiply-divide compute the rounded quotient\<close>

lemma rem_euclid_eq_0_iff: "rem_euclid p d = 0 \<longleftrightarrow> d dvd p"
  by (simp add: rem_euclid_def dvd_eq_mod_eq_0 [symmetric])

lemma div_floor_i128_Some:
  "div_floor_i128 p d = Some q \<Longrightarrow> d \<noteq> 0 \<and> q = p div d \<and> in_i128 q"
  by (auto simp: div_floor_i128_def i128_checked_div_def i128_checked_sub_def res_iff
      smod_eq_0_iff sdiv_floor_if split: option.splits if_splits)

lemma div_ceil_i128_Some:
  "div_ceil_i128 p d = Some q \<Longrightarrow> d \<noteq> 0 \<and> q = ceil_div p d \<and> in_i128 q"
  by (auto simp: div_ceil_i128_def i128_checked_div_def i128_checked_add_def res_iff
      smod_eq_0_iff sdiv_ceil_if split: option.splits if_splits)

lemma quotient_sign:
  assumes "d \<noteq> 0"
  shows "quotient_is_negative x y d \<longleftrightarrow> x * y \<noteq> 0 \<and> (x * y < 0) \<noteq> (d < 0)"
  using assms by (auto simp: quotient_is_negative_def mult_less_0_iff)

lemma floor_neg_iff: "d \<noteq> 0 \<Longrightarrow> p div d < 0 \<longleftrightarrow> p \<noteq> 0 \<and> (p < 0) \<noteq> (d < (0::int))"
  by (cases "0 < d") (auto simp: pos_imp_zdiv_neg_iff neg_imp_zdiv_neg_iff)

lemma div_floor_i256_eq:
  assumes "d \<noteq> 0"
  shows "div_floor_i256 (x * y) d (quotient_is_nonnegative x y d) = x * y div d"
  using sdiv_floor_if [OF assms, of "x * y"] quotient_sign [OF assms, of x y]
  by (auto simp: div_floor_i256_def quotient_is_nonnegative_def rem_euclid_eq_0_iff Let_def)

lemma div_ceil_i256_eq:
  assumes "d \<noteq> 0"
  shows "div_ceil_i256 (x * y) d (quotient_is_nonnegative x y d) = ceil_div (x * y) d"
  using sdiv_ceil_if [OF assms, of "x * y"] quotient_sign [OF assms, of x y]
  by (auto simp: div_ceil_i256_def quotient_is_nonnegative_def rem_euclid_eq_0_iff Let_def)

lemma bind_Some_cases:
  "(case Option.bind m f of Some q \<Rightarrow> g q | None \<Rightarrow> h) =
     (case m of None \<Rightarrow> h | Some p \<Rightarrow> (case f p of Some q \<Rightarrow> g q | None \<Rightarrow> h))"
  by (cases m) auto

lemma mul_div_floor_eq:
  "mul_div_floor x y d =
     (if d = 0 then Inl (Generic DivisionByZero)
      else if in_i128 (x * y div d) then Inr (x * y div d)
      else Inl (Generic MathOverflow))"
  by (auto simp: mul_div_floor_def require_nonzero_divisor_def bind_Some_cases i128_checked_mul_def
      to_i128_def to_i128_opt_def div_floor_i256_eq assert_with_error_def
      split: option.splits dest!: div_floor_i128_Some)

lemma mul_div_ceil_eq:
  "mul_div_ceil x y d =
     (if d = 0 then Inl (Generic DivisionByZero)
      else if in_i128 (ceil_div (x * y) d) then Inr (ceil_div (x * y) d)
      else Inl (Generic MathOverflow))"
  by (auto simp: mul_div_ceil_def require_nonzero_divisor_def bind_Some_cases i128_checked_mul_def
      to_i128_def to_i128_opt_def div_ceil_i256_eq assert_with_error_def
      split: option.splits dest!: div_ceil_i128_Some)

lemma mul_div_floor_saturating_eq:
  assumes "d \<noteq> 0"
  shows "mul_div_floor_saturating x y d = Inr (i128_saturate (x * y div d))"
proof -
  have "x * y div d < 0 \<longleftrightarrow> quotient_is_negative x y d"
    using floor_neg_iff [OF assms] quotient_sign [OF assms] by simp
  then have "\<not> in_i128 (x * y div d) \<Longrightarrow>
      (if quotient_is_negative x y d then i128_min else i128_max) = i128_saturate (x * y div d)"
    by (auto simp: in_i128_def i128_saturate_def i128_bounds)
  then show ?thesis
    using assms
    by (auto simp: mul_div_floor_saturating_def require_nonzero_divisor_def bind_Some_cases
        i128_checked_mul_def to_i128_opt_def div_floor_i256_eq saturate_id
        split: option.splits dest!: div_floor_i128_Some)
qed

lemma try_mul_div_half_up_eq:
  "try_mul_div_half_up x y d =
     (if x < 0 \<or> y < 0 \<or> d \<le> 0 then None else to_i128_opt (half_up_div (x * y) d))"
proof (cases "x < 0 \<or> y < 0 \<or> d \<le> 0")
  case False
  then have xy: "0 \<le> x * y" and d: "0 < d" by auto
  then have h: "(x * y + d sdiv 2) sdiv d = half_up_div (x * y) d"
    by (simp add: half_up_div_def sdiv_nonneg)
  have "in_i128 (x * y + d sdiv 2) \<Longrightarrow> in_i128 (half_up_div (x * y) d)"
  proof (rule in_i128_le)
    show "half_up_div (x * y) d \<le> x * y + d sdiv 2"
      using xy d by (simp add: half_up_div_def sdiv_nonneg)
         (metis add_nonneg_nonneg div_by_1 int_one_le_iff_zero_less less_imp_le
           pos_imp_zdiv_nonneg_iff zdiv_mono2 zero_less_numeral zero_less_one)
  qed (use xy d nonneg_quotients in auto)
  with False h show ?thesis
    by (auto simp: try_mul_div_half_up_def Let_def bind_Some_cases i128_checked_mul_def
        i128_checked_add_def to_i128_opt_def split: option.splits)
qed (simp add: try_mul_div_half_up_def)

lemma mul_div_half_up_eq:
  "mul_div_half_up x y d =
     (if d = 0 then Inl (Generic DivisionByZero)
      else if 0 \<le> x \<and> 0 \<le> y \<and> 0 < d \<and> in_i128 (half_up_div (x * y) d)
      then Inr (half_up_div (x * y) d)
      else Inl (Generic MathOverflow))"
  by (auto simp: mul_div_half_up_def require_nonzero_divisor_def try_mul_div_half_up_eq
      to_i128_opt_def assert_with_error_def)

section \<open>Success conditions\<close>

lemma mul_div_floor_Inr [res_iff]:
  "mul_div_floor x y d = Inr q \<longleftrightarrow> d \<noteq> 0 \<and> q = x * y div d \<and> in_i128 q"
  by (auto simp: mul_div_floor_eq)

lemma mul_div_ceil_Inr [res_iff]:
  "mul_div_ceil x y d = Inr q \<longleftrightarrow> d \<noteq> 0 \<and> q = ceil_div (x * y) d \<and> in_i128 q"
  by (auto simp: mul_div_ceil_eq)

lemma mul_div_half_up_Inr [res_iff]:
  "mul_div_half_up x y d = Inr q \<longleftrightarrow>
     0 \<le> x \<and> 0 \<le> y \<and> 0 < d \<and> q = half_up_div (x * y) d \<and> in_i128 q"
  by (auto simp: mul_div_half_up_eq)

lemma mul_div_floor_saturating_Inr [res_iff]:
  "mul_div_floor_saturating x y d = Inr q \<longleftrightarrow> d \<noteq> 0 \<and> q = i128_saturate (x * y div d)"
proof (cases "d = 0")
  case True
  then show ?thesis by (simp add: mul_div_floor_saturating_def require_nonzero_divisor_def)
qed (auto simp: mul_div_floor_saturating_eq)

section \<open>Division by a plain integer and rescaling\<close>

lemma half_parts: "(b::int) div 2 + b mod 2 = b - b div 2"
  by presburger

lemma div_by_int_half_up_nonneg:
  assumes "0 \<le> a" and "0 < b" and "in_i128 a"
  shows "div_by_int_half_up a b = Inr (half_up_div a b)"
proof -
  let ?r = "a mod b"
  have r: "0 \<le> ?r" "?r < b" using assms by auto
  have split: "half_up_div a b = a div b + (?r + b div 2) div b"
    unfolding half_up_div_def
    by (subst div_mult_mod_eq [of a b, symmetric], subst add.assoc, subst div_mult_self3)
       (use assms in auto)
  have bhalf: "0 \<le> b div 2" "b div 2 < b" using assms(2) by auto
  have up: "(?r + b div 2) div b = (if ?r \<ge> b - b div 2 then 1 else 0)"
  proof (cases "?r \<ge> b - b div 2")
    case True
    have "?r + b div 2 < 2 * b" using r bhalf by linarith
    then have "(?r + b div 2) div b = 1"
      using True assms(2) by (intro antisym) (simp_all add: floor_le_iff floor_ge_iff)
    with True show ?thesis by simp
  qed (use r bhalf in simp)
  have "half_up_div a b \<le> a \<or> b = 1"
  proof -
    have "half_up_div a b \<le> a" if "2 \<le> b"
    proof (cases "a = 0")
      case False
      then have "2 * a \<le> a * b" using that assms(1) by (simp add: mult.commute)
      then have "a + b div 2 < (a + 1) * b" unfolding distrib_right using bhalf assms(1) by linarith
      with assms(2) show ?thesis by (simp add: half_up_le_iff)
    qed (use assms in simp)
    with assms(2) show ?thesis by linarith
  qed
  then have "in_i128 (half_up_div a b)"
    using assms nonneg_quotients [of a b] in_i128_le [OF assms(3)]
    by (auto simp: half_up_div_def)
  with assms split up r show ?thesis
    by (auto simp: div_by_int_half_up_def require_nonzero_divisor_def half_parts Let_def
        sdiv_nonneg smod_nonneg native_def)
qed

lemma pow10_pos [simp]: "0 < (10::int) ^ n" "(0::int) \<le> 10 ^ n" "(10::int) ^ n \<noteq> 0"
  by simp_all

lemma pow10_fits: "n \<le> 38 \<Longrightarrow> in_i128 (10 ^ n)"
proof -
  assume "n \<le> 38"
  then have "(10::int) ^ n \<le> 10 ^ 38" by (intro power_increasing) auto
  moreover have "(10::int) ^ 38 \<le> i128_max" and "i128_min \<le> 0" by (simp_all add: i128_bounds)
  moreover have "0 < (10::int) ^ n" by simp
  ultimately show ?thesis unfolding in_i128_def by linarith
qed

lemma pow10_overflow: "\<not> in_i128 (10 ^ n) \<Longrightarrow> in_i128 a \<Longrightarrow> 2 * a < 10 ^ n"
proof -
  assume no: "\<not> in_i128 (10 ^ n)" and a: "in_i128 a"
  from no have "39 \<le> n" using pow10_fits [of n] by linarith
  then have "(10::int) ^ 39 \<le> 10 ^ n" by (intro power_increasing) auto
  with a show ?thesis by (simp add: in_i128_iff)
qed

lemma rescale_up:
  assumes "f \<le> t" and "t - f \<le> 38" and "in_i128 a"
  shows "rescale rd a f t =
    (if in_i128 (a * 10 ^ (t - f)) then Inr (a * 10 ^ (t - f)) else Inl (Generic MathOverflow))"
  using assms pow10_fits [of "t - f"]
  by (auto simp: rescale_def abs_diff_def i128_checked_pow10_def to_i128_opt_def
      i128_checked_mul_def Let_def)

lemma rescale_down:
  assumes "t < f"
  shows "rescale rd a f t = rd a (to_i128_opt (10 ^ (f - t)))"
  using assms by (simp add: rescale_def abs_diff_def i128_checked_pow10_def Let_def)

lemma rescale_floor_down:
  assumes "t \<le> f" and "0 \<le> a" and "in_i128 a"
  shows "rescale_floor a f t = Inr (a div 10 ^ (f - t))"
proof (cases "t = f")
  case False
  have "\<not> in_i128 (10 ^ (f - t)) \<Longrightarrow> a div 10 ^ (f - t) = 0"
    using pow10_overflow [OF _ assms(3), of "f - t"] assms(2) by simp
  with assms False show ?thesis
    by (auto simp: rescale_floor_def rescale_down to_i128_opt_def sdiv_nonneg)
qed (use assms in \<open>simp add: rescale_floor_def rescale_def\<close>)

lemma rescale_ceil_down:
  assumes "t \<le> f" and "0 \<le> a" and "in_i128 a"
  shows "rescale_ceil a f t = Inr (ceil_div a (10 ^ (f - t)))"
proof (cases "t = f")
  case False
  let ?p = "(10::int) ^ (f - t)"
  have big: "ceil_div a ?p = (if a > 0 then 1 else 0)" if "\<not> in_i128 ?p"
    using pow10_overflow [OF that assms(3)] assms(2)
    by (auto simp: ceil_eq_if dvd_imp_le zdvd_not_zless)
  have fit: "in_i128 (a div ?p + 1)" if "a mod ?p \<noteq> 0"
  proof (rule in_i128_le [OF assms(3)])
    have "(10::int) ^ 1 \<le> ?p" using False assms(1) by (intro power_increasing) auto
    then have "10 * (a div ?p) \<le> ?p * (a div ?p)"
      using assms(2) by (intro mult_right_mono) (auto simp: pos_imp_zdiv_nonneg_iff)
    moreover have "0 \<le> a mod ?p" by simp
    ultimately have "10 * (a div ?p) + 1 \<le> a"
      using that mult_div_mod_eq [of ?p a] by linarith
    moreover have "0 \<le> a div ?p" using assms(2) by (simp add: pos_imp_zdiv_nonneg_iff)
    ultimately show "a div ?p + 1 \<le> a" using that by linarith
  qed (use assms in \<open>simp add: pos_imp_zdiv_nonneg_iff\<close>)
  from assms False big fit show ?thesis
    by (auto simp: rescale_ceil_def rescale_down to_i128_opt_def sdiv_nonneg smod_nonneg
        ceil_eq_if dvd_eq_mod_eq_0 native_def Let_def)
qed (use assms in \<open>simp add: rescale_ceil_def rescale_def ceil_div_def\<close>)

lemma rescale_half_up_down:
  assumes "t \<le> f" and "0 \<le> a" and "in_i128 a"
  shows "rescale_half_up a f t = Inr (half_up_div a (10 ^ (f - t)))"
proof (cases "t = f")
  case False
  let ?p = "(10::int) ^ (f - t)"
  have "half_up_div a ?p = 0" if "\<not> in_i128 ?p"
  proof (rule antisym)
    have "a + ?p div 2 < ?p" using pow10_overflow [OF that assms(3)] by linarith
    then show "half_up_div a ?p \<le> 0" by (simp add: half_up_le_iff)
  qed (use assms in \<open>simp add: nonneg_quotients\<close>)
  with assms False show ?thesis
    by (auto simp: rescale_half_up_def rescale_down to_i128_opt_def div_by_int_half_up_nonneg)
qed (use assms in \<open>simp add: rescale_half_up_def rescale_def half_up_div_def\<close>)

end
