(* ===== verification/Constants.thy ===== *)
theory Constants
  imports Prelude
begin

text \<open>
  The protocol constants of \<^verbatim>\<open>src/common/src/constants/shared.rs\<close> and
  \<^verbatim>\<open>src/common/src/constants/pool.rs\<close> that the model uses, with the order facts between them. The
  storage-TTL constants are not modelled: an archived entry is not a logical state of the protocol.
\<close>

definition RAY :: int where
  "RAY = 1000000000000000000000000000"

definition WAD :: int where
  "WAD = 1000000000000000000"

definition BPS :: int where
  "BPS = 10000"

definition RAY_DECIMALS :: nat where
  "RAY_DECIMALS = 27"

definition WAD_DECIMALS :: nat where
  "WAD_DECIMALS = 18"

definition MIN_ASSET_DECIMALS :: nat where
  "MIN_ASSET_DECIMALS = 0"

definition MIN_BORROWABLE_ASSET_DECIMALS :: nat where
  "MIN_BORROWABLE_ASSET_DECIMALS = 3"

definition MIN_WHOLE_UNIT_COLLATERAL :: int where
  "MIN_WHOLE_UNIT_COLLATERAL = 2"

definition MAX_ASSET_DECIMALS :: nat where
  "MAX_ASSET_DECIMALS = 18"

definition MILLISECONDS_PER_YEAR :: nat where
  "MILLISECONDS_PER_YEAR = 31556926000"

definition MAX_REASONABLE_PRICE_WAD :: int where
  "MAX_REASONABLE_PRICE_WAD = 1000000000 * WAD"

definition MAX_LIQUIDATION_TARGET_HF_WAD :: int where
  "MAX_LIQUIDATION_TARGET_HF_WAD = 10 * WAD"

definition DEFAULT_MIN_BORROW_COLLATERAL_USD_WAD :: int where
  "DEFAULT_MIN_BORROW_COLLATERAL_USD_WAD = 5 * WAD"

definition MAX_FLASHLOAN_FEE_BPS :: int where
  "MAX_FLASHLOAN_FEE_BPS = 500"

definition POSITION_LIMIT_MAX :: nat where
  "POSITION_LIMIT_MAX = 5"

definition MIN_TOLERANCE :: nat where
  "MIN_TOLERANCE = 150"

definition MIN_SANITY_BAND_BPS :: int where
  "MIN_SANITY_BAND_BPS = 50"

definition MAX_TOLERANCE :: nat where
  "MAX_TOLERANCE = 2500"

definition MS_PER_SECOND :: nat where
  "MS_PER_SECOND = 1000"

definition SUPPLY_INDEX_FLOOR_RAW :: int where
  "SUPPLY_INDEX_FLOOR_RAW = RAY div 1000"

definition MAX_BORROW_RATE_RAY :: int where
  "MAX_BORROW_RATE_RAY = 2 * RAY"

definition LIQUIDATION_BUFFER_BPS :: int where
  "LIQUIDATION_BUFFER_BPS = 200"

definition MAX_BORROW_INDEX_RAY :: int where
  "MAX_BORROW_INDEX_RAY = 1000000000000000000000000000000000000"

definition MAX_SUPPLY_INDEX_RAY :: int where
  "MAX_SUPPLY_INDEX_RAY = MAX_BORROW_INDEX_RAY"

lemmas constant_defs = RAY_def WAD_def BPS_def RAY_DECIMALS_def WAD_DECIMALS_def
  MIN_BORROWABLE_ASSET_DECIMALS_def MIN_WHOLE_UNIT_COLLATERAL_def MAX_ASSET_DECIMALS_def
  MILLISECONDS_PER_YEAR_def MAX_REASONABLE_PRICE_WAD_def MAX_LIQUIDATION_TARGET_HF_WAD_def
  MAX_FLASHLOAN_FEE_BPS_def MIN_TOLERANCE_def MIN_SANITY_BAND_BPS_def MAX_TOLERANCE_def
  MS_PER_SECOND_def SUPPLY_INDEX_FLOOR_RAW_def MAX_BORROW_RATE_RAY_def
  LIQUIDATION_BUFFER_BPS_def MAX_BORROW_INDEX_RAY_def MAX_SUPPLY_INDEX_RAY_def

lemma scale_pos [simp]:
  "0 < RAY" "0 < WAD" "0 < BPS" "0 \<le> RAY" "0 \<le> WAD" "0 \<le> BPS" "RAY \<noteq> 0" "WAD \<noteq> 0" "BPS \<noteq> 0"
  by (simp_all add: RAY_def WAD_def BPS_def)

lemma in_i128_scales [simp]: "in_i128 RAY" "in_i128 WAD" "in_i128 BPS"
  by (simp_all add: in_i128_iff RAY_def WAD_def BPS_def)

lemma index_bounds_pos [simp]:
  "0 < SUPPLY_INDEX_FLOOR_RAW" "SUPPLY_INDEX_FLOOR_RAW \<le> RAY"
  "RAY \<le> MAX_BORROW_INDEX_RAY" "RAY \<le> MAX_SUPPLY_INDEX_RAY" "0 < MAX_SUPPLY_INDEX_RAY"
  "SUPPLY_INDEX_FLOOR_RAW \<le> MAX_SUPPLY_INDEX_RAY"
  "in_i128 MAX_BORROW_INDEX_RAY" "in_i128 MAX_SUPPLY_INDEX_RAY" "in_i128 SUPPLY_INDEX_FLOOR_RAW"
  by (simp_all add: constant_defs in_i128_iff)

lemma RAY_even: "RAY div 2 * 2 = RAY"
  by (simp add: RAY_def)

end
