(* ===== verification/Fp.thy ===== *)
theory Fp
  imports Fp_Core Constants
begin

text \<open>
  \<^verbatim>\<open>src/common/src/math/fp.rs\<close>: the newtypes \<^verbatim>\<open>Ray\<close>, \<^verbatim>\<open>Wad\<close> and \<^verbatim>\<open>Bps\<close>. A newtype is erased to
  its raw \<^verbatim>\<open>i128\<close> value (\<^verbatim>\<open>from\<close> and \<^verbatim>\<open>raw\<close> are the identity); a method \<^verbatim>\<open>m\<close> of \<^verbatim>\<open>Ray\<close> is
  \<open>ray_m\<close>, and likewise for the other two. The lemmas give, for each method, the exact condition
  under which it returns and the rounded value it returns.
\<close>

type_synonym ray = int
type_synonym wad = int
type_synonym bps = int

section \<open>Definitions\<close>

definition checked_add_raw :: "int \<Rightarrow> int \<Rightarrow> int res" where
  "checked_add_raw a b = unwrap_or_panic (i128_checked_add a b) (Generic MathOverflow)"

definition checked_sub_nonneg :: "int \<Rightarrow> int \<Rightarrow> int res" where
  "checked_sub_nonneg a b =
     (if a < 0 \<or> b < 0 \<or> b > a then Inl (Generic MathOverflow) else native (a - b))"

definition ray_mul :: "ray \<Rightarrow> ray \<Rightarrow> ray res" where
  "ray_mul a b = mul_div_half_up a b RAY"

definition ray_div :: "ray \<Rightarrow> ray \<Rightarrow> ray res" where
  "ray_div a b = mul_div_half_up a RAY b"

definition ray_div_floor :: "ray \<Rightarrow> ray \<Rightarrow> ray res" where
  "ray_div_floor a b = mul_div_floor a RAY b"

definition ray_div_ceil :: "ray \<Rightarrow> ray \<Rightarrow> ray res" where
  "ray_div_ceil a b = mul_div_ceil a RAY b"

definition ray_div_by_int :: "ray \<Rightarrow> int \<Rightarrow> ray res" where
  "ray_div_by_int a n = div_by_int_half_up a n"

definition ray_mul_floor :: "ray \<Rightarrow> ray \<Rightarrow> ray res" where
  "ray_mul_floor a b = mul_div_floor a b RAY"

definition ray_mul_ceil :: "ray \<Rightarrow> ray \<Rightarrow> ray res" where
  "ray_mul_ceil a b = mul_div_ceil a b RAY"

definition ray_mul_ratio_ceil :: "ray \<Rightarrow> int \<Rightarrow> int \<Rightarrow> ray res" where
  "ray_mul_ratio_ceil a numerator denominator = mul_div_ceil a numerator denominator"

definition ray_to_wad :: "ray \<Rightarrow> wad res" where
  "ray_to_wad a = rescale_half_up a RAY_DECIMALS WAD_DECIMALS"

definition ray_to_wad_floor :: "ray \<Rightarrow> wad res" where
  "ray_to_wad_floor a = rescale_floor a RAY_DECIMALS WAD_DECIMALS"

definition ray_to_wad_ceil :: "ray \<Rightarrow> wad res" where
  "ray_to_wad_ceil a = rescale_ceil a RAY_DECIMALS WAD_DECIMALS"

definition ray_to_asset :: "ray \<Rightarrow> nat \<Rightarrow> int res" where
  "ray_to_asset a asset_decimals = rescale_half_up a RAY_DECIMALS asset_decimals"

definition ray_to_asset_floor :: "ray \<Rightarrow> nat \<Rightarrow> int res" where
  "ray_to_asset_floor a asset_decimals = rescale_floor a RAY_DECIMALS asset_decimals"

definition ray_to_asset_ceil :: "ray \<Rightarrow> nat \<Rightarrow> int res" where
  "ray_to_asset_ceil a asset_decimals = rescale_ceil a RAY_DECIMALS asset_decimals"

definition ray_from_fraction :: "int \<Rightarrow> int \<Rightarrow> ray res" where
  "ray_from_fraction numerator denominator = mul_div_half_up numerator RAY denominator"

definition ray_from_asset :: "int \<Rightarrow> nat \<Rightarrow> ray res" where
  "ray_from_asset amount asset_decimals = rescale_half_up amount asset_decimals RAY_DECIMALS"

definition ray_checked_sub :: "ray \<Rightarrow> ray \<Rightarrow> ray res" where
  "ray_checked_sub a b = checked_sub_nonneg a b"

definition ray_checked_add :: "ray \<Rightarrow> ray \<Rightarrow> ray res" where
  "ray_checked_add a b = checked_add_raw a b"

definition wad_mul :: "wad \<Rightarrow> wad \<Rightarrow> wad res" where
  "wad_mul a b = mul_div_half_up a b WAD"

definition wad_try_mul :: "wad \<Rightarrow> wad \<Rightarrow> wad option" where
  "wad_try_mul a b = try_mul_div_half_up a b WAD"

definition wad_div :: "wad \<Rightarrow> wad \<Rightarrow> wad res" where
  "wad_div a b = mul_div_half_up a WAD b"

definition wad_div_floor :: "wad \<Rightarrow> wad \<Rightarrow> wad res" where
  "wad_div_floor a b = mul_div_floor a WAD b"

definition wad_div_floor_saturating :: "wad \<Rightarrow> wad \<Rightarrow> wad res" where
  "wad_div_floor_saturating a b = mul_div_floor_saturating a WAD b"

definition wad_mul_floor :: "wad \<Rightarrow> wad \<Rightarrow> wad res" where
  "wad_mul_floor a b = mul_div_floor a b WAD"

definition wad_mul_ceil :: "wad \<Rightarrow> wad \<Rightarrow> wad res" where
  "wad_mul_ceil a b = mul_div_ceil a b WAD"

definition wad_from_token :: "int \<Rightarrow> nat \<Rightarrow> wad res" where
  "wad_from_token amount decimals = rescale_half_up amount decimals WAD_DECIMALS"

definition wad_to_token :: "wad \<Rightarrow> nat \<Rightarrow> int res" where
  "wad_to_token a decimals = rescale_half_up a WAD_DECIMALS decimals"

definition wad_to_token_floor :: "wad \<Rightarrow> nat \<Rightarrow> int res" where
  "wad_to_token_floor a decimals = rescale_floor a WAD_DECIMALS decimals"

definition wad_to_ray :: "wad \<Rightarrow> ray res" where
  "wad_to_ray a = rescale_half_up a WAD_DECIMALS RAY_DECIMALS"

definition wad_checked_add :: "wad \<Rightarrow> wad \<Rightarrow> wad res" where
  "wad_checked_add a b = checked_add_raw a b"

definition wad_checked_sub :: "wad \<Rightarrow> wad \<Rightarrow> wad res" where
  "wad_checked_sub a b = checked_sub_nonneg a b"

definition bps_to_wad :: "bps \<Rightarrow> wad res" where
  "bps_to_wad a = mul_div_half_up a WAD BPS"

definition bps_apply_to :: "bps \<Rightarrow> int \<Rightarrow> int res" where
  "bps_apply_to a amount = mul_div_half_up amount a BPS"

definition bps_flash_loan_fee_on :: "bps \<Rightarrow> int \<Rightarrow> int res" where
  "bps_flash_loan_fee_on a amount =
     rbind (bps_apply_to a amount) (\<lambda>fee_amount.
     Inr (if a > 0 \<and> fee_amount = 0 then 1 else fee_amount))"

definition bps_apply_to_wad :: "bps \<Rightarrow> wad \<Rightarrow> wad res" where
  "bps_apply_to_wad a v = rbind (bps_to_wad a) (\<lambda>ratio. wad_mul v ratio)"

definition bps_apply_to_wad_floor :: "bps \<Rightarrow> wad \<Rightarrow> wad res" where
  "bps_apply_to_wad_floor a v = rbind (bps_to_wad a) (\<lambda>ratio. wad_mul_floor v ratio)"

definition bps_apply_to_ray :: "bps \<Rightarrow> ray \<Rightarrow> ray res" where
  "bps_apply_to_ray a v = mul_div_half_up v a BPS"

definition bps_checked_add :: "bps \<Rightarrow> bps \<Rightarrow> bps res" where
  "bps_checked_add a b = checked_add_raw a b"

definition bps_checked_sub :: "bps \<Rightarrow> bps \<Rightarrow> bps res" where
  "bps_checked_sub a b = checked_sub_nonneg a b"

section \<open>Success conditions and values\<close>

lemma checked_add_raw_Inr [res_iff]: "checked_add_raw a b = Inr r \<longleftrightarrow> r = a + b \<and> in_i128 r"
  by (auto simp: checked_add_raw_def i128_checked_add_def res_iff)

lemma checked_sub_nonneg_Inr [res_iff]:
  "checked_sub_nonneg a b = Inr r \<longleftrightarrow> 0 \<le> b \<and> b \<le> a \<and> r = a - b \<and> in_i128 r"
  by (auto simp: checked_sub_nonneg_def res_iff)

lemma ray_Inr [res_iff]:
  "ray_mul a b = Inr r \<longleftrightarrow> 0 \<le> a \<and> 0 \<le> b \<and> r = half_up_div (a * b) RAY \<and> in_i128 r"
  "ray_div a b = Inr r \<longleftrightarrow> 0 \<le> a \<and> 0 < b \<and> r = half_up_div (a * RAY) b \<and> in_i128 r"
  "ray_div_floor a b = Inr r \<longleftrightarrow> b \<noteq> 0 \<and> r = a * RAY div b \<and> in_i128 r"
  "ray_div_ceil a b = Inr r \<longleftrightarrow> b \<noteq> 0 \<and> r = ceil_div (a * RAY) b \<and> in_i128 r"
  "ray_mul_floor a b = Inr r \<longleftrightarrow> r = a * b div RAY \<and> in_i128 r"
  "ray_mul_ceil a b = Inr r \<longleftrightarrow> r = ceil_div (a * b) RAY \<and> in_i128 r"
  "ray_mul_ratio_ceil a n d = Inr r \<longleftrightarrow> d \<noteq> 0 \<and> r = ceil_div (a * n) d \<and> in_i128 r"
  "ray_from_fraction n d = Inr r \<longleftrightarrow> 0 \<le> n \<and> 0 < d \<and> r = half_up_div (n * RAY) d \<and> in_i128 r"
  "ray_checked_add a b = Inr r \<longleftrightarrow> r = a + b \<and> in_i128 r"
  "ray_checked_sub a b = Inr r \<longleftrightarrow> 0 \<le> b \<and> b \<le> a \<and> r = a - b \<and> in_i128 r"
  by (auto simp: ray_mul_def ray_div_def ray_div_floor_def ray_div_ceil_def ray_mul_floor_def
      ray_mul_ceil_def ray_mul_ratio_ceil_def ray_from_fraction_def ray_checked_add_def
      ray_checked_sub_def res_iff)

lemma wad_Inr [res_iff]:
  "wad_mul a b = Inr r \<longleftrightarrow> 0 \<le> a \<and> 0 \<le> b \<and> r = half_up_div (a * b) WAD \<and> in_i128 r"
  "wad_div a b = Inr r \<longleftrightarrow> 0 \<le> a \<and> 0 < b \<and> r = half_up_div (a * WAD) b \<and> in_i128 r"
  "wad_div_floor a b = Inr r \<longleftrightarrow> b \<noteq> 0 \<and> r = a * WAD div b \<and> in_i128 r"
  "wad_mul_floor a b = Inr r \<longleftrightarrow> r = a * b div WAD \<and> in_i128 r"
  "wad_mul_ceil a b = Inr r \<longleftrightarrow> r = ceil_div (a * b) WAD \<and> in_i128 r"
  "wad_checked_add a b = Inr r \<longleftrightarrow> r = a + b \<and> in_i128 r"
  "wad_checked_sub a b = Inr r \<longleftrightarrow> 0 \<le> b \<and> b \<le> a \<and> r = a - b \<and> in_i128 r"
  by (auto simp: wad_mul_def wad_div_def wad_div_floor_def wad_mul_floor_def wad_mul_ceil_def
      wad_checked_add_def wad_checked_sub_def res_iff)

lemma bps_Inr [res_iff]:
  "bps_to_wad a = Inr r \<longleftrightarrow> 0 \<le> a \<and> r = half_up_div (a * WAD) BPS \<and> in_i128 r"
  "bps_apply_to a v = Inr r \<longleftrightarrow> 0 \<le> v \<and> 0 \<le> a \<and> r = half_up_div (v * a) BPS \<and> in_i128 r"
  "bps_apply_to_ray a v = Inr r \<longleftrightarrow> 0 \<le> v \<and> 0 \<le> a \<and> r = half_up_div (v * a) BPS \<and> in_i128 r"
  "bps_checked_add a b = Inr r \<longleftrightarrow> r = a + b \<and> in_i128 r"
  "bps_checked_sub a b = Inr r \<longleftrightarrow> 0 \<le> b \<and> b \<le> a \<and> r = a - b \<and> in_i128 r"
  by (auto simp: bps_to_wad_def bps_apply_to_def bps_apply_to_ray_def bps_checked_add_def
      bps_checked_sub_def res_iff)

lemma bps_to_wad_eq: "0 \<le> a \<Longrightarrow> in_i128 (a * 100000000000000) \<Longrightarrow> bps_to_wad a = Inr (a * 100000000000000)"
proof -
  assume a: "0 \<le> a" "in_i128 (a * 100000000000000)"
  have "half_up_div (a * WAD) BPS = a * 100000000000000"
    using exact_quotients(2) [of BPS "a * 100000000000000"] by (simp add: WAD_def BPS_def mult.commute)
  with a show ?thesis by (simp add: res_iff)
qed

abbreviation asset_unit :: "nat \<Rightarrow> int" where
  "asset_unit decimals \<equiv> 10 ^ (RAY_DECIMALS - decimals)"

lemma asset_unit_pos [simp]: "0 < asset_unit dec"
  by simp

lemma ray_from_asset_Inr:
  assumes "dec \<le> WAD_DECIMALS"
  shows "ray_from_asset a dec = Inr r \<longleftrightarrow> r = a * asset_unit dec \<and> in_i128 r"
proof -
  have "dec < RAY_DECIMALS" using assms by (simp add: WAD_DECIMALS_def RAY_DECIMALS_def)
  moreover have "in_i128 (asset_unit dec)" by (intro pow10_fits) (simp add: RAY_DECIMALS_def)
  ultimately show ?thesis
    by (auto simp: ray_from_asset_def rescale_half_up_def rescale_def abs_diff_def
        i128_checked_pow10_def i128_checked_mul_def to_i128_opt_def Let_def)
qed

lemma ray_to_asset_eqs:
  assumes "dec \<le> WAD_DECIMALS" and "0 \<le> v" and "in_i128 v"
  shows "ray_to_asset v dec = Inr (half_up_div v (asset_unit dec))"
    and "ray_to_asset_floor v dec = Inr (v div asset_unit dec)"
    and "ray_to_asset_ceil v dec = Inr (ceil_div v (asset_unit dec))"
proof -
  have "dec \<le> RAY_DECIMALS" using assms by (simp add: WAD_DECIMALS_def RAY_DECIMALS_def)
  with assms show "ray_to_asset v dec = Inr (half_up_div v (asset_unit dec))"
    and "ray_to_asset_floor v dec = Inr (v div asset_unit dec)"
    and "ray_to_asset_ceil v dec = Inr (ceil_div v (asset_unit dec))"
    by (simp_all add: ray_to_asset_def ray_to_asset_floor_def ray_to_asset_ceil_def
        rescale_half_up_down rescale_floor_down rescale_ceil_down)
qed

lemma ray_to_wad_eqs:
  assumes "0 \<le> v" and "in_i128 v"
  shows "ray_to_wad v = Inr (half_up_div v 1000000000)"
    and "ray_to_wad_floor v = Inr (v div 1000000000)"
    and "ray_to_wad_ceil v = Inr (ceil_div v 1000000000)"
  using assms
  by (simp_all add: ray_to_wad_def ray_to_wad_floor_def ray_to_wad_ceil_def RAY_DECIMALS_def
      WAD_DECIMALS_def rescale_half_up_down rescale_floor_down rescale_ceil_down)

lemma wad_to_ray_Inr: "wad_to_ray a = Inr r \<longleftrightarrow> r = a * 1000000000 \<and> in_i128 r"
  by (auto simp: wad_to_ray_def rescale_half_up_def rescale_def abs_diff_def RAY_DECIMALS_def
      WAD_DECIMALS_def i128_checked_pow10_def i128_checked_mul_def to_i128_opt_def Let_def in_i128_iff)

section \<open>Flash-loan fee\<close>

lemma bps_flash_loan_fee_on_Inr:
  "bps_flash_loan_fee_on a v = Inr r \<longleftrightarrow>
     0 \<le> v \<and> 0 \<le> a \<and> in_i128 (half_up_div (v * a) BPS) \<and>
     r = (if a > 0 \<and> half_up_div (v * a) BPS = 0 then 1 else half_up_div (v * a) BPS)"
  by (auto simp: bps_flash_loan_fee_on_def res_iff)

lemma flash_loan_fee_nonneg:
  assumes "bps_flash_loan_fee_on a v = Inr r"
  shows "0 \<le> r" and "0 < a \<Longrightarrow> 0 < r"
  using assms nonneg_quotients(3) [of "v * a" BPS]
  by (auto simp: bps_flash_loan_fee_on_Inr split: if_splits)

end
