(* ===== verification/Pool_Types.thy ===== *)
theory Pool_Types
  imports Fp
begin

text \<open>
  \<^verbatim>\<open>src/common/src/types/pool.rs\<close> and the parts of \<^verbatim>\<open>src/common/src/types/shared.rs\<close> the pool
  uses. A struct is a record whose selectors carry a short prefix (two structs of the source may
  share a field name). \<^verbatim>\<open>MarketParamsRaw\<close> and \<^verbatim>\<open>MarketParams\<close> differ in the type of
  \<^verbatim>\<open>reserve_factor\<close>, so both are modelled; the other raw/typed pairs (\<^verbatim>\<open>PoolStateRaw\<close>/\<^verbatim>\<open>PoolState\<close>,
  \<^verbatim>\<open>MarketIndexRaw\<close>/\<^verbatim>\<open>MarketIndex\<close>) coincide once the newtypes are erased and are one record. An
  \<^verbatim>\<open>Address\<close> is opaque to the code, which only compares addresses: it is a number here.
\<close>

type_synonym address = nat

record hub_asset_key =
  hub_id :: nat
  asset :: address

record market_params_raw =
  mpr_max_borrow_rate :: int
  mpr_base_borrow_rate :: int
  mpr_slope1 :: int
  mpr_slope2 :: int
  mpr_slope3 :: int
  mpr_mid_utilization :: int
  mpr_optimal_utilization :: int
  mpr_max_utilization :: int
  mpr_reserve_factor :: nat
  mpr_is_flashloanable :: bool
  mpr_flashloan_fee :: nat
  mpr_asset_id :: address
  mpr_asset_decimals :: nat

record market_params =
  max_borrow_rate :: ray
  base_borrow_rate :: ray
  slope1 :: ray
  slope2 :: ray
  slope3 :: ray
  mid_utilization :: ray
  optimal_utilization :: ray
  max_utilization :: ray
  reserve_factor :: bps
  is_flashloanable :: bool
  flashloan_fee :: nat
  asset_id :: address
  asset_decimals :: nat

record interest_rate_model =
  irm_max_borrow_rate :: int
  irm_base_borrow_rate :: int
  irm_slope1 :: int
  irm_slope2 :: int
  irm_slope3 :: int
  irm_mid_utilization :: int
  irm_optimal_utilization :: int
  irm_max_utilization :: int
  irm_reserve_factor :: nat
  irm_is_flashloanable :: bool
  irm_flashloan_fee :: nat

definition rate_model_view :: "market_params_raw \<Rightarrow> interest_rate_model" where
  "rate_model_view p =
     \<lparr>irm_max_borrow_rate = mpr_max_borrow_rate p,
      irm_base_borrow_rate = mpr_base_borrow_rate p,
      irm_slope1 = mpr_slope1 p,
      irm_slope2 = mpr_slope2 p,
      irm_slope3 = mpr_slope3 p,
      irm_mid_utilization = mpr_mid_utilization p,
      irm_optimal_utilization = mpr_optimal_utilization p,
      irm_max_utilization = mpr_max_utilization p,
      irm_reserve_factor = mpr_reserve_factor p,
      irm_is_flashloanable = mpr_is_flashloanable p,
      irm_flashloan_fee = mpr_flashloan_fee p\<rparr>"

definition interest_rate_model_verify :: "interest_rate_model \<Rightarrow> unit res" where
  "interest_rate_model_verify m =
     rbind (assert_with_error (irm_base_borrow_rate m \<ge> 0) (Collateral BaseRateNegative)) (\<lambda>_.
     rbind (if irm_slope1 m < irm_base_borrow_rate m \<or> irm_slope2 m < irm_slope1 m
              \<or> irm_slope3 m < irm_slope2 m \<or> irm_max_borrow_rate m < irm_slope3 m
            then Inl (Collateral SlopeNonMonotonic) else Inr ()) (\<lambda>_.
     rbind (assert_with_error (irm_max_borrow_rate m > irm_base_borrow_rate m)
              (Collateral MaxRateBelowBase)) (\<lambda>_.
     rbind (assert_with_error (irm_max_borrow_rate m \<le> MAX_BORROW_RATE_RAY)
              (Collateral MaxBorrowRateTooHigh)) (\<lambda>_.
     rbind (assert_with_error (irm_mid_utilization m > 0) (Collateral InvalidUtilRange)) (\<lambda>_.
     rbind (assert_with_error (irm_optimal_utilization m > irm_mid_utilization m)
              (Collateral InvalidUtilRange)) (\<lambda>_.
     rbind (assert_with_error (irm_optimal_utilization m < RAY) (Collateral OptUtilTooHigh)) (\<lambda>_.
     rbind (if irm_max_utilization m < irm_optimal_utilization m \<or> irm_max_utilization m > RAY
            then Inl (Collateral InvalidUtilRange) else Inr ()) (\<lambda>_.
     rbind (assert_with_error (int (irm_reserve_factor m) < BPS)
              (Collateral InvalidReserveFactor)) (\<lambda>_.
     assert_with_error (int (irm_flashloan_fee m) \<le> MAX_FLASHLOAN_FEE_BPS)
       (Collateral InvalidBorrowParams))))))))))"

definition market_params_raw_verify :: "market_params_raw \<Rightarrow> unit res" where
  "market_params_raw_verify p =
     rbind (assert_with_error (mpr_asset_decimals p \<le> WAD_DECIMALS)
              (Collateral AssetDecimalsTooHigh)) (\<lambda>_.
     rbind (assert_with_error
              (\<not> mpr_is_flashloanable p \<or> mpr_asset_decimals p \<ge> MIN_BORROWABLE_ASSET_DECIMALS)
              (Collateral InvalidBorrowParams)) (\<lambda>_.
     interest_rate_model_verify (rate_model_view p)))"

definition market_params_of_raw :: "market_params_raw \<Rightarrow> market_params" where
  "market_params_of_raw r =
     \<lparr>max_borrow_rate = mpr_max_borrow_rate r,
      base_borrow_rate = mpr_base_borrow_rate r,
      slope1 = mpr_slope1 r,
      slope2 = mpr_slope2 r,
      slope3 = mpr_slope3 r,
      mid_utilization = mpr_mid_utilization r,
      optimal_utilization = mpr_optimal_utilization r,
      max_utilization = mpr_max_utilization r,
      reserve_factor = int (mpr_reserve_factor r),
      is_flashloanable = mpr_is_flashloanable r,
      flashloan_fee = mpr_flashloan_fee r,
      asset_id = mpr_asset_id r,
      asset_decimals = mpr_asset_decimals r\<rparr>"

text \<open>\<open>t.reserve_factor.raw() as u32\<close> keeps the low 32 bits of the \<^verbatim>\<open>i128\<close>.\<close>

definition market_params_to_raw :: "market_params \<Rightarrow> market_params_raw" where
  "market_params_to_raw t =
     \<lparr>mpr_max_borrow_rate = max_borrow_rate t,
      mpr_base_borrow_rate = base_borrow_rate t,
      mpr_slope1 = slope1 t,
      mpr_slope2 = slope2 t,
      mpr_slope3 = slope3 t,
      mpr_mid_utilization = mid_utilization t,
      mpr_optimal_utilization = optimal_utilization t,
      mpr_max_utilization = max_utilization t,
      mpr_reserve_factor = nat (reserve_factor t mod 2 ^ 32),
      mpr_is_flashloanable = is_flashloanable t,
      mpr_flashloan_fee = flashloan_fee t,
      mpr_asset_id = asset_id t,
      mpr_asset_decimals = asset_decimals t\<rparr>"

record scaled_position_raw =
  scaled_amount :: int

record market_index =
  mi_borrow_index :: ray
  mi_supply_index :: ray

record market_state_snapshot =
  mss_hub_asset :: hub_asset_key
  mss_timestamp :: nat
  mss_supply_index :: int
  mss_borrow_index :: int
  mss_cash :: int
  mss_supplied :: int
  mss_borrowed :: int
  mss_revenue :: int

record pool_position_mutation =
  ppm_position :: scaled_position_raw
  ppm_market_index :: market_index
  ppm_actual_amount :: int
  ppm_asset_decimals :: nat

record pool_strategy_mutation =
  psm_position :: scaled_position_raw
  psm_market_index :: market_index
  psm_actual_amount :: int
  psm_amount_received :: int
  psm_asset_decimals :: nat

record pool_net_settle_result =
  pnr_supply_position :: scaled_position_raw
  pnr_debt_position :: scaled_position_raw
  pnr_market_index :: market_index
  pnr_settled_amount :: int

definition position_mutation_of_strategy :: "pool_strategy_mutation \<Rightarrow> pool_position_mutation" where
  "position_mutation_of_strategy m =
     \<lparr>ppm_position = psm_position m, ppm_market_index = psm_market_index m,
      ppm_actual_amount = psm_actual_amount m, ppm_asset_decimals = psm_asset_decimals m\<rparr>"

record pool_amount_mutation =
  pam_actual_amount :: int

record pool_state =
  ps_supplied :: ray
  ps_borrowed :: ray
  ps_revenue :: ray
  ps_borrow_index :: ray
  ps_supply_index :: ray
  ps_last_timestamp :: nat
  ps_cash :: int

record pool_sync_data =
  sync_params :: market_params_raw
  sync_state :: pool_state

record pool_action =
  pa_position :: scaled_position_raw
  pa_amount :: int
  pa_hub_asset :: hub_asset_key

record pool_supply_entry =
  pse_action :: pool_action

record pool_borrow_entry =
  pbe_action :: pool_action

record pool_withdraw_entry =
  pwe_action :: pool_action
  pwe_protocol_fee :: int

datatype account_position_type = Deposit | Borrow

record pool_seize_entry =
  pze_hub_asset :: hub_asset_key
  pze_side :: account_position_type
  pze_position :: scaled_position_raw

record pool_net_settle_entry =
  pne_hub_asset :: hub_asset_key
  pne_amount :: int
  pne_supply_position :: scaled_position_raw
  pne_debt_position :: scaled_position_raw

section \<open>Validated parameters\<close>

definition params_ok :: "market_params \<Rightarrow> bool" where
  "params_ok p \<longleftrightarrow>
     0 \<le> base_borrow_rate p \<and> base_borrow_rate p \<le> slope1 p \<and> slope1 p \<le> slope2 p \<and>
     slope2 p \<le> slope3 p \<and> slope3 p \<le> max_borrow_rate p \<and>
     base_borrow_rate p < max_borrow_rate p \<and> max_borrow_rate p \<le> MAX_BORROW_RATE_RAY \<and>
     0 < mid_utilization p \<and> mid_utilization p < optimal_utilization p \<and>
     optimal_utilization p < RAY \<and> optimal_utilization p \<le> max_utilization p \<and>
     max_utilization p \<le> RAY \<and> 0 \<le> reserve_factor p \<and> reserve_factor p < BPS \<and>
     int (flashloan_fee p) \<le> MAX_FLASHLOAN_FEE_BPS \<and> asset_decimals p \<le> WAD_DECIMALS \<and>
     (is_flashloanable p \<longrightarrow> MIN_BORROWABLE_ASSET_DECIMALS \<le> asset_decimals p)"

lemma verify_iff_params_ok:
  "market_params_raw_verify r = Inr u \<longleftrightarrow> params_ok (market_params_of_raw r)"
  by (auto simp: market_params_raw_verify_def interest_rate_model_verify_def rate_model_view_def
      market_params_of_raw_def params_ok_def res_iff not_less)

lemma market_params_roundtrip:
  "mpr_reserve_factor r \<le> u32_max \<Longrightarrow> market_params_to_raw (market_params_of_raw r) = r"
  by (cases r) (simp add: market_params_to_raw_def market_params_of_raw_def u32_max_def
      nat_mod_as_int [symmetric] flip: of_nat_mod)

lemma params_ok_decimals: "params_ok p \<Longrightarrow> asset_decimals p \<le> WAD_DECIMALS"
  by (simp add: params_ok_def)

end
