(* ===== verification/Rates_Curve.thy ===== *)
theory Rates_Curve
  imports Pool_Types
begin

text \<open>
  \<^verbatim>\<open>src/common/src/rates/curve.rs\<close> and \<^verbatim>\<open>src/common/src/rates/compound.rs\<close>: the three-segment
  borrow-rate curve, utilization, the deposit rate and the compounding factor. For validated
  parameters the curve always returns a rate between the base and the maximum rate, and one
  compounding step over at most a year returns a factor between one and twenty-one.
\<close>

section \<open>Definitions\<close>

definition calculate_annual_borrow_rate :: "ray \<Rightarrow> market_params \<Rightarrow> ray res" where
  "calculate_annual_borrow_rate util params =
     (let utilization = (if util > RAY then RAY else util) in
      rbind
        (if utilization < mid_utilization params then
           rbind (ray_mul utilization (slope1 params)) (\<lambda>m.
           rbind (ray_div m (mid_utilization params)) (\<lambda>contribution.
           ray_checked_add (base_borrow_rate params) contribution))
         else if utilization < optimal_utilization params then
           rbind (ray_checked_sub utilization (mid_utilization params)) (\<lambda>excess.
           rbind (ray_checked_sub (optimal_utilization params) (mid_utilization params)) (\<lambda>rng.
           rbind (ray_mul excess (slope2 params)) (\<lambda>m.
           rbind (ray_div m rng) (\<lambda>contribution.
           rbind (ray_checked_add (base_borrow_rate params) (slope1 params)) (\<lambda>b.
           ray_checked_add b contribution)))))
         else
           rbind (ray_checked_add (base_borrow_rate params) (slope1 params)) (\<lambda>b.
           rbind (ray_checked_add b (slope2 params)) (\<lambda>base_rate.
           rbind (ray_checked_sub utilization (optimal_utilization params)) (\<lambda>excess.
           rbind (ray_checked_sub RAY (optimal_utilization params)) (\<lambda>rng.
           rbind (ray_mul excess (slope3 params)) (\<lambda>m.
           rbind (ray_div m rng) (\<lambda>contribution.
           ray_checked_add base_rate contribution)))))))
        (\<lambda>annual_rate.
          Inr (if annual_rate > max_borrow_rate params then max_borrow_rate params
               else annual_rate)))"

definition calculate_borrow_rate :: "ray \<Rightarrow> market_params \<Rightarrow> ray res" where
  "calculate_borrow_rate utilization params =
     rbind (calculate_annual_borrow_rate utilization params) (\<lambda>annual.
     ray_div_by_int annual (int MILLISECONDS_PER_YEAR))"

definition calculate_deposit_rate :: "ray \<Rightarrow> ray \<Rightarrow> bps \<Rightarrow> ray res" where
  "calculate_deposit_rate utilization borrow_rate rf =
     (if utilization = 0 then Inr 0
      else if \<not> (0 \<le> rf \<and> rf < BPS) then Inr 0
      else rbind (ray_mul utilization borrow_rate) (\<lambda>rate_x_util.
           rbind (native (BPS - rf)) (\<lambda>supplier_share.
           bps_apply_to_ray supplier_share rate_x_util)))"

definition utilization :: "ray \<Rightarrow> ray \<Rightarrow> ray res" where
  "utilization borrowed supplied = (if supplied = 0 then Inr 0 else ray_div borrowed supplied)"

definition MAX_COMPOUND_DELTA_MS :: nat where
  "MAX_COMPOUND_DELTA_MS = MILLISECONDS_PER_YEAR"

primrec compound_terms :: "ray \<Rightarrow> int list \<Rightarrow> ray \<Rightarrow> ray \<Rightarrow> ray res" where
  "compound_terms x [] pow acc = Inr acc"
| "compound_terms x (divisor # divisors) pow acc =
     rbind (ray_mul pow x) (\<lambda>pow'.
     rbind (ray_div_by_int pow' divisor) (\<lambda>t.
     rbind (ray_checked_add acc t) (\<lambda>acc'.
     compound_terms x divisors pow' acc')))"

definition compound_interest :: "ray \<Rightarrow> nat \<Rightarrow> ray res" where
  "compound_interest rate delta_ms =
     (if delta_ms = 0 then Inr RAY
      else rbind (to_i128 (rate * int delta_ms)) (\<lambda>x.
           rbind (ray_checked_add RAY x) (\<lambda>acc.
           compound_terms x [2, 6, 24, 120, 720, 5040, 40320] x acc)))"

section \<open>The rate curve\<close>

lemma segment_value:
  assumes "0 \<le> e" and "e \<le> rng" and "0 < rng" and "0 \<le> s" and "s \<le> MAX_BORROW_RATE_RAY"
    and "rng \<le> RAY"
  shows "\<exists>c. rbind (ray_mul e s) (\<lambda>m. ray_div m rng) = Inr c \<and> 0 \<le> c \<and> c \<le> s + RAY"
proof -
  let ?m = "half_up_div (e * s) RAY"
  let ?c = "half_up_div (?m * RAY) rng"
  have es: "e * s \<le> rng * s" using assms by (simp add: mult_right_mono)
  have "e * s \<le> RAY * s" using assms by (simp add: mult_right_mono)
  then have "?m \<le> s" using half_up_mono [of RAY "e * s" "s * RAY"] by (simp add: mult.commute)
  then have m: "0 \<le> ?m" "in_i128 ?m"
    using assms nonneg_quotients(3) [of "e * s" RAY]
    by (auto simp: in_i128_iff MAX_BORROW_RATE_RAY_def RAY_def)
  have "?m * RAY \<le> rng * s + RAY div 2"
    using half_up_bounds(1) [of RAY "e * s"] es by simp
  moreover have "RAY \<le> RAY * rng" using assms by simp
  moreover have "0 \<le> RAY div 2" "2 * (RAY div 2) = RAY" by (simp_all add: RAY_def)
  moreover have "rng div 2 + RAY div 2 < rng + RAY"
    using assms(3) by (simp add: RAY_def)
  ultimately have "?m * RAY + rng div 2 < (s + RAY + 1) * rng"
    using assms unfolding distrib_right mult_1 by (simp only: mult.commute [of s])
  then have c: "?c \<le> s + RAY" using assms by (simp add: half_up_le_iff)
  moreover have "0 \<le> ?c" using m assms by (simp add: nonneg_quotients)
  ultimately have "in_i128 ?c"
    using assms by (auto simp: in_i128_iff MAX_BORROW_RATE_RAY_def RAY_def)
  with m assms c \<open>0 \<le> ?c\<close> show ?thesis by (auto simp: res_iff)
qed

lemma segment_mono:
  assumes "0 \<le> e1" and "e1 \<le> e2" and "0 < rng" and "0 \<le> s"
  shows "half_up_div (half_up_div (e1 * s) RAY * RAY) rng
       \<le> half_up_div (half_up_div (e2 * s) RAY * RAY) rng"
  using assms by (intro half_up_mono mult_right_mono) auto

lemma params_rates_bounded:
  assumes "params_ok p"
  shows "0 \<le> slope1 p" "slope1 p \<le> MAX_BORROW_RATE_RAY" "0 \<le> slope2 p"
    "slope2 p \<le> MAX_BORROW_RATE_RAY" "0 \<le> slope3 p" "slope3 p \<le> MAX_BORROW_RATE_RAY"
    "0 \<le> base_borrow_rate p" "base_borrow_rate p \<le> MAX_BORROW_RATE_RAY"
    "0 < max_borrow_rate p" "max_borrow_rate p \<le> MAX_BORROW_RATE_RAY"
  using assms by (auto simp: params_ok_def)

lemma rate_sum_fits:
  assumes "0 \<le> a" and "a \<le> 20 * RAY"
  shows "in_i128 a"
  using assms by (simp add: in_i128_iff RAY_def)

text \<open>One segment of the curve: a base of at most two slopes plus the ramp.\<close>

lemma segment_rate:
  assumes p: "params_ok p" and e: "0 \<le> e" "e \<le> rng" and r: "0 < rng" "rng \<le> RAY"
    and s: "0 \<le> s" "s \<le> MAX_BORROW_RATE_RAY"
    and b: "base_borrow_rate p \<le> b" "b \<le> 3 * MAX_BORROW_RATE_RAY"
  shows "\<exists>c. rbind (ray_mul e s) (\<lambda>m. rbind (ray_div m rng) (\<lambda>c. ray_checked_add b c)) = Inr c
         \<and> base_borrow_rate p \<le> c"
proof -
  obtain c where c: "rbind (ray_mul e s) (\<lambda>m. ray_div m rng) = Inr c" "0 \<le> c" "c \<le> s + RAY"
    using segment_value [OF e r(1) s r(2)] by blast
  have "in_i128 (b + c)"
    using c s b params_rates_bounded(7) [OF p]
    by (intro rate_sum_fits) (auto simp: MAX_BORROW_RATE_RAY_def RAY_def)
  with c b show ?thesis by (auto simp: res_iff)
qed

lemma annual_borrow_rate_total:
  assumes p: "params_ok p" and u: "0 \<le> u"
  shows "\<exists>r. calculate_annual_borrow_rate u p = Inr r \<and> base_borrow_rate p \<le> r \<and> r \<le> max_borrow_rate p"
proof -
  let ?u = "if u > RAY then RAY else u"
  note B = params_rates_bounded [OF p]
  have U: "0 < mid_utilization p" "mid_utilization p < optimal_utilization p"
    "optimal_utilization p < RAY" "base_borrow_rate p < max_borrow_rate p"
    using p by (auto simp: params_ok_def)
  have sums: "in_i128 (base_borrow_rate p + slope1 p)"
    "in_i128 (base_borrow_rate p + slope1 p + slope2 p)"
    using B by (auto intro!: rate_sum_fits simp: MAX_BORROW_RATE_RAY_def RAY_def)
  consider (low) "?u < mid_utilization p"
    | (mid) "\<not> ?u < mid_utilization p" "?u < optimal_utilization p"
    | (high) "\<not> ?u < mid_utilization p" "\<not> ?u < optimal_utilization p"
    by blast
  then show ?thesis
  proof cases
    case low
    obtain c where "rbind (ray_mul ?u (slope1 p)) (\<lambda>m. rbind (ray_div m (mid_utilization p))
        (\<lambda>c. ray_checked_add (base_borrow_rate p) c)) = Inr c" "base_borrow_rate p \<le> c"
      using segment_rate [OF p, of ?u "mid_utilization p" "slope1 p" "base_borrow_rate p"]
        low u U B by (auto simp: MAX_BORROW_RATE_RAY_def split: if_splits)
    with low U show ?thesis by (simp add: calculate_annual_borrow_rate_def Let_def)
  next
    case mid
    let ?e = "?u - mid_utilization p" and ?r = "optimal_utilization p - mid_utilization p"
    have "in_i128 ?e" "in_i128 ?r" using mid U by (auto intro!: rate_sum_fits split: if_splits)
    then have sub: "ray_checked_sub ?u (mid_utilization p) = Inr ?e"
      "ray_checked_sub (optimal_utilization p) (mid_utilization p) = Inr ?r"
      using mid U by (auto simp: res_iff)
    obtain c where "rbind (ray_mul ?e (slope2 p)) (\<lambda>m. rbind (ray_div m ?r)
        (\<lambda>c. ray_checked_add (base_borrow_rate p + slope1 p) c)) = Inr c" "base_borrow_rate p \<le> c"
      using segment_rate [OF p, of ?e ?r "slope2 p" "base_borrow_rate p + slope1 p"]
        mid U B by (auto simp: MAX_BORROW_RATE_RAY_def split: if_splits)
    moreover have "ray_checked_add (base_borrow_rate p) (slope1 p) = Inr (base_borrow_rate p + slope1 p)"
      using sums by (simp add: res_iff)
    ultimately show ?thesis using mid sub U
      by (simp add: calculate_annual_borrow_rate_def Let_def)
  next
    case high
    let ?e = "?u - optimal_utilization p" and ?r = "RAY - optimal_utilization p"
    have "in_i128 ?e" "in_i128 ?r" using high U by (auto intro!: rate_sum_fits split: if_splits)
    then have sub: "ray_checked_sub ?u (optimal_utilization p) = Inr ?e"
      "ray_checked_sub RAY (optimal_utilization p) = Inr ?r"
      using high U by (auto simp: res_iff)
    obtain c where "rbind (ray_mul ?e (slope3 p)) (\<lambda>m. rbind (ray_div m ?r)
        (\<lambda>c. ray_checked_add (base_borrow_rate p + slope1 p + slope2 p) c)) = Inr c"
        "base_borrow_rate p \<le> c"
      using segment_rate [OF p, of ?e ?r "slope3 p" "base_borrow_rate p + slope1 p + slope2 p"]
        high U B by (auto simp: MAX_BORROW_RATE_RAY_def split: if_splits)
    moreover have "ray_checked_add (base_borrow_rate p) (slope1 p) = Inr (base_borrow_rate p + slope1 p)"
      "ray_checked_add (base_borrow_rate p + slope1 p) (slope2 p)
         = Inr (base_borrow_rate p + slope1 p + slope2 p)"
      using sums by (simp_all add: res_iff)
    ultimately show ?thesis using high sub U
      by (simp add: calculate_annual_borrow_rate_def Let_def)
  qed
qed

definition curve_ramp :: "ray \<Rightarrow> ray \<Rightarrow> ray \<Rightarrow> ray" where
  "curve_ramp e s rng = half_up_div (half_up_div (e * s) RAY * RAY) rng"

definition curve_rate :: "market_params \<Rightarrow> ray \<Rightarrow> ray" where
  "curve_rate p u =
     (let v = min u RAY in
      min (max_borrow_rate p)
        (if v < mid_utilization p then
           base_borrow_rate p + curve_ramp v (slope1 p) (mid_utilization p)
         else if v < optimal_utilization p then
           base_borrow_rate p + slope1 p +
             curve_ramp (v - mid_utilization p) (slope2 p) (optimal_utilization p - mid_utilization p)
         else base_borrow_rate p + slope1 p + slope2 p +
             curve_ramp (v - optimal_utilization p) (slope3 p) (RAY - optimal_utilization p)))"

lemma annual_borrow_rate_eq:
  assumes "params_ok p" and "0 \<le> u"
  shows "calculate_annual_borrow_rate u p = Inr (curve_rate p u)"
proof -
  obtain r where r: "calculate_annual_borrow_rate u p = Inr r"
    using annual_borrow_rate_total [OF assms] by blast
  then have "r = curve_rate p u"
    by (auto simp: calculate_annual_borrow_rate_def curve_rate_def curve_ramp_def Let_def res_iff
        min_def split: if_splits)
  with r show ?thesis by simp
qed

lemma curve_rate_bounds:
  assumes "params_ok p" and "0 \<le> u"
  shows "base_borrow_rate p \<le> curve_rate p u" and "curve_rate p u \<le> max_borrow_rate p"
    and "0 \<le> curve_rate p u" and "curve_rate p u \<le> MAX_BORROW_RATE_RAY"
  using annual_borrow_rate_total [OF assms] annual_borrow_rate_eq [OF assms]
    params_rates_bounded [OF assms(1)] by auto

lemma curve_ramp_mono:
  assumes "0 \<le> e1" and "e1 \<le> e2" and "0 < rng" and "0 \<le> s"
  shows "curve_ramp e1 s rng \<le> curve_ramp e2 s rng"
  unfolding curve_ramp_def using assms by (rule segment_mono)

definition same_segment :: "market_params \<Rightarrow> ray \<Rightarrow> ray \<Rightarrow> bool" where
  "same_segment p u v \<longleftrightarrow>
     (u < mid_utilization p \<longleftrightarrow> v < mid_utilization p) \<and>
     (u < optimal_utilization p \<longleftrightarrow> v < optimal_utilization p)"

lemma curve_rate_mono:
  assumes p: "params_ok p" and u: "0 \<le> u" "u \<le> v" and seg: "same_segment p u v"
  shows "curve_rate p u \<le> curve_rate p v"
proof -
  note B = params_rates_bounded [OF p]
  have U: "0 < mid_utilization p" "mid_utilization p < optimal_utilization p"
    "optimal_utilization p < RAY"
    using p by (auto simp: params_ok_def)
  have le: "min u RAY \<le> min v RAY" using u by auto
  have seg': "same_segment p (min u RAY) (min v RAY)" using seg U u by (auto simp: same_segment_def)
  show ?thesis
    using le seg' u U B unfolding curve_rate_def Let_def
    by (intro min.mono order_refl) (auto simp: same_segment_def intro!: add_mono curve_ramp_mono)
qed

section \<open>The per-millisecond rate and the deposit rate\<close>

lemma calculate_borrow_rate_eq:
  assumes "params_ok p" and "0 \<le> u"
  shows "calculate_borrow_rate u p = Inr (half_up_div (curve_rate p u) (int MILLISECONDS_PER_YEAR))"
  using curve_rate_bounds(3,4) [OF assms]
  by (simp add: calculate_borrow_rate_def annual_borrow_rate_eq [OF assms] ray_div_by_int_def
      div_by_int_half_up_nonneg MILLISECONDS_PER_YEAR_def in_i128_iff MAX_BORROW_RATE_RAY_def RAY_def)

lemma step_exponent_bound:
  assumes "params_ok p" and "0 \<le> u" and "delta \<le> MAX_COMPOUND_DELTA_MS"
    and "calculate_borrow_rate u p = Inr r"
  shows "0 \<le> r" and "0 \<le> r * int delta" and "r * int delta \<le> 3 * RAY"
proof -
  let ?m = "int MILLISECONDS_PER_YEAR"
  have m: "0 < ?m" by (simp add: MILLISECONDS_PER_YEAR_def)
  have r: "r = half_up_div (curve_rate p u) ?m"
    using assms(4) calculate_borrow_rate_eq [OF assms(1,2)] by simp
  show r0: "0 \<le> r" using r m curve_rate_bounds(3) [OF assms(1,2)] by (simp add: nonneg_quotients)
  then show "0 \<le> r * int delta" by simp
  have "r * int delta \<le> r * ?m"
    using r0 assms(3) by (intro mult_left_mono) (auto simp: MAX_COMPOUND_DELTA_MS_def)
  also have "\<dots> \<le> curve_rate p u + ?m div 2" unfolding r by (rule half_up_bounds(1) [OF m])
  also have "\<dots> \<le> 3 * RAY"
    using curve_rate_bounds(4) [OF assms(1,2)]
    by (simp add: MAX_BORROW_RATE_RAY_def MILLISECONDS_PER_YEAR_def RAY_def)
  finally show "r * int delta \<le> 3 * RAY" .
qed

lemma deposit_rate_le:
  assumes "calculate_deposit_rate u br rf = Inr r" and "0 \<le> br" and "0 \<le> u"
  shows "0 \<le> r \<and> r \<le> half_up_div (u * br) RAY"
proof (cases "u = 0 \<or> \<not> (0 \<le> rf \<and> rf < BPS)")
  case True
  with assms show ?thesis
    by (auto simp: calculate_deposit_rate_def nonneg_quotients split: if_splits)
next
  case False
  let ?x = "half_up_div (u * br) RAY"
  have x: "0 \<le> ?x" using assms by (simp add: nonneg_quotients)
  from False assms have r: "r = half_up_div (?x * (BPS - rf)) BPS"
    by (auto simp: calculate_deposit_rate_def res_iff)
  have "?x * (BPS - rf) \<le> ?x * BPS" using x False by (intro mult_left_mono) auto
  then have "r \<le> ?x" unfolding r using half_up_mono [of BPS "?x * (BPS - rf)" "?x * BPS"] by simp
  moreover have "0 \<le> r" unfolding r using x False by (intro nonneg_quotients) auto
  ultimately show ?thesis by simp
qed

section \<open>Compounding\<close>

lemma compound_step:
  assumes "0 \<le> pow" and "pow \<le> P" and "0 \<le> x" and "x \<le> 3 * RAY" and "P \<le> 10000 * RAY"
  shows "\<exists>pow'. ray_mul pow x = Inr pow' \<and> 0 \<le> pow' \<and> pow' \<le> 3 * P"
proof -
  have "pow * x \<le> pow * (3 * RAY)" using assms by (intro mult_left_mono) auto
  then have "half_up_div (pow * x) RAY \<le> 3 * pow"
    using half_up_mono [of RAY "pow * x" "3 * pow * RAY"] by (simp add: mult.commute mult.left_commute)
  moreover have "0 \<le> half_up_div (pow * x) RAY" using assms by (intro nonneg_quotients) auto
  ultimately show ?thesis using assms by (auto simp: res_iff in_i128_iff RAY_def)
qed

lemma compound_term:
  assumes "0 \<le> pow" and "pow \<le> P" and "0 < n" and "P \<le> 10000 * RAY"
  shows "\<exists>t. ray_div_by_int pow n = Inr t \<and> 0 \<le> t \<and> t \<le> P div n + 1"
proof -
  have "ray_div_by_int pow n = Inr (half_up_div pow n)"
    using assms by (simp add: ray_div_by_int_def div_by_int_half_up_nonneg in_i128_iff RAY_def)
  moreover have "half_up_div pow n \<le> pow div n + 1" using assms(3) by (rule half_up_le_Suc_floor)
  moreover have "pow div n \<le> P div n" using assms by (intro zdiv_mono1) auto
  ultimately show ?thesis using assms by (auto simp: nonneg_quotients)
qed

text \<open>The bounds carried through the series: each power at most triples.\<close>

fun terms_bound :: "int list \<Rightarrow> int \<Rightarrow> int \<Rightarrow> int" where
  "terms_bound [] P S = S"
| "terms_bound (n # ns) P S = terms_bound ns (3 * P) (S + (3 * P div n + 1))"

fun terms_fit :: "int list \<Rightarrow> int \<Rightarrow> int \<Rightarrow> bool" where
  "terms_fit [] P S = True"
| "terms_fit (n # ns) P S \<longleftrightarrow>
     0 < n \<and> 3 * P \<le> 10000 * RAY \<and> S + (3 * P div n + 1) \<le> 10000 * RAY \<and>
     terms_fit ns (3 * P) (S + (3 * P div n + 1))"

lemma compound_terms_bound:
  assumes "0 \<le> x" and "x \<le> 3 * RAY"
  shows "\<lbrakk>0 \<le> pow; pow \<le> P; 0 \<le> acc; acc \<le> S; terms_fit ns P S\<rbrakk> \<Longrightarrow>
    \<exists>r. compound_terms x ns pow acc = Inr r \<and> acc \<le> r \<and> r \<le> terms_bound ns P S"
proof (induction ns arbitrary: pow P acc S)
  case Nil
  then show ?case by simp
next
  case (Cons n ns)
  then have n: "0 < n" "3 * P \<le> 10000 * RAY" by auto
  obtain pow' where p': "ray_mul pow x = Inr pow'" "0 \<le> pow'" "pow' \<le> 3 * P"
    using compound_step [OF Cons.prems(1,2) assms] n Cons.prems by auto
  obtain t where t: "ray_div_by_int pow' n = Inr t" "0 \<le> t" "t \<le> 3 * P div n + 1"
    using compound_term [OF p'(2,3) n] by auto
  have "in_i128 (acc + t)" using Cons.prems t by (auto simp: in_i128_iff RAY_def)
  then have add: "ray_checked_add acc t = Inr (acc + t)" by (simp add: res_iff)
  have "\<exists>r. compound_terms x ns pow' (acc + t) = Inr r \<and> acc + t \<le> r \<and>
      r \<le> terms_bound ns (3 * P) (S + (3 * P div n + 1))"
    using Cons.prems p' t by (intro Cons.IH) auto
  with p' t add show ?case by auto
qed

lemma compound_terms_total:
  assumes "0 \<le> x" and "x \<le> 3 * RAY"
  shows "\<exists>r. compound_terms x [2, 6, 24, 120, 720, 5040, 40320] x (RAY + x) = Inr r
           \<and> RAY + x \<le> r \<and> r \<le> 21 * RAY"
proof -
  let ?ns = "[2, 6, 24, 120, 720, 5040, 40320] :: int list"
  have "terms_fit ?ns (3 * RAY) (4 * RAY)" by (simp add: RAY_def)
  then have "\<exists>r. compound_terms x ?ns x (RAY + x) = Inr r \<and> RAY + x \<le> r
      \<and> r \<le> terms_bound ?ns (3 * RAY) (4 * RAY)"
    using assms by (intro compound_terms_bound) auto
  moreover have "terms_bound ?ns (3 * RAY) (4 * RAY) \<le> 21 * RAY" by (simp add: RAY_def)
  ultimately show ?thesis by force
qed

lemma compound_interest_total:
  assumes "0 \<le> r" and "0 \<le> r * int delta" and "r * int delta \<le> 3 * RAY"
  shows "\<exists>f. compound_interest r delta = Inr f \<and> RAY + r * int delta \<le> f \<and> f \<le> 21 * RAY"
proof (cases "delta = 0")
  case False
  have "in_i128 (r * int delta)" "in_i128 (RAY + r * int delta)"
    by (rule rate_sum_fits; use assms(2,3) scale_pos(1) in linarith)+
  then show ?thesis
    using False compound_terms_total [OF assms(2,3)]
    by (simp add: compound_interest_def to_i128_def to_i128_opt_def ray_checked_add_def
        checked_add_raw_def i128_checked_add_def)
qed (simp add: compound_interest_def)

end
