(* ===== verification/Rates_Index.thy ===== *)
theory Rates_Index
  imports Rates_Curve
begin

text \<open>
  \<^verbatim>\<open>src/common/src/rates/index.rs\<close>: how interest moves the two indexes and how it is split. The
  lemmas are the arithmetic core of INV-IDX-01, INV-IDX-02 and INV-IDX-05 of
  \<^verbatim>\<open>src/docs/reference/invariants.md\<close>: the indexes never fall and never pass their ceilings, the
  value a supply-index move distributes never exceeds the rewards (so the checked subtraction of
  \<open>supply_index_reward_shortfall\<close> cannot panic after \<open>update_supply_index\<close>), and fee shares are
  never worth more than the fee.
\<close>

section \<open>Definitions\<close>

definition update_borrow_index :: "ray \<Rightarrow> ray \<Rightarrow> ray res" where
  "update_borrow_index old_index interest_factor =
     rbind (ray_mul old_index interest_factor) (\<lambda>new_index.
     Inr (if new_index > MAX_BORROW_INDEX_RAY then MAX_BORROW_INDEX_RAY else new_index))"

definition update_supply_index :: "ray \<Rightarrow> ray \<Rightarrow> ray \<Rightarrow> ray res" where
  "update_supply_index supplied old_index rewards_increase =
     (if supplied = 0 \<or> rewards_increase = 0 then Inr old_index
      else rbind (ray_mul supplied old_index) (\<lambda>total_supplied_value.
        if total_supplied_value = 0 then Inr old_index
        else rbind (ray_checked_add total_supplied_value rewards_increase) (\<lambda>new_value.
             rbind (mul_div_floor_saturating new_value RAY supplied) (\<lambda>grown.
             let bounded_old = min old_index MAX_SUPPLY_INDEX_RAY in
             Inr (max (min grown MAX_SUPPLY_INDEX_RAY) bounded_old)))))"

definition supply_index_reward_shortfall :: "ray \<Rightarrow> ray \<Rightarrow> ray \<Rightarrow> ray \<Rightarrow> ray res" where
  "supply_index_reward_shortfall supplied old_index new_index rewards_increase =
     rbind (ray_mul supplied new_index) (\<lambda>value_after.
     rbind (ray_mul supplied old_index) (\<lambda>value_before.
     rbind (ray_checked_sub value_after value_before) (\<lambda>distributed.
     ray_checked_sub rewards_increase distributed)))"

definition calculate_supplier_rewards ::
    "market_params \<Rightarrow> ray \<Rightarrow> ray \<Rightarrow> ray \<Rightarrow> (ray \<times> ray) res" where
  "calculate_supplier_rewards params borrowed new_borrow_index old_borrow_index =
     rbind (ray_mul borrowed old_borrow_index) (\<lambda>old_total_debt.
     rbind (ray_mul borrowed new_borrow_index) (\<lambda>new_total_debt.
     rbind (ray_checked_sub new_total_debt old_total_debt) (\<lambda>accrued_interest.
     rbind (bps_apply_to_ray (reserve_factor params) accrued_interest) (\<lambda>protocol_fee.
     rbind (ray_checked_sub accrued_interest protocol_fee) (\<lambda>supplier_rewards.
     Inr (supplier_rewards, protocol_fee))))))"

definition protocol_fee_shares :: "ray \<Rightarrow> ray \<Rightarrow> ray \<Rightarrow> ray res" where
  "protocol_fee_shares fee supply_index supplied =
     rbind (mul_div_floor_saturating fee RAY supply_index) (\<lambda>raw.
     let headroom = i128_saturating_sub i128_max supplied in
     Inr (min raw headroom))"

section \<open>Index moves\<close>

lemma update_borrow_index_total:
  assumes "RAY \<le> old" and "old \<le> MAX_BORROW_INDEX_RAY" and "RAY \<le> f" and "f \<le> 21 * RAY"
  shows "\<exists>n. update_borrow_index old f = Inr n \<and> old \<le> n \<and> n \<le> MAX_BORROW_INDEX_RAY"
proof -
  let ?n = "half_up_div (old * f) RAY"
  have pos: "0 \<le> old" "0 \<le> f" using assms scale_pos(1) by linarith+
  have "old * RAY \<le> old * f" using pos assms by (intro mult_left_mono) auto
  then have ge: "old \<le> ?n" using half_up_mono [of RAY "old * RAY" "old * f"] by simp
  have "old * f \<le> MAX_BORROW_INDEX_RAY * (21 * RAY)" using pos assms by (intro mult_mono) auto
  then have "?n \<le> 21 * MAX_BORROW_INDEX_RAY"
    using half_up_mono [of RAY "old * f" "(MAX_BORROW_INDEX_RAY * 21) * RAY"]
    by (simp add: mult.assoc del: exact_quotients) (simp add: mult.assoc [symmetric])
  then have "in_i128 ?n" using ge pos by (simp add: in_i128_iff MAX_BORROW_INDEX_RAY_def)
  then have "ray_mul old f = Inr ?n" using pos by (simp add: res_iff)
  with ge assms show ?thesis by (simp add: update_borrow_index_def)
qed

lemma update_borrow_index_bounds:
  assumes "update_borrow_index old f = Inr n" and "old \<le> MAX_BORROW_INDEX_RAY" and "RAY \<le> f"
  shows "old \<le> n \<and> n \<le> MAX_BORROW_INDEX_RAY"
proof -
  from assms(1) have "0 \<le> old" by (auto simp: update_borrow_index_def res_iff)
  then have "old * RAY \<le> old * f" using assms by (intro mult_left_mono) auto
  then have "old \<le> half_up_div (old * f) RAY"
    using half_up_mono [of RAY "old * RAY" "old * f"] by simp
  with assms show ?thesis by (auto simp: update_borrow_index_def res_iff split: if_splits)
qed

lemma distributed_le_rewards:
  assumes "0 < s" and "n * s \<le> (half_up_div (s * old) RAY + r) * RAY"
  shows "half_up_div (s * n) RAY \<le> half_up_div (s * old) RAY + r"
  using half_up_mono [of RAY "s * n" "(half_up_div (s * old) RAY + r) * RAY"] assms
  by (simp add: mult.commute)

lemma update_supply_index_bounds:
  assumes upd: "update_supply_index s old r = Inr n"
    and s: "0 \<le> s" and old: "0 < old" "old \<le> MAX_SUPPLY_INDEX_RAY" and r: "0 \<le> r"
  shows "old \<le> n" and "n \<le> MAX_SUPPLY_INDEX_RAY"
    and "half_up_div (s * old) RAY \<le> half_up_div (s * n) RAY"
    and "half_up_div (s * n) RAY \<le> half_up_div (s * old) RAY + r"
proof -
  have "old \<le> n \<and> n \<le> MAX_SUPPLY_INDEX_RAY \<and>
    half_up_div (s * n) RAY \<le> half_up_div (s * old) RAY + r"
  proof (cases "n = old")
    case True
    then show ?thesis using assms by auto
  next
    case False
    let ?T = "half_up_div (s * old) RAY"
    let ?g = "i128_saturate ((?T + r) * RAY div s)"
    from False upd have s0: "0 < s" and n: "n = max (min ?g MAX_SUPPLY_INDEX_RAY) (min old MAX_SUPPLY_INDEX_RAY)"
      using s by (auto simp: update_supply_index_def res_iff Let_def split: if_splits)
    with False old have ng: "n = min ?g MAX_SUPPLY_INDEX_RAY" and "old \<le> n"
      by (auto simp: max_def min_def split: if_splits)
    moreover have "n \<le> (?T + r) * RAY div s"
    proof -
      have "0 \<le> (?T + r) * RAY div s"
        using s0 r old by (simp add: pos_imp_zdiv_nonneg_iff nonneg_quotients)
      then show ?thesis unfolding ng by (auto simp: i128_saturate_def i128_bounds)
    qed
    then have "n * s \<le> (?T + r) * RAY" using s0 by (simp add: floor_ge_iff)
    ultimately show ?thesis using distributed_le_rewards [OF s0] by auto
  qed
  then show "old \<le> n" and "n \<le> MAX_SUPPLY_INDEX_RAY"
    and "half_up_div (s * n) RAY \<le> half_up_div (s * old) RAY + r"
    by auto
  then show "half_up_div (s * old) RAY \<le> half_up_div (s * n) RAY"
    using s by (intro half_up_mono mult_left_mono) auto
qed

lemma reward_shortfall_value:
  assumes "update_supply_index s old r = Inr n"
    and "0 \<le> s" and "0 < old" "old \<le> MAX_SUPPLY_INDEX_RAY" and "0 \<le> r"
    and "in_i128 (half_up_div (s * old) RAY + r)" and "in_i128 r"
  shows "supply_index_reward_shortfall s old n r =
    Inr (r - (half_up_div (s * n) RAY - half_up_div (s * old) RAY))"
proof -
  note b = update_supply_index_bounds [OF assms(1-5)]
  have nn: "0 \<le> half_up_div (s * old) RAY" using assms by (simp add: nonneg_quotients)
  have "in_i128 (half_up_div (s * n) RAY)" "in_i128 (half_up_div (s * old) RAY)"
    "in_i128 (half_up_div (s * n) RAY - half_up_div (s * old) RAY)"
    "in_i128 (r - (half_up_div (s * n) RAY - half_up_div (s * old) RAY))"
    using b nn in_i128_le [OF assms(6)] in_i128_le [OF assms(7)] assms(5) by auto
  with b nn assms show ?thesis
    by (simp add: supply_index_reward_shortfall_def ray_mul_def mul_div_half_up_eq
        ray_checked_sub_def checked_sub_nonneg_def native_def)
qed

section \<open>The interest split\<close>

lemma fee_le_interest:
  assumes "0 \<le> a" and "0 \<le> rf" and "rf < BPS"
  shows "0 \<le> half_up_div (a * rf) BPS" and "half_up_div (a * rf) BPS \<le> a"
proof -
  have "a * rf \<le> a * BPS" using assms by (intro mult_left_mono) auto
  then show "half_up_div (a * rf) BPS \<le> a" using half_up_mono [of BPS "a * rf" "a * BPS"] by simp
qed (use assms in \<open>simp add: nonneg_quotients\<close>)

lemma supplier_rewards_split:
  assumes "calculate_supplier_rewards p b nbi obi = Inr (rewards, fee)" and "params_ok p"
  shows "rewards + fee = half_up_div (b * nbi) RAY - half_up_div (b * obi) RAY"
    and "0 \<le> rewards" and "0 \<le> fee"
  using assms fee_le_interest [of "half_up_div (b * nbi) RAY - half_up_div (b * obi) RAY" "reserve_factor p"]
  by (auto simp: calculate_supplier_rewards_def res_iff params_ok_def)

lemma protocol_fee_shares_value:
  assumes "0 \<le> fee" and "0 < si" and "0 \<le> supplied" and "supplied \<le> i128_max"
  shows "\<exists>sh. protocol_fee_shares fee si supplied = Inr sh \<and> 0 \<le> sh \<and> sh * si \<le> fee * RAY
           \<and> supplied + sh \<le> i128_max"
proof -
  let ?q = "fee * RAY div si"
  have q: "0 \<le> ?q" using assms by (simp add: pos_imp_zdiv_nonneg_iff)
  define sh where "sh = min (i128_saturate ?q) (i128_max - supplied)"
  have "i128_saturating_sub i128_max supplied = i128_max - supplied"
    using assms by (simp add: i128_saturating_sub_def saturate_id in_i128_def i128_bounds)
  then have "protocol_fee_shares fee si supplied = Inr sh"
    using assms by (simp add: protocol_fee_shares_def mul_div_floor_saturating_eq Let_def sh_def)
  moreover have "sh \<le> ?q" "0 \<le> sh"
    using q assms by (auto simp: sh_def i128_saturate_def i128_bounds)
  moreover from this have "sh * si \<le> fee * RAY" using assms by (simp add: floor_ge_iff)
  moreover have "supplied + sh \<le> i128_max" by (simp add: sh_def)
  ultimately show ?thesis by blast
qed

end
