(* ===== verification/Rates_Scaling.thy ===== *)
theory Rates_Scaling
  imports Rates_Index
begin

text \<open>
  \<^verbatim>\<open>src/common/src/rates/scaling.rs\<close> and \<^verbatim>\<open>src/common/src/rates/value.rs\<close>: conversions between
  asset amounts and index-scaled shares, and the resolution of withdrawals, repayments and
  same-asset settlements. The lemmas compare values without division: an amount \<open>a\<close> of an asset
  with \<open>d\<close> decimals is worth \<open>a * asset_unit d * RAY\<close>, and \<open>n\<close> shares at index \<open>i\<close> are worth
  \<open>n * i\<close>. Every conversion rounds in the protocol's favour in this unit.
\<close>

section \<open>Definitions\<close>

definition scaled_to_original :: "ray \<Rightarrow> ray \<Rightarrow> ray res" where
  "scaled_to_original scaled index = ray_mul scaled index"

definition calculate_scaled_cap :: "int \<Rightarrow> nat \<Rightarrow> ray \<Rightarrow> ray res" where
  "calculate_scaled_cap cap decimals index =
     rbind (ray_from_asset cap decimals) (\<lambda>c. mul_div_floor_saturating c RAY index)"

definition calculate_scaled_supply :: "int \<Rightarrow> nat \<Rightarrow> ray \<Rightarrow> ray res" where
  "calculate_scaled_supply amount decimals supply_index =
     rbind (ray_from_asset amount decimals) (\<lambda>a. ray_div_floor a supply_index)"

definition calculate_scaled_supply_ceil :: "int \<Rightarrow> nat \<Rightarrow> ray \<Rightarrow> ray res" where
  "calculate_scaled_supply_ceil amount decimals supply_index =
     rbind (ray_from_asset amount decimals) (\<lambda>a. ray_div_ceil a supply_index)"

definition calculate_scaled_borrow :: "int \<Rightarrow> nat \<Rightarrow> ray \<Rightarrow> ray res" where
  "calculate_scaled_borrow amount decimals borrow_index =
     rbind (ray_from_asset amount decimals) (\<lambda>a. ray_div_ceil a borrow_index)"

definition calculate_scaled_borrow_floor :: "int \<Rightarrow> nat \<Rightarrow> ray \<Rightarrow> ray res" where
  "calculate_scaled_borrow_floor amount decimals borrow_index =
     rbind (ray_from_asset amount decimals) (\<lambda>a. ray_div_floor a borrow_index)"

definition unscale_supply :: "ray \<Rightarrow> ray \<Rightarrow> nat \<Rightarrow> int res" where
  "unscale_supply scaled supply_index decimals =
     rbind (scaled_to_original scaled supply_index) (\<lambda>v. ray_to_asset v decimals)"

definition unscale_supply_floor :: "ray \<Rightarrow> ray \<Rightarrow> nat \<Rightarrow> int res" where
  "unscale_supply_floor scaled supply_index decimals =
     rbind (ray_mul_floor scaled supply_index) (\<lambda>v. ray_to_asset_floor v decimals)"

definition unscale_borrow :: "ray \<Rightarrow> ray \<Rightarrow> nat \<Rightarrow> int res" where
  "unscale_borrow scaled borrow_index decimals =
     rbind (scaled_to_original scaled borrow_index) (\<lambda>v. ray_to_asset v decimals)"

definition unscale_borrow_ceil :: "ray \<Rightarrow> ray \<Rightarrow> nat \<Rightarrow> int res" where
  "unscale_borrow_ceil scaled borrow_index decimals =
     rbind (ray_mul_ceil scaled borrow_index) (\<lambda>v. ray_to_asset_ceil v decimals)"

definition resolve_withdrawal :: "int \<Rightarrow> ray \<Rightarrow> ray \<Rightarrow> nat \<Rightarrow> (ray \<times> int) res" where
  "resolve_withdrawal amount pos_scaled supply_index decimals =
     rbind (unscale_supply pos_scaled supply_index decimals) (\<lambda>current_supply_actual.
     rbind (unscale_supply_floor pos_scaled supply_index decimals) (\<lambda>current_supply_floor.
     if amount \<ge> current_supply_actual then Inr (pos_scaled, current_supply_floor)
     else rbind (calculate_scaled_supply_ceil amount decimals supply_index) (\<lambda>sc.
          Inr (sc, amount))))"

definition resolve_net_settle ::
    "int \<Rightarrow> ray \<Rightarrow> ray \<Rightarrow> ray \<Rightarrow> ray \<Rightarrow> nat \<Rightarrow> (ray \<times> ray \<times> int) res" where
  "resolve_net_settle amount supply_scaled debt_scaled supply_index borrow_index decimals =
     rbind (unscale_supply_floor supply_scaled supply_index decimals) (\<lambda>supply_floor.
     rbind (unscale_borrow_ceil debt_scaled borrow_index decimals) (\<lambda>debt_ceil.
     let settle = min (min amount supply_floor) debt_ceil in
     if settle \<le> 0 then Inr (0, 0, 0)
     else
       rbind (if settle = supply_floor then Inr supply_scaled
              else rbind (calculate_scaled_supply_ceil settle decimals supply_index) (\<lambda>b.
                   Inr (min b supply_scaled))) (\<lambda>burned_supply.
       rbind (if settle = debt_ceil then Inr debt_scaled
              else rbind (calculate_scaled_borrow_floor settle decimals borrow_index) (\<lambda>b.
                   Inr (min b debt_scaled))) (\<lambda>burned_debt.
       Inr (burned_supply, burned_debt, settle)))))"

definition resolve_repay :: "int \<Rightarrow> ray \<Rightarrow> ray \<Rightarrow> nat \<Rightarrow> (ray \<times> int) res" where
  "resolve_repay amount pos_scaled borrow_index decimals =
     rbind (unscale_borrow_ceil pos_scaled borrow_index decimals) (\<lambda>current_debt_ceil.
     if amount \<ge> current_debt_ceil then
       rbind (unwrap_or_panic (i128_checked_sub amount current_debt_ceil) (Generic MathOverflow))
         (\<lambda>excess. Inr (pos_scaled, excess))
     else rbind (calculate_scaled_borrow_floor amount decimals borrow_index) (\<lambda>sc. Inr (sc, 0)))"

definition position_value :: "ray \<Rightarrow> ray \<Rightarrow> wad \<Rightarrow> wad res" where
  "position_value scaled index price =
     rbind (ray_mul scaled index) (\<lambda>actual.
     rbind (ray_to_wad actual) (\<lambda>actual_wad. wad_mul actual_wad price))"

definition position_value_floor :: "ray \<Rightarrow> ray \<Rightarrow> wad \<Rightarrow> wad res" where
  "position_value_floor scaled index price =
     rbind (ray_mul_floor scaled index) (\<lambda>actual.
     rbind (ray_to_wad_floor actual) (\<lambda>actual_wad. wad_mul_floor actual_wad price))"

definition position_value_ceil :: "ray \<Rightarrow> ray \<Rightarrow> wad \<Rightarrow> wad res" where
  "position_value_ceil scaled index price =
     rbind (ray_mul_ceil scaled index) (\<lambda>actual.
     rbind (ray_to_wad_ceil actual) (\<lambda>actual_wad. wad_mul_ceil actual_wad price))"

section \<open>Conversions\<close>

lemma scaled_Inr [res_iff]:
  assumes "dec \<le> WAD_DECIMALS"
  shows "calculate_scaled_supply a dec i = Inr m \<longleftrightarrow>
      i \<noteq> 0 \<and> in_i128 (a * asset_unit dec) \<and> m = a * asset_unit dec * RAY div i \<and> in_i128 m"
    and "calculate_scaled_supply_ceil a dec i = Inr m \<longleftrightarrow>
      i \<noteq> 0 \<and> in_i128 (a * asset_unit dec) \<and> m = ceil_div (a * asset_unit dec * RAY) i \<and> in_i128 m"
    and "calculate_scaled_borrow a dec i = Inr m \<longleftrightarrow>
      i \<noteq> 0 \<and> in_i128 (a * asset_unit dec) \<and> m = ceil_div (a * asset_unit dec * RAY) i \<and> in_i128 m"
    and "calculate_scaled_borrow_floor a dec i = Inr m \<longleftrightarrow>
      i \<noteq> 0 \<and> in_i128 (a * asset_unit dec) \<and> m = a * asset_unit dec * RAY div i \<and> in_i128 m"
  using assms
  by (auto simp: calculate_scaled_supply_def calculate_scaled_supply_ceil_def
      calculate_scaled_borrow_def calculate_scaled_borrow_floor_def res_iff ray_from_asset_Inr)

lemma unscale_Inr:
  assumes "dec \<le> WAD_DECIMALS" and "0 \<le> sc" and "0 \<le> i"
  shows "unscale_supply sc i dec = Inr a \<longleftrightarrow>
      in_i128 (half_up_div (sc * i) RAY) \<and> a = half_up_div (half_up_div (sc * i) RAY) (asset_unit dec)"
    and "unscale_supply_floor sc i dec = Inr a \<longleftrightarrow>
      in_i128 (sc * i div RAY) \<and> a = sc * i div RAY div asset_unit dec"
    and "unscale_borrow sc i dec = Inr a \<longleftrightarrow>
      in_i128 (half_up_div (sc * i) RAY) \<and> a = half_up_div (half_up_div (sc * i) RAY) (asset_unit dec)"
    and "unscale_borrow_ceil sc i dec = Inr a \<longleftrightarrow>
      in_i128 (ceil_div (sc * i) RAY) \<and> a = ceil_div (ceil_div (sc * i) RAY) (asset_unit dec)"
  using assms nonneg_quotients [of "sc * i" RAY]
  by (auto simp: unscale_supply_def unscale_supply_floor_def unscale_borrow_def
      unscale_borrow_ceil_def scaled_to_original_def res_iff ray_to_asset_eqs)

lemma floor_value_le:
  assumes "0 < (u::int)"
  shows "x div RAY div u * u * RAY \<le> x"
  using floor_bounds [of u "x div RAY"] floor_bounds [of RAY x] assms
  by (meson mult_right_mono order_trans scale_pos(1) scale_pos(4))

lemma ceil_value_ge:
  assumes "0 < (u::int)"
  shows "x \<le> ceil_div (ceil_div x RAY) u * u * RAY"
  using ceil_bounds [of u "ceil_div x RAY"] ceil_bounds [of RAY x] assms
  by (meson mult_right_mono order_trans scale_pos(1) scale_pos(4))

lemma floor_value_ge_iff:
  assumes "0 < (u::int)"
  shows "a \<le> x div RAY div u \<longleftrightarrow> a * u * RAY \<le> x"
  using assms by (simp add: floor_ge_iff)

lemma ceil_value_le_iff:
  assumes "0 < (u::int)"
  shows "ceil_div (ceil_div x RAY) u \<le> a \<longleftrightarrow> x \<le> a * u * RAY"
  using assms by (simp add: ceil_le_iff)

lemma below_half_up_value:
  assumes "(1000000000::int) \<le> u" and "a < half_up_div (half_up_div x RAY) u"
  shows "a * u * RAY \<le> x"
proof -
  let ?y = "half_up_div x RAY"
  have u: "0 < u" "2 \<le> u div 2" using assms(1) by linarith+
  have "(a + 1) * u \<le> ?y + u div 2" using assms u by (simp flip: half_up_ge_iff)
  moreover have "u div 2 * 2 \<le> u" by linarith
  ultimately have "a * u + 2 \<le> ?y" using u unfolding distrib_right by linarith
  then have "(a * u + 2) * RAY \<le> ?y * RAY" by (intro mult_right_mono) auto
  moreover have "?y * RAY \<le> x + RAY div 2" by (rule half_up_bounds(1)) simp
  ultimately show ?thesis unfolding distrib_right by (simp add: RAY_def)
qed

lemma asset_unit_ge: "dec \<le> WAD_DECIMALS \<Longrightarrow> 1000000000 \<le> asset_unit dec"
proof -
  assume "dec \<le> WAD_DECIMALS"
  then have "(10::int) ^ 9 \<le> asset_unit dec"
    by (intro power_increasing) (auto simp: RAY_DECIMALS_def WAD_DECIMALS_def)
  then show ?thesis by simp
qed

section \<open>Resolution of withdrawals, repayments and settlements\<close>

lemma resolve_withdrawal_Inr:
  assumes "dec \<le> WAD_DECIMALS" and "0 \<le> pos" and "0 < i"
  shows "resolve_withdrawal amount pos i dec = Inr (burned, gross) \<longleftrightarrow>
    in_i128 (half_up_div (pos * i) RAY) \<and> in_i128 (pos * i div RAY) \<and>
    (if half_up_div (half_up_div (pos * i) RAY) (asset_unit dec) \<le> amount
     then burned = pos \<and> gross = pos * i div RAY div asset_unit dec
     else in_i128 (amount * asset_unit dec) \<and> burned = ceil_div (amount * asset_unit dec * RAY) i \<and>
       in_i128 burned \<and> gross = amount)"
  using assms(2,3) by (auto simp: resolve_withdrawal_def res_iff unscale_Inr [OF assms(1)] scaled_Inr [OF assms(1)])

lemma resolve_repay_Inr:
  assumes "dec \<le> WAD_DECIMALS" and "0 \<le> pos" and "0 < i"
  shows "resolve_repay amount pos i dec = Inr (burned, over) \<longleftrightarrow>
    in_i128 (ceil_div (pos * i) RAY) \<and>
    (if ceil_div (ceil_div (pos * i) RAY) (asset_unit dec) \<le> amount
     then burned = pos \<and> over = amount - ceil_div (ceil_div (pos * i) RAY) (asset_unit dec) \<and> in_i128 over
     else in_i128 (amount * asset_unit dec) \<and> burned = amount * asset_unit dec * RAY div i \<and>
       in_i128 burned \<and> over = 0)"
  using assms(2,3) by (auto simp: resolve_repay_def res_iff i128_checked_sub_def
      unscale_Inr [OF assms(1)] scaled_Inr [OF assms(1)])

lemma resolve_net_settle_Inr:
  fixes spos debt si bi :: int
  assumes "dec \<le> WAD_DECIMALS" and "0 \<le> spos" and "0 < si" and "0 \<le> debt" and "0 < bi"
  defines "sf \<equiv> spos * si div RAY div asset_unit dec"
    and "dc \<equiv> ceil_div (ceil_div (debt * bi) RAY) (asset_unit dec)"
  shows "resolve_net_settle amount spos debt si bi dec = Inr (bs, bd, settle) \<longleftrightarrow>
    in_i128 (spos * si div RAY) \<and> in_i128 (ceil_div (debt * bi) RAY) \<and>
    (if min (min amount sf) dc \<le> 0 then bs = 0 \<and> bd = 0 \<and> settle = 0
     else settle = min (min amount sf) dc \<and>
       (if settle = sf then bs = spos
        else in_i128 (settle * asset_unit dec) \<and> in_i128 (ceil_div (settle * asset_unit dec * RAY) si) \<and>
          bs = min (ceil_div (settle * asset_unit dec * RAY) si) spos) \<and>
       (if settle = dc then bd = debt
        else in_i128 (settle * asset_unit dec) \<and> in_i128 (settle * asset_unit dec * RAY div bi) \<and>
          bd = min (settle * asset_unit dec * RAY div bi) debt))"
proof -
  have 1: "unscale_supply_floor spos si dec = Inr a \<longleftrightarrow> in_i128 (spos * si div RAY) \<and> a = sf" for a
    using assms(2,3) by (simp add: unscale_Inr [OF assms(1)] sf_def)
  have 2: "unscale_borrow_ceil debt bi dec = Inr a \<longleftrightarrow> in_i128 (ceil_div (debt * bi) RAY) \<and> a = dc" for a
    using assms(4,5) by (simp add: unscale_Inr [OF assms(1)] dc_def)
  have 3: "(if s = sf then Inr spos
        else rbind (calculate_scaled_supply_ceil s dec si) (\<lambda>b. Inr (min b spos))) = Inr x \<longleftrightarrow>
      (if s = sf then x = spos else in_i128 (s * asset_unit dec) \<and>
        in_i128 (ceil_div (s * asset_unit dec * RAY) si) \<and>
        x = min (ceil_div (s * asset_unit dec * RAY) si) spos)" for s x
    using assms(3) by (auto simp: res_iff scaled_Inr [OF assms(1)])
  have 4: "(if s = dc then Inr debt
        else rbind (calculate_scaled_borrow_floor s dec bi) (\<lambda>b. Inr (min b debt))) = Inr x \<longleftrightarrow>
      (if s = dc then x = debt else in_i128 (s * asset_unit dec) \<and>
        in_i128 (s * asset_unit dec * RAY div bi) \<and> x = min (s * asset_unit dec * RAY div bi) debt)" for s x
    using assms(5) by (auto simp: res_iff scaled_Inr [OF assms(1)])
  define m where "m = min (min amount sf) dc"
  have 5: "(if m \<le> 0 then Inr (0, 0, 0) else rbind A (\<lambda>b. rbind B (\<lambda>d. Inr (b, d, m)))) = Inr (bs, bd, settle) \<longleftrightarrow>
     (if m \<le> 0 then bs = 0 \<and> bd = 0 \<and> settle = 0 else settle = m \<and> A = Inr bs \<and> B = Inr bd)" for A B
    by (auto simp: res_iff)
  show ?thesis
    unfolding resolve_net_settle_def Let_def res_iff 1 2
    by (simp only: ex_simps simp_thms 5 3 4 conj_assoc m_def [symmetric] cong: if_cong conj_cong)
qed

lemma resolve_withdrawal_facts:
  assumes res: "resolve_withdrawal amount pos i dec = Inr (burned, gross)"
    and dec: "dec \<le> WAD_DECIMALS" and pos: "0 \<le> pos" and i: "0 < i" and amt: "0 \<le> amount"
  shows "gross * asset_unit dec * RAY \<le> burned * i" and "0 \<le> burned" and "burned \<le> pos"
    and "0 \<le> gross" and "gross \<le> amount"
proof -
  let ?u = "asset_unit dec"
  let ?full = "half_up_div (half_up_div (pos * i) RAY) ?u"
  have u: "0 < ?u" by simp
  from res consider
      (full) "?full \<le> amount" "burned = pos" "gross = pos * i div RAY div ?u"
    | (part) "amount < ?full" "burned = ceil_div (amount * ?u * RAY) i" "gross = amount"
    unfolding resolve_withdrawal_Inr [OF dec pos i] by (meson not_le)
  then have "gross * ?u * RAY \<le> burned * i \<and> 0 \<le> burned \<and> burned \<le> pos \<and> 0 \<le> gross \<and> gross \<le> amount"
  proof cases
    case full
    have "pos * i div RAY div ?u \<le> half_up_div (pos * i) RAY div ?u"
      using floor_le_half_up [of RAY "pos * i"] by (intro zdiv_mono1) auto
    also have "\<dots> \<le> ?full" by (intro floor_le_half_up) simp
    finally have "gross \<le> amount" using full by simp
    moreover have "0 \<le> pos * i div RAY div ?u" using pos i by (simp add: pos_imp_zdiv_nonneg_iff)
    ultimately show ?thesis using full pos floor_value_le [OF u, of "pos * i"] by simp
  next
    case part
    have "amount * ?u * RAY \<le> pos * i"
      using below_half_up_value [OF asset_unit_ge [OF dec] part(1)] .
    with part i amt show ?thesis
      using ceil_bounds [OF i, of "amount * ?u * RAY"]
      by (auto simp: ceil_le_iff nonneg_quotients)
  qed
  then show "gross * ?u * RAY \<le> burned * i" and "0 \<le> burned" and "burned \<le> pos"
    and "0 \<le> gross" and "gross \<le> amount" by auto
qed

lemma resolve_repay_facts:
  assumes res: "resolve_repay amount pos i dec = Inr (burned, over)"
    and dec: "dec \<le> WAD_DECIMALS" and pos: "0 \<le> pos" and i: "0 < i" and amt: "0 \<le> amount"
  shows "burned * i \<le> (amount - over) * asset_unit dec * RAY" and "0 \<le> burned" and "burned \<le> pos"
    and "0 \<le> over" and "over \<le> amount"
proof -
  let ?u = "asset_unit dec"
  let ?full = "ceil_div (ceil_div (pos * i) RAY) ?u"
  have u: "0 < ?u" by simp
  have nn: "0 \<le> ?full" using pos i by (simp add: nonneg_quotients)
  from res consider
      (full) "?full \<le> amount" "burned = pos" "over = amount - ?full"
    | (part) "amount < ?full" "burned = amount * ?u * RAY div i" "over = 0"
    unfolding resolve_repay_Inr [OF dec pos i] by (meson not_le)
  then have "burned * i \<le> (amount - over) * ?u * RAY \<and> 0 \<le> burned \<and> burned \<le> pos \<and> 0 \<le> over \<and> over \<le> amount"
  proof cases
    case full
    then show ?thesis using nn pos ceil_value_ge [OF u, of "pos * i"] by simp
  next
    case part
    have "amount * ?u * RAY < pos * i"
      using part(1) ceil_value_le_iff [OF u, of "pos * i" amount] by linarith
    with part i amt show ?thesis
      using floor_bounds [OF i, of "amount * ?u * RAY"]
      by (auto simp: floor_le_iff pos_imp_zdiv_nonneg_iff distrib_right)
  qed
  then show "burned * i \<le> (amount - over) * ?u * RAY" and "0 \<le> burned" and "burned \<le> pos"
    and "0 \<le> over" and "over \<le> amount" by auto
qed

lemma resolve_net_settle_facts:
  assumes res: "resolve_net_settle amount spos debt si bi dec = Inr (bs, bd, settle)"
    and dec: "dec \<le> WAD_DECIMALS" and pos: "0 \<le> spos" "0 \<le> debt" and i: "0 < si" "0 < bi"
    and amt: "0 \<le> amount"
  shows "settle * asset_unit dec * RAY \<le> bs * si" and "bd * bi \<le> settle * asset_unit dec * RAY"
    and "0 \<le> bs" and "bs \<le> spos" and "0 \<le> bd" and "bd \<le> debt" and "0 \<le> settle" and "settle \<le> amount"
proof -
  let ?u = "asset_unit dec"
  let ?sf = "spos * si div RAY div ?u" and ?dc = "ceil_div (ceil_div (debt * bi) RAY) ?u"
  define m where "m = min (min amount ?sf) ?dc"
  have u: "0 < ?u" by simp
  have m: "m \<le> amount" "m \<le> ?sf" "m \<le> ?dc" by (auto simp: m_def)
  note R = res [unfolded resolve_net_settle_Inr [OF dec pos(1) i(1) pos(2) i(2)], folded m_def]
  have "settle * ?u * RAY \<le> bs * si \<and> bd * bi \<le> settle * ?u * RAY \<and> 0 \<le> bs \<and> bs \<le> spos \<and>
      0 \<le> bd \<and> bd \<le> debt \<and> 0 \<le> settle \<and> settle \<le> amount"
  proof (cases "m \<le> 0")
    case True
    with R pos amt show ?thesis by simp
  next
    case False
    from R False have "settle = m" by simp
    with False have st: "0 < settle" "settle \<le> amount" "settle \<le> ?sf" "settle \<le> ?dc" using m by simp_all
    from R False have bs: "bs = (if settle = ?sf then spos else min (ceil_div (settle * ?u * RAY) si) spos)"
      by presburger
    from R False have bd: "bd = (if settle = ?dc then debt else min (settle * ?u * RAY div bi) debt)"
      by presburger
    have sv: "settle * ?u * RAY \<le> spos * si" using st floor_value_ge_iff [OF u, of settle "spos * si"] by auto
    then have "ceil_div (settle * ?u * RAY) si \<le> spos" using i by (simp add: ceil_le_iff)
    moreover have "settle * ?u * RAY \<le> ceil_div (settle * ?u * RAY) si * si"
      using ceil_bounds [OF i(1)] by blast
    moreover have "0 < ceil_div (settle * ?u * RAY) si" using st i by (intro pos_ceil) auto
    ultimately have S: "settle * ?u * RAY \<le> bs * si \<and> 0 \<le> bs \<and> bs \<le> spos"
      using bs sv pos by (auto simp: min_def)
    have dv: "settle * ?u * RAY div bi * bi \<le> settle * ?u * RAY" using floor_bounds [OF i(2)] by blast
    have "min (settle * ?u * RAY div bi) debt * bi \<le> settle * ?u * RAY div bi * bi"
      using i by (intro mult_right_mono) auto
    moreover have "0 \<le> settle * ?u * RAY div bi" using st i by (simp add: pos_imp_zdiv_nonneg_iff)
    ultimately have "bd * bi \<le> settle * ?u * RAY \<and> 0 \<le> bd \<and> bd \<le> debt"
      using bd dv pos ceil_value_ge [OF u, of "debt * bi"] by (auto split: if_splits)
    with S st amt show ?thesis by auto
  qed
  then show "settle * ?u * RAY \<le> bs * si" and "bd * bi \<le> settle * ?u * RAY"
    and "0 \<le> bs" and "bs \<le> spos" and "0 \<le> bd" and "bd \<le> debt" and "0 \<le> settle" and "settle \<le> amount"
    by auto
qed

end
