(* ===== verification/Rates_Simulate.thy ===== *)
theory Rates_Simulate
  imports Rates_Scaling
begin

text \<open>
  \<^verbatim>\<open>src/common/src/rates/simulate.rs\<close>: one accrual step, and the read-only projection of a
  market's indexes that chunks the elapsed time. A step never lowers an index, never passes a
  ceiling, and never credits suppliers and protocol with more than borrowers were charged
  (INV-IDX-05); for a book whose values fit an \<^verbatim>\<open>i128\<close> with room for one year of interest it
  always returns.
\<close>

section \<open>Definitions\<close>

record accrual_step =
  as_borrow_index :: ray
  as_supply_index :: ray
  as_revenue_shares :: ray

definition accrue_step ::
    "market_params \<Rightarrow> ray \<Rightarrow> ray \<Rightarrow> ray \<Rightarrow> ray \<Rightarrow> nat \<Rightarrow> accrual_step res" where
  "accrue_step params borrowed supplied borrow_index supply_index delta_ms =
     rbind (scaled_to_original borrowed borrow_index) (\<lambda>borrowed_original.
     rbind (scaled_to_original supplied supply_index) (\<lambda>supplied_original.
     rbind (utilization borrowed_original supplied_original) (\<lambda>util.
     rbind (calculate_borrow_rate util params) (\<lambda>borrow_rate.
     rbind (compound_interest borrow_rate delta_ms) (\<lambda>interest_factor.
     rbind (update_borrow_index borrow_index interest_factor) (\<lambda>new_borrow_index.
     rbind (calculate_supplier_rewards params borrowed new_borrow_index borrow_index)
       (\<lambda>(supplier_rewards, protocol_fee).
     rbind (update_supply_index supplied supply_index supplier_rewards) (\<lambda>new_supply_index.
     rbind (supply_index_reward_shortfall supplied supply_index new_supply_index supplier_rewards)
       (\<lambda>supplier_shortfall.
     rbind (ray_checked_add protocol_fee supplier_shortfall) (\<lambda>protocol_reward.
     rbind (if protocol_reward = 0 then Inr 0
            else protocol_fee_shares protocol_reward new_supply_index supplied) (\<lambda>revenue_shares.
     Inr \<lparr> as_borrow_index = new_borrow_index, as_supply_index = new_supply_index,
           as_revenue_shares = revenue_shares \<rparr>)))))))))))"

function simulate_loop ::
    "market_params \<Rightarrow> ray \<Rightarrow> ray \<Rightarrow> ray \<Rightarrow> ray \<Rightarrow> nat \<Rightarrow> market_index res" where
  "simulate_loop params borrowed supplied borrow_index supply_index remaining =
     (if remaining > 0 then
        (let chunk = min remaining MAX_COMPOUND_DELTA_MS in
         rbind (accrue_step params borrowed supplied borrow_index supply_index chunk) (\<lambda>step.
         rbind (ray_checked_add supplied (as_revenue_shares step)) (\<lambda>supplied'.
         simulate_loop params borrowed supplied' (as_borrow_index step) (as_supply_index step)
           (remaining - chunk))))
      else Inr \<lparr> mi_borrow_index = borrow_index, mi_supply_index = supply_index \<rparr>)"
  by pat_completeness auto

termination
  by (relation "measure (\<lambda>(_, _, _, _, _, remaining). remaining)")
    (auto simp: MAX_COMPOUND_DELTA_MS_def MILLISECONDS_PER_YEAR_def)

declare simulate_loop.simps [simp del]

definition simulate_update_indexes :: "nat \<Rightarrow> pool_sync_data \<Rightarrow> market_index res" where
  "simulate_update_indexes current_timestamp sync =
     (let state = sync_state sync;
          total_delta_ms = current_timestamp - ps_last_timestamp state in
      if total_delta_ms = 0 then
        Inr \<lparr> mi_borrow_index = ps_borrow_index state, mi_supply_index = ps_supply_index state \<rparr>
      else simulate_loop (market_params_of_raw (sync_params sync)) (ps_borrowed state)
             (ps_supplied state) (ps_borrow_index state) (ps_supply_index state) total_delta_ms)"

section \<open>The market book\<close>

text \<open>
  \<open>book_ok\<close> is the part of the market invariant that accrual needs; \<open>book_gap\<close> is what suppliers
  are owed beyond what borrowers owe, exact, in units of \<open>1 / RAY\<close> of a ray.
\<close>

definition book_ok :: "ray \<Rightarrow> ray \<Rightarrow> ray \<Rightarrow> ray \<Rightarrow> bool" where
  "book_ok borrowed supplied bi si \<longleftrightarrow>
     0 \<le> borrowed \<and> 0 \<le> supplied \<and> supplied \<le> i128_max \<and>
     RAY \<le> bi \<and> bi \<le> MAX_BORROW_INDEX_RAY \<and>
     SUPPLY_INDEX_FLOOR_RAW \<le> si \<and> si \<le> MAX_SUPPLY_INDEX_RAY"

definition book_gap :: "ray \<Rightarrow> ray \<Rightarrow> ray \<Rightarrow> ray \<Rightarrow> int" where
  "book_gap borrowed supplied bi si = supplied * si - borrowed * bi"

lemma book_ok_pos:
  assumes "book_ok b s bi si"
  shows "0 < bi" and "0 < si" and "0 \<le> b" and "0 \<le> s"
  using assms scale_pos(1) index_bounds_pos(1) unfolding book_ok_def by linarith+

section \<open>One accrual step\<close>

lemma accrue_step_elim:
  assumes "accrue_step p b s bi si delta = Inr st"
  obtains util rate f rewards fee where
    "0 \<le> util" "calculate_borrow_rate util p = Inr rate" "compound_interest rate delta = Inr f"
    "update_borrow_index bi f = Inr (as_borrow_index st)"
    "calculate_supplier_rewards p b (as_borrow_index st) bi = Inr (rewards, fee)"
    "update_supply_index s si rewards = Inr (as_supply_index st)"
    "supply_index_reward_shortfall s si (as_supply_index st) rewards = Inr
       (rewards - (half_up_div (s * as_supply_index st) RAY - half_up_div (s * si) RAY))"
    "(if fee + (rewards - (half_up_div (s * as_supply_index st) RAY - half_up_div (s * si) RAY)) = 0
      then Inr 0
      else protocol_fee_shares (fee + (rewards - (half_up_div (s * as_supply_index st) RAY
        - half_up_div (s * si) RAY))) (as_supply_index st) s) = Inr (as_revenue_shares st)"
proof -
  from assms obtain bo so util rate f nbi rewards fee nsi sf where
    1: "scaled_to_original b bi = Inr bo" "utilization bo so = Inr util"
      "calculate_borrow_rate util p = Inr rate" "compound_interest rate delta = Inr f"
      "update_borrow_index bi f = Inr nbi" "calculate_supplier_rewards p b nbi bi = Inr (rewards, fee)"
      "update_supply_index s si rewards = Inr nsi"
    and so: "scaled_to_original s si = Inr so"
    and sf: "supply_index_reward_shortfall s si nsi rewards = Inr sf"
    and st: "(if fee + sf = 0 then Inr 0 else protocol_fee_shares (fee + sf) nsi s) = Inr (as_revenue_shares st)"
      "as_borrow_index st = nbi" "as_supply_index st = nsi"
    unfolding accrue_step_def by (auto simp: rbind_Inr_iff ray_Inr)
  from 1 so have "0 \<le> bo" "0 \<le> so" by (auto simp: scaled_to_original_def res_iff nonneg_quotients)
  with 1 have "0 \<le> util" by (auto simp: utilization_def res_iff nonneg_quotients split: if_splits)
  moreover from sf have "sf = rewards - (half_up_div (s * nsi) RAY - half_up_div (s * si) RAY)"
    by (auto simp: supply_index_reward_shortfall_def res_iff)
  ultimately show ?thesis using that 1 sf st by metis
qed

lemma accrue_step_factor:
  assumes "params_ok p" and "0 \<le> util" and "delta \<le> MAX_COMPOUND_DELTA_MS"
    and "calculate_borrow_rate util p = Inr rate" and "compound_interest rate delta = Inr f"
  shows "RAY \<le> f" and "f \<le> 21 * RAY"
proof -
  note e = step_exponent_bound [OF assms(1,2,3,4)]
  from compound_interest_total [OF e] assms(5) have "RAY + rate * int delta \<le> f" "f \<le> 21 * RAY" by auto
  with e show "RAY \<le> f" and "f \<le> 21 * RAY" by linarith+
qed

lemma accrue_step_sound:
  assumes step: "accrue_step p b s bi si delta = Inr st"
    and p: "params_ok p" and book: "book_ok b s bi si" and d: "delta \<le> MAX_COMPOUND_DELTA_MS"
  shows "bi \<le> as_borrow_index st" and "as_borrow_index st \<le> MAX_BORROW_INDEX_RAY"
    and "si \<le> as_supply_index st" and "as_supply_index st \<le> MAX_SUPPLY_INDEX_RAY"
    and "0 \<le> as_revenue_shares st" and "s + as_revenue_shares st \<le> i128_max"
    and "(half_up_div (s * as_supply_index st) RAY - half_up_div (s * si) RAY) * RAY
           + as_revenue_shares st * as_supply_index st
         \<le> (half_up_div (b * as_borrow_index st) RAY - half_up_div (b * bi) RAY) * RAY"
proof -
  note B = book_ok_pos [OF book]
  from step obtain util rate f rewards fee where
    u: "0 \<le> util" "calculate_borrow_rate util p = Inr rate" "compound_interest rate delta = Inr f"
    and bi: "update_borrow_index bi f = Inr (as_borrow_index st)"
    and sp: "calculate_supplier_rewards p b (as_borrow_index st) bi = Inr (rewards, fee)"
    and si: "update_supply_index s si rewards = Inr (as_supply_index st)"
    and rev: "(if fee + (rewards - (half_up_div (s * as_supply_index st) RAY - half_up_div (s * si) RAY)) = 0
      then Inr 0
      else protocol_fee_shares (fee + (rewards - (half_up_div (s * as_supply_index st) RAY
        - half_up_div (s * si) RAY))) (as_supply_index st) s) = Inr (as_revenue_shares st)"
    by (elim accrue_step_elim)
  show bi': "bi \<le> as_borrow_index st" "as_borrow_index st \<le> MAX_BORROW_INDEX_RAY"
    using update_borrow_index_bounds [OF bi] accrue_step_factor [OF p u(1) d u(2,3)] book
    by (auto simp: book_ok_def)
  note split = supplier_rewards_split [OF sp p]
  have maxsi: "si \<le> MAX_SUPPLY_INDEX_RAY" using book by (simp add: book_ok_def)
  note S = update_supply_index_bounds [OF si B(4) B(2) maxsi split(2)]
  from S show si': "si \<le> as_supply_index st" "as_supply_index st \<le> MAX_SUPPLY_INDEX_RAY" by auto
  define fee' where "fee' = fee + (rewards - (half_up_div (s * as_supply_index st) RAY - half_up_div (s * si) RAY))"
  have f0: "0 \<le> fee'" using S split unfolding fee'_def by linarith
  have "0 \<le> as_revenue_shares st \<and> s + as_revenue_shares st \<le> i128_max \<and>
      as_revenue_shares st * as_supply_index st \<le> fee' * RAY"
  proof (cases "fee' = 0")
    case True
    then show ?thesis using rev book by (simp add: fee'_def book_ok_def)
  next
    case False
    then show ?thesis
      using rev f0 protocol_fee_shares_value [of fee' "as_supply_index st" s] B si' book
      by (auto simp: fee'_def [symmetric] book_ok_def)
  qed
  then show "0 \<le> as_revenue_shares st" and "s + as_revenue_shares st \<le> i128_max"
    and "(half_up_div (s * as_supply_index st) RAY - half_up_div (s * si) RAY) * RAY
           + as_revenue_shares st * as_supply_index st
         \<le> (half_up_div (b * as_borrow_index st) RAY - half_up_div (b * bi) RAY) * RAY"
    using arg_cong [OF split(1), of "\<lambda>x. x * RAY"] by (auto simp: fee'_def algebra_simps)
qed

lemma accrue_step_book_ok:
  assumes "accrue_step p b s bi si delta = Inr st" and "params_ok p" and "book_ok b s bi si"
    and "delta \<le> MAX_COMPOUND_DELTA_MS"
  shows "book_ok b (s + as_revenue_shares st) (as_borrow_index st) (as_supply_index st)"
  using accrue_step_sound(1-6) [OF assms] assms(3) by (auto simp: book_ok_def)

lemma accrue_step_gap:
  assumes "accrue_step p b s bi si delta = Inr st" and "params_ok p" and "book_ok b s bi si"
    and "delta \<le> MAX_COMPOUND_DELTA_MS"
  shows "book_gap b (s + as_revenue_shares st) (as_borrow_index st) (as_supply_index st)
       \<le> book_gap b s bi si + 2 * RAY"
  using accrue_step_sound(7) [OF assms]
    half_up_bounds [of RAY "s * as_supply_index st"] half_up_bounds [of RAY "s * si"]
    half_up_bounds [of RAY "b * as_borrow_index st"] half_up_bounds [of RAY "b * bi"] RAY_even
  unfolding book_gap_def by (simp add: algebra_simps)

lemma borrow_index_step_le:
  assumes "update_borrow_index bi f = Inr n" and "f \<le> 21 * RAY"
  shows "n \<le> 21 * bi"
proof -
  have n: "n \<le> half_up_div (bi * f) RAY" and bi: "0 \<le> bi"
    using assms(1) by (auto simp: update_borrow_index_def res_iff split: if_splits)
  have "bi * f \<le> (21 * bi) * RAY" using mult_left_mono [OF assms(2) bi] by (simp add: mult_ac)
  then show ?thesis using n half_up_mono [of RAY "bi * f" "(21 * bi) * RAY"] by simp
qed

lemma debt_value_step_le:
  assumes "0 \<le> b" and "n \<le> 21 * bi"
  shows "half_up_div (b * n) RAY \<le> 21 * half_up_div (b * bi) RAY + 11"
proof -
  have "b * n \<le> 21 * (b * bi)" using mult_left_mono [OF assms(2,1)] by (simp add: mult_ac)
  also have "\<dots> < (21 * half_up_div (b * bi) RAY + 11) * RAY"
    using half_up_bounds(2) [of RAY "b * bi"] by (simp add: RAY_def)
  finally show ?thesis
    using half_up_mono [of RAY "b * n" "(21 * half_up_div (b * bi) RAY + 11) * RAY"] by simp
qed

text \<open>
  A step over at most a year returns whenever the book's debt value is at most its supply value and
  the supply value plus twenty-two times the debt value fits an \<^verbatim>\<open>i128\<close>.
\<close>

lemma accrue_step_total:
  assumes p: "params_ok p" and book: "book_ok b s bi si" and d: "delta \<le> MAX_COMPOUND_DELTA_MS"
    and solvent: "half_up_div (b * bi) RAY \<le> half_up_div (s * si) RAY"
    and fits: "half_up_div (s * si) RAY + 21 * half_up_div (b * bi) RAY + 11 \<le> i128_max"
  shows "\<exists>st. accrue_step p b s bi si delta = Inr st"
proof -
  let ?D = "half_up_div (b * bi) RAY" and ?S = "half_up_div (s * si) RAY"
  note B = book_ok_pos [OF book]
  have nn: "0 \<le> ?D" "0 \<le> ?S" using B by (auto intro!: nonneg_quotients)
  have DS: "scaled_to_original b bi = Inr ?D" "scaled_to_original s si = Inr ?S"
    using B nn fits by (auto simp: scaled_to_original_def res_iff in_i128_nonneg)
  obtain util where util: "utilization ?D ?S = Inr util" "0 \<le> util"
  proof (cases "?S = 0")
    case True
    then show ?thesis using that [of 0] by (simp add: utilization_def)
  next
    case False
    have "?D * RAY \<le> ?S * RAY" using solvent by (intro mult_right_mono) auto
    then have "half_up_div (?D * RAY) ?S \<le> RAY"
      using half_up_mono [of ?S "?D * RAY" "?S * RAY"] False nn by auto
    then show ?thesis using that [of "half_up_div (?D * RAY) ?S"] False nn
      by (auto simp: utilization_def res_iff nonneg_quotients in_i128_iff RAY_def)
  qed
  obtain rate where rate: "calculate_borrow_rate util p = Inr rate"
    using calculate_borrow_rate_eq [OF p util(2)] by blast
  obtain f where f: "compound_interest rate delta = Inr f"
    using compound_interest_total [OF step_exponent_bound [OF p util(2) d rate]] by blast
  note F = accrue_step_factor [OF p util(2) d rate f]
  obtain nbi where nbi: "update_borrow_index bi f = Inr nbi" "bi \<le> nbi"
    using update_borrow_index_total [OF _ _ F] book by (auto simp: book_ok_def)
  let ?D' = "half_up_div (b * nbi) RAY"
  have D': "?D \<le> ?D'" "?D' \<le> 21 * ?D + 11"
    using half_up_mono [of RAY "b * bi" "b * nbi"] mult_left_mono [OF nbi(2) B(3)]
      debt_value_step_le [OF B(3) borrow_index_step_le [OF nbi(1) F(2)]] by auto
  define fee where "fee = half_up_div ((?D' - ?D) * reserve_factor p) BPS"
  define rewards where "rewards = ?D' - ?D - fee"
  have rf: "0 \<le> reserve_factor p" "reserve_factor p < BPS" using p by (auto simp: params_ok_def)
  have fee: "0 \<le> fee" "fee \<le> ?D' - ?D" using fee_le_interest [OF _ rf] D' by (auto simp: fee_def)
  have sp: "calculate_supplier_rewards p b nbi bi = Inr (rewards, fee)"
    using B nbi D' nn fits fee rf
    by (auto simp: calculate_supplier_rewards_def res_iff in_i128_nonneg fee_def rewards_def)
  have rw: "0 \<le> rewards" "rewards \<le> 20 * ?D + 11" using fee D' by (auto simp: rewards_def)
  have fit2: "in_i128 (?S + rewards)" "in_i128 rewards"
    using rw nn fits by (auto simp: in_i128_nonneg)
  obtain nsi where nsi: "update_supply_index s si rewards = Inr nsi"
  proof -
    have "ray_checked_add ?S rewards = Inr (?S + rewards)" using fit2 by (simp add: res_iff)
    then have "\<exists>n. update_supply_index s si rewards = Inr n"
      using DS(2) by (auto simp: update_supply_index_def scaled_to_original_def Let_def mul_div_floor_saturating_eq)
    then show ?thesis using that by blast
  qed
  have maxsi: "si \<le> MAX_SUPPLY_INDEX_RAY" using book by (simp add: book_ok_def)
  note S = update_supply_index_bounds [OF nsi B(4) B(2) maxsi rw(1)]
  let ?sf = "rewards - (half_up_div (s * nsi) RAY - ?S)"
  have sf: "supply_index_reward_shortfall s si nsi rewards = Inr ?sf"
    by (rule reward_shortfall_value [OF nsi B(4) B(2) maxsi rw(1) fit2])
  have tot: "in_i128 (fee + ?sf)" "0 \<le> fee + ?sf"
    using S fee D' nn fits rw by (auto simp: in_i128_nonneg rewards_def)
  have s_max: "s \<le> i128_max" and "0 < nsi" using book B S by (auto simp: book_ok_def)
  then obtain rv where "(if fee + ?sf = 0 then Inr 0 else protocol_fee_shares (fee + ?sf) nsi s) = Inr rv"
    using protocol_fee_shares_value [OF tot(2) _ B(4) s_max] by (metis (full_types))
  then show ?thesis
    using tot by (simp add: accrue_step_def DS util rate f nbi sp nsi sf ray_checked_add_def
        checked_add_raw_def i128_checked_add_def to_i128_opt_def cong: if_cong)
qed

section \<open>The projection loop\<close>

text \<open>
  \<open>loop_chunks\<close> counts the accrual chunks of an interval; each may let the gap drift by two rays.
\<close>

definition loop_chunks :: "nat \<Rightarrow> nat" where
  "loop_chunks remaining = (remaining + MAX_COMPOUND_DELTA_MS - 1) div MAX_COMPOUND_DELTA_MS"

lemma chunk_pos [simp]: "0 < MAX_COMPOUND_DELTA_MS"
  by (simp add: MAX_COMPOUND_DELTA_MS_def MILLISECONDS_PER_YEAR_def)

lemma loop_chunks_0 [simp]: "loop_chunks 0 = 0"
  unfolding loop_chunks_def by (rule div_less) simp

lemma loop_chunks_Suc:
  assumes "0 < remaining"
  shows "loop_chunks remaining = Suc (loop_chunks (remaining - min remaining MAX_COMPOUND_DELTA_MS))"
proof (cases "remaining \<le> MAX_COMPOUND_DELTA_MS")
  case True
  have "remaining + MAX_COMPOUND_DELTA_MS - 1 = (remaining - 1) + MAX_COMPOUND_DELTA_MS" using assms by linarith
  moreover have "(remaining - 1) div MAX_COMPOUND_DELTA_MS = 0" using True assms by (intro div_less) linarith
  ultimately have "loop_chunks remaining = Suc 0"
    unfolding loop_chunks_def using div_add_self2 [of MAX_COMPOUND_DELTA_MS "remaining - 1"] chunk_pos by (metis One_nat_def add_0 less_numeral_extra(3))
  moreover have "remaining - min remaining MAX_COMPOUND_DELTA_MS = 0" using True by linarith
  ultimately show ?thesis by simp
next
  case False
  then have "remaining + MAX_COMPOUND_DELTA_MS - 1 =
      (remaining - MAX_COMPOUND_DELTA_MS + MAX_COMPOUND_DELTA_MS - 1) + MAX_COMPOUND_DELTA_MS"
    using chunk_pos by linarith
  moreover have "min remaining MAX_COMPOUND_DELTA_MS = MAX_COMPOUND_DELTA_MS" using False by linarith
  ultimately show ?thesis
    unfolding loop_chunks_def
    using div_add_self2 [of MAX_COMPOUND_DELTA_MS "remaining - MAX_COMPOUND_DELTA_MS + MAX_COMPOUND_DELTA_MS - 1"] chunk_pos
    by (metis Suc_eq_plus1 less_numeral_extra(3))
qed

lemma simulate_loop_sound:
  assumes "simulate_loop p b s bi si remaining = Inr ix" and "params_ok p" and "book_ok b s bi si"
  shows "bi \<le> mi_borrow_index ix \<and> mi_borrow_index ix \<le> MAX_BORROW_INDEX_RAY \<and>
    si \<le> mi_supply_index ix \<and> mi_supply_index ix \<le> MAX_SUPPLY_INDEX_RAY"
  using assms
proof (induction p b s bi si remaining rule: simulate_loop.induct)
  case (1 p b s bi si remaining)
  show ?case
  proof (cases "remaining > 0")
    case False
    with 1(2-4) show ?thesis by (auto simp: simulate_loop.simps book_ok_def)
  next
    case True
    let ?c = "min remaining MAX_COMPOUND_DELTA_MS"
    from 1(2) True obtain st s' where st: "accrue_step p b s bi si ?c = Inr st"
      and s': "ray_checked_add s (as_revenue_shares st) = Inr s'"
      and rest: "simulate_loop p b s' (as_borrow_index st) (as_supply_index st) (remaining - ?c) = Inr ix"
      by (subst (asm) simulate_loop.simps) (auto simp: Let_def rbind_Inr_iff)
    have "s' = s + as_revenue_shares st" using s' by (simp add: res_iff)
    then have "book_ok b s' (as_borrow_index st) (as_supply_index st)"
      using accrue_step_book_ok [OF st 1(3,4)] by simp
    from 1(1) [OF True refl st s' rest 1(3) this] accrue_step_sound(1,3) [OF st 1(3,4)]
    show ?thesis by simp
  qed
qed

lemma simulate_update_indexes_sound:
  assumes "simulate_update_indexes now sync = Inr ix"
    and "params_ok (market_params_of_raw (sync_params sync))"
    and "book_ok (ps_borrowed (sync_state sync)) (ps_supplied (sync_state sync))
           (ps_borrow_index (sync_state sync)) (ps_supply_index (sync_state sync))"
  shows "ps_borrow_index (sync_state sync) \<le> mi_borrow_index ix \<and> mi_borrow_index ix \<le> MAX_BORROW_INDEX_RAY \<and>
    ps_supply_index (sync_state sync) \<le> mi_supply_index ix \<and> mi_supply_index ix \<le> MAX_SUPPLY_INDEX_RAY"
  using assms simulate_loop_sound [OF _ assms(2,3)]
  by (auto simp: simulate_update_indexes_def Let_def book_ok_def split: if_splits)

end
