(* ===== verification/Validation.thy ===== *)
theory Validation
  imports Pool_Types
begin

text \<open>
  \<^verbatim>\<open>src/common/src/validation.rs\<close>: the guards the contracts share. The executable kind of an
  address is host state, so \<open>require_wasm_receiver\<close> takes the answer of the host as an argument.
\<close>

section \<open>Definitions\<close>

definition require_positive_amount :: "int \<Rightarrow> unit res" where
  "require_positive_amount amount = assert_with_error (amount > 0) (Generic AmountMustBePositive)"

definition require_nonneg_amount :: "int \<Rightarrow> unit res" where
  "require_nonneg_amount amount = assert_with_error (amount \<ge> 0) (Generic AmountMustBePositive)"

definition expect_invariant :: "'a option \<Rightarrow> 'a res" where
  "expect_invariant opt = unwrap_or_panic opt (Generic InternalError)"

definition require_non_empty_payments :: "'a list \<Rightarrow> unit res" where
  "require_non_empty_payments payments = assert_with_error (payments \<noteq> []) (Generic InvalidPayments)"

definition max_cap_for_decimals :: "nat \<Rightarrow> int res" where
  "max_cap_for_decimals decimals =
     (if decimals > RAY_DECIMALS then Inr 0
      else case i128_checked_pow10 (RAY_DECIMALS - decimals) of
             None \<Rightarrow> Inl (Host ArithmeticTrap)
           | Some upscale \<Rightarrow> Inr (i128_max sdiv upscale))"

definition require_cap_within_asset_domain :: "int \<Rightarrow> nat \<Rightarrow> unit res" where
  "require_cap_within_asset_domain cap decimals =
     (if decimals > RAY_DECIMALS then Inl (Collateral AssetDecimalsTooHigh)
      else rbind (max_cap_for_decimals decimals) (\<lambda>m.
           assert_with_error (cap \<le> m) (Collateral InvalidBorrowParams)))"

definition require_wasm_receiver :: "bool \<Rightarrow> unit res" where
  "require_wasm_receiver is_wasm = assert_with_error is_wasm (FlashLoan InvalidFlashloanReceiver)"

definition validate_liquidation_fees :: "nat \<Rightarrow> unit res" where
  "validate_liquidation_fees fees_bps = assert_with_error (int fees_bps < BPS) (Collateral InvalidLiqThreshold)"

definition validate_risk_bounds :: "nat \<Rightarrow> nat \<Rightarrow> nat \<Rightarrow> unit res" where
  "validate_risk_bounds ltv threshold bonus =
     (let ltv = int ltv; threshold = int threshold; bonus = int bonus in
      rbind (assert_with_error (threshold > ltv \<and> threshold \<le> BPS) (Collateral InvalidLiqThreshold)) (\<lambda>_.
      rbind (native (BPS + bonus)) (\<lambda>g.
      rbind (native (threshold * g)) (\<lambda>lhs.
      rbind (native (BPS * BPS)) (\<lambda>rhs.
      assert_with_error (lhs \<le> rhs) (Collateral InvalidLiqThreshold))))))"

definition validate_liquidation_curve :: "int \<Rightarrow> int \<Rightarrow> nat \<Rightarrow> unit res" where
  "validate_liquidation_curve target_hf_wad hf_for_max_bonus_wad bonus_factor_bps =
     rbind (assert_with_error (target_hf_wad > WAD \<and> target_hf_wad \<le> MAX_LIQUIDATION_TARGET_HF_WAD)
              (Collateral InvalidLiquidationCurve)) (\<lambda>_.
     rbind (assert_with_error (hf_for_max_bonus_wad > 0 \<and> hf_for_max_bonus_wad < target_hf_wad)
              (Collateral InvalidLiquidationCurve)) (\<lambda>_.
     assert_with_error (bonus_factor_bps > 0 \<and> int bonus_factor_bps \<le> BPS)
       (Collateral InvalidLiquidationCurve)))"

record oracle_tolerance =
  upper_ratio_bps :: nat
  lower_ratio_bps :: nat

definition validate_oracle_tolerance :: "oracle_tolerance \<Rightarrow> unit res" where
  "validate_oracle_tolerance tol =
     (let bps = nat BPS in
      rbind (assert_with_error
               (upper_ratio_bps tol \<ge> bps + MIN_TOLERANCE \<and> upper_ratio_bps tol \<le> bps + MAX_TOLERANCE \<and>
                lower_ratio_bps tol \<ge> bps - MAX_TOLERANCE \<and> lower_ratio_bps tol \<le> bps)
               (Oracle BadLastTolerance)) (\<lambda>_.
      rbind (mul_div_half_up BPS BPS (int (upper_ratio_bps tol))) (\<lambda>expected_lower.
      assert_with_error (int (lower_ratio_bps tol) = expected_lower) (Oracle BadLastTolerance))))"

definition MAX_TWAP_RECORDS :: nat where
  "MAX_TWAP_RECORDS = 12"

definition MAX_SINGLE_SOURCE_SANITY_BAND_BPS :: int where
  "MAX_SINGLE_SOURCE_SANITY_BAND_BPS = 1000"

definition MAX_LP_SANITY_BAND_BPS :: int where
  "MAX_LP_SANITY_BAND_BPS = 8182"

definition validate_sanity_bounds :: "int \<Rightarrow> int \<Rightarrow> unit res" where
  "validate_sanity_bounds min_wad max_wad =
     rbind (assert_with_error
              (min_wad > 0 \<and> max_wad > 0 \<and> min_wad < max_wad \<and> max_wad \<le> MAX_REASONABLE_PRICE_WAD)
              (Oracle InvalidSanityBounds)) (\<lambda>_.
     rbind (native (max_wad - min_wad)) (\<lambda>width.
     rbind (native (max_wad + min_wad)) (\<lambda>mid2.
     rbind (mul_div_floor width BPS mid2) (\<lambda>half_width_bps.
     assert_with_error (half_width_bps \<ge> MIN_SANITY_BAND_BPS) (Oracle InvalidSanityBounds)))))"

definition validate_single_source_sanity_band :: "bool \<Rightarrow> int \<Rightarrow> int \<Rightarrow> unit res" where
  "validate_single_source_sanity_band is_dual min_wad max_wad =
     (if is_dual then Inr ()
      else rbind (native (max_wad - min_wad)) (\<lambda>width.
           rbind (native (max_wad + min_wad)) (\<lambda>mid2.
           rbind (mul_div_ceil width BPS mid2) (\<lambda>band_bps.
           assert_with_error (band_bps \<le> MAX_SINGLE_SOURCE_SANITY_BAND_BPS)
             (Oracle SanityBandTooWideForSingleSource)))))"

definition validate_lp_sanity_band :: "int \<Rightarrow> int \<Rightarrow> unit res" where
  "validate_lp_sanity_band min_wad max_wad =
     rbind (native (max_wad - min_wad)) (\<lambda>width.
     rbind (native (max_wad + min_wad)) (\<lambda>mid2.
     rbind (mul_div_ceil width BPS mid2) (\<lambda>band_bps.
     assert_with_error (band_bps \<le> MAX_LP_SANITY_BAND_BPS) (Oracle SanityBandTooWideForSingleSource))))"

definition validate_twap_records :: "nat \<Rightarrow> unit res" where
  "validate_twap_records records =
     rbind (assert_with_error (records \<noteq> 0) (Oracle TwapInsufficientObservations)) (\<lambda>_.
     assert_with_error (records \<le> MAX_TWAP_RECORDS) (Oracle TwapRecordsOutOfRange))"

section \<open>What the guards establish\<close>

lemma amount_guards_Inr [res_iff]:
  "require_positive_amount a = Inr u \<longleftrightarrow> 0 < a"
  "require_nonneg_amount a = Inr u \<longleftrightarrow> 0 \<le> a"
  by (simp_all add: require_positive_amount_def require_nonneg_amount_def res_iff)

lemma max_cap_for_decimals_eq:
  assumes "dec \<le> RAY_DECIMALS"
  shows "max_cap_for_decimals dec = Inr (i128_max div asset_unit dec)"
proof -
  have "in_i128 (asset_unit dec)" by (intro pow10_fits) (simp add: RAY_DECIMALS_def)
  with assms show ?thesis
    by (simp add: max_cap_for_decimals_def i128_checked_pow10_def to_i128_opt_def sdiv_nonneg)
qed

text \<open>An accepted cap never overflows the conversion to a ray.\<close>

lemma accepted_cap_converts:
  assumes "require_cap_within_asset_domain cap dec = Inr u" and "dec \<le> WAD_DECIMALS" and "0 \<le> cap"
  shows "ray_from_asset cap dec = Inr (cap * asset_unit dec)"
proof -
  have "dec \<le> RAY_DECIMALS" using assms(2) by (simp add: RAY_DECIMALS_def WAD_DECIMALS_def)
  then have "cap \<le> i128_max div asset_unit dec"
    using assms(1) by (auto simp: require_cap_within_asset_domain_def max_cap_for_decimals_eq res_iff split: if_splits)
  then have "cap * asset_unit dec \<le> i128_max" by (simp add: floor_ge_iff)
  then show ?thesis using assms by (simp add: ray_from_asset_Inr in_i128_nonneg)
qed

text \<open>
  A liquidation at an accepted threshold and bonus never seizes more than the threshold leaves as
  headroom: debt weighted by the bonus stays within collateral at full utilisation of the threshold.
\<close>

lemma validate_risk_bounds_Inr:
  assumes "ltv \<le> u32_max" and "threshold \<le> u32_max" and "bonus \<le> u32_max"
  shows "validate_risk_bounds ltv threshold bonus = Inr u \<longleftrightarrow>
    ltv < threshold \<and> int threshold \<le> BPS \<and> int threshold * (BPS + int bonus) \<le> BPS * BPS"
proof -
  have 1: "in_i128 (BPS + int bonus)" using assms(3) by (simp add: in_i128_iff BPS_def u32_max_def)
  have 2: "in_i128 (int threshold * (BPS + int bonus))" if "int threshold \<le> BPS"
  proof -
    have "int threshold * (BPS + int bonus) \<le> BPS * (BPS + int u32_max)"
      using that assms(3) by (intro mult_mono) (auto simp: BPS_def)
    moreover have "in_i128 (BPS * (BPS + int u32_max))" by (simp add: in_i128_iff BPS_def u32_max_def)
    moreover have "0 \<le> int threshold * (BPS + int bonus)" by (intro mult_nonneg_nonneg) (auto simp: BPS_def)
    ultimately show ?thesis by (rule in_i128_le [rotated 2])
  qed
  have 3: "in_i128 (BPS * BPS)" by (simp add: in_i128_iff BPS_def)
  show ?thesis
  proof (cases "ltv < threshold \<and> int threshold \<le> BPS")
    case True
    with 1 2 3 show ?thesis by (simp add: validate_risk_bounds_def Let_def native_def res_iff)
  next
    case False
    then show ?thesis by (auto simp: validate_risk_bounds_def Let_def rbind_Inr_iff assert_Inr_iff)
  qed
qed

end
