(* ===== verification/Pool_Cache.thy ===== *)
theory Pool_Cache
  imports Rates_Simulate Validation
begin

text \<open>
  The pool's environment and its market cache: \<^verbatim>\<open>src/contracts/pool/src/storage.rs\<close>,
  \<^verbatim>\<open>time.rs\<close> and \<^verbatim>\<open>cache/{mod,cash,scale,shares,report}.rs\<close>.

  \<open>'w host\<close> is what an entrypoint can read or change: the two persistent maps, the owner of the
  \<^verbatim>\<open>Ownable\<close> module, the contract's own address and code hash, the ledger time, the addresses that authorised
  the invocation, and \<open>'w\<close>, the state of every other contract. Other contracts are reached through
  \<open>'w externals\<close>, one function per call the pool makes; nothing is assumed of them here. The host
  forbids re-entering a contract that is on the call stack, so an external call changes \<open>'w\<close> only.
  A panic is an \<open>Inl\<close> and discards every write of the invocation. TTL extensions and events change
  no state that the code reads back and are left out.
\<close>

section \<open>Host state\<close>

type_synonym bytes = "nat list"

record 'w host =
  h_params :: "hub_asset_key \<rightharpoonup> market_params_raw"
  h_state :: "hub_asset_key \<rightharpoonup> pool_state"
  h_owner :: "address option"
  h_self :: address
  h_code :: bytes
  h_timestamp :: nat
  h_auth :: "address \<Rightarrow> bool"
  h_world :: 'w

record 'w externals =
  token_balance :: "address \<Rightarrow> address \<Rightarrow> 'w \<Rightarrow> int res"
  token_allowance :: "address \<Rightarrow> address \<Rightarrow> address \<Rightarrow> 'w \<Rightarrow> int res"
  token_transfer :: "address \<Rightarrow> address \<Rightarrow> address \<Rightarrow> int \<Rightarrow> 'w \<Rightarrow> 'w res"
  token_transfer_from :: "address \<Rightarrow> address \<Rightarrow> address \<Rightarrow> address \<Rightarrow> int \<Rightarrow> 'w \<Rightarrow> 'w res"
  executable_is_wasm :: "address \<Rightarrow> 'w \<Rightarrow> bool"
  execute_flash_loan ::
    "address \<Rightarrow> address \<Rightarrow> address \<Rightarrow> int \<Rightarrow> int \<Rightarrow> address \<Rightarrow> bytes \<Rightarrow> 'w \<Rightarrow> 'w res"

section \<open>Storage and time\<close>

definition market_exists :: "'w host \<Rightarrow> hub_asset_key \<Rightarrow> bool" where
  "market_exists h k \<longleftrightarrow> h_params h k \<noteq> None"

definition read_params :: "'w host \<Rightarrow> hub_asset_key \<Rightarrow> market_params_raw res" where
  "read_params h k = unwrap_or_panic (h_params h k) (Generic PoolNotInitialized)"

definition read_state :: "'w host \<Rightarrow> hub_asset_key \<Rightarrow> pool_state res" where
  "read_state h k = unwrap_or_panic (h_state h k) (Generic PoolNotInitialized)"

definition load_state :: "'w host \<Rightarrow> hub_asset_key \<Rightarrow> pool_state res" where
  "load_state h k = read_state h k"

definition load_sync_data :: "'w host \<Rightarrow> hub_asset_key \<Rightarrow> pool_sync_data res" where
  "load_sync_data h k =
     rbind (read_params h k) (\<lambda>params.
     rbind (read_state h k) (\<lambda>state.
     Inr \<lparr>sync_params = params, sync_state = state\<rparr>))"

definition write_params :: "'w host \<Rightarrow> hub_asset_key \<Rightarrow> market_params_raw \<Rightarrow> 'w host" where
  "write_params h k params = h\<lparr>h_params := (h_params h)(k \<mapsto> params)\<rparr>"

definition write_state :: "'w host \<Rightarrow> hub_asset_key \<Rightarrow> pool_state \<Rightarrow> 'w host" where
  "write_state h k state = h\<lparr>h_state := (h_state h)(k \<mapsto> state)\<rparr>"

definition write_rate_model ::
    "'w host \<Rightarrow> hub_asset_key \<Rightarrow> interest_rate_model \<Rightarrow> ('w host \<times> market_params_raw) res" where
  "write_rate_model h k model =
     rbind (read_params h k) (\<lambda>params.
     let params = params
       \<lparr>mpr_max_borrow_rate := irm_max_borrow_rate model,
        mpr_base_borrow_rate := irm_base_borrow_rate model,
        mpr_slope1 := irm_slope1 model,
        mpr_slope2 := irm_slope2 model,
        mpr_slope3 := irm_slope3 model,
        mpr_mid_utilization := irm_mid_utilization model,
        mpr_optimal_utilization := irm_optimal_utilization model,
        mpr_max_utilization := irm_max_utilization model,
        mpr_reserve_factor := irm_reserve_factor model,
        mpr_is_flashloanable := irm_is_flashloanable model,
        mpr_flashloan_fee := irm_flashloan_fee model\<rparr> in
     Inr (write_params h k params, params))"

definition now_ms :: "'w host \<Rightarrow> nat res" where
  "now_ms h = (if h_timestamp h * MS_PER_SECOND \<le> u64_max then Inr (h_timestamp h * MS_PER_SECOND)
               else Inl (Generic MathOverflow))"

section \<open>The cache\<close>

record cache =
  c_hub_asset :: hub_asset_key
  c_params :: market_params
  c_last_timestamp :: nat
  c_current_timestamp :: nat
  c_supplied :: ray
  c_borrowed :: ray
  c_revenue :: ray
  c_borrow_index :: ray
  c_supply_index :: ray
  c_cash :: int

definition cache_load :: "'w host \<Rightarrow> hub_asset_key \<Rightarrow> cache res" where
  "cache_load h k =
     rbind (read_params h k) (\<lambda>raw_params.
     rbind (read_state h k) (\<lambda>state.
     rbind (now_ms h) (\<lambda>time.
     Inr \<lparr>c_hub_asset = k, c_params = market_params_of_raw raw_params,
          c_last_timestamp = ps_last_timestamp state, c_current_timestamp = time,
          c_supplied = ps_supplied state, c_borrowed = ps_borrowed state,
          c_revenue = ps_revenue state, c_borrow_index = ps_borrow_index state,
          c_supply_index = ps_supply_index state, c_cash = ps_cash state\<rparr>)))"

definition cache_state :: "cache \<Rightarrow> pool_state" where
  "cache_state c =
     \<lparr>ps_supplied = c_supplied c, ps_borrowed = c_borrowed c, ps_revenue = c_revenue c,
      ps_borrow_index = c_borrow_index c, ps_supply_index = c_supply_index c,
      ps_last_timestamp = c_last_timestamp c, ps_cash = c_cash c\<rparr>"

definition snapshot :: "cache \<Rightarrow> market_state_snapshot" where
  "snapshot c =
     \<lparr>mss_hub_asset = c_hub_asset c, mss_timestamp = c_current_timestamp c,
      mss_supply_index = c_supply_index c, mss_borrow_index = c_borrow_index c,
      mss_cash = c_cash c, mss_supplied = c_supplied c, mss_borrowed = c_borrowed c,
      mss_revenue = c_revenue c\<rparr>"

definition cache_commit :: "cache \<Rightarrow> 'w host \<Rightarrow> 'w host \<times> market_state_snapshot" where
  "cache_commit c h = (write_state h (c_hub_asset c) (cache_state c), snapshot c)"

definition elapsed_ms :: "cache \<Rightarrow> nat" where
  "elapsed_ms c = c_current_timestamp c - c_last_timestamp c"

definition needs_accrual :: "cache \<Rightarrow> bool" where
  "needs_accrual c \<longleftrightarrow> elapsed_ms c > 0"

definition mark_accrued :: "cache \<Rightarrow> cache" where
  "mark_accrued c = c\<lparr>c_last_timestamp := c_current_timestamp c\<rparr>"

definition market_index_of :: "cache \<Rightarrow> market_index" where
  "market_index_of c = \<lparr>mi_borrow_index = c_borrow_index c, mi_supply_index = c_supply_index c\<rparr>"

definition position_mutation :: "cache \<Rightarrow> ray \<Rightarrow> int \<Rightarrow> pool_position_mutation" where
  "position_mutation c scaled actual_amount =
     \<lparr>ppm_position = \<lparr>scaled_amount = scaled\<rparr>, ppm_market_index = market_index_of c,
      ppm_actual_amount = actual_amount, ppm_asset_decimals = asset_decimals (c_params c)\<rparr>"

definition strategy_mutation :: "cache \<Rightarrow> ray \<Rightarrow> int \<Rightarrow> int \<Rightarrow> pool_strategy_mutation" where
  "strategy_mutation c scaled actual_amount amount_received =
     \<lparr>psm_position = \<lparr>scaled_amount = scaled\<rparr>, psm_market_index = market_index_of c,
      psm_actual_amount = actual_amount, psm_amount_received = amount_received,
      psm_asset_decimals = asset_decimals (c_params c)\<rparr>"

subsection \<open>Cash\<close>

definition require_reserves :: "cache \<Rightarrow> int \<Rightarrow> unit res" where
  "require_reserves c amount =
     assert_with_error (c_cash c \<ge> amount) (Collateral InsufficientLiquidity)"

definition credit_cash :: "cache \<Rightarrow> int \<Rightarrow> cache res" where
  "credit_cash c amount =
     rbind (require_nonneg_amount amount) (\<lambda>_.
     rbind (unwrap_or_panic (i128_checked_add (c_cash c) amount) (Generic MathOverflow)) (\<lambda>cash.
     Inr (c\<lparr>c_cash := cash\<rparr>)))"

definition debit_cash :: "cache \<Rightarrow> int \<Rightarrow> cache res" where
  "debit_cash c amount =
     rbind (require_nonneg_amount amount) (\<lambda>_.
     rbind (require_reserves c amount) (\<lambda>_.
     rbind (unwrap_or_panic (i128_checked_sub (c_cash c) amount) (Generic MathOverflow)) (\<lambda>cash.
     Inr (c\<lparr>c_cash := cash\<rparr>))))"

definition transfer_out ::
    "'w externals \<Rightarrow> cache \<Rightarrow> address \<Rightarrow> int \<Rightarrow> 'w host \<Rightarrow> 'w host res" where
  "transfer_out ext c recipient amount h =
     rbind (require_nonneg_amount amount) (\<lambda>_.
     if amount = 0 then Inr h
     else rbind (token_transfer ext (asset_id (c_params c)) (h_self h) recipient amount (h_world h)) (\<lambda>w.
          Inr (h\<lparr>h_world := w\<rparr>)))"

subsection \<open>Scale\<close>

definition calculate_utilization :: "cache \<Rightarrow> ray res" where
  "calculate_utilization c =
     (if c_supplied c = 0 then Inr 0
      else rbind (scaled_to_original (c_borrowed c) (c_borrow_index c)) (\<lambda>total_borrowed.
           rbind (scaled_to_original (c_supplied c) (c_supply_index c)) (\<lambda>total_supplied.
           utilization total_borrowed total_supplied)))"

definition cache_scaled_supply :: "cache \<Rightarrow> int \<Rightarrow> ray res" where
  "cache_scaled_supply c amount =
     calculate_scaled_supply amount (asset_decimals (c_params c)) (c_supply_index c)"

definition cache_scaled_borrow :: "cache \<Rightarrow> int \<Rightarrow> ray res" where
  "cache_scaled_borrow c amount =
     calculate_scaled_borrow amount (asset_decimals (c_params c)) (c_borrow_index c)"

definition cache_unscale_supply :: "cache \<Rightarrow> ray \<Rightarrow> int res" where
  "cache_unscale_supply c scaled =
     unscale_supply scaled (c_supply_index c) (asset_decimals (c_params c))"

definition cache_unscale_supply_floor :: "cache \<Rightarrow> ray \<Rightarrow> int res" where
  "cache_unscale_supply_floor c scaled =
     unscale_supply_floor scaled (c_supply_index c) (asset_decimals (c_params c))"

definition cache_unscale_borrow :: "cache \<Rightarrow> ray \<Rightarrow> int res" where
  "cache_unscale_borrow c scaled =
     unscale_borrow scaled (c_borrow_index c) (asset_decimals (c_params c))"

definition unscale_borrow_ceil_ray :: "cache \<Rightarrow> ray \<Rightarrow> ray res" where
  "unscale_borrow_ceil_ray c scaled = ray_mul_ceil scaled (c_borrow_index c)"

definition cache_resolve_withdrawal :: "cache \<Rightarrow> int \<Rightarrow> ray \<Rightarrow> (ray \<times> int) res" where
  "cache_resolve_withdrawal c amount pos_scaled =
     resolve_withdrawal amount pos_scaled (c_supply_index c) (asset_decimals (c_params c))"

definition cache_resolve_repay :: "cache \<Rightarrow> int \<Rightarrow> ray \<Rightarrow> (ray \<times> int) res" where
  "cache_resolve_repay c amount pos_scaled =
     resolve_repay amount pos_scaled (c_borrow_index c) (asset_decimals (c_params c))"

definition cache_resolve_net_settle :: "cache \<Rightarrow> int \<Rightarrow> ray \<Rightarrow> ray \<Rightarrow> (ray \<times> ray \<times> int) res" where
  "cache_resolve_net_settle c amount supply_scaled debt_scaled =
     resolve_net_settle amount supply_scaled debt_scaled (c_supply_index c) (c_borrow_index c)
       (asset_decimals (c_params c))"

subsection \<open>Shares\<close>

definition require_revenue_backed :: "cache \<Rightarrow> unit res" where
  "require_revenue_backed c = assert_with_error (c_revenue c \<le> c_supplied c) (Generic InternalError)"

definition mint_supply :: "cache \<Rightarrow> ray \<Rightarrow> cache res" where
  "mint_supply c scaled =
     rbind (ray_checked_add (c_supplied c) scaled) (\<lambda>s. Inr (c\<lparr>c_supplied := s\<rparr>))"

definition burn_supply :: "cache \<Rightarrow> ray \<Rightarrow> cache res" where
  "burn_supply c scaled =
     rbind (ray_checked_sub (c_supplied c) scaled) (\<lambda>s.
     let c = c\<lparr>c_supplied := s\<rparr> in
     rbind (require_revenue_backed c) (\<lambda>_. Inr c))"

definition cache_mint_debt :: "cache \<Rightarrow> ray \<Rightarrow> cache res" where
  "cache_mint_debt c scaled =
     rbind (ray_checked_add (c_borrowed c) scaled) (\<lambda>b. Inr (c\<lparr>c_borrowed := b\<rparr>))"

definition burn_debt :: "cache \<Rightarrow> ray \<Rightarrow> cache res" where
  "burn_debt c scaled =
     rbind (ray_checked_sub (c_borrowed c) scaled) (\<lambda>b. Inr (c\<lparr>c_borrowed := b\<rparr>))"

definition accrue_revenue :: "cache \<Rightarrow> ray \<Rightarrow> cache res" where
  "accrue_revenue c scaled =
     rbind (ray_checked_add (c_revenue c) scaled) (\<lambda>r.
     rbind (ray_checked_add (c_supplied c) scaled) (\<lambda>s.
     Inr (c\<lparr>c_revenue := r, c_supplied := s\<rparr>)))"

definition absorb_supply_as_revenue :: "cache \<Rightarrow> ray \<Rightarrow> cache res" where
  "absorb_supply_as_revenue c scaled =
     rbind (ray_checked_add (c_revenue c) scaled) (\<lambda>r.
     let c = c\<lparr>c_revenue := r\<rparr> in
     rbind (require_revenue_backed c) (\<lambda>_. Inr c))"

definition burn_claimable_revenue :: "cache \<Rightarrow> (cache \<times> int) res" where
  "burn_claimable_revenue c =
     rbind (cache_unscale_supply_floor c (c_revenue c)) (\<lambda>treasury_actual.
     let amount = min (c_cash c) treasury_actual in
     if amount \<le> 0 then Inr (c, 0)
     else
       rbind (if amount \<ge> treasury_actual then Inr (c_revenue c)
              else ray_mul_ratio_ceil (c_revenue c) amount treasury_actual) (\<lambda>scaled_to_burn.
       rbind (assert_with_error (scaled_to_burn \<noteq> 0) (Generic InternalError)) (\<lambda>_.
       rbind (ray_checked_sub (c_revenue c) scaled_to_burn) (\<lambda>r.
       rbind (ray_checked_sub (c_supplied c) scaled_to_burn) (\<lambda>s.
       Inr (c\<lparr>c_revenue := r, c_supplied := s\<rparr>, amount))))))"

section \<open>Success conditions\<close>

lemma storage_Inr [res_iff]:
  "read_params h k = Inr p \<longleftrightarrow> h_params h k = Some p"
  "read_state h k = Inr st \<longleftrightarrow> h_state h k = Some st"
  "load_state h k = Inr st \<longleftrightarrow> h_state h k = Some st"
  by (simp_all add: read_params_def read_state_def load_state_def res_iff)

lemma now_ms_Inr [res_iff]:
  "now_ms h = Inr t \<longleftrightarrow> t = h_timestamp h * MS_PER_SECOND \<and> h_timestamp h * MS_PER_SECOND \<le> u64_max"
  by (auto simp: now_ms_def)

lemma cash_Inr [res_iff]:
  "require_reserves c a = Inr u \<longleftrightarrow> a \<le> c_cash c"
  "credit_cash c a = Inr c' \<longleftrightarrow> 0 \<le> a \<and> in_i128 (c_cash c + a) \<and> c' = c\<lparr>c_cash := c_cash c + a\<rparr>"
  "debit_cash c a = Inr c' \<longleftrightarrow>
     0 \<le> a \<and> a \<le> c_cash c \<and> in_i128 (c_cash c - a) \<and> c' = c\<lparr>c_cash := c_cash c - a\<rparr>"
  by (auto simp: require_reserves_def credit_cash_def debit_cash_def i128_checked_add_def
      i128_checked_sub_def res_iff)

lemma shares_Inr [res_iff]:
  "require_revenue_backed c = Inr u \<longleftrightarrow> c_revenue c \<le> c_supplied c"
  "mint_supply c n = Inr c' \<longleftrightarrow> in_i128 (c_supplied c + n) \<and> c' = c\<lparr>c_supplied := c_supplied c + n\<rparr>"
  "burn_supply c n = Inr c' \<longleftrightarrow> 0 \<le> n \<and> n \<le> c_supplied c \<and> in_i128 (c_supplied c - n) \<and>
     c_revenue c \<le> c_supplied c - n \<and> c' = c\<lparr>c_supplied := c_supplied c - n\<rparr>"
  "cache_mint_debt c n = Inr c' \<longleftrightarrow> in_i128 (c_borrowed c + n) \<and> c' = c\<lparr>c_borrowed := c_borrowed c + n\<rparr>"
  "burn_debt c n = Inr c' \<longleftrightarrow> 0 \<le> n \<and> n \<le> c_borrowed c \<and> in_i128 (c_borrowed c - n) \<and>
     c' = c\<lparr>c_borrowed := c_borrowed c - n\<rparr>"
  "accrue_revenue c n = Inr c' \<longleftrightarrow> in_i128 (c_revenue c + n) \<and> in_i128 (c_supplied c + n) \<and>
     c' = c\<lparr>c_revenue := c_revenue c + n, c_supplied := c_supplied c + n\<rparr>"
  "absorb_supply_as_revenue c n = Inr c' \<longleftrightarrow> in_i128 (c_revenue c + n) \<and>
     c_revenue c + n \<le> c_supplied c \<and> c' = c\<lparr>c_revenue := c_revenue c + n\<rparr>"
  by (auto simp: require_revenue_backed_def mint_supply_def burn_supply_def cache_mint_debt_def
      burn_debt_def accrue_revenue_def absorb_supply_as_revenue_def Let_def res_iff)

lemma transfer_out_frame:
  assumes "transfer_out ext c to a h = Inr h'"
  shows "h' = h\<lparr>h_world := h_world h'\<rparr>" and "0 \<le> a"
  using assms by (auto simp: transfer_out_def res_iff split: if_splits)

section \<open>The market invariant and the backing gap\<close>

text \<open>
  \<open>cache_ok\<close> is what every market satisfies between operations (INV-ACCT-01, INV-ACCT-02,
  INV-IDX-01, INV-IDX-02). \<open>gap\<close> is the exact excess of supplier claims over debt and cash, in
  units of \<open>1 / RAY\<close> of a ray; the pool is backed when it is not positive.
\<close>

definition cache_ok :: "cache \<Rightarrow> bool" where
  "cache_ok c \<longleftrightarrow> params_ok (c_params c) \<and>
     book_ok (c_borrowed c) (c_supplied c) (c_borrow_index c) (c_supply_index c) \<and>
     c_borrowed c \<le> i128_max \<and> 0 \<le> c_revenue c \<and> c_revenue c \<le> c_supplied c \<and>
     0 \<le> c_cash c \<and> c_cash c \<le> i128_max"

definition unit_value :: "cache \<Rightarrow> int" where
  "unit_value c = asset_unit (asset_decimals (c_params c)) * RAY"

definition gap :: "cache \<Rightarrow> int" where
  "gap c = book_gap (c_borrowed c) (c_supplied c) (c_borrow_index c) (c_supply_index c)
     - c_cash c * unit_value c"

lemma cache_okD:
  assumes "cache_ok c"
  shows "params_ok (c_params c)" and "asset_decimals (c_params c) \<le> WAD_DECIMALS"
    and "0 < c_borrow_index c" and "0 < c_supply_index c" and "0 \<le> c_borrowed c" and "0 \<le> c_supplied c"
    and "0 \<le> c_revenue c" and "c_revenue c \<le> c_supplied c" and "0 \<le> c_cash c"
  using assms book_ok_pos by (auto simp: cache_ok_def params_ok_decimals)

lemma cache_ok_bounds:
  assumes "cache_ok c"
  shows "in_i128 (c_supplied c)" and "in_i128 (c_borrowed c)" and "in_i128 (c_revenue c)" and "in_i128 (c_cash c)"
    and "in_i128 (c_borrow_index c)" and "in_i128 (c_supply_index c)"
proof -
  note D = cache_okD [OF assms]
  have "c_supplied c \<le> i128_max" "c_borrowed c \<le> i128_max" "c_cash c \<le> i128_max"
    using assms by (auto simp: cache_ok_def book_ok_def)
  then show "in_i128 (c_supplied c)" and "in_i128 (c_borrowed c)" and "in_i128 (c_revenue c)" and "in_i128 (c_cash c)"
    using D by (auto simp: in_i128_nonneg)
  have "c_borrow_index c \<le> MAX_BORROW_INDEX_RAY" "c_supply_index c \<le> MAX_SUPPLY_INDEX_RAY"
    using assms by (auto simp: cache_ok_def book_ok_def)
  then show "in_i128 (c_borrow_index c)" and "in_i128 (c_supply_index c)"
    using D in_i128_le [OF index_bounds_pos(7)] in_i128_le [OF index_bounds_pos(8)] by auto
qed

lemma unit_value_pos [simp]: "0 < unit_value c" "0 \<le> unit_value c"
  by (simp_all add: unit_value_def)

lemma unit_value_update [simp]:
  "unit_value (c\<lparr>c_cash := x\<rparr>) = unit_value c"
  "unit_value (c\<lparr>c_supplied := x\<rparr>) = unit_value c"
  "unit_value (c\<lparr>c_borrowed := x\<rparr>) = unit_value c"
  "unit_value (c\<lparr>c_revenue := x\<rparr>) = unit_value c"
  "unit_value (c\<lparr>c_supply_index := x\<rparr>) = unit_value c"
  "unit_value (c\<lparr>c_borrow_index := x\<rparr>) = unit_value c"
  "unit_value (c\<lparr>c_last_timestamp := t\<rparr>) = unit_value c"
  by (simp_all add: unit_value_def)

lemma cache_ok_update:
  assumes "cache_ok c"
  shows "0 \<le> x \<Longrightarrow> in_i128 x \<Longrightarrow> cache_ok (c\<lparr>c_cash := x\<rparr>)"
    and "c_revenue c \<le> x \<Longrightarrow> in_i128 x \<Longrightarrow> cache_ok (c\<lparr>c_supplied := x\<rparr>)"
    and "0 \<le> x \<Longrightarrow> in_i128 x \<Longrightarrow> cache_ok (c\<lparr>c_borrowed := x\<rparr>)"
    and "0 \<le> x \<Longrightarrow> x \<le> c_supplied c \<Longrightarrow> cache_ok (c\<lparr>c_revenue := x\<rparr>)"
    and "0 \<le> x \<Longrightarrow> x \<le> y \<Longrightarrow> in_i128 y \<Longrightarrow> cache_ok (c\<lparr>c_revenue := x, c_supplied := y\<rparr>)"
    and "SUPPLY_INDEX_FLOOR_RAW \<le> x \<Longrightarrow> x \<le> MAX_SUPPLY_INDEX_RAY \<Longrightarrow> cache_ok (c\<lparr>c_supply_index := x\<rparr>)"
    and "cache_ok (c\<lparr>c_last_timestamp := t\<rparr>)"
  using assms by (auto simp: cache_ok_def book_ok_def in_i128_nonneg)

lemma gap_update:
  "gap (c\<lparr>c_cash := c_cash c + a\<rparr>) = gap c - a * unit_value c"
  "gap (c\<lparr>c_cash := c_cash c - a\<rparr>) = gap c + a * unit_value c"
  "gap (c\<lparr>c_supplied := c_supplied c + n\<rparr>) = gap c + n * c_supply_index c"
  "gap (c\<lparr>c_supplied := c_supplied c - n\<rparr>) = gap c - n * c_supply_index c"
  "gap (c\<lparr>c_borrowed := c_borrowed c + n\<rparr>) = gap c - n * c_borrow_index c"
  "gap (c\<lparr>c_borrowed := c_borrowed c - n\<rparr>) = gap c + n * c_borrow_index c"
  "gap (c\<lparr>c_revenue := r\<rparr>) = gap c"
  "gap (c\<lparr>c_last_timestamp := t\<rparr>) = gap c"
  by (simp_all add: gap_def book_gap_def algebra_simps)

text \<open>Elementary cache mutations keep the invariant and move the gap by the value they carry.\<close>

lemma credit_cash_sound:
  assumes "credit_cash c a = Inr c'" and "cache_ok c"
  shows "cache_ok c'" and "gap c' = gap c - a * unit_value c"
  using assms cache_okD(9) [OF assms(2)] by (auto simp: res_iff gap_update intro!: cache_ok_update)

lemma debit_cash_sound:
  assumes "debit_cash c a = Inr c'" and "cache_ok c"
  shows "cache_ok c'" and "gap c' = gap c + a * unit_value c"
  using assms by (auto simp: res_iff gap_update intro!: cache_ok_update)

lemma mint_supply_sound:
  assumes "mint_supply c n = Inr c'" and "cache_ok c" and "0 \<le> n"
  shows "cache_ok c'" and "gap c' = gap c + n * c_supply_index c"
  using assms cache_okD(8) [OF assms(2)] by (auto simp: res_iff gap_update intro!: cache_ok_update)

lemma burn_supply_sound:
  assumes "burn_supply c n = Inr c'" and "cache_ok c"
  shows "cache_ok c'" and "gap c' = gap c - n * c_supply_index c"
  using assms by (auto simp: res_iff gap_update intro!: cache_ok_update)

lemma mint_debt_sound:
  assumes "cache_mint_debt c n = Inr c'" and "cache_ok c" and "0 \<le> n"
  shows "cache_ok c'" and "gap c' = gap c - n * c_borrow_index c"
  using assms cache_okD(5) [OF assms(2)] by (auto simp: res_iff gap_update intro!: cache_ok_update)

lemma burn_debt_sound:
  assumes "burn_debt c n = Inr c'" and "cache_ok c"
  shows "cache_ok c'" and "gap c' = gap c + n * c_borrow_index c"
  using assms by (auto simp: res_iff gap_update intro!: cache_ok_update)

lemma accrue_revenue_sound:
  assumes "accrue_revenue c n = Inr c'" and "cache_ok c" and "0 \<le> n"
  shows "cache_ok c'" and "gap c' = gap c + n * c_supply_index c"
  using assms cache_okD(7,8) [OF assms(2)]
  by (auto simp: res_iff gap_def book_gap_def algebra_simps intro!: cache_ok_update(5))

lemma absorb_supply_sound:
  assumes "absorb_supply_as_revenue c n = Inr c'" and "cache_ok c" and "0 \<le> n"
  shows "cache_ok c'" and "gap c' = gap c"
  using assms cache_okD(7) [OF assms(2)] by (auto simp: res_iff gap_update intro!: cache_ok_update)

lemma burn_claimable_revenue_sound:
  assumes b: "burn_claimable_revenue c = Inr (c', a)" and ok: "cache_ok c"
  shows "cache_ok c'" and "0 \<le> a" and "a \<le> c_cash c" and "gap c' + a * unit_value c \<le> gap c"
    and "c_cash c' = c_cash c" and "c_params c' = c_params c"
    and "c_supplied c' - c_revenue c' = c_supplied c - c_revenue c"
proof -
  note D = cache_okD [OF ok]
  let ?u = "asset_unit (asset_decimals (c_params c))" and ?v = "c_revenue c * c_supply_index c"
  let ?T = "?v div RAY div ?u"
  have vn: "0 \<le> ?v" using D by simp
  have T: "?T * ?u * RAY \<le> ?v" by (rule floor_value_le) simp
  from b have t: "cache_unscale_supply_floor c (c_revenue c) = Inr ?T"
    unfolding burn_claimable_revenue_def cache_unscale_supply_floor_def
    by (auto simp: rbind_Inr_iff unscale_Inr(2) [OF D(2) D(7) less_imp_le [OF D(4)]])
  have "cache_ok c' \<and> 0 \<le> a \<and> a \<le> c_cash c \<and> gap c' + a * unit_value c \<le> gap c \<and>
      c_cash c' = c_cash c \<and> c_params c' = c_params c \<and> c_supplied c' - c_revenue c' = c_supplied c - c_revenue c"
  proof (cases "min (c_cash c) ?T \<le> 0")
    case True
    with b t ok D show ?thesis by (auto simp: burn_claimable_revenue_def)
  next
    case False
    define n where "n = (if ?T \<le> a then c_revenue c else ceil_div (c_revenue c * a) ?T)"
    from b t False have a: "a = min (c_cash c) ?T"
      and n: "0 \<le> n" "n \<le> c_revenue c" "n \<le> c_supplied c" "in_i128 (c_supplied c - n)"
      and c': "c' = c\<lparr>c_revenue := c_revenue c - n, c_supplied := c_supplied c - n\<rparr>"
      by (auto simp: burn_claimable_revenue_def Let_def res_iff n_def split: if_splits)
    have "a * ?u * RAY \<le> n * c_supply_index c"
    proof (cases "?T \<le> a")
      case True
      then have "a = ?T" using a by simp
      with T True show ?thesis by (simp add: n_def)
    next
      case F: False
      have T0: "0 < ?T" using False by auto
      have "c_revenue c * a \<le> n * ?T" using ceil_bounds [OF T0, of "c_revenue c * a"] F by (simp add: n_def)
      then have "c_revenue c * a * c_supply_index c \<le> n * ?T * c_supply_index c"
        using D(4) by (intro mult_right_mono) auto
      moreover have "a * (?T * ?u * RAY) \<le> a * ?v" using T a False by (intro mult_left_mono) auto
      ultimately have "?T * (a * ?u * RAY) \<le> ?T * (n * c_supply_index c)" by (simp add: mult_ac)
      then show ?thesis using T0 by simp
    qed
    moreover have "gap c' = gap c - n * c_supply_index c"
      by (simp add: c' gap_def book_gap_def algebra_simps)
    ultimately have "gap c' + a * unit_value c \<le> gap c" by (simp add: unit_value_def mult_ac)
    moreover have "cache_ok c'" unfolding c' using ok n D by (intro cache_ok_update) auto
    ultimately show ?thesis using a False by (auto simp: c')
  qed
  then show "cache_ok c'" and "0 \<le> a" and "a \<le> c_cash c" and "gap c' + a * unit_value c \<le> gap c"
    and "c_cash c' = c_cash c" and "c_params c' = c_params c"
    and "c_supplied c' - c_revenue c' = c_supplied c - c_revenue c" by auto
qed

end
