(* ===== verification/Pool_Interest.thy ===== *)
theory Pool_Interest
  imports Pool_Cache
begin

text \<open>
  \<^verbatim>\<open>src/contracts/pool/src/interest.rs\<close>: accrual on the cache, booking of protocol fees and
  socialisation of bad debt. Accrual keeps the invariant, moves no cash and lets the gap drift by at
  most two rays per chunk; it computes the same indexes as the read-only projection (INV-IDX-04).
  A seized debt lowers supplier claims by at least the debt, up to one ray, unless the supply index
  reaches its floor.
\<close>

section \<open>Definitions\<close>

definition set_supply_index :: "cache \<Rightarrow> ray \<Rightarrow> cache" where
  "set_supply_index c index = c\<lparr>c_supply_index := index\<rparr>"

definition set_borrow_index :: "cache \<Rightarrow> ray \<Rightarrow> cache" where
  "set_borrow_index c index = c\<lparr>c_borrow_index := index\<rparr>"

definition accrue_chunk :: "cache \<Rightarrow> nat \<Rightarrow> cache res" where
  "accrue_chunk c delta_ms =
     rbind (accrue_step (c_params c) (c_borrowed c) (c_supplied c) (c_borrow_index c)
              (c_supply_index c) delta_ms) (\<lambda>step.
     accrue_revenue (set_supply_index (set_borrow_index c (as_borrow_index step)) (as_supply_index step))
       (as_revenue_shares step))"

function sync_loop :: "cache \<Rightarrow> nat \<Rightarrow> cache res" where
  "sync_loop c remaining =
     (if remaining > 0 then
        (let chunk = min remaining MAX_COMPOUND_DELTA_MS in
         rbind (accrue_chunk c chunk) (\<lambda>c'. sync_loop c' (remaining - chunk)))
      else Inr c)"
  by pat_completeness auto

termination
  by (relation "measure snd") (auto simp: MAX_COMPOUND_DELTA_MS_def MILLISECONDS_PER_YEAR_def)

declare sync_loop.simps [simp del]

definition global_sync :: "cache \<Rightarrow> cache res" where
  "global_sync c =
     (if \<not> needs_accrual c then Inr c
      else rbind (sync_loop c (elapsed_ms c)) (\<lambda>c'. Inr (mark_accrued c')))"

definition add_protocol_revenue :: "cache \<Rightarrow> ray \<Rightarrow> cache res" where
  "add_protocol_revenue c fee =
     (if fee = 0 then Inr c
      else rbind (protocol_fee_shares fee (c_supply_index c) (c_supplied c)) (\<lambda>fee_scaled.
           accrue_revenue c fee_scaled))"

definition apply_bad_debt_to_supply_index :: "cache \<Rightarrow> ray \<Rightarrow> cache res" where
  "apply_bad_debt_to_supply_index c bad_debt =
     rbind (ray_mul (c_supplied c) (c_supply_index c)) (\<lambda>total_supplied_value.
     if total_supplied_value = 0 then Inr c
     else
       let capped = min bad_debt total_supplied_value in
       rbind (ray_checked_sub total_supplied_value capped) (\<lambda>remaining.
       rbind (ray_div_floor remaining total_supplied_value) (\<lambda>reduction_factor.
       rbind (ray_mul_floor (c_supply_index c) reduction_factor) (\<lambda>new_supply_index.
       Inr (set_supply_index c (max new_supply_index SUPPLY_INDEX_FLOOR_RAW))))))"

section \<open>Accrual\<close>

lemma accrue_chunk_elim:
  assumes "accrue_chunk c delta = Inr c'"
  obtains st where
    "accrue_step (c_params c) (c_borrowed c) (c_supplied c) (c_borrow_index c) (c_supply_index c) delta = Inr st"
    "c' = c\<lparr>c_borrow_index := as_borrow_index st, c_supply_index := as_supply_index st,
            c_revenue := c_revenue c + as_revenue_shares st,
            c_supplied := c_supplied c + as_revenue_shares st\<rparr>"
    "in_i128 (c_supplied c + as_revenue_shares st)"
  using assms by (auto simp: accrue_chunk_def set_supply_index_def set_borrow_index_def res_iff)

lemma accrue_chunk_sound:
  assumes "accrue_chunk c delta = Inr c'" and "cache_ok c" and "delta \<le> MAX_COMPOUND_DELTA_MS"
  shows "cache_ok c'" and "gap c' \<le> gap c + 2 * RAY"
    and "c_borrow_index c \<le> c_borrow_index c'" and "c_supply_index c \<le> c_supply_index c'"
proof -
  from assms(1) obtain st where
    st: "accrue_step (c_params c) (c_borrowed c) (c_supplied c) (c_borrow_index c) (c_supply_index c) delta = Inr st"
    and c': "c' = c\<lparr>c_borrow_index := as_borrow_index st, c_supply_index := as_supply_index st,
            c_revenue := c_revenue c + as_revenue_shares st,
            c_supplied := c_supplied c + as_revenue_shares st\<rparr>"
    by (elim accrue_chunk_elim)
  have pb: "params_ok (c_params c)" "book_ok (c_borrowed c) (c_supplied c) (c_borrow_index c) (c_supply_index c)"
    using assms(2) by (auto simp: cache_ok_def)
  note S = accrue_step_sound [OF st pb assms(3)]
  show "cache_ok c'"
    using accrue_step_book_ok [OF st pb assms(3)] S(5) assms(2) by (simp add: c' cache_ok_def)
  show "gap c' \<le> gap c + 2 * RAY"
    using accrue_step_gap [OF st pb assms(3)] by (simp add: c' gap_def unit_value_def)
  show "c_borrow_index c \<le> c_borrow_index c'" and "c_supply_index c \<le> c_supply_index c'"
    using S by (auto simp: c')
qed

text \<open>What accrual leaves alone.\<close>

definition accrual_frame :: "cache \<Rightarrow> cache \<Rightarrow> bool" where
  "accrual_frame c c' \<longleftrightarrow> c_hub_asset c' = c_hub_asset c \<and> c_params c' = c_params c \<and>
     c_current_timestamp c' = c_current_timestamp c \<and> c_borrowed c' = c_borrowed c \<and>
     c_cash c' = c_cash c \<and> c_supplied c' - c_revenue c' = c_supplied c - c_revenue c"

lemma accrue_chunk_frame: "accrue_chunk c delta = Inr c' \<Longrightarrow> accrual_frame c c'"
  by (elim accrue_chunk_elim) (simp add: accrual_frame_def)

lemma sync_loop_sound:
  assumes "sync_loop c remaining = Inr c'" and "cache_ok c"
  shows "cache_ok c' \<and> gap c' \<le> gap c + 2 * RAY * int (loop_chunks remaining) \<and> accrual_frame c c' \<and>
    c_borrow_index c \<le> c_borrow_index c' \<and> c_supply_index c \<le> c_supply_index c'"
  using assms
proof (induction c remaining rule: sync_loop.induct)
  case (1 c remaining)
  show ?case
  proof (cases "remaining > 0")
    case False
    with 1(2,3) show ?thesis by (auto simp: sync_loop.simps accrual_frame_def)
  next
    case True
    let ?k = "min remaining MAX_COMPOUND_DELTA_MS"
    from 1(2) True obtain c1 where c1: "accrue_chunk c ?k = Inr c1" and rest: "sync_loop c1 (remaining - ?k) = Inr c'"
      by (subst (asm) sync_loop.simps) (auto simp: Let_def rbind_Inr_iff)
    note A = accrue_chunk_sound [OF c1 1(3)] accrue_chunk_frame [OF c1]
    from 1(1) [OF True refl c1 rest] A
    have "cache_ok c'" "gap c' \<le> gap c1 + 2 * RAY * int (loop_chunks (remaining - ?k))" "accrual_frame c1 c'"
      "c_borrow_index c1 \<le> c_borrow_index c'" "c_supply_index c1 \<le> c_supply_index c'" by auto
    with A loop_chunks_Suc [OF True] show ?thesis by (auto simp: accrual_frame_def algebra_simps)
  qed
qed

text \<open>\<open>sync_chunks\<close> is the number of accrual steps a sync of the cache takes.\<close>

definition sync_chunks :: "cache \<Rightarrow> nat" where
  "sync_chunks c = loop_chunks (elapsed_ms c)"

lemma global_sync_sound:
  assumes "global_sync c = Inr c'" and "cache_ok c"
  shows "cache_ok c'" and "gap c' \<le> gap c + 2 * RAY * int (sync_chunks c)" and "accrual_frame c c'"
    and "c_borrow_index c \<le> c_borrow_index c'" and "c_supply_index c \<le> c_supply_index c'"
proof -
  have "cache_ok c' \<and> gap c' \<le> gap c + 2 * RAY * int (sync_chunks c) \<and> accrual_frame c c' \<and>
    c_borrow_index c \<le> c_borrow_index c' \<and> c_supply_index c \<le> c_supply_index c'"
  proof (cases "needs_accrual c")
    case False
    with assms show ?thesis by (auto simp: global_sync_def accrual_frame_def)
  next
    case True
    with assms(1) obtain c1 where c1: "sync_loop c (elapsed_ms c) = Inr c1" and c': "c' = mark_accrued c1"
      by (auto simp: global_sync_def rbind_Inr_iff)
    from sync_loop_sound [OF c1 assms(2)] show ?thesis
      by (auto simp: c' mark_accrued_def sync_chunks_def accrual_frame_def gap_update cache_ok_update)
  qed
  then show "cache_ok c'" and "gap c' \<le> gap c + 2 * RAY * int (sync_chunks c)" and "accrual_frame c c'"
    and "c_borrow_index c \<le> c_borrow_index c'" and "c_supply_index c \<le> c_supply_index c'" by auto
qed

lemma global_sync_current:
  assumes "global_sync c = Inr c'"
  shows "elapsed_ms c' = 0" and "global_sync c' = Inr c'"
proof -
  show "elapsed_ms c' = 0"
    using assms by (auto simp: global_sync_def needs_accrual_def mark_accrued_def elapsed_ms_def res_iff split: if_splits)
  then show "global_sync c' = Inr c'" by (simp add: global_sync_def needs_accrual_def)
qed

text \<open>Accrual over at most a year returns on a book whose debt value is within its supply value.\<close>

definition accrual_fits :: "cache \<Rightarrow> bool" where
  "accrual_fits c \<longleftrightarrow>
     half_up_div (c_borrowed c * c_borrow_index c) RAY \<le> half_up_div (c_supplied c * c_supply_index c) RAY \<and>
     half_up_div (c_supplied c * c_supply_index c) RAY + 21 * half_up_div (c_borrowed c * c_borrow_index c) RAY + 11
       \<le> i128_max"

lemma accrue_chunk_total:
  assumes ok: "cache_ok c" and d: "delta \<le> MAX_COMPOUND_DELTA_MS" and fit: "accrual_fits c"
  shows "\<exists>c'. accrue_chunk c delta = Inr c'"
proof -
  have pb: "params_ok (c_params c)" "book_ok (c_borrowed c) (c_supplied c) (c_borrow_index c) (c_supply_index c)"
    using ok by (auto simp: cache_ok_def)
  obtain st where st: "accrue_step (c_params c) (c_borrowed c) (c_supplied c) (c_borrow_index c) (c_supply_index c) delta = Inr st"
    using accrue_step_total [OF pb d] fit by (auto simp: accrual_fits_def)
  note S = accrue_step_sound [OF st pb d]
  have "in_i128 (c_supplied c + as_revenue_shares st)" "in_i128 (c_revenue c + as_revenue_shares st)"
    using S(5,6) cache_okD [OF ok] by (auto simp: in_i128_nonneg)
  with st show ?thesis
    by (auto simp: accrue_chunk_def accrue_revenue_def set_supply_index_def set_borrow_index_def ray_checked_add_def
        checked_add_raw_def i128_checked_add_def to_i128_opt_def)
qed

lemma global_sync_total:
  assumes ok: "cache_ok c" and d: "elapsed_ms c \<le> MAX_COMPOUND_DELTA_MS" and fit: "accrual_fits c"
  shows "\<exists>c'. global_sync c = Inr c'"
proof (cases "needs_accrual c")
  case True
  obtain c1 where c1: "accrue_chunk c (elapsed_ms c) = Inr c1" using accrue_chunk_total [OF assms] by blast
  have m: "min (elapsed_ms c) MAX_COMPOUND_DELTA_MS = elapsed_ms c" using d by simp
  have "sync_loop c (elapsed_ms c) = Inr c1"
    using True c1 by (subst sync_loop.simps) (simp add: needs_accrual_def m sync_loop.simps [of c1 0])
  with True show ?thesis by (simp add: global_sync_def)
qed (simp add: global_sync_def)

lemma sync_loop_simulates:
  assumes "sync_loop c remaining = Inr c'"
  shows "simulate_loop (c_params c) (c_borrowed c) (c_supplied c) (c_borrow_index c) (c_supply_index c) remaining
    = Inr (market_index_of c')"
  using assms
proof (induction c remaining rule: sync_loop.induct)
  case (1 c remaining)
  show ?case
  proof (cases "remaining > 0")
    case False
    with 1(2) show ?thesis by (simp add: sync_loop.simps simulate_loop.simps market_index_of_def)
  next
    case True
    let ?k = "min remaining MAX_COMPOUND_DELTA_MS"
    from 1(2) True obtain c1 where c1: "accrue_chunk c ?k = Inr c1" and rest: "sync_loop c1 (remaining - ?k) = Inr c'"
      by (subst (asm) sync_loop.simps) (auto simp: Let_def rbind_Inr_iff)
    from c1 obtain st where
      st: "accrue_step (c_params c) (c_borrowed c) (c_supplied c) (c_borrow_index c) (c_supply_index c) ?k = Inr st"
      and c1': "c1 = c\<lparr>c_borrow_index := as_borrow_index st, c_supply_index := as_supply_index st,
            c_revenue := c_revenue c + as_revenue_shares st,
            c_supplied := c_supplied c + as_revenue_shares st\<rparr>"
      and f: "in_i128 (c_supplied c + as_revenue_shares st)"
      by (elim accrue_chunk_elim)
    have "ray_checked_add (c_supplied c) (as_revenue_shares st) = Inr (c_supplied c + as_revenue_shares st)"
      using f by (simp add: res_iff)
    then show ?thesis
      using 1(1) [OF True refl c1 rest] True st
      by (subst simulate_loop.simps) (simp add: c1' Let_def)
  qed
qed

lemma global_sync_simulates:
  assumes load: "cache_load h k = Inr c" and sync: "global_sync c = Inr c'"
  shows "\<exists>sd. load_sync_data h k = Inr sd \<and>
    simulate_update_indexes (c_current_timestamp c) sd = Inr (market_index_of c')"
proof -
  from load obtain p st t where m: "h_params h k = Some p" "h_state h k = Some st"
    and c: "c = \<lparr>c_hub_asset = k, c_params = market_params_of_raw p,
          c_last_timestamp = ps_last_timestamp st, c_current_timestamp = t,
          c_supplied = ps_supplied st, c_borrowed = ps_borrowed st,
          c_revenue = ps_revenue st, c_borrow_index = ps_borrow_index st,
          c_supply_index = ps_supply_index st, c_cash = ps_cash st\<rparr>"
    by (auto simp: cache_load_def rbind_Inr_iff storage_Inr)
  let ?sd = "\<lparr>sync_params = p, sync_state = st\<rparr>"
  have "load_sync_data h k = Inr ?sd"
    using m by (simp add: load_sync_data_def read_params_def read_state_def)
  moreover have "simulate_update_indexes (c_current_timestamp c) ?sd = Inr (market_index_of c')"
  proof (cases "elapsed_ms c = 0")
    case True
    with sync show ?thesis
      by (auto simp: global_sync_def needs_accrual_def simulate_update_indexes_def elapsed_ms_def c market_index_of_def)
  next
    case False
    with sync obtain c1 where c1: "sync_loop c (elapsed_ms c) = Inr c1" and c': "c' = mark_accrued c1"
      by (auto simp: global_sync_def needs_accrual_def rbind_Inr_iff)
    from sync_loop_simulates [OF c1] False show ?thesis
      by (simp add: simulate_update_indexes_def elapsed_ms_def c c' mark_accrued_def market_index_of_def Let_def)
  qed
  ultimately show ?thesis by blast
qed

section \<open>Protocol fees\<close>

lemma add_protocol_revenue_sound:
  assumes "add_protocol_revenue c fee = Inr c'" and "cache_ok c" and "0 \<le> fee"
  shows "cache_ok c'" and "gap c' \<le> gap c + fee * RAY"
    and "\<exists>n\<ge>0. c' = c\<lparr>c_revenue := c_revenue c + n, c_supplied := c_supplied c + n\<rparr>"
proof -
  have "cache_ok c' \<and> gap c' \<le> gap c + fee * RAY \<and>
     (\<exists>n\<ge>0. c' = c\<lparr>c_revenue := c_revenue c + n, c_supplied := c_supplied c + n\<rparr>)"
  proof (cases "fee = 0")
    case True
    with assms show ?thesis by (auto simp: add_protocol_revenue_def intro!: exI [of _ 0])
  next
    case False
    have "c_supplied c \<le> i128_max" using assms(2) by (auto simp: cache_ok_def book_ok_def)
    with False assms protocol_fee_shares_value [OF assms(3) cache_okD(4,6) [OF assms(2)]]
    obtain n where n: "0 \<le> n" "n * c_supply_index c \<le> fee * RAY" "accrue_revenue c n = Inr c'"
      by (auto simp: add_protocol_revenue_def)
    from accrue_revenue_sound [OF n(3) assms(2) n(1)] n show ?thesis by (auto simp: res_iff)
  qed
  then show "cache_ok c'" and "gap c' \<le> gap c + fee * RAY"
    and "\<exists>n\<ge>0. c' = c\<lparr>c_revenue := c_revenue c + n, c_supplied := c_supplied c + n\<rparr>" by auto
qed

lemma add_protocol_revenue_total:
  assumes "cache_ok c" and "0 \<le> fee"
  shows "\<exists>c'. add_protocol_revenue c fee = Inr c'"
proof -
  have "c_supplied c \<le> i128_max" using assms by (auto simp: cache_ok_def book_ok_def)
  from protocol_fee_shares_value [OF assms(2) cache_okD(4,6) [OF assms(1)] this]
  obtain n where n: "protocol_fee_shares fee (c_supply_index c) (c_supplied c) = Inr n" "0 \<le> n"
      "c_supplied c + n \<le> i128_max" by blast
  then have "in_i128 (c_supplied c + n)" "in_i128 (c_revenue c + n)"
    using cache_okD [OF assms(1)] by (auto simp: in_i128_nonneg)
  with n show ?thesis by (auto simp: add_protocol_revenue_def accrue_revenue_def ray_checked_add_def
      checked_add_raw_def i128_checked_add_def to_i128_opt_def)
qed

section \<open>Bad debt\<close>

lemma scaled_index_le:
  fixes s i T d factor :: int
  assumes "0 \<le> s" and "0 < i" and T: "0 < T" "T * RAY \<le> s * i + RAY div 2" and "0 \<le> d" and "d \<le> T"
    and f: "factor = (T - d) * RAY div T"
  shows "s * (i * factor div RAY) \<le> s * i - d * RAY + RAY"
proof -
  let ?n = "i * factor div RAY"
  have fT: "factor * T \<le> (T - d) * RAY" using floor_bounds [OF T(1)] f by blast
  have "?n * RAY \<le> i * factor" using floor_bounds [of RAY "i * factor"] by simp
  then have "?n * RAY * (s * T) \<le> i * factor * (s * T)" using assms by (intro mult_right_mono) auto
  also have "\<dots> = (i * s) * (factor * T)" by (simp add: mult_ac)
  also have "\<dots> \<le> (i * s) * ((T - d) * RAY)" using fT assms by (intro mult_left_mono) auto
  finally have "s * ?n * T * RAY \<le> s * i * (T - d) * RAY" by (simp add: mult_ac)
  then have 1: "s * ?n * T \<le> s * i * (T - d)" by (rule mult_right_le_imp_le) simp
  have "d * (T * RAY) \<le> d * (s * i + RAY div 2)" using T assms by (intro mult_left_mono) auto
  moreover have "d * (RAY div 2) \<le> T * RAY" using assms by (intro mult_mono) (auto simp: RAY_def)
  ultimately have "s * ?n * T \<le> (s * i - d * RAY + RAY) * T" using 1 by (simp add: algebra_simps)
  then show ?thesis using T(1) by simp
qed

lemma bad_debt_sound:
  assumes bd: "apply_bad_debt_to_supply_index c d = Inr c'" and ok: "cache_ok c" and d: "0 \<le> d"
  shows "cache_ok c'" and "c' = c\<lparr>c_supply_index := c_supply_index c'\<rparr>"
    and "c_supply_index c' \<le> c_supply_index c"
    and "c_supply_index c' \<noteq> SUPPLY_INDEX_FLOOR_RAW \<Longrightarrow>
      c_supplied c * c_supply_index c' \<le> max 0 (c_supplied c * c_supply_index c - d * RAY) + RAY"
proof -
  let ?s = "c_supplied c" and ?i = "c_supply_index c"
  let ?T = "half_up_div (?s * ?i) RAY"
  note D = cache_okD [OF ok]
  have floor: "SUPPLY_INDEX_FLOOR_RAW \<le> ?i" "?i \<le> MAX_SUPPLY_INDEX_RAY" using ok by (auto simp: cache_ok_def book_ok_def)
  have T0: "0 \<le> ?T" using D by (auto intro!: nonneg_quotients)
  have "cache_ok c' \<and> c' = c\<lparr>c_supply_index := c_supply_index c'\<rparr> \<and> c_supply_index c' \<le> ?i \<and>
     (c_supply_index c' \<noteq> SUPPLY_INDEX_FLOOR_RAW \<longrightarrow>
      ?s * c_supply_index c' \<le> max 0 (?s * ?i - d * RAY) + RAY)"
  proof (cases "?T = 0")
    case True
    have "?s * ?i < RAY" using half_up_bounds(2) [of RAY "?s * ?i"] True by (simp add: RAY_def)
    with True bd ok show ?thesis by (auto simp: apply_bad_debt_to_supply_index_def res_iff)
  next
    case False
    define factor where "factor = (?T - min d ?T) * RAY div ?T"
    define n where "n = ?i * factor div RAY"
    from bd False have c': "c' = c\<lparr>c_supply_index := max n SUPPLY_INDEX_FLOOR_RAW\<rparr>"
      by (auto simp: apply_bad_debt_to_supply_index_def Let_def res_iff set_supply_index_def factor_def n_def)
    have "(?T - min d ?T) * RAY \<le> RAY * ?T"
      using d T0 by (subst mult.commute) (intro mult_left_mono, auto)
    then have "factor \<le> RAY" using False T0 zdiv_mono1 [of _ "RAY * ?T" ?T] by (force simp: factor_def)
    then have "?i * factor \<le> ?i * RAY" using D by (intro mult_left_mono) auto
    then have n_le: "n \<le> ?i" using zdiv_mono1 [of _ "?i * RAY" RAY] by (force simp: n_def)
    have "?s * n \<le> max 0 (?s * ?i - d * RAY) + RAY" if "n \<noteq> 0"
    proof -
      have "d < ?T"
      proof (rule ccontr)
        assume "\<not> d < ?T"
        then have "factor = 0" by (simp add: factor_def min_def)
        with that show False by (simp add: n_def)
      qed
      then have "?s * n \<le> ?s * ?i - d * RAY + RAY"
        unfolding n_def using D d T0 False half_up_bounds(1) [of RAY "?s * ?i"]
        by (intro scaled_index_le) (auto simp: factor_def min_def)
      then show ?thesis by linarith
    qed
    moreover have "max n SUPPLY_INDEX_FLOOR_RAW = n" "n \<noteq> 0"
      if "max n SUPPLY_INDEX_FLOOR_RAW \<noteq> SUPPLY_INDEX_FLOOR_RAW"
      using that less_imp_le [OF index_bounds_pos(1)] by (auto simp: max_def split: if_splits)
    ultimately show ?thesis using n_le floor ok by (auto simp: c' intro!: cache_ok_update)
  qed
  then show "cache_ok c'" and "c' = c\<lparr>c_supply_index := c_supply_index c'\<rparr>"
    and "c_supply_index c' \<le> c_supply_index c"
    and "c_supply_index c' \<noteq> SUPPLY_INDEX_FLOOR_RAW \<Longrightarrow>
      c_supplied c * c_supply_index c' \<le> max 0 (c_supplied c * c_supply_index c - d * RAY) + RAY"
    by blast+
qed

end
