(* ===== verification/Pool_Guards.thy ===== *)
theory Pool_Guards
  imports Pool_Interest
begin

text \<open>
  \<^verbatim>\<open>src/contracts/pool/src/guards.rs\<close>: the utilization, liquidity and solvency checks. The lemmas
  say what a passed guard guarantees of the exact book, and relate the reported backing shortfall to
  the exact gap: the shortfall is never over-reported, and a gap below one asset unit reports none.
\<close>

section \<open>Definitions\<close>

definition require_utilization_below_max :: "cache \<Rightarrow> unit res" where
  "require_utilization_below_max c =
     (if c_supplied c = 0 \<or> max_utilization (c_params c) \<ge> RAY then Inr ()
      else rbind (ray_mul_ceil (c_borrowed c) (c_borrow_index c)) (\<lambda>borrowed.
        if borrowed = 0 then Inr ()
        else rbind (ray_mul_floor (c_supplied c) (c_supply_index c)) (\<lambda>supplied.
          if \<not> supplied > 0 then Inl (Collateral UtilizationAboveMax)
          else rbind (ray_div_ceil borrowed supplied) (\<lambda>u.
            assert_with_error (u \<le> max_utilization (c_params c)) (Collateral UtilizationAboveMax)))))"

definition require_liquidation_buffer :: "cache \<Rightarrow> int \<Rightarrow> unit res" where
  "require_liquidation_buffer c draw =
     rbind (cache_unscale_supply_floor c (c_supplied c)) (\<lambda>supplied.
     rbind (mul_div_ceil supplied LIQUIDATION_BUFFER_BPS BPS) (\<lambda>reserved.
     assert_with_error (i128_saturating_sub (c_cash c) draw \<ge> reserved)
       (Collateral InsufficientLiquidity)))"

definition backing_shortfall :: "cache \<Rightarrow> int res" where
  "backing_shortfall c =
     rbind (ray_mul_floor (c_supplied c) (c_supply_index c)) (\<lambda>claims.
     rbind (unscale_borrow_ceil_ray c (c_borrowed c)) (\<lambda>debt.
     if claims \<le> debt then Inr 0
     else rbind (ray_checked_sub claims debt) (\<lambda>diff.
          rbind (ray_to_asset_floor diff (asset_decimals (c_params c))) (\<lambda>uncovered.
          Inr (max (i128_saturating_sub uncovered (c_cash c)) 0)))))"

definition require_backed_market :: "cache \<Rightarrow> unit res" where
  "require_backed_market c =
     rbind (backing_shortfall c) (\<lambda>s. assert_with_error (s = 0) (Collateral PoolInsolvent))"

definition require_supply_for_debt :: "cache \<Rightarrow> unit res" where
  "require_supply_for_debt c =
     (if c_supplied c = 0 \<and> c_borrowed c \<noteq> 0 then Inl (Collateral PoolInsolvent) else Inr ())"

section \<open>What the guards establish\<close>

lemma supply_for_debt_Inr [res_iff]:
  "require_supply_for_debt c = Inr u \<longleftrightarrow> (c_supplied c = 0 \<longrightarrow> c_borrowed c = 0)"
  by (auto simp: require_supply_for_debt_def)

text \<open>The part of an exact value that the gate reads: debt rounded up, claims rounded down.\<close>

definition utilization_ok :: "cache \<Rightarrow> bool" where
  "utilization_ok c \<longleftrightarrow> c_supplied c = 0 \<or> max_utilization (c_params c) \<ge> RAY \<or> c_borrowed c * c_borrow_index c = 0 \<or>
     c_borrowed c * c_borrow_index c * RAY \<le> max_utilization (c_params c) * (c_supplied c * c_supply_index c)"

lemma utilization_gate:
  assumes g: "require_utilization_below_max c = Inr u" and ok: "cache_ok c"
  shows "utilization_ok c"
proof (cases "c_supplied c = 0 \<or> max_utilization (c_params c) \<ge> RAY \<or> c_borrowed c * c_borrow_index c = 0")
  case True
  then show ?thesis by (auto simp: utilization_ok_def)
next
  case False
  let ?b = "c_borrowed c * c_borrow_index c" and ?s = "c_supplied c * c_supply_index c"
  let ?B = "ceil_div ?b RAY" and ?S = "?s div RAY" and ?m = "max_utilization (c_params c)"
  have b0: "0 < ?b" using False cache_okD [OF ok] by (simp add: less_le)
  then have "?B \<noteq> 0" using pos_ceil [OF b0, of RAY] by simp
  with g False have S0: "0 < ?S" and "ceil_div (?B * RAY) ?S \<le> ?m"
    by (auto simp: require_utilization_below_max_def res_iff split: if_splits)
  then have BR: "?B * RAY \<le> ?m * ?S" by (simp add: ceil_le_iff)
  have m0: "0 \<le> ?m" using cache_okD(1) [OF ok] by (auto simp: params_ok_def)
  have "?b * RAY \<le> ?B * RAY * RAY" using ceil_bounds [of RAY ?b] by (intro mult_right_mono) auto
  also have "\<dots> \<le> ?m * ?S * RAY" using BR by (intro mult_right_mono) auto
  also have "\<dots> \<le> ?m * ?s" using floor_bounds [of RAY ?s] m0 mult_left_mono [of "?S * RAY" ?s ?m] by (simp add: mult_ac)
  finally show ?thesis by (simp add: utilization_ok_def)
qed

text \<open>A passed buffer check leaves two percent of floored supply in cash after the draw.\<close>

lemma liquidation_buffer:
  assumes g: "require_liquidation_buffer c draw = Inr u" and ok: "cache_ok c" and draw: "0 \<le> draw" "draw \<le> c_cash c"
  shows "LIQUIDATION_BUFFER_BPS * (c_supplied c * c_supply_index c div RAY div asset_unit (asset_decimals (c_params c)))
       \<le> BPS * (c_cash c - draw)"
proof -
  note D = cache_okD [OF ok]
  let ?S = "c_supplied c * c_supply_index c div RAY div asset_unit (asset_decimals (c_params c))"
  have S0: "0 \<le> ?S" using D by (simp add: nonneg_quotients pos_imp_zdiv_nonneg_iff)
  have "in_i128 (c_cash c - draw)" using draw cache_ok_bounds(4) [OF ok] in_i128_le by auto
  then have "i128_saturating_sub (c_cash c) draw = c_cash c - draw"
    by (simp add: i128_saturating_sub_def saturate_id)
  with g D(4,6) have "ceil_div (?S * LIQUIDATION_BUFFER_BPS) BPS \<le> c_cash c - draw"
    by (auto simp: require_liquidation_buffer_def cache_unscale_supply_floor_def rbind_Inr_iff assert_Inr_iff
        unscale_Inr(2) [OF D(2)] mul_div_ceil_Inr)
  then show ?thesis by (simp add: ceil_le_iff mult_ac)
qed

section \<open>The backing shortfall\<close>

lemma backing_shortfall_value:
  assumes r: "backing_shortfall c = Inr s" and ok: "cache_ok c"
  shows "s = max 0 ((c_supplied c * c_supply_index c div RAY - ceil_div (c_borrowed c * c_borrow_index c) RAY)
      div asset_unit (asset_decimals (c_params c)) - c_cash c)"
proof -
  note D = cache_okD [OF ok]
  let ?C = "c_supplied c * c_supply_index c div RAY" and ?B = "ceil_div (c_borrowed c * c_borrow_index c) RAY"
  let ?u = "asset_unit (asset_decimals (c_params c))"
  show ?thesis
  proof (cases "?C \<le> ?B")
    case True
    then have "(?C - ?B) div ?u \<le> 0" using zdiv_mono1 [of "?C - ?B" 0 ?u] by simp
    with True r D(9) show ?thesis by (auto simp: backing_shortfall_def unscale_borrow_ceil_ray_def res_iff)
  next
    case False
    from r False obtain un where fit: "in_i128 (?C - ?B)"
      and un: "ray_to_asset_floor (?C - ?B) (asset_decimals (c_params c)) = Inr un"
      and s: "s = max (i128_saturating_sub un (c_cash c)) 0"
      by (auto simp: backing_shortfall_def unscale_borrow_ceil_ray_def rbind_Inr_iff ray_Inr)
    have u': "un = (?C - ?B) div ?u" using un ray_to_asset_eqs [OF D(2) _ fit] False by simp
    have "0 \<le> un" using False by (simp add: u' pos_imp_zdiv_nonneg_iff)
    moreover have "un \<le> ?C - ?B"
    proof -
      have "(?C - ?B) div ?u \<le> (?C - ?B) div 1" using False by (intro zdiv_mono2) auto
      then show ?thesis by (simp add: u')
    qed
    ultimately have "in_i128 un" using in_i128_le [OF fit] by simp
    then have "in_i128 (un - c_cash c)" using \<open>0 \<le> un\<close> cache_ok_bounds(4) [OF ok] D(9) by (simp add: in_i128_iff)
    then show ?thesis by (simp add: s u' [symmetric] i128_saturating_sub_def saturate_id max.commute)
  qed
qed

lemma shortfall_never_over_reported:
  assumes "backing_shortfall c = Inr s" and "cache_ok c"
  shows "0 \<le> s" and "s * unit_value c \<le> max 0 (gap c)"
proof -
  let ?C = "c_supplied c * c_supply_index c div RAY" and ?B = "ceil_div (c_borrowed c * c_borrow_index c) RAY"
  let ?u = "asset_unit (asset_decimals (c_params c))"
  let ?q = "(?C - ?B) div ?u"
  have s: "s = max 0 (?q - c_cash c)" by (rule backing_shortfall_value [OF assms])
  then show "0 \<le> s" by simp
  have "?q * ?u \<le> ?C - ?B" using floor_bounds [of ?u "?C - ?B"] by simp
  then have "?q * ?u * RAY \<le> (?C - ?B) * RAY" by (intro mult_right_mono) auto
  also have "\<dots> \<le> c_supplied c * c_supply_index c - c_borrowed c * c_borrow_index c"
    using floor_bounds [of RAY "c_supplied c * c_supply_index c"] ceil_bounds [of RAY "c_borrowed c * c_borrow_index c"]
    by (simp add: left_diff_distrib)
  finally have "(?q - c_cash c) * unit_value c \<le> gap c"
    by (simp add: gap_def book_gap_def unit_value_def left_diff_distrib mult.assoc)
  then show "s * unit_value c \<le> max 0 (gap c)" by (auto simp: s max_def)
qed

lemma small_gap_no_shortfall:
  assumes "backing_shortfall c = Inr s" and "cache_ok c" and "gap c < unit_value c"
  shows "s = 0"
proof -
  note S = shortfall_never_over_reported [OF assms(1,2)]
  have "s * unit_value c < 1 * unit_value c" using S(2) assms(3) unit_value_pos(1) [of c] by linarith
  then have "s < 1" by (rule mult_right_less_imp_less) simp
  with S(1) show ?thesis by simp
qed

text \<open>
  The other direction: when no shortfall is reported the exact gap is below one asset unit and two rays.
\<close>

lemma no_shortfall_small_gap:
  assumes "backing_shortfall c = Inr 0" and "cache_ok c"
  shows "gap c < unit_value c + 2 * RAY"
proof -
  let ?C = "c_supplied c * c_supply_index c div RAY" and ?B = "ceil_div (c_borrowed c * c_borrow_index c) RAY"
  let ?u = "asset_unit (asset_decimals (c_params c))"
  have "(?C - ?B) div ?u \<le> c_cash c" using backing_shortfall_value [OF assms] by simp
  then have "?C - ?B < (c_cash c + 1) * ?u" by (simp add: floor_le_iff)
  then have "(?C - ?B) * RAY \<le> (c_cash c + 1) * ?u * RAY" by (intro mult_right_mono) auto
  moreover have "c_supplied c * c_supply_index c < ?C * RAY + RAY" "?B * RAY - RAY < c_borrowed c * c_borrow_index c"
    using floor_bounds [of RAY "c_supplied c * c_supply_index c"] ceil_bounds [of RAY "c_borrowed c * c_borrow_index c"]
    by (simp_all add: algebra_simps)
  ultimately show ?thesis by (simp add: gap_def book_gap_def unit_value_def algebra_simps)
qed

lemma backing_shortfall_total:
  assumes ok: "cache_ok c"
    and fits: "c_supplied c * c_supply_index c div RAY \<le> i128_max" "ceil_div (c_borrowed c * c_borrow_index c) RAY \<le> i128_max"
  shows "\<exists>s. backing_shortfall c = Inr s"
proof -
  note D = cache_okD [OF ok]
  let ?C = "c_supplied c * c_supply_index c div RAY" and ?B = "ceil_div (c_borrowed c * c_borrow_index c) RAY"
  have nn: "0 \<le> ?C" "0 \<le> ?B" using D by (auto intro!: nonneg_quotients)
  then have "in_i128 ?C" "in_i128 ?B" using fits by (auto simp: in_i128_nonneg)
  then have 1: "ray_mul_floor (c_supplied c) (c_supply_index c) = Inr ?C" "unscale_borrow_ceil_ray c (c_borrowed c) = Inr ?B"
    by (auto simp: unscale_borrow_ceil_ray_def res_iff)
  show ?thesis
  proof (cases "?C \<le> ?B")
    case True
    with 1 show ?thesis by (simp add: backing_shortfall_def)
  next
    case False
    then have fit: "in_i128 (?C - ?B)" using nn fits by (auto simp: in_i128_nonneg)
    then have "ray_checked_sub ?C ?B = Inr (?C - ?B)" using False nn by (simp add: res_iff)
    with 1 False ray_to_asset_eqs [OF D(2) _ fit] show ?thesis by (simp add: backing_shortfall_def)
  qed
qed

end
