(* ===== verification/Pool_Ops.thy ===== *)
theory Pool_Ops
  imports Pool_Guards
begin

text \<open>
  \<^verbatim>\<open>src/contracts/pool/src/ops/\<close>: one definition per operation of the pool, over the host state. An
  operation returns its result, the market snapshot for the batch event and the new host state.
\<close>

type_synonym ('w, 'r) leg_result = "('r \<times> market_state_snapshot \<times> 'w host) res"

section \<open>Shared helpers (ops/mod.rs)\<close>

definition synced_market :: "'w host \<Rightarrow> hub_asset_key \<Rightarrow> cache res" where
  "synced_market h k = rbind (cache_load h k) global_sync"

definition renewed_market :: "'w host \<Rightarrow> hub_asset_key \<Rightarrow> cache res" where
  "renewed_market h k = synced_market h k"

definition load_leg :: "'w host \<Rightarrow> pool_action \<Rightarrow> (cache \<times> ray) res" where
  "load_leg h action =
     rbind (require_nonneg_amount (pa_amount action)) (\<lambda>_.
     rbind (require_nonneg_amount (scaled_amount (pa_position action))) (\<lambda>_.
     rbind (synced_market h (pa_hub_asset action)) (\<lambda>c.
     Inr (c, scaled_amount (pa_position action)))))"

primrec batch_loop ::
    "('w host \<Rightarrow> 'e \<Rightarrow> ('w, 'r) leg_result) \<Rightarrow> bool \<Rightarrow> 'e list \<Rightarrow> hub_asset_key list \<Rightarrow> 'w host
      \<Rightarrow> ('r list \<times> 'w host) res" where
  "batch_loop leg unique_markets [] markets h = Inr ([], h)"
| "batch_loop leg unique_markets (entry # entries) markets h =
     rbind (leg h entry) (\<lambda>(result, snap, h').
     rbind (if unique_markets then
              rbind (assert_with_error (mss_hub_asset snap \<notin> set markets) (Generic InvalidPayments)) (\<lambda>_.
              Inr (markets @ [mss_hub_asset snap]))
            else Inr markets) (\<lambda>markets'.
     rbind (batch_loop leg unique_markets entries markets' h') (\<lambda>(results, h'').
     Inr (result # results, h''))))"

definition run_batch ::
    "('w host \<Rightarrow> 'e \<Rightarrow> ('w, 'r) leg_result) \<Rightarrow> bool \<Rightarrow> 'e list \<Rightarrow> 'w host \<Rightarrow> ('r list \<times> 'w host) res" where
  "run_batch leg unique_markets entries h = batch_loop leg unique_markets entries [] h"

section \<open>Supply\<close>

definition supply_apply :: "'w host \<Rightarrow> pool_supply_entry \<Rightarrow> ('w, pool_position_mutation) leg_result" where
  "supply_apply h entry =
     rbind (load_leg h (pse_action entry)) (\<lambda>(c, position).
     let amount = pa_amount (pse_action entry) in
     rbind (require_backed_market c) (\<lambda>_.
     rbind (cache_scaled_supply c amount) (\<lambda>minted.
     rbind (assert_with_error (amount = 0 \<or> minted > 0) (Generic SupplyRoundsToZeroShares)) (\<lambda>_.
     rbind (ray_checked_add position minted) (\<lambda>position'.
     rbind (mint_supply c minted) (\<lambda>c1.
     rbind (credit_cash c1 amount) (\<lambda>c2.
     let (h', snap) = cache_commit c2 h in
     Inr (position_mutation c2 position' amount, snap, h'))))))))"

section \<open>Borrow\<close>

record borrow_outcome =
  bo_cache :: cache
  bo_mutation :: pool_position_mutation
  bo_snapshot :: market_state_snapshot

definition mint_debt :: "cache \<Rightarrow> ray \<Rightarrow> int \<Rightarrow> (cache \<times> ray) res" where
  "mint_debt c position amount =
     rbind (require_positive_amount amount) (\<lambda>_.
     rbind (require_reserves c amount) (\<lambda>_.
     rbind (require_liquidation_buffer c amount) (\<lambda>_.
     rbind (cache_scaled_borrow c amount) (\<lambda>minted.
     rbind (assert_with_error (minted > 0) (Generic BorrowRoundsToZeroShares)) (\<lambda>_.
     rbind (ray_checked_add position minted) (\<lambda>position'.
     rbind (cache_mint_debt c minted) (\<lambda>c'.
     rbind (require_utilization_below_max c') (\<lambda>_.
     Inr (c', position')))))))))"

definition borrow_accounting :: "'w host \<Rightarrow> pool_borrow_entry \<Rightarrow> (borrow_outcome \<times> 'w host) res" where
  "borrow_accounting h entry =
     rbind (load_leg h (pbe_action entry)) (\<lambda>(c, position).
     let amount = pa_amount (pbe_action entry) in
     rbind (mint_debt c position amount) (\<lambda>(c1, position').
     rbind (debit_cash c1 amount) (\<lambda>c2.
     let (h', snap) = cache_commit c2 h in
     Inr (\<lparr>bo_cache = c2, bo_mutation = position_mutation c2 position' amount, bo_snapshot = snap\<rparr>, h'))))"

definition borrow_apply ::
    "'w externals \<Rightarrow> address \<Rightarrow> 'w host \<Rightarrow> pool_borrow_entry \<Rightarrow> ('w, pool_position_mutation) leg_result" where
  "borrow_apply ext receiver h entry =
     rbind (borrow_accounting h entry) (\<lambda>(outcome, h1).
     rbind (transfer_out ext (bo_cache outcome) receiver (ppm_actual_amount (bo_mutation outcome)) h1) (\<lambda>h2.
     Inr (bo_mutation outcome, bo_snapshot outcome, h2)))"

section \<open>Withdraw\<close>

record withdraw_outcome =
  wo_cache :: cache
  wo_mutation :: pool_position_mutation
  wo_snapshot :: market_state_snapshot
  wo_net_transfer :: int

definition resolve_close_or_partial :: "cache \<Rightarrow> int \<Rightarrow> ray \<Rightarrow> (ray \<times> int) res" where
  "resolve_close_or_partial c amount position =
     rbind (cache_resolve_withdrawal c amount position) (\<lambda>(burned, gross_amount).
     rbind (assert_with_error (gross_amount = 0 \<or> burned > 0) (Generic WithdrawRoundsToZeroShares)) (\<lambda>_.
     Inr (burned, gross_amount)))"

definition burn_position :: "cache \<Rightarrow> ray \<Rightarrow> ray \<Rightarrow> (cache \<times> ray) res" where
  "burn_position c position burned =
     rbind (burn_supply c burned) (\<lambda>c'.
     rbind (ray_checked_sub position burned) (\<lambda>remaining. Inr (c', remaining)))"

definition gate_and_debit :: "cache \<Rightarrow> int \<Rightarrow> bool \<Rightarrow> cache res" where
  "gate_and_debit c net_transfer skip_utilization_check =
     rbind (require_reserves c net_transfer) (\<lambda>_.
     rbind (if \<not> skip_utilization_check then require_utilization_below_max c else Inr ()) (\<lambda>_.
     rbind (require_supply_for_debt c) (\<lambda>_.
     debit_cash c net_transfer)))"

definition withhold_liquidation_fee :: "cache \<Rightarrow> int \<Rightarrow> bool \<Rightarrow> int \<Rightarrow> (cache \<times> int) res" where
  "withhold_liquidation_fee c gross_amount is_liquidation protocol_fee =
     (if \<not> is_liquidation \<or> protocol_fee = 0 then Inr (c, gross_amount)
      else
        rbind (assert_with_error (gross_amount \<ge> protocol_fee) (Collateral WithdrawLessThanFee)) (\<lambda>_.
        rbind (ray_from_asset protocol_fee (asset_decimals (c_params c))) (\<lambda>fee.
        rbind (add_protocol_revenue c fee) (\<lambda>c'.
        rbind (unwrap_or_panic (i128_checked_sub gross_amount protocol_fee) (Generic MathOverflow)) (\<lambda>net.
        Inr (c', net))))))"

definition withdraw_accounting ::
    "'w host \<Rightarrow> bool \<Rightarrow> pool_withdraw_entry \<Rightarrow> (withdraw_outcome \<times> 'w host) res" where
  "withdraw_accounting h is_liquidation entry =
     rbind (require_nonneg_amount (pwe_protocol_fee entry)) (\<lambda>_.
     rbind (load_leg h (pwe_action entry)) (\<lambda>(c, position).
     rbind (resolve_close_or_partial c (pa_amount (pwe_action entry)) position) (\<lambda>(burned, gross_amount).
     rbind (burn_position c position burned) (\<lambda>(c1, remaining).
     rbind (withhold_liquidation_fee c1 gross_amount is_liquidation (pwe_protocol_fee entry)) (\<lambda>(c2, net_transfer).
     let empty_close = position = 0 \<and> pa_amount (pwe_action entry) = i128_max in
     rbind (gate_and_debit c2 net_transfer (is_liquidation \<or> empty_close)) (\<lambda>c3.
     let (h', snap) = cache_commit c3 h in
     Inr (\<lparr>wo_cache = c3, wo_mutation = position_mutation c3 remaining gross_amount,
           wo_snapshot = snap, wo_net_transfer = net_transfer\<rparr>, h')))))))"

definition withdraw_apply ::
    "'w externals \<Rightarrow> address \<Rightarrow> bool \<Rightarrow> 'w host \<Rightarrow> pool_withdraw_entry
      \<Rightarrow> ('w, pool_position_mutation) leg_result" where
  "withdraw_apply ext receiver is_liquidation h entry =
     rbind (withdraw_accounting h is_liquidation entry) (\<lambda>(outcome, h1).
     rbind (if wo_net_transfer outcome = 0 \<and>
               (scaled_amount (pa_position (pwe_action entry)) > 0 \<or> pa_amount (pwe_action entry) = i128_max) \<and>
               scaled_amount (ppm_position (wo_mutation outcome)) = 0
            then (case token_transfer ext (asset_id (c_params (wo_cache outcome))) (h_self h1) receiver 0 (h_world h1) of
                    Inl _ \<Rightarrow> Inr h1
                  | Inr w \<Rightarrow> Inr (h1\<lparr>h_world := w\<rparr>))
            else transfer_out ext (wo_cache outcome) receiver (wo_net_transfer outcome) h1) (\<lambda>h2.
     Inr (wo_mutation outcome, wo_snapshot outcome, h2)))"

section \<open>Repay\<close>

record repay_outcome =
  ro_cache :: cache
  ro_mutation :: pool_position_mutation
  ro_snapshot :: market_state_snapshot
  ro_overpayment :: int

definition repay_accounting :: "'w host \<Rightarrow> pool_action \<Rightarrow> (repay_outcome \<times> 'w host) res" where
  "repay_accounting h action =
     rbind (load_leg h action) (\<lambda>(c, position).
     let amount = pa_amount action in
     rbind (cache_resolve_repay c amount position) (\<lambda>(burned, overpayment).
     rbind (unwrap_or_panic (i128_checked_sub amount overpayment) (Generic MathOverflow)) (\<lambda>net_repay.
     rbind (assert_with_error (net_repay = 0 \<or> burned > 0) (Generic RepayRoundsToZeroShares)) (\<lambda>_.
     rbind (ray_checked_sub position burned) (\<lambda>position'.
     rbind (burn_debt c burned) (\<lambda>c1.
     rbind (credit_cash c1 net_repay) (\<lambda>c2.
     let (h', snap) = cache_commit c2 h in
     Inr (\<lparr>ro_cache = c2, ro_mutation = position_mutation c2 position' net_repay,
           ro_snapshot = snap, ro_overpayment = overpayment\<rparr>, h'))))))))"

definition repay_apply ::
    "'w externals \<Rightarrow> address \<Rightarrow> 'w host \<Rightarrow> pool_action \<Rightarrow> ('w, pool_position_mutation) leg_result" where
  "repay_apply ext payer h action =
     rbind (repay_accounting h action) (\<lambda>(outcome, h1).
     rbind (transfer_out ext (ro_cache outcome) payer (ro_overpayment outcome) h1) (\<lambda>h2.
     Inr (ro_mutation outcome, ro_snapshot outcome, h2)))"

section \<open>Seize\<close>

definition seize_apply :: "'w host \<Rightarrow> pool_seize_entry \<Rightarrow> (market_state_snapshot \<times> 'w host) res" where
  "seize_apply h entry =
     rbind (require_nonneg_amount (scaled_amount (pze_position entry))) (\<lambda>_.
     rbind (synced_market h (pze_hub_asset entry)) (\<lambda>c.
     let position = scaled_amount (pze_position entry) in
     rbind (case pze_side entry of
              Borrow \<Rightarrow>
                rbind (unscale_borrow_ceil_ray c position) (\<lambda>bad_debt.
                rbind (apply_bad_debt_to_supply_index c bad_debt) (\<lambda>c1.
                burn_debt c1 position))
            | Deposit \<Rightarrow> absorb_supply_as_revenue c position) (\<lambda>c'.
     let (h', snap) = cache_commit c' h in Inr (snap, h'))))"

section \<open>Net settlement\<close>

definition net_settle_apply :: "'w host \<Rightarrow> pool_net_settle_entry \<Rightarrow> ('w, pool_net_settle_result) leg_result" where
  "net_settle_apply h entry =
     rbind (require_nonneg_amount (pne_amount entry)) (\<lambda>_.
     rbind (require_nonneg_amount (scaled_amount (pne_supply_position entry))) (\<lambda>_.
     rbind (require_nonneg_amount (scaled_amount (pne_debt_position entry))) (\<lambda>_.
     rbind (synced_market h (pne_hub_asset entry)) (\<lambda>c.
     let supply_position = scaled_amount (pne_supply_position entry);
         debt_position = scaled_amount (pne_debt_position entry) in
     rbind (cache_resolve_net_settle c (pne_amount entry) supply_position debt_position)
       (\<lambda>(burned_supply, burned_debt, gross_amount).
     rbind (assert_with_error (gross_amount = 0 \<or> (burned_supply > 0 \<and> burned_debt > 0))
              (Generic NetSettleRoundsToZeroShares)) (\<lambda>_.
     rbind (burn_supply c burned_supply) (\<lambda>c1.
     rbind (burn_debt c1 burned_debt) (\<lambda>c2.
     rbind (require_supply_for_debt c2) (\<lambda>_.
     let (h', snap) = cache_commit c2 h in
     rbind (ray_checked_sub supply_position burned_supply) (\<lambda>sp.
     rbind (ray_checked_sub debt_position burned_debt) (\<lambda>dp.
     Inr (\<lparr>pnr_supply_position = \<lparr>scaled_amount = sp\<rparr>, pnr_debt_position = \<lparr>scaled_amount = dp\<rparr>,
           pnr_market_index = market_index_of c2, pnr_settled_amount = gross_amount\<rparr>, snap, h'))))))))))))"

section \<open>Revenue and recapitalisation\<close>

record revenue_outcome =
  rv_cache :: cache
  rv_mutation :: pool_amount_mutation

definition revenue_accounting :: "'w host \<Rightarrow> hub_asset_key \<Rightarrow> (revenue_outcome \<times> 'w host) res" where
  "revenue_accounting h k =
     rbind (renewed_market h k) (\<lambda>c.
     rbind (burn_claimable_revenue c) (\<lambda>(c1, net_transfer).
     rbind (require_utilization_below_max c1) (\<lambda>_.
     rbind (require_supply_for_debt c1) (\<lambda>_.
     rbind (debit_cash c1 net_transfer) (\<lambda>c2.
     let (h', snap) = cache_commit c2 h in
     Inr (\<lparr>rv_cache = c2, rv_mutation = \<lparr>pam_actual_amount = net_transfer\<rparr>\<rparr>, h'))))))"

definition revenue_apply :: "'w externals \<Rightarrow> 'w host \<Rightarrow> hub_asset_key \<Rightarrow> (pool_amount_mutation \<times> 'w host) res" where
  "revenue_apply ext h k =
     rbind (revenue_accounting h k) (\<lambda>(outcome, h1).
     rbind (if pam_actual_amount (rv_mutation outcome) \<noteq> 0 then
              rbind (unwrap_or_panic (h_owner h1) (Generic OwnerNotSet)) (\<lambda>owner.
              transfer_out ext (rv_cache outcome) owner (pam_actual_amount (rv_mutation outcome)) h1)
            else Inr h1) (\<lambda>h2.
     Inr (rv_mutation outcome, h2)))"

record recapitalization_outcome =
  rc_cache :: cache
  rc_mutation :: pool_amount_mutation
  rc_refund :: int

definition recapitalize_accounting ::
    "'w host \<Rightarrow> hub_asset_key \<Rightarrow> int \<Rightarrow> (recapitalization_outcome \<times> 'w host) res" where
  "recapitalize_accounting h k amount =
     rbind (require_nonneg_amount amount) (\<lambda>_.
     rbind (renewed_market h k) (\<lambda>c.
     rbind (backing_shortfall c) (\<lambda>shortfall.
     let applied = min amount shortfall in
     rbind (unwrap_or_panic (i128_checked_sub amount applied) (Generic MathOverflow)) (\<lambda>refund.
     rbind (credit_cash c applied) (\<lambda>c1.
     let (h', snap) = cache_commit c1 h in
     Inr (\<lparr>rc_cache = c1, rc_mutation = \<lparr>pam_actual_amount = applied\<rparr>, rc_refund = refund\<rparr>, h'))))))"

definition recapitalize_apply ::
    "'w externals \<Rightarrow> 'w host \<Rightarrow> hub_asset_key \<Rightarrow> address \<Rightarrow> int \<Rightarrow> (pool_amount_mutation \<times> 'w host) res" where
  "recapitalize_apply ext h k payer amount =
     rbind (recapitalize_accounting h k amount) (\<lambda>(outcome, h1).
     rbind (transfer_out ext (rc_cache outcome) payer (rc_refund outcome) h1) (\<lambda>h2.
     Inr (rc_mutation outcome, h2)))"

section \<open>Strategy\<close>

record strategy_outcome =
  so_cache :: cache
  so_mutation :: pool_strategy_mutation
  so_fee :: int

definition compute_fee :: "cache \<Rightarrow> int \<Rightarrow> bool \<Rightarrow> int res" where
  "compute_fee c amount charge_fee =
     (if \<not> charge_fee then Inr 0
      else rbind (bps_flash_loan_fee_on (int (flashloan_fee (c_params c))) amount) (\<lambda>fee.
           rbind (assert_with_error (fee \<le> amount) (FlashLoan StrategyFeeExceeds)) (\<lambda>_.
           Inr fee)))"

definition strategy_accounting :: "'w host \<Rightarrow> pool_action \<Rightarrow> bool \<Rightarrow> (strategy_outcome \<times> 'w host) res" where
  "strategy_accounting h action charge_fee =
     (let amount = pa_amount action in
     rbind (require_nonneg_amount amount) (\<lambda>_.
     rbind (require_nonneg_amount (scaled_amount (pa_position action))) (\<lambda>_.
     rbind (renewed_market h (pa_hub_asset action)) (\<lambda>c.
     rbind (compute_fee c amount charge_fee) (\<lambda>fee.
     rbind (mint_debt c (scaled_amount (pa_position action)) amount) (\<lambda>(c1, position).
     rbind (ray_from_asset fee (asset_decimals (c_params c1))) (\<lambda>protocol_fee.
     rbind (add_protocol_revenue c1 protocol_fee) (\<lambda>c2.
     rbind (unwrap_or_panic (i128_checked_sub amount fee) (Generic MathOverflow)) (\<lambda>amount_to_send.
     rbind (debit_cash c2 amount_to_send) (\<lambda>c3.
     let (h', snap) = cache_commit c3 h in
     Inr (\<lparr>so_cache = c3, so_mutation = strategy_mutation c3 position amount amount_to_send,
           so_fee = fee\<rparr>, h')))))))))))"

definition strategy_apply ::
    "'w externals \<Rightarrow> 'w host \<Rightarrow> address \<Rightarrow> pool_action \<Rightarrow> bool \<Rightarrow> (pool_strategy_mutation \<times> 'w host) res" where
  "strategy_apply ext h receiver action charge_fee =
     rbind (strategy_accounting h action charge_fee) (\<lambda>(outcome, h1).
     rbind (transfer_out ext (so_cache outcome) receiver (psm_amount_received (so_mutation outcome)) h1) (\<lambda>h2.
     Inr (so_mutation outcome, h2)))"

section \<open>Flash loan\<close>

record flash_terms =
  ft_fee :: int
  ft_total_repayment :: int
  ft_balance_after_payout :: int
  ft_balance_after_repayment :: int

definition flash_prepare :: "'w host \<Rightarrow> hub_asset_key \<Rightarrow> int \<Rightarrow> cache res" where
  "flash_prepare h k amount =
     rbind (require_positive_amount amount) (\<lambda>_.
     rbind (renewed_market h k) (\<lambda>c.
     rbind (assert_with_error (is_flashloanable (c_params c)) (FlashLoan FlashloanNotEnabled)) (\<lambda>_.
     rbind (require_reserves c amount) (\<lambda>_.
     Inr c))))"

definition flash_terms_of :: "int \<Rightarrow> nat \<Rightarrow> int \<Rightarrow> flash_terms res" where
  "flash_terms_of amount fee_bps pre_balance =
     rbind (bps_flash_loan_fee_on (int fee_bps) amount) (\<lambda>fee.
     rbind (unwrap_or_panic (i128_checked_add amount fee) (Generic MathOverflow)) (\<lambda>total_repayment.
     rbind (unwrap_or_panic (i128_checked_sub pre_balance amount) (Generic MathOverflow)) (\<lambda>after_payout.
     rbind (unwrap_or_panic (i128_checked_add pre_balance fee) (Generic MathOverflow)) (\<lambda>after_repayment.
     Inr \<lparr>ft_fee = fee, ft_total_repayment = total_repayment,
          ft_balance_after_payout = after_payout, ft_balance_after_repayment = after_repayment\<rparr>))))"

definition book_fee :: "cache \<Rightarrow> int \<Rightarrow> cache res" where
  "book_fee c fee =
     rbind (ray_from_asset fee (asset_decimals (c_params c))) (\<lambda>protocol_fee.
     rbind (add_protocol_revenue c protocol_fee) (\<lambda>c1.
     credit_cash c1 fee))"

definition flash_finalize :: "'w host \<Rightarrow> cache \<Rightarrow> int \<Rightarrow> 'w host res" where
  "flash_finalize h c fee =
     rbind (book_fee c fee) (\<lambda>c'.
     let (h', snap) = cache_commit c' h in Inr h')"

definition require_balance :: "'w externals \<Rightarrow> address \<Rightarrow> address \<Rightarrow> int \<Rightarrow> 'w \<Rightarrow> unit res" where
  "require_balance ext tok pool expected w =
     rbind (token_balance ext tok pool w) (\<lambda>b.
     assert_with_error (b = expected) (FlashLoan InvalidFlashloanRepay))"

definition collect_repayment ::
    "'w externals \<Rightarrow> address \<Rightarrow> address \<Rightarrow> address \<Rightarrow> flash_terms \<Rightarrow> 'w \<Rightarrow> 'w res" where
  "collect_repayment ext tok pool receiver terms w =
     rbind (token_allowance ext tok receiver pool w) (\<lambda>allowance.
     rbind (assert_with_error (allowance \<ge> ft_total_repayment terms) (FlashLoan InvalidFlashloanRepay)) (\<lambda>_.
     rbind (token_transfer_from ext tok pool receiver pool (ft_total_repayment terms) w) (\<lambda>w'.
     rbind (require_balance ext tok pool (ft_balance_after_repayment terms) w') (\<lambda>_.
     Inr w'))))"

definition flash_apply ::
    "'w externals \<Rightarrow> 'w host \<Rightarrow> hub_asset_key \<Rightarrow> address \<Rightarrow> address \<Rightarrow> int \<Rightarrow> bytes \<Rightarrow> (int \<times> 'w host) res" where
  "flash_apply ext h k initiator receiver amount data =
     rbind (flash_prepare h k amount) (\<lambda>c.
     rbind (require_wasm_receiver (executable_is_wasm ext receiver (h_world h))) (\<lambda>_.
     let pool = h_self h; tok = asset_id (c_params c) in
     rbind (token_balance ext tok pool (h_world h)) (\<lambda>pre_balance.
     rbind (flash_terms_of amount (flashloan_fee (c_params c)) pre_balance) (\<lambda>terms.
     rbind (token_transfer ext tok pool receiver amount (h_world h)) (\<lambda>w1.
     rbind (require_balance ext tok pool (ft_balance_after_payout terms) w1) (\<lambda>_.
     rbind (execute_flash_loan ext receiver initiator tok amount (ft_fee terms) pool data w1) (\<lambda>w2.
     rbind (require_balance ext tok pool (ft_balance_after_payout terms) w2) (\<lambda>_.
     rbind (collect_repayment ext tok pool receiver terms w2) (\<lambda>w3.
     rbind (flash_finalize (h\<lparr>h_world := w3\<rparr>) c (ft_fee terms)) (\<lambda>h'.
     Inr (ft_fee terms, h')))))))))))"

section \<open>Market lifecycle\<close>

definition market_create :: "'w host \<Rightarrow> nat \<Rightarrow> market_params_raw \<Rightarrow> 'w host res" where
  "market_create h hub params =
     rbind (market_params_raw_verify params) (\<lambda>_.
     let k = \<lparr>hub_id = hub, asset = mpr_asset_id params\<rparr> in
     rbind (assert_with_error (\<not> market_exists h k) (Generic AssetAlreadySupported)) (\<lambda>_.
     let h1 = write_params h k params in
     rbind (now_ms h1) (\<lambda>now.
     Inr (write_state h1 k
       \<lparr>ps_supplied = 0, ps_borrowed = 0, ps_revenue = 0, ps_borrow_index = RAY,
        ps_supply_index = RAY, ps_last_timestamp = now, ps_cash = 0\<rparr>))))"

definition replace_rate_model :: "'w host \<Rightarrow> hub_asset_key \<Rightarrow> interest_rate_model \<Rightarrow> 'w host res" where
  "replace_rate_model h k model =
     rbind (renewed_market h k) (\<lambda>c.
     let (h1, snap) = cache_commit c h in
     rbind (write_rate_model h1 k model) (\<lambda>(h2, params).
     rbind (market_params_raw_verify params) (\<lambda>_.
     Inr h2)))"

primrec market_accrue :: "hub_asset_key list \<Rightarrow> 'w host \<Rightarrow> 'w host res" where
  "market_accrue [] h = Inr h"
| "market_accrue (k # ks) h =
     rbind (cache_load h k) (\<lambda>c.
     rbind (global_sync c) (\<lambda>c'.
     let (h', snap) = cache_commit c' h in
     market_accrue ks h'))"

end
