(* ===== verification/Pool_Entries.thy ===== *)
theory Pool_Entries
  imports Pool_Ops
begin

text \<open>
  What each pool operation does to its market. \<open>market_step h k c0 c h'\<close> says that an operation read
  the market \<open>k\<close>, synced to the cache \<open>c0\<close>, and wrote back the cache \<open>c\<close>, changing nothing else of
  the pool. Every operation is such a step, keeps the market invariant, and, seizing aside, never
  widens the gap between supplier claims and what backs them.
\<close>

section \<open>Stored markets\<close>

definition cache_of :: "hub_asset_key \<Rightarrow> market_params_raw \<Rightarrow> pool_state \<Rightarrow> nat \<Rightarrow> cache" where
  "cache_of k p st now =
     \<lparr>c_hub_asset = k, c_params = market_params_of_raw p,
      c_last_timestamp = ps_last_timestamp st, c_current_timestamp = now,
      c_supplied = ps_supplied st, c_borrowed = ps_borrowed st,
      c_revenue = ps_revenue st, c_borrow_index = ps_borrow_index st,
      c_supply_index = ps_supply_index st, c_cash = ps_cash st\<rparr>"

definition market_ok :: "market_params_raw \<Rightarrow> pool_state \<Rightarrow> bool" where
  "market_ok p st \<longleftrightarrow> cache_ok (cache_of undefined p st 0)"

definition host_ok :: "'w host \<Rightarrow> bool" where
  "host_ok h \<longleftrightarrow> dom (h_params h) = dom (h_state h) \<and>
     (\<forall>k p st. h_params h k = Some p \<longrightarrow> h_state h k = Some st \<longrightarrow> market_ok p st)"

definition market_step :: "'w host \<Rightarrow> hub_asset_key \<Rightarrow> cache \<Rightarrow> cache \<Rightarrow> 'w host \<Rightarrow> bool" where
  "market_step h k c0 c h' \<longleftrightarrow>
     synced_market h k = Inr c0 \<and> cache_ok c0 \<and> cache_ok c \<and> c_hub_asset c = k \<and> c_params c = c_params c0 \<and>
     c_last_timestamp c = c_last_timestamp c0 \<and> c_current_timestamp c = c_current_timestamp c0 \<and>
     h' = (write_state h k (cache_state c))\<lparr>h_world := h_world h'\<rparr>"

definition same_indexes :: "cache \<Rightarrow> cache \<Rightarrow> bool" where
  "same_indexes c0 c \<longleftrightarrow> c_supply_index c = c_supply_index c0 \<and> c_borrow_index c = c_borrow_index c0"

lemma cache_load_Inr:
  "cache_load h k = Inr c \<longleftrightarrow> (\<exists>p st. h_params h k = Some p \<and> h_state h k = Some st \<and>
     h_timestamp h * MS_PER_SECOND \<le> u64_max \<and> c = cache_of k p st (h_timestamp h * MS_PER_SECOND))"
  by (auto simp: cache_load_def cache_of_def rbind_Inr_iff storage_Inr now_ms_Inr)

lemma cache_ok_cache_of: "cache_ok (cache_of k p st now) \<longleftrightarrow> market_ok p st"
  by (simp add: market_ok_def cache_ok_def cache_of_def)

lemma gap_cache_of: "gap (cache_of k p st now) = gap (cache_of k' p st now')"
  by (simp add: gap_def cache_of_def unit_value_def)

lemma cache_of_state:
  "cache_of (c_hub_asset c) p (cache_state c) (c_current_timestamp c) = c\<lparr>c_params := market_params_of_raw p\<rparr>"
  by (simp add: cache_of_def cache_state_def)

lemma host_okD:
  assumes "host_ok h" and "h_params h k = Some p" and "h_state h k = Some st"
  shows "market_ok p st"
  using assms by (simp add: host_ok_def)

lemma host_ok_write:
  assumes "host_ok h" and "h_params h k = Some p" and "market_ok p st"
  shows "host_ok (write_state h k st)"
  using assms by (auto simp: host_ok_def write_state_def split: if_splits)

lemma host_ok_world [simp]: "host_ok (h\<lparr>h_world := w\<rparr>) = host_ok h"
  by (simp add: host_ok_def)

lemma synced_market_sound:
  assumes "synced_market h k = Inr c" and "host_ok h"
  shows "cache_ok c" and "c_hub_asset c = k" and "elapsed_ms c = 0"
    and "\<exists>p st. h_params h k = Some p \<and> h_state h k = Some st \<and> c_params c = market_params_of_raw p \<and>
      gap c \<le> gap (cache_of k p st 0) + 2 * RAY * int (loop_chunks (h_timestamp h * MS_PER_SECOND - ps_last_timestamp st)) \<and>
      ps_borrow_index st \<le> c_borrow_index c \<and> ps_supply_index st \<le> c_supply_index c \<and>
      c_cash c = ps_cash st \<and> c_borrowed c = ps_borrowed st"
proof -
  from assms(1) obtain p st where m: "h_params h k = Some p" "h_state h k = Some st"
    and s: "global_sync (cache_of k p st (h_timestamp h * MS_PER_SECOND)) = Inr c"
    by (auto simp: synced_market_def rbind_Inr_iff cache_load_Inr)
  have ok: "cache_ok (cache_of k p st (h_timestamp h * MS_PER_SECOND))"
    using host_okD [OF assms(2) m] by (simp add: cache_ok_cache_of)
  note G = global_sync_sound [OF s ok]
  show "cache_ok c" and "elapsed_ms c = 0" using G(1) global_sync_current [OF s] by auto
  have f: "accrual_frame (cache_of k p st (h_timestamp h * MS_PER_SECOND)) c" by (rule G(3))
  then show "c_hub_asset c = k" by (simp add: accrual_frame_def cache_of_def)
  show "\<exists>p st. h_params h k = Some p \<and> h_state h k = Some st \<and> c_params c = market_params_of_raw p \<and>
      gap c \<le> gap (cache_of k p st 0) + 2 * RAY * int (loop_chunks (h_timestamp h * MS_PER_SECOND - ps_last_timestamp st)) \<and>
      ps_borrow_index st \<le> c_borrow_index c \<and> ps_supply_index st \<le> c_supply_index c \<and>
      c_cash c = ps_cash st \<and> c_borrowed c = ps_borrowed st"
    using m f G(2,4,5) gap_cache_of [of k p st "h_timestamp h * MS_PER_SECOND" k 0]
    by (intro exI [of _ p] exI [of _ st]) (auto simp: accrual_frame_def cache_of_def sync_chunks_def elapsed_ms_def)
qed

lemma market_stepI:
  assumes "synced_market h k = Inr c0" and "host_ok h" and "cache_ok c"
    and "c_hub_asset c = c_hub_asset c0" and "c_params c = c_params c0"
    and "c_last_timestamp c = c_last_timestamp c0" and "c_current_timestamp c = c_current_timestamp c0"
    and "h' = (fst (cache_commit c h))\<lparr>h_world := h_world h'\<rparr>"
  shows "market_step h k c0 c h'"
  using assms synced_market_sound(1,2) [OF assms(1,2)]
  by (simp add: market_step_def cache_commit_def)

lemma market_step_host:
  assumes "market_step h k c0 c h'" and "host_ok h"
  shows "host_ok h'" and "h_params h' = h_params h" and "h_owner h' = h_owner h" and "h_self h' = h_self h"
    and "h_timestamp h' = h_timestamp h" and "h_auth h' = h_auth h"
    and "h_state h' = (h_state h)(k \<mapsto> cache_state c)"
proof -
  from assms(1) have sm: "synced_market h k = Inr c0"
    and h': "h' = (write_state h k (cache_state c))\<lparr>h_world := h_world h'\<rparr>" and ok: "cache_ok c"
    and p: "c_params c = c_params c0" "c_hub_asset c = k"
    by (auto simp: market_step_def)
  from synced_market_sound(4) [OF sm assms(2)] obtain pr where pr: "h_params h k = Some pr" "c_params c0 = market_params_of_raw pr"
    by auto
  have "cache_of k pr (cache_state c) (c_current_timestamp c) = c"
    using cache_of_state [of c pr] p pr(2) by simp
  then have "market_ok pr (cache_state c)" using ok cache_ok_cache_of by metis
  then have "host_ok (write_state h k (cache_state c))" by (rule host_ok_write [OF assms(2) pr(1)])
  then show "host_ok h'" by (subst h') simp
  show "h_params h' = h_params h" and "h_owner h' = h_owner h" and "h_self h' = h_self h"
    and "h_timestamp h' = h_timestamp h" and "h_auth h' = h_auth h"
    and "h_state h' = (h_state h)(k \<mapsto> cache_state c)"
    by (subst h', simp add: write_state_def)+
qed

lemma load_leg_Inr:
  "load_leg h a = Inr (c, pos) \<longleftrightarrow> 0 \<le> pa_amount a \<and> 0 \<le> scaled_amount (pa_position a) \<and>
     pos = scaled_amount (pa_position a) \<and> synced_market h (pa_hub_asset a) = Inr c"
  by (auto simp: load_leg_def rbind_Inr_iff amount_guards_Inr)

lemma backed_market_Inr: "require_backed_market c = Inr u \<longleftrightarrow> backing_shortfall c = Inr 0"
  by (auto simp: require_backed_market_def res_iff)

section \<open>Conversions on the cache\<close>

lemma cache_scaled_supply_value:
  assumes "cache_scaled_supply c a = Inr n" and "cache_ok c"
  shows "n * c_supply_index c \<le> a * unit_value c" and "0 \<le> a \<Longrightarrow> 0 \<le> n"
  using assms cache_okD [OF assms(2)] floor_bounds [OF cache_okD(4) [OF assms(2)]]
  by (auto simp: cache_scaled_supply_def scaled_Inr unit_value_def mult.assoc pos_imp_zdiv_nonneg_iff)

lemma cache_scaled_borrow_value:
  assumes "cache_scaled_borrow c a = Inr n" and "cache_ok c"
  shows "a * unit_value c \<le> n * c_borrow_index c"
  using assms cache_okD [OF assms(2)] ceil_bounds [OF cache_okD(3) [OF assms(2)]]
  by (auto simp: cache_scaled_borrow_def scaled_Inr unit_value_def mult.assoc)

lemma from_asset_value:
  assumes "ray_from_asset a (asset_decimals (c_params c)) = Inr f" and "cache_ok c"
  shows "f * RAY = a * unit_value c" and "0 \<le> a \<Longrightarrow> 0 \<le> f"
  using assms cache_okD(2) [OF assms(2)] by (auto simp: ray_from_asset_Inr unit_value_def)

section \<open>Supply and borrow\<close>

text \<open>The frame of a step on the market named by the operation.\<close>

lemma supply_elim:
  assumes "supply_apply h e = Inr (m, sn, h')"
  obtains c0 n c where "0 \<le> pa_amount (pse_action e)" "0 \<le> scaled_amount (pa_position (pse_action e))"
    "synced_market h (pa_hub_asset (pse_action e)) = Inr c0" "backing_shortfall c0 = Inr 0"
    "cache_scaled_supply c0 (pa_amount (pse_action e)) = Inr n"
    "pa_amount (pse_action e) = 0 \<or> 0 < n" "in_i128 (c_supplied c0 + n)" "in_i128 (c_cash c0 + pa_amount (pse_action e))"
    "c = c0\<lparr>c_supplied := c_supplied c0 + n, c_cash := c_cash c0 + pa_amount (pse_action e)\<rparr>"
    "m = position_mutation c (scaled_amount (pa_position (pse_action e)) + n) (pa_amount (pse_action e))"
    "sn = snapshot c" "h' = write_state h (c_hub_asset c0) (cache_state c)"
  using assms unfolding supply_apply_def
  by (auto simp: rbind_Inr_iff load_leg_Inr backed_market_Inr assert_Inr_iff shares_Inr cash_Inr ray_Inr
      cache_commit_def Let_def)

lemma supply_sound:
  assumes s: "supply_apply h e = Inr (m, sn, h')" and ok: "host_ok h"
  obtains c0 c n where "market_step h (pa_hub_asset (pse_action e)) c0 c h'" and "sn = snapshot c"
    and "gap c \<le> gap c0" and "backing_shortfall c0 = Inr 0"
    and "c_cash c = c_cash c0 + pa_amount (pse_action e)" and "c_supplied c = c_supplied c0 + n"
    and "0 \<le> n" and "0 < pa_amount (pse_action e) \<Longrightarrow> 0 < n"
    and "scaled_amount (ppm_position m) = scaled_amount (pa_position (pse_action e)) + n"
    and "n * c_supply_index c0 \<le> pa_amount (pse_action e) * unit_value c0" and "same_indexes c0 c"
proof -
  let ?a = "pa_amount (pse_action e)"
  from s obtain c0 n c where a: "0 \<le> ?a" and sm: "synced_market h (pa_hub_asset (pse_action e)) = Inr c0"
    and sf: "backing_shortfall c0 = Inr 0" and n: "cache_scaled_supply c0 ?a = Inr n" "?a = 0 \<or> 0 < n"
      "in_i128 (c_supplied c0 + n)" "in_i128 (c_cash c0 + ?a)"
    and c: "c = c0\<lparr>c_supplied := c_supplied c0 + n, c_cash := c_cash c0 + ?a\<rparr>"
    and m: "m = position_mutation c (scaled_amount (pa_position (pse_action e)) + n) ?a"
    and sn: "sn = snapshot c" and h': "h' = write_state h (c_hub_asset c0) (cache_state c)"
    by (elim supply_elim)
  have ok0: "cache_ok c0" by (rule synced_market_sound(1) [OF sm ok])
  note v = cache_scaled_supply_value [OF n(1) ok0]
  have okc: "cache_ok c"
    unfolding c using ok0 n v a cache_okD [OF ok0] by (intro cache_ok_update) auto
  have "gap c = gap c0 + n * c_supply_index c0 - ?a * unit_value c0"
    by (simp add: c gap_def book_gap_def algebra_simps)
  then have g: "gap c \<le> gap c0" using v by simp
  have st: "market_step h (pa_hub_asset (pse_action e)) c0 c h'"
    by (rule market_stepI [OF sm ok okc]) (simp_all add: c h' cache_commit_def write_state_def)
  show ?thesis
    by (rule that [OF st sn g sf]) (use n v a in \<open>auto simp: c m position_mutation_def same_indexes_def\<close>)
qed

lemma mint_debt_elim:
  assumes "mint_debt c pos a = Inr (c', pos')"
  obtains n where "0 < a" "a \<le> c_cash c" "require_liquidation_buffer c a = Inr ()" "cache_scaled_borrow c a = Inr n"
    "0 < n" "in_i128 (c_borrowed c + n)" "pos' = pos + n" "c' = c\<lparr>c_borrowed := c_borrowed c + n\<rparr>"
    "require_utilization_below_max c' = Inr ()"
  using assms unfolding mint_debt_def
  by (auto simp: rbind_Inr_iff amount_guards_Inr cash_Inr assert_Inr_iff shares_Inr ray_Inr)

lemma mint_debt_value:
  assumes "mint_debt c pos a = Inr (c', pos')" and ok: "cache_ok c"
  shows "cache_ok c'" and "gap c' + a * unit_value c \<le> gap c" and "utilization_ok c'"
    and "LIQUIDATION_BUFFER_BPS * (c_supplied c * c_supply_index c div RAY div asset_unit (asset_decimals (c_params c)))
       \<le> BPS * (c_cash c - a)"
    and "0 < a" and "a \<le> c_cash c"
    and "\<exists>n>0. pos' = pos + n \<and> c' = c\<lparr>c_borrowed := c_borrowed c + n\<rparr> \<and> a * unit_value c \<le> n * c_borrow_index c"
proof -
  from assms(1) obtain n where n: "0 < a" "a \<le> c_cash c" "require_liquidation_buffer c a = Inr ()"
    "cache_scaled_borrow c a = Inr n" "0 < n" "in_i128 (c_borrowed c + n)" "pos' = pos + n"
    and c': "c' = c\<lparr>c_borrowed := c_borrowed c + n\<rparr>" and u: "require_utilization_below_max c' = Inr ()"
    by (elim mint_debt_elim)
  have v: "a * unit_value c \<le> n * c_borrow_index c" by (rule cache_scaled_borrow_value [OF n(4) ok])
  show okc: "cache_ok c'" unfolding c' using n ok cache_okD [OF ok] by (intro cache_ok_update) auto
  show "utilization_ok c'" by (rule utilization_gate [OF u okc])
  show "gap c' + a * unit_value c \<le> gap c" using v by (simp add: c' gap_update)
  show "LIQUIDATION_BUFFER_BPS * (c_supplied c * c_supply_index c div RAY div asset_unit (asset_decimals (c_params c)))
       \<le> BPS * (c_cash c - a)"
    using n(1,2) by (intro liquidation_buffer [OF n(3) ok]) auto
  show "0 < a" and "a \<le> c_cash c"
    and "\<exists>n>0. pos' = pos + n \<and> c' = c\<lparr>c_borrowed := c_borrowed c + n\<rparr> \<and> a * unit_value c \<le> n * c_borrow_index c"
    using n c' v by auto
qed

lemma borrow_sound:
  assumes s: "borrow_apply ext to h e = Inr (m, sn, h')" and ok: "host_ok h"
  obtains c0 c n where "market_step h (pa_hub_asset (pbe_action e)) c0 c h'" and "sn = snapshot c"
    and "gap c \<le> gap c0" and "utilization_ok c" and "0 < pa_amount (pbe_action e)"
    and "c_cash c = c_cash c0 - pa_amount (pbe_action e)" and "c_borrowed c = c_borrowed c0 + n" and "0 < n"
    and "c_supplied c = c_supplied c0" and "same_indexes c0 c"
    and "scaled_amount (ppm_position m) = scaled_amount (pa_position (pbe_action e)) + n"
    and "pa_amount (pbe_action e) * unit_value c0 \<le> n * c_borrow_index c0"
    and "LIQUIDATION_BUFFER_BPS * (c_supplied c * c_supply_index c div RAY div asset_unit (asset_decimals (c_params c)))
       \<le> BPS * c_cash c"
proof -
  let ?a = "pa_amount (pbe_action e)" and ?p = "scaled_amount (pa_position (pbe_action e))"
  from s obtain c0 c1 pos' h1 where sm: "synced_market h (pa_hub_asset (pbe_action e)) = Inr c0"
    and md: "mint_debt c0 ?p ?a = Inr (c1, pos')"
    and db: "debit_cash c1 ?a = Inr (c1\<lparr>c_cash := c_cash c1 - ?a\<rparr>)"
    and m: "m = position_mutation (c1\<lparr>c_cash := c_cash c1 - ?a\<rparr>) pos' ?a"
    and sn: "sn = snapshot (c1\<lparr>c_cash := c_cash c1 - ?a\<rparr>)"
    and h1: "h1 = write_state h (c_hub_asset c1) (cache_state (c1\<lparr>c_cash := c_cash c1 - ?a\<rparr>))"
    and t: "transfer_out ext (c1\<lparr>c_cash := c_cash c1 - ?a\<rparr>) to ?a h1 = Inr h'"
    unfolding borrow_apply_def borrow_accounting_def
    by (auto simp: rbind_Inr_iff load_leg_Inr cash_Inr cache_commit_def Let_def position_mutation_def)
  have ok0: "cache_ok c0" by (rule synced_market_sound(1) [OF sm ok])
  note M = mint_debt_value [OF md ok0]
  from M(7) obtain n where n: "0 < n" "pos' = ?p + n" "c1 = c0\<lparr>c_borrowed := c_borrowed c0 + n\<rparr>"
    "?a * unit_value c0 \<le> n * c_borrow_index c0" by blast
  define c where "c = c1\<lparr>c_cash := c_cash c1 - ?a\<rparr>"
  note Dc = debit_cash_sound [OF db M(1), folded c_def]
  have st: "market_step h (pa_hub_asset (pbe_action e)) c0 c h'"
    by (rule market_stepI [OF sm ok Dc(1)]; (subst transfer_out_frame(1) [OF t])?)
      (simp_all add: c_def n(3) h1 cache_commit_def write_state_def)
  have u: "utilization_ok c" using M(3) by (simp add: utilization_ok_def c_def)
  show ?thesis
    by (rule that [OF st _ _ u])
      (use M n Dc in \<open>auto simp: sn c_def m position_mutation_def same_indexes_def\<close>)
qed

end
