(* ===== verification/Pool_Exits.thy ===== *)
theory Pool_Exits
  imports Pool_Entries
begin

text \<open>
  Withdrawals, repayments, same-asset settlements and seizures as market steps. What leaves the book
  is never worth more than the shares burned for it, and debt burned is never worth more than the
  cash credited for it.
\<close>

section \<open>Withdraw\<close>

lemma resolve_close_value:
  assumes r: "resolve_close_or_partial c a pos = Inr (burned, gross)" and ok: "cache_ok c" and nn: "0 \<le> a" "0 \<le> pos"
  shows "gross * unit_value c \<le> burned * c_supply_index c" and "0 \<le> burned" and "burned \<le> pos"
    and "0 \<le> gross" and "gross \<le> a" and "0 < gross \<Longrightarrow> 0 < burned"
proof -
  note D = cache_okD [OF ok]
  from r have w: "resolve_withdrawal a pos (c_supply_index c) (asset_decimals (c_params c)) = Inr (burned, gross)"
    and z: "gross = 0 \<or> 0 < burned"
    by (auto simp: resolve_close_or_partial_def cache_resolve_withdrawal_def rbind_Inr_iff assert_Inr_iff)
  note F = resolve_withdrawal_facts [OF w D(2) nn(2) D(4) nn(1)]
  show "gross * unit_value c \<le> burned * c_supply_index c" using F(1) by (simp add: unit_value_def mult.assoc)
  show "0 \<le> burned" and "burned \<le> pos" and "0 \<le> gross" and "gross \<le> a" and "0 < gross \<Longrightarrow> 0 < burned"
    using F z by auto
qed

lemma withhold_fee_value:
  assumes w: "withhold_liquidation_fee c gross liq fee = Inr (c', net)" and ok: "cache_ok c" and nn: "0 \<le> fee" "0 \<le> gross"
  shows "cache_ok c'" and "gap c' + net * unit_value c \<le> gap c + gross * unit_value c"
    and "0 \<le> net" and "net \<le> gross" and "net = gross - (if liq then fee else 0)"
    and "\<exists>n\<ge>0. c' = c\<lparr>c_revenue := c_revenue c + n, c_supplied := c_supplied c + n\<rparr>"
proof -
  have "cache_ok c' \<and> gap c' + net * unit_value c \<le> gap c + gross * unit_value c \<and> 0 \<le> net \<and> net \<le> gross \<and>
    net = gross - (if liq then fee else 0) \<and>
    (\<exists>n\<ge>0. c' = c\<lparr>c_revenue := c_revenue c + n, c_supplied := c_supplied c + n\<rparr>)"
  proof (cases "\<not> liq \<or> fee = 0")
    case True
    with w ok nn show ?thesis by (auto simp: withhold_liquidation_fee_def intro!: exI [of _ 0])
  next
    case False
    with w obtain f where g: "fee \<le> gross" and f: "ray_from_asset fee (asset_decimals (c_params c)) = Inr f"
      and r: "add_protocol_revenue c f = Inr c'" and net: "net = gross - fee"
      by (auto simp: withhold_liquidation_fee_def rbind_Inr_iff assert_Inr_iff unwrap_Inr_iff
          i128_checked_sub_def to_i128_Some_iff)
    note v = from_asset_value [OF f ok]
    note R = add_protocol_revenue_sound [OF r ok v(2) [OF nn(1)]]
    from R v(1) g False nn show ?thesis by (auto simp: net left_diff_distrib)
  qed
  then show "cache_ok c'" and "gap c' + net * unit_value c \<le> gap c + gross * unit_value c"
    and "0 \<le> net" and "net \<le> gross" and "net = gross - (if liq then fee else 0)"
    and "\<exists>n\<ge>0. c' = c\<lparr>c_revenue := c_revenue c + n, c_supplied := c_supplied c + n\<rparr>" by blast+
qed

lemma withdraw_transfer_frame:
  assumes "(if b then (case token_transfer ext tok self to 0 (h_world h1) of
              Inl _ \<Rightarrow> Inr h1 | Inr w \<Rightarrow> Inr (h1\<lparr>h_world := w\<rparr>))
            else transfer_out ext c to n h1) = Inr h2"
  shows "h2 = h1\<lparr>h_world := h_world h2\<rparr>"
  using assms transfer_out_frame(1) [of ext c to n h1 h2] by (auto split: if_splits sum.splits)

lemma gate_and_debit_elim:
  assumes "gate_and_debit c a skip = Inr c'"
  obtains "0 \<le> a" "a \<le> c_cash c" "debit_cash c a = Inr c'" "c' = c\<lparr>c_cash := c_cash c - a\<rparr>"
    "c_supplied c = 0 \<longrightarrow> c_borrowed c = 0" "\<not> skip \<longrightarrow> require_utilization_below_max c = Inr ()"
  using assms by (auto simp: gate_and_debit_def rbind_Inr_iff cash_Inr supply_for_debt_Inr split: if_splits)

lemma withdraw_sound:
  assumes s: "withdraw_apply ext to liq h e = Inr (m, sn, h')" and ok: "host_ok h"
  obtains c0 c burned gross net n where "market_step h (pa_hub_asset (pwe_action e)) c0 c h'" and "sn = snapshot c"
    and "gap c \<le> gap c0" and "\<not> liq \<Longrightarrow> pa_amount (pwe_action e) \<noteq> i128_max \<Longrightarrow> utilization_ok c"
    and "c_cash c = c_cash c0 - net" and "0 \<le> net" and "net = gross - (if liq then pwe_protocol_fee e else 0)"
    and "c_supplied c = c_supplied c0 - burned + n" and "0 \<le> n" and "c_revenue c = c_revenue c0 + n"
    and "0 \<le> burned" and "burned \<le> scaled_amount (pa_position (pwe_action e))"
    and "scaled_amount (ppm_position m) = scaled_amount (pa_position (pwe_action e)) - burned"
    and "ppm_actual_amount m = gross" and "gross \<le> pa_amount (pwe_action e)"
    and "gross * unit_value c0 \<le> burned * c_supply_index c0"
    and "c_borrowed c = c_borrowed c0" and "c_supplied c = 0 \<Longrightarrow> c_borrowed c = 0" and "same_indexes c0 c"
proof -
  let ?a = "pa_amount (pwe_action e)" and ?p = "scaled_amount (pa_position (pwe_action e))"
  from s obtain c0 burned gross c1 rem c2 net c h1 where fee: "0 \<le> pwe_protocol_fee e" and nn: "0 \<le> ?a" "0 \<le> ?p"
    and sm: "synced_market h (pa_hub_asset (pwe_action e)) = Inr c0"
    and r: "resolve_close_or_partial c0 ?a ?p = Inr (burned, gross)"
    and b: "burn_supply c0 burned = Inr c1" and rem: "ray_checked_sub ?p burned = Inr rem"
    and w: "withhold_liquidation_fee c1 gross liq (pwe_protocol_fee e) = Inr (c2, net)"
    and g: "gate_and_debit c2 net (liq \<or> (?p = 0 \<and> ?a = i128_max)) = Inr c"
    and m: "m = position_mutation c rem gross" and sn: "sn = snapshot c"
    and h1: "h1 = write_state h (c_hub_asset c) (cache_state c)" and fr: "h' = h1\<lparr>h_world := h_world h'\<rparr>"
    unfolding withdraw_apply_def withdraw_accounting_def
    by (auto simp: rbind_Inr_iff load_leg_Inr amount_guards_Inr burn_position_def cache_commit_def Let_def
        dest!: withdraw_transfer_frame)
  have ok0: "cache_ok c0" by (rule synced_market_sound(1) [OF sm ok])
  note R = resolve_close_value [OF r ok0 nn]
  note B = burn_supply_sound [OF b ok0]
  have c1: "c1 = c0\<lparr>c_supplied := c_supplied c0 - burned\<rparr>" using b by (simp add: shares_Inr)
  note W = withhold_fee_value [OF w B(1) fee R(4)]
  from W(6) obtain n where n: "0 \<le> n" "c2 = c1\<lparr>c_revenue := c_revenue c1 + n, c_supplied := c_supplied c1 + n\<rparr>" by blast
  from g have G: "debit_cash c2 net = Inr c" "c = c2\<lparr>c_cash := c_cash c2 - net\<rparr>" "c_supplied c2 = 0 \<longrightarrow> c_borrowed c2 = 0"
    "\<not> (liq \<or> (?p = 0 \<and> ?a = i128_max)) \<longrightarrow> require_utilization_below_max c2 = Inr ()"
    by (auto elim: gate_and_debit_elim)
  note Dc = debit_cash_sound [OF G(1) W(1)]
  have uv: "unit_value c1 = unit_value c0" "unit_value c2 = unit_value c0" by (simp_all add: c1 n(2) unit_value_def)
  have gp: "gap c \<le> gap c0" using Dc(2) W(2) B(2) R(1) unfolding uv by linarith
  have st: "market_step h (pa_hub_asset (pwe_action e)) c0 c h'"
    by (rule market_stepI [OF sm ok Dc(1)]; (subst fr)?)
      (simp_all add: G(2) n(2) c1 h1 cache_commit_def write_state_def)
  have u: "utilization_ok c" if "\<not> liq" "?a \<noteq> i128_max"
  proof -
    have "utilization_ok c2" using G(4) that by (intro utilization_gate [OF _ W(1)]) auto
    then show ?thesis by (simp add: utilization_ok_def G(2))
  qed
  show ?thesis
    by (rule that [OF st sn gp u, of net gross burned n])
      (use W R G n rem in \<open>auto simp: c1 m position_mutation_def ray_Inr same_indexes_def\<close>)
qed

section \<open>Repay\<close>

lemma repay_sound:
  assumes s: "repay_apply ext payer h a = Inr (m, sn, h')" and ok: "host_ok h"
  obtains c0 c burned over where "market_step h (pa_hub_asset a) c0 c h'" and "sn = snapshot c"
    and "gap c \<le> gap c0" and "c_cash c = c_cash c0 + (pa_amount a - over)" and "0 \<le> over" and "over \<le> pa_amount a"
    and "c_borrowed c = c_borrowed c0 - burned" and "0 \<le> burned" and "burned \<le> scaled_amount (pa_position a)"
    and "scaled_amount (ppm_position m) = scaled_amount (pa_position a) - burned"
    and "ppm_actual_amount m = pa_amount a - over"
    and "burned * c_borrow_index c0 \<le> (pa_amount a - over) * unit_value c0"
    and "over < pa_amount a \<Longrightarrow> 0 < burned"
    and "c_supplied c = c_supplied c0" and "c_revenue c = c_revenue c0" and "same_indexes c0 c"
proof -
  let ?a = "pa_amount a" and ?p = "scaled_amount (pa_position a)"
  from s obtain c0 burned over c1 c h1 where nn: "0 \<le> ?a" "0 \<le> ?p"
    and sm: "synced_market h (pa_hub_asset a) = Inr c0"
    and r: "resolve_repay ?a ?p (c_borrow_index c0) (asset_decimals (c_params c0)) = Inr (burned, over)"
    and z: "?a - over = 0 \<or> 0 < burned" and rem: "burned \<le> ?p"
    and b: "burn_debt c0 burned = Inr c1" and cr: "credit_cash c1 (?a - over) = Inr c"
    and m: "m = position_mutation c (?p - burned) (?a - over)" and sn: "sn = snapshot c"
    and h1: "h1 = write_state h (c_hub_asset c) (cache_state c)" and t: "transfer_out ext c payer over h1 = Inr h'"
    unfolding repay_apply_def repay_accounting_def cache_resolve_repay_def
    by (auto simp: rbind_Inr_iff load_leg_Inr assert_Inr_iff unwrap_Inr_iff i128_checked_sub_def to_i128_Some_iff
        ray_Inr cache_commit_def Let_def)
  have ok0: "cache_ok c0" by (rule synced_market_sound(1) [OF sm ok])
  note D = cache_okD [OF ok0]
  note R = resolve_repay_facts [OF r D(2) nn(2) D(3) nn(1)]
  note B = burn_debt_sound [OF b ok0]
  have c1: "c1 = c0\<lparr>c_borrowed := c_borrowed c0 - burned\<rparr>" using b by (simp add: shares_Inr)
  note C = credit_cash_sound [OF cr B(1)]
  have c: "c = c1\<lparr>c_cash := c_cash c1 + (?a - over)\<rparr>" using cr by (simp add: cash_Inr)
  have v: "burned * c_borrow_index c0 \<le> (?a - over) * unit_value c0" using R(1) by (simp add: unit_value_def mult.assoc)
  have gp: "gap c \<le> gap c0" using C(2) B(2) v by (simp add: c1)
  have st: "market_step h (pa_hub_asset a) c0 c h'"
    by (rule market_stepI [OF sm ok C(1)]; (subst transfer_out_frame(1) [OF t])?)
      (simp_all add: c c1 h1 cache_commit_def write_state_def)
  show ?thesis
    by (rule that [OF st sn gp, of over burned]) (use R z v in \<open>auto simp: c c1 m position_mutation_def same_indexes_def\<close>)
qed

section \<open>Net settlement\<close>

lemma net_settle_sound:
  assumes s: "net_settle_apply h e = Inr (r, sn, h')" and ok: "host_ok h"
  obtains c0 c bs bd where "market_step h (pne_hub_asset e) c0 c h'" and "sn = snapshot c"
    and "gap c \<le> gap c0" and "c_cash c = c_cash c0" and "h_world h' = h_world h"
    and "c_supplied c = c_supplied c0 - bs" and "c_borrowed c = c_borrowed c0 - bd"
    and "scaled_amount (pnr_supply_position r) = scaled_amount (pne_supply_position e) - bs"
    and "scaled_amount (pnr_debt_position r) = scaled_amount (pne_debt_position e) - bd"
    and "0 \<le> bs" and "0 \<le> bd" and "bd * c_borrow_index c0 \<le> pnr_settled_amount r * unit_value c0"
    and "pnr_settled_amount r * unit_value c0 \<le> bs * c_supply_index c0"
    and "0 \<le> pnr_settled_amount r" and "pnr_settled_amount r \<le> pne_amount e"
    and "0 < pnr_settled_amount r \<Longrightarrow> 0 < bs \<and> 0 < bd" and "same_indexes c0 c"
proof -
  let ?sp = "scaled_amount (pne_supply_position e)" and ?dp = "scaled_amount (pne_debt_position e)"
  from s obtain c0 bs bd g c1 c where nn: "0 \<le> pne_amount e" "0 \<le> ?sp" "0 \<le> ?dp"
    and sm: "synced_market h (pne_hub_asset e) = Inr c0"
    and rs: "resolve_net_settle (pne_amount e) ?sp ?dp (c_supply_index c0) (c_borrow_index c0)
       (asset_decimals (c_params c0)) = Inr (bs, bd, g)"
    and z: "g = 0 \<or> (0 < bs \<and> 0 < bd)"
    and b: "burn_supply c0 bs = Inr c1" and d: "burn_debt c1 bd = Inr c"
    and r: "r = \<lparr>pnr_supply_position = \<lparr>scaled_amount = ?sp - bs\<rparr>, pnr_debt_position = \<lparr>scaled_amount = ?dp - bd\<rparr>,
           pnr_market_index = market_index_of c, pnr_settled_amount = g\<rparr>"
    and sn: "sn = snapshot c" and h': "h' = write_state h (c_hub_asset c) (cache_state c)"
    unfolding net_settle_apply_def cache_resolve_net_settle_def
    by (auto simp: rbind_Inr_iff amount_guards_Inr assert_Inr_iff ray_Inr cache_commit_def Let_def)
  have ok0: "cache_ok c0" by (rule synced_market_sound(1) [OF sm ok])
  note D = cache_okD [OF ok0]
  note R = resolve_net_settle_facts [OF rs D(2) nn(2,3) D(4,3) nn(1)]
  have c1: "c1 = c0\<lparr>c_supplied := c_supplied c0 - bs\<rparr>" using b by (simp add: shares_Inr)
  have c: "c = c1\<lparr>c_borrowed := c_borrowed c1 - bd\<rparr>" using d by (simp add: shares_Inr)
  note B = burn_supply_sound [OF b ok0]
  note C = burn_debt_sound [OF d B(1)]
  have gp: "gap c \<le> gap c0" using B(2) C(2) R(1,2) by (simp add: c1)
  have st: "market_step h (pne_hub_asset e) c0 c h'"
    by (rule market_stepI [OF sm ok C(1)]) (simp_all add: c c1 h' cache_commit_def write_state_def)
  show ?thesis
    by (rule that [OF st sn gp, of bs bd])
      (use R z in \<open>auto simp: c c1 r h' write_state_def unit_value_def mult.assoc same_indexes_def\<close>)
qed

section \<open>Seize\<close>

text \<open>
  A seized debt is charged to suppliers through the index: the gap grows by at most one ray, unless
  the index stops at its floor, where the remaining loss shows as a backing shortfall.
\<close>

lemma seize_sound:
  assumes s: "seize_apply h e = Inr (sn, h')" and ok: "host_ok h"
  obtains c0 c where "market_step h (pze_hub_asset e) c0 c h'" and "sn = snapshot c"
    and "c_cash c = c_cash c0" and "c_supplied c = c_supplied c0" and "h_world h' = h_world h"
    and "c_borrow_index c = c_borrow_index c0"
    and "pze_side e = Deposit \<Longrightarrow> gap c = gap c0 \<and> c_supply_index c = c_supply_index c0 \<and>
           c_borrowed c = c_borrowed c0 \<and> c_revenue c = c_revenue c0 + scaled_amount (pze_position e)"
    and "pze_side e = Borrow \<Longrightarrow> c_borrowed c = c_borrowed c0 - scaled_amount (pze_position e) \<and>
           c_revenue c = c_revenue c0 \<and> c_supply_index c \<le> c_supply_index c0 \<and>
           (c_supply_index c \<noteq> SUPPLY_INDEX_FLOOR_RAW \<longrightarrow> gap c \<le> max 0 (gap c0) + RAY)"
proof -
  let ?p = "scaled_amount (pze_position e)"
  from s obtain c0 c where p: "0 \<le> ?p" and sm: "synced_market h (pze_hub_asset e) = Inr c0"
    and op: "(case pze_side e of
              Borrow \<Rightarrow> rbind (unscale_borrow_ceil_ray c0 ?p) (\<lambda>bad_debt.
                rbind (apply_bad_debt_to_supply_index c0 bad_debt) (\<lambda>c1. burn_debt c1 ?p))
            | Deposit \<Rightarrow> absorb_supply_as_revenue c0 ?p) = Inr c"
    and sn: "sn = snapshot c" and h': "h' = write_state h (c_hub_asset c) (cache_state c)"
    unfolding seize_apply_def by (auto simp: rbind_Inr_iff amount_guards_Inr cache_commit_def Let_def)
  have ok0: "cache_ok c0" by (rule synced_market_sound(1) [OF sm ok])
  note D = cache_okD [OF ok0]
  show ?thesis
  proof (cases "pze_side e")
    case Deposit
    with op have a: "absorb_supply_as_revenue c0 ?p = Inr c" by simp
    note A = absorb_supply_sound [OF a ok0 p]
    have c: "c = c0\<lparr>c_revenue := c_revenue c0 + ?p\<rparr>" using a by (simp add: shares_Inr)
    have st: "market_step h (pze_hub_asset e) c0 c h'"
      by (rule market_stepI [OF sm ok A(1)]) (simp_all add: c h' cache_commit_def write_state_def)
    show ?thesis by (rule that [OF st sn]) (use A Deposit in \<open>auto simp: c h' write_state_def\<close>)
  next
    case Borrow
    with op obtain d c1 where d: "d = ceil_div (?p * c_borrow_index c0) RAY"
      and bd: "apply_bad_debt_to_supply_index c0 d = Inr c1" and b: "burn_debt c1 ?p = Inr c"
      by (auto simp: rbind_Inr_iff unscale_borrow_ceil_ray_def ray_Inr)
    have d0: "0 \<le> d" using p D by (simp add: d nonneg_quotients)
    note S = bad_debt_sound [OF bd ok0 d0]
    note B = burn_debt_sound [OF b S(1)]
    have c: "c = c1\<lparr>c_borrowed := c_borrowed c1 - ?p\<rparr>" "?p \<le> c_borrowed c1" using b by (auto simp: shares_Inr)
    have f: "c_borrowed c1 = c_borrowed c0" "c_supplied c1 = c_supplied c0" "c_borrow_index c1 = c_borrow_index c0"
      "c_cash c1 = c_cash c0" "c_revenue c1 = c_revenue c0" "c_params c1 = c_params c0"
      "c_hub_asset c1 = c_hub_asset c0" "c_last_timestamp c1 = c_last_timestamp c0"
      "c_current_timestamp c1 = c_current_timestamp c0"
      by (subst S(2), simp)+
    have st: "market_step h (pze_hub_asset e) c0 c h'"
      by (rule market_stepI [OF sm ok B(1)]) (simp_all add: c f h' cache_commit_def write_state_def)
    have g: "gap c \<le> max 0 (gap c0) + RAY" if "c_supply_index c \<noteq> SUPPLY_INDEX_FLOOR_RAW"
    proof -
      have i: "c_supplied c0 * c_supply_index c1 \<le> max 0 (c_supplied c0 * c_supply_index c0 - d * RAY) + RAY"
        using that by (intro S(4)) (simp add: c)
      have dR: "?p * c_borrow_index c0 \<le> d * RAY" using ceil_bounds [of RAY] by (simp add: d)
      have "0 \<le> (c_borrowed c0 - ?p) * c_borrow_index c0" "0 \<le> c_cash c0 * unit_value c0"
        using c(2) f D by auto
      moreover have "gap c = c_supplied c0 * c_supply_index c1 - (c_borrowed c0 - ?p) * c_borrow_index c0
          - c_cash c0 * unit_value c0"
        by (simp add: c gap_def book_gap_def f unit_value_def)
      moreover have "gap c0 = c_supplied c0 * c_supply_index c0 - (c_borrowed c0 - ?p) * c_borrow_index c0
          - ?p * c_borrow_index c0 - c_cash c0 * unit_value c0"
        by (simp add: gap_def book_gap_def algebra_simps)
      ultimately show ?thesis using i dR by linarith
    qed
    show ?thesis by (rule that [OF st sn]) (use S g f Borrow in \<open>auto simp: c h' write_state_def\<close>)
  qed
qed

end
