(* ===== verification/Pool_Treasury.thy ===== *)
theory Pool_Treasury
  imports Pool_Exits
begin

text \<open>
  Revenue claims, recapitalisation, strategy openings, flash loans and the market lifecycle as steps
  of the pool. A flash loan is stated for an arbitrary token and an arbitrary receiver: if it
  returns, the pool's token balance has grown by exactly the fee.
\<close>

section \<open>Revenue\<close>

lemma revenue_sound:
  assumes s: "revenue_apply ext h k = Inr (m, h')" and ok: "host_ok h"
  obtains c0 c where "market_step h k c0 c h'" and "gap c \<le> gap c0" and "utilization_ok c"
    and "c_cash c = c_cash c0 - pam_actual_amount m" and "0 \<le> pam_actual_amount m"
    and "c_supplied c - c_revenue c = c_supplied c0 - c_revenue c0"
    and "c_supplied c = 0 \<Longrightarrow> c_borrowed c = 0" and "same_indexes c0 c"
proof -
  from s obtain c0 c1 a c h1 where sm: "synced_market h k = Inr c0"
    and b: "burn_claimable_revenue c0 = Inr (c1, a)" and u: "require_utilization_below_max c1 = Inr ()"
    and sd: "c_supplied c1 = 0 \<longrightarrow> c_borrowed c1 = 0" and d: "debit_cash c1 a = Inr c"
    and m: "m = \<lparr>pam_actual_amount = a\<rparr>" and h1: "h1 = write_state h (c_hub_asset c) (cache_state c)"
    and fr: "h' = h1\<lparr>h_world := h_world h'\<rparr>"
    unfolding revenue_apply_def revenue_accounting_def renewed_market_def
    by (auto simp: rbind_Inr_iff supply_for_debt_Inr cache_commit_def Let_def split: if_splits
        dest: transfer_out_frame(1))
  have ok0: "cache_ok c0" by (rule synced_market_sound(1) [OF sm ok])
  note B = burn_claimable_revenue_sound [OF b ok0]
  note Dc = debit_cash_sound [OF d B(1)]
  have c: "c = c1\<lparr>c_cash := c_cash c1 - a\<rparr>" using d by (simp add: cash_Inr)
  have f: "c_hub_asset c1 = c_hub_asset c0" "c_last_timestamp c1 = c_last_timestamp c0"
    "c_current_timestamp c1 = c_current_timestamp c0" "same_indexes c0 c1"
    using b by (auto simp: burn_claimable_revenue_def Let_def rbind_Inr_iff same_indexes_def split: if_splits)
  have gp: "gap c \<le> gap c0" using B(4,6) Dc(2) by (simp add: unit_value_def)
  have st: "market_step h k c0 c h'"
    by (rule market_stepI [OF sm ok Dc(1)]; (subst fr)?)
      (simp_all add: c B(6) f h1 cache_commit_def write_state_def)
  have "utilization_ok c" using utilization_gate [OF u B(1)] by (simp add: utilization_ok_def c)
  then show ?thesis by (rule that [OF st gp]) (use B sd f in \<open>auto simp: c m same_indexes_def\<close>)
qed

section \<open>Recapitalisation\<close>

lemma shortfall_after_credit:
  assumes sf: "backing_shortfall c0 = Inr sf" and ok: "cache_ok c0" and cr: "credit_cash c0 x = Inr c" and x: "x \<le> sf"
  shows "backing_shortfall c = Inr (sf - x)"
proof -
  have c: "c = c0\<lparr>c_cash := c_cash c0 + x\<rparr>" and x0: "0 \<le> x" using cr by (auto simp: cash_Inr)
  have "\<exists>s'. backing_shortfall c = Inr s'"
  proof -
    from sf obtain cl where cl: "ray_mul_floor (c_supplied c0) (c_supply_index c0) = Inr cl"
      and r1: "rbind (unscale_borrow_ceil_ray c0 (c_borrowed c0)) (\<lambda>debt.
        if cl \<le> debt then Inr 0
        else rbind (ray_checked_sub cl debt) (\<lambda>diff.
          rbind (ray_to_asset_floor diff (asset_decimals (c_params c0))) (\<lambda>uncovered.
          Inr (max (i128_saturating_sub uncovered (c_cash c0)) 0)))) = Inr sf"
      unfolding backing_shortfall_def by (rule rbind_cases)
    from r1 obtain d where d: "unscale_borrow_ceil_ray c0 (c_borrowed c0) = Inr d"
      and r2: "(if cl \<le> d then Inr 0
        else rbind (ray_checked_sub cl d) (\<lambda>diff.
          rbind (ray_to_asset_floor diff (asset_decimals (c_params c0))) (\<lambda>uncovered.
          Inr (max (i128_saturating_sub uncovered (c_cash c0)) 0)))) = Inr sf"
      by (rule rbind_cases)
    have d': "unscale_borrow_ceil_ray c (c_borrowed c0) = Inr d" using d by (simp add: c unscale_borrow_ceil_ray_def)
    show ?thesis
    proof (cases "cl \<le> d")
      case True
      with cl d' show ?thesis by (simp add: backing_shortfall_def c)
    next
      case False
      with r2 obtain v where v: "ray_checked_sub cl d = Inr v"
        and r3: "rbind (ray_to_asset_floor v (asset_decimals (c_params c0))) (\<lambda>uncovered.
          Inr (max (i128_saturating_sub uncovered (c_cash c0)) 0)) = Inr sf"
        by (simp only: if_False) (rule rbind_cases)
      from r3 obtain y where "ray_to_asset_floor v (asset_decimals (c_params c0)) = Inr y" by (rule rbind_cases)
      with cl d' v False show ?thesis by (simp add: backing_shortfall_def c)
    qed
  qed
  then obtain s' where s': "backing_shortfall c = Inr s'" by blast
  define q where "q = (c_supplied c0 * c_supply_index c0 div RAY - ceil_div (c_borrowed c0 * c_borrow_index c0) RAY)
      div asset_unit (asset_decimals (c_params c0))"
  have "sf = max 0 (q - c_cash c0)" unfolding q_def by (rule backing_shortfall_value [OF sf ok])
  moreover have "s' = max 0 (q - (c_cash c0 + x))"
    using backing_shortfall_value [OF s' credit_cash_sound(1) [OF cr ok]] by (simp add: c q_def)
  ultimately have "s' = sf - x" using x x0 by linarith
  with s' show ?thesis by simp
qed

lemma recapitalize_sound:
  assumes s: "recapitalize_apply ext h k payer amount = Inr (m, h')" and ok: "host_ok h"
  obtains c0 c shortfall where "market_step h k c0 c h'" and "backing_shortfall c0 = Inr shortfall"
    and "pam_actual_amount m = min amount shortfall" and "0 \<le> pam_actual_amount m"
    and "c_cash c = c_cash c0 + pam_actual_amount m" and "gap c = gap c0 - pam_actual_amount m * unit_value c0"
    and "gap c \<le> gap c0" and "backing_shortfall c = Inr (shortfall - pam_actual_amount m)" and "same_indexes c0 c"
proof -
  from s obtain c0 sf x c h1 where a: "0 \<le> amount" and sm: "synced_market h k = Inr c0"
    and sf: "backing_shortfall c0 = Inr sf" and x: "x = min amount sf" and cr: "credit_cash c0 x = Inr c"
    and m: "m = \<lparr>pam_actual_amount = x\<rparr>" and h1: "h1 = write_state h (c_hub_asset c) (cache_state c)"
    and t: "transfer_out ext c payer (amount - x) h1 = Inr h'"
  proof -
    from s obtain o1 h1 where ac: "recapitalize_accounting h k amount = Inr (o1, h1)"
      and tr: "transfer_out ext (rc_cache o1) payer (rc_refund o1) h1 = Inr h'" and mm: "m = rc_mutation o1"
      by (auto simp: recapitalize_apply_def rbind_Inr_iff)
    from ac obtain c0 sf where 1: "0 \<le> amount" "synced_market h k = Inr c0" "backing_shortfall c0 = Inr sf"
      and r: "rbind (unwrap_or_panic (i128_checked_sub amount (min amount sf)) (Generic MathOverflow)) (\<lambda>refund.
         rbind (credit_cash c0 (min amount sf)) (\<lambda>c1.
         let (h', snap) = cache_commit c1 h in
         Inr (\<lparr>rc_cache = c1, rc_mutation = \<lparr>pam_actual_amount = min amount sf\<rparr>, rc_refund = refund\<rparr>, h'))) = Inr (o1, h1)"
      unfolding recapitalize_accounting_def renewed_market_def Let_def
      by (simp only: rbind_Inr_iff amount_guards_Inr) blast
    define x where "x = min amount sf"
    from r [folded x_def] obtain c where cc: "credit_cash c0 x = Inr c"
      and oo: "o1 = \<lparr>rc_cache = c, rc_mutation = \<lparr>pam_actual_amount = x\<rparr>, rc_refund = amount - x\<rparr>"
        "h1 = write_state h (c_hub_asset c) (cache_state c)"
      by (auto simp: rbind_Inr_iff unwrap_Inr_iff i128_checked_sub_def to_i128_Some_iff cache_commit_def)
    show ?thesis by (rule that [OF 1 x_def cc]) (use mm tr oo in simp_all)
  qed
  have ok0: "cache_ok c0" by (rule synced_market_sound(1) [OF sm ok])
  note C = credit_cash_sound [OF cr ok0]
  have c: "c = c0\<lparr>c_cash := c_cash c0 + x\<rparr>" and x0: "0 \<le> x" using cr by (auto simp: cash_Inr)
  have g: "gap c \<le> gap c0" using C(2) x0 by simp
  have st: "market_step h k c0 c h'"
    by (rule market_stepI [OF sm ok C(1)]; (subst transfer_out_frame(1) [OF t])?)
      (simp_all add: c h1 cache_commit_def write_state_def)
  have "backing_shortfall c = Inr (sf - x)" by (rule shortfall_after_credit [OF sf ok0 cr]) (simp add: x)
  then show ?thesis by (intro that [OF st sf]) (use C x x0 g in \<open>simp_all add: m c same_indexes_def\<close>)
qed

section \<open>Strategy\<close>

lemma strategy_sound:
  assumes s: "strategy_apply ext h to a charge = Inr (m, h')" and ok: "host_ok h"
  obtains c0 c n fee rv where "market_step h (pa_hub_asset a) c0 c h'" and "gap c \<le> gap c0"
    and "psm_actual_amount m = pa_amount a" and "psm_amount_received m = pa_amount a - fee"
    and "0 \<le> fee" and "fee \<le> pa_amount a" and "\<not> charge \<Longrightarrow> fee = 0" and "0 < pa_amount a"
    and "c_cash c = c_cash c0 - (pa_amount a - fee)" and "c_borrowed c = c_borrowed c0 + n" and "0 < n"
    and "scaled_amount (psm_position m) = scaled_amount (pa_position a) + n"
    and "pa_amount a * unit_value c0 \<le> n * c_borrow_index c0"
    and "0 \<le> rv" and "c_revenue c = c_revenue c0 + rv" and "c_supplied c = c_supplied c0 + rv"
    and "LIQUIDATION_BUFFER_BPS * (c_supplied c0 * c_supply_index c0 div RAY div asset_unit (asset_decimals (c_params c0)))
       \<le> BPS * (c_cash c0 - pa_amount a)" and "same_indexes c0 c"
proof -
  let ?a = "pa_amount a" and ?p = "scaled_amount (pa_position a)"
  from s obtain c0 fee c1 pos' f c2 c h1 where nn: "0 \<le> ?a" "0 \<le> ?p" and sm: "synced_market h (pa_hub_asset a) = Inr c0"
    and fee: "compute_fee c0 ?a charge = Inr fee" and md: "mint_debt c0 ?p ?a = Inr (c1, pos')"
    and f: "ray_from_asset fee (asset_decimals (c_params c1)) = Inr f" and r: "add_protocol_revenue c1 f = Inr c2"
    and d: "debit_cash c2 (?a - fee) = Inr c" and m: "m = strategy_mutation c pos' ?a (?a - fee)"
    and h1: "h1 = write_state h (c_hub_asset c) (cache_state c)" and t: "transfer_out ext c to (?a - fee) h1 = Inr h'"
    unfolding strategy_apply_def strategy_accounting_def renewed_market_def
    by (auto simp: rbind_Inr_iff amount_guards_Inr unwrap_Inr_iff i128_checked_sub_def to_i128_Some_iff
        cache_commit_def Let_def strategy_mutation_def)
  have ok0: "cache_ok c0" by (rule synced_market_sound(1) [OF sm ok])
  have fb: "0 \<le> fee" "fee \<le> ?a" "\<not> charge \<Longrightarrow> fee = 0"
    using fee nn flash_loan_fee_nonneg(1) by (auto simp: compute_fee_def rbind_Inr_iff assert_Inr_iff split: if_splits)
  note M = mint_debt_value [OF md ok0]
  from M(7) obtain n where n: "0 < n" "pos' = ?p + n" "c1 = c0\<lparr>c_borrowed := c_borrowed c0 + n\<rparr>"
    "?a * unit_value c0 \<le> n * c_borrow_index c0" by blast
  note v = from_asset_value [OF f M(1)]
  note R = add_protocol_revenue_sound [OF r M(1) v(2) [OF fb(1)]]
  from R(3) obtain rv where rv: "0 \<le> rv" "c2 = c1\<lparr>c_revenue := c_revenue c1 + rv, c_supplied := c_supplied c1 + rv\<rparr>" by blast
  note Dc = debit_cash_sound [OF d R(1)]
  have c: "c = c2\<lparr>c_cash := c_cash c2 - (?a - fee)\<rparr>" using d by (simp add: cash_Inr)
  have uv: "unit_value c1 = unit_value c0" "unit_value c2 = unit_value c0" by (simp_all add: rv(2) n(3) unit_value_def)
  have gp: "gap c \<le> gap c0"
    using Dc(2) R(2) M(2) v(1) unfolding uv by (simp add: left_diff_distrib)
  have st: "market_step h (pa_hub_asset a) c0 c h'"
    by (rule market_stepI [OF sm ok Dc(1)]; (subst transfer_out_frame(1) [OF t])?)
      (simp_all add: c rv(2) n(3) h1 cache_commit_def write_state_def)
  show ?thesis
    by (rule that [OF st gp, of fee n rv]) (use fb M n rv in \<open>auto simp: m strategy_mutation_def c same_indexes_def\<close>)
qed

section \<open>Flash loan\<close>

lemma require_balance_Inr:
  "require_balance ext tok pool x w = Inr u \<longleftrightarrow> token_balance ext tok pool w = Inr x"
  by (auto simp: require_balance_def rbind_Inr_iff assert_Inr_iff)

lemma flash_terms_Inr:
  "flash_terms_of amount bps pre = Inr t \<longleftrightarrow>
     bps_flash_loan_fee_on (int bps) amount = Inr (ft_fee t) \<and> ft_total_repayment t = amount + ft_fee t \<and>
     ft_balance_after_payout t = pre - amount \<and> ft_balance_after_repayment t = pre + ft_fee t \<and>
     in_i128 (amount + ft_fee t) \<and> in_i128 (pre - amount) \<and> in_i128 (pre + ft_fee t)"
  by (auto simp: flash_terms_of_def rbind_Inr_iff unwrap_Inr_iff i128_checked_add_def i128_checked_sub_def
      to_i128_Some_iff)

lemma flash_sound:
  assumes s: "flash_apply ext h k initiator receiver amount data = Inr (fee, h')" and ok: "host_ok h"
  obtains c0 c pre rv where "market_step h k c0 c h'" and "gap c \<le> gap c0"
    and "is_flashloanable (c_params c0)" and "0 < amount" and "amount \<le> c_cash c0"
    and "bps_flash_loan_fee_on (int (flashloan_fee (c_params c0))) amount = Inr fee" and "0 \<le> fee"
    and "c_cash c = c_cash c0 + fee" and "c_borrowed c = c_borrowed c0" and "0 \<le> rv"
    and "c_revenue c = c_revenue c0 + rv" and "c_supplied c = c_supplied c0 + rv"
    and "token_balance ext (asset_id (c_params c0)) (h_self h) (h_world h) = Inr pre"
    and "token_balance ext (asset_id (c_params c0)) (h_self h) (h_world h') = Inr (pre + fee)"
    and "executable_is_wasm ext receiver (h_world h)" and "same_indexes c0 c"
proof -
  let ?tok = "\<lambda>c. asset_id (c_params c)"
  from s obtain c0 pre t w3 h1 where am: "0 < amount" and sm: "synced_market h k = Inr c0"
    and fl: "is_flashloanable (c_params c0)" and cash: "amount \<le> c_cash c0"
    and wasm: "executable_is_wasm ext receiver (h_world h)"
    and pre: "token_balance ext (?tok c0) (h_self h) (h_world h) = Inr pre"
    and t: "flash_terms_of amount (flashloan_fee (c_params c0)) pre = Inr t"
    and w3: "token_balance ext (?tok c0) (h_self h) w3 = Inr (ft_balance_after_repayment t)"
    and fin: "flash_finalize (h\<lparr>h_world := w3\<rparr>) c0 (ft_fee t) = Inr h'" and fee: "fee = ft_fee t"
    unfolding flash_apply_def flash_prepare_def renewed_market_def collect_repayment_def
    by (auto simp: rbind_Inr_iff amount_guards_Inr assert_Inr_iff cash_Inr require_wasm_receiver_def
        require_balance_Inr Let_def)
  have ok0: "cache_ok c0" by (rule synced_market_sound(1) [OF sm ok])
  from fin obtain f c1 c where f: "ray_from_asset fee (asset_decimals (c_params c0)) = Inr f"
    and r: "add_protocol_revenue c0 f = Inr c1" and cr: "credit_cash c1 fee = Inr c"
    and h': "h' = write_state (h\<lparr>h_world := w3\<rparr>) (c_hub_asset c) (cache_state c)"
    by (auto simp: flash_finalize_def book_fee_def rbind_Inr_iff cache_commit_def Let_def fee)
  from t have T: "bps_flash_loan_fee_on (int (flashloan_fee (c_params c0))) amount = Inr fee"
    "ft_balance_after_repayment t = pre + fee" by (auto simp: flash_terms_Inr fee)
  have f0: "0 \<le> fee" by (rule flash_loan_fee_nonneg(1) [OF T(1)])
  note v = from_asset_value [OF f ok0]
  note R = add_protocol_revenue_sound [OF r ok0 v(2) [OF f0]]
  from R(3) obtain rv where rv: "0 \<le> rv" "c1 = c0\<lparr>c_revenue := c_revenue c0 + rv, c_supplied := c_supplied c0 + rv\<rparr>" by blast
  note C = credit_cash_sound [OF cr R(1)]
  have c: "c = c1\<lparr>c_cash := c_cash c1 + fee\<rparr>" using cr by (simp add: cash_Inr)
  have uv: "unit_value c1 = unit_value c0" by (simp add: rv(2) unit_value_def)
  have gp: "gap c \<le> gap c0" using C(2) R(2) v(1) unfolding uv by simp
  have st: "market_step h k c0 c h'"
    by (rule market_stepI [OF sm ok C(1)]) (simp_all add: c rv(2) h' cache_commit_def write_state_def)
  show ?thesis
    by (rule that [OF st gp fl am cash T(1) f0, of rv pre])
      (use rv pre w3 T wasm in \<open>auto simp: c h' write_state_def same_indexes_def\<close>)
qed

section \<open>Market lifecycle\<close>

lemma market_create_sound:
  assumes s: "market_create h hub p = Inr h'" and ok: "host_ok h"
  shows "host_ok h'" and "h_params h \<lparr>hub_id = hub, asset = mpr_asset_id p\<rparr> = None"
    and "h_params h' = (h_params h)(\<lparr>hub_id = hub, asset = mpr_asset_id p\<rparr> \<mapsto> p)"
    and "\<exists>now. h_state h' = (h_state h)(\<lparr>hub_id = hub, asset = mpr_asset_id p\<rparr> \<mapsto>
       \<lparr>ps_supplied = 0, ps_borrowed = 0, ps_revenue = 0, ps_borrow_index = RAY,
        ps_supply_index = RAY, ps_last_timestamp = now, ps_cash = 0\<rparr>)"
    and "h_world h' = h_world h" and "h_owner h' = h_owner h" and "h_self h' = h_self h"
    and "h_timestamp h' = h_timestamp h" and "h_auth h' = h_auth h"
proof -
  let ?k = "\<lparr>hub_id = hub, asset = mpr_asset_id p\<rparr>"
  from s obtain now where v: "market_params_raw_verify p = Inr ()" and n: "h_params h ?k = None"
    and h': "h' = write_state (write_params h ?k p) ?k \<lparr>ps_supplied = 0, ps_borrowed = 0, ps_revenue = 0,
        ps_borrow_index = RAY, ps_supply_index = RAY, ps_last_timestamp = now, ps_cash = 0\<rparr>"
    by (auto simp: market_create_def rbind_Inr_iff assert_Inr_iff market_exists_def Let_def)
  have "market_ok p \<lparr>ps_supplied = 0, ps_borrowed = 0, ps_revenue = 0, ps_borrow_index = RAY,
        ps_supply_index = RAY, ps_last_timestamp = now, ps_cash = 0\<rparr>"
    using v by (simp add: market_ok_def cache_ok_def cache_of_def book_ok_def verify_iff_params_ok)
  with ok n show "host_ok h'"
    by (auto simp: h' host_ok_def write_state_def write_params_def split: if_splits)
  show "h_params h ?k = None" by (rule n)
  show "h_params h' = (h_params h)(?k \<mapsto> p)"
    and "\<exists>now. h_state h' = (h_state h)(?k \<mapsto>
       \<lparr>ps_supplied = 0, ps_borrowed = 0, ps_revenue = 0, ps_borrow_index = RAY,
        ps_supply_index = RAY, ps_last_timestamp = now, ps_cash = 0\<rparr>)"
    and "h_world h' = h_world h" and "h_owner h' = h_owner h" and "h_self h' = h_self h"
    and "h_timestamp h' = h_timestamp h" and "h_auth h' = h_auth h"
    by (auto simp: h' write_state_def write_params_def)
qed

lemma market_ok_params:
  assumes "market_ok p st" and "params_ok (market_params_of_raw p')" 
  shows "market_ok p' st"
  using assms by (simp add: market_ok_def cache_ok_def cache_of_def)

lemma replace_rate_model_sound:
  assumes s: "replace_rate_model h k model = Inr h'" and ok: "host_ok h"
  obtains c0 p p' where "synced_market h k = Inr c0" and "h_params h k = Some p"
    and "h_params h' = (h_params h)(k \<mapsto> p')" and "h_state h' = (h_state h)(k \<mapsto> cache_state c0)"
    and "mpr_asset_id p' = mpr_asset_id p" and "mpr_asset_decimals p' = mpr_asset_decimals p"
    and "rate_model_view p' = model" and "params_ok (market_params_of_raw p')" and "host_ok h'"
    and "h_world h' = h_world h" and "h_owner h' = h_owner h" and "h_self h' = h_self h"
    and "h_timestamp h' = h_timestamp h" and "h_auth h' = h_auth h"
proof -
  from s obtain c0 h1 p' where sm: "synced_market h k = Inr c0"
    and h1: "h1 = write_state h (c_hub_asset c0) (cache_state c0)"
    and w: "write_rate_model h1 k model = Inr (h', p')" and v: "market_params_raw_verify p' = Inr ()"
    unfolding replace_rate_model_def renewed_market_def
    by (auto simp: rbind_Inr_iff cache_commit_def Let_def)
  have ok0: "cache_ok c0" and k: "c_hub_asset c0 = k" using synced_market_sound [OF sm ok] by auto
  have st: "market_step h k c0 c0 h1"
    by (rule market_stepI [OF sm ok ok0]) (simp_all add: h1 cache_commit_def write_state_def)
  note H = market_step_host [OF st ok]
  from w obtain p where p: "h_params h k = Some p"
    and p': "mpr_asset_id p' = mpr_asset_id p" "mpr_asset_decimals p' = mpr_asset_decimals p"
      "rate_model_view p' = model" and h': "h' = write_params h1 k p'"
    by (auto simp: write_rate_model_def rbind_Inr_iff storage_Inr Let_def H rate_model_view_def)
  have po: "params_ok (market_params_of_raw p')" using v by (simp add: verify_iff_params_ok)
  have "market_ok p (cache_state c0)" using host_okD [OF H(1), of k p] H p by simp
  from market_ok_params [OF this po] have "host_ok h'"
    using H(1) H(2,7) by (auto simp: h' host_ok_def write_params_def)
  then show ?thesis
    by (intro that [OF sm p]) (use p' po H h' h1 in \<open>auto simp: write_params_def write_state_def\<close>)
qed

end
