(* ===== verification/Pool.thy ===== *)
theory Pool
  imports Pool_Treasury
begin

text \<open>
  \<^verbatim>\<open>src/contracts/pool/src/lib.rs\<close> and \<^verbatim>\<open>views.rs\<close>: the entrypoints of the liquidity pool. Every
  mutator runs behind \<open>only_owner\<close>, the guard of the \<^verbatim>\<open>stellar_macros\<close> attribute: it fails when no
  owner is set and when the owner has not authorised the invocation.
\<close>

section \<open>Entrypoints\<close>

definition only_owner :: "'w host \<Rightarrow> 'a res \<Rightarrow> 'a res" where
  "only_owner h body =
     (case h_owner h of
        None \<Rightarrow> Inl (Host OwnableOwnerNotSet)
      | Some owner \<Rightarrow> if h_auth h owner then body else Inl (Host AuthFailed))"

definition pool_constructor :: "'w host \<Rightarrow> address \<Rightarrow> 'w host" where
  "pool_constructor h admin = h\<lparr>h_owner := Some admin\<rparr>"

definition create_market :: "'w host \<Rightarrow> nat \<Rightarrow> market_params_raw \<Rightarrow> 'w host res" where
  "create_market h hub params = only_owner h (market_create h hub params)"

definition update_params :: "'w host \<Rightarrow> hub_asset_key \<Rightarrow> interest_rate_model \<Rightarrow> 'w host res" where
  "update_params h k model = only_owner h (replace_rate_model h k model)"

definition upgrade :: "'w host \<Rightarrow> bytes \<Rightarrow> 'w host res" where
  "upgrade h new_wasm_hash = only_owner h (Inr (h\<lparr>h_code := new_wasm_hash\<rparr>))"

definition pool_supply :: "'w host \<Rightarrow> pool_supply_entry list \<Rightarrow> (pool_position_mutation list \<times> 'w host) res" where
  "pool_supply h entries = only_owner h (run_batch supply_apply True entries h)"

definition borrow ::
    "'w externals \<Rightarrow> 'w host \<Rightarrow> address \<Rightarrow> pool_borrow_entry list \<Rightarrow> (pool_position_mutation list \<times> 'w host) res" where
  "borrow ext h receiver entries = only_owner h (run_batch (borrow_apply ext receiver) True entries h)"

definition withdraw ::
    "'w externals \<Rightarrow> 'w host \<Rightarrow> address \<Rightarrow> bool \<Rightarrow> pool_withdraw_entry list
      \<Rightarrow> (pool_position_mutation list \<times> 'w host) res" where
  "withdraw ext h receiver is_liquidation entries =
     only_owner h (run_batch (withdraw_apply ext receiver is_liquidation) True entries h)"

definition repay ::
    "'w externals \<Rightarrow> 'w host \<Rightarrow> address \<Rightarrow> pool_action list \<Rightarrow> (pool_position_mutation list \<times> 'w host) res" where
  "repay ext h payer actions = only_owner h (run_batch (repay_apply ext payer) True actions h)"

definition update_indexes :: "'w host \<Rightarrow> hub_asset_key list \<Rightarrow> 'w host res" where
  "update_indexes h hub_assets = only_owner h (market_accrue hub_assets h)"

definition recapitalize ::
    "'w externals \<Rightarrow> 'w host \<Rightarrow> hub_asset_key \<Rightarrow> address \<Rightarrow> int \<Rightarrow> (pool_amount_mutation \<times> 'w host) res" where
  "recapitalize ext h k payer amount = only_owner h (recapitalize_apply ext h k payer amount)"

definition flash_loan ::
    "'w externals \<Rightarrow> 'w host \<Rightarrow> hub_asset_key \<Rightarrow> address \<Rightarrow> address \<Rightarrow> int \<Rightarrow> bytes \<Rightarrow> (int \<times> 'w host) res" where
  "flash_loan ext h k initiator receiver amount data =
     only_owner h (flash_apply ext h k initiator receiver amount data)"

definition create_strategy ::
    "'w externals \<Rightarrow> 'w host \<Rightarrow> address \<Rightarrow> pool_action \<Rightarrow> bool \<Rightarrow> (pool_strategy_mutation \<times> 'w host) res" where
  "create_strategy ext h receiver action charge_fee =
     only_owner h (strategy_apply ext h receiver action charge_fee)"

definition seize_leg :: "'w host \<Rightarrow> pool_seize_entry \<Rightarrow> ('w, unit) leg_result" where
  "seize_leg h entry = rbind (seize_apply h entry) (\<lambda>(snap, h'). Inr ((), snap, h'))"

definition seize_positions :: "'w host \<Rightarrow> pool_seize_entry list \<Rightarrow> 'w host res" where
  "seize_positions h entries =
     only_owner h (rbind (run_batch seize_leg False entries h) (\<lambda>(_, h'). Inr h'))"

definition net_settle :: "'w host \<Rightarrow> pool_net_settle_entry \<Rightarrow> (pool_net_settle_result \<times> 'w host) res" where
  "net_settle h entry =
     only_owner h (rbind (net_settle_apply h entry) (\<lambda>(result, snap, h'). Inr (result, h')))"

definition claim_revenue :: "'w externals \<Rightarrow> 'w host \<Rightarrow> hub_asset_key \<Rightarrow> (pool_amount_mutation \<times> 'w host) res" where
  "claim_revenue ext h k = only_owner h (revenue_apply ext h k)"

section \<open>Views\<close>

definition get_utilisation :: "'w host \<Rightarrow> hub_asset_key \<Rightarrow> int res" where
  "get_utilisation h k = rbind (cache_load h k) calculate_utilization"

definition get_reserves :: "'w host \<Rightarrow> hub_asset_key \<Rightarrow> int res" where
  "get_reserves h k = rbind (load_state h k) (\<lambda>st. Inr (ps_cash st))"

definition get_deposit_rate :: "'w host \<Rightarrow> hub_asset_key \<Rightarrow> int res" where
  "get_deposit_rate h k =
     rbind (cache_load h k) (\<lambda>c.
     rbind (calculate_utilization c) (\<lambda>util.
     rbind (calculate_annual_borrow_rate util (c_params c)) (\<lambda>b.
     calculate_deposit_rate util b (reserve_factor (c_params c)))))"

definition get_borrow_rate :: "'w host \<Rightarrow> hub_asset_key \<Rightarrow> int res" where
  "get_borrow_rate h k =
     rbind (cache_load h k) (\<lambda>c.
     rbind (calculate_utilization c) (\<lambda>util. calculate_annual_borrow_rate util (c_params c)))"

definition get_revenue :: "'w host \<Rightarrow> hub_asset_key \<Rightarrow> int res" where
  "get_revenue h k = rbind (cache_load h k) (\<lambda>c. cache_unscale_supply_floor c (c_revenue c))"

definition get_supplied_amount :: "'w host \<Rightarrow> hub_asset_key \<Rightarrow> int res" where
  "get_supplied_amount h k = rbind (cache_load h k) (\<lambda>c. cache_unscale_supply c (c_supplied c))"

definition get_borrowed_amount :: "'w host \<Rightarrow> hub_asset_key \<Rightarrow> int res" where
  "get_borrowed_amount h k = rbind (cache_load h k) (\<lambda>c. cache_unscale_borrow c (c_borrowed c))"

definition get_delta_time :: "'w host \<Rightarrow> hub_asset_key \<Rightarrow> nat res" where
  "get_delta_time h k = rbind (cache_load h k) (\<lambda>c. Inr (elapsed_ms c))"

definition get_sync_data :: "'w host \<Rightarrow> hub_asset_key \<Rightarrow> pool_sync_data res" where
  "get_sync_data h k = load_sync_data h k"

primrec bulk_indexes :: "'w host \<Rightarrow> nat \<Rightarrow> hub_asset_key list \<Rightarrow> market_index list res" where
  "bulk_indexes h now [] = Inr []"
| "bulk_indexes h now (k # ks) =
     rbind (load_sync_data h k) (\<lambda>sync.
     rbind (simulate_update_indexes now sync) (\<lambda>ix.
     rbind (bulk_indexes h now ks) (\<lambda>ixs. Inr (ix # ixs))))"

definition get_bulk_indexes :: "'w host \<Rightarrow> hub_asset_key list \<Rightarrow> market_index list res" where
  "get_bulk_indexes h hub_assets = rbind (now_ms h) (\<lambda>now. bulk_indexes h now hub_assets)"

section \<open>Calls\<close>

text \<open>An invocation of a mutating entrypoint; \<open>dispatch\<close> keeps the state it leaves behind.\<close>

datatype call =
    Create_Market nat market_params_raw
  | Update_Params hub_asset_key interest_rate_model
  | Upgrade bytes
  | Supply "pool_supply_entry list"
  | Borrow_Call address "pool_borrow_entry list"
  | Withdraw address bool "pool_withdraw_entry list"
  | Repay address "pool_action list"
  | Update_Indexes "hub_asset_key list"
  | Recapitalize hub_asset_key address int
  | Flash_Loan hub_asset_key address address int bytes
  | Create_Strategy address pool_action bool
  | Seize_Positions "pool_seize_entry list"
  | Net_Settle pool_net_settle_entry
  | Claim_Revenue hub_asset_key

definition state_of :: "('r \<times> 'w host) res \<Rightarrow> 'w host res" where
  "state_of m = rbind m (\<lambda>(_, h). Inr h)"

fun dispatch :: "'w externals \<Rightarrow> call \<Rightarrow> 'w host \<Rightarrow> 'w host res" where
  "dispatch ext (Create_Market hub params) h = create_market h hub params"
| "dispatch ext (Update_Params k model) h = update_params h k model"
| "dispatch ext (Upgrade code) h = upgrade h code"
| "dispatch ext (Supply es) h = state_of (pool_supply h es)"
| "dispatch ext (Borrow_Call receiver es) h = state_of (borrow ext h receiver es)"
| "dispatch ext (Withdraw receiver liq es) h = state_of (withdraw ext h receiver liq es)"
| "dispatch ext (Repay payer acts) h = state_of (repay ext h payer acts)"
| "dispatch ext (Update_Indexes ks) h = update_indexes h ks"
| "dispatch ext (Recapitalize k payer amount) h = state_of (recapitalize ext h k payer amount)"
| "dispatch ext (Flash_Loan k initiator receiver amount data) h =
     state_of (flash_loan ext h k initiator receiver amount data)"
| "dispatch ext (Create_Strategy receiver action charge_fee) h =
     state_of (create_strategy ext h receiver action charge_fee)"
| "dispatch ext (Seize_Positions es) h = seize_positions h es"
| "dispatch ext (Net_Settle e) h = state_of (net_settle h e)"
| "dispatch ext (Claim_Revenue k) h = state_of (claim_revenue ext h k)"

end
