(* ===== verification/Pool_Machine.thy ===== *)
theory Pool_Machine
  imports Pool
begin

text \<open>
  The pool as a state machine. A batch is a run of market steps whatever its legs are, as long as
  each leg keeps the contract \<open>batch_leg\<close>; every mutating entrypoint is such a run (or a lifecycle
  change), so the market invariant holds in every reachable state, and the drift of the gap along an
  execution is bounded by the number of accrual chunks and seizures.
\<close>

section \<open>Runs of market steps\<close>

text \<open>
  \<open>within n c0 c\<close>: the step from the synced cache \<open>c0\<close> to \<open>c\<close> leaves the borrow index alone, never
  raises the supply index, and widens the gap by at most \<open>n\<close> rays unless the supply index is at its floor.
\<close>

definition within :: "nat \<Rightarrow> cache \<Rightarrow> cache \<Rightarrow> bool" where
  "within n c0 c \<longleftrightarrow> c_borrow_index c = c_borrow_index c0 \<and> c_supply_index c \<le> c_supply_index c0 \<and>
     (c_supply_index c \<noteq> SUPPLY_INDEX_FLOOR_RAW \<longrightarrow> gap c \<le> max 0 (gap c0) + RAY * int n)"

inductive market_run :: "nat \<Rightarrow> 'w host \<Rightarrow> hub_asset_key list \<Rightarrow> 'w host \<Rightarrow> bool" for n where
  run_nil: "market_run n h [] h"
| run_cons: "\<lbrakk>market_step h k c0 c h1; within n c0 c; market_run n h1 ks h2\<rbrakk> \<Longrightarrow> market_run n h (k # ks) h2"

inductive_cases market_run_nilE: "market_run n h [] h'"
inductive_cases market_run_consE: "market_run n h (k # ks) h'"

definition stored_gap :: "'w host \<Rightarrow> hub_asset_key \<Rightarrow> int" where
  "stored_gap h k = (case h_params h k of None \<Rightarrow> 0
     | Some p \<Rightarrow> (case h_state h k of None \<Rightarrow> 0 | Some st \<Rightarrow> gap (cache_of k p st 0)))"

definition stored_elapsed :: "'w host \<Rightarrow> hub_asset_key \<Rightarrow> nat" where
  "stored_elapsed h k = (case h_state h k of None \<Rightarrow> 0
     | Some st \<Rightarrow> h_timestamp h * MS_PER_SECOND - ps_last_timestamp st)"

definition stored_supply_index :: "'w host \<Rightarrow> hub_asset_key \<Rightarrow> ray" where
  "stored_supply_index h k = (case h_state h k of None \<Rightarrow> RAY | Some st \<Rightarrow> ps_supply_index st)"

definition stored_borrow_index :: "'w host \<Rightarrow> hub_asset_key \<Rightarrow> ray" where
  "stored_borrow_index h k = (case h_state h k of None \<Rightarrow> RAY | Some st \<Rightarrow> ps_borrow_index st)"

lemmas stored_defs = stored_gap_def stored_elapsed_def stored_supply_index_def stored_borrow_index_def

lemma market_step_stored:
  assumes st: "market_step h k c0 c h'" and ok: "host_ok h"
  shows "stored_gap h' k = gap c" and "stored_supply_index h' k = c_supply_index c"
    and "stored_borrow_index h' k = c_borrow_index c" and "stored_elapsed h' k = 0"
    and "k' \<noteq> k \<Longrightarrow> stored_gap h' k' = stored_gap h k'"
    and "k' \<noteq> k \<Longrightarrow> stored_supply_index h' k' = stored_supply_index h k'"
    and "k' \<noteq> k \<Longrightarrow> stored_borrow_index h' k' = stored_borrow_index h k'"
    and "k' \<noteq> k \<Longrightarrow> stored_elapsed h' k' = stored_elapsed h k'"
proof -
  note H = market_step_host [OF st ok]
  from st have sm: "synced_market h k = Inr c0" and c: "c_hub_asset c = k" "c_params c = c_params c0"
      "c_last_timestamp c = c_last_timestamp c0" "c_current_timestamp c = c_current_timestamp c0"
    by (auto simp: market_step_def)
  from synced_market_sound(4) [OF sm ok] obtain p where p: "h_params h k = Some p" "c_params c0 = market_params_of_raw p" by auto
  have e0: "elapsed_ms c0 = 0" by (rule synced_market_sound(3) [OF sm ok])
  have now: "c_current_timestamp c0 = h_timestamp h * MS_PER_SECOND"
  proof -
    from sm obtain p st where g: "global_sync (cache_of k p st (h_timestamp h * MS_PER_SECOND)) = Inr c0"
      and ok': "cache_ok (cache_of k p st (h_timestamp h * MS_PER_SECOND))"
      using host_okD [OF ok] by (auto simp: synced_market_def rbind_Inr_iff cache_load_Inr cache_ok_cache_of)
    from global_sync_sound(3) [OF g ok'] show ?thesis by (simp add: accrual_frame_def cache_of_def)
  qed
  have "cache_of k p (cache_state c) (c_current_timestamp c) = c" using cache_of_state [of c p] c p by simp
  then have "gap (cache_of k p (cache_state c) 0) = gap c" using gap_cache_of by metis
  then show "stored_gap h' k = gap c" by (simp add: stored_gap_def H p)
  show "stored_supply_index h' k = c_supply_index c" and "stored_borrow_index h' k = c_borrow_index c"
    and "stored_elapsed h' k = 0"
    using e0 now c by (simp_all add: stored_defs H cache_state_def elapsed_ms_def)
  show "k' \<noteq> k \<Longrightarrow> stored_gap h' k' = stored_gap h k'"
    and "k' \<noteq> k \<Longrightarrow> stored_supply_index h' k' = stored_supply_index h k'"
    and "k' \<noteq> k \<Longrightarrow> stored_borrow_index h' k' = stored_borrow_index h k'"
    and "k' \<noteq> k \<Longrightarrow> stored_elapsed h' k' = stored_elapsed h k'"
    by (simp_all add: stored_defs H cong: option.case_cong)
qed

lemma synced_stored:
  assumes "synced_market h k = Inr c" and "host_ok h"
  shows "gap c \<le> stored_gap h k + 2 * RAY * int (loop_chunks (stored_elapsed h k))"
    and "stored_borrow_index h k \<le> c_borrow_index c" and "stored_supply_index h k \<le> c_supply_index c"
    and "stored_elapsed h k = 0 \<Longrightarrow> c_supply_index c = stored_supply_index h k"
proof -
  from synced_market_sound(4) [OF assms] show "gap c \<le> stored_gap h k + 2 * RAY * int (loop_chunks (stored_elapsed h k))"
    and "stored_borrow_index h k \<le> c_borrow_index c" and "stored_supply_index h k \<le> c_supply_index c"
    by (auto simp: stored_defs)
  assume e: "stored_elapsed h k = 0"
  from assms(1) obtain p st where m: "h_state h k = Some st"
    and g: "global_sync (cache_of k p st (h_timestamp h * MS_PER_SECOND)) = Inr c"
    by (auto simp: synced_market_def rbind_Inr_iff cache_load_Inr)
  have "\<not> needs_accrual (cache_of k p st (h_timestamp h * MS_PER_SECOND))"
    using e m by (simp add: needs_accrual_def elapsed_ms_def cache_of_def stored_elapsed_def)
  with g have "c = cache_of k p st (h_timestamp h * MS_PER_SECOND)" by (simp add: global_sync_def)
  then show "c_supply_index c = stored_supply_index h k" using m by (simp add: cache_of_def stored_defs)
qed

lemma host_ok_index_floor:
  assumes "host_ok h" and "h_params h k \<noteq> None"
  shows "SUPPLY_INDEX_FLOOR_RAW \<le> stored_supply_index h k" and "RAY \<le> stored_borrow_index h k"
proof -
  from assms obtain p st where "h_params h k = Some p" "h_state h k = Some st"
    by (metis domIff host_ok_def not_None_eq)
  with host_okD [OF assms(1) this] show "SUPPLY_INDEX_FLOOR_RAW \<le> stored_supply_index h k" and "RAY \<le> stored_borrow_index h k"
    by (auto simp: stored_defs market_ok_def cache_ok_def book_ok_def cache_of_def)
qed

lemma market_run_frame:
  assumes "market_run n h ks h'" and "host_ok h"
  shows "host_ok h'" and "h_params h' = h_params h" and "h_owner h' = h_owner h" and "h_self h' = h_self h"
    and "h_timestamp h' = h_timestamp h" and "h_auth h' = h_auth h"
    and "k \<notin> set ks \<Longrightarrow> h_state h' k = h_state h k"
proof -
  have "host_ok h' \<and> h_params h' = h_params h \<and> h_owner h' = h_owner h \<and> h_self h' = h_self h \<and>
    h_timestamp h' = h_timestamp h \<and> h_auth h' = h_auth h \<and> (k \<notin> set ks \<longrightarrow> h_state h' k = h_state h k)"
    using assms
  proof (induction rule: market_run.induct)
    case (run_cons h k c0 c h1 ks h2)
    with market_step_host [OF run_cons(1,5)] show ?case by auto
  qed simp
  then show "host_ok h'" and "h_params h' = h_params h" and "h_owner h' = h_owner h" and "h_self h' = h_self h"
    and "h_timestamp h' = h_timestamp h" and "h_auth h' = h_auth h"
    and "k \<notin> set ks \<Longrightarrow> h_state h' k = h_state h k" by auto
qed

lemma market_run_borrow_index:
  assumes "market_run n h ks h'" and "host_ok h"
  shows "stored_borrow_index h k \<le> stored_borrow_index h' k"
  using assms
proof (induction rule: market_run.induct)
  case (run_cons h k' c0 c h1 ks h2)
  from run_cons(1) have sm: "synced_market h k' = Inr c0" by (simp add: market_step_def)
  have "stored_borrow_index h k \<le> stored_borrow_index h1 k"
    using market_step_stored [OF run_cons(1,5)] synced_stored(2) [OF sm run_cons(5)] run_cons(2)
    by (cases "k = k'") (auto simp: within_def)
  then show ?case using run_cons(4) [OF market_step_host(1) [OF run_cons(1,5)]] by simp
qed simp

lemma market_run_supply_index:
  assumes "market_run n h ks h'" and "host_ok h" and "stored_elapsed h k = 0"
  shows "stored_supply_index h' k \<le> stored_supply_index h k"
  using assms
proof (induction rule: market_run.induct)
  case (run_cons h k' c0 c h1 ks h2)
  from run_cons(1) have sm: "synced_market h k' = Inr c0" by (simp add: market_step_def)
  note S = market_step_stored [OF run_cons(1,5)]
  have "stored_supply_index h1 k \<le> stored_supply_index h k" "stored_elapsed h1 k = 0"
    using S synced_stored(4) [OF sm run_cons(5)] run_cons(2,6) by (cases "k = k'"; auto simp: within_def)+
  then show ?case using run_cons(4) [OF market_step_host(1) [OF run_cons(1,5)]] by simp
qed simp

definition run_drift :: "nat \<Rightarrow> 'w host \<Rightarrow> hub_asset_key list \<Rightarrow> hub_asset_key \<Rightarrow> nat" where
  "run_drift n h ks k = (if k \<in> set ks then 2 * loop_chunks (stored_elapsed h k) + n * count_list ks k else 0)"

lemma market_run_gap:
  assumes "market_run n h ks h'" and "host_ok h" and "h_params h k \<noteq> None"
    and "stored_supply_index h' k \<noteq> SUPPLY_INDEX_FLOOR_RAW"
  shows "stored_gap h' k \<le> max 0 (stored_gap h k) + RAY * int (run_drift n h ks k)"
  using assms
proof (induction rule: market_run.induct)
  case (run_nil h)
  then show ?case by (simp add: run_drift_def)
next
  case (run_cons h k' c0 c h1 ks h2)
  from run_cons(1) have sm: "synced_market h k' = Inr c0" by (simp add: market_step_def)
  note S = market_step_stored [OF run_cons(1,5)] and H = market_step_host [OF run_cons(1,5)]
  have IH: "stored_gap h2 k \<le> max 0 (stored_gap h1 k) + RAY * int (run_drift n h1 ks k)"
    using run_cons(4) [OF H(1)] run_cons(6,7) H(2) by simp
  show ?case
  proof (cases "k = k'")
    case False
    with S(8) [OF this] have "run_drift n h1 ks k = run_drift n h (k' # ks) k" by (simp add: run_drift_def)
    with IH S(5) [OF False] show ?thesis by simp
  next
    case True
    note S' = S [folded True]
    have "stored_supply_index h1 k \<noteq> SUPPLY_INDEX_FLOOR_RAW"
    proof
      assume "stored_supply_index h1 k = SUPPLY_INDEX_FLOOR_RAW"
      then have "stored_supply_index h2 k \<le> SUPPLY_INDEX_FLOOR_RAW"
        using market_run_supply_index [OF run_cons(3) H(1) S'(4)] by simp
      moreover have "SUPPLY_INDEX_FLOOR_RAW \<le> stored_supply_index h2 k"
        using host_ok_index_floor(1) [OF market_run_frame(1) [OF run_cons(3) H(1)], of k]
          market_run_frame(2) [OF run_cons(3) H(1)] H(2) run_cons(6) by simp
      ultimately show False using run_cons(7) by simp
    qed
    then have "gap c \<le> max 0 (gap c0) + RAY * int n" using run_cons(2) S'(2) by (simp add: within_def)
    moreover have "gap c0 \<le> stored_gap h k + 2 * RAY * int (loop_chunks (stored_elapsed h k))"
      using synced_stored(1) [OF sm run_cons(5)] True by simp
    moreover have "0 \<le> RAY * int (loop_chunks (stored_elapsed h k))" "0 \<le> RAY * int n" by simp_all
    moreover have "RAY * int (2 * loop_chunks (stored_elapsed h k) + n) =
        2 * RAY * int (loop_chunks (stored_elapsed h k)) + RAY * int n"
      "2 * RAY * int (loop_chunks (stored_elapsed h k)) = 2 * (RAY * int (loop_chunks (stored_elapsed h k)))"
      by (simp_all add: algebra_simps)
    ultimately have "max 0 (gap c) \<le> max 0 (stored_gap h k) + RAY * int (2 * loop_chunks (stored_elapsed h k) + n)"
      by linarith
    moreover have D: "run_drift n h1 ks k = n * count_list ks k"
      using S'(4) by (auto simp: run_drift_def count_list_0_iff)
    moreover have "RAY * int (run_drift n h (k' # ks) k) =
        RAY * int (2 * loop_chunks (stored_elapsed h k) + n) + RAY * int (n * count_list ks k)"
      using True by (simp add: run_drift_def algebra_simps)
    ultimately show ?thesis using IH [unfolded S'(1) D] by linarith
  qed
qed

section \<open>Batches\<close>

text \<open>
  The contract \<^verbatim>\<open>run_batch\<close> relies on: a leg is one step on the market its entry names, and its
  snapshot carries that market's key.
\<close>

locale batch_leg =
  fixes leg :: "'w host \<Rightarrow> 'e \<Rightarrow> ('w, 'r) leg_result" and key :: "'e \<Rightarrow> hub_asset_key" and slack :: nat
  assumes leg_step: "\<lbrakk>leg h e = Inr (r, sn, h'); host_ok h\<rbrakk> \<Longrightarrow>
    \<exists>c0 c. market_step h (key e) c0 c h' \<and> within slack c0 c \<and> sn = snapshot c"
begin

lemma batch_loop_run:
  assumes "batch_loop leg u es ms h = Inr (rs, h')" and "host_ok h"
  shows "market_run slack h (map key es) h' \<and> length rs = length es \<and>
    (u \<longrightarrow> distinct (map key es) \<and> set (map key es) \<inter> set ms = {})"
  using assms
proof (induction es arbitrary: ms h rs)
  case Nil
  then show ?case by (auto intro: run_nil)
next
  case (Cons e es)
  from Cons.prems(1) obtain r sn h1 ms' rs' where l: "leg h e = Inr (r, sn, h1)"
    and ms': "ms' = (if u then ms @ [mss_hub_asset sn] else ms)" and q: "u \<longrightarrow> mss_hub_asset sn \<notin> set ms"
    and b: "batch_loop leg u es ms' h1 = Inr (rs', h')" and rs: "rs = r # rs'"
    by (cases u) (auto simp: rbind_Inr_iff assert_Inr_iff)
  from leg_step [OF l Cons.prems(2)] obtain c0 c where st: "market_step h (key e) c0 c h1"
    and w: "within slack c0 c" and sn: "sn = snapshot c" by blast
  have k: "mss_hub_asset sn = key e" using st by (simp add: sn snapshot_def market_step_def)
  from Cons.IH [OF b market_step_host(1) [OF st Cons.prems(2)]] show ?case
    using q by (auto simp: ms' rs k intro: run_cons [OF st w])
qed

lemma run_batch_run:
  assumes "run_batch leg u es h = Inr (rs, h')" and "host_ok h"
  shows "market_run slack h (map key es) h'" and "length rs = length es" and "u \<Longrightarrow> distinct (map key es)"
  using batch_loop_run [of u es "[]" h rs h'] assms by (auto simp: run_batch_def)

end

lemma within_0I: "same_indexes c0 c \<Longrightarrow> gap c \<le> gap c0 \<Longrightarrow> within 0 c0 c"
  by (auto simp: within_def same_indexes_def)

interpretation supply_batch: batch_leg supply_apply "\<lambda>e. pa_hub_asset (pse_action e)" 0
  by unfold_locales (erule (1) supply_sound, blast intro: within_0I)

interpretation borrow_batch: batch_leg "borrow_apply ext receiver" "\<lambda>e. pa_hub_asset (pbe_action e)" 0
  by unfold_locales (erule (1) borrow_sound, blast intro: within_0I)

interpretation withdraw_batch: batch_leg "withdraw_apply ext receiver liq" "\<lambda>e. pa_hub_asset (pwe_action e)" 0
  by unfold_locales (erule (1) withdraw_sound, blast intro: within_0I)

interpretation repay_batch: batch_leg "repay_apply ext payer" pa_hub_asset 0
  by unfold_locales (erule (1) repay_sound, blast intro: within_0I)

lemma seize_within:
  assumes "seize_apply h e = Inr (sn, h')" and "host_ok h"
  shows "\<exists>c0 c. market_step h (pze_hub_asset e) c0 c h' \<and> within 1 c0 c \<and> sn = snapshot c"
proof -
  from seize_sound [OF assms] obtain c0 c where st: "market_step h (pze_hub_asset e) c0 c h'" and sn: "sn = snapshot c"
    and d: "pze_side e = Deposit \<Longrightarrow> gap c = gap c0 \<and> c_supply_index c = c_supply_index c0 \<and>
           c_borrow_index c = c_borrow_index c0"
    and b: "pze_side e = Borrow \<Longrightarrow> c_borrow_index c = c_borrow_index c0 \<and> c_supply_index c \<le> c_supply_index c0 \<and>
           (c_supply_index c \<noteq> SUPPLY_INDEX_FLOOR_RAW \<longrightarrow> gap c \<le> max 0 (gap c0) + RAY)"
    by metis
  have "gap c0 \<le> max 0 (gap c0) + RAY" using scale_pos(4) by linarith
  then have "within 1 c0 c" using d b by (cases "pze_side e") (auto simp: within_def)
  with st sn show ?thesis by blast
qed

interpretation seize_batch: batch_leg seize_leg pze_hub_asset 1
proof unfold_locales
  fix h h' :: "'a host" and e :: pool_seize_entry and r :: unit and sn
  assume "seize_leg h e = Inr (r, sn, h')" and ok: "host_ok h"
  then have "seize_apply h e = Inr (sn, h')" by (auto simp: seize_leg_def rbind_Inr_iff)
  from seize_within [OF this ok]
  show "\<exists>c0 c. market_step h (pze_hub_asset e) c0 c h' \<and> within 1 c0 c \<and> sn = snapshot c" .
qed

section \<open>Entrypoints as runs\<close>

lemma only_owner_Inr [res_iff]:
  "only_owner h body = Inr x \<longleftrightarrow> (\<exists>owner. h_owner h = Some owner \<and> h_auth h owner) \<and> body = Inr x"
  by (auto simp: only_owner_def split: option.splits)

lemma state_of_Inr [res_iff]: "state_of m = Inr h \<longleftrightarrow> (\<exists>r. m = Inr (r, h))"
  by (auto simp: state_of_def rbind_Inr_iff)

fun call_keys :: "call \<Rightarrow> hub_asset_key list" where
  "call_keys (Create_Market hub params) = []"
| "call_keys (Update_Params k model) = [k]"
| "call_keys (Upgrade code) = []"
| "call_keys (Supply es) = map (\<lambda>e. pa_hub_asset (pse_action e)) es"
| "call_keys (Borrow_Call receiver es) = map (\<lambda>e. pa_hub_asset (pbe_action e)) es"
| "call_keys (Withdraw receiver liq es) = map (\<lambda>e. pa_hub_asset (pwe_action e)) es"
| "call_keys (Repay payer acts) = map pa_hub_asset acts"
| "call_keys (Update_Indexes ks) = ks"
| "call_keys (Recapitalize k payer amount) = [k]"
| "call_keys (Flash_Loan k initiator receiver amount data) = [k]"
| "call_keys (Create_Strategy receiver action charge_fee) = [pa_hub_asset action]"
| "call_keys (Seize_Positions es) = map pze_hub_asset es"
| "call_keys (Net_Settle e) = [pne_hub_asset e]"
| "call_keys (Claim_Revenue k) = [k]"

fun call_slack :: "call \<Rightarrow> nat" where
  "call_slack (Seize_Positions es) = 1"
| "call_slack cl = 0"

fun lifecycle :: "call \<Rightarrow> bool" where
  "lifecycle (Create_Market hub params) = True"
| "lifecycle (Update_Params k model) = True"
| "lifecycle (Upgrade code) = True"
| "lifecycle cl = False"

lemma single_run:
  assumes "market_step h k c0 c h'" and "same_indexes c0 c" and "gap c \<le> gap c0"
  shows "market_run 0 h [k] h'"
  by (rule run_cons [OF assms(1) within_0I [OF assms(2,3)] run_nil])

lemma accrue_run:
  assumes "market_accrue ks h = Inr h'" and "host_ok h"
  shows "market_run 0 h ks h'"
  using assms
proof (induction ks arbitrary: h)
  case Nil
  then show ?case by (auto intro: run_nil)
next
  case (Cons k ks)
  from Cons.prems(1) obtain c where sm: "synced_market h k = Inr c"
    and r: "market_accrue ks (write_state h (c_hub_asset c) (cache_state c)) = Inr h'"
    by (auto simp: rbind_Inr_iff synced_market_def cache_commit_def)
  have st: "market_step h k c c (write_state h (c_hub_asset c) (cache_state c))"
    by (rule market_stepI [OF sm Cons.prems(2) synced_market_sound(1) [OF sm Cons.prems(2)]])
      (simp_all add: cache_commit_def write_state_def)
  show ?case
    by (rule run_cons [OF st within_0I Cons.IH [OF r market_step_host(1) [OF st Cons.prems(2)]]])
      (simp_all add: same_indexes_def)
qed

lemma dispatch_run:
  assumes "dispatch ext cl h = Inr h'" and "host_ok h" and "\<not> lifecycle cl"
  shows "market_run (call_slack cl) h (call_keys cl) h'"
proof (cases cl)
  case (Supply es)
  then show ?thesis using assms(1) supply_batch.run_batch_run(1) [OF _ assms(2)]
    by (auto simp: res_iff pool_supply_def)
next
  case (Borrow_Call to es)
  then show ?thesis using assms(1) borrow_batch.run_batch_run(1) [OF _ assms(2)]
    by (auto simp: res_iff borrow_def)
next
  case (Withdraw to liq es)
  then show ?thesis using assms(1) withdraw_batch.run_batch_run(1) [OF _ assms(2)]
    by (auto simp: res_iff withdraw_def)
next
  case (Repay payer acts)
  then show ?thesis using assms(1) repay_batch.run_batch_run(1) [OF _ assms(2)]
    by (auto simp: res_iff repay_def)
next
  case (Update_Indexes ks)
  then show ?thesis using assms(1) accrue_run [OF _ assms(2)]
    by (auto simp: res_iff update_indexes_def)
next
  case (Recapitalize k payer amount)
  then obtain m where "recapitalize_apply ext h k payer amount = Inr (m, h')"
    using assms(1) by (auto simp: only_owner_Inr state_of_Inr recapitalize_def)
  then show ?thesis using Recapitalize by (elim recapitalize_sound [OF _ assms(2)]) (auto intro: single_run)
next
  case (Flash_Loan k initiator receiver amount data)
  then obtain fee where "flash_apply ext h k initiator receiver amount data = Inr (fee, h')"
    using assms(1) by (auto simp: only_owner_Inr state_of_Inr flash_loan_def)
  then show ?thesis using Flash_Loan by (elim flash_sound [OF _ assms(2)]) (auto intro: single_run)
next
  case (Create_Strategy receiver action charge_fee)
  then obtain m where "strategy_apply ext h receiver action charge_fee = Inr (m, h')"
    using assms(1) by (auto simp: only_owner_Inr state_of_Inr create_strategy_def)
  then show ?thesis using Create_Strategy by (elim strategy_sound [OF _ assms(2)]) (auto intro: single_run)
next
  case (Seize_Positions es)
  then show ?thesis using assms(1) seize_batch.run_batch_run(1) [OF _ assms(2)]
    by (auto simp: res_iff seize_positions_def)
next
  case (Net_Settle e)
  then obtain r sn where "net_settle_apply h e = Inr (r, sn, h')"
    using assms(1) by (auto simp: only_owner_Inr state_of_Inr rbind_Inr_iff net_settle_def)
  then show ?thesis using Net_Settle by (elim net_settle_sound [OF _ assms(2)]) (auto intro: single_run)
next
  case (Claim_Revenue k)
  then obtain m where "revenue_apply ext h k = Inr (m, h')"
    using assms(1) by (auto simp: only_owner_Inr state_of_Inr claim_revenue_def)
  then show ?thesis using Claim_Revenue by (elim revenue_sound [OF _ assms(2)]) (auto intro: single_run)
qed (use assms(3) in auto)

definition call_drift :: "call \<Rightarrow> 'w host \<Rightarrow> hub_asset_key \<Rightarrow> nat" where
  "call_drift cl h k = run_drift (call_slack cl) h (call_keys cl) k"

text \<open>What every successful invocation preserves, lifecycle calls included.\<close>

lemma update_params_effect:
  assumes "dispatch ext (Update_Params k model) h = Inr h'" and ok: "host_ok h"
  shows "host_ok h'" and "h_timestamp h' = h_timestamp h"
    and "h_params h k' \<noteq> None \<Longrightarrow> h_params h' k' \<noteq> None"
    and "k' \<noteq> k \<Longrightarrow> h_state h' k' = h_state h k' \<and> h_params h' k' = h_params h k'"
    and "stored_borrow_index h k' \<le> stored_borrow_index h' k'"
    and "stored_gap h' k \<le> stored_gap h k + 2 * RAY * int (loop_chunks (stored_elapsed h k))"
proof -
  from assms(1) have "replace_rate_model h k model = Inr h'" by (auto simp: only_owner_Inr update_params_def)
  from replace_rate_model_sound [OF this ok] obtain c0 p p' where sm: "synced_market h k = Inr c0" and p: "h_params h k = Some p"
    and h': "h_params h' = (h_params h)(k \<mapsto> p')" "h_state h' = (h_state h)(k \<mapsto> cache_state c0)"
    and d: "mpr_asset_decimals p' = mpr_asset_decimals p" and o: "host_ok h'" "h_timestamp h' = h_timestamp h" by metis
  note S = synced_stored [OF sm ok]
  from synced_market_sound(4) [OF sm ok] p have cp: "c_params c0 = market_params_of_raw p" by auto
  have "gap (cache_of k p' (cache_state c0) 0) = gap c0"
    using d cp by (simp add: gap_def cache_of_def cache_state_def unit_value_def market_params_of_raw_def)
  then have "stored_gap h' k = gap c0" by (simp add: stored_gap_def h')
  then show "stored_gap h' k \<le> stored_gap h k + 2 * RAY * int (loop_chunks (stored_elapsed h k))" using S(1) by simp
  show "host_ok h'" and "h_timestamp h' = h_timestamp h" by (rule o)+
  show "h_params h k' \<noteq> None \<Longrightarrow> h_params h' k' \<noteq> None"
    and "k' \<noteq> k \<Longrightarrow> h_state h' k' = h_state h k' \<and> h_params h' k' = h_params h k'"
    by (simp_all add: h')
  show "stored_borrow_index h k' \<le> stored_borrow_index h' k'"
    using S(2) by (cases "k' = k") (simp_all add: stored_borrow_index_def h' cache_state_def)
qed

lemma create_market_effect:
  assumes "dispatch ext (Create_Market hub p) h = Inr h'" and ok: "host_ok h"
  defines "k \<equiv> \<lparr>hub_id = hub, asset = mpr_asset_id p\<rparr>"
  shows "host_ok h'" and "h_timestamp h' = h_timestamp h" and "h_params h k = None"
    and "k' \<noteq> k \<Longrightarrow> h_state h' k' = h_state h k' \<and> h_params h' k' = h_params h k'"
    and "h_params h' k = Some p" and "stored_gap h' k = 0"
    and "stored_borrow_index h' k = RAY" and "stored_supply_index h' k = RAY"
proof -
  from assms(1) have "market_create h hub p = Inr h'" by (auto simp: only_owner_Inr create_market_def)
  note M = market_create_sound [OF this ok, folded k_def]
  from M(4) obtain now where now: "h_state h' = (h_state h)(k \<mapsto>
       \<lparr>ps_supplied = 0, ps_borrowed = 0, ps_revenue = 0, ps_borrow_index = RAY,
        ps_supply_index = RAY, ps_last_timestamp = now, ps_cash = 0\<rparr>)" by blast
  show "host_ok h'" and "h_timestamp h' = h_timestamp h" and "h_params h k = None"
    and "k' \<noteq> k \<Longrightarrow> h_state h' k' = h_state h k' \<and> h_params h' k' = h_params h k'" and "h_params h' k = Some p"
    using M now by simp_all
  show "stored_gap h' k = 0" and "stored_borrow_index h' k = RAY" and "stored_supply_index h' k = RAY"
    by (simp_all add: stored_defs M(3) now gap_def cache_of_def book_gap_def)
qed

lemma dispatch_sound:
  assumes d: "dispatch ext cl h = Inr h'" and ok: "host_ok h"
  shows "host_ok h'" and "h_timestamp h' = h_timestamp h"
    and "h_params h k \<noteq> None \<Longrightarrow> h_params h' k \<noteq> None"
    and "h_params h k \<noteq> None \<Longrightarrow> k \<notin> set (call_keys cl) \<Longrightarrow> h_state h' k = h_state h k \<and> h_params h' k = h_params h k"
    and "h_params h k \<noteq> None \<Longrightarrow> stored_borrow_index h k \<le> stored_borrow_index h' k"
    and "h_params h k \<noteq> None \<Longrightarrow> stored_supply_index h' k \<noteq> SUPPLY_INDEX_FLOOR_RAW \<Longrightarrow>
      stored_gap h' k \<le> max 0 (stored_gap h k) + RAY * int (call_drift cl h k)"
proof -
  have "host_ok h' \<and> h_timestamp h' = h_timestamp h \<and> (h_params h k \<noteq> None \<longrightarrow> h_params h' k \<noteq> None \<and>
    (k \<notin> set (call_keys cl) \<longrightarrow> h_state h' k = h_state h k \<and> h_params h' k = h_params h k) \<and>
    stored_borrow_index h k \<le> stored_borrow_index h' k \<and>
    (stored_supply_index h' k \<noteq> SUPPLY_INDEX_FLOOR_RAW \<longrightarrow>
      stored_gap h' k \<le> max 0 (stored_gap h k) + RAY * int (call_drift cl h k)))"
  proof (cases "lifecycle cl")
    case False
    note R = dispatch_run [OF d ok False]
    note F = market_run_frame [OF R ok]
    show ?thesis
      using F market_run_borrow_index [OF R ok] market_run_gap [OF R ok] by (auto simp: call_drift_def)
  next
    case True
    then consider (c) hub p where "cl = Create_Market hub p" | (u) k0 m where "cl = Update_Params k0 m" | (g) w where "cl = Upgrade w"
      by (cases cl) auto
    then show ?thesis
    proof cases
      case c
      note C = create_market_effect [OF d [unfolded c] ok]
      have "h_params h k \<noteq> None \<longrightarrow> h_state h' k = h_state h k \<and> h_params h' k = h_params h k"
        using C(3,4) by metis
      then show ?thesis
        using C(1,2) by (auto simp: stored_defs call_drift_def run_drift_def c cong: option.case_cong)
    next
      case u
      note U = update_params_effect [OF d [unfolded u] ok]
      have "stored_gap h' k \<le> max 0 (stored_gap h k) + RAY * int (call_drift cl h k)" if "h_params h k \<noteq> None"
      proof (cases "k = k0")
        case True
        have "RAY * int (call_drift cl h k) = 2 * RAY * int (loop_chunks (stored_elapsed h k))"
          using True by (simp add: u call_drift_def run_drift_def)
        then show ?thesis using U(6) [folded True] by linarith
      next
        case False
        then have "stored_gap h' k = stored_gap h k" using U(4) [OF False] by (simp add: stored_gap_def cong: option.case_cong)
        then show ?thesis using False by (simp add: u call_drift_def run_drift_def)
      qed
      then show ?thesis using U by (auto simp: u)
    next
      case g
      with d have "h' = h\<lparr>h_code := w\<rparr>" by (auto simp: only_owner_Inr upgrade_def)
      then show ?thesis using ok by (auto simp: host_ok_def stored_defs call_drift_def run_drift_def g)
    qed
  qed
  then show "host_ok h'" and "h_timestamp h' = h_timestamp h"
    and "h_params h k \<noteq> None \<Longrightarrow> h_params h' k \<noteq> None"
    and "h_params h k \<noteq> None \<Longrightarrow> k \<notin> set (call_keys cl) \<Longrightarrow> h_state h' k = h_state h k \<and> h_params h' k = h_params h k"
    and "h_params h k \<noteq> None \<Longrightarrow> stored_borrow_index h k \<le> stored_borrow_index h' k"
    and "h_params h k \<noteq> None \<Longrightarrow> stored_supply_index h' k \<noteq> SUPPLY_INDEX_FLOOR_RAW \<Longrightarrow>
      stored_gap h' k \<le> max 0 (stored_gap h k) + RAY * int (call_drift cl h k)" by blast+
qed

section \<open>Reachable states\<close>

text \<open>
  Between invocations the ledger time moves forward and the rest of the chain, including who
  authorises the next invocation, changes arbitrarily. A failed invocation changes nothing and needs
  no rule.
\<close>

inductive pool_step :: "'w externals \<Rightarrow> 'w host \<Rightarrow> 'w host \<Rightarrow> bool" for ext where
  call_step: "dispatch ext cl h = Inr h' \<Longrightarrow> pool_step ext h h'"
| env_step: "h_timestamp h \<le> t \<Longrightarrow> pool_step ext h (h\<lparr>h_timestamp := t, h_auth := auth, h_world := w\<rparr>)"

inductive reachable :: "'w externals \<Rightarrow> 'w host \<Rightarrow> bool" for ext where
  deployed: "\<lbrakk>h_params h = Map.empty; h_state h = Map.empty\<rbrakk> \<Longrightarrow> reachable ext (pool_constructor h admin)"
| advance: "\<lbrakk>reachable ext h; pool_step ext h h'\<rbrakk> \<Longrightarrow> reachable ext h'"

inductive_simps pool_step_simps: "pool_step ext h h'"

lemma host_ok_env [simp]:
  "host_ok (h\<lparr>h_timestamp := t\<rparr>) = host_ok h" "host_ok (h\<lparr>h_auth := auth\<rparr>) = host_ok h"
  by (simp_all add: host_ok_def)

lemma pool_step_ok:
  assumes "pool_step ext h h'" and "host_ok h"
  shows "host_ok h'"
  using assms by (auto simp: pool_step_simps dest: dispatch_sound(1))

lemma reachable_host_ok: "reachable ext h \<Longrightarrow> host_ok h"
proof (induction rule: reachable.induct)
  case (deployed h admin)
  then show ?case by (simp add: host_ok_def pool_constructor_def)
qed (rule pool_step_ok)

lemma pool_step_borrow_index:
  assumes "pool_step ext h h'" and "host_ok h" and "h_params h k \<noteq> None"
  shows "stored_borrow_index h k \<le> stored_borrow_index h' k"
  using assms(1)
proof cases
  case (call_step cl)
  from dispatch_sound(5) [OF this assms(2,3)] show ?thesis .
next
  case (env_step t auth w)
  then show ?thesis by (simp add: stored_borrow_index_def)
qed

text \<open>
  \<open>backed ext k h n\<close>: the market \<open>k\<close> has been operated, from its creation to the state \<open>h\<close>, without
  its supply index ever stopping at the floor, and \<open>n\<close> is the drift accumulated on the way.
\<close>

inductive backed :: "'w externals \<Rightarrow> hub_asset_key \<Rightarrow> 'w host \<Rightarrow> nat \<Rightarrow> bool" for ext k where
  created: "\<lbrakk>reachable ext h; dispatch ext (Create_Market hub p) h = Inr h';
     k = \<lparr>hub_id = hub, asset = mpr_asset_id p\<rparr>\<rbrakk> \<Longrightarrow> backed ext k h' 0"
| called: "\<lbrakk>backed ext k h n; dispatch ext cl h = Inr h'; stored_supply_index h' k \<noteq> SUPPLY_INDEX_FLOOR_RAW\<rbrakk>
     \<Longrightarrow> backed ext k h' (n + call_drift cl h k)"
| waited: "\<lbrakk>backed ext k h n; h_timestamp h \<le> t\<rbrakk>
     \<Longrightarrow> backed ext k (h\<lparr>h_timestamp := t, h_auth := auth, h_world := w\<rparr>) n"

lemma backed_sound:
  assumes "backed ext k h n"
  shows "host_ok h" and "h_params h k \<noteq> None" and "stored_gap h k \<le> RAY * int n"
proof -
  have "host_ok h \<and> h_params h k \<noteq> None \<and> stored_gap h k \<le> RAY * int n"
    using assms
  proof (induction rule: backed.induct)
    case (created h hub p h')
    from create_market_effect [OF created(2) reachable_host_ok [OF created(1)]] created(3) show ?case by simp
  next
    case (called h n cl h')
    then have ok: "host_ok h" "h_params h k \<noteq> None" "stored_gap h k \<le> RAY * int n" by auto
    note D = dispatch_sound [OF called(2) ok(1)]
    have "0 \<le> RAY * int n" by simp
    moreover have "RAY * int (n + call_drift cl h k) = RAY * int n + RAY * int (call_drift cl h k)"
      by (simp add: distrib_left)
    ultimately have "stored_gap h' k \<le> RAY * int (n + call_drift cl h k)"
      using D(6) [OF ok(2) called(3)] ok(3) by linarith
    then show ?case using D(1) D(3) [OF ok(2)] by blast
  next
    case (waited h n t auth w)
    then show ?case by (simp add: stored_gap_def cong: option.case_cong)
  qed
  then show "host_ok h" and "h_params h k \<noteq> None" and "stored_gap h k \<le> RAY * int n" by auto
qed

lemma backed_synced_gap:
  assumes b: "backed ext k h n" and sm: "synced_market h k = Inr c"
  shows "gap c \<le> RAY * int (n + 2 * loop_chunks (stored_elapsed h k))"
  using synced_stored(1) [OF sm backed_sound(1) [OF b]] backed_sound(3) [OF b] by (simp add: algebra_simps)

lemma backed_no_shortfall:
  assumes b: "backed ext k h n" and sm: "synced_market h k = Inr c" and sf: "backing_shortfall c = Inr s"
    and n: "int (n + 2 * loop_chunks (stored_elapsed h k)) < asset_unit (asset_decimals (c_params c))"
  shows "s = 0"
proof -
  have ok: "cache_ok c" by (rule synced_market_sound(1) [OF sm backed_sound(1) [OF b]])
  have "RAY * int (n + 2 * loop_chunks (stored_elapsed h k)) < RAY * asset_unit (asset_decimals (c_params c))"
    using n by (intro mult_strict_left_mono) auto
  then have "gap c < RAY * asset_unit (asset_decimals (c_params c))" by (rule le_less_trans [OF backed_synced_gap [OF b sm]])
  then have "gap c < unit_value c" by (simp add: unit_value_def mult.commute)
  then show ?thesis by (rule small_gap_no_shortfall [OF sf ok])
qed

end
