(* ===== verification/Samples.thy ===== *)
theory Samples
  imports Pool_Machine
begin

text \<open>
  Concrete data on which the witnesses evaluate the model: a six-decimal market with a validated
  rate model, a ledger whose world is the pool's balance of that token, and short executions.
\<close>

definition demo_key :: hub_asset_key where
  "demo_key = \<lparr>hub_id = 1, asset = 7\<rparr>"

definition demo_params :: market_params_raw where
  "demo_params =
     \<lparr>mpr_max_borrow_rate = RAY, mpr_base_borrow_rate = RAY div 100, mpr_slope1 = RAY div 25,
      mpr_slope2 = RAY div 10, mpr_slope3 = RAY div 2, mpr_mid_utilization = RAY div 2,
      mpr_optimal_utilization = 4 * (RAY div 5), mpr_max_utilization = 9 * (RAY div 10),
      mpr_reserve_factor = 1000, mpr_is_flashloanable = True, mpr_flashloan_fee = 9,
      mpr_asset_id = 7, mpr_asset_decimals = 6\<rparr>"

definition demo_ext :: "int externals" where
  "demo_ext =
     \<lparr>token_balance = (\<lambda>_ _ w. Inr w), token_allowance = (\<lambda>_ _ _ w. Inr i128_max),
      token_transfer = (\<lambda>_ _ _ a w. Inr (w - a)), token_transfer_from = (\<lambda>_ _ _ _ a w. Inr (w + a)),
      executable_is_wasm = (\<lambda>_ _. True), execute_flash_loan = (\<lambda>_ _ _ _ _ _ _ w. Inr w)\<rparr>"

definition demo_blank :: "int host" where
  "demo_blank =
     \<lparr>h_params = Map.empty, h_state = Map.empty, h_owner = None, h_self = 100, h_code = [],
      h_timestamp = 1000, h_auth = (\<lambda>a. a = 42), h_world = 1000000000\<rparr>"

definition demo_action :: "int \<Rightarrow> int \<Rightarrow> pool_action" where
  "demo_action pos amount = \<lparr>pa_position = \<lparr>scaled_amount = pos\<rparr>, pa_amount = amount, pa_hub_asset = demo_key\<rparr>"

definition demo_fresh :: "int host" where
  "demo_fresh = pool_constructor demo_blank 42"

definition demo_host :: "int \<Rightarrow> pool_state \<Rightarrow> int host" where
  "demo_host w st =
     \<lparr>h_params = [demo_key \<mapsto> demo_params], h_state = [demo_key \<mapsto> st], h_owner = Some 42, h_self = 100, h_code = [],
      h_timestamp = 1000, h_auth = (\<lambda>a. a = 42), h_world = w\<rparr>"

definition demo_state :: "int \<Rightarrow> int \<Rightarrow> int \<Rightarrow> int \<Rightarrow> pool_state" where
  "demo_state supplied borrowed revenue cash =
     \<lparr>ps_supplied = supplied, ps_borrowed = borrowed, ps_revenue = revenue, ps_borrow_index = RAY,
      ps_supply_index = RAY, ps_last_timestamp = 1000000, ps_cash = cash\<rparr>"

lemmas eval_defs = Let_def
  rbind_def assert_with_error_def unwrap_or_panic_def i128_max_def i128_min_def u64_max_def
  u32_max_def in_i128_def to_i128_opt_def i128_checked_add_def i128_checked_sub_def
  i128_checked_mul_def i128_checked_div_def i128_checked_pow10_def i128_saturate_def
  i128_saturating_sub_def i128_saturating_mul_def native_def ceil_div_def half_up_div_def
  require_nonzero_divisor_def quotient_is_negative_def div_floor_i128_def div_ceil_i128_def
  rem_euclid_def div_floor_i256_def div_ceil_i256_def quotient_is_nonnegative_def to_i128_def
  try_mul_div_half_up_def mul_div_half_up_def mul_div_floor_def mul_div_ceil_def
  mul_div_floor_saturating_def abs_diff_def rescale_def div_by_int_half_up_def
  rescale_half_up_def rescale_floor_def rescale_ceil_def RAY_def WAD_def BPS_def
  RAY_DECIMALS_def WAD_DECIMALS_def MIN_ASSET_DECIMALS_def MIN_BORROWABLE_ASSET_DECIMALS_def
  MIN_WHOLE_UNIT_COLLATERAL_def MAX_ASSET_DECIMALS_def MILLISECONDS_PER_YEAR_def
  MAX_REASONABLE_PRICE_WAD_def MAX_LIQUIDATION_TARGET_HF_WAD_def
  DEFAULT_MIN_BORROW_COLLATERAL_USD_WAD_def MAX_FLASHLOAN_FEE_BPS_def POSITION_LIMIT_MAX_def
  MIN_TOLERANCE_def MIN_SANITY_BAND_BPS_def MAX_TOLERANCE_def MS_PER_SECOND_def
  SUPPLY_INDEX_FLOOR_RAW_def MAX_BORROW_RATE_RAY_def LIQUIDATION_BUFFER_BPS_def
  MAX_BORROW_INDEX_RAY_def MAX_SUPPLY_INDEX_RAY_def checked_add_raw_def checked_sub_nonneg_def
  ray_mul_def ray_div_def ray_div_floor_def ray_div_ceil_def ray_div_by_int_def
  ray_mul_floor_def ray_mul_ceil_def ray_mul_ratio_ceil_def ray_to_wad_def ray_to_wad_floor_def
  ray_to_wad_ceil_def ray_to_asset_def ray_to_asset_floor_def ray_to_asset_ceil_def
  ray_from_fraction_def ray_from_asset_def ray_checked_sub_def ray_checked_add_def wad_mul_def
  wad_try_mul_def wad_div_def wad_div_floor_def wad_div_floor_saturating_def wad_mul_floor_def
  wad_mul_ceil_def wad_from_token_def wad_to_token_def wad_to_token_floor_def wad_to_ray_def
  wad_checked_add_def wad_checked_sub_def bps_to_wad_def bps_apply_to_def
  bps_flash_loan_fee_on_def bps_apply_to_wad_def bps_apply_to_wad_floor_def bps_apply_to_ray_def
  bps_checked_add_def bps_checked_sub_def rate_model_view_def interest_rate_model_verify_def
  market_params_raw_verify_def market_params_of_raw_def market_params_to_raw_def
  position_mutation_of_strategy_def calculate_annual_borrow_rate_def calculate_borrow_rate_def
  calculate_deposit_rate_def utilization_def MAX_COMPOUND_DELTA_MS_def compound_interest_def
  update_borrow_index_def update_supply_index_def supply_index_reward_shortfall_def
  calculate_supplier_rewards_def protocol_fee_shares_def scaled_to_original_def
  calculate_scaled_cap_def calculate_scaled_supply_def calculate_scaled_supply_ceil_def
  calculate_scaled_borrow_def calculate_scaled_borrow_floor_def unscale_supply_def
  unscale_supply_floor_def unscale_borrow_def unscale_borrow_ceil_def resolve_withdrawal_def
  resolve_net_settle_def resolve_repay_def position_value_def position_value_floor_def
  position_value_ceil_def accrue_step_def simulate_update_indexes_def
  require_positive_amount_def require_nonneg_amount_def expect_invariant_def
  require_non_empty_payments_def max_cap_for_decimals_def require_cap_within_asset_domain_def
  require_wasm_receiver_def validate_liquidation_fees_def validate_risk_bounds_def
  validate_liquidation_curve_def validate_oracle_tolerance_def MAX_TWAP_RECORDS_def
  MAX_SINGLE_SOURCE_SANITY_BAND_BPS_def MAX_LP_SANITY_BAND_BPS_def validate_sanity_bounds_def
  validate_single_source_sanity_band_def validate_lp_sanity_band_def validate_twap_records_def
  market_exists_def read_params_def read_state_def load_state_def load_sync_data_def
  write_params_def write_state_def write_rate_model_def now_ms_def cache_load_def
  cache_state_def snapshot_def cache_commit_def elapsed_ms_def needs_accrual_def
  mark_accrued_def market_index_of_def position_mutation_def strategy_mutation_def
  require_reserves_def credit_cash_def debit_cash_def transfer_out_def calculate_utilization_def
  cache_scaled_supply_def cache_scaled_borrow_def cache_unscale_supply_def
  cache_unscale_supply_floor_def cache_unscale_borrow_def unscale_borrow_ceil_ray_def
  cache_resolve_withdrawal_def cache_resolve_repay_def cache_resolve_net_settle_def
  require_revenue_backed_def mint_supply_def burn_supply_def cache_mint_debt_def burn_debt_def
  accrue_revenue_def absorb_supply_as_revenue_def burn_claimable_revenue_def
  set_supply_index_def set_borrow_index_def accrue_chunk_def global_sync_def
  add_protocol_revenue_def apply_bad_debt_to_supply_index_def require_utilization_below_max_def
  require_liquidation_buffer_def backing_shortfall_def require_backed_market_def
  require_supply_for_debt_def synced_market_def renewed_market_def load_leg_def run_batch_def
  supply_apply_def mint_debt_def borrow_accounting_def borrow_apply_def
  resolve_close_or_partial_def burn_position_def gate_and_debit_def withhold_liquidation_fee_def
  withdraw_accounting_def withdraw_apply_def repay_accounting_def repay_apply_def
  seize_apply_def net_settle_apply_def revenue_accounting_def revenue_apply_def
  recapitalize_accounting_def recapitalize_apply_def compute_fee_def strategy_accounting_def
  strategy_apply_def flash_prepare_def flash_terms_of_def book_fee_def flash_finalize_def
  require_balance_def collect_repayment_def flash_apply_def market_create_def
  replace_rate_model_def only_owner_def pool_constructor_def create_market_def update_params_def
  upgrade_def pool_supply_def borrow_def withdraw_def repay_def update_indexes_def
  recapitalize_def flash_loan_def create_strategy_def seize_leg_def seize_positions_def
  net_settle_def claim_revenue_def get_utilisation_def get_reserves_def get_deposit_rate_def
  get_borrow_rate_def get_revenue_def get_supplied_amount_def get_borrowed_amount_def
  get_delta_time_def get_sync_data_def get_bulk_indexes_def state_of_def simulate_loop.simps
  sync_loop.simps demo_key_def demo_params_def demo_ext_def demo_blank_def demo_action_def
  demo_fresh_def demo_host_def demo_state_def

section \<open>A short execution\<close>

abbreviation demo_created :: "int host" where
  "demo_created \<equiv> demo_host 1000000000 (demo_state 0 0 0 0)"

abbreviation demo_supplied :: "int host" where
  "demo_supplied \<equiv> demo_host 1000000000 (demo_state (1000 * RAY) 0 0 1000000000)"

abbreviation demo_borrowed :: "int host" where
  "demo_borrowed \<equiv> demo_host 500000000 (demo_state (1000 * RAY) (500 * RAY) 0 500000000)"

lemma demo_create: "dispatch demo_ext (Create_Market 1 demo_params) demo_fresh = Inr demo_created"
  by (simp add: eval_defs)

lemma demo_supply_leg: "supply_apply demo_created \<lparr>pse_action = demo_action 0 1000000000\<rparr> =
    Inr (\<lparr>ppm_position = \<lparr>scaled_amount = 1000 * RAY\<rparr>, ppm_market_index = \<lparr>mi_borrow_index = RAY, mi_supply_index = RAY\<rparr>,
          ppm_actual_amount = 1000000000, ppm_asset_decimals = 6\<rparr>,
         \<lparr>mss_hub_asset = demo_key, mss_timestamp = 1000000, mss_supply_index = RAY, mss_borrow_index = RAY,
          mss_cash = 1000000000, mss_supplied = 1000 * RAY, mss_borrowed = 0, mss_revenue = 0\<rparr>, demo_supplied)"
  by (simp add: eval_defs)

lemma demo_supply: "dispatch demo_ext (Supply [\<lparr>pse_action = demo_action 0 1000000000\<rparr>]) demo_created = Inr demo_supplied"
  by (simp add: eval_defs)

lemma demo_borrow: "dispatch demo_ext (Borrow_Call 9 [\<lparr>pbe_action = demo_action 0 500000000\<rparr>]) demo_supplied = Inr demo_borrowed"
  by (simp add: eval_defs)

lemma demo_reachable:
  "reachable demo_ext demo_fresh" "reachable demo_ext demo_created" "reachable demo_ext demo_supplied"
  "reachable demo_ext demo_borrowed"
proof -
  show 0: "reachable demo_ext demo_fresh"
    unfolding demo_fresh_def by (rule deployed) (simp_all add: demo_blank_def)
  show 1: "reachable demo_ext demo_created" by (rule advance [OF 0 call_step [OF demo_create]])
  show 2: "reachable demo_ext demo_supplied" by (rule advance [OF 1 call_step [OF demo_supply]])
  show "reachable demo_ext demo_borrowed" by (rule advance [OF 2 call_step [OF demo_borrow]])
qed

lemmas demo_ok = demo_reachable [THEN reachable_host_ok]

end
