(* ===== verification/Rates_Properties.thy ===== *)
theory Rates_Properties
  imports Samples
begin

text \<open>
  The properties of the arithmetic and the rate engine: exactness of the rounded quotients, the
  conversions between asset units and rays, the borrow-rate curve, compounding, and one accrual step.
\<close>

section \<open>Fixed-point core\<close>

text \<open>
  The three rounding primitives of \<^verbatim>\<open>fp_core.rs\<close>, which multiply in 128 bits and fall back to
  256, return the exact product quotient rounded down, up, or half up, and panic exactly when the
  divisor is zero or the rounded quotient does not fit an \<^verbatim>\<open>i128\<close> (and, half up, on a negative operand).
\<close>

theorem mul_div_exact:
  "mul_div_floor x y d =
     (if d = 0 then Inl (Generic DivisionByZero)
      else if in_i128 (x * y div d) then Inr (x * y div d) else Inl (Generic MathOverflow)) \<and>
   mul_div_ceil x y d =
     (if d = 0 then Inl (Generic DivisionByZero)
      else if in_i128 (- ((- (x * y)) div d)) then Inr (- ((- (x * y)) div d)) else Inl (Generic MathOverflow)) \<and>
   mul_div_half_up x y d =
     (if d = 0 then Inl (Generic DivisionByZero)
      else if 0 \<le> x \<and> 0 \<le> y \<and> 0 < d \<and> in_i128 ((x * y + d div 2) div d)
      then Inr ((x * y + d div 2) div d) else Inl (Generic MathOverflow))"
  using mul_div_floor_eq [of x y d] mul_div_ceil_eq [of x y d] mul_div_half_up_eq [of x y d]
  by (simp add: ceil_div_def half_up_div_def)

text \<open>
  An asset amount that converts to a ray converts back to itself under each of the three
  roundings, for every asset with at most eighteen decimals.
\<close>

theorem asset_ray_roundtrip:
  assumes "dec \<le> WAD_DECIMALS" and "0 \<le> a" and "ray_from_asset a dec = Inr r"
  shows "ray_to_asset r dec = Inr a \<and> ray_to_asset_floor r dec = Inr a \<and> ray_to_asset_ceil r dec = Inr a"
proof -
  have r: "r = a * asset_unit dec" "in_i128 r" using assms by (auto simp: ray_from_asset_Inr)
  then have "0 \<le> r" using assms by simp
  from ray_to_asset_eqs [OF assms(1) this r(2)]
  show ?thesis by (simp add: r(1))
qed

theorem asset_ray_roundtrip_witness:
  "ray_to_asset 123000000000000000000000 6 = Inr 123 \<and> ray_to_asset_floor 123000000000000000000000 6 = Inr 123 \<and>
   ray_to_asset_ceil 123000000000000000000000 6 = Inr 123"
  by (rule asset_ray_roundtrip) (simp_all add: eval_defs)

text \<open>
  C29. Rounding never pays a depositor: shares minted for a deposit of \<open>a\<close>, withdrawn at the same
  index, never return more than \<open>a\<close>, whatever amount the withdrawal asks for.
\<close>

theorem supply_withdraw_no_profit:
  assumes "dec \<le> WAD_DECIMALS" and "0 < i" and "0 \<le> a" and "0 \<le> amount"
    and "calculate_scaled_supply a dec i = Inr shares"
    and "resolve_withdrawal amount shares i dec = Inr (burned, gross)"
  shows "gross \<le> a \<and> burned \<le> shares"
proof -
  have s: "shares = a * asset_unit dec * RAY div i" "0 \<le> shares"
    using assms by (auto simp: scaled_Inr pos_imp_zdiv_nonneg_iff)
  note W = resolve_withdrawal_facts [OF assms(6,1) s(2) assms(2,4)]
  have "gross * asset_unit dec * RAY \<le> burned * i" by (rule W(1))
  also have "\<dots> \<le> shares * i" using W(3) assms(2) by (simp add: mult_right_mono)
  also have "\<dots> \<le> a * asset_unit dec * RAY" using floor_bounds [OF assms(2)] s(1) by blast
  finally have "gross * (asset_unit dec * RAY) \<le> a * (asset_unit dec * RAY)" by (simp add: mult.assoc)
  then have "gross \<le> a" by (rule mult_right_le_imp_le) simp
  with W(3) show ?thesis by simp
qed

theorem supply_withdraw_no_profit_witness:
  "resolve_withdrawal 100 33333333333333333333333 3000000000000000000000000000 6 = Inr (33333333333333333333333, 99) \<and>
   ((99::int) \<le> 100 \<and> (33333333333333333333333::int) \<le> 33333333333333333333333)"
proof (rule conjI)
  show w: "resolve_withdrawal 100 33333333333333333333333 3000000000000000000000000000 6 = Inr (33333333333333333333333, 99)"
    by (simp add: eval_defs)
  show "(99::int) \<le> 100 \<and> (33333333333333333333333::int) \<le> 33333333333333333333333"
    by (rule supply_withdraw_no_profit [OF _ _ _ _ _ w]) (simp_all add: eval_defs)
qed

text \<open>
  C30. Rounding never favours a borrower: closing the whole debt minted for a borrow of \<open>a\<close> at the
  same index costs at least \<open>a\<close>, and a partial repayment never burns more debt value than it pays.
\<close>

theorem borrow_repay_no_profit:
  assumes "dec \<le> WAD_DECIMALS" and "0 < i" and "0 \<le> a" and "0 \<le> amount"
    and "calculate_scaled_borrow a dec i = Inr shares"
    and "resolve_repay amount shares i dec = Inr (burned, over)"
  shows "(burned = shares \<longrightarrow> a \<le> amount - over) \<and> burned * i \<le> (amount - over) * asset_unit dec * RAY"
proof -
  have s: "shares = ceil_div (a * asset_unit dec * RAY) i" "0 \<le> shares"
    using assms by (auto simp: scaled_Inr nonneg_quotients)
  note R = resolve_repay_facts [OF assms(6,1) s(2) assms(2,4)]
  have "a \<le> amount - over" if "burned = shares"
  proof -
    have "a * asset_unit dec * RAY \<le> shares * i" using ceil_bounds [OF assms(2)] s(1) by blast
    also have "\<dots> \<le> (amount - over) * asset_unit dec * RAY" using R(1) that by simp
    finally have "a * (asset_unit dec * RAY) \<le> (amount - over) * (asset_unit dec * RAY)" by (simp add: mult.assoc)
    then show ?thesis by (rule mult_right_le_imp_le) simp
  qed
  with R(1) show ?thesis by blast
qed

theorem borrow_repay_no_profit_witness:
  "resolve_repay 500 33333333333333333333334 3000000000000000000000000000 6 = Inr (33333333333333333333334, 399) \<and>
   (100::int) \<le> 500 - 399"
proof (rule conjI)
  show r: "resolve_repay 500 33333333333333333333334 3000000000000000000000000000 6 = Inr (33333333333333333333334, 399)"
    by (simp add: eval_defs)
  have "calculate_scaled_borrow 100 6 3000000000000000000000000000 = Inr 33333333333333333333334"
    by (simp add: eval_defs)
  note R = borrow_repay_no_profit [OF _ _ _ _ this r]
  show "(100::int) \<le> 500 - 399"
    by (rule mp [OF conjunct1 [OF R]]) (simp_all add: eval_defs)
qed

section \<open>Rates\<close>

text \<open>
  For validated parameters the borrow-rate curve is total on every non-negative utilization, its
  rate lies between the base and the maximum rate, and it does not fall as utilization rises within a
  segment of the curve.
\<close>

theorem borrow_curve_sound:
  assumes "params_ok p" and "0 \<le> u" and "u \<le> v" and "same_segment p u v"
  shows "\<exists>r s. calculate_annual_borrow_rate u p = Inr r \<and> calculate_annual_borrow_rate v p = Inr s \<and>
    base_borrow_rate p \<le> r \<and> r \<le> s \<and> s \<le> max_borrow_rate p"
  using annual_borrow_rate_eq [OF assms(1,2)] annual_borrow_rate_eq [OF assms(1), of v] curve_rate_mono [OF assms]
    curve_rate_bounds(1) [OF assms(1,2)] curve_rate_bounds(2) [OF assms(1), of v] assms(2,3) by auto

theorem borrow_curve_sound_witness:
  "\<exists>r s. calculate_annual_borrow_rate (RAY div 4) (market_params_of_raw demo_params) = Inr r \<and>
     calculate_annual_borrow_rate (RAY div 3) (market_params_of_raw demo_params) = Inr s \<and>
     base_borrow_rate (market_params_of_raw demo_params) \<le> r \<and> r \<le> s \<and> s \<le> max_borrow_rate (market_params_of_raw demo_params)"
proof (rule borrow_curve_sound)
  show "params_ok (market_params_of_raw demo_params)" by (simp add: params_ok_def eval_defs)
  show "same_segment (market_params_of_raw demo_params) (RAY div 4) (RAY div 3)" by (simp add: same_segment_def eval_defs)
qed (simp_all add: eval_defs)

text \<open>
  C32. Over at most one year and for validated parameters the compounding factor exists, is at least
  one plus simple interest, and is at most twenty-one.
\<close>

theorem compound_interest_bounds:
  assumes "params_ok p" and "0 \<le> u" and "delta \<le> MAX_COMPOUND_DELTA_MS" and "calculate_borrow_rate u p = Inr r"
  shows "\<exists>f. compound_interest r delta = Inr f \<and> RAY + r * int delta \<le> f \<and> f \<le> 21 * RAY"
  by (rule compound_interest_total [OF step_exponent_bound [OF assms]])

theorem compound_interest_bounds_witness:
  "\<exists>f. compound_interest 950662938462384 86400000 = Inr f \<and> RAY + 950662938462384 * int 86400000 \<le> f \<and> f \<le> 21 * RAY"
proof (rule compound_interest_bounds)
  show "params_ok (market_params_of_raw demo_params)" by (simp add: params_ok_def eval_defs)
  show "calculate_borrow_rate (RAY div 4) (market_params_of_raw demo_params) = Inr 950662938462384" by (simp add: eval_defs)
qed (simp_all add: eval_defs)

text \<open>
  C11. One accrual step conserves value (INV-IDX-05): both indexes only rise and stay below their
  ceilings, the revenue shares fit beside the supply, and the value credited to suppliers plus the value
  of the revenue shares never exceeds the interest charged to borrowers.
\<close>

theorem accrual_conserves_value:
  assumes "accrue_step p borrowed supplied bi si delta = Inr st"
    and "params_ok p" and "book_ok borrowed supplied bi si" and "delta \<le> MAX_COMPOUND_DELTA_MS"
  shows "bi \<le> as_borrow_index st \<and> as_borrow_index st \<le> MAX_BORROW_INDEX_RAY \<and>
    si \<le> as_supply_index st \<and> as_supply_index st \<le> MAX_SUPPLY_INDEX_RAY \<and>
    0 \<le> as_revenue_shares st \<and> supplied + as_revenue_shares st \<le> i128_max \<and>
    (half_up_div (supplied * as_supply_index st) RAY - half_up_div (supplied * si) RAY) * RAY
      + as_revenue_shares st * as_supply_index st
    \<le> (half_up_div (borrowed * as_borrow_index st) RAY - half_up_div (borrowed * bi) RAY) * RAY"
  using accrue_step_sound [OF assms] by blast

theorem accrual_conserves_value_witness:
  "\<exists>st. accrue_step (market_params_of_raw demo_params) (500 * RAY) (1000 * RAY) RAY RAY 86400000 = Inr st \<and>
     RAY \<le> as_borrow_index st \<and> RAY \<le> as_supply_index st"
proof -
  have p: "params_ok (market_params_of_raw demo_params)" by (simp add: params_ok_def eval_defs)
  have b: "book_ok (500 * RAY) (1000 * RAY) RAY RAY" by (simp add: book_ok_def eval_defs)
  have "\<exists>st. accrue_step (market_params_of_raw demo_params) (500 * RAY) (1000 * RAY) RAY RAY 86400000 = Inr st"
    by (rule accrue_step_total [OF p b]) (simp_all add: eval_defs)
  then obtain st where st: "accrue_step (market_params_of_raw demo_params) (500 * RAY) (1000 * RAY) RAY RAY 86400000 = Inr st" ..
  from accrual_conserves_value [OF st p b] st show ?thesis by (simp add: MAX_COMPOUND_DELTA_MS_def MILLISECONDS_PER_YEAR_def)
qed

end
