(* ===== verification/Pool_Properties.thy ===== *)
theory Pool_Properties
  imports Rates_Properties
begin

text \<open>
  The properties of the liquidity pool: its invariant over every execution, solvency, and the
  contract of each operation.
\<close>

section \<open>Executions\<close>

text \<open>
  C1. In every reachable state every market is well formed: its parameters are validated, revenue
  shares are part of the supply, shares and cash are non-negative and fit an \<^verbatim>\<open>i128\<close>, and both indexes
  lie within their bounds (INV-ACCT-01, INV-ACCT-02, INV-IDX-01, INV-IDX-02).
\<close>

theorem pool_invariant:
  assumes "reachable ext h" and "h_state h k = Some st"
  shows "\<exists>p. h_params h k = Some p \<and> params_ok (market_params_of_raw p) \<and>
    0 \<le> ps_revenue st \<and> ps_revenue st \<le> ps_supplied st \<and> ps_supplied st \<le> i128_max \<and>
    0 \<le> ps_borrowed st \<and> ps_borrowed st \<le> i128_max \<and> 0 \<le> ps_cash st \<and> ps_cash st \<le> i128_max \<and>
    RAY \<le> ps_borrow_index st \<and> ps_borrow_index st \<le> MAX_BORROW_INDEX_RAY \<and>
    SUPPLY_INDEX_FLOOR_RAW \<le> ps_supply_index st \<and> ps_supply_index st \<le> MAX_SUPPLY_INDEX_RAY"
proof -
  have ok: "host_ok h" by (rule reachable_host_ok [OF assms(1)])
  then obtain p where p: "h_params h k = Some p" using assms(2) by (metis domIff host_ok_def not_None_eq)
  from host_okD [OF ok p assms(2)] p show ?thesis
    by (auto simp: market_ok_def cache_ok_def cache_of_def book_ok_def)
qed

theorem pool_invariant_witness:
  "\<exists>p. h_params demo_borrowed demo_key = Some p \<and> params_ok (market_params_of_raw p) \<and>
    0 \<le> ps_revenue (demo_state (1000 * RAY) (500 * RAY) 0 500000000) \<and>
    ps_revenue (demo_state (1000 * RAY) (500 * RAY) 0 500000000) \<le> ps_supplied (demo_state (1000 * RAY) (500 * RAY) 0 500000000) \<and>
    ps_supplied (demo_state (1000 * RAY) (500 * RAY) 0 500000000) \<le> i128_max \<and>
    0 \<le> ps_borrowed (demo_state (1000 * RAY) (500 * RAY) 0 500000000) \<and>
    ps_borrowed (demo_state (1000 * RAY) (500 * RAY) 0 500000000) \<le> i128_max \<and>
    0 \<le> ps_cash (demo_state (1000 * RAY) (500 * RAY) 0 500000000) \<and>
    ps_cash (demo_state (1000 * RAY) (500 * RAY) 0 500000000) \<le> i128_max \<and>
    RAY \<le> ps_borrow_index (demo_state (1000 * RAY) (500 * RAY) 0 500000000) \<and>
    ps_borrow_index (demo_state (1000 * RAY) (500 * RAY) 0 500000000) \<le> MAX_BORROW_INDEX_RAY \<and>
    SUPPLY_INDEX_FLOOR_RAW \<le> ps_supply_index (demo_state (1000 * RAY) (500 * RAY) 0 500000000) \<and>
    ps_supply_index (demo_state (1000 * RAY) (500 * RAY) 0 500000000) \<le> MAX_SUPPLY_INDEX_RAY"
  by (rule pool_invariant [OF demo_reachable(4)]) (simp add: demo_host_def)

text \<open>
  C3. A market stays backed. Along any execution from a market's creation in which its supply index
  never stops at the floor, no backing shortfall is ever reported, as long as the drift of accrual
  (two rays per chunk) and of seizures (one ray each) stays below one asset unit.
\<close>

theorem market_stays_backed:
  assumes "backed ext k h n" and "synced_market h k = Inr c" and "backing_shortfall c = Inr s"
    and "int (n + 2 * loop_chunks (stored_elapsed h k)) < asset_unit (asset_decimals (c_params c))"
  shows "s = 0"
  by (rule backed_no_shortfall [OF assms])

text \<open>
  C5. No invocation widens the gap between what a market owes its suppliers and what backs it by more
  than the drift of the accrual and the seizures it performs, unless the supply index ends at its floor.
\<close>

theorem call_keeps_backing:
  assumes "reachable ext h" and "dispatch ext cl h = Inr h'" and "h_params h k \<noteq> None"
    and "stored_supply_index h' k \<noteq> SUPPLY_INDEX_FLOOR_RAW"
  shows "stored_gap h' k \<le> max 0 (stored_gap h k) + RAY * int (call_drift cl h k)"
  by (rule dispatch_sound(6) [OF assms(2) reachable_host_ok [OF assms(1)] assms(3,4)])

theorem call_keeps_backing_witness:
  "stored_gap demo_borrowed demo_key \<le> max 0 (stored_gap demo_supplied demo_key)
     + RAY * int (call_drift (Borrow_Call 9 [\<lparr>pbe_action = demo_action 0 500000000\<rparr>]) demo_supplied demo_key)"
  by (rule call_keeps_backing [OF demo_reachable(3) demo_borrow])
    (simp_all add: demo_host_def stored_supply_index_def demo_state_def constant_defs)

theorem market_stays_backed_witness:
  "\<exists>c s. synced_market demo_supplied demo_key = Inr c \<and> backing_shortfall c = Inr s \<and> s = 0"
proof -
  have k: "demo_key = \<lparr>hub_id = 1, asset = mpr_asset_id demo_params\<rparr>" by (simp add: demo_key_def demo_params_def)
  have "backed demo_ext demo_key demo_created 0" by (rule created [OF demo_reachable(1) demo_create k])
  from called [OF this demo_supply] have b: "backed demo_ext demo_key demo_supplied
      (0 + call_drift (Supply [\<lparr>pse_action = demo_action 0 1000000000\<rparr>]) demo_created demo_key)"
    by (simp add: demo_host_def stored_supply_index_def demo_state_def constant_defs)
  define c where "c = cache_of demo_key demo_params (demo_state (1000 * RAY) 0 0 1000000000) 1000000"
  have s: "synced_market demo_supplied demo_key = Inr c" by (simp add: eval_defs c_def cache_of_def)
  have f: "backing_shortfall c = Inr 0" by (simp add: eval_defs c_def cache_of_def)
  have e: "stored_elapsed demo_created demo_key = 0" "stored_elapsed demo_supplied demo_key = 0"
    by (simp_all add: stored_elapsed_def demo_host_def demo_state_def MS_PER_SECOND_def)
  have "(0::int) = 0"
    by (rule market_stays_backed [OF b s f]) (simp add: call_drift_def run_drift_def e c_def cache_of_def demo_params_def
        market_params_of_raw_def RAY_DECIMALS_def)
  with s f show ?thesis by blast
qed

text \<open>
  C31. The borrow index of a market never falls, in any step of any execution.
\<close>

theorem borrow_index_never_falls:
  assumes "reachable ext h" and "pool_step ext h h'" and "h_params h k \<noteq> None"
  shows "stored_borrow_index h k \<le> stored_borrow_index h' k"
  by (rule pool_step_borrow_index [OF assms(2) reachable_host_ok [OF assms(1)] assms(3)])

theorem borrow_index_never_falls_witness:
  "stored_borrow_index demo_supplied demo_key \<le> stored_borrow_index demo_borrowed demo_key"
  by (rule borrow_index_never_falls [OF demo_reachable(3) call_step [OF demo_borrow]]) (simp add: demo_host_def)

text \<open>
  C22. Without the owner's authorisation every mutating entrypoint fails and changes nothing
  (INV-AUTH-01): with no owner set, and with an owner that has not authorised the invocation.
\<close>

theorem owner_gate:
  assumes "\<And>owner. h_owner h = Some owner \<Longrightarrow> \<not> h_auth h owner"
  shows "dispatch ext cl h = Inl (Host (if h_owner h = None then OwnableOwnerNotSet else AuthFailed))"
  using assms by (cases cl) (auto simp: only_owner_def state_of_def create_market_def update_params_def upgrade_def
      pool_supply_def borrow_def withdraw_def repay_def update_indexes_def recapitalize_def flash_loan_def
      create_strategy_def seize_positions_def net_settle_def claim_revenue_def split: option.splits)

theorem owner_gate_witness:
  "dispatch demo_ext (Claim_Revenue demo_key) (demo_supplied\<lparr>h_auth := \<lambda>_. False\<rparr>) =
     Inl (Host (if h_owner (demo_supplied\<lparr>h_auth := \<lambda>_. False\<rparr>) = None then OwnableOwnerNotSet else AuthFailed))"
  by (rule owner_gate) simp

text \<open>
  A batch names each market at most once, returns one result per entry, and leaves every market
  it does not name untouched.
\<close>

theorem borrow_batch_sound:
  assumes "borrow ext h receiver entries = Inr (results, h')" and "host_ok h"
  shows "length results = length entries \<and> distinct (map (\<lambda>e. pa_hub_asset (pbe_action e)) entries) \<and>
    (\<forall>k. k \<notin> set (map (\<lambda>e. pa_hub_asset (pbe_action e)) entries) \<longrightarrow> h_state h' k = h_state h k)"
proof -
  have b: "run_batch (borrow_apply ext receiver) True entries h = Inr (results, h')"
    using assms(1) by (simp add: borrow_def only_owner_Inr)
  note R = borrow_batch.run_batch_run [OF b assms(2)]
  show ?thesis using R(2,3) market_run_frame(7) [OF R(1) assms(2)] by simp
qed

theorem borrow_batch_sound_witness:
  "\<exists>results. borrow demo_ext demo_supplied 9 [\<lparr>pbe_action = demo_action 0 500000000\<rparr>] = Inr (results, demo_borrowed) \<and>
     length results = length [\<lparr>pbe_action = demo_action 0 500000000\<rparr>]"
proof -
  from demo_borrow obtain rs where rs: "borrow demo_ext demo_supplied 9 [\<lparr>pbe_action = demo_action 0 500000000\<rparr>] = Inr (rs, demo_borrowed)"
    by (auto simp: state_of_Inr)
  from borrow_batch_sound [OF rs demo_ok(3)] rs show ?thesis by blast
qed

text \<open>
  C18. The read-only view and the mutating accrual agree bit for bit (INV-IDX-04): when a market syncs,
  \<^verbatim>\<open>get_bulk_indexes\<close> returns exactly the indexes the sync stores.
\<close>

theorem view_agrees_with_accrual:
  assumes "synced_market h k = Inr c"
  shows "get_bulk_indexes h [k] = Inr [market_index_of c]"
proof -
  from assms obtain c1 where l: "cache_load h k = Inr c1" and g: "global_sync c1 = Inr c"
    by (auto simp: synced_market_def rbind_Inr_iff)
  have t: "now_ms h = Inr (c_current_timestamp c1)" using l by (auto simp: cache_load_def rbind_Inr_iff)
  from global_sync_simulates [OF l g] t show ?thesis by (auto simp: get_bulk_indexes_def)
qed

lemma demo_day:
  obtains c where "synced_market (demo_borrowed\<lparr>h_timestamp := 87400\<rparr>) demo_key = Inr c"
proof -
  let ?h = "demo_borrowed\<lparr>h_timestamp := 87400\<rparr>" and ?st = "demo_state (1000 * RAY) (500 * RAY) 0 500000000"
  let ?c = "cache_of demo_key demo_params ?st 87400000"
  have l: "cache_load ?h demo_key = Inr ?c"
    by (simp add: cache_load_Inr demo_host_def MS_PER_SECOND_def u64_max_def)
  have "cache_ok ?c"
    using host_okD [OF demo_ok(4), of demo_key demo_params ?st] by (simp add: cache_ok_cache_of demo_host_def)
  moreover have "elapsed_ms ?c \<le> MAX_COMPOUND_DELTA_MS"
    by (simp add: elapsed_ms_def cache_of_def demo_state_def MAX_COMPOUND_DELTA_MS_def MILLISECONDS_PER_YEAR_def)
  moreover have "accrual_fits ?c"
    by (simp add: accrual_fits_def cache_of_def demo_state_def RAY_def half_up_div_def i128_max_def)
  ultimately have "\<exists>c. global_sync ?c = Inr c" by (rule global_sync_total)
  with l that show ?thesis by (auto simp: synced_market_def)
qed

theorem view_agrees_with_accrual_witness:
  "\<exists>c. synced_market (demo_borrowed\<lparr>h_timestamp := 87400\<rparr>) demo_key = Inr c \<and>
     get_bulk_indexes (demo_borrowed\<lparr>h_timestamp := 87400\<rparr>) [demo_key] = Inr [market_index_of c]"
proof -
  obtain c where c: "synced_market (demo_borrowed\<lparr>h_timestamp := 87400\<rparr>) demo_key = Inr c" by (rule demo_day)
  from view_agrees_with_accrual [OF c] c show ?thesis by blast
qed

text \<open>
  C33. Accrual returns for a market with room for interest: a market last synced at most a year ago, whose debt value is
  within its supply value and for which supply value plus 21 times debt value plus 11 fits a 128-bit integer, syncs without a panic
  as long as the ledger time in milliseconds fits 64 bits. Beyond these bounds accrual may revert on overflow (INV-IDX-01).
\<close>

theorem market_sync_returns:
  assumes "host_ok h" and "h_params h k = Some p" and "h_state h k = Some st"
    and "h_timestamp h * MS_PER_SECOND \<le> u64_max"
    and "h_timestamp h * MS_PER_SECOND - ps_last_timestamp st \<le> MAX_COMPOUND_DELTA_MS"
    and "half_up_div (ps_borrowed st * ps_borrow_index st) RAY \<le> half_up_div (ps_supplied st * ps_supply_index st) RAY"
    and "half_up_div (ps_supplied st * ps_supply_index st) RAY
      + 21 * half_up_div (ps_borrowed st * ps_borrow_index st) RAY + 11 \<le> i128_max"
  shows "\<exists>c. synced_market h k = Inr c"
proof -
  let ?c = "cache_of k p st (h_timestamp h * MS_PER_SECOND)"
  have "cache_load h k = Inr ?c" using assms(2-4) by (simp add: cache_load_Inr)
  moreover have "\<exists>c. global_sync ?c = Inr c"
  proof (rule global_sync_total)
    show "cache_ok ?c" using host_okD [OF assms(1-3)] by (simp add: cache_ok_cache_of)
    show "elapsed_ms ?c \<le> MAX_COMPOUND_DELTA_MS" using assms(5) by (simp add: elapsed_ms_def cache_of_def)
    show "accrual_fits ?c" using assms(6,7) by (simp add: accrual_fits_def cache_of_def)
  qed
  ultimately show ?thesis by (simp add: synced_market_def)
qed

theorem market_sync_returns_witness:
  "\<exists>c. synced_market (demo_borrowed\<lparr>h_timestamp := 87400\<rparr>) demo_key = Inr c"
proof (rule market_sync_returns)
  show "host_ok (demo_borrowed\<lparr>h_timestamp := 87400\<rparr>)" using demo_ok(4) by simp
  show "h_params (demo_borrowed\<lparr>h_timestamp := 87400\<rparr>) demo_key = Some demo_params" by (simp add: demo_host_def)
  show "h_state (demo_borrowed\<lparr>h_timestamp := 87400\<rparr>) demo_key = Some (demo_state (1000 * RAY) (500 * RAY) 0 500000000)"
    by (simp add: demo_host_def)
qed (simp_all add: demo_state_def MS_PER_SECOND_def u64_max_def MAX_COMPOUND_DELTA_MS_def MILLISECONDS_PER_YEAR_def
    RAY_def half_up_div_def i128_max_def)

section \<open>Operations\<close>

text \<open>
  C23. A flash loan is exact for any token and any receiver (INV-FLASH-01): if it returns, the market
  allows flash loans, the principal was covered by cash, the fee is the configured one, the pool's token
  balance has grown by exactly the fee, and cash has grown by the fee while no debt was recorded.
\<close>

theorem flash_loan_exact:
  assumes "flash_loan ext h k initiator receiver amount data = Inr (fee, h')" and "host_ok h"
  shows "\<exists>c0 pre st. synced_market h k = Inr c0 \<and> is_flashloanable (c_params c0) \<and> 0 < amount \<and> amount \<le> c_cash c0 \<and>
    bps_flash_loan_fee_on (int (flashloan_fee (c_params c0))) amount = Inr fee \<and>
    token_balance ext (asset_id (c_params c0)) (h_self h) (h_world h) = Inr pre \<and>
    token_balance ext (asset_id (c_params c0)) (h_self h) (h_world h') = Inr (pre + fee) \<and>
    h_state h' = (h_state h)(k \<mapsto> st) \<and> ps_cash st = c_cash c0 + fee \<and> ps_borrowed st = c_borrowed c0"
proof -
  have f: "flash_apply ext h k initiator receiver amount data = Inr (fee, h')"
    using assms(1) by (simp add: flash_loan_def only_owner_Inr)
  show ?thesis
  proof (rule flash_sound [OF f assms(2)])
    fix c0 c pre rv
    assume st: "market_step h k c0 c h'" and facts: "is_flashloanable (c_params c0)" "0 < amount" "amount \<le> c_cash c0"
      "bps_flash_loan_fee_on (int (flashloan_fee (c_params c0))) amount = Inr fee"
      "c_cash c = c_cash c0 + fee" "c_borrowed c = c_borrowed c0"
      "token_balance ext (asset_id (c_params c0)) (h_self h) (h_world h) = Inr pre"
      "token_balance ext (asset_id (c_params c0)) (h_self h) (h_world h') = Inr (pre + fee)"
    have "synced_market h k = Inr c0" using st by (simp add: market_step_def)
    with facts market_step_host(7) [OF st assms(2)] show ?thesis
      by (intro exI [of _ c0] exI [of _ pre] exI [of _ "cache_state c"]) (simp add: cache_state_def)
  qed
qed

theorem flash_loan_exact_witness:
  "\<exists>h' c0 pre st. flash_loan demo_ext demo_supplied demo_key 5 9 100000000 [] = Inr (90000, h') \<and>
    synced_market demo_supplied demo_key = Inr c0 \<and> is_flashloanable (c_params c0) \<and> 0 < (100000000::int) \<and> 100000000 \<le> c_cash c0 \<and>
    bps_flash_loan_fee_on (int (flashloan_fee (c_params c0))) 100000000 = Inr 90000 \<and>
    token_balance demo_ext (asset_id (c_params c0)) (h_self demo_supplied) (h_world demo_supplied) = Inr pre \<and>
    token_balance demo_ext (asset_id (c_params c0)) (h_self demo_supplied) (h_world h') = Inr (pre + 90000) \<and>
    h_state h' = (h_state demo_supplied)(demo_key \<mapsto> st) \<and> ps_cash st = c_cash c0 + 90000 \<and> ps_borrowed st = c_borrowed c0"
proof -
  have "\<exists>h'. flash_loan demo_ext demo_supplied demo_key 5 9 100000000 [] = Inr (90000, h')" by (simp add: eval_defs)
  then obtain h' where f: "flash_loan demo_ext demo_supplied demo_key 5 9 100000000 [] = Inr (90000, h')" ..
  from flash_loan_exact [OF f demo_ok(3)] f show ?thesis by blast
qed

end
