(* ===== verification/Pool_Op_Properties.thy ===== *)
theory Pool_Op_Properties
  imports Pool_Properties
begin

text \<open>
  The contracts of the pool's operations, each over one market step from the synced cache \<open>c0\<close> to the
  committed cache \<open>c\<close>. Values are exact: \<open>n\<close> shares at index \<open>i\<close> are worth \<open>n * i\<close>, an amount \<open>a\<close> is
  worth \<open>a * unit_value\<close>.
\<close>

section \<open>Token movements\<close>

text \<open>A leg pays \<open>n\<close> of the market's token from the pool: one transfer of exactly \<open>n\<close>, and none when \<open>n\<close> is zero.\<close>

definition pays_out :: "'w externals \<Rightarrow> 'w host \<Rightarrow> cache \<Rightarrow> address \<Rightarrow> int \<Rightarrow> 'w host \<Rightarrow> bool" where
  "pays_out ext h c recipient n h' \<longleftrightarrow>
     (if n = 0 then h_world h' = h_world h
      else token_transfer ext (asset_id (c_params c)) (h_self h) recipient n (h_world h) = Inr (h_world h'))"

lemma transfer_out_pays:
  assumes "transfer_out ext c recipient n (write_state h k st) = Inr h'" and "c_params c = c_params c0"
  shows "pays_out ext h c0 recipient n h'"
  using assms by (auto simp: transfer_out_def pays_out_def rbind_Inr_iff write_state_def split: if_splits)

lemma borrow_pays:
  assumes "borrow_apply ext to h e = Inr (m, sn, h')" and "synced_market h (pa_hub_asset (pbe_action e)) = Inr c0"
  shows "pays_out ext h c0 to (pa_amount (pbe_action e)) h'"
proof -
  from assms obtain c1 pos c where md: "mint_debt c0 (scaled_amount (pa_position (pbe_action e))) (pa_amount (pbe_action e)) = Inr (c1, pos)"
    and d: "debit_cash c1 (pa_amount (pbe_action e)) = Inr c"
    and t: "transfer_out ext c to (pa_amount (pbe_action e)) (write_state h (c_hub_asset c) (cache_state c)) = Inr h'"
    unfolding borrow_apply_def borrow_accounting_def
    by (auto simp: rbind_Inr_iff load_leg_Inr cache_commit_def Let_def position_mutation_def)
  have "c_params c1 = c_params c0"
    using md by (auto simp: mint_debt_def rbind_Inr_iff Let_def shares_Inr)
  then show ?thesis using transfer_out_pays [OF t] d by (simp add: cash_Inr)
qed

lemma repay_pays:
  assumes "repay_apply ext payer h a = Inr (m, sn, h')" and "synced_market h (pa_hub_asset a) = Inr c0"
  shows "pays_out ext h c0 payer (pa_amount a - ppm_actual_amount m) h'"
proof -
  from assms obtain burned over c1 c where b: "burn_debt c0 burned = Inr c1" and cr: "credit_cash c1 (pa_amount a - over) = Inr c"
    and m: "ppm_actual_amount m = pa_amount a - over"
    and t: "transfer_out ext c payer over (write_state h (c_hub_asset c) (cache_state c)) = Inr h'"
    unfolding repay_apply_def repay_accounting_def
    by (auto simp: rbind_Inr_iff load_leg_Inr assert_Inr_iff unwrap_Inr_iff i128_checked_sub_def to_i128_Some_iff
      cache_commit_def Let_def position_mutation_def)
  show ?thesis using transfer_out_pays [OF t] b cr by (simp add: m shares_Inr cash_Inr)
qed

lemma withdraw_pays:
  assumes "withdraw_apply ext to liq h e = Inr (m, sn, h')" and "synced_market h (pa_hub_asset (pwe_action e)) = Inr c0"
    and "net = ppm_actual_amount m - (if liq then pwe_protocol_fee e else 0)"
  shows "pays_out ext h c0 to net h' \<or>
    net = 0 \<and> token_transfer ext (asset_id (c_params c0)) (h_self h) to 0 (h_world h) = Inr (h_world h')"
proof -
  from assms(1,2) obtain burned gross c1 rem c2 c n where b: "burn_supply c0 burned = Inr c1"
    and w: "withhold_liquidation_fee c1 gross liq (pwe_protocol_fee e) = Inr (c2, n)"
    and g: "gate_and_debit c2 n (liq \<or> (scaled_amount (pa_position (pwe_action e)) = 0 \<and> pa_amount (pwe_action e) = i128_max)) = Inr c"
    and m: "ppm_actual_amount m = gross"
    and t: "transfer_out ext c to n (write_state h (c_hub_asset c) (cache_state c)) = Inr h' \<or>
        n = 0 \<and> (h_world h' = h_world h \<or> token_transfer ext (asset_id (c_params c)) (h_self h) to 0 (h_world h) = Inr (h_world h'))"
    unfolding withdraw_apply_def withdraw_accounting_def
    by (auto simp: rbind_Inr_iff load_leg_Inr amount_guards_Inr burn_position_def cache_commit_def Let_def position_mutation_def
      write_state_def split: if_splits sum.splits)
  have "c_params c2 = c_params c1" and n: "n = gross - (if liq then pwe_protocol_fee e else 0)"
    using w by (auto simp: withhold_liquidation_fee_def add_protocol_revenue_def rbind_Inr_iff Let_def shares_Inr unwrap_Inr_iff
      i128_checked_sub_def to_i128_Some_iff split: if_splits)
  then have p: "c_params c = c_params c0" using b g by (auto simp: shares_Inr elim: gate_and_debit_elim)
  show ?thesis
    using t transfer_out_pays [of ext c to n h "c_hub_asset c" "cache_state c" h' c0] p n assms(3) m
    by (auto simp: pays_out_def)
qed

lemma revenue_pays:
  assumes "revenue_apply ext h k = Inr (m, h')" and "synced_market h k = Inr c0"
  shows "\<exists>owner. (pam_actual_amount m \<noteq> 0 \<longrightarrow> h_owner h = Some owner) \<and> pays_out ext h c0 owner (pam_actual_amount m) h'"
proof -
  from assms obtain c1 a c where b: "burn_claimable_revenue c0 = Inr (c1, a)" and d: "debit_cash c1 a = Inr c"
    and m: "m = \<lparr>pam_actual_amount = a\<rparr>"
    and t: "a = 0 \<and> h_world h' = h_world h \<or>
        (\<exists>owner. h_owner h = Some owner \<and> transfer_out ext c owner a (write_state h (c_hub_asset c) (cache_state c)) = Inr h')"
    unfolding revenue_apply_def revenue_accounting_def renewed_market_def
    by (auto simp: rbind_Inr_iff supply_for_debt_Inr cache_commit_def Let_def unwrap_Inr_iff write_state_def split: if_splits)
  have p: "c_params c = c_params c0"
    using b d by (auto simp: burn_claimable_revenue_def Let_def rbind_Inr_iff shares_Inr cash_Inr split: if_splits)
  show ?thesis
    using t transfer_out_pays [OF _ p, of ext _ a h "c_hub_asset c" "cache_state c" h'] by (auto simp: m pays_out_def)
qed

section \<open>Entering and leaving a market\<close>

text \<open>
  C24. A borrow pays out exactly the requested amount: it leaves cash and is transferred from the pool to the receiver
  in the market's token. The borrow mints a positive number of debt shares worth at least that amount, and leaves the market within its utilization cap and with the liquidation
  buffer (two percent of floored supply) in cash (INV-ACCT-05, INV-ACCT-07).
\<close>

theorem borrow_respects_limits:
  assumes "borrow_apply ext receiver h e = Inr (m, sn, h')" and "host_ok h"
  shows "\<exists>c0 c n. market_step h (pa_hub_asset (pbe_action e)) c0 c h' \<and> 0 < pa_amount (pbe_action e) \<and>
    c_cash c = c_cash c0 - pa_amount (pbe_action e) \<and> 0 \<le> c_cash c \<and> 0 < n \<and> c_borrowed c = c_borrowed c0 + n \<and>
    scaled_amount (ppm_position m) = scaled_amount (pa_position (pbe_action e)) + n \<and>
    pa_amount (pbe_action e) * unit_value c0 \<le> n * c_borrow_index c0 \<and> c_supplied c = c_supplied c0 \<and>
    token_transfer ext (asset_id (c_params c0)) (h_self h) receiver (pa_amount (pbe_action e)) (h_world h) = Inr (h_world h') \<and>
    (c_supplied c = 0 \<or> max_utilization (c_params c) \<ge> RAY \<or>
      c_borrowed c * c_borrow_index c * RAY \<le> max_utilization (c_params c) * (c_supplied c * c_supply_index c)) \<and>
    LIQUIDATION_BUFFER_BPS * (c_supplied c * c_supply_index c div RAY div asset_unit (asset_decimals (c_params c)))
      \<le> BPS * c_cash c"
proof (rule borrow_sound [OF assms])
  fix c0 c n
  assume st: "market_step h (pa_hub_asset (pbe_action e)) c0 c h'" and u: "utilization_ok c"
    and f: "0 < pa_amount (pbe_action e)" "c_cash c = c_cash c0 - pa_amount (pbe_action e)" "c_borrowed c = c_borrowed c0 + n" "0 < n"
      "c_supplied c = c_supplied c0" "scaled_amount (ppm_position m) = scaled_amount (pa_position (pbe_action e)) + n"
      "pa_amount (pbe_action e) * unit_value c0 \<le> n * c_borrow_index c0"
      "LIQUIDATION_BUFFER_BPS * (c_supplied c * c_supply_index c div RAY div asset_unit (asset_decimals (c_params c)))
        \<le> BPS * c_cash c"
  have ok: "cache_ok c" "cache_ok c0" using st by (auto simp: market_step_def)
  have pay: "token_transfer ext (asset_id (c_params c0)) (h_self h) receiver (pa_amount (pbe_action e)) (h_world h) = Inr (h_world h')"
    using borrow_pays [OF assms(1)] st f(1) by (simp add: market_step_def pays_out_def)
  have nz: "c_borrowed c * c_borrow_index c \<noteq> 0" using f(3,4) cache_okD [OF ok(1)] cache_okD(5) [OF ok(2)] by simp
  show ?thesis
    by (rule exI [of _ c0], rule exI [of _ c], rule exI [of _ n])
      (use st f u nz pay cache_okD(9) [OF ok(1)] in \<open>simp add: utilization_ok_def\<close>)
qed

theorem borrow_respects_limits_witness:
  "\<exists>m sn h' c0 c. borrow_apply demo_ext 9 demo_supplied \<lparr>pbe_action = demo_action 0 500000000\<rparr> = Inr (m, sn, h') \<and>
     market_step demo_supplied (pa_hub_asset (pbe_action \<lparr>pbe_action = demo_action 0 500000000\<rparr>)) c0 c h' \<and> 0 \<le> c_cash c"
proof -
  have "\<exists>m sn h'. borrow_apply demo_ext 9 demo_supplied \<lparr>pbe_action = demo_action 0 500000000\<rparr> = Inr (m, sn, h')"
    by (simp add: eval_defs)
  then obtain m sn h' where b: "borrow_apply demo_ext 9 demo_supplied \<lparr>pbe_action = demo_action 0 500000000\<rparr> = Inr (m, sn, h')"
    by blast
  from borrow_respects_limits [OF b demo_ok(3)] b show ?thesis by blast
qed

text \<open>
  C34. A supply is accepted only by a market without a backing shortfall; it credits exactly the
  amount, mints shares worth at most the amount, and mints none only for a zero amount (INV-ACCT-04,
  INV-ACCT-05).
\<close>

theorem supply_is_backed:
  assumes "supply_apply h e = Inr (m, sn, h')" and "host_ok h"
  shows "\<exists>c0 c n. market_step h (pa_hub_asset (pse_action e)) c0 c h' \<and> backing_shortfall c0 = Inr 0 \<and>
    c_cash c = c_cash c0 + pa_amount (pse_action e) \<and> c_supplied c = c_supplied c0 + n \<and> 0 \<le> n \<and>
    (0 < pa_amount (pse_action e) \<longrightarrow> 0 < n) \<and>
    scaled_amount (ppm_position m) = scaled_amount (pa_position (pse_action e)) + n \<and>
    n * c_supply_index c0 \<le> pa_amount (pse_action e) * unit_value c0 \<and> gap c \<le> gap c0"
  by (rule supply_sound [OF assms]) blast

theorem supply_is_backed_witness:
  "\<exists>m sn h' c0 c. supply_apply demo_created \<lparr>pse_action = demo_action 0 1000000000\<rparr> = Inr (m, sn, h') \<and>
     market_step demo_created (pa_hub_asset (pse_action \<lparr>pse_action = demo_action 0 1000000000\<rparr>)) c0 c h' \<and>
     backing_shortfall c0 = Inr 0"
  using supply_is_backed [OF demo_supply_leg demo_ok(2)] demo_supply_leg by blast

text \<open>
  C25. A withdrawal never overpays: the gross amount is at most the request and is worth at most the
  shares burned, the shares burned are at most the position, exactly the net amount (gross less the
  liquidation fee) leaves cash and, when it is not zero, is transferred from the pool to the receiver in the market's token
  (for a net amount of zero there is no transfer, or one of zero), and debt is never left without supply.
\<close>

theorem withdraw_never_overpays:
  assumes "withdraw_apply ext receiver is_liquidation h e = Inr (m, sn, h')" and "host_ok h"
  shows "\<exists>c0 c burned net. market_step h (pa_hub_asset (pwe_action e)) c0 c h' \<and>
    0 \<le> burned \<and> burned \<le> scaled_amount (pa_position (pwe_action e)) \<and>
    scaled_amount (ppm_position m) = scaled_amount (pa_position (pwe_action e)) - burned \<and>
    ppm_actual_amount m \<le> pa_amount (pwe_action e) \<and>
    ppm_actual_amount m * unit_value c0 \<le> burned * c_supply_index c0 \<and>
    c_cash c = c_cash c0 - net \<and> net = ppm_actual_amount m - (if is_liquidation then pwe_protocol_fee e else 0) \<and>
    (net \<noteq> 0 \<longrightarrow> token_transfer ext (asset_id (c_params c0)) (h_self h) receiver net (h_world h) = Inr (h_world h')) \<and>
    (net = 0 \<longrightarrow> h_world h' = h_world h \<or>
      token_transfer ext (asset_id (c_params c0)) (h_self h) receiver 0 (h_world h) = Inr (h_world h')) \<and>
    c_borrowed c = c_borrowed c0 \<and> (c_supplied c = 0 \<longrightarrow> c_borrowed c = 0) \<and> gap c \<le> gap c0"
proof (rule withdraw_sound [OF assms])
  fix c0 c burned gross net n
  assume f: "market_step h (pa_hub_asset (pwe_action e)) c0 c h'" "gap c \<le> gap c0" "c_cash c = c_cash c0 - net"
    "net = gross - (if is_liquidation then pwe_protocol_fee e else 0)" "0 \<le> burned"
    "burned \<le> scaled_amount (pa_position (pwe_action e))"
    "scaled_amount (ppm_position m) = scaled_amount (pa_position (pwe_action e)) - burned"
    "ppm_actual_amount m = gross" "gross \<le> pa_amount (pwe_action e)" "gross * unit_value c0 \<le> burned * c_supply_index c0"
    "c_borrowed c = c_borrowed c0" "c_supplied c = 0 \<Longrightarrow> c_borrowed c = 0"
  have "pays_out ext h c0 receiver net h' \<or>
      net = 0 \<and> token_transfer ext (asset_id (c_params c0)) (h_self h) receiver 0 (h_world h) = Inr (h_world h')"
    by (rule withdraw_pays [OF assms(1)]) (use f in \<open>simp_all add: market_step_def\<close>)
  with f show ?thesis
    by (intro exI [of _ c0] exI [of _ c] exI [of _ burned] exI [of _ net]) (auto simp: pays_out_def split: if_splits)
qed

theorem withdraw_never_overpays_witness:
  "\<exists>m sn h' c0 c. withdraw_apply demo_ext 9 False demo_borrowed
       \<lparr>pwe_action = demo_action (1000 * RAY) 300000000, pwe_protocol_fee = 0\<rparr> = Inr (m, sn, h') \<and>
     market_step demo_borrowed (pa_hub_asset (pwe_action \<lparr>pwe_action = demo_action (1000 * RAY) 300000000, pwe_protocol_fee = 0\<rparr>)) c0 c h' \<and>
     gap c \<le> gap c0"
proof -
  have "\<exists>m sn h'. withdraw_apply demo_ext 9 False demo_borrowed
       \<lparr>pwe_action = demo_action (1000 * RAY) 300000000, pwe_protocol_fee = 0\<rparr> = Inr (m, sn, h')"
    by (simp add: eval_defs cong: rbind_weak_cong)
  then obtain m sn h' where w: "withdraw_apply demo_ext 9 False demo_borrowed
       \<lparr>pwe_action = demo_action (1000 * RAY) 300000000, pwe_protocol_fee = 0\<rparr> = Inr (m, sn, h')" by blast
  from withdraw_never_overpays [OF w demo_ok(4)] w show ?thesis by blast
qed

text \<open>
  C26. A repayment never forgives debt: the debt burned is worth at most the net payment, the
  overpayment is between zero and the payment and is refunded (it is transferred from the pool to the payer in the
  market's token; without overpayment no token moves), cash grows by exactly the net payment,
  and a positive net payment burns a positive number of shares.
\<close>

theorem repay_never_forgives:
  assumes "repay_apply ext payer h a = Inr (m, sn, h')" and "host_ok h"
  shows "\<exists>c0 c burned over. market_step h (pa_hub_asset a) c0 c h' \<and> 0 \<le> over \<and> over \<le> pa_amount a \<and>
    0 \<le> burned \<and> burned \<le> scaled_amount (pa_position a) \<and> c_borrowed c = c_borrowed c0 - burned \<and>
    scaled_amount (ppm_position m) = scaled_amount (pa_position a) - burned \<and>
    burned * c_borrow_index c0 \<le> (pa_amount a - over) * unit_value c0 \<and>
    c_cash c = c_cash c0 + (pa_amount a - over) \<and> ppm_actual_amount m = pa_amount a - over \<and>
    (over < pa_amount a \<longrightarrow> 0 < burned) \<and> c_supplied c = c_supplied c0 \<and> gap c \<le> gap c0 \<and>
    (if 0 < over then token_transfer ext (asset_id (c_params c0)) (h_self h) payer over (h_world h) = Inr (h_world h')
     else h_world h' = h_world h)"
proof (rule repay_sound [OF assms])
  fix c0 c burned over
  assume f: "market_step h (pa_hub_asset a) c0 c h'" "gap c \<le> gap c0" "c_cash c = c_cash c0 + (pa_amount a - over)" "0 \<le> over"
    "over \<le> pa_amount a" "c_borrowed c = c_borrowed c0 - burned" "0 \<le> burned" "burned \<le> scaled_amount (pa_position a)"
    "scaled_amount (ppm_position m) = scaled_amount (pa_position a) - burned" "ppm_actual_amount m = pa_amount a - over"
    "burned * c_borrow_index c0 \<le> (pa_amount a - over) * unit_value c0" "over < pa_amount a \<Longrightarrow> 0 < burned"
    "c_supplied c = c_supplied c0"
  then have "pays_out ext h c0 payer over h'" using repay_pays [OF assms(1)] by (simp add: market_step_def)
  then show ?thesis using f by (intro exI [of _ c0] exI [of _ c] exI [of _ burned] exI [of _ over]) (simp add: pays_out_def)
qed

theorem repay_never_forgives_witness:
  "\<exists>m sn h' c0 c. repay_apply demo_ext 9 demo_borrowed (demo_action (500 * RAY) 600000000) = Inr (m, sn, h') \<and>
     market_step demo_borrowed (pa_hub_asset (demo_action (500 * RAY) 600000000)) c0 c h' \<and> gap c \<le> gap c0"
proof -
  have "\<exists>m sn h'. repay_apply demo_ext 9 demo_borrowed (demo_action (500 * RAY) 600000000) = Inr (m, sn, h')"
    by (simp add: eval_defs cong: rbind_weak_cong)
  then obtain m sn h' where r: "repay_apply demo_ext 9 demo_borrowed (demo_action (500 * RAY) 600000000) = Inr (m, sn, h')" by blast
  from repay_never_forgives [OF r demo_ok(4)] r show ?thesis by blast
qed

section \<open>Settlement and losses\<close>

text \<open>
  Net settlement moves no cash and no tokens and never helps the account at the pool's expense:
  the debt burned is worth at most the settled amount, which is worth at most the supply burned.
\<close>

theorem net_settle_conserves:
  assumes "net_settle_apply h e = Inr (r, sn, h')" and "host_ok h"
  shows "\<exists>c0 c bs bd. market_step h (pne_hub_asset e) c0 c h' \<and> c_cash c = c_cash c0 \<and> h_world h' = h_world h \<and>
    c_supplied c = c_supplied c0 - bs \<and> c_borrowed c = c_borrowed c0 - bd \<and> 0 \<le> bs \<and> 0 \<le> bd \<and>
    scaled_amount (pnr_supply_position r) = scaled_amount (pne_supply_position e) - bs \<and>
    scaled_amount (pnr_debt_position r) = scaled_amount (pne_debt_position e) - bd \<and>
    bd * c_borrow_index c0 \<le> pnr_settled_amount r * unit_value c0 \<and>
    pnr_settled_amount r * unit_value c0 \<le> bs * c_supply_index c0 \<and>
    0 \<le> pnr_settled_amount r \<and> pnr_settled_amount r \<le> pne_amount e \<and>
    (0 < pnr_settled_amount r \<longrightarrow> 0 < bs \<and> 0 < bd) \<and> gap c \<le> gap c0"
  by (rule net_settle_sound [OF assms]) blast

theorem net_settle_conserves_witness:
  "\<exists>r sn h' c0 c. net_settle_apply demo_borrowed \<lparr>pne_hub_asset = demo_key, pne_amount = 200000000,
       pne_supply_position = \<lparr>scaled_amount = 1000 * RAY\<rparr>, pne_debt_position = \<lparr>scaled_amount = 500 * RAY\<rparr>\<rparr> = Inr (r, sn, h') \<and>
     market_step demo_borrowed (pne_hub_asset \<lparr>pne_hub_asset = demo_key, pne_amount = 200000000,
       pne_supply_position = \<lparr>scaled_amount = 1000 * RAY\<rparr>, pne_debt_position = \<lparr>scaled_amount = 500 * RAY\<rparr>\<rparr>) c0 c h' \<and>
     c_cash c = c_cash c0"
proof -
  let ?e = "\<lparr>pne_hub_asset = demo_key, pne_amount = 200000000,
       pne_supply_position = \<lparr>scaled_amount = 1000 * RAY\<rparr>, pne_debt_position = \<lparr>scaled_amount = 500 * RAY\<rparr>\<rparr>"
  have "\<exists>r sn h'. net_settle_apply demo_borrowed ?e = Inr (r, sn, h')" by (simp add: eval_defs cong: rbind_weak_cong)
  then obtain r sn h' where n: "net_settle_apply demo_borrowed ?e = Inr (r, sn, h')" by blast
  from net_settle_conserves [OF n demo_ok(4)] n show ?thesis by blast
qed

text \<open>
  C27. A seized debt is removed from the book and charged to suppliers through the supply index, which
  only falls: the gap between claims and backing grows by at most one ray, unless the index ends at its
  floor. A seized deposit becomes protocol revenue and moves neither claims nor cash.
\<close>

theorem seize_socialises_loss:
  assumes "seize_apply h e = Inr (sn, h')" and "host_ok h"
  shows "\<exists>c0 c. market_step h (pze_hub_asset e) c0 c h' \<and> c_cash c = c_cash c0 \<and> c_supplied c = c_supplied c0 \<and>
    (pze_side e = Deposit \<longrightarrow> gap c = gap c0 \<and> c_supply_index c = c_supply_index c0 \<and> c_borrowed c = c_borrowed c0 \<and>
       c_revenue c = c_revenue c0 + scaled_amount (pze_position e)) \<and>
    (pze_side e = Borrow \<longrightarrow> c_borrowed c = c_borrowed c0 - scaled_amount (pze_position e) \<and>
       c_revenue c = c_revenue c0 \<and> c_supply_index c \<le> c_supply_index c0 \<and>
       (c_supply_index c \<noteq> SUPPLY_INDEX_FLOOR_RAW \<longrightarrow> gap c \<le> max 0 (gap c0) + RAY))"
  by (rule seize_sound [OF assms]) blast

theorem seize_socialises_loss_witness:
  "\<exists>sn h' c0 c. seize_apply demo_borrowed \<lparr>pze_hub_asset = demo_key, pze_side = Borrow, pze_position = \<lparr>scaled_amount = 100 * RAY\<rparr>\<rparr>
       = Inr (sn, h') \<and>
     market_step demo_borrowed (pze_hub_asset \<lparr>pze_hub_asset = demo_key, pze_side = Borrow, pze_position = \<lparr>scaled_amount = 100 * RAY\<rparr>\<rparr>) c0 c h' \<and>
     c_cash c = c_cash c0"
proof -
  let ?e = "\<lparr>pze_hub_asset = demo_key, pze_side = Borrow, pze_position = \<lparr>scaled_amount = 100 * RAY\<rparr>\<rparr>"
  have "\<exists>sn h'. seize_apply demo_borrowed ?e = Inr (sn, h')" by (simp add: eval_defs cong: rbind_weak_cong)
  then obtain sn h' where n: "seize_apply demo_borrowed ?e = Inr (sn, h')" by blast
  from seize_socialises_loss [OF n demo_ok(4)] n show ?thesis by blast
qed

text \<open>
  Recapitalisation applies exactly the smaller of the payment and the backing shortfall, credits it
  to cash, and lowers the reported shortfall by it; a payment of at least the shortfall leaves none.
\<close>

theorem recapitalize_closes_shortfall:
  assumes "recapitalize_apply ext h k payer amount = Inr (m, h')" and "host_ok h"
  shows "\<exists>c0 c shortfall. market_step h k c0 c h' \<and> backing_shortfall c0 = Inr shortfall \<and>
    pam_actual_amount m = min amount shortfall \<and> c_cash c = c_cash c0 + pam_actual_amount m \<and>
    backing_shortfall c = Inr (shortfall - pam_actual_amount m) \<and>
    (shortfall \<le> amount \<longrightarrow> backing_shortfall c = Inr 0)"
proof (rule recapitalize_sound [OF assms])
  fix c0 c s
  assume f: "market_step h k c0 c h'" "backing_shortfall c0 = Inr s" "pam_actual_amount m = min amount s"
    "c_cash c = c_cash c0 + pam_actual_amount m" "backing_shortfall c = Inr (s - pam_actual_amount m)"
  then show ?thesis by (intro exI [of _ c0] exI [of _ c] exI [of _ s]) simp
qed

theorem recapitalize_closes_shortfall_witness:
  "\<exists>m h' c0 c shortfall. recapitalize_apply demo_ext demo_borrowed demo_key 9 1000 = Inr (m, h') \<and>
     market_step demo_borrowed demo_key c0 c h' \<and> backing_shortfall c0 = Inr shortfall \<and>
     pam_actual_amount m = min 1000 shortfall"
proof -
  have "\<exists>m h'. recapitalize_apply demo_ext demo_borrowed demo_key 9 1000 = Inr (m, h')"
    by (simp add: eval_defs cong: rbind_weak_cong)
  then obtain m h' where r: "recapitalize_apply demo_ext demo_borrowed demo_key 9 1000 = Inr (m, h')" by blast
  from recapitalize_closes_shortfall [OF r demo_ok(4)] r show ?thesis by blast
qed

text \<open>
  C28. Claiming revenue pays at most the cash held: the claimed amount leaves cash and, when it is not zero, is transferred to
  the pool's owner in the market's token. The claim never touches a supplier's share of the supply, never
  widens the gap, and leaves the market within its utilization cap.
\<close>

theorem claim_revenue_spares_suppliers:
  assumes "revenue_apply ext h k = Inr (m, h')" and "host_ok h"
  shows "\<exists>c0 c. market_step h k c0 c h' \<and> 0 \<le> pam_actual_amount m \<and> pam_actual_amount m \<le> c_cash c0 \<and>
    c_cash c = c_cash c0 - pam_actual_amount m \<and> c_supplied c - c_revenue c = c_supplied c0 - c_revenue c0 \<and>
    gap c \<le> gap c0 \<and> utilization_ok c \<and>
    (if pam_actual_amount m = 0 then h_world h' = h_world h
     else \<exists>owner. h_owner h = Some owner \<and>
       token_transfer ext (asset_id (c_params c0)) (h_self h) owner (pam_actual_amount m) (h_world h) = Inr (h_world h'))"
proof (rule revenue_sound [OF assms])
  fix c0 c
  assume f: "market_step h k c0 c h'" "gap c \<le> gap c0" "utilization_ok c" "c_cash c = c_cash c0 - pam_actual_amount m"
    "0 \<le> pam_actual_amount m" "c_supplied c - c_revenue c = c_supplied c0 - c_revenue c0"
  from f(1) have "cache_ok c" by (simp add: market_step_def)
  moreover obtain owner where "pam_actual_amount m \<noteq> 0 \<longrightarrow> h_owner h = Some owner" "pays_out ext h c0 owner (pam_actual_amount m) h'"
    using revenue_pays [OF assms(1)] f(1) unfolding market_step_def by blast
  ultimately show ?thesis using f cache_okD(9) [of c] by (intro exI [of _ c0] exI [of _ c]) (auto simp: pays_out_def split: if_splits)
qed

theorem claim_revenue_spares_suppliers_witness:
  "\<exists>m h' c0 c. revenue_apply demo_ext (demo_host 1000000000 (demo_state (1000 * RAY) (500 * RAY) (10 * RAY) 500000000)) demo_key = Inr (m, h') \<and>
     market_step (demo_host 1000000000 (demo_state (1000 * RAY) (500 * RAY) (10 * RAY) 500000000)) demo_key c0 c h' \<and> gap c \<le> gap c0"
proof -
  let ?h = "demo_host 1000000000 (demo_state (1000 * RAY) (500 * RAY) (10 * RAY) 500000000)"
  have "market_ok demo_params (demo_state (1000 * RAY) (500 * RAY) (10 * RAY) 500000000)"
    by (simp add: market_ok_def cache_ok_def cache_of_def book_ok_def params_ok_def eval_defs)
  then have ok: "host_ok ?h" by (simp add: host_ok_def demo_host_def)
  have "\<exists>m h'. revenue_apply demo_ext ?h demo_key = Inr (m, h')" by (simp add: eval_defs cong: rbind_weak_cong)
  then obtain m h' where r: "revenue_apply demo_ext ?h demo_key = Inr (m, h')" by blast
  from claim_revenue_spares_suppliers [OF r ok] r show ?thesis by blast
qed

text \<open>
  Opening a strategy mints debt for the whole amount and pays out the amount less a fee that never
  exceeds it; the fee is zero unless charged, stays in cash, and becomes revenue shares; the draw keeps
  the liquidation buffer and never widens the gap.
\<close>

theorem strategy_books_fee:
  assumes "strategy_apply ext h receiver a charge_fee = Inr (m, h')" and "host_ok h"
  shows "\<exists>c0 c n fee rv. market_step h (pa_hub_asset a) c0 c h' \<and> 0 \<le> fee \<and> fee \<le> pa_amount a \<and>
    (\<not> charge_fee \<longrightarrow> fee = 0) \<and> psm_amount_received m = pa_amount a - fee \<and>
    c_cash c = c_cash c0 - (pa_amount a - fee) \<and> 0 < n \<and> c_borrowed c = c_borrowed c0 + n \<and>
    pa_amount a * unit_value c0 \<le> n * c_borrow_index c0 \<and>
    0 \<le> rv \<and> c_revenue c = c_revenue c0 + rv \<and> c_supplied c = c_supplied c0 + rv \<and>
    LIQUIDATION_BUFFER_BPS * (c_supplied c0 * c_supply_index c0 div RAY div asset_unit (asset_decimals (c_params c0)))
      \<le> BPS * (c_cash c0 - pa_amount a) \<and> gap c \<le> gap c0"
  by (rule strategy_sound [OF assms]) blast

theorem strategy_books_fee_witness:
  "\<exists>m h' c0 c. strategy_apply demo_ext demo_supplied 9 (demo_action 0 100000000) True = Inr (m, h') \<and>
     market_step demo_supplied (pa_hub_asset (demo_action 0 100000000)) c0 c h' \<and> gap c \<le> gap c0"
proof -
  have "\<exists>m h'. strategy_apply demo_ext demo_supplied 9 (demo_action 0 100000000) True = Inr (m, h')"
    by (simp add: eval_defs cong: rbind_weak_cong)
  then obtain m h' where r: "strategy_apply demo_ext demo_supplied 9 (demo_action 0 100000000) True = Inr (m, h')" by blast
  from strategy_books_fee [OF r demo_ok(3)] r show ?thesis by blast
qed

text \<open>
  The reported backing shortfall is never negative and never over-reported: its value is at most the
  exact excess of supplier claims over debt and cash.
\<close>

theorem shortfall_is_conservative:
  assumes "backing_shortfall c = Inr s" and "cache_ok c"
  shows "0 \<le> s \<and> s * unit_value c \<le>
    max 0 (c_supplied c * c_supply_index c - c_borrowed c * c_borrow_index c - c_cash c * unit_value c)"
  using shortfall_never_over_reported [OF assms] by (simp add: gap_def book_gap_def)

theorem shortfall_is_conservative_witness:
  "\<exists>s. backing_shortfall (cache_of demo_key demo_params (demo_state (1000 * RAY) (500 * RAY) 0 400000000) 0) = Inr s \<and> 0 \<le> s"
proof -
  let ?st = "demo_state (1000 * RAY) (500 * RAY) 0 400000000"
  have ok: "cache_ok (cache_of demo_key demo_params ?st 0)"
    by (simp add: cache_ok_def cache_of_def book_ok_def params_ok_def eval_defs)
  have r: "backing_shortfall (cache_of demo_key demo_params ?st 0) = Inr 100000000"
    by (simp add: eval_defs cache_of_def cong: rbind_weak_cong)
  from shortfall_is_conservative [OF r ok] r show ?thesis by blast
qed

section \<open>Market lifecycle\<close>

text \<open>
  Parameter validation accepts exactly the well-formed parameters: ordered slopes below the maximum
  rate, ordered utilization break points, a reserve factor below one, a bounded flash-loan fee and
  supported decimals.
\<close>

theorem verify_accepts_exactly:
  "market_params_raw_verify r = Inr () \<longleftrightarrow>
     0 \<le> mpr_base_borrow_rate r \<and> mpr_base_borrow_rate r \<le> mpr_slope1 r \<and> mpr_slope1 r \<le> mpr_slope2 r \<and>
     mpr_slope2 r \<le> mpr_slope3 r \<and> mpr_slope3 r \<le> mpr_max_borrow_rate r \<and>
     mpr_base_borrow_rate r < mpr_max_borrow_rate r \<and> mpr_max_borrow_rate r \<le> MAX_BORROW_RATE_RAY \<and>
     0 < mpr_mid_utilization r \<and> mpr_mid_utilization r < mpr_optimal_utilization r \<and>
     mpr_optimal_utilization r < RAY \<and> mpr_optimal_utilization r \<le> mpr_max_utilization r \<and>
     mpr_max_utilization r \<le> RAY \<and> int (mpr_reserve_factor r) < BPS \<and>
     int (mpr_flashloan_fee r) \<le> MAX_FLASHLOAN_FEE_BPS \<and> mpr_asset_decimals r \<le> WAD_DECIMALS \<and>
     (mpr_is_flashloanable r \<longrightarrow> MIN_BORROWABLE_ASSET_DECIMALS \<le> mpr_asset_decimals r)"
  by (simp add: verify_iff_params_ok params_ok_def market_params_of_raw_def)

theorem verify_accepts_exactly_witness: "market_params_raw_verify demo_params = Inr ()"
  unfolding verify_accepts_exactly by (simp add: demo_params_def constant_defs)

text \<open>
  Replacing the rate model first accrues under the old model, then stores exactly the new model with
  the asset and its decimals unchanged, only if the result is well formed; no other market changes.
\<close>

theorem update_params_accrues_first:
  assumes "update_params h k model = Inr h'" and "host_ok h"
  shows "\<exists>c0 p p'. synced_market h k = Inr c0 \<and> h_params h k = Some p \<and>
    h_params h' = (h_params h)(k \<mapsto> p') \<and> h_state h' = (h_state h)(k \<mapsto> cache_state c0) \<and>
    rate_model_view p' = model \<and> mpr_asset_id p' = mpr_asset_id p \<and> mpr_asset_decimals p' = mpr_asset_decimals p \<and>
    params_ok (market_params_of_raw p') \<and> h_world h' = h_world h"
proof -
  have "replace_rate_model h k model = Inr h'" using assms(1) by (simp add: update_params_def only_owner_Inr)
  then show ?thesis by (rule replace_rate_model_sound [OF _ assms(2)]) blast
qed

theorem update_params_accrues_first_witness:
  "\<exists>h' c0 p'. update_params demo_supplied demo_key (rate_model_view demo_params) = Inr h' \<and>
     synced_market demo_supplied demo_key = Inr c0 \<and> h_params h' = (h_params demo_supplied)(demo_key \<mapsto> p') \<and>
     rate_model_view p' = rate_model_view demo_params"
proof -
  have "\<exists>h'. update_params demo_supplied demo_key (rate_model_view demo_params) = Inr h'"
    by (simp add: eval_defs cong: rbind_weak_cong)
  then obtain h' where u: "update_params demo_supplied demo_key (rate_model_view demo_params) = Inr h'" ..
  from update_params_accrues_first [OF u demo_ok(3)] u show ?thesis by blast
qed

text \<open>
  A market is created at most once, with validated parameters, empty books and both indexes at one;
  every other market and the rest of the chain are untouched.
\<close>

theorem create_market_once:
  assumes "create_market h hub p = Inr h'" and "host_ok h"
  shows "h_params h \<lparr>hub_id = hub, asset = mpr_asset_id p\<rparr> = None \<and> params_ok (market_params_of_raw p) \<and>
    h_params h' = (h_params h)(\<lparr>hub_id = hub, asset = mpr_asset_id p\<rparr> \<mapsto> p) \<and> h_world h' = h_world h \<and>
    (\<exists>now. h_state h' = (h_state h)(\<lparr>hub_id = hub, asset = mpr_asset_id p\<rparr> \<mapsto>
       \<lparr>ps_supplied = 0, ps_borrowed = 0, ps_revenue = 0, ps_borrow_index = RAY,
        ps_supply_index = RAY, ps_last_timestamp = now, ps_cash = 0\<rparr>)) \<and>
    (mpr_asset_id p' = mpr_asset_id p \<and> market_params_raw_verify p' = Inr () \<longrightarrow>
       create_market h' hub p' = Inl (Generic AssetAlreadySupported))"
proof -
  have m: "market_create h hub p = Inr h'" using assms(1) by (simp add: create_market_def only_owner_Inr)
  note M = market_create_sound [OF m assms(2)]
  have o: "\<exists>owner. h_owner h' = Some owner \<and> h_auth h' owner"
    using assms(1) M(6,9) by (auto simp: create_market_def only_owner_Inr)
  have "params_ok (market_params_of_raw p)"
    using m by (auto simp: market_create_def rbind_Inr_iff verify_iff_params_ok)
  moreover have "create_market h' hub p' = Inl (Generic AssetAlreadySupported)"
    if "mpr_asset_id p' = mpr_asset_id p" "market_params_raw_verify p' = Inr ()"
    using that o M(3) by (auto simp: create_market_def only_owner_def market_create_def market_exists_def Let_def)
  ultimately show ?thesis using M(2-5) by blast
qed

theorem create_market_once_witness:
  "create_market demo_fresh 1 demo_params = Inr demo_created \<and>
   create_market demo_created 1 demo_params = Inl (Generic AssetAlreadySupported)"
proof -
  have c: "create_market demo_fresh 1 demo_params = Inr demo_created" using demo_create by simp
  have v: "market_params_raw_verify demo_params = Inr ()"
    using c by (auto simp: create_market_def only_owner_Inr market_create_def rbind_Inr_iff)
  from create_market_once [OF c demo_ok(1), of demo_params] c v show ?thesis by blast
qed

end
