(* ===== verification/Flow.thy ===== *)
theory Flow
  imports Prelude
begin

text \<open>
  Code that threads a mutable state through many fallible calls: \<open>('s, 'a) flow\<close> takes a state and
  returns a panic or a value with the next state. Loops over a \<^verbatim>\<open>Vec\<close> are \<open>ffold\<close>, with the loop's local
  variables as the accumulator. The locale \<open>frame\<close> holds what is proved once for every reflexive and
  transitive relation between the states before and after a call: sequencing, loops and lifted
  results keep it.
\<close>

type_synonym ('s, 'a) flow = "'s \<Rightarrow> ('a \<times> 's) res"

definition fret :: "'a \<Rightarrow> ('s, 'a) flow" where
  "fret x s = Inr (x, s)"

definition fbind :: "('s, 'a) flow \<Rightarrow> ('a \<Rightarrow> ('s, 'b) flow) \<Rightarrow> ('s, 'b) flow" where
  "fbind m f s = rbind (m s) (\<lambda>(x, s'). f x s')"

definition flift :: "'a res \<Rightarrow> ('s, 'a) flow" where
  "flift r s = rbind r (\<lambda>x. Inr (x, s))"

definition fread :: "('s \<Rightarrow> 'a) \<Rightarrow> ('s, 'a) flow" where
  "fread g s = Inr (g s, s)"

definition fwrite :: "('s \<Rightarrow> 's) \<Rightarrow> ('s, unit) flow" where
  "fwrite g s = Inr ((), g s)"

definition fassert :: "bool \<Rightarrow> error \<Rightarrow> ('s, unit) flow" where
  "fassert b e = flift (assert_with_error b e)"

primrec ffold :: "('a \<Rightarrow> 'b \<Rightarrow> ('s, 'b) flow) \<Rightarrow> 'a list \<Rightarrow> 'b \<Rightarrow> ('s, 'b) flow" where
  "ffold f [] acc = fret acc"
| "ffold f (x # xs) acc = fbind (f x acc) (ffold f xs)"

primrec rfold :: "('a \<Rightarrow> 'b \<Rightarrow> 'b res) \<Rightarrow> 'a list \<Rightarrow> 'b \<Rightarrow> 'b res" where
  "rfold f [] acc = Inr acc"
| "rfold f (x # xs) acc = rbind (f x acc) (rfold f xs)"

lemma fret_Inr [res_iff]: "fret x s = Inr (y, s') \<longleftrightarrow> y = x \<and> s' = s"
  by (auto simp: fret_def)

lemma fbind_Inr [res_iff]: "fbind m f s = Inr (y, s'') \<longleftrightarrow> (\<exists>x s'. m s = Inr (x, s') \<and> f x s' = Inr (y, s''))"
  by (auto simp: fbind_def rbind_Inr_iff)

lemma flift_Inr [res_iff]: "flift r s = Inr (y, s') \<longleftrightarrow> r = Inr y \<and> s' = s"
  by (auto simp: flift_def rbind_Inr_iff)

lemma fread_Inr [res_iff]: "fread g s = Inr (y, s') \<longleftrightarrow> y = g s \<and> s' = s"
  by (auto simp: fread_def)

lemma fwrite_Inr [res_iff]: "fwrite g s = Inr (u, s') \<longleftrightarrow> s' = g s"
  by (auto simp: fwrite_def)

lemma fassert_Inr [res_iff]: "fassert b e s = Inr (u, s') \<longleftrightarrow> b \<and> s' = s"
  by (auto simp: fassert_def flift_Inr assert_Inr_iff)

lemma fbind_cases [consumes 1, case_names bind]:
  assumes "fbind m f s = Inr (y, s'')"
  obtains x s' where "m s = Inr (x, s')" and "f x s' = Inr (y, s'')"
  using assms by (auto simp: fbind_Inr)

lemma fbind_assoc: "fbind (fbind m f) g = fbind m (\<lambda>x. fbind (f x) g)"
proof (rule ext)
  fix s
  show "fbind (fbind m f) g s = fbind m (\<lambda>x. fbind (f x) g) s"
    by (cases "m s") (auto simp: fbind_def)
qed

lemma fbind_fret [simp]: "fbind (fret x) f = f x"
  by (rule ext) (simp add: fbind_def fret_def)

lemma fbind_eval:
  "m s = Inr (x, s') \<Longrightarrow> fbind m f s = f x s'"
  "m s = Inl e \<Longrightarrow> fbind m f s = Inl e"
  by (simp_all add: fbind_def)

text \<open>Partial correctness of a loop: a predicate of the accumulator and the state kept by every pass.\<close>

lemma ffold_invariant:
  assumes "ffold f xs acc s = Inr (acc', s')" and "P acc s"
    and step: "\<And>x a t a' t'. x \<in> set xs \<Longrightarrow> P a t \<Longrightarrow> f x a t = Inr (a', t') \<Longrightarrow> P a' t'"
  shows "P acc' s'"
  using assms
proof (induction xs arbitrary: acc s)
  case Nil then show ?case by (auto simp: fret_Inr)
next
  case (Cons x xs)
  from Cons.prems(1) obtain a t where f: "f x acc s = Inr (a, t)" and rest: "ffold f xs a t = Inr (acc', s')"
    by (auto simp: fbind_Inr)
  have "P a t" using Cons.prems(3) [OF _ Cons.prems(2) f] by simp
  then show ?case using Cons.IH [OF rest] Cons.prems(3) by (meson list.set_intros(2))
qed

lemma rfold_invariant:
  assumes "rfold f xs acc = Inr acc'" and "P acc"
    and step: "\<And>x a a'. x \<in> set xs \<Longrightarrow> P a \<Longrightarrow> f x a = Inr a' \<Longrightarrow> P a'"
  shows "P acc'"
  using assms
proof (induction xs arbitrary: acc)
  case Nil then show ?case by simp
next
  case (Cons x xs)
  from Cons.prems(1) obtain a where f: "f x acc = Inr a" and rest: "rfold f xs a = Inr acc'"
    by (auto simp: rbind_Inr_iff)
  have "P a" using Cons.prems(3) [OF _ Cons.prems(2) f] by simp
  then show ?case using Cons.IH [OF rest] Cons.prems(3) by (meson list.set_intros(2))
qed

section \<open>Frames\<close>

named_theorems frame_rules "flows that stay within a frame"

locale frame =
  fixes rel :: "'s \<Rightarrow> 's \<Rightarrow> bool"
  assumes rel_refl: "rel s s"
    and rel_trans: "rel s t \<Longrightarrow> rel t u \<Longrightarrow> rel s u"
begin

definition framed :: "('s, 'a) flow \<Rightarrow> bool" where
  "framed m \<longleftrightarrow> (\<forall>s x s'. m s = Inr (x, s') \<longrightarrow> rel s s')"

lemma framedI: "(\<And>s x s'. m s = Inr (x, s') \<Longrightarrow> rel s s') \<Longrightarrow> framed m"
  by (simp add: framed_def)

lemma framedD: "framed m \<Longrightarrow> m s = Inr (x, s') \<Longrightarrow> rel s s'"
  by (simp add: framed_def)

lemma framed_fret [frame_rules]: "framed (fret x)"
  by (auto simp: framed_def fret_Inr rel_refl)

lemma framed_flift [frame_rules]: "framed (flift r)"
  by (auto simp: framed_def flift_Inr rel_refl)

lemma framed_fread [frame_rules]: "framed (fread g)"
  by (auto simp: framed_def fread_Inr rel_refl)

lemma framed_fassert [frame_rules]: "framed (fassert b e)"
  by (auto simp: framed_def fassert_Inr rel_refl)

lemma framed_fwrite: "(\<And>s. rel s (g s)) \<Longrightarrow> framed (fwrite g)"
  by (auto simp: framed_def fwrite_Inr)

lemma framed_fbind [frame_rules]:
  assumes "framed m" and "\<And>x. framed (f x)"
  shows "framed (fbind m f)"
proof (rule framedI)
  fix s y s''
  assume "fbind m f s = Inr (y, s'')"
  then obtain x s' where "m s = Inr (x, s')" and "f x s' = Inr (y, s'')" by (rule fbind_cases)
  then show "rel s s''" using assms framedD rel_trans by metis
qed

lemma framed_ffold [frame_rules]: "(\<And>x acc. framed (f x acc)) \<Longrightarrow> framed (ffold f xs acc)"
  by (induction xs arbitrary: acc) (auto intro!: frame_rules)

end

end
