(* ===== verification/Soroban_Map.thy ===== *)
theory Soroban_Map
  imports Flow Pool_Types
begin

text \<open>
  The host's ordered \<^verbatim>\<open>Map\<close>: entries sorted by key, iterated in key order. A \<^verbatim>\<open>HubAssetKey\<close> is stored as
  a map from its field names, so keys compare by \<^verbatim>\<open>asset\<close> first and by \<^verbatim>\<open>hub_id\<close> second; that order
  is the \<open>linorder\<close> instance below. The locale \<open>keyed_map\<close> states what the controller relies on
  (a lookup after an insertion or a removal, unique keys); the sorted lists are its interpretation.
\<close>

section \<open>Key order\<close>

instantiation hub_asset_key_ext :: (linorder) linorder
begin

definition less_eq_hub_asset_key_ext :: "'a hub_asset_key_scheme \<Rightarrow> 'a hub_asset_key_scheme \<Rightarrow> bool" where
  "less_eq_hub_asset_key_ext a b \<longleftrightarrow> asset a < asset b \<or>
     asset a = asset b \<and> (hub_id a < hub_id b \<or> hub_id a = hub_id b \<and> hub_asset_key.more a \<le> hub_asset_key.more b)"

definition less_hub_asset_key_ext :: "'a hub_asset_key_scheme \<Rightarrow> 'a hub_asset_key_scheme \<Rightarrow> bool" where
  "less_hub_asset_key_ext a b \<longleftrightarrow> asset a < asset b \<or>
     asset a = asset b \<and> (hub_id a < hub_id b \<or> hub_id a = hub_id b \<and> hub_asset_key.more a < hub_asset_key.more b)"

instance
  by standard (auto simp: less_eq_hub_asset_key_ext_def less_hub_asset_key_ext_def)

end

section \<open>Sorted maps\<close>

type_synonym ('k, 'v) smap = "('k \<times> 'v) list"

abbreviation smap_get :: "('k, 'v) smap \<Rightarrow> 'k \<Rightarrow> 'v option" where
  "smap_get \<equiv> map_of"

primrec smap_set :: "'k::linorder \<Rightarrow> 'v \<Rightarrow> ('k, 'v) smap \<Rightarrow> ('k, 'v) smap" where
  "smap_set k v [] = [(k, v)]"
| "smap_set k v (e # m) =
     (if fst e < k then e # smap_set k v m else if fst e = k then (k, v) # m else (k, v) # e # m)"

primrec smap_remove :: "'k \<Rightarrow> ('k, 'v) smap \<Rightarrow> ('k, 'v) smap" where
  "smap_remove k [] = []"
| "smap_remove k (e # m) = (if fst e = k then m else e # smap_remove k m)"

definition smap_keys :: "('k, 'v) smap \<Rightarrow> 'k list" where
  "smap_keys m = map fst m"

definition smap_contains :: "('k, 'v) smap \<Rightarrow> 'k \<Rightarrow> bool" where
  "smap_contains m k \<longleftrightarrow> smap_get m k \<noteq> None"

definition smap_ok :: "('k::linorder, 'v) smap \<Rightarrow> bool" where
  "smap_ok m \<longleftrightarrow> sorted_wrt (<) (map fst m)"

lemma smap_ok_simps [simp]:
  "smap_ok []" "smap_ok (e # m) \<longleftrightarrow> (\<forall>k \<in> fst ` set m. fst e < k) \<and> smap_ok m"
  by (auto simp: smap_ok_def)

lemma smap_ok_distinct: "smap_ok m \<Longrightarrow> distinct (map fst m)"
  by (simp add: smap_ok_def strict_sorted_iff)

lemma smap_contains_iff: "smap_contains m k \<longleftrightarrow> k \<in> set (smap_keys m)"
  by (simp add: smap_contains_def smap_keys_def map_of_eq_None_iff)

lemma smap_get_set: "smap_get (smap_set k v m) = (smap_get m)(k \<mapsto> v)"
  by (induction m) (auto simp: fun_eq_iff)

lemma keys_smap_set: "fst ` set (smap_set k v m) = insert k (fst ` set m)"
  by (induction m) auto

lemma smap_ok_set: "smap_ok m \<Longrightarrow> smap_ok (smap_set k v m)"
  by (induction m) (auto simp: keys_smap_set)

lemma keys_smap_remove: "set (smap_remove k m) \<subseteq> set m"
  by (induction m) auto

lemma smap_ok_remove: "smap_ok m \<Longrightarrow> smap_ok (smap_remove k m)"
proof (induction m)
  case (Cons e m)
  then show ?case using keys_smap_remove [of k m] by auto
qed simp

lemma smap_get_notin: "k \<notin> fst ` set m \<Longrightarrow> smap_get m k = None"
  by (simp add: map_of_eq_None_iff)

lemma smap_get_remove: "smap_ok m \<Longrightarrow> smap_get (smap_remove k m) = (smap_get m)(k := None)"
proof (induction m)
  case (Cons e m)
  then have "fst e \<notin> fst ` set m" by auto
  with Cons show ?case by (auto simp: fun_eq_iff smap_get_notin)
qed simp

lemma smap_set_eq_Nil [simp]: "smap_set k v m \<noteq> []"
  by (cases m) auto

section \<open>The interface\<close>

locale keyed_map =
  fixes get :: "'m \<Rightarrow> 'k \<Rightarrow> 'v option" and put :: "'k \<Rightarrow> 'v \<Rightarrow> 'm \<Rightarrow> 'm"
    and drop :: "'k \<Rightarrow> 'm \<Rightarrow> 'm" and entries :: "'m \<Rightarrow> ('k \<times> 'v) list" and ok :: "'m \<Rightarrow> bool"
  assumes ok_put: "ok m \<Longrightarrow> ok (put k v m)"
    and ok_drop: "ok m \<Longrightarrow> ok (drop k m)"
    and get_put: "ok m \<Longrightarrow> get (put k v m) = (get m)(k \<mapsto> v)"
    and get_drop: "ok m \<Longrightarrow> get (drop k m) = (get m)(k := None)"
    and entries_get: "ok m \<Longrightarrow> (k, v) \<in> set (entries m) \<longleftrightarrow> get m k = Some v"
    and entries_distinct: "ok m \<Longrightarrow> distinct (map fst (entries m))"
begin

definition upsert :: "'k \<Rightarrow> 'v option \<Rightarrow> 'm \<Rightarrow> 'm" where
  "upsert k ov m = (case ov of None \<Rightarrow> drop k m | Some v \<Rightarrow> put k v m)"

lemma ok_upsert: "ok m \<Longrightarrow> ok (upsert k ov m)"
  by (auto simp: upsert_def ok_put ok_drop split: option.splits)

lemma get_upsert: "ok m \<Longrightarrow> get (upsert k ov m) = (get m)(k := ov)"
  by (auto simp: upsert_def get_put get_drop split: option.splits)

definition total_of :: "('v \<Rightarrow> int) \<Rightarrow> 'm \<Rightarrow> int" where
  "total_of f m = sum_list (map (f \<circ> snd) (entries m))"

lemma entries_mset:
  assumes "ok m"
  shows "total_of f m = (\<Sum>k \<in> dom (get m). f (the (get m k)))"
proof -
  have "total_of f m = (\<Sum>e \<in> set (entries m). f (snd e))"
    unfolding total_of_def using entries_distinct [OF assms]
    by (simp add: distinct_map sum_list_distinct_conv_sum_set comp_def)
  also have "\<dots> = (\<Sum>k \<in> fst ` set (entries m). f (the (get m k)))"
  proof (rule sum.reindex_cong [symmetric, where l = fst])
    show "inj_on fst (set (entries m))" using entries_distinct [OF assms] by (simp add: distinct_map)
    show "fst ` set (entries m) = fst ` set (entries m)" ..
    fix e assume "e \<in> set (entries m)"
    then have "get m (fst e) = Some (snd e)" using entries_get [OF assms, of "fst e" "snd e"] by simp
    then show "f (the (get m (fst e))) = f (snd e)" by simp
  qed
  also have "fst ` set (entries m) = dom (get m)"
    using entries_get [OF assms] by (auto simp: dom_def image_iff) (metis fst_conv)
  finally show ?thesis .
qed

lemma finite_dom: "ok m \<Longrightarrow> finite (dom (get m))"
proof -
  assume "ok m"
  then have "dom (get m) \<subseteq> fst ` set (entries m)" using entries_get by (force simp: dom_def image_iff)
  then show ?thesis by (rule finite_subset) simp
qed

text \<open>A total changes by the change of the one entry written.\<close>

lemma total_upsert:
  assumes "ok m"
  shows "total_of f (upsert k ov m) =
    total_of f m - (case get m k of None \<Rightarrow> 0 | Some v \<Rightarrow> f v) + (case ov of None \<Rightarrow> 0 | Some v \<Rightarrow> f v)"
proof -
  let ?g = "\<lambda>j. f (the (get m j))" and ?D = "dom (get m)"
  have split_dom: "(\<Sum>j \<in> ?D. ?g j) = (\<Sum>j \<in> ?D - {k}. ?g j) + (case get m k of None \<Rightarrow> 0 | Some v \<Rightarrow> f v)"
  proof (cases "get m k")
    case (Some v)
    then have "k \<in> ?D" by auto
    from sum.remove [OF finite_dom [OF assms] this, of ?g] Some show ?thesis by simp
  qed (simp add: domIff)
  have "total_of f (upsert k ov m) = (\<Sum>j \<in> dom ((get m)(k := ov)). f (the (((get m)(k := ov)) j)))"
    by (simp add: entries_mset [OF ok_upsert [OF assms]] get_upsert [OF assms])
  also have "\<dots> = (\<Sum>j \<in> ?D - {k}. ?g j) + (case ov of None \<Rightarrow> 0 | Some v \<Rightarrow> f v)"
  proof (cases ov)
    case None
    then have "dom ((get m)(k := ov)) = ?D - {k}" by auto
    then show ?thesis using None by (auto intro!: sum.cong)
  next
    case (Some v)
    then have d: "dom ((get m)(k := ov)) = insert k (?D - {k})" by auto
    have "(\<Sum>j \<in> insert k (?D - {k}). f (the (((get m)(k := ov)) j))) =
        f (the (((get m)(k := ov)) k)) + (\<Sum>j \<in> ?D - {k}. f (the (((get m)(k := ov)) j)))"
      using finite_dom [OF assms] by (subst sum.insert) simp_all
    also have "(\<Sum>j \<in> ?D - {k}. f (the (((get m)(k := ov)) j))) = (\<Sum>j \<in> ?D - {k}. ?g j)"
      by (rule sum.cong) auto
    finally show ?thesis unfolding d using Some by simp
  qed
  finally show ?thesis using split_dom by (simp add: entries_mset [OF assms])
qed

end

lemma smap_entries_iff: "smap_ok m \<Longrightarrow> (k, v) \<in> set m \<longleftrightarrow> smap_get m k = Some v"
  by (metis map_of_eq_Some_iff smap_ok_distinct)

interpretation smap: keyed_map smap_get smap_set smap_remove "\<lambda>m. m" smap_ok
  by (unfold_locales; (erule smap_ok_set | erule smap_ok_remove | rule smap_get_set | erule smap_get_remove
      | erule smap_entries_iff | erule smap_ok_distinct))

end
