(* ===== verification/Controller_Types.thy ===== *)
theory Controller_Types
  imports Soroban_Map Rates_Scaling
begin

text \<open>
  The data of the controller: \<^verbatim>\<open>src/common/src/types/controller.rs\<close>, the account-position structs of
  \<^verbatim>\<open>src/common/src/types/pool.rs\<close>, the price feed of \<^verbatim>\<open>types/oracle.rs\<close>, the modes of
  \<^verbatim>\<open>types/shared.rs\<close> and the constants of \<^verbatim>\<open>src/contracts/controller/src/constants.rs\<close>.
  \<^verbatim>\<open>AccountPositionRaw\<close> (basis points as \<^verbatim>\<open>u32\<close>) and \<^verbatim>\<open>AccountPosition\<close> (basis points as \<^verbatim>\<open>i128\<close>) are
  two records; the cast back to \<^verbatim>\<open>u32\<close> wraps. \<^verbatim>\<open>DebtPositionRaw\<close>, \<^verbatim>\<open>DebtPosition\<close> and
  \<^verbatim>\<open>ScaledPositionRaw\<close> coincide once newtypes are erased and are the record \<open>scaled_position_raw\<close>, as are
  \<^verbatim>\<open>PriceFeedRaw\<close> and \<^verbatim>\<open>PriceFeed\<close>.
\<close>

section \<open>Constants\<close>

definition BAD_DEBT_USD_THRESHOLD :: int where
  "BAD_DEBT_USD_THRESHOLD = DEFAULT_MIN_BORROW_COLLATERAL_USD_WAD"

definition MAX_VIEW_INPUTS :: nat where
  "MAX_VIEW_INPUTS = 256"

definition THRESHOLD_UPDATE_MIN_HF_RAW :: int where
  "THRESHOLD_UPDATE_MIN_HF_RAW = 1050000000000000000"

definition DEFAULT_LIQUIDATION_TARGET_HF_WAD :: int where
  "DEFAULT_LIQUIDATION_TARGET_HF_WAD = 1100000000000000000"

definition DEFAULT_HF_FOR_MAX_BONUS_WAD :: int where
  "DEFAULT_HF_FOR_MAX_BONUS_WAD = 800000000000000000"

definition DEFAULT_LIQUIDATION_BONUS_FACTOR_BPS :: nat where
  "DEFAULT_LIQUIDATION_BONUS_FACTOR_BPS = nat BPS"

definition WITHDRAW_ALL_SENTINEL :: int where
  "WITHDRAW_ALL_SENTINEL = i128_max"

definition MAX_DELEGATES :: nat where
  "MAX_DELEGATES = 16"

definition INITIAL_APP_VERSION :: nat where
  "INITIAL_APP_VERSION = 1"

section \<open>Positions and prices\<close>

record account_position_raw =
  apr_scaled_amount :: int
  apr_liquidation_threshold :: nat
  apr_liquidation_bonus :: nat
  apr_loan_to_value :: nat
  apr_liquidation_fees :: nat

record account_position =
  ap_scaled_amount :: ray
  ap_liquidation_threshold :: bps
  ap_liquidation_bonus :: bps
  ap_loan_to_value :: bps
  ap_liquidation_fees :: bps

definition account_position_of_raw :: "account_position_raw \<Rightarrow> account_position" where
  "account_position_of_raw r =
     \<lparr>ap_scaled_amount = apr_scaled_amount r,
      ap_liquidation_threshold = int (apr_liquidation_threshold r),
      ap_liquidation_bonus = int (apr_liquidation_bonus r),
      ap_loan_to_value = int (apr_loan_to_value r),
      ap_liquidation_fees = int (apr_liquidation_fees r)\<rparr>"

definition as_u32 :: "int \<Rightarrow> nat" where
  "as_u32 x = nat (x mod 2 ^ 32)"

definition account_position_to_raw :: "account_position \<Rightarrow> account_position_raw" where
  "account_position_to_raw t =
     \<lparr>apr_scaled_amount = ap_scaled_amount t,
      apr_liquidation_threshold = as_u32 (ap_liquidation_threshold t),
      apr_liquidation_bonus = as_u32 (ap_liquidation_bonus t),
      apr_loan_to_value = as_u32 (ap_loan_to_value t),
      apr_liquidation_fees = as_u32 (ap_liquidation_fees t)\<rparr>"

definition scaled_of_account_position :: "account_position \<Rightarrow> scaled_position_raw" where
  "scaled_of_account_position t = \<lparr>scaled_amount = ap_scaled_amount t\<rparr>"

record price_feed =
  pf_price :: wad
  pf_asset_decimals :: nat
  pf_timestamp :: nat

definition usd_value_wad :: "price_feed \<Rightarrow> int \<Rightarrow> wad res" where
  "usd_value_wad feed token_amount =
     rbind (wad_from_token token_amount (pf_asset_decimals feed)) (\<lambda>amount. wad_mul amount (pf_price feed))"

datatype position_mode = Normal | Multiply | Long | Short

type_synonym hub_payment = "hub_asset_key \<times> int"

section \<open>Configuration\<close>

record asset_config =
  ac_loan_to_value :: bps
  ac_liquidation_threshold :: bps
  ac_liquidation_bonus :: bps
  ac_liquidation_fees :: bps
  ac_is_collateralizable :: bool
  ac_is_borrowable :: bool

record spoke_config =
  sc_is_deprecated :: bool
  sc_liquidation_target_hf_wad :: int
  sc_hf_for_max_bonus_wad :: int
  sc_liquidation_bonus_factor_bps :: nat

record spoke_asset_config =
  sa_is_collateralizable :: bool
  sa_is_borrowable :: bool
  sa_paused :: bool
  sa_frozen :: bool
  sa_no_seize :: bool
  sa_loan_to_value :: nat
  sa_liquidation_threshold :: nat
  sa_liquidation_bonus :: nat
  sa_liquidation_fees :: nat
  sa_supply_cap :: int
  sa_borrow_cap :: int

definition asset_config_of :: "spoke_asset_config \<Rightarrow> asset_config" where
  "asset_config_of c =
     \<lparr>ac_loan_to_value = int (sa_loan_to_value c),
      ac_liquidation_threshold = int (sa_liquidation_threshold c),
      ac_liquidation_bonus = int (sa_liquidation_bonus c),
      ac_liquidation_fees = int (sa_liquidation_fees c),
      ac_is_collateralizable = sa_is_collateralizable c,
      ac_is_borrowable = sa_is_borrowable c\<rparr>"

record spoke_usage =
  su_supplied_scaled_ray :: int
  su_borrowed_scaled_ray :: int

record position_limits =
  pl_max_borrow_positions :: nat
  pl_max_supply_positions :: nat

record account_meta =
  am_spoke_id :: nat
  am_mode :: position_mode

record delegate_grant =
  dg_granted_by :: address
  dg_delegates :: "address list"

section \<open>Accounts\<close>

record account =
  acc_owner :: address
  acc_spoke_id :: nat
  acc_mode :: position_mode
  acc_supply_positions :: "(hub_asset_key, account_position_raw) smap"
  acc_borrow_positions :: "(hub_asset_key, scaled_position_raw) smap"

definition get_or_create_supply_position :: "account \<Rightarrow> hub_asset_key \<Rightarrow> asset_config \<Rightarrow> account_position" where
  "get_or_create_supply_position a k config =
     (case smap_get (acc_supply_positions a) k of
        Some raw \<Rightarrow> account_position_of_raw raw
      | None \<Rightarrow>
          \<lparr>ap_scaled_amount = 0,
           ap_liquidation_threshold = ac_liquidation_threshold config,
           ap_liquidation_bonus = ac_liquidation_bonus config,
           ap_loan_to_value = ac_loan_to_value config,
           ap_liquidation_fees = ac_liquidation_fees config\<rparr>)"

definition get_or_create_debt_position :: "account \<Rightarrow> hub_asset_key \<Rightarrow> scaled_position_raw" where
  "get_or_create_debt_position a k =
     (case smap_get (acc_borrow_positions a) k of Some p \<Rightarrow> p | None \<Rightarrow> \<lparr>scaled_amount = 0\<rparr>)"

definition account_is_empty :: "account \<Rightarrow> bool" where
  "account_is_empty a \<longleftrightarrow> acc_supply_positions a = [] \<and> acc_borrow_positions a = []"

definition debt_free :: "account \<Rightarrow> bool" where
  "debt_free a \<longleftrightarrow> acc_borrow_positions a = []"

section \<open>Liquidation\<close>

datatype seize_mode = Seize_Transfer | Seize_Credit nat

record payment_tuple =
  pt_asset :: address
  pt_amount :: int

record seize_entry =
  se_hub_asset :: hub_asset_key
  se_amount :: int
  se_protocol_fee :: int
  se_scaled_amount :: int
  se_bonus_scaled :: int
  se_liquidation_fees :: nat
  se_feed :: price_feed
  se_market_index :: market_index

record repay_entry =
  re_hub_asset :: hub_asset_key
  re_amount :: int
  re_usd_wad :: int
  re_feed :: price_feed
  re_market_index :: market_index

record liquidation_result =
  lr_seized :: "seize_entry list"
  lr_repaid :: "repay_entry list"
  lr_refunds :: "payment_tuple list"
  lr_max_debt_usd :: int
  lr_bonus_bps :: int

text \<open>A stored position survives the round trip through its typed form.\<close>

lemma as_u32_int [simp]: "n \<le> u32_max \<Longrightarrow> as_u32 (int n) = n"
  by (simp add: as_u32_def u32_max_def nat_mod_as_int)

lemma account_position_raw_roundtrip:
  assumes "apr_liquidation_threshold r \<le> u32_max" and "apr_liquidation_bonus r \<le> u32_max"
    and "apr_loan_to_value r \<le> u32_max" and "apr_liquidation_fees r \<le> u32_max"
  shows "account_position_to_raw (account_position_of_raw r) = r"
  using assms by (simp add: account_position_to_raw_def account_position_of_raw_def)

lemma scaled_amount_typed [simp]:
  "ap_scaled_amount (account_position_of_raw r) = apr_scaled_amount r"
  "apr_scaled_amount (account_position_to_raw t) = ap_scaled_amount t"
  by (simp_all add: account_position_of_raw_def account_position_to_raw_def)

end
