(* ===== verification/Controller_Store.thy ===== *)
theory Controller_Store
  imports Controller_Types Pool
begin

text \<open>
  \<^verbatim>\<open>src/contracts/controller/src/storage/\<close>: what the controller keeps between invocations, one field per
  \<^verbatim>\<open>ControllerKey\<close> (the temporary flash-loan flag and the owner and pause state of the
  \<^verbatim>\<open>stellar_access\<close> and \<^verbatim>\<open>stellar_contract_utils\<close> modules included), its accessors, the caches of
  one invocation, and \<open>'w system\<close>, the state an entrypoint runs on: the controller's storage, its address,
  the addresses that authorised the invocation, the pool contract, and the invocation's \<^verbatim>\<open>Context\<close>.
  The pool is the contract whose address the storage holds. TTL renewal is not modelled.
\<close>

section \<open>Storage\<close>

record ctl_store =
  cs_owner :: "address option"
  cs_paused :: bool
  cs_app_version :: "nat option"
  cs_code :: bytes
  cs_pool :: "address option"
  cs_position_nft :: "address option"
  cs_price_aggregator :: "address option"
  cs_swap_aggregator :: "address option"
  cs_accumulator :: "address option"
  cs_position_limits :: "position_limits option"
  cs_min_borrow_collateral_usd :: "int option"
  cs_last_hub_id :: nat
  cs_last_spoke_id :: nat
  cs_hubs :: "nat \<rightharpoonup> bool"
  cs_spokes :: "nat \<rightharpoonup> spoke_config"
  cs_spoke_assets :: "nat \<times> hub_asset_key \<rightharpoonup> spoke_asset_config"
  cs_spoke_flags_epoch :: "nat \<times> hub_asset_key \<rightharpoonup> nat"
  cs_spoke_usage :: "nat \<times> hub_asset_key \<rightharpoonup> spoke_usage"
  cs_account_meta :: "nat \<rightharpoonup> account_meta"
  cs_supply_positions :: "nat \<rightharpoonup> (hub_asset_key, account_position_raw) smap"
  cs_borrow_positions :: "nat \<rightharpoonup> (hub_asset_key, scaled_position_raw) smap"
  cs_delegates :: "nat \<rightharpoonup> delegate_grant"
  cs_position_managers :: "address \<rightharpoonup> bool"
  cs_blend_pools :: "address set"
  cs_flash_loan_ongoing :: bool

record usage_context =
  uc_spoke_id :: nat
  uc_usage :: "(hub_asset_key, spoke_usage) smap"

record context_cache =
  cx_token_prices :: "address \<rightharpoonup> price_feed"
  cx_market_indexes :: "hub_asset_key \<rightharpoonup> market_index"
  cx_pool_address :: "address option"
  cx_pool_sync_data :: "hub_asset_key \<rightharpoonup> pool_sync_data"
  cx_spoke_usage :: "usage_context option"
  cx_spoke_config :: "spoke_config option"
  cx_spoke_assets :: "hub_asset_key \<rightharpoonup> spoke_asset_config"
  cx_verified_hubs :: "nat \<rightharpoonup> bool"

record 'w system =
  sy_store :: ctl_store
  sy_self :: address
  sy_auth :: "address \<Rightarrow> bool"
  sy_pool :: "'w host"
  sy_ctx :: context_cache

text \<open>
  The other contracts the controller calls: those the pool uses too, the price aggregator's
  \<^verbatim>\<open>prices\<close>, the position NFT's \<^verbatim>\<open>mint\<close>, \<^verbatim>\<open>burn\<close>, \<^verbatim>\<open>owner_of\<close> (a failed lookup is
  \<open>None\<close>), deployment and upgrade, the swap router's \<^verbatim>\<open>execute_strategy\<close>, the callback of a flash position, and
  Blend's \<^verbatim>\<open>submit\<close>; and the two library functions of the ownership transfer, which record an offer
  (\<^verbatim>\<open>role_transfer::transfer_role\<close>: the new owner and the last ledger of the offer) and accept it
  (\<^verbatim>\<open>ownable::accept_ownership\<close>: given who authorised the call, it returns the accepted owner). The offer is
  kept by the library, as part of the world. The transfers the controller authorises for a call
  (\<^verbatim>\<open>authorize_as_current_contract\<close>) are an argument of it.
\<close>

record transfer_auth =
  ta_token :: address
  ta_from :: address
  ta_to :: address
  ta_amount :: int

record blend_request =
  br_request_type :: nat
  br_address :: address
  br_amount :: int

record 'w ctl_externals =
  ce_base :: "'w externals"
  ce_prices :: "address \<Rightarrow> address list \<Rightarrow> 'w \<Rightarrow> (address \<rightharpoonup> price_feed) res"
  ce_nft_mint :: "address \<Rightarrow> address \<Rightarrow> 'w \<Rightarrow> (nat \<times> 'w) res"
  ce_nft_burn :: "address \<Rightarrow> nat \<Rightarrow> 'w \<Rightarrow> 'w res"
  ce_nft_owner_of :: "address \<Rightarrow> nat \<Rightarrow> 'w \<rightharpoonup> address"
  ce_nft_deploy :: "bytes \<Rightarrow> address \<Rightarrow> 'w \<Rightarrow> (address \<times> 'w) res"
  ce_nft_upgrade :: "address \<Rightarrow> bytes \<Rightarrow> 'w \<Rightarrow> 'w res"
  ce_execute_strategy :: "address \<Rightarrow> address \<Rightarrow> int \<Rightarrow> bytes \<Rightarrow> transfer_auth list \<Rightarrow> 'w \<Rightarrow> 'w res"
  ce_execute_flash_position ::
    "address \<Rightarrow> address \<Rightarrow> nat \<Rightarrow> address \<Rightarrow> int \<Rightarrow> int \<Rightarrow> int \<Rightarrow> address \<Rightarrow> bytes \<Rightarrow> 'w \<Rightarrow> 'w res"
  ce_blend_submit ::
    "address \<Rightarrow> address \<Rightarrow> address \<Rightarrow> address \<Rightarrow> blend_request list \<Rightarrow> transfer_auth list \<Rightarrow> 'w \<Rightarrow> 'w res"
  ce_transfer_role :: "address \<Rightarrow> nat \<Rightarrow> 'w \<Rightarrow> 'w res"
  ce_accept_ownership :: "(address \<Rightarrow> bool) \<Rightarrow> 'w \<Rightarrow> (address \<times> 'w) res"

type_synonym ('w, 'a) ctl = "('w system, 'a) flow"

abbreviation sy_world :: "'w system \<Rightarrow> 'w" where
  "sy_world s \<equiv> h_world (sy_pool s)"

definition set_world :: "'w \<Rightarrow> 'w system \<Rightarrow> 'w system" where
  "set_world w s = s\<lparr>sy_pool := (sy_pool s)\<lparr>h_world := w\<rparr>\<rparr>"

definition upd_store :: "(ctl_store \<Rightarrow> ctl_store) \<Rightarrow> ('w, unit) ctl" where
  "upd_store f = fwrite (\<lambda>s. s\<lparr>sy_store := f (sy_store s)\<rparr>)"

definition read_store :: "(ctl_store \<Rightarrow> 'a) \<Rightarrow> ('w, 'a) ctl" where
  "read_store f = fread (\<lambda>s. f (sy_store s))"

definition world_call :: "('w \<Rightarrow> ('a \<times> 'w) res) \<Rightarrow> ('w, 'a) ctl" where
  "world_call f s = rbind (f (sy_world s)) (\<lambda>(x, w). Inr (x, set_world w s))"

text \<open>A call into the pool: the controller is the invoker, so it has authorised the call.\<close>

definition pool_call :: "('w host \<Rightarrow> ('a \<times> 'w host) res) \<Rightarrow> ('w, 'a) ctl" where
  "pool_call f s =
     rbind (f ((sy_pool s)\<lparr>h_auth := (\<lambda>a. a = sy_self s)\<rparr>)) (\<lambda>(x, h). Inr (x, s\<lparr>sy_pool := h\<rparr>))"

definition pool_view :: "('w host \<Rightarrow> 'a res) \<Rightarrow> ('w, 'a) ctl" where
  "pool_view f s = rbind (f (sy_pool s)) (\<lambda>x. Inr (x, s))"

definition require_auth :: "address \<Rightarrow> ('w, unit) ctl" where
  "require_auth a s = (if sy_auth s a then Inr ((), s) else Inl (Host AuthFailed))"

section \<open>Protocol entries\<close>

definition try_get_pool :: "ctl_store \<Rightarrow> address option" where
  "try_get_pool st = cs_pool st"

definition get_pool :: "ctl_store \<Rightarrow> address res" where
  "get_pool st = unwrap_or_panic (try_get_pool st) (Generic PoolNotInitialized)"

definition get_swap_aggregator :: "ctl_store \<Rightarrow> address res" where
  "get_swap_aggregator st = unwrap_or_panic (cs_swap_aggregator st) (Generic AggregatorNotSet)"

definition get_price_aggregator :: "ctl_store \<Rightarrow> address res" where
  "get_price_aggregator st = unwrap_or_panic (cs_price_aggregator st) (Generic AggregatorNotSet)"

definition get_position_limits :: "ctl_store \<Rightarrow> position_limits res" where
  "get_position_limits st = unwrap_or_panic (cs_position_limits st) (Generic PositionLimitsNotSet)"

definition get_min_borrow_collateral_usd_wad :: "ctl_store \<Rightarrow> int" where
  "get_min_borrow_collateral_usd_wad st =
     (case cs_min_borrow_collateral_usd st of
        Some x \<Rightarrow> x | None \<Rightarrow> DEFAULT_MIN_BORROW_COLLATERAL_USD_WAD)"

definition get_position_nft :: "ctl_store \<Rightarrow> address res" where
  "get_position_nft st = unwrap_or_panic (cs_position_nft st) (Generic PositionNftNotSet)"

definition get_position_manager :: "ctl_store \<Rightarrow> address \<Rightarrow> bool option" where
  "get_position_manager st a = cs_position_managers st a"

definition set_position_manager :: "address \<Rightarrow> bool \<Rightarrow> ctl_store \<Rightarrow> ctl_store" where
  "set_position_manager a is_active st =
     st\<lparr>cs_position_managers := (cs_position_managers st)(a := if is_active then Some True else None)\<rparr>"

definition is_blend_pool_approved :: "ctl_store \<Rightarrow> address \<Rightarrow> bool" where
  "is_blend_pool_approved st pool \<longleftrightarrow> pool \<in> cs_blend_pools st"

definition set_blend_pool_approved :: "address \<Rightarrow> bool \<Rightarrow> ctl_store \<Rightarrow> ctl_store" where
  "set_blend_pool_approved pool approved st =
     st\<lparr>cs_blend_pools := (if approved then insert pool (cs_blend_pools st) else cs_blend_pools st - {pool})\<rparr>"

definition increment_counter :: "nat \<Rightarrow> nat res" where
  "increment_counter current = (if current + 1 \<le> u32_max then Inr (current + 1) else Inl (Generic MathOverflow))"

section \<open>Hubs and spokes\<close>

definition increment_hub_id :: "ctl_store \<Rightarrow> (nat \<times> ctl_store) res" where
  "increment_hub_id st =
     rbind (increment_counter (cs_last_hub_id st)) (\<lambda>next_id. Inr (next_id, st\<lparr>cs_last_hub_id := next_id\<rparr>))"

definition increment_spoke_id :: "ctl_store \<Rightarrow> (nat \<times> ctl_store) res" where
  "increment_spoke_id st =
     rbind (increment_counter (cs_last_spoke_id st)) (\<lambda>next_id. Inr (next_id, st\<lparr>cs_last_spoke_id := next_id\<rparr>))"

definition get_hub :: "ctl_store \<Rightarrow> nat \<Rightarrow> bool option" where
  "get_hub st hub = cs_hubs st hub"

definition set_hub :: "nat \<Rightarrow> bool \<Rightarrow> ctl_store \<Rightarrow> ctl_store" where
  "set_hub hub is_active st = st\<lparr>cs_hubs := (cs_hubs st)(hub \<mapsto> is_active)\<rparr>"

definition get_spoke :: "ctl_store \<Rightarrow> nat \<Rightarrow> spoke_config res" where
  "get_spoke st i = unwrap_or_panic (cs_spokes st i) (Spoke SpokeNotFound)"

definition set_spoke :: "nat \<Rightarrow> spoke_config \<Rightarrow> ctl_store \<Rightarrow> ctl_store" where
  "set_spoke i spoke st = st\<lparr>cs_spokes := (cs_spokes st)(i \<mapsto> spoke)\<rparr>"

definition get_spoke_asset :: "ctl_store \<Rightarrow> nat \<Rightarrow> hub_asset_key \<Rightarrow> spoke_asset_config option" where
  "get_spoke_asset st i k = cs_spoke_assets st (i, k)"

definition set_spoke_asset :: "nat \<Rightarrow> hub_asset_key \<Rightarrow> spoke_asset_config \<Rightarrow> ctl_store \<Rightarrow> ctl_store" where
  "set_spoke_asset i k config st = st\<lparr>cs_spoke_assets := (cs_spoke_assets st)((i, k) \<mapsto> config)\<rparr>"

definition remove_spoke_asset :: "nat \<Rightarrow> hub_asset_key \<Rightarrow> ctl_store \<Rightarrow> ctl_store" where
  "remove_spoke_asset i k st = st\<lparr>cs_spoke_assets := (cs_spoke_assets st)((i, k) := None)\<rparr>"

definition get_spoke_flags_epoch :: "ctl_store \<Rightarrow> nat \<Rightarrow> hub_asset_key \<Rightarrow> nat" where
  "get_spoke_flags_epoch st i k = (case cs_spoke_flags_epoch st (i, k) of Some e \<Rightarrow> e | None \<Rightarrow> 0)"

definition bump_spoke_flags_epoch :: "nat \<Rightarrow> hub_asset_key \<Rightarrow> ctl_store \<Rightarrow> ctl_store res" where
  "bump_spoke_flags_epoch i k st =
     (let next_epoch = get_spoke_flags_epoch st i k + 1 in
      if next_epoch \<le> u64_max
      then Inr (st\<lparr>cs_spoke_flags_epoch := (cs_spoke_flags_epoch st)((i, k) \<mapsto> next_epoch)\<rparr>)
      else Inl (Generic MathOverflow))"

definition get_spoke_usage :: "ctl_store \<Rightarrow> nat \<Rightarrow> hub_asset_key \<Rightarrow> spoke_usage option" where
  "get_spoke_usage st i k = cs_spoke_usage st (i, k)"

definition set_spoke_usage :: "nat \<Rightarrow> hub_asset_key \<Rightarrow> spoke_usage \<Rightarrow> ctl_store \<Rightarrow> ctl_store" where
  "set_spoke_usage i k usage st =
     st\<lparr>cs_spoke_usage := (cs_spoke_usage st)((i, k) :=
       if su_supplied_scaled_ray usage = 0 \<and> su_borrowed_scaled_ray usage = 0 then None else Some usage)\<rparr>"

definition require_hub_active :: "ctl_store \<Rightarrow> nat \<Rightarrow> unit res" where
  "require_hub_active st hub = assert_with_error (get_hub st hub = Some True) (Generic HubNotActive)"

section \<open>Account entries\<close>

definition account_from_parts ::
    "address \<Rightarrow> account_meta \<Rightarrow> (hub_asset_key, account_position_raw) smap
      \<Rightarrow> (hub_asset_key, scaled_position_raw) smap \<Rightarrow> account" where
  "account_from_parts owner meta supply borrow_positions =
     \<lparr>acc_owner = owner, acc_spoke_id = am_spoke_id meta, acc_mode = am_mode meta,
      acc_supply_positions = supply, acc_borrow_positions = borrow_positions\<rparr>"

definition nft_try_owner_of_call :: "'w ctl_externals \<Rightarrow> address \<Rightarrow> nat \<Rightarrow> 'w \<Rightarrow> address option" where
  "nft_try_owner_of_call ext nft account_id w =
     (if account_id \<le> u32_max then ce_nft_owner_of ext nft account_id w else None)"

definition try_account_owner :: "'w ctl_externals \<Rightarrow> 'w system \<Rightarrow> nat \<Rightarrow> address option" where
  "try_account_owner ext s account_id =
     (case cs_position_nft (sy_store s) of
        None \<Rightarrow> None
      | Some nft \<Rightarrow> nft_try_owner_of_call ext nft account_id (sy_world s))"

definition account_owner :: "'w ctl_externals \<Rightarrow> 'w system \<Rightarrow> nat \<Rightarrow> address res" where
  "account_owner ext s account_id =
     unwrap_or_panic (try_account_owner ext s account_id) (Generic AccountNotFound)"

definition try_get_account_meta :: "ctl_store \<Rightarrow> nat \<Rightarrow> account_meta option" where
  "try_get_account_meta st account_id = cs_account_meta st account_id"

definition get_account_meta :: "ctl_store \<Rightarrow> nat \<Rightarrow> account_meta res" where
  "get_account_meta st account_id =
     unwrap_or_panic (try_get_account_meta st account_id) (Generic AccountNotInMarket)"

definition set_account_meta :: "nat \<Rightarrow> account_meta \<Rightarrow> ctl_store \<Rightarrow> ctl_store" where
  "set_account_meta account_id meta st = st\<lparr>cs_account_meta := (cs_account_meta st)(account_id \<mapsto> meta)\<rparr>"

definition get_supply_positions :: "ctl_store \<Rightarrow> nat \<Rightarrow> (hub_asset_key, account_position_raw) smap" where
  "get_supply_positions st account_id = (case cs_supply_positions st account_id of Some m \<Rightarrow> m | None \<Rightarrow> [])"

definition get_debt_positions :: "ctl_store \<Rightarrow> nat \<Rightarrow> (hub_asset_key, scaled_position_raw) smap" where
  "get_debt_positions st account_id = (case cs_borrow_positions st account_id of Some m \<Rightarrow> m | None \<Rightarrow> [])"

definition write_side_map :: "nat \<Rightarrow> ('k, 'v) smap \<Rightarrow> (nat \<rightharpoonup> ('k, 'v) smap) \<Rightarrow> (nat \<rightharpoonup> ('k, 'v) smap)" where
  "write_side_map account_id m side = side(account_id := if m = [] then None else Some m)"

definition set_supply_positions ::
    "nat \<Rightarrow> (hub_asset_key, account_position_raw) smap \<Rightarrow> ctl_store \<Rightarrow> ctl_store" where
  "set_supply_positions account_id m st =
     st\<lparr>cs_supply_positions := write_side_map account_id m (cs_supply_positions st)\<rparr>"

definition set_debt_positions ::
    "nat \<Rightarrow> (hub_asset_key, scaled_position_raw) smap \<Rightarrow> ctl_store \<Rightarrow> ctl_store" where
  "set_debt_positions account_id m st =
     st\<lparr>cs_borrow_positions := write_side_map account_id m (cs_borrow_positions st)\<rparr>"

definition iter_typed_positions ::
    "(hub_asset_key, account_position_raw) smap \<Rightarrow> (hub_asset_key \<times> account_position) list" where
  "iter_typed_positions m = map (\<lambda>(k, raw). (k, account_position_of_raw raw)) m"

definition try_get_account :: "'w ctl_externals \<Rightarrow> 'w system \<Rightarrow> nat \<Rightarrow> account option" where
  "try_get_account ext s account_id =
     (case try_get_account_meta (sy_store s) account_id of
        None \<Rightarrow> None
      | Some meta \<Rightarrow>
          (case try_account_owner ext s account_id of
             None \<Rightarrow> None
           | Some owner \<Rightarrow>
               Some (account_from_parts owner meta
                 (get_supply_positions (sy_store s) account_id) (get_debt_positions (sy_store s) account_id))))"

definition get_account :: "'w ctl_externals \<Rightarrow> nat \<Rightarrow> ('w, account) ctl" where
  "get_account ext account_id s =
     rbind (unwrap_or_panic (try_get_account ext s account_id) (Generic AccountNotFound)) (\<lambda>a. Inr (a, s))"

definition get_account_borrow_only :: "'w ctl_externals \<Rightarrow> nat \<Rightarrow> ('w, account) ctl" where
  "get_account_borrow_only ext account_id s =
     rbind (get_account_meta (sy_store s) account_id) (\<lambda>meta.
     rbind (account_owner ext s account_id) (\<lambda>owner.
     Inr (account_from_parts owner meta [] (get_debt_positions (sy_store s) account_id), s)))"

definition remove_account_entry :: "nat \<Rightarrow> ctl_store \<Rightarrow> ctl_store" where
  "remove_account_entry account_id st =
     st\<lparr>cs_account_meta := (cs_account_meta st)(account_id := None),
        cs_supply_positions := (cs_supply_positions st)(account_id := None),
        cs_borrow_positions := (cs_borrow_positions st)(account_id := None),
        cs_delegates := (cs_delegates st)(account_id := None)\<rparr>"

section \<open>Delegates\<close>

definition get_delegates :: "ctl_store \<Rightarrow> nat \<Rightarrow> address \<Rightarrow> address list" where
  "get_delegates st account_id owner =
     (case cs_delegates st account_id of
        Some grant \<Rightarrow> if dg_granted_by grant = owner then dg_delegates grant else []
      | None \<Rightarrow> [])"

definition set_delegates :: "nat \<Rightarrow> address \<Rightarrow> address list \<Rightarrow> ctl_store \<Rightarrow> ctl_store" where
  "set_delegates account_id owner delegates st =
     st\<lparr>cs_delegates := (cs_delegates st)(account_id :=
       if delegates = [] then None else Some \<lparr>dg_granted_by = owner, dg_delegates = delegates\<rparr>)\<rparr>"

definition storage_add_delegate :: "nat \<Rightarrow> address \<Rightarrow> address \<Rightarrow> ctl_store \<Rightarrow> (bool \<times> ctl_store) res" where
  "storage_add_delegate account_id owner delegate st =
     (let delegates = get_delegates st account_id owner in
      if delegate \<in> set delegates then Inr (False, st)
      else rbind (assert_with_error (length delegates < MAX_DELEGATES) (Generic RegistryCapReached)) (\<lambda>_.
           Inr (True, set_delegates account_id owner (delegates @ [delegate]) st)))"

definition storage_remove_delegate :: "nat \<Rightarrow> address \<Rightarrow> address \<Rightarrow> ctl_store \<Rightarrow> bool \<times> ctl_store" where
  "storage_remove_delegate account_id owner delegate st =
     (case cs_delegates st account_id of
        None \<Rightarrow> (False, st)
      | Some grant \<Rightarrow>
          if dg_granted_by grant \<noteq> owner then (False, st\<lparr>cs_delegates := (cs_delegates st)(account_id := None)\<rparr>)
          else if delegate \<notin> set (dg_delegates grant) then (False, st)
          else (True, set_delegates account_id owner (remove1 delegate (dg_delegates grant)) st))"

section \<open>The flash-loan flag\<close>

definition set_flash_loan_ongoing :: "bool \<Rightarrow> ctl_store \<Rightarrow> ctl_store" where
  "set_flash_loan_ongoing ongoing st = st\<lparr>cs_flash_loan_ongoing := ongoing\<rparr>"

definition with_flash_guard :: "('w, 'a) ctl \<Rightarrow> ('w, 'a) ctl" where
  "with_flash_guard f =
     fbind (read_store cs_flash_loan_ongoing) (\<lambda>prev.
     fbind (upd_store (set_flash_loan_ongoing True)) (\<lambda>_.
     fbind f (\<lambda>out.
     fbind (if \<not> prev then upd_store (set_flash_loan_ongoing False) else fret ()) (\<lambda>_.
     fret out))))"

end
