(* ===== verification/Controller_Context.thy ===== *)
theory Controller_Context
  imports Controller_Store
begin

text \<open>
  \<^verbatim>\<open>src/contracts/controller/src/spoke_usage.rs\<close> and \<^verbatim>\<open>context.rs\<close> with the lookups of
  \<^verbatim>\<open>external/{price_aggregator,pool}.rs\<close> and \<^verbatim>\<open>src/common/src/collections.rs\<close>: usage of a spoke
  against its caps, buffered for one invocation, and the cached market data of the invocation. The
  buffers of position events are not modelled.
\<close>

section \<open>Collections\<close>

definition push_unique_address :: "address list \<Rightarrow> address \<Rightarrow> address list" where
  "push_unique_address out addr = (if addr \<notin> set out then out @ [addr] else out)"

definition unique_hub_tokens :: "hub_asset_key list \<Rightarrow> address list" where
  "unique_hub_tokens hub_assets = foldl (\<lambda>out k. push_unique_address out (asset k)) [] hub_assets"

definition collect_uncached_keys :: "'k list \<Rightarrow> ('k \<rightharpoonup> 'v) \<Rightarrow> 'k list" where
  "collect_uncached_keys requested cached =
     foldl (\<lambda>missing key. if cached key = None \<and> key \<notin> set missing then missing @ [key] else missing) [] requested"

section \<open>Spoke usage\<close>

datatype usage_side = Supply_Side | Borrow_Side

primrec side_scaled :: "usage_side \<Rightarrow> spoke_usage \<Rightarrow> int" where
  "side_scaled Supply_Side usage = su_supplied_scaled_ray usage"
| "side_scaled Borrow_Side usage = su_borrowed_scaled_ray usage"

primrec side_set_scaled :: "usage_side \<Rightarrow> int \<Rightarrow> spoke_usage \<Rightarrow> spoke_usage" where
  "side_set_scaled Supply_Side v usage = usage\<lparr>su_supplied_scaled_ray := v\<rparr>"
| "side_set_scaled Borrow_Side v usage = usage\<lparr>su_borrowed_scaled_ray := v\<rparr>"

primrec side_cap :: "usage_side \<Rightarrow> spoke_asset_config \<Rightarrow> int" where
  "side_cap Supply_Side cfg = sa_supply_cap cfg"
| "side_cap Borrow_Side cfg = sa_borrow_cap cfg"

primrec side_index :: "usage_side \<Rightarrow> market_index \<Rightarrow> ray" where
  "side_index Supply_Side ix = mi_supply_index ix"
| "side_index Borrow_Side ix = mi_borrow_index ix"

primrec cap_error :: "usage_side \<Rightarrow> error" where
  "cap_error Supply_Side = Spoke SpokeSupplyCapReached"
| "cap_error Borrow_Side = Spoke SpokeBorrowCapReached"

definition usage_context_new :: "nat \<Rightarrow> usage_context" where
  "usage_context_new spoke_id = \<lparr>uc_spoke_id = spoke_id, uc_usage = []\<rparr>"

definition usage_persist :: "usage_context \<Rightarrow> ctl_store \<Rightarrow> ctl_store" where
  "usage_persist u st = foldl (\<lambda>st (k, usage). set_spoke_usage (uc_spoke_id u) k usage st) st (uc_usage u)"

definition load_usage_row :: "ctl_store \<Rightarrow> usage_context \<Rightarrow> hub_asset_key \<Rightarrow> spoke_usage option \<times> usage_context" where
  "load_usage_row st u k =
     (case smap_get (uc_usage u) k of
        Some usage \<Rightarrow> (Some usage, u)
      | None \<Rightarrow>
          (case get_spoke_usage st (uc_spoke_id u) k of
             None \<Rightarrow> (None, u)
           | Some loaded \<Rightarrow> (Some loaded, u\<lparr>uc_usage := smap_set k loaded (uc_usage u)\<rparr>)))"

definition enforce_spoke_cap :: "usage_side \<Rightarrow> spoke_usage \<Rightarrow> ray \<Rightarrow> int \<Rightarrow> ray \<Rightarrow> nat \<Rightarrow> ray res" where
  "enforce_spoke_cap side usage delta_scaled cap index decimals =
     rbind (calculate_scaled_cap cap decimals index) (\<lambda>cap_scaled.
     rbind (ray_checked_add (side_scaled side usage) delta_scaled) (\<lambda>next_scaled.
     rbind (assert_with_error (next_scaled \<le> cap_scaled) (cap_error side)) (\<lambda>_.
     Inr next_scaled)))"

definition usage_apply_entry ::
    "ctl_store \<Rightarrow> usage_side \<Rightarrow> hub_asset_key \<Rightarrow> ray \<Rightarrow> int \<Rightarrow> ray \<Rightarrow> nat \<Rightarrow> usage_context \<Rightarrow> usage_context res" where
  "usage_apply_entry st side k delta_scaled cap index decimals u =
     (let (row, u1) = load_usage_row st u k;
          usage = (case row of Some r \<Rightarrow> r | None \<Rightarrow> \<lparr>su_supplied_scaled_ray = 0, su_borrowed_scaled_ray = 0\<rparr>) in
      rbind (enforce_spoke_cap side usage delta_scaled cap index decimals) (\<lambda>next_scaled.
      Inr (u1\<lparr>uc_usage := smap_set k (side_set_scaled side next_scaled usage) (uc_usage u1)\<rparr>)))"

definition usage_apply_exit ::
    "ctl_store \<Rightarrow> usage_side \<Rightarrow> hub_asset_key \<Rightarrow> ray \<Rightarrow> usage_context \<Rightarrow> usage_context res" where
  "usage_apply_exit st side k delta_scaled u =
     (if delta_scaled = 0 then Inr u
      else
        (let (row, u1) = load_usage_row st u k in
         case row of
           None \<Rightarrow> Inr u1
         | Some usage \<Rightarrow>
             rbind (unwrap_or_panic (i128_checked_sub (side_scaled side usage) delta_scaled) (Generic MathOverflow))
               (\<lambda>next_scaled.
             rbind (assert_with_error (next_scaled \<ge> 0) (Generic InternalError)) (\<lambda>_.
             Inr (u1\<lparr>uc_usage := smap_set k (side_set_scaled side next_scaled usage) (uc_usage u1)\<rparr>)))))"

section \<open>The context\<close>

definition context_empty :: context_cache where
  "context_empty =
     \<lparr>cx_token_prices = Map.empty, cx_market_indexes = Map.empty, cx_pool_address = None,
      cx_pool_sync_data = Map.empty, cx_spoke_usage = None, cx_spoke_config = None,
      cx_spoke_assets = Map.empty, cx_verified_hubs = Map.empty\<rparr>"

definition upd_ctx :: "(context_cache \<Rightarrow> context_cache) \<Rightarrow> ('w, unit) ctl" where
  "upd_ctx f = fwrite (\<lambda>s. s\<lparr>sy_ctx := f (sy_ctx s)\<rparr>)"

definition read_ctx :: "(context_cache \<Rightarrow> 'a) \<Rightarrow> ('w, 'a) ctl" where
  "read_ctx f = fread (\<lambda>s. f (sy_ctx s))"

definition context_new :: "('w, unit) ctl" where
  "context_new = upd_ctx (\<lambda>_. context_empty)"

definition read_store_res :: "(ctl_store \<Rightarrow> 'a res) \<Rightarrow> ('w, 'a) ctl" where
  "read_store_res f s = rbind (f (sy_store s)) (\<lambda>x. Inr (x, s))"

definition cached_pool_address :: "('w, address) ctl" where
  "cached_pool_address =
     fbind (read_ctx cx_pool_address) (\<lambda>cached.
     case cached of
       Some a \<Rightarrow> fret a
     | None \<Rightarrow>
         fbind (read_store_res get_pool) (\<lambda>a.
         fbind (upd_ctx (\<lambda>c. c\<lparr>cx_pool_address := Some a\<rparr>)) (\<lambda>_. fret a)))"

definition fetch_prices_call :: "'w ctl_externals \<Rightarrow> address list \<Rightarrow> 'w system \<Rightarrow> (address \<rightharpoonup> price_feed) res" where
  "fetch_prices_call ext assets s =
     rbind (get_price_aggregator (sy_store s)) (\<lambda>aggregator.
     rbind (ce_prices ext aggregator assets (sy_world s)) (\<lambda>keyed.
     rfold (\<lambda>a out. case keyed a of
              Some feed \<Rightarrow> Inr (out(a \<mapsto> feed)) | None \<Rightarrow> Inl (Oracle OracleNotConfigured)) assets Map.empty))"

definition fetch_prices :: "'w ctl_externals \<Rightarrow> address list \<Rightarrow> ('w, unit) ctl" where
  "fetch_prices ext assets =
     fbind (read_ctx (\<lambda>c. collect_uncached_keys assets (cx_token_prices c))) (\<lambda>missing.
     if missing = [] then fret ()
     else
       fbind (\<lambda>s. rbind (fetch_prices_call ext missing s) (\<lambda>fetched. Inr (fetched, s))) (\<lambda>fetched.
       upd_ctx (\<lambda>c. c\<lparr>cx_token_prices := cx_token_prices c ++ fetched\<rparr>)))"

definition fetch_market_indexes :: "hub_asset_key list \<Rightarrow> ('w, unit) ctl" where
  "fetch_market_indexes hub_assets =
     fbind (read_ctx (\<lambda>c. collect_uncached_keys hub_assets (cx_market_indexes c))) (\<lambda>missing.
     if missing = [] then fret ()
     else
       fbind cached_pool_address (\<lambda>_.
       fbind (pool_view (\<lambda>h. get_bulk_indexes h missing)) (\<lambda>indexes.
       upd_ctx (\<lambda>c. c\<lparr>cx_market_indexes := cx_market_indexes c ++ map_of (zip missing indexes)\<rparr>))))"

definition load_markets :: "'w ctl_externals \<Rightarrow> hub_asset_key list \<Rightarrow> ('w, unit) ctl" where
  "load_markets ext hub_assets =
     fbind (fetch_prices ext (unique_hub_tokens hub_assets)) (\<lambda>_. fetch_market_indexes hub_assets)"

definition ctx_require_hub_active :: "nat \<Rightarrow> ('w, unit) ctl" where
  "ctx_require_hub_active hub =
     fbind (read_ctx (\<lambda>c. cx_verified_hubs c hub)) (\<lambda>verified.
     if verified \<noteq> None then fret ()
     else
       fbind (read_store_res (\<lambda>st. require_hub_active st hub)) (\<lambda>_.
       upd_ctx (\<lambda>c. c\<lparr>cx_verified_hubs := (cx_verified_hubs c)(hub \<mapsto> True)\<rparr>)))"

definition cached_pool_sync_data :: "hub_asset_key \<Rightarrow> ('w, pool_sync_data) ctl" where
  "cached_pool_sync_data k =
     fbind (read_ctx (\<lambda>c. cx_pool_sync_data c k)) (\<lambda>cached.
     case cached of
       Some data \<Rightarrow> fret data
     | None \<Rightarrow>
         fbind cached_pool_address (\<lambda>_.
         fbind (pool_view (\<lambda>h. get_sync_data h k)) (\<lambda>data.
         fbind (upd_ctx (\<lambda>c. c\<lparr>cx_pool_sync_data := (cx_pool_sync_data c)(k \<mapsto> data)\<rparr>)) (\<lambda>_. fret data))))"

definition put_market_index :: "hub_asset_key \<Rightarrow> market_index \<Rightarrow> ('w, unit) ctl" where
  "put_market_index k ix = upd_ctx (\<lambda>c. c\<lparr>cx_market_indexes := (cx_market_indexes c)(k \<mapsto> ix)\<rparr>)"

definition cached_market_index :: "hub_asset_key \<Rightarrow> ('w, market_index) ctl" where
  "cached_market_index k =
     fbind (read_ctx (\<lambda>c. cx_market_indexes c k)) (\<lambda>cached.
     case cached of
       Some ix \<Rightarrow> fret ix
     | None \<Rightarrow>
         fbind cached_pool_address (\<lambda>_.
         fbind (pool_view (\<lambda>h. get_bulk_indexes h [k])) (\<lambda>indexes.
         let ix = indexes ! 0 in
         fbind (put_market_index k ix) (\<lambda>_. fret ix))))"

definition cached_price :: "address \<Rightarrow> ('w, price_feed) ctl" where
  "cached_price a =
     fbind (read_ctx (\<lambda>c. cx_token_prices c a)) (\<lambda>p. flift (unwrap_or_panic p (Oracle OracleNotConfigured)))"

definition ensure_spoke_context :: "nat \<Rightarrow> ('w, unit) ctl" where
  "ensure_spoke_context spoke_id =
     fbind (read_ctx cx_spoke_usage) (\<lambda>usage.
     case usage of
       Some u \<Rightarrow> fassert (uc_spoke_id u = spoke_id) (Spoke SpokeMismatch)
     | None \<Rightarrow> upd_ctx (\<lambda>c. c\<lparr>cx_spoke_usage := Some (usage_context_new spoke_id)\<rparr>))"

definition reset_spoke_context :: "('w, unit) ctl" where
  "reset_spoke_context =
     upd_ctx (\<lambda>c. c\<lparr>cx_spoke_usage := None, cx_spoke_config := None, cx_spoke_assets := Map.empty\<rparr>)"

definition cached_spoke_asset :: "nat \<Rightarrow> hub_asset_key \<Rightarrow> ('w, spoke_asset_config option) ctl" where
  "cached_spoke_asset spoke_id k =
     fbind (ensure_spoke_context spoke_id) (\<lambda>_.
     fbind (read_ctx (\<lambda>c. cx_spoke_assets c k)) (\<lambda>cached.
     case cached of
       Some cfg \<Rightarrow> fret (Some cfg)
     | None \<Rightarrow>
         fbind (read_store (\<lambda>st. get_spoke_asset st spoke_id k)) (\<lambda>loaded.
         case loaded of
           None \<Rightarrow> fret None
         | Some cfg \<Rightarrow>
             fbind (upd_ctx (\<lambda>c. c\<lparr>cx_spoke_assets := (cx_spoke_assets c)(k \<mapsto> cfg)\<rparr>)) (\<lambda>_.
             fret (Some cfg)))))"

definition require_spoke_asset_config :: "nat \<Rightarrow> hub_asset_key \<Rightarrow> ('w, spoke_asset_config) ctl" where
  "require_spoke_asset_config spoke_id k =
     fbind (cached_spoke_asset spoke_id k) (\<lambda>cfg. flift (unwrap_or_panic cfg (Spoke AssetNotInSpoke)))"

definition require_spoke_asset :: "nat \<Rightarrow> hub_asset_key \<Rightarrow> ('w, asset_config) ctl" where
  "require_spoke_asset spoke_id k =
     fbind (require_spoke_asset_config spoke_id k) (\<lambda>cfg. fret (asset_config_of cfg))"

definition ctx_spoke_config :: "nat \<Rightarrow> ('w, spoke_config) ctl" where
  "ctx_spoke_config spoke_id =
     fbind (ensure_spoke_context spoke_id) (\<lambda>_.
     fbind (read_ctx cx_spoke_config) (\<lambda>cached.
     case cached of
       Some cfg \<Rightarrow> fret cfg
     | None \<Rightarrow>
         fbind (read_store_res (\<lambda>st. get_spoke st spoke_id)) (\<lambda>cfg.
         fbind (upd_ctx (\<lambda>c. c\<lparr>cx_spoke_config := Some cfg\<rparr>)) (\<lambda>_. fret cfg))))"

definition active_spoke :: "nat \<Rightarrow> ('w, spoke_config) ctl" where
  "active_spoke spoke_id =
     fbind (ctx_spoke_config spoke_id) (\<lambda>spoke.
     fbind (fassert (\<not> sc_is_deprecated spoke) (Spoke SpokeDeprecated)) (\<lambda>_. fret spoke))"

definition require_listed_active_config :: "nat \<Rightarrow> hub_asset_key \<Rightarrow> ('w, asset_config) ctl" where
  "require_listed_active_config spoke_id k =
     fbind (active_spoke spoke_id) (\<lambda>_. require_spoke_asset spoke_id k)"

definition modify_spoke_usage :: "nat \<Rightarrow> (ctl_store \<Rightarrow> usage_context \<Rightarrow> usage_context res) \<Rightarrow> ('w, unit) ctl" where
  "modify_spoke_usage spoke_id f =
     fbind (ensure_spoke_context spoke_id) (\<lambda>_.
     fbind (read_ctx cx_spoke_usage) (\<lambda>usage.
     fbind (flift (unwrap_or_panic usage (Generic InternalError))) (\<lambda>u.
     fbind (read_store_res (\<lambda>st. f st u)) (\<lambda>u'.
     upd_ctx (\<lambda>c. c\<lparr>cx_spoke_usage := Some u'\<rparr>)))))"

definition apply_spoke_entry ::
    "nat \<Rightarrow> usage_side \<Rightarrow> hub_asset_key \<Rightarrow> ray \<Rightarrow> market_index \<Rightarrow> nat \<Rightarrow> ('w, unit) ctl" where
  "apply_spoke_entry spoke_id side k delta_scaled ix decimals =
     fbind (require_spoke_asset_config spoke_id k) (\<lambda>cfg.
     modify_spoke_usage spoke_id
       (\<lambda>st. usage_apply_entry st side k delta_scaled (side_cap side cfg) (side_index side ix) decimals))"

definition apply_spoke_exit :: "nat \<Rightarrow> usage_side \<Rightarrow> hub_asset_key \<Rightarrow> ray \<Rightarrow> ('w, unit) ctl" where
  "apply_spoke_exit spoke_id side k delta_scaled =
     modify_spoke_usage spoke_id (\<lambda>st. usage_apply_exit st side k delta_scaled)"

definition persist_spoke_usage :: "('w, unit) ctl" where
  "persist_spoke_usage =
     fbind (read_ctx cx_spoke_usage) (\<lambda>usage.
     case usage of None \<Rightarrow> fret () | Some u \<Rightarrow> upd_store (usage_persist u))"

end
