(* ===== verification/Controller_Account.thy ===== *)
theory Controller_Account
  imports Controller_Context
begin

text \<open>
  \<^verbatim>\<open>src/contracts/controller/src/account.rs\<close> and \<^verbatim>\<open>payments.rs\<close> with
  \<^verbatim>\<open>src/common/src/token.rs\<close>: account creation and removal together with the account's NFT, ownership and
  delegation, position updates, measured transfers and payment aggregation.
\<close>

section \<open>Creation and removal\<close>

datatype spoke_admission = ActiveOnly | AllowDeprecated

definition create_account_with ::
    "'w ctl_externals \<Rightarrow> address \<Rightarrow> nat \<Rightarrow> position_mode \<Rightarrow> spoke_admission \<Rightarrow> ('w, nat \<times> account) ctl" where
  "create_account_with ext owner spoke_id mode admission =
     fbind (fassert (spoke_id \<ge> 1) (Spoke SpokeNotFound)) (\<lambda>_.
     fbind (case admission of
              ActiveOnly \<Rightarrow> active_spoke spoke_id
            | AllowDeprecated \<Rightarrow> ctx_spoke_config spoke_id) (\<lambda>_.
     fbind (read_store_res get_position_nft) (\<lambda>nft.
     fbind (world_call (ce_nft_mint ext nft owner)) (\<lambda>account_id.
     fbind (upd_store (set_account_meta account_id \<lparr>am_spoke_id = spoke_id, am_mode = mode\<rparr>)) (\<lambda>_.
     fret (account_id,
       \<lparr>acc_owner = owner, acc_spoke_id = spoke_id, acc_mode = mode,
        acc_supply_positions = [], acc_borrow_positions = []\<rparr>))))))"

definition create_account ::
    "'w ctl_externals \<Rightarrow> address \<Rightarrow> nat \<Rightarrow> position_mode \<Rightarrow> ('w, nat \<times> account) ctl" where
  "create_account ext owner spoke_id mode = create_account_with ext owner spoke_id mode ActiveOnly"

datatype account_guard = Guard_Supply | Guard_Migrate | Guard_Multiply

definition is_owner_or_delegate :: "nat \<Rightarrow> address \<Rightarrow> address \<Rightarrow> ctl_store \<Rightarrow> bool" where
  "is_owner_or_delegate account_id caller owner st \<longleftrightarrow>
     caller = owner \<or>
     get_position_manager st caller = Some True \<and> caller \<in> set (get_delegates st account_id owner)"

definition require_owner_or_delegate :: "nat \<Rightarrow> address \<Rightarrow> address \<Rightarrow> ('w, unit) ctl" where
  "require_owner_or_delegate account_id caller owner =
     fbind (read_store (is_owner_or_delegate account_id caller owner)) (\<lambda>allowed.
     fassert allowed (Generic NotAuthorized))"

definition require_account_owner :: "'w ctl_externals \<Rightarrow> nat \<Rightarrow> address \<Rightarrow> ('w, account_meta) ctl" where
  "require_account_owner ext account_id caller =
     fbind (read_store_res (\<lambda>st. get_account_meta st account_id)) (\<lambda>meta.
     fbind (\<lambda>s. rbind (account_owner ext s account_id) (\<lambda>o'. Inr (o', s))) (\<lambda>owner.
     fbind (fassert (owner = caller) (Generic AccountNotInMarket)) (\<lambda>_.
     fret meta)))"

definition require_spoke_match :: "account \<Rightarrow> nat \<Rightarrow> ('w, unit) ctl" where
  "require_spoke_match a spoke_id = fassert (spoke_id = acc_spoke_id a) (Spoke SpokeMismatch)"

definition load_or_create_account ::
    "'w ctl_externals \<Rightarrow> address \<Rightarrow> nat \<Rightarrow> nat \<Rightarrow> position_mode \<Rightarrow> account_guard \<Rightarrow> ('w, nat \<times> account) ctl" where
  "load_or_create_account ext caller account_id spoke_id mode guard =
     (if account_id = 0 then create_account ext caller spoke_id mode
      else
        fbind (get_account ext account_id) (\<lambda>a.
        fbind (case guard of
                 Guard_Supply \<Rightarrow> require_spoke_match a spoke_id
               | Guard_Migrate \<Rightarrow>
                   fbind (require_owner_or_delegate account_id caller (acc_owner a)) (\<lambda>_.
                   require_spoke_match a spoke_id)
               | Guard_Multiply \<Rightarrow>
                   fbind (require_owner_or_delegate account_id caller (acc_owner a)) (\<lambda>_.
                   fbind (require_spoke_match a spoke_id) (\<lambda>_.
                   fassert (acc_mode a = mode) (Generic AccountModeMismatch)))) (\<lambda>_.
        fret (account_id, a))))"

definition nft_burn_call :: "'w ctl_externals \<Rightarrow> address \<Rightarrow> nat \<Rightarrow> ('w, unit) ctl" where
  "nft_burn_call ext nft account_id =
     fbind (fassert (account_id \<le> u32_max) (Generic AccountNotFound)) (\<lambda>_.
     world_call (\<lambda>w. rbind (ce_nft_burn ext nft account_id w) (\<lambda>w'. Inr ((), w'))))"

definition remove_account_and_burn_nft :: "'w ctl_externals \<Rightarrow> nat \<Rightarrow> ('w, unit) ctl" where
  "remove_account_and_burn_nft ext account_id =
     fbind (upd_store (remove_account_entry account_id)) (\<lambda>_.
     fbind (read_store_res get_position_nft) (\<lambda>nft.
     nft_burn_call ext nft account_id))"

definition cleanup_account_if_empty :: "'w ctl_externals \<Rightarrow> account \<Rightarrow> nat \<Rightarrow> ('w, unit) ctl" where
  "cleanup_account_if_empty ext a account_id =
     (if account_is_empty a then remove_account_and_burn_nft ext account_id else fret ())"

section \<open>Positions in memory\<close>

definition upsert_or_remove_position :: "('k::linorder, 'v) smap \<Rightarrow> 'k \<Rightarrow> 'v option \<Rightarrow> ('k, 'v) smap" where
  "upsert_or_remove_position m k v = (case v of None \<Rightarrow> smap_remove k m | Some v \<Rightarrow> smap_set k v m)"

definition update_or_remove_supply_position :: "account \<Rightarrow> hub_asset_key \<Rightarrow> account_position \<Rightarrow> account" where
  "update_or_remove_supply_position a k position =
     a\<lparr>acc_supply_positions := upsert_or_remove_position (acc_supply_positions a) k
         (if ap_scaled_amount position \<noteq> 0 then Some (account_position_to_raw position) else None)\<rparr>"

definition update_or_remove_debt_position :: "account \<Rightarrow> hub_asset_key \<Rightarrow> scaled_position_raw \<Rightarrow> account" where
  "update_or_remove_debt_position a k position =
     a\<lparr>acc_borrow_positions := upsert_or_remove_position (acc_borrow_positions a) k
         (if scaled_amount position \<noteq> 0 then Some position else None)\<rparr>"

lemma upsert_is_smap: "upsert_or_remove_position m k v = smap.upsert k v m"
  by (simp add: upsert_or_remove_position_def smap.upsert_def)

section \<open>Delegation\<close>

definition set_account_delegate ::
    "'w ctl_externals \<Rightarrow> address \<Rightarrow> nat \<Rightarrow> address \<Rightarrow> bool \<Rightarrow> ('w, unit) ctl" where
  "set_account_delegate ext caller account_id delegate add =
     fbind (require_auth caller) (\<lambda>_.
     fbind (require_account_owner ext account_id caller) (\<lambda>_.
     if add then
       fbind (read_store (\<lambda>st. get_position_manager st delegate)) (\<lambda>manager.
       fbind (fassert (manager = Some True) (Generic NotAuthorized)) (\<lambda>_.
       fbind (read_store_res (storage_add_delegate account_id caller delegate)) (\<lambda>(changed, st).
       upd_store (\<lambda>_. st))))
     else
       fbind (read_store (storage_remove_delegate account_id caller delegate)) (\<lambda>(changed, st).
       upd_store (\<lambda>_. st))))"

definition add_delegate :: "'w ctl_externals \<Rightarrow> address \<Rightarrow> nat \<Rightarrow> address \<Rightarrow> ('w, unit) ctl" where
  "add_delegate ext caller account_id delegate = set_account_delegate ext caller account_id delegate True"

definition remove_delegate :: "'w ctl_externals \<Rightarrow> address \<Rightarrow> nat \<Rightarrow> address \<Rightarrow> ('w, unit) ctl" where
  "remove_delegate ext caller account_id delegate = set_account_delegate ext caller account_id delegate False"

section \<open>Payments\<close>

definition transfer_amount_measured ::
    "'w ctl_externals \<Rightarrow> address \<Rightarrow> address \<Rightarrow> address \<Rightarrow> int \<Rightarrow> error \<Rightarrow> ('w, int) ctl" where
  "transfer_amount_measured ext tok from_addr to_addr amount non_positive_error =
     fbind (fassert (amount > 0) non_positive_error) (\<lambda>_.
     world_call (\<lambda>w.
       rbind (token_balance (ce_base ext) tok to_addr w) (\<lambda>pre.
       rbind (token_transfer (ce_base ext) tok from_addr to_addr amount w) (\<lambda>w'.
       rbind (token_balance (ce_base ext) tok to_addr w') (\<lambda>post.
       rbind (unwrap_or_panic (i128_checked_sub post pre) (Generic AmountMustBePositive)) (\<lambda>received.
       Inr (received, w')))))))"

definition balance_delta_since :: "'w ctl_externals \<Rightarrow> address \<Rightarrow> address \<Rightarrow> int \<Rightarrow> ('w, int) ctl" where
  "balance_delta_since ext tok holder before s =
     rbind (token_balance (ce_base ext) tok holder (sy_world s)) (\<lambda>b.
     rbind (unwrap_or_panic (i128_checked_sub b before) (Generic InternalError)) (\<lambda>d. Inr (d, s)))"

definition refund_controller_balance_delta ::
    "'w ctl_externals \<Rightarrow> address \<Rightarrow> int \<Rightarrow> address \<Rightarrow> ('w, unit) ctl" where
  "refund_controller_balance_delta ext tok balance_before refund_to =
     fbind (fread sy_self) (\<lambda>controller.
     fbind (balance_delta_since ext tok controller balance_before) (\<lambda>excess.
     if excess > 0 then
       world_call (\<lambda>w. rbind (token_transfer (ce_base ext) tok controller refund_to excess w) (\<lambda>w'. Inr ((), w')))
     else fret ()))"

datatype zero_leg = Rejected | MeansAll

definition aggregate_payment_amount :: "int option \<Rightarrow> int \<Rightarrow> zero_leg \<Rightarrow> int res" where
  "aggregate_payment_amount previous amount zero =
     rbind (require_nonneg_amount amount) (\<lambda>_.
     if zero = Rejected \<and> amount = 0 then Inl (Generic AmountMustBePositive)
     else if zero = MeansAll \<and> amount = 0 \<and> (previous = None \<or> previous = Some 0) then Inr 0
     else if zero = MeansAll \<and> (amount = 0 \<and> previous \<noteq> None \<or> previous = Some 0) then Inl (Generic InvalidPayments)
     else unwrap_or_panic (i128_checked_add (case previous of Some p \<Rightarrow> p | None \<Rightarrow> 0) amount) (Generic MathOverflow))"

definition aggregate_step ::
    "zero_leg \<Rightarrow> hub_payment \<Rightarrow> hub_asset_key list \<times> (hub_asset_key \<rightharpoonup> int)
      \<Rightarrow> (hub_asset_key list \<times> (hub_asset_key \<rightharpoonup> int)) res" where
  "aggregate_step zero payment acc =
     (case payment of (k, amount) \<Rightarrow>
      case acc of (order, totals) \<Rightarrow>
        rbind (aggregate_payment_amount (totals k) amount zero) (\<lambda>next_amount.
        Inr (if totals k = None then order @ [k] else order, totals(k \<mapsto> next_amount))))"

definition aggregate_payments :: "hub_payment list \<Rightarrow> zero_leg \<Rightarrow> hub_payment list res" where
  "aggregate_payments payments zero =
     rbind (require_non_empty_payments payments) (\<lambda>_.
     rbind (rfold (aggregate_step zero) payments ([], Map.empty)) (\<lambda>(order, totals).
     rfold (\<lambda>k result. rbind (expect_invariant (totals k)) (\<lambda>amount. Inr (result @ [(k, amount)]))) order []))"

definition aggregate_positive_payments :: "hub_payment list \<Rightarrow> hub_payment list res" where
  "aggregate_positive_payments payments = aggregate_payments payments Rejected"

end
