(* ===== verification/Controller_Risk.thy ===== *)
theory Controller_Risk
  imports Controller_Account
begin

text \<open>
  \<^verbatim>\<open>src/contracts/controller/src/risk/{totals,params,validation}.rs\<close>: the valuation of an account
  (collateral rounded down, debt rounded up), the refresh of stored risk parameters and its gate, and
  the gates every risk-increasing flow ends with.
\<close>

section \<open>Totals\<close>

definition portfolio_hub_keys :: "hub_asset_key list \<Rightarrow> hub_asset_key list \<Rightarrow> hub_asset_key list" where
  "portfolio_hub_keys supply_keys borrow_keys = supply_keys @ borrow_keys"

definition account_price_assets :: "account \<Rightarrow> address list \<Rightarrow> address list" where
  "account_price_assets a extras =
     foldl push_unique_address
       (foldl (\<lambda>out k. push_unique_address out (asset k))
         (foldl (\<lambda>out k. push_unique_address out (asset k)) [] (smap_keys (acc_supply_positions a)))
         (smap_keys (acc_borrow_positions a)))
       extras"

definition sum_debt_usd_loaded ::
    "(hub_asset_key, scaled_position_raw) smap \<Rightarrow> (ray \<Rightarrow> ray \<Rightarrow> wad \<Rightarrow> wad res) \<Rightarrow> ('w, wad) ctl" where
  "sum_debt_usd_loaded borrow_positions value =
     ffold (\<lambda>(k, position) total.
       fbind (cached_price (asset k)) (\<lambda>feed.
       fbind (cached_market_index k) (\<lambda>ix.
       fbind (flift (value (scaled_amount position) (mi_borrow_index ix) (pf_price feed))) (\<lambda>v.
       flift (wad_checked_add total v))))) borrow_positions 0"

definition sum_debt_usd :: "'w ctl_externals \<Rightarrow> (hub_asset_key, scaled_position_raw) smap \<Rightarrow> ('w, wad) ctl" where
  "sum_debt_usd ext borrow_positions =
     fbind (load_markets ext (smap_keys borrow_positions)) (\<lambda>_.
     sum_debt_usd_loaded borrow_positions position_value)"

definition effective_ltv :: "account_position \<Rightarrow> bps" where
  "effective_ltv position = min (ap_loan_to_value position) (ap_liquidation_threshold position)"

definition calculate_ltv_collateral_wad ::
    "'w ctl_externals \<Rightarrow> (hub_asset_key, account_position_raw) smap \<Rightarrow> ('w, wad) ctl" where
  "calculate_ltv_collateral_wad ext supply_positions =
     fbind (load_markets ext (smap_keys supply_positions)) (\<lambda>_.
     ffold (\<lambda>(k, position) ltv.
       fbind (cached_price (asset k)) (\<lambda>feed.
       fbind (cached_market_index k) (\<lambda>ix.
       fbind (flift (position_value_floor (ap_scaled_amount position) (mi_supply_index ix) (pf_price feed))) (\<lambda>v.
       fbind (flift (bps_apply_to_wad_floor (effective_ltv position) v)) (\<lambda>w.
       flift (wad_checked_add ltv w)))))) (iter_typed_positions supply_positions) 0)"

record account_risk_totals =
  rt_total_collateral :: wad
  rt_ltv_collateral :: wad
  rt_weighted_collateral :: wad
  rt_total_debt :: wad
  rt_health_factor :: wad

definition collateral_step ::
    "hub_asset_key \<times> account_position \<Rightarrow> wad \<times> wad \<times> wad \<Rightarrow> ('w, wad \<times> wad \<times> wad) ctl" where
  "collateral_step leg acc =
     (case leg of (k, position) \<Rightarrow> case acc of (total_collateral, ltv_collateral, weighted_collateral) \<Rightarrow>
       fbind (cached_price (asset k)) (\<lambda>feed.
       fbind (cached_market_index k) (\<lambda>ix.
       fbind (flift (position_value (ap_scaled_amount position) (mi_supply_index ix) (pf_price feed))) (\<lambda>v.
       fbind (flift (position_value_floor (ap_scaled_amount position) (mi_supply_index ix) (pf_price feed))) (\<lambda>gate_value.
       fbind (flift (wad_checked_add total_collateral v)) (\<lambda>total'.
       fbind (flift (bps_apply_to_wad_floor (effective_ltv position) gate_value)) (\<lambda>l.
       fbind (flift (wad_checked_add ltv_collateral l)) (\<lambda>ltv'.
       fbind (flift (bps_apply_to_wad_floor (ap_liquidation_threshold position) gate_value)) (\<lambda>w.
       fbind (flift (wad_checked_add weighted_collateral w)) (\<lambda>weighted'.
       fret (total', ltv', weighted')))))))))))"

definition calculate_account_risk_totals ::
    "'w ctl_externals \<Rightarrow> (hub_asset_key, account_position_raw) smap
      \<Rightarrow> (hub_asset_key, scaled_position_raw) smap \<Rightarrow> ('w, account_risk_totals) ctl" where
  "calculate_account_risk_totals ext supply_positions borrow_positions =
     fbind (load_markets ext (portfolio_hub_keys (smap_keys supply_positions) (smap_keys borrow_positions))) (\<lambda>_.
     fbind (ffold collateral_step (iter_typed_positions supply_positions) (0, 0, 0))
       (\<lambda>(total_collateral, ltv_collateral, weighted_collateral).
     fbind (sum_debt_usd_loaded borrow_positions position_value_ceil) (\<lambda>total_debt.
     fbind (if total_debt = 0 then fret i128_max
            else flift (wad_div_floor_saturating weighted_collateral total_debt)) (\<lambda>health_factor.
     fret \<lparr>rt_total_collateral = total_collateral, rt_ltv_collateral = ltv_collateral,
           rt_weighted_collateral = weighted_collateral, rt_total_debt = total_debt,
           rt_health_factor = health_factor\<rparr>))))"

section \<open>Validation\<close>

definition require_not_flash_loaning :: "('w, unit) ctl" where
  "require_not_flash_loaning =
     fbind (read_store cs_flash_loan_ongoing) (\<lambda>ongoing. fassert (\<not> ongoing) (FlashLoan FlashLoanOngoing))"

definition require_authorized_caller :: "address \<Rightarrow> ('w, unit) ctl" where
  "require_authorized_caller caller = fbind (require_auth caller) (\<lambda>_. require_not_flash_loaning)"

definition require_whole_unit_collateral_floor :: "account \<Rightarrow> ('w, unit) ctl" where
  "require_whole_unit_collateral_floor a =
     ffold (\<lambda>(k, position) _.
       fbind (cached_price (asset k)) (\<lambda>feed.
       if pf_asset_decimals feed \<ge> MIN_BORROWABLE_ASSET_DECIMALS then fret ()
       else
         fbind (cached_market_index k) (\<lambda>ix.
         fbind (flift (ray_mul (ap_scaled_amount position) (mi_supply_index ix))) (\<lambda>held.
         fbind (flift (ray_to_asset_floor held (pf_asset_decimals feed))) (\<lambda>units.
         fassert (units \<ge> MIN_WHOLE_UNIT_COLLATERAL) (Collateral MinBorrowCollateralNotMet))))))
     (iter_typed_positions (acc_supply_positions a)) ()"

definition require_post_pool_risk_gates :: "'w ctl_externals \<Rightarrow> account \<Rightarrow> ('w, unit) ctl" where
  "require_post_pool_risk_gates ext a =
     (if debt_free a then fret ()
      else
        fbind (calculate_account_risk_totals ext (acc_supply_positions a) (acc_borrow_positions a)) (\<lambda>totals.
        fbind (fassert (rt_ltv_collateral totals \<ge> rt_total_debt totals) (Collateral InsufficientCollateral)) (\<lambda>_.
        fbind (fassert (rt_health_factor totals \<ge> WAD) (Collateral InsufficientCollateral)) (\<lambda>_.
        fbind (read_store get_min_borrow_collateral_usd_wad) (\<lambda>floor_wad.
        fbind (fassert (\<not> (floor_wad \<noteq> 0 \<and> rt_ltv_collateral totals < floor_wad))
                 (Collateral MinBorrowCollateralNotMet)) (\<lambda>_.
        require_whole_unit_collateral_floor a))))))"

definition position_present :: "account \<Rightarrow> account_position_type \<Rightarrow> hub_asset_key \<Rightarrow> bool" where
  "position_present a position_type k =
     (case position_type of
        Deposit \<Rightarrow> smap_contains (acc_supply_positions a) k
      | Borrow \<Rightarrow> smap_contains (acc_borrow_positions a) k)"

definition new_position_keys :: "account \<Rightarrow> account_position_type \<Rightarrow> hub_payment list \<Rightarrow> hub_asset_key list" where
  "new_position_keys a position_type aggregated =
     filter (\<lambda>k. \<not> position_present a position_type k) (remdups (map fst aggregated))"

definition validate_bulk_position_limits ::
    "account \<Rightarrow> account_position_type \<Rightarrow> hub_payment list \<Rightarrow> ('w, unit) ctl" where
  "validate_bulk_position_limits a position_type aggregated =
     fbind (read_store_res get_position_limits) (\<lambda>limits.
     let (current_count, max_allowed) =
           (case position_type of
              Deposit \<Rightarrow> (length (acc_supply_positions a), pl_max_supply_positions limits)
            | Borrow \<Rightarrow> (length (acc_borrow_positions a), pl_max_borrow_positions limits));
         new_positions_count = length (new_position_keys a position_type aggregated) in
     if new_positions_count = 0 then fret ()
     else
       fbind (fassert (current_count + new_positions_count \<le> u32_max) (Generic MathOverflow)) (\<lambda>_.
       fassert (current_count + new_positions_count \<le> max_allowed) (Collateral PositionLimitExceeded)))"

definition require_whole_unit_isolation :: "account \<Rightarrow> hub_payment list \<Rightarrow> ('w, unit) ctl" where
  "require_whole_unit_isolation a aggregated =
     (let existing = smap_keys (acc_supply_positions a);
          checked = foldl (\<lambda>out (k, _). if k \<notin> set existing \<and> k \<notin> set out then out @ [k] else out) [] aggregated in
      if checked = [] \<or> length existing + length checked \<le> 1 then fret ()
      else
        ffold (\<lambda>k _.
          fbind (cached_pool_sync_data k) (\<lambda>data.
          fassert (mpr_asset_decimals (sync_params data) \<ge> MIN_BORROWABLE_ASSET_DECIMALS)
            (Collateral PositionLimitExceeded)))
        (if length existing = 1 then checked @ [existing ! 0] else checked) ())"

section \<open>Risk parameters\<close>

datatype risk_refresh_scope = LtvOnly | FullTuple

definition favors_liquidator :: "account_position \<Rightarrow> asset_config \<Rightarrow> bool" where
  "favors_liquidator position config \<longleftrightarrow>
     ac_liquidation_threshold config < ap_liquidation_threshold position \<or>
     ac_liquidation_bonus config > ap_liquidation_bonus position \<or>
     ac_liquidation_fees config < ap_liquidation_fees position"

definition clears_min_hf ::
    "'w ctl_externals \<Rightarrow> account \<Rightarrow> hub_asset_key \<Rightarrow> account_position \<Rightarrow> bps \<Rightarrow> ('w, bool) ctl" where
  "clears_min_hf ext a k position new_lt =
     (let hypothetical = position\<lparr>ap_liquidation_threshold := new_lt\<rparr>;
          supply_positions = smap_set k (account_position_to_raw hypothetical) (acc_supply_positions a) in
      fbind (calculate_account_risk_totals ext supply_positions (acc_borrow_positions a)) (\<lambda>totals.
      fret (rt_health_factor totals \<ge> THRESHOLD_UPDATE_MIN_HF_RAW)))"

definition apply_gated_liquidation_params ::
    "'w ctl_externals \<Rightarrow> account \<Rightarrow> hub_asset_key \<Rightarrow> account_position \<Rightarrow> asset_config \<Rightarrow> ('w, account_position) ctl" where
  "apply_gated_liquidation_params ext a k position config =
     fbind (if favors_liquidator position config \<and> \<not> debt_free a
            then fbind (clears_min_hf ext a k position (ac_liquidation_threshold config)) (\<lambda>clears. fret (\<not> clears))
            else fret False) (\<lambda>blocked.
     if blocked then fret position
     else fret (position\<lparr>ap_liquidation_threshold := ac_liquidation_threshold config,
                         ap_liquidation_bonus := ac_liquidation_bonus config,
                         ap_liquidation_fees := ac_liquidation_fees config\<rparr>))"

definition refresh_supply_risk_params ::
    "'w ctl_externals \<Rightarrow> account \<Rightarrow> hub_asset_key \<Rightarrow> account_position \<Rightarrow> asset_config \<Rightarrow> risk_refresh_scope
      \<Rightarrow> ('w, bool \<times> account_position) ctl" where
  "refresh_supply_risk_params ext a k before config scope =
     (let position = before\<lparr>ap_loan_to_value := ac_loan_to_value config\<rparr> in
      fbind (if scope = FullTuple then apply_gated_liquidation_params ext a k position config
             else fret position) (\<lambda>position'.
      fret (position' \<noteq> before, position')))"

definition restamp_step ::
    "hub_asset_key list \<Rightarrow> hub_asset_key \<Rightarrow> bool \<times> account \<Rightarrow> ('w, bool \<times> account) ctl" where
  "restamp_step keys k acc =
     (case acc of (changed, a) \<Rightarrow>
      fbind (cached_spoke_asset (acc_spoke_id a) k) (\<lambda>listed.
      case listed of
        None \<Rightarrow> fret (changed, a)
      | Some cfg \<Rightarrow>
          (case smap_get (acc_supply_positions a) k of
             None \<Rightarrow> fret (changed, a)
           | Some raw \<Rightarrow>
               (let config = asset_config_of cfg; position = account_position_of_raw raw in
                if ap_loan_to_value position = ac_loan_to_value config then fret (changed, a)
                else
                  (let a' = update_or_remove_supply_position a k
                              (position\<lparr>ap_loan_to_value := ac_loan_to_value config\<rparr>) in
                   fbind (if \<not> changed
                          then fetch_market_indexes (portfolio_hub_keys keys (smap_keys (acc_borrow_positions a')))
                          else fret ()) (\<lambda>_.
                   fbind (cached_market_index k) (\<lambda>_.
                   fret (True, a'))))))))"

definition restamp_listed_supply_ltv :: "account \<Rightarrow> ('w, bool \<times> account) ctl" where
  "restamp_listed_supply_ltv a =
     (let keys = smap_keys (acc_supply_positions a) in ffold (restamp_step keys) keys (False, a))"

definition sync_threshold_step ::
    "'w ctl_externals \<Rightarrow> risk_refresh_scope \<Rightarrow> hub_asset_key \<Rightarrow> bool \<times> account \<Rightarrow> ('w, bool \<times> account) ctl" where
  "sync_threshold_step ext scope k acc =
     (case acc of (any_changed, a) \<Rightarrow>
      fbind (cached_spoke_asset (acc_spoke_id a) k) (\<lambda>listed.
      case listed of
        None \<Rightarrow> fret (any_changed, a)
      | Some cfg \<Rightarrow>
          fbind (flift (expect_invariant (smap_get (acc_supply_positions a) k))) (\<lambda>raw.
          fbind (refresh_supply_risk_params ext a k (account_position_of_raw raw) (asset_config_of cfg) scope)
            (\<lambda>(changed, updated).
          if \<not> changed then fret (any_changed, a)
          else
            fbind (cached_market_index k) (\<lambda>_.
            fret (True, update_or_remove_supply_position a k updated))))))"

definition sync_account_thresholds :: "'w ctl_externals \<Rightarrow> risk_refresh_scope \<Rightarrow> nat \<Rightarrow> ('w, unit) ctl" where
  "sync_account_thresholds ext scope account_id s =
     (case try_get_account_meta (sy_store s) account_id of
        None \<Rightarrow> Inr ((), s)
      | Some meta \<Rightarrow>
          (let supply_positions = get_supply_positions (sy_store s) account_id in
           if supply_positions = [] then Inr ((), s)
           else
             (case try_account_owner ext s account_id of
                None \<Rightarrow> Inr ((), s)
              | Some owner \<Rightarrow>
                  (let full_tuple = scope = FullTuple;
                       borrow_positions = (if full_tuple then get_debt_positions (sy_store s) account_id else []);
                       a = account_from_parts owner meta supply_positions borrow_positions in
                   fbind (ffold (sync_threshold_step ext scope) (smap_keys supply_positions) (False, a))
                     (\<lambda>(any_changed, a').
                   fbind (if any_changed then upd_store (set_supply_positions account_id (acc_supply_positions a'))
                          else fret ()) (\<lambda>_.
                   if full_tuple then
                     fbind (calculate_account_risk_totals ext (acc_supply_positions a') (acc_borrow_positions a')) (\<lambda>totals.
                     fassert (rt_health_factor totals \<ge> THRESHOLD_UPDATE_MIN_HF_RAW) (Collateral HealthFactorTooLow))
                   else fret ())) s))))"

definition update_account_threshold :: "'w ctl_externals \<Rightarrow> address \<Rightarrow> bool \<Rightarrow> nat list \<Rightarrow> ('w, unit) ctl" where
  "update_account_threshold ext caller has_risks account_ids =
     fbind (require_authorized_caller caller) (\<lambda>_.
     let scope = (if has_risks then FullTuple else LtvOnly) in
     fbind context_new (\<lambda>_.
     ffold (\<lambda>account_id _.
       fbind reset_spoke_context (\<lambda>_. sync_account_thresholds ext scope account_id)) account_ids ()))"

end
