(* ===== verification/Controller_Positions.thy ===== *)
theory Controller_Positions
  imports Controller_Risk
begin

text \<open>
  \<^verbatim>\<open>src/contracts/controller/src/positions/{mod,supply,debt}.rs\<close>: the gates of a flow, the merge of
  the pool's results into the account, spoke usage, persistence, and the four user flows supply, borrow,
  withdraw and repay, with the pool called through \<open>pool_call\<close>.
\<close>

section \<open>Shared gates and merging (positions/mod.rs)\<close>

definition require_external_recipient :: "address \<Rightarrow> ('w, unit) ctl" where
  "require_external_recipient recipient =
     fbind cached_pool_address (\<lambda>pool.
     fbind (fread sy_self) (\<lambda>self.
     fassert (recipient \<noteq> self \<and> recipient \<noteq> pool) (FlashLoan InvalidFlashloanReceiver)))"

record leg_outcome =
  lo_new_scaled :: ray
  lo_market_index :: market_index
  lo_amount :: int

definition leg_outcome_of :: "pool_position_mutation \<Rightarrow> leg_outcome" where
  "leg_outcome_of m =
     \<lparr>lo_new_scaled = scaled_amount (ppm_position m), lo_market_index = ppm_market_index m,
      lo_amount = ppm_actual_amount m\<rparr>"

definition for_each_leg :: "'e list \<Rightarrow> 'r list \<Rightarrow> ('e \<times> 'r \<Rightarrow> 'b \<Rightarrow> ('w, 'b) ctl) \<Rightarrow> 'b \<Rightarrow> ('w, 'b) ctl" where
  "for_each_leg entries results f acc =
     fbind (fassert (length results = length entries) (Generic InternalError)) (\<lambda>_.
     ffold f (zip entries results) acc)"

definition enforce_post_pool_solvency :: "'w ctl_externals \<Rightarrow> account \<Rightarrow> ('w, bool \<times> account) ctl" where
  "enforce_post_pool_solvency ext a =
     fbind (restamp_listed_supply_ltv a) (\<lambda>(restamped, a').
     fbind (require_post_pool_risk_gates ext a') (\<lambda>_.
     fret (restamped, a')))"

datatype leg_direction = Entry nat | Exit

definition apply_leg_usage ::
    "nat \<Rightarrow> usage_side \<Rightarrow> hub_asset_key \<Rightarrow> leg_direction \<Rightarrow> ray \<Rightarrow> leg_outcome \<Rightarrow> ('w, unit) ctl" where
  "apply_leg_usage spoke_id side k direction old_scaled outcome =
     (case direction of
        Entry decimals \<Rightarrow>
          fbind (flift (ray_checked_sub (lo_new_scaled outcome) old_scaled)) (\<lambda>delta.
          apply_spoke_entry spoke_id side k delta (lo_market_index outcome) decimals)
      | Exit \<Rightarrow>
          fbind (flift (ray_checked_sub old_scaled (lo_new_scaled outcome))) (\<lambda>delta.
          apply_spoke_exit spoke_id side k delta))"

datatype freeze_policy = BlockOnEntry | AllowOnExit | SeizureLeg

datatype position_sides = Supply_Only | Debt_Only | Both_Sides

definition persist_account_positions ::
    "'w ctl_externals \<Rightarrow> nat \<Rightarrow> account \<Rightarrow> position_sides \<Rightarrow> bool \<Rightarrow> ('w, unit) ctl" where
  "persist_account_positions ext account_id a sides remove_if_empty =
     fbind (if sides \<noteq> Debt_Only then upd_store (set_supply_positions account_id (acc_supply_positions a))
            else fret ()) (\<lambda>_.
     fbind (if sides \<noteq> Supply_Only then upd_store (set_debt_positions account_id (acc_borrow_positions a))
            else fret ()) (\<lambda>_.
     if remove_if_empty then cleanup_account_if_empty ext a account_id else fret ()))"

definition finalize_position_flow ::
    "'w ctl_externals \<Rightarrow> nat \<Rightarrow> account \<Rightarrow> position_sides \<Rightarrow> bool \<Rightarrow> ('w, unit) ctl" where
  "finalize_position_flow ext account_id a sides remove_if_empty =
     fbind persist_spoke_usage (\<lambda>_. persist_account_positions ext account_id a sides remove_if_empty)"

definition enforce_spoke_asset_flags :: "nat \<Rightarrow> hub_asset_key \<Rightarrow> freeze_policy \<Rightarrow> ('w, unit) ctl" where
  "enforce_spoke_asset_flags spoke_id k freeze =
     fbind (cached_spoke_asset spoke_id k) (\<lambda>listed.
     case listed of
       None \<Rightarrow> fret ()
     | Some sa \<Rightarrow>
         (case freeze of
            BlockOnEntry \<Rightarrow>
              fbind (fassert (\<not> sa_paused sa) (Spoke SpokeAssetPaused)) (\<lambda>_.
              fassert (\<not> sa_frozen sa) (Spoke SpokeAssetFrozen))
          | AllowOnExit \<Rightarrow> fassert (\<not> sa_paused sa) (Spoke SpokeAssetPaused)
          | SeizureLeg \<Rightarrow> fassert (\<not> sa_no_seize sa) (Spoke SpokeAssetSeizureHalted)))"

definition require_listed_unhalted_config :: "nat \<Rightarrow> hub_asset_key \<Rightarrow> ('w, asset_config) ctl" where
  "require_listed_unhalted_config spoke_id k =
     fbind (ctx_require_hub_active (hub_id k)) (\<lambda>_.
     fbind (require_listed_active_config spoke_id k) (\<lambda>config.
     fbind (enforce_spoke_asset_flags spoke_id k BlockOnEntry) (\<lambda>_.
     fret config)))"

definition require_can_borrow :: "nat \<Rightarrow> hub_asset_key \<Rightarrow> ('w, unit) ctl" where
  "require_can_borrow spoke_id k =
     fbind (require_listed_unhalted_config spoke_id k) (\<lambda>config.
     fassert (ac_is_borrowable config) (Collateral AssetNotBorrowable))"

definition require_can_supply :: "nat \<Rightarrow> hub_asset_key \<Rightarrow> ('w, unit) ctl" where
  "require_can_supply spoke_id k =
     fbind (require_listed_unhalted_config spoke_id k) (\<lambda>config.
     fassert (ac_is_collateralizable config) (Collateral NotCollateral))"

definition validate_position_entry_gates ::
    "account \<Rightarrow> hub_payment list \<Rightarrow> account_position_type \<Rightarrow> ('w, unit) ctl" where
  "validate_position_entry_gates a aggregated position_type =
     fbind (validate_bulk_position_limits a position_type aggregated) (\<lambda>_.
     fbind (if position_type = Deposit then require_whole_unit_isolation a aggregated else fret ()) (\<lambda>_.
     ffold (\<lambda>(k, _) _.
       case position_type of
         Deposit \<Rightarrow> require_can_supply (acc_spoke_id a) k
       | Borrow \<Rightarrow> require_can_borrow (acc_spoke_id a) k) aggregated ()))"

definition make_pool_action :: "scaled_position_raw \<Rightarrow> int \<Rightarrow> hub_asset_key \<Rightarrow> pool_action" where
  "make_pool_action position amount k = \<lparr>pa_position = position, pa_amount = amount, pa_hub_asset = k\<rparr>"

definition get_supply_position_or_panic :: "account \<Rightarrow> hub_asset_key \<Rightarrow> account_position res" where
  "get_supply_position_or_panic a k =
     rbind (unwrap_or_panic (smap_get (acc_supply_positions a) k) (Collateral CollateralPositionNotFound)) (\<lambda>raw.
     Inr (account_position_of_raw raw))"

definition get_debt_position_or_panic :: "account \<Rightarrow> hub_asset_key \<Rightarrow> scaled_position_raw res" where
  "get_debt_position_or_panic a k =
     unwrap_or_panic (smap_get (acc_borrow_positions a) k) (Collateral DebtPositionNotFound)"

section \<open>Supply and withdrawal (positions/supply.rs)\<close>

datatype withdraw_kind = Withdraw_Normal | Withdraw_Liquidation

definition merge_supply_leg ::
    "'w ctl_externals \<Rightarrow> pool_supply_entry \<times> pool_position_mutation \<Rightarrow> account \<Rightarrow> ('w, account) ctl" where
  "merge_supply_leg ext leg a =
     (case leg of (entry, result) \<Rightarrow>
      let k = pa_hub_asset (pse_action entry) in
      fbind (require_spoke_asset (acc_spoke_id a) k) (\<lambda>config.
      let position = get_or_create_supply_position a k config;
          old_scaled = ap_scaled_amount position;
          outcome = leg_outcome_of result in
      fbind (put_market_index k (lo_market_index outcome)) (\<lambda>_.
      fbind (refresh_supply_risk_params ext a k (position\<lparr>ap_scaled_amount := lo_new_scaled outcome\<rparr>) config FullTuple)
        (\<lambda>(_, position').
      fbind (apply_leg_usage (acc_spoke_id a) Supply_Side k (Entry (ppm_asset_decimals result)) old_scaled outcome) (\<lambda>_.
      fret (update_or_remove_supply_position a k position'))))))"

definition leg_may_restamp_risk_params ::
    "withdraw_kind \<Rightarrow> account \<Rightarrow> hub_asset_key \<Rightarrow> ray \<Rightarrow> ('w, bool) ctl" where
  "leg_may_restamp_risk_params kind a k new_scaled =
     (if kind = Withdraw_Liquidation then fret False
      else
        fbind (cached_spoke_asset (acc_spoke_id a) k) (\<lambda>listed.
        fret (listed \<noteq> None \<and> new_scaled \<noteq> 0)))"

definition merge_withdraw_leg ::
    "'w ctl_externals \<Rightarrow> withdraw_kind \<Rightarrow> hub_asset_key \<Rightarrow> leg_outcome \<Rightarrow> account \<Rightarrow> ('w, account) ctl" where
  "merge_withdraw_leg ext kind k outcome a =
     fbind (leg_may_restamp_risk_params kind a k (lo_new_scaled outcome)) (\<lambda>may_restamp.
     fbind (flift (get_supply_position_or_panic a k)) (\<lambda>position0.
     let old_scaled = ap_scaled_amount position0;
         position = position0\<lparr>ap_scaled_amount := lo_new_scaled outcome\<rparr> in
     fbind (put_market_index k (lo_market_index outcome)) (\<lambda>_.
     fbind (apply_leg_usage (acc_spoke_id a) Supply_Side k Exit old_scaled outcome) (\<lambda>_.
     fbind (if may_restamp \<and> ap_scaled_amount position \<noteq> 0 then
              fbind (require_spoke_asset (acc_spoke_id a) k) (\<lambda>config.
              fbind (refresh_supply_risk_params ext a k position config FullTuple) (\<lambda>(_, p). fret p))
            else fret position) (\<lambda>position'.
     fret (update_or_remove_supply_position a k position'))))))"

definition apply_withdraw_batch ::
    "'w ctl_externals \<Rightarrow> address \<Rightarrow> withdraw_kind \<Rightarrow> pool_withdraw_entry list \<Rightarrow> account
      \<Rightarrow> ('w, pool_position_mutation list \<times> account) ctl" where
  "apply_withdraw_batch ext recipient kind entries a =
     fbind cached_pool_address (\<lambda>_.
     fbind (pool_call (\<lambda>h. withdraw (ce_base ext) h recipient (kind = Withdraw_Liquidation) entries)) (\<lambda>results.
     fbind (for_each_leg entries results
              (\<lambda>(entry, result). merge_withdraw_leg ext kind (pa_hub_asset (pwe_action entry)) (leg_outcome_of result)) a)
       (\<lambda>a'. fret (results, a'))))"

definition deposit_entry ::
    "'w ctl_externals \<Rightarrow> address \<Rightarrow> address \<Rightarrow> account \<Rightarrow> hub_payment \<Rightarrow> pool_supply_entry list
      \<Rightarrow> ('w, pool_supply_entry list) ctl" where
  "deposit_entry ext caller pool_addr a payment entries =
     (case payment of (k, amount_in) \<Rightarrow>
      fbind (require_spoke_asset (acc_spoke_id a) k) (\<lambda>config.
      fbind (transfer_amount_measured ext (asset k) caller pool_addr amount_in (Generic AmountMustBePositive)) (\<lambda>received.
      fret (entries @ [\<lparr>pse_action = make_pool_action
        (scaled_of_account_position (get_or_create_supply_position a k config)) received k\<rparr>]))))"

definition process_deposit ::
    "'w ctl_externals \<Rightarrow> address \<Rightarrow> hub_payment list \<Rightarrow> account \<Rightarrow> ('w, account) ctl" where
  "process_deposit ext caller aggregated a =
     fbind (validate_position_entry_gates a aggregated Deposit) (\<lambda>_.
     fbind (if \<not> debt_free a then
              fetch_prices ext
                (map (\<lambda>(k, _). asset k) (filter (\<lambda>(k, _). \<not> smap_contains (acc_supply_positions a) k) aggregated))
            else fret ()) (\<lambda>_.
     fbind cached_pool_address (\<lambda>pool_addr.
     fbind (ffold (deposit_entry ext caller pool_addr a) aggregated []) (\<lambda>entries.
     fbind (pool_call (\<lambda>h. pool_supply h entries)) (\<lambda>results.
     for_each_leg entries results (merge_supply_leg ext) a)))))"

definition require_third_party_existing_supply ::
    "nat \<Rightarrow> nat \<Rightarrow> address \<Rightarrow> account \<Rightarrow> hub_payment list \<Rightarrow> ('w, unit) ctl" where
  "require_third_party_existing_supply account_id resolved_account_id caller a aggregated =
     fbind (read_store (is_owner_or_delegate resolved_account_id caller (acc_owner a))) (\<lambda>allowed.
     if account_id \<noteq> 0 \<and> \<not> allowed then
       ffold (\<lambda>(k, _) _. fassert (smap_contains (acc_supply_positions a) k) (Generic NotAuthorized)) aggregated ()
     else fret ())"

definition process_supply ::
    "'w ctl_externals \<Rightarrow> address \<Rightarrow> nat \<Rightarrow> nat \<Rightarrow> hub_payment list \<Rightarrow> ('w, nat) ctl" where
  "process_supply ext caller account_id spoke_id assets =
     fbind (require_authorized_caller caller) (\<lambda>_.
     fbind (flift (aggregate_positive_payments assets)) (\<lambda>aggregated.
     fbind context_new (\<lambda>_.
     fbind (load_or_create_account ext caller account_id spoke_id Normal Guard_Supply) (\<lambda>(acct_id, a).
     fbind (require_third_party_existing_supply account_id acct_id caller a aggregated) (\<lambda>_.
     fbind (process_deposit ext caller aggregated a) (\<lambda>a'.
     fbind (finalize_position_flow ext acct_id a' Supply_Only False) (\<lambda>_.
     fret acct_id)))))))"

definition withdraw_entry :: "account \<Rightarrow> hub_payment \<Rightarrow> pool_withdraw_entry list \<Rightarrow> ('w, pool_withdraw_entry list) ctl" where
  "withdraw_entry a payment entries =
     (case payment of (k, amount) \<Rightarrow>
      fbind (enforce_spoke_asset_flags (acc_spoke_id a) k AllowOnExit) (\<lambda>_.
      fbind (flift (get_supply_position_or_panic a k)) (\<lambda>position.
      let requested = (if amount = 0 then WITHDRAW_ALL_SENTINEL else amount) in
      fret (entries @ [\<lparr>pwe_action = make_pool_action (scaled_of_account_position position) requested k,
                        pwe_protocol_fee = 0\<rparr>]))))"

definition settle_withdraw ::
    "'w ctl_externals \<Rightarrow> address \<Rightarrow> hub_payment list \<Rightarrow> account \<Rightarrow> ('w, hub_payment list \<times> account) ctl" where
  "settle_withdraw ext recipient aggregated a =
     fbind (ffold (withdraw_entry a) aggregated []) (\<lambda>entries.
     fbind (apply_withdraw_batch ext recipient Withdraw_Normal entries a) (\<lambda>(results, a').
     fbind (for_each_leg entries results
              (\<lambda>(entry, result) paid. fret (paid @ [(pa_hub_asset (pwe_action entry), ppm_actual_amount result)])) [])
       (\<lambda>paid. fret (paid, a'))))"

definition process_withdraw ::
    "'w ctl_externals \<Rightarrow> address \<Rightarrow> nat \<Rightarrow> hub_payment list \<Rightarrow> address option \<Rightarrow> ('w, hub_payment list) ctl" where
  "process_withdraw ext caller account_id withdrawals to_opt =
     fbind (require_authorized_caller caller) (\<lambda>_.
     fbind (get_account ext account_id) (\<lambda>a.
     fbind (require_owner_or_delegate account_id caller (acc_owner a)) (\<lambda>_.
     let recipient = (case to_opt of Some t \<Rightarrow> t | None \<Rightarrow> caller) in
     fbind context_new (\<lambda>_.
     fbind (require_external_recipient recipient) (\<lambda>_.
     fbind (flift (aggregate_payments withdrawals MeansAll)) (\<lambda>aggregated.
     fbind (settle_withdraw ext recipient aggregated a) (\<lambda>(paid, a1).
     fbind (enforce_post_pool_solvency ext a1) (\<lambda>(_, a2).
     fbind (finalize_position_flow ext account_id a2 Supply_Only True) (\<lambda>_.
     fret paid)))))))))"

definition execute_withdrawal ::
    "'w ctl_externals \<Rightarrow> address \<Rightarrow> hub_asset_key \<Rightarrow> int \<Rightarrow> account_position \<Rightarrow> account
      \<Rightarrow> ('w, pool_position_mutation \<times> account) ctl" where
  "execute_withdrawal ext recipient k amount position a =
     fbind (enforce_spoke_asset_flags (acc_spoke_id a) k AllowOnExit) (\<lambda>_.
     fbind (apply_withdraw_batch ext recipient Withdraw_Normal
              [\<lparr>pwe_action = make_pool_action (scaled_of_account_position position) amount k, pwe_protocol_fee = 0\<rparr>] a)
       (\<lambda>(results, a').
     fbind (flift (expect_invariant (case results of [] \<Rightarrow> None | r # _ \<Rightarrow> Some r))) (\<lambda>result.
     fret (result, a'))))"

section \<open>Borrow and repayment (positions/debt.rs)\<close>

definition merge_debt_leg :: "hub_asset_key \<Rightarrow> leg_direction \<Rightarrow> leg_outcome \<Rightarrow> account \<Rightarrow> ('w, account) ctl" where
  "merge_debt_leg k direction outcome a =
     fbind (flift (case direction of
              Entry _ \<Rightarrow> Inr (case smap_get (acc_borrow_positions a) k of None \<Rightarrow> 0 | Some p \<Rightarrow> scaled_amount p)
            | Exit \<Rightarrow> rbind (get_debt_position_or_panic a k) (\<lambda>p. Inr (scaled_amount p)))) (\<lambda>old_scaled.
     fbind (apply_leg_usage (acc_spoke_id a) Borrow_Side k direction old_scaled outcome) (\<lambda>_.
     fbind (put_market_index k (lo_market_index outcome)) (\<lambda>_.
     fret (update_or_remove_debt_position a k \<lparr>scaled_amount = lo_new_scaled outcome\<rparr>))))"

definition settle_borrow ::
    "'w ctl_externals \<Rightarrow> address \<Rightarrow> hub_payment list \<Rightarrow> account \<Rightarrow> ('w, account) ctl" where
  "settle_borrow ext recipient aggregated a =
     fbind cached_pool_address (\<lambda>_.
     let entries = map (\<lambda>(k, amount). \<lparr>pbe_action = make_pool_action (get_or_create_debt_position a k) amount k\<rparr>) aggregated in
     fbind (pool_call (\<lambda>h. borrow (ce_base ext) h recipient entries)) (\<lambda>results.
     for_each_leg entries results
       (\<lambda>(entry, result). merge_debt_leg (pa_hub_asset (pbe_action entry)) (Entry (ppm_asset_decimals result))
          (leg_outcome_of result)) a))"

definition process_borrow ::
    "'w ctl_externals \<Rightarrow> address \<Rightarrow> nat \<Rightarrow> hub_payment list \<Rightarrow> address option \<Rightarrow> ('w, unit) ctl" where
  "process_borrow ext caller account_id borrows to_opt =
     fbind (require_authorized_caller caller) (\<lambda>_.
     fbind (get_account ext account_id) (\<lambda>a.
     fbind (require_owner_or_delegate account_id caller (acc_owner a)) (\<lambda>_.
     let recipient = (case to_opt of Some t \<Rightarrow> t | None \<Rightarrow> caller) in
     fbind context_new (\<lambda>_.
     fbind (require_external_recipient recipient) (\<lambda>_.
     fbind (flift (aggregate_positive_payments borrows)) (\<lambda>aggregated.
     fbind (validate_position_entry_gates a aggregated Borrow) (\<lambda>_.
     fbind (settle_borrow ext recipient aggregated a) (\<lambda>a1.
     fbind (enforce_post_pool_solvency ext a1) (\<lambda>(restamped, a2).
     finalize_position_flow ext account_id a2 (if restamped then Both_Sides else Debt_Only) False)))))))))"

definition apply_repay_batch ::
    "'w ctl_externals \<Rightarrow> address \<Rightarrow> pool_action list \<Rightarrow> account \<Rightarrow> ('w, pool_position_mutation list \<times> account) ctl" where
  "apply_repay_batch ext payer actions a =
     fbind cached_pool_address (\<lambda>_.
     fbind (pool_call (\<lambda>h. repay (ce_base ext) h payer actions)) (\<lambda>results.
     fbind (for_each_leg actions results
              (\<lambda>(action, result). merge_debt_leg (pa_hub_asset action) Exit (leg_outcome_of result)) a) (\<lambda>a'.
     fret (results, a'))))"

definition repay_action ::
    "'w ctl_externals \<Rightarrow> address \<Rightarrow> address \<Rightarrow> account \<Rightarrow> hub_payment \<Rightarrow> pool_action list \<Rightarrow> ('w, pool_action list) ctl" where
  "repay_action ext payer pool_addr a payment actions =
     (case payment of (k, amount) \<Rightarrow>
      fbind (enforce_spoke_asset_flags (acc_spoke_id a) k AllowOnExit) (\<lambda>_.
      fbind (flift (get_debt_position_or_panic a k)) (\<lambda>position.
      fbind (transfer_amount_measured ext (asset k) payer pool_addr amount (Generic AmountMustBePositive)) (\<lambda>amount_in.
      fret (actions @ [make_pool_action position amount_in k])))))"

definition settle_repay ::
    "'w ctl_externals \<Rightarrow> address \<Rightarrow> hub_payment list \<Rightarrow> account \<Rightarrow> ('w, account) ctl" where
  "settle_repay ext payer aggregated a =
     fbind cached_pool_address (\<lambda>pool_addr.
     fbind (ffold (repay_action ext payer pool_addr a) aggregated []) (\<lambda>actions.
     fbind (apply_repay_batch ext payer actions a) (\<lambda>(_, a').
     fret a')))"

definition process_repay :: "'w ctl_externals \<Rightarrow> address \<Rightarrow> nat \<Rightarrow> hub_payment list \<Rightarrow> ('w, unit) ctl" where
  "process_repay ext caller account_id payments_in =
     fbind (require_authorized_caller caller) (\<lambda>_.
     fbind (flift (aggregate_positive_payments payments_in)) (\<lambda>aggregated.
     fbind (get_account_borrow_only ext account_id) (\<lambda>a.
     fbind context_new (\<lambda>_.
     fbind (settle_repay ext caller aggregated a) (\<lambda>a'.
     finalize_position_flow ext account_id a' Debt_Only False)))))"

definition repay_prefunded_position ::
    "'w ctl_externals \<Rightarrow> address \<Rightarrow> hub_asset_key \<Rightarrow> scaled_position_raw \<Rightarrow> int \<Rightarrow> account
      \<Rightarrow> ('w, pool_position_mutation \<times> account) ctl" where
  "repay_prefunded_position ext refund_to k position amount a =
     fbind (enforce_spoke_asset_flags (acc_spoke_id a) k AllowOnExit) (\<lambda>_.
     fbind (apply_repay_batch ext refund_to [make_pool_action position amount k] a) (\<lambda>(results, a').
     fbind (flift (expect_invariant (case results of [] \<Rightarrow> None | r # _ \<Rightarrow> Some r))) (\<lambda>result.
     fret (result, a'))))"

definition borrow_into_controller ::
    "'w ctl_externals \<Rightarrow> hub_asset_key \<Rightarrow> int \<Rightarrow> bool \<Rightarrow> account \<Rightarrow> ('w, int \<times> account) ctl" where
  "borrow_into_controller ext hub_debt amount charge_fee a =
     fbind (flift (require_positive_amount amount)) (\<lambda>_.
     fbind (validate_position_entry_gates a [(hub_debt, amount)] Borrow) (\<lambda>_.
     let position = get_or_create_debt_position a hub_debt in
     fbind cached_pool_address (\<lambda>_.
     fbind (fread sy_self) (\<lambda>controller.
     fbind (\<lambda>s. rbind (token_balance (ce_base ext) (asset hub_debt) controller (sy_world s)) (\<lambda>b. Inr (b, s))) (\<lambda>before.
     fbind (with_flash_guard (pool_call (\<lambda>h.
              create_strategy (ce_base ext) h controller (make_pool_action position amount hub_debt) charge_fee))) (\<lambda>result.
     fbind (balance_delta_since ext (asset hub_debt) controller before) (\<lambda>measured.
     fbind (fassert (measured = psm_amount_received result) (Generic InternalError)) (\<lambda>_.
     fbind (fassert (measured > 0) (Generic AmountMustBePositive)) (\<lambda>_.
     let mutation = position_mutation_of_strategy result in
     fbind (merge_debt_leg hub_debt (Entry (ppm_asset_decimals mutation)) (leg_outcome_of mutation) a) (\<lambda>a'.
     fret (measured, a')))))))))))"

end
