(* ===== verification/Controller_Config.thy ===== *)
theory Controller_Config
  imports Controller_Positions
begin

text \<open>
  \<^verbatim>\<open>src/contracts/controller/src/config/{registry,spoke,asset}.rs\<close>, \<^verbatim>\<open>governance.rs\<close> and
  \<^verbatim>\<open>markets.rs\<close>: registry writes, hubs and spokes, the listing of assets with its one-way halt flags, the
  controller's own lifecycle, and the market operations the controller forwards to the pool.
  Ownership transfer is a protocol of the \<^verbatim>\<open>stellar_access\<close> library and is not modelled.
\<close>

section \<open>Registry\<close>

definition set_swap_aggregator :: "address \<Rightarrow> ('w, unit) ctl" where
  "set_swap_aggregator addr = upd_store (\<lambda>st. st\<lparr>cs_swap_aggregator := Some addr\<rparr>)"

definition set_price_aggregator :: "address \<Rightarrow> ('w, unit) ctl" where
  "set_price_aggregator addr = upd_store (\<lambda>st. st\<lparr>cs_price_aggregator := Some addr\<rparr>)"

definition set_accumulator :: "address \<Rightarrow> ('w, unit) ctl" where
  "set_accumulator addr = upd_store (\<lambda>st. st\<lparr>cs_accumulator := Some addr\<rparr>)"

definition set_blend_pool_approval :: "address \<Rightarrow> bool \<Rightarrow> ('w, unit) ctl" where
  "set_blend_pool_approval pool approved = upd_store (set_blend_pool_approved pool approved)"

definition set_position_limits :: "position_limits \<Rightarrow> ('w, unit) ctl" where
  "set_position_limits limits =
     fbind (fassert (1 \<le> pl_max_supply_positions limits \<and> pl_max_supply_positions limits \<le> POSITION_LIMIT_MAX \<and>
                     1 \<le> pl_max_borrow_positions limits \<and> pl_max_borrow_positions limits \<le> POSITION_LIMIT_MAX)
              (Generic InvalidPositionLimits)) (\<lambda>_.
     upd_store (\<lambda>st. st\<lparr>cs_position_limits := Some limits\<rparr>))"

definition set_min_borrow_collateral_usd :: "int \<Rightarrow> ('w, unit) ctl" where
  "set_min_borrow_collateral_usd floor_wad =
     fbind (fassert (floor_wad \<ge> 0) (Collateral InvalidBorrowParams)) (\<lambda>_.
     upd_store (\<lambda>st. st\<lparr>cs_min_borrow_collateral_usd := Some floor_wad\<rparr>))"

section \<open>Hubs and spokes\<close>

definition create_hub :: "('w, nat) ctl" where
  "create_hub =
     fbind (read_store_res increment_hub_id) (\<lambda>(i, st).
     fbind (upd_store (\<lambda>_. set_hub i True st)) (\<lambda>_. fret i))"

definition add_spoke :: "('w, nat) ctl" where
  "add_spoke =
     fbind (read_store_res increment_spoke_id) (\<lambda>(i, st).
     fbind (upd_store (\<lambda>_. set_spoke i
       \<lparr>sc_is_deprecated = False,
        sc_liquidation_target_hf_wad = DEFAULT_LIQUIDATION_TARGET_HF_WAD,
        sc_hf_for_max_bonus_wad = DEFAULT_HF_FOR_MAX_BONUS_WAD,
        sc_liquidation_bonus_factor_bps = DEFAULT_LIQUIDATION_BONUS_FACTOR_BPS\<rparr> st)) (\<lambda>_. fret i))"

definition remove_spoke :: "nat \<Rightarrow> ('w, unit) ctl" where
  "remove_spoke i =
     fbind (read_store_res (\<lambda>st. get_spoke st i)) (\<lambda>spoke.
     fbind (fassert (\<not> sc_is_deprecated spoke) (Spoke SpokeDeprecated)) (\<lambda>_.
     upd_store (set_spoke i (spoke\<lparr>sc_is_deprecated := True\<rparr>))))"

definition set_spoke_liquidation_curve :: "nat \<Rightarrow> int \<Rightarrow> int \<Rightarrow> nat \<Rightarrow> ('w, unit) ctl" where
  "set_spoke_liquidation_curve i target_hf_wad hf_for_max_bonus_wad liquidation_bonus_factor_bps =
     fbind (flift (validate_liquidation_curve target_hf_wad hf_for_max_bonus_wad liquidation_bonus_factor_bps)) (\<lambda>_.
     fbind (read_store_res (\<lambda>st. get_spoke st i)) (\<lambda>spoke.
     upd_store (set_spoke i (spoke\<lparr>sc_liquidation_target_hf_wad := target_hf_wad,
       sc_hf_for_max_bonus_wad := hf_for_max_bonus_wad,
       sc_liquidation_bonus_factor_bps := liquidation_bonus_factor_bps\<rparr>))))"

section \<open>Listings\<close>

record spoke_asset_args =
  sg_hub_id :: nat
  sg_asset :: address
  sg_spoke_id :: nat
  sg_can_collateral :: bool
  sg_can_borrow :: bool
  sg_paused :: bool
  sg_frozen :: bool
  sg_no_seize :: bool
  sg_ltv :: nat
  sg_threshold :: nat
  sg_bonus :: nat
  sg_liquidation_fees :: nat
  sg_supply_cap :: int
  sg_borrow_cap :: int

datatype spoke_asset_mutation = Add_Listing | Edit_Listing

definition listing_flags :: "spoke_asset_config \<Rightarrow> bool \<times> bool \<times> bool" where
  "listing_flags config = (sa_paused config, sa_frozen config, sa_no_seize config)"

definition require_flag_ratchet :: "spoke_asset_config \<Rightarrow> bool \<Rightarrow> bool \<Rightarrow> bool \<Rightarrow> unit res" where
  "require_flag_ratchet config paused frozen no_seize =
     assert_with_error ((paused \<or> \<not> sa_paused config) \<and> (frozen \<or> \<not> sa_frozen config) \<and> (no_seize \<or> \<not> sa_no_seize config))
       (Spoke SpokeAssetFlagRelaxation)"

definition listing_of_args :: "spoke_asset_args \<Rightarrow> spoke_asset_config" where
  "listing_of_args args =
     \<lparr>sa_is_collateralizable = sg_can_collateral args, sa_is_borrowable = sg_can_borrow args,
      sa_paused = sg_paused args, sa_frozen = sg_frozen args, sa_no_seize = sg_no_seize args,
      sa_loan_to_value = sg_ltv args, sa_liquidation_threshold = sg_threshold args,
      sa_liquidation_bonus = sg_bonus args, sa_liquidation_fees = sg_liquidation_fees args,
      sa_supply_cap = sg_supply_cap args, sa_borrow_cap = sg_borrow_cap args\<rparr>"

definition stored_listing ::
    "ctl_store \<Rightarrow> spoke_asset_args \<Rightarrow> hub_asset_key \<Rightarrow> spoke_asset_mutation \<Rightarrow> spoke_asset_config option res" where
  "stored_listing st args k mutation =
     (case mutation of
        Add_Listing \<Rightarrow>
          rbind (get_spoke st (sg_spoke_id args)) (\<lambda>spoke.
          rbind (assert_with_error (\<not> sc_is_deprecated spoke) (Spoke SpokeDeprecated)) (\<lambda>_.
          rbind (assert_with_error (get_spoke_asset st (sg_spoke_id args) k = None) (Spoke AssetAlreadyInSpoke)) (\<lambda>_.
          Inr None)))
      | Edit_Listing \<Rightarrow>
          rbind (get_spoke st (sg_spoke_id args)) (\<lambda>_.
          rbind (unwrap_or_panic (get_spoke_asset st (sg_spoke_id args) k) (Spoke AssetNotInSpoke)) (\<lambda>stored.
          rbind (require_flag_ratchet stored (sg_paused args) (sg_frozen args) (sg_no_seize args)) (\<lambda>_.
          Inr (Some stored)))))"

definition upsert_spoke_asset :: "spoke_asset_args \<Rightarrow> spoke_asset_mutation \<Rightarrow> ('w, unit) ctl" where
  "upsert_spoke_asset args mutation =
     fbind (flift (validate_risk_bounds (sg_ltv args) (sg_threshold args) (sg_bonus args))) (\<lambda>_.
     fbind (flift (validate_liquidation_fees (sg_liquidation_fees args))) (\<lambda>_.
     fbind (fassert (sg_supply_cap args \<ge> 0 \<and> sg_borrow_cap args \<ge> 0) (Collateral InvalidBorrowParams)) (\<lambda>_.
     let k = \<lparr>hub_id = sg_hub_id args, asset = sg_asset args\<rparr>; config = listing_of_args args in
     fbind (read_store_res (\<lambda>st. stored_listing st args k mutation)) (\<lambda>stored.
     fbind (read_store_res get_pool) (\<lambda>_.
     fbind (pool_view (\<lambda>h. get_sync_data h k)) (\<lambda>market.
     let decimals = mpr_asset_decimals (sync_params market) in
     fbind (flift (require_cap_within_asset_domain (sg_supply_cap args) decimals)) (\<lambda>_.
     fbind (flift (require_cap_within_asset_domain (sg_borrow_cap args) decimals)) (\<lambda>_.
     fbind (fassert (decimals \<ge> MIN_BORROWABLE_ASSET_DECIMALS \<or> (\<not> sg_can_borrow args \<and> sg_liquidation_fees args = 0))
              (Collateral InvalidBorrowParams)) (\<lambda>_.
     fbind (upd_store (set_spoke_asset (sg_spoke_id args) k config)) (\<lambda>_.
     if (case stored of None \<Rightarrow> True | Some old \<Rightarrow> listing_flags old \<noteq> listing_flags config) then
       fbind (read_store_res (bump_spoke_flags_epoch (sg_spoke_id args) k)) (\<lambda>st. upd_store (\<lambda>_. st))
     else fret ()))))))))))"

definition add_asset_to_spoke :: "spoke_asset_args \<Rightarrow> ('w, unit) ctl" where
  "add_asset_to_spoke args = upsert_spoke_asset args Add_Listing"

definition edit_asset_in_spoke :: "spoke_asset_args \<Rightarrow> ('w, unit) ctl" where
  "edit_asset_in_spoke args = upsert_spoke_asset args Edit_Listing"

definition write_spoke_asset_flags ::
    "nat \<Rightarrow> hub_asset_key \<Rightarrow> spoke_asset_config \<Rightarrow> bool \<Rightarrow> bool \<Rightarrow> bool \<Rightarrow> ('w, unit) ctl" where
  "write_spoke_asset_flags spoke_id k config paused frozen no_seize =
     fbind (upd_store (set_spoke_asset spoke_id k
              (config\<lparr>sa_paused := paused, sa_frozen := frozen, sa_no_seize := no_seize\<rparr>))) (\<lambda>_.
     fbind (read_store_res (bump_spoke_flags_epoch spoke_id k)) (\<lambda>st. upd_store (\<lambda>_. st)))"

definition set_spoke_asset_flags :: "nat \<Rightarrow> hub_asset_key \<Rightarrow> bool \<Rightarrow> bool \<Rightarrow> bool \<Rightarrow> ('w, unit) ctl" where
  "set_spoke_asset_flags spoke_id k paused frozen no_seize =
     fbind (read_store_res (\<lambda>st. unwrap_or_panic (get_spoke_asset st spoke_id k) (Spoke AssetNotInSpoke))) (\<lambda>config.
     fbind (flift (require_flag_ratchet config paused frozen no_seize)) (\<lambda>_.
     fbind (fassert ((paused, frozen, no_seize) \<noteq> listing_flags config) (Spoke SpokeAssetFlagsUnchanged)) (\<lambda>_.
     write_spoke_asset_flags spoke_id k config paused frozen no_seize)))"

definition relax_spoke_asset_flags :: "nat \<Rightarrow> hub_asset_key \<Rightarrow> nat \<Rightarrow> bool \<Rightarrow> bool \<Rightarrow> bool \<Rightarrow> ('w, unit) ctl" where
  "relax_spoke_asset_flags spoke_id k expected_epoch paused frozen no_seize =
     fbind (read_store_res (\<lambda>st. unwrap_or_panic (get_spoke_asset st spoke_id k) (Spoke AssetNotInSpoke))) (\<lambda>config.
     fbind (read_store (\<lambda>st. get_spoke_flags_epoch st spoke_id k)) (\<lambda>epoch.
     fbind (fassert (epoch = expected_epoch) (Spoke SpokeFlagsEpochMismatch)) (\<lambda>_.
     write_spoke_asset_flags spoke_id k config paused frozen no_seize)))"

definition remove_asset_from_spoke :: "hub_asset_key \<Rightarrow> nat \<Rightarrow> ('w, unit) ctl" where
  "remove_asset_from_spoke k spoke_id =
     fbind (read_store (\<lambda>st. get_spoke_asset st spoke_id k)) (\<lambda>listed.
     fbind (fassert (listed \<noteq> None) (Spoke AssetNotInSpoke)) (\<lambda>_.
     fbind (read_store (\<lambda>st. get_spoke_usage st spoke_id k)) (\<lambda>usage.
     fbind (fassert (case usage of None \<Rightarrow> True
                     | Some u \<Rightarrow> su_supplied_scaled_ray u = 0 \<and> su_borrowed_scaled_ray u = 0) (Spoke SpokeAssetInUse)) (\<lambda>_.
     upd_store (remove_spoke_asset spoke_id k)))))"

section \<open>Lifecycle (governance.rs)\<close>

definition pausable_pause :: "('w, unit) ctl" where
  "pausable_pause =
     fbind (read_store cs_paused) (\<lambda>paused.
     fbind (fassert (\<not> paused) (Host EnforcedPause)) (\<lambda>_. upd_store (\<lambda>st. st\<lparr>cs_paused := True\<rparr>)))"

definition pausable_unpause :: "('w, unit) ctl" where
  "pausable_unpause =
     fbind (read_store cs_paused) (\<lambda>paused.
     fbind (fassert paused (Host ExpectedPause)) (\<lambda>_. upd_store (\<lambda>st. st\<lparr>cs_paused := False\<rparr>)))"

definition controller_init :: "address \<Rightarrow> ('w, unit) ctl" where
  "controller_init admin =
     fbind (upd_store (\<lambda>st. st\<lparr>cs_owner := Some admin\<rparr>)) (\<lambda>_.
     fbind (set_position_limits \<lparr>pl_max_borrow_positions = POSITION_LIMIT_MAX, pl_max_supply_positions = POSITION_LIMIT_MAX\<rparr>) (\<lambda>_.
     fbind (set_min_borrow_collateral_usd DEFAULT_MIN_BORROW_COLLATERAL_USD_WAD) (\<lambda>_.
     fbind (upd_store (\<lambda>st. st\<lparr>cs_app_version := Some INITIAL_APP_VERSION\<rparr>)) (\<lambda>_.
     pausable_pause))))"

definition controller_upgrade :: "bytes \<Rightarrow> ('w, unit) ctl" where
  "controller_upgrade new_wasm_hash =
     fbind (read_store cs_paused) (\<lambda>paused.
     fbind (if \<not> paused then pausable_pause else fret ()) (\<lambda>_.
     upd_store (\<lambda>st. st\<lparr>cs_code := new_wasm_hash\<rparr>)))"

definition get_app_version :: "ctl_store \<Rightarrow> nat" where
  "get_app_version st = (case cs_app_version st of Some v \<Rightarrow> v | None \<Rightarrow> INITIAL_APP_VERSION)"

definition controller_migrate :: "nat \<Rightarrow> ('w, unit) ctl" where
  "controller_migrate new_version =
     fbind (read_store get_app_version) (\<lambda>current_version.
     fbind (fassert (new_version > current_version) (Generic InternalError)) (\<lambda>_.
     upd_store (\<lambda>st. st\<lparr>cs_app_version := Some new_version\<rparr>)))"

definition controller_transfer_ownership :: "'w ctl_externals \<Rightarrow> address \<Rightarrow> nat \<Rightarrow> ('w, unit) ctl" where
  "controller_transfer_ownership ext new_owner live_until_ledger =
     fbind (read_store_res (\<lambda>st. unwrap_or_panic (cs_owner st) (Generic OwnerNotSet))) (\<lambda>current_owner.
     world_call (\<lambda>w. rbind (ce_transfer_role ext new_owner live_until_ledger w) (\<lambda>w'. Inr ((), w'))))"

definition controller_accept_ownership :: "'w ctl_externals \<Rightarrow> ('w, unit) ctl" where
  "controller_accept_ownership ext =
     fbind (fread sy_auth) (\<lambda>auth.
     fbind (world_call (ce_accept_ownership ext auth)) (\<lambda>accepted.
     upd_store (\<lambda>st. st\<lparr>cs_owner := Some accepted\<rparr>)))"

section \<open>Markets (markets.rs)\<close>

definition deploy_pool :: "bytes \<Rightarrow> ('w, address) ctl" where
  "deploy_pool wasm_hash =
     fbind (read_store try_get_pool) (\<lambda>existing.
     fbind (fassert (existing = None) (Generic PoolAlreadyDeployed)) (\<lambda>_.
     fbind (fwrite (\<lambda>s. s\<lparr>sy_pool := pool_constructor
              ((sy_pool s)\<lparr>h_params := Map.empty, h_state := Map.empty, h_code := wasm_hash\<rparr>) (sy_self s)\<rparr>)) (\<lambda>_.
     fbind (fread (\<lambda>s. h_self (sy_pool s))) (\<lambda>pool.
     fbind (upd_store (\<lambda>st. st\<lparr>cs_pool := Some pool\<rparr>)) (\<lambda>_.
     fret pool)))))"

definition deploy_position_nft :: "'w ctl_externals \<Rightarrow> bytes \<Rightarrow> ('w, address) ctl" where
  "deploy_position_nft ext wasm_hash =
     fbind (read_store cs_position_nft) (\<lambda>existing.
     fbind (fassert (existing = None) (Generic PositionNftAlreadyDeployed)) (\<lambda>_.
     fbind (fread sy_self) (\<lambda>self.
     fbind (world_call (ce_nft_deploy ext wasm_hash self)) (\<lambda>nft.
     fbind (upd_store (\<lambda>st. st\<lparr>cs_position_nft := Some nft\<rparr>)) (\<lambda>_.
     fret nft)))))"

definition create_liquidity_pool :: "nat \<Rightarrow> address \<Rightarrow> market_params_raw \<Rightarrow> ('w, address) ctl" where
  "create_liquidity_pool hub asset_addr params =
     fbind (read_store_res (\<lambda>st. require_hub_active st hub)) (\<lambda>_.
     fbind (fassert (mpr_asset_id params = asset_addr) (Generic WrongToken)) (\<lambda>_.
     fbind (read_store_res get_pool) (\<lambda>pool_address.
     fbind (pool_call (\<lambda>h. rbind (create_market h hub params) (\<lambda>h'. Inr ((), h')))) (\<lambda>_.
     fret pool_address))))"

definition upgrade_liquidity_pool_params :: "hub_asset_key \<Rightarrow> interest_rate_model \<Rightarrow> ('w, unit) ctl" where
  "upgrade_liquidity_pool_params k params =
     fbind context_new (\<lambda>_.
     fbind cached_pool_address (\<lambda>_.
     fbind (pool_call (\<lambda>h. rbind (update_indexes h [k]) (\<lambda>h'. Inr ((), h')))) (\<lambda>_.
     pool_call (\<lambda>h. rbind (update_params h k params) (\<lambda>h'. Inr ((), h'))))))"

definition upgrade_pool :: "bytes \<Rightarrow> ('w, unit) ctl" where
  "upgrade_pool new_wasm_hash =
     fbind (read_store_res get_pool) (\<lambda>_.
     pool_call (\<lambda>h. rbind (upgrade h new_wasm_hash) (\<lambda>h'. Inr ((), h'))))"

definition upgrade_position_nft :: "'w ctl_externals \<Rightarrow> bytes \<Rightarrow> ('w, unit) ctl" where
  "upgrade_position_nft ext new_wasm_hash =
     fbind (read_store_res get_position_nft) (\<lambda>nft.
     world_call (\<lambda>w. rbind (ce_nft_upgrade ext nft new_wasm_hash w) (\<lambda>w'. Inr ((), w'))))"

definition markets_update_indexes :: "address \<Rightarrow> hub_asset_key list \<Rightarrow> ('w, unit) ctl" where
  "markets_update_indexes caller assets =
     fbind (require_authorized_caller caller) (\<lambda>_.
     fbind context_new (\<lambda>_.
     fbind cached_pool_address (\<lambda>_.
     pool_call (\<lambda>h. rbind (update_indexes h assets) (\<lambda>h'. Inr ((), h'))))))"

definition claim_revenue_for_asset :: "'w ctl_externals \<Rightarrow> hub_asset_key \<Rightarrow> ('w, int) ctl" where
  "claim_revenue_for_asset ext k =
     fbind (read_store_res (\<lambda>st. unwrap_or_panic (cs_accumulator st) (Oracle NoAccumulator))) (\<lambda>accumulator.
     fbind cached_pool_address (\<lambda>_.
     fbind (fread sy_self) (\<lambda>controller.
     fbind (\<lambda>s. rbind (token_balance (ce_base ext) (asset k) controller (sy_world s)) (\<lambda>b. Inr (b, s))) (\<lambda>before.
     fbind (pool_call (\<lambda>h. claim_revenue (ce_base ext) h k)) (\<lambda>_.
     fbind (balance_delta_since ext (asset k) controller before) (\<lambda>received.
     fbind (if received > 0 then
              fbind (transfer_amount_measured ext (asset k) controller accumulator received (Generic AmountMustBePositive))
                (\<lambda>_. fret ())
            else fret ()) (\<lambda>_.
     fret received)))))))"

definition markets_claim_revenue :: "'w ctl_externals \<Rightarrow> address \<Rightarrow> hub_asset_key list \<Rightarrow> ('w, int list) ctl" where
  "markets_claim_revenue ext caller assets =
     fbind (require_authorized_caller caller) (\<lambda>_.
     fbind context_new (\<lambda>_.
     ffold (\<lambda>k results. fbind (claim_revenue_for_asset ext k) (\<lambda>amount. fret (results @ [amount]))) assets []))"

definition markets_recapitalize :: "'w ctl_externals \<Rightarrow> address \<Rightarrow> hub_asset_key \<Rightarrow> int \<Rightarrow> ('w, int) ctl" where
  "markets_recapitalize ext payer k amount =
     fbind (require_authorized_caller payer) (\<lambda>_.
     fbind (flift (require_positive_amount amount)) (\<lambda>_.
     fbind context_new (\<lambda>_.
     fbind cached_pool_address (\<lambda>pool_addr.
     fbind (transfer_amount_measured ext (asset k) payer pool_addr amount (Generic AmountMustBePositive)) (\<lambda>received.
     fbind (pool_call (\<lambda>h. recapitalize (ce_base ext) h k payer received)) (\<lambda>m.
     fret (pam_actual_amount m)))))))"

definition process_flash_loan ::
    "'w ctl_externals \<Rightarrow> address \<Rightarrow> hub_asset_key \<Rightarrow> int \<Rightarrow> address \<Rightarrow> bytes \<Rightarrow> ('w, unit) ctl" where
  "process_flash_loan ext caller k amount receiver data =
     fbind (require_authorized_caller caller) (\<lambda>_.
     fbind (flift (require_positive_amount amount)) (\<lambda>_.
     fbind (read_store_res (\<lambda>st. require_hub_active st (hub_id k))) (\<lambda>_.
     fbind (fread (\<lambda>s. executable_is_wasm (ce_base ext) receiver (sy_world s))) (\<lambda>is_wasm.
     fbind (flift (require_wasm_receiver is_wasm)) (\<lambda>_.
     fbind context_new (\<lambda>_.
     fbind cached_pool_address (\<lambda>_.
     fbind (with_flash_guard (pool_call (\<lambda>h. flash_loan (ce_base ext) h k caller receiver amount data))) (\<lambda>_.
     fret ()))))))))"

end
