(* ===== verification/Liquidation_Math.thy ===== *)
theory Liquidation_Math
  imports Controller_Types Validation Controller_Positions
begin

text \<open>
  \<^verbatim>\<open>src/contracts/controller/src/positions/liquidation/curve.rs\<close>: the liquidation bonus as a function of
  the health factor, and the repayment quote that restores the target health factor.

  \<^verbatim>\<open>src/contracts/controller/src/positions/liquidation/math.rs\<close>: the repayment plan, the trimming of
  excess payments, the pro-rata seizure of collateral with its protocol fee, the split of credited
  shares and the scaling of a seizure to what was received.
\<close>

section \<open>Definitions\<close>

record liquidation_snapshot =
  ls_total_debt :: wad
  ls_total_collateral :: wad
  ls_weighted_collateral :: wad
  ls_proportion_seized :: wad
  ls_hf :: wad

record bonus_bounds =
  bb_base :: bps
  bb_max :: bps

record liquidation_curve =
  lc_target_hf :: wad
  lc_hf_for_max_bonus :: wad
  lc_bonus_factor :: bps

definition is_socializable_bad_debt :: "wad \<Rightarrow> wad \<Rightarrow> bool" where
  "is_socializable_bad_debt total_debt total_collateral \<longleftrightarrow>
     total_debt > total_collateral \<and> total_collateral \<le> BAD_DEBT_USD_THRESHOLD"

definition curve_from_config :: "spoke_config \<Rightarrow> liquidation_curve" where
  "curve_from_config cfg =
     \<lparr>lc_target_hf = sc_liquidation_target_hf_wad cfg, lc_hf_for_max_bonus = sc_hf_for_max_bonus_wad cfg,
      lc_bonus_factor = int (sc_liquidation_bonus_factor_bps cfg)\<rparr>"

definition bonus_scale :: "liquidation_curve \<Rightarrow> wad \<Rightarrow> wad \<Rightarrow> wad res" where
  "bonus_scale curve hf target =
     (if target \<le> lc_hf_for_max_bonus curve then Inr WAD
      else
        rbind (wad_checked_sub target hf) (\<lambda>distance.
        rbind (wad_checked_sub target (lc_hf_for_max_bonus curve)) (\<lambda>span.
        rbind (wad_div distance span) (\<lambda>scale.
        Inr (min scale WAD)))))"

definition calculate_linear_bonus_with_target ::
    "wad \<Rightarrow> bps \<Rightarrow> bps \<Rightarrow> liquidation_curve \<Rightarrow> wad \<Rightarrow> bps res" where
  "calculate_linear_bonus_with_target hf base mx curve target =
     (if hf \<ge> target then Inr base
      else
        rbind (bonus_scale curve hf target) (\<lambda>scale.
        rbind (bps_checked_sub mx base) (\<lambda>bonus_range.
        rbind (wad_mul bonus_range scale) (\<lambda>bonus_increment.
        rbind (bps_apply_to (lc_bonus_factor curve) bonus_increment) (\<lambda>scaled_increment.
        unwrap_or_panic (i128_checked_add base scaled_increment) (Generic MathOverflow))))))"

definition max_hf_preserving_bonus_bps :: "liquidation_snapshot \<Rightarrow> int option res" where
  "max_hf_preserving_bonus_bps snap =
     (let proportion = ls_proportion_seized snap in
      if proportion \<le> 0 \<or> ls_hf snap \<ge> WAD then Inr None
      else
        rbind (native (ls_hf snap * BPS)) (\<lambda>product.
        rbind (native (product sdiv proportion - BPS)) (\<lambda>cap. Inr (Some cap))))"

definition liquidation_at_target :: "liquidation_snapshot \<Rightarrow> bps \<Rightarrow> wad \<Rightarrow> wad res" where
  "liquidation_at_target snap bonus target_hf =
     rbind (bps_to_wad bonus) (\<lambda>bonus_wad.
     rbind (wad_checked_add WAD bonus_wad) (\<lambda>one_plus_bonus.
     rbind (wad_div (ls_total_collateral snap) one_plus_bonus) (\<lambda>d_max.
     rbind (wad_mul (ls_proportion_seized snap) one_plus_bonus) (\<lambda>denom_term.
     rbind (wad_mul target_hf (ls_total_debt snap)) (\<lambda>target_debt.
     if target_hf \<le> denom_term \<or> target_debt \<le> ls_weighted_collateral snap
     then Inr (min d_max (ls_total_debt snap))
     else
       rbind (wad_checked_sub target_debt (ls_weighted_collateral snap)) (\<lambda>numerator.
       rbind (wad_checked_sub target_hf denom_term) (\<lambda>denominator.
       rbind (wad_div numerator denominator) (\<lambda>q.
       Inr (min (min q d_max) (ls_total_debt snap))))))))))"

definition estimate_liquidation_amount ::
    "liquidation_snapshot \<Rightarrow> bonus_bounds \<Rightarrow> liquidation_curve \<Rightarrow> (wad \<times> bps) res" where
  "estimate_liquidation_amount snap bounds curve =
     rbind (calculate_linear_bonus_with_target (ls_hf snap) (bb_base bounds) (bb_max bounds) curve (lc_target_hf curve))
       (\<lambda>scaled_bonus.
     rbind (max_hf_preserving_bonus_bps snap) (\<lambda>cap_opt.
     let at_bonus = (\<lambda>bonus.
           rbind (liquidation_at_target snap bonus (lc_target_hf curve)) (\<lambda>ideal.
           rbind (wad_checked_sub (ls_total_debt snap) ideal) (\<lambda>remaining_debt.
           if remaining_debt > 0 \<and> remaining_debt < BAD_DEBT_USD_THRESHOLD
           then Inr (ls_total_debt snap, bonus)
           else Inr (ideal, bonus)))) in
     case cap_opt of
       None \<Rightarrow> at_bonus scaled_bonus
     | Some cap \<Rightarrow>
         if ls_total_collateral snap < ls_total_debt snap then
           rbind (bps_to_wad (bb_base bounds)) (\<lambda>base_wad.
           rbind (wad_checked_add WAD base_wad) (\<lambda>one_plus_base.
           rbind (wad_div_floor (ls_total_collateral snap) one_plus_base) (\<lambda>backed_usd.
           Inr (min backed_usd (ls_total_debt snap), bb_base bounds))))
         else if cap < bb_base bounds then Inr (ls_total_debt snap, max cap 0)
         else at_bonus (min scaled_bonus cap)))"

definition max_bonus_for_threshold :: "wad \<Rightarrow> bps res" where
  "max_bonus_for_threshold proportion_seized =
     (if proportion_seized \<le> 0 then Inr 0
      else
        rbind (mul_div_ceil proportion_seized BPS WAD) (\<lambda>thr.
        let eff_thr_bps = max 1 (min thr BPS) in
        rbind (unwrap_or_panic (i128_checked_mul BPS (BPS - eff_thr_bps)) (Generic MathOverflow)) (\<lambda>numerator.
        Inr (numerator sdiv eff_thr_bps))))"

section \<open>Plans\<close>

record normalized_repayment_plan =
  np_repaid :: "repay_entry list"
  np_refunds :: "payment_tuple list"
  np_repay_usd :: wad
  np_bonus :: bps
  np_full_close :: bool
  np_repays_all_debt :: bool
  np_seize_all :: bool

record liquidation_plan =
  pl_repayment :: normalized_repayment_plan
  pl_seized :: "seize_entry list"

definition sum_repaid_usd :: "repay_entry list \<Rightarrow> wad res" where
  "sum_repaid_usd repaid = rfold (\<lambda>e total. wad_checked_add total (re_usd_wad e)) repaid 0"

definition repayment_plan_validate :: "normalized_repayment_plan \<Rightarrow> unit res" where
  "repayment_plan_validate plan =
     rbind (sum_repaid_usd (np_repaid plan)) (\<lambda>s.
     if s \<noteq> np_repay_usd plan then Inl (Generic InternalError) else Inr ())"

definition seize_entry_valid :: "seize_entry \<Rightarrow> bool" where
  "seize_entry_valid e \<longleftrightarrow>
     \<not> (se_amount e \<le> 0 \<or> se_protocol_fee e < 0 \<or> se_protocol_fee e > se_amount e) \<and>
     \<not> (se_scaled_amount e \<le> 0 \<or> se_bonus_scaled e < 0 \<or> se_bonus_scaled e > se_scaled_amount e \<or>
        int (se_liquidation_fees e) \<ge> BPS)"

definition liquidation_plan_validate :: "liquidation_plan \<Rightarrow> unit res" where
  "liquidation_plan_validate plan =
     rbind (repayment_plan_validate (pl_repayment plan)) (\<lambda>_.
     rfold (\<lambda>e _. if seize_entry_valid e then Inr () else Inl (Generic InternalError)) (pl_seized plan) ())"

definition into_result :: "liquidation_plan \<Rightarrow> liquidation_result" where
  "into_result plan =
     \<lparr>lr_seized = pl_seized plan, lr_repaid = np_repaid (pl_repayment plan), lr_refunds = np_refunds (pl_repayment plan),
      lr_max_debt_usd = np_repay_usd (pl_repayment plan), lr_bonus_bps = np_bonus (pl_repayment plan)\<rparr>"

section \<open>Bonus bounds\<close>

definition get_account_bonus_params ::
    "(hub_asset_key, account_position_raw) smap \<Rightarrow> wad \<Rightarrow> wad \<Rightarrow> ('w, bonus_bounds) ctl" where
  "get_account_bonus_params supply_positions total_collateral proportion_seized =
     fbind (flift (max_bonus_for_threshold proportion_seized)) (\<lambda>mx.
     if total_collateral = 0 then fret \<lparr>bb_base = 0, bb_max = mx\<rparr>
     else
       fbind (ffold (\<lambda>(k, position) acc.
                fbind (cached_price (asset k)) (\<lambda>feed.
                fbind (cached_market_index k) (\<lambda>ix.
                fbind (flift (position_value (ap_scaled_amount position) (mi_supply_index ix) (pf_price feed))) (\<lambda>v.
                fbind (flift (unwrap_or_panic (i128_checked_mul v (ap_liquidation_bonus position)) (Generic MathOverflow))) (\<lambda>product.
                flift (unwrap_or_panic (i128_checked_add acc product) (Generic MathOverflow)))))))
              (iter_typed_positions supply_positions) 0) (\<lambda>weighted_bonus_sum.
       fbind (flift (div_by_int_half_up weighted_bonus_sum total_collateral)) (\<lambda>weighted_bonus_bps.
       fret \<lparr>bb_base = min weighted_bonus_bps mx, bb_max = mx\<rparr>)))"

definition calculate_seizure_proportions :: "account \<Rightarrow> wad \<Rightarrow> wad \<Rightarrow> ('w, wad \<times> bonus_bounds) ctl" where
  "calculate_seizure_proportions a total_collateral weighted_collateral =
     fbind (if total_collateral > 0 then flift (wad_div weighted_collateral total_collateral) else fret 0)
       (\<lambda>proportion_seized.
     fbind (get_account_bonus_params (acc_supply_positions a) total_collateral proportion_seized) (\<lambda>bounds.
     fret (proportion_seized, bounds)))"

section \<open>Repayment\<close>

definition repayment_leg ::
    "account \<Rightarrow> hub_payment \<Rightarrow> wad \<times> repay_entry list \<times> payment_tuple list
      \<Rightarrow> ('w, wad \<times> repay_entry list \<times> payment_tuple list) ctl" where
  "repayment_leg a payment acc =
     (case payment of (k, amount) \<Rightarrow> case acc of (total_repaid_usd, repaid, refunds) \<Rightarrow>
      fbind (cached_price (asset k)) (\<lambda>feed.
      fbind (cached_market_index k) (\<lambda>ix.
      fbind (flift (unwrap_or_panic (smap_get (acc_borrow_positions a) k) (Collateral DebtPositionNotFound))) (\<lambda>position.
      fbind (flift (unscale_borrow_ceil (scaled_amount position) (mi_borrow_index ix) (pf_asset_decimals feed))) (\<lambda>actual_debt.
      fbind (flift (if amount > actual_debt then native (amount - actual_debt) else Inr 0)) (\<lambda>excess.
      let refunds' = (if amount > actual_debt then refunds @ [\<lparr>pt_asset = asset k, pt_amount = excess\<rparr>] else refunds);
          payment_amount = (if amount > actual_debt then actual_debt else amount) in
      fbind (flift (if payment_amount = actual_debt
                    then position_value_floor (scaled_amount position) (mi_borrow_index ix) (pf_price feed)
                    else usd_value_wad feed payment_amount)) (\<lambda>payment_usd.
      fbind (flift (wad_checked_add total_repaid_usd payment_usd)) (\<lambda>total'.
      fret (total',
        repaid @ [\<lparr>re_hub_asset = k, re_amount = payment_amount, re_usd_wad = payment_usd,
                   re_feed = feed, re_market_index = ix\<rparr>],
        refunds')))))))))"

definition calculate_repayment_amounts ::
    "hub_payment list \<Rightarrow> account \<Rightarrow> payment_tuple list \<Rightarrow> ('w, wad \<times> repay_entry list \<times> payment_tuple list) ctl" where
  "calculate_repayment_amounts raw_payments a refunds =
     fbind (flift (aggregate_positive_payments raw_payments)) (\<lambda>merged.
     ffold (repayment_leg a) merged (0, [], refunds))"

definition unit_usd_of :: "price_feed \<Rightarrow> wad res" where
  "unit_usd_of feed =
     rbind (wad_from_token 1 (pf_asset_decimals feed)) (\<lambda>one. wad_mul one (pf_price feed))"

definition one_unit_per_debt_leg_usd :: "account \<Rightarrow> ('w, wad) ctl" where
  "one_unit_per_debt_leg_usd a =
     ffold (\<lambda>k total.
       fbind (cached_price (asset k)) (\<lambda>feed.
       fbind (flift (unit_usd_of feed)) (\<lambda>unit_usd. flift (wad_checked_add total unit_usd))))
     (smap_keys (acc_borrow_positions a)) 0"

definition one_unit_per_leg_usd :: "repay_entry list \<Rightarrow> wad res" where
  "one_unit_per_leg_usd repaid =
     rfold (\<lambda>e total. rbind (unit_usd_of (re_feed e)) (\<lambda>unit_usd. wad_checked_add total unit_usd)) repaid 0"

definition repays_every_debt_leg :: "account \<Rightarrow> repay_entry list \<Rightarrow> ('w, bool) ctl" where
  "repays_every_debt_leg a repaid =
     (if length repaid \<noteq> length (acc_borrow_positions a) then fret False
      else
        ffold (\<lambda>e all_so_far.
          if \<not> all_so_far then fret False
          else
            (case smap_get (acc_borrow_positions a) (re_hub_asset e) of
               None \<Rightarrow> fret False
             | Some position \<Rightarrow>
                 fbind (cached_market_index (re_hub_asset e)) (\<lambda>ix.
                 fbind (flift (unscale_borrow_ceil (scaled_amount position) (mi_borrow_index ix)
                                 (pf_asset_decimals (re_feed e)))) (\<lambda>debt.
                 fret (re_amount e \<ge> debt))))) repaid True)"

definition whole_unit_repayment :: "account \<Rightarrow> liquidation_snapshot \<Rightarrow> wad \<Rightarrow> bps \<Rightarrow> ('w, wad) ctl" where
  "whole_unit_repayment a snap quote_usd bonus =
     (case iter_typed_positions (acc_supply_positions a) of
        [(k, position)] \<Rightarrow>
          fbind (cached_price (asset k)) (\<lambda>feed.
          if pf_asset_decimals feed \<ge> MIN_BORROWABLE_ASSET_DECIMALS then fret quote_usd
          else
            fbind (cached_market_index k) (\<lambda>ix.
            fbind (flift (ray_mul (ap_scaled_amount position) (mi_supply_index ix))) (\<lambda>held.
            fbind (flift (ray_to_asset_floor held (pf_asset_decimals feed))) (\<lambda>held_units.
            if held_units < 1 then fret quote_usd
            else
              fbind (flift (rbind (bps_to_wad bonus) (wad_checked_add WAD))) (\<lambda>one_plus_bonus.
              fbind (flift (unit_usd_of feed)) (\<lambda>unit_usd.
              fbind (flift (wad_checked_add unit_usd (max (unit_usd sdiv 1000000) 1))) (\<lambda>unit_with_margin.
              fbind (flift (wad_mul quote_usd one_plus_bonus)) (\<lambda>quoted_seizure.
              if quoted_seizure \<ge> unit_with_margin then fret quote_usd
              else
                fbind (flift (mul_div_floor unit_usd WAD one_plus_bonus)) (\<lambda>unit_at_bonus.
                fbind (one_unit_per_debt_leg_usd a) (\<lambda>units_usd.
                fbind (flift (wad_checked_add (ls_total_debt snap) units_usd)) (\<lambda>full_close_ceiling.
                if unit_at_bonus \<ge> full_close_ceiling then fret (ls_total_debt snap)
                else
                  fbind (flift (mul_div_ceil unit_with_margin WAD one_plus_bonus)) (\<lambda>unit_repayment.
                  if unit_repayment \<ge> ls_total_debt snap then fret quote_usd
                  else fret unit_repayment))))))))))))
      | _ \<Rightarrow> fret quote_usd)"

text \<open>
  The trimming loop walks the entries from the last one backward; \<open>es\<close> are the entries not yet visited,
  last first, and \<open>kept\<close> those already passed, in order.
\<close>

primrec excess_loop ::
    "bool \<Rightarrow> repay_entry list \<Rightarrow> repay_entry list \<Rightarrow> payment_tuple list \<Rightarrow> wad
      \<Rightarrow> (repay_entry list \<times> payment_tuple list) res" where
  "excess_loop keep_within_quote [] kept refunds remaining = Inr (kept, refunds)"
| "excess_loop keep_within_quote (e # es) kept refunds remaining =
     (if \<not> remaining > 0 then Inr (rev (e # es) @ kept, refunds)
      else if re_amount e \<le> 0 \<or> re_usd_wad e = 0 then excess_loop keep_within_quote es (e # kept) refunds remaining
      else if re_usd_wad e > remaining then
        (let decimals = pf_asset_decimals (re_feed e); price = pf_price (re_feed e); usd = re_usd_wad e in
         rbind (if keep_within_quote then
                  rbind (wad_checked_sub usd remaining) (\<lambda>kept_usd.
                  rbind (wad_div_floor kept_usd price) (\<lambda>tokens.
                  rbind (wad_to_token_floor tokens decimals) (\<lambda>t.
                  Inr (min t (re_amount e)))))
                else
                  rbind (wad_div_floor remaining usd) (\<lambda>ratio.
                  rbind (wad_from_token (re_amount e) decimals) (\<lambda>amount_wad.
                  rbind (wad_mul_floor amount_wad ratio) (\<lambda>cut.
                  rbind (wad_to_token_floor cut decimals) (\<lambda>t.
                  native (re_amount e - t)))))) (\<lambda>new_amount.
         rbind (wad_from_token new_amount decimals) (\<lambda>new_wad.
         rbind (wad_mul new_wad price) (\<lambda>new_value.
         let new_usd = min new_value usd in
         rbind (native (re_amount e - new_amount)) (\<lambda>returned.
         let refunds' = refunds @ [\<lparr>pt_asset = asset (re_hub_asset e), pt_amount = returned\<rparr>];
             kept' = (if new_amount = 0 then kept else e\<lparr>re_amount := new_amount, re_usd_wad := new_usd\<rparr> # kept) in
         rbind (if keep_within_quote then
                  rbind (wad_checked_sub usd new_usd) (\<lambda>removed_usd.
                  if removed_usd \<ge> remaining then Inr 0 else wad_checked_sub remaining removed_usd)
                else Inr 0) (\<lambda>remaining'.
         excess_loop keep_within_quote es kept' refunds' remaining'))))))
      else
        rbind (wad_checked_sub remaining (re_usd_wad e)) (\<lambda>remaining'.
        excess_loop keep_within_quote es kept
          (refunds @ [\<lparr>pt_asset = asset (re_hub_asset e), pt_amount = re_amount e\<rparr>]) remaining'))"

definition process_excess_payment ::
    "repay_entry list \<Rightarrow> payment_tuple list \<Rightarrow> wad \<Rightarrow> bool \<Rightarrow> (repay_entry list \<times> payment_tuple list) res" where
  "process_excess_payment repaid refunds excess_usd keep_within_quote =
     excess_loop keep_within_quote (rev repaid) [] refunds excess_usd"

definition normalize_repayment_plan ::
    "account \<Rightarrow> hub_payment list \<Rightarrow> liquidation_snapshot \<Rightarrow> bonus_bounds \<Rightarrow> liquidation_curve
      \<Rightarrow> ('w, normalized_repayment_plan) ctl" where
  "normalize_repayment_plan a raw_payments snap bounds curve =
     fbind (calculate_repayment_amounts raw_payments a []) (\<lambda>(total_debt_payment_usd, repaid_tokens, refunds).
     fbind (flift (estimate_liquidation_amount snap bounds curve)) (\<lambda>(curve_repayment_usd, bonus).
     let insolvent = ls_total_collateral snap < ls_total_debt snap in
     fbind (if insolvent \<or> curve_repayment_usd \<ge> ls_total_debt snap then fret curve_repayment_usd
            else whole_unit_repayment a snap curve_repayment_usd bonus) (\<lambda>ideal_repayment_usd.
     let full_close = ideal_repayment_usd \<ge> ls_total_debt snap in
     fbind (flift (if \<not> full_close \<and> total_debt_payment_usd > ideal_repayment_usd then
                     rbind (wad_checked_sub total_debt_payment_usd ideal_repayment_usd) (\<lambda>excess_usd.
                     process_excess_payment repaid_tokens refunds excess_usd insolvent)
                   else Inr (repaid_tokens, refunds))) (\<lambda>(final_tokens, refunds').
     fbind (flift (sum_repaid_usd final_tokens)) (\<lambda>repay_usd.
     fbind (flift (if insolvent \<and> repay_usd > 0 then
                     rbind (one_unit_per_leg_usd final_tokens) (\<lambda>units.
                     rbind (wad_checked_add repay_usd units) (\<lambda>reach. Inr (reach \<ge> ideal_repayment_usd)))
                   else Inr False)) (\<lambda>seize_all.
     fbind (if full_close then repays_every_debt_leg a final_tokens else fret False) (\<lambda>repays_all_debt.
     fret \<lparr>np_repaid = final_tokens, np_refunds = refunds', np_repay_usd = repay_usd, np_bonus = bonus,
           np_full_close = full_close, np_repays_all_debt = repays_all_debt, np_seize_all = seize_all\<rparr>)))))))"

definition release_unbacked_repayment :: "normalized_repayment_plan \<Rightarrow> wad \<Rightarrow> normalized_repayment_plan res" where
  "release_unbacked_repayment plan excess_usd =
     (if excess_usd \<le> 0 then Inr plan
      else
        rbind (process_excess_payment (np_repaid plan) (np_refunds plan) excess_usd False) (\<lambda>(repaid, refunds).
        rbind (sum_repaid_usd repaid) (\<lambda>repay_usd.
        Inr (plan\<lparr>np_repaid := repaid, np_refunds := refunds, np_repay_usd := repay_usd,
                  np_full_close := False, np_repays_all_debt := False\<rparr>))))"

section \<open>Seizure\<close>

definition seizure_request ::
    "normalized_repayment_plan \<Rightarrow> price_feed \<Rightarrow> ray \<Rightarrow> wad \<Rightarrow> wad \<Rightarrow> (ray \<times> wad) res" where
  "seizure_request plan feed actual_ray seizure_for_asset_usd unseized_usd =
     rbind (wad_div seizure_for_asset_usd (pf_price feed)) (\<lambda>seizure_amount_wad.
     let seizure_ray = i128_saturating_mul seizure_amount_wad (RAY sdiv WAD); decimals = pf_asset_decimals feed in
     if \<not> np_seize_all plan \<and> decimals < MIN_BORROWABLE_ASSET_DECIMALS \<and> seizure_ray < actual_ray then
       if np_repays_all_debt plan then
         rbind (ray_to_asset_ceil seizure_ray decimals) (\<lambda>whole.
         rbind (ray_from_asset whole decimals) (\<lambda>r. Inr (min r actual_ray, unseized_usd)))
       else
         rbind (ray_to_asset_floor seizure_ray decimals) (\<lambda>whole.
         rbind (ray_from_asset whole decimals) (\<lambda>r.
         rbind (rbind (ray_to_wad r) (\<lambda>w. wad_mul w (pf_price feed))) (\<lambda>whole_usd.
         if seizure_for_asset_usd > whole_usd then
           rbind (wad_checked_sub seizure_for_asset_usd whole_usd) (\<lambda>dropped.
           rbind (wad_checked_add unseized_usd dropped) (\<lambda>unseized'. Inr (r, unseized')))
         else Inr (r, unseized_usd))))
     else Inr (seizure_ray, unseized_usd))"

definition seizure_fee ::
    "price_feed \<Rightarrow> market_index \<Rightarrow> account_position \<Rightarrow> ray \<Rightarrow> ray \<Rightarrow> int \<Rightarrow> int res" where
  "seizure_fee feed ix position base_ray protocol_fee_ray capped_amount =
     (let decimals = pf_asset_decimals feed in
      rbind (resolve_withdrawal capped_amount (ap_scaled_amount position) (mi_supply_index ix) decimals)
        (\<lambda>(_, pool_gross).
      rbind (ray_to_asset_floor protocol_fee_ray decimals) (\<lambda>fee_asset.
      let bumped_fee = (if protocol_fee_ray > 0 \<and> fee_asset = 0 then 1 else fee_asset) in
      rbind (ray_from_asset pool_gross decimals) (\<lambda>paid_ray.
      rbind (if paid_ray > base_ray then
               rbind (ray_checked_sub paid_ray base_ray) (\<lambda>x. ray_to_asset_floor x decimals)
             else Inr 0) (\<lambda>realised_excess.
      Inr (min bumped_fee realised_excess))))))"

definition seizure_entry ::
    "normalized_repayment_plan \<Rightarrow> wad \<Rightarrow> hub_asset_key \<Rightarrow> account_position \<Rightarrow> price_feed \<Rightarrow> market_index \<Rightarrow> ray \<Rightarrow> ray
      \<Rightarrow> seize_entry option res" where
  "seizure_entry plan one_plus_bonus k position feed ix actual_ray seizure_ray =
     (let capped_ray = (if np_seize_all plan then actual_ray else min seizure_ray actual_ray);
          decimals = pf_asset_decimals feed in
      if seizure_ray \<le> 0 \<or> capped_ray \<le> 0 then Inr None
      else
        (let is_full_close = capped_ray = actual_ray in
         rbind (rbind (wad_to_ray one_plus_bonus) (ray_div_floor seizure_ray)) (\<lambda>base_ray.
         rbind (if capped_ray > base_ray then ray_checked_sub capped_ray base_ray else Inr 0) (\<lambda>bonus_ray.
         rbind (bps_apply_to_ray (ap_liquidation_fees position) bonus_ray) (\<lambda>protocol_fee_ray.
         rbind (if is_full_close then Inr (ap_scaled_amount position)
                else ray_div_floor capped_ray (mi_supply_index ix)) (\<lambda>seized_scaled.
         rbind (ray_div_floor bonus_ray (mi_supply_index ix)) (\<lambda>bonus_shares.
         let bonus_scaled = min bonus_shares seized_scaled in
         if seized_scaled \<le> 0 then Inr None
         else
           rbind (if is_full_close then ray_to_asset capped_ray decimals
                  else ray_to_asset_floor capped_ray decimals) (\<lambda>capped_amount.
           if capped_amount \<le> 0 then Inr None
           else
             rbind (seizure_fee feed ix position base_ray protocol_fee_ray capped_amount) (\<lambda>protocol_fee.
             Inr (Some \<lparr>se_hub_asset = k, se_amount = capped_amount, se_protocol_fee = protocol_fee,
                        se_scaled_amount = seized_scaled, se_bonus_scaled = bonus_scaled,
                        se_liquidation_fees = as_u32 (ap_liquidation_fees position),
                        se_feed = feed, se_market_index = ix\<rparr>)))))))))) "

definition seizure_leg ::
    "normalized_repayment_plan \<Rightarrow> wad \<Rightarrow> wad \<Rightarrow> wad \<Rightarrow> hub_asset_key \<times> account_position
      \<Rightarrow> seize_entry list \<times> wad \<Rightarrow> ('w, seize_entry list \<times> wad) ctl" where
  "seizure_leg plan total_collateral one_plus_bonus total_seizure_usd leg acc =
     (case leg of (k, position) \<Rightarrow> case acc of (seized, unseized_usd) \<Rightarrow>
      fbind (cached_price (asset k)) (\<lambda>feed.
      fbind (cached_market_index k) (\<lambda>ix.
      fbind (flift (ray_mul (ap_scaled_amount position) (mi_supply_index ix))) (\<lambda>actual_ray.
      fbind (flift (position_value (ap_scaled_amount position) (mi_supply_index ix) (pf_price feed))) (\<lambda>asset_value.
      fbind (flift (wad_div asset_value total_collateral)) (\<lambda>share.
      fbind (flift (wad_mul total_seizure_usd share)) (\<lambda>seizure_for_asset_usd.
      fbind (flift (seizure_request plan feed actual_ray seizure_for_asset_usd unseized_usd)) (\<lambda>(seizure_ray, unseized').
      fbind (flift (seizure_entry plan one_plus_bonus k position feed ix actual_ray seizure_ray)) (\<lambda>entry.
      fret (case entry of None \<Rightarrow> seized | Some e \<Rightarrow> seized @ [e], unseized'))))))))))"

definition calculate_seized_collateral ::
    "account \<Rightarrow> wad \<Rightarrow> normalized_repayment_plan \<Rightarrow> ('w, seize_entry list \<times> wad) ctl" where
  "calculate_seized_collateral a total_collateral plan =
     (if total_collateral \<le> 0 then fret ([], 0)
      else
        fbind (flift (rbind (bps_to_wad (np_bonus plan)) (wad_checked_add WAD))) (\<lambda>one_plus_bonus.
        fbind (flift (wad_mul (np_repay_usd plan) one_plus_bonus)) (\<lambda>total_seizure_usd.
        fbind (ffold (seizure_leg plan total_collateral one_plus_bonus total_seizure_usd)
                 (iter_typed_positions (acc_supply_positions a)) ([], 0)) (\<lambda>(seized, unseized_usd).
        fbind (flift (wad_div_floor unseized_usd one_plus_bonus)) (\<lambda>unbacked.
        fret (seized, unbacked))))))"

definition split_seized_shares :: "ray \<Rightarrow> ray \<Rightarrow> nat \<Rightarrow> (ray \<times> ray) res" where
  "split_seized_shares seized_scaled bonus_scaled liquidation_fees_bps =
     (let fees = int liquidation_fees_bps in
      if seized_scaled < 0 \<or> bonus_scaled < 0 \<or> bonus_scaled > seized_scaled \<or> fees \<ge> BPS
      then Inl (Generic InternalError)
      else
        rbind (mul_div_ceil bonus_scaled fees BPS) (\<lambda>fee_scaled.
        if fee_scaled > seized_scaled then Inl (Generic InternalError)
        else
          rbind (ray_checked_sub seized_scaled fee_scaled) (\<lambda>liquidator_scaled.
          rbind (ray_checked_add fee_scaled liquidator_scaled) (\<lambda>recombined.
          if recombined \<noteq> seized_scaled then Inl (Generic InternalError)
          else Inr (fee_scaled, liquidator_scaled)))))"

definition scale_seizure :: "int \<Rightarrow> int \<Rightarrow> seize_entry \<Rightarrow> seize_entry res" where
  "scale_seizure num den e =
     rbind (assert_with_error (pf_asset_decimals (se_feed e) \<ge> MIN_BORROWABLE_ASSET_DECIMALS)
              (Generic InvalidPayments)) (\<lambda>_.
     rbind (mul_div_floor (se_scaled_amount e) num den) (\<lambda>new_scaled.
     rbind (rbind (ray_mul_floor new_scaled (mi_supply_index (se_market_index e)))
              (\<lambda>r. ray_to_asset_floor r (pf_asset_decimals (se_feed e)))) (\<lambda>shares_amount.
     rbind (mul_div_floor (se_amount e) num den) (\<lambda>scaled_amt.
     let new_amount = min scaled_amt shares_amount in
     rbind (mul_div_floor (se_protocol_fee e) num den) (\<lambda>fee.
     rbind (mul_div_floor (se_bonus_scaled e) num den) (\<lambda>bonus.
     Inr (e\<lparr>se_amount := new_amount, se_protocol_fee := min fee new_amount,
            se_scaled_amount := new_scaled, se_bonus_scaled := bonus\<rparr>)))))))"

definition scale_seizures_to_received :: "seize_entry list \<Rightarrow> wad \<Rightarrow> wad \<Rightarrow> seize_entry list res" where
  "scale_seizures_to_received seized received_usd planned_usd =
     (if planned_usd \<le> 0 \<or> received_usd \<ge> planned_usd then Inr seized
      else rfold (\<lambda>e out. rbind (scale_seizure received_usd planned_usd e) (\<lambda>e'. Inr (out @ [e']))) seized [])"

end
