(* ===== verification/Liquidation.thy ===== *)
theory Liquidation
  imports Liquidation_Math
begin

text \<open>
  \<^verbatim>\<open>src/contracts/controller/src/positions/liquidation/{plan,apply,bad_debt,mod}.rs\<close>: the plan of a
  liquidation, its execution in both delivery modes, and the socialisation of bad debt.
\<close>

section \<open>Planning (plan.rs)\<close>

definition build_liquidation_plan ::
    "'w ctl_externals \<Rightarrow> account \<Rightarrow> hub_payment list \<Rightarrow> ('w, liquidation_plan) ctl" where
  "build_liquidation_plan ext a raw_payments =
     fbind (fassert (acc_borrow_positions a \<noteq> []) (Collateral HealthFactorTooHigh)) (\<lambda>_.
     fbind (ffold (\<lambda>(k, _) _. enforce_spoke_asset_flags (acc_spoke_id a) k AllowOnExit) raw_payments ()) (\<lambda>_.
     fbind (calculate_account_risk_totals ext (acc_supply_positions a) (acc_borrow_positions a)) (\<lambda>totals.
     fbind (fassert (rt_health_factor totals < WAD) (Collateral HealthFactorTooHigh)) (\<lambda>_.
     fbind (calculate_seizure_proportions a (rt_total_collateral totals) (rt_weighted_collateral totals))
       (\<lambda>(proportion_seized, bounds).
     let snap = \<lparr>ls_total_debt = rt_total_debt totals, ls_total_collateral = rt_total_collateral totals,
                 ls_weighted_collateral = rt_weighted_collateral totals,
                 ls_proportion_seized = proportion_seized, ls_hf = rt_health_factor totals\<rparr> in
     fbind (ctx_spoke_config (acc_spoke_id a)) (\<lambda>cfg.
     fbind (normalize_repayment_plan a raw_payments snap bounds (curve_from_config cfg)) (\<lambda>repayment.
     fbind (calculate_seized_collateral a (rt_total_collateral totals) repayment) (\<lambda>(seized, unbacked_usd).
     fbind (flift (release_unbacked_repayment repayment unbacked_usd)) (\<lambda>repayment1.
     fbind (flift (if unbacked_usd > 0 \<and> seized = []
                   then release_unbacked_repayment repayment1 (np_repay_usd repayment1)
                   else Inr repayment1)) (\<lambda>repayment2.
     fbind (ffold (\<lambda>e _. enforce_spoke_asset_flags (acc_spoke_id a) (se_hub_asset e) SeizureLeg) seized ()) (\<lambda>_.
     let plan = \<lparr>pl_repayment = repayment2, pl_seized = seized\<rparr> in
     fbind (flift (liquidation_plan_validate plan)) (\<lambda>_.
     fret plan))))))))))))"

section \<open>Execution (apply.rs)\<close>

definition offered_amount :: "hub_payment list \<Rightarrow> hub_asset_key \<Rightarrow> int res" where
  "offered_amount offers k = expect_invariant (map_of offers k)"

definition liquidation_repayment_leg ::
    "'w ctl_externals \<Rightarrow> address \<Rightarrow> address \<Rightarrow> hub_payment list option \<Rightarrow> account \<Rightarrow> repay_entry
      \<Rightarrow> wad \<times> pool_action list \<Rightarrow> ('w, wad \<times> pool_action list) ctl" where
  "liquidation_repayment_leg ext liquidator pool_addr offered a e acc =
     (case acc of (received_usd, actions) \<Rightarrow>
      fbind (enforce_spoke_asset_flags (acc_spoke_id a) (re_hub_asset e) AllowOnExit) (\<lambda>_.
      fbind (flift (case offered of None \<Rightarrow> Inr (re_amount e) | Some offers \<Rightarrow> offered_amount offers (re_hub_asset e)))
        (\<lambda>pull.
      fbind (transfer_amount_measured ext (asset (re_hub_asset e)) liquidator pool_addr pull (Generic AmountMustBePositive))
        (\<lambda>received.
      fbind (flift (if received \<ge> re_amount e then Inr (re_usd_wad e)
                    else mul_div_floor (re_usd_wad e) received (re_amount e))) (\<lambda>leg_usd.
      fbind (flift (wad_checked_add received_usd leg_usd)) (\<lambda>received_usd'.
      fbind (flift (expect_invariant (smap_get (acc_borrow_positions a) (re_hub_asset e)))) (\<lambda>position.
      fret (received_usd', actions @ [make_pool_action position received (re_hub_asset e)]))))))))"

definition apply_liquidation_repayments ::
    "'w ctl_externals \<Rightarrow> address \<Rightarrow> repay_entry list \<Rightarrow> hub_payment list option \<Rightarrow> account \<Rightarrow> ('w, wad \<times> account) ctl" where
  "apply_liquidation_repayments ext liquidator repaid offered a =
     fbind cached_pool_address (\<lambda>pool_addr.
     fbind (ffold (liquidation_repayment_leg ext liquidator pool_addr offered a) repaid (0, []))
       (\<lambda>(received_usd, actions).
     fbind (apply_repay_batch ext liquidator actions a) (\<lambda>(_, a').
     fret (received_usd, a'))))"

definition seizure_withdraw_entry ::
    "account \<Rightarrow> seize_entry \<Rightarrow> pool_withdraw_entry list \<Rightarrow> ('w, pool_withdraw_entry list) ctl" where
  "seizure_withdraw_entry a e entries =
     fbind (enforce_spoke_asset_flags (acc_spoke_id a) (se_hub_asset e) SeizureLeg) (\<lambda>_.
     fbind (flift (expect_invariant (smap_get (acc_supply_positions a) (se_hub_asset e)))) (\<lambda>raw.
     fret (entries @ [\<lparr>pwe_action = make_pool_action (scaled_of_account_position (account_position_of_raw raw))
                         (se_amount e) (se_hub_asset e), pwe_protocol_fee = se_protocol_fee e\<rparr>])))"

definition apply_liquidation_seizures ::
    "'w ctl_externals \<Rightarrow> address \<Rightarrow> seize_entry list \<Rightarrow> account \<Rightarrow> ('w, account) ctl" where
  "apply_liquidation_seizures ext liquidator seized a =
     fbind (ffold (seizure_withdraw_entry a) seized []) (\<lambda>entries.
     fbind (apply_withdraw_batch ext liquidator Withdraw_Liquidation entries a) (\<lambda>(_, a').
     fret a'))"

definition credit_supply_shares :: "hub_asset_key \<Rightarrow> ray \<Rightarrow> account \<Rightarrow> ('w, account) ctl" where
  "credit_supply_shares k scaled receiver =
     (if scaled = 0 then fret receiver
      else
        fbind (case smap_get (acc_supply_positions receiver) k of
                 Some raw \<Rightarrow> fret (account_position_of_raw raw)
               | None \<Rightarrow>
                   fbind (require_spoke_asset (acc_spoke_id receiver) k) (\<lambda>config.
                   fret (get_or_create_supply_position receiver k config))) (\<lambda>position.
        fbind (flift (ray_checked_add (ap_scaled_amount position) scaled)) (\<lambda>total_scaled.
        fret (update_or_remove_supply_position receiver k (position\<lparr>ap_scaled_amount := total_scaled\<rparr>)))))"

definition share_credit_leg ::
    "seize_entry \<Rightarrow> account \<times> account \<times> pool_seize_entry list \<Rightarrow> ('w, account \<times> account \<times> pool_seize_entry list) ctl" where
  "share_credit_leg e acc =
     (case acc of (a, receiver, fee_entries) \<Rightarrow>
      let k = se_hub_asset e; seized_scaled = se_scaled_amount e in
      fbind (enforce_spoke_asset_flags (acc_spoke_id a) k SeizureLeg) (\<lambda>_.
      fbind (flift (split_seized_shares seized_scaled (se_bonus_scaled e) (se_liquidation_fees e)))
        (\<lambda>(fee_scaled, liquidator_scaled).
      fbind (fassert (acc_spoke_id receiver = acc_spoke_id a) (Spoke SpokeMismatch)) (\<lambda>_.
      fbind (flift (ray_checked_sub seized_scaled liquidator_scaled)) (\<lambda>difference.
      fbind (fassert (difference = fee_scaled) (Generic InternalError)) (\<lambda>_.
      fbind (flift (get_supply_position_or_panic a k)) (\<lambda>position.
      fbind (flift (ray_checked_sub (ap_scaled_amount position) seized_scaled)) (\<lambda>left_scaled.
      let a' = update_or_remove_supply_position a k (position\<lparr>ap_scaled_amount := left_scaled\<rparr>) in
      fbind (credit_supply_shares k liquidator_scaled receiver) (\<lambda>receiver'.
      if fee_scaled > 0 then
        fbind (apply_spoke_exit (acc_spoke_id a') Supply_Side k fee_scaled) (\<lambda>_.
        fret (a', receiver', fee_entries @ [\<lparr>pze_hub_asset = k, pze_side = Deposit,
          pze_position = \<lparr>scaled_amount = fee_scaled\<rparr>\<rparr>]))
      else fret (a', receiver', fee_entries))))))))))"

definition pool_seize_positions_call :: "pool_seize_entry list \<Rightarrow> ('w, unit) ctl" where
  "pool_seize_positions_call entries =
     fbind cached_pool_address (\<lambda>_.
     pool_call (\<lambda>h. rbind (seize_positions h entries) (\<lambda>h'. Inr ((), h'))))"

definition apply_liquidation_share_credit ::
    "seize_entry list \<Rightarrow> account \<Rightarrow> account \<Rightarrow> ('w, account \<times> account) ctl" where
  "apply_liquidation_share_credit seized a receiver =
     fbind (ffold share_credit_leg seized (a, receiver, [])) (\<lambda>(a', receiver', fee_entries).
     fbind (if fee_entries \<noteq> [] then pool_seize_positions_call fee_entries else fret ()) (\<lambda>_.
     fret (a', receiver')))"

definition credited_shares :: "seize_entry \<Rightarrow> ray res" where
  "credited_shares e =
     rbind (split_seized_shares (se_scaled_amount e) (se_bonus_scaled e) (se_liquidation_fees e)) (\<lambda>(_, l). Inr l)"

definition require_credit_position_limit :: "account \<Rightarrow> seize_entry list \<Rightarrow> bool \<Rightarrow> ('w, unit) ctl" where
  "require_credit_position_limit receiver seized fresh =
     fbind (ffold (\<lambda>e aggregated.
              fbind (flift (credited_shares e)) (\<lambda>l.
              fret (if l > 0 then aggregated @ [(se_hub_asset e, se_amount e)] else aggregated))) seized [])
       (\<lambda>aggregated.
     fbind (if \<not> fresh then validate_bulk_position_limits receiver Deposit aggregated else fret ()) (\<lambda>_.
     require_whole_unit_isolation receiver aggregated))"

definition record_share_credit_updates :: "account \<Rightarrow> seize_entry list \<Rightarrow> ('w, unit) ctl" where
  "record_share_credit_updates receiver seized =
     ffold (\<lambda>e _.
       fbind (flift (credited_shares e)) (\<lambda>l.
       if l = 0 then fret ()
       else
         fbind (flift (get_supply_position_or_panic receiver (se_hub_asset e))) (\<lambda>_.
         fbind (flift (ray_mul l (mi_supply_index (se_market_index e)))) (\<lambda>r.
         fbind (flift (ray_to_asset_floor r (pf_asset_decimals (se_feed e)))) (\<lambda>_. fret ()))))) seized ()"

section \<open>Bad debt (bad_debt.rs)\<close>

definition execute_bad_debt_cleanup :: "'w ctl_externals \<Rightarrow> nat \<Rightarrow> account \<Rightarrow> ('w, unit) ctl" where
  "execute_bad_debt_cleanup ext account_id a =
     fbind (ffold (\<lambda>(k, position) entries.
              fbind (apply_spoke_exit (acc_spoke_id a) Supply_Side k (ap_scaled_amount position)) (\<lambda>_.
              fret (entries @ [\<lparr>pze_hub_asset = k, pze_side = Deposit,
                                pze_position = scaled_of_account_position position\<rparr>])))
            (iter_typed_positions (acc_supply_positions a)) []) (\<lambda>entries.
     fbind (ffold (\<lambda>(k, position) entries.
              fbind (apply_spoke_exit (acc_spoke_id a) Borrow_Side k (scaled_amount position)) (\<lambda>_.
              fret (entries @ [\<lparr>pze_hub_asset = k, pze_side = Borrow, pze_position = position\<rparr>])))
            (acc_borrow_positions a) entries) (\<lambda>entries'.
     fbind (pool_seize_positions_call entries') (\<lambda>_.
     fbind persist_spoke_usage (\<lambda>_.
     remove_account_and_burn_nft ext account_id))))"

definition check_bad_debt_after_liquidation ::
    "'w ctl_externals \<Rightarrow> nat \<Rightarrow> account \<Rightarrow> account_risk_totals \<Rightarrow> ('w, unit) ctl" where
  "check_bad_debt_after_liquidation ext account_id a totals =
     (if acc_borrow_positions a = [] then cleanup_account_if_empty ext a account_id
      else if is_socializable_bad_debt (rt_total_debt totals) (rt_total_collateral totals)
      then execute_bad_debt_cleanup ext account_id a
      else fret ())"

section \<open>Entry (mod.rs)\<close>

definition load_credit_receiver :: "'w ctl_externals \<Rightarrow> nat \<Rightarrow> account \<Rightarrow> nat \<Rightarrow> ('w, account) ctl" where
  "load_credit_receiver ext account_id a requested =
     fbind (fassert (requested \<noteq> account_id) (Collateral SelfLiquidationNotAllowed)) (\<lambda>_.
     fbind (get_account ext requested) (\<lambda>receiver.
     fbind (fassert (acc_spoke_id receiver = acc_spoke_id a) (Spoke SpokeMismatch)) (\<lambda>_.
     fbind (fassert (acc_mode receiver = Normal) (Generic AccountModeMismatch)) (\<lambda>_.
     fret receiver))))"

definition resolve_seize_receiver ::
    "'w ctl_externals \<Rightarrow> address \<Rightarrow> nat \<Rightarrow> account \<Rightarrow> seize_mode \<Rightarrow> ('w, (nat \<times> account) option) ctl" where
  "resolve_seize_receiver ext liquidator account_id a mode =
     (case mode of
        Seize_Transfer \<Rightarrow> fret None
      | Seize_Credit requested \<Rightarrow>
          if requested = 0 then
            fbind (create_account_with ext liquidator (acc_spoke_id a) Normal AllowDeprecated) (\<lambda>r. fret (Some r))
          else
            fbind (load_credit_receiver ext account_id a requested) (\<lambda>receiver.
            fbind (require_owner_or_delegate requested liquidator (acc_owner receiver)) (\<lambda>_.
            fret (Some (requested, receiver)))))"

definition process_liquidation ::
    "'w ctl_externals \<Rightarrow> address \<Rightarrow> nat \<Rightarrow> hub_payment list \<Rightarrow> seize_mode \<Rightarrow> ('w, nat) ctl" where
  "process_liquidation ext liquidator account_id debt_payments mode =
     fbind (require_auth liquidator) (\<lambda>_.
     fbind require_not_flash_loaning (\<lambda>_.
     fbind (get_account ext account_id) (\<lambda>a.
     fbind context_new (\<lambda>_.
     fbind (flift (require_non_empty_payments debt_payments)) (\<lambda>_.
     fbind (resolve_seize_receiver ext liquidator account_id a mode) (\<lambda>receiver.
     fbind (build_liquidation_plan ext a debt_payments) (\<lambda>plan.
     fbind (if np_full_close (pl_repayment plan)
            then fbind (flift (aggregate_positive_payments debt_payments)) (\<lambda>o'. fret (Some o'))
            else fret None) (\<lambda>offered.
     let result = into_result plan in
     fbind (flift (require_non_empty_payments (lr_repaid result))) (\<lambda>_.
     fbind (apply_liquidation_repayments ext liquidator (lr_repaid result) offered a) (\<lambda>(received_usd, a1).
     fbind (flift (sum_repaid_usd (lr_repaid result))) (\<lambda>repay_usd.
     fbind (flift (scale_seizures_to_received (lr_seized result) received_usd repay_usd)) (\<lambda>seized.
     fbind (case receiver of
              None \<Rightarrow>
                fbind (apply_liquidation_seizures ext liquidator seized a1) (\<lambda>a'. fret (a', None))
            | Some (receiver_id, receiving_account) \<Rightarrow>
                fbind (require_credit_position_limit receiving_account seized (mode = Seize_Credit 0)) (\<lambda>_.
                fbind (apply_liquidation_share_credit seized a1 receiving_account) (\<lambda>(a', r').
                fret (a', Some (receiver_id, r'))))) (\<lambda>(a2, receiver').
     fbind (calculate_account_risk_totals ext (acc_supply_positions a2) (acc_borrow_positions a2)) (\<lambda>post_totals.
     fbind (finalize_position_flow ext account_id a2 Both_Sides False) (\<lambda>_.
     fbind (case receiver' of
              None \<Rightarrow> fret ()
            | Some (receiver_id, receiving_account) \<Rightarrow>
                fbind (record_share_credit_updates receiving_account seized) (\<lambda>_.
                finalize_position_flow ext receiver_id receiving_account Supply_Only False)) (\<lambda>_.
     fbind (check_bad_debt_after_liquidation ext account_id a2 post_totals) (\<lambda>_.
     fret (case receiver' of None \<Rightarrow> 0 | Some (receiver_id, _) \<Rightarrow> receiver_id))))))))))))))))))"

datatype bad_debt_gate = DustCapped | InsolventOnly

definition socialize_bad_debt :: "'w ctl_externals \<Rightarrow> nat \<Rightarrow> bad_debt_gate \<Rightarrow> ('w, unit) ctl" where
  "socialize_bad_debt ext account_id gate =
     fbind context_new (\<lambda>_.
     fbind (get_account ext account_id) (\<lambda>a.
     fbind (fassert (acc_borrow_positions a \<noteq> []) (Collateral DebtPositionNotFound)) (\<lambda>_.
     fbind (calculate_account_risk_totals ext (acc_supply_positions a) (acc_borrow_positions a)) (\<lambda>totals.
     let admits = (case gate of
           DustCapped \<Rightarrow> is_socializable_bad_debt (rt_total_debt totals) (rt_total_collateral totals)
         | InsolventOnly \<Rightarrow> rt_total_debt totals > rt_total_collateral totals) in
     fbind (fassert admits (Collateral CannotCleanBadDebt)) (\<lambda>_.
     execute_bad_debt_cleanup ext account_id a)))))"

definition clean_bad_debt_standalone :: "'w ctl_externals \<Rightarrow> nat \<Rightarrow> ('w, unit) ctl" where
  "clean_bad_debt_standalone ext account_id = socialize_bad_debt ext account_id DustCapped"

definition process_clean_bad_debt :: "'w ctl_externals \<Rightarrow> address \<Rightarrow> nat \<Rightarrow> ('w, unit) ctl" where
  "process_clean_bad_debt ext caller account_id =
     fbind (require_auth caller) (\<lambda>_.
     fbind require_not_flash_loaning (\<lambda>_.
     clean_bad_debt_standalone ext account_id))"

definition process_force_socialize_bad_debt :: "'w ctl_externals \<Rightarrow> nat \<Rightarrow> ('w, unit) ctl" where
  "process_force_socialize_bad_debt ext account_id =
     fbind require_not_flash_loaning (\<lambda>_. socialize_bad_debt ext account_id InsolventOnly)"

end
