(* ===== verification/Controller_Legs.thy ===== *)
theory Controller_Legs
  imports Controller_Positions
begin

text \<open>
  \<^verbatim>\<open>src/contracts/controller/src/strategies/{mod,swap,legs}.rs\<close>, \<^verbatim>\<open>external/blend.rs\<close> and the balance snapshots of
  \<^verbatim>\<open>payments.rs\<close>: what the strategies are composed of. The swap router, Blend and the tokens are
  external; the controller only believes the balances it measures before and after a call.
\<close>

abbreviation read_balance :: "'w ctl_externals \<Rightarrow> address \<Rightarrow> address \<Rightarrow> ('w, int) ctl" where
  "read_balance ext tok holder \<equiv> (\<lambda>s. rbind (token_balance (ce_base ext) tok holder (sy_world s)) (\<lambda>b. Inr (b, s)))"

abbreviation world_effect :: "('w \<Rightarrow> 'w res) \<Rightarrow> ('w, unit) ctl" where
  "world_effect f \<equiv> world_call (\<lambda>w. rbind (f w) (\<lambda>w'. Inr ((), w')))"

section \<open>Snapshots and finalization\<close>

definition snapshot_balances :: "'w ctl_externals \<Rightarrow> address \<Rightarrow> address list \<Rightarrow> ('w, address \<rightharpoonup> int) ctl" where
  "snapshot_balances ext holder assets =
     ffold (\<lambda>tok snapshot.
       if snapshot tok \<noteq> None then fret snapshot
       else fbind (read_balance ext tok holder) (\<lambda>balance. fret (snapshot(tok \<mapsto> balance)))) assets Map.empty"

definition prefetch_strategy_prices :: "'w ctl_externals \<Rightarrow> account \<Rightarrow> address list \<Rightarrow> ('w, unit) ctl" where
  "prefetch_strategy_prices ext a extra_assets = fetch_prices ext (account_price_assets a extra_assets)"

definition strategy_finalize :: "'w ctl_externals \<Rightarrow> nat \<Rightarrow> account \<Rightarrow> ('w, account) ctl" where
  "strategy_finalize ext account_id a =
     fbind (enforce_post_pool_solvency ext a) (\<lambda>(_, a').
     fbind (finalize_position_flow ext account_id a' Both_Sides True) (\<lambda>_.
     fret a'))"

section \<open>The router (swap.rs)\<close>

definition verify_router_output :: "'w ctl_externals \<Rightarrow> address \<Rightarrow> int \<Rightarrow> ('w, int) ctl" where
  "verify_router_output ext token_out balance_before =
     fbind (fread sy_self) (\<lambda>controller.
     fbind (balance_delta_since ext token_out controller balance_before) (\<lambda>received.
     fbind (fassert (received > 0) (Strategy NoSwapOutput)) (\<lambda>_.
     fret received)))"

definition swap_tokens ::
    "'w ctl_externals \<Rightarrow> address \<Rightarrow> address \<Rightarrow> int \<Rightarrow> address \<Rightarrow> bytes \<Rightarrow> ('w, int) ctl" where
  "swap_tokens ext refund_to token_in amount_in token_out swap =
     fbind (flift (require_positive_amount amount_in)) (\<lambda>_.
     fbind (fassert (swap \<noteq> []) (Generic InvalidPayments)) (\<lambda>_.
     fbind (fread sy_self) (\<lambda>controller.
     fbind (read_store_res get_swap_aggregator) (\<lambda>router.
     fbind (read_balance ext token_in controller) (\<lambda>in_before.
     fbind (read_balance ext token_out controller) (\<lambda>out_before.
     fbind (with_flash_guard (world_effect (ce_execute_strategy ext router controller amount_in swap
              [\<lparr>ta_token = token_in, ta_from = controller, ta_to = router, ta_amount = amount_in\<rparr>]))) (\<lambda>_.
     fbind (read_balance ext token_in controller) (\<lambda>in_after.
     fbind (fassert (in_after \<le> in_before) (Strategy RouterOverspend)) (\<lambda>_.
     fbind (flift (native (in_before - in_after))) (\<lambda>actual_spent.
     fbind (fassert (actual_spent \<le> amount_in) (Strategy RouterOverspend)) (\<lambda>_.
     fbind (flift (native (amount_in - actual_spent))) (\<lambda>leftover.
     fbind (if leftover > 0
            then world_effect (token_transfer (ce_base ext) token_in controller refund_to leftover)
            else fret ()) (\<lambda>_.
     verify_router_output ext token_out out_before)))))))))))))"

definition swap_tokens_or_passthrough ::
    "'w ctl_externals \<Rightarrow> address \<Rightarrow> address \<Rightarrow> int \<Rightarrow> address \<Rightarrow> bytes \<Rightarrow> ('w, int) ctl" where
  "swap_tokens_or_passthrough ext refund_to token_in amount_in token_out swap =
     (if token_in = token_out then
        fbind (fassert (swap = []) (Generic InvalidPayments)) (\<lambda>_. fret amount_in)
      else swap_tokens ext refund_to token_in amount_in token_out swap)"

section \<open>Position legs (legs.rs)\<close>

definition repay_debt_from_controller ::
    "'w ctl_externals \<Rightarrow> address \<Rightarrow> hub_asset_key \<Rightarrow> int \<Rightarrow> scaled_position_raw \<Rightarrow> account \<Rightarrow> ('w, account) ctl" where
  "repay_debt_from_controller ext caller debt debt_available debt_pos a =
     fbind cached_pool_address (\<lambda>debt_pool_addr.
     fbind (fread sy_self) (\<lambda>controller.
     fbind (transfer_amount_measured ext (asset debt) controller debt_pool_addr debt_available (Generic InternalError))
       (\<lambda>received.
     fbind (read_balance ext (asset debt) controller) (\<lambda>balance_before.
     fbind (repay_prefunded_position ext controller debt debt_pos received a) (\<lambda>(_, a').
     fbind (refund_controller_balance_delta ext (asset debt) balance_before caller) (\<lambda>_.
     fret a'))))))"

definition withdraw_collateral_to_controller ::
    "'w ctl_externals \<Rightarrow> hub_asset_key \<Rightarrow> int \<Rightarrow> account_position \<Rightarrow> account \<Rightarrow> ('w, int \<times> account) ctl" where
  "withdraw_collateral_to_controller ext k amount position a =
     fbind (fread sy_self) (\<lambda>controller.
     fbind (read_balance ext (asset k) controller) (\<lambda>balance_before.
     fbind (with_flash_guard (execute_withdrawal ext controller k amount position a)) (\<lambda>(_, a').
     fbind (balance_delta_since ext (asset k) controller balance_before) (\<lambda>received.
     fret (received, a')))))"

definition close_leg :: "'w ctl_externals \<Rightarrow> address \<Rightarrow> hub_asset_key \<Rightarrow> account \<Rightarrow> ('w, account) ctl" where
  "close_leg ext destination k a =
     (case smap_get (acc_supply_positions a) k of
        None \<Rightarrow> fret a
      | Some raw \<Rightarrow>
          fbind (execute_withdrawal ext destination k WITHDRAW_ALL_SENTINEL (account_position_of_raw raw) a) (\<lambda>(_, a').
          fret a'))"

definition execute_withdraw_all ::
    "'w ctl_externals \<Rightarrow> address \<Rightarrow> hub_asset_key \<Rightarrow> account \<Rightarrow> ('w, account) ctl" where
  "execute_withdraw_all ext destination repaid_collateral a =
     fbind (if \<not> smap_contains (acc_supply_positions a) repaid_collateral then
              fbind cached_pool_address (\<lambda>_.
              fbind (pool_call (\<lambda>h. withdraw (ce_base ext) h destination False
                       [\<lparr>pwe_action = make_pool_action \<lparr>scaled_amount = 0\<rparr> WITHDRAW_ALL_SENTINEL repaid_collateral,
                         pwe_protocol_fee = 0\<rparr>])) (\<lambda>_. fret ()))
            else fret ()) (\<lambda>_.
     ffold (close_leg ext destination) (smap_keys (acc_supply_positions a)) a)"

definition net_settle_collateral_against_debt ::
    "'w ctl_externals \<Rightarrow> hub_asset_key \<Rightarrow> int \<Rightarrow> account \<Rightarrow> ('w, int \<times> account) ctl" where
  "net_settle_collateral_against_debt ext k amount a =
     fbind (enforce_spoke_asset_flags (acc_spoke_id a) k AllowOnExit) (\<lambda>_.
     fbind (flift (get_supply_position_or_panic a k)) (\<lambda>supply_position.
     fbind (flift (get_debt_position_or_panic a k)) (\<lambda>debt_position.
     fbind cached_pool_address (\<lambda>_.
     fbind (pool_call (\<lambda>h. net_settle h
              \<lparr>pne_hub_asset = k, pne_amount = amount, pne_supply_position = scaled_of_account_position supply_position,
               pne_debt_position = debt_position\<rparr>)) (\<lambda>result.
     fbind (merge_withdraw_leg ext Withdraw_Normal k
              \<lparr>lo_new_scaled = scaled_amount (pnr_supply_position result), lo_market_index = pnr_market_index result,
               lo_amount = pnr_settled_amount result\<rparr> a) (\<lambda>a1.
     fbind (merge_debt_leg k Exit
              \<lparr>lo_new_scaled = scaled_amount (pnr_debt_position result), lo_market_index = pnr_market_index result,
               lo_amount = pnr_settled_amount result\<rparr> a1) (\<lambda>a2.
     fret (pnr_settled_amount result, a2))))))))"

definition withdraw_and_swap_from_supply ::
    "'w ctl_externals \<Rightarrow> address \<Rightarrow> hub_asset_key \<Rightarrow> int \<Rightarrow> address \<Rightarrow> bytes \<Rightarrow> account \<Rightarrow> ('w, int \<times> account) ctl" where
  "withdraw_and_swap_from_supply ext caller from_key amount token_out swap a =
     fbind (flift (get_supply_position_or_panic a from_key)) (\<lambda>supply_pos.
     fbind (withdraw_collateral_to_controller ext from_key amount supply_pos a) (\<lambda>(actual_withdrawn, a').
     fbind (swap_tokens_or_passthrough ext caller (asset from_key) actual_withdrawn token_out swap) (\<lambda>out.
     fret (out, a'))))"

section \<open>Blend (external/blend.rs)\<close>

definition REQ_WITHDRAW :: nat where "REQ_WITHDRAW = 1"

definition REQ_WITHDRAW_COLLATERAL :: nat where "REQ_WITHDRAW_COLLATERAL = 3"

definition REQ_REPAY :: nat where "REQ_REPAY = 5"

definition BLEND_WITHDRAW_ALL_AMOUNT :: int where
  "BLEND_WITHDRAW_ALL_AMOUNT = 1000000000000000000000000000000"

definition guarded_submit ::
    "'w ctl_externals \<Rightarrow> address \<Rightarrow> address \<Rightarrow> blend_request list \<Rightarrow> transfer_auth list \<Rightarrow> ('w, unit) ctl" where
  "guarded_submit ext blend_pool from_addr requests auths =
     with_flash_guard (
       fbind (fread sy_self) (\<lambda>controller.
       world_effect (ce_blend_submit ext blend_pool from_addr controller controller requests auths)))"

definition blend_sweep_all ::
    "'w ctl_externals \<Rightarrow> address \<Rightarrow> address \<Rightarrow> address list \<Rightarrow> address list \<Rightarrow> ('w, unit) ctl" where
  "blend_sweep_all ext blend_pool from_addr collateral_assets supply_assets =
     guarded_submit ext blend_pool from_addr
       (map (\<lambda>tok. \<lparr>br_request_type = REQ_WITHDRAW_COLLATERAL, br_address = tok, br_amount = BLEND_WITHDRAW_ALL_AMOUNT\<rparr>) collateral_assets @
        map (\<lambda>tok. \<lparr>br_request_type = REQ_WITHDRAW, br_address = tok, br_amount = BLEND_WITHDRAW_ALL_AMOUNT\<rparr>) supply_assets) []"

definition authorize_repay_pulls :: "address \<Rightarrow> address \<Rightarrow> (address \<times> int) list \<Rightarrow> transfer_auth list" where
  "authorize_repay_pulls controller blend_pool debt_caps =
     map (\<lambda>(debt_asset, cap). \<lparr>ta_token = debt_asset, ta_from = controller, ta_to = blend_pool, ta_amount = cap\<rparr>) debt_caps"

definition blend_repay_all ::
    "'w ctl_externals \<Rightarrow> address \<Rightarrow> address \<Rightarrow> (address \<times> int) list \<Rightarrow> ('w, unit) ctl" where
  "blend_repay_all ext blend_pool from_addr debt_caps =
     fbind (fread sy_self) (\<lambda>controller.
     guarded_submit ext blend_pool from_addr
       (map (\<lambda>(tok, cap). \<lparr>br_request_type = REQ_REPAY, br_address = tok, br_amount = cap\<rparr>) debt_caps)
       (authorize_repay_pulls controller blend_pool debt_caps))"

end
