(* ===== verification/Controller_Strategies.thy ===== *)
theory Controller_Strategies
  imports Controller_Legs
begin

text \<open>
  \<^verbatim>\<open>src/contracts/controller/src/strategies/\<close>: the six strategies that open, refinance or close a leveraged
  account in one invocation: multiply, debt and collateral swaps, repayment out of collateral, the flash position
  with its caller-chosen receiver, and the migration from Blend. Their events are not modelled.
\<close>

section \<open>Multiply (multiply.rs)\<close>

record multiply_params =
  mp_account_id :: nat
  mp_spoke_id :: nat
  mp_collateral :: hub_asset_key
  mp_debt_to_flash_loan :: int
  mp_debt :: hub_asset_key
  mp_mode :: position_mode
  mp_swap :: bytes
  mp_initial_payment :: "(hub_asset_key \<times> int) option"
  mp_convert_swap :: "bytes option"

definition validate_multiply_request :: "hub_asset_key \<Rightarrow> hub_asset_key \<Rightarrow> position_mode \<Rightarrow> int \<Rightarrow> unit res" where
  "validate_multiply_request collateral debt mode debt_to_flash_loan =
     rbind (case mode of
              Multiply \<Rightarrow> assert_with_error (collateral \<noteq> debt) (Generic AssetsAreTheSame)
            | Long \<Rightarrow> assert_with_error (asset collateral \<noteq> asset debt) (Generic AssetsAreTheSame)
            | Short \<Rightarrow> assert_with_error (asset collateral \<noteq> asset debt) (Generic AssetsAreTheSame)
            | Normal \<Rightarrow> Inl (Collateral InvalidPositionMode)) (\<lambda>_.
     require_positive_amount debt_to_flash_loan)"

definition collect_initial_multiply_payment ::
    "'w ctl_externals \<Rightarrow> address \<Rightarrow> hub_asset_key \<Rightarrow> hub_asset_key \<Rightarrow> (hub_asset_key \<times> int) option \<Rightarrow> bytes option
      \<Rightarrow> ('w, int \<times> int) ctl" where
  "collect_initial_multiply_payment ext caller collateral debt initial_payment convert_swap =
     (case initial_payment of
        None \<Rightarrow> fret (0, 0)
      | Some (payment, payment_amount) \<Rightarrow>
          fbind (flift (require_positive_amount payment_amount)) (\<lambda>_.
          fbind (fread sy_self) (\<lambda>controller.
          fbind (transfer_amount_measured ext (asset payment) caller controller payment_amount (Generic AmountMustBePositive))
            (\<lambda>received.
          if asset payment = asset collateral then fret (received, 0)
          else if asset payment = asset debt then fret (0, received)
          else
            fbind (flift (unwrap_or_panic convert_swap (Strategy ConvertStepsRequired))) (\<lambda>convert.
            fbind (swap_tokens ext caller (asset payment) received (asset collateral) convert) (\<lambda>collateral_amount.
            fret (collateral_amount, 0)))))))"

definition process_multiply :: "'w ctl_externals \<Rightarrow> address \<Rightarrow> multiply_params \<Rightarrow> ('w, nat) ctl" where
  "process_multiply ext caller p =
     fbind (require_authorized_caller caller) (\<lambda>_.
     fbind (flift (validate_multiply_request (mp_collateral p) (mp_debt p) (mp_mode p) (mp_debt_to_flash_loan p))) (\<lambda>_.
     fbind context_new (\<lambda>_.
     fbind (load_or_create_account ext caller (mp_account_id p) (mp_spoke_id p) (mp_mode p) Guard_Multiply)
       (\<lambda>(account_id, a).
     fbind (require_can_supply (acc_spoke_id a) (mp_collateral p)) (\<lambda>_.
     fbind (prefetch_strategy_prices ext a
              ([asset (mp_collateral p), asset (mp_debt p)] @
               (case mp_initial_payment p of None \<Rightarrow> [] | Some (payment, _) \<Rightarrow> [asset payment]))) (\<lambda>_.
     fbind (collect_initial_multiply_payment ext caller (mp_collateral p) (mp_debt p) (mp_initial_payment p) (mp_convert_swap p))
       (\<lambda>(collateral_amount, debt_extra).
     fbind (borrow_into_controller ext (mp_debt p) (mp_debt_to_flash_loan p) True a) (\<lambda>(amount_received, a1).
     fbind (flift (unwrap_or_panic (i128_checked_add amount_received debt_extra) (Generic MathOverflow))) (\<lambda>swap_amount_in.
     fbind (swap_tokens_or_passthrough ext caller (asset (mp_debt p)) swap_amount_in (asset (mp_collateral p)) (mp_swap p))
       (\<lambda>swapped_collateral.
     fbind (flift (unwrap_or_panic (i128_checked_add collateral_amount swapped_collateral) (Generic MathOverflow)))
       (\<lambda>total_collateral.
     fbind (fread sy_self) (\<lambda>controller.
     fbind (process_deposit ext controller [(mp_collateral p, total_collateral)] a1) (\<lambda>a2.
     fbind (strategy_finalize ext account_id a2) (\<lambda>_.
     fret account_id))))))))))))))"

section \<open>Swapping debt (swap_debt.rs)\<close>

record swap_debt_params =
  sd_account_id :: nat
  sd_existing_debt :: hub_asset_key
  sd_new_debt_amount :: int
  sd_new_debt :: hub_asset_key
  sd_swap :: bytes

definition process_swap_debt :: "'w ctl_externals \<Rightarrow> address \<Rightarrow> swap_debt_params \<Rightarrow> ('w, unit) ctl" where
  "process_swap_debt ext caller p =
     fbind (require_authorized_caller caller) (\<lambda>_.
     fbind (fassert (sd_existing_debt p \<noteq> sd_new_debt p) (Generic AssetsAreTheSame)) (\<lambda>_.
     fbind (read_store_res (\<lambda>st. require_hub_active st (hub_id (sd_existing_debt p)))) (\<lambda>_.
     fbind (flift (require_positive_amount (sd_new_debt_amount p))) (\<lambda>_.
     fbind (get_account ext (sd_account_id p)) (\<lambda>a.
     fbind (require_owner_or_delegate (sd_account_id p) caller (acc_owner a)) (\<lambda>_.
     fbind context_new (\<lambda>_.
     fbind (flift (get_debt_position_or_panic a (sd_existing_debt p))) (\<lambda>existing_pos.
     fbind (prefetch_strategy_prices ext a [asset (sd_existing_debt p), asset (sd_new_debt p)]) (\<lambda>_.
     fbind (borrow_into_controller ext (sd_new_debt p) (sd_new_debt_amount p) True a) (\<lambda>(amount_received, a1).
     fbind (swap_tokens_or_passthrough ext caller (asset (sd_new_debt p)) amount_received (asset (sd_existing_debt p)) (sd_swap p))
       (\<lambda>repay_amount.
     fbind (repay_debt_from_controller ext caller (sd_existing_debt p) repay_amount existing_pos a1) (\<lambda>a2.
     fbind (strategy_finalize ext (sd_account_id p) a2) (\<lambda>_.
     fret ())))))))))))))"

section \<open>Swapping collateral (swap_collateral.rs)\<close>

record swap_collateral_params =
  sp_account_id :: nat
  sp_current :: hub_asset_key
  sp_from_amount :: int
  sp_new :: hub_asset_key
  sp_swap :: bytes

definition process_swap_collateral :: "'w ctl_externals \<Rightarrow> address \<Rightarrow> swap_collateral_params \<Rightarrow> ('w, unit) ctl" where
  "process_swap_collateral ext caller p =
     fbind (require_authorized_caller caller) (\<lambda>_.
     fbind (fassert (sp_current p \<noteq> sp_new p) (Generic AssetsAreTheSame)) (\<lambda>_.
     fbind (read_store_res (\<lambda>st. require_hub_active st (hub_id (sp_current p)))) (\<lambda>_.
     fbind (flift (require_positive_amount (sp_from_amount p))) (\<lambda>_.
     fbind (get_account ext (sp_account_id p)) (\<lambda>a.
     fbind (require_owner_or_delegate (sp_account_id p) caller (acc_owner a)) (\<lambda>_.
     fbind context_new (\<lambda>_.
     fbind (require_can_supply (acc_spoke_id a) (sp_new p)) (\<lambda>_.
     fbind (prefetch_strategy_prices ext a [asset (sp_current p), asset (sp_new p)]) (\<lambda>_.
     fbind (withdraw_and_swap_from_supply ext caller (sp_current p) (sp_from_amount p) (asset (sp_new p)) (sp_swap p) a)
       (\<lambda>(swapped_amount, a1).
     fbind (fread sy_self) (\<lambda>controller.
     fbind (process_deposit ext controller [(sp_new p, swapped_amount)] a1) (\<lambda>a2.
     fbind (strategy_finalize ext (sp_account_id p) a2) (\<lambda>_.
     fret ())))))))))))))"

section \<open>Repayment out of collateral (repay_debt_with_collateral.rs)\<close>

record repay_with_collateral_params =
  rp_account_id :: nat
  rp_collateral :: hub_asset_key
  rp_collateral_amount :: int
  rp_debt :: hub_asset_key
  rp_swap :: bytes
  rp_close_position :: bool

definition repay_via_collateral_swap ::
    "'w ctl_externals \<Rightarrow> address \<Rightarrow> hub_asset_key \<Rightarrow> int \<Rightarrow> hub_asset_key \<Rightarrow> bytes \<Rightarrow> account \<Rightarrow> ('w, account) ctl" where
  "repay_via_collateral_swap ext caller collateral collateral_amount debt swap a =
     fbind (flift (get_debt_position_or_panic a debt)) (\<lambda>debt_pos.
     fbind (withdraw_and_swap_from_supply ext caller collateral collateral_amount (asset debt) swap a)
       (\<lambda>(debt_available, a1).
     repay_debt_from_controller ext caller debt debt_available debt_pos a1))"

definition process_repay_debt_with_collateral ::
    "'w ctl_externals \<Rightarrow> address \<Rightarrow> repay_with_collateral_params \<Rightarrow> ('w, unit) ctl" where
  "process_repay_debt_with_collateral ext caller p =
     fbind (require_authorized_caller caller) (\<lambda>_.
     fbind (flift (require_positive_amount (rp_collateral_amount p))) (\<lambda>_.
     fbind (read_store_res (\<lambda>st. require_hub_active st (hub_id (rp_collateral p)))) (\<lambda>_.
     fbind (read_store_res (\<lambda>st. require_hub_active st (hub_id (rp_debt p)))) (\<lambda>_.
     fbind (get_account ext (rp_account_id p)) (\<lambda>a.
     fbind (require_owner_or_delegate (rp_account_id p) caller (acc_owner a)) (\<lambda>_.
     fbind context_new (\<lambda>_.
     fbind (prefetch_strategy_prices ext a [asset (rp_collateral p), asset (rp_debt p)]) (\<lambda>_.
     fbind (if rp_collateral p = rp_debt p then
              fbind (fassert (rp_swap p = []) (Generic InvalidPayments)) (\<lambda>_.
              fbind (net_settle_collateral_against_debt ext (rp_collateral p) (rp_collateral_amount p) a) (\<lambda>(_, a').
              fret a'))
            else repay_via_collateral_swap ext caller (rp_collateral p) (rp_collateral_amount p) (rp_debt p) (rp_swap p) a) (\<lambda>a1.
     fbind (if rp_close_position p then
              fbind (fassert (acc_borrow_positions a1 = []) (Collateral CannotCloseWithRemainingDebt)) (\<lambda>_.
              execute_withdraw_all ext caller (rp_collateral p) a1)
            else fret a1) (\<lambda>a2.
     fbind (strategy_finalize ext (rp_account_id p) a2) (\<lambda>_.
     fret ())))))))))))"

section \<open>Flash position (flash_position.rs)\<close>

record flash_position_params =
  fp_account_id :: nat
  fp_spoke_id :: nat
  fp_mode :: position_mode
  fp_debt :: hub_asset_key
  fp_amount :: int
  fp_receiver :: address
  fp_data :: bytes
  fp_collaterals :: "hub_payment list"
  fp_refund_assets :: "address list"

definition validate_collaterals :: "account \<Rightarrow> hub_payment list \<Rightarrow> ('w, unit) ctl" where
  "validate_collaterals a collaterals =
     fbind (flift (require_non_empty_payments collaterals)) (\<lambda>_.
     fbind (read_store_res get_position_limits) (\<lambda>limits.
     fbind (fassert (length collaterals \<le> pl_max_supply_positions limits) (Generic InvalidPayments)) (\<lambda>_.
     fbind (ffold (\<lambda>(k, min_amount) (seen_assets, has_positive_min).
              fbind (flift (require_nonneg_amount min_amount)) (\<lambda>_.
              fbind (fassert (asset k \<notin> set seen_assets) (Generic InvalidPayments)) (\<lambda>_.
              fbind (require_can_supply (acc_spoke_id a) k) (\<lambda>_.
              fret (seen_assets @ [asset k], has_positive_min \<or> min_amount > 0))))) collaterals ([], False))
       (\<lambda>(_, has_positive_min).
     fbind (fassert has_positive_min (Strategy CollateralRequired)) (\<lambda>_.
     validate_position_entry_gates a collaterals Deposit)))))"

definition validate_refund_assets :: "nat \<Rightarrow> nat \<Rightarrow> hub_payment list \<Rightarrow> address list \<Rightarrow> ('w, unit) ctl" where
  "validate_refund_assets spoke_id hub collaterals refund_assets =
     fbind (read_store_res get_position_limits) (\<lambda>limits.
     fbind (fassert (length refund_assets \<le> pl_max_supply_positions limits) (Generic InvalidPayments)) (\<lambda>_.
     fbind (ffold (\<lambda>tok seen.
              fbind (fassert (tok \<notin> set seen) (Generic InvalidPayments)) (\<lambda>_.
              fbind (require_listed_active_config spoke_id \<lparr>hub_id = hub, asset = tok\<rparr>) (\<lambda>_.
              fbind (ffold (\<lambda>(collateral, _) _. fassert (tok \<noteq> asset collateral) (Generic InvalidPayments)) collaterals ()) (\<lambda>_.
              fret (seen @ [tok]))))) refund_assets []) (\<lambda>_.
     fret ())))"

definition mint_and_forward ::
    "'w ctl_externals \<Rightarrow> hub_asset_key \<Rightarrow> int \<Rightarrow> address \<Rightarrow> account \<Rightarrow> ('w, int \<times> account) ctl" where
  "mint_and_forward ext debt amount receiver a =
     fbind (fread sy_self) (\<lambda>controller.
     fbind (read_balance ext (asset debt) controller) (\<lambda>before.
     fbind (borrow_into_controller ext debt amount False a) (\<lambda>(reported, a').
     fbind (balance_delta_since ext (asset debt) controller before) (\<lambda>measured.
     fbind (fassert (measured = reported) (Generic InternalError)) (\<lambda>_.
     fbind (fassert (measured > 0) (Generic AmountMustBePositive)) (\<lambda>_.
     fbind (transfer_amount_measured ext (asset debt) controller receiver measured (Generic AmountMustBePositive))
       (\<lambda>forwarded.
     fbind (fassert (forwarded > 0) (Generic AmountMustBePositive)) (\<lambda>_.
     fret (forwarded, a')))))))))"

definition invoke_receiver ::
    "'w ctl_externals \<Rightarrow> address \<Rightarrow> address \<Rightarrow> nat \<Rightarrow> address \<Rightarrow> int \<Rightarrow> int \<Rightarrow> address \<Rightarrow> bytes \<Rightarrow> ('w, unit) ctl" where
  "invoke_receiver ext receiver initiator account_id tok amount amount_received controller data =
     world_effect (ce_execute_flash_position ext receiver initiator account_id tok amount 0 amount_received controller data)"

definition collect_collateral_deposits ::
    "'w ctl_externals \<Rightarrow> address \<Rightarrow> hub_payment list \<Rightarrow> (address \<rightharpoonup> int) \<Rightarrow> ('w, hub_payment list) ctl" where
  "collect_collateral_deposits ext controller collaterals before =
     fbind (ffold (\<lambda>(k, min_amount) deposits.
              fbind (flift (unwrap_or_panic (before (asset k)) (Generic InternalError))) (\<lambda>baseline.
              fbind (balance_delta_since ext (asset k) controller baseline) (\<lambda>delta.
              fbind (fassert (delta \<ge> min_amount) (Strategy CollateralMinimumNotMet)) (\<lambda>_.
              fret (if delta > 0 then deposits @ [(k, delta)] else deposits))))) collaterals []) (\<lambda>deposits.
     fbind (fassert (deposits \<noteq> []) (Strategy CollateralMinimumNotMet)) (\<lambda>_.
     fret deposits))"

definition require_flash_position_still_open :: "account \<Rightarrow> hub_asset_key \<Rightarrow> unit res" where
  "require_flash_position_still_open a debt =
     rbind (assert_with_error (\<not> account_is_empty a \<and> \<not> debt_free a) (Strategy FlashPositionClosed)) (\<lambda>_.
     rbind (unwrap_or_panic (smap_get (acc_borrow_positions a) debt) (Strategy FlashPositionClosed)) (\<lambda>pos.
     assert_with_error (scaled_amount pos > 0 \<and> acc_supply_positions a \<noteq> []) (Strategy FlashPositionClosed)))"

definition refund_listed_assets ::
    "'w ctl_externals \<Rightarrow> address \<Rightarrow> address list \<Rightarrow> (address \<rightharpoonup> int) \<Rightarrow> ('w, unit) ctl" where
  "refund_listed_assets ext caller refund_assets before =
     ffold (\<lambda>tok _.
       fbind (flift (unwrap_or_panic (before tok) (Generic InternalError))) (\<lambda>baseline.
       refund_controller_balance_delta ext tok baseline caller)) refund_assets ()"

text \<open>What runs under the guard: the loan, the baselines and the callback.\<close>

definition flash_callback ::
    "'w ctl_externals \<Rightarrow> address \<Rightarrow> flash_position_params \<Rightarrow> nat \<Rightarrow> account
      \<Rightarrow> ('w, (address \<rightharpoonup> int) \<times> (address \<rightharpoonup> int) \<times> account) ctl" where
  "flash_callback ext caller p account_id a =
     with_flash_guard (
       fbind (fread sy_self) (\<lambda>controller.
       fbind (mint_and_forward ext (fp_debt p) (fp_amount p) (fp_receiver p) a) (\<lambda>(amount_received, a').
       fbind (snapshot_balances ext controller (map (\<lambda>(k, _). asset k) (fp_collaterals p))) (\<lambda>collateral_before.
       fbind (snapshot_balances ext controller (fp_refund_assets p)) (\<lambda>refund_before.
       fbind (invoke_receiver ext (fp_receiver p) caller account_id (asset (fp_debt p)) (fp_amount p) amount_received
                controller (fp_data p)) (\<lambda>_.
       fret (collateral_before, refund_before, a')))))))"

definition flash_position_gates :: "'w ctl_externals \<Rightarrow> flash_position_params \<Rightarrow> ('w, unit) ctl" where
  "flash_position_gates ext p =
     fbind (flift (require_positive_amount (fp_amount p))) (\<lambda>_.
     fbind (read_store_res (\<lambda>st. require_hub_active st (hub_id (fp_debt p)))) (\<lambda>_.
     fbind (fassert (fp_mode p \<in> {Multiply, Long, Short}) (Collateral InvalidPositionMode)) (\<lambda>_.
     fbind (fread (\<lambda>s. executable_is_wasm (ce_base ext) (fp_receiver p) (sy_world s))) (\<lambda>is_wasm.
     fbind (flift (require_wasm_receiver is_wasm)) (\<lambda>_.
     fbind (fread sy_self) (\<lambda>controller.
     fbind (fassert (fp_receiver p \<noteq> controller) (FlashLoan InvalidFlashloanReceiver)) (\<lambda>_.
     fbind context_new (\<lambda>_.
     fbind cached_pool_address (\<lambda>pool_addr.
     fbind (fassert (fp_receiver p \<noteq> pool_addr) (FlashLoan InvalidFlashloanReceiver)) (\<lambda>_.
     fbind (cached_pool_sync_data (fp_debt p)) (\<lambda>data.
     fassert (mpr_is_flashloanable (sync_params data)) (FlashLoan FlashloanNotEnabled))))))))))))"

definition process_flash_position :: "'w ctl_externals \<Rightarrow> address \<Rightarrow> flash_position_params \<Rightarrow> ('w, nat) ctl" where
  "process_flash_position ext caller p =
     fbind (require_authorized_caller caller) (\<lambda>_.
     fbind (flash_position_gates ext p) (\<lambda>_.
     fbind (load_or_create_account ext caller (fp_account_id p) (fp_spoke_id p) (fp_mode p) Guard_Multiply)
       (\<lambda>(account_id, a).
     fbind (validate_collaterals a (fp_collaterals p)) (\<lambda>_.
     fbind (validate_refund_assets (acc_spoke_id a) (hub_id (fp_debt p)) (fp_collaterals p) (fp_refund_assets p)) (\<lambda>_.
     fbind (prefetch_strategy_prices ext a (asset (fp_debt p) # map (\<lambda>(k, _). asset k) (fp_collaterals p))) (\<lambda>_.
     fbind (flash_callback ext caller p account_id a) (\<lambda>(collateral_before, refund_before, a1).
     fbind (fread sy_self) (\<lambda>controller.
     fbind (collect_collateral_deposits ext controller (fp_collaterals p) collateral_before) (\<lambda>deposits.
     fbind (process_deposit ext controller deposits a1) (\<lambda>a2.
     fbind (refund_listed_assets ext caller (fp_refund_assets p) refund_before) (\<lambda>_.
     fbind (flift (require_flash_position_still_open a2 (fp_debt p))) (\<lambda>_.
     fbind (strategy_finalize ext account_id a2) (\<lambda>a3.
     fbind (flift (require_flash_position_still_open a3 (fp_debt p))) (\<lambda>_.
     fret account_id))))))))))))))"

section \<open>Migration from Blend (migrate_blend.rs)\<close>

record migrate_blend_params =
  mb_account_id :: nat
  mb_spoke_id :: nat
  mb_hub_id :: nat
  mb_blend_pool :: address
  mb_collateral_assets :: "address list"
  mb_supply_assets :: "address list"
  mb_debt_caps :: "(address \<times> int) list"

definition validate_migration_request ::
    "address \<Rightarrow> address list \<Rightarrow> address list \<Rightarrow> (address \<times> int) list \<Rightarrow> ('w, unit) ctl" where
  "validate_migration_request blend_pool collateral_assets supply_assets debt_caps =
     fbind (fassert (collateral_assets \<noteq> [] \<or> supply_assets \<noteq> [] \<or> debt_caps \<noteq> []) (Generic InvalidPayments)) (\<lambda>_.
     fbind (read_store (\<lambda>st. is_blend_pool_approved st blend_pool)) (\<lambda>approved.
     fassert approved (Generic BlendPoolNotApproved)))"

definition require_unique_debt_assets :: "(address \<times> int) list \<Rightarrow> unit res" where
  "require_unique_debt_assets debt_caps =
     rbind (rfold (\<lambda>(tok, _) seen.
       rbind (assert_with_error (tok \<notin> set seen) (Generic AssetsAreTheSame)) (\<lambda>_. Inr (seen @ [tok]))) debt_caps []) (\<lambda>_.
     Inr ())"

definition deposit_withdrawn ::
    "'w ctl_externals \<Rightarrow> nat \<Rightarrow> address list \<Rightarrow> (address \<rightharpoonup> int) \<Rightarrow> account \<Rightarrow> ('w, account) ctl" where
  "deposit_withdrawn ext hub withdraw_assets before a =
     fbind (fread sy_self) (\<lambda>controller.
     fbind (ffold (\<lambda>tok deposits.
              fbind (balance_delta_since ext tok controller (case before tok of Some b \<Rightarrow> b | None \<Rightarrow> 0)) (\<lambda>received.
              fret (if received > 0 then deposits @ [(\<lparr>hub_id = hub, asset = tok\<rparr>, received)] else deposits)))
            withdraw_assets []) (\<lambda>deposits.
     if deposits \<noteq> [] then process_deposit ext controller deposits a else fret a))"

definition reconcile_leg ::
    "'w ctl_externals \<Rightarrow> address \<Rightarrow> nat \<Rightarrow> (address \<rightharpoonup> int) \<Rightarrow> address \<times> int \<Rightarrow> account \<Rightarrow> ('w, account) ctl" where
  "reconcile_leg ext caller hub before cap a =
     (case cap of (debt_asset, _) \<Rightarrow>
      fbind (fread sy_self) (\<lambda>controller.
      fbind (balance_delta_since ext debt_asset controller (case before debt_asset of Some b \<Rightarrow> b | None \<Rightarrow> 0)) (\<lambda>refund.
      if refund > 0 then
        let hub_debt = \<lparr>hub_id = hub, asset = debt_asset\<rparr> in
        fbind (flift (expect_invariant (smap_get (acc_borrow_positions a) hub_debt))) (\<lambda>debt_pos.
        repay_debt_from_controller ext caller hub_debt refund debt_pos a)
      else fret a)))"

definition reconcile_debt_refunds ::
    "'w ctl_externals \<Rightarrow> address \<Rightarrow> nat \<Rightarrow> (address \<times> int) list \<Rightarrow> (address \<rightharpoonup> int) \<Rightarrow> account \<Rightarrow> ('w, account) ctl" where
  "reconcile_debt_refunds ext caller hub debt_caps before a = ffold (reconcile_leg ext caller hub before) debt_caps a"

definition migration_borrow :: "'w ctl_externals \<Rightarrow> nat \<Rightarrow> address \<times> int \<Rightarrow> account \<Rightarrow> ('w, account) ctl" where
  "migration_borrow ext hub cap a =
     (case cap of (debt_asset, limit) \<Rightarrow>
      fbind (flift (require_positive_amount limit)) (\<lambda>_.
      fbind (borrow_into_controller ext \<lparr>hub_id = hub, asset = debt_asset\<rparr> limit False a) (\<lambda>(_, a').
      fret a')))"

definition execute_migration_debt_leg ::
    "'w ctl_externals \<Rightarrow> address \<Rightarrow> address \<Rightarrow> nat \<Rightarrow> (address \<times> int) list \<Rightarrow> account \<Rightarrow> ('w, account) ctl" where
  "execute_migration_debt_leg ext caller blend_pool hub debt_caps a =
     (if debt_caps = [] then fret a
      else
        fbind (fread sy_self) (\<lambda>controller.
        fbind (snapshot_balances ext controller (map fst debt_caps)) (\<lambda>before_debt.
        fbind (ffold (migration_borrow ext hub) debt_caps a) (\<lambda>a1.
        fbind (blend_repay_all ext blend_pool caller debt_caps) (\<lambda>_.
        reconcile_debt_refunds ext caller hub debt_caps before_debt a1)))))"

definition process_migrate_blend :: "'w ctl_externals \<Rightarrow> address \<Rightarrow> migrate_blend_params \<Rightarrow> ('w, nat) ctl" where
  "process_migrate_blend ext caller p =
     fbind (require_authorized_caller caller) (\<lambda>_.
     fbind (read_store_res (\<lambda>st. require_hub_active st (mb_hub_id p))) (\<lambda>_.
     fbind (validate_migration_request (mb_blend_pool p) (mb_collateral_assets p) (mb_supply_assets p) (mb_debt_caps p)) (\<lambda>_.
     fbind (flift (require_unique_debt_assets (mb_debt_caps p))) (\<lambda>_.
     fbind context_new (\<lambda>_.
     fbind (load_or_create_account ext caller (mb_account_id p) (mb_spoke_id p) Normal Guard_Migrate) (\<lambda>(account_id, a).
     let withdraw_assets = foldl push_unique_address [] (mb_collateral_assets p @ mb_supply_assets p) in
     fbind (prefetch_strategy_prices ext a (withdraw_assets @ map fst (mb_debt_caps p))) (\<lambda>_.
     fbind (ffold (\<lambda>tok _. require_can_supply (mb_spoke_id p) \<lparr>hub_id = mb_hub_id p, asset = tok\<rparr>) withdraw_assets ()) (\<lambda>_.
     fbind (execute_migration_debt_leg ext caller (mb_blend_pool p) (mb_hub_id p) (mb_debt_caps p) a) (\<lambda>a1.
     fbind (if withdraw_assets \<noteq> [] then
              fbind (fread sy_self) (\<lambda>controller.
              fbind (snapshot_balances ext controller withdraw_assets) (\<lambda>before_withdraw.
              fbind (blend_sweep_all ext (mb_blend_pool p) caller (mb_collateral_assets p) (mb_supply_assets p)) (\<lambda>_.
              deposit_withdrawn ext (mb_hub_id p) withdraw_assets before_withdraw a1)))
            else fret a1) (\<lambda>a2.
     fbind (strategy_finalize ext account_id a2) (\<lambda>_.
     fret account_id)))))))))))"

end
