(* ===== verification/Controller.thy ===== *)
theory Controller
  imports Controller_Config Liquidation Controller_Strategies
begin

text \<open>
  \<^verbatim>\<open>src/contracts/controller/src/lib.rs\<close> and \<^verbatim>\<open>views.rs\<close>: the entrypoints of the controller behind
  their pause and owner guards (the attributes of \<^verbatim>\<open>stellar_macros\<close>), the account views, and
  \<open>ctl_dispatch\<close>, one invocation of a mutating entrypoint.
\<close>

section \<open>Guards\<close>

definition when_not_paused :: "('w, 'a) ctl \<Rightarrow> ('w, 'a) ctl" where
  "when_not_paused body =
     fbind (read_store cs_paused) (\<lambda>paused.
     fbind (fassert (\<not> paused) (Host EnforcedPause)) (\<lambda>_. body))"

definition ctl_only_owner :: "('w, 'a) ctl \<Rightarrow> ('w, 'a) ctl" where
  "ctl_only_owner body =
     fbind (read_store_res (\<lambda>st. unwrap_or_panic (cs_owner st) (Host OwnableOwnerNotSet))) (\<lambda>owner.
     fbind (require_auth owner) (\<lambda>_. body))"

section \<open>Views\<close>

definition require_view_inputs_bound :: "'a list \<Rightarrow> ('w, unit) ctl" where
  "require_view_inputs_bound xs = fassert (length xs \<le> MAX_VIEW_INPUTS) (Generic InvalidPayments)"

definition view_health_factor :: "'w ctl_externals \<Rightarrow> nat \<Rightarrow> ('w, int) ctl" where
  "view_health_factor ext account_id =
     fbind context_new (\<lambda>_.
     fbind (fread (\<lambda>s. try_get_account ext s account_id)) (\<lambda>found.
     case found of
       None \<Rightarrow> fret i128_max
     | Some a \<Rightarrow>
         if \<not> debt_free a then
           fbind (calculate_account_risk_totals ext (acc_supply_positions a) (acc_borrow_positions a)) (\<lambda>totals.
           fret (rt_health_factor totals))
         else fret i128_max))"

definition can_be_liquidated :: "'w ctl_externals \<Rightarrow> nat \<Rightarrow> ('w, bool) ctl" where
  "can_be_liquidated ext account_id = fbind (view_health_factor ext account_id) (\<lambda>hf. fret (hf < WAD))"

definition collateral_amount_for_hub_asset :: "nat \<Rightarrow> hub_asset_key \<Rightarrow> ('w, int) ctl" where
  "collateral_amount_for_hub_asset account_id k =
     fbind (read_store (\<lambda>st. smap_get (get_supply_positions st account_id) k)) (\<lambda>found.
     case found of
       None \<Rightarrow> fret 0
     | Some raw \<Rightarrow>
         fbind context_new (\<lambda>_.
         fbind (cached_market_index k) (\<lambda>ix.
         fbind (cached_pool_sync_data k) (\<lambda>data.
         flift (unscale_supply (apr_scaled_amount raw) (mi_supply_index ix) (mpr_asset_decimals (sync_params data)))))))"

definition borrow_amount_for_hub_asset :: "nat \<Rightarrow> hub_asset_key \<Rightarrow> ('w, int) ctl" where
  "borrow_amount_for_hub_asset account_id k =
     fbind (read_store (\<lambda>st. smap_get (get_debt_positions st account_id) k)) (\<lambda>found.
     case found of
       None \<Rightarrow> fret 0
     | Some p \<Rightarrow>
         fbind context_new (\<lambda>_.
         fbind (cached_market_index k) (\<lambda>ix.
         fbind (cached_pool_sync_data k) (\<lambda>data.
         flift (unscale_borrow (scaled_amount p) (mi_borrow_index ix) (mpr_asset_decimals (sync_params data)))))))"

definition account_exists :: "nat \<Rightarrow> ctl_store \<Rightarrow> bool" where
  "account_exists account_id st \<longleftrightarrow> try_get_account_meta st account_id \<noteq> None"

definition get_account_positions ::
    "nat \<Rightarrow> ctl_store \<Rightarrow> (hub_asset_key, account_position_raw) smap \<times> (hub_asset_key, scaled_position_raw) smap" where
  "get_account_positions account_id st =
     (if \<not> account_exists account_id st then ([], [])
      else (get_supply_positions st account_id, get_debt_positions st account_id))"

definition liquidation_collateral_available :: "'w ctl_externals \<Rightarrow> nat \<Rightarrow> ('w, int) ctl" where
  "liquidation_collateral_available ext account_id =
     fbind (fread (\<lambda>s. try_get_account ext s account_id)) (\<lambda>found.
     case found of
       None \<Rightarrow> fret 0
     | Some a \<Rightarrow>
         fbind context_new (\<lambda>_.
         fbind (calculate_account_risk_totals ext (acc_supply_positions a) (acc_borrow_positions a)) (\<lambda>totals.
         fret (rt_weighted_collateral totals))))"

definition total_collateral_in_usd :: "'w ctl_externals \<Rightarrow> nat \<Rightarrow> ('w, int) ctl" where
  "total_collateral_in_usd ext account_id =
     fbind (read_store (\<lambda>st. (try_get_account_meta st account_id, get_supply_positions st account_id))) (\<lambda>(meta, positions).
     if meta = None \<or> positions = [] then fret 0
     else
       fbind context_new (\<lambda>_.
       fbind (calculate_account_risk_totals ext positions []) (\<lambda>totals. fret (rt_total_collateral totals))))"

definition total_borrow_in_usd :: "'w ctl_externals \<Rightarrow> nat \<Rightarrow> ('w, int) ctl" where
  "total_borrow_in_usd ext account_id =
     fbind (read_store (\<lambda>st. (try_get_account_meta st account_id, get_debt_positions st account_id))) (\<lambda>(meta, positions).
     if meta = None \<or> positions = [] then fret 0
     else fbind context_new (\<lambda>_. sum_debt_usd ext positions))"

definition ltv_collateral_in_usd :: "'w ctl_externals \<Rightarrow> nat \<Rightarrow> ('w, int) ctl" where
  "ltv_collateral_in_usd ext account_id =
     fbind (fread (\<lambda>s. try_get_account ext s account_id)) (\<lambda>found.
     case found of
       None \<Rightarrow> fret 0
     | Some a \<Rightarrow>
         fbind context_new (\<lambda>_.
         fbind (restamp_listed_supply_ltv a) (\<lambda>(_, a').
         calculate_ltv_collateral_wad ext (acc_supply_positions a'))))"

record liquidation_estimate =
  le_seized_collaterals :: "payment_tuple list"
  le_protocol_fees :: "payment_tuple list"
  le_refunds :: "payment_tuple list"
  le_max_payment_wad :: int
  le_bonus_rate_bps :: int

definition liquidation_estimations_detailed ::
    "'w ctl_externals \<Rightarrow> nat \<Rightarrow> hub_payment list \<Rightarrow> seize_mode \<Rightarrow> ('w, liquidation_estimate) ctl" where
  "liquidation_estimations_detailed ext account_id debt_payments mode =
     fbind (require_view_inputs_bound debt_payments) (\<lambda>_.
     fbind context_new (\<lambda>_.
     fbind (get_account ext account_id) (\<lambda>a.
     fbind (build_liquidation_plan ext a debt_payments) (\<lambda>plan.
     let result = into_result plan in
     fbind (case mode of
              Seize_Transfer \<Rightarrow> fret ()
            | Seize_Credit requested \<Rightarrow>
                fbind (if requested = 0
                       then fret (a\<lparr>acc_supply_positions := [], acc_borrow_positions := []\<rparr>)
                       else load_credit_receiver ext account_id a requested) (\<lambda>receiver.
                require_credit_position_limit receiver (lr_seized result) (requested = 0))) (\<lambda>_.
     fbind (ffold (\<lambda>e (seized, fees).
              fbind (case mode of
                       Seize_Transfer \<Rightarrow> fret (se_amount e, se_protocol_fee e)
                     | Seize_Credit _ \<Rightarrow>
                         fbind (flift (split_seized_shares (se_scaled_amount e) (se_bonus_scaled e) (se_liquidation_fees e)))
                           (\<lambda>(fee_scaled, _). fret (se_scaled_amount e, fee_scaled))) (\<lambda>(seized_amount, fee_amount).
              fret (seized @ [\<lparr>pt_asset = asset (se_hub_asset e), pt_amount = seized_amount\<rparr>],
                    fees @ [\<lparr>pt_asset = asset (se_hub_asset e), pt_amount = fee_amount\<rparr>])))
            (lr_seized result) ([], [])) (\<lambda>(seized, fees).
     fret \<lparr>le_seized_collaterals = seized, le_protocol_fees = fees, le_refunds = lr_refunds result,
           le_max_payment_wad = lr_max_debt_usd result, le_bonus_rate_bps = lr_bonus_bps result\<rparr>))))))"

section \<open>Invocations\<close>

datatype admin_call =
    Adm_Set_Swap_Aggregator address
  | Adm_Set_Price_Aggregator address
  | Adm_Set_Accumulator address
  | Adm_Set_Position_Limits position_limits
  | Adm_Set_Min_Borrow_Collateral int
  | Adm_Set_Position_Manager address bool
  | Adm_Approve_Blend_Pool address
  | Adm_Revoke_Blend_Pool address
  | Adm_Create_Hub
  | Adm_Add_Spoke
  | Adm_Remove_Spoke nat
  | Adm_Set_Liquidation_Curve nat int int nat
  | Adm_Add_Asset spoke_asset_args
  | Adm_Edit_Asset spoke_asset_args
  | Adm_Set_Flags nat hub_asset_key bool bool bool
  | Adm_Relax_Flags nat hub_asset_key nat bool bool bool
  | Adm_Remove_Asset hub_asset_key nat
  | Adm_Deploy_Pool bytes
  | Adm_Deploy_Nft bytes
  | Adm_Create_Market nat address market_params_raw
  | Adm_Update_Market hub_asset_key interest_rate_model
  | Adm_Upgrade_Pool bytes
  | Adm_Upgrade_Nft bytes
  | Adm_Force_Socialize nat
  | Adm_Pause
  | Adm_Unpause
  | Adm_Upgrade bytes
  | Adm_Migrate nat
  | Adm_Transfer_Ownership address nat

datatype ctl_call =
    Ctl_Supply address nat nat "hub_payment list"
  | Ctl_Borrow address nat "hub_payment list" "address option"
  | Ctl_Withdraw address nat "hub_payment list" "address option"
  | Ctl_Repay address nat "hub_payment list"
  | Ctl_Liquidate address nat "hub_payment list" seize_mode
  | Ctl_Clean_Bad_Debt address nat
  | Ctl_Flash_Loan address hub_asset_key int address bytes
  | Ctl_Flash_Position address flash_position_params
  | Ctl_Multiply address multiply_params
  | Ctl_Swap_Debt address swap_debt_params
  | Ctl_Swap_Collateral address swap_collateral_params
  | Ctl_Repay_With_Collateral address repay_with_collateral_params
  | Ctl_Migrate_Blend address migrate_blend_params
  | Ctl_Update_Indexes address "hub_asset_key list"
  | Ctl_Claim_Revenue address "hub_asset_key list"
  | Ctl_Update_Threshold address bool "nat list"
  | Ctl_Recapitalize address hub_asset_key int
  | Ctl_Add_Delegate address nat address
  | Ctl_Remove_Delegate address nat address
  | Ctl_Accept_Ownership
  | Ctl_Admin admin_call

definition discard :: "('w, 'a) ctl \<Rightarrow> ('w, unit) ctl" where
  "discard m = fbind m (\<lambda>_. fret ())"

fun admin_dispatch :: "'w ctl_externals \<Rightarrow> admin_call \<Rightarrow> ('w, unit) ctl" where
  "admin_dispatch ext (Adm_Set_Swap_Aggregator a) = set_swap_aggregator a"
| "admin_dispatch ext (Adm_Set_Price_Aggregator a) = set_price_aggregator a"
| "admin_dispatch ext (Adm_Set_Accumulator a) = set_accumulator a"
| "admin_dispatch ext (Adm_Set_Position_Limits l) = set_position_limits l"
| "admin_dispatch ext (Adm_Set_Min_Borrow_Collateral f) = set_min_borrow_collateral_usd f"
| "admin_dispatch ext (Adm_Set_Position_Manager a act) = upd_store (set_position_manager a act)"
| "admin_dispatch ext (Adm_Approve_Blend_Pool p) = set_blend_pool_approval p True"
| "admin_dispatch ext (Adm_Revoke_Blend_Pool p) = set_blend_pool_approval p False"
| "admin_dispatch ext Adm_Create_Hub = discard create_hub"
| "admin_dispatch ext Adm_Add_Spoke = discard add_spoke"
| "admin_dispatch ext (Adm_Remove_Spoke i) = remove_spoke i"
| "admin_dispatch ext (Adm_Set_Liquidation_Curve i t m f) = set_spoke_liquidation_curve i t m f"
| "admin_dispatch ext (Adm_Add_Asset args) = add_asset_to_spoke args"
| "admin_dispatch ext (Adm_Edit_Asset args) = edit_asset_in_spoke args"
| "admin_dispatch ext (Adm_Set_Flags i k p f n) = set_spoke_asset_flags i k p f n"
| "admin_dispatch ext (Adm_Relax_Flags i k e p f n) = relax_spoke_asset_flags i k e p f n"
| "admin_dispatch ext (Adm_Remove_Asset k i) = remove_asset_from_spoke k i"
| "admin_dispatch ext (Adm_Deploy_Pool h) = discard (deploy_pool h)"
| "admin_dispatch ext (Adm_Deploy_Nft h) = discard (deploy_position_nft ext h)"
| "admin_dispatch ext (Adm_Create_Market hub a p) = discard (create_liquidity_pool hub a p)"
| "admin_dispatch ext (Adm_Update_Market k m) = upgrade_liquidity_pool_params k m"
| "admin_dispatch ext (Adm_Upgrade_Pool h) = upgrade_pool h"
| "admin_dispatch ext (Adm_Upgrade_Nft h) = upgrade_position_nft ext h"
| "admin_dispatch ext (Adm_Force_Socialize i) = process_force_socialize_bad_debt ext i"
| "admin_dispatch ext Adm_Pause = pausable_pause"
| "admin_dispatch ext Adm_Unpause = pausable_unpause"
| "admin_dispatch ext (Adm_Upgrade h) = controller_upgrade h"
| "admin_dispatch ext (Adm_Migrate v) = controller_migrate v"
| "admin_dispatch ext (Adm_Transfer_Ownership a l) = controller_transfer_ownership ext a l"

fun ctl_dispatch :: "'w ctl_externals \<Rightarrow> ctl_call \<Rightarrow> ('w, unit) ctl" where
  "ctl_dispatch ext (Ctl_Supply c i sp ps) = when_not_paused (discard (process_supply ext c i sp ps))"
| "ctl_dispatch ext (Ctl_Borrow c i ps t) = when_not_paused (process_borrow ext c i ps t)"
| "ctl_dispatch ext (Ctl_Withdraw c i ps t) = discard (process_withdraw ext c i ps t)"
| "ctl_dispatch ext (Ctl_Repay c i ps) = process_repay ext c i ps"
| "ctl_dispatch ext (Ctl_Liquidate l i ps m) = discard (process_liquidation ext l i ps m)"
| "ctl_dispatch ext (Ctl_Clean_Bad_Debt c i) = process_clean_bad_debt ext c i"
| "ctl_dispatch ext (Ctl_Flash_Loan c k amt r d) = when_not_paused (process_flash_loan ext c k amt r d)"
| "ctl_dispatch ext (Ctl_Flash_Position c fp) = when_not_paused (discard (process_flash_position ext c fp))"
| "ctl_dispatch ext (Ctl_Multiply c mp) = when_not_paused (discard (process_multiply ext c mp))"
| "ctl_dispatch ext (Ctl_Swap_Debt c sd) = when_not_paused (process_swap_debt ext c sd)"
| "ctl_dispatch ext (Ctl_Swap_Collateral c sp) = when_not_paused (process_swap_collateral ext c sp)"
| "ctl_dispatch ext (Ctl_Repay_With_Collateral c rp) = when_not_paused (process_repay_debt_with_collateral ext c rp)"
| "ctl_dispatch ext (Ctl_Migrate_Blend c mb) = when_not_paused (discard (process_migrate_blend ext c mb))"
| "ctl_dispatch ext (Ctl_Update_Indexes c ks) = when_not_paused (markets_update_indexes c ks)"
| "ctl_dispatch ext (Ctl_Claim_Revenue c ks) = when_not_paused (discard (markets_claim_revenue ext c ks))"
| "ctl_dispatch ext (Ctl_Update_Threshold c b ids) = when_not_paused (update_account_threshold ext c b ids)"
| "ctl_dispatch ext (Ctl_Recapitalize p k amt) = discard (markets_recapitalize ext p k amt)"
| "ctl_dispatch ext (Ctl_Add_Delegate c i d) = when_not_paused (add_delegate ext c i d)"
| "ctl_dispatch ext (Ctl_Remove_Delegate c i d) = remove_delegate ext c i d"
| "ctl_dispatch ext Ctl_Accept_Ownership = controller_accept_ownership ext"
| "ctl_dispatch ext (Ctl_Admin cl) = ctl_only_owner (admin_dispatch ext cl)"

end
