(* ===== verification/Controller_Frame.thy ===== *)
theory Controller_Frame
  imports Controller Pool_Machine
begin

text \<open>
  What the flows of the controller keep, proved once for every relation between the state before and the
  state after. \<open>ctx_frame\<close> covers the code that only fills the invocation's caches (valuation, gates, the
  liquidation plan); \<open>world_frame\<close> adds external calls and the flash guard (transfers, swaps, Blend);
  \<open>pool_frame\<close> adds calls of the modelled pool entrypoints (the legs of positions and strategies); \<open>ctl_frame\<close> adds
  the writes of account data. The interpretations give that
  planning and views change nothing but the caches, that the pool only moves by its own entrypoints, and
  that no user flow changes the configuration or leaves the flash-loan flag set.
\<close>

section \<open>Flows that only touch the caches\<close>

locale ctx_frame = frame rel for rel :: "'w system \<Rightarrow> 'w system \<Rightarrow> bool" +
  assumes rel_ctx: "rel s (s\<lparr>sy_ctx := c\<rparr>)"
begin

lemma framed_query [frame_rules]: "framed (\<lambda>s. rbind (q s) (\<lambda>x. Inr (x, s)))"
  by (rule framedI) (auto simp: rbind_Inr_iff rel_refl)

lemma framed_access [frame_rules]:
  "framed (read_ctx g)" "framed (read_store g')" "framed (read_store_res r)" "framed (pool_view v)"
  "framed (require_auth a)" "framed (get_account ex i)" "framed (get_account_borrow_only ex i)"
  "framed (balance_delta_since ex t h b)"
  by (auto simp: read_ctx_def read_store_def read_store_res_def pool_view_def require_auth_def get_account_def
    get_account_borrow_only_def balance_delta_since_def rbind_Inr_iff rel_refl split: if_splits intro!: framedI frame_rules)

lemma framed_upd_ctx [frame_rules]: "framed (upd_ctx f)"
  unfolding upd_ctx_def by (rule framed_fwrite) (rule rel_ctx)

lemma framed_context [frame_rules]:
  "framed context_new" "framed cached_pool_address" "framed (fetch_prices ex x1)"
  "framed (fetch_market_indexes x2)" "framed (load_markets ex x3)" "framed (ctx_require_hub_active x4)"
  "framed (cached_pool_sync_data x5)" "framed (put_market_index x6 x7)" "framed (cached_market_index x8)"
  "framed (cached_price x9)"
  by (auto simp: context_new_def cached_pool_address_def fetch_prices_def fetch_market_indexes_def load_markets_def
    ctx_require_hub_active_def cached_pool_sync_data_def put_market_index_def cached_market_index_def
    cached_price_def Let_def
    split: prod.split option.split intro!: frame_rules)

lemma framed_spoke [frame_rules]:
  "framed (ensure_spoke_context x1)" "framed reset_spoke_context" "framed (cached_spoke_asset x2 x3)"
  "framed (require_spoke_asset_config x4 x5)" "framed (require_spoke_asset x6 x7)"
  "framed (ctx_spoke_config x8)" "framed (active_spoke x9)" "framed (require_listed_active_config x10 x11)"
  "framed (modify_spoke_usage x12 x13)" "framed (apply_spoke_entry x14 x15 x16 x17 x18 x19)"
  "framed (apply_spoke_exit x20 x21 x22 x23)"
  by (auto simp: ensure_spoke_context_def reset_spoke_context_def cached_spoke_asset_def require_spoke_asset_config_def
    require_spoke_asset_def ctx_spoke_config_def active_spoke_def require_listed_active_config_def
    modify_spoke_usage_def apply_spoke_entry_def apply_spoke_exit_def
    split: prod.split option.split intro!: frame_rules)

lemma framed_account_guards [frame_rules]:
  "framed (require_owner_or_delegate x1 x2 x3)" "framed (require_account_owner ex x4 x5)"
  "framed (require_spoke_match x6 x7)" "framed require_not_flash_loaning"
  "framed (require_authorized_caller x8)" "framed (require_third_party_existing_supply x9 x10 x11 x12 x13)"
  "framed (load_credit_receiver ex x14 x15 x16)"
  by (auto simp: require_owner_or_delegate_def require_account_owner_def require_spoke_match_def
    require_not_flash_loaning_def require_authorized_caller_def require_third_party_existing_supply_def
    load_credit_receiver_def
    split: prod.split option.split intro!: frame_rules)

lemma framed_totals [frame_rules]:
  "framed (sum_debt_usd_loaded x1 x2)" "framed (sum_debt_usd ex x3)"
  "framed (calculate_ltv_collateral_wad ex x4)" "framed (collateral_step x5 x6)"
  "framed (calculate_account_risk_totals ex x7 x8)"
  by (auto simp: sum_debt_usd_loaded_def sum_debt_usd_def calculate_ltv_collateral_wad_def collateral_step_def
    calculate_account_risk_totals_def
    split: prod.split option.split intro!: frame_rules)

lemma framed_gates [frame_rules]:
  "framed (require_whole_unit_collateral_floor x1)" "framed (require_post_pool_risk_gates ex x2)"
  "framed (validate_bulk_position_limits x3 x4 x5)" "framed (require_whole_unit_isolation x6 x7)"
  by (auto simp: require_whole_unit_collateral_floor_def require_post_pool_risk_gates_def
    validate_bulk_position_limits_def require_whole_unit_isolation_def Let_def
    split: prod.split option.split intro!: frame_rules)

lemma framed_risk_params [frame_rules]:
  "framed (clears_min_hf ex x1 x2 x3 x4)" "framed (apply_gated_liquidation_params ex x5 x6 x7 x8)"
  "framed (refresh_supply_risk_params ex x9 x10 x11 x12 x13)" "framed (restamp_step x14 x15 x16)"
  "framed (restamp_listed_supply_ltv x17)" "framed (sync_threshold_step ex x18 x19 x20)"
  by (auto simp: clears_min_hf_def apply_gated_liquidation_params_def refresh_supply_risk_params_def restamp_step_def
    restamp_listed_supply_ltv_def sync_threshold_step_def Let_def
    split: prod.split option.split intro!: frame_rules)

lemma framed_for_each_leg [frame_rules]: "(\<And>x acc. framed (f x acc)) \<Longrightarrow> framed (for_each_leg es rs f a)"
  unfolding for_each_leg_def by (intro frame_rules)

lemma framed_position_gates [frame_rules]:
  "framed (require_external_recipient x1)" "framed (enforce_post_pool_solvency ex x2)"
  "framed (apply_leg_usage x3 x4 x5 x6 x7 x8)" "framed (enforce_spoke_asset_flags x9 x10 x11)"
  "framed (require_listed_unhalted_config x12 x13)" "framed (require_can_borrow x14 x15)"
  "framed (require_can_supply x16 x17)" "framed (validate_position_entry_gates x18 x19 x20)"
  by (auto simp: require_external_recipient_def enforce_post_pool_solvency_def apply_leg_usage_def
    enforce_spoke_asset_flags_def require_listed_unhalted_config_def require_can_borrow_def
    require_can_supply_def validate_position_entry_gates_def Let_def
    split: prod.split option.split leg_direction.split freeze_policy.split account_position_type.split intro!: frame_rules)

lemma framed_merges [frame_rules]:
  "framed (merge_supply_leg ex x1 x2)" "framed (leg_may_restamp_risk_params x3 x4 x5 x6)"
  "framed (merge_withdraw_leg ex x7 x8 x9 x10)" "framed (merge_debt_leg x11 x12 x13 x14)"
  "framed (withdraw_entry x15 x16 x17)"
  by (auto simp: merge_supply_leg_def leg_may_restamp_risk_params_def merge_withdraw_leg_def merge_debt_leg_def
    withdraw_entry_def Let_def
    split: prod.split option.split intro!: frame_rules)

lemma framed_plan [frame_rules]:
  "framed (get_account_bonus_params x1 x2 x3)" "framed (calculate_seizure_proportions x4 x5 x6)"
  "framed (repayment_leg x7 x8 x9)" "framed (calculate_repayment_amounts x10 x11 x12)"
  "framed (one_unit_per_debt_leg_usd x13)" "framed (repays_every_debt_leg x14 x15)"
  "framed (whole_unit_repayment x16 x17 x18 x19)" "framed (normalize_repayment_plan x20 x21 x22 x23 x24)"
  "framed (seizure_leg x25 x26 x27 x28 x29 x30)" "framed (calculate_seized_collateral x31 x32 x33)"
  "framed (build_liquidation_plan ex x34 x35)"
  by (auto simp: get_account_bonus_params_def calculate_seizure_proportions_def repayment_leg_def
    calculate_repayment_amounts_def one_unit_per_debt_leg_usd_def repays_every_debt_leg_def
    whole_unit_repayment_def normalize_repayment_plan_def seizure_leg_def calculate_seized_collateral_def
    build_liquidation_plan_def Let_def
    split: prod.split option.split list.split intro!: frame_rules)

lemma framed_credit [frame_rules]:
  "framed (seizure_withdraw_entry x1 x2 x3)" "framed (credit_supply_shares x4 x5 x6)"
  "framed (share_credit_leg x7 x8)" "framed (require_credit_position_limit x9 x10 x11)"
  "framed (record_share_credit_updates x12 x13)"
  by (auto simp: seizure_withdraw_entry_def credit_supply_shares_def share_credit_leg_def
    require_credit_position_limit_def record_share_credit_updates_def Let_def
    split: prod.split option.split intro!: frame_rules)

lemma framed_strategy_gates [frame_rules]:
  "framed (snapshot_balances ex x1 x2)" "framed (prefetch_strategy_prices ex x3 x4)"
  "framed (verify_router_output ex x5 x6)" "framed (validate_collaterals x7 x8)"
  "framed (validate_refund_assets x9 x10 x11 x12)" "framed (collect_collateral_deposits ex x13 x14 x15)"
  "framed (flash_position_gates ex x16)" "framed (validate_migration_request x17 x18 x19 x20)"
  by (auto simp: snapshot_balances_def prefetch_strategy_prices_def verify_router_output_def validate_collaterals_def
    validate_refund_assets_def collect_collateral_deposits_def flash_position_gates_def validate_migration_request_def
    split: prod.split option.split intro!: frame_rules)

lemma framed_views [frame_rules]:
  "framed (view_health_factor ex x1)" "framed (can_be_liquidated ex x2)"
  "framed (collateral_amount_for_hub_asset x3 x4)" "framed (borrow_amount_for_hub_asset x5 x6)"
  "framed (liquidation_collateral_available ex x7)" "framed (total_collateral_in_usd ex x8)"
  "framed (total_borrow_in_usd ex x9)" "framed (ltv_collateral_in_usd ex x10)"
  "framed (require_view_inputs_bound x11)" "framed (liquidation_estimations_detailed ex x12 x13 x14)"
  by (auto simp: view_health_factor_def can_be_liquidated_def collateral_amount_for_hub_asset_def
    borrow_amount_for_hub_asset_def liquidation_collateral_available_def total_collateral_in_usd_def
    total_borrow_in_usd_def ltv_collateral_in_usd_def require_view_inputs_bound_def
    liquidation_estimations_detailed_def Let_def
    split: prod.split option.split seize_mode.split intro!: frame_rules)

end

section \<open>User flows\<close>

text \<open>The writes of account data the user flows make.\<close>

inductive user_write :: "ctl_store \<Rightarrow> ctl_store \<Rightarrow> bool" where
  write_supply: "user_write st (set_supply_positions i m st)"
| write_debt: "user_write st (set_debt_positions i d st)"
| write_meta: "user_write st (set_account_meta i meta st)"
| write_removal: "user_write st (remove_account_entry i st)"
| write_usage: "user_write st (usage_persist u st)"
| write_delegate: "storage_add_delegate i owner_addr d st = Inr (changed, st') \<Longrightarrow> user_write st st'"
| write_undelegate: "storage_remove_delegate i owner_addr d st = (changed, st') \<Longrightarrow> user_write st st'"

fun is_admin :: "ctl_call \<Rightarrow> bool" where
  "is_admin (Ctl_Admin _) = True"
| "is_admin Ctl_Accept_Ownership = True"
| "is_admin _ = False"

fun strategy_call :: "ctl_call \<Rightarrow> bool" where
  "strategy_call (Ctl_Multiply c mp) = True"
| "strategy_call (Ctl_Swap_Debt c sd) = True"
| "strategy_call (Ctl_Swap_Collateral c sp) = True"
| "strategy_call (Ctl_Repay_With_Collateral c rp) = True"
| "strategy_call (Ctl_Flash_Position c fp) = True"
| "strategy_call (Ctl_Migrate_Blend c mb) = True"
| "strategy_call _ = False"

locale world_frame = ctx_frame rel for rel :: "'w system \<Rightarrow> 'w system \<Rightarrow> bool" +
  assumes rel_world: "rel s (set_world w s)"
    and rel_guard: "rel (s\<lparr>sy_store := set_flash_loan_ongoing True (sy_store s)\<rparr>) t \<Longrightarrow>
      rel s (if cs_flash_loan_ongoing (sy_store s) then t
             else t\<lparr>sy_store := set_flash_loan_ongoing False (sy_store t)\<rparr>)"
begin

lemma framed_guard [frame_rules]: "framed m \<Longrightarrow> framed (with_flash_guard m)"
proof (rule framedI)
  fix s x s'
  assume m: "framed m" and "with_flash_guard m s = Inr (x, s')"
  then obtain t where "m (s\<lparr>sy_store := set_flash_loan_ongoing True (sy_store s)\<rparr>) = Inr (x, t)"
    and "s' = (if cs_flash_loan_ongoing (sy_store s) then t else t\<lparr>sy_store := set_flash_loan_ongoing False (sy_store t)\<rparr>)"
    by (auto simp: with_flash_guard_def read_store_def upd_store_def res_iff split: if_splits)
  then show "rel s s'" using rel_guard [OF framedD [OF m]] by blast
qed

lemma framed_world [frame_rules]: "framed (world_call f)"
  by (rule framedI) (auto simp: world_call_def rbind_Inr_iff rel_world)

lemma framed_custody [frame_rules]:
  "framed (transfer_amount_measured ex x1 x2 x3 x4 x5)" "framed (refund_controller_balance_delta ex x6 x7 x8)"
  "framed (swap_tokens ex x9 x10 x11 x12 x13)" "framed (swap_tokens_or_passthrough ex x14 x15 x16 x17 x18)"
  "framed (guarded_submit ex x19 x20 x21 x22)" "framed (blend_sweep_all ex x23 x24 x25 x26)"
  "framed (blend_repay_all ex x27 x28 x29)" "framed (collect_initial_multiply_payment ex x30 x31 x32 x33 x34)"
  "framed (invoke_receiver ex x35 x36 x37 x38 x39 x40 x41 x42)" "framed (refund_listed_assets ex x43 x44 x45)"
  by (auto simp: transfer_amount_measured_def refund_controller_balance_delta_def swap_tokens_def swap_tokens_or_passthrough_def
    guarded_submit_def blend_sweep_all_def blend_repay_all_def collect_initial_multiply_payment_def invoke_receiver_def
    refund_listed_assets_def
    split: prod.split option.split intro!: frame_rules)

end

locale pool_frame = world_frame rel for rel :: "'w system \<Rightarrow> 'w system \<Rightarrow> bool" +
  fixes ext :: "'w ctl_externals"
  assumes rel_pool: "dispatch (ce_base ext) cl ((sy_pool s)\<lparr>h_auth := (\<lambda>a. a = sy_self s)\<rparr>) = Inr h \<Longrightarrow> rel s (s\<lparr>sy_pool := h\<rparr>)"
begin

lemma framed_pool:
  assumes "\<And>h x h'. f h = Inr (x, h') \<Longrightarrow> dispatch (ce_base ext) cl h = Inr h'"
  shows "framed (pool_call f)"
  by (rule framedI) (auto simp: pool_call_def rbind_Inr_iff intro!: rel_pool assms)

lemma framed_entrypoints [frame_rules]:
  "framed (pool_call (\<lambda>h. pool_supply h es))"
  "framed (pool_call (\<lambda>h. borrow (ce_base ext) h r bs))"
  "framed (pool_call (\<lambda>h. withdraw (ce_base ext) h r liq ws))"
  "framed (pool_call (\<lambda>h. repay (ce_base ext) h r acts))"
  "framed (pool_call (\<lambda>h. create_strategy (ce_base ext) h r act fee))"
  "framed (pool_call (\<lambda>h. flash_loan (ce_base ext) h k i rc amt data))"
  "framed (pool_call (\<lambda>h. recapitalize (ce_base ext) h k p amt))"
  "framed (pool_call (\<lambda>h. claim_revenue (ce_base ext) h k))"
  "framed (pool_call (\<lambda>h. net_settle h ne))"
  "framed (pool_call (\<lambda>h. rbind (update_indexes h ks) (\<lambda>h'. Inr ((), h'))))"
  "framed (pool_call (\<lambda>h. rbind (seize_positions h zs) (\<lambda>h'. Inr ((), h'))))"
  by (rule framed_pool [of _ "Supply es"], simp add: state_of_def)
    (rule framed_pool [of _ "Borrow_Call r bs"], simp add: state_of_def,
     rule framed_pool [of _ "Withdraw r liq ws"], simp add: state_of_def,
     rule framed_pool [of _ "Repay r acts"], simp add: state_of_def,
     rule framed_pool [of _ "Create_Strategy r act fee"], simp add: state_of_def,
     rule framed_pool [of _ "Flash_Loan k i rc amt data"], simp add: state_of_def,
     rule framed_pool [of _ "Recapitalize k p amt"], simp add: state_of_def,
     rule framed_pool [of _ "Claim_Revenue k"], simp add: state_of_def,
     rule framed_pool [of _ "Net_Settle ne"], simp add: state_of_def,
     rule framed_pool [of _ "Update_Indexes ks"], simp add: rbind_Inr_iff,
     rule framed_pool [of _ "Seize_Positions zs"], simp add: rbind_Inr_iff)

lemma framed_settlement [frame_rules]:
  "framed (apply_withdraw_batch ext x1 x2 x3 x4)" "framed (deposit_entry ext x5 x6 x7 x8 x9)"
  "framed (process_deposit ext x10 x11 x12)" "framed (settle_withdraw ext x13 x14 x15)"
  "framed (execute_withdrawal ext x16 x17 x18 x19 x20)" "framed (settle_borrow ext x21 x22 x23)"
  "framed (apply_repay_batch ext x24 x25 x26)" "framed (repay_action ext x27 x28 x29 x30 x31)"
  "framed (settle_repay ext x32 x33 x34)" "framed (repay_prefunded_position ext x35 x36 x37 x38 x39)"
  "framed (borrow_into_controller ext x40 x41 x42 x43)"
  by (auto simp: apply_withdraw_batch_def deposit_entry_def process_deposit_def settle_withdraw_def execute_withdrawal_def
    settle_borrow_def apply_repay_batch_def repay_action_def settle_repay_def repay_prefunded_position_def
    borrow_into_controller_def Let_def
    split: prod.split option.split intro!: frame_rules)

lemma framed_legs [frame_rules]:
  "framed (repay_debt_from_controller ext x3 x4 x5 x6 x7)"
  "framed (withdraw_collateral_to_controller ext x8 x9 x10 x11)" "framed (close_leg ext x12 x13 x14)"
  "framed (execute_withdraw_all ext x15 x16 x17)" "framed (net_settle_collateral_against_debt ext x18 x19 x20)"
  "framed (withdraw_and_swap_from_supply ext x21 x22 x23 x24 x25 x26)" "framed (repay_via_collateral_swap ext x27 x28 x29 x30 x31 x32)"
  "framed (mint_and_forward ext x33 x34 x35 x36)" "framed (flash_callback ext x37 x38 x39 x40)"
  "framed (deposit_withdrawn ext x41 x42 x43 x44)" "framed (reconcile_leg ext x45 x46 x47 x48 x49)"
  "framed (reconcile_debt_refunds ext x50 x51 x52 x53 x54)" "framed (migration_borrow ext x55 x56 x57)"
  "framed (execute_migration_debt_leg ext x58 x59 x60 x61 x62)"
  by (auto simp: repay_debt_from_controller_def withdraw_collateral_to_controller_def close_leg_def
    execute_withdraw_all_def net_settle_collateral_against_debt_def withdraw_and_swap_from_supply_def repay_via_collateral_swap_def
    mint_and_forward_def flash_callback_def deposit_withdrawn_def reconcile_leg_def reconcile_debt_refunds_def
    migration_borrow_def execute_migration_debt_leg_def Let_def
    split: prod.split option.split intro!: frame_rules)

end

locale ctl_frame = pool_frame rel ext for rel :: "'w system \<Rightarrow> 'w system \<Rightarrow> bool" and ext :: "'w ctl_externals" +
  assumes rel_write: "user_write (sy_store s) st \<Longrightarrow> rel s (s\<lparr>sy_store := st\<rparr>)"
begin

lemma framed_write [frame_rules]: "(\<And>st. user_write st (g st)) \<Longrightarrow> framed (upd_store g)"
  unfolding upd_store_def by (intro framed_fwrite rel_write)

lemma framed_delegates [frame_rules]:
  "framed (set_account_delegate ex c i d add)" "framed (add_delegate ex c i d)" "framed (remove_delegate ex c i d)"
proof -
  have grant: "framed (fbind (read_store_res (storage_add_delegate i c d)) (\<lambda>(changed, st). upd_store (\<lambda>_. st)))"
    by (rule framedI)
      (auto simp: fbind_Inr read_store_res_def rbind_Inr_iff upd_store_def fwrite_Inr intro!: rel_write write_delegate)
  have revoke: "framed (fbind (read_store (storage_remove_delegate i c d)) (\<lambda>(changed, st). upd_store (\<lambda>_. st)))"
    by (rule framedI)
      (auto simp: fbind_Inr read_store_def fread_Inr upd_store_def fwrite_Inr split: prod.splits intro!: rel_write write_undelegate)
  show "framed (set_account_delegate ex c i d add)"
    unfolding set_account_delegate_def using grant revoke by (auto intro!: frame_rules)
  then show "framed (add_delegate ex c i d)" "framed (remove_delegate ex c i d)"
    using grant revoke unfolding add_delegate_def remove_delegate_def set_account_delegate_def by (auto intro!: frame_rules)
qed

lemma framed_persist [frame_rules]: "framed persist_spoke_usage"
  unfolding persist_spoke_usage_def by (auto split: option.split intro!: frame_rules user_write.intros)

lemma framed_thresholds [frame_rules]: "framed (sync_account_thresholds ext scope i)"
  by (rule framedI)
    (auto simp: sync_account_thresholds_def Let_def rel_refl split: option.splits if_splits;
     erule framedD [rotated]; auto split: prod.split intro!: frame_rules user_write.intros)

lemma framed_accounts [frame_rules]:
  "framed (create_account_with ext x1 x2 x3 x4)" "framed (create_account ext x5 x6 x7)"
  "framed (load_or_create_account ext x8 x9 x10 x11 x12)" "framed (nft_burn_call ext x13 x14)"
  "framed (remove_account_and_burn_nft ext x15)" "framed (cleanup_account_if_empty ext x16 x17)"
  "framed (update_account_threshold ext x26 x27 x28)"
  by (auto simp: create_account_with_def create_account_def load_or_create_account_def nft_burn_call_def
    remove_account_and_burn_nft_def cleanup_account_if_empty_def update_account_threshold_def Let_def
    split: prod.split option.split spoke_admission.split account_guard.split intro!: frame_rules user_write.intros)

lemma framed_finalize [frame_rules]:
  "framed (persist_account_positions ext x1 x2 x3 x4)" "framed (finalize_position_flow ext x5 x6 x7 x8)"
  "framed (strategy_finalize ext x9 x10)"
  by (auto simp: persist_account_positions_def finalize_position_flow_def strategy_finalize_def
    split: prod.split option.split intro!: frame_rules user_write.intros)

lemma framed_positions [frame_rules]:
  "framed (process_supply ext x1 x2 x3 x4)" "framed (process_withdraw ext x5 x6 x7 x8)"
  "framed (process_borrow ext x9 x10 x11 x12)" "framed (process_repay ext x13 x14 x15)"
  by (auto simp: process_supply_def process_withdraw_def process_borrow_def process_repay_def Let_def
    split: prod.split option.split intro!: frame_rules)

lemma framed_liquidation_steps [frame_rules]:
  "framed (liquidation_repayment_leg ext x1 x2 x3 x4 x5 x6)"
  "framed (apply_liquidation_repayments ext x7 x8 x9 x10)"
  "framed (apply_liquidation_seizures ext x11 x12 x13)" "framed (pool_seize_positions_call x14)"
  "framed (apply_liquidation_share_credit x15 x16 x17)" "framed (execute_bad_debt_cleanup ext x18 x19)"
  "framed (check_bad_debt_after_liquidation ext x20 x21 x22)"
  "framed (resolve_seize_receiver ext x23 x24 x25 x26)"
  by (auto simp: liquidation_repayment_leg_def apply_liquidation_repayments_def apply_liquidation_seizures_def
    pool_seize_positions_call_def apply_liquidation_share_credit_def execute_bad_debt_cleanup_def
    check_bad_debt_after_liquidation_def resolve_seize_receiver_def Let_def
    split: prod.split option.split seize_mode.split intro!: frame_rules)

lemma framed_liquidation [frame_rules]:
  "framed (process_liquidation ext x1 x2 x3 x4)" "framed (socialize_bad_debt ext x5 x6)"
  "framed (clean_bad_debt_standalone ext x7)" "framed (process_clean_bad_debt ext x8 x9)"
  "framed (process_force_socialize_bad_debt ext x10)"
  by (auto simp: process_liquidation_def socialize_bad_debt_def clean_bad_debt_standalone_def process_clean_bad_debt_def
    process_force_socialize_bad_debt_def Let_def
    split: prod.split option.split bad_debt_gate.split intro!: frame_rules)

lemma framed_markets [frame_rules]:
  "framed (markets_update_indexes x1 x2)" "framed (claim_revenue_for_asset ext x3)"
  "framed (markets_claim_revenue ext x4 x5)" "framed (markets_recapitalize ext x6 x7 x8)"
  "framed (process_flash_loan ext x9 x10 x11 x12 x13)"
  by (auto simp: markets_update_indexes_def claim_revenue_for_asset_def markets_claim_revenue_def markets_recapitalize_def
    process_flash_loan_def Let_def
    split: prod.split option.split intro!: frame_rules)

lemma framed_strategies [frame_rules]:
  "framed (process_multiply ext x1 x2)" "framed (process_swap_debt ext x3 x4)" "framed (process_swap_collateral ext x5 x6)"
  "framed (process_repay_debt_with_collateral ext x7 x8)" "framed (process_flash_position ext x9 x10)"
  "framed (process_migrate_blend ext x11 x12)"
  by (auto simp: process_multiply_def process_swap_debt_def process_swap_collateral_def process_repay_debt_with_collateral_def
    process_flash_position_def process_migrate_blend_def Let_def
    split: prod.split option.split intro!: frame_rules)

lemma framed_user_call: "\<not> is_admin cl \<Longrightarrow> framed (ctl_dispatch ext cl)"
  by (cases cl) (auto simp: when_not_paused_def discard_def intro!: frame_rules)

end

section \<open>The frames of the controller\<close>

definition only_caches :: "'w system \<Rightarrow> 'w system \<Rightarrow> bool" where
  "only_caches s s' \<longleftrightarrow> s'\<lparr>sy_ctx := sy_ctx s\<rparr> = s"

interpretation ro: ctx_frame only_caches
  by unfold_locales (auto simp: only_caches_def, metis system.surjective system.update_convs(5))

lemma only_cachesD:
  assumes "only_caches s s'"
  shows "sy_store s' = sy_store s" and "sy_pool s' = sy_pool s" and "sy_self s' = sy_self s" and "sy_auth s' = sy_auth s"
proof -
  have "s = s'\<lparr>sy_ctx := sy_ctx s\<rparr>" using assms by (simp add: only_caches_def)
  then show "sy_store s' = sy_store s" and "sy_pool s' = sy_pool s" and "sy_self s' = sy_self s" and "sy_auth s' = sy_auth s"
    by (metis system.select_convs(1) system.surjective system.update_convs(5), metis system.select_convs(4) system.surjective system.update_convs(5),
        metis system.select_convs(2) system.surjective system.update_convs(5), metis system.select_convs(3) system.surjective system.update_convs(5))
qed

text \<open>The pool moves only by its own entrypoints and by its environment.\<close>

definition drives :: "'w ctl_externals \<Rightarrow> 'w system \<Rightarrow> 'w system \<Rightarrow> bool" where
  "drives ext s s' \<longleftrightarrow> sy_self s' = sy_self s \<and> (pool_step (ce_base ext))\<^sup>*\<^sup>* (sy_pool s) (sy_pool s')"

lemma drives_world: "drives ext s (set_world w s)"
proof -
  have "pool_step (ce_base ext) (sy_pool s) ((sy_pool s)\<lparr>h_timestamp := h_timestamp (sy_pool s), h_auth := h_auth (sy_pool s), h_world := w\<rparr>)"
    by (rule pool_step.env_step) simp
  then show ?thesis by (auto simp: drives_def set_world_def)
qed

lemma drives_pool:
  assumes "dispatch (ce_base ext) cl ((sy_pool s)\<lparr>h_auth := auth\<rparr>) = Inr h"
  shows "drives ext s (s\<lparr>sy_pool := h\<rparr>)"
proof -
  have "pool_step (ce_base ext) (sy_pool s) ((sy_pool s)\<lparr>h_timestamp := h_timestamp (sy_pool s), h_auth := auth, h_world := sy_world s\<rparr>)"
    by (rule pool_step.env_step) simp
  then have "pool_step (ce_base ext) (sy_pool s) ((sy_pool s)\<lparr>h_auth := auth\<rparr>)" by simp
  then show ?thesis using pool_step.call_step [OF assms] by (auto simp: drives_def)
qed

interpretation drv: ctl_frame "drives ext" ext for ext :: "'w ctl_externals"
  by unfold_locales
    (auto simp: drives_world intro: drives_pool, auto simp: drives_def)

text \<open>The configuration: everything the store holds but account data and spoke usage.\<close>

definition config_of :: "ctl_store \<Rightarrow> ctl_store" where
  "config_of st = st\<lparr>cs_account_meta := Map.empty, cs_supply_positions := Map.empty,
     cs_borrow_positions := Map.empty, cs_delegates := Map.empty, cs_spoke_usage := Map.empty\<rparr>"

lemma usage_persist_config: "config_of (usage_persist u st) = config_of st"
proof -
  have "config_of (foldl (\<lambda>st (k, usage). set_spoke_usage i k usage st) st us) = config_of st" for i us
    by (induction us arbitrary: st) (auto simp: set_spoke_usage_def config_of_def)
  then show ?thesis by (simp add: usage_persist_def)
qed

lemma user_write_config: "user_write st st' \<Longrightarrow> config_of st' = config_of st"
  by (induction rule: user_write.induct)
    (auto simp: usage_persist_config [unfolded config_of_def] set_supply_positions_def set_debt_positions_def set_account_meta_def
      remove_account_entry_def storage_add_delegate_def storage_remove_delegate_def set_delegates_def
      config_of_def Let_def rbind_Inr_iff split: if_splits option.splits)

lemma config_of_flash:
  "config_of (set_flash_loan_ongoing b st) = set_flash_loan_ongoing b (config_of st)"
  "set_flash_loan_ongoing b (set_flash_loan_ongoing b' st) = set_flash_loan_ongoing b st"
  "cs_flash_loan_ongoing (config_of st) = cs_flash_loan_ongoing st"
  "cs_flash_loan_ongoing st = b \<Longrightarrow> set_flash_loan_ongoing b st = st"
  by (auto simp: config_of_def set_flash_loan_ongoing_def)

interpretation cfg: ctl_frame "\<lambda>s s'. config_of (sy_store s') = config_of (sy_store s)" ext for ext :: "'w ctl_externals"
  by unfold_locales
    (auto simp: user_write_config set_world_def config_of_flash)

section \<open>Administration\<close>

text \<open>
  The owner's calls write the configuration and nothing of the accounts; the address of the pool is written once,
  and the owner is replaced only by the acceptance of an offer.
\<close>

definition account_data where
  "account_data st = (cs_account_meta st, cs_supply_positions st, cs_borrow_positions st, cs_delegates st, cs_spoke_usage st)"

definition admin_write :: "ctl_store \<Rightarrow> ctl_store \<Rightarrow> bool" where
  "admin_write st st' \<longleftrightarrow> account_data st' = account_data st \<and> cs_pool st' = cs_pool st \<and> cs_owner st' = cs_owner st"

fun market_admin :: "call \<Rightarrow> bool" where
  "market_admin (Create_Market hub p) = True"
| "market_admin (Update_Params k m) = True"
| "market_admin (Upgrade w) = True"
| "market_admin (Update_Indexes ks) = True"
| "market_admin _ = False"

fun plain_admin :: "admin_call \<Rightarrow> bool" where
  "plain_admin (Adm_Deploy_Pool w) = False"
| "plain_admin (Adm_Force_Socialize i) = False"
| "plain_admin _ = True"

locale admin_frame = ctx_frame rel for rel :: "'w system \<Rightarrow> 'w system \<Rightarrow> bool" +
  fixes ext :: "'w ctl_externals"
  assumes rel_admin_world: "rel s (set_world w s)"
    and rel_admin_pool: "dispatch (ce_base ext) cl ((sy_pool s)\<lparr>h_auth := (\<lambda>a. a = sy_self s)\<rparr>) = Inr h \<Longrightarrow> market_admin cl \<Longrightarrow>
      rel s (s\<lparr>sy_pool := h\<rparr>)"
    and rel_admin_write: "admin_write (sy_store s) st \<Longrightarrow> rel s (s\<lparr>sy_store := st\<rparr>)"
begin

lemma framed_admin_world [frame_rules]: "framed (world_call f)"
  by (rule framedI) (auto simp: world_call_def rbind_Inr_iff rel_admin_world)

lemma framed_admin_write [frame_rules]: "(\<And>st. admin_write st (g st)) \<Longrightarrow> framed (upd_store g)"
  unfolding upd_store_def by (intro framed_fwrite rel_admin_write)

lemma framed_admin_rewrite:
  assumes "\<And>st x. g st = Inr x \<Longrightarrow> admin_write st (f x)"
  shows "framed (fbind (read_store_res g) (\<lambda>x. upd_store (\<lambda>_. f x)))"
  by (rule framedI) (auto simp: fbind_Inr read_store_res_def rbind_Inr_iff upd_store_def fwrite_Inr intro!: rel_admin_write assms)

lemma framed_market_admin [frame_rules]:
  "framed (pool_call (\<lambda>h. rbind (create_market h hub p) (\<lambda>h'. Inr ((), h'))))"
  "framed (pool_call (\<lambda>h. rbind (update_params h k m) (\<lambda>h'. Inr ((), h'))))"
  "framed (pool_call (\<lambda>h. rbind (upgrade h c) (\<lambda>h'. Inr ((), h'))))"
  "framed (pool_call (\<lambda>h. rbind (update_indexes h ks) (\<lambda>h'. Inr ((), h'))))"
  using rel_admin_pool [of "Create_Market hub p"] rel_admin_pool [of "Update_Params k m"] rel_admin_pool [of "Upgrade c"]
    rel_admin_pool [of "Update_Indexes ks"]
  by (auto simp: pool_call_def rbind_Inr_iff intro!: framedI)

lemma framed_counters [frame_rules]: "framed create_hub" "framed add_spoke"
  by (rule framedI, auto simp: create_hub_def add_spoke_def res_iff read_store_res_def upd_store_def rbind_Inr_iff
    increment_hub_id_def increment_spoke_id_def set_hub_def set_spoke_def admin_write_def account_data_def intro!: rel_admin_write)+

definition bump :: "nat \<Rightarrow> hub_asset_key \<Rightarrow> ('w, unit) ctl" where
  "bump i k = fbind (read_store_res (bump_spoke_flags_epoch i k)) (\<lambda>st. upd_store (\<lambda>_. st))"

lemma framed_bump [frame_rules]: "framed (bump i k)"
  unfolding bump_def by (rule framed_admin_rewrite)
    (auto simp: bump_spoke_flags_epoch_def admin_write_def account_data_def Let_def split: if_splits)

lemma framed_listings [frame_rules]:
  "framed (upsert_spoke_asset args mu)" "framed (write_spoke_asset_flags i k cfg p f n)"
  unfolding upsert_spoke_asset_def write_spoke_asset_flags_def Let_def bump_def [symmetric]
  by (auto simp: set_spoke_asset_def admin_write_def account_data_def split: option.split intro!: frame_rules)

lemma framed_admin:
  assumes "plain_admin cl"
  shows "framed (admin_dispatch ext cl)"
  using assms by (cases cl)
    (auto simp: set_swap_aggregator_def set_price_aggregator_def set_accumulator_def set_position_limits_def
      set_min_borrow_collateral_usd_def set_blend_pool_approval_def remove_spoke_def set_spoke_def
      set_spoke_liquidation_curve_def add_asset_to_spoke_def edit_asset_in_spoke_def Let_def
      remove_spoke_asset_def set_position_manager_def set_blend_pool_approved_def
      set_spoke_asset_flags_def relax_spoke_asset_flags_def remove_asset_from_spoke_def
      deploy_position_nft_def create_liquidity_pool_def upgrade_liquidity_pool_params_def upgrade_pool_def
      upgrade_position_nft_def pausable_pause_def pausable_unpause_def controller_upgrade_def controller_migrate_def
      controller_transfer_ownership_def discard_def admin_write_def account_data_def split: prod.split option.split intro!: frame_rules)

end

interpretation drv_admin: admin_frame "drives ext" ext for ext :: "'w ctl_externals"
  by unfold_locales (auto simp: drives_world intro: drives_pool, auto simp: drives_def)

lemma drives_admin:
  assumes "\<And>h. cl \<noteq> Adm_Deploy_Pool h"
  shows "drv.framed ext (admin_dispatch ext cl)"
proof (cases "plain_admin cl")
  case False
  then show ?thesis using assms by (cases cl) (auto intro!: frame_rules)
qed (rule drv_admin.framed_admin)

text \<open>An administrative invocation is a call of the authenticated owner or the acceptance of an ownership offer.\<close>

lemma admin_invocation:
  assumes "ctl_dispatch ext cl s = Inr (u, s')" and "is_admin cl"
  obtains (call) a owner where "cl = Ctl_Admin a" and "admin_dispatch ext a s = Inr (u, s')"
      and "cs_owner (sy_store s) = Some owner" and "sy_auth s owner"
    | (accept) accepted w where "cl = Ctl_Accept_Ownership" and "ce_accept_ownership ext (sy_auth s) (sy_world s) = Inr (accepted, w)"
      and "s' = (set_world w s)\<lparr>sy_store := (sy_store s)\<lparr>cs_owner := Some accepted\<rparr>\<rparr>"
proof (cases cl)
  case (Ctl_Admin a)
  then show thesis using assms(1) call [of a] by (cases "cs_owner (sy_store s)")
    (auto simp: ctl_only_owner_def res_iff read_store_res_def require_auth_def rbind_Inr_iff unwrap_or_panic_def split: if_splits)
next
  case Ctl_Accept_Ownership
  then show thesis using assms(1) accept
    by (auto simp: controller_accept_ownership_def res_iff world_call_def upd_store_def rbind_Inr_iff set_world_def)
qed (use assms(2) in auto)

end
