(* ===== verification/Controller_Machine.thy ===== *)
theory Controller_Machine
  imports Controller_Frame
begin

text \<open>
  The controller and its pool as one state machine: invocations of the controller, direct invocations of
  the pool by anyone but the controller, and the environment (time, authorisations, every other contract).
  Once the controller has deployed its pool, the pool's part of every reachable state is a reachable
  state of the pool machine, owned by the controller.
\<close>

section \<open>Deployment and steps\<close>

definition blank_store :: "bytes \<Rightarrow> ctl_store" where
  "blank_store code =
     \<lparr>cs_owner = None, cs_paused = False, cs_app_version = None, cs_code = code, cs_pool = None,
      cs_position_nft = None, cs_price_aggregator = None, cs_swap_aggregator = None, cs_accumulator = None,
      cs_position_limits = None, cs_min_borrow_collateral_usd = None, cs_last_hub_id = 0, cs_last_spoke_id = 0,
      cs_hubs = Map.empty, cs_spokes = Map.empty, cs_spoke_assets = Map.empty, cs_spoke_flags_epoch = Map.empty,
      cs_spoke_usage = Map.empty, cs_account_meta = Map.empty, cs_supply_positions = Map.empty,
      cs_borrow_positions = Map.empty, cs_delegates = Map.empty, cs_position_managers = Map.empty,
      cs_blend_pools = {}, cs_flash_loan_ongoing = False\<rparr>"

text \<open>A contract that is not deployed yet has no owner and no storage.\<close>

definition unborn :: "'w host \<Rightarrow> bool" where
  "unborn h \<longleftrightarrow> h_owner h = None \<and> h_params h = Map.empty \<and> h_state h = Map.empty"

inductive sys_step :: "'w ctl_externals \<Rightarrow> 'w system \<Rightarrow> 'w system \<Rightarrow> bool" for ext where
  invoke: "ctl_dispatch ext cl s = Inr (u, s') \<Longrightarrow> sys_step ext s s'"
| direct: "\<lbrakk>cs_pool (sy_store s) \<noteq> None; \<not> auth (sy_self s);
    dispatch (ce_base ext) cl ((sy_pool s)\<lparr>h_auth := auth\<rparr>) = Inr h\<rbrakk> \<Longrightarrow> sys_step ext s (s\<lparr>sy_pool := h\<rparr>)"
| environ: "h_timestamp (sy_pool s) \<le> t \<Longrightarrow>
    sys_step ext s (s\<lparr>sy_auth := auth, sy_pool := (sy_pool s)\<lparr>h_timestamp := t, h_world := w\<rparr>\<rparr>)"

inductive sys_reachable :: "'w ctl_externals \<Rightarrow> 'w system \<Rightarrow> bool" for ext where
  created: "\<lbrakk>sy_store s = blank_store code; unborn (sy_pool s); controller_init admin s = Inr (u, s')\<rbrakk> \<Longrightarrow> sys_reachable ext s'"
| onward: "\<lbrakk>sys_reachable ext s; sys_step ext s s'\<rbrakk> \<Longrightarrow> sys_reachable ext s'"

section \<open>The pool of a reachable system\<close>

lemma pool_step_owner:
  assumes "pool_step ext h h'" and "host_ok h"
  shows "h_owner h' = h_owner h" and "h_self h' = h_self h"
proof -
  have "h_owner h' = h_owner h \<and> h_self h' = h_self h" if d: "dispatch ext cl h = Inr h'" for cl
  proof (cases "lifecycle cl")
    case False
    then show ?thesis using market_run_frame [OF dispatch_run [OF d assms(2)] assms(2)] by simp
  next
    case True
    then show ?thesis using d
      by (cases cl) (auto simp: create_market_def update_params_def upgrade_def only_owner_Inr market_create_def
        replace_rate_model_def write_rate_model_def cache_commit_def rbind_Inr_iff Let_def write_params_def write_state_def)
  qed
  then show "h_owner h' = h_owner h" and "h_self h' = h_self h"
    using assms(1) by (auto simp: pool_step_simps)
qed

lemma pool_path:
  assumes "(pool_step ext)\<^sup>*\<^sup>* h h'" and "reachable ext h"
  shows "reachable ext h'" and "h_owner h' = h_owner h" and "h_self h' = h_self h"
proof -
  have "reachable ext h' \<and> h_owner h' = h_owner h \<and> h_self h' = h_self h"
    using assms
  proof (induction rule: rtranclp_induct)
    case (step h1 h2)
    with reachable_host_ok pool_step_owner [OF step(2)] show ?case by (metis reachable.advance)
  qed simp
  then show "reachable ext h'" and "h_owner h' = h_owner h" and "h_self h' = h_self h" by simp_all
qed

definition keeps_pool :: "'w system \<Rightarrow> 'w system \<Rightarrow> bool" where
  "keeps_pool s s' \<longleftrightarrow> cs_pool (sy_store s') = cs_pool (sy_store s)"

lemma user_write_pool: "user_write st st' \<Longrightarrow> cs_pool st' = cs_pool st"
  using user_write_config [of st st'] by (metis config_of_def ctl_store.simps(5) ctl_store.surjective ctl_store.update_convs)

interpretation kp: ctl_frame keeps_pool ext for ext :: "'w ctl_externals"
  by unfold_locales
    (auto simp: keeps_pool_def user_write_pool set_world_def set_flash_loan_ongoing_def)

interpretation kp_admin: admin_frame keeps_pool ext for ext :: "'w ctl_externals"
  by unfold_locales (auto simp: keeps_pool_def admin_write_def set_world_def)

lemma keeps_pool_admin:
  assumes "\<And>h. cl \<noteq> Adm_Deploy_Pool h"
  shows "kp.framed (admin_dispatch ext cl)"
proof (cases "plain_admin cl")
  case False
  then show ?thesis using assms by (cases cl) (auto intro!: frame_rules)
qed (rule kp_admin.framed_admin)

text \<open>What the controller knows of its pool.\<close>

definition pool_wired :: "'w ctl_externals \<Rightarrow> 'w system \<Rightarrow> bool" where
  "pool_wired ext s \<longleftrightarrow> (\<forall>p. cs_pool (sy_store s) = Some p \<longrightarrow>
     reachable (ce_base ext) (sy_pool s) \<and> h_self (sy_pool s) = p \<and> h_owner (sy_pool s) = Some (sy_self s))"

lemma pool_wired_drives:
  assumes "pool_wired ext s" and "drives ext s s'" and "keeps_pool s s'"
  shows "pool_wired ext s'"
  using assms pool_path unfolding pool_wired_def drives_def keeps_pool_def by metis

lemma deploy_pool_wired:
  assumes "deploy_pool wasm s = Inr (p, s')"
  shows "pool_wired ext s'"
proof -
  have "reachable (ce_base ext) (pool_constructor (h\<lparr>h_params := Map.empty, h_state := Map.empty, h_code := c\<rparr>) a)" for h c a
    by (rule reachable.deployed) simp_all
  then show ?thesis
    using assms by (auto simp: deploy_pool_def res_iff read_store_def upd_store_def pool_wired_def pool_constructor_def)
qed

lemma invoke_wired:
  assumes run: "ctl_dispatch ext cl s = Inr (u, s')" and wired: "pool_wired ext s"
  shows "pool_wired ext s'"
proof (cases "is_admin cl")
  case False
  then show ?thesis
    using pool_wired_drives [OF wired drv.framedD [OF drv.framed_user_call run] kp.framedD [OF kp.framed_user_call run]] by simp
next
  case True
  with run show ?thesis
  proof (cases rule: admin_invocation)
    case (call a owner)
    show ?thesis
    proof (cases "\<exists>w. a = Adm_Deploy_Pool w")
      case True
      with call(2) show ?thesis by (auto simp: discard_def res_iff intro: deploy_pool_wired)
    next
      case False
      then show ?thesis
        using pool_wired_drives [OF wired drv.framedD [OF drives_admin call(2)] kp.framedD [OF keeps_pool_admin call(2)]] by simp
    qed
  next
    case (accept accepted w)
    have "drives ext s s'" using drives_world [of ext s w] accept(3) by (simp add: drives_def)
    moreover have "keeps_pool s s'" using accept(3) by (simp add: keeps_pool_def)
    ultimately show ?thesis by (rule pool_wired_drives [OF wired])
  qed
qed

lemma sys_reachable_wired: "sys_reachable ext s \<Longrightarrow> pool_wired ext s"
proof (induction rule: sys_reachable.induct)
  case (created s code admin u s')
  then show ?case
    by (auto simp: controller_init_def pool_wired_def res_iff upd_store_def blank_store_def set_position_limits_def
      set_min_borrow_collateral_usd_def pausable_pause_def read_store_def)
next
  case (onward s s')
  from onward(2) show ?case
  proof (cases rule: sys_step.cases)
    case invoke
    then show ?thesis using invoke_wired onward(3) by blast
  next
    case (direct auth cl h)
    then show ?thesis
      using onward(3) pool_wired_drives [OF onward(3) drives_pool [OF direct(4)]] by (auto simp: keeps_pool_def)
  next
    case (environ t w auth)
    have "pool_step (ce_base ext) (sy_pool s) ((sy_pool s)\<lparr>h_timestamp := t, h_auth := h_auth (sy_pool s), h_world := w\<rparr>)"
      using environ(2) by (rule pool_step.env_step)
    then show ?thesis
      using environ(1) pool_wired_drives [OF onward(3), of s'] by (auto simp: drives_def keeps_pool_def)
  qed
qed

end
