(* ===== verification/Pool_Books.thy ===== *)
theory Pool_Books
  imports Pool_Machine
begin

text \<open>
  Who owns the shares of a market. \<open>user_shares\<close> are the supply shares that are not protocol revenue and
  \<open>debt_shares\<close> the debt shares; accrual and fees leave both alone, and every leg changes them by exactly what
  it changes in the position it was given. The locale \<open>share_leg\<close> lifts that from a leg to a batch.
\<close>

definition user_shares :: "'w host \<Rightarrow> hub_asset_key \<Rightarrow> int" where
  "user_shares h k = (case h_state h k of None \<Rightarrow> 0 | Some st \<Rightarrow> ps_supplied st - ps_revenue st)"

definition debt_shares :: "'w host \<Rightarrow> hub_asset_key \<Rightarrow> int" where
  "debt_shares h k = (case h_state h k of None \<Rightarrow> 0 | Some st \<Rightarrow> ps_borrowed st)"

lemma shares_of_state:
  "h_state h' = h_state h \<Longrightarrow> user_shares h' = user_shares h"
  "h_state h' = h_state h \<Longrightarrow> debt_shares h' = debt_shares h"
  by (simp_all add: fun_eq_iff user_shares_def debt_shares_def)

lemma shares_write:
  "user_shares (write_state h k st) = (user_shares h)(k := ps_supplied st - ps_revenue st)"
  "debt_shares (write_state h k st) = (debt_shares h)(k := ps_borrowed st)"
  by (simp_all add: fun_eq_iff user_shares_def debt_shares_def write_state_def)

lemma shares_env [simp]:
  "user_shares (h\<lparr>h_world := w\<rparr>) = user_shares h" "debt_shares (h\<lparr>h_world := w\<rparr>) = debt_shares h"
  "user_shares (h\<lparr>h_auth := a\<rparr>) = user_shares h" "debt_shares (h\<lparr>h_auth := a\<rparr>) = debt_shares h"
  by (rule shares_of_state, simp)+

section \<open>Accrual\<close>

definition books_kept :: "cache \<Rightarrow> cache \<Rightarrow> bool" where
  "books_kept c c' \<longleftrightarrow> c_supplied c' - c_revenue c' = c_supplied c - c_revenue c \<and> c_borrowed c' = c_borrowed c \<and>
     c_hub_asset c' = c_hub_asset c"

lemma sync_loop_books: "sync_loop c remaining = Inr c' \<Longrightarrow> books_kept c c'"
proof (induction c remaining rule: sync_loop.induct)
  case (1 c remaining)
  show ?case
  proof (cases "remaining = 0")
    case True
    then show ?thesis using "1.prems" by (simp add: books_kept_def sync_loop.simps)
  next
    case False
    let ?chunk = "min remaining MAX_COMPOUND_DELTA_MS"
    from "1.prems" False obtain c1 where c1: "accrue_chunk c ?chunk = Inr c1" and rest: "sync_loop c1 (remaining - ?chunk) = Inr c'"
      by (subst (asm) sync_loop.simps) (auto simp: rbind_Inr_iff Let_def)
    have "books_kept c c1" using c1 by (elim accrue_chunk_elim) (simp add: books_kept_def)
    moreover have "books_kept c1 c'" using "1.IH" False c1 rest by blast
    ultimately show ?thesis by (simp add: books_kept_def)
  qed
qed

lemma synced_books:
  assumes "synced_market h k = Inr c"
  shows "c_hub_asset c = k" and "c_supplied c - c_revenue c = user_shares h k" and "c_borrowed c = debt_shares h k"
proof -
  from assms obtain p st now where st: "h_state h k = Some st" and g: "global_sync (cache_of k p st now) = Inr c"
    by (auto simp: synced_market_def rbind_Inr_iff cache_load_Inr)
  have "books_kept (cache_of k p st now) c"
    using g sync_loop_books by (auto simp: global_sync_def mark_accrued_def books_kept_def rbind_Inr_iff split: if_splits)
  then show "c_hub_asset c = k" and "c_supplied c - c_revenue c = user_shares h k" and "c_borrowed c = debt_shares h k"
    using st by (auto simp: books_kept_def cache_of_def user_shares_def debt_shares_def)
qed

section \<open>Legs\<close>

definition booked :: "'w host \<Rightarrow> hub_asset_key \<Rightarrow> int \<Rightarrow> int \<Rightarrow> 'w host \<Rightarrow> bool" where
  "booked h k du dd h' \<longleftrightarrow>
     (\<forall>j. user_shares h' j = user_shares h j + (if j = k then du else 0)) \<and>
     (\<forall>j. debt_shares h' j = debt_shares h j + (if j = k then dd else 0))"

lemma bookedI:
  assumes "synced_market h k = Inr c0"
    and "h_state h' = (h_state h)(k \<mapsto> cache_state c)"
    and "c_supplied c - c_revenue c = c_supplied c0 - c_revenue c0 + du" and "c_borrowed c = c_borrowed c0 + dd"
  shows "booked h k du dd h'"
  using synced_books [OF assms(1)] assms(2-)
  by (auto simp: booked_def user_shares_def debt_shares_def cache_state_def)

lemma add_protocol_revenue_books: "add_protocol_revenue c fee = Inr c' \<Longrightarrow> books_kept c c'"
  by (auto simp: add_protocol_revenue_def books_kept_def res_iff split: if_splits)

lemma transfer_state: "transfer_out ext c to amount h = Inr h' \<Longrightarrow> h_state h' = h_state h"
  by (metis host.surjective host.select_convs(2) host.update_convs(8) transfer_out_frame(1))

lemmas leg_unfold = rbind_Inr_iff load_leg_Inr cash_Inr shares_Inr ray_Inr cache_commit_def Let_def
  position_mutation_def snapshot_def write_state_def

lemma supply_booked:
  assumes "supply_apply h e = Inr (m, sn, h')"
  defines "k \<equiv> pa_hub_asset (pse_action e)"
  shows "mss_hub_asset sn = k"
    and "booked h k (scaled_amount (ppm_position m) - scaled_amount (pa_position (pse_action e))) 0 h'"
proof -
  from assms(1) obtain c0 n c where c0: "synced_market h k = Inr c0"
    and c: "c = c0\<lparr>c_supplied := c_supplied c0 + n, c_cash := c_cash c0 + pa_amount (pse_action e)\<rparr>"
    and m: "m = position_mutation c (scaled_amount (pa_position (pse_action e)) + n) (pa_amount (pse_action e))"
    and H: "sn = snapshot c" "h' = write_state h (c_hub_asset c0) (cache_state c)"
    unfolding k_def by (elim supply_elim)
  show "mss_hub_asset sn = k" using synced_books(1) [OF c0] by (simp add: H c snapshot_def)
  show "booked h k (scaled_amount (ppm_position m) - scaled_amount (pa_position (pse_action e))) 0 h'"
    by (rule bookedI [OF c0, of _ c]) (use synced_books(1) [OF c0] in \<open>simp_all add: H c m write_state_def position_mutation_def\<close>)
qed

lemma borrow_booked:
  assumes "borrow_apply ext to h e = Inr (m, sn, h')"
  defines "k \<equiv> pa_hub_asset (pbe_action e)"
  shows "mss_hub_asset sn = k"
    and "booked h k 0 (scaled_amount (ppm_position m) - scaled_amount (pa_position (pbe_action e))) h'"
proof -
  let ?a = "pa_amount (pbe_action e)" and ?p = "scaled_amount (pa_position (pbe_action e))"
  from assms(1) obtain c0 c1 p h1 where c0: "synced_market h k = Inr c0" and md: "mint_debt c0 ?p ?a = Inr (c1, p)"
    and m: "m = position_mutation (c1\<lparr>c_cash := c_cash c1 - ?a\<rparr>) p ?a" and sn: "sn = snapshot (c1\<lparr>c_cash := c_cash c1 - ?a\<rparr>)"
    and h1: "h1 = write_state h (c_hub_asset c1) (cache_state (c1\<lparr>c_cash := c_cash c1 - ?a\<rparr>))"
    and t: "transfer_out ext (c1\<lparr>c_cash := c_cash c1 - ?a\<rparr>) to ?a h1 = Inr h'"
    unfolding borrow_apply_def borrow_accounting_def k_def
    by (auto simp: rbind_Inr_iff load_leg_Inr cash_Inr cache_commit_def Let_def position_mutation_def)
  from md obtain n where n: "p = ?p + n" "c1 = c0\<lparr>c_borrowed := c_borrowed c0 + n\<rparr>" by (elim mint_debt_elim)
  show "mss_hub_asset sn = k" using synced_books(1) [OF c0] by (simp add: sn n snapshot_def)
  show "booked h k 0 (scaled_amount (ppm_position m) - ?p) h'"
    by (rule bookedI [OF c0, of _ "c1\<lparr>c_cash := c_cash c1 - ?a\<rparr>"])
      (use synced_books(1) [OF c0] in \<open>simp_all add: transfer_state [OF t] h1 n m write_state_def position_mutation_def\<close>)
qed

text \<open>The other legs, from their soundness lemmas.\<close>

lemma market_step_booked:
  assumes "market_step h k c0 c h'" and "host_ok h"
    and "c_supplied c - c_revenue c = c_supplied c0 - c_revenue c0 + du" and "c_borrowed c = c_borrowed c0 + dd"
  shows "booked h k du dd h'"
  using bookedI [OF _ market_step_host(7) [OF assms(1,2)] assms(3,4)] assms(1) by (simp add: market_step_def)

lemma market_step_key: "market_step h k c0 c h' \<Longrightarrow> mss_hub_asset (snapshot c) = k"
  by (simp add: market_step_def snapshot_def)

lemma withdraw_booked:
  assumes "withdraw_apply ext to liq h e = Inr (m, sn, h')" and "host_ok h"
  shows "mss_hub_asset sn = pa_hub_asset (pwe_action e)"
    and "booked h (pa_hub_asset (pwe_action e))
      (scaled_amount (ppm_position m) - scaled_amount (pa_position (pwe_action e))) 0 h'"
proof -
  from withdraw_sound [OF assms] obtain c0 c burned n where st: "market_step h (pa_hub_asset (pwe_action e)) c0 c h'"
    and sn: "sn = snapshot c" and c: "c_supplied c = c_supplied c0 - burned + n" "c_revenue c = c_revenue c0 + n"
    and m: "scaled_amount (ppm_position m) = scaled_amount (pa_position (pwe_action e)) - burned"
    and b: "c_borrowed c = c_borrowed c0" by metis
  show "mss_hub_asset sn = pa_hub_asset (pwe_action e)" using market_step_key [OF st] sn by simp
  show "booked h (pa_hub_asset (pwe_action e))
      (scaled_amount (ppm_position m) - scaled_amount (pa_position (pwe_action e))) 0 h'"
    by (rule market_step_booked [OF st assms(2)]) (simp_all add: c m b)
qed

lemma repay_booked:
  assumes "repay_apply ext payer h a = Inr (m, sn, h')" and "host_ok h"
  shows "mss_hub_asset sn = pa_hub_asset a"
    and "booked h (pa_hub_asset a) 0 (scaled_amount (ppm_position m) - scaled_amount (pa_position a)) h'"
proof -
  from repay_sound [OF assms] obtain c0 c burned where st: "market_step h (pa_hub_asset a) c0 c h'"
    and sn: "sn = snapshot c" and c: "c_supplied c = c_supplied c0" "c_revenue c = c_revenue c0" "c_borrowed c = c_borrowed c0 - burned"
    and m: "scaled_amount (ppm_position m) = scaled_amount (pa_position a) - burned" by metis
  show "mss_hub_asset sn = pa_hub_asset a" using market_step_key [OF st] sn by simp
  show "booked h (pa_hub_asset a) 0 (scaled_amount (ppm_position m) - scaled_amount (pa_position a)) h'"
    by (rule market_step_booked [OF st assms(2)]) (simp_all add: c m)
qed

lemma seize_booked:
  assumes "seize_apply h e = Inr (sn, h')" and "host_ok h"
  defines "n \<equiv> scaled_amount (pze_position e)"
  shows "booked h (pze_hub_asset e) (if pze_side e = Deposit then - n else 0) (if pze_side e = Borrow then - n else 0) h'"
proof -
  from seize_sound [OF assms(1,2)] obtain c0 c where st: "market_step h (pze_hub_asset e) c0 c h'"
    and c: "c_supplied c = c_supplied c0"
      "pze_side e = Deposit \<Longrightarrow> c_borrowed c = c_borrowed c0 \<and> c_revenue c = c_revenue c0 + n"
      "pze_side e = Borrow \<Longrightarrow> c_borrowed c = c_borrowed c0 - n \<and> c_revenue c = c_revenue c0"
    unfolding n_def by metis
  show ?thesis
    by (rule market_step_booked [OF st assms(2)]; cases "pze_side e") (simp_all add: c)
qed

lemma strategy_booked:
  assumes "strategy_apply ext h to a charge = Inr (m, h')" and "host_ok h"
  shows "booked h (pa_hub_asset a) 0 (scaled_amount (psm_position m) - scaled_amount (pa_position a)) h'"
proof -
  from strategy_sound [OF assms] obtain c0 c n rv where st: "market_step h (pa_hub_asset a) c0 c h'"
    and c: "c_borrowed c = c_borrowed c0 + n" "c_revenue c = c_revenue c0 + rv" "c_supplied c = c_supplied c0 + rv"
    and m: "scaled_amount (psm_position m) = scaled_amount (pa_position a) + n" by metis
  show ?thesis by (rule market_step_booked [OF st assms(2)]) (simp_all add: c m)
qed

lemma flash_booked:
  assumes "flash_apply ext h k initiator receiver amount data = Inr (fee, h')" and "host_ok h"
  shows "booked h k 0 0 h'"
proof -
  from flash_sound [OF assms] obtain c0 c rv where st: "market_step h k c0 c h'"
    and c: "c_borrowed c = c_borrowed c0" "c_revenue c = c_revenue c0 + rv" "c_supplied c = c_supplied c0 + rv" by metis
  show ?thesis by (rule market_step_booked [OF st assms(2)]) (simp_all add: c)
qed

lemma net_settle_booked:
  assumes "net_settle_apply h e = Inr (r, sn, h')"
  shows "booked h (pne_hub_asset e) (scaled_amount (pnr_supply_position r) - scaled_amount (pne_supply_position e))
    (scaled_amount (pnr_debt_position r) - scaled_amount (pne_debt_position e)) h'"
proof -
  from assms obtain c0 bs bd where c0: "synced_market h (pne_hub_asset e) = Inr c0"
    and h': "h' = write_state h (c_hub_asset c0) (cache_state (c0\<lparr>c_supplied := c_supplied c0 - bs, c_borrowed := c_borrowed c0 - bd\<rparr>))"
    and r: "scaled_amount (pnr_supply_position r) = scaled_amount (pne_supply_position e) - bs"
      "scaled_amount (pnr_debt_position r) = scaled_amount (pne_debt_position e) - bd"
    by (auto simp: net_settle_apply_def cache_commit_def Let_def rbind_Inr_iff shares_Inr ray_Inr)
  show ?thesis
    by (rule bookedI [OF c0, of _ "c0\<lparr>c_supplied := c_supplied c0 - bs, c_borrowed := c_borrowed c0 - bd\<rparr>"])
      (use synced_books(1) [OF c0] in \<open>simp_all add: h' r write_state_def\<close>)
qed

lemma recapitalize_booked:
  assumes "recapitalize_apply ext h k payer amount = Inr (m, h')"
  shows "booked h k 0 0 h'"
proof -
  from assms obtain c0 a h1 where c0: "synced_market h k = Inr c0"
    and h1: "h1 = write_state h (c_hub_asset c0) (cache_state (c0\<lparr>c_cash := c_cash c0 + a\<rparr>))"
    and t: "h_state h' = h_state h1"
    by (auto simp: recapitalize_apply_def recapitalize_accounting_def renewed_market_def cache_commit_def Let_def
      rbind_Inr_iff cash_Inr dest: transfer_state)
  show ?thesis
    by (rule bookedI [OF c0, of _ "c0\<lparr>c_cash := c_cash c0 + a\<rparr>"])
      (use synced_books(1) [OF c0] in \<open>simp_all add: h1 t write_state_def\<close>)
qed

lemma burn_claimable_books: "burn_claimable_revenue c = Inr (c', a) \<Longrightarrow> books_kept c c'"
  by (auto simp: burn_claimable_revenue_def Let_def rbind_Inr_iff ray_Inr books_kept_def split: if_splits)

lemma revenue_booked:
  assumes "revenue_apply ext h k = Inr (m, h')"
  shows "booked h k 0 0 h'"
proof -
  from assms obtain c0 c1 a c h1 where c0: "synced_market h k = Inr c0"
    and b: "burn_claimable_revenue c0 = Inr (c1, a)" and d: "debit_cash c1 a = Inr c"
    and h1: "h1 = write_state h (c_hub_asset c) (cache_state c)" and fr: "h' = h1\<lparr>h_world := h_world h'\<rparr>"
    unfolding revenue_apply_def revenue_accounting_def renewed_market_def
    by (auto simp: rbind_Inr_iff cache_commit_def Let_def split: if_splits dest: transfer_out_frame(1))
  have k: "books_kept c0 c" using burn_claimable_books [OF b] d by (simp add: cash_Inr books_kept_def)
  show ?thesis
    by (rule bookedI [OF c0, of _ c]; (subst fr)?)
      (use k synced_books(1) [OF c0] in \<open>simp_all add: h1 write_state_def books_kept_def\<close>)
qed

lemma bookedD:
  "booked h k du dd h' \<Longrightarrow> user_shares h' j = user_shares h j + (if j = k then du else 0)"
  "booked h k du dd h' \<Longrightarrow> debt_shares h' j = debt_shares h j + (if j = k then dd else 0)"
  "booked h k du 0 h' \<Longrightarrow> debt_shares h' = debt_shares h" "booked h k 0 dd h' \<Longrightarrow> user_shares h' = user_shares h"
  by (simp_all add: booked_def fun_eq_iff)

lemma booked_0: "booked h k 0 0 h' \<Longrightarrow> user_shares h' = user_shares h \<and> debt_shares h' = debt_shares h"
  by (simp add: booked_def fun_eq_iff)

lemma accrue_books:
  assumes "market_accrue ks h = Inr h'"
  shows "user_shares h' = user_shares h \<and> debt_shares h' = debt_shares h"
  using assms
proof (induction ks arbitrary: h)
  case (Cons k ks)
  then obtain c where c: "synced_market h k = Inr c" and rest: "market_accrue ks (write_state h (c_hub_asset c) (cache_state c)) = Inr h'"
    by (auto simp: rbind_Inr_iff synced_market_def cache_commit_def)
  have "booked h k 0 0 (write_state h (c_hub_asset c) (cache_state c))"
    by (rule bookedI [OF c]) (use synced_books(1) [OF c] in \<open>simp_all add: write_state_def\<close>)
  then show ?case using Cons.IH [OF rest] by (auto dest!: booked_0)
qed simp

lemma rate_model_books:
  assumes "replace_rate_model h k model = Inr h'"
  shows "user_shares h' = user_shares h \<and> debt_shares h' = debt_shares h"
proof -
  from assms obtain c where c: "synced_market h k = Inr c" and h': "h_state h' = (h_state h)(c_hub_asset c \<mapsto> cache_state c)"
    by (auto simp: replace_rate_model_def renewed_market_def cache_commit_def Let_def rbind_Inr_iff write_rate_model_def
      write_params_def write_state_def)
  have "booked h k 0 0 h'"
    by (rule bookedI [OF c]) (use synced_books(1) [OF c] h' in simp_all)
  then show ?thesis by (rule booked_0)
qed

lemma create_market_books:
  assumes "market_create h hub p = Inr h'" and "host_ok h"
  shows "user_shares h' = user_shares h \<and> debt_shares h' = debt_shares h"
proof -
  let ?k = "\<lparr>hub_id = hub, asset = mpr_asset_id p\<rparr>"
  from assms(1) obtain now where k: "h_params h ?k = None"
    and h': "h_state h' = (h_state h)(?k \<mapsto> \<lparr>ps_supplied = 0, ps_borrowed = 0, ps_revenue = 0, ps_borrow_index = RAY,
      ps_supply_index = RAY, ps_last_timestamp = now, ps_cash = 0\<rparr>)"
    by (auto simp: market_create_def Let_def rbind_Inr_iff assert_Inr_iff market_exists_def write_params_def write_state_def)
  have "h_state h ?k = None" using k assms(2) unfolding host_ok_def by (metis domIff)
  then show ?thesis using h' by (auto simp: fun_eq_iff user_shares_def debt_shares_def)
qed

section \<open>Batches\<close>

definition moved :: "hub_asset_key \<Rightarrow> hub_asset_key \<times> int \<Rightarrow> int" where
  "moved k km = (if fst km = k then snd km else 0)"

text \<open>
  A leg that moves \<open>shares\<close> of the market its entry names by what it changes in the position, and nothing of
  \<open>others\<close>.
\<close>

locale share_leg =
  fixes leg :: "'w host \<Rightarrow> 'e \<Rightarrow> ('w, 'r) leg_result" and key :: "'e \<Rightarrow> hub_asset_key"
    and old :: "'e \<Rightarrow> int" and new :: "'r \<Rightarrow> int"
    and shares :: "'w host \<Rightarrow> hub_asset_key \<Rightarrow> int" and others :: "'w host \<Rightarrow> hub_asset_key \<Rightarrow> int"
  assumes leg_key: "leg h e = Inr (r, sn, h') \<Longrightarrow> host_ok h \<Longrightarrow> mss_hub_asset sn = key e \<and> host_ok h'"
    and leg_shares: "leg h e = Inr (r, sn, h') \<Longrightarrow> host_ok h \<Longrightarrow>
      shares h' k = shares h k + (if k = key e then new r - old e else 0)"
    and leg_others: "leg h e = Inr (r, sn, h') \<Longrightarrow> host_ok h \<Longrightarrow> others h' = others h"
begin

lemma batch_moves:
  assumes "batch_loop leg True es ms h = Inr (rs, h')" and "host_ok h"
  shows "length rs = length es \<and> distinct (map key es) \<and> set ms \<inter> key ` set es = {} \<and> others h' = others h \<and> host_ok h' \<and>
    (\<forall>k. shares h' k = shares h k + (\<Sum>(e, r) \<leftarrow> zip es rs. moved k (key e, new r - old e)))"
  using assms
proof (induction es arbitrary: ms h rs)
  case (Cons e es)
  from Cons.prems(1) obtain r sn h1 rs' where l: "leg h e = Inr (r, sn, h1)" and u: "mss_hub_asset sn \<notin> set ms"
    and rest: "batch_loop leg True es (ms @ [mss_hub_asset sn]) h1 = Inr (rs', h')" and rs: "rs = r # rs'"
    by (auto simp: rbind_Inr_iff assert_Inr_iff)
  note K = leg_key [OF l Cons.prems(2)] and S = leg_shares [OF l Cons.prems(2)] and O = leg_others [OF l Cons.prems(2)]
  from Cons.IH [OF rest] K have IH: "length rs' = length es" "distinct (map key es)"
    "(insert (key e) (set ms)) \<inter> key ` set es = {}" "others h' = others h1" "host_ok h'"
    "\<And>k. shares h' k = shares h1 k + (\<Sum>(e, r) \<leftarrow> zip es rs'. moved k (key e, new r - old e))" by auto
  then show ?case using u K by (auto simp: rs S O moved_def)
qed simp

lemma run_batch_moves:
  assumes "run_batch leg True es h = Inr (rs, h')" and "host_ok h"
  shows "length rs = length es" and "distinct (map key es)" and "others h' = others h" and "host_ok h'"
    and "shares h' k = shares h k + (\<Sum>(e, r) \<leftarrow> zip es rs. moved k (key e, new r - old e))"
  using batch_moves [of es "[]" h rs h'] assms by (auto simp: run_batch_def)

end

lemma leg_host_ok:
  "supply_apply h e = Inr (m, sn, h') \<Longrightarrow> host_ok h \<Longrightarrow> host_ok h'"
  "borrow_apply ext to h b = Inr (m, sn, h') \<Longrightarrow> host_ok h \<Longrightarrow> host_ok h'"
  "withdraw_apply ext to liq h w = Inr (m, sn, h') \<Longrightarrow> host_ok h \<Longrightarrow> host_ok h'"
  "repay_apply ext payer h a = Inr (m, sn, h') \<Longrightarrow> host_ok h \<Longrightarrow> host_ok h'"
  by (erule (1) supply_sound, erule (1) market_step_host(1))
    (erule (1) borrow_sound, erule (1) market_step_host(1),
     erule (1) withdraw_sound, erule (1) market_step_host(1),
     erule (1) repay_sound, erule (1) market_step_host(1))

abbreviation new_scaled :: "pool_position_mutation \<Rightarrow> int" where
  "new_scaled m \<equiv> scaled_amount (ppm_position m)"

interpretation supply_shares: share_leg supply_apply "\<lambda>e. pa_hub_asset (pse_action e)"
  "\<lambda>e. scaled_amount (pa_position (pse_action e))" new_scaled user_shares debt_shares
  by unfold_locales (blast intro: supply_booked(1) leg_host_ok(1), erule bookedD(1) [OF supply_booked(2)], erule bookedD(3) [OF supply_booked(2)])

interpretation borrow_shares: share_leg "borrow_apply ext to" "\<lambda>e. pa_hub_asset (pbe_action e)"
  "\<lambda>e. scaled_amount (pa_position (pbe_action e))" new_scaled debt_shares user_shares for ext to
  by unfold_locales (blast intro: borrow_booked(1) leg_host_ok(2), erule bookedD(2) [OF borrow_booked(2)], erule bookedD(4) [OF borrow_booked(2)])

interpretation withdraw_shares: share_leg "withdraw_apply ext to liq" "\<lambda>e. pa_hub_asset (pwe_action e)"
  "\<lambda>e. scaled_amount (pa_position (pwe_action e))" new_scaled user_shares debt_shares for ext to liq
  by unfold_locales (blast intro: withdraw_booked(1) leg_host_ok(3), erule (1) bookedD(1) [OF withdraw_booked(2)], erule (1) bookedD(3) [OF withdraw_booked(2)])

interpretation repay_shares: share_leg "repay_apply ext payer" pa_hub_asset
  "\<lambda>a. scaled_amount (pa_position a)" new_scaled debt_shares user_shares for ext payer
  by unfold_locales (blast intro: repay_booked(1) leg_host_ok(4), erule (1) bookedD(2) [OF repay_booked(2)], erule (1) bookedD(4) [OF repay_booked(2)])

section \<open>Seizure\<close>

definition seized_by :: "account_position_type \<Rightarrow> pool_seize_entry list \<Rightarrow> hub_asset_key \<Rightarrow> int" where
  "seized_by side es k = (\<Sum>e \<leftarrow> filter (\<lambda>e. pze_side e = side \<and> pze_hub_asset e = k) es. scaled_amount (pze_position e))"

lemma seize_leg_Inr: "seize_leg h e = Inr (u, sn, h') \<longleftrightarrow> seize_apply h e = Inr (sn, h')"
  by (auto simp: seize_leg_def rbind_Inr_iff)

lemma seize_batch_books:
  assumes "batch_loop seize_leg False es ms h = Inr (rs, h')" and "host_ok h"
  shows "host_ok h' \<and> user_shares h' k = user_shares h k - seized_by Deposit es k \<and>
    debt_shares h' k = debt_shares h k - seized_by Borrow es k"
  using assms
proof (induction es arbitrary: h rs)
  case (Cons e es)
  then obtain sn h1 rs' where l: "seize_apply h e = Inr (sn, h1)" and rest: "batch_loop seize_leg False es ms h1 = Inr (rs', h')"
    by (auto simp: rbind_Inr_iff seize_leg_Inr)
  have ok1: "host_ok h1" using seize_sound [OF l Cons.prems(2)] market_step_host(1) [OF _ Cons.prems(2)] by metis
  show ?case
    using Cons.IH [OF rest ok1] seize_booked [OF l Cons.prems(2)]
    by (cases "pze_side e") (auto simp: booked_def seized_by_def)
qed (simp add: seized_by_def)

lemma seize_positions_books:
  assumes "seize_positions h es = Inr h'" and "host_ok h"
  shows "host_ok h'" and "user_shares h' k = user_shares h k - seized_by Deposit es k"
    and "debt_shares h' k = debt_shares h k - seized_by Borrow es k"
  using assms seize_batch_books [of es "[]" h _ h'] by (auto simp: seize_positions_def only_owner_Inr run_batch_def rbind_Inr_iff)

end
