(* ===== verification/Controller_Ledger.thy ===== *)
theory Controller_Ledger
  imports Controller_Machine Pool_Books
begin

text \<open>
  The ledger of the protocol: the shares the controller stores per account against the shares in the books of
  the pool. \<open>ledger_off s du dd\<close> says that the books of every market exceed the stored claims by \<open>du\<close>
  (supply) and \<open>dd\<close> (debt); between invocations both are zero. A settlement changes the books and the
  account in memory alike, persisting an account moves its change from the offset to the claims.
\<close>

section \<open>Shares held by an account\<close>

definition shares_in :: "('v \<Rightarrow> int) \<Rightarrow> (hub_asset_key, 'v) smap \<Rightarrow> hub_asset_key \<Rightarrow> int" where
  "shares_in v m k = (case smap_get m k of None \<Rightarrow> 0 | Some p \<Rightarrow> v p)"

definition held_supply :: "account \<Rightarrow> hub_asset_key \<Rightarrow> int" where
  "held_supply a = shares_in apr_scaled_amount (acc_supply_positions a)"

definition held_debt :: "account \<Rightarrow> hub_asset_key \<Rightarrow> int" where
  "held_debt a = shares_in scaled_amount (acc_borrow_positions a)"

definition acct_ok :: "account \<Rightarrow> bool" where
  "acct_ok a \<longleftrightarrow> smap_ok (acc_supply_positions a) \<and> smap_ok (acc_borrow_positions a)"

lemma held_update_supply:
  assumes "acct_ok a"
  shows "held_supply (update_or_remove_supply_position a k p) = (held_supply a)(k := ap_scaled_amount p)"
    and "held_debt (update_or_remove_supply_position a k p) = held_debt a"
    and "acct_ok (update_or_remove_supply_position a k p)"
  using assms by (auto simp: smap.get_upsert smap.ok_upsert fun_eq_iff held_supply_def held_debt_def shares_in_def acct_ok_def update_or_remove_supply_position_def upsert_is_smap)

lemma held_update_debt:
  assumes "acct_ok a"
  shows "held_debt (update_or_remove_debt_position a k p) = (held_debt a)(k := scaled_amount p)"
    and "held_supply (update_or_remove_debt_position a k p) = held_supply a"
    and "acct_ok (update_or_remove_debt_position a k p)"
  using assms by (auto simp: smap.get_upsert smap.ok_upsert fun_eq_iff held_supply_def held_debt_def shares_in_def acct_ok_def update_or_remove_debt_position_def upsert_is_smap)

lemma held_get_or_create:
  "ap_scaled_amount (get_or_create_supply_position a k config) = held_supply a k"
  "scaled_amount (get_or_create_debt_position a k) = held_debt a k"
  "get_supply_position_or_panic a k = Inr p \<Longrightarrow> ap_scaled_amount p = held_supply a k"
  "get_debt_position_or_panic a k = Inr d \<Longrightarrow> scaled_amount d = held_debt a k"
  by (auto simp: get_or_create_supply_position_def get_or_create_debt_position_def held_supply_def held_debt_def shares_in_def
    get_supply_position_or_panic_def get_debt_position_or_panic_def rbind_Inr_iff unwrap_Inr_iff split: option.splits)

section \<open>Merging the results of a batch\<close>

locale leg_merge =
  fixes f :: "'e \<times> 'r \<Rightarrow> account \<Rightarrow> ('w, account) ctl" and key :: "'e \<Rightarrow> hub_asset_key" and new :: "'r \<Rightarrow> int"
    and side :: "account \<Rightarrow> hub_asset_key \<Rightarrow> int" and rest :: "account \<Rightarrow> hub_asset_key \<Rightarrow> int"
  assumes merge: "f (e, r) a s = Inr (a', s') \<Longrightarrow> acct_ok a \<Longrightarrow>
    side a' = (side a)(key e := new r) \<and> rest a' = rest a \<and> acct_ok a'"
begin

lemma fold_merges:
  assumes "ffold f (zip es rs) a s = Inr (a', s')" and "acct_ok a" and "length rs = length es" and "distinct (map key es)"
    and "\<And>e. e \<in> set es \<Longrightarrow> old e = side a (key e)"
  shows "rest a' = rest a \<and> acct_ok a' \<and> (\<forall>k. side a' k = side a k + (\<Sum>(e, r) \<leftarrow> zip es rs. moved k (key e, new r - old e)))"
  using assms
proof (induction es arbitrary: rs a s)
  case (Cons e es)
  then obtain r rs' where rs: "rs = r # rs'" "length rs' = length es" by (cases rs) auto
  from Cons.prems(1) obtain a1 s1 where m: "f (e, r) a s = Inr (a1, s1)" and fl: "ffold f (zip es rs') a1 s1 = Inr (a', s')"
    by (auto simp: rs fbind_Inr)
  note M = merge [OF m Cons.prems(2)]
  have "rest a' = rest a1 \<and> acct_ok a' \<and> (\<forall>k. side a' k = side a1 k + (\<Sum>(e, r) \<leftarrow> zip es rs'. moved k (key e, new r - old e)))"
  proof (rule Cons.IH [OF fl _ rs(2)])
    fix e' assume e': "e' \<in> set es"
    then have "key e' \<noteq> key e" using Cons.prems(4) by (metis distinct.simps(2) image_eqI list.set_map list.simps(9))
    then show "old e' = side a1 (key e')" using M Cons.prems(5) [of e'] e' by simp
  qed (use M Cons.prems(4) in auto)
  then show ?case using M Cons.prems(5) [of e] by (auto simp: rs moved_def)
qed (simp add: fret_Inr)

lemma leg_merges:
  assumes "for_each_leg es rs f a s = Inr (a', s')" and "acct_ok a" and "distinct (map key es)"
    and "\<And>e. e \<in> set es \<Longrightarrow> old e = side a (key e)"
  shows "rest a' = rest a" and "acct_ok a'"
    and "side a' k = side a k + (\<Sum>(e, r) \<leftarrow> zip es rs. moved k (key e, new r - old e))"
  using assms(1) fold_merges [of es rs a s a' s' old] assms(2-) by (auto simp: for_each_leg_def fbind_Inr fassert_Inr)

end

lemma gated_params_scaled:
  "apply_gated_liquidation_params ext a k p config s = Inr (p', s') \<Longrightarrow> ap_scaled_amount p' = ap_scaled_amount p"
  by (auto simp: apply_gated_liquidation_params_def res_iff split: if_splits)

lemma refresh_scaled:
  "refresh_supply_risk_params ext a k p config scope s = Inr ((changed, p'), s') \<Longrightarrow> ap_scaled_amount p' = ap_scaled_amount p"
  by (auto simp: refresh_supply_risk_params_def Let_def res_iff split: if_splits dest!: gated_params_scaled)

interpretation supply_merge: leg_merge "merge_supply_leg ext" "\<lambda>e. pa_hub_asset (pse_action e)" new_scaled
  held_supply held_debt for ext
  by unfold_locales
    (auto simp: merge_supply_leg_def Let_def fbind_Inr fret_Inr leg_outcome_of_def held_update_supply split: prod.splits
      dest!: refresh_scaled)

interpretation withdraw_merge: leg_merge
  "\<lambda>(entry, result). merge_withdraw_leg ext kind (pa_hub_asset (pwe_action entry)) (leg_outcome_of result)"
  "\<lambda>e. pa_hub_asset (pwe_action e)" new_scaled held_supply held_debt for ext kind
  by unfold_locales
    (auto simp: merge_withdraw_leg_def Let_def fbind_Inr fret_Inr leg_outcome_of_def held_update_supply
      split: prod.splits if_splits dest!: refresh_scaled)

lemma merge_debt_held:
  assumes "merge_debt_leg k dir o' a s = Inr (a', s')" and "acct_ok a"
  shows "held_debt a' = (held_debt a)(k := lo_new_scaled o') \<and> held_supply a' = held_supply a \<and> acct_ok a'"
  using assms by (auto simp: merge_debt_leg_def fbind_Inr fret_Inr held_update_debt)

interpretation borrow_merge: leg_merge
  "\<lambda>(entry, result). merge_debt_leg (pa_hub_asset (pbe_action entry)) (Entry (ppm_asset_decimals result)) (leg_outcome_of result)"
  "\<lambda>e. pa_hub_asset (pbe_action e)" new_scaled held_debt held_supply
  by unfold_locales (auto simp: leg_outcome_of_def dest!: merge_debt_held)

interpretation repay_merge: leg_merge
  "\<lambda>(action, result). merge_debt_leg (pa_hub_asset action) Exit (leg_outcome_of result)"
  pa_hub_asset new_scaled held_debt held_supply
  by unfold_locales (auto simp: leg_outcome_of_def dest!: merge_debt_held)

section \<open>The ledger\<close>

text \<open>A table of position maps by account: its rows, its column totals, and a write of one row.\<close>

definition row :: "('v \<Rightarrow> int) \<Rightarrow> (nat \<rightharpoonup> (hub_asset_key, 'v) smap) \<Rightarrow> nat \<Rightarrow> hub_asset_key \<Rightarrow> int" where
  "row v T i k = (case T i of None \<Rightarrow> 0 | Some m \<Rightarrow> shares_in v m k)"

definition column :: "('v \<Rightarrow> int) \<Rightarrow> (nat \<rightharpoonup> (hub_asset_key, 'v) smap) \<Rightarrow> hub_asset_key \<Rightarrow> int" where
  "column v T k = (\<Sum>i \<in> dom T. row v T i k)"

definition table_ok :: "(nat \<rightharpoonup> (hub_asset_key, 'v) smap) \<Rightarrow> bool" where
  "table_ok T \<longleftrightarrow> finite (dom T) \<and> (\<forall>m \<in> ran T. smap_ok m \<and> m \<noteq> [])"

lemma row_write: "row v (write_side_map i m T) j = (if j = i then shares_in v m else row v T j)"
  by (auto simp: fun_eq_iff row_def write_side_map_def shares_in_def)

lemma table_write: "table_ok T \<Longrightarrow> smap_ok m \<Longrightarrow> table_ok (write_side_map i m T)"
  by (auto simp: table_ok_def write_side_map_def ran_def split: if_splits)

lemma column_write:
  assumes "table_ok T"
  shows "column v (write_side_map i m T) k = column v T k - row v T i k + shares_in v m k"
proof -
  let ?T = "write_side_map i m T"
  have fin: "finite (dom T)" "finite (dom ?T)" using assms by (simp_all add: table_ok_def write_side_map_def)
  have old: "(\<Sum>j \<in> dom T. row v T j k) = (\<Sum>j \<in> dom T - {i}. row v T j k) + row v T i k"
    using fin(1) by (cases "i \<in> dom T") (simp_all add: sum.remove row_def domIff)
  have "(\<Sum>j \<in> dom ?T. row v ?T j k) = (\<Sum>j \<in> dom ?T - {i}. row v ?T j k) + row v ?T i k"
    using fin(2) by (cases "i \<in> dom ?T") (simp_all add: sum.remove row_def domIff)
  moreover have "(\<Sum>j \<in> dom ?T - {i}. row v ?T j k) = (\<Sum>j \<in> dom T - {i}. row v T j k)"
    by (intro sum.cong) (auto simp: write_side_map_def row_def)
  ultimately show ?thesis using old by (simp add: column_def row_write)
qed

lemma table_row:
  assumes "table_ok T"
  shows "smap_ok (case T i of None \<Rightarrow> [] | Some m \<Rightarrow> m)" and "row v T i = shares_in v (case T i of None \<Rightarrow> [] | Some m \<Rightarrow> m)"
  using assms by (auto simp: table_ok_def fun_eq_iff row_def shares_in_def ran_def split: option.splits)

definition claimed_supply :: "ctl_store \<Rightarrow> hub_asset_key \<Rightarrow> int" where
  "claimed_supply st = column apr_scaled_amount (cs_supply_positions st)"

definition claimed_debt :: "ctl_store \<Rightarrow> hub_asset_key \<Rightarrow> int" where
  "claimed_debt st = column scaled_amount (cs_borrow_positions st)"

definition ledger_off :: "'w system \<Rightarrow> (hub_asset_key \<Rightarrow> int) \<Rightarrow> (hub_asset_key \<Rightarrow> int) \<Rightarrow> bool" where
  "ledger_off s du dd \<longleftrightarrow> table_ok (cs_supply_positions (sy_store s)) \<and> table_ok (cs_borrow_positions (sy_store s)) \<and>
     host_ok (sy_pool s) \<and>
     (\<forall>k. user_shares (sy_pool s) k = claimed_supply (sy_store s) k + du k) \<and>
     (\<forall>k. debt_shares (sy_pool s) k = claimed_debt (sy_store s) k + dd k)"

definition ledger_ok :: "'w system \<Rightarrow> bool" where
  "ledger_ok s \<longleftrightarrow> ledger_off s (\<lambda>_. 0) (\<lambda>_. 0)"

abbreviation stored_supply :: "'w system \<Rightarrow> nat \<Rightarrow> hub_asset_key \<Rightarrow> int" where
  "stored_supply s \<equiv> row apr_scaled_amount (cs_supply_positions (sy_store s))"

abbreviation stored_debt :: "'w system \<Rightarrow> nat \<Rightarrow> hub_asset_key \<Rightarrow> int" where
  "stored_debt s \<equiv> row scaled_amount (cs_borrow_positions (sy_store s))"

section \<open>Steps that leave the ledger alone\<close>

definition same_ledger :: "'w system \<Rightarrow> 'w system \<Rightarrow> bool" where
  "same_ledger s s' \<longleftrightarrow> cs_supply_positions (sy_store s') = cs_supply_positions (sy_store s) \<and>
     cs_borrow_positions (sy_store s') = cs_borrow_positions (sy_store s) \<and>
     h_state (sy_pool s') = h_state (sy_pool s) \<and> h_params (sy_pool s') = h_params (sy_pool s)"

interpretation sl: world_frame same_ledger
  by unfold_locales (auto simp: same_ledger_def set_world_def set_flash_loan_ongoing_def)

lemma same_ledger_off: "same_ledger s s' \<Longrightarrow> ledger_off s' du dd = ledger_off s du dd"
  using shares_of_state [of "sy_pool s'" "sy_pool s"]
  by (simp add: same_ledger_def ledger_off_def claimed_supply_def claimed_debt_def host_ok_def)

lemma same_ledger_effects [frame_rules]:
  "sl.framed (upd_store (set_account_meta i meta))" "sl.framed persist_spoke_usage"
proof -
  have "cs_supply_positions (usage_persist u st) = cs_supply_positions st \<and> cs_borrow_positions (usage_persist u st) = cs_borrow_positions st" for u st
  proof -
    have "cs_supply_positions (foldl (\<lambda>st (k, usage). set_spoke_usage i k usage st) st us) = cs_supply_positions st \<and>
        cs_borrow_positions (foldl (\<lambda>st (k, usage). set_spoke_usage i k usage st) st us) = cs_borrow_positions st" for i us
      by (induction us arbitrary: st) (auto simp: set_spoke_usage_def)
    then show ?thesis by (simp add: usage_persist_def)
  qed
  then have "sl.framed (upd_store (usage_persist u))" for u
    unfolding upd_store_def by (intro sl.framed_fwrite) (simp add: same_ledger_def)
  then show "sl.framed persist_spoke_usage"
    unfolding persist_spoke_usage_def by (auto split: option.split intro!: frame_rules)
  show "sl.framed (upd_store (set_account_meta i meta))"
    unfolding upd_store_def by (intro sl.framed_fwrite) (simp add: same_ledger_def set_account_meta_def)
qed

lemma same_ledger_flows [frame_rules]:
  "sl.framed (create_account_with ext owner i mode adm)"
  "sl.framed (load_or_create_account ext c j i mode guard)" "sl.framed (nft_burn_call ext nft j)"
  "sl.framed (deposit_entry ext c p a pay es)" "sl.framed (repay_action ext c p a pay acts)"
  "sl.framed (liquidation_repayment_leg ext c p offered a re acc)" "sl.framed (resolve_seize_receiver ext c j a sm)"
  by (auto simp: create_account_with_def create_account_def load_or_create_account_def
    nft_burn_call_def deposit_entry_def repay_action_def liquidation_repayment_leg_def resolve_seize_receiver_def
    split: prod.split option.split spoke_admission.split account_guard.split seize_mode.split intro!: frame_rules)

section \<open>Settlement\<close>

text \<open>Pool and account move together: what a batch changes in the books it changes in the account.\<close>

definition settles :: "(account \<Rightarrow> hub_asset_key \<Rightarrow> int) \<Rightarrow> 'w system \<Rightarrow> account \<Rightarrow> 'w system \<Rightarrow> account \<Rightarrow> bool" where
  "settles keep s a s' a' \<longleftrightarrow> acct_ok a' \<and> host_ok (sy_pool s') \<and> keep a' = keep a \<and>
     cs_supply_positions (sy_store s') = cs_supply_positions (sy_store s) \<and>
     cs_borrow_positions (sy_store s') = cs_borrow_positions (sy_store s) \<and>
     (\<forall>k. user_shares (sy_pool s') k - user_shares (sy_pool s) k = held_supply a' k - held_supply a k) \<and>
     (\<forall>k. debt_shares (sy_pool s') k - debt_shares (sy_pool s) k = held_debt a' k - held_debt a k)"

lemma settles_trans: "settles keep s a s1 a1 \<Longrightarrow> settles keep s1 a1 s2 a2 \<Longrightarrow> settles keep s a s2 a2"
  unfolding settles_def by (smt (verit))

lemma settles_frame:
  "same_ledger s s1 \<Longrightarrow> settles keep s1 a s' a' \<Longrightarrow> settles keep s a s' a'"
  "same_ledger s1 s' \<Longrightarrow> settles keep s a s1 a' \<Longrightarrow> settles keep s a s' a'"
  using shares_of_state [of "sy_pool s1" "sy_pool s"] shares_of_state [of "sy_pool s'" "sy_pool s1"]
  by (auto simp: settles_def same_ledger_def host_ok_def)

lemma same_ledger_host_ok: "same_ledger s s' \<Longrightarrow> host_ok (sy_pool s') = host_ok (sy_pool s)"
  by (simp add: same_ledger_def host_ok_def)

lemma settles_off:
  assumes "settles keep s a s' a'" and "ledger_off s du dd"
  shows "ledger_off s' (\<lambda>k. du k + (held_supply a' k - held_supply a k)) (\<lambda>k. dd k + (held_debt a' k - held_debt a k))"
  using assms by (auto simp: settles_def ledger_off_def claimed_supply_def claimed_debt_def algebra_simps)

lemma pool_call_Inr [res_iff]:
  "pool_call f s = Inr (x, s') \<longleftrightarrow> (\<exists>h. f ((sy_pool s)\<lparr>h_auth := (\<lambda>a. a = sy_self s)\<rparr>) = Inr (x, h) \<and> s' = s\<lparr>sy_pool := h\<rparr>)"
  by (auto simp: pool_call_def rbind_Inr_iff)

text \<open>A batch of pool legs followed by the merge of its results.\<close>

locale leg_settlement = share_leg leg key old new shares others + leg_merge f key new side rest
  for leg :: "'w host \<Rightarrow> 'e \<Rightarrow> ('w, 'r) leg_result" and key old new shares others
    and f :: "'e \<times> 'r \<Rightarrow> account \<Rightarrow> ('w, account) ctl" and side rest +
  assumes merge_frame: "f x a s = Inr (a', s') \<Longrightarrow> same_ledger s s'"
    and axes: "(shares, others, side, rest) = (user_shares, debt_shares, held_supply, held_debt) \<or>
      (shares, others, side, rest) = (debt_shares, user_shares, held_debt, held_supply)"
begin

lemma settle_batch:
  assumes run: "run_batch leg True es ((sy_pool s)\<lparr>h_auth := au\<rparr>) = Inr (rs, h)" and ok: "host_ok (sy_pool s)"
    and m: "for_each_leg es rs f a (s\<lparr>sy_pool := h\<rparr>) = Inr (a', s')" and a: "acct_ok a"
    and old: "\<And>e. e \<in> set es \<Longrightarrow> old e = side a (key e)"
  shows "settles rest s a s' a'"
proof -
  have ok': "host_ok ((sy_pool s)\<lparr>h_auth := au\<rparr>)" using ok by simp
  note B = run_batch_moves [OF run ok'] and M = leg_merges [OF m a run_batch_moves(2) [OF run ok'] old]
  have "same_ledger (s\<lparr>sy_pool := h\<rparr>) s'"
    using sl.framedD [OF sl.framed_for_each_leg m] merge_frame by (simp add: sl.framed_def)
  moreover have "settles rest s a (s\<lparr>sy_pool := h\<rparr>) a'"
    using B M axes ok' by (auto simp: settles_def)
  ultimately show ?thesis by (rule settles_frame(2))
qed

end

lemma merge_frames:
  "merge_supply_leg ext x a s = Inr (a', s') \<Longrightarrow> same_ledger s s'"
  "merge_withdraw_leg ext kind k outcome a s = Inr (a', s') \<Longrightarrow> same_ledger s s'"
  "merge_debt_leg k dir outcome a s = Inr (a', s') \<Longrightarrow> same_ledger s s'"
  by (erule sl.framedD [rotated], rule frame_rules)+

interpretation deposit_batch: leg_settlement supply_apply "\<lambda>e. pa_hub_asset (pse_action e)"
  "\<lambda>e. scaled_amount (pa_position (pse_action e))" new_scaled user_shares debt_shares
  "merge_supply_leg ext" held_supply held_debt for ext
  by unfold_locales (auto intro: merge_frames)

interpretation withdraw_batch: leg_settlement "withdraw_apply ext to liq" "\<lambda>e. pa_hub_asset (pwe_action e)"
  "\<lambda>e. scaled_amount (pa_position (pwe_action e))" new_scaled user_shares debt_shares
  "\<lambda>(entry, result). merge_withdraw_leg ext' kind (pa_hub_asset (pwe_action entry)) (leg_outcome_of result)"
  held_supply held_debt for ext to liq ext' kind
  by unfold_locales (auto intro: merge_frames)

interpretation borrow_batch: leg_settlement "borrow_apply ext to" "\<lambda>e. pa_hub_asset (pbe_action e)"
  "\<lambda>e. scaled_amount (pa_position (pbe_action e))" new_scaled debt_shares user_shares
  "\<lambda>(entry, result). merge_debt_leg (pa_hub_asset (pbe_action entry)) (Entry (ppm_asset_decimals result)) (leg_outcome_of result)"
  held_debt held_supply for ext to
  by unfold_locales (auto intro: merge_frames)

interpretation repay_batch: leg_settlement "repay_apply ext payer" pa_hub_asset
  "\<lambda>a. scaled_amount (pa_position a)" new_scaled debt_shares user_shares
  "\<lambda>(action, result). merge_debt_leg (pa_hub_asset action) Exit (leg_outcome_of result)"
  held_debt held_supply for ext payer
  by unfold_locales (auto intro: merge_frames)

section \<open>Flows that settle\<close>

definition settlor :: "(account \<Rightarrow> hub_asset_key \<Rightarrow> int) \<Rightarrow> ('x \<Rightarrow> account) \<Rightarrow> ('w, 'x) ctl \<Rightarrow> account \<Rightarrow> bool" where
  "settlor keep pr m a \<longleftrightarrow> (\<forall>s x s'. m s = Inr (x, s') \<longrightarrow> host_ok (sy_pool s) \<longrightarrow> acct_ok a \<longrightarrow> settles keep s a s' (pr x))"

lemma settlorD: "settlor keep pr m a \<Longrightarrow> m s = Inr (x, s') \<Longrightarrow> host_ok (sy_pool s) \<Longrightarrow> acct_ok a \<Longrightarrow> settles keep s a s' (pr x)"
  by (simp add: settlor_def)

lemma settlor_after:
  assumes "sl.framed m" and "\<And>s x t. m s = Inr (x, t) \<Longrightarrow> settlor keep pr (g x) a"
  shows "settlor keep pr (fbind m g) a"
  unfolding settlor_def
proof (intro allI impI)
  fix s y s'
  assume "fbind m g s = Inr (y, s')" and ok: "host_ok (sy_pool s)" "acct_ok a"
  then obtain x t where m: "m s = Inr (x, t)" and g: "g x t = Inr (y, s')" by (auto simp: fbind_Inr)
  have f: "same_ledger s t" using sl.framedD [OF assms(1) m] .
  show "settles keep s a s' (pr y)"
    using settles_frame(1) [OF f settlorD [OF assms(2) [OF m] g]] same_ledger_host_ok [OF f] ok by simp
qed

lemma settlor_bind:
  assumes "settlor keep pr m a" and "\<And>x. settlor keep pr' (g x) (pr x)"
  shows "settlor keep pr' (fbind m g) a"
  unfolding settlor_def
proof (intro allI impI)
  fix s y s'
  assume "fbind m g s = Inr (y, s')" and ok: "host_ok (sy_pool s)" "acct_ok a"
  then obtain x t where m: "m s = Inr (x, t)" and g: "g x t = Inr (y, s')" by (auto simp: fbind_Inr)
  have s1: "settles keep s a t (pr x)" using settlorD [OF assms(1) m ok] .
  then show "settles keep s a s' (pr' y)"
    using settles_trans [OF s1 settlorD [OF assms(2) g]] by (simp add: settles_def)
qed

lemma settlor_frame:
  assumes "sl.framed m" and "\<And>s x s'. m s = Inr (x, s') \<Longrightarrow> acct_ok a \<Longrightarrow>
    held_supply (pr x) = held_supply a \<and> held_debt (pr x) = held_debt a \<and> acct_ok (pr x) \<and> keep (pr x) = keep a"
  shows "settlor keep pr m a"
  unfolding settlor_def
proof (intro allI impI)
  fix s x s'
  assume m: "m s = Inr (x, s')" and ok: "host_ok (sy_pool s)" "acct_ok a"
  have "settles keep s a s (pr x)" using assms(2) [OF m ok(2)] ok by (simp add: settles_def)
  then show "settles keep s a s' (pr x)" using settles_frame(2) sl.framedD [OF assms(1) m] by blast
qed

lemma settlor_ret: "pr x = a \<Longrightarrow> settlor keep pr (fret x) a"
  by (rule settlor_frame) (auto simp: fret_Inr intro!: frame_rules)

definition supply_matches :: "account \<Rightarrow> pool_action list \<Rightarrow> bool" where
  "supply_matches a acts \<longleftrightarrow> (\<forall>act \<in> set acts. scaled_amount (pa_position act) = held_supply a (pa_hub_asset act))"

definition debt_matches :: "account \<Rightarrow> pool_action list \<Rightarrow> bool" where
  "debt_matches a acts \<longleftrightarrow> (\<forall>act \<in> set acts. scaled_amount (pa_position act) = held_debt a (pa_hub_asset act))"

lemma deposit_settles: "settlor held_debt (\<lambda>a. a) (process_deposit ext c agg a) a"
proof -
  have entries: "supply_matches a (map pse_action es)"
    if "ffold (deposit_entry ext c p a) agg [] s = Inr (es, s')" for p es s s'
    by (rule ffold_invariant [OF that, where P = "\<lambda>es _. supply_matches a (map pse_action es)"])
      (auto simp: supply_matches_def deposit_entry_def fbind_Inr fret_Inr make_pool_action_def
        scaled_of_account_position_def held_get_or_create)
  have batch: "settlor held_debt (\<lambda>a. a) (fbind (pool_call (\<lambda>h. pool_supply h es)) (\<lambda>rs. for_each_leg es rs (merge_supply_leg ext) a)) a"
    if "supply_matches a (map pse_action es)" for es
    using that by (auto simp: settlor_def fbind_Inr pool_call_Inr pool_supply_def only_owner_Inr supply_matches_def
      intro!: deposit_batch.settle_batch)
  show ?thesis
    unfolding process_deposit_def by (intro batch settlor_after) (auto intro!: frame_rules dest: entries)
qed

lemma borrow_settles: "settlor held_supply (\<lambda>a. a) (settle_borrow ext r agg a) a"
  unfolding settle_borrow_def Let_def
  by (rule settlor_after)
    (auto simp: settlor_def fbind_Inr pool_call_Inr borrow_def only_owner_Inr make_pool_action_def held_get_or_create
      intro!: frame_rules borrow_batch.settle_batch)

lemma withdraw_batch_settles:
  assumes "supply_matches a (map pwe_action es)"
  shows "settlor held_debt snd (apply_withdraw_batch ext r kind es a) a"
  unfolding apply_withdraw_batch_def
  by (rule settlor_after)
    (use assms in \<open>auto simp: settlor_def fbind_Inr fret_Inr pool_call_Inr withdraw_def only_owner_Inr supply_matches_def
      intro!: frame_rules withdraw_batch.settle_batch\<close>)

lemma repay_batch_settles:
  assumes "debt_matches a acts"
  shows "settlor held_supply snd (apply_repay_batch ext r acts a) a"
  unfolding apply_repay_batch_def
  by (rule settlor_after)
    (use assms in \<open>auto simp: settlor_def fbind_Inr fret_Inr pool_call_Inr repay_def only_owner_Inr debt_matches_def
      intro!: frame_rules repay_batch.settle_batch\<close>)

lemma withdraw_settles: "settlor held_debt snd (settle_withdraw ext r agg a) a"
proof -
  have entries: "supply_matches a (map pwe_action es)" if "ffold (withdraw_entry a) agg [] s = Inr (es, s')" for es s s'
    by (rule ffold_invariant [OF that, where P = "\<lambda>es _. supply_matches a (map pwe_action es)"])
      (auto simp: supply_matches_def withdraw_entry_def Let_def fbind_Inr fret_Inr flift_Inr make_pool_action_def
        scaled_of_account_position_def held_get_or_create)
  have batch: "settlor held_debt snd (fbind (apply_withdraw_batch ext r Withdraw_Normal es a) (\<lambda>(results, a').
      fbind (for_each_leg es results (\<lambda>(entry, result) paid. fret (paid @ [(pa_hub_asset (pwe_action entry), ppm_actual_amount result)])) [])
        (\<lambda>paid. fret (paid, a')))) a" if "supply_matches a (map pwe_action es)" for es
    by (rule settlor_bind [OF withdraw_batch_settles [OF that]])
      (auto split: prod.split intro!: settlor_after settlor_ret frame_rules)
  show ?thesis
    unfolding settle_withdraw_def by (intro batch settlor_after) (auto intro!: frame_rules dest: entries)
qed

lemma repay_settles: "settlor held_supply (\<lambda>a. a) (settle_repay ext payer agg a) a"
proof -
  have entries: "debt_matches a acts" if "ffold (repay_action ext payer p a) agg [] s = Inr (acts, s')" for p acts s s'
    by (rule ffold_invariant [OF that, where P = "\<lambda>acts _. debt_matches a acts"])
      (auto simp: debt_matches_def repay_action_def fbind_Inr fret_Inr flift_Inr make_pool_action_def held_get_or_create)
  have batch: "settlor held_supply (\<lambda>a. a) (fbind (apply_repay_batch ext payer acts a) (\<lambda>(_, a'). fret a')) a" if "debt_matches a acts" for acts
    by (rule settlor_bind [OF repay_batch_settles [OF that]]) (auto split: prod.split intro!: settlor_ret)
  show ?thesis
    unfolding settle_repay_def by (intro batch settlor_after) (auto intro!: frame_rules dest: entries)
qed

lemma held_rewrite:
  "smap_get (acc_supply_positions a) k = Some raw \<Longrightarrow> (held_supply a)(k := apr_scaled_amount raw) = held_supply a"
  by (auto simp: held_supply_def shares_in_def fun_eq_iff)

lemma restamp_step_held:
  assumes "restamp_step keys k (changed, a) t = Inr ((changed', a'), t')" and "acct_ok a"
  shows "held_supply a' = held_supply a \<and> held_debt a' = held_debt a \<and> acct_ok a'"
proof -
  from assms(1) obtain listed t1 where r: "(case listed of
        None \<Rightarrow> fret (changed, a)
      | Some cfg \<Rightarrow> (case smap_get (acc_supply_positions a) k of
             None \<Rightarrow> fret (changed, a)
           | Some raw \<Rightarrow>
               (let config = asset_config_of cfg; position = account_position_of_raw raw in
                if ap_loan_to_value position = ac_loan_to_value config then fret (changed, a)
                else
                  (let a' = update_or_remove_supply_position a k
                              (position\<lparr>ap_loan_to_value := ac_loan_to_value config\<rparr>) in
                   fbind (if \<not> changed
                          then fetch_market_indexes (portfolio_hub_keys keys (smap_keys (acc_borrow_positions a')))
                          else fret ()) (\<lambda>_.
                   fbind (cached_market_index k) (\<lambda>_.
                   fret (True, a'))))))) t1 = Inr ((changed', a'), t')"
    by (auto simp: restamp_step_def fbind_Inr)
  show ?thesis
  proof (cases listed)
    case (Some cfg)
    then show ?thesis
      using r assms(2) by (cases "smap_get (acc_supply_positions a) k")
        (auto simp: Let_def fbind_Inr fret_Inr held_update_supply held_rewrite split: if_splits)
  qed (use r assms(2) in \<open>auto simp: fret_Inr\<close>)
qed

lemma restamp_held:
  assumes "restamp_listed_supply_ltv a s = Inr ((changed, a'), s')" and "acct_ok a"
  shows "held_supply a' = held_supply a \<and> held_debt a' = held_debt a \<and> acct_ok a'"
proof -
  have "held_supply (snd (changed, a')) = held_supply a \<and> held_debt (snd (changed, a')) = held_debt a \<and> acct_ok (snd (changed, a'))"
  proof (rule ffold_invariant [OF assms(1) [unfolded restamp_listed_supply_ltv_def Let_def],
      where P = "\<lambda>acc _. held_supply (snd acc) = held_supply a \<and> held_debt (snd acc) = held_debt a \<and> acct_ok (snd acc)"])
    fix k acc t acc' t'
    assume P: "held_supply (snd acc) = held_supply a \<and> held_debt (snd acc) = held_debt a \<and> acct_ok (snd acc)"
      and step: "restamp_step (smap_keys (acc_supply_positions a)) k acc t = Inr (acc', t')"
    then show "held_supply (snd acc') = held_supply a \<and> held_debt (snd acc') = held_debt a \<and> acct_ok (snd acc')"
      using restamp_step_held [of _ k "fst acc" "snd acc" t "fst acc'" "snd acc'" t'] by simp
  qed (use assms(2) in simp)
  then show ?thesis by simp
qed

lemma solvency_settles:
  assumes "keep \<in> {held_supply, held_debt}"
  shows "settlor keep snd (enforce_post_pool_solvency ext a) a"
proof (rule settlor_frame)
  show "sl.framed (enforce_post_pool_solvency ext a)" by (rule frame_rules)
  fix s x s'
  assume "enforce_post_pool_solvency ext a s = Inr (x, s')" and "acct_ok a"
  then show "held_supply (snd x) = held_supply a \<and> held_debt (snd x) = held_debt a \<and> acct_ok (snd x) \<and> keep (snd x) = keep a"
    using assms by (auto simp: enforce_post_pool_solvency_def fbind_Inr fret_Inr split: prod.splits dest!: restamp_held)
qed

lemma liquidation_repayments_settle: "settlor held_supply snd (apply_liquidation_repayments ext liq repaid offered a) a"
proof -
  have entries: "debt_matches a acts"
    if "ffold (liquidation_repayment_leg ext liq p offered a) repaid (0, []) s = Inr ((usd, acts), s')" for p acts usd s s'
  proof -
    have "debt_matches a (snd (usd, acts))"
      by (rule ffold_invariant [OF that, where P = "\<lambda>acc _. debt_matches a (snd acc)"])
        (auto simp: debt_matches_def liquidation_repayment_leg_def fbind_Inr fret_Inr flift_Inr make_pool_action_def
          held_debt_def shares_in_def expect_invariant_def unwrap_Inr_iff split: prod.splits)
    then show ?thesis by simp
  qed
  have batch: "settlor held_supply snd (fbind (apply_repay_batch ext liq acts a) (\<lambda>(_, a'). fret (usd, a'))) a" if "debt_matches a acts" for acts usd
    by (rule settlor_bind [OF repay_batch_settles [OF that]]) (auto split: prod.split intro!: settlor_ret)
  show ?thesis
    unfolding apply_liquidation_repayments_def
    by (rule settlor_after, rule frame_rules, rule settlor_after) (auto split: prod.splits intro!: frame_rules batch dest: entries)
qed

lemma seizures_settle: "settlor held_debt (\<lambda>a. a) (apply_liquidation_seizures ext liq seized a) a"
proof -
  have entries: "supply_matches a (map pwe_action es)" if "ffold (seizure_withdraw_entry a) seized [] s = Inr (es, s')" for es s s'
    by (rule ffold_invariant [OF that, where P = "\<lambda>es _. supply_matches a (map pwe_action es)"])
      (auto simp: supply_matches_def seizure_withdraw_entry_def fbind_Inr fret_Inr flift_Inr make_pool_action_def
        scaled_of_account_position_def held_supply_def shares_in_def expect_invariant_def unwrap_Inr_iff)
  have batch: "settlor held_debt (\<lambda>a. a) (fbind (apply_withdraw_batch ext liq Withdraw_Liquidation es a) (\<lambda>(_, a'). fret a')) a"
    if "supply_matches a (map pwe_action es)" for es
    by (rule settlor_bind [OF withdraw_batch_settles [OF that]]) (auto split: prod.split intro!: settlor_ret)
  show ?thesis
    unfolding apply_liquidation_seizures_def by (intro batch settlor_after) (auto intro!: frame_rules dest: entries)
qed

section \<open>Share credit\<close>

lemma credit_held:
  assumes "credit_supply_shares k n r s = Inr (r', s')" and "acct_ok r"
  shows "held_supply r' j = held_supply r j + (if j = k then n else 0) \<and> held_debt r' = held_debt r \<and> acct_ok r'"
proof (cases "n = 0")
  case False
  with assms(1) obtain p s1 where p: "(case smap_get (acc_supply_positions r) k of
       Some raw \<Rightarrow> fret (account_position_of_raw raw)
     | None \<Rightarrow> fbind (require_spoke_asset (acc_spoke_id r) k) (\<lambda>config. fret (get_or_create_supply_position r k config))) s = Inr (p, s1)"
    and r': "r' = update_or_remove_supply_position r k (p\<lparr>ap_scaled_amount := ap_scaled_amount p + n\<rparr>)"
    by (auto simp: credit_supply_shares_def fbind_Inr fret_Inr flift_Inr ray_Inr)
  have "ap_scaled_amount p = held_supply r k"
    using p by (auto simp: fbind_Inr fret_Inr held_get_or_create held_supply_def shares_in_def split: option.splits)
  then show ?thesis using assms(2) by (simp add: r' held_update_supply)
qed (use assms in \<open>auto simp: credit_supply_shares_def fret_Inr\<close>)

lemma seized_by_simps [simp]:
  "seized_by side [] k = 0"
  "seized_by side (es @ [e]) k = seized_by side es k + (if pze_side e = side \<and> pze_hub_asset e = k then scaled_amount (pze_position e) else 0)"
  by (simp_all add: seized_by_def)

definition credit_kept :: "(hub_asset_key \<Rightarrow> int) \<Rightarrow> account \<Rightarrow> account \<Rightarrow> account \<times> account \<times> pool_seize_entry list \<Rightarrow> bool" where
  "credit_kept total0 a0 r0 acc \<longleftrightarrow> (case acc of (a, r, fees) \<Rightarrow>
     acct_ok a \<and> acct_ok r \<and> held_debt a = held_debt a0 \<and> held_debt r = held_debt r0 \<and>
     (\<forall>k. held_supply a k + held_supply r k + seized_by Deposit fees k = total0 k \<and> seized_by Borrow fees k = 0))"

lemma share_credit_leg_kept:
  assumes "share_credit_leg e acc s = Inr (acc', s')" and "credit_kept total0 a0 r0 acc"
  shows "credit_kept total0 a0 r0 acc'"
proof -
  obtain a r fees where acc: "acc = (a, r, fees)" by (cases acc)
  let ?k = "se_hub_asset e" and ?n = "se_scaled_amount e"
  define a1 where "a1 p = update_or_remove_supply_position a ?k (p\<lparr>ap_scaled_amount := ap_scaled_amount p - ?n\<rparr>)" for p
  define entry where "entry fee = \<lparr>pze_hub_asset = ?k, pze_side = Deposit, pze_position = \<lparr>scaled_amount = fee\<rparr>\<rparr>" for fee
  from assms(1) obtain fee liq p r' s1 s2 where
    d: "0 \<le> liq" "liq \<le> ?n" "fee = ?n - liq" and p: "get_supply_position_or_panic a ?k = Inr p"
    and cr: "credit_supply_shares ?k liq r s1 = Inr (r', s2)"
    and fin: "(if 0 < fee then fbind (apply_spoke_exit (acc_spoke_id (a1 p)) Supply_Side ?k fee) (\<lambda>_. fret (a1 p, r', fees @ [entry fee]))
      else fret (a1 p, r', fees)) s2 = Inr (acc', s')"
    unfolding a1_def entry_def
    by (auto simp: acc share_credit_leg_def Let_def fbind_Inr flift_Inr fassert_Inr ray_Inr simp del: if_split)
  from fin have acc': "acc' = (a1 p, r', if 0 < fee then fees @ [entry fee] else fees)"
    by (auto simp: fbind_Inr fret_Inr split: if_splits)
  have ok: "acct_ok a" "acct_ok r" using assms(2) by (simp_all add: acc credit_kept_def)
  note C = credit_held [OF cr ok(2)] and U = held_update_supply [OF ok(1)]
  show ?thesis
    using assms(2) C d held_get_or_create(3) [OF p]
    by (auto simp: acc acc' a1_def entry_def credit_kept_def U algebra_simps)
qed

lemma share_credit_books:
  assumes "apply_liquidation_share_credit seized a r s = Inr ((a', r'), s')" and "host_ok (sy_pool s)"
    and "acct_ok a" and "acct_ok r"
  shows "acct_ok a' \<and> acct_ok r' \<and> held_debt a' = held_debt a \<and> held_debt r' = held_debt r \<and> host_ok (sy_pool s') \<and>
    cs_supply_positions (sy_store s') = cs_supply_positions (sy_store s) \<and>
    cs_borrow_positions (sy_store s') = cs_borrow_positions (sy_store s) \<and>
    (\<forall>k. user_shares (sy_pool s') k - user_shares (sy_pool s) k =
      (held_supply a' k - held_supply a k) + (held_supply r' k - held_supply r k)) \<and>
    debt_shares (sy_pool s') = debt_shares (sy_pool s)"
proof -
  from assms(1) obtain fees s1 where
    f: "ffold share_credit_leg seized (a, r, []) s = Inr ((a', r', fees), s1)"
    and c: "(if fees \<noteq> [] then pool_seize_positions_call fees else fret ()) s1 = Inr ((), s')"
    by (auto simp: apply_liquidation_share_credit_def fbind_Inr fret_Inr)
  have K: "credit_kept (\<lambda>k. held_supply a k + held_supply r k) a r (a', r', fees)"
  proof (rule ffold_invariant [OF f, where P = "\<lambda>acc _. credit_kept (\<lambda>k. held_supply a k + held_supply r k) a r acc"])
    show "credit_kept (\<lambda>k. held_supply a k + held_supply r k) a r (a, r, [])"
      using assms(3,4) by (simp add: credit_kept_def)
  qed (rule share_credit_leg_kept)
  have F: "same_ledger s s1"
    by (rule sl.framedD [of "ffold share_credit_leg seized (a, r, [])", OF _ f]) (intro frame_rules)
  have "host_ok (sy_pool s') \<and> (\<forall>k. user_shares (sy_pool s') k = user_shares (sy_pool s1) k - seized_by Deposit fees k) \<and>
    (\<forall>k. debt_shares (sy_pool s') k = debt_shares (sy_pool s1) k - seized_by Borrow fees k) \<and>
    cs_supply_positions (sy_store s') = cs_supply_positions (sy_store s1) \<and>
    cs_borrow_positions (sy_store s') = cs_borrow_positions (sy_store s1)"
  proof (cases "fees = []")
    case True
    with c F assms(2) show ?thesis by (auto simp: fret_Inr same_ledger_host_ok)
  next
    case False
    with c obtain t x h where t: "cached_pool_address s1 = Inr (x, t)"
      and z: "seize_positions ((sy_pool t)\<lparr>h_auth := (\<lambda>a. a = sy_self t)\<rparr>) fees = Inr h" and s': "s' = t\<lparr>sy_pool := h\<rparr>"
      by (auto simp: pool_seize_positions_call_def fbind_Inr pool_call_Inr rbind_Inr_iff)
    have T: "same_ledger s1 t" by (rule sl.framedD [of cached_pool_address, OF _ t]) (rule frame_rules)
    have ok: "host_ok ((sy_pool t)\<lparr>h_auth := (\<lambda>a. a = sy_self t)\<rparr>)" using T F assms(2) by (simp add: same_ledger_host_ok)
    have "user_shares (sy_pool t) = user_shares (sy_pool s1)" "debt_shares (sy_pool t) = debt_shares (sy_pool s1)"
      using shares_of_state T by (auto simp: same_ledger_def)
    then show ?thesis using seize_positions_books [OF z ok] T by (simp add: s' same_ledger_def)
  qed
  moreover have "user_shares (sy_pool s1) = user_shares (sy_pool s)" "debt_shares (sy_pool s1) = debt_shares (sy_pool s)"
    using shares_of_state F by (auto simp: same_ledger_def)
  ultimately show ?thesis
    using K F by (auto simp: credit_kept_def same_ledger_def fun_eq_iff) (smt (verit))+
qed

end
