(* ===== verification/Controller_Conservation.thy ===== *)
theory Controller_Conservation
  imports Controller_Ledger
begin

text \<open>
  Every flow of the controller leaves the ledger balanced: what persisting, removing and seizing an account
  do to it, and the flows put together.
\<close>

section \<open>Writing accounts back\<close>

lemma off_set_supply:
  assumes "ledger_off s du dd" and "smap_ok m"
  shows "ledger_off (s\<lparr>sy_store := set_supply_positions i m (sy_store s)\<rparr>)
    (\<lambda>k. du k - (shares_in apr_scaled_amount m k - stored_supply s i k)) dd"
  using assms by (simp add: ledger_off_def set_supply_positions_def table_write claimed_supply_def claimed_debt_def column_write)

lemma off_set_debt:
  assumes "ledger_off s du dd" and "smap_ok m"
  shows "ledger_off (s\<lparr>sy_store := set_debt_positions i m (sy_store s)\<rparr>)
    du (\<lambda>k. dd k - (shares_in scaled_amount m k - stored_debt s i k))"
  using assms by (simp add: ledger_off_def set_debt_positions_def table_write claimed_supply_def claimed_debt_def column_write)

lemma remove_is_write:
  "cs_supply_positions (remove_account_entry i st) = write_side_map i [] (cs_supply_positions st)"
  "cs_borrow_positions (remove_account_entry i st) = write_side_map i [] (cs_borrow_positions st)"
  by (simp_all add: remove_account_entry_def write_side_map_def)

lemma off_remove:
  assumes "ledger_off s du dd"
  shows "ledger_off (s\<lparr>sy_store := remove_account_entry i (sy_store s)\<rparr>)
    (\<lambda>k. du k + stored_supply s i k) (\<lambda>k. dd k + stored_debt s i k)"
  using assms by (simp add: ledger_off_def remove_is_write table_write claimed_supply_def claimed_debt_def column_write
    shares_in_def)

lemma remove_account_off:
  assumes "remove_account_and_burn_nft ext i s = Inr (u, s')" and "ledger_off s du dd"
  shows "ledger_off s' (\<lambda>k. du k + stored_supply s i k) (\<lambda>k. dd k + stored_debt s i k)"
proof -
  let ?s = "s\<lparr>sy_store := remove_account_entry i (sy_store s)\<rparr>"
  from assms(1) obtain nft where "nft_burn_call ext nft i ?s = Inr (u, s')"
    by (auto simp: remove_account_and_burn_nft_def upd_store_def res_iff read_store_res_def rbind_Inr_iff)
  then have "same_ledger ?s s'" by (rule sl.framedD [rotated]) (rule frame_rules)
  then show ?thesis using off_remove [OF assms(2)] by (simp add: same_ledger_off)
qed

lemma cleanup_off:
  assumes "cleanup_account_if_empty ext a i s = Inr (u, s')" and "ledger_off s du dd"
    and "stored_supply s i = held_supply a" and "stored_debt s i = held_debt a"
  shows "ledger_off s' du dd"
proof (cases "account_is_empty a")
  case True
  then have "held_supply a = (\<lambda>_. 0)" "held_debt a = (\<lambda>_. 0)"
    by (simp_all add: account_is_empty_def held_supply_def held_debt_def shares_in_def fun_eq_iff)
  then show ?thesis using True assms remove_account_off [of ext i s u s' du dd] by (simp add: cleanup_account_if_empty_def)
qed (use assms in \<open>simp add: cleanup_account_if_empty_def fret_Inr\<close>)

lemma finalize_off:
  assumes "finalize_position_flow ext i a sides False s = Inr (u, s')" and "ledger_off s du dd" and "acct_ok a"
  shows "ledger_off s'
      (\<lambda>k. du k - (if sides = Debt_Only then 0 else held_supply a k - stored_supply s i k))
      (\<lambda>k. dd k - (if sides = Supply_Only then 0 else held_debt a k - stored_debt s i k))"
    and "stored_supply s' j = (if j = i \<and> sides \<noteq> Debt_Only then held_supply a else stored_supply s j)"
    and "stored_debt s' j = (if j = i \<and> sides \<noteq> Supply_Only then held_debt a else stored_debt s j)"
proof -
  from assms(1) obtain t where t: "persist_spoke_usage s = Inr ((), t)"
    and p: "persist_account_positions ext i a sides False t = Inr (u, s')"
    by (auto simp: finalize_position_flow_def fbind_Inr)
  have T: "same_ledger s t" by (rule sl.framedD [of persist_spoke_usage, OF _ t]) (rule frame_rules)
  have rows: "stored_supply t = stored_supply s" "stored_debt t = stored_debt s" using T by (simp_all add: same_ledger_def)
  have off: "ledger_off t du dd" using same_ledger_off [OF T] assms(2) by simp
  have ok: "smap_ok (acc_supply_positions a)" "smap_ok (acc_borrow_positions a)" using assms(3) by (simp_all add: acct_ok_def)
  note S = off_set_supply [OF off ok(1), of i] and D = off_set_debt [OF off ok(2), of i]
  have SD: "ledger_off (t\<lparr>sy_store := set_debt_positions i (acc_borrow_positions a) (set_supply_positions i (acc_supply_positions a) (sy_store t))\<rparr>)
    (\<lambda>k. du k - (held_supply a k - stored_supply t i k)) (\<lambda>k. dd k - (held_debt a k - stored_debt t i k))"
    using off_set_debt [OF S ok(2), of i] by (simp add: held_supply_def held_debt_def set_supply_positions_def)
  show "ledger_off s'
      (\<lambda>k. du k - (if sides = Debt_Only then 0 else held_supply a k - stored_supply s i k))
      (\<lambda>k. dd k - (if sides = Supply_Only then 0 else held_debt a k - stored_debt s i k))"
    using p S D SD by (cases sides) (auto simp: persist_account_positions_def upd_store_def res_iff held_supply_def held_debt_def rows)
  show "stored_supply s' j = (if j = i \<and> sides \<noteq> Debt_Only then held_supply a else stored_supply s j)"
    and "stored_debt s' j = (if j = i \<and> sides \<noteq> Supply_Only then held_debt a else stored_debt s j)"
    using p rows by (cases sides; auto simp: persist_account_positions_def upd_store_def res_iff held_supply_def held_debt_def
      set_supply_positions_def set_debt_positions_def row_write)+
qed

section \<open>Loading accounts\<close>

definition loaded :: "'w system \<Rightarrow> nat \<Rightarrow> account \<Rightarrow> bool" where
  "loaded s i a \<longleftrightarrow> acct_ok a \<and> held_supply a = stored_supply s i \<and> held_debt a = stored_debt s i"

lemma loaded_frame: "same_ledger s s' \<Longrightarrow> loaded s' i a = loaded s i a"
  by (simp add: same_ledger_def loaded_def)

lemma get_account_loaded:
  assumes "get_account ext i s = Inr (a, s')" and "ledger_off s du dd"
  shows "loaded s i a" and "s' = s"
proof -
  from assms(2) have T: "table_ok (cs_supply_positions (sy_store s))" "table_ok (cs_borrow_positions (sy_store s))"
    by (simp_all add: ledger_off_def)
  from assms(1) show "s' = s" and "loaded s i a"
    using table_row [OF T(1), where i = i] table_row [OF T(2), where i = i]
    by (auto simp: get_account_def rbind_Inr_iff unwrap_Inr_iff try_get_account_def account_from_parts_def loaded_def acct_ok_def
      held_supply_def held_debt_def get_supply_positions_def get_debt_positions_def split: option.splits)
qed

definition mint_fresh :: "'w ctl_externals \<Rightarrow> 'w system \<Rightarrow> bool" where
  "mint_fresh ext s \<longleftrightarrow> (\<forall>nft owner i w. ce_nft_mint ext nft owner (sy_world s) = Inr (i, w) \<longrightarrow>
     cs_supply_positions (sy_store s) i = None \<and> cs_borrow_positions (sy_store s) i = None)"

lemma create_account_fresh:
  assumes "create_account_with ext owner sp mode adm s = Inr ((i, a), s')" and "mint_fresh ext s"
  shows "cs_supply_positions (sy_store s) i = None" and "cs_borrow_positions (sy_store s) i = None"
    and "acc_supply_positions a = []" and "acc_borrow_positions a = []"
proof -
  from assms(1) obtain t nft w where t: "(case adm of ActiveOnly \<Rightarrow> active_spoke sp | AllowDeprecated \<Rightarrow> ctx_spoke_config sp) s = Inr t"
    and m: "ce_nft_mint ext nft owner (sy_world (snd t)) = Inr (i, w)"
    and a: "acc_supply_positions a = []" "acc_borrow_positions a = []"
    by (auto simp: create_account_with_def res_iff read_store_res_def world_call_def rbind_Inr_iff)
  have "only_caches s (snd t)"
    by (rule ro.framedD [of "case adm of ActiveOnly \<Rightarrow> active_spoke sp | AllowDeprecated \<Rightarrow> ctx_spoke_config sp" s "fst t"])
      (use t in \<open>auto split: spoke_admission.split intro!: frame_rules\<close>)
  then have "sy_world (snd t) = sy_world s" by (simp add: only_cachesD)
  then show "cs_supply_positions (sy_store s) i = None" "cs_borrow_positions (sy_store s) i = None"
    using m assms(2) unfolding mint_fresh_def by metis+
  show "acc_supply_positions a = []" "acc_borrow_positions a = []" by fact+
qed

lemma create_account_loaded:
  assumes "create_account_with ext owner sp mode adm s = Inr ((i, a), s')" and "mint_fresh ext s"
  shows "loaded s i a"
  using create_account_fresh [OF assms]
  by (auto simp: loaded_def acct_ok_def held_supply_def held_debt_def shares_in_def row_def fun_eq_iff)

lemma load_or_create_loaded:
  assumes "load_or_create_account ext c j sp mode guard s = Inr ((i, a), s')" and "mint_fresh ext s" and "ledger_off s du dd"
  shows "loaded s i a"
proof (cases "j = 0")
  case True
  then show ?thesis using assms create_account_loaded by (auto simp: load_or_create_account_def create_account_def)
next
  case False
  with assms(1) obtain t where "get_account ext j s = Inr (a, t)" "i = j"
    by (auto simp: load_or_create_account_def fbind_Inr fret_Inr)
  then show ?thesis using get_account_loaded assms(3) by metis
qed

section \<open>Position flows\<close>

lemma ledger_ok_frame: "same_ledger s s' \<Longrightarrow> ledger_ok s' = ledger_ok s"
  by (simp add: ledger_ok_def same_ledger_off)

lemma ledger_ok_host: "ledger_ok s \<Longrightarrow> host_ok (sy_pool s)"
  by (simp add: ledger_ok_def ledger_off_def)

lemma flow_closes:
  assumes "ledger_ok s" and "settles keep s a s1 a1"
    and fin: "finalize_position_flow ext i a1 sides False s1 = Inr (u, s')"
    and "if sides = Debt_Only then held_supply a1 = held_supply a else held_supply a = stored_supply s i"
    and "if sides = Supply_Only then held_debt a1 = held_debt a else held_debt a = stored_debt s i"
  shows "ledger_ok s'"
proof -
  have off: "ledger_off s1 (\<lambda>k. held_supply a1 k - held_supply a k) (\<lambda>k. held_debt a1 k - held_debt a k)"
    using settles_off [OF assms(2) assms(1) [unfolded ledger_ok_def]] by simp
  have ok: "acct_ok a1" and rows: "stored_supply s1 i = stored_supply s i" "stored_debt s1 i = stored_debt s i"
    using assms(2) by (simp_all add: settles_def)
  show ?thesis
    using finalize_off(1) [OF fin off ok] assms(4,5) unfolding ledger_ok_def by (cases sides) (simp_all add: rows)
qed

lemma supply_ledger:
  assumes "process_supply ext c j sp assets s = Inr (r, s')" and "ledger_ok s" and "mint_fresh ext s"
  shows "ledger_ok s'"
proof -
  from assms(1) obtain agg t i a t1 t2 a1 t3 where
    t: "fbind (require_authorized_caller c) (\<lambda>_. fbind (flift (aggregate_positive_payments assets)) (\<lambda>_. context_new)) s = Inr ((), t)"
    and l: "load_or_create_account ext c j sp Normal Guard_Supply t = Inr ((i, a), t1)"
    and g: "require_third_party_existing_supply j i c a agg t1 = Inr ((), t2)"
    and d: "process_deposit ext c agg a t2 = Inr (a1, t3)"
    and f: "finalize_position_flow ext i a1 Supply_Only False t3 = Inr ((), s')"
    by (auto simp: process_supply_def fbind_Inr flift_Inr fret_Inr)
  have T: "only_caches s t"
    by (rule ro.framedD [of "fbind (require_authorized_caller c) (\<lambda>_. fbind (flift (aggregate_positive_payments assets)) (\<lambda>_. context_new))", OF _ t])
      (intro frame_rules)
  have ok: "ledger_ok t" "mint_fresh ext t"
    using only_cachesD [OF T] assms(2,3) by (simp_all add: ledger_ok_def ledger_off_def mint_fresh_def)
  have L: "loaded t i a" using load_or_create_loaded [OF l ok(2)] ok(1) by (simp add: ledger_ok_def)
  have "same_ledger t t1" using l by (rule sl.framedD [rotated]) (rule frame_rules)
  moreover have "same_ledger t1 t2" using g by (rule sl.framedD [rotated]) (rule frame_rules)
  ultimately have FF: "same_ledger t t2" by (rule sl.rel_trans)
  have ok2: "ledger_ok t2" and L2: "loaded t2 i a"
    using same_ledger_off [OF FF] loaded_frame [OF FF] ok(1) L by (simp_all add: ledger_ok_def)
  have S: "settles held_debt t2 a t3 a1"
    using settlorD [OF deposit_settles d] ok2 L2 by (simp add: ledger_ok_def ledger_off_def loaded_def)
  show ?thesis by (rule flow_closes [OF ok2 S f]) (use S L2 in \<open>simp_all add: settles_def loaded_def\<close>)
qed

text \<open>A flow that loads an account, and the state its settlement starts from.\<close>

lemma settles_ok: "settles keep s a s' a' \<Longrightarrow> host_ok (sy_pool s')" "settles keep s a s' a' \<Longrightarrow> acct_ok a'"
  by (simp_all add: settles_def)

lemma settlement_start:
  assumes "ledger_ok s" and "same_ledger s t" and "get_account ext i t = Inr (a, t)" and "same_ledger t t2"
  shows "ledger_ok t2" and "loaded t2 i a" and "host_ok (sy_pool t2)" and "acct_ok a"
proof -
  have t: "ledger_ok t" using ledger_ok_frame [OF assms(2)] assms(1) by simp
  show t2: "ledger_ok t2" using ledger_ok_frame [OF assms(4)] t by simp
  show "host_ok (sy_pool t2)" using ledger_ok_host [OF t2] .
  have l: "loaded t i a" using get_account_loaded(1) [OF assms(3) t [unfolded ledger_ok_def]] .
  show "loaded t2 i a" using loaded_frame [OF assms(4)] l by simp
  show "acct_ok a" using l by (simp add: loaded_def)
qed

lemma borrow_ledger:
  assumes "process_borrow ext c i borrows to_opt s = Inr (r, s')" and "ledger_ok s"
  shows "ledger_ok s'"
proof -
  let ?to = "case to_opt of Some t \<Rightarrow> t | None \<Rightarrow> c"
  let ?gates = "\<lambda>a agg. fbind (require_owner_or_delegate i c (acc_owner a)) (\<lambda>_. fbind context_new (\<lambda>_.
    fbind (require_external_recipient ?to) (\<lambda>_. validate_position_entry_gates a agg Borrow)))"
  from assms(1) obtain t a agg t2 a1 t3 restamped a2 t4 where
    t: "require_authorized_caller c s = Inr ((), t)" and g: "get_account ext i t = Inr (a, t)"
    and v: "?gates a agg t = Inr ((), t2)" and b: "settle_borrow ext ?to agg a t2 = Inr (a1, t3)"
    and e: "enforce_post_pool_solvency ext a1 t3 = Inr ((restamped, a2), t4)"
    and f: "finalize_position_flow ext i a2 (if restamped then Both_Sides else Debt_Only) False t4 = Inr (r, s')"
    by (auto simp: process_borrow_def fbind_Inr flift_Inr Let_def get_account_def rbind_Inr_iff)
  have F: "same_ledger s t" using t by (rule sl.framedD [rotated]) (rule frame_rules)
  have F2: "same_ledger t t2" using v by (rule sl.framedD [rotated]) (intro frame_rules)
  note S = settlement_start [OF assms(2) F g F2]
  have S1: "settles held_supply t2 a t3 a1" using settlorD [OF borrow_settles b S(3,4)] .
  have S2: "settles held_supply t3 a1 t4 a2"
    using settlorD [OF solvency_settles [where keep = held_supply] e settles_ok [OF S1]] by simp
  note ST = settles_trans [OF S1 S2]
  show ?thesis
    by (rule flow_closes [OF S(1) ST f]) (use ST S(2) in \<open>auto simp: settles_def loaded_def\<close>)
qed

lemma repay_ledger:
  assumes "process_repay ext c i pays s = Inr (r, s')" and "ledger_ok s"
  shows "ledger_ok s'"
proof -
  from assms(1) obtain t a agg t2 a1 t3 where
    t: "require_authorized_caller c s = Inr ((), t)" and g: "get_account_borrow_only ext i t = Inr (a, t)"
    and n: "context_new t = Inr ((), t2)" and b: "settle_repay ext c agg a t2 = Inr (a1, t3)"
    and f: "finalize_position_flow ext i a1 Debt_Only False t3 = Inr (r, s')"
    by (auto simp: process_repay_def fbind_Inr flift_Inr get_account_borrow_only_def rbind_Inr_iff)
  have F: "same_ledger s t" using t by (rule sl.framedD [rotated]) (rule frame_rules)
  have F2: "same_ledger t t2" using n by (rule sl.framedD [rotated]) (intro frame_rules)
  have ok: "ledger_ok t" "ledger_ok t2" using assms(2) ledger_ok_frame [OF F] ledger_ok_frame [OF F2] by simp_all
  then have T: "table_ok (cs_borrow_positions (sy_store t))" by (simp add: ledger_ok_def ledger_off_def)
  have a: "acct_ok a" "held_debt a = stored_debt t i"
    using g table_row [OF T, where i = i]
    by (auto simp: get_account_borrow_only_def rbind_Inr_iff account_from_parts_def acct_ok_def held_debt_def get_debt_positions_def)
  have S1: "settles held_supply t2 a t3 a1" using settlorD [OF repay_settles b ledger_ok_host [OF ok(2)] a(1)] .
  show ?thesis
    by (rule flow_closes [OF ok(2) S1 f]) (use S1 a(2) F2 in \<open>auto simp: settles_def same_ledger_def\<close>)
qed

lemma withdraw_ledger:
  assumes "process_withdraw ext c i ws to_opt s = Inr (r, s')" and "ledger_ok s"
  shows "ledger_ok s'"
proof -
  let ?to = "case to_opt of Some t \<Rightarrow> t | None \<Rightarrow> c"
  let ?gates = "\<lambda>a. fbind (require_owner_or_delegate i c (acc_owner a)) (\<lambda>_. fbind context_new (\<lambda>_. require_external_recipient ?to))"
  from assms(1) obtain t a agg t2 a1 t3 restamped a2 t4 t5 paid where
    t: "require_authorized_caller c s = Inr ((), t)" and g: "get_account ext i t = Inr (a, t)"
    and v: "?gates a t = Inr ((), t2)" and b: "settle_withdraw ext ?to agg a t2 = Inr ((paid, a1), t3)"
    and e: "enforce_post_pool_solvency ext a1 t3 = Inr ((restamped, a2), t4)"
    and f: "finalize_position_flow ext i a2 Supply_Only False t4 = Inr ((), t5)"
    and cl: "cleanup_account_if_empty ext a2 i t5 = Inr ((), s')"
    by (auto simp: process_withdraw_def finalize_position_flow_def persist_account_positions_def fbind_Inr fret_Inr flift_Inr
      Let_def get_account_def rbind_Inr_iff)
  have F: "same_ledger s t" using t by (rule sl.framedD [rotated]) (rule frame_rules)
  have F2: "same_ledger t t2" using v by (rule sl.framedD [rotated]) (intro frame_rules)
  note S = settlement_start [OF assms(2) F g F2]
  have S1: "settles held_debt t2 a t3 a1" using settlorD [OF withdraw_settles b S(3,4)] by simp
  have S2: "settles held_debt t3 a1 t4 a2"
    using settlorD [OF solvency_settles [where keep = held_debt] e settles_ok [OF S1]] by simp
  note ST = settles_trans [OF S1 S2]
  have ok5: "ledger_ok t5"
    by (rule flow_closes [OF S(1) ST f]) (use ST S(2) in \<open>auto simp: settles_def loaded_def\<close>)
  have off4: "ledger_off t4 (\<lambda>k. 0 + (held_supply a2 k - held_supply a k)) (\<lambda>k. 0 + (held_debt a2 k - held_debt a k))"
    using settles_off [OF ST S(1) [unfolded ledger_ok_def]] .
  have "stored_supply t5 i = held_supply a2" "stored_debt t5 i = held_debt a2"
    using finalize_off(2,3) [OF f off4, of i] ST S(2) by (auto simp: settles_def loaded_def)
  then show ?thesis using cleanup_off [OF cl ok5 [unfolded ledger_ok_def]] by (simp add: ledger_ok_def)
qed

section \<open>Bad debt\<close>

lemma ffold_collect:
  assumes "ffold (\<lambda>x es. fbind (g x) (\<lambda>_. fret (es @ [f x]))) xs es s = Inr (es', s')"
  shows "es' = es @ map f xs"
  using assms
proof (induction xs arbitrary: es s)
  case (Cons x xs)
  then obtain t where "ffold (\<lambda>x es. fbind (g x) (\<lambda>_. fret (es @ [f x]))) xs (es @ [f x]) t = Inr (es', s')"
    by (auto simp: fbind_Inr fret_Inr)
  from Cons.IH [OF this] show ?case by simp
qed (simp add: fret_Inr)

lemma sum_of_key:
  assumes "smap_ok m"
  shows "(\<Sum>e \<leftarrow> filter (\<lambda>e. fst e = k) m. v (snd e)) = shares_in v m k"
  using assms
proof (induction m)
  case (Cons e m)
  have "filter (\<lambda>x. fst x = fst e) m = []" using Cons.prems by (auto simp: filter_empty_conv)
  then show ?case using Cons by (cases e) (auto simp: shares_in_def)
qed (simp add: shares_in_def)

lemma cleanup_entries:
  assumes "acct_ok a"
  defines "entries \<equiv> map (\<lambda>(k, p). \<lparr>pze_hub_asset = k, pze_side = Deposit, pze_position = scaled_of_account_position p\<rparr>)
      (iter_typed_positions (acc_supply_positions a)) @
    map (\<lambda>(k, p). \<lparr>pze_hub_asset = k, pze_side = Borrow, pze_position = p\<rparr>) (acc_borrow_positions a)"
  shows "seized_by Deposit entries k = held_supply a k" and "seized_by Borrow entries k = held_debt a k"
  using assms(1) sum_of_key [of "acc_supply_positions a" apr_scaled_amount k] sum_of_key [of "acc_borrow_positions a" scaled_amount k]
  by (simp_all add: entries_def seized_by_def acct_ok_def held_supply_def held_debt_def iter_typed_positions_def filter_map comp_def
    case_prod_beta scaled_of_account_position_def)

lemma bad_debt_off:
  assumes "execute_bad_debt_cleanup ext i a s = Inr (u, s')" and "ledger_off s du dd" and "acct_ok a"
    and "stored_supply s i = held_supply a" and "stored_debt s i = held_debt a"
  shows "ledger_off s' du dd"
proof -
  let ?es = "map (\<lambda>(k, p). \<lparr>pze_hub_asset = k, pze_side = Deposit, pze_position = scaled_of_account_position p\<rparr>)
      (iter_typed_positions (acc_supply_positions a))"
  let ?f = "\<lambda>(k, p) es. fbind (apply_spoke_exit (acc_spoke_id a) Supply_Side k (ap_scaled_amount p)) (\<lambda>_.
    fret (es @ [\<lparr>pze_hub_asset = k, pze_side = Deposit, pze_position = scaled_of_account_position p\<rparr>]))"
  let ?g = "\<lambda>(k, p) es. fbind (apply_spoke_exit (acc_spoke_id a) Borrow_Side k (scaled_amount p)) (\<lambda>_.
    fret (es @ [\<lparr>pze_hub_asset = k, pze_side = Borrow, pze_position = p\<rparr>]))"
  from assms(1) obtain es t1 es' t2 t3 t4 where
    f: "ffold ?f (iter_typed_positions (acc_supply_positions a)) [] s = Inr (es, t1)"
    and g: "ffold ?g (acc_borrow_positions a) es t1 = Inr (es', t2)"
    and z: "pool_seize_positions_call es' t2 = Inr ((), t3)" and p: "persist_spoke_usage t3 = Inr ((), t4)"
    and r: "remove_account_and_burn_nft ext i t4 = Inr (u, s')"
    by (auto simp: execute_bad_debt_cleanup_def fbind_Inr)
  have f': "ffold (\<lambda>x es. fbind (apply_spoke_exit (acc_spoke_id a) Supply_Side (fst x) (ap_scaled_amount (snd x))) (\<lambda>_.
      fret (es @ [\<lparr>pze_hub_asset = fst x, pze_side = Deposit, pze_position = scaled_of_account_position (snd x)\<rparr>])))
      (iter_typed_positions (acc_supply_positions a)) [] s = Inr (es, t1)"
    using f by (simp add: case_prod_beta')
  have g': "ffold (\<lambda>x es. fbind (apply_spoke_exit (acc_spoke_id a) Borrow_Side (fst x) (scaled_amount (snd x))) (\<lambda>_.
      fret (es @ [\<lparr>pze_hub_asset = fst x, pze_side = Borrow, pze_position = snd x\<rparr>]))) (acc_borrow_positions a) es t1 = Inr (es', t2)"
    using g by (simp add: case_prod_beta')
  have es': "es' = ?es @ map (\<lambda>(k, p). \<lparr>pze_hub_asset = k, pze_side = Borrow, pze_position = p\<rparr>) (acc_borrow_positions a)"
    using ffold_collect [OF f'] ffold_collect [OF g'] by (simp add: case_prod_beta)
  have "same_ledger s t1" using f by (rule sl.framedD [rotated]) (auto split: prod.split intro!: frame_rules)
  moreover have "same_ledger t1 t2" using g by (rule sl.framedD [rotated]) (auto split: prod.split intro!: frame_rules)
  ultimately have F: "same_ledger s t2" by (rule sl.rel_trans)
  from z obtain t x h where c: "cached_pool_address t2 = Inr (x, t)"
    and sp: "seize_positions ((sy_pool t)\<lparr>h_auth := (\<lambda>a. a = sy_self t)\<rparr>) es' = Inr h" and t3: "t3 = t\<lparr>sy_pool := h\<rparr>"
    by (auto simp: pool_seize_positions_call_def fbind_Inr pool_call_Inr rbind_Inr_iff)
  have "same_ledger t2 t" using c by (rule sl.framedD [rotated]) (rule frame_rules)
  with F have T: "same_ledger s t" by (rule sl.rel_trans)
  have off: "ledger_off t du dd" using same_ledger_off [OF T] assms(2) by simp
  then have ok: "host_ok ((sy_pool t)\<lparr>h_auth := (\<lambda>a. a = sy_self t)\<rparr>)" by (simp add: ledger_off_def)
  have off3: "ledger_off t3 (\<lambda>k. du k - held_supply a k) (\<lambda>k. dd k - held_debt a k)"
    using off seize_positions_books [OF sp ok] cleanup_entries [OF assms(3)] by (simp add: ledger_off_def t3 es')
  have P: "same_ledger t3 t4" using p by (rule sl.framedD [rotated]) (rule frame_rules)
  have off4: "ledger_off t4 (\<lambda>k. du k - held_supply a k) (\<lambda>k. dd k - held_debt a k)"
    using same_ledger_off [OF P] off3 by simp
  have "stored_supply t4 i = held_supply a" "stored_debt t4 i = held_debt a"
    using assms(4,5) P T by (simp_all add: same_ledger_def t3)
  then show ?thesis using remove_account_off [OF r off4] by simp
qed

lemma socialize_ledger:
  assumes "socialize_bad_debt ext i gate s = Inr (u, s')" and "ledger_ok s"
  shows "ledger_ok s'"
proof -
  from assms(1) obtain t a totals t2 where n: "context_new s = Inr ((), t)" and g: "get_account ext i t = Inr (a, t)"
    and v: "calculate_account_risk_totals ext (acc_supply_positions a) (acc_borrow_positions a) t = Inr (totals, t2)"
    and b: "execute_bad_debt_cleanup ext i a t2 = Inr (u, s')"
    by (auto simp: socialize_bad_debt_def Let_def fbind_Inr fassert_Inr get_account_def rbind_Inr_iff)
  have F: "same_ledger s t" using n by (rule sl.framedD [rotated]) (rule frame_rules)
  have F2: "same_ledger t t2" using v by (rule sl.framedD [rotated]) (rule frame_rules)
  note S = settlement_start [OF assms(2) F g F2]
  show ?thesis using bad_debt_off [OF b S(1) [unfolded ledger_ok_def] S(4)] S(2) by (simp add: loaded_def ledger_ok_def)
qed

section \<open>Liquidation\<close>

lemma after_liquidation_ledger:
  assumes "check_bad_debt_after_liquidation ext i a totals s = Inr (u, s')" and "ledger_ok s" and "loaded s i a"
  shows "ledger_ok s'"
  using assms cleanup_off [of ext a i s u s'] bad_debt_off [of ext i a s u s']
  by (auto simp: check_bad_debt_after_liquidation_def ledger_ok_def loaded_def fret_Inr split: if_splits)

text \<open>The account that receives seized shares is another one, with its rows loaded.\<close>

lemma receiver_loaded:
  assumes "resolve_seize_receiver ext liq i a mode s = Inr (Some (j, r), s')" and "ledger_ok s" and "mint_fresh ext s"
    and "cs_borrow_positions (sy_store s) i \<noteq> None"
  shows "loaded s j r" and "j \<noteq> i"
proof -
  from assms(1) consider (fresh) t where "create_account_with ext liq (acc_spoke_id a) Normal AllowDeprecated s = Inr ((j, r), t)"
    | (known) t where "get_account ext j s = Inr (r, t)" "j \<noteq> i"
    by (auto simp: resolve_seize_receiver_def load_credit_receiver_def fbind_Inr fret_Inr fassert_Inr split: seize_mode.splits if_splits)
  then have "loaded s j r \<and> j \<noteq> i"
  proof cases
    case fresh
    note L = create_account_loaded [OF fresh assms(3)]
    have "cs_borrow_positions (sy_store s) j = None"
      using create_account_fresh(2) [OF fresh assms(3)] .
    then show ?thesis using L assms(4) by auto
  next
    case known
    then show ?thesis using get_account_loaded(1) [OF known(1) assms(2) [unfolded ledger_ok_def]] by simp
  qed
  then show "loaded s j r" and "j \<noteq> i" by simp_all
qed

text \<open>
  The two ways seized collateral is delivered, as a change of the ledger: paid out by the pool, or moved to
  the receiver's account, whose change stays open until that account is written back.
\<close>

definition delivery :: "'w ctl_externals \<Rightarrow> address \<Rightarrow> seize_mode \<Rightarrow> (nat \<times> account) option \<Rightarrow> seize_entry list \<Rightarrow> account
    \<Rightarrow> ('w, account \<times> (nat \<times> account) option) ctl" where
  "delivery ext liq mode receiver seized a1 = (case receiver of
      None \<Rightarrow> fbind (apply_liquidation_seizures ext liq seized a1) (\<lambda>a'. fret (a', None))
    | Some (j, ra) \<Rightarrow>
        fbind (require_credit_position_limit ra seized (mode = Seize_Credit 0)) (\<lambda>_.
        fbind (apply_liquidation_share_credit seized a1 ra) (\<lambda>(a', r'). fret (a', Some (j, r')))))"

definition receiver_gain :: "(nat \<times> account) option \<Rightarrow> (nat \<times> account) option \<Rightarrow> hub_asset_key \<Rightarrow> int" where
  "receiver_gain r r' k = (case (r, r') of (Some (_, a), Some (_, a')) \<Rightarrow> held_supply a' k - held_supply a k | _ \<Rightarrow> 0)"

lemma receiver_gain_None: "receiver_gain None r = (\<lambda>_. 0)"
  by (simp add: receiver_gain_def fun_eq_iff)

lemma delivery_off:
  assumes "delivery ext liq mode receiver seized a s = Inr ((a', receiver'), s')" and off: "ledger_off s du dd" and "acct_ok a"
    and "receiver \<noteq> None \<longrightarrow> acct_ok (snd (the receiver))"
  shows "ledger_off s' (\<lambda>k. du k + (held_supply a' k - held_supply a k) + receiver_gain receiver receiver' k)
      (\<lambda>k. dd k + (held_debt a' k - held_debt a k))"
    and "acct_ok a'" and "stored_supply s' = stored_supply s" and "stored_debt s' = stored_debt s"
    and "case receiver of None \<Rightarrow> receiver' = None | Some (j, r) \<Rightarrow> \<exists>r'. receiver' = Some (j, r') \<and> acct_ok r' \<and> held_debt r' = held_debt r"
proof -
  have ok: "host_ok (sy_pool s)" using off by (simp add: ledger_off_def)
  have "ledger_off s' (\<lambda>k. du k + (held_supply a' k - held_supply a k) + receiver_gain receiver receiver' k)
      (\<lambda>k. dd k + (held_debt a' k - held_debt a k)) \<and> acct_ok a' \<and> stored_supply s' = stored_supply s \<and> stored_debt s' = stored_debt s \<and>
    (case receiver of None \<Rightarrow> receiver' = None | Some (j, r) \<Rightarrow> \<exists>r'. receiver' = Some (j, r') \<and> acct_ok r' \<and> held_debt r' = held_debt r)"
  proof (cases receiver)
    case None
    with assms(1) have z: "apply_liquidation_seizures ext liq seized a s = Inr (a', s')" and r': "receiver' = None"
      by (auto simp: delivery_def fbind_Inr fret_Inr)
    have S: "settles held_debt s a s' a'" using settlorD [OF seizures_settle z ok assms(3)] .
    show ?thesis using settles_off [OF S off] S by (simp add: None r' receiver_gain_def settles_def)
  next
    case (Some jr)
    obtain j r where jr: "jr = (j, r)" by (cases jr)
    from assms(1) obtain t r' where l: "require_credit_position_limit r seized (mode = Seize_Credit 0) s = Inr ((), t)"
      and c: "apply_liquidation_share_credit seized a r t = Inr ((a', r'), s')" and r': "receiver' = Some (j, r')"
      by (auto simp: delivery_def Some jr fbind_Inr fret_Inr)
    have F: "same_ledger s t" using l by (rule sl.framedD [rotated]) (rule frame_rules)
    have okt: "host_ok (sy_pool t)" using same_ledger_host_ok [OF F] ok by simp
    have okr: "acct_ok r" using assms(4) by (simp add: Some jr)
    note C = share_credit_books [OF c okt assms(3) okr]
    have "ledger_off t du dd" using same_ledger_off [OF F] off by simp
    with C have "ledger_off s' (\<lambda>k. du k + (held_supply a' k - held_supply a k) + (held_supply r' k - held_supply r k)) dd"
      by (auto simp: ledger_off_def claimed_supply_def claimed_debt_def algebra_simps)
    then show ?thesis using C F by (simp add: Some jr r' receiver_gain_def same_ledger_def)
  qed
  then show "ledger_off s' (\<lambda>k. du k + (held_supply a' k - held_supply a k) + receiver_gain receiver receiver' k)
      (\<lambda>k. dd k + (held_debt a' k - held_debt a k))"
    and "acct_ok a'" and "stored_supply s' = stored_supply s" and "stored_debt s' = stored_debt s"
    and "case receiver of None \<Rightarrow> receiver' = None | Some (j, r) \<Rightarrow> \<exists>r'. receiver' = Some (j, r') \<and> acct_ok r' \<and> held_debt r' = held_debt r"
    by simp_all
qed

lemma liquidation_ledger:
  assumes "process_liquidation ext liq i pays mode s = Inr (res, s')" and "ledger_ok s" and "mint_fresh ext s"
  shows "ledger_ok s'"
proof -
  let ?auth = "fbind (require_auth liq) (\<lambda>_. require_not_flash_loaning)"
  let ?receive = "\<lambda>receiver seized. case receiver of
      None \<Rightarrow> fret ()
    | Some (j, ra) \<Rightarrow> fbind (record_share_credit_updates ra seized) (\<lambda>_. finalize_position_flow ext j ra Supply_Only False)"
  from assms(1) obtain t a t2 receiver t3 plan t4 offered t5 usd a1 t6 seized a2 receiver' t7 totals t8 t9 t10 where
    au: "?auth s = Inr ((), t)" and g: "get_account ext i t = Inr (a, t)" and n: "context_new t = Inr ((), t2)"
    and rs: "resolve_seize_receiver ext liq i a mode t2 = Inr (receiver, t3)"
    and bp: "build_liquidation_plan ext a pays t3 = Inr (plan, t4)"
    and of: "(if np_full_close (pl_repayment plan) then fbind (flift (aggregate_positive_payments pays)) (\<lambda>o'. fret (Some o')) else fret None) t4 = Inr (offered, t5)"
    and rp: "apply_liquidation_repayments ext liq (lr_repaid (into_result plan)) offered a t5 = Inr ((usd, a1), t6)"
    and br: "delivery ext liq mode receiver seized a1 t6 = Inr ((a2, receiver'), t7)"
    and tt: "calculate_account_risk_totals ext (acc_supply_positions a2) (acc_borrow_positions a2) t7 = Inr (totals, t8)"
    and fi: "finalize_position_flow ext i a2 Both_Sides False t8 = Inr ((), t9)"
    and re: "?receive receiver' seized t9 = Inr ((), t10)"
    and ck: "check_bad_debt_after_liquidation ext i a2 totals t10 = Inr ((), s')"
    by (auto simp: process_liquidation_def delivery_def Let_def fbind_Inr flift_Inr fret_Inr get_account_def rbind_Inr_iff)
  have T: "only_caches s t" using au by (rule ro.framedD [rotated]) (intro frame_rules)
  have T2: "only_caches t t2" using n by (rule ro.framedD [rotated]) (rule frame_rules)
  note W = only_cachesD [OF ro.rel_trans [OF T T2]]
  have FT: "same_ledger s t" using au by (rule sl.framedD [rotated]) (intro frame_rules)
  have F2: "same_ledger t t2" using n by (rule sl.framedD [rotated]) (rule frame_rules)
  have F3: "same_ledger t2 t3" using rs by (rule sl.framedD [rotated]) (rule frame_rules)
  have F4: "same_ledger t3 t4" using bp by (rule sl.framedD [rotated]) (rule frame_rules)
  have F5: "same_ledger t4 t5" using of by (rule sl.framedD [rotated]) (auto intro!: frame_rules)
  have F: "same_ledger t t5" by (rule sl.rel_trans [OF sl.rel_trans [OF sl.rel_trans [OF F2 F3] F4] F5])
  note S = settlement_start [OF assms(2) FT g F]
  have "acc_borrow_positions a \<noteq> []" using bp by (auto simp: build_liquidation_plan_def fbind_Inr fassert_Inr)
  then have row: "cs_borrow_positions (sy_store t2) i \<noteq> None"
    using g only_cachesD(1) [OF T2] by (auto simp: get_account_def rbind_Inr_iff unwrap_Inr_iff try_get_account_def
      account_from_parts_def get_debt_positions_def split: option.splits)
  have ok2: "ledger_ok t2" "mint_fresh ext t2"
    using W assms(2,3) by (simp_all add: ledger_ok_def ledger_off_def mint_fresh_def)
  have R: "loaded t5 j r \<and> j \<noteq> i" if "receiver = Some (j, r)" for j r
    using receiver_loaded [OF rs [unfolded that] ok2 row] loaded_frame [OF sl.rel_trans [OF sl.rel_trans [OF F3 F4] F5]] by simp
  have S1: "settles held_supply t5 a t6 a1" using settlorD [OF liquidation_repayments_settle rp S(3,4)] by simp
  have off6: "ledger_off t6 (\<lambda>k. 0 + (held_supply a1 k - held_supply a k)) (\<lambda>k. 0 + (held_debt a1 k - held_debt a k))"
    using settles_off [OF S1 S(1) [unfolded ledger_ok_def]] .
  have rok: "receiver \<noteq> None \<longrightarrow> acct_ok (snd (the receiver))" using R by (auto simp: loaded_def)
  note D = delivery_off [OF br off6 settles_ok(2) [OF S1] rok]
  have F8: "same_ledger t7 t8" using tt by (rule sl.framedD [rotated]) (rule frame_rules)
  have rows: "stored_supply t8 = stored_supply t5" "stored_debt t8 = stored_debt t5"
    using D(3,4) S1 F8 by (simp_all add: settles_def same_ledger_def)
  have off8: "ledger_off t8 (\<lambda>k. (held_supply a2 k - held_supply a k) + receiver_gain receiver receiver' k) (\<lambda>k. held_debt a2 k - held_debt a k)"
    using D(1) same_ledger_off [OF F8] by (simp add: algebra_simps)
  note G = finalize_off [OF fi off8 D(2)]
  have off9: "ledger_off t9 (receiver_gain receiver receiver') (\<lambda>_. 0)"
    using G(1) S(2) by (simp add: rows loaded_def)
  have i9: "stored_supply t9 i = held_supply a2" "stored_debt t9 i = held_debt a2" using G(2,3) [where j = i] by simp_all
  have "ledger_ok t10 \<and> stored_supply t10 i = held_supply a2 \<and> stored_debt t10 i = held_debt a2"
  proof (cases receiver)
    case None
    then show ?thesis using D(5) re off9 i9 by (auto simp: receiver_gain_None fret_Inr ledger_ok_def)
  next
    case (Some jr)
    then obtain j r r' where jr: "receiver = Some (j, r)" and r': "receiver' = Some (j, r')" "acct_ok r'"
      using D(5) by (cases jr) auto
    from re obtain t9' where c: "record_share_credit_updates r' seized t9 = Inr ((), t9')"
      and f: "finalize_position_flow ext j r' Supply_Only False t9' = Inr ((), t10)" by (auto simp: r' fbind_Inr)
    have F9: "same_ledger t9 t9'" using c by (rule sl.framedD [rotated]) (rule frame_rules)
    have rows9: "stored_supply t9' = stored_supply t9" "stored_debt t9' = stored_debt t9" using F9 by (simp_all add: same_ledger_def)
    have off9': "ledger_off t9' (receiver_gain receiver receiver') (\<lambda>_. 0)" using same_ledger_off [OF F9] off9 by simp
    have j: "stored_supply t9 j = held_supply r" "j \<noteq> i" using G(2) [where j = j] R [OF jr] rows by (auto simp: loaded_def)
    note H = finalize_off [OF f off9' r'(2)]
    show ?thesis
      using H(1) H(2,3) [where j = i] i9 j by (simp add: rows9 receiver_gain_def jr r' ledger_ok_def)
  qed
  then show ?thesis
    using after_liquidation_ledger [OF ck] D(2) by (simp add: loaded_def)
qed

end
