(* ===== verification/Strategy_Ledger.thy ===== *)
theory Strategy_Ledger
  imports Controller_Conservation
begin

text \<open>
  The legs of the strategies keep account and pool in step: a loan into the controller, a repayment from it,
  a withdrawal to it, the netting of one market, and their compositions. \<open>settling\<close> forgets which side of
  the account a leg leaves alone, so that legs of both kinds compose.

  Every strategy leaves the ledger balanced. While a strategy runs, the books exceed the stored claims by
  exactly what the account in memory has moved (\<open>open_ledger\<close>); \<open>closing\<close> and \<open>conserving\<close> are the rules for
  the part of a flow after and before its account is loaded.
\<close>

section \<open>Composing legs of both kinds\<close>

definition settling :: "('x \<Rightarrow> account) \<Rightarrow> ('w, 'x) ctl \<Rightarrow> account \<Rightarrow> bool" where
  "settling pr m a \<longleftrightarrow> settlor (\<lambda>_ _. 0) pr m a"

lemma settling_of: "settlor keep pr m a \<Longrightarrow> settling pr m a"
  by (auto simp: settling_def settlor_def settles_def)

lemma settling_after:
  "sl.framed m \<Longrightarrow> (\<And>s x t. m s = Inr (x, t) \<Longrightarrow> settling pr (g x) a) \<Longrightarrow> settling pr (fbind m g) a"
  unfolding settling_def by (rule settlor_after)

lemma settling_bind:
  "settling pr m a \<Longrightarrow> (\<And>x. settling pr' (g x) (pr x)) \<Longrightarrow> settling pr' (fbind m g) a"
  unfolding settling_def by (rule settlor_bind)

lemma settling_ret: "pr x = a \<Longrightarrow> settling pr (fret x) a"
  unfolding settling_def by (rule settlor_ret)

lemmas settling_intros = settling_after settling_ret

lemma settling_bind_keep:
  assumes "settlor keep pr m a" and "\<And>x. keep (pr x) = keep a \<Longrightarrow> settling pr' (g x) (pr x)"
  shows "settling pr' (fbind m g) a"
  unfolding settling_def settlor_def
proof (intro allI impI)
  fix s y s'
  assume "fbind m g s = Inr (y, s')" and ok: "host_ok (sy_pool s)" "acct_ok a"
  then obtain x t where m: "m s = Inr (x, t)" and g: "g x t = Inr (y, s')" by (auto simp: fbind_Inr)
  have 1: "settles keep s a t (pr x)" using settlorD [OF assms(1) m ok] .
  then have k: "keep (pr x) = keep a" and ok': "host_ok (sy_pool t)" "acct_ok (pr x)" by (simp_all add: settles_def)
  have "settles (\<lambda>_ _. 0) s a t (pr x)" using 1 by (simp add: settles_def)
  then show "settles (\<lambda>_ _. 0) s a s' (pr' y)"
    using settles_trans settlorD [OF assms(2) [OF k, unfolded settling_def] g ok'] by blast
qed

lemma settling_fold:
  assumes "\<And>x a. x \<in> set xs \<Longrightarrow> settling (\<lambda>a. a) (f x a) a"
  shows "settling (\<lambda>a. a) (ffold f xs a) a"
  using assms by (induction xs arbitrary: a) (auto intro!: settling_ret settling_bind)

lemma sl_flag: "sl.framed (upd_store (set_flash_loan_ongoing b))"
  unfolding upd_store_def by (intro sl.framed_fwrite) (simp add: same_ledger_def set_flash_loan_ongoing_def)

lemma settlor_guard:
  assumes "settlor keep pr m a"
  shows "settlor keep pr (with_flash_guard m) a"
  unfolding with_flash_guard_def
  by (rule settlor_after, rule frame_rules, rule settlor_after, rule sl_flag, rule settlor_bind [OF assms])
    (auto intro!: settlor_after settlor_ret sl_flag frame_rules)

section \<open>One pool call and its merge\<close>

definition moves_books :: "('w, 'r) ctl \<Rightarrow> hub_asset_key \<Rightarrow> ('r \<Rightarrow> int) \<Rightarrow> ('r \<Rightarrow> int) \<Rightarrow> bool" where
  "moves_books m k du dd \<longleftrightarrow> (\<forall>s r t. m s = Inr (r, t) \<longrightarrow> host_ok (sy_pool s) \<longrightarrow>
     host_ok (sy_pool t) \<and> booked (sy_pool s) k (du r) (dd r) (sy_pool t) \<and>
     cs_supply_positions (sy_store t) = cs_supply_positions (sy_store s) \<and>
     cs_borrow_positions (sy_store t) = cs_borrow_positions (sy_store s))"

lemma moves_books_call:
  assumes "\<And>h r h'. f h = Inr (r, h') \<Longrightarrow> host_ok h \<Longrightarrow> host_ok h' \<and> booked h k (du r) (dd r) h'"
  shows "moves_books (pool_call f) k du dd"
  using assms by (fastforce simp: moves_books_def pool_call_Inr booked_def)

lemma moves_books_guard: "moves_books m k du dd \<Longrightarrow> moves_books (with_flash_guard m) k du dd"
  by (fastforce simp: moves_books_def with_flash_guard_def read_store_def upd_store_def res_iff set_flash_loan_ongoing_def split: if_splits)

lemma leg_settles:
  assumes m: "moves_books m k (\<lambda>r. su r - held_supply a k) (\<lambda>r. sd r - held_debt a k)"
    and g: "\<And>r s x s'. g r s = Inr (x, s') \<Longrightarrow> acct_ok a \<Longrightarrow> same_ledger s s' \<and> acct_ok (pr x) \<and> keep (pr x) = keep a \<and>
      held_supply (pr x) = (held_supply a)(k := su r) \<and> held_debt (pr x) = (held_debt a)(k := sd r)"
  shows "settlor keep pr (fbind m g) a"
  unfolding settlor_def
proof (intro allI impI)
  fix s y s'
  assume "fbind m g s = Inr (y, s')" and ok: "host_ok (sy_pool s)" "acct_ok a"
  then obtain r t where r: "m s = Inr (r, t)" and gr: "g r t = Inr (y, s')" by (auto simp: fbind_Inr)
  have "settles keep s a t (pr y)"
    using m r ok g [OF gr ok(2)] by (auto simp: moves_books_def settles_def booked_def)
  then show "settles keep s a s' (pr y)" using g [OF gr ok(2)] by (blast intro: settles_frame(2))
qed

lemma strategy_books:
  "create_strategy ext h r act fee = Inr (m, h') \<Longrightarrow> host_ok h \<Longrightarrow>
    host_ok h' \<and> booked h (pa_hub_asset act) 0 (scaled_amount (psm_position m) - scaled_amount (pa_position act)) h'"
  by (auto simp: create_strategy_def only_owner_Inr strategy_booked intro: strategy_sound market_step_host(1))

lemma net_settle_books:
  "net_settle h e = Inr (r, h') \<Longrightarrow> host_ok h \<Longrightarrow>
    host_ok h' \<and> booked h (pne_hub_asset e) (scaled_amount (pnr_supply_position r) - scaled_amount (pne_supply_position e))
      (scaled_amount (pnr_debt_position r) - scaled_amount (pne_debt_position e)) h'"
  by (auto simp: net_settle_def only_owner_Inr rbind_Inr_iff net_settle_booked intro: net_settle_sound market_step_host(1))

text \<open>The loan into the controller also leaves every other debt of the account alone.\<close>

lemma borrow_into_settles: "settlor held_supply snd (borrow_into_controller ext k amount fee a) a"
proof -
  have leg: "settlor held_supply snd (fbind (with_flash_guard (pool_call (\<lambda>h. create_strategy (ce_base ext) h c
      (make_pool_action (get_or_create_debt_position a k) amount k) fee))) (\<lambda>result.
     fbind (balance_delta_since ext (asset k) c before) (\<lambda>measured.
     fbind (fassert (measured = psm_amount_received result) (Generic InternalError)) (\<lambda>_.
     fbind (fassert (measured > 0) (Generic AmountMustBePositive)) (\<lambda>_.
     fbind (merge_debt_leg k (Entry (ppm_asset_decimals (position_mutation_of_strategy result)))
       (leg_outcome_of (position_mutation_of_strategy result)) a) (\<lambda>a'.
     fret (measured, a'))))))) a" for c before
  proof (rule leg_settles [where k = k and su = "\<lambda>_. held_supply a k" and sd = "\<lambda>r. scaled_amount (psm_position r)"])
    show "moves_books (with_flash_guard (pool_call (\<lambda>h. create_strategy (ce_base ext) h c
      (make_pool_action (get_or_create_debt_position a k) amount k) fee))) k
      (\<lambda>r. held_supply a k - held_supply a k) (\<lambda>r. scaled_amount (psm_position r) - held_debt a k)"
      by (intro moves_books_guard moves_books_call)
        (auto dest!: strategy_books simp: make_pool_action_def held_get_or_create)
  qed (auto simp: fbind_Inr fret_Inr fassert_Inr leg_outcome_of_def position_mutation_of_strategy_def balance_delta_since_def rbind_Inr_iff
    dest: merge_debt_held merge_frames(3))
  show ?thesis
    unfolding borrow_into_controller_def Let_def by (intro settlor_after leg frame_rules)
qed

lemma borrow_into_other:
  assumes "borrow_into_controller ext k amount fee a s = Inr ((m, a'), s')" and "acct_ok a" and "j \<noteq> k"
  shows "held_debt a' j = held_debt a j"
  using assms by (auto simp: borrow_into_controller_def Let_def fbind_Inr fret_Inr dest!: merge_debt_held)

section \<open>The legs of a strategy\<close>

lemma withdrawal_settles:
  assumes "ap_scaled_amount p = held_supply a k"
  shows "settlor held_debt snd (execute_withdrawal ext r k amount p a) a"
proof -
  have "supply_matches a (map pwe_action [\<lparr>pwe_action = make_pool_action (scaled_of_account_position p) amount k, pwe_protocol_fee = 0\<rparr>])"
    using assms by (simp add: supply_matches_def make_pool_action_def scaled_of_account_position_def)
  note batch = withdraw_batch_settles [OF this]
  show ?thesis
    unfolding execute_withdrawal_def
    by (rule settlor_after, rule frame_rules, rule settlor_bind [OF batch])
      (auto split: prod.split intro!: settlor_after settlor_ret frame_rules)
qed

lemma repayment_settles:
  assumes "scaled_amount d = held_debt a k"
  shows "settlor held_supply (\<lambda>a. a) (repay_debt_from_controller ext c k amount d a) a"
proof -
  have "debt_matches a [make_pool_action d n k]" for n
    using assms by (simp add: debt_matches_def make_pool_action_def)
  note batch = repay_batch_settles [OF this]
  have prefunded: "settlor held_supply snd (repay_prefunded_position ext r k d n a) a" for r n
    unfolding repay_prefunded_position_def
    by (rule settlor_after, rule frame_rules, rule settlor_bind [OF batch])
      (auto split: prod.split intro!: settlor_after settlor_ret frame_rules)
  have refund: "settlor held_supply (\<lambda>a. a) (fbind (repay_prefunded_position ext r k d n a) (\<lambda>(_, a').
      fbind (refund_controller_balance_delta ext t b c) (\<lambda>_. fret a'))) a" for r n t b
    by (rule settlor_bind [OF prefunded]) (auto split: prod.split intro!: settlor_after settlor_ret frame_rules)
  show ?thesis
    unfolding repay_debt_from_controller_def by (intro refund settlor_after frame_rules)
qed

lemma withdraw_and_swap_settles: "settlor held_debt snd (withdraw_and_swap_from_supply ext c k amount out swap a) a"
  unfolding withdraw_and_swap_from_supply_def withdraw_collateral_to_controller_def
  by (rule settlor_after, rule frame_rules)
    (auto simp: flift_Inr fbind_Inr fret_Inr held_get_or_create fbind_assoc split: prod.split
      intro!: settlor_after frame_rules settlor_bind [OF settlor_guard [OF withdrawal_settles]] settlor_ret)

lemma net_settle_settles: "settling snd (net_settle_collateral_against_debt ext k amount a) a"
proof -
  define outs where "outs r = \<lparr>lo_new_scaled = scaled_amount (pnr_supply_position r), lo_market_index = pnr_market_index r,
    lo_amount = pnr_settled_amount r\<rparr>" for r :: pool_net_settle_result
  define outd where "outd r = \<lparr>lo_new_scaled = scaled_amount (pnr_debt_position r), lo_market_index = pnr_market_index r,
    lo_amount = pnr_settled_amount r\<rparr>" for r :: pool_net_settle_result
  have merge: "held_supply a1 = (held_supply a)(k := scaled_amount (pnr_supply_position r)) \<and> held_debt a1 = held_debt a \<and> acct_ok a1"
    if "merge_withdraw_leg ext Withdraw_Normal k (outs r) a s = Inr (a1, s1)" "acct_ok a" for r s a1 s1
    using that by (auto simp: merge_withdraw_leg_def Let_def fbind_Inr fret_Inr outs_def held_update_supply
      split: prod.splits if_splits dest!: refresh_scaled)
  have leg: "settlor (\<lambda>_ _. 0) snd (fbind (pool_call (\<lambda>h. net_settle h \<lparr>pne_hub_asset = k, pne_amount = amount,
       pne_supply_position = scaled_of_account_position p, pne_debt_position = d\<rparr>)) (\<lambda>result.
     fbind (merge_withdraw_leg ext Withdraw_Normal k (outs result) a) (\<lambda>a1.
     fbind (merge_debt_leg k Exit (outd result) a1) (\<lambda>a2. fret (pnr_settled_amount result, a2))))) a"
    if "get_supply_position_or_panic a k = Inr p" "get_debt_position_or_panic a k = Inr d" for p d
  proof (rule leg_settles [where k = k and su = "\<lambda>r. scaled_amount (pnr_supply_position r)"
        and sd = "\<lambda>r. scaled_amount (pnr_debt_position r)"])
    show "moves_books (pool_call (\<lambda>h. net_settle h \<lparr>pne_hub_asset = k, pne_amount = amount,
       pne_supply_position = scaled_of_account_position p, pne_debt_position = d\<rparr>)) k
      (\<lambda>r. scaled_amount (pnr_supply_position r) - held_supply a k) (\<lambda>r. scaled_amount (pnr_debt_position r) - held_debt a k)"
      by (intro moves_books_call)
        (use that in \<open>auto dest!: net_settle_books simp: scaled_of_account_position_def held_get_or_create\<close>)
  next
    fix r s x s'
    assume "fbind (merge_withdraw_leg ext Withdraw_Normal k (outs r) a) (\<lambda>a1.
      fbind (merge_debt_leg k Exit (outd r) a1) (\<lambda>a2. fret (pnr_settled_amount r, a2))) s = Inr (x, s')" and ok: "acct_ok a"
    then obtain a1 s1 where w: "merge_withdraw_leg ext Withdraw_Normal k (outs r) a s = Inr (a1, s1)"
      and d: "merge_debt_leg k Exit (outd r) a1 s1 = Inr (snd x, s')" by (auto simp: fbind_Inr fret_Inr)
    show "same_ledger s s' \<and> acct_ok (snd x) \<and> (\<lambda>_. 0) = (\<lambda>_. 0) \<and>
      held_supply (snd x) = (held_supply a)(k := scaled_amount (pnr_supply_position r)) \<and>
      held_debt (snd x) = (held_debt a)(k := scaled_amount (pnr_debt_position r))"
      using sl.rel_trans [OF merge_frames(2) [OF w] merge_frames(3) [OF d]] merge [OF w ok] merge_debt_held [OF d]
      by (simp add: outd_def)
  qed
  show ?thesis
    unfolding net_settle_collateral_against_debt_def outs_def [symmetric] outd_def [symmetric] settling_def
    by (intro settlor_after leg frame_rules) (auto simp: flift_Inr)
qed

lemma empty_withdrawal_neutral:
  assumes "withdraw ext h r False [\<lparr>pwe_action = make_pool_action \<lparr>scaled_amount = 0\<rparr> n k, pwe_protocol_fee = 0\<rparr>] = Inr (rs, h')"
    and "host_ok h"
  shows "host_ok h' \<and> booked h k 0 0 h'"
proof -
  let ?e = "\<lparr>pwe_action = make_pool_action \<lparr>scaled_amount = 0\<rparr> n k, pwe_protocol_fee = 0\<rparr>"
  from assms(1) obtain m sn where w: "withdraw_apply ext r False h ?e = Inr (m, sn, h')"
    by (auto simp: withdraw_def only_owner_Inr run_batch_def rbind_Inr_iff)
  have "scaled_amount (ppm_position m) = 0"
    by (rule withdraw_sound [OF w assms(2)]) (simp add: make_pool_action_def)
  then show ?thesis
    using withdraw_booked(2) [OF w assms(2)] leg_host_ok(3) [OF w assms(2)] by (simp add: make_pool_action_def)
qed

lemma withdraw_all_settles: "settling (\<lambda>a. a) (execute_withdraw_all ext r k a) a"
proof -
  have close: "settling (\<lambda>a. a) (close_leg ext r j b) b" for j b
    unfolding close_leg_def
    by (auto split: option.split prod.split simp: held_supply_def shares_in_def
      intro!: settling_ret settling_bind [OF settling_of [OF withdrawal_settles]])
  have fold: "settling (\<lambda>a. a) (ffold (close_leg ext r) ks a) a" for ks by (intro settling_fold close)
  have probe: "settling (\<lambda>_. a) (pool_call (\<lambda>h. withdraw (ce_base ext) h r False
      [\<lparr>pwe_action = make_pool_action \<lparr>scaled_amount = 0\<rparr> WITHDRAW_ALL_SENTINEL k, pwe_protocol_fee = 0\<rparr>])) a"
    using moves_books_call [of "\<lambda>h. withdraw (ce_base ext) h r False
      [\<lparr>pwe_action = make_pool_action \<lparr>scaled_amount = 0\<rparr> WITHDRAW_ALL_SENTINEL k, pwe_protocol_fee = 0\<rparr>]" k "\<lambda>_. 0" "\<lambda>_. 0"]
      empty_withdrawal_neutral
    by (auto simp: settling_def settlor_def settles_def moves_books_def booked_def) blast+
  show ?thesis
    unfolding execute_withdraw_all_def
    by (rule settling_bind [where pr = "\<lambda>_. a"])
      (auto intro!: settling_after settling_bind [OF probe] settling_ret frame_rules fold)
qed

section \<open>Flows on a loaded account\<close>

definition open_ledger :: "'w system \<Rightarrow> nat \<Rightarrow> account \<Rightarrow> bool" where
  "open_ledger s i a \<longleftrightarrow> acct_ok a \<and>
     ledger_off s (\<lambda>k. held_supply a k - stored_supply s i k) (\<lambda>k. held_debt a k - stored_debt s i k)"

lemma open_loaded: "ledger_ok s \<Longrightarrow> loaded s i a \<Longrightarrow> open_ledger s i a"
  by (simp add: open_ledger_def ledger_ok_def loaded_def)

lemma open_frame: "same_ledger s t \<Longrightarrow> open_ledger s i a \<Longrightarrow> open_ledger t i a"
  using same_ledger_off [of s t] by (simp add: open_ledger_def same_ledger_def)

lemma open_settles:
  assumes "settles keep s a t a'" and "open_ledger s i a"
  shows "open_ledger t i a'"
proof -
  have "ledger_off t (\<lambda>k. held_supply a k - stored_supply s i k + (held_supply a' k - held_supply a k))
      (\<lambda>k. held_debt a k - stored_debt s i k + (held_debt a' k - held_debt a k))"
    by (rule settles_off [OF assms(1)]) (use assms(2) in \<open>simp add: open_ledger_def\<close>)
  then show ?thesis using assms(1) by (simp add: open_ledger_def settles_def)
qed

definition closing :: "nat \<Rightarrow> ('w, 'x) ctl \<Rightarrow> account \<Rightarrow> bool" where
  "closing i m a \<longleftrightarrow> (\<forall>s x s'. m s = Inr (x, s') \<longrightarrow> open_ledger s i a \<longrightarrow> ledger_ok s')"

lemma closing_after:
  assumes "sl.framed m" and "\<And>s x t. m s = Inr (x, t) \<Longrightarrow> closing i (g x) a"
  shows "closing i (fbind m g) a"
  unfolding closing_def
proof (intro allI impI)
  fix s y s'
  assume "fbind m g s = Inr (y, s')" and o: "open_ledger s i a"
  then obtain x t where m: "m s = Inr (x, t)" and g: "g x t = Inr (y, s')" by (auto simp: fbind_Inr)
  show "ledger_ok s'"
    using assms(2) [OF m] g open_frame [OF sl.framedD [OF assms(1) m] o] by (simp add: closing_def)
qed

lemma closing_bind:
  assumes "settlor keep pr m a"
    and "\<And>s x t. m s = Inr (x, t) \<Longrightarrow> acct_ok a \<Longrightarrow> keep (pr x) = keep a \<Longrightarrow> closing i (g x) (pr x)"
  shows "closing i (fbind m g) a"
  unfolding closing_def
proof (intro allI impI)
  fix s y s'
  assume "fbind m g s = Inr (y, s')" and o: "open_ledger s i a"
  then obtain x t where m: "m s = Inr (x, t)" and g: "g x t = Inr (y, s')" by (auto simp: fbind_Inr)
  have ok: "host_ok (sy_pool s)" "acct_ok a" using o by (simp_all add: open_ledger_def ledger_off_def)
  have st: "settles keep s a t (pr x)" using settlorD [OF assms(1) m ok] .
  then have "keep (pr x) = keep a" by (simp add: settles_def)
  then show "ledger_ok s'"
    using assms(2) [OF m ok(2)] g open_settles [OF st o] by (simp add: closing_def)
qed

lemmas closing_settling = closing_bind [where keep = "\<lambda>_ _. 0", folded settling_def]

lemma closing_finalize:
  assumes "\<And>x. sl.framed (g x)"
  shows "closing i (fbind (strategy_finalize ext i a) g) a"
  unfolding closing_def
proof (intro allI impI)
  fix s y s'
  assume "fbind (strategy_finalize ext i a) g s = Inr (y, s')" and o: "open_ledger s i a"
  then obtain restamped a2 t t2 t3 where e: "enforce_post_pool_solvency ext a s = Inr ((restamped, a2), t)"
    and f: "finalize_position_flow ext i a2 Both_Sides False t = Inr ((), t2)"
    and cl: "cleanup_account_if_empty ext a2 i t2 = Inr ((), t3)" and g: "g a2 t3 = Inr (y, s')"
    by (auto simp: strategy_finalize_def finalize_position_flow_def persist_account_positions_def fbind_Inr fret_Inr)
  have ok: "host_ok (sy_pool s)" "acct_ok a" using o by (simp_all add: open_ledger_def ledger_off_def)
  have o2: "open_ledger t i a2"
    using open_settles [OF settlorD [OF solvency_settles [where keep = held_debt] e ok] o] by simp
  note F = finalize_off [OF f o2 [unfolded open_ledger_def, THEN conjunct2] o2 [unfolded open_ledger_def, THEN conjunct1]]
  have "ledger_off t2 (\<lambda>_. 0) (\<lambda>_. 0)" using F(1) by simp
  then have "ledger_ok t3" using cleanup_off [OF cl] F(2,3) [of i] by (simp add: ledger_ok_def)
  moreover have "same_ledger t3 s'" using sl.framedD [OF assms g] .
  ultimately show "ledger_ok s'" by (simp add: ledger_ok_frame)
qed

section \<open>Whole invocations\<close>

definition conserving :: "'w ctl_externals \<Rightarrow> ('w, 'x) ctl \<Rightarrow> bool" where
  "conserving ext m \<longleftrightarrow> (\<forall>s x s'. m s = Inr (x, s') \<longrightarrow> ledger_ok s \<longrightarrow> mint_fresh ext s \<longrightarrow> ledger_ok s')"

lemma conservingD: "conserving ext m \<Longrightarrow> m s = Inr (x, s') \<Longrightarrow> ledger_ok s \<Longrightarrow> mint_fresh ext s \<Longrightarrow> ledger_ok s'"
  by (simp add: conserving_def)

lemma conserving_after:
  assumes "ro.framed m" and "\<And>s x t. m s = Inr (x, t) \<Longrightarrow> conserving ext (g x)"
  shows "conserving ext (fbind m g)"
  unfolding conserving_def
proof (intro allI impI)
  fix s y s'
  assume "fbind m g s = Inr (y, s')" and ok: "ledger_ok s" "mint_fresh ext s"
  then obtain x t where m: "m s = Inr (x, t)" and g: "g x t = Inr (y, s')" by (auto simp: fbind_Inr)
  have "ledger_ok t" "mint_fresh ext t"
    using only_cachesD [OF ro.framedD [OF assms(1) m]] ok by (simp_all add: ledger_ok_def ledger_off_def mint_fresh_def)
  then show "ledger_ok s'" using conservingD [OF assms(2) [OF m] g] by blast
qed

lemma conserving_discard: "conserving ext m \<Longrightarrow> conserving ext (fbind m (\<lambda>_. fret ()))"
  by (auto simp: conserving_def fbind_Inr fret_Inr)

lemma conserving_get:
  assumes "\<And>a. closing i (g a) a"
  shows "conserving ext (fbind (get_account ext i) g)"
  unfolding conserving_def
proof (intro allI impI)
  fix s y s'
  assume "fbind (get_account ext i) g s = Inr (y, s')" and ok: "ledger_ok s"
  then obtain a t where m: "get_account ext i s = Inr (a, t)" and g: "g a t = Inr (y, s')" by (auto simp: fbind_Inr)
  note L = get_account_loaded [OF m ok [unfolded ledger_ok_def]]
  show "ledger_ok s'" using assms [of a] g open_loaded [OF ok L(1)] L(2) by (simp add: closing_def)
qed

lemma conserving_load:
  assumes "\<And>i a. closing i (g (i, a)) a"
  shows "conserving ext (fbind (load_or_create_account ext c j sp mode guard) g)"
  unfolding conserving_def
proof (intro allI impI)
  fix s y s'
  assume "fbind (load_or_create_account ext c j sp mode guard) g s = Inr (y, s')" and ok: "ledger_ok s" "mint_fresh ext s"
  then obtain i a t where m: "load_or_create_account ext c j sp mode guard s = Inr ((i, a), t)" and g: "g (i, a) t = Inr (y, s')"
    by (auto simp: fbind_Inr)
  have "same_ledger s t" using m by (rule sl.framedD [rotated]) (rule frame_rules)
  then have "open_ledger t i a"
    using open_frame open_loaded [OF ok(1) load_or_create_loaded [OF m ok(2) ok(1) [unfolded ledger_ok_def]]] by blast
  then show "ledger_ok s'" using assms [of i a] g by (simp add: closing_def)
qed

section \<open>The strategies\<close>

lemmas closing_steps = closing_bind [OF borrow_into_settles] closing_bind [OF deposit_settles]
  closing_bind [OF withdraw_and_swap_settles] closing_finalize closing_after

lemma multiply_conserves: "conserving ext (process_multiply ext c p)"
  unfolding process_multiply_def split_def
  by (intro conserving_after conserving_load frame_rules; simp only: fst_conv snd_conv; intro closing_steps frame_rules)

lemma swap_collateral_conserves: "conserving ext (process_swap_collateral ext c p)"
  unfolding process_swap_collateral_def split_def
  by (intro conserving_get conserving_after frame_rules; intro closing_steps frame_rules)

lemma swap_debt_conserves: "conserving ext (process_swap_debt ext c p)"
proof -
  have repay: "closing i (fbind (repay_debt_from_controller ext c k n d a1) (\<lambda>a2. fbind (strategy_finalize ext i a2) (\<lambda>_. fret ()))) a1"
    if "scaled_amount d = held_debt a1 k" for i k n d a1
    by (intro closing_bind [OF repayment_settles [OF that]] closing_finalize frame_rules)
  have after: "closing i (fbind (borrow_into_controller ext (sd_new_debt p) n True a) (\<lambda>(amount_received, a1).
       fbind (swap_tokens_or_passthrough ext c (asset (sd_new_debt p)) amount_received (asset (sd_existing_debt p)) (sd_swap p))
       (\<lambda>repay_amount. fbind (repay_debt_from_controller ext c (sd_existing_debt p) repay_amount d a1) (\<lambda>a2.
         fbind (strategy_finalize ext i a2) (\<lambda>_. fret ()))))) a"
    if "get_debt_position_or_panic a (sd_existing_debt p) = Inr d" "sd_existing_debt p \<noteq> sd_new_debt p" for i n a d
    unfolding split_def
    by (rule closing_bind [OF borrow_into_settles], rule closing_after, rule frame_rules, rule repay)
      (use that in \<open>auto simp: held_get_or_create borrow_into_other\<close>)
  show ?thesis
    unfolding process_swap_debt_def
    by (intro conserving_get conserving_after frame_rules; intro closing_after frame_rules after)
      (auto simp: fassert_Inr flift_Inr)
qed

lemma collateral_repayment_settles:
  "settling (\<lambda>a. a) (if k = d then fbind (fassert (sw = []) e) (\<lambda>_.
      fbind (net_settle_collateral_against_debt ext k n a) (\<lambda>(_, a'). fret a'))
    else repay_via_collateral_swap ext c k n d sw a) a"
proof -
  have swap: "settling (\<lambda>a. a) (repay_via_collateral_swap ext c k n d sw a) a"
    unfolding repay_via_collateral_swap_def
    by (rule settling_after, rule frame_rules, rule settling_bind_keep [OF withdraw_and_swap_settles])
      (auto split: prod.split simp: flift_Inr held_get_or_create intro!: settling_of [OF repayment_settles])
  have net: "settling (\<lambda>a. a) (fbind (net_settle_collateral_against_debt ext k n a) (\<lambda>(_, a'). fret a')) a" for k n a
    by (rule settling_bind [OF net_settle_settles]) (auto split: prod.split intro!: settling_ret)
  show ?thesis
  proof (cases "k = d")
    case True
    then show ?thesis by simp (rule settling_after, rule frame_rules, rule net)
  qed (simp add: swap)
qed

lemma close_request_settles:
  "settling (\<lambda>a. a) (if b then fbind (fassert q e) (\<lambda>_. execute_withdraw_all ext c k a) else fret a) a"
  by (auto intro!: settling_after settling_ret withdraw_all_settles frame_rules)

lemma repay_with_collateral_conserves: "conserving ext (process_repay_debt_with_collateral ext c p)"
  unfolding process_repay_debt_with_collateral_def
  by (intro conserving_get conserving_after frame_rules;
      intro closing_settling [OF collateral_repayment_settles] closing_settling [OF close_request_settles]
        closing_finalize closing_after frame_rules)

lemma flash_position_conserves: "conserving ext (process_flash_position ext c p)"
proof -
  have mint: "settling snd (mint_and_forward ext k n r a) a" for k n r a
    unfolding mint_and_forward_def
    by (intro settling_after frame_rules settling_bind [OF settling_of [OF borrow_into_settles]])
      (auto split: prod.split intro!: settling_after settling_ret frame_rules)
  have callback: "settling (\<lambda>x. snd (snd x)) (flash_callback ext c p i a) a" for i a
    unfolding flash_callback_def settling_def
    by (rule settlor_guard, rule settlor_after, rule frame_rules, rule settlor_bind [OF mint [unfolded settling_def]])
      (auto split: prod.split intro!: settlor_after settlor_ret frame_rules)
  show ?thesis
    unfolding process_flash_position_def split_def
    by (intro conserving_after conserving_load frame_rules; simp only: fst_conv snd_conv;
        intro closing_settling [OF callback] closing_steps frame_rules)
qed

lemma migrate_conserves: "conserving ext (process_migrate_blend ext c p)"
proof -
  have loan: "settling (\<lambda>a. a) (migration_borrow ext h x a) a" for h x a
    unfolding migration_borrow_def
    by (auto split: prod.split intro!: settling_after settling_bind [OF settling_of [OF borrow_into_settles]] settling_ret frame_rules)
  have refund: "settling (\<lambda>a. a) (reconcile_leg ext c h b x a) a" for h b x a
    unfolding reconcile_leg_def Let_def
    by (auto split: prod.split option.split simp: flift_Inr expect_invariant_def unwrap_Inr_iff held_debt_def shares_in_def
      intro!: settling_after settling_ret frame_rules settling_of [OF repayment_settles])
  have debt: "settling (\<lambda>a. a) (execute_migration_debt_leg ext c b h caps a) a" for b h caps a
    unfolding execute_migration_debt_leg_def reconcile_debt_refunds_def
    by (auto intro!: settling_ret settling_after settling_bind [OF settling_fold [OF loan]] settling_fold refund frame_rules)
  have deposit: "settling (\<lambda>a. a) (deposit_withdrawn ext h ws b a) a" for h ws b a
    unfolding deposit_withdrawn_def
    by (auto intro!: settling_after settling_ret settling_of [OF deposit_settles] frame_rules)
  have sweep: "settling (\<lambda>a. a) (if ws \<noteq> [] then fbind (fread sy_self) (\<lambda>controller.
      fbind (snapshot_balances ext controller ws) (\<lambda>before.
      fbind (blend_sweep_all ext b c cs ss) (\<lambda>_. deposit_withdrawn ext h ws before a))) else fret a) a" for ws b cs ss h a
    by (auto intro!: settling_after settling_ret deposit frame_rules)
  show ?thesis
    unfolding process_migrate_blend_def split_def Let_def
    by (intro conserving_after conserving_load frame_rules; simp only: fst_conv snd_conv;
        intro closing_settling [OF debt] closing_settling [OF sweep] closing_finalize closing_after frame_rules)
qed

lemmas strategies_conserve = multiply_conserves swap_debt_conserves swap_collateral_conserves repay_with_collateral_conserves
  flash_position_conserves migrate_conserves

end
