(* ===== verification/Controller_Shares.thy ===== *)
theory Controller_Shares
  imports Strategy_Ledger
begin

text \<open>
  The calls that move no share, the threshold refresh, and the ledger of the whole system: in every
  history in which the position NFT never issues an account id twice, the shares the pool has booked
  are the shares the accounts hold.
\<close>

section \<open>Calls that move no share\<close>

definition balanced :: "'w system \<Rightarrow> 'w system \<Rightarrow> bool" where
  "balanced s s' \<longleftrightarrow> (ledger_ok s \<longrightarrow> ledger_ok s')"

interpretation bal: ctx_frame balanced
  by unfold_locales (auto simp: balanced_def ledger_ok_def ledger_off_def)

lemma ledger_same_books:
  assumes "ledger_ok s" and "host_ok h" and "user_shares h = user_shares (sy_pool s)" and "debt_shares h = debt_shares (sy_pool s)"
  shows "ledger_ok (s\<lparr>sy_pool := h\<rparr>)"
  using assms by (simp add: ledger_ok_def ledger_off_def)

text \<open>The pool calls that leave both books alone.\<close>

fun share_neutral :: "call \<Rightarrow> bool" where
  "share_neutral (Recapitalize k p amt) = True"
| "share_neutral (Flash_Loan k i r amt d) = True"
| "share_neutral (Claim_Revenue k) = True"
| "share_neutral cl = market_admin cl"

lemma neutral_books:
  assumes "dispatch ext cl h = Inr h'" and "host_ok h" and "share_neutral cl"
  shows "user_shares h' = user_shares h \<and> debt_shares h' = debt_shares h"
  using assms
  by (cases cl) (auto simp: only_owner_Inr state_of_Inr create_market_def update_params_def upgrade_def update_indexes_def
    recapitalize_def flash_loan_def claim_revenue_def user_shares_def debt_shares_def
    dest: booked_0 [OF recapitalize_booked] booked_0 [OF flash_booked] booked_0 [OF revenue_booked]
      create_market_books rate_model_books accrue_books)

lemma neutral_balanced:
  assumes "dispatch ext cl ((sy_pool s)\<lparr>h_auth := auth\<rparr>) = Inr h" and "share_neutral cl"
  shows "balanced s (s\<lparr>sy_pool := h\<rparr>)"
proof -
  have "ledger_ok (s\<lparr>sy_pool := h\<rparr>)" if "ledger_ok s"
  proof -
    have ok: "host_ok ((sy_pool s)\<lparr>h_auth := auth\<rparr>)" using ledger_ok_host [OF that] by simp
    show ?thesis
      by (rule ledger_same_books [OF that dispatch_sound(1) [OF assms(1) ok]]) (use neutral_books [OF assms(1) ok assms(2)] in simp_all)
  qed
  then show ?thesis by (simp add: balanced_def)
qed

lemma balanced_frame: "same_ledger s s' \<Longrightarrow> balanced s s'"
  by (simp add: balanced_def ledger_ok_frame)

lemma balanced_framed: "sl.framed m \<Longrightarrow> bal.framed m"
  by (auto intro!: bal.framedI balanced_frame dest: sl.framedD)

interpretation bal_admin: admin_frame balanced ext for ext :: "'w ctl_externals"
proof unfold_locales
  show "balanced s (set_world w s)" for w and s :: "'w system" by (rule balanced_frame) (simp add: same_ledger_def set_world_def)
  show "admin_write (sy_store s) st \<Longrightarrow> balanced s (s\<lparr>sy_store := st\<rparr>)" for s :: "'w system" and st
    by (rule balanced_frame) (simp add: same_ledger_def admin_write_def account_data_def)
  show "dispatch (ce_base ext) cl ((sy_pool s)\<lparr>h_auth := \<lambda>a. a = sy_self s\<rparr>) = Inr h \<Longrightarrow> market_admin cl \<Longrightarrow> balanced s (s\<lparr>sy_pool := h\<rparr>)"
    for ext :: "'w ctl_externals" and cl s h by (rule neutral_balanced) (auto elim: market_admin.elims)
qed

lemma balanced_pool_call:
  assumes "\<And>h x h'. f h = Inr (x, h') \<Longrightarrow> dispatch ext cl h = Inr h'" and "share_neutral cl"
  shows "bal.framed (pool_call f)"
  using neutral_balanced [OF assms(1) assms(2)] by (auto simp: pool_call_def rbind_Inr_iff intro!: bal.framedI)

lemma balanced_pool [frame_rules]:
  "bal.framed (pool_call (\<lambda>h. recapitalize (ce_base ext) h k p amt))"
  "bal.framed (pool_call (\<lambda>h. flash_loan (ce_base ext) h k i r amt d))"
  "bal.framed (pool_call (\<lambda>h. claim_revenue (ce_base ext) h k))"
  by (rule balanced_pool_call [of _ "ce_base ext" "Recapitalize k p amt"], simp_all add: state_of_Inr)
    (rule balanced_pool_call [of _ "ce_base ext" "Flash_Loan k i r amt d"], simp_all add: state_of_Inr,
     rule balanced_pool_call [of _ "ce_base ext" "Claim_Revenue k"], simp_all add: state_of_Inr)

lemma balanced_guard [frame_rules]: "bal.framed m \<Longrightarrow> bal.framed (with_flash_guard m)"
  unfolding with_flash_guard_def
  by (auto simp: admin_write_def account_data_def set_flash_loan_ongoing_def intro!: frame_rules)

lemma balanced_delegate [frame_rules]:
  fixes ext :: "'w ctl_externals"
  shows "bal.framed (set_account_delegate ext c i d b)"
proof -
  define add :: "('w, unit) ctl" where "add = fbind (read_store_res (storage_add_delegate i c d)) (\<lambda>(changed, st). upd_store (\<lambda>_. st))"
  define rm :: "('w, unit) ctl" where "rm = fbind (read_store (storage_remove_delegate i c d)) (\<lambda>(changed, st). upd_store (\<lambda>_. st))"
  have "bal.framed add" "bal.framed rm"
    unfolding add_def rm_def
    by (auto simp: res_iff read_store_res_def read_store_def upd_store_def rbind_Inr_iff storage_add_delegate_def storage_remove_delegate_def
      set_delegates_def same_ledger_def Let_def split: if_splits option.splits intro!: bal.framedI balanced_frame)
  then show ?thesis
    unfolding set_account_delegate_def add_def [symmetric] rm_def [symmetric] by (auto intro!: frame_rules)
qed

lemma balanced_markets [frame_rules]:
  "bal.framed (markets_update_indexes c ks)" "bal.framed (markets_claim_revenue ext c ks)" "bal.framed (markets_recapitalize ext p k amt)"
  "bal.framed (process_flash_loan ext c k amt r d)"
  unfolding markets_update_indexes_def markets_claim_revenue_def claim_revenue_for_asset_def markets_recapitalize_def
    process_flash_loan_def Let_def
  by (auto intro!: frame_rules intro: balanced_framed frame_rules)

section \<open>The threshold refresh\<close>

lemma sync_step_held:
  assumes "sync_threshold_step ext scope k acc t = Inr (acc', t')" and "acct_ok (snd acc)"
  shows "held_supply (snd acc') = held_supply (snd acc) \<and> acct_ok (snd acc')"
proof -
  obtain changed a where acc: "acc = (changed, a)" by (cases acc)
  from assms(1) obtain listed t1 where "(case listed of
        None \<Rightarrow> fret (changed, a)
      | Some cfg \<Rightarrow>
          fbind (flift (expect_invariant (smap_get (acc_supply_positions a) k))) (\<lambda>raw.
          fbind (refresh_supply_risk_params ext a k (account_position_of_raw raw) (asset_config_of cfg) scope)
            (\<lambda>(changed', updated).
          if \<not> changed' then fret (changed, a)
          else fbind (cached_market_index k) (\<lambda>_. fret (True, update_or_remove_supply_position a k updated))))) t1 = Inr (acc', t')"
    by (auto simp: sync_threshold_step_def acc fbind_Inr)
  then consider (same) "acc' = (changed, a)"
    | (refreshed) raw updated cfg t2 t3 where "smap_get (acc_supply_positions a) k = Some raw"
        "refresh_supply_risk_params ext a k (account_position_of_raw raw) (asset_config_of cfg) scope t2 = Inr ((True, updated), t3)"
        "acc' = (True, update_or_remove_supply_position a k updated)"
    by (cases listed) (auto simp: fbind_Inr fret_Inr flift_Inr expect_invariant_def unwrap_Inr_iff split: if_splits)
  then show ?thesis
  proof cases
    case refreshed
    have "ap_scaled_amount updated = apr_scaled_amount raw" using refresh_scaled [OF refreshed(2)] by simp
    then show ?thesis using assms(2) refreshed(1,3) by (simp add: acc held_update_supply held_rewrite)
  qed (use assms(2) acc in simp)
qed

lemma sync_account_ledger: "bal.framed (sync_account_thresholds ext scope i)"
proof (rule bal.framedI)
  fix s u s'
  assume r: "sync_account_thresholds ext scope i s = Inr (u, s')"
  have "ledger_ok s'" if ok: "ledger_ok s"
  proof (cases "get_supply_positions (sy_store s) i = [] \<or> try_get_account_meta (sy_store s) i = None \<or> try_account_owner ext s i = None")
    case True
    then show ?thesis using r ok by (auto simp: sync_account_thresholds_def Let_def split: option.splits)
  next
    case False
    then obtain owner meta where ne: "get_supply_positions (sy_store s) i \<noteq> []" and o: "try_account_owner ext s i = Some owner" "try_get_account_meta (sy_store s) i = Some meta" by auto
    define a where "a = account_from_parts owner meta (get_supply_positions (sy_store s) i)
      (if scope = FullTuple then get_debt_positions (sy_store s) i else [])"
    let ?gate = "\<lambda>a'. if scope = FullTuple then
        fbind (calculate_account_risk_totals ext (acc_supply_positions a') (acc_borrow_positions a')) (\<lambda>totals.
        fassert (rt_health_factor totals \<ge> THRESHOLD_UPDATE_MIN_HF_RAW) (Collateral HealthFactorTooLow)) else fret ()"
    have "fbind (ffold (sync_threshold_step ext scope) (smap_keys (get_supply_positions (sy_store s) i)) (False, a)) (\<lambda>(changed, a').
      fbind (if changed then upd_store (set_supply_positions i (acc_supply_positions a')) else fret ()) (\<lambda>_. ?gate a')) s = Inr (u, s')"
      using r by (simp only: sync_account_thresholds_def Let_def a_def [symmetric] o option.case ne if_False)
    then obtain x t where f: "ffold (sync_threshold_step ext scope) (smap_keys (get_supply_positions (sy_store s) i)) (False, a) s = Inr (x, t)"
      and rest: "(case x of (changed, a') \<Rightarrow>
        fbind (if changed then upd_store (set_supply_positions i (acc_supply_positions a')) else fret ()) (\<lambda>_. ?gate a')) t = Inr (u, s')"
      by (rule fbind_cases)
    obtain changed a' where x: "x = (changed, a')" by (cases x)
    from rest obtain v t1 where w: "(if changed then upd_store (set_supply_positions i (acc_supply_positions a')) else fret ()) t = Inr (v, t1)"
      and g: "?gate a' t1 = Inr (u, s')"
      unfolding x prod.case by (rule fbind_cases)
    note f = f [unfolded x]
    have T: "table_ok (cs_supply_positions (sy_store s))" "table_ok (cs_borrow_positions (sy_store s))"
      using ok by (simp_all add: ledger_ok_def ledger_off_def)
    have a: "acct_ok a" "held_supply a = stored_supply s i"
      using table_row [OF T(1), where i = i] table_row [OF T(2), where i = i]
      by (auto simp: a_def account_from_parts_def acct_ok_def held_supply_def get_supply_positions_def get_debt_positions_def)
    have "held_supply (snd (changed, a')) = held_supply a \<and> acct_ok (snd (changed, a'))"
    proof (rule ffold_invariant [OF f, where P = "\<lambda>acc _. held_supply (snd acc) = held_supply a \<and> acct_ok (snd acc)"])
      fix k acc t acc' t'
      assume "held_supply (snd acc) = held_supply a \<and> acct_ok (snd acc)" and "sync_threshold_step ext scope k acc t = Inr (acc', t')"
      then show "held_supply (snd acc') = held_supply a \<and> acct_ok (snd acc')" using sync_step_held [of ext scope k acc t acc' t'] by simp
    qed (use a in simp)
    then have a': "held_supply a' = stored_supply s i" "smap_ok (acc_supply_positions a')" using a by (auto simp: acct_ok_def)
    have F: "same_ledger s t" using f by (rule sl.framedD [rotated]) (intro frame_rules)
    have off: "ledger_off t (\<lambda>_. 0) (\<lambda>_. 0)" using ledger_ok_frame [OF F] ok by (simp add: ledger_ok_def)
    have rows: "stored_supply t i = stored_supply s i" using F by (simp add: same_ledger_def)
    have "ledger_ok t1"
    proof (cases changed)
      case True
      then have "t1 = t\<lparr>sy_store := set_supply_positions i (acc_supply_positions a') (sy_store t)\<rparr>"
        using w by (simp add: upd_store_def fwrite_Inr)
      then show ?thesis
        using off_set_supply [OF off a'(2), of i] a'(1) by (simp add: ledger_ok_def rows held_supply_def [symmetric])
    qed (use w off in \<open>simp add: fret_Inr ledger_ok_def\<close>)
    moreover have "same_ledger t1 s'" using g by (rule sl.framedD [rotated]) (auto intro!: frame_rules)
    ultimately show ?thesis by (simp add: ledger_ok_frame)
  qed
  then show "balanced s s'" by (simp add: balanced_def)
qed

lemma balanced_thresholds [frame_rules]: "bal.framed (update_account_threshold ext c b ids)"
  unfolding update_account_threshold_def Let_def by (auto intro!: frame_rules sync_account_ledger)

section \<open>Invocations\<close>

lemma balancedD: "bal.framed m \<Longrightarrow> m s = Inr (u, s') \<Longrightarrow> ledger_ok s \<Longrightarrow> ledger_ok s'"
  using bal.framedD [of m s u s'] by (simp add: balanced_def)

lemma socialize_framed [frame_rules]: "bal.framed (socialize_bad_debt ext i gate)"
  by (rule bal.framedI) (auto simp: balanced_def intro: socialize_ledger)

lemma admin_ledger:
  assumes "admin_dispatch ext cl s = Inr (u, s')" and "ledger_ok s" and "\<And>h. cl \<noteq> Adm_Deploy_Pool h"
  shows "ledger_ok s'"
proof -
  have "bal.framed (admin_dispatch ext cl)"
    using assms(3) bal_admin.framed_admin [of cl ext]
    by (cases cl) (auto simp: process_force_socialize_bad_debt_def intro!: frame_rules)
  then show ?thesis using assms(1,2) by (rule balancedD)
qed

lemma strategy_ledger:
  assumes "ctl_dispatch ext cl s = Inr (u, s')" and "ledger_ok s" and "mint_fresh ext s" and "strategy_call cl"
  shows "ledger_ok s'"
proof -
  have "conserving ext (ctl_dispatch ext cl)"
    using assms(4) by (cases cl)
      (auto simp: when_not_paused_def discard_def intro!: conserving_after conserving_discard strategies_conserve frame_rules)
  then show ?thesis using assms(1-3) by (rule conservingD)
qed

lemma user_ledger:
  assumes "ctl_dispatch ext cl s = Inr (u, s')" and "ledger_ok s" and "mint_fresh ext s" and "\<not> is_admin cl"
  shows "ledger_ok s'"
proof (cases cl)
  case (Ctl_Supply c i sp ps)
  then show ?thesis using assms supply_ledger [of ext c i sp ps s _ s'] by (auto simp: when_not_paused_def discard_def res_iff read_store_def)
next
  case (Ctl_Borrow c i ps t)
  then show ?thesis using assms borrow_ledger [of ext c i ps t s _ s'] by (auto simp: when_not_paused_def res_iff read_store_def)
next
  case (Ctl_Withdraw c i ps t)
  then show ?thesis using assms withdraw_ledger [of ext c i ps t s _ s'] by (auto simp: discard_def res_iff)
next
  case (Ctl_Repay c i ps)
  then show ?thesis using assms repay_ledger [of ext c i ps s _ s'] by simp
next
  case (Ctl_Liquidate l i ps m)
  then show ?thesis using assms liquidation_ledger [of ext l i ps m s _ s'] by (auto simp: discard_def res_iff)
qed (use assms strategy_ledger [OF assms(1-3)] in \<open>auto simp: when_not_paused_def discard_def process_clean_bad_debt_def clean_bad_debt_standalone_def
    add_delegate_def remove_delegate_def elim!: balancedD [rotated] intro!: frame_rules\<close>)

section \<open>Histories\<close>

text \<open>Before deployment no call of the pool succeeds, and afterwards only the controller's do.\<close>

lemma dispatch_owner:
  assumes "dispatch ext cl h = Inr h'"
  shows "\<exists>owner. h_owner h = Some owner \<and> h_auth h owner"
  using assms by (cases cl) (auto simp: only_owner_Inr state_of_Inr create_market_def update_params_def upgrade_def
    pool_supply_def borrow_def withdraw_def repay_def update_indexes_def recapitalize_def flash_loan_def
    create_strategy_def seize_positions_def net_settle_def claim_revenue_def)

definition stays_unborn :: "'w system \<Rightarrow> 'w system \<Rightarrow> bool" where
  "stays_unborn s s' \<longleftrightarrow> (unborn (sy_pool s) \<longrightarrow> unborn (sy_pool s'))"

lemma unborn_dispatch: "dispatch ext cl (h\<lparr>h_auth := auth\<rparr>) = Inr h' \<Longrightarrow> \<not> unborn h"
  by (auto simp: unborn_def dest!: dispatch_owner)

interpretation ub: ctl_frame stays_unborn ext for ext :: "'w ctl_externals"
  by unfold_locales (auto simp: stays_unborn_def unborn_def [of "(sy_pool s)\<lparr>h_world := w\<rparr>" for s w] unborn_def set_world_def
    dest: unborn_dispatch)

interpretation ub_admin: admin_frame stays_unborn ext for ext :: "'w ctl_externals"
  by unfold_locales (auto simp: stays_unborn_def unborn_def set_world_def dest: unborn_dispatch)

lemma stays_unborn_admin:
  assumes "\<And>h. cl \<noteq> Adm_Deploy_Pool h"
  shows "ub.framed (admin_dispatch ext cl)"
proof (cases "plain_admin cl")
  case False
  then show ?thesis using assms by (cases cl) (auto intro!: frame_rules)
qed (rule ub_admin.framed_admin)

text \<open>What holds of the ledger between two invocations.\<close>

definition books_balance :: "'w ctl_externals \<Rightarrow> 'w system \<Rightarrow> bool" where
  "books_balance ext s \<longleftrightarrow> ledger_ok s \<and> pool_wired ext s \<and> (cs_pool (sy_store s) = None \<longrightarrow> unborn (sy_pool s))"

lemma empty_shares:
  "h_params h = Map.empty \<Longrightarrow> h_state h = Map.empty \<Longrightarrow> user_shares h = (\<lambda>_. 0) \<and> debt_shares h = (\<lambda>_. 0) \<and> host_ok h"
  by (simp add: user_shares_def [abs_def] debt_shares_def [abs_def] host_ok_def)

lemma unborn_shares: "unborn h \<Longrightarrow> user_shares h = (\<lambda>_. 0) \<and> debt_shares h = (\<lambda>_. 0) \<and> host_ok h"
  unfolding unborn_def by (intro empty_shares) simp_all

lemma deploy_pool_ledger:
  assumes "deploy_pool wasm s = Inr (p, s')" and "books_balance ext s"
  shows "ledger_ok s'"
proof -
  from assms(1) have none: "cs_pool (sy_store s) = None"
    and s': "s' = s\<lparr>sy_pool := sy_pool s', sy_store := (sy_store s)\<lparr>cs_pool := Some p\<rparr>\<rparr>"
    and e: "h_params (sy_pool s') = Map.empty" "h_state (sy_pool s') = Map.empty"
    by (auto simp: deploy_pool_def res_iff read_store_def upd_store_def try_get_pool_def pool_constructor_def)
  then have ok: "ledger_ok s" "unborn (sy_pool s)" using assms(2) by (auto simp: books_balance_def)
  note new = empty_shares [OF e]
  have "ledger_ok (s\<lparr>sy_pool := sy_pool s'\<rparr>)"
    using unborn_shares [OF ok(2)] new by (intro ledger_same_books ok(1)) simp_all
  then show ?thesis
    by (subst s') (simp add: ledger_ok_def ledger_off_def claimed_supply_def claimed_debt_def)
qed

lemma invoke_balance:
  assumes run: "ctl_dispatch ext cl s = Inr (u, s')" and bal: "books_balance ext s" and fresh: "mint_fresh ext s"
  shows "books_balance ext s'"
proof -
  have wired: "pool_wired ext s'" using invoke_wired [OF run] bal by (simp add: books_balance_def)
  show ?thesis
  proof (cases "is_admin cl")
    case False
    note ub = ub.framedD [OF ub.framed_user_call run, OF False] and kp = kp.framedD [OF kp.framed_user_call run, OF False]
    then show ?thesis
      using user_ledger [OF run _ fresh False] bal wired by (auto simp: books_balance_def stays_unborn_def keeps_pool_def)
  next
    case True
    with run show ?thesis
    proof (cases rule: admin_invocation)
      case (call a owner)
      note adm = call(2)
      show ?thesis
      proof (cases "\<exists>w. a = Adm_Deploy_Pool w")
      case True
      with adm obtain w p where d: "deploy_pool w s = Inr (p, s')" by (auto simp: discard_def res_iff)
      then have "cs_pool (sy_store s') \<noteq> None" by (auto simp: deploy_pool_def res_iff upd_store_def)
      then show ?thesis using deploy_pool_ledger [OF d bal] wired by (auto simp: books_balance_def)
    next
      case False
      note ub = ub.framedD [OF stays_unborn_admin adm] and kp = kp.framedD [OF keeps_pool_admin adm]
      show ?thesis
        using admin_ledger [OF adm] ub kp False bal wired by (auto simp: books_balance_def stays_unborn_def keeps_pool_def)
    qed
    next
      case (accept accepted w)
      have "ledger_ok s'" "cs_pool (sy_store s') = cs_pool (sy_store s)" "unborn (sy_pool s) = unborn (sy_pool s')"
        using bal unfolding accept(3)
        by (auto simp: books_balance_def ledger_ok_def ledger_off_def claimed_supply_def claimed_debt_def set_world_def unborn_def host_ok_def
          user_shares_def debt_shares_def)
      then show ?thesis using bal wired by (simp add: books_balance_def)
    qed
  qed
qed

lemma step_balance:
  assumes "sys_step ext s s'" and bal: "books_balance ext s" and fresh: "mint_fresh ext s"
  shows "books_balance ext s'"
  using assms(1)
proof (cases rule: sys_step.cases)
  case (invoke cl u)
  then show ?thesis using invoke_balance bal fresh by blast
next
  case (direct auth cl h)
  then have "h_owner (sy_pool s) = Some (sy_self s)" using bal by (auto simp: books_balance_def pool_wired_def)
  then show ?thesis using dispatch_owner [OF direct(4)] direct(3) by simp
next
  case (environ t w auth)
  have "same_ledger s s'" by (simp add: environ(1) same_ledger_def)
  moreover have "pool_step (ce_base ext) (sy_pool s) ((sy_pool s)\<lparr>h_timestamp := t, h_auth := h_auth (sy_pool s), h_world := w\<rparr>)"
    using environ(2) by (rule pool_step.env_step)
  ultimately show ?thesis
    using bal pool_wired_drives [of ext s s'] ledger_ok_frame [of s s']
    by (auto simp: environ(1) books_balance_def drives_def keeps_pool_def unborn_def)
qed

text \<open>Histories in which the position NFT has issued no account id twice.\<close>

inductive sys_history :: "'w ctl_externals \<Rightarrow> 'w system \<Rightarrow> bool" for ext where
  started: "\<lbrakk>sy_store s = blank_store code; unborn (sy_pool s); controller_init admin s = Inr (u, s')\<rbrakk> \<Longrightarrow> sys_history ext s'"
| continued: "\<lbrakk>sys_history ext s; mint_fresh ext s; sys_step ext s s'\<rbrakk> \<Longrightarrow> sys_history ext s'"

lemma sys_history_reachable: "sys_history ext s \<Longrightarrow> sys_reachable ext s"
  by (induction rule: sys_history.induct) (auto intro: sys_reachable.intros)

lemma history_balance: "sys_history ext s \<Longrightarrow> books_balance ext s"
proof (induction rule: sys_history.induct)
  case (started s code admin u s')
  then have w: "sys_reachable ext s'" by (rule sys_reachable.created)
  have s': "sy_pool s' = sy_pool s" "cs_supply_positions (sy_store s') = Map.empty" "cs_borrow_positions (sy_store s') = Map.empty"
    "cs_pool (sy_store s') = None"
    using started(1,3) by (auto simp: controller_init_def res_iff upd_store_def blank_store_def set_position_limits_def
      set_min_borrow_collateral_usd_def pausable_pause_def read_store_def)
  then show ?case
    using unborn_shares [OF started(2)] started(2) sys_reachable_wired [OF w]
    by (simp add: books_balance_def ledger_ok_def ledger_off_def claimed_supply_def claimed_debt_def column_def table_ok_def)
qed (rule step_balance)

end
