(* ===== verification/Controller_Samples.thy ===== *)
theory Controller_Samples
  imports Controller_Shares Samples
begin

text \<open>
  Concrete data for the witnesses about the controller: a chain whose state is the pool's balance of one
  token, the last account id the position NFT has issued and the price of the token, and an execution from
  the constructor to a funded, borrowing account.
\<close>

record chain =
  ch_cash :: int
  ch_issued :: nat
  ch_price :: int

definition lab_ext :: "chain ctl_externals" where
  "lab_ext =
     \<lparr>ce_base =
        \<lparr>token_balance = (\<lambda>_ who w. Inr (if who = 100 then ch_cash w else 0)),
         token_allowance = (\<lambda>_ _ _ w. Inr i128_max),
         token_transfer = (\<lambda>_ _ dest a w. Inr (w\<lparr>ch_cash := (if dest = 100 then ch_cash w + a else ch_cash w - a)\<rparr>)),
         token_transfer_from = (\<lambda>_ _ _ _ a w. Inr (w\<lparr>ch_cash := ch_cash w + a\<rparr>)),
         executable_is_wasm = (\<lambda>_ _. True), execute_flash_loan = (\<lambda>_ _ _ _ _ _ _ w. Inr w)\<rparr>,
      ce_prices = (\<lambda>_ _ w. Inr (\<lambda>_. Some \<lparr>pf_price = ch_price w, pf_asset_decimals = 6, pf_timestamp = 0\<rparr>)),
      ce_nft_mint = (\<lambda>_ _ w. Inr (ch_issued w + 1, w\<lparr>ch_issued := ch_issued w + 1\<rparr>)),
      ce_nft_burn = (\<lambda>_ _ w. Inr w), ce_nft_owner_of = (\<lambda>_ _ _. Some 9),
      ce_nft_deploy = (\<lambda>_ _ w. Inr (60, w)), ce_nft_upgrade = (\<lambda>_ _ w. Inr w),
      ce_execute_strategy = (\<lambda>_ _ _ _ _ w. Inr w), ce_execute_flash_position = (\<lambda>_ _ _ _ _ _ _ _ _ w. Inr w),
      ce_blend_submit = (\<lambda>_ _ _ _ _ _ w. Inr w),
      ce_transfer_role = (\<lambda>_ _ w. Inr w), ce_accept_ownership = (\<lambda>auth w. if auth 9 then Inr (9, w) else Inl (Host AuthFailed))\<rparr>"

definition lab_args :: spoke_asset_args where
  "lab_args =
     \<lparr>sg_hub_id = 1, sg_asset = 7, sg_spoke_id = 1, sg_can_collateral = True, sg_can_borrow = True,
      sg_paused = False, sg_frozen = False, sg_no_seize = False, sg_ltv = 7500, sg_threshold = 8000,
      sg_bonus = 500, sg_liquidation_fees = 100, sg_supply_cap = 10000000000, sg_borrow_cap = 10000000000\<rparr>"

definition lab_chain :: chain where
  "lab_chain = \<lparr>ch_cash = 0, ch_issued = 0, ch_price = WAD\<rparr>"

definition lab_pool :: "chain host" where
  "lab_pool =
     \<lparr>h_params = Map.empty, h_state = Map.empty, h_owner = None, h_self = 100, h_code = [],
      h_timestamp = 1000, h_auth = (\<lambda>_. False), h_world = lab_chain\<rparr>"

definition lab_bare :: "chain system" where
  "lab_bare = \<lparr>sy_store = blank_store [], sy_self = 1, sy_auth = (\<lambda>a. a = 42 \<or> a = 9), sy_pool = lab_pool, sy_ctx = context_empty\<rparr>"

section \<open>Set-up\<close>

definition lab_spoke :: spoke_config where
  "lab_spoke = \<lparr>sc_is_deprecated = False, sc_liquidation_target_hf_wad = DEFAULT_LIQUIDATION_TARGET_HF_WAD,
     sc_hf_for_max_bonus_wad = DEFAULT_HF_FOR_MAX_BONUS_WAD, sc_liquidation_bonus_factor_bps = DEFAULT_LIQUIDATION_BONUS_FACTOR_BPS\<rparr>"

definition lab_store :: "bool \<Rightarrow> ctl_store" where
  "lab_store paused =
     \<lparr>cs_owner = Some 42, cs_paused = paused, cs_app_version = Some 1, cs_code = [], cs_pool = Some 100,
      cs_position_nft = Some 60, cs_price_aggregator = Some 50, cs_swap_aggregator = None, cs_accumulator = None,
      cs_position_limits = Some \<lparr>pl_max_borrow_positions = POSITION_LIMIT_MAX, pl_max_supply_positions = POSITION_LIMIT_MAX\<rparr>,
      cs_min_borrow_collateral_usd = Some DEFAULT_MIN_BORROW_COLLATERAL_USD_WAD, cs_last_hub_id = 1, cs_last_spoke_id = 1,
      cs_hubs = [1 \<mapsto> True], cs_spokes = [1 \<mapsto> lab_spoke], cs_spoke_assets = [(1, demo_key) \<mapsto> listing_of_args lab_args],
      cs_spoke_flags_epoch = [(1, demo_key) \<mapsto> 1],
      cs_spoke_usage = Map.empty, cs_account_meta = Map.empty, cs_supply_positions = Map.empty,
      cs_borrow_positions = Map.empty, cs_delegates = Map.empty, cs_position_managers = Map.empty,
      cs_blend_pools = {}, cs_flash_loan_ongoing = False\<rparr>"

lemmas store_eval = blank_store_def controller_init_def set_position_limits_def set_min_borrow_collateral_usd_def
  pausable_pause_def pausable_unpause_def set_price_aggregator_def deploy_pool_def deploy_position_nft_def create_hub_def
  create_liquidity_pool_def add_spoke_def add_asset_to_spoke_def upsert_spoke_asset_def stored_listing_def
  ctl_only_owner_def read_store_res_def read_store_def upd_store_def require_auth_def discard_def try_get_pool_def get_pool_def
  world_call_def pool_call_def pool_view_def set_world_def fbind_def fret_def fassert_def flift_def fread_def fwrite_def
  increment_hub_id_def increment_spoke_id_def increment_counter_def set_hub_def set_spoke_def get_spoke_def get_spoke_asset_def
  set_spoke_asset_def bump_spoke_flags_epoch_def get_spoke_flags_epoch_def require_hub_active_def get_hub_def
  lab_ext_def lab_args_def lab_chain_def lab_pool_def lab_bare_def lab_spoke_def

text \<open>The states after the constructor and after each configuration call, and a time step that clears the caches.\<close>

definition lab1 :: "chain system" where
  "lab1 = lab_bare\<lparr>sy_store := (blank_store [])\<lparr>cs_owner := Some 42, cs_paused := True, cs_app_version := Some 1,
     cs_position_limits := Some \<lparr>pl_max_borrow_positions = POSITION_LIMIT_MAX, pl_max_supply_positions = POSITION_LIMIT_MAX\<rparr>,
     cs_min_borrow_collateral_usd := Some DEFAULT_MIN_BORROW_COLLATERAL_USD_WAD\<rparr>\<rparr>"

definition lab2 :: "chain system" where
  "lab2 = lab1\<lparr>sy_store := (sy_store lab1)\<lparr>cs_price_aggregator := Some 50\<rparr>\<rparr>"

definition lab3 :: "chain system" where
  "lab3 = lab2\<lparr>sy_store := (sy_store lab2)\<lparr>cs_pool := Some 100\<rparr>, sy_pool := lab_pool\<lparr>h_owner := Some 1\<rparr>\<rparr>"

definition lab4 :: "chain system" where
  "lab4 = lab3\<lparr>sy_store := (sy_store lab3)\<lparr>cs_position_nft := Some 60\<rparr>\<rparr>"

definition lab5 :: "chain system" where
  "lab5 = lab4\<lparr>sy_store := (sy_store lab4)\<lparr>cs_last_hub_id := 1, cs_hubs := [1 \<mapsto> True]\<rparr>\<rparr>"

definition lab_market :: "chain host" where
  "lab_market = lab_pool\<lparr>h_owner := Some 1, h_auth := (\<lambda>a. a = 1), h_params := [demo_key \<mapsto> demo_params],
     h_state := [demo_key \<mapsto> demo_state 0 0 0 0]\<rparr>"

definition lab6 :: "chain system" where
  "lab6 = lab5\<lparr>sy_pool := lab_market\<rparr>"

definition lab7 :: "chain system" where
  "lab7 = lab6\<lparr>sy_store := (sy_store lab6)\<lparr>cs_last_spoke_id := 1, cs_spokes := [1 \<mapsto> lab_spoke]\<rparr>\<rparr>"

definition lab8 :: "chain system" where
  "lab8 = lab7\<lparr>sy_store := lab_store True\<rparr>"

definition lab_ready :: "chain system" where
  "lab_ready = lab7\<lparr>sy_store := lab_store False\<rparr>"

lemmas lab_states = lab1_def lab2_def lab3_def lab4_def lab5_def lab6_def lab7_def lab8_def lab_ready_def lab_store_def
  lab_market_def listing_of_args_def

lemma lab_init: "controller_init 42 lab_bare = Inr ((), lab1)"
  by (simp add: store_eval eval_defs lab_states INITIAL_APP_VERSION_def)

lemma lab_configure:
  "ctl_dispatch lab_ext (Ctl_Admin (Adm_Set_Price_Aggregator 50)) lab1 = Inr ((), lab2)"
  "ctl_dispatch lab_ext (Ctl_Admin (Adm_Deploy_Pool [])) lab2 = Inr ((), lab3)"
  "ctl_dispatch lab_ext (Ctl_Admin (Adm_Deploy_Nft [])) lab3 = Inr ((), lab4)"
  "ctl_dispatch lab_ext (Ctl_Admin Adm_Create_Hub) lab4 = Inr ((), lab5)"
  "ctl_dispatch lab_ext (Ctl_Admin (Adm_Create_Market 1 7 demo_params)) lab5 = Inr ((), lab6)"
  "ctl_dispatch lab_ext (Ctl_Admin Adm_Add_Spoke) lab6 = Inr ((), lab7)"
  "ctl_dispatch lab_ext (Ctl_Admin (Adm_Add_Asset lab_args)) lab7 = Inr ((), lab8)"
  "ctl_dispatch lab_ext (Ctl_Admin Adm_Unpause) lab8 = Inr ((), lab_ready)"
  by (simp_all add: store_eval eval_defs lab_states)

section \<open>A funded account that borrows\<close>

definition lab_position :: "account_position_raw" where
  "lab_position = \<lparr>apr_scaled_amount = 1000 * RAY, apr_liquidation_threshold = 8000, apr_liquidation_bonus = 500,
     apr_loan_to_value = 7500, apr_liquidation_fees = 100\<rparr>"

definition lab_supplied :: "chain system" where
  "lab_supplied = lab_ready\<lparr>
     sy_store := (lab_store False)\<lparr>cs_account_meta := [1 \<mapsto> \<lparr>am_spoke_id = 1, am_mode = Normal\<rparr>],
       cs_supply_positions := [1 \<mapsto> [(demo_key, lab_position)]],
       cs_spoke_usage := [(1, demo_key) \<mapsto> \<lparr>su_supplied_scaled_ray = 1000 * RAY, su_borrowed_scaled_ray = 0\<rparr>]\<rparr>,
     sy_pool := lab_market\<lparr>h_state := [demo_key \<mapsto> demo_state (1000 * RAY) 0 0 1000000000],
       h_world := \<lparr>ch_cash = 1000000000, ch_issued = 1, ch_price = WAD\<rparr>\<rparr>\<rparr>"

definition lab_borrowed :: "chain system" where
  "lab_borrowed = lab_supplied\<lparr>
     sy_store := (sy_store lab_supplied)\<lparr>
       cs_borrow_positions := [1 \<mapsto> [(demo_key, \<lparr>scaled_amount = 500 * RAY\<rparr>)]],
       cs_spoke_usage := [(1, demo_key) \<mapsto> \<lparr>su_supplied_scaled_ray = 1000 * RAY, su_borrowed_scaled_ray = 500 * RAY\<rparr>]\<rparr>,
     sy_pool := lab_market\<lparr>h_state := [demo_key \<mapsto> demo_state (1000 * RAY) (500 * RAY) 0 500000000],
       h_world := \<lparr>ch_cash = 500000000, ch_issued = 1, ch_price = WAD\<rparr>\<rparr>\<rparr>"

lemmas flow_eval = when_not_paused_def process_supply_def require_authorized_caller_def require_not_flash_loaning_def
  aggregate_positive_payments_def aggregate_payments_def aggregate_step_def aggregate_payment_amount_def
  context_new_def upd_ctx_def read_ctx_def context_empty_def load_or_create_account_def create_account_def create_account_with_def
  active_spoke_def ctx_spoke_config_def ensure_spoke_context_def usage_context_new_def get_position_nft_def set_account_meta_def
  require_third_party_existing_supply_def is_owner_or_delegate_def process_deposit_def validate_position_entry_gates_def
  validate_bulk_position_limits_def get_position_limits_def new_position_keys_def position_present_def
  require_whole_unit_isolation_def require_can_supply_def require_can_borrow_def require_listed_unhalted_config_def
  ctx_require_hub_active_def require_listed_active_config_def require_spoke_asset_def require_spoke_asset_config_def
  cached_spoke_asset_def enforce_spoke_asset_flags_def asset_config_of_def debt_free_def cached_pool_address_def deposit_entry_def
  transfer_amount_measured_def make_pool_action_def scaled_of_account_position_def get_or_create_supply_position_def
  for_each_leg_def merge_supply_leg_def leg_outcome_of_def put_market_index_def refresh_supply_risk_params_def
  apply_gated_liquidation_params_def favors_liquidator_def apply_leg_usage_def apply_spoke_entry_def modify_spoke_usage_def
  usage_apply_entry_def load_usage_row_def get_spoke_usage_def enforce_spoke_cap_def update_or_remove_supply_position_def
  upsert_or_remove_position_def account_position_to_raw_def account_position_of_raw_def as_u32_def finalize_position_flow_def
  persist_spoke_usage_def usage_persist_def set_spoke_usage_def persist_account_positions_def set_supply_positions_def
  write_side_map_def smap_contains_def smap_keys_def

lemmas lab_flow_states = lab_supplied_def lab_borrowed_def lab_position_def

lemma lab_supply:
  "\<exists>c. ctl_dispatch lab_ext (Ctl_Supply 9 0 1 [(demo_key, 1000000000)]) lab_ready = Inr ((), lab_supplied\<lparr>sy_ctx := c\<rparr>)"
  by (simp add: flow_eval store_eval eval_defs lab_states lab_flow_states)

lemmas borrow_eval = process_borrow_def get_account_def try_get_account_def account_from_parts_def try_get_account_meta_def
  require_owner_or_delegate_def require_external_recipient_def settle_borrow_def get_or_create_debt_position_def merge_debt_leg_def
  update_or_remove_debt_position_def enforce_post_pool_solvency_def restamp_listed_supply_ltv_def restamp_step_def
  require_post_pool_risk_gates_def calculate_account_risk_totals_def load_markets_def fetch_prices_def unique_hub_tokens_def
  push_unique_address_def collect_uncached_keys_def fetch_prices_call_def get_price_aggregator_def fetch_market_indexes_def
  portfolio_hub_keys_def iter_typed_positions_def collateral_step_def cached_price_def cached_market_index_def effective_ltv_def
  sum_debt_usd_loaded_def get_min_borrow_collateral_usd_wad_def require_whole_unit_collateral_floor_def set_debt_positions_def
  get_supply_positions_def get_debt_positions_def try_account_owner_def nft_try_owner_of_call_def account_owner_def

lemma lab_borrow:
  "\<exists>c'. ctl_dispatch lab_ext (Ctl_Borrow 9 1 [(demo_key, 500000000)] None) (lab_supplied\<lparr>sy_ctx := c\<rparr>) = Inr ((), lab_borrowed\<lparr>sy_ctx := c'\<rparr>) \<and>
    (\<forall>tok f. cx_token_prices c' tok = Some f \<longrightarrow> 0 \<le> pf_price f)"
  by (simp add: borrow_eval flow_eval store_eval eval_defs lab_states lab_flow_states)

section \<open>The history of that account\<close>

lemma lab_fresh:
  "cs_supply_positions (sy_store s) = Map.empty \<Longrightarrow> cs_borrow_positions (sy_store s) = Map.empty \<Longrightarrow> mint_fresh lab_ext s"
  "mint_fresh lab_ext (lab_supplied\<lparr>sy_ctx := c\<rparr>)"
  by (auto simp: mint_fresh_def lab_ext_def lab_supplied_def lab_market_def lab_store_def lab_pool_def)

lemma lab_history_ready: "sys_history lab_ext lab_ready"
proof -
  have e: "cs_supply_positions (sy_store s) = Map.empty \<and> cs_borrow_positions (sy_store s) = Map.empty"
    if "s \<in> {lab1, lab2, lab3, lab4, lab5, lab6, lab7, lab8, lab_ready}" for s
    using that by (auto simp: lab_states lab_bare_def blank_store_def)
  note step = sys_history.continued [OF _ _ sys_step.invoke]
  have 1: "sys_history lab_ext lab1"
    by (rule sys_history.started [OF _ _ lab_init]) (simp_all add: lab_bare_def lab_pool_def unborn_def)
  have 2: "sys_history lab_ext lab2" by (rule step [OF 1 _ lab_configure(1)]) (use e in \<open>auto intro!: lab_fresh(1)\<close>)
  have 3: "sys_history lab_ext lab3" by (rule step [OF 2 _ lab_configure(2)]) (use e in \<open>auto intro!: lab_fresh(1)\<close>)
  have 4: "sys_history lab_ext lab4" by (rule step [OF 3 _ lab_configure(3)]) (use e in \<open>auto intro!: lab_fresh(1)\<close>)
  have 5: "sys_history lab_ext lab5" by (rule step [OF 4 _ lab_configure(4)]) (use e in \<open>auto intro!: lab_fresh(1)\<close>)
  have 6: "sys_history lab_ext lab6" by (rule step [OF 5 _ lab_configure(5)]) (use e in \<open>auto intro!: lab_fresh(1)\<close>)
  have 7: "sys_history lab_ext lab7" by (rule step [OF 6 _ lab_configure(6)]) (use e in \<open>auto intro!: lab_fresh(1)\<close>)
  have 8: "sys_history lab_ext lab8" by (rule step [OF 7 _ lab_configure(7)]) (use e in \<open>auto intro!: lab_fresh(1)\<close>)
  show ?thesis by (rule step [OF 8 _ lab_configure(8)]) (use e in \<open>auto intro!: lab_fresh(1)\<close>)
qed

lemma lab_history: "\<exists>c. sys_history lab_ext (lab_borrowed\<lparr>sy_ctx := c\<rparr>)"
proof -
  have fresh: "mint_fresh lab_ext lab_ready" by (rule lab_fresh(1)) (simp_all add: lab_states)
  obtain c where s: "sys_history lab_ext (lab_supplied\<lparr>sy_ctx := c\<rparr>)"
    using lab_supply sys_history.continued [OF lab_history_ready fresh sys_step.invoke] by blast
  obtain c' where "ctl_dispatch lab_ext (Ctl_Borrow 9 1 [(demo_key, 500000000)] None) (lab_supplied\<lparr>sy_ctx := c\<rparr>) = Inr ((), lab_borrowed\<lparr>sy_ctx := c'\<rparr>)"
    using lab_borrow by blast
  then show ?thesis using sys_history.continued [OF s lab_fresh(2) sys_step.invoke] by blast
qed

section \<open>An unhealthy account\<close>

text \<open>Its liquidation is planned in a state that has cached every market datum already.\<close>

definition lab_owed :: scaled_position_raw where
  "lab_owed = \<lparr>scaled_amount = 900 * RAY\<rparr>"

definition lab_unhealthy :: account where
  "lab_unhealthy = \<lparr>acc_owner = 9, acc_spoke_id = 1, acc_mode = Normal, acc_supply_positions = [(demo_key, lab_position)],
     acc_borrow_positions = [(demo_key, lab_owed)]\<rparr>"

definition lab_feed :: price_feed where
  "lab_feed = \<lparr>pf_price = WAD, pf_asset_decimals = 6, pf_timestamp = 0\<rparr>"

definition lab_index :: market_index where
  "lab_index = \<lparr>mi_borrow_index = RAY, mi_supply_index = RAY\<rparr>"

definition lab_cached :: "chain system" where
  "lab_cached = lab_borrowed\<lparr>sy_ctx := context_empty\<lparr>cx_token_prices := [7 \<mapsto> lab_feed], cx_market_indexes := [demo_key \<mapsto> lab_index],
     cx_spoke_usage := Some (usage_context_new 1), cx_spoke_config := Some lab_spoke,
     cx_spoke_assets := [demo_key \<mapsto> listing_of_args lab_args]\<rparr>\<rparr>"

lemma lab_cached_reads:
  "cached_price 7 lab_cached = Inr (lab_feed, lab_cached)" "cached_market_index demo_key lab_cached = Inr (lab_index, lab_cached)"
  "ctx_spoke_config 1 lab_cached = Inr (lab_spoke, lab_cached)" "load_markets lab_ext [demo_key, demo_key] lab_cached = Inr ((), lab_cached)"
  "enforce_spoke_asset_flags 1 demo_key pol lab_cached = Inr ((), lab_cached)"
  by (simp_all add: lab_cached_def cached_price_def cached_market_index_def ctx_spoke_config_def ensure_spoke_context_def read_ctx_def
    load_markets_def fetch_prices_def fetch_market_indexes_def unique_hub_tokens_def push_unique_address_def collect_uncached_keys_def
    enforce_spoke_asset_flags_def cached_spoke_asset_def usage_context_new_def fbind_def fret_def fread_def flift_def fassert_def
    rbind_def unwrap_or_panic_def assert_with_error_def demo_key_def listing_of_args_def lab_args_def split: freeze_policy.split)

lemmas plan_eval = calculate_seizure_proportions_def get_account_bonus_params_def max_bonus_for_threshold_def
  curve_from_config_def normalize_repayment_plan_def calculate_repayment_amounts_def repayment_leg_def usd_value_wad_def
  estimate_liquidation_amount_def calculate_linear_bonus_with_target_def bonus_scale_def max_hf_preserving_bonus_bps_def
  liquidation_at_target_def whole_unit_repayment_def process_excess_payment_def sum_repaid_usd_def repays_every_debt_leg_def
  calculate_seized_collateral_def seizure_leg_def seizure_request_def seizure_entry_def seizure_fee_def
  release_unbacked_repayment_def liquidation_plan_validate_def repayment_plan_validate_def seize_entry_valid_def
  DEFAULT_LIQUIDATION_TARGET_HF_WAD_def DEFAULT_HF_FOR_MAX_BONUS_WAD_def DEFAULT_LIQUIDATION_BONUS_FACTOR_BPS_def
  BAD_DEBT_USD_THRESHOLD_def one_unit_per_debt_leg_usd_def unit_usd_of_def


lemma lab_data: "scaled_amount lab_owed = 900 * RAY" "asset demo_key = 7"
  "account_position_of_raw lab_position = \<lparr>ap_scaled_amount = 1000 * RAY, ap_liquidation_threshold = 8000, ap_liquidation_bonus = 500,
     ap_loan_to_value = 7500, ap_liquidation_fees = 100\<rparr>"
  by (simp_all add: lab_owed_def demo_key_def lab_position_def account_position_of_raw_def)

lemma lab_totals: "calculate_account_risk_totals lab_ext [(demo_key, lab_position)] [(demo_key, lab_owed)] lab_cached =
   Inr (\<lparr>rt_total_collateral = 1000 * WAD, rt_ltv_collateral = 750 * WAD, rt_weighted_collateral = 800 * WAD, rt_total_debt = 900 * WAD,
     rt_health_factor = 888888888888888888\<rparr>, lab_cached)"
  by (simp add: calculate_account_risk_totals_def smap_keys_def portfolio_hub_keys_def lab_cached_reads fbind_def iter_typed_positions_def
    collateral_step_def lab_data flift_def fret_def sum_debt_usd_loaded_def lab_index_def lab_feed_def effective_ltv_def
    eval_defs del: demo_key_def)

lemma lab_plan: "\<exists>r. build_liquidation_plan lab_ext lab_unhealthy [(demo_key, 100000000)] lab_cached = Inr r"
  by (simp add: build_liquidation_plan_def plan_eval lab_unhealthy_def lab_totals lab_cached_reads lab_cached_reads [simplified] fbind_def fret_def flift_def fassert_def smap_keys_def
    iter_typed_positions_def lab_data lab_index_def lab_feed_def lab_spoke_def aggregate_positive_payments_def aggregate_payments_def
    aggregate_step_def aggregate_payment_amount_def as_u32_def
    eval_defs del: demo_key_def)

end
