(* ===== verification/Controller_Solvency.thy ===== *)
theory Controller_Solvency
  imports Controller_Machine
begin

text \<open>
  What the risk gates guarantee in exact arithmetic: the valuation rounds collateral down and debt up,
  so an account that passes the gate is covered at the prices and indexes the invocation used. Every
  borrow and every withdrawal ends with that gate on the account it stores.
\<close>

section \<open>Rounding of values\<close>

lemma value_floor_exact:
  assumes "position_value scaled index price = Inr v0" and "position_value_floor scaled index price = Inr v"
  shows "v * RAY\<^sup>2 \<le> scaled * index * price" and "0 \<le> v"
proof -
  from assms(1) have nn: "0 \<le> scaled" "0 \<le> index" "0 \<le> price" by (auto simp: position_value_def res_iff)
  define a where "a = scaled * index div RAY"
  have a0: "0 \<le> a" and ia: "in_i128 a" using assms(2) nn by (auto simp: a_def position_value_floor_def res_iff pos_imp_zdiv_nonneg_iff RAY_def)
  define w where "w = a div 1000000000"
  have v: "v = w * price div WAD" using assms(2) ray_to_wad_eqs(2) [OF a0 ia] by (auto simp: position_value_floor_def res_iff a_def w_def)
  have 1: "v * WAD * (1000000000 * RAY) \<le> w * price * (1000000000 * RAY)"
    using floor_bounds [of WAD "w * price"] by (intro mult_right_mono) (simp_all add: v WAD_def RAY_def)
  have 2: "w * 1000000000 * (price * RAY) \<le> a * (price * RAY)"
    using floor_bounds [of 1000000000 a] nn by (intro mult_right_mono) (simp_all add: w_def RAY_def)
  have 3: "a * RAY * price \<le> scaled * index * price"
    using floor_bounds [of RAY "scaled * index"] nn by (intro mult_right_mono) (simp_all add: a_def RAY_def)
  have "v * RAY\<^sup>2 = v * WAD * (1000000000 * RAY)" by (simp add: RAY_def WAD_def power2_eq_square)
  also note 1
  also have "w * price * (1000000000 * RAY) = w * 1000000000 * (price * RAY)" by simp
  also note 2
  also have "a * (price * RAY) = a * RAY * price" by simp
  also note 3
  finally show "v * RAY\<^sup>2 \<le> scaled * index * price" .
  show "0 \<le> v" using nn a0 by (auto simp: v w_def WAD_def pos_imp_zdiv_nonneg_iff)
qed

lemma ray_to_wad_ceil_exact:
  assumes "ray_to_wad_ceil a = Inr w"
  shows "a \<le> w * 1000000000"
proof -
  have "w = (if 0 \<le> a \<and> a smod 1000000000 \<noteq> 0 then a sdiv 1000000000 + 1 else a sdiv 1000000000)"
    using assms by (auto simp: ray_to_wad_ceil_def rescale_ceil_def rescale_def abs_diff_def RAY_DECIMALS_def WAD_DECIMALS_def
      i128_checked_pow10_def to_i128_opt_def in_i128_def i128_max_def i128_min_def Let_def native_def split: if_splits)
  moreover have "0 \<le> a \<Longrightarrow> a smod 1000000000 = a mod 1000000000" by (cases "a = 0") (simp_all add: signed_modulo_int_def)
  ultimately have "w = ceil_div a 1000000000"
    using sdiv_ceil_if [of 1000000000 a] by (auto simp: dvd_eq_mod_eq_0)
  then show ?thesis using ceil_bounds [of 1000000000 a] by simp
qed

lemma value_ceil_exact:
  assumes "position_value_ceil scaled index price = Inr v" and "0 \<le> price"
  shows "scaled * index * price \<le> v * RAY\<^sup>2"
proof -
  define a where "a = ceil_div (scaled * index) RAY"
  obtain w where w: "ray_to_wad_ceil a = Inr w" and v: "v = ceil_div (w * price) WAD"
    using assms(1) by (auto simp: position_value_ceil_def res_iff a_def)
  have "scaled * index \<le> a * RAY" using ceil_bounds [of RAY "scaled * index"] by (simp add: a_def RAY_def)
  then have 1: "scaled * index * price \<le> a * RAY * price" using assms(2) by (rule mult_right_mono)
  have 2: "a * (RAY * price) \<le> w * 1000000000 * (RAY * price)"
    using ray_to_wad_ceil_exact [OF w] assms(2) by (intro mult_right_mono) (auto simp: RAY_def)
  have 3: "w * price * (RAY * 1000000000) \<le> v * WAD * (RAY * 1000000000)"
    using ceil_bounds [of WAD "w * price"] by (intro mult_right_mono) (auto simp: v WAD_def RAY_def)
  note 1
  also have "a * RAY * price = a * (RAY * price)" by simp
  also note 2
  also have "w * 1000000000 * (RAY * price) = w * price * (RAY * 1000000000)" by simp
  also note 3
  also have "v * WAD * (RAY * 1000000000) = v * RAY\<^sup>2" by (simp add: RAY_def WAD_def power2_eq_square)
  finally show ?thesis .
qed

lemma weight_exact:
  assumes "bps_apply_to_wad_floor b v = Inr r" and "0 \<le> v"
  shows "r * BPS \<le> v * b" and "0 \<le> b"
proof -
  from assms(1) have b: "0 \<le> b" and r: "r = v * half_up_div (b * WAD) BPS div WAD"
    by (auto simp: bps_apply_to_wad_floor_def res_iff)
  have "half_up_div (b * WAD) BPS = b * 100000000000000"
    using exact_quotients(2) [of BPS "b * 100000000000000"] by (simp add: WAD_def BPS_def mult.commute)
  then have "r * WAD \<le> v * (b * 100000000000000)" using floor_bounds [of WAD "v * (b * 100000000000000)"] by (simp add: r WAD_def)
  then show "r * BPS \<le> v * b" by (simp add: WAD_def BPS_def mult.commute)
  show "0 \<le> b" by (rule b)
qed

section \<open>Exact value of an account\<close>

text \<open>At the prices and indexes an invocation has cached; amounts are in units of \<open>RAY\<^sup>2\<close> of the value.\<close>

definition price_at :: "context_cache \<Rightarrow> hub_asset_key \<Rightarrow> int" where
  "price_at c k = (case cx_token_prices c (asset k) of Some f \<Rightarrow> pf_price f | None \<Rightarrow> 0)"

definition index_at :: "(market_index \<Rightarrow> int) \<Rightarrow> context_cache \<Rightarrow> hub_asset_key \<Rightarrow> int" where
  "index_at g c k = (case cx_market_indexes c k of Some ix \<Rightarrow> g ix | None \<Rightarrow> 0)"

definition borrowing_power :: "context_cache \<Rightarrow> (hub_asset_key, account_position_raw) smap \<Rightarrow> int" where
  "borrowing_power c m = (\<Sum>(k, p) \<leftarrow> m. apr_scaled_amount p * index_at mi_supply_index c k * price_at c k *
     int (min (apr_loan_to_value p) (apr_liquidation_threshold p)))"

definition owed_value :: "context_cache \<Rightarrow> (hub_asset_key, scaled_position_raw) smap \<Rightarrow> int" where
  "owed_value c m = (\<Sum>(k, p) \<leftarrow> m. scaled_amount p * index_at mi_borrow_index c k * price_at c k)"

definition prices_nonneg :: "context_cache \<Rightarrow> bool" where
  "prices_nonneg c \<longleftrightarrow> (\<forall>t f. cx_token_prices c t = Some f \<longrightarrow> 0 \<le> pf_price f)"

definition ctx_le :: "context_cache \<Rightarrow> context_cache \<Rightarrow> bool" where
  "ctx_le c c' \<longleftrightarrow> cx_token_prices c \<subseteq>\<^sub>m cx_token_prices c' \<and> cx_market_indexes c \<subseteq>\<^sub>m cx_market_indexes c'"

definition grows :: "'w system \<Rightarrow> 'w system \<Rightarrow> bool" where
  "grows s s' \<longleftrightarrow> ctx_le (sy_ctx s) (sy_ctx s')"

interpretation gr: frame grows
  by unfold_locales (auto simp: grows_def ctx_le_def intro: map_le_trans)

lemma ctx_leD:
  "ctx_le c c' \<Longrightarrow> cx_token_prices c t = Some f \<Longrightarrow> cx_token_prices c' t = Some f"
  "ctx_le c c' \<Longrightarrow> cx_market_indexes c k = Some ix \<Longrightarrow> cx_market_indexes c' k = Some ix"
  unfolding ctx_le_def map_le_def by (metis domI)+

lemma cached_price_is:
  assumes "cached_price t s = Inr (f, s')"
  shows "cx_token_prices (sy_ctx s') t = Some f" and "s' = s"
  using assms by (auto simp: cached_price_def read_ctx_def res_iff unwrap_Inr_iff)

lemma cached_pool_address_caches:
  assumes "cached_pool_address s = Inr (a, s')"
  shows "cx_token_prices (sy_ctx s') = cx_token_prices (sy_ctx s)" and "cx_market_indexes (sy_ctx s') = cx_market_indexes (sy_ctx s)"
  using assms by (auto simp: cached_pool_address_def read_ctx_def upd_ctx_def res_iff read_store_res_def rbind_Inr_iff split: option.splits)

lemma cached_market_index_is:
  assumes "cached_market_index k s = Inr (ix, s')"
  shows "cx_market_indexes (sy_ctx s') k = Some ix" and "grows s s'"
proof -
  have "cx_market_indexes (sy_ctx s') k = Some ix \<and> grows s s'"
  proof (cases "cx_market_indexes (sy_ctx s) k")
    case None
    with assms obtain a t ixs where "cached_pool_address s = Inr (a, t)"
      and "s' = t\<lparr>sy_ctx := (sy_ctx t)\<lparr>cx_market_indexes := (cx_market_indexes (sy_ctx t))(k \<mapsto> ix)\<rparr>\<rparr>"
      by (auto simp: cached_market_index_def put_market_index_def read_ctx_def upd_ctx_def res_iff pool_view_def rbind_Inr_iff Let_def)
    then show ?thesis using cached_pool_address_caches [of s a t] None by (auto simp: grows_def ctx_le_def map_le_def)
  next
    case (Some i)
    with assms show ?thesis by (auto simp: cached_market_index_def read_ctx_def res_iff gr.rel_refl)
  qed
  then show "cx_market_indexes (sy_ctx s') k = Some ix" and "grows s s'" by simp_all
qed

lemma grows_cached [frame_rules]: "gr.framed (cached_price t)" "gr.framed (cached_market_index k)"
  by (auto intro!: gr.framedI simp: gr.rel_refl dest: cached_price_is cached_market_index_is)

lemma collateral_step_exact:
  assumes "collateral_step (k, p) (tc, lc, wc) t = Inr ((tc', lc', wc'), t')" and "ctx_le (sy_ctx t') c"
  shows "lc' * (BPS * RAY\<^sup>2) \<le> lc * (BPS * RAY\<^sup>2) +
    ap_scaled_amount p * index_at mi_supply_index c k * price_at c k * effective_ltv p"
proof -
  from assms(1) obtain feed t1 ix v0 v l where f: "cached_price (asset k) t = Inr (feed, t1)"
    and x: "cached_market_index k t1 = Inr (ix, t')"
    and v0: "position_value (ap_scaled_amount p) (mi_supply_index ix) (pf_price feed) = Inr v0"
    and v: "position_value_floor (ap_scaled_amount p) (mi_supply_index ix) (pf_price feed) = Inr v"
    and l: "bps_apply_to_wad_floor (effective_ltv p) v = Inr l" and lc': "lc' = lc + l"
    by (auto simp: collateral_step_def fbind_Inr flift_Inr fret_Inr wad_Inr)
  have "ctx_le (sy_ctx t1) (sy_ctx t')" using cached_market_index_is(2) [OF x] by (simp add: grows_def)
  then have at: "price_at c k = pf_price feed" "index_at mi_supply_index c k = mi_supply_index ix"
    using ctx_leD(1) [OF assms(2)] ctx_leD(1) [of "sy_ctx t1" "sy_ctx t'"] ctx_leD(2) [OF assms(2) cached_market_index_is(1) [OF x]]
      cached_price_is(1) [OF f] by (simp_all add: price_at_def index_at_def)
  note V = value_floor_exact [OF v0 v]
  note W = weight_exact [OF l V(2)]
  have "l * (BPS * RAY\<^sup>2) = l * BPS * RAY\<^sup>2" by simp
  also have "\<dots> \<le> v * effective_ltv p * RAY\<^sup>2" using W(1) by (rule mult_right_mono) simp
  also have "\<dots> = v * RAY\<^sup>2 * effective_ltv p" by simp
  also have "\<dots> \<le> ap_scaled_amount p * mi_supply_index ix * pf_price feed * effective_ltv p" using V(1) W(2) by (rule mult_right_mono)
  finally show ?thesis by (simp add: lc' at distrib_right)
qed

lemma grows_valuation [frame_rules]:
  "gr.framed (collateral_step leg acc)" "gr.framed (sum_debt_usd_loaded m f)" "gr.framed (require_whole_unit_collateral_floor a)"
  by (auto simp: collateral_step_def sum_debt_usd_loaded_def require_whole_unit_collateral_floor_def split: prod.split intro!: frame_rules)

lemma collateral_fold_exact:
  assumes "ffold collateral_step (iter_typed_positions m) (tc, lc, wc) t = Inr ((tc', lc', wc'), t')" and "ctx_le (sy_ctx t') c"
  shows "lc' * (BPS * RAY\<^sup>2) \<le> lc * (BPS * RAY\<^sup>2) + borrowing_power c m"
  using assms(1)
proof (induction m arbitrary: tc lc wc t)
  case Nil
  then show ?case by (simp add: iter_typed_positions_def fret_Inr borrowing_power_def)
next
  case (Cons e m)
  obtain k raw where e: "e = (k, raw)" by (cases e)
  from Cons.prems obtain tc1 lc1 wc1 t1 where s: "collateral_step (k, account_position_of_raw raw) (tc, lc, wc) t = Inr ((tc1, lc1, wc1), t1)"
    and r: "ffold collateral_step (iter_typed_positions m) (tc1, lc1, wc1) t1 = Inr ((tc', lc', wc'), t')"
    by (auto simp: iter_typed_positions_def e fbind_Inr)
  have "grows t1 t'" using r by (rule gr.framedD [rotated]) (intro frame_rules)
  then have "ctx_le (sy_ctx t1) c" using assms(2) by (auto simp: grows_def ctx_le_def intro: map_le_trans)
  from collateral_step_exact [OF s this] Cons.IH [OF r] show ?case
    by (simp add: borrowing_power_def e effective_ltv_def account_position_of_raw_def of_nat_min)
qed

lemma debt_fold_exact:
  assumes "sum_debt_usd_loaded m position_value_ceil t = Inr (d, t')" and "ctx_le (sy_ctx t') c" and "prices_nonneg c"
  shows "owed_value c m \<le> d * RAY\<^sup>2"
proof -
  let ?step = "\<lambda>(k, position) total. fbind (cached_price (asset k)) (\<lambda>feed. fbind (cached_market_index k) (\<lambda>ix.
       fbind (flift (position_value_ceil (scaled_amount position) (mi_borrow_index ix) (pf_price feed))) (\<lambda>v.
       flift (wad_checked_add total v))))"
  have "d0 * RAY\<^sup>2 + owed_value c m \<le> d * RAY\<^sup>2" if "ffold ?step m d0 t = Inr (d, t')" for d0
    using that
  proof (induction m arbitrary: d0 t)
    case Nil
    then show ?case by (simp add: fret_Inr owed_value_def)
  next
    case (Cons e m)
    obtain k p where e: "e = (k, p)" by (cases e)
    from Cons.prems obtain feed t1 ix t2 v where f: "cached_price (asset k) t = Inr (feed, t1)"
      and x: "cached_market_index k t1 = Inr (ix, t2)"
      and v: "position_value_ceil (scaled_amount p) (mi_borrow_index ix) (pf_price feed) = Inr v"
      and r: "ffold ?step m (d0 + v) t2 = Inr (d, t')"
      by (auto simp: e fbind_Inr flift_Inr wad_Inr)
    have "grows t2 t'" using r by (rule gr.framedD [rotated]) (auto split: prod.split intro!: frame_rules)
    moreover have "grows t1 t2" by (rule cached_market_index_is(2) [OF x])
    ultimately have le: "ctx_le (sy_ctx t2) c" "ctx_le (sy_ctx t1) c" using assms(2) by (auto simp: grows_def ctx_le_def intro: map_le_trans)
    then have at: "cx_token_prices c (asset k) = Some feed" "index_at mi_borrow_index c k = mi_borrow_index ix"
      using ctx_leD cached_price_is(1) [OF f] cached_price_is(2) [OF f] cached_market_index_is(1) [OF x] by (auto simp: index_at_def)
    have "scaled_amount p * mi_borrow_index ix * pf_price feed \<le> v * RAY\<^sup>2"
      using assms(3) at(1) by (intro value_ceil_exact [OF v]) (auto simp: prices_nonneg_def)
    then show ?case using Cons.IH [OF r] at by (simp add: owed_value_def e price_at_def distrib_right)
  qed
  from this [of 0] assms(1) show ?thesis by (simp add: sum_debt_usd_loaded_def)
qed

text \<open>The gate.\<close>

definition covered :: "context_cache \<Rightarrow> (hub_asset_key, account_position_raw) smap \<Rightarrow> (hub_asset_key, scaled_position_raw) smap \<Rightarrow> bool" where
  "covered c held owed \<longleftrightarrow> owed = [] \<or> BPS * owed_value c owed \<le> borrowing_power c held"

lemma risk_gates_cover:
  assumes "require_post_pool_risk_gates ext a t = Inr (u, t')" and "prices_nonneg (sy_ctx t')"
  shows "covered (sy_ctx t') (acc_supply_positions a) (acc_borrow_positions a)"
proof (cases "debt_free a")
  case True
  then show ?thesis by (simp add: covered_def debt_free_def)
next
  case False
  with assms(1) obtain t1 tc lc wc t2 d t3 where
    c: "ffold collateral_step (iter_typed_positions (acc_supply_positions a)) (0, 0, 0) t1 = Inr ((tc, lc, wc), t2)"
    and d: "sum_debt_usd_loaded (acc_borrow_positions a) position_value_ceil t2 = Inr (d, t3)"
    and ge: "d \<le> lc" and w: "require_whole_unit_collateral_floor a t3 = Inr (u, t')"
    by (auto simp: require_post_pool_risk_gates_def calculate_account_risk_totals_def fbind_Inr fret_Inr fassert_Inr flift_Inr
      read_store_def fread_Inr split: if_splits)
  have g3: "grows t3 t'" using w by (rule gr.framedD [rotated]) (rule frame_rules)
  have g2: "grows t2 t3" using d by (rule gr.framedD [rotated]) (rule frame_rules)
  have le: "ctx_le (sy_ctx t3) (sy_ctx t')" "ctx_le (sy_ctx t2) (sy_ctx t')" using g3 gr.rel_trans [OF g2 g3] by (simp_all add: grows_def)
  have "BPS * owed_value (sy_ctx t') (acc_borrow_positions a) \<le> BPS * (d * RAY\<^sup>2)"
    using debt_fold_exact [OF d le(1) assms(2)] by (simp add: BPS_def)
  also have "\<dots> = d * (BPS * RAY\<^sup>2)" by simp
  also have "\<dots> \<le> lc * (BPS * RAY\<^sup>2)" using ge by (rule mult_right_mono) (simp add: BPS_def)
  also have "\<dots> \<le> borrowing_power (sy_ctx t') (acc_supply_positions a)" using collateral_fold_exact [OF c le(2)] by simp
  finally show ?thesis by (simp add: covered_def)
qed

section \<open>The account a flow stores\<close>

definition same_tables :: "'w system \<Rightarrow> 'w system \<Rightarrow> bool" where
  "same_tables s s' \<longleftrightarrow> cs_supply_positions (sy_store s') = cs_supply_positions (sy_store s) \<and>
     cs_borrow_positions (sy_store s') = cs_borrow_positions (sy_store s)"

interpretation tb: pool_frame same_tables ext for ext :: "'w ctl_externals"
  by unfold_locales (auto simp: same_tables_def set_world_def set_flash_loan_ongoing_def)

lemma usage_persist_tables:
  "cs_supply_positions (usage_persist u st) = cs_supply_positions st" "cs_borrow_positions (usage_persist u st) = cs_borrow_positions st"
proof -
  have "cs_supply_positions (foldl (\<lambda>st (k, usage). set_spoke_usage i k usage st) st us) = cs_supply_positions st \<and>
      cs_borrow_positions (foldl (\<lambda>st (k, usage). set_spoke_usage i k usage st) st us) = cs_borrow_positions st" for i us
    by (induction us arbitrary: st) (auto simp: set_spoke_usage_def)
  then show "cs_supply_positions (usage_persist u st) = cs_supply_positions st" "cs_borrow_positions (usage_persist u st) = cs_borrow_positions st"
    by (simp_all add: usage_persist_def)
qed

definition same_ctx :: "'w system \<Rightarrow> 'w system \<Rightarrow> bool" where
  "same_ctx s s' \<longleftrightarrow> sy_ctx s' = sy_ctx s"

interpretation sc: frame same_ctx
  by unfold_locales (auto simp: same_ctx_def)

lemma finalize_keeps_ctx: "sc.framed (finalize_position_flow ext i a sides rm)"
proof -
  have [frame_rules]: "sc.framed (upd_store g)" "sc.framed (world_call f)" "sc.framed (read_store_res r)" "sc.framed (read_ctx q)" for g f r q
    by (rule sc.framedI, auto simp: upd_store_def world_call_def read_store_res_def read_ctx_def res_iff rbind_Inr_iff same_ctx_def set_world_def)+
  show ?thesis
    unfolding finalize_position_flow_def persist_spoke_usage_def persist_account_positions_def cleanup_account_if_empty_def
      remove_account_and_burn_nft_def nft_burn_call_def
    by (auto split: option.split intro!: frame_rules)
qed

text \<open>What is stored for the account afterwards: a removed account has no positions left.\<close>

lemma finalize_stores:
  assumes "finalize_position_flow ext i a sides rm s = Inr (u, s')"
  shows "(account_is_empty a \<and> get_debt_positions (sy_store s') i = []) \<or>
    get_supply_positions (sy_store s') i = (if sides = Debt_Only then get_supply_positions (sy_store s) i else acc_supply_positions a) \<and>
    get_debt_positions (sy_store s') i = (if sides = Supply_Only then get_debt_positions (sy_store s) i else acc_borrow_positions a)"
proof -
  from assms obtain s1 s2 where p: "persist_spoke_usage s = Inr ((), s1)"
    and s2: "s2 = s1\<lparr>sy_store := (if sides = Supply_Only then id else set_debt_positions i (acc_borrow_positions a))
      ((if sides = Debt_Only then id else set_supply_positions i (acc_supply_positions a)) (sy_store s1))\<rparr>"
    and c: "(if rm then cleanup_account_if_empty ext a i else fret ()) s2 = Inr (u, s')"
    by (auto simp: finalize_position_flow_def persist_account_positions_def upd_store_def fbind_Inr fwrite_Inr fret_Inr split: if_splits)
  have t1: "same_tables s s1"
    using p by (auto simp: persist_spoke_usage_def read_ctx_def upd_store_def res_iff same_tables_def usage_persist_tables split: option.splits)
  have stored: "get_supply_positions (sy_store s2) i = (if sides = Debt_Only then get_supply_positions (sy_store s) i else acc_supply_positions a)"
    "get_debt_positions (sy_store s2) i = (if sides = Supply_Only then get_debt_positions (sy_store s) i else acc_borrow_positions a)"
    using t1 by (simp_all add: s2 same_tables_def get_supply_positions_def get_debt_positions_def set_supply_positions_def
      set_debt_positions_def write_side_map_def)
  show ?thesis
  proof (cases "rm \<and> account_is_empty a")
    case True
    with c have "get_debt_positions (sy_store s') i = []"
      by (auto simp: cleanup_account_if_empty_def remove_account_and_burn_nft_def nft_burn_call_def upd_store_def res_iff
        read_store_res_def world_call_def rbind_Inr_iff set_world_def remove_account_entry_def get_debt_positions_def)
    then show ?thesis using True by simp
  next
    case False
    with c have "s' = s2" by (auto simp: cleanup_account_if_empty_def fret_Inr split: if_splits)
    then show ?thesis using stored by simp
  qed
qed

lemma restamp_keeps:
  assumes "restamp_listed_supply_ltv a s = Inr ((changed, a'), s')"
  shows "acc_borrow_positions a' = acc_borrow_positions a" and "\<not> changed \<Longrightarrow> a' = a"
proof -
  let ?P = "\<lambda>acc. acc_borrow_positions (snd acc) = acc_borrow_positions a \<and> (\<not> fst acc \<longrightarrow> snd acc = a)"
  have step: "?P acc'" if "?P acc" "restamp_step keys k acc t = Inr (acc', t')" for keys k acc t acc' t'
  proof -
    obtain ch b where acc: "acc = (ch, b)" by (cases acc)
    have "acc' = acc \<or> (\<exists>p. acc' = (True, update_or_remove_supply_position b k p))"
      using that(2) by (auto simp: restamp_step_def acc fbind_Inr fret_Inr Let_def split: option.splits if_splits)
    then show ?thesis using that(1) by (auto simp: acc update_or_remove_supply_position_def)
  qed
  have "?P (changed, a')"
    by (rule ffold_invariant [OF assms [unfolded restamp_listed_supply_ltv_def Let_def], where P = "\<lambda>acc _. ?P acc"]) (simp, erule (1) step)
  then show "acc_borrow_positions a' = acc_borrow_positions a" and "\<not> changed \<Longrightarrow> a' = a" by auto
qed

lemma solvency_covers:
  assumes "enforce_post_pool_solvency ext a s = Inr ((restamped, a'), s')" and "prices_nonneg (sy_ctx s')"
  shows "covered (sy_ctx s') (acc_supply_positions a') (acc_borrow_positions a')"
    and "acc_borrow_positions a' = acc_borrow_positions a" and "\<not> restamped \<Longrightarrow> a' = a" and "same_tables s s'"
proof -
  from assms(1) obtain t where r: "restamp_listed_supply_ltv a s = Inr ((restamped, a'), t)"
    and g: "require_post_pool_risk_gates ext a' t = Inr ((), s')"
    by (auto simp: enforce_post_pool_solvency_def fbind_Inr fret_Inr)
  show "covered (sy_ctx s') (acc_supply_positions a') (acc_borrow_positions a')" by (rule risk_gates_cover [OF g assms(2)])
  show "acc_borrow_positions a' = acc_borrow_positions a" "\<not> restamped \<Longrightarrow> a' = a" using restamp_keeps [OF r] by auto
  show "same_tables s s'" using assms(1) by (rule tb.framedD [rotated]) (rule frame_rules)
qed

lemma settle_borrow_keeps:
  assumes "settle_borrow ext r agg a s = Inr (a', s')"
  shows "acc_supply_positions a' = acc_supply_positions a"
proof -
  from assms obtain t and legs :: "(pool_borrow_entry \<times> pool_position_mutation) list" where f: "ffold (\<lambda>(entry, result). merge_debt_leg (pa_hub_asset (pbe_action entry)) (Entry (ppm_asset_decimals result))
      (leg_outcome_of result)) legs a t = Inr (a', s')"
    by (auto simp: settle_borrow_def for_each_leg_def Let_def fbind_Inr fassert_Inr)
  show ?thesis
    by (rule ffold_invariant [OF f, where P = "\<lambda>b _. acc_supply_positions b = acc_supply_positions a"])
      (auto simp: merge_debt_leg_def fbind_Inr fret_Inr update_or_remove_debt_position_def)
qed

lemma settle_withdraw_keeps:
  assumes "settle_withdraw ext r agg a s = Inr ((paid, a'), s')"
  shows "acc_borrow_positions a' = acc_borrow_positions a"
proof -
  from assms obtain t t' and legs :: "(pool_withdraw_entry \<times> pool_position_mutation) list" where f: "ffold (\<lambda>(entry, result). merge_withdraw_leg ext Withdraw_Normal (pa_hub_asset (pwe_action entry))
      (leg_outcome_of result)) legs a t = Inr (a', t')"
    by (auto simp: settle_withdraw_def apply_withdraw_batch_def for_each_leg_def Let_def fbind_Inr fassert_Inr fret_Inr)
  show ?thesis
    by (rule ffold_invariant [OF f, where P = "\<lambda>b _. acc_borrow_positions b = acc_borrow_positions a"])
      (auto simp: merge_withdraw_leg_def Let_def fbind_Inr fret_Inr update_or_remove_supply_position_def)
qed

lemma get_account_positions_loaded:
  assumes "get_account ext i s = Inr (a, s')"
  shows "acc_supply_positions a = get_supply_positions (sy_store s) i" and "acc_borrow_positions a = get_debt_positions (sy_store s) i" and "s' = s"
  using assms by (auto simp: get_account_def rbind_Inr_iff unwrap_Inr_iff try_get_account_def account_from_parts_def split: option.splits)

lemma same_tables_positions:
  "same_tables s s' \<Longrightarrow> get_supply_positions (sy_store s') i = get_supply_positions (sy_store s) i"
  "same_tables s s' \<Longrightarrow> get_debt_positions (sy_store s') i = get_debt_positions (sy_store s) i"
  by (simp_all add: same_tables_def get_supply_positions_def get_debt_positions_def)

lemma borrow_covers:
  assumes "process_borrow ext c i borrows to_opt s = Inr (u, s')" and "prices_nonneg (sy_ctx s')"
  shows "covered (sy_ctx s') (get_supply_positions (sy_store s') i) (get_debt_positions (sy_store s') i)"
proof -
  let ?to = "case to_opt of Some t \<Rightarrow> t | None \<Rightarrow> c"
  let ?gates = "\<lambda>a agg. fbind (require_owner_or_delegate i c (acc_owner a)) (\<lambda>_. fbind context_new (\<lambda>_.
    fbind (require_external_recipient ?to) (\<lambda>_. validate_position_entry_gates a agg Borrow)))"
  from assms(1) obtain t a agg t2 a1 t3 restamped a2 t4 where
    g: "get_account ext i t = Inr (a, t)"
    and p: "?gates a agg t = Inr ((), t2)" and st: "settle_borrow ext ?to agg a t2 = Inr (a1, t3)"
    and so: "enforce_post_pool_solvency ext a1 t3 = Inr ((restamped, a2), t4)"
    and f: "finalize_position_flow ext i a2 (if restamped then Both_Sides else Debt_Only) False t4 = Inr (u, s')"
    by (auto simp: process_borrow_def Let_def fbind_Inr flift_Inr get_account_def rbind_Inr_iff)
  have ctx: "sy_ctx s' = sy_ctx t4" using sc.framedD [OF finalize_keeps_ctx f] by (simp add: same_ctx_def)
  note C = solvency_covers [OF so assms(2) [unfolded ctx]]
  have "same_tables t t2" using p by (rule tb.framedD [rotated]) (intro frame_rules)
  moreover have "same_tables t2 t3" using st by (rule tb.framedD [rotated]) (rule frame_rules)
  ultimately have "same_tables t t4" using C(4) tb.rel_trans by blast
  then have "get_supply_positions (sy_store t4) i = acc_supply_positions a"
    using same_tables_positions get_account_positions_loaded [OF g] by metis
  then show ?thesis
    using finalize_stores [OF f] C settle_borrow_keeps [OF st] by (auto simp: ctx covered_def account_is_empty_def split: if_splits)
qed

lemma withdraw_covers:
  assumes "process_withdraw ext c i ws to_opt s = Inr (u, s')" and "prices_nonneg (sy_ctx s')"
  shows "covered (sy_ctx s') (get_supply_positions (sy_store s') i) (get_debt_positions (sy_store s') i)"
proof -
  let ?to = "case to_opt of Some t \<Rightarrow> t | None \<Rightarrow> c"
  let ?gates = "\<lambda>a. fbind (require_owner_or_delegate i c (acc_owner a)) (\<lambda>_. fbind context_new (\<lambda>_. require_external_recipient ?to))"
  from assms(1) obtain t a agg t2 paid a1 t3 restamped a2 t4 where
    g: "get_account ext i t = Inr (a, t)"
    and p: "?gates a t = Inr ((), t2)" and st: "settle_withdraw ext ?to agg a t2 = Inr ((paid, a1), t3)"
    and so: "enforce_post_pool_solvency ext a1 t3 = Inr ((restamped, a2), t4)"
    and f: "finalize_position_flow ext i a2 Supply_Only True t4 = Inr ((), s')"
    by (auto simp: process_withdraw_def Let_def fbind_Inr flift_Inr fret_Inr get_account_def rbind_Inr_iff)
  have ctx: "sy_ctx s' = sy_ctx t4" using sc.framedD [OF finalize_keeps_ctx f] by (simp add: same_ctx_def)
  note C = solvency_covers [OF so assms(2) [unfolded ctx]]
  have "same_tables t t2" using p by (rule tb.framedD [rotated]) (intro frame_rules)
  moreover have "same_tables t2 t3" using st by (rule tb.framedD [rotated]) (rule frame_rules)
  ultimately have "same_tables t t4" using C(4) tb.rel_trans by blast
  then have "get_debt_positions (sy_store t4) i = acc_borrow_positions a"
    using same_tables_positions get_account_positions_loaded [OF g] by metis
  then show ?thesis
    using finalize_stores [OF f] C settle_withdraw_keeps [OF st] by (auto simp: ctx covered_def account_is_empty_def split: if_splits)
qed

end
