(* ===== verification/Strategy_Solvency.thy ===== *)
theory Strategy_Solvency
  imports Controller_Solvency
begin

text \<open>
  Every strategy ends with the risk gate on the account it stores, and touches no other account:
  whatever the router, the receiver or Blend did before, an account that a call changed is covered when the
  call returns.

  Who can move an account. Every risk-gated call first checks its caller's authorisation and that no flash
  loan is running, and then, before anything but the caches has changed, that the caller is the owner of
  the account it names or one of that owner's delegates.
\<close>

definition stored_positions where
  "stored_positions s j = (get_supply_positions (sy_store s) j, get_debt_positions (sy_store s) j)"

definition covers :: "nat \<Rightarrow> 'w system \<Rightarrow> 'w system \<Rightarrow> bool" where
  "covers i s s' \<longleftrightarrow> covered (sy_ctx s') (get_supply_positions (sy_store s') i) (get_debt_positions (sy_store s') i) \<and>
     (\<forall>j. j \<noteq> i \<longrightarrow> stored_positions s' j = stored_positions s j)"

lemma same_tables_stored: "same_tables s s' \<Longrightarrow> stored_positions s' j = stored_positions s j"
  by (simp add: stored_positions_def same_tables_positions)

lemma persist_others:
  assumes "finalize_position_flow ext i a sides rm s = Inr (u, s')" and "j \<noteq> i"
  shows "stored_positions s' j = stored_positions s j"
proof -
  from assms(1) obtain s1 s2 where p: "persist_spoke_usage s = Inr ((), s1)"
    and s2: "s2 = s1\<lparr>sy_store := (if sides = Supply_Only then id else set_debt_positions i (acc_borrow_positions a))
      ((if sides = Debt_Only then id else set_supply_positions i (acc_supply_positions a)) (sy_store s1))\<rparr>"
    and c: "(if rm then cleanup_account_if_empty ext a i else fret ()) s2 = Inr (u, s')"
    by (auto simp: finalize_position_flow_def persist_account_positions_def upd_store_def fbind_Inr fwrite_Inr fret_Inr split: if_splits)
  have "same_tables s s1"
    using p by (auto simp: persist_spoke_usage_def read_ctx_def upd_store_def res_iff same_tables_def usage_persist_tables split: option.splits)
  then have "stored_positions s2 j = stored_positions s j"
    using assms(2) by (simp add: s2 same_tables_def stored_positions_def get_supply_positions_def get_debt_positions_def
      set_supply_positions_def set_debt_positions_def write_side_map_def)
  moreover have "stored_positions s' j = stored_positions s2 j"
    using c assms(2) by (auto simp: cleanup_account_if_empty_def remove_account_and_burn_nft_def nft_burn_call_def upd_store_def res_iff
      read_store_res_def world_call_def rbind_Inr_iff set_world_def remove_account_entry_def stored_positions_def
      get_supply_positions_def get_debt_positions_def split: if_splits)
  ultimately show ?thesis by simp
qed

section \<open>Flows that end covered\<close>

definition covering :: "nat \<Rightarrow> ('w, 'x) ctl \<Rightarrow> bool" where
  "covering i m \<longleftrightarrow> (\<forall>s x s'. m s = Inr (x, s') \<longrightarrow> prices_nonneg (sy_ctx s') \<longrightarrow> covers i s s')"

lemma covering_after:
  assumes "tb.framed m" and "\<And>x. covering i (g x)"
  shows "covering i (fbind m g)"
  unfolding covering_def
proof (intro allI impI)
  fix s y s'
  assume "fbind m g s = Inr (y, s')" and p: "prices_nonneg (sy_ctx s')"
  then obtain x t where m: "m s = Inr (x, t)" and g: "g x t = Inr (y, s')" by (auto simp: fbind_Inr)
  have "covers i t s'" using assms(2) [of x] g p by (simp add: covering_def)
  then show "covers i s s'" using same_tables_stored [OF tb.framedD [OF assms(1) m]] by (simp add: covers_def)
qed

definition settled_only :: "('w, 'x) ctl \<Rightarrow> bool" where
  "settled_only m \<longleftrightarrow> (\<forall>s x s'. m s = Inr (x, s') \<longrightarrow> s' = s)"

lemma settled_only_intros: "settled_only (fret x)" "settled_only (flift r)"
  "settled_only m \<Longrightarrow> (\<And>x. settled_only (g x)) \<Longrightarrow> settled_only (fbind m g)"
  by (auto simp: settled_only_def fret_Inr flift_Inr fbind_Inr, metis)

lemma covering_finalize:
  assumes "\<And>x. settled_only (g x)"
  shows "covering i (fbind (strategy_finalize ext i a) g)"
  unfolding covering_def
proof (intro allI impI)
  fix s y s'
  assume "fbind (strategy_finalize ext i a) g s = Inr (y, s')" and p: "prices_nonneg (sy_ctx s')"
  then obtain restamped a2 t where so: "enforce_post_pool_solvency ext a s = Inr ((restamped, a2), t)"
    and f: "finalize_position_flow ext i a2 Both_Sides True t = Inr ((), s')"
    using assms unfolding strategy_finalize_def settled_only_def by (auto simp: fbind_Inr fret_Inr) (metis)
  have ctx: "sy_ctx s' = sy_ctx t" using sc.framedD [OF finalize_keeps_ctx f] by (simp add: same_ctx_def)
  note C = solvency_covers [OF so p [unfolded ctx]]
  have "stored_positions s' j = stored_positions s j" if "j \<noteq> i" for j
    using persist_others [OF f that] same_tables_stored [OF C(4)] by simp
  then show "covers i s s'"
    using finalize_stores [OF f] C(1) by (auto simp: covers_def ctx covered_def account_is_empty_def)
qed

text \<open>A flow that first loads its account, or creates it under an id the NFT issues.\<close>

lemma load_keeps_tables [frame_rules]: "tb.framed (load_or_create_account ext c j sp mode guard)"
proof -
  have meta: "tb.framed (upd_store (set_account_meta i meta))" for i meta
    unfolding upd_store_def by (intro tb.framed_fwrite) (simp add: same_tables_def set_account_meta_def)
  show ?thesis
    by (auto simp: load_or_create_account_def create_account_def create_account_with_def
      split: prod.split option.split account_guard.split spoke_admission.split intro!: frame_rules meta)
qed

lemma load_names_account:
  "load_or_create_account ext c j sp mode guard s = Inr ((i, a), t) \<Longrightarrow> j \<noteq> 0 \<Longrightarrow> i = j"
  by (auto simp: load_or_create_account_def fbind_Inr fret_Inr split: if_splits)

definition covering_new :: "nat \<Rightarrow> ('w, 'x) ctl \<Rightarrow> bool" where
  "covering_new j m \<longleftrightarrow> (\<forall>s x s'. m s = Inr (x, s') \<longrightarrow> prices_nonneg (sy_ctx s') \<longrightarrow>
     (\<exists>i. covers i s s' \<and> (j \<noteq> 0 \<longrightarrow> i = j)))"

lemma covering_new_of: "covering j m \<Longrightarrow> covering_new j m"
  by (auto simp: covering_def covering_new_def)

lemma covering_new_after:
  assumes "tb.framed m" and "\<And>x. covering_new j (g x)"
  shows "covering_new j (fbind m g)"
  unfolding covering_new_def
proof (intro allI impI)
  fix s y s'
  assume "fbind m g s = Inr (y, s')" and p: "prices_nonneg (sy_ctx s')"
  then obtain x t where m: "m s = Inr (x, t)" and g: "g x t = Inr (y, s')" by (auto simp: fbind_Inr)
  obtain i where "covers i t s'" "j \<noteq> 0 \<longrightarrow> i = j" using assms(2) [of x] g p unfolding covering_new_def by blast
  then show "\<exists>i. covers i s s' \<and> (j \<noteq> 0 \<longrightarrow> i = j)"
    using same_tables_stored [OF tb.framedD [OF assms(1) m]] by (auto simp: covers_def)
qed

lemma covering_new_load:
  assumes "\<And>i a. covering i (g (i, a))"
  shows "covering_new j (fbind (load_or_create_account ext c j sp mode guard) g)"
  unfolding covering_new_def
proof (intro allI impI)
  fix s y s'
  assume "fbind (load_or_create_account ext c j sp mode guard) g s = Inr (y, s')" and p: "prices_nonneg (sy_ctx s')"
  then obtain i a t where m: "load_or_create_account ext c j sp mode guard s = Inr ((i, a), t)" and g: "g (i, a) t = Inr (y, s')"
    by (auto simp: fbind_Inr)
  have "same_tables s t" using m by (rule tb.framedD [rotated]) (rule frame_rules)
  moreover have "covers i t s'" using assms [of i a] g p by (simp add: covering_def)
  ultimately have "covers i s s'" by (simp add: covers_def same_tables_stored)
  then show "\<exists>i. covers i s s' \<and> (j \<noteq> 0 \<longrightarrow> i = j)" using load_names_account [OF m] by blast
qed

section \<open>The strategies\<close>

lemmas covering_steps = covering_finalize covering_after frame_rules settled_only_intros

lemma named_strategies_cover:
  "covering (sd_account_id d) (process_swap_debt ext c d)"
  "covering (sp_account_id q) (process_swap_collateral ext c q)"
  "covering (rp_account_id r) (process_repay_debt_with_collateral ext c r)"
proof -
  show "covering (sd_account_id d) (process_swap_debt ext c d)"
    unfolding process_swap_debt_def split_def by (intro covering_steps)
  show "covering (sp_account_id q) (process_swap_collateral ext c q)"
    unfolding process_swap_collateral_def split_def by (intro covering_steps)
  have pay: "tb.framed (if k = e then fbind (fassert (sw = []) err) (\<lambda>_.
        fbind (net_settle_collateral_against_debt ext k n a) (\<lambda>(_, a'). fret a'))
      else repay_via_collateral_swap ext c k n e sw a)" for k e sw err n a
    by (auto split: prod.split intro!: frame_rules)
  have close: "tb.framed (if b then fbind (fassert q err) (\<lambda>_. execute_withdraw_all ext c k a) else fret a)" for b q err k a
    by (auto intro!: frame_rules)
  show "covering (rp_account_id r) (process_repay_debt_with_collateral ext c r)"
    unfolding process_repay_debt_with_collateral_def by (intro pay close covering_steps)
qed

lemma opening_strategies_cover:
  "covering_new (mp_account_id m) (process_multiply ext c m)"
  "covering_new (fp_account_id f) (process_flash_position ext c f)"
  "covering_new (mb_account_id b) (process_migrate_blend ext c b)"
proof -
  show "covering_new (mp_account_id m) (process_multiply ext c m)"
    unfolding process_multiply_def split_def
    by (intro covering_new_load covering_new_after frame_rules; simp only: fst_conv snd_conv; intro covering_steps)
  show "covering_new (fp_account_id f) (process_flash_position ext c f)"
    unfolding process_flash_position_def split_def
    by (intro covering_new_load covering_new_after frame_rules; simp only: fst_conv snd_conv; intro covering_steps)
  have sweep: "tb.framed (if ws \<noteq> [] then fbind (fread sy_self) (\<lambda>controller.
      fbind (snapshot_balances ext controller ws) (\<lambda>before.
      fbind (blend_sweep_all ext b c cs ss) (\<lambda>_. deposit_withdrawn ext h ws before a))) else fret a)" for ws b cs ss h a
    by (auto intro!: frame_rules)
  show "covering_new (mb_account_id b) (process_migrate_blend ext c b)"
    unfolding process_migrate_blend_def split_def Let_def
    by (intro covering_new_load covering_new_after frame_rules; simp only: fst_conv snd_conv; intro sweep covering_steps)
qed

section \<open>Risk-gated calls\<close>

text \<open>The calls that can take value out of an account: who calls, and the account that is named (0: one to be created).\<close>

fun gated_call :: "ctl_call \<Rightarrow> (address \<times> nat) option" where
  "gated_call (Ctl_Borrow c i ps t) = Some (c, i)"
| "gated_call (Ctl_Withdraw c i ps t) = Some (c, i)"
| "gated_call (Ctl_Swap_Debt c d) = Some (c, sd_account_id d)"
| "gated_call (Ctl_Swap_Collateral c q) = Some (c, sp_account_id q)"
| "gated_call (Ctl_Repay_With_Collateral c r) = Some (c, rp_account_id r)"
| "gated_call (Ctl_Multiply c m) = Some (c, mp_account_id m)"
| "gated_call (Ctl_Flash_Position c f) = Some (c, fp_account_id f)"
| "gated_call (Ctl_Migrate_Blend c b) = Some (c, mb_account_id b)"
| "gated_call _ = None"

lemma position_flows_cover:
  "covering i (process_borrow ext c i borrows to_opt)" "covering i (process_withdraw ext c i ws to_opt)"
proof -
  have out: "covers i s s'"
    if "same_tables s t" and "finalize_position_flow ext i a sides rm t = Inr (v, s')"
      and "covered (sy_ctx s') (get_supply_positions (sy_store s') i) (get_debt_positions (sy_store s') i)" for s t a sides rm v s'
    using that persist_others [OF that(2)] same_tables_stored [OF that(1)] by (auto simp: covers_def)
  let ?to = "case to_opt of Some t \<Rightarrow> t | None \<Rightarrow> c"
  have b: "tb.framed (fbind (require_authorized_caller c) (\<lambda>_. fbind (get_account ext i) (\<lambda>a.
      fbind (require_owner_or_delegate i c (acc_owner a)) (\<lambda>_. fbind context_new (\<lambda>_. fbind (require_external_recipient ?to) (\<lambda>_.
      fbind (flift (aggregate_positive_payments borrows)) (\<lambda>agg. fbind (validate_position_entry_gates a agg Borrow) (\<lambda>_.
      fbind (settle_borrow ext ?to agg a) (\<lambda>a1. enforce_post_pool_solvency ext a1)))))))))"
    by (intro frame_rules)
  show "covering i (process_borrow ext c i borrows to_opt)"
    unfolding covering_def
  proof (intro allI impI)
    fix s u s'
    assume r: "process_borrow ext c i borrows to_opt s = Inr (u, s')" and p: "prices_nonneg (sy_ctx s')"
    then obtain a2 restamped t where run: "fbind (require_authorized_caller c) (\<lambda>_. fbind (get_account ext i) (\<lambda>a.
        fbind (require_owner_or_delegate i c (acc_owner a)) (\<lambda>_. fbind context_new (\<lambda>_. fbind (require_external_recipient ?to) (\<lambda>_.
        fbind (flift (aggregate_positive_payments borrows)) (\<lambda>agg. fbind (validate_position_entry_gates a agg Borrow) (\<lambda>_.
        fbind (settle_borrow ext ?to agg a) (\<lambda>a1. enforce_post_pool_solvency ext a1)))))))) s = Inr ((restamped, a2), t)"
      and f: "finalize_position_flow ext i a2 (if restamped then Both_Sides else Debt_Only) False t = Inr (u, s')"
      unfolding process_borrow_def Let_def fbind_Inr by fast
    show "covers i s s'" by (rule out [OF tb.framedD [OF b run] f borrow_covers [OF r p]])
  qed
  have w: "tb.framed (fbind (require_authorized_caller c) (\<lambda>_. fbind (get_account ext i) (\<lambda>a.
      fbind (require_owner_or_delegate i c (acc_owner a)) (\<lambda>_. fbind context_new (\<lambda>_. fbind (require_external_recipient ?to) (\<lambda>_.
      fbind (flift (aggregate_payments ws MeansAll)) (\<lambda>agg.
      fbind (settle_withdraw ext ?to agg a) (\<lambda>x. enforce_post_pool_solvency ext (snd x)))))))))"
    by (intro frame_rules)
  show "covering i (process_withdraw ext c i ws to_opt)"
    unfolding covering_def
  proof (intro allI impI)
    fix s u s'
    assume r: "process_withdraw ext c i ws to_opt s = Inr (u, s')" and p: "prices_nonneg (sy_ctx s')"
    then obtain a2 restamped t where run: "fbind (require_authorized_caller c) (\<lambda>_. fbind (get_account ext i) (\<lambda>a.
        fbind (require_owner_or_delegate i c (acc_owner a)) (\<lambda>_. fbind context_new (\<lambda>_. fbind (require_external_recipient ?to) (\<lambda>_.
        fbind (flift (aggregate_payments ws MeansAll)) (\<lambda>agg.
        fbind (settle_withdraw ext ?to agg a) (\<lambda>x. enforce_post_pool_solvency ext (snd x)))))))) s = Inr ((restamped, a2), t)"
      and f: "finalize_position_flow ext i a2 Supply_Only True t = Inr ((), s')"
      unfolding process_withdraw_def Let_def by (fastforce simp: fbind_Inr fret_Inr)
    show "covers i s s'" by (rule out [OF tb.framedD [OF w run] f withdraw_covers [OF r p]])
  qed
qed

lemma covering_new_guards:
  "covering_new j m \<Longrightarrow> covering_new j (discard m)" "covering_new j m \<Longrightarrow> covering_new j (when_not_paused m)"
  by (auto simp: discard_def covering_new_def fbind_Inr fret_Inr)
    (auto simp: when_not_paused_def covering_new_def fbind_Inr read_store_def fread_Inr fassert_Inr)

lemmas gated_flows = opening_strategies_cover named_strategies_cover [THEN covering_new_of]
  position_flows_cover [THEN covering_new_of]

lemma gated_calls_cover:
  assumes "gated_call cl = Some (c, j)"
  shows "covering_new j (ctl_dispatch ext cl)"
  using assms by (cases cl) (auto intro!: covering_new_guards gated_flows)

definition admits :: "'w ctl_externals \<Rightarrow> address \<Rightarrow> nat \<Rightarrow> 'w system \<Rightarrow> bool" where
  "admits ext c i s \<longleftrightarrow> (\<exists>owner. account_owner ext s i = Inr owner \<and> is_owner_or_delegate i c owner (sy_store s))"

definition owner_checked :: "'w ctl_externals \<Rightarrow> address \<Rightarrow> nat \<Rightarrow> ('w, 'x) ctl \<Rightarrow> bool" where
  "owner_checked ext c i m \<longleftrightarrow> (\<forall>s x s'. m s = Inr (x, s') \<longrightarrow> admits ext c i s)"

lemma get_account_admits:
  assumes "get_account ext i s = Inr (a, s')" and "is_owner_or_delegate i c (acc_owner a) (sy_store s)"
  shows "admits ext c i s"
  using assms by (auto simp: admits_def get_account_def rbind_Inr_iff unwrap_Inr_iff try_get_account_def account_from_parts_def
    account_owner_def split: option.splits)

lemma checked_get:
  "owner_checked ext c i (fbind (get_account ext i) (\<lambda>a. fbind (require_owner_or_delegate i c (acc_owner a)) (g a)))"
  unfolding owner_checked_def
proof (intro allI impI)
  fix s x s'
  assume "fbind (get_account ext i) (\<lambda>a. fbind (require_owner_or_delegate i c (acc_owner a)) (g a)) s = Inr (x, s')"
  then obtain a where g: "get_account ext i s = Inr (a, s)" and "is_owner_or_delegate i c (acc_owner a) (sy_store s)"
    by (auto simp: fbind_Inr require_owner_or_delegate_def read_store_def fread_Inr fassert_Inr get_account_def rbind_Inr_iff)
  then show "admits ext c i s" by (rule get_account_admits)
qed

lemma checked_load:
  assumes "i \<noteq> 0" and "guard \<noteq> Guard_Supply"
  shows "owner_checked ext c i (fbind (load_or_create_account ext c i sp mode guard) g)"
  unfolding owner_checked_def
proof (intro allI impI)
  fix s x s'
  assume "fbind (load_or_create_account ext c i sp mode guard) g s = Inr (x, s')"
  then obtain a where g: "get_account ext i s = Inr (a, s)" and "is_owner_or_delegate i c (acc_owner a) (sy_store s)"
    using assms by (cases guard) (auto simp: load_or_create_account_def fbind_Inr require_owner_or_delegate_def read_store_def fread_Inr
      fassert_Inr get_account_def rbind_Inr_iff)
  then show "admits ext c i s" by (rule get_account_admits)
qed

lemma checked_after:
  assumes "ro.framed m" and "\<And>x. owner_checked ext c i (g x)"
  shows "owner_checked ext c i (fbind m g)"
  unfolding owner_checked_def
proof (intro allI impI)
  fix s y s'
  assume "fbind m g s = Inr (y, s')"
  then obtain x t where m: "m s = Inr (x, t)" and g: "g x t = Inr (y, s')" by (auto simp: fbind_Inr)
  have "admits ext c i t" using assms(2) [of x] g by (simp add: owner_checked_def)
  then show "admits ext c i s"
    using only_cachesD [OF ro.framedD [OF assms(1) m]] by (simp add: admits_def account_owner_def try_account_owner_def cong: option.case_cong)
qed

lemmas checked_steps = checked_get checked_after frame_rules

lemma gated_flows_checked:
  "owner_checked ext c i (process_borrow ext c i borrows to_opt)" "owner_checked ext c i (process_withdraw ext c i ws to_opt)"
  "owner_checked ext c (sd_account_id d) (process_swap_debt ext c d)"
  "owner_checked ext c (sp_account_id q) (process_swap_collateral ext c q)"
  "owner_checked ext c (rp_account_id r) (process_repay_debt_with_collateral ext c r)"
  by (unfold process_borrow_def process_withdraw_def process_swap_debt_def process_swap_collateral_def
      process_repay_debt_with_collateral_def, (intro checked_steps)+)

lemma opening_flows_checked:
  "mp_account_id m \<noteq> 0 \<Longrightarrow> owner_checked ext c (mp_account_id m) (process_multiply ext c m)"
  "fp_account_id f \<noteq> 0 \<Longrightarrow> owner_checked ext c (fp_account_id f) (process_flash_position ext c f)"
  "mb_account_id b \<noteq> 0 \<Longrightarrow> owner_checked ext c (mb_account_id b) (process_migrate_blend ext c b)"
  unfolding process_multiply_def process_flash_position_def process_migrate_blend_def
  by (intro checked_load checked_after frame_rules; simp)+

lemma gated_needs_auth:
  assumes "ctl_dispatch ext cl s = Inr (u, s')" and "gated_call cl = Some (c, i)"
  shows "sy_auth s c" and "\<not> cs_flash_loan_ongoing (sy_store s)"
proof -
  have start: "sy_auth s c \<and> \<not> cs_flash_loan_ongoing (sy_store s)" if "fbind (require_authorized_caller c) g s = Inr (x, t)" for g x t
    using that by (auto simp: fbind_Inr require_authorized_caller_def require_auth_def require_not_flash_loaning_def read_store_def
      fread_Inr fassert_Inr split: if_splits)
  from assms have "sy_auth s c \<and> \<not> cs_flash_loan_ongoing (sy_store s)"
    by (cases cl) (auto simp: when_not_paused_def discard_def read_store_def fbind_Inr [of "fread _"] fread_Inr fbind_Inr [of "fassert _ _"] fassert_Inr
      process_borrow_def process_withdraw_def process_swap_debt_def process_swap_collateral_def process_repay_debt_with_collateral_def
      process_multiply_def process_flash_position_def process_migrate_blend_def fbind_assoc dest!: start)
  then show "sy_auth s c" and "\<not> cs_flash_loan_ongoing (sy_store s)" by simp_all
qed

lemma checked_guards:
  "owner_checked ext c i m \<Longrightarrow> owner_checked ext c i (discard m)"
  "owner_checked ext c i m \<Longrightarrow> owner_checked ext c i (when_not_paused m)"
  by (auto simp: owner_checked_def discard_def fbind_Inr fret_Inr)
    (auto simp: owner_checked_def when_not_paused_def fbind_Inr read_store_def fread_Inr fassert_Inr)

lemma gated_needs_owner:
  assumes "ctl_dispatch ext cl s = Inr (u, s')" and "gated_call cl = Some (c, i)" and "i \<noteq> 0"
  shows "admits ext c i s"
proof -
  have "owner_checked ext c i (ctl_dispatch ext cl)"
    using assms(2,3) by (cases cl) (auto intro!: checked_guards gated_flows_checked opening_flows_checked)
  then show ?thesis using assms(1) by (simp add: owner_checked_def)
qed

end
