(* ===== verification/Strategy_Close.thy ===== *)
theory Strategy_Close
  imports Strategy_Solvency Strategy_Ledger
begin

text \<open>
  What the strategies leave behind. A repayment that closes the account withdraws every remaining supply
  leg in full, so the account is removed; a flash position that returns has stored an open one. A swap
  costs the controller exactly the amount it offered, whatever the router does.
\<close>

section \<open>Closing an account\<close>

lemma i128_sdiv: "in_i128 a \<Longrightarrow> 0 < f \<Longrightarrow> a sdiv f \<le> i128_max"
proof -
  assume a: "in_i128 a" and f: "0 < f"
  show ?thesis
  proof (cases "0 \<le> a")
    case True
    have "a div f \<le> a" using True f zdiv_mono2 [of a 1 f] by simp
    then show ?thesis using True f a by (cases "a = 0") (simp_all add: signed_divide_int_def in_i128_def)
  next
    case False
    have "a sdiv f \<le> 0" using False f by (simp add: signed_divide_int_def pos_imp_zdiv_nonneg_iff sgn_if)
    then show ?thesis by (simp add: i128_max_def)
  qed
qed

lemma unscale_supply_max: "unscale_supply sc i dec = Inr a \<Longrightarrow> a \<le> i128_max"
proof -
  assume "unscale_supply sc i dec = Inr a"
  then obtain v where v: "in_i128 v" and r: "rescale_half_up v RAY_DECIMALS dec = Inr a"
    by (auto simp: unscale_supply_def scaled_to_original_def res_iff ray_to_asset_def)
  have pow: "0 < f" if "i128_checked_pow10 n = Some f" for n f
    using that by (auto simp: i128_checked_pow10_def to_i128_Some_iff)
  show "a \<le> i128_max"
    using r v i128_sdiv [OF v] pow
    by (auto simp: rescale_half_up_def rescale_def div_by_int_half_up_def Let_def rbind_Inr_iff native_Inr_iff unwrap_Inr_iff
      i128_checked_mul_def to_i128_Some_iff in_i128_def i128_max_def split: if_splits option.splits bind_splits)
qed

lemma sentinel_withdraws_all:
  assumes "withdraw_apply ext r liq h e = Inr (m, sn, h')" and "pa_amount (pwe_action e) = i128_max"
  shows "scaled_amount (ppm_position m) = 0"
proof -
  let ?p = "scaled_amount (pa_position (pwe_action e))"
  from assms(1) obtain c burned gross rem c2 where r: "resolve_close_or_partial c i128_max ?p = Inr (burned, gross)"
    and rem: "ray_checked_sub ?p burned = Inr rem" and m: "m = position_mutation c2 rem gross"
    using assms(2) unfolding withdraw_apply_def withdraw_accounting_def
    by (auto simp: rbind_Inr_iff load_leg_Inr burn_position_def cache_commit_def Let_def)
  have "burned = ?p"
    using r unscale_supply_max
    by (auto simp: resolve_close_or_partial_def cache_resolve_withdrawal_def resolve_withdrawal_def rbind_Inr_iff split: if_splits)
  then show ?thesis using rem by (simp add: m position_mutation_def ray_Inr)
qed

lemma close_leg_removes:
  assumes "close_leg ext r k a s = Inr (a', s')" and "smap_get (acc_supply_positions a) k = Some raw"
  shows "acc_supply_positions a' = smap_remove k (acc_supply_positions a)" and "acc_borrow_positions a' = acc_borrow_positions a"
proof -
  let ?e = "\<lparr>pwe_action = make_pool_action (scaled_of_account_position (account_position_of_raw raw)) WITHDRAW_ALL_SENTINEL k, pwe_protocol_fee = 0\<rparr>"
  from assms obtain res t t' where b: "apply_withdraw_batch ext r Withdraw_Normal [?e] a t = Inr ((res, a'), t')"
    by (auto simp: close_leg_def execute_withdrawal_def fbind_Inr fret_Inr flift_Inr)
  then obtain t1 h m sn h' where w: "withdraw_apply (ce_base ext) r False h ?e = Inr (m, sn, h')"
    and mg: "merge_withdraw_leg ext Withdraw_Normal k (leg_outcome_of m) a t1 = Inr (a', t')"
    by (auto simp: apply_withdraw_batch_def fbind_Inr fret_Inr pool_call_def withdraw_def only_owner_Inr run_batch_def rbind_Inr_iff
      for_each_leg_def fassert_Inr make_pool_action_def)
  have z: "lo_new_scaled (leg_outcome_of m) = 0"
    using sentinel_withdraws_all [OF w] by (simp add: make_pool_action_def WITHDRAW_ALL_SENTINEL_def leg_outcome_of_def)
  show "acc_supply_positions a' = smap_remove k (acc_supply_positions a)" and "acc_borrow_positions a' = acc_borrow_positions a"
    using mg z by (auto simp: merge_withdraw_leg_def Let_def fbind_Inr fret_Inr update_or_remove_supply_position_def
      upsert_or_remove_position_def split: if_splits)
qed

lemma close_fold_empties:
  assumes "ffold (close_leg ext r) (smap_keys m) a s = Inr (a', s')" and "acc_supply_positions a = m"
  shows "acc_supply_positions a' = [] \<and> acc_borrow_positions a' = acc_borrow_positions a"
  using assms
proof (induction m arbitrary: a s)
  case (Cons e m)
  from Cons.prems(1) obtain a1 s1 where c: "close_leg ext r (fst e) a s = Inr (a1, s1)"
    and f: "ffold (close_leg ext r) (smap_keys m) a1 s1 = Inr (a', s')" by (auto simp: smap_keys_def fbind_Inr)
  have "smap_get (acc_supply_positions a) (fst e) = Some (snd e)" by (simp add: Cons.prems(2))
  from close_leg_removes [OF c this] show ?case using Cons.IH [OF f] Cons.prems(2) by simp
qed (simp add: smap_keys_def fret_Inr)

lemma withdraw_all_empties:
  assumes "execute_withdraw_all ext r k a s = Inr (a', s')"
  shows "acc_supply_positions a' = []" and "acc_borrow_positions a' = acc_borrow_positions a"
proof -
  from assms obtain t where "ffold (close_leg ext r) (smap_keys (acc_supply_positions a)) a t = Inr (a', s')"
    by (auto simp: execute_withdraw_all_def fbind_Inr)
  from close_fold_empties [OF this refl]
  show "acc_supply_positions a' = []" and "acc_borrow_positions a' = acc_borrow_positions a" by simp_all
qed

lemma finalize_removes:
  assumes "strategy_finalize ext i a s = Inr (a', s')" and "account_is_empty a"
  shows "cs_account_meta (sy_store s') i = None \<and> cs_supply_positions (sy_store s') i = None \<and>
    cs_borrow_positions (sy_store s') i = None \<and> cs_delegates (sy_store s') i = None"
proof -
  from assms(1) obtain b t where so: "enforce_post_pool_solvency ext a s = Inr ((b, a'), t)"
    and f: "finalize_position_flow ext i a' Both_Sides True t = Inr ((), s')"
    by (auto simp: strategy_finalize_def fbind_Inr fret_Inr)
  then have "account_is_empty a'"
    using assms(2) by (auto simp: enforce_post_pool_solvency_def restamp_listed_supply_ltv_def Let_def smap_keys_def account_is_empty_def
      fbind_Inr fret_Inr)
  then show ?thesis
    using f by (auto simp: finalize_position_flow_def persist_account_positions_def cleanup_account_if_empty_def remove_account_and_burn_nft_def
      nft_burn_call_def upd_store_def res_iff read_store_res_def world_call_def rbind_Inr_iff set_world_def remove_account_entry_def)
qed

lemma close_removes_account:
  assumes "process_repay_debt_with_collateral ext c p s = Inr (u, s')" and "rp_close_position p"
  shows "cs_account_meta (sy_store s') (rp_account_id p) = None \<and> cs_supply_positions (sy_store s') (rp_account_id p) = None \<and>
    cs_borrow_positions (sy_store s') (rp_account_id p) = None \<and> cs_delegates (sy_store s') (rp_account_id p) = None"
proof -
  from assms obtain a1 t a2 t2 a3 where b: "acc_borrow_positions a1 = []"
    and w: "execute_withdraw_all ext c (rp_collateral p) a1 t = Inr (a2, t2)"
    and f: "strategy_finalize ext (rp_account_id p) a2 t2 = Inr (a3, s')"
    unfolding process_repay_debt_with_collateral_def by (auto simp: fbind_Inr fassert_Inr fret_Inr)
  show ?thesis using finalize_removes [OF f] withdraw_all_empties [OF w] b by (simp add: account_is_empty_def)
qed

text \<open>
  From loading the account to closing it, the pool's books move with the account in memory; an emptied account
  therefore has given back to the pool every share it was stored with.
\<close>

lemma finalize_keeps_books:
  assumes "strategy_finalize ext i a s = Inr (a', s')"
  shows "user_shares (sy_pool s') = user_shares (sy_pool s)" and "debt_shares (sy_pool s') = debt_shares (sy_pool s)"
proof -
  from assms obtain b t where so: "enforce_post_pool_solvency ext a s = Inr ((b, a'), t)"
    and f: "finalize_position_flow ext i a' Both_Sides True t = Inr ((), s')"
    by (auto simp: strategy_finalize_def fbind_Inr fret_Inr)
  have "sl.framed (enforce_post_pool_solvency ext a)" by (rule frame_rules)
  from sl.framedD [OF this so] have "same_ledger s t" .
  moreover have "h_state (sy_pool s') = h_state (sy_pool t) \<and> h_params (sy_pool s') = h_params (sy_pool t)"
    using f by (auto simp: finalize_position_flow_def persist_account_positions_def persist_spoke_usage_def cleanup_account_if_empty_def
      remove_account_and_burn_nft_def nft_burn_call_def upd_store_def res_iff read_store_res_def world_call_def rbind_Inr_iff set_world_def
      read_ctx_def split: option.splits if_splits)
  ultimately show "user_shares (sy_pool s') = user_shares (sy_pool s)" and "debt_shares (sy_pool s') = debt_shares (sy_pool s)"
    by (simp_all add: same_ledger_def user_shares_def [abs_def] debt_shares_def [abs_def])
qed

lemma close_returns_shares:
  assumes run: "process_repay_debt_with_collateral ext c p s = Inr (u, s')" and "rp_close_position p"
    and ok: "host_ok (sy_pool s)" "smap_ok (get_supply_positions (sy_store s) (rp_account_id p))"
      "smap_ok (get_debt_positions (sy_store s) (rp_account_id p))"
  shows "user_shares (sy_pool s') k = user_shares (sy_pool s) k - shares_in apr_scaled_amount (get_supply_positions (sy_store s) (rp_account_id p)) k"
    and "debt_shares (sy_pool s') k = debt_shares (sy_pool s) k - shares_in scaled_amount (get_debt_positions (sy_store s) (rp_account_id p)) k"
proof -
  let ?repay = "\<lambda>a. if rp_collateral p = rp_debt p then fbind (fassert (rp_swap p = []) (Generic InvalidPayments)) (\<lambda>_.
      fbind (net_settle_collateral_against_debt ext (rp_collateral p) (rp_collateral_amount p) a) (\<lambda>(_, a'). fret a'))
    else repay_via_collateral_swap ext c (rp_collateral p) (rp_collateral_amount p) (rp_debt p) (rp_swap p) a"
  let ?close = "\<lambda>a. fbind (fassert (acc_borrow_positions a = []) (Collateral CannotCloseWithRemainingDebt)) (\<lambda>_.
      execute_withdraw_all ext c (rp_collateral p) a)"
  let ?gates = "fbind (require_authorized_caller c) (\<lambda>_. fbind (flift (require_positive_amount (rp_collateral_amount p))) (\<lambda>_.
      fbind (read_store_res (\<lambda>st. require_hub_active st (hub_id (rp_collateral p)))) (\<lambda>_.
      read_store_res (\<lambda>st. require_hub_active st (hub_id (rp_debt p))))))"
  let ?prefetch = "\<lambda>a. fbind (require_owner_or_delegate (rp_account_id p) c (acc_owner a)) (\<lambda>_. fbind context_new (\<lambda>_.
      prefetch_strategy_prices ext a [asset (rp_collateral p), asset (rp_debt p)]))"
  have split: "process_repay_debt_with_collateral ext c p = fbind ?gates (\<lambda>_. fbind (get_account ext (rp_account_id p)) (\<lambda>a.
      fbind (?prefetch a) (\<lambda>_. fbind (?repay a) (\<lambda>a1. fbind (?close a1) (\<lambda>a2.
      fbind (strategy_finalize ext (rp_account_id p) a2) (\<lambda>_. fret ()))))))"
    by (simp only: process_repay_debt_with_collateral_def fbind_assoc assms(2) if_True)
  from run [unfolded split] obtain t0 a t1 t2 a1 t3 a2 t4 a3 v w where g: "?gates s = Inr (v, t0)" and l: "get_account ext (rp_account_id p) t0 = Inr (a, t1)"
    and pf: "?prefetch a t1 = Inr (w, t2)" and r: "?repay a t2 = Inr (a1, t3)" and cl: "?close a1 t3 = Inr (a2, t4)"
    and f: "strategy_finalize ext (rp_account_id p) a2 t4 = Inr (a3, s')"
    unfolding fbind_Inr [of ?gates] fbind_Inr [of "get_account ext i" for i] fbind_Inr [of "?prefetch a" for a] fbind_Inr [of "?repay a" for a]
      fbind_Inr [of "?close a" for a] fbind_Inr [of "strategy_finalize ext i a" for i a] fret_Inr by blast
  have "ro.framed ?gates" by (intro frame_rules)
  from ro.framedD [OF this g] have "only_caches s t0" .
  then have st: "sy_store t0 = sy_store s" "sy_pool t0 = sy_pool s" by (rule only_cachesD)+
  have a: "acc_supply_positions a = get_supply_positions (sy_store s) (rp_account_id p)"
    "acc_borrow_positions a = get_debt_positions (sy_store s) (rp_account_id p)" "t1 = t0"
    using l st by (auto simp: get_account_def rbind_Inr_iff unwrap_Inr_iff try_get_account_def account_from_parts_def split: option.splits)
  have "ro.framed (?prefetch a)" by (intro frame_rules)
  from ro.framedD [OF this pf] have "only_caches t1 t2" .
  then have pool: "sy_pool t2 = sy_pool s" using only_cachesD(2) [of t1 t2] a(3) st(2) by simp
  have ok2: "host_ok (sy_pool t2)" "acct_ok a" using ok by (simp_all add: pool acct_ok_def a)
  have S: "settles (\<lambda>_ _. 0) t2 a t3 a1"
    using settlorD [OF collateral_repayment_settles [unfolded settling_def] r ok2] .
  then have ok3: "host_ok (sy_pool t3)" "acct_ok a1" by (simp_all add: settles_def)
  have C: "settles (\<lambda>_ _. 0) t3 a1 t4 a2"
    using settlorD [OF close_request_settles [where b = True, unfolded settling_def] _ ok3] cl by simp
  have "acc_supply_positions a2 = [] \<and> acc_borrow_positions a2 = []"
    using cl withdraw_all_empties [of ext c "rp_collateral p" a1 _ a2 t4] by (auto simp: fbind_Inr fassert_Inr)
  then have "held_supply a2 = (\<lambda>_. 0)" "held_debt a2 = (\<lambda>_. 0)"
    by (simp_all add: held_supply_def held_debt_def shares_in_def fun_eq_iff)
  then show "user_shares (sy_pool s') k = user_shares (sy_pool s) k - shares_in apr_scaled_amount (get_supply_positions (sy_store s) (rp_account_id p)) k"
    and "debt_shares (sy_pool s') k = debt_shares (sy_pool s) k - shares_in scaled_amount (get_debt_positions (sy_store s) (rp_account_id p)) k"
    using settles_trans [OF S C] finalize_keeps_books [OF f]
    by (simp_all add: settles_def pool held_supply_def held_debt_def a algebra_simps)
qed

section \<open>Opening a flash position\<close>

lemma still_open:
  assumes "require_flash_position_still_open a k = Inr u"
  shows "\<exists>pos. smap_get (acc_borrow_positions a) k = Some pos \<and> 0 < scaled_amount pos" and "acc_supply_positions a \<noteq> []"
  using assms by (auto simp: require_flash_position_still_open_def rbind_Inr_iff assert_Inr_iff unwrap_Inr_iff)

lemma flash_position_stored:
  assumes "process_flash_position ext c p s = Inr (i, s')"
  shows "\<exists>pos. smap_get (get_debt_positions (sy_store s') i) (fp_debt p) = Some pos \<and> 0 < scaled_amount pos"
    and "get_supply_positions (sy_store s') i \<noteq> []" and "fp_account_id p \<noteq> 0 \<Longrightarrow> i = fp_account_id p"
proof -
  from assms obtain t0 a0 t1 a2 t a3 where l: "load_or_create_account ext c (fp_account_id p) (fp_spoke_id p) (fp_mode p) Guard_Multiply t0 = Inr ((i, a0), t1)"
    and f: "strategy_finalize ext i a2 t = Inr (a3, s')" and o: "require_flash_position_still_open a3 (fp_debt p) = Inr ()"
    unfolding process_flash_position_def by (auto simp: fbind_Inr flift_Inr fret_Inr)
  show "fp_account_id p \<noteq> 0 \<Longrightarrow> i = fp_account_id p" by (rule load_names_account [OF l])
  from f obtain t2 where "finalize_position_flow ext i a3 Both_Sides True t2 = Inr ((), s')"
    by (auto simp: strategy_finalize_def fbind_Inr fret_Inr)
  from finalize_stores [OF this] still_open [OF o]
  show "\<exists>pos. smap_get (get_debt_positions (sy_store s') i) (fp_debt p) = Some pos \<and> 0 < scaled_amount pos"
    and "get_supply_positions (sy_store s') i \<noteq> []"
    by (auto simp: account_is_empty_def)
qed

section \<open>The cost of a swap\<close>

lemma guard_world:
  assumes "with_flash_guard (world_effect f) s = Inr (u, s')"
  obtains w where "f (sy_world s) = Inr w" and "s' = set_world w s"
proof -
  from assms obtain w where "f (sy_world s) = Inr w" and
    "s' = (let t = set_world w (s\<lparr>sy_store := set_flash_loan_ongoing True (sy_store s)\<rparr>) in
      if cs_flash_loan_ongoing (sy_store s) then t else t\<lparr>sy_store := set_flash_loan_ongoing False (sy_store t)\<rparr>)"
    by (auto simp: with_flash_guard_def read_store_def upd_store_def res_iff world_call_def rbind_Inr_iff Let_def set_world_def split: if_splits)
  then show ?thesis
    by (intro that [of w]) (auto simp: set_world_def set_flash_loan_ongoing_def Let_def)
qed

lemma swap_accounting:
  assumes "swap_tokens ext dest tok_in n tok_out route s = Inr (received, s')"
  obtains w1 w2 router b0 b1 o0 o1 where "cs_swap_aggregator (sy_store s) = Some router" and "0 < n" and "s' = set_world w2 s"
    and "ce_execute_strategy ext router (sy_self s) n route
      [\<lparr>ta_token = tok_in, ta_from = sy_self s, ta_to = router, ta_amount = n\<rparr>] (sy_world s) = Inr w1"
    and "token_balance (ce_base ext) tok_in (sy_self s) (sy_world s) = Inr b0"
    and "token_balance (ce_base ext) tok_in (sy_self s) w1 = Inr b1" and "b1 \<le> b0" and "b0 - b1 \<le> n"
    and "n - (b0 - b1) > 0 \<Longrightarrow> token_transfer (ce_base ext) tok_in (sy_self s) dest (n - (b0 - b1)) w1 = Inr w2"
    and "\<not> n - (b0 - b1) > 0 \<Longrightarrow> w2 = w1"
    and "token_balance (ce_base ext) tok_out (sy_self s) (sy_world s) = Inr o0"
    and "token_balance (ce_base ext) tok_out (sy_self s) w2 = Inr o1" and "received = o1 - o0" and "0 < received"
proof -
  from assms obtain router b0 o0 t1 b1 t2 where r: "cs_swap_aggregator (sy_store s) = Some router" and n: "0 < n"
    and b0: "token_balance (ce_base ext) tok_in (sy_self s) (sy_world s) = Inr b0"
    and o0: "token_balance (ce_base ext) tok_out (sy_self s) (sy_world s) = Inr o0"
    and g: "with_flash_guard (world_effect (ce_execute_strategy ext router (sy_self s) n route
      [\<lparr>ta_token = tok_in, ta_from = sy_self s, ta_to = router, ta_amount = n\<rparr>])) s = Inr ((), t1)"
    and b1: "token_balance (ce_base ext) tok_in (sy_self s) (sy_world t1) = Inr b1" "b1 \<le> b0" "b0 - b1 \<le> n"
    and x: "(if n - (b0 - b1) > 0 then world_effect (token_transfer (ce_base ext) tok_in (sy_self s) dest (n - (b0 - b1))) else fret ()) t1 = Inr ((), t2)"
    and v: "verify_router_output ext tok_out o0 t2 = Inr (received, s')"
    unfolding swap_tokens_def
    by (auto simp: fbind_Inr flift_Inr fassert_Inr fread_Inr rbind_Inr_iff require_positive_amount_def assert_Inr_iff native_Inr_iff
      read_store_res_def get_swap_aggregator_def unwrap_Inr_iff simp del: if_split)
  from guard_world [OF g] obtain w1 where w1: "ce_execute_strategy ext router (sy_self s) n route
      [\<lparr>ta_token = tok_in, ta_from = sy_self s, ta_to = router, ta_amount = n\<rparr>] (sy_world s) = Inr w1" and t1: "t1 = set_world w1 s" by metis
  obtain w2 where t2: "t2 = set_world w2 s" and p: "n - (b0 - b1) > 0 \<Longrightarrow> token_transfer (ce_base ext) tok_in (sy_self s) dest (n - (b0 - b1)) w1 = Inr w2"
    "\<not> n - (b0 - b1) > 0 \<Longrightarrow> w2 = w1"
    using x by (auto simp: t1 world_call_def rbind_Inr_iff set_world_def fret_Inr split: if_splits)
  from v have o1: "token_balance (ce_base ext) tok_out (sy_self s) w2 = Inr (received + o0)" and rc: "0 < received" and s': "s' = set_world w2 s"
    by (auto simp: verify_router_output_def t2 balance_delta_since_def fbind_Inr fread_Inr fassert_Inr fret_Inr rbind_Inr_iff unwrap_Inr_iff
      i128_checked_sub_def to_i128_Some_iff set_world_def)
  show ?thesis
    by (rule that [OF r n s' w1 b0 _ b1(2,3) p(1) p(2) o0 o1]) (use b1(1) rc in \<open>simp_all add: t1 set_world_def\<close>)
qed

end
