(* ===== verification/Strategy_Lab.thy ===== *)
theory Strategy_Lab
  imports Controller_Samples Strategy_Close
begin

text \<open>
  Concrete data for the witnesses about the strategies: a world of token balances, a receiver that pays
  collateral back to the controller, and a router that spends part of what it may take.
\<close>

record purse =
  pu_pool :: int
  pu_ctl :: int
  pu_receiver :: int
  pu_out :: int

definition held_by :: "address \<Rightarrow> address \<Rightarrow> purse \<Rightarrow> int" where
  "held_by tok who w =
     (if tok = 7 then (if who = 100 then pu_pool w else if who = 1 then pu_ctl w else if who = 77 then pu_receiver w else 0)
      else if who = 1 then pu_out w else 0)"

definition pay :: "address \<Rightarrow> address \<Rightarrow> address \<Rightarrow> int \<Rightarrow> purse \<Rightarrow> purse" where
  "pay tok src dest n w =
     (let gain = (\<lambda>t a. (if tok = t \<and> dest = a then n else 0) - (if tok = t \<and> src = a then n else 0)) in
      \<lparr>pu_pool = pu_pool w + gain 7 100, pu_ctl = pu_ctl w + gain 7 1, pu_receiver = pu_receiver w + gain 7 77,
       pu_out = pu_out w + gain 8 1\<rparr>)"

definition purse_ext :: "purse ctl_externals" where
  "purse_ext =
     \<lparr>ce_base =
        \<lparr>token_balance = (\<lambda>tok who w. Inr (held_by tok who w)), token_allowance = (\<lambda>_ _ _ w. Inr i128_max),
         token_transfer = (\<lambda>tok src dest n w. Inr (pay tok src dest n w)),
         token_transfer_from = (\<lambda>tok _ src dest n w. Inr (pay tok src dest n w)),
         executable_is_wasm = (\<lambda>_ _. True), execute_flash_loan = (\<lambda>_ _ _ _ _ _ _ w. Inr w)\<rparr>,
      ce_prices = (\<lambda>_ _ _. Inr (\<lambda>_. Some lab_feed)),
      ce_nft_mint = (\<lambda>_ _ w. Inr (2, w)), ce_nft_burn = (\<lambda>_ _ w. Inr w), ce_nft_owner_of = (\<lambda>_ _ _. Some 9),
      ce_nft_deploy = (\<lambda>_ _ w. Inr (60, w)), ce_nft_upgrade = (\<lambda>_ _ w. Inr w),
      ce_execute_strategy = (\<lambda>router ctl n _ _ w. Inr (pay 8 router ctl 30 (pay 7 ctl router (n - 10) w))),
      ce_execute_flash_position = (\<lambda>receiver _ _ tok _ _ _ ctl _ w. Inr (pay tok receiver ctl 500000000 w)),
      ce_blend_submit = (\<lambda>_ _ _ _ _ _ w. Inr w),
      ce_transfer_role = (\<lambda>_ _ w. Inr w), ce_accept_ownership = (\<lambda>_ w. Inl (Host ExternalCallFailed))\<rparr>"

definition purse_listing :: spoke_asset_config where
  "purse_listing = listing_of_args lab_args"

definition purse_store where
  "purse_store meta held owed usage =
     \<lparr>cs_owner = Some 42, cs_paused = False, cs_app_version = Some 1, cs_code = [], cs_pool = Some 100, cs_position_nft = Some 60,
      cs_price_aggregator = Some 50, cs_swap_aggregator = Some 70, cs_accumulator = None,
      cs_position_limits = Some \<lparr>pl_max_borrow_positions = 5, pl_max_supply_positions = 5\<rparr>,
      cs_min_borrow_collateral_usd = Some (5 * WAD), cs_last_hub_id = 1, cs_last_spoke_id = 1, cs_hubs = [1 \<mapsto> True],
      cs_spokes = [1 \<mapsto> lab_spoke], cs_spoke_assets = [(1, demo_key) \<mapsto> purse_listing], cs_spoke_flags_epoch = [(1, demo_key) \<mapsto> 1],
      cs_spoke_usage = [(1, demo_key) \<mapsto> usage], cs_account_meta = meta, cs_supply_positions = held, cs_borrow_positions = owed,
      cs_delegates = Map.empty, cs_position_managers = Map.empty, cs_blend_pools = {}, cs_flash_loan_ongoing = False\<rparr>"

definition purse_pool :: "pool_state \<Rightarrow> purse \<Rightarrow> purse host" where
  "purse_pool st w = \<lparr>h_params = [demo_key \<mapsto> demo_params], h_state = [demo_key \<mapsto> st], h_owner = Some 1, h_self = 100, h_code = [],
     h_timestamp = 1000, h_auth = (\<lambda>a. a = 1), h_world = w\<rparr>"

definition purse_system where
  "purse_system st h c = \<lparr>sy_store = st, sy_self = 1, sy_auth = (\<lambda>a. a = 9), sy_pool = h, sy_ctx = c\<rparr>"

definition purse_start :: "purse system" where
  "purse_start = purse_system
     (purse_store [1 \<mapsto> \<lparr>am_spoke_id = 1, am_mode = Normal\<rparr>] [1 \<mapsto> [(demo_key, lab_position)]] Map.empty
       \<lparr>su_supplied_scaled_ray = 1000 * RAY, su_borrowed_scaled_ray = 0\<rparr>)
     (purse_pool (demo_state (1000 * RAY) 0 0 1000000000) \<lparr>pu_pool = 1000000000, pu_ctl = 50, pu_receiver = 0, pu_out = 0\<rparr>)
     context_empty"

text \<open>The constants of the world stay folded while a run is evaluated; only their fields are read.\<close>

lemma purse_ext_fields:
  "token_balance (ce_base purse_ext) tok who w = Inr (held_by tok who w)" "token_allowance (ce_base purse_ext) x y z w = Inr i128_max"
  "token_transfer (ce_base purse_ext) tok src dest n w = Inr (pay tok src dest n w)"
  "token_transfer_from (ce_base purse_ext) tok x src dest n w = Inr (pay tok src dest n w)"
  "executable_is_wasm (ce_base purse_ext) a w" "ce_prices purse_ext agg toks w = Inr (\<lambda>_. Some lab_feed)"
  "ce_nft_mint purse_ext nft to w = Inr (2, w)" "ce_nft_burn purse_ext nft i w = Inr w" "ce_nft_owner_of purse_ext nft i w = Some 9"
  "ce_execute_strategy purse_ext router ctl m route auths w = Inr (pay 8 router ctl 30 (pay 7 ctl router (m - 10) w))"
  "ce_execute_flash_position purse_ext receiver c i tok amount got fee ctl payload w = Inr (pay tok receiver ctl 500000000 w)"
  by (simp_all add: purse_ext_def)

lemma purse_const_fields:
  "asset demo_key = 7" "hub_id demo_key = 1" "sc_is_deprecated lab_spoke = False" "pf_price lab_feed = WAD" "pf_asset_decimals lab_feed = 6"
  "sa_is_collateralizable purse_listing" "sa_is_borrowable purse_listing" "\<not> sa_paused purse_listing" "\<not> sa_frozen purse_listing"
  "sa_loan_to_value purse_listing = 7500" "sa_liquidation_threshold purse_listing = 8000" "sa_liquidation_bonus purse_listing = 500"
  "sa_liquidation_fees purse_listing = 100" "sa_supply_cap purse_listing = 10000000000" "sa_borrow_cap purse_listing = 10000000000"
  by (simp_all add: demo_key_def lab_spoke_def lab_feed_def purse_listing_def listing_of_args_def lab_args_def)

lemma some_bool [simp]: "\<exists>y. y"
  by blast

section \<open>A swap\<close>

lemmas guard_eval = with_flash_guard_def set_flash_loan_ongoing_def balance_delta_since_def

lemmas purse_states = purse_start_def purse_system_def purse_store_def purse_pool_def pay_def held_by_def

lemmas purse_folded = demo_key_def lab_spoke_def lab_args_def lab_ext_def

lemma purse_swap: "\<exists>s'. swap_tokens purse_ext 9 7 40 8 [1] purse_start = Inr (30, s')"
  by (simp add: swap_tokens_def verify_router_output_def guard_eval get_swap_aggregator_def purse_states purse_ext_fields store_eval eval_defs
    del: purse_folded)

section \<open>A flash position\<close>

definition purse_request :: flash_position_params where
  "purse_request = \<lparr>fp_account_id = 0, fp_spoke_id = 1, fp_mode = Multiply, fp_debt = demo_key, fp_amount = 100000000,
     fp_receiver = 77, fp_data = [], fp_collaterals = [(demo_key, 1)], fp_refund_assets = []\<rparr>"

lemmas strategy_eval = process_flash_position_def flash_position_gates_def cached_pool_sync_data_def validate_collaterals_def
  validate_refund_assets_def prefetch_strategy_prices_def account_price_assets_def flash_callback_def mint_and_forward_def
  borrow_into_controller_def position_mutation_of_strategy_def snapshot_balances_def invoke_receiver_def collect_collateral_deposits_def
  refund_listed_assets_def require_flash_position_still_open_def strategy_finalize_def
  account_is_empty_def cleanup_account_if_empty_def

definition purse_sync :: pool_sync_data where
  "purse_sync = \<lparr>sync_params = demo_params, sync_state = demo_state (1000 * RAY) 0 0 1000000000\<rparr>"

definition purse_at :: "pool_state \<Rightarrow> purse \<Rightarrow> (hub_asset_key \<rightharpoonup> market_index) \<Rightarrow> (hub_asset_key \<times> spoke_usage) list \<Rightarrow> purse system" where
  "purse_at st w indexes rows = purse_system
     (purse_store [1 \<mapsto> \<lparr>am_spoke_id = 1, am_mode = Normal\<rparr>, 2 \<mapsto> \<lparr>am_spoke_id = 1, am_mode = Multiply\<rparr>] [1 \<mapsto> [(demo_key, lab_position)]] Map.empty
       \<lparr>su_supplied_scaled_ray = 1000 * RAY, su_borrowed_scaled_ray = 0\<rparr>)
     (purse_pool st w)
     \<lparr>cx_token_prices = [7 \<mapsto> lab_feed], cx_market_indexes = indexes, cx_pool_address = Some 100,
       cx_pool_sync_data = [demo_key \<mapsto> purse_sync], cx_spoke_usage = Some \<lparr>uc_spoke_id = 1, uc_usage = rows\<rparr>,
       cx_spoke_config = Some lab_spoke, cx_spoke_assets = [demo_key \<mapsto> purse_listing], cx_verified_hubs = [1 \<mapsto> True]\<rparr>"

definition purse_account :: "position_mode \<Rightarrow> (hub_asset_key \<times> account_position_raw) list \<Rightarrow> (hub_asset_key \<times> scaled_position_raw) list \<Rightarrow> account" where
  "purse_account m sp bp = \<lparr>acc_owner = 9, acc_spoke_id = 1, acc_mode = m, acc_supply_positions = sp, acc_borrow_positions = bp\<rparr>"

abbreviation "purse_debt \<equiv> [(demo_key, \<lparr>scaled_amount = 100 * RAY\<rparr>)]"

abbreviation "purse_collateral \<equiv> [(demo_key, lab_position\<lparr>apr_scaled_amount := 500 * RAY\<rparr>)]"

abbreviation "purse_ready \<equiv> purse_at (demo_state (1000 * RAY) 0 0 1000000000)
  \<lparr>pu_pool = 1000000000, pu_ctl = 50, pu_receiver = 0, pu_out = 0\<rparr> Map.empty []"

abbreviation "purse_called \<equiv> purse_at (demo_state (1000 * RAY) (100 * RAY) 0 900000000)
  \<lparr>pu_pool = 900000000, pu_ctl = 500000050, pu_receiver = - 400000000, pu_out = 0\<rparr> [demo_key \<mapsto> lab_index]
  [(demo_key, \<lparr>su_supplied_scaled_ray = 1000 * RAY, su_borrowed_scaled_ray = 100 * RAY\<rparr>)]"

abbreviation "purse_deposited \<equiv> purse_at (demo_state (1500 * RAY) (100 * RAY) 0 1400000000)
  \<lparr>pu_pool = 1400000000, pu_ctl = 50, pu_receiver = - 400000000, pu_out = 0\<rparr> [demo_key \<mapsto> lab_index]
  [(demo_key, \<lparr>su_supplied_scaled_ray = 1500 * RAY, su_borrowed_scaled_ray = 100 * RAY\<rparr>)]"

abbreviation "purse_gated \<equiv> purse_start\<lparr>sy_ctx := context_empty\<lparr>cx_pool_address := Some 100, cx_pool_sync_data := [demo_key \<mapsto> purse_sync]\<rparr>\<rparr>"

lemmas purse_data = purse_request_def purse_states purse_at_def purse_account_def lab_position_def lab_index_def purse_ext_fields purse_const_fields

lemmas purse_eval = strategy_eval guard_eval borrow_eval flow_eval store_eval eval_defs

lemma purse_gates:
  "require_authorized_caller 9 purse_start = Inr ((), purse_start)"
  "flash_position_gates purse_ext purse_request purse_start = Inr ((), purse_gated)"
  by (simp_all add: purse_data purse_eval purse_sync_def del: purse_folded)

lemma purse_load:
  "fbind (load_or_create_account purse_ext 9 0 1 Multiply Guard_Multiply) (\<lambda>(i, a).
    fbind (validate_collaterals a [(demo_key, 1)]) (\<lambda>_.
    fbind (validate_refund_assets (acc_spoke_id a) 1 [(demo_key, 1)] []) (\<lambda>_.
    fbind (prefetch_strategy_prices purse_ext a [7, 7]) (\<lambda>_. fret (i, a))))) purse_gated =
    Inr ((2, purse_account Multiply [] []), purse_ready)"
  by (simp add: purse_data purse_eval del: purse_folded)

lemma purse_callback:
  "flash_callback purse_ext 9 purse_request 2 (purse_account Multiply [] []) purse_ready =
    Inr (([7 \<mapsto> 50], Map.empty, purse_account Multiply [] purse_debt), purse_called)"
  by (simp add: purse_data purse_eval del: purse_folded)

lemma purse_deposit:
  "fbind (collect_collateral_deposits purse_ext 1 [(demo_key, 1)] [7 \<mapsto> 50]) (\<lambda>deposits.
    process_deposit purse_ext 1 deposits (purse_account Multiply [] purse_debt)) purse_called =
    Inr (purse_account Multiply purse_collateral purse_debt, purse_deposited)"
  by (simp add: purse_data purse_eval del: purse_folded)

lemma purse_final:
  "\<exists>s'. strategy_finalize purse_ext 2 (purse_account Multiply purse_collateral purse_debt) purse_deposited =
    Inr (purse_account Multiply purse_collateral purse_debt, s')"
  by (simp add: purse_data purse_eval del: purse_folded)

lemma purse_flash: "\<exists>s'. process_flash_position purse_ext 9 purse_request purse_start = Inr (2, s')"
proof -
  from purse_load obtain u v w where l: "load_or_create_account purse_ext 9 0 1 Multiply Guard_Multiply purse_gated =
      Inr ((2, purse_account Multiply [] []), u)"
    "validate_collaterals (purse_account Multiply [] []) [(demo_key, 1)] u = Inr ((), v)"
    "validate_refund_assets (acc_spoke_id (purse_account Multiply [] [])) 1 [(demo_key, 1)] [] v = Inr ((), w)"
    "prefetch_strategy_prices purse_ext (purse_account Multiply [] []) [7, 7] w = Inr ((), purse_ready)"
    by (auto simp: fbind_Inr fret_Inr)
  from purse_deposit obtain d w where d: "collect_collateral_deposits purse_ext 1 [(demo_key, 1)] [7 \<mapsto> 50] purse_called = Inr (d, w)"
    "process_deposit purse_ext 1 d (purse_account Multiply [] purse_debt) w = Inr (purse_account Multiply purse_collateral purse_debt, purse_deposited)"
    by (auto simp: fbind_Inr)
  obtain s' where f: "strategy_finalize purse_ext 2 (purse_account Multiply purse_collateral purse_debt) purse_deposited =
      Inr (purse_account Multiply purse_collateral purse_debt, s')" using purse_final by blast
  have fields: "fp_account_id purse_request = 0" "fp_spoke_id purse_request = 1" "fp_mode purse_request = Multiply"
    "fp_collaterals purse_request = [(demo_key, 1)]" "fp_refund_assets purse_request = []" "fp_debt purse_request = demo_key"
    by (simp_all add: purse_request_def)
  have still: "require_flash_position_still_open (purse_account m purse_collateral purse_debt) demo_key = Inr ()" for m
    by (simp add: require_flash_position_still_open_def account_is_empty_def debt_free_def purse_account_def assert_with_error_def rbind_def
      unwrap_or_panic_def RAY_def)
  have rest: "fread sy_self purse_called = Inr (1, purse_called)" "refund_listed_assets purse_ext c [] m x = Inr ((), x)" for x c m
    by (simp_all add: fread_def fret_def purse_at_def purse_system_def refund_listed_assets_def)
  show ?thesis
    by (simp add: process_flash_position_def fields purse_const_fields(1,2) fbind_eval purse_gates l purse_callback d rest still f flift_def fret_def
      del: One_nat_def)
qed

section \<open>A closing repayment\<close>

definition purse_owes :: "pool_state \<Rightarrow> context_cache \<Rightarrow> purse system" where
  "purse_owes st c = purse_system
     (purse_store [1 \<mapsto> \<lparr>am_spoke_id = 1, am_mode = Normal\<rparr>] [1 \<mapsto> [(demo_key, lab_position)]] [1 \<mapsto> [(demo_key, \<lparr>scaled_amount = 500 * RAY\<rparr>)]]
       \<lparr>su_supplied_scaled_ray = 1000 * RAY, su_borrowed_scaled_ray = 500 * RAY\<rparr>)
     (purse_pool st \<lparr>pu_pool = 500000000, pu_ctl = 50, pu_receiver = 0, pu_out = 0\<rparr>) c"

abbreviation "purse_owing \<equiv> purse_owes (demo_state (1000 * RAY) (500 * RAY) 0 500000000) context_empty"

definition purse_repayment :: repay_with_collateral_params where
  "purse_repayment = \<lparr>rp_account_id = 1, rp_collateral = demo_key, rp_collateral_amount = 500000000, rp_debt = demo_key,
     rp_swap = [], rp_close_position = True\<rparr>"

lemmas close_eval = net_settle_collateral_against_debt_def execute_withdraw_all_def close_leg_def
  execute_withdrawal_def apply_withdraw_batch_def merge_withdraw_leg_def get_supply_position_or_panic_def get_debt_position_or_panic_def
  WITHDRAW_ALL_SENTINEL_def remove_account_and_burn_nft_def nft_burn_call_def remove_account_entry_def
  leg_may_restamp_risk_params_def apply_spoke_exit_def usage_apply_exit_def

abbreviation "owing_head \<equiv> purse_owes (demo_state (1000 * RAY) (500 * RAY) 0 500000000) (context_empty\<lparr>cx_token_prices := [7 \<mapsto> lab_feed]\<rparr>)"

abbreviation "owing_full \<equiv> purse_account Normal [(demo_key, lab_position)] [(demo_key, \<lparr>scaled_amount = 500 * RAY\<rparr>)]"

abbreviation "purse_settled \<equiv> purse_owes (demo_state (500 * RAY) 0 0 500000000)
  \<lparr>cx_token_prices = [7 \<mapsto> lab_feed], cx_market_indexes = [demo_key \<mapsto> lab_index], cx_pool_address = Some 100, cx_pool_sync_data = Map.empty,
   cx_spoke_usage = Some \<lparr>uc_spoke_id = 1, uc_usage = [(demo_key, \<lparr>su_supplied_scaled_ray = 500 * RAY, su_borrowed_scaled_ray = 0\<rparr>)]\<rparr>,
   cx_spoke_config = None, cx_spoke_assets = [demo_key \<mapsto> purse_listing], cx_verified_hubs = Map.empty\<rparr>"

lemmas owing_data = purse_data purse_owes_def

lemma owing_gates:
  "require_authorized_caller 9 purse_owing = Inr ((), purse_owing)"
  "read_store_res (\<lambda>st. require_hub_active st 1) purse_owing = Inr ((), purse_owing)"
  "get_account purse_ext 1 purse_owing = Inr (owing_full, purse_owing)"
  "require_owner_or_delegate 1 9 (acc_owner owing_full) purse_owing = Inr ((), purse_owing)"
  by (simp_all add: owing_data purse_eval del: purse_folded)

lemma owing_prefetch:
  "fbind context_new (\<lambda>_. prefetch_strategy_prices purse_ext owing_full [7, 7]) purse_owing = Inr ((), owing_head)"
  by (simp add: owing_data purse_eval del: purse_folded)

lemma owing_settle: "net_settle_collateral_against_debt purse_ext demo_key 500000000 owing_full owing_head =
    Inr ((500000000, purse_account Normal purse_collateral []), purse_settled)"
  by (simp add: owing_data purse_eval close_eval del: purse_folded)

lemma owing_exit:
  "\<exists>s' a. fbind (execute_withdraw_all purse_ext 9 demo_key (purse_account Normal purse_collateral [])) (strategy_finalize purse_ext 1) purse_settled =
    Inr (a, s')"
  by (simp add: owing_data purse_eval close_eval del: purse_folded)

lemma purse_close: "\<exists>s'. process_repay_debt_with_collateral purse_ext 9 purse_repayment purse_owing = Inr ((), s')"
proof -
  from owing_prefetch obtain t where p: "context_new purse_owing = Inr ((), t)" "prefetch_strategy_prices purse_ext owing_full [7, 7] t = Inr ((), owing_head)"
    by (auto simp: fbind_Inr)
  from owing_exit obtain a b u s' where x: "execute_withdraw_all purse_ext 9 demo_key (purse_account Normal purse_collateral []) purse_settled = Inr (a, u)"
    "strategy_finalize purse_ext 1 a u = Inr (b, s')" by (auto simp: fbind_Inr)
  have fields: "rp_account_id purse_repayment = 1" "rp_collateral purse_repayment = demo_key" "rp_debt purse_repayment = demo_key"
    "rp_collateral_amount purse_repayment = 500000000" "rp_swap purse_repayment = []" "rp_close_position purse_repayment"
    "acc_borrow_positions (purse_account m sp []) = []" for m sp
    by (simp_all add: purse_repayment_def purse_account_def)
  show ?thesis
    by (simp add: process_repay_debt_with_collateral_def fields purse_const_fields(1,2) fbind_eval owing_gates p owing_settle x flift_def fret_def
      fassert_def require_positive_amount_def assert_with_error_def del: One_nat_def)
qed

end
