(* ===== verification/Liquidation_Plan.thy ===== *)
theory Liquidation_Plan
  imports Liquidation
begin

text \<open>
  What a liquidation plan guarantees: it exists only for an unhealthy account, it seizes no more shares
  than a position holds, and every token the liquidator offers is either applied to debt or returned.
\<close>

section \<open>Offered, applied and returned amounts\<close>

definition offered_in :: "hub_payment list \<Rightarrow> address \<Rightarrow> int" where
  "offered_in ps x = (\<Sum>(k, amount) \<leftarrow> ps. if asset k = x then amount else 0)"

definition applied_in :: "repay_entry list \<Rightarrow> address \<Rightarrow> int" where
  "applied_in es x = (\<Sum>e \<leftarrow> es. if asset (re_hub_asset e) = x then re_amount e else 0)"

definition returned_in :: "payment_tuple list \<Rightarrow> address \<Rightarrow> int" where
  "returned_in rs x = (\<Sum>r \<leftarrow> rs. if pt_asset r = x then pt_amount r else 0)"

lemmas flow_sums = offered_in_def applied_in_def returned_in_def

lemma excess_loop_conserves:
  "excess_loop kq es kept refunds remaining = Inr (kept', refunds') \<Longrightarrow>
    applied_in kept' x + returned_in refunds' x = applied_in es x + applied_in kept x + returned_in refunds x"
proof (induction es arbitrary: kept refunds remaining)
  case (Cons e es)
  show ?case
  proof (cases "\<not> remaining > 0 \<or> re_amount e \<le> 0 \<or> re_usd_wad e = 0 \<or> \<not> re_usd_wad e > remaining")
    case True
    then show ?thesis
      using Cons.prems Cons.IH by (fastforce simp: flow_sums rbind_Inr_iff rev_map [symmetric] sum_list_rev split: if_splits)
  next
    case False
    from Cons.prems False obtain new_amount usd remaining' where
      "excess_loop kq es (if new_amount = 0 then kept else e\<lparr>re_amount := new_amount, re_usd_wad := usd\<rparr> # kept)
        (refunds @ [\<lparr>pt_asset = asset (re_hub_asset e), pt_amount = re_amount e - new_amount\<rparr>]) remaining' = Inr (kept', refunds')"
      by (auto simp: Let_def rbind_Inr_iff native_Inr_iff)
    from Cons.IH [OF this] show ?thesis by (auto simp: flow_sums)
  qed
qed (simp add: flow_sums)

lemma process_excess_conserves:
  "process_excess_payment repaid refunds excess kq = Inr (repaid', refunds') \<Longrightarrow>
    applied_in repaid' x + returned_in refunds' x = applied_in repaid x + returned_in refunds x"
  unfolding process_excess_payment_def
  by (drule excess_loop_conserves [where x = x]) (simp add: applied_in_def rev_map [symmetric] sum_list_rev)

lemma release_conserves:
  "release_unbacked_repayment plan excess = Inr plan' \<Longrightarrow>
    applied_in (np_repaid plan') x + returned_in (np_refunds plan') x = applied_in (np_repaid plan) x + returned_in (np_refunds plan) x"
  by (auto simp: release_unbacked_repayment_def rbind_Inr_iff split: if_splits dest: process_excess_conserves [where x = x])

lemma repayment_legs_conserve:
  assumes "ffold (repayment_leg a) ps (usd, repaid, refunds) s = Inr ((usd', repaid', refunds'), s')"
  shows "applied_in repaid' x + returned_in refunds' x = offered_in ps x + applied_in repaid x + returned_in refunds x"
  using assms
proof (induction ps arbitrary: usd repaid refunds s)
  case (Cons p ps)
  obtain k amount where p: "p = (k, amount)" by (cases p)
  from Cons.prems obtain usd1 repaid1 refunds1 t where l: "repayment_leg a (k, amount) (usd, repaid, refunds) s = Inr ((usd1, repaid1, refunds1), t)"
    and r: "ffold (repayment_leg a) ps (usd1, repaid1, refunds1) t = Inr ((usd', repaid', refunds'), s')"
    by (auto simp: p fbind_Inr)
  from l have "applied_in repaid1 x + returned_in refunds1 x = (if asset k = x then amount else 0) + applied_in repaid x + returned_in refunds x"
    by (auto simp: repayment_leg_def fbind_Inr flift_Inr fret_Inr Let_def flow_sums native_Inr_iff split: if_splits)
  then show ?case using Cons.IH [OF r] by (simp add: p flow_sums)
qed (auto simp: fret_Inr flow_sums)

text \<open>Merging the payments of one market keeps what is offered.\<close>

definition merged_in :: "hub_asset_key list \<Rightarrow> (hub_asset_key \<rightharpoonup> int) \<Rightarrow> address \<Rightarrow> int" where
  "merged_in order totals x = (\<Sum>k \<leftarrow> order. if asset k = x then the (totals k) else 0)"

definition merge_ok :: "hub_asset_key list \<times> (hub_asset_key \<rightharpoonup> int) \<Rightarrow> bool" where
  "merge_ok acc \<longleftrightarrow> distinct (fst acc) \<and> set (fst acc) = dom (snd acc)"

lemma aggregate_step_conserves:
  assumes "aggregate_step Rejected (k, amount) acc = Inr acc'" and "merge_ok acc"
  shows "merged_in (fst acc') (snd acc') x = merged_in (fst acc) (snd acc) x + (if asset k = x then amount else 0)" and "merge_ok acc'"
proof -
  obtain order totals where acc: "acc = (order, totals)" by (cases acc)
  from assms(1) have acc': "acc' = (if totals k = None then order @ [k] else order, totals(k \<mapsto> (case totals k of Some p \<Rightarrow> p | None \<Rightarrow> 0) + amount))"
    by (auto simp: aggregate_step_def acc aggregate_payment_amount_def rbind_Inr_iff unwrap_Inr_iff i128_checked_add_def to_i128_opt_def split: if_splits)
  have ok: "distinct order" "set order = dom totals" using assms(2) by (simp_all add: merge_ok_def acc)
  show "merge_ok acc'" using ok by (auto simp: merge_ok_def acc')
  have upd: "(\<Sum>j \<leftarrow> order. if asset j = x then the ((totals(k \<mapsto> v)) j) else 0) =
      (\<Sum>j \<leftarrow> order. if asset j = x then the (totals j) else 0) + (if k \<in> set order \<and> asset k = x then v - the (totals k) else 0)" for v
    using ok(1) by (induction order) auto
  show "merged_in (fst acc') (snd acc') x = merged_in (fst acc) (snd acc) x + (if asset k = x then amount else 0)"
  proof (cases "totals k")
    case None
    then have "k \<notin> set order" using ok(2) by auto
    then show ?thesis using upd [of amount] by (simp add: merged_in_def acc' acc None)
  next
    case (Some p)
    then have "k \<in> set order" using ok(2) by auto
    then show ?thesis using upd [of "p + amount"] by (simp add: merged_in_def acc' acc Some)
  qed
qed

lemma aggregate_conserves:
  assumes "aggregate_positive_payments ps = Inr merged"
  shows "offered_in merged x = offered_in ps x"
proof -
  let ?final = "\<lambda>totals k result. rbind (expect_invariant (totals k)) (\<lambda>amount. Inr (result @ [(k, amount)]))"
  from assms obtain order totals where f: "rfold (aggregate_step Rejected) ps ([], Map.empty) = Inr (order, totals)"
    and r: "rfold (?final totals) order [] = Inr merged"
    by (auto simp: aggregate_positive_payments_def aggregate_payments_def rbind_Inr_iff)
  have "merged_in (fst acc') (snd acc') x = merged_in (fst acc) (snd acc) x + offered_in ps x" if "rfold (aggregate_step Rejected) ps acc = Inr acc'" "merge_ok acc" for acc acc'
    using that
  proof (induction ps arbitrary: acc)
    case (Cons p ps)
    obtain k amount where p: "p = (k, amount)" by (cases p)
    from Cons.prems obtain acc1 where s: "aggregate_step Rejected (k, amount) acc = Inr acc1"
      and rest: "rfold (aggregate_step Rejected) ps acc1 = Inr acc'" by (auto simp: p rbind_Inr_iff)
    show ?case
      using Cons.IH [OF rest aggregate_step_conserves(2) [OF s Cons.prems(2)]] aggregate_step_conserves(1) [OF s Cons.prems(2)]
      by (simp add: offered_in_def p)
  qed (simp add: offered_in_def)
  from this [OF f] have "merged_in order totals x = offered_in ps x" by (simp add: merged_in_def merge_ok_def)
  moreover have "offered_in merged x = offered_in start x + merged_in order totals x" if "rfold (?final totals) order start = Inr merged" for start
    using that by (induction order arbitrary: start)
      (auto simp: rbind_Inr_iff expect_invariant_def unwrap_Inr_iff offered_in_def merged_in_def)
  ultimately show ?thesis using r by (simp add: offered_in_def)
qed

lemma normalize_conserves:
  assumes "normalize_repayment_plan a pays snap bounds curve s = Inr (plan, s')"
  shows "applied_in (np_repaid plan) x + returned_in (np_refunds plan) x = offered_in pays x"
proof -
  from assms obtain usd repaid refunds t c excess insolvent final refunds' where
    l: "calculate_repayment_amounts pays a [] s = Inr ((usd, repaid, refunds), t)"
    and e: "(if c then rbind excess (\<lambda>excess_usd. process_excess_payment repaid refunds excess_usd insolvent)
      else Inr (repaid, refunds)) = Inr (final, refunds')"
    and plan: "np_repaid plan = final" "np_refunds plan = refunds'"
    by (auto simp: normalize_repayment_plan_def Let_def fbind_Inr flift_Inr fret_Inr)
  from l obtain merged where m: "aggregate_positive_payments pays = Inr merged"
    and f: "ffold (repayment_leg a) merged (0, [], []) s = Inr ((usd, repaid, refunds), t)"
    by (auto simp: calculate_repayment_amounts_def fbind_Inr flift_Inr)
  have "applied_in final x + returned_in refunds' x = applied_in repaid x + returned_in refunds x"
    using e by (auto simp: rbind_Inr_iff split: if_splits dest: process_excess_conserves [where x = x])
  then show ?thesis
    using repayment_legs_conserve [OF f, where x = x] aggregate_conserves [OF m, where x = x] by (simp add: plan flow_sums)
qed

section \<open>Seized shares\<close>

lemma shares_of_part:
  assumes "actual = half_up_div (scaled * index) RAY" and "part < actual" and "0 < index"
  shows "part * RAY div index \<le> scaled"
proof -
  have "actual * RAY \<le> scaled * index + RAY div 2" using half_up_ge_iff [of RAY actual "scaled * index"] assms(1) by (simp add: RAY_def)
  moreover have "part * RAY \<le> (actual - 1) * RAY" using assms(2) by (intro mult_right_mono) (simp_all add: RAY_def)
  ultimately have "part * RAY \<le> scaled * index" by (simp add: RAY_def left_diff_distrib)
  then have "part * RAY div index \<le> scaled * index div index" using assms(3) by (intro zdiv_mono1)
  then show ?thesis using assms(3) by simp
qed

lemma seizure_entry_bound:
  assumes "seizure_entry plan opb k position feed ix actual seizure = Inr (Some e)"
    and "ray_mul (ap_scaled_amount position) (mi_supply_index ix) = Inr actual"
  shows "se_hub_asset e = k" and "se_scaled_amount e \<le> ap_scaled_amount position"
proof -
  let ?capped = "if np_seize_all plan then actual else min seizure actual"
  from assms(1) obtain shares where k: "se_hub_asset e = k" and e: "se_scaled_amount e = shares"
    and sh: "(if ?capped = actual then Inr (ap_scaled_amount position) else ray_div_floor ?capped (mi_supply_index ix)) = Inr shares"
    by (auto simp: seizure_entry_def Let_def rbind_Inr_iff split: if_splits)
  have a: "actual = half_up_div (ap_scaled_amount position * mi_supply_index ix) RAY" "0 \<le> mi_supply_index ix"
    using assms(2) by (auto simp: ray_Inr)
  have "shares \<le> ap_scaled_amount position"
  proof (cases "?capped = actual")
    case False
    then have "?capped < actual" by (auto split: if_splits)
    moreover from sh False have "shares = ?capped * RAY div mi_supply_index ix" "mi_supply_index ix \<noteq> 0" by (auto simp: ray_Inr)
    ultimately show ?thesis using shares_of_part [OF a(1), of ?capped] a(2) by simp
  qed (use sh in simp)
  then show "se_hub_asset e = k" and "se_scaled_amount e \<le> ap_scaled_amount position" using k e by simp_all
qed

definition within :: "(hub_asset_key, account_position_raw) smap \<Rightarrow> seize_entry \<Rightarrow> bool" where
  "within held e \<longleftrightarrow> (\<exists>raw. (se_hub_asset e, raw) \<in> set held \<and> se_scaled_amount e \<le> apr_scaled_amount raw)"

lemma seized_within:
  assumes "calculate_seized_collateral a tc plan s = Inr ((seized, unbacked), s')" and "e \<in> set seized"
  shows "within (acc_supply_positions a) e"
proof (cases "tc \<le> 0")
  case True
  then show ?thesis using assms by (simp add: calculate_seized_collateral_def fret_Inr)
next
  case False
  with assms(1) obtain opb usd unseized where
    f: "ffold (seizure_leg plan tc opb usd) (iter_typed_positions (acc_supply_positions a)) ([], 0) s = Inr ((seized, unseized), s')"
    by (auto simp: calculate_seized_collateral_def fbind_Inr flift_Inr fret_Inr)
  have "\<forall>e \<in> set (fst (seized, unseized)). within (acc_supply_positions a) e"
  proof (rule ffold_invariant [OF f, where P = "\<lambda>acc _. \<forall>e \<in> set (fst acc). within (acc_supply_positions a) e"])
    fix leg acc u acc' u'
    assume mem: "leg \<in> set (iter_typed_positions (acc_supply_positions a))" and P: "\<forall>e \<in> set (fst acc). within (acc_supply_positions a) e"
      and step: "seizure_leg plan tc opb usd leg acc u = Inr (acc', u')"
    obtain k raw where leg: "leg = (k, account_position_of_raw raw)" "(k, raw) \<in> set (acc_supply_positions a)"
      using mem by (auto simp: iter_typed_positions_def)
    obtain old w where acc: "acc = (old, w)" by (cases acc)
    from step obtain feed ix actual seizure entry where r: "ray_mul (apr_scaled_amount raw) (mi_supply_index ix) = Inr actual"
      and en: "seizure_entry plan opb k (account_position_of_raw raw) feed ix actual seizure = Inr entry"
      and acc': "fst acc' = (case entry of None \<Rightarrow> old | Some e \<Rightarrow> old @ [e])"
      by (auto simp: seizure_leg_def leg(1) acc fbind_Inr flift_Inr fret_Inr)
    show "\<forall>e \<in> set (fst acc'). within (acc_supply_positions a) e"
    proof (cases entry)
      case (Some e)
      have "within (acc_supply_positions a) e"
        using seizure_entry_bound [OF en [unfolded Some]] r leg(2) by (auto simp: within_def)
      then show ?thesis using P by (simp add: acc' Some acc)
    qed (use P in \<open>simp add: acc' acc\<close>)
  qed simp
  then show ?thesis using assms(2) by simp
qed

section \<open>The plan\<close>

text \<open>The listing checks of the offered payments fill caches of listings only: nothing the account is valued with changes.\<close>

definition same_valuation :: "'w system \<Rightarrow> 'w system \<Rightarrow> bool" where
  "same_valuation s t \<longleftrightarrow> sy_store t = sy_store s \<and> sy_pool t = sy_pool s \<and>
     cx_token_prices (sy_ctx t) = cx_token_prices (sy_ctx s) \<and> cx_market_indexes (sy_ctx t) = cx_market_indexes (sy_ctx s)"

interpretation sv: frame same_valuation
  by unfold_locales (auto simp: same_valuation_def)

lemma flag_checks_keep_valuation:
  assumes "ffold (\<lambda>(k, _) _. enforce_spoke_asset_flags i k policy) ps () s = Inr ((), t)"
  shows "same_valuation s t"
proof -
  have upd: "sv.framed (upd_ctx f)" if "\<And>c. cx_token_prices (f c) = cx_token_prices c \<and> cx_market_indexes (f c) = cx_market_indexes c" for f
    unfolding upd_ctx_def by (rule sv.framed_fwrite) (simp add: same_valuation_def that)
  have "sv.framed (enforce_spoke_asset_flags i k policy)" for k
    unfolding enforce_spoke_asset_flags_def cached_spoke_asset_def ensure_spoke_context_def read_ctx_def read_store_def
    by (auto split: option.split freeze_policy.split intro!: frame_rules upd)
  then have "sv.framed (ffold (\<lambda>(k, _) _. enforce_spoke_asset_flags i k policy) ps ())"
    by (auto split: prod.split intro!: frame_rules)
  then show ?thesis using assms by (rule sv.framedD)
qed

lemma plan_validate_entries:
  assumes "liquidation_plan_validate plan = Inr u" and "e \<in> set (pl_seized plan)"
  shows "seize_entry_valid e"
proof -
  let ?f = "\<lambda>e _. if seize_entry_valid e then Inr () else Inl (Generic InternalError)"
  have "\<forall>e \<in> set es. seize_entry_valid e" if "rfold ?f es () = Inr v" for es v
    using that by (induction es) (auto simp: rbind_Inr_iff split: if_splits)
  with assms show ?thesis by (auto simp: liquidation_plan_validate_def rbind_Inr_iff)
qed

lemma plan_sound:
  fixes ext :: "'w ctl_externals"
  assumes "build_liquidation_plan ext a pays s = Inr (plan, s')"
  shows "\<exists>t totals t'. ffold (\<lambda>(k, _) _. enforce_spoke_asset_flags (acc_spoke_id a) k AllowOnExit) pays () s = Inr ((), t) \<and>
      calculate_account_risk_totals ext (acc_supply_positions a) (acc_borrow_positions a) t = Inr (totals, t') \<and>
      rt_health_factor totals < WAD"
    and "acc_borrow_positions a \<noteq> []"
    and "e \<in> set (pl_seized plan) \<Longrightarrow> within (acc_supply_positions a) e \<and> seize_entry_valid e"
    and "applied_in (np_repaid (pl_repayment plan)) x + returned_in (np_refunds (pl_repayment plan)) x = offered_in pays x"
proof -
  from assms obtain totals t t' snap bounds curve r0 tc seized unbacked r1 r2 and t1 t2 t3 :: "'w system" where
    flags: "ffold (\<lambda>(k, _) _. enforce_spoke_asset_flags (acc_spoke_id a) k AllowOnExit) pays () s = Inr ((), t)"
    and tot: "calculate_account_risk_totals ext (acc_supply_positions a) (acc_borrow_positions a) t = Inr (totals, t')" "rt_health_factor totals < WAD"
    and d: "acc_borrow_positions a \<noteq> []"
    and n: "normalize_repayment_plan a pays snap bounds curve t1 = Inr (r0, t2)"
    and z: "calculate_seized_collateral a tc r0 t2 = Inr ((seized, unbacked), t3)"
    and rel: "release_unbacked_repayment r0 unbacked = Inr r1"
    and rel2: "(if unbacked > 0 \<and> seized = [] then release_unbacked_repayment r1 (np_repay_usd r1) else Inr r1) = Inr r2"
    and plan: "plan = \<lparr>pl_repayment = r2, pl_seized = seized\<rparr>"
    and v: "liquidation_plan_validate \<lparr>pl_repayment = r2, pl_seized = seized\<rparr> = Inr ()"
    by (auto simp: build_liquidation_plan_def Let_def fbind_Inr flift_Inr fret_Inr fassert_Inr)
  show "\<exists>t totals t'. ffold (\<lambda>(k, _) _. enforce_spoke_asset_flags (acc_spoke_id a) k AllowOnExit) pays () s = Inr ((), t) \<and>
      calculate_account_risk_totals ext (acc_supply_positions a) (acc_borrow_positions a) t = Inr (totals, t') \<and>
      rt_health_factor totals < WAD" using flags tot by blast
  show "acc_borrow_positions a \<noteq> []" by (rule d)
  show "within (acc_supply_positions a) e \<and> seize_entry_valid e" if "e \<in> set (pl_seized plan)"
    using that seized_within [OF z] plan_validate_entries [OF v] by (simp add: plan)
  have "applied_in (np_repaid r2) x + returned_in (np_refunds r2) x = applied_in (np_repaid r1) x + returned_in (np_refunds r1) x"
    using rel2 release_conserves [where x = x] by (auto split: if_splits)
  then show "applied_in (np_repaid (pl_repayment plan)) x + returned_in (np_refunds (pl_repayment plan)) x = offered_in pays x"
    using release_conserves [OF rel, where x = x] normalize_conserves [OF n, where x = x] by (simp add: plan)
qed

end
