(* ===== verification/Controller_Properties.thy ===== *)
theory Controller_Properties
  imports Strategy_Lab Strategy_Solvency Liquidation_Plan
begin

text \<open>
  The properties of the controller and of the controller together with its pool.
\<close>

section \<open>Owner calls and accounts\<close>

interpretation ad: admin_frame "\<lambda>s s'. account_data (sy_store s') = account_data (sy_store s)" ext for ext :: "'w ctl_externals"
  by unfold_locales (auto simp: set_world_def admin_write_def)

interpretation ow: admin_frame "\<lambda>s s'. cs_owner (sy_store s') = cs_owner (sy_store s)" ext for ext :: "'w ctl_externals"
  by unfold_locales (auto simp: set_world_def admin_write_def)

lemma owner_keeps_accounts:
  assumes "ctl_dispatch ext cl s = Inr (u, s')" and "is_admin cl" and "\<forall>i. cl \<noteq> Ctl_Admin (Adm_Force_Socialize i)"
  shows "account_data (sy_store s') = account_data (sy_store s)"
  using assms(1,2)
proof (cases rule: admin_invocation)
  case (call a owner)
  show ?thesis
  proof (cases "plain_admin a")
    case True
    then show ?thesis using ad.framedD [OF ad.framed_admin call(2)] by simp
  next
    case False
    then obtain w where "a = Adm_Deploy_Pool w" using assms(3) call(1) by (cases a) auto
    with call(2) show ?thesis by (auto simp: discard_def deploy_pool_def res_iff upd_store_def read_store_def account_data_def)
  qed
qed (simp add: account_data_def)

lemma admin_keeps_owner:
  assumes "admin_dispatch ext a s = Inr (u, s')"
  shows "cs_owner (sy_store s') = cs_owner (sy_store s)"
proof (cases a)
  case (Adm_Deploy_Pool w)
  then show ?thesis using assms by (auto simp: discard_def deploy_pool_def res_iff upd_store_def read_store_def)
next
  case (Adm_Force_Socialize i)
  have "cfg.framed (process_force_socialize_bad_debt ext i)" by (intro frame_rules)
  from cfg.framedD [OF this] have "config_of (sy_store s') = config_of (sy_store s)" using assms Adm_Force_Socialize by simp
  from arg_cong [OF this, of cs_owner] show ?thesis by (simp add: config_of_def)
qed (use ow.framedD [OF ow.framed_admin assms] in simp_all)

section \<open>The ledger and the pool\<close>

text \<open>
  C2. The shares of every market are fully attributed: in every history in which the position NFT
  never issues an account id twice, the supply shares the pool has booked to users are exactly the sum of
  the shares the controller's accounts hold, and likewise for debt. No flow (supply, borrow, withdrawal,
  repayment, liquidation in both delivery modes, socialisation of bad debt, threshold refresh, the strategies
  that swap, multiply, migrate or open a flash position, market and owner calls) creates, loses or
  double-counts a share, whatever the swap router, the flash receiver or the Blend pool answer.
\<close>

theorem shares_conserved:
  assumes "sys_history ext s"
  shows "user_shares (sy_pool s) k = claimed_supply (sy_store s) k \<and> debt_shares (sy_pool s) k = claimed_debt (sy_store s) k"
  using history_balance [OF assms] by (simp add: books_balance_def ledger_ok_def ledger_off_def)

theorem shares_conserved_witness:
  "claimed_supply (sy_store lab_borrowed) demo_key = 1000 * RAY \<and> claimed_debt (sy_store lab_borrowed) demo_key = 500 * RAY"
proof -
  obtain c where "sys_history lab_ext (lab_borrowed\<lparr>sy_ctx := c\<rparr>)" using lab_history by blast
  from shares_conserved [OF this, of demo_key] show ?thesis
    by (simp add: user_shares_def debt_shares_def lab_borrowed_def demo_state_def)
qed

text \<open>
  C7. The controller implements its pool's specification: once the controller has deployed its pool,
  the pool's part of every reachable state of the whole system is a reachable state of the pool machine
  alone, at the address the controller recorded and owned by the controller. So every invariant of the pool
  machine holds in the system, and only the controller can move the pool.
\<close>

theorem system_refines_pool:
  assumes "sys_reachable ext s" and "cs_pool (sy_store s) = Some p"
  shows "reachable (ce_base ext) (sy_pool s) \<and> h_self (sy_pool s) = p \<and> h_owner (sy_pool s) = Some (sy_self s)"
  using sys_reachable_wired [OF assms(1)] assms(2) by (simp add: pool_wired_def)

theorem system_refines_pool_witness:
  "reachable (ce_base lab_ext) (sy_pool lab_borrowed) \<and> h_self (sy_pool lab_borrowed) = 100 \<and>
    h_owner (sy_pool lab_borrowed) = Some (sy_self lab_borrowed)"
proof -
  obtain c where "sys_history lab_ext (lab_borrowed\<lparr>sy_ctx := c\<rparr>)" using lab_history by blast
  from system_refines_pool [OF sys_history_reachable [OF this], of 100] show ?thesis
    by (simp add: lab_borrowed_def lab_supplied_def lab_store_def)
qed

section \<open>Risk\<close>

text \<open>
  C4. Every risk-gated call that succeeds leaves the accounts it touches covered, in exact arithmetic: a
  borrow, a withdrawal, a multiply, a debt or collateral swap, a repayment with collateral, a flash position
  or a migration. For the account it names, and for every account whose stored positions it changed (also
  one it created), at the prices and indexes the invocation used, the value of every stored collateral share
  weighted by the lower of its loan-to-value and its liquidation threshold is at least the value of every
  stored debt share. The roundings of the code (collateral down, debt up) never admit an account that is
  not. The price aggregator is assumed to report no negative price.
\<close>

theorem accounts_stay_covered:
  assumes "ctl_dispatch ext cl s = Inr (u, s')" and "gated_call cl = Some (caller, i)"
    and "\<And>tok f. cx_token_prices (sy_ctx s') tok = Some f \<Longrightarrow> 0 \<le> pf_price f"
    and "j = i \<and> i \<noteq> 0 \<or> get_supply_positions (sy_store s') j \<noteq> get_supply_positions (sy_store s) j \<or>
      get_debt_positions (sy_store s') j \<noteq> get_debt_positions (sy_store s) j"
    and "get_debt_positions (sy_store s') j \<noteq> []"
  shows "BPS * owed_value (sy_ctx s') (get_debt_positions (sy_store s') j) \<le>
    borrowing_power (sy_ctx s') (get_supply_positions (sy_store s') j)"
proof -
  have "prices_nonneg (sy_ctx s')" using assms(3) by (simp add: prices_nonneg_def)
  with gated_calls_cover [OF assms(2), of ext] assms(1) obtain k where k: "covers k s s'" and i: "i \<noteq> 0 \<longrightarrow> k = i"
    unfolding covering_new_def by blast
  with assms(4) have "k = j" by (auto simp: covers_def stored_positions_def)
  then show ?thesis using k assms(5) by (simp add: covers_def covered_def)
qed

theorem accounts_stay_covered_witness:
  "\<exists>c. ctl_dispatch lab_ext (Ctl_Borrow 9 1 [(demo_key, 500000000)] None) (lab_supplied\<lparr>sy_ctx := context_empty\<rparr>) =
      Inr ((), lab_borrowed\<lparr>sy_ctx := c\<rparr>) \<and>
    BPS * owed_value c [(demo_key, \<lparr>scaled_amount = 500 * RAY\<rparr>)] \<le> borrowing_power c [(demo_key, lab_position)]"
proof -
  obtain c where run: "ctl_dispatch lab_ext (Ctl_Borrow 9 1 [(demo_key, 500000000)] None) (lab_supplied\<lparr>sy_ctx := context_empty\<rparr>) =
      Inr ((), lab_borrowed\<lparr>sy_ctx := c\<rparr>)"
    and prices: "\<forall>tok f. cx_token_prices c tok = Some f \<longrightarrow> 0 \<le> pf_price f"
    using lab_borrow by blast
  have stored: "get_debt_positions (sy_store lab_borrowed) 1 = [(demo_key, \<lparr>scaled_amount = 500 * RAY\<rparr>)]"
    "get_supply_positions (sy_store lab_borrowed) 1 = [(demo_key, lab_position)]"
    by (simp_all add: lab_borrowed_def lab_supplied_def get_debt_positions_def get_supply_positions_def)
  have "BPS * owed_value c (get_debt_positions (sy_store lab_borrowed) 1) \<le> borrowing_power c (get_supply_positions (sy_store lab_borrowed) 1)"
    using accounts_stay_covered [OF run, of 9 1 1] prices by (simp add: stored del: One_nat_def)
  then show ?thesis using run unfolding stored by blast
qed

text \<open>
  C6. A liquidation plan exists only for an account with debt whose health factor is below one in the state the
  plan is built in: after the listing checks of the offered payments, which change neither the controller's store nor
  the pool, nor a cached price or index, the risk totals of the account's positions give a health factor under one. The plan
  seizes from each collateral position at most the shares the position holds, a positive amount with a
  protocol fee within it; and of every token, what is applied to debt and what is returned add up to
  exactly what the liquidator offered.
\<close>

theorem liquidation_plan_sound:
  assumes "build_liquidation_plan ext a pays s = Inr (plan, s')"
  shows "acc_borrow_positions a \<noteq> [] \<and>
    (\<exists>t totals t'. ffold (\<lambda>(k, _) _. enforce_spoke_asset_flags (acc_spoke_id a) k AllowOnExit) pays () s = Inr ((), t) \<and>
      sy_store t = sy_store s \<and> sy_pool t = sy_pool s \<and> cx_token_prices (sy_ctx t) = cx_token_prices (sy_ctx s) \<and>
      cx_market_indexes (sy_ctx t) = cx_market_indexes (sy_ctx s) \<and>
      calculate_account_risk_totals ext (acc_supply_positions a) (acc_borrow_positions a) t = Inr (totals, t') \<and>
      rt_health_factor totals < WAD) \<and>
    (\<forall>e \<in> set (pl_seized plan).
      (\<exists>raw. (se_hub_asset e, raw) \<in> set (acc_supply_positions a) \<and> 0 < se_scaled_amount e \<and> se_scaled_amount e \<le> apr_scaled_amount raw) \<and>
      0 < se_amount e \<and> 0 \<le> se_protocol_fee e \<and> se_protocol_fee e \<le> se_amount e) \<and>
    (\<forall>x. applied_in (np_repaid (pl_repayment plan)) x + returned_in (np_refunds (pl_repayment plan)) x = offered_in pays x)"
proof -
  have "(\<exists>raw. (se_hub_asset e, raw) \<in> set (acc_supply_positions a) \<and> 0 < se_scaled_amount e \<and> se_scaled_amount e \<le> apr_scaled_amount raw) \<and>
      0 < se_amount e \<and> 0 \<le> se_protocol_fee e \<and> se_protocol_fee e \<le> se_amount e" if "e \<in> set (pl_seized plan)" for e
    using plan_sound(3) [OF assms that] by (auto simp: within_def seize_entry_valid_def)
  moreover obtain t totals t' where t: "ffold (\<lambda>(k, _) _. enforce_spoke_asset_flags (acc_spoke_id a) k AllowOnExit) pays () s = Inr ((), t)"
    "calculate_account_risk_totals ext (acc_supply_positions a) (acc_borrow_positions a) t = Inr (totals, t')" "rt_health_factor totals < WAD"
    using plan_sound(1) [OF assms] by blast
  ultimately show ?thesis
    using flag_checks_keep_valuation [OF t(1)] plan_sound(2,4) [OF assms] unfolding same_valuation_def by blast
qed

theorem liquidation_plan_sound_witness:
  "\<exists>plan s'. build_liquidation_plan lab_ext lab_unhealthy [(demo_key, 100000000)] lab_cached = Inr (plan, s') \<and>
    applied_in (np_repaid (pl_repayment plan)) 7 + returned_in (np_refunds (pl_repayment plan)) 7 = 100000000"
proof -
  obtain plan s' where "build_liquidation_plan lab_ext lab_unhealthy [(demo_key, 100000000)] lab_cached = Inr (plan, s')"
    using lab_plan by auto
  with liquidation_plan_sound [OF this] show ?thesis by (auto simp: offered_in_def demo_key_def)
qed

section \<open>Authority\<close>

text \<open>
  C8. Value leaves an account only on authority of its present owner: a risk-gated call on an existing
  account (borrow, withdrawal and every strategy) that succeeds was authorised by the caller, ran outside
  every flash loan, and the caller is the present owner of the account's NFT or an active position manager
  in a delegation that this same owner granted. A delegation granted by a former owner gives no authority.
\<close>

theorem position_authority:
  assumes "ctl_dispatch ext cl s = Inr (u, s')" and "gated_call cl = Some (caller, i)" and "i \<noteq> 0"
  shows "sy_auth s caller \<and> \<not> cs_flash_loan_ongoing (sy_store s) \<and>
    (\<exists>owner. account_owner ext s i = Inr owner \<and>
      (caller = owner \<or> cs_position_managers (sy_store s) caller = Some True \<and>
        (\<exists>grant. cs_delegates (sy_store s) i = Some grant \<and> dg_granted_by grant = owner \<and> caller \<in> set (dg_delegates grant))))"
proof -
  from gated_needs_owner [OF assms] obtain owner where "account_owner ext s i = Inr owner"
    and "is_owner_or_delegate i caller owner (sy_store s)" by (auto simp: admits_def)
  then show ?thesis
    using gated_needs_auth [OF assms(1,2)] by (cases "cs_delegates (sy_store s) i")
      (auto simp: is_owner_or_delegate_def get_position_manager_def get_delegates_def split: if_splits)
qed

theorem position_authority_witness:
  "sy_auth lab_supplied 9 \<and> (\<exists>owner. account_owner lab_ext lab_supplied 1 = Inr owner)"
proof -
  obtain c where "ctl_dispatch lab_ext (Ctl_Borrow 9 1 [(demo_key, 500000000)] None) (lab_supplied\<lparr>sy_ctx := sy_ctx lab_supplied\<rparr>) =
      Inr ((), lab_borrowed\<lparr>sy_ctx := c\<rparr>)" using lab_borrow by blast
  from position_authority [OF this, of 9 1] show ?thesis by auto
qed

text \<open>
  C12. Duties are separated. An invocation that is neither an owner's call nor the acceptance of an ownership offer
  leaves the whole configuration as it was (owner, pause state, registry, hubs, spokes, listings, limits, and the
  flash-loan flag, which a flash loan restores). An owner's call was authorised by the stored owner and does not replace
  the owner; other than the forced socialisation of one account, it leaves every account, position, delegation and spoke
  usage as it was. The acceptance, which anyone may submit, stores the owner that the ownership library accepted under the authorisations
  of the call, and changes nothing else of the controller's storage.
\<close>

theorem separation_of_duties:
  assumes "ctl_dispatch ext cl s = Inr (u, s')"
  shows "(\<not> is_admin cl \<longrightarrow> config_of (sy_store s') = config_of (sy_store s)) \<and>
    (is_admin cl \<and> (\<forall>i. cl \<noteq> Ctl_Admin (Adm_Force_Socialize i)) \<longrightarrow> account_data (sy_store s') = account_data (sy_store s)) \<and>
    (\<forall>a. cl = Ctl_Admin a \<longrightarrow> (\<exists>owner. cs_owner (sy_store s) = Some owner \<and> sy_auth s owner \<and> cs_owner (sy_store s') = Some owner)) \<and>
    (cl = Ctl_Accept_Ownership \<longrightarrow> (\<exists>accepted w. ce_accept_ownership ext (sy_auth s) (sy_world s) = Inr (accepted, w) \<and>
      sy_store s' = (sy_store s)\<lparr>cs_owner := Some accepted\<rparr>))"
proof -
  have "\<exists>owner. cs_owner (sy_store s) = Some owner \<and> sy_auth s owner \<and> cs_owner (sy_store s') = Some owner" if "cl = Ctl_Admin a" for a
    using assms by (rule admin_invocation) (use that in \<open>auto dest: admin_keeps_owner\<close>)
  moreover have "\<exists>accepted w. ce_accept_ownership ext (sy_auth s) (sy_world s) = Inr (accepted, w) \<and>
      sy_store s' = (sy_store s)\<lparr>cs_owner := Some accepted\<rparr>" if "cl = Ctl_Accept_Ownership"
    using assms by (rule admin_invocation) (use that in auto)
  ultimately show ?thesis
    using cfg.framedD [OF cfg.framed_user_call assms] owner_keeps_accounts [OF assms] by blast
qed

theorem separation_of_duties_witness:
  "config_of (sy_store lab_borrowed) = config_of (sy_store lab_supplied) \<and> account_data (sy_store lab3) = account_data (sy_store lab2) \<and>
   (\<exists>s'. ctl_dispatch lab_ext Ctl_Accept_Ownership lab1 = Inr ((), s') \<and> sy_store s' = (sy_store lab1)\<lparr>cs_owner := Some 9\<rparr>)"
proof -
  obtain c where borrow: "ctl_dispatch lab_ext (Ctl_Borrow 9 1 [(demo_key, 500000000)] None) (lab_supplied\<lparr>sy_ctx := sy_ctx lab_supplied\<rparr>) =
      Inr ((), lab_borrowed\<lparr>sy_ctx := c\<rparr>)" using lab_borrow by blast
  have "\<exists>s'. ctl_dispatch lab_ext Ctl_Accept_Ownership lab1 = Inr ((), s')"
    by (simp add: controller_accept_ownership_def fbind_def fread_def world_call_def upd_store_def fwrite_def lab_ext_def lab1_def lab_bare_def)
  then obtain s' where accept: "ctl_dispatch lab_ext Ctl_Accept_Ownership lab1 = Inr ((), s')" ..
  have "\<And>w. ce_accept_ownership lab_ext (sy_auth lab1) w = Inr (9, w)" by (simp add: lab_ext_def lab1_def lab_bare_def)
  with separation_of_duties [OF borrow] separation_of_duties [OF lab_configure(2)] separation_of_duties [OF accept] accept
  show ?thesis by simp
qed

section \<open>Strategies\<close>

text \<open>
  C19. A swap costs exactly what was offered: whatever the router does with the allowance it is given, a swap
  that succeeds leaves the controller with precisely the offered amount less of the input token (the unspent
  part goes to the refund address) and with more of the output token, by the amount reported; nothing else of the
  system changes. The input token is assumed to debit a sender by the amount transferred.
\<close>

theorem swap_costs_offer:
  assumes "swap_tokens ext refund_to tok_in n tok_out route s = Inr (received, s')" and "refund_to \<noteq> sy_self s"
    and "\<And>d m w w' b. token_transfer (ce_base ext) tok_in (sy_self s) d m w = Inr w' \<Longrightarrow> d \<noteq> sy_self s \<Longrightarrow>
      token_balance (ce_base ext) tok_in (sy_self s) w = Inr b \<Longrightarrow> token_balance (ce_base ext) tok_in (sy_self s) w' = Inr (b - m)"
  shows "\<exists>before_in before_out. token_balance (ce_base ext) tok_in (sy_self s) (sy_world s) = Inr before_in \<and>
    token_balance (ce_base ext) tok_out (sy_self s) (sy_world s) = Inr before_out \<and>
    token_balance (ce_base ext) tok_in (sy_self s) (sy_world s') = Inr (before_in - n) \<and>
    token_balance (ce_base ext) tok_out (sy_self s) (sy_world s') = Inr (before_out + received) \<and>
    0 < n \<and> 0 < received \<and> s' = set_world (sy_world s') s"
proof (rule swap_accounting [OF assms(1)])
  fix w1 w2 router b0 b1 o0 o1
  assume n: "0 < n" and s': "s' = set_world w2 s" and b0: "token_balance (ce_base ext) tok_in (sy_self s) (sy_world s) = Inr b0"
    and b1: "token_balance (ce_base ext) tok_in (sy_self s) w1 = Inr b1" "b0 - b1 \<le> n"
    and t: "n - (b0 - b1) > 0 \<Longrightarrow> token_transfer (ce_base ext) tok_in (sy_self s) refund_to (n - (b0 - b1)) w1 = Inr w2"
    and e: "\<not> n - (b0 - b1) > 0 \<Longrightarrow> w2 = w1"
    and o: "token_balance (ce_base ext) tok_out (sy_self s) (sy_world s) = Inr o0" "token_balance (ce_base ext) tok_out (sy_self s) w2 = Inr o1"
      "received = o1 - o0" "0 < received"
  have "token_balance (ce_base ext) tok_in (sy_self s) w2 = Inr (b0 - n)"
  proof (cases "n - (b0 - b1) > 0")
    case True
    from assms(3) [OF t [OF True] assms(2) b1(1)] show ?thesis by simp
  next
    case False
    then show ?thesis using e b1 by simp
  qed
  then show ?thesis using n b0 o by (simp add: s' set_world_def)
qed

theorem swap_costs_offer_witness:
  "\<exists>s'. swap_tokens purse_ext 9 7 40 8 [1] purse_start = Inr (30, s') \<and> held_by 7 1 (sy_world s') = 10 \<and> held_by 8 1 (sy_world s') = 30"
proof -
  obtain s' where run: "swap_tokens purse_ext 9 7 40 8 [1] purse_start = Inr (30, s')" using purse_swap by blast
  have self: "sy_self purse_start = 1" by (simp add: purse_start_def purse_system_def)
  have law: "token_balance (ce_base purse_ext) 7 (sy_self purse_start) w' = Inr (b - m)"
    if "token_transfer (ce_base purse_ext) 7 (sy_self purse_start) d m w = Inr w'" and "d \<noteq> sy_self purse_start"
      and "token_balance (ce_base purse_ext) 7 (sy_self purse_start) w = Inr b" for d m w w' b
    using that by (auto simp: purse_ext_fields pay_def held_by_def self Let_def)
  show ?thesis
    using swap_costs_offer [OF run _ law] run
    by (auto simp: purse_ext_fields purse_states)
qed

text \<open>
  C20. A flash position that returns is open: the account it reports (the one named, or a new one) is
  stored with a positive debt in the borrowed market and with collateral, so the borrowed amount never leaves
  the protocol without a booked debt, whatever the receiver did in its callback.
\<close>

theorem flash_position_opens:
  assumes "process_flash_position ext caller p s = Inr (i, s')"
  shows "(\<exists>pos. smap_get (get_debt_positions (sy_store s') i) (fp_debt p) = Some pos \<and> 0 < scaled_amount pos) \<and>
    get_supply_positions (sy_store s') i \<noteq> [] \<and> (fp_account_id p = 0 \<or> i = fp_account_id p)"
  using flash_position_stored [OF assms] by blast

theorem flash_position_opens_witness:
  "\<exists>s'. process_flash_position purse_ext 9 purse_request purse_start = Inr (2, s') \<and> get_supply_positions (sy_store s') 2 \<noteq> []"
proof -
  obtain s' where "process_flash_position purse_ext 9 purse_request purse_start = Inr (2, s')" using purse_flash by blast
  with flash_position_opens [OF this] show ?thesis by blast
qed

text \<open>
  C21. Closing an account leaves nothing behind: a repayment with collateral that asks to close the account
  and succeeds has returned to the pool every share the account was stored with, in every market: the users' supply shares
  of the pool fall by exactly the account's stored supply shares (swapped, netted or withdrawn) and its debt shares by exactly
  the account's stored debt; and it has removed the account, its positions on both sides and its delegations. The pool's books are
  assumed to be well formed and the stored position maps to be sorted by key, as they are in every history.
\<close>

theorem closing_repayment_removes_account:
  assumes "ctl_dispatch ext (Ctl_Repay_With_Collateral caller p) s = Inr (u, s')" and "rp_close_position p"
    and "host_ok (sy_pool s)" and "smap_ok (get_supply_positions (sy_store s) (rp_account_id p))"
    and "smap_ok (get_debt_positions (sy_store s) (rp_account_id p))"
  shows "user_shares (sy_pool s') k =
      user_shares (sy_pool s) k - shares_in apr_scaled_amount (get_supply_positions (sy_store s) (rp_account_id p)) k \<and>
    debt_shares (sy_pool s') k =
      debt_shares (sy_pool s) k - shares_in scaled_amount (get_debt_positions (sy_store s) (rp_account_id p)) k \<and>
    cs_account_meta (sy_store s') (rp_account_id p) = None \<and> cs_supply_positions (sy_store s') (rp_account_id p) = None \<and>
    cs_borrow_positions (sy_store s') (rp_account_id p) = None \<and> cs_delegates (sy_store s') (rp_account_id p) = None"
proof -
  from assms(1) obtain v where run: "process_repay_debt_with_collateral ext caller p s = Inr (v, s')"
    by (auto simp: when_not_paused_def discard_def read_store_def res_iff)
  show ?thesis
    using close_returns_shares [OF run assms(2-5)] close_removes_account [OF run assms(2)] by blast
qed

theorem closing_repayment_removes_account_witness:
  "\<exists>s'. ctl_dispatch purse_ext (Ctl_Repay_With_Collateral 9 purse_repayment) purse_owing = Inr ((), s') \<and>
    cs_account_meta (sy_store purse_owing) 1 \<noteq> None \<and> cs_account_meta (sy_store s') 1 = None \<and>
    user_shares (sy_pool purse_owing) demo_key = 1000 * RAY \<and> user_shares (sy_pool s') demo_key = 0 \<and> debt_shares (sy_pool s') demo_key = 0"
proof -
  have owing: "\<not> cs_paused (sy_store purse_owing)" by (simp add: purse_owes_def purse_system_def purse_store_def)
  obtain s' where "process_repay_debt_with_collateral purse_ext 9 purse_repayment purse_owing = Inr ((), s')" using purse_close by blast
  then have run: "ctl_dispatch purse_ext (Ctl_Repay_With_Collateral 9 purse_repayment) purse_owing = Inr ((), s')"
    by (simp add: when_not_paused_def read_store_def fbind_def rbind_def fread_def fassert_def flift_def assert_with_error_def owing)
  have stored: "get_supply_positions (sy_store purse_owing) 1 = [(demo_key, lab_position)]"
    "get_debt_positions (sy_store purse_owing) 1 = [(demo_key, \<lparr>scaled_amount = 500 * RAY\<rparr>)]"
    by (simp_all add: purse_owes_def purse_system_def purse_store_def get_supply_positions_def get_debt_positions_def)
  have books: "h_params (sy_pool purse_owing) = h_params demo_borrowed" "h_state (sy_pool purse_owing) = h_state demo_borrowed"
    by (simp_all add: purse_owes_def purse_system_def purse_pool_def demo_host_def)
  have ok: "host_ok (sy_pool purse_owing)" using demo_ok(4) by (simp add: host_ok_def books)
  have fields: "rp_account_id purse_repayment = 1" "rp_close_position purse_repayment" by (simp_all add: purse_repayment_def)
  have shares: "user_shares (sy_pool purse_owing) demo_key = 1000 * RAY" "debt_shares (sy_pool purse_owing) demo_key = 500 * RAY"
    by (simp_all add: user_shares_def debt_shares_def purse_owes_def purse_system_def purse_pool_def demo_state_def)
  have meta: "cs_account_meta (sy_store purse_owing) 1 \<noteq> None" by (simp add: purse_owes_def purse_system_def purse_store_def)
  have position: "apr_scaled_amount lab_position = 1000 * RAY" by (simp add: lab_position_def)
  from closing_repayment_removes_account [OF run fields(2) ok, of demo_key] run shares meta show ?thesis
    by (simp add: fields stored smap_ok_def shares_in_def position del: One_nat_def)
qed

end
