(* ===== verification/Observation.thy ===== *)
theory Observation
  imports Validation
begin

text \<open>
  \<^verbatim>\<open>src/common/src/oracle/observation.rs\<close>: the checks and conversions every price source shares
  (staleness, future timestamps, narrowing of 256-bit prices, scaling to WAD). The price records of the
  RedStone and Reflector interfaces are those of \<^verbatim>\<open>src/common/src/oracle/providers\<close>; feed
  ids and symbols are strings, a \<^verbatim>\<open>U256\<close> is a non-negative \<open>int\<close> below \<open>2 ^ 256\<close>.
\<close>

section \<open>Definitions\<close>

definition MAX_FUTURE_SKEW_SECONDS :: nat where
  "MAX_FUTURE_SKEW_SECONDS = 60"

datatype reflector_asset = Stellar address | Other string

record redstone_price_data =
  rs_price :: int
  rs_package_timestamp :: nat
  rs_write_timestamp :: nat

record reflector_price_data =
  rf_price :: int
  rf_timestamp :: nat

definition REDSTONE_DECIMALS :: nat where
  "REDSTONE_DECIMALS = 8"

definition try_normalize_positive_price :: "int \<Rightarrow> nat \<Rightarrow> int option" where
  "try_normalize_positive_price price decimals =
     (if price \<le> 0 \<or> decimals > WAD_DECIMALS then None
      else case i128_checked_pow10 (WAD_DECIMALS - decimals) of
             None \<Rightarrow> None
           | Some factor \<Rightarrow> i128_checked_mul price factor)"

definition is_stale :: "nat \<Rightarrow> nat \<Rightarrow> nat \<Rightarrow> bool" where
  "is_stale now_secs feed_ts max_stale \<longleftrightarrow> now_secs > feed_ts \<and> now_secs - feed_ts > max_stale"

definition u64_checked_add :: "nat \<Rightarrow> nat \<Rightarrow> nat option" where
  "u64_checked_add a b = (if a + b \<le> u64_max then Some (a + b) else None)"

definition u64_saturating_add :: "nat \<Rightarrow> nat \<Rightarrow> nat" where
  "u64_saturating_add a b = min u64_max (a + b)"

definition u64_saturating_mul :: "nat \<Rightarrow> nat \<Rightarrow> nat" where
  "u64_saturating_mul a b = min u64_max (a * b)"

definition u64_native :: "nat \<Rightarrow> nat res" where
  "u64_native x = (if x \<le> u64_max then Inr x else Inl (Host ArithmeticTrap))"

definition check_not_future_at :: "nat \<Rightarrow> nat \<Rightarrow> unit res" where
  "check_not_future_at now_secs feed_ts =
     rbind (unwrap_or_panic (u64_checked_add now_secs MAX_FUTURE_SKEW_SECONDS) (Generic MathOverflow)) (\<lambda>max_future_ts.
     assert_with_error (feed_ts \<le> max_future_ts) (Oracle PriceFeedStale))"

definition is_future_at :: "nat \<Rightarrow> nat \<Rightarrow> bool" where
  "is_future_at now_secs feed_ts =
     (case u64_checked_add now_secs MAX_FUTURE_SKEW_SECONDS of
        Some max_future_ts \<Rightarrow> feed_ts > max_future_ts
      | None \<Rightarrow> False)"

definition try_u256_to_i128 :: "int \<Rightarrow> int option" where
  "try_u256_to_i128 v = (if v < 2 ^ 128 then (if v \<le> i128_max then Some v else None) else None)"

definition u256_to_i128 :: "int \<Rightarrow> int res" where
  "u256_to_i128 v = unwrap_or_panic (try_u256_to_i128 v) (Generic MathOverflow)"

definition try_amount_to_wad :: "int \<Rightarrow> nat \<Rightarrow> int res" where
  "try_amount_to_wad amount decimals =
     rbind (unwrap_or_panic (if decimals \<le> WAD_DECIMALS then i128_checked_pow10 (WAD_DECIMALS - decimals) else None)
              (Oracle InvalidPrice)) (\<lambda>scale.
     unwrap_or_panic (try_mul_div_half_up amount scale 1) (Oracle InvalidPrice))"

definition millis_to_seconds :: "nat \<Rightarrow> nat" where
  "millis_to_seconds timestamp_ms = timestamp_ms div MS_PER_SECOND"

section \<open>Lemmas\<close>

lemma u64_native_Inr [res_iff]: "u64_native x = Inr y \<longleftrightarrow> y = x \<and> x \<le> u64_max"
  by (auto simp: u64_native_def)

lemma normalized_price:
  "try_normalize_positive_price p d = Some q \<longleftrightarrow>
     0 < p \<and> d \<le> WAD_DECIMALS \<and> q = p * 10 ^ (WAD_DECIMALS - d) \<and> in_i128 q"
proof -
  have "in_i128 (10 ^ (WAD_DECIMALS - d))"
  proof -
    have "(10::int) ^ (WAD_DECIMALS - d) \<le> 10 ^ 18"
      by (intro power_increasing) (simp_all add: WAD_DECIMALS_def)
    then show ?thesis using in_i128_le [of "10 ^ 18" "10 ^ (WAD_DECIMALS - d)"] by (simp add: in_i128_iff)
  qed
  then show ?thesis
    by (auto simp: try_normalize_positive_price_def i128_checked_pow10_def i128_checked_mul_def to_i128_opt_def)
qed

lemma not_future_bound: "check_not_future_at n f = Inr u \<longleftrightarrow> f \<le> n + MAX_FUTURE_SKEW_SECONDS \<and> n + MAX_FUTURE_SKEW_SECONDS \<le> u64_max"
  by (auto simp: check_not_future_at_def u64_checked_add_def res_iff)

end
