(* ===== verification/Xoxno_Index.thy ===== *)
theory Xoxno_Index
  imports Prelude
begin

text \<open>
  \<^verbatim>\<open>src/contracts/xoxno-oracle/src/storage/index.rs\<close>: the swap-remove collections the oracle keeps of
  its assets and of its feed ids. Both have the same three key families, a counter, the slots and the
  reverse index, so one record and one set of operations stand for both copies of the code. The
  relation \<open>index_rep\<close> says which list the three families hold; the operations refine appending to that
  list and moving its last element into a gap, and the locale \<open>registry\<close> states what the rest of the
  contract relies on.
\<close>

section \<open>Definitions\<close>

record 'a slots =
  ix_count :: "nat option"
  ix_at :: "nat \<rightharpoonup> 'a"
  ix_index :: "'a \<rightharpoonup> nat"

definition empty_index :: "'a slots" where
  "empty_index = \<lparr>ix_count = None, ix_at = Map.empty, ix_index = Map.empty\<rparr>"

definition index_count :: "'a slots \<Rightarrow> nat" where
  "index_count s = (case ix_count s of None \<Rightarrow> 0 | Some n \<Rightarrow> n)"

definition index_contains :: "'a slots \<Rightarrow> 'a \<Rightarrow> bool" where
  "index_contains s x \<longleftrightarrow> ix_index s x \<noteq> None"

definition index_insert :: "'a \<Rightarrow> 'a slots \<Rightarrow> 'a slots res" where
  "index_insert x s =
     (let count = index_count s;
          s = s\<lparr>ix_at := (ix_at s)(count \<mapsto> x)\<rparr>;
          s = s\<lparr>ix_index := (ix_index s)(x \<mapsto> count)\<rparr> in
      if count + 1 > u32_max then Inl (Host ArithmeticTrap)
      else Inr (s\<lparr>ix_count := Some (count + 1)\<rparr>))"

definition index_remove :: "'a \<Rightarrow> 'a slots \<Rightarrow> 'a slots res" where
  "index_remove x s =
     (case ix_index s x of
        None \<Rightarrow> Inr s
      | Some removed_at \<Rightarrow>
          let s = s\<lparr>ix_index := (ix_index s)(x := None)\<rparr>; count = index_count s in
          if count = 0 then Inl (Host ArithmeticTrap)
          else let last_at = count - 1;
                   s = (if removed_at \<noteq> last_at
                        then case ix_at s last_at of
                               None \<Rightarrow> s
                             | Some moved \<Rightarrow>
                                 s\<lparr>ix_at := (ix_at s)(removed_at \<mapsto> moved),
                                   ix_index := (ix_index s)(moved \<mapsto> removed_at)\<rparr>
                        else s) in
               Inr (s\<lparr>ix_at := (ix_at s)(last_at := None), ix_count := Some last_at\<rparr>))"

definition index_all :: "'a slots \<Rightarrow> 'a list" where
  "index_all s = List.map_filter (ix_at s) [0..<index_count s]"

section \<open>The list a collection holds\<close>

definition index_rep :: "'a slots \<Rightarrow> 'a list \<Rightarrow> bool" where
  "index_rep s xs \<longleftrightarrow>
     distinct xs \<and> index_count s = length xs \<and> length xs \<le> u32_max \<and>
     (\<forall>i. ix_at s i = (if i < length xs then Some (xs ! i) else None)) \<and>
     (\<forall>x i. ix_index s x = Some i \<longleftrightarrow> i < length xs \<and> xs ! i = x)"

definition index_wf :: "'a slots \<Rightarrow> bool" where
  "index_wf s \<longleftrightarrow> index_rep s (index_all s)"

definition swap_remove :: "nat \<Rightarrow> 'a list \<Rightarrow> 'a list" where
  "swap_remove i xs = (if i = length xs - 1 then butlast xs else (butlast xs)[i := last xs])"

section \<open>Refinement of list operations\<close>

lemma map_filter_prefix:
  "(\<And>i. i < n \<Longrightarrow> f i = Some (xs ! i)) \<Longrightarrow> n \<le> length xs \<Longrightarrow> List.map_filter f [0..<n] = take n xs"
  by (induction n) (auto simp: map_filter_def take_Suc_conv_app_nth)

lemma index_rep_all: "index_rep s xs \<Longrightarrow> index_all s = xs"
  using map_filter_prefix [of "length xs" "ix_at s" xs] by (simp add: index_all_def index_rep_def)

lemma index_repI: "index_rep s xs \<Longrightarrow> index_wf s"
  by (simp add: index_wf_def index_rep_all)

lemma index_rep_contains: "index_rep s xs \<Longrightarrow> index_contains s x \<longleftrightarrow> x \<in> set xs"
  unfolding index_rep_def index_contains_def in_set_conv_nth by (metis not_None_eq)

lemma index_rep_empty: "index_rep empty_index []"
  by (simp add: index_rep_def empty_index_def index_count_def)

lemma index_insert_rep:
  assumes rep: "index_rep s xs" and fresh: "x \<notin> set xs" and run: "index_insert x s = Inr s'"
  shows "index_rep s' (xs @ [x])"
proof -
  have s': "s' = s\<lparr>ix_at := (ix_at s)(length xs \<mapsto> x), ix_index := (ix_index s)(x \<mapsto> length xs),
                  ix_count := Some (length xs + 1)\<rparr>" and room: "length xs < u32_max"
    using run rep by (auto simp: index_insert_def index_rep_def Let_def split: if_splits)
  have "ix_index s' y = Some i \<longleftrightarrow> i < length (xs @ [x]) \<and> (xs @ [x]) ! i = y" for y i
    using rep fresh unfolding s' by (auto simp: index_rep_def nth_append less_Suc_eq in_set_conv_nth)
  moreover have "ix_at s' i = (if i < length (xs @ [x]) then Some ((xs @ [x]) ! i) else None)" for i
    using rep unfolding s' by (auto simp: index_rep_def nth_append less_Suc_eq)
  ultimately show ?thesis
    using rep fresh room unfolding index_rep_def by (simp add: s' index_count_def)
qed

lemma swap_remove_props:
  assumes "distinct xs" and i: "i < length xs"
  shows "length (swap_remove i xs) = length xs - 1"
    and "set (swap_remove i xs) = set xs - {xs ! i}"
    and "distinct (swap_remove i xs)"
proof -
  obtain ys z where xs: "xs = ys @ [z]"
    using i by (cases xs rule: rev_cases) auto
  show "length (swap_remove i xs) = length xs - 1"
    by (simp add: swap_remove_def)
  show "set (swap_remove i xs) = set xs - {xs ! i}" and "distinct (swap_remove i xs)"
    using assms unfolding xs swap_remove_def
    by (auto simp: nth_append set_update_distinct distinct_list_update less_Suc_eq)
qed

lemma index_remove_rep:
  assumes rep: "index_rep s xs" and i: "i < length xs"
  shows "\<exists>s'. index_remove (xs ! i) s = Inr s' \<and> index_rep s' (swap_remove i xs)"
proof -
  let ?n = "length xs - 1"
  have ix: "ix_index s y = Some k \<longleftrightarrow> k < length xs \<and> xs ! k = y"
    and at: "ix_at s k = (if k < length xs then Some (xs ! k) else None)" for y k
    using rep by (auto simp: index_rep_def)
  have dist: "distinct xs" and cnt: "index_count s = length xs" and bnd: "length xs \<le> u32_max"
    using rep by (auto simp: index_rep_def)
  have last: "last xs = xs ! ?n"
    using i by (cases xs rule: rev_cases) auto
  define moved where "moved = (if i = ?n then s\<lparr>ix_index := (ix_index s)(xs ! i := None)\<rparr>
    else s\<lparr>ix_index := (ix_index s)(xs ! i := None, xs ! ?n \<mapsto> i), ix_at := (ix_at s)(i \<mapsto> xs ! ?n)\<rparr>)"
  define s' where "s' = moved\<lparr>ix_at := (ix_at moved)(?n := None), ix_count := Some ?n\<rparr>"
  have run: "index_remove (xs ! i) s = Inr s'"
    using i cnt ix [of "xs ! i" i] at [of ?n]
    by (auto simp: index_remove_def s'_def moved_def Let_def index_count_def)
  have nth: "swap_remove i xs ! k = (if k = i then xs ! ?n else xs ! k)" if "k < ?n" for k
    using that i last by (auto simp: swap_remove_def nth_list_update nth_butlast)
  have inj: "xs ! a = xs ! b \<longleftrightarrow> a = b" if "a < length xs" "b < length xs" for a b
    using dist that by (simp add: nth_eq_iff_index_eq)
  have "ix_at s' k = (if k < ?n then Some (swap_remove i xs ! k) else None)" for k
    using i nth [of k] by (auto simp: s'_def moved_def at)
  moreover have "ix_index s' y = Some k \<longleftrightarrow> k < ?n \<and> swap_remove i xs ! k = y" for y k
  proof (cases "k < ?n")
    case True
    then have lt: "k < length xs" "?n < length xs" using i by auto
    show ?thesis
      using i True nth [OF True] lt inj [OF i lt(1)] inj [OF lt(2) lt(1)] inj [OF i lt(2)]
      by (auto simp: s'_def moved_def ix)
  next
    case False
    then show ?thesis
      using i inj [of k i] inj [of k ?n] by (auto simp: s'_def moved_def ix not_less)
  qed
  ultimately show ?thesis
    using run swap_remove_props [OF dist i] bnd i
    unfolding index_rep_def by (simp add: s'_def index_count_def)
qed

section \<open>What the contract relies on\<close>

locale registry =
  fixes ins :: "'a \<Rightarrow> 's \<Rightarrow> 's res"
    and del :: "'a \<Rightarrow> 's \<Rightarrow> 's res"
    and mem :: "'s \<Rightarrow> 'a \<Rightarrow> bool"
    and members :: "'s \<Rightarrow> 'a list"
    and wf :: "'s \<Rightarrow> bool"
  assumes ins_law: "wf s \<Longrightarrow> \<not> mem s x \<Longrightarrow> ins x s = Inr s' \<Longrightarrow> wf s' \<and> (\<forall>y. mem s' y \<longleftrightarrow> y = x \<or> mem s y)"
    and del_law: "wf s \<Longrightarrow> \<exists>s'. del x s = Inr s' \<and> wf s' \<and> (\<forall>y. mem s' y \<longleftrightarrow> y \<noteq> x \<and> mem s y)"
    and members_law: "wf s \<Longrightarrow> distinct (members s) \<and> set (members s) = {x. mem s x}"
begin

lemma ins_wf: "wf s \<Longrightarrow> \<not> mem s x \<Longrightarrow> ins x s = Inr s' \<Longrightarrow> wf s'"
  using ins_law by blast

lemma mem_ins: "wf s \<Longrightarrow> \<not> mem s x \<Longrightarrow> ins x s = Inr s' \<Longrightarrow> mem s' y \<longleftrightarrow> y = x \<or> mem s y"
  using ins_law by blast

lemma del_wf: "wf s \<Longrightarrow> del x s = Inr s' \<Longrightarrow> wf s'"
  using del_law [of s x] by force

lemma mem_del: "wf s \<Longrightarrow> del x s = Inr s' \<Longrightarrow> mem s' y \<longleftrightarrow> y \<noteq> x \<and> mem s y"
  using del_law [of s x] by force

lemma del_total: "wf s \<Longrightarrow> \<exists>s'. del x s = Inr s'"
  using del_law by blast

text \<open>Adding an element and removing it again leaves a collection with the members it had.\<close>

lemma ins_del_members:
  assumes "wf s" and "\<not> mem s x" and "ins x s = Inr s1"
  shows "\<exists>s2. del x s1 = Inr s2 \<and> set (members s2) = set (members s)"
proof -
  have w: "wf s1" using assms by (rule ins_wf)
  then obtain s2 where d: "del x s1 = Inr s2" using del_total by blast
  have "mem s2 y \<longleftrightarrow> mem s y" for y
    using mem_del [OF w d, of y] mem_ins [OF assms, of y] assms(2) by auto
  then show ?thesis
    using d members_law [OF assms(1)] members_law [OF del_wf [OF w d]] by auto
qed

text \<open>The number of members follows the operations.\<close>

lemma length_ins:
  assumes "wf s" and "\<not> mem s x" and "ins x s = Inr s'"
  shows "length (members s') = Suc (length (members s))"
proof -
  have "set (members s') = insert x (set (members s))"
    using members_law [OF assms(1)] members_law [OF ins_wf [OF assms]] mem_ins [OF assms] by auto
  moreover have "x \<notin> set (members s)"
    using members_law [OF assms(1)] assms(2) by simp
  ultimately show ?thesis
    using members_law [OF assms(1)] members_law [OF ins_wf [OF assms]]
    by (metis List.finite_set card_insert_disjoint distinct_card)
qed

end

interpretation ix: registry index_insert index_remove index_contains index_all index_wf
proof
  fix s :: "'a slots" and x s'
  assume w: "index_wf s" and "\<not> index_contains s x" and run: "index_insert x s = Inr s'"
  then have "index_rep s' (index_all s @ [x])"
    using index_insert_rep index_rep_contains unfolding index_wf_def by metis
  then show "index_wf s' \<and> (\<forall>y. index_contains s' y \<longleftrightarrow> y = x \<or> index_contains s y)"
    using w index_repI index_rep_contains unfolding index_wf_def by fastforce
next
  fix s :: "'a slots" and x
  assume w: "index_wf s"
  show "\<exists>s'. index_remove x s = Inr s' \<and> index_wf s' \<and>
             (\<forall>y. index_contains s' y \<longleftrightarrow> y \<noteq> x \<and> index_contains s y)"
  proof (cases "index_contains s x")
    case True
    then obtain i where i: "i < length (index_all s)" "index_all s ! i = x"
      using w index_rep_contains unfolding index_wf_def by (metis in_set_conv_nth)
    with w index_remove_rep [of s "index_all s" i] swap_remove_props(2) [of "index_all s" i]
    obtain s' where "index_remove x s = Inr s'" "index_rep s' (swap_remove i (index_all s))"
      "set (swap_remove i (index_all s)) = set (index_all s) - {x}"
      by (auto simp: index_wf_def index_rep_def)
    then show ?thesis
      using w index_repI index_rep_contains unfolding index_wf_def by fastforce
  next
    case False
    then have "index_remove x s = Inr s"
      by (simp add: index_remove_def index_contains_def)
    with w False show ?thesis by auto
  qed
next
  fix s :: "'a slots"
  assume "index_wf s"
  then show "distinct (index_all s) \<and> set (index_all s) = {x. index_contains s x}"
    using index_rep_contains [of s "index_all s"] by (auto simp: index_wf_def index_rep_def)
qed

end
