(* ===== verification/Xoxno_Store.thy ===== *)
theory Xoxno_Store
  imports Observation Flow Xoxno_Index
begin

text \<open>
  \<^verbatim>\<open>src/contracts/xoxno-oracle/src/storage\<close>: the state of the price oracle and its accessors. A
  configuration value of the instance storage is an option, because the readers fall back to a default
  when the key is absent; a key family of the persistent storage is a map. What the host supplies to
  an invocation, the ledger time in seconds and the addresses that authorised the call, is \<open>xo_env\<close>.
  Renewals of the lifetime of an entry have no effect in the model. \<open>\<open>xo_owner\<close>\<close> is the state of the
  \<^verbatim>\<open>Ownable\<close> module.
\<close>

section \<open>State\<close>

record signer_submission =
  sub_price :: int
  sub_package_timestamp :: nat

record xo_env =
  xe_now :: nat
  xe_auth :: "address \<Rightarrow> bool"

record xoxno =
  xo_owner :: "address option"
  xo_signers :: "address list option"
  xo_threshold :: "nat option"
  xo_max_stale_seconds :: "nat option"
  xo_max_submission_age :: "nat option"
  xo_max_relative_skew :: "nat option"
  xo_max_cluster_spread_bps :: "nat option"
  xo_resolution :: "nat option"
  xo_submissions :: "string \<Rightarrow> address \<Rightarrow> signer_submission option"
  xo_signer_feeds :: "address \<rightharpoonup> string list"
  xo_aggregates :: "string \<rightharpoonup> redstone_price_data"
  xo_histories :: "string \<rightharpoonup> redstone_price_data list"
  xo_feed_mapping :: "reflector_asset \<rightharpoonup> string"
  xo_feed_owner :: "string \<rightharpoonup> reflector_asset"
  xo_assets :: "reflector_asset slots"
  xo_feeds :: "string slots"
  xo_code :: "nat list"

type_synonym 'a xo = "(xoxno, 'a) flow"

definition DEFAULT_MAX_STALE_SECONDS :: nat where
  "DEFAULT_MAX_STALE_SECONDS = 86400"

definition DEFAULT_MAX_SUBMISSION_AGE_SECONDS :: nat where
  "DEFAULT_MAX_SUBMISSION_AGE_SECONDS = 900"

definition MIN_SUBMISSION_AGE_SECONDS :: nat where
  "MIN_SUBMISSION_AGE_SECONDS = MAX_FUTURE_SKEW_SECONDS + 1"

definition DEFAULT_MAX_RELATIVE_SKEW_SECONDS :: nat where
  "DEFAULT_MAX_RELATIVE_SKEW_SECONDS = DEFAULT_MAX_SUBMISSION_AGE_SECONDS"

definition DEFAULT_MAX_CLUSTER_SPREAD_BPS :: nat where
  "DEFAULT_MAX_CLUSTER_SPREAD_BPS = 200"

lemmas xo_default_defs = DEFAULT_MAX_STALE_SECONDS_def DEFAULT_MAX_SUBMISSION_AGE_SECONDS_def
  MIN_SUBMISSION_AGE_SECONDS_def DEFAULT_MAX_RELATIVE_SKEW_SECONDS_def DEFAULT_MAX_CLUSTER_SPREAD_BPS_def
  MAX_FUTURE_SKEW_SECONDS_def

section \<open>Configuration\<close>

definition unwrap_or :: "'a option \<Rightarrow> 'a \<Rightarrow> 'a" where
  "unwrap_or m d = (case m of None \<Rightarrow> d | Some x \<Rightarrow> x)"

lemma unwrap_or_simps [simp]: "unwrap_or None d = d" "unwrap_or (Some x) d = x"
  by (simp_all add: unwrap_or_def)

definition load_signers :: "xoxno \<Rightarrow> address list" where
  "load_signers s = unwrap_or (xo_signers s) []"

definition store_signers :: "address list \<Rightarrow> xoxno \<Rightarrow> xoxno" where
  "store_signers signers s = s\<lparr>xo_signers := Some signers\<rparr>"

definition store_threshold :: "nat \<Rightarrow> xoxno \<Rightarrow> xoxno" where
  "store_threshold threshold s = s\<lparr>xo_threshold := Some threshold\<rparr>"

definition store_max_stale_seconds :: "nat \<Rightarrow> xoxno \<Rightarrow> xoxno" where
  "store_max_stale_seconds seconds s = s\<lparr>xo_max_stale_seconds := Some seconds\<rparr>"

definition store_max_submission_age :: "nat \<Rightarrow> xoxno \<Rightarrow> xoxno" where
  "store_max_submission_age seconds s = s\<lparr>xo_max_submission_age := Some seconds\<rparr>"

definition store_max_relative_skew :: "nat \<Rightarrow> xoxno \<Rightarrow> xoxno" where
  "store_max_relative_skew seconds s = s\<lparr>xo_max_relative_skew := Some seconds\<rparr>"

definition store_max_cluster_spread_bps :: "nat \<Rightarrow> xoxno \<Rightarrow> xoxno" where
  "store_max_cluster_spread_bps bps s = s\<lparr>xo_max_cluster_spread_bps := Some bps\<rparr>"

definition store_resolution :: "nat \<Rightarrow> xoxno \<Rightarrow> xoxno" where
  "store_resolution resolution s = s\<lparr>xo_resolution := Some resolution\<rparr>"

definition load_threshold :: "xoxno \<Rightarrow> nat" where
  "load_threshold s = unwrap_or (xo_threshold s) 0"

definition load_max_stale_seconds :: "xoxno \<Rightarrow> nat" where
  "load_max_stale_seconds s = unwrap_or (xo_max_stale_seconds s) DEFAULT_MAX_STALE_SECONDS"

definition load_max_submission_age :: "xoxno \<Rightarrow> nat" where
  "load_max_submission_age s = unwrap_or (xo_max_submission_age s) DEFAULT_MAX_SUBMISSION_AGE_SECONDS"

definition load_max_relative_skew :: "xoxno \<Rightarrow> nat" where
  "load_max_relative_skew s =
     (let configured = unwrap_or (xo_max_relative_skew s) DEFAULT_MAX_RELATIVE_SKEW_SECONDS in
      min configured (load_max_submission_age s))"

definition load_max_cluster_spread_bps :: "xoxno \<Rightarrow> nat" where
  "load_max_cluster_spread_bps s = unwrap_or (xo_max_cluster_spread_bps s) DEFAULT_MAX_CLUSTER_SPREAD_BPS"

definition load_resolution :: "xoxno \<Rightarrow> nat" where
  "load_resolution s = unwrap_or (xo_resolution s) 0"

section \<open>Prices\<close>

definition load_submission :: "string \<Rightarrow> address \<Rightarrow> xoxno \<Rightarrow> signer_submission option" where
  "load_submission feed_id signer s = xo_submissions s feed_id signer"

definition set_submission :: "string \<Rightarrow> address \<Rightarrow> signer_submission option \<Rightarrow> xoxno \<Rightarrow> xoxno" where
  "set_submission feed_id signer v s =
     s\<lparr>xo_submissions := (xo_submissions s)(feed_id := (xo_submissions s feed_id)(signer := v))\<rparr>"

definition store_submission_record :: "string \<Rightarrow> address \<Rightarrow> int \<Rightarrow> nat \<Rightarrow> xoxno \<Rightarrow> xoxno" where
  "store_submission_record feed_id signer price package_timestamp =
     set_submission feed_id signer
       (Some \<lparr>sub_price = price, sub_package_timestamp = package_timestamp\<rparr>)"

definition remove_submission :: "string \<Rightarrow> address \<Rightarrow> xoxno \<Rightarrow> xoxno" where
  "remove_submission feed_id signer = set_submission feed_id signer None"

definition load_aggregate :: "string \<Rightarrow> xoxno \<Rightarrow> redstone_price_data option" where
  "load_aggregate feed_id s = xo_aggregates s feed_id"

definition store_aggregate :: "string \<Rightarrow> redstone_price_data \<Rightarrow> xoxno \<Rightarrow> xoxno" where
  "store_aggregate feed_id aggregate s = s\<lparr>xo_aggregates := (xo_aggregates s)(feed_id \<mapsto> aggregate)\<rparr>"

definition remove_aggregate :: "string \<Rightarrow> xoxno \<Rightarrow> xoxno" where
  "remove_aggregate feed_id s = s\<lparr>xo_aggregates := (xo_aggregates s)(feed_id := None)\<rparr>"

definition load_history :: "string \<Rightarrow> xoxno \<Rightarrow> redstone_price_data list option" where
  "load_history feed_id s = xo_histories s feed_id"

definition store_history :: "string \<Rightarrow> redstone_price_data list \<Rightarrow> xoxno \<Rightarrow> xoxno" where
  "store_history feed_id history s = s\<lparr>xo_histories := (xo_histories s)(feed_id \<mapsto> history)\<rparr>"

definition remove_history :: "string \<Rightarrow> xoxno \<Rightarrow> xoxno" where
  "remove_history feed_id s = s\<lparr>xo_histories := (xo_histories s)(feed_id := None)\<rparr>"

section \<open>Registry\<close>

definition load_feed_id :: "reflector_asset \<Rightarrow> xoxno \<Rightarrow> string option" where
  "load_feed_id ra s = xo_feed_mapping s ra"

definition load_feed_owner :: "string \<Rightarrow> xoxno \<Rightarrow> reflector_asset option" where
  "load_feed_owner feed_id s = xo_feed_owner s feed_id"

definition has_feed_mapping :: "reflector_asset \<Rightarrow> xoxno \<Rightarrow> bool" where
  "has_feed_mapping ra s \<longleftrightarrow> xo_feed_mapping s ra \<noteq> None"

definition map_feed :: "reflector_asset \<Rightarrow> string \<Rightarrow> xoxno \<Rightarrow> xoxno" where
  "map_feed ra feed_id s =
     s\<lparr>xo_feed_mapping := (xo_feed_mapping s)(ra \<mapsto> feed_id),
       xo_feed_owner := (xo_feed_owner s)(feed_id \<mapsto> ra)\<rparr>"

definition remove_feed_mapping :: "reflector_asset \<Rightarrow> xoxno \<Rightarrow> xoxno" where
  "remove_feed_mapping ra s = s\<lparr>xo_feed_mapping := (xo_feed_mapping s)(ra := None)\<rparr>"

definition asset_index_insert :: "reflector_asset \<Rightarrow> unit xo" where
  "asset_index_insert ra s = rbind (index_insert ra (xo_assets s)) (\<lambda>ix. Inr ((), s\<lparr>xo_assets := ix\<rparr>))"

definition asset_index_remove :: "reflector_asset \<Rightarrow> unit xo" where
  "asset_index_remove ra s = rbind (index_remove ra (xo_assets s)) (\<lambda>ix. Inr ((), s\<lparr>xo_assets := ix\<rparr>))"

definition feed_index_insert :: "string \<Rightarrow> unit xo" where
  "feed_index_insert feed_id s = rbind (index_insert feed_id (xo_feeds s)) (\<lambda>ix. Inr ((), s\<lparr>xo_feeds := ix\<rparr>))"

definition feed_index_remove :: "string \<Rightarrow> unit xo" where
  "feed_index_remove feed_id s = rbind (index_remove feed_id (xo_feeds s)) (\<lambda>ix. Inr ((), s\<lparr>xo_feeds := ix\<rparr>))"

definition feed_index_contains :: "string \<Rightarrow> xoxno \<Rightarrow> bool" where
  "feed_index_contains feed_id s = index_contains (xo_feeds s) feed_id"

definition load_all_assets :: "xoxno \<Rightarrow> reflector_asset list" where
  "load_all_assets s = index_all (xo_assets s)"

definition load_all_feeds :: "xoxno \<Rightarrow> string list" where
  "load_all_feeds s = index_all (xo_feeds s)"

definition renew_known_feed :: "string \<Rightarrow> xoxno \<Rightarrow> bool" where
  "renew_known_feed feed_id s = (case ix_index (xo_feeds s) feed_id of Some slot \<Rightarrow> True | None \<Rightarrow> False)"

definition ensure_known_feed :: "string \<Rightarrow> unit xo" where
  "ensure_known_feed feed_id =
     fbind (fread (renew_known_feed feed_id)) (\<lambda>known.
     if known then fret () else feed_index_insert feed_id)"

definition record_signer_feed :: "address \<Rightarrow> string \<Rightarrow> xoxno \<Rightarrow> xoxno" where
  "record_signer_feed signer feed_id s =
     (let feeds = unwrap_or (xo_signer_feeds s signer) [] in
      if feed_id \<in> set feeds then s
      else s\<lparr>xo_signer_feeds := (xo_signer_feeds s)(signer \<mapsto> feeds @ [feed_id])\<rparr>)"

definition load_signer_feeds :: "address \<Rightarrow> xoxno \<Rightarrow> string list" where
  "load_signer_feeds signer s = unwrap_or (xo_signer_feeds s signer) []"

definition clear_signer_feeds :: "address \<Rightarrow> xoxno \<Rightarrow> xoxno" where
  "clear_signer_feeds signer s = s\<lparr>xo_signer_feeds := (xo_signer_feeds s)(signer := None)\<rparr>"

definition remove_signer_feed :: "address \<Rightarrow> string \<Rightarrow> xoxno \<Rightarrow> xoxno" where
  "remove_signer_feed signer feed_id s =
     (case xo_signer_feeds s signer of
        None \<Rightarrow> s
      | Some feeds \<Rightarrow>
          let kept = filter (\<lambda>f. f \<noteq> feed_id) feeds in
          if kept = [] then s\<lparr>xo_signer_feeds := (xo_signer_feeds s)(signer := None)\<rparr>
          else s\<lparr>xo_signer_feeds := (xo_signer_feeds s)(signer \<mapsto> kept)\<rparr>)"

primrec clear_signer_entries :: "address list \<Rightarrow> string \<Rightarrow> xoxno \<Rightarrow> xoxno" where
  "clear_signer_entries [] feed_id s = s"
| "clear_signer_entries (signer # signers) feed_id s =
     clear_signer_entries signers feed_id (remove_signer_feed signer feed_id (remove_submission feed_id signer s))"

definition clear_feed_state :: "string \<Rightarrow> unit xo" where
  "clear_feed_state feed_id =
     fbind (fwrite (remove_aggregate feed_id)) (\<lambda>_.
     fbind (fwrite (remove_history feed_id)) (\<lambda>_.
     fbind (fread load_signers) (\<lambda>signers.
     fbind (fwrite (clear_signer_entries signers feed_id)) (\<lambda>_.
     fbind (fwrite (\<lambda>s. s\<lparr>xo_feed_owner := (xo_feed_owner s)(feed_id := None)\<rparr>)) (\<lambda>_.
     feed_index_remove feed_id)))))"

definition require_registered_signer :: "address \<Rightarrow> unit xo" where
  "require_registered_signer signer =
     fbind (fread load_signers) (\<lambda>signers. fassert (signer \<in> set signers) (Xoxno NotAuthorizedSigner))"

definition require_known_feed :: "string \<Rightarrow> unit xo" where
  "require_known_feed feed_id =
     fbind (fread (feed_index_contains feed_id)) (\<lambda>known. fassert known (Xoxno FeedNotKnown))"

section \<open>Lemmas\<close>

lemma renew_known_feed_contains: "renew_known_feed f s = feed_index_contains f s"
  by (simp add: renew_known_feed_def feed_index_contains_def index_contains_def split: option.splits)

lemma signer_feeds_recorded [simp]:
  "load_signer_feeds a (record_signer_feed g f s) =
     (if a = g \<and> f \<notin> set (load_signer_feeds g s) then load_signer_feeds g s @ [f] else load_signer_feeds a s)"
  by (auto simp: load_signer_feeds_def record_signer_feed_def Let_def)

lemma signer_feeds_removed [simp]:
  "load_signer_feeds a (remove_signer_feed g f s) =
     (if a = g then filter (\<lambda>x. x \<noteq> f) (load_signer_feeds g s) else load_signer_feeds a s)"
  by (auto simp: load_signer_feeds_def remove_signer_feed_def Let_def split: option.splits)

end
