(* ===== verification/Xoxno_Oracle.thy ===== *)
theory Xoxno_Oracle
  imports Xoxno_Store
begin

text \<open>
  \<^verbatim>\<open>src/contracts/xoxno-oracle/src\<close>: the price oracle. Authorised signers submit a price per feed
  (\<^verbatim>\<open>submit.rs\<close>); \<open>recompute_aggregate\<close> (\<^verbatim>\<open>aggregation.rs\<close>) keeps the fresh submissions of the
  registered signers that lie close together in time and stores their lower median; the owner configures
  signers, bounds and feeds (\<^verbatim>\<open>admin.rs\<close>); consumers read aggregates and histories
  (\<^verbatim>\<open>reads.rs\<close>). A loop over signers or submissions is a \<open>fold\<close> with the loop's variables as
  accumulator; the insertion sort writes into the vector by index as the source does.
\<close>

section \<open>Aggregation\<close>

definition MAX_HISTORY_LEN :: nat where
  "MAX_HISTORY_LEN = MAX_TWAP_RECORDS"

definition MAX_SUBMITTED_PRICE :: int where
  "MAX_SUBMITTED_PRICE = 1000000000000000000000000"

definition require_not_future :: "xo_env \<Rightarrow> nat \<Rightarrow> unit xo" where
  "require_not_future env package_timestamp =
     (let ts_secs = package_timestamp div MS_PER_SECOND;
          max_future = u64_saturating_add (xe_now env) MAX_FUTURE_SKEW_SECONDS in
      fassert (\<not> ts_secs > max_future) (Xoxno FutureTimestamp))"

definition require_fresh_submission :: "xo_env \<Rightarrow> nat \<Rightarrow> unit xo" where
  "require_fresh_submission env package_timestamp =
     (let ts_secs = package_timestamp div MS_PER_SECOND in
      fbind (fread load_max_submission_age) (\<lambda>age.
      fassert (\<not> xe_now env - ts_secs > age) (Xoxno StaleSubmission)))"

definition require_monotonic_package :: "string \<Rightarrow> address \<Rightarrow> nat \<Rightarrow> unit xo" where
  "require_monotonic_package feed_id signer package_timestamp =
     fbind (fread (load_submission feed_id signer)) (\<lambda>stored.
     case stored of
       Some prev \<Rightarrow> fassert (\<not> package_timestamp < sub_package_timestamp prev) (Xoxno StaleSubmission)
     | None \<Rightarrow> fret ())"

definition store_submission :: "string \<Rightarrow> address \<Rightarrow> int \<Rightarrow> nat \<Rightarrow> xoxno \<Rightarrow> xoxno" where
  "store_submission feed_id signer price package_timestamp s =
     store_submission_record feed_id signer price package_timestamp (record_signer_feed signer feed_id s)"

datatype quorum_miss = Clear | Retain

definition apply_quorum_miss :: "string \<Rightarrow> quorum_miss \<Rightarrow> xoxno \<Rightarrow> xoxno" where
  "apply_quorum_miss feed_id on_miss s = (case on_miss of Clear \<Rightarrow> remove_aggregate feed_id s | Retain \<Rightarrow> s)"

definition within_spread :: "int \<Rightarrow> int \<Rightarrow> nat \<Rightarrow> bool" where
  "within_spread lowest highest spread_bps =
     (let bound = BPS + int spread_bps in
      case (i128_checked_mul highest BPS, i128_checked_mul lowest bound) of
        (Some scaled_highest, Some scaled_lowest) \<Rightarrow> scaled_highest \<le> scaled_lowest
      | _ \<Rightarrow> False)"

fun shift_greater :: "int \<Rightarrow> nat \<Rightarrow> int list \<Rightarrow> nat \<times> int list" where
  "shift_greater key 0 xs = (0, xs)"
| "shift_greater key (Suc previous) xs =
     (if xs ! previous \<le> key then (Suc previous, xs)
      else shift_greater key previous (xs[Suc previous := xs ! previous]))"

definition insert_at :: "nat \<Rightarrow> int list \<Rightarrow> int list" where
  "insert_at i xs = (let key = xs ! i; (j, xs) = shift_greater key i xs in xs[j := key])"

definition sorted_copy :: "int list \<Rightarrow> int list" where
  "sorted_copy prices = fold insert_at [1..<length prices] prices"

definition median_of :: "int list \<Rightarrow> int res" where
  "median_of prices =
     (let sorted = sorted_copy prices; len = length sorted in
      if len = 0 then Inl (Host ArithmeticTrap) else Inr (sorted ! ((len - 1) div 2)))"

definition push_history :: "string \<Rightarrow> redstone_price_data \<Rightarrow> xoxno \<Rightarrow> xoxno" where
  "push_history feed_id aggregate s =
     (let history = unwrap_or (load_history feed_id s) [];
          resolution_ms = load_resolution s * MS_PER_SECOND;
          len = length history;
          replace_last = (len > 0 \<and> rs_write_timestamp aggregate <
                            u64_saturating_add (rs_write_timestamp (history ! (len - 1))) resolution_ms);
          history = (if replace_last then history[len - 1 := aggregate]
                     else (if len \<ge> MAX_HISTORY_LEN then tl history else history) @ [aggregate]) in
      store_history feed_id history s)"

definition keep_submission :: "xo_env \<Rightarrow> string \<Rightarrow> xoxno \<Rightarrow> address \<Rightarrow> signer_submission list \<times> nat \<Rightarrow> signer_submission list \<times> nat" where
  "keep_submission env feed_id s signer = (\<lambda>(kept, newest_ts).
     case load_submission feed_id signer s of
       None \<Rightarrow> (kept, newest_ts)
     | Some submission \<Rightarrow>
         let age_seconds = xe_now env - sub_package_timestamp submission div MS_PER_SECOND in
         if age_seconds > load_max_submission_age s then (kept, newest_ts)
         else (kept @ [submission], max newest_ts (sub_package_timestamp submission)))"

definition cluster_submission :: "nat \<Rightarrow> nat \<Rightarrow> signer_submission \<Rightarrow> int list \<times> nat \<times> int \<times> int \<Rightarrow> int list \<times> nat \<times> int \<times> int" where
  "cluster_submission newest_ts skew_ms submission = (\<lambda>(prices, oldest, lowest, highest).
     let ts = sub_package_timestamp submission; price = sub_price submission in
     if newest_ts - ts > skew_ms then (prices, oldest, lowest, highest)
     else (prices @ [price], min oldest ts, min lowest price, max highest price))"

definition spread_free_cluster :: "nat \<Rightarrow> nat \<Rightarrow> nat" where
  "spread_free_cluster signers threshold = min u32_max (min u32_max ((signers - threshold) * 2) + 1)"

definition recompute_aggregate :: "xo_env \<Rightarrow> string \<Rightarrow> quorum_miss \<Rightarrow> unit xo" where
  "recompute_aggregate env feed_id on_miss s =
     (let signers = load_signers s;
          (kept, newest_ts) = fold (keep_submission env feed_id s) signers ([], 0);
          threshold = load_threshold s in
      if length kept < threshold then Inr ((), apply_quorum_miss feed_id on_miss s)
      else
        let newest_ts = min newest_ts (u64_saturating_mul (xe_now env) MS_PER_SECOND);
            skew_ms = u64_saturating_mul (load_max_relative_skew s) MS_PER_SECOND;
            (clustered_prices, oldest, lowest, highest) =
              fold (cluster_submission newest_ts skew_ms) kept ([], u64_max, i128_max, i128_min) in
        if length clustered_prices < threshold then Inr ((), apply_quorum_miss feed_id on_miss s)
        else if length clustered_prices < spread_free_cluster (length signers) threshold \<and>
                \<not> within_spread lowest highest (load_max_cluster_spread_bps s)
        then Inr ((), apply_quorum_miss feed_id on_miss s)
        else
          rbind (median_of clustered_prices) (\<lambda>median.
          rbind (u64_native (xe_now env * MS_PER_SECOND)) (\<lambda>write_timestamp.
          let aggregate = \<lparr>rs_price = median mod 2 ^ 128, rs_package_timestamp = oldest,
                           rs_write_timestamp = write_timestamp\<rparr> in
          Inr ((), push_history feed_id aggregate (store_aggregate feed_id aggregate s)))))"

section \<open>Constructor and guards\<close>

fun has_duplicate :: "address list \<Rightarrow> bool" where
  "has_duplicate [] = False"
| "has_duplicate (x # xs) = (x \<in> set xs \<or> has_duplicate xs)"

definition empty_xoxno :: "nat list \<Rightarrow> xoxno" where
  "empty_xoxno code =
     \<lparr>xo_owner = None, xo_signers = None, xo_threshold = None, xo_max_stale_seconds = None,
      xo_max_submission_age = None, xo_max_relative_skew = None, xo_max_cluster_spread_bps = None,
      xo_resolution = None, xo_submissions = (\<lambda>_. Map.empty), xo_signer_feeds = Map.empty,
      xo_aggregates = Map.empty, xo_histories = Map.empty, xo_feed_mapping = Map.empty,
      xo_feed_owner = Map.empty, xo_assets = empty_index, xo_feeds = empty_index, xo_code = code\<rparr>"

definition xo_constructor :: "address \<Rightarrow> address list \<Rightarrow> nat \<Rightarrow> nat \<Rightarrow> unit xo" where
  "xo_constructor admin signers threshold resolution =
     fbind (fassert (\<not> (threshold = 0 \<or> threshold > length signers \<or> has_duplicate signers))
              (Xoxno InvalidThreshold)) (\<lambda>_.
     fbind (fwrite (\<lambda>s. s\<lparr>xo_owner := Some admin\<rparr>)) (\<lambda>_.
     fbind (fwrite (store_signers signers)) (\<lambda>_.
     fbind (fwrite (store_threshold threshold)) (\<lambda>_.
     fbind (fwrite (store_max_stale_seconds DEFAULT_MAX_STALE_SECONDS)) (\<lambda>_.
     fbind (fwrite (store_max_submission_age DEFAULT_MAX_SUBMISSION_AGE_SECONDS)) (\<lambda>_.
     fbind (fwrite (store_max_relative_skew DEFAULT_MAX_RELATIVE_SKEW_SECONDS)) (\<lambda>_.
     fwrite (store_resolution resolution))))))))"

definition xo_require_auth :: "xo_env \<Rightarrow> address \<Rightarrow> unit xo" where
  "xo_require_auth env a = fassert (xe_auth env a) (Host AuthFailed)"

definition xo_only_owner :: "xo_env \<Rightarrow> 'a xo \<Rightarrow> 'a xo" where
  "xo_only_owner env body =
     fbind (fread xo_owner) (\<lambda>stored.
     fbind (flift (unwrap_or_panic stored (Host OwnableOwnerNotSet))) (\<lambda>owner.
     fbind (xo_require_auth env owner) (\<lambda>_. body)))"

definition xo_upgrade :: "xo_env \<Rightarrow> nat list \<Rightarrow> unit xo" where
  "xo_upgrade env new_wasm_hash = xo_only_owner env (fwrite (\<lambda>s. s\<lparr>xo_code := new_wasm_hash\<rparr>))"

section \<open>Submission\<close>

definition validate_price :: "int \<Rightarrow> unit xo" where
  "validate_price price =
     fbind (fassert (\<not> price \<le> 0) (Xoxno InvalidPrice_xo)) (\<lambda>_.
     fassert (\<not> price > MAX_SUBMITTED_PRICE) (Xoxno PriceOutOfRange))"

definition submit_price :: "xo_env \<Rightarrow> address \<Rightarrow> string \<Rightarrow> int \<Rightarrow> nat \<Rightarrow> unit xo" where
  "submit_price env signer feed_id price package_timestamp =
     fbind (xo_require_auth env signer) (\<lambda>_.
     fbind (require_registered_signer signer) (\<lambda>_.
     fbind (require_known_feed feed_id) (\<lambda>_.
     fbind (validate_price price) (\<lambda>_.
     fbind (require_not_future env package_timestamp) (\<lambda>_.
     fbind (require_fresh_submission env package_timestamp) (\<lambda>_.
     fbind (require_monotonic_package feed_id signer package_timestamp) (\<lambda>_.
     fbind (fwrite (store_submission feed_id signer price package_timestamp)) (\<lambda>_.
     recompute_aggregate env feed_id Retain))))))))"

definition submit_prices :: "xo_env \<Rightarrow> address \<Rightarrow> string list \<Rightarrow> int list \<Rightarrow> nat \<Rightarrow> unit xo" where
  "submit_prices env signer feed_ids prices package_timestamp =
     fbind (xo_require_auth env signer) (\<lambda>_.
     fbind (require_registered_signer signer) (\<lambda>_.
     fbind (fassert (\<not> length feed_ids \<noteq> length prices) (Xoxno LengthMismatch)) (\<lambda>_.
     fbind (require_not_future env package_timestamp) (\<lambda>_.
     fbind (require_fresh_submission env package_timestamp) (\<lambda>_.
     fbind (ffold (\<lambda>feed_id _.
              fbind (require_known_feed feed_id) (\<lambda>_.
              require_monotonic_package feed_id signer package_timestamp)) feed_ids ()) (\<lambda>_.
     fbind (ffold (\<lambda>price _. validate_price price) prices ()) (\<lambda>_.
     ffold (\<lambda>(feed_id, price) _.
       fbind (fwrite (store_submission feed_id signer price package_timestamp)) (\<lambda>_.
       recompute_aggregate env feed_id Retain)) (zip feed_ids prices) ())))))))"

section \<open>Administration\<close>

definition add_signer :: "xo_env \<Rightarrow> address \<Rightarrow> unit xo" where
  "add_signer env signer = xo_only_owner env (
     fbind (fread load_signers) (\<lambda>signers.
     fbind (fassert (signer \<notin> set signers) (Xoxno SignerAlreadyRegistered)) (\<lambda>_.
     fwrite (store_signers (signers @ [signer])))))"

definition remove_signer :: "xo_env \<Rightarrow> address \<Rightarrow> unit xo" where
  "remove_signer env signer = xo_only_owner env (
     fbind (fread load_signers) (\<lambda>signers.
     fbind (fassert (signer \<in> set signers) (Xoxno SignerNotRegistered)) (\<lambda>_.
     fbind (fread load_threshold) (\<lambda>threshold.
     fbind (fassert (\<not> length signers - 1 < threshold) (Xoxno CannotRemoveBelowThreshold)) (\<lambda>_.
     fbind (fwrite (store_signers (remove1 signer signers))) (\<lambda>_.
     fbind (fread (load_signer_feeds signer)) (\<lambda>feeds.
     fbind (ffold (\<lambda>feed_id _.
              fbind (fwrite (remove_submission feed_id signer)) (\<lambda>_.
              recompute_aggregate env feed_id Clear)) feeds ()) (\<lambda>_.
     fwrite (clear_signer_feeds signer)))))))))"

definition set_threshold :: "xo_env \<Rightarrow> nat \<Rightarrow> unit xo" where
  "set_threshold env threshold = xo_only_owner env (
     fbind (fread load_signers) (\<lambda>signers.
     fbind (fassert (\<not> (threshold = 0 \<or> threshold > length signers)) (Xoxno InvalidThreshold)) (\<lambda>_.
     fwrite (store_threshold threshold))))"

definition set_max_stale_seconds :: "xo_env \<Rightarrow> nat \<Rightarrow> unit xo" where
  "set_max_stale_seconds env seconds = xo_only_owner env (
     fbind (fread load_max_submission_age) (\<lambda>age.
     fbind (fassert (\<not> seconds < age) (Xoxno InvalidSubmissionAge)) (\<lambda>_.
     fwrite (store_max_stale_seconds seconds))))"

definition set_max_submission_age_seconds :: "xo_env \<Rightarrow> nat \<Rightarrow> unit xo" where
  "set_max_submission_age_seconds env seconds = xo_only_owner env (
     fbind (fread load_max_stale_seconds) (\<lambda>stale.
     fbind (fassert (\<not> (seconds < MIN_SUBMISSION_AGE_SECONDS \<or> seconds > stale)) (Xoxno InvalidSubmissionAge)) (\<lambda>_.
     fwrite (store_max_submission_age seconds))))"

definition set_max_relative_skew_seconds :: "xo_env \<Rightarrow> nat \<Rightarrow> unit xo" where
  "set_max_relative_skew_seconds env seconds = xo_only_owner env (
     fbind (fread load_max_submission_age) (\<lambda>age.
     fbind (fassert (\<not> (seconds > age \<or> seconds \<le> MAX_FUTURE_SKEW_SECONDS)) (Xoxno InvalidRelativeSkew)) (\<lambda>_.
     fwrite (store_max_relative_skew seconds))))"

definition set_max_cluster_spread_bps :: "xo_env \<Rightarrow> nat \<Rightarrow> unit xo" where
  "set_max_cluster_spread_bps env bps = xo_only_owner env (
     fbind (fassert (\<not> (bps = 0 \<or> int bps > BPS)) (Xoxno InvalidClusterSpread)) (\<lambda>_.
     fwrite (store_max_cluster_spread_bps bps)))"

definition recompute_feeds :: "xo_env \<Rightarrow> string list \<Rightarrow> unit xo" where
  "recompute_feeds env feed_ids = xo_only_owner env (
     fbind (ffold (\<lambda>feed_id _. require_known_feed feed_id) feed_ids ()) (\<lambda>_.
     ffold (\<lambda>feed_id _. recompute_aggregate env feed_id Clear) feed_ids ()))"

definition register_feed :: "xo_env \<Rightarrow> string \<Rightarrow> unit xo" where
  "register_feed env feed_id = xo_only_owner env (
     fbind (fread (feed_index_contains feed_id)) (\<lambda>known.
     fbind (fassert (\<not> known) (Xoxno FeedAlreadyRegistered)) (\<lambda>_.
     ensure_known_feed feed_id)))"

definition add_feed :: "xo_env \<Rightarrow> string \<Rightarrow> reflector_asset \<Rightarrow> unit xo" where
  "add_feed env feed_id ra = xo_only_owner env (
     fbind (fread (has_feed_mapping ra)) (\<lambda>mapped.
     fbind (fassert (\<not> mapped) (Xoxno FeedAlreadyMapped)) (\<lambda>_.
     fbind (fread (load_feed_owner feed_id)) (\<lambda>owner.
     fbind (fassert (owner = None) (Xoxno FeedAlreadyMapped)) (\<lambda>_.
     fbind (fwrite (map_feed ra feed_id)) (\<lambda>_.
     fbind (ensure_known_feed feed_id) (\<lambda>_.
     asset_index_insert ra)))))))"

definition clear_asset_and_feed :: "reflector_asset \<Rightarrow> string \<Rightarrow> unit xo" where
  "clear_asset_and_feed ra feed_id =
     fbind (fwrite (remove_feed_mapping ra)) (\<lambda>_.
     fbind (asset_index_remove ra) (\<lambda>_.
     clear_feed_state feed_id))"

definition remove_feed :: "xo_env \<Rightarrow> reflector_asset \<Rightarrow> unit xo" where
  "remove_feed env ra = xo_only_owner env (
     fbind (fread (load_feed_id ra)) (\<lambda>mapped.
     case mapped of
       None \<Rightarrow> flift (Inl (Xoxno FeedNotMapped))
     | Some feed_id \<Rightarrow> clear_asset_and_feed ra feed_id))"

definition set_resolution :: "xo_env \<Rightarrow> nat \<Rightarrow> unit xo" where
  "set_resolution env resolution = xo_only_owner env (fwrite (store_resolution resolution))"

definition purge_feed :: "xo_env \<Rightarrow> string \<Rightarrow> unit xo" where
  "purge_feed env feed_id = xo_only_owner env (
     fbind (fread (feed_index_contains feed_id)) (\<lambda>known.
     fbind (fassert known (Xoxno FeedNotKnown)) (\<lambda>_.
     fbind (fread (load_feed_owner feed_id)) (\<lambda>owner.
     case owner of
       Some ra \<Rightarrow> clear_asset_and_feed ra feed_id
     | None \<Rightarrow> clear_feed_state feed_id))))"

section \<open>Reads\<close>

definition read_price_data_for_feed :: "xo_env \<Rightarrow> string \<Rightarrow> xoxno \<Rightarrow> redstone_price_data res" where
  "read_price_data_for_feed env feed_id s =
     rbind (unwrap_or_panic (load_aggregate feed_id s) (Xoxno NoDataForFeed)) (\<lambda>aggregate.
     let max_stale = load_max_stale_seconds s;
         age_seconds = xe_now env - rs_write_timestamp aggregate div MS_PER_SECOND in
     if age_seconds > max_stale then Inl (Xoxno StaleData) else Inr aggregate)"

definition read_price_data :: "xo_env \<Rightarrow> string list \<Rightarrow> xoxno \<Rightarrow> redstone_price_data list res" where
  "read_price_data env feed_ids s =
     rfold (\<lambda>feed_id results.
       rbind (read_price_data_for_feed env feed_id s) (\<lambda>d. Inr (results @ [d]))) feed_ids []"

definition read_price_history :: "xo_env \<Rightarrow> string \<Rightarrow> nat \<Rightarrow> xoxno \<Rightarrow> redstone_price_data list res" where
  "read_price_history env feed_id limit s =
     rbind (read_price_data_for_feed env feed_id s) (\<lambda>_.
     rbind (unwrap_or_panic (load_history feed_id s) (Xoxno NoDataForFeed)) (\<lambda>history.
     if history = [] then Inl (Xoxno NoDataForFeed)
     else let n = min limit (length history) in
          Inr (map (\<lambda>i. history ! (length history - 1 - i)) [0..<n])))"

definition to_reflector_price_data :: "redstone_price_data \<Rightarrow> reflector_price_data res" where
  "to_reflector_price_data data =
     rbind (u256_to_i128 (rs_price data)) (\<lambda>price.
     Inr \<lparr>rf_price = price, rf_timestamp = millis_to_seconds (rs_package_timestamp data)\<rparr>)"

definition result_ok :: "'a res \<Rightarrow> 'a option res" where
  "result_ok r = (case r of Inr x \<Rightarrow> Inr (Some x) | Inl (Xoxno e) \<Rightarrow> Inr None | Inl e \<Rightarrow> Inl e)"

definition base :: reflector_asset where
  "base = Other ''USD''"

definition lastprice :: "xo_env \<Rightarrow> reflector_asset \<Rightarrow> xoxno \<Rightarrow> reflector_price_data option res" where
  "lastprice env ra s =
     (case load_feed_id ra s of
        None \<Rightarrow> Inr None
      | Some feed_id \<Rightarrow>
          rbind (result_ok (read_price_data_for_feed env feed_id s)) (\<lambda>m.
          case m of
            None \<Rightarrow> Inr None
          | Some d \<Rightarrow> rbind (to_reflector_price_data d) (\<lambda>p. Inr (Some p))))"

definition closer_entry :: "nat \<Rightarrow> redstone_price_data \<Rightarrow> redstone_price_data option \<Rightarrow> redstone_price_data option" where
  "closer_entry timestamp entry best =
     (if millis_to_seconds (rs_package_timestamp entry) > timestamp then best
      else if (case best of Some b \<Rightarrow> rs_package_timestamp entry > rs_package_timestamp b | None \<Rightarrow> True)
      then Some entry else best)"

definition price_at :: "xo_env \<Rightarrow> reflector_asset \<Rightarrow> nat \<Rightarrow> xoxno \<Rightarrow> reflector_price_data option res" where
  "price_at env ra timestamp s =
     (case load_feed_id ra s of
        None \<Rightarrow> Inr None
      | Some feed_id \<Rightarrow>
          rbind (result_ok (read_price_history env feed_id MAX_HISTORY_LEN s)) (\<lambda>m.
          case m of
            None \<Rightarrow> Inr None
          | Some history \<Rightarrow>
              (case fold (closer_entry timestamp) history None of
                 None \<Rightarrow> Inr None
               | Some entry \<Rightarrow> rbind (to_reflector_price_data entry) (\<lambda>p. Inr (Some p)))))"

definition prices_of :: "xo_env \<Rightarrow> reflector_asset \<Rightarrow> nat \<Rightarrow> xoxno \<Rightarrow> reflector_price_data list option res" where
  "prices_of env ra records s =
     (case load_feed_id ra s of
        None \<Rightarrow> Inr None
      | Some feed_id \<Rightarrow>
          rbind (result_ok (read_price_history env feed_id records s)) (\<lambda>m.
          case m of
            None \<Rightarrow> Inr None
          | Some history \<Rightarrow>
              if history = [] then Inr None
              else rbind (rfold (\<lambda>entry out. rbind (to_reflector_price_data entry) (\<lambda>p. Inr (out @ [p]))) history [])
                     (\<lambda>out. Inr (Some out))))"

section \<open>Calls\<close>

datatype xo_call =
    Xo_Upgrade "nat list"
  | Xo_Add_Signer address
  | Xo_Remove_Signer address
  | Xo_Set_Threshold nat
  | Xo_Set_Max_Stale nat
  | Xo_Set_Max_Submission_Age nat
  | Xo_Set_Max_Relative_Skew nat
  | Xo_Set_Max_Cluster_Spread nat
  | Xo_Recompute_Feeds "string list"
  | Xo_Register_Feed string
  | Xo_Add_Feed string reflector_asset
  | Xo_Remove_Feed reflector_asset
  | Xo_Set_Resolution nat
  | Xo_Purge_Feed string
  | Xo_Submit_Price address string int nat
  | Xo_Submit_Prices address "string list" "int list" nat

primrec xo_dispatch :: "xo_env \<Rightarrow> xo_call \<Rightarrow> unit xo" where
  "xo_dispatch env (Xo_Upgrade code) = xo_upgrade env code"
| "xo_dispatch env (Xo_Add_Signer a) = add_signer env a"
| "xo_dispatch env (Xo_Remove_Signer a) = remove_signer env a"
| "xo_dispatch env (Xo_Set_Threshold n) = set_threshold env n"
| "xo_dispatch env (Xo_Set_Max_Stale n) = set_max_stale_seconds env n"
| "xo_dispatch env (Xo_Set_Max_Submission_Age n) = set_max_submission_age_seconds env n"
| "xo_dispatch env (Xo_Set_Max_Relative_Skew n) = set_max_relative_skew_seconds env n"
| "xo_dispatch env (Xo_Set_Max_Cluster_Spread n) = set_max_cluster_spread_bps env n"
| "xo_dispatch env (Xo_Recompute_Feeds fs) = recompute_feeds env fs"
| "xo_dispatch env (Xo_Register_Feed f) = register_feed env f"
| "xo_dispatch env (Xo_Add_Feed f ra) = add_feed env f ra"
| "xo_dispatch env (Xo_Remove_Feed ra) = remove_feed env ra"
| "xo_dispatch env (Xo_Set_Resolution n) = set_resolution env n"
| "xo_dispatch env (Xo_Purge_Feed f) = purge_feed env f"
| "xo_dispatch env (Xo_Submit_Price a f p t) = submit_price env a f p t"
| "xo_dispatch env (Xo_Submit_Prices a fs ps t) = submit_prices env a fs ps t"

end
