(* ===== verification/Xoxno_Aggregate.thy ===== *)
theory Xoxno_Aggregate
  imports Xoxno_Oracle "HOL-Library.Multiset"
begin

text \<open>
  The sort and the median of \<^verbatim>\<open>aggregation.rs\<close>: the in-place insertion sort computes the sorted list
  of its input, the median is the element at index \<open>(n - 1) div 2\<close> of it, and the two counting bounds
  from which the resistance to faulty signers follows.

  What \<open>recompute_aggregate\<close> does, stated over the signers instead of over its accumulators: the cluster is
  a sublist of the registered signers, each with a fresh stored submission, and the call either applies
  the quorum-miss policy or stores the median of the cluster's prices. The history push keeps the newest
  entry last and at most \<open>MAX_HISTORY_LEN\<close> entries.
\<close>

section \<open>The in-place sort\<close>

lemma insort_snoc_greater: "key < y \<Longrightarrow> insort key (zs @ [y]) = insort key zs @ [y]" for key y :: int
  by (induction zs) auto

lemma shift_greater_insort:
  assumes "j < length xs" and "sorted (take j xs)" and "shift_greater key j xs = (k, ys)"
  shows "ys[k := key] = insort key (take j xs) @ drop (Suc j) xs"
  using assms
proof (induction j arbitrary: xs)
  case 0
  then show ?case by (cases xs) auto
next
  case (Suc j)
  have tk: "take (Suc j) xs = take j xs @ [xs ! j]"
    using Suc.prems(1) by (simp add: take_Suc_conv_app_nth)
  have srt: "sorted (take j xs)" and le: "\<forall>x \<in> set (take j xs). x \<le> xs ! j"
    using Suc.prems(2) unfolding tk by (auto simp: sorted_append)
  show ?case
  proof (cases "xs ! j \<le> key")
    case True
    then have "insort key (take (Suc j) xs) = take (Suc j) xs @ [key]"
      using Suc.prems(2) le unfolding tk by (intro sorted_insort_is_snoc) auto
    then show ?thesis
      using Suc.prems(1,3) True by (simp add: upd_conv_take_nth_drop)
  next
    case False
    let ?xs = "xs[Suc j := xs ! j]"
    have "ys[k := key] = insort key (take j ?xs) @ drop (Suc j) ?xs"
      using Suc.prems False srt by (intro Suc.IH) auto
    moreover have "drop (Suc j) ?xs = xs ! j # drop (Suc (Suc j)) xs"
      using Suc.prems(1) by (simp add: drop_update_swap flip: Cons_nth_drop_Suc)
    ultimately show ?thesis
      using False by (simp add: tk insort_snoc_greater)
  qed
qed

lemma insert_at_insort:
  assumes "i < length xs" and "sorted (take i xs)"
  shows "insert_at i xs = insort (xs ! i) (take i xs) @ drop (Suc i) xs"
  using shift_greater_insort [OF assms, of "xs ! i"]
  by (cases "shift_greater (xs ! i) i xs") (simp add: insert_at_def Let_def)

lemma sort_snoc: "sort (zs @ [x]) = insort x (sort zs)" for x :: "'a::linorder"
  by (rule properties_for_sort) (simp_all add: sorted_insort)

lemma sorted_prefixes:
  assumes "n \<le> length xs" and "0 < n"
  shows "fold insert_at [1..<n] xs = sort (take n xs) @ drop n xs"
  using assms
proof (induction n)
  case 0 then show ?case by simp
next
  case (Suc n)
  show ?case
  proof (cases "n = 0")
    case True
    then show ?thesis using Suc.prems by (cases xs) auto
  next
    case False
    let ?ys = "sort (take n xs) @ drop n xs"
    have n: "n < length xs" using Suc.prems by simp
    have "fold insert_at [1..<Suc n] xs = insert_at n ?ys"
      using False Suc by simp
    also have "\<dots> = insort (xs ! n) (sort (take n xs)) @ drop (Suc n) xs"
      using n by (subst insert_at_insort) (simp_all add: nth_append min_absorb2)
    also have "insort (xs ! n) (sort (take n xs)) = sort (take (Suc n) xs)"
      using n by (simp add: take_Suc_conv_app_nth sort_snoc)
    finally show ?thesis .
  qed
qed

lemma sorted_copy_sort: "sorted_copy prices = sort prices"
proof (cases "prices = []")
  case False
  then show ?thesis using sorted_prefixes [of "length prices" prices] by (simp add: sorted_copy_def)
qed (simp add: sorted_copy_def)

section \<open>The median\<close>

lemma median_of_sort:
  "median_of prices = (if prices = [] then Inl (Host ArithmeticTrap) else Inr (sort prices ! ((length prices - 1) div 2)))"
  by (cases "prices = []") (simp_all add: median_of_def sorted_copy_sort Let_def flip: length_greater_0_conv)

lemma median_of_Inr [res_iff]:
  "median_of prices = Inr m \<longleftrightarrow> prices \<noteq> [] \<and> m = sort prices ! ((length prices - 1) div 2)"
  by (auto simp: median_of_sort)

lemma count_sort: "length (filter P (sort xs)) = length (filter P xs)"
  by (metis mset_filter mset_sort size_mset)

lemma count_up_to_nth:
  fixes xs :: "'a::linorder list"
  assumes "k < length xs"
  shows "Suc k \<le> length (filter (\<lambda>x. x \<le> sort xs ! k) xs)"
proof -
  have "\<forall>x \<in> set (take (Suc k) (sort xs)). x \<le> sort xs ! k"
    using assms by (auto simp: in_set_conv_nth sorted_nth_mono)
  then have "length (filter (\<lambda>x. x \<le> sort xs ! k) (take (Suc k) (sort xs))) = Suc k"
    using assms by simp
  moreover have "length (filter P (take n ys)) \<le> length (filter P ys)" for P n and ys :: "'a list"
    by (metis append_take_drop_id filter_append le_add1 length_append)
  ultimately show ?thesis by (metis count_sort)
qed

lemma count_from_nth:
  fixes xs :: "'a::linorder list"
  assumes "k < length xs"
  shows "length xs - k \<le> length (filter (\<lambda>x. sort xs ! k \<le> x) xs)"
proof -
  have "\<forall>x \<in> set (drop k (sort xs)). sort xs ! k \<le> x"
    using assms by (auto simp: in_set_conv_nth sorted_nth_mono)
  then have "length (filter (\<lambda>x. sort xs ! k \<le> x) (drop k (sort xs))) = length xs - k"
    using assms by simp
  moreover have "length (filter P (drop n ys)) \<le> length (filter P ys)" for P n and ys :: "'a list"
    by (metis append_take_drop_id filter_append le_add2 length_append)
  ultimately show ?thesis by (metis count_sort)
qed

lemma median_in_prices: "median_of prices = Inr m \<Longrightarrow> m \<in> set prices"
  unfolding median_of_Inr by (metis Suc_diff_1 div_le_dividend le_imp_less_Suc length_greater_0_conv length_sort nth_mem set_sort)

lemma quorum_member_outside:
  assumes "distinct as" and "finite F" and "card F < length (filter P as)"
  shows "\<exists>a \<in> set as - F. P a"
proof (rule ccontr)
  assume "\<not> ?thesis"
  then have "set (filter P as) \<subseteq> F" by auto
  then have "card (set (filter P as)) \<le> card F" using assms(2) by (rule card_mono [rotated])
  moreover have "card (set (filter P as)) = length (filter P as)"
    using assms(1) by (intro distinct_card) simp
  ultimately show False using assms(3) by simp
qed

text \<open>
  With at most \<open>f\<close> faulty members in a cluster of \<open>2 f + 1\<close> the median lies between the prices of
  two members that are not faulty.
\<close>

lemma median_between_honest:
  assumes med: "median_of (map price members) = Inr m" and dist: "distinct members"
    and fin: "finite F" and small: "2 * card F + 1 \<le> length members"
  shows "\<exists>a \<in> set members - F. \<exists>b \<in> set members - F. price a \<le> m \<and> m \<le> price b"
proof -
  let ?xs = "map price members" and ?k = "(length members - 1) div 2"
  have k: "?k < length ?xs" and m: "m = sort ?xs ! ?k"
    using med small by (auto simp: median_of_Inr)
  have "card F < length (filter (\<lambda>x. x \<le> m) ?xs)"
    using count_up_to_nth [OF k] small unfolding m by linarith
  then have "\<exists>a \<in> set members - F. price a \<le> m"
    using dist fin by (intro quorum_member_outside) (auto simp: filter_map comp_def)
  moreover have "card F < length (filter (\<lambda>x. m \<le> x) ?xs)"
    using count_from_nth [OF k] small unfolding m by auto
  then have "\<exists>b \<in> set members - F. m \<le> price b"
    using dist fin by (intro quorum_member_outside) (auto simp: filter_map comp_def)
  ultimately show ?thesis by blast
qed

section \<open>The cluster of a feed\<close>

definition submitted :: "string \<Rightarrow> xoxno \<Rightarrow> address \<Rightarrow> signer_submission" where
  "submitted feed_id s signer = the (load_submission feed_id signer s)"

definition fresh_member :: "xo_env \<Rightarrow> string \<Rightarrow> xoxno \<Rightarrow> address \<Rightarrow> bool" where
  "fresh_member env feed_id s signer \<longleftrightarrow>
     (case load_submission feed_id signer s of
        None \<Rightarrow> False
      | Some submission \<Rightarrow>
          xe_now env - sub_package_timestamp submission div MS_PER_SECOND \<le> load_max_submission_age s)"

lemma fold_keep:
  "fold (keep_submission env f s) signers (kept, newest) =
     (kept @ map (submitted f s) (filter (fresh_member env f s) signers),
      fold max (map (sub_package_timestamp \<circ> submitted f s) (filter (fresh_member env f s) signers)) newest)"
  by (induction signers arbitrary: kept newest)
     (auto simp: keep_submission_def fresh_member_def submitted_def Let_def max.commute split: option.splits)

lemma fold_cluster:
  "fold (cluster_submission newest skew) subs (prices, oldest, lowest, highest) =
     (let cl = filter (\<lambda>sub. newest - sub_package_timestamp sub \<le> skew) subs in
      (prices @ map sub_price cl, fold min (map sub_package_timestamp cl) oldest,
       fold min (map sub_price cl) lowest, fold max (map sub_price cl) highest))"
  by (induction subs arbitrary: prices oldest lowest highest)
     (auto simp: cluster_submission_def Let_def min.commute max.commute)

lemma fold_min_le: "fold min xs b \<le> b \<and> (\<forall>x \<in> set xs. fold min xs b \<le> (x::'a::linorder))"
proof (induction xs arbitrary: b)
  case (Cons x xs)
  from Cons [of "min x b"] show ?case by auto
qed simp

lemma fold_max_ge: "b \<le> fold max xs b \<and> (\<forall>x \<in> set xs. (x::'a::linorder) \<le> fold max xs b)"
proof (induction xs arbitrary: b)
  case (Cons x xs)
  from Cons [of "max x b"] show ?case by auto
qed simp

lemma in_set_tlD: "x \<in> set (tl xs) \<Longrightarrow> x \<in> set xs"
  by (cases xs) auto

definition cluster_members :: "xo_env \<Rightarrow> string \<Rightarrow> xoxno \<Rightarrow> address list" where
  "cluster_members env feed_id s =
     (let fresh = filter (fresh_member env feed_id s) (load_signers s);
          newest = min (fold max (map (sub_package_timestamp \<circ> submitted feed_id s) fresh) 0)
                       (u64_saturating_mul (xe_now env) MS_PER_SECOND);
          skew = u64_saturating_mul (load_max_relative_skew s) MS_PER_SECOND in
      filter (\<lambda>a. newest - sub_package_timestamp (submitted feed_id s a) \<le> skew) fresh)"

definition member_prices :: "xo_env \<Rightarrow> string \<Rightarrow> xoxno \<Rightarrow> int list" where
  "member_prices env feed_id s = map (sub_price \<circ> submitted feed_id s) (cluster_members env feed_id s)"

definition quorum_reached :: "xo_env \<Rightarrow> string \<Rightarrow> xoxno \<Rightarrow> bool" where
  "quorum_reached env feed_id s \<longleftrightarrow>
     (let n = length (cluster_members env feed_id s) in
      load_threshold s \<le> n \<and>
      (spread_free_cluster (length (load_signers s)) (load_threshold s) \<le> n \<or>
       within_spread (fold min (member_prices env feed_id s) i128_max)
                     (fold max (member_prices env feed_id s) i128_min) (load_max_cluster_spread_bps s)))"

definition oldest_member :: "xo_env \<Rightarrow> string \<Rightarrow> xoxno \<Rightarrow> nat" where
  "oldest_member env feed_id s =
     fold min (map (sub_package_timestamp \<circ> submitted feed_id s) (cluster_members env feed_id s)) u64_max"

lemma cluster_members_props:
  shows "set (cluster_members env f s) \<subseteq> set (load_signers s)"
    and "distinct (load_signers s) \<Longrightarrow> distinct (cluster_members env f s)"
    and "a \<in> set (cluster_members env f s) \<Longrightarrow> fresh_member env f s a"
  by (auto simp: cluster_members_def Let_def)

lemma fresh_member_stored: "fresh_member env f s a \<Longrightarrow> load_submission f a s = Some (submitted f s a)"
  by (auto simp: fresh_member_def submitted_def split: option.splits)

lemma member_stored:
  "a \<in> set (cluster_members env f s) \<Longrightarrow> load_submission f a s = Some (submitted f s a)"
  using cluster_members_props(3) fresh_member_stored by blast

text \<open>The whole of \<open>recompute_aggregate\<close> in terms of the cluster.\<close>

lemma recompute_aggregate_eq:
  "recompute_aggregate env f on_miss s =
     (if quorum_reached env f s
      then rbind (median_of (member_prices env f s)) (\<lambda>median.
           rbind (u64_native (xe_now env * MS_PER_SECOND)) (\<lambda>w.
           let d = \<lparr>rs_price = median mod 2 ^ 128, rs_package_timestamp = oldest_member env f s, rs_write_timestamp = w\<rparr> in
           Inr ((), push_history f d (store_aggregate f d s))))
      else Inr ((), apply_quorum_miss f on_miss s))"
proof -
  let ?fresh = "filter (fresh_member env f s) (load_signers s)"
  have sub: "length (cluster_members env f s) \<le> length ?fresh"
    unfolding cluster_members_def Let_def by (rule length_filter_le)
  show ?thesis
    using sub
    by (simp add: recompute_aggregate_def fold_keep fold_cluster quorum_reached_def member_prices_def
        oldest_member_def cluster_members_def Let_def filter_map comp_def not_le not_less)
qed

section \<open>History\<close>

definition history_pushed :: "nat \<Rightarrow> redstone_price_data \<Rightarrow> redstone_price_data list \<Rightarrow> redstone_price_data list" where
  "history_pushed resolution d h =
     (if h \<noteq> [] \<and> rs_write_timestamp d < u64_saturating_add (rs_write_timestamp (last h)) (resolution * MS_PER_SECOND)
      then butlast h else if length h \<ge> MAX_HISTORY_LEN then tl h else h) @ [d]"

lemma push_history_eq:
  "push_history f d s =
     s\<lparr>xo_histories := (xo_histories s)(f \<mapsto> history_pushed (load_resolution s) d (unwrap_or (xo_histories s f) []))\<rparr>"
proof -
  have "h[length h - 1 := d] = butlast h @ [d]" if "h \<noteq> []" for h :: "redstone_price_data list"
    using that by (cases h rule: rev_cases) auto
  then show ?thesis
    by (auto simp: push_history_def history_pushed_def load_history_def store_history_def Let_def last_conv_nth)
qed

lemma history_pushed_last [simp]: "last (history_pushed r d h) = d" "history_pushed r d h \<noteq> []"
  by (simp_all add: history_pushed_def)

lemma history_pushed_length: "length h \<le> MAX_HISTORY_LEN \<Longrightarrow> length (history_pushed r d h) \<le> MAX_HISTORY_LEN"
  by (auto simp: history_pushed_def MAX_HISTORY_LEN_def MAX_TWAP_RECORDS_def)

lemma history_pushed_set: "set (history_pushed r d h) \<subseteq> insert d (set h)"
  by (auto simp: history_pushed_def dest: in_set_butlastD in_set_tlD split: if_splits)

lemma history_pushed_sorted:
  assumes "sorted (map rs_write_timestamp h)" and "\<forall>e \<in> set h. rs_write_timestamp e \<le> rs_write_timestamp d"
  shows "sorted (map rs_write_timestamp (history_pushed r d h))"
proof -
  have "sorted (map rs_write_timestamp (butlast h))" and "sorted (map rs_write_timestamp (tl h))"
    using assms(1) by (simp_all add: map_butlast map_tl sorted_butlast sorted_tl)
  then show ?thesis
    using assms by (auto simp: history_pushed_def sorted_append dest: in_set_butlastD in_set_tlD)
qed

section \<open>Effect on the stored state\<close>

lemma recompute_outcome:
  assumes "recompute_aggregate env f on_miss s = Inr (u, s')"
  obtains (miss) "\<not> quorum_reached env f s" "s' = apply_quorum_miss f on_miss s"
  | (written) m d where "quorum_reached env f s" "median_of (member_prices env f s) = Inr m"
      "d = \<lparr>rs_price = m mod 2 ^ 128, rs_package_timestamp = oldest_member env f s,
            rs_write_timestamp = xe_now env * MS_PER_SECOND\<rparr>"
      "s' = push_history f d (store_aggregate f d s)"
  using assms unfolding recompute_aggregate_eq
  by (auto simp: Let_def rbind_Inr_iff u64_native_Inr split: if_splits)

end
