(* ===== verification/Xoxno_Machine.thy ===== *)
theory Xoxno_Machine
  imports Xoxno_Aggregate
begin

text \<open>
  The states the oracle can reach: the constructor on a fresh contract, then any sequence of successful
  calls under a clock that does not run backwards; the \<^verbatim>\<open>Ownable\<close> module may replace the owner at any
  time. The invariant has four parts: the configuration (\<open>config_ok\<close>), the two registries and
  the mapping between assets and feeds (\<open>registry_ok\<close>), the submissions (\<open>subs_ok\<close>), and the
  published prices (\<open>prices_ok\<close>).
\<close>

section \<open>Reachable states\<close>

inductive xo_reachable :: "nat \<Rightarrow> xoxno \<Rightarrow> bool" where
  xo_init: "xo_constructor admin signers threshold resolution (empty_xoxno code) = Inr (u, s) \<Longrightarrow> xo_reachable t s"
| xo_call: "xo_reachable t s \<Longrightarrow> t \<le> xe_now env \<Longrightarrow> xo_dispatch env cl s = Inr (u, s') \<Longrightarrow> xo_reachable (xe_now env) s'"
| xo_owner_change: "xo_reachable t s \<Longrightarrow> xo_reachable t (s\<lparr>xo_owner := new_owner\<rparr>)"

section \<open>Invariant\<close>

definition price_ok :: "int \<Rightarrow> bool" where
  "price_ok p \<longleftrightarrow> 0 < p \<and> p \<le> MAX_SUBMITTED_PRICE"

definition config_ok :: "xoxno \<Rightarrow> bool" where
  "config_ok s \<longleftrightarrow>
     distinct (load_signers s) \<and> 0 < load_threshold s \<and> load_threshold s \<le> length (load_signers s) \<and>
     MIN_SUBMISSION_AGE_SECONDS \<le> load_max_submission_age s \<and> load_max_submission_age s \<le> load_max_stale_seconds s \<and>
     MAX_FUTURE_SKEW_SECONDS < load_max_relative_skew s \<and>
     0 < load_max_cluster_spread_bps s \<and> int (load_max_cluster_spread_bps s) \<le> BPS"

definition registry_ok :: "xoxno \<Rightarrow> bool" where
  "registry_ok s \<longleftrightarrow>
     index_wf (xo_assets s) \<and> index_wf (xo_feeds s) \<and>
     (\<forall>a f. xo_feed_mapping s a = Some f \<longleftrightarrow> xo_feed_owner s f = Some a) \<and>
     (\<forall>a. index_contains (xo_assets s) a \<longleftrightarrow> xo_feed_mapping s a \<noteq> None) \<and>
     (\<forall>f. xo_feed_owner s f \<noteq> None \<longrightarrow> feed_index_contains f s)"

definition subs_ok :: "xoxno \<Rightarrow> bool" where
  "subs_ok s \<longleftrightarrow>
     (\<forall>f g sub. xo_submissions s f g = Some sub \<longrightarrow> f \<in> set (load_signer_feeds g s) \<and> price_ok (sub_price sub)) \<and>
     (\<forall>f g. f \<in> set (load_signer_feeds g s) \<longrightarrow> g \<in> set (load_signers s) \<and> feed_index_contains f s)"

definition prices_ok :: "nat \<Rightarrow> xoxno \<Rightarrow> bool" where
  "prices_ok t s \<longleftrightarrow>
     (\<forall>f h. xo_histories s f = Some h \<longrightarrow>
        feed_index_contains f s \<and> h \<noteq> [] \<and> length h \<le> MAX_HISTORY_LEN \<and> sorted (map rs_write_timestamp h) \<and>
        (\<forall>d \<in> set h. price_ok (rs_price d) \<and> rs_write_timestamp d \<le> t * MS_PER_SECOND)) \<and>
     (\<forall>f d. xo_aggregates s f = Some d \<longrightarrow> (\<exists>h. xo_histories s f = Some h \<and> last h = d))"

definition xo_inv :: "nat \<Rightarrow> xoxno \<Rightarrow> bool" where
  "xo_inv t s \<longleftrightarrow> config_ok s \<and> registry_ok s \<and> subs_ok s \<and> prices_ok t s"

lemmas load_defs = load_signers_def load_threshold_def load_max_submission_age_def load_max_stale_seconds_def
  load_max_relative_skew_def load_max_cluster_spread_bps_def load_resolution_def Let_def

lemmas store_defs = store_signers_def store_threshold_def store_max_stale_seconds_def store_max_submission_age_def
  store_max_relative_skew_def store_max_cluster_spread_bps_def store_resolution_def

lemmas flow_iff = fbind_Inr flift_Inr fret_Inr fassert_Inr fread_Inr fwrite_Inr unwrap_Inr_iff rbind_Inr_iff Let_def

lemma prices_ok_later: "prices_ok t s \<Longrightarrow> t \<le> t' \<Longrightarrow> prices_ok t' s"
proof -
  assume ok: "prices_ok t s" and "t \<le> t'"
  then have "x \<le> t * MS_PER_SECOND \<Longrightarrow> x \<le> t' * MS_PER_SECOND" for x
    using mult_le_mono1 order_trans by blast
  with ok show ?thesis unfolding prices_ok_def by blast
qed

section \<open>The invariant over the aggregation\<close>

lemma config_ok_frame [simp]:
  "config_ok (s\<lparr>xo_aggregates := a\<rparr>) = config_ok s" "config_ok (s\<lparr>xo_histories := h\<rparr>) = config_ok s"
  "config_ok (s\<lparr>xo_submissions := sb\<rparr>) = config_ok s" "config_ok (s\<lparr>xo_signer_feeds := sf\<rparr>) = config_ok s"
  "config_ok (s\<lparr>xo_feed_mapping := fm\<rparr>) = config_ok s" "config_ok (s\<lparr>xo_feed_owner := fo\<rparr>) = config_ok s"
  "config_ok (s\<lparr>xo_assets := as\<rparr>) = config_ok s" "config_ok (s\<lparr>xo_feeds := fs\<rparr>) = config_ok s"
  "config_ok (s\<lparr>xo_owner := ow\<rparr>) = config_ok s" "config_ok (s\<lparr>xo_code := c\<rparr>) = config_ok s"
  by (simp_all add: config_ok_def load_defs)

lemma registry_ok_frame [simp]:
  "registry_ok (s\<lparr>xo_aggregates := a\<rparr>) = registry_ok s" "registry_ok (s\<lparr>xo_histories := h\<rparr>) = registry_ok s"
  "registry_ok (s\<lparr>xo_submissions := sb\<rparr>) = registry_ok s" "registry_ok (s\<lparr>xo_signer_feeds := sf\<rparr>) = registry_ok s"
  "registry_ok (s\<lparr>xo_owner := ow\<rparr>) = registry_ok s" "registry_ok (s\<lparr>xo_code := c\<rparr>) = registry_ok s"
  "registry_ok (s\<lparr>xo_signers := sg\<rparr>) = registry_ok s"
  by (simp_all add: registry_ok_def feed_index_contains_def)

lemma subs_ok_frame [simp]:
  "subs_ok (s\<lparr>xo_aggregates := a\<rparr>) = subs_ok s" "subs_ok (s\<lparr>xo_histories := h\<rparr>) = subs_ok s"
  "subs_ok (s\<lparr>xo_feed_mapping := fm\<rparr>) = subs_ok s" "subs_ok (s\<lparr>xo_feed_owner := fo\<rparr>) = subs_ok s"
  "subs_ok (s\<lparr>xo_assets := as\<rparr>) = subs_ok s"
  "subs_ok (s\<lparr>xo_owner := ow\<rparr>) = subs_ok s" "subs_ok (s\<lparr>xo_code := c\<rparr>) = subs_ok s"
  by (simp_all add: subs_ok_def load_defs load_signer_feeds_def feed_index_contains_def)

lemma prices_ok_frame [simp]:
  "prices_ok t (s\<lparr>xo_submissions := sb\<rparr>) = prices_ok t s" "prices_ok t (s\<lparr>xo_signer_feeds := sf\<rparr>) = prices_ok t s"
  "prices_ok t (s\<lparr>xo_feed_mapping := fm\<rparr>) = prices_ok t s" "prices_ok t (s\<lparr>xo_feed_owner := fo\<rparr>) = prices_ok t s"
  "prices_ok t (s\<lparr>xo_assets := as\<rparr>) = prices_ok t s" "prices_ok t (s\<lparr>xo_signers := sg\<rparr>) = prices_ok t s"
  "prices_ok t (s\<lparr>xo_owner := ow\<rparr>) = prices_ok t s" "prices_ok t (s\<lparr>xo_code := c\<rparr>) = prices_ok t s"
  by (simp_all add: prices_ok_def feed_index_contains_def)

definition subs_priced :: "xoxno \<Rightarrow> bool" where
  "subs_priced s \<longleftrightarrow> (\<forall>f g sub. xo_submissions s f g = Some sub \<longrightarrow> price_ok (sub_price sub))"

lemma subs_ok_priced: "subs_ok s \<Longrightarrow> subs_priced s"
  by (auto simp: subs_ok_def subs_priced_def)

lemma median_price_ok:
  assumes "median_of (member_prices env f s) = Inr m" and "subs_priced s"
  shows "price_ok m" and "m mod 2 ^ 128 = m"
proof -
  have "m \<in> set (member_prices env f s)" using assms(1) by (rule median_in_prices)
  then obtain a where "a \<in> set (cluster_members env f s)" and m: "m = sub_price (submitted f s a)"
    by (auto simp: member_prices_def)
  then have "xo_submissions s f a = Some (submitted f s a)"
    using member_stored by (simp add: load_submission_def)
  with assms(2) m show ok: "price_ok m" by (auto simp: subs_priced_def)
  then show "m mod 2 ^ 128 = m"
    by (intro mod_pos_pos_trivial) (auto simp: price_ok_def MAX_SUBMITTED_PRICE_def)
qed

text \<open>Only the aggregate and the history of the recomputed feed change.\<close>

lemma recompute_frame:
  assumes "recompute_aggregate env f on_miss s = Inr (u, s')"
  shows "\<exists>a h. s' = s\<lparr>xo_aggregates := a, xo_histories := h\<rparr>"
  using assms
proof (cases rule: recompute_outcome)
  case miss
  then show ?thesis
  proof (cases on_miss)
    case Clear
    then have "s' = s\<lparr>xo_aggregates := (xo_aggregates s)(f := None), xo_histories := xo_histories s\<rparr>"
      using miss by (simp add: apply_quorum_miss_def remove_aggregate_def)
    then show ?thesis by blast
  next
    case Retain
    then have "s' = s\<lparr>xo_aggregates := xo_aggregates s, xo_histories := xo_histories s\<rparr>"
      using miss by (simp add: apply_quorum_miss_def)
    then show ?thesis by blast
  qed
qed (auto simp: push_history_eq store_aggregate_def)

lemma recompute_prices:
  assumes run: "recompute_aggregate env f on_miss s = Inr (u, s')"
    and priced: "subs_priced s" and known: "feed_index_contains f s"
    and ok: "prices_ok t s" and t: "t \<le> xe_now env"
  shows "prices_ok (xe_now env) s'"
  using run
proof (cases rule: recompute_outcome)
  case miss
  then show ?thesis
    using prices_ok_later [OF ok t]
    by (auto simp: apply_quorum_miss_def remove_aggregate_def prices_ok_def feed_index_contains_def
        split: quorum_miss.splits)
next
  case (written m d)
  let ?h = "unwrap_or (xo_histories s f) []"
  have old: "length ?h \<le> MAX_HISTORY_LEN \<and> sorted (map rs_write_timestamp ?h) \<and>
      (\<forall>e \<in> set ?h. price_ok (rs_price e) \<and> rs_write_timestamp e \<le> xe_now env * MS_PER_SECOND)"
    using prices_ok_later [OF ok t] by (cases "xo_histories s f") (auto simp: prices_ok_def)
  have d: "price_ok (rs_price d)" "rs_write_timestamp d = xe_now env * MS_PER_SECOND"
    using median_price_ok [OF written(2) priced] written(3) by auto
  let ?h' = "history_pushed (load_resolution (store_aggregate f d s)) d ?h"
  have "length ?h' \<le> MAX_HISTORY_LEN" and "sorted (map rs_write_timestamp ?h')"
    using old d(2) by (auto intro: history_pushed_length history_pushed_sorted)
  moreover have "\<forall>e \<in> set ?h'. price_ok (rs_price e) \<and> rs_write_timestamp e \<le> xe_now env * MS_PER_SECOND"
    using old d history_pushed_set by (metis insert_iff order_refl subsetD)
  ultimately show ?thesis
    using prices_ok_later [OF ok t] known
    by (auto simp: written(4) push_history_eq store_aggregate_def prices_ok_def feed_index_contains_def)
qed

lemma recompute_inv:
  assumes "recompute_aggregate env f on_miss s = Inr (u, s')"
    and "xo_inv t s" and "feed_index_contains f s" and "t \<le> xe_now env"
  shows "xo_inv (xe_now env) s'" and "xo_feeds s' = xo_feeds s"
proof -
  from recompute_frame [OF assms(1)] obtain a h where s': "s' = s\<lparr>xo_aggregates := a, xo_histories := h\<rparr>" by blast
  have parts: "config_ok s" "registry_ok s" "subs_ok s" "prices_ok t s" using assms(2) by (simp_all add: xo_inv_def)
  have "prices_ok (xe_now env) s'"
    using recompute_prices [OF assms(1) subs_ok_priced [OF parts(3)] assms(3) parts(4) assms(4)] .
  moreover have "config_ok s'" "registry_ok s'" "subs_ok s'" using parts by (simp_all add: s')
  ultimately show "xo_inv (xe_now env) s'" by (simp add: xo_inv_def)
  show "xo_feeds s' = xo_feeds s" by (simp add: s')
qed

section \<open>Submission\<close>

lemma store_submission_inv:
  assumes "xo_inv t s" and "g \<in> set (load_signers s)" and "feed_index_contains f s" and "price_ok p"
  shows "xo_inv t (store_submission f g p ts s)" and "xo_feeds (store_submission f g p ts s) = xo_feeds s"
    and "load_signers (store_submission f g p ts s) = load_signers s"
proof -
  obtain sf where r: "record_signer_feed g f s = s\<lparr>xo_signer_feeds := sf\<rparr>"
    by (cases "f \<in> set (unwrap_or (xo_signer_feeds s g) [])")
       (auto simp: record_signer_feed_def Let_def intro: that [of "xo_signer_feeds s"])
  define y where "y = store_submission f g p ts s"
  have y: "y = s\<lparr>xo_signer_feeds := sf, xo_submissions := (xo_submissions s)
               (f := (xo_submissions s f)(g \<mapsto> \<lparr>sub_price = p, sub_package_timestamp = ts\<rparr>))\<rparr>"
    by (simp add: y_def store_submission_def store_submission_record_def set_submission_def r)
  have "load_signer_feeds a y = load_signer_feeds a (record_signer_feed g f s)" for a
    by (simp add: y r load_signer_feeds_def)
  then have feeds: "set (load_signer_feeds a y) = (if a = g then {f} else {}) \<union> set (load_signer_feeds a s)" for a
    by auto
  have subs: "xo_submissions y f' a = Some sub \<Longrightarrow>
      f' = f \<and> a = g \<and> sub_price sub = p \<or> xo_submissions s f' a = Some sub" for f' a sub
    by (auto simp: y split: if_splits)
  have rest: "load_signers y = load_signers s" "xo_feeds y = xo_feeds s" "config_ok y = config_ok s"
    "registry_ok y = registry_ok s" "prices_ok t y = prices_ok t s"
    by (simp_all add: y load_signers_def)
  have "subs_ok y"
  proof -
    have old: "\<And>f g sub. xo_submissions s f g = Some sub \<Longrightarrow> f \<in> set (load_signer_feeds g s) \<and> price_ok (sub_price sub)"
      "\<And>f g. f \<in> set (load_signer_feeds g s) \<Longrightarrow> g \<in> set (load_signers s) \<and> index_contains (xo_feeds s) f"
      using assms(1) by (auto simp: xo_inv_def subs_ok_def feed_index_contains_def)
    have "f' \<in> set (load_signer_feeds a y) \<and> price_ok (sub_price sub)" if "xo_submissions y f' a = Some sub" for f' a sub
      using subs [OF that] old(1) [of f' a sub] assms(4) by (auto simp: feeds)
    moreover have "a \<in> set (load_signers s) \<and> index_contains (xo_feeds s) f'" if "f' \<in> set (load_signer_feeds a y)" for f' a
      using that old(2) [of f' a] assms(2,3) by (auto simp: feeds feed_index_contains_def split: if_splits)
    ultimately show ?thesis by (simp add: subs_ok_def feed_index_contains_def rest)
  qed
  then show "xo_inv t (store_submission f g p ts s)"
    using assms(1) rest unfolding y_def [symmetric] by (simp add: xo_inv_def)
  show "xo_feeds (store_submission f g p ts s) = xo_feeds s"
    and "load_signers (store_submission f g p ts s) = load_signers s"
    using rest unfolding y_def [symmetric] by simp_all
qed

lemma validate_price_Inr [res_iff]: "validate_price p s = Inr (u, s') \<longleftrightarrow> price_ok p \<and> s' = s"
  by (auto simp: validate_price_def flow_iff price_ok_def)

lemma known_Inr [res_iff]: "require_known_feed f s = Inr (u, s') \<longleftrightarrow> feed_index_contains f s \<and> s' = s"
  by (auto simp: require_known_feed_def flow_iff)

lemma registered_Inr [res_iff]: "require_registered_signer g s = Inr (u, s') \<longleftrightarrow> g \<in> set (load_signers s) \<and> s' = s"
  by (auto simp: require_registered_signer_def flow_iff)

lemma monotonic_Inr [res_iff]:
  "require_monotonic_package f g ts s = Inr (u, s') \<longleftrightarrow>
     s' = s \<and> (case load_submission f g s of Some prev \<Rightarrow> sub_package_timestamp prev \<le> ts | None \<Rightarrow> True)"
  by (auto simp: require_monotonic_package_def flow_iff split: option.splits)

lemma fresh_Inr [res_iff]:
  "require_fresh_submission env ts s = Inr (u, s') \<longleftrightarrow>
     s' = s \<and> xe_now env - ts div MS_PER_SECOND \<le> load_max_submission_age s"
  by (auto simp: require_fresh_submission_def flow_iff)

lemma not_future_Inr [res_iff]:
  "require_not_future env ts s = Inr (u, s') \<longleftrightarrow>
     s' = s \<and> ts div MS_PER_SECOND \<le> u64_saturating_add (xe_now env) MAX_FUTURE_SKEW_SECONDS"
  by (auto simp: require_not_future_def flow_iff)

lemma xo_auth_Inr [res_iff]: "xo_require_auth env a s = Inr (u, s') \<longleftrightarrow> s' = s \<and> xe_auth env a"
  by (auto simp: xo_require_auth_def flow_iff)

lemma xo_only_owner_Inr [res_iff]:
  "xo_only_owner env body s = Inr (u, s') \<longleftrightarrow> (\<exists>a. xo_owner s = Some a \<and> xe_auth env a \<and> body s = Inr (u, s'))"
  by (auto simp: xo_only_owner_def flow_iff xo_auth_Inr)

lemmas xo_iff = flow_iff validate_price_Inr known_Inr registered_Inr monotonic_Inr fresh_Inr not_future_Inr
  xo_auth_Inr xo_only_owner_Inr

lemma submit_price_inv:
  assumes "submit_price env g f p ts s = Inr (u, s')" and "xo_inv t s" and "t \<le> xe_now env"
  shows "xo_inv (xe_now env) s'"
proof -
  have g: "g \<in> set (load_signers s)" and f: "feed_index_contains f s" and p: "price_ok p"
    and run: "recompute_aggregate env f Retain (store_submission f g p ts s) = Inr (u, s')"
    using assms(1) by (auto simp: submit_price_def xo_iff)
  show ?thesis
    using store_submission_inv [OF assms(2) g f p] f
    by (intro recompute_inv(1) [OF run _ _ assms(3)]) (simp_all add: feed_index_contains_def)
qed

lemma ffold_check:
  assumes "ffold (\<lambda>x _. m x) xs () s = Inr (u, s')" and "\<And>x t u t'. m x t = Inr (u, t') \<Longrightarrow> P x t \<and> t' = t"
  shows "s' = s \<and> (\<forall>x \<in> set xs. P x s)"
  using assms(1)
proof (induction xs arbitrary: s)
  case (Cons x xs)
  then show ?case using assms(2) by (fastforce simp: flow_iff)
qed (simp add: flow_iff)

lemma submit_prices_inv:
  assumes run: "submit_prices env g fs ps ts s = Inr (u, s')" and inv: "xo_inv t s" and t: "t \<le> xe_now env"
  shows "xo_inv (xe_now env) s'"
proof -
  from run obtain s1 s2 where g: "g \<in> set (load_signers s)" and len: "length fs = length ps"
    and chk: "ffold (\<lambda>f _. fbind (require_known_feed f) (\<lambda>_. require_monotonic_package f g ts)) fs () s = Inr ((), s1)"
    and val: "ffold (\<lambda>p _. validate_price p) ps () s1 = Inr ((), s2)"
    and loop: "ffold (\<lambda>(f, p) _. fbind (fwrite (store_submission f g p ts)) (\<lambda>_. recompute_aggregate env f Retain))
                 (zip fs ps) () s2 = Inr (u, s')"
    unfolding submit_prices_def by (auto simp: xo_iff)
  have s1: "s1 = s \<and> (\<forall>f \<in> set fs. feed_index_contains f s)"
    using chk by (rule ffold_check) (auto simp: xo_iff)
  have s2: "s2 = s1 \<and> (\<forall>p \<in> set ps. price_ok p)"
    using val by (rule ffold_check) (auto simp: xo_iff)
  let ?P = "\<lambda>(_ :: unit) x. xo_inv (xe_now env) x \<and> xo_feeds x = xo_feeds s \<and> load_signers x = load_signers s"
  have "?P u s'"
  proof (rule ffold_invariant [OF loop])
    show "?P () s2"
      using s1 s2 inv prices_ok_later [OF _ t] by (auto simp: xo_inv_def)
  next
    fix fp x a x' and v :: unit
    assume mem: "fp \<in> set (zip fs ps)" and P: "?P v x"
      and step: "(\<lambda>(f, p) _. fbind (fwrite (store_submission f g p ts)) (\<lambda>_. recompute_aggregate env f Retain)) fp v x = Inr (a, x')"
    obtain f p where fp: "fp = (f, p)" by (cases fp)
    have f: "feed_index_contains f s" and p: "price_ok p"
      using mem s1 s2 unfolding fp by (auto dest: set_zip_leftD set_zip_rightD)
    have k: "feed_index_contains f x" using f P by (simp add: feed_index_contains_def)
    let ?y = "store_submission f g p ts x"
    have r: "recompute_aggregate env f Retain ?y = Inr (a, x')" using step by (simp add: fp xo_iff)
    have gx: "g \<in> set (load_signers x)" and ix: "xo_inv (xe_now env) x" using P g by simp_all
    note y = store_submission_inv [OF ix gx k p, of ts]
    have "feed_index_contains f ?y" using k y(2) by (simp add: feed_index_contains_def)
    then have "xo_inv (xe_now env) x'" using recompute_inv(1) [OF r y(1)] by simp
    moreover obtain ag hs where "x' = ?y\<lparr>xo_aggregates := ag, xo_histories := hs\<rparr>" using recompute_frame [OF r] by blast
    ultimately show "?P a x'" using P y by (simp add: load_signers_def)
  qed
  then show ?thesis by simp
qed

end
