(* ===== verification/Xoxno_Invariant.thy ===== *)
theory Xoxno_Invariant
  imports Xoxno_Machine
begin

text \<open>
  The administrative calls of the price oracle keep the invariant, and with the submission calls of
  \<open>Xoxno_Machine\<close> every reachable state has it. The registry operations are used through the
  interpretation \<open>ix\<close> of the locale \<open>registry\<close> only.
\<close>

section \<open>Configuration\<close>

lemma xo_inv_config:
  assumes "xo_inv t s" and "config_ok s'" and "xo_submissions s' = xo_submissions s"
    and "xo_signer_feeds s' = xo_signer_feeds s" and "xo_aggregates s' = xo_aggregates s"
    and "xo_histories s' = xo_histories s" and "xo_feed_mapping s' = xo_feed_mapping s"
    and "xo_feed_owner s' = xo_feed_owner s" and "xo_assets s' = xo_assets s" and "xo_feeds s' = xo_feeds s"
    and "set (load_signers s) \<subseteq> set (load_signers s')"
  shows "xo_inv t s'"
  using assms unfolding xo_inv_def
  by (auto simp: registry_ok_def subs_ok_def prices_ok_def feed_index_contains_def load_signer_feeds_def)

lemma config_calls_inv:
  assumes inv: "xo_inv t s"
    and run: "xo_dispatch env cl s = Inr (u, s')"
    and cl: "cl \<in> {Xo_Upgrade c, Xo_Add_Signer g, Xo_Set_Threshold n, Xo_Set_Max_Stale n, Xo_Set_Max_Submission_Age n,
                   Xo_Set_Max_Relative_Skew n, Xo_Set_Max_Cluster_Spread n, Xo_Set_Resolution n}"
  shows "xo_inv t s'"
proof -
  have c: "config_ok s" using inv by (simp add: xo_inv_def)
  have "config_ok s'"
    using run cl c
    by (auto simp: xo_iff xo_upgrade_def add_signer_def set_threshold_def set_max_stale_seconds_def
        set_max_submission_age_seconds_def set_max_relative_skew_seconds_def set_max_cluster_spread_bps_def
        set_resolution_def store_defs config_ok_def load_defs MIN_SUBMISSION_AGE_SECONDS_def)
  then show ?thesis
    by (rule xo_inv_config [OF inv]; use run cl in \<open>auto simp: xo_iff xo_upgrade_def add_signer_def set_threshold_def
        set_max_stale_seconds_def set_max_submission_age_seconds_def set_max_relative_skew_seconds_def
        set_max_cluster_spread_bps_def set_resolution_def store_defs load_signers_def\<close>)
qed

section \<open>Registration of feeds\<close>

lemma feeds_grow:
  assumes "\<And>f. index_contains (xo_feeds s) f \<Longrightarrow> index_contains fs f"
  shows "subs_ok s \<Longrightarrow> subs_ok (s\<lparr>xo_feeds := fs\<rparr>)" and "prices_ok t s \<Longrightarrow> prices_ok t (s\<lparr>xo_feeds := fs\<rparr>)"
  using assms
  by (auto simp: subs_ok_def prices_ok_def feed_index_contains_def load_signer_feeds_def load_signers_def)

lemma ensure_known_feed_effect:
  assumes run: "ensure_known_feed f s = Inr (u, s')" and wf: "index_wf (xo_feeds s)"
  shows "\<exists>fs. s' = s\<lparr>xo_feeds := fs\<rparr> \<and> index_wf fs \<and> (\<forall>y. index_contains fs y \<longleftrightarrow> y = f \<or> index_contains (xo_feeds s) y)"
proof (cases "index_contains (xo_feeds s) f")
  case True
  then have "s' = s\<lparr>xo_feeds := xo_feeds s\<rparr>"
    using run by (auto simp: ensure_known_feed_def xo_iff renew_known_feed_contains feed_index_contains_def)
  with True wf show ?thesis by blast
next
  case False
  then obtain fs where "index_insert f (xo_feeds s) = Inr fs" and "s' = s\<lparr>xo_feeds := fs\<rparr>"
    using run by (auto simp: ensure_known_feed_def xo_iff renew_known_feed_contains feed_index_contains_def feed_index_insert_def)
  with False show ?thesis using ix.ins_wf [OF wf] ix.mem_ins [OF wf] by blast
qed

lemma register_feed_inv:
  assumes "register_feed env f s = Inr (u, s')" and inv: "xo_inv t s"
  shows "xo_inv t s'"
proof -
  have run: "ensure_known_feed f s = Inr (u, s')" using assms(1) by (auto simp: register_feed_def xo_iff)
  have wf: "index_wf (xo_feeds s)" using inv by (simp add: xo_inv_def registry_ok_def)
  from ensure_known_feed_effect [OF run wf] obtain fs where s': "s' = s\<lparr>xo_feeds := fs\<rparr>"
    and fs: "index_wf fs" "\<And>y. index_contains fs y \<longleftrightarrow> y = f \<or> index_contains (xo_feeds s) y" by blast
  have "registry_ok s'" using inv fs by (auto simp: xo_inv_def registry_ok_def s' feed_index_contains_def)
  moreover have "subs_ok s'" "prices_ok t s'" "config_ok s'"
    using inv fs(2) feeds_grow [of s fs] by (auto simp: xo_inv_def s')
  ultimately show ?thesis by (simp add: xo_inv_def)
qed

lemma add_feed_inv:
  assumes run: "add_feed env f a s = Inr (u, s')" and inv: "xo_inv t s"
  shows "xo_inv t s'"
proof -
  let ?m = "map_feed a f s"
  from run obtain s1 as where new: "xo_feed_mapping s a = None" "xo_feed_owner s f = None"
    and ens: "ensure_known_feed f ?m = Inr ((), s1)" and ins: "index_insert a (xo_assets s1) = Inr as"
    and s': "s' = s1\<lparr>xo_assets := as\<rparr>"
    by (auto simp: add_feed_def xo_iff has_feed_mapping_def load_feed_owner_def asset_index_insert_def)
  have reg: "registry_ok s" using inv by (simp add: xo_inv_def)
  then have wf: "index_wf (xo_feeds ?m)" "index_wf (xo_assets s)" by (simp_all add: registry_ok_def map_feed_def)
  from ensure_known_feed_effect [OF ens wf(1)] obtain fs where s1: "s1 = ?m\<lparr>xo_feeds := fs\<rparr>"
    and fs: "index_wf fs" "\<And>y. index_contains fs y \<longleftrightarrow> y = f \<or> index_contains (xo_feeds s) y"
    by (auto simp: map_feed_def)
  have na: "\<not> index_contains (xo_assets s) a" using reg new(1) by (simp add: registry_ok_def)
  have ins': "index_insert a (xo_assets s) = Inr as" using ins by (simp add: s1 map_feed_def)
  have s'_eq: "s' = s\<lparr>xo_feed_mapping := (xo_feed_mapping s)(a \<mapsto> f), xo_feed_owner := (xo_feed_owner s)(f \<mapsto> a),
      xo_assets := as, xo_feeds := fs\<rparr>"
    by (simp add: s' s1 map_feed_def)
  have uniq: "xo_feed_owner s x \<noteq> Some a" "xo_feed_mapping s y \<noteq> Some f" for x y
    using reg new unfolding registry_ok_def by (metis option.distinct(1))+
  have "registry_ok s'"
    using reg new uniq fs ix.ins_wf [OF wf(2) na ins'] ix.mem_ins [OF wf(2) na ins']
    by (auto simp: registry_ok_def s'_eq feed_index_contains_def)
  moreover have "subs_ok (s\<lparr>xo_feeds := fs\<rparr>)" "prices_ok t (s\<lparr>xo_feeds := fs\<rparr>)"
    using inv fs(2) feeds_grow [of s fs] by (auto simp: xo_inv_def)
  then have "subs_ok s'" "prices_ok t s'"
    by (simp_all add: s'_eq subs_ok_def prices_ok_def feed_index_contains_def load_signer_feeds_def load_signers_def)
  ultimately show ?thesis using inv by (simp add: xo_inv_def s'_eq)
qed

section \<open>Removal of feeds\<close>

lemma clear_signer_entries_effect:
  "\<exists>sb sf. clear_signer_entries signers f s = s\<lparr>xo_submissions := sb, xo_signer_feeds := sf\<rparr> \<and>
     (\<forall>f' g. sb f' g = (if f' = f \<and> g \<in> set signers then None else xo_submissions s f' g)) \<and>
     (\<forall>g. set (unwrap_or (sf g) []) = set (load_signer_feeds g s) - (if g \<in> set signers then {f} else {}))"
proof (induction signers arbitrary: s)
  case Nil
  show ?case by (rule exI [of _ "xo_submissions s"], rule exI [of _ "xo_signer_feeds s"]) (simp add: load_signer_feeds_def)
next
  case (Cons a signers)
  let ?s1 = "remove_signer_feed a f (remove_submission f a s)"
  have s1: "?s1 = s\<lparr>xo_submissions := (xo_submissions s)(f := (xo_submissions s f)(a := None)),
      xo_signer_feeds := xo_signer_feeds ?s1\<rparr>"
    by (auto simp: remove_signer_feed_def remove_submission_def set_submission_def Let_def split: option.splits)
  have "load_signer_feeds g (remove_submission f a s) = load_signer_feeds g s" for g
    by (simp add: remove_submission_def set_submission_def load_signer_feeds_def)
  then have feeds: "set (load_signer_feeds g ?s1) = set (load_signer_feeds g s) - (if g = a then {f} else {})" for g
    by auto
  from Cons.IH [of ?s1] obtain sb sf' where
    c: "clear_signer_entries signers f ?s1 = ?s1\<lparr>xo_submissions := sb, xo_signer_feeds := sf'\<rparr>"
    and sb: "\<forall>f' g. sb f' g = (if f' = f \<and> g \<in> set signers then None else xo_submissions ?s1 f' g)"
    and sf': "\<forall>g. set (unwrap_or (sf' g) []) = set (load_signer_feeds g ?s1) - (if g \<in> set signers then {f} else {})"
    by blast
  have "clear_signer_entries (a # signers) f s = s\<lparr>xo_submissions := sb, xo_signer_feeds := sf'\<rparr>"
    using c by (subst (asm) (2) s1) simp
  moreover have "xo_submissions ?s1 = (xo_submissions s)(f := (xo_submissions s f)(a := None))"
    by (subst s1) simp
  then have "\<forall>f' g. sb f' g = (if f' = f \<and> g \<in> set (a # signers) then None else xo_submissions s f' g)"
    using sb by auto
  moreover have "\<forall>g. set (unwrap_or (sf' g) []) = set (load_signer_feeds g s) - (if g \<in> set (a # signers) then {f} else {})"
    using sf' feeds by auto
  ultimately show ?case by blast
qed

lemma clear_feed_state_effect:
  assumes run: "clear_feed_state f s = Inr (u, s')" and wf: "index_wf (xo_feeds s)"
  shows "\<exists>sb sf fs. s' = s\<lparr>xo_submissions := sb, xo_signer_feeds := sf, xo_feeds := fs,
        xo_aggregates := (xo_aggregates s)(f := None), xo_histories := (xo_histories s)(f := None),
        xo_feed_owner := (xo_feed_owner s)(f := None)\<rparr> \<and>
     (\<forall>f' g. sb f' g = (if f' = f \<and> g \<in> set (load_signers s) then None else xo_submissions s f' g)) \<and>
     (\<forall>g. set (unwrap_or (sf g) []) = set (load_signer_feeds g s) - (if g \<in> set (load_signers s) then {f} else {})) \<and>
     index_wf fs \<and> (\<forall>y. index_contains fs y \<longleftrightarrow> y \<noteq> f \<and> index_contains (xo_feeds s) y)"
proof -
  let ?s0 = "remove_history f (remove_aggregate f s)"
  from clear_signer_entries_effect [of "load_signers s" f ?s0] obtain sb sf where
    c: "clear_signer_entries (load_signers s) f ?s0 = ?s0\<lparr>xo_submissions := sb, xo_signer_feeds := sf\<rparr>"
    and sb: "\<forall>f' g. sb f' g = (if f' = f \<and> g \<in> set (load_signers s) then None else xo_submissions s f' g)"
    and sf: "\<forall>g. set (unwrap_or (sf g) []) = set (load_signer_feeds g s) - (if g \<in> set (load_signers s) then {f} else {})"
    by (auto simp: remove_history_def remove_aggregate_def load_signer_feeds_def)
  have "load_signers ?s0 = load_signers s" by (simp add: load_signers_def remove_history_def remove_aggregate_def)
  then obtain fs where "index_remove f (xo_feeds s) = Inr fs" and
    "s' = ?s0\<lparr>xo_submissions := sb, xo_signer_feeds := sf, xo_feed_owner := (xo_feed_owner s)(f := None), xo_feeds := fs\<rparr>"
    using run c by (auto simp: clear_feed_state_def xo_iff feed_index_remove_def remove_history_def remove_aggregate_def)
  then show ?thesis
    using sb sf ix.del_wf [OF wf] ix.mem_del [OF wf]
    by (intro exI [of _ sb] exI [of _ sf] exI [of _ fs]) (simp add: remove_history_def remove_aggregate_def)
qed

lemma clear_feed_state_parts:
  assumes run: "clear_feed_state f s = Inr (u, s')" and inv: "config_ok s" "index_wf (xo_feeds s)" "subs_ok s" "prices_ok t s"
  shows "config_ok s'" and "subs_ok s'" and "prices_ok t s'"
proof -
  from clear_feed_state_effect [OF run inv(2)] obtain sb sf fs where s': "s' = s\<lparr>xo_submissions := sb, xo_signer_feeds := sf,
      xo_feeds := fs, xo_aggregates := (xo_aggregates s)(f := None), xo_histories := (xo_histories s)(f := None),
      xo_feed_owner := (xo_feed_owner s)(f := None)\<rparr>"
    and sb: "\<forall>f' g. sb f' g = (if f' = f \<and> g \<in> set (load_signers s) then None else xo_submissions s f' g)"
    and sf: "\<forall>g. set (unwrap_or (sf g) []) = set (load_signer_feeds g s) - (if g \<in> set (load_signers s) then {f} else {})"
    and fs: "index_wf fs" "\<forall>y. index_contains fs y \<longleftrightarrow> y \<noteq> f \<and> index_contains (xo_feeds s) y"
    by (elim exE conjE) (rule that)
  show "config_ok s'" using inv(1) by (simp add: s')
  have known: "feed_index_contains y s' \<longleftrightarrow> y \<noteq> f \<and> feed_index_contains y s" for y
    using fs by (simp add: s' feed_index_contains_def)
  have hist: "xo_histories s' y = (if y = f then None else xo_histories s y)"
    and agg: "xo_aggregates s' y = (if y = f then None else xo_aggregates s y)"
    and subs: "xo_submissions s' = sb" and signers: "load_signers s' = load_signers s" for y
    by (simp_all add: s' load_signers_def)
  show "prices_ok t s'" using inv(4) unfolding prices_ok_def known hist agg by (simp split: if_splits)
  have old: "\<And>f g sub. xo_submissions s f g = Some sub \<Longrightarrow> f \<in> set (load_signer_feeds g s) \<and> price_ok (sub_price sub)"
    "\<And>f g. f \<in> set (load_signer_feeds g s) \<Longrightarrow> g \<in> set (load_signers s) \<and> index_contains (xo_feeds s) f"
    using inv(3) by (auto simp: subs_ok_def feed_index_contains_def)
  have feeds: "set (load_signer_feeds g s') = set (load_signer_feeds g s) - (if g \<in> set (load_signers s) then {f} else {})" for g
    using sf by (simp add: s' load_signer_feeds_def)
  have "f' \<in> set (load_signer_feeds g s') \<and> price_ok (sub_price sub)" if "sb f' g = Some sub" for f' g sub
    using that old(1) [of f' g sub] old(2) [of f' g] by (auto simp: feeds sb split: if_splits)
  moreover have "g \<in> set (load_signers s) \<and> f' \<noteq> f \<and> feed_index_contains f' s" if "f' \<in> set (load_signer_feeds g s')" for f' g
    using that old(2) [of f' g] by (auto simp: feeds feed_index_contains_def)
  ultimately show "subs_ok s'" unfolding subs_ok_def subs signers known by blast
qed

lemma clear_asset_and_feed_inv:
  assumes run: "clear_asset_and_feed a f s = Inr (u, s')" and inv: "xo_inv t s" and own: "xo_feed_owner s f = Some a"
  shows "xo_inv t s'"
proof -
  have reg: "registry_ok s" using inv by (simp add: xo_inv_def)
  from run obtain as where del: "index_remove a (xo_assets s) = Inr as"
    and cl: "clear_feed_state f (s\<lparr>xo_feed_mapping := (xo_feed_mapping s)(a := None), xo_assets := as\<rparr>) = Inr (u, s')"
    (is "clear_feed_state f ?s1 = _")
    by (auto simp: clear_asset_and_feed_def xo_iff remove_feed_mapping_def asset_index_remove_def)
  have wf: "index_wf (xo_assets s)" "index_wf (xo_feeds ?s1)" using reg by (simp_all add: registry_ok_def)
  have "config_ok s'" "subs_ok s'" "prices_ok t s'"
    using clear_feed_state_parts [OF cl, of t] inv wf(2) by (simp_all add: xo_inv_def)
  moreover have "xo_feed_mapping s x = Some f \<longleftrightarrow> x = a" "xo_feed_owner s y = Some a \<longleftrightarrow> y = f" for x y
    using reg own unfolding registry_ok_def by (metis option.inject)+
  then have "registry_ok s'"
    using clear_feed_state_effect [OF cl wf(2)] reg ix.del_wf [OF wf(1) del] ix.mem_del [OF wf(1) del]
    by (auto simp: registry_ok_def feed_index_contains_def split: if_splits)
  ultimately show ?thesis by (simp add: xo_inv_def)
qed

lemma remove_feed_inv:
  assumes "remove_feed env a s = Inr (u, s')" and inv: "xo_inv t s"
  shows "xo_inv t s'"
proof -
  obtain f where "xo_feed_mapping s a = Some f" and run: "clear_asset_and_feed a f s = Inr (u, s')"
    using assms(1) by (auto simp: remove_feed_def xo_iff load_feed_id_def split: option.splits)
  then have "xo_feed_owner s f = Some a" using inv by (simp add: xo_inv_def registry_ok_def)
  with run inv show ?thesis by (rule clear_asset_and_feed_inv)
qed

lemma purge_feed_inv:
  assumes "purge_feed env f s = Inr (u, s')" and inv: "xo_inv t s"
  shows "xo_inv t s'"
proof (cases "xo_feed_owner s f")
  case None
  then have run: "clear_feed_state f s = Inr (u, s')"
    using assms(1) by (auto simp: purge_feed_def xo_iff load_feed_owner_def)
  have reg: "registry_ok s" and wf: "index_wf (xo_feeds s)" using inv by (simp_all add: xo_inv_def registry_ok_def)
  have "config_ok s'" "subs_ok s'" "prices_ok t s'"
    using clear_feed_state_parts [OF run, of t] inv wf by (simp_all add: xo_inv_def)
  moreover have "registry_ok s'"
    using clear_feed_state_effect [OF run wf] reg None
    by (auto simp: registry_ok_def feed_index_contains_def split: if_splits)
  ultimately show ?thesis by (simp add: xo_inv_def)
next
  case (Some a)
  then have "clear_asset_and_feed a f s = Inr (u, s')"
    using assms(1) by (auto simp: purge_feed_def xo_iff load_feed_owner_def)
  then show ?thesis using inv Some by (rule clear_asset_and_feed_inv)
qed

section \<open>Recomputation and removal of signers\<close>

lemma recompute_feeds_inv:
  assumes run: "recompute_feeds env fs s = Inr (u, s')" and inv: "xo_inv t s" and t: "t \<le> xe_now env"
  shows "xo_inv (xe_now env) s'"
proof -
  from run obtain s1 where chk: "ffold (\<lambda>f _. require_known_feed f) fs () s = Inr ((), s1)"
    and loop: "ffold (\<lambda>f _. recompute_aggregate env f Clear) fs () s1 = Inr (u, s')"
    by (auto simp: recompute_feeds_def xo_iff)
  have s1: "s1 = s \<and> (\<forall>f \<in> set fs. feed_index_contains f s)"
    using chk by (rule ffold_check) (auto simp: xo_iff)
  let ?P = "\<lambda>(_ :: unit) x. xo_inv (xe_now env) x \<and> xo_feeds x = xo_feeds s"
  have "?P u s'"
  proof (rule ffold_invariant [OF loop])
    show "?P () s1" using s1 inv prices_ok_later [OF _ t] by (auto simp: xo_inv_def)
  next
    fix f v x a x'
    assume f: "f \<in> set fs" and P: "?P v x" and r: "recompute_aggregate env f Clear x = Inr (a, x')"
    have "feed_index_contains f x" using s1 f P by (simp add: feed_index_contains_def)
    then show "?P a x'" using recompute_inv [OF r, of "xe_now env"] P by simp
  qed
  then show ?thesis by simp
qed

lemma remove_loop_effect:
  assumes "ffold (\<lambda>f _. fbind (fwrite (remove_submission f g)) (\<lambda>_. recompute_aggregate env f Clear)) feeds () s = Inr (u, s')"
  shows "\<exists>ag hs. s' = s\<lparr>xo_submissions := (\<lambda>f a. if f \<in> set feeds \<and> a = g then None else xo_submissions s f a),
                        xo_aggregates := ag, xo_histories := hs\<rparr>"
  using assms
proof (induction feeds arbitrary: s)
  case Nil
  then have "s' = s\<lparr>xo_submissions := (\<lambda>f a. if f \<in> set [] \<and> a = g then None else xo_submissions s f a),
      xo_aggregates := xo_aggregates s, xo_histories := xo_histories s\<rparr>"
    by (simp add: flow_iff)
  then show ?case by blast
next
  case (Cons f feeds)
  let ?r = "remove_submission f g s"
  obtain s1 where r: "recompute_aggregate env f Clear ?r = Inr ((), s1)"
    and rest: "ffold (\<lambda>f _. fbind (fwrite (remove_submission f g)) (\<lambda>_. recompute_aggregate env f Clear)) feeds () s1 = Inr (u, s')"
    using Cons.prems by (auto simp: flow_iff)
  obtain ag hs where s1: "s1 = ?r\<lparr>xo_aggregates := ag, xo_histories := hs\<rparr>" using recompute_frame [OF r] by blast
  have sub: "xo_submissions s1 = (\<lambda>f' a. if f' = f \<and> a = g then None else xo_submissions s f' a)"
    by (auto simp: s1 remove_submission_def set_submission_def fun_eq_iff)
  obtain ag' hs' where s': "s' = s1\<lparr>xo_submissions := (\<lambda>f a. if f \<in> set feeds \<and> a = g then None else xo_submissions s1 f a),
      xo_aggregates := ag', xo_histories := hs'\<rparr>" using Cons.IH [OF rest] by blast
  have "(\<lambda>f' a. if f' \<in> set feeds \<and> a = g then None else xo_submissions s1 f' a) =
      (\<lambda>f' a. if f' \<in> set (f # feeds) \<and> a = g then None else xo_submissions s f' a)"
    by (auto simp: sub fun_eq_iff)
  then show ?case using s' by (auto simp: s1 remove_submission_def set_submission_def)
qed

lemma remove_loop_prices:
  assumes run: "ffold (\<lambda>f _. fbind (fwrite (remove_submission f g)) (\<lambda>_. recompute_aggregate env f Clear)) feeds () s = Inr (u, s')"
    and "subs_priced s" and "prices_ok (xe_now env) s" and known: "\<And>f. f \<in> set feeds \<Longrightarrow> feed_index_contains f s"
  shows "prices_ok (xe_now env) s'"
proof -
  let ?P = "\<lambda>(_ :: unit) x. prices_ok (xe_now env) x \<and> subs_priced x \<and> xo_feeds x = xo_feeds s"
  have "?P u s'"
  proof (rule ffold_invariant [OF run])
    show "?P () s" using assms by simp
  next
    fix f v x a x'
    assume f: "f \<in> set feeds" and P: "?P v x"
      and step: "fbind (fwrite (remove_submission f g)) (\<lambda>_. recompute_aggregate env f Clear) x = Inr (a, x')"
    let ?y = "remove_submission f g x"
    have r: "recompute_aggregate env f Clear ?y = Inr (a, x')" using step by (simp add: flow_iff)
    have y: "prices_ok (xe_now env) ?y" "subs_priced ?y" "feed_index_contains f ?y"
      using P known [OF f]
      by (auto simp: remove_submission_def set_submission_def subs_priced_def feed_index_contains_def split: if_splits)
    have "prices_ok (xe_now env) x'" using recompute_prices [OF r y(2,3,1)] by simp
    moreover obtain ag hs where "x' = ?y\<lparr>xo_aggregates := ag, xo_histories := hs\<rparr>" using recompute_frame [OF r] by blast
    ultimately show "?P a x'"
      using P y(2) by (simp add: subs_priced_def remove_submission_def set_submission_def)
  qed
  then show ?thesis by simp
qed

lemma remove_signer_inv:
  assumes run: "remove_signer env g s = Inr (u, s')" and inv: "xo_inv t s" and t: "t \<le> xe_now env"
  shows "xo_inv (xe_now env) s'"
proof -
  let ?s1 = "store_signers (remove1 g (load_signers s)) s" and ?feeds = "load_signer_feeds g s"
  have sbeq: "xo_submissions ?s1 = xo_submissions s" by (simp add: store_signers_def)
  have feq: "load_signer_feeds g ?s1 = ?feeds" by (simp add: load_signer_feeds_def store_signers_def)
  from run obtain s2 where mem: "g \<in> set (load_signers s)" and thr: "load_threshold s \<le> length (load_signers s) - 1"
    and loop: "ffold (\<lambda>f _. fbind (fwrite (remove_submission f g)) (\<lambda>_. recompute_aggregate env f Clear)) ?feeds () ?s1 = Inr ((), s2)"
    and s': "s' = clear_signer_feeds g s2"
    by (auto simp: remove_signer_def xo_iff feq not_less)
  have parts: "config_ok s" "registry_ok s" "subs_ok s" "prices_ok (xe_now env) s"
    using inv prices_ok_later [OF _ t] by (auto simp: xo_inv_def)
  have sg: "load_signers ?s1 = remove1 g (load_signers s)" by (simp add: load_signers_def store_signers_def)
  have dist: "distinct (load_signers s)" using parts(1) by (simp add: config_ok_def)
  have "config_ok ?s1"
    using parts(1) thr mem by (auto simp: config_ok_def sg length_remove1) (simp_all add: load_defs store_signers_def)
  moreover have "subs_priced ?s1" "prices_ok (xe_now env) ?s1" "\<And>f. f \<in> set ?feeds \<Longrightarrow> feed_index_contains f ?s1"
    using subs_ok_priced [OF parts(3)] parts(3,4)
    by (auto simp: subs_priced_def store_signers_def feed_index_contains_def subs_ok_def)
  then have "prices_ok (xe_now env) s2" by (rule remove_loop_prices [OF loop])
  moreover obtain ag hs where s2: "s2 = ?s1\<lparr>xo_submissions := (\<lambda>f a. if f \<in> set ?feeds \<and> a = g then None else xo_submissions s f a),
      xo_aggregates := ag, xo_histories := hs\<rparr>"
    using remove_loop_effect [OF loop] unfolding sbeq by blast
  have old: "\<And>f a sub. xo_submissions s f a = Some sub \<Longrightarrow> f \<in> set (load_signer_feeds a s) \<and> price_ok (sub_price sub)"
    "\<And>f a. f \<in> set (load_signer_feeds a s) \<Longrightarrow> a \<in> set (load_signers s) \<and> index_contains (xo_feeds s) f"
    using parts(3) by (auto simp: subs_ok_def feed_index_contains_def)
  have fds: "load_signer_feeds a s' = (if a = g then [] else load_signer_feeds a s)" for a
    by (simp add: s' s2 clear_signer_feeds_def load_signer_feeds_def store_signers_def)
  have subs: "xo_submissions s' f a = Some sub \<Longrightarrow> a \<noteq> g \<and> xo_submissions s f a = Some sub" for f a sub
    using old(1) [of f a sub] by (auto simp: s' s2 clear_signer_feeds_def store_signers_def split: if_splits)
  have "set (load_signers s') = set (load_signers s) - {g}" "xo_feeds s' = xo_feeds s"
    using dist by (simp_all add: s' s2 clear_signer_feeds_def store_signers_def load_signers_def)
  then have "subs_ok s'"
    using old(2) old(1) [OF conjunct2 [OF subs]] conjunct1 [OF subs]
    unfolding subs_ok_def fds feed_index_contains_def by auto
  moreover have "registry_ok s'" using parts(2) by (simp add: s' s2 clear_signer_feeds_def store_signers_def)
  ultimately show ?thesis by (simp add: xo_inv_def s' s2 clear_signer_feeds_def store_signers_def)
qed

section \<open>Every reachable state\<close>

lemma has_duplicate_iff: "has_duplicate xs \<longleftrightarrow> \<not> distinct xs"
  by (induction xs) auto

lemma empty_index_props: "index_wf empty_index" "\<not> index_contains empty_index x"
  using index_rep_contains [OF index_rep_empty, of x] by (simp_all add: index_repI [OF index_rep_empty])

lemma constructor_inv:
  assumes "xo_constructor admin signers threshold resolution (empty_xoxno code) = Inr (u, s)"
  shows "xo_inv t s"
  using assms
  by (auto simp: xo_constructor_def flow_iff has_duplicate_iff store_defs empty_xoxno_def xo_inv_def config_ok_def
      registry_ok_def subs_ok_def prices_ok_def load_defs xo_default_defs load_signer_feeds_def BPS_def empty_index_props)

lemma xo_dispatch_inv:
  assumes run: "xo_dispatch env cl s = Inr (u, s')" and inv: "xo_inv t s" and t: "t \<le> xe_now env"
  shows "xo_inv (xe_now env) s'"
proof -
  have later: "xo_inv t x \<Longrightarrow> xo_inv (xe_now env) x" for x
    using prices_ok_later [OF _ t] by (auto simp: xo_inv_def)
  show ?thesis
    using run
  proof (cases cl)
    case (Xo_Remove_Signer g) then show ?thesis using run inv t by (auto intro: remove_signer_inv)
  next
    case (Xo_Recompute_Feeds fs) then show ?thesis using run inv t by (auto intro: recompute_feeds_inv)
  next
    case (Xo_Register_Feed f) then show ?thesis using run inv by (auto intro: later register_feed_inv)
  next
    case (Xo_Add_Feed f a) then show ?thesis using run inv by (auto intro: later add_feed_inv)
  next
    case (Xo_Remove_Feed a) then show ?thesis using run inv by (auto intro: later remove_feed_inv)
  next
    case (Xo_Purge_Feed f) then show ?thesis using run inv by (auto intro: later purge_feed_inv)
  next
    case (Xo_Submit_Price g f p ts) then show ?thesis using run inv t by (auto intro: submit_price_inv)
  next
    case (Xo_Submit_Prices g fs ps ts) then show ?thesis using run inv t by (auto intro: submit_prices_inv)
  qed (rule later, rule config_calls_inv [OF inv run], simp)+
qed

lemma xo_reachable_inv: "xo_reachable t s \<Longrightarrow> xo_inv t s"
proof (induction rule: xo_reachable.induct)
  case (xo_init admin signers threshold resolution code u s t)
  then show ?case by (rule constructor_inv)
next
  case (xo_call t s env cl u s')
  then show ?case using xo_dispatch_inv by blast
next
  case (xo_owner_change t s new_owner)
  then show ?case by (simp add: xo_inv_def)
qed

end
