(* ===== verification/Xoxno_Properties.thy ===== *)
theory Xoxno_Properties
  imports Xoxno_Invariant
begin

text \<open>
  The properties of the price oracle, with a small deployment (three signers, threshold two, one feed)
  on which they are applied: \<open>xo_lab0\<close> after construction, \<open>xo_lab1\<close> after registering the feed,
  \<open>xo_lab2\<close> and \<open>xo_lab3\<close> after the submissions of the first and the second signer, \<open>xo_lab4\<close> after
  mapping an asset to the feed.
\<close>

section \<open>A small deployment\<close>

definition lab_env :: xo_env where
  "lab_env = \<lparr>xe_now = 1000, xe_auth = (\<lambda>_. True)\<rparr>"

definition lab_feed :: string where
  "lab_feed = ''XLM''"

definition lab_sub :: "int \<Rightarrow> signer_submission" where
  "lab_sub p = \<lparr>sub_price = p, sub_package_timestamp = 999000\<rparr>"

definition lab_data :: redstone_price_data where
  "lab_data = \<lparr>rs_price = 100, rs_package_timestamp = 999000, rs_write_timestamp = 1000000\<rparr>"

definition xo_lab0 :: xoxno where
  "xo_lab0 = (empty_xoxno [])\<lparr>xo_owner := Some 9, xo_signers := Some [1, 2, 3], xo_threshold := Some 2,
     xo_max_stale_seconds := Some 86400, xo_max_submission_age := Some 900, xo_max_relative_skew := Some 900,
     xo_resolution := Some 60\<rparr>"

definition xo_lab1 :: xoxno where
  "xo_lab1 = xo_lab0\<lparr>xo_feeds := \<lparr>ix_count = Some 1, ix_at = [0 \<mapsto> lab_feed], ix_index = [lab_feed \<mapsto> 0]\<rparr>\<rparr>"

definition xo_lab2 :: xoxno where
  "xo_lab2 = xo_lab1\<lparr>xo_signer_feeds := [1 \<mapsto> [lab_feed]],
     xo_submissions := (\<lambda>_. Map.empty)(lab_feed := [1 \<mapsto> lab_sub 100])\<rparr>"

definition xo_lab3 :: xoxno where
  "xo_lab3 = xo_lab2\<lparr>xo_signer_feeds := [1 \<mapsto> [lab_feed], 2 \<mapsto> [lab_feed]],
     xo_submissions := (\<lambda>_. Map.empty)(lab_feed := [1 \<mapsto> lab_sub 100, 2 \<mapsto> lab_sub 101]),
     xo_aggregates := [lab_feed \<mapsto> lab_data], xo_histories := [lab_feed \<mapsto> [lab_data]]\<rparr>"

definition lab_asset :: reflector_asset where
  "lab_asset = Other ''XLM''"

definition xo_lab4 :: xoxno where
  "xo_lab4 = xo_lab3\<lparr>xo_feed_mapping := [lab_asset \<mapsto> lab_feed], xo_feed_owner := [lab_feed \<mapsto> lab_asset],
     xo_assets := \<lparr>ix_count = Some 1, ix_at = [0 \<mapsto> lab_asset], ix_index = [lab_asset \<mapsto> 0]\<rparr>\<rparr>"

lemmas lab_defs = lab_env_def lab_sub_def lab_data_def xo_lab0_def xo_lab1_def xo_lab2_def xo_lab3_def xo_lab4_def
  empty_xoxno_def empty_index_def

lemmas flow_defs = fbind_def fret_def fassert_def flift_def fread_def fwrite_def xo_require_auth_def
  require_registered_signer_def require_known_feed_def validate_price_def require_not_future_def
  require_fresh_submission_def require_monotonic_package_def feed_index_contains_def index_contains_def
  load_submission_def MS_PER_SECOND_def xo_default_defs u64_saturating_add_def u64_max_def MAX_SUBMITTED_PRICE_def

lemma lab_construct: "xo_constructor 9 [1, 2, 3] 2 60 (empty_xoxno []) = Inr ((), xo_lab0)"
  by (simp add: xo_constructor_def flow_defs store_defs lab_defs)

lemma lab_register: "xo_dispatch lab_env (Xo_Register_Feed lab_feed) xo_lab0 = Inr ((), xo_lab1)"
  by (simp add: register_feed_def xo_only_owner_def ensure_known_feed_def renew_known_feed_def feed_index_insert_def
      index_insert_def index_count_def flow_defs lab_defs u32_max_def)

lemma lab_submit1: "xo_dispatch lab_env (Xo_Submit_Price 1 lab_feed 100 999000) xo_lab1 = Inr ((), xo_lab2)"
proof -
  have st: "store_submission lab_feed 1 100 999000 xo_lab1 = xo_lab2"
    by (simp add: store_submission_def store_submission_record_def set_submission_def record_signer_feed_def lab_defs)
  have "\<not> quorum_reached lab_env lab_feed xo_lab2"
    by (simp add: quorum_reached_def cluster_members_def fresh_member_def submitted_def load_defs flow_defs lab_defs)
  then have "recompute_aggregate lab_env lab_feed Retain xo_lab2 = Inr ((), xo_lab2)"
    by (simp add: recompute_aggregate_eq apply_quorum_miss_def)
  with st show ?thesis
    by (simp add: submit_price_def flow_defs load_defs) (simp add: lab_defs load_defs flow_defs)
qed

lemma lab_cluster: "cluster_members lab_env lab_feed (store_submission lab_feed 2 101 999000 xo_lab2) = [1, 2]"
  by (simp add: store_submission_def store_submission_record_def set_submission_def record_signer_feed_def
      cluster_members_def fresh_member_def submitted_def load_defs flow_defs lab_defs u64_saturating_mul_def)

lemma lab_submit2: "xo_dispatch lab_env (Xo_Submit_Price 2 lab_feed 101 999000) xo_lab2 = Inr ((), xo_lab3)"
proof -
  let ?s = "store_submission lab_feed 2 101 999000 xo_lab2"
  have reads: "submitted lab_feed ?s 1 = lab_sub 100" "submitted lab_feed ?s 2 = lab_sub 101"
    "load_signers ?s = [1, 2, 3]" "load_threshold ?s = 2" "load_max_cluster_spread_bps ?s = 200"
    by (simp_all add: store_submission_def store_submission_record_def set_submission_def record_signer_feed_def
        submitted_def load_defs flow_defs lab_defs)
  have prices: "member_prices lab_env lab_feed ?s = [100, 101]" and old: "oldest_member lab_env lab_feed ?s = 999000"
    by (simp_all add: member_prices_def oldest_member_def lab_cluster reads reads(1) [simplified] lab_sub_def u64_max_def)
  have q: "quorum_reached lab_env lab_feed ?s"
    by (simp add: quorum_reached_def lab_cluster prices reads within_spread_def BPS_def i128_checked_mul_def
        to_i128_opt_def in_i128_iff i128_bounds)
  have now: "xe_now lab_env = 1000" by (simp add: lab_env_def)
  have m: "median_of [100, 101] = Inr 100"
    by (simp add: median_of_sort)
  have "push_history lab_feed lab_data (store_aggregate lab_feed lab_data ?s) = xo_lab3"
    by (simp add: push_history_eq history_pushed_def store_aggregate_def store_submission_def store_submission_record_def
        set_submission_def record_signer_feed_def lab_defs MAX_HISTORY_LEN_def MAX_TWAP_RECORDS_def)
  then have "recompute_aggregate lab_env lab_feed Retain ?s = Inr ((), xo_lab3)"
    using q by (simp add: recompute_aggregate_eq prices m old u64_native_def u64_max_def now MS_PER_SECOND_def
        flip: lab_data_def)
  then show ?thesis
    by (simp add: submit_price_def flow_defs load_defs) (simp add: lab_defs load_defs flow_defs)
qed

lemma lab_add_feed: "xo_dispatch lab_env (Xo_Add_Feed lab_feed lab_asset) xo_lab3 = Inr ((), xo_lab4)"
  by (simp add: add_feed_def xo_only_owner_def has_feed_mapping_def load_feed_owner_def map_feed_def ensure_known_feed_def
      renew_known_feed_def asset_index_insert_def index_insert_def index_count_def flow_defs lab_defs u32_max_def)

lemma lab_reachable: "xo_reachable 1000 xo_lab2" "xo_reachable 1000 xo_lab3" "xo_reachable 1000 xo_lab4"
proof -
  have now: "xe_now lab_env = 1000" by (simp add: lab_env_def)
  have "xo_reachable 1000 xo_lab0" using lab_construct by (rule xo_init)
  then have "xo_reachable 1000 xo_lab1" using xo_call [OF _ _ lab_register, of 1000] now by simp
  then show "xo_reachable 1000 xo_lab2" using xo_call [OF _ _ lab_submit1, of 1000] now by simp
  then show "xo_reachable 1000 xo_lab3" using xo_call [OF _ _ lab_submit2, of 1000] now by simp
  then show "xo_reachable 1000 xo_lab4" using xo_call [OF _ _ lab_add_feed, of 1000] now by simp
qed

section \<open>Invariant\<close>

text \<open>
  C10. In every reachable state of the oracle the signers are distinct and at least the threshold, which
  is positive; the maximum age of a submission is at least its minimum and at most the staleness bound, the relative skew
  lies above the tolerated future skew and within that maximum age, and the cluster spread is positive and at most one hundred percent; the asset and
  feed registries are well formed and the mapping between them is one to one; a submission belongs to
  a registered signer and a known feed and has a price in range; a history has at most twelve entries
  ordered by write time, none written after the present, with prices in range; and a published aggregate is the newest entry of its
  history.
\<close>

theorem oracle_state_sound:
  assumes "xo_reachable t s"
  shows "distinct (load_signers s) \<and> 0 < load_threshold s \<and> load_threshold s \<le> length (load_signers s) \<and>
    MIN_SUBMISSION_AGE_SECONDS \<le> load_max_submission_age s \<and> load_max_submission_age s \<le> load_max_stale_seconds s \<and>
    MAX_FUTURE_SKEW_SECONDS < load_max_relative_skew s \<and> load_max_relative_skew s \<le> load_max_submission_age s \<and>
    0 < load_max_cluster_spread_bps s \<and> int (load_max_cluster_spread_bps s) \<le> BPS \<and>
    distinct (load_all_feeds s) \<and> set (load_all_assets s) = dom (xo_feed_mapping s) \<and>
    (\<forall>ra f. xo_feed_mapping s ra = Some f \<longleftrightarrow> xo_feed_owner s f = Some ra) \<and>
    ran (xo_feed_mapping s) \<subseteq> set (load_all_feeds s) \<and>
    (\<forall>f g sub. xo_submissions s f g = Some sub \<longrightarrow>
       g \<in> set (load_signers s) \<and> f \<in> set (load_all_feeds s) \<and> 0 < sub_price sub \<and> sub_price sub \<le> MAX_SUBMITTED_PRICE) \<and>
    (\<forall>f h. xo_histories s f = Some h \<longrightarrow> h \<noteq> [] \<and> length h \<le> MAX_HISTORY_LEN \<and> sorted (map rs_write_timestamp h) \<and>
       (\<forall>d \<in> set h. 0 < rs_price d \<and> rs_price d \<le> MAX_SUBMITTED_PRICE \<and> rs_write_timestamp d \<le> t * MS_PER_SECOND)) \<and>
    (\<forall>f d. xo_aggregates s f = Some d \<longrightarrow> 0 < rs_price d \<and> rs_price d \<le> MAX_SUBMITTED_PRICE \<and>
       (\<exists>h. xo_histories s f = Some h \<and> last h = d))"
proof -
  have inv: "config_ok s" "registry_ok s" "subs_ok s" "prices_ok t s"
    using xo_reachable_inv [OF assms] by (simp_all add: xo_inv_def)
  have feeds: "distinct (load_all_feeds s)" "f \<in> set (load_all_feeds s) \<longleftrightarrow> feed_index_contains f s" for f
    using inv(2) ix.members_law by (auto simp: registry_ok_def load_all_feeds_def feed_index_contains_def)
  have assets: "set (load_all_assets s) = dom (xo_feed_mapping s)"
    using inv(2) ix.members_law [of "xo_assets s"] by (auto simp: registry_ok_def load_all_assets_def)
  have agg: "\<exists>h. xo_histories s f = Some h \<and> last h = d \<and> price_ok (rs_price d)" if "xo_aggregates s f = Some d" for f d
    using that inv(4) unfolding prices_ok_def by (metis last_in_set)
  show ?thesis
    using inv(1) feeds assets
  proof (intro conjI)
    show "ran (xo_feed_mapping s) \<subseteq> set (load_all_feeds s)"
      using inv(2) by (auto simp: feeds ran_def registry_ok_def)
    show "\<forall>ra f. xo_feed_mapping s ra = Some f \<longleftrightarrow> xo_feed_owner s f = Some ra"
      using inv(2) by (simp add: registry_ok_def)
    show "\<forall>f g sub. xo_submissions s f g = Some sub \<longrightarrow>
       g \<in> set (load_signers s) \<and> f \<in> set (load_all_feeds s) \<and> 0 < sub_price sub \<and> sub_price sub \<le> MAX_SUBMITTED_PRICE"
      using inv(3) unfolding feeds(2) subs_ok_def price_ok_def by blast
    show "\<forall>f h. xo_histories s f = Some h \<longrightarrow> h \<noteq> [] \<and> length h \<le> MAX_HISTORY_LEN \<and> sorted (map rs_write_timestamp h) \<and>
       (\<forall>d \<in> set h. 0 < rs_price d \<and> rs_price d \<le> MAX_SUBMITTED_PRICE \<and> rs_write_timestamp d \<le> t * MS_PER_SECOND)"
      using inv(4) unfolding prices_ok_def price_ok_def by blast
    show "load_max_relative_skew s \<le> load_max_submission_age s" by (simp add: load_max_relative_skew_def Let_def)
    show "\<forall>f d. xo_aggregates s f = Some d \<longrightarrow> 0 < rs_price d \<and> rs_price d \<le> MAX_SUBMITTED_PRICE \<and>
       (\<exists>h. xo_histories s f = Some h \<and> last h = d)"
      using agg unfolding price_ok_def by blast
  qed (simp_all add: config_ok_def)
qed

theorem oracle_state_sound_witness:
  "distinct (load_signers xo_lab3) \<and> ran (xo_feed_mapping xo_lab3) \<subseteq> set (load_all_feeds xo_lab3)"
  using oracle_state_sound [OF lab_reachable(2)] by blast

section \<open>Resistance to faulty signers\<close>

lemma spread_free_bound:
  assumes "length signers < 2 ^ 31" and "spread_free_cluster (length signers) threshold \<le> n"
  shows "2 * (length signers - threshold) + 1 \<le> n"
  using assms by (auto simp: spread_free_cluster_def u32_max_def min_def split: if_splits)

lemma within_spread_bounds:
  assumes "within_spread (fold min ps i128_max) (fold max ps i128_min) spread" and "x \<in> set ps" and "y \<in> set ps"
  shows "y * BPS \<le> x * (BPS + int spread)"
proof -
  have "fold max ps i128_min * BPS \<le> fold min ps i128_max * (BPS + int spread)"
    using assms(1) by (auto simp: within_spread_def Let_def i128_checked_mul_def to_i128_opt_def split: if_splits)
  moreover have "y * BPS \<le> fold max ps i128_min * BPS"
    using fold_max_ge [of i128_min ps] assms(3) by (intro mult_right_mono) (auto simp: BPS_def)
  moreover have "fold min ps i128_max * (BPS + int spread) \<le> x * (BPS + int spread)"
    using fold_min_le [of ps i128_max] assms(2) by (intro mult_right_mono) (auto simp: BPS_def)
  ultimately show ?thesis by linarith
qed

lemma quorum_price_honest:
  assumes q: "quorum_reached env f s" and m: "median_of (member_prices env f s) = Inr m"
    and c: "config_ok s" and pr: "subs_priced s" and small: "length (load_signers s) < 2 ^ 31"
    and F: "finite F" "card F \<le> length (load_signers s) - load_threshold s" "card F < load_threshold s"
  shows "\<exists>a \<in> set (cluster_members env f s) - F. \<exists>b \<in> set (cluster_members env f s) - F.
    sub_price (submitted f s a) * BPS \<le> m * (BPS + int (load_max_cluster_spread_bps s)) \<and>
    m * BPS \<le> sub_price (submitted f s b) * (BPS + int (load_max_cluster_spread_bps s))"
proof -
  let ?C = "cluster_members env f s" and ?p = "sub_price \<circ> submitted f s" and ?sp = "int (load_max_cluster_spread_bps s)"
  have ps: "member_prices env f s = map ?p ?C" by (simp add: member_prices_def)
  have dist: "distinct ?C" using c cluster_members_props(2) by (simp add: config_ok_def)
  have pos: "0 < m" using median_price_ok(1) [OF m pr] by (simp add: price_ok_def)
  have posp: "0 < ?p a" if "a \<in> set ?C" for a
    using member_stored [OF that] pr by (auto simp: subs_priced_def price_ok_def load_submission_def)
  have widen: "x * BPS \<le> y * (BPS + ?sp)" if "x \<le> y" "0 < y" for x y
  proof -
    have "x * BPS \<le> y * BPS" using that by (simp add: BPS_def)
    also have "\<dots> \<le> y * (BPS + ?sp)" using that by (simp add: mult_left_mono)
    finally show ?thesis .
  qed
  from q consider (wide) "spread_free_cluster (length (load_signers s)) (load_threshold s) \<le> length ?C"
    | (close) "within_spread (fold min (map ?p ?C) i128_max) (fold max (map ?p ?C) i128_min) (load_max_cluster_spread_bps s)"
    unfolding quorum_reached_def Let_def ps by blast
  then show ?thesis
  proof cases
    case wide
    have "2 * card F + 1 \<le> length ?C" using spread_free_bound [OF small wide] F(2) by linarith
    from median_between_honest [OF m [unfolded ps] dist F(1) this] obtain a b where
      "a \<in> set ?C - F" "b \<in> set ?C - F" "?p a \<le> m" "m \<le> ?p b" by blast
    then show ?thesis using widen pos posp by (intro bexI [of _ a] bexI [of _ b]) auto
  next
    case close
    have "card F < length (filter (\<lambda>_. True) ?C)" using q F(3) by (simp add: quorum_reached_def Let_def)
    from quorum_member_outside [OF dist F(1) this] obtain a where a: "a \<in> set ?C - F" by blast
    have "m \<in> set (map ?p ?C)" using median_in_prices [OF m] by (simp add: ps)
    then show ?thesis
      using within_spread_bounds [OF close, of m "?p a"] within_spread_bounds [OF close, of "?p a" m] a
      by (intro bexI [OF _ a] conjI) auto
  qed
qed

text \<open>
  C9. Faulty signers cannot move a published price by more than the configured spread. When a submission
  changes the aggregate of a feed, for every set of faulty signers that is smaller than the threshold and
  no larger than the number of signers beyond it, the new price is bounded below and above, up to the spread,
  by prices that signers outside the set have stored and that are fresh. This is the purpose of the
  cluster-size rule \<open>2 * (signers - threshold) + 1\<close>.
\<close>

theorem faulty_signers_bounded:
  assumes "xo_reachable t s" and "t \<le> xe_now env"
    and "xo_dispatch env (Xo_Submit_Price g f p ts) s = Inr (u, s')"
    and "xo_aggregates s' f = Some d" and "xo_aggregates s f \<noteq> Some d"
    and "length (load_signers s) < 2 ^ 31" and "finite F"
    and "card F \<le> length (load_signers s) - load_threshold s" and "card F < load_threshold s"
  shows "\<exists>a b sa sb. {a, b} \<subseteq> set (load_signers s) - F \<and>
    xo_submissions s' f a = Some sa \<and> xo_submissions s' f b = Some sb \<and>
    xe_now env - sub_package_timestamp sa div MS_PER_SECOND \<le> load_max_submission_age s \<and>
    xe_now env - sub_package_timestamp sb div MS_PER_SECOND \<le> load_max_submission_age s \<and>
    sub_price sa * BPS \<le> rs_price d * (BPS + int (load_max_cluster_spread_bps s)) \<and>
    rs_price d * BPS \<le> sub_price sb * (BPS + int (load_max_cluster_spread_bps s))"
proof -
  let ?y = "store_submission f g p ts s"
  have inv: "xo_inv t s" using assms(1) by (rule xo_reachable_inv)
  have g: "g \<in> set (load_signers s)" and f: "feed_index_contains f s" and p: "price_ok p"
    and run: "recompute_aggregate env f Retain ?y = Inr (u, s')"
    using assms(3) by (auto simp: submit_price_def xo_iff)
  note y = store_submission_inv [OF inv g f p, of ts]
  have same: "xo_aggregates ?y = xo_aggregates s" "load_threshold ?y = load_threshold s"
    "load_max_cluster_spread_bps ?y = load_max_cluster_spread_bps s" "load_max_submission_age ?y = load_max_submission_age s"
    by (simp_all add: store_submission_def store_submission_record_def set_submission_def record_signer_feed_def load_defs)
  show ?thesis
    using run
  proof (cases rule: recompute_outcome)
    case miss
    then show ?thesis using assms(4,5) same by (simp add: apply_quorum_miss_def)
  next
    case (written m d')
    have d: "d' = d" and subs: "xo_submissions s' = xo_submissions ?y"
      using assms(4) by (auto simp: written(4) push_history_eq store_aggregate_def)
    have ok: "config_ok ?y" "subs_priced ?y" using y(1) subs_ok_priced by (auto simp: xo_inv_def)
    have price: "rs_price d = m" using median_price_ok(2) [OF written(2) ok(2)] written(3) by (simp add: d)
    from quorum_price_honest [OF written(1,2) ok _ assms(7)] assms(6,8,9) same y(3) obtain a b where
      ab: "a \<in> set (cluster_members env f ?y) - F" "b \<in> set (cluster_members env f ?y) - F" and
      bounds: "sub_price (submitted f ?y a) * BPS \<le> m * (BPS + int (load_max_cluster_spread_bps s))"
        "m * BPS \<le> sub_price (submitted f ?y b) * (BPS + int (load_max_cluster_spread_bps s))"
      by auto
    have mem: "c \<in> set (load_signers s)" "xo_submissions s' f c = Some (submitted f ?y c)"
      "xe_now env - sub_package_timestamp (submitted f ?y c) div MS_PER_SECOND \<le> load_max_submission_age s"
      if "c \<in> set (cluster_members env f ?y)" for c
      using cluster_members_props(1) [of env f ?y] cluster_members_props(3) [OF that] member_stored [OF that] that y(3) same
      by (auto simp: subs load_submission_def fresh_member_def)
    then show ?thesis using ab bounds price by (intro exI [of _ a] exI [of _ b]) auto
  qed
qed

theorem faulty_signers_bounded_witness:
  "\<exists>a b sa sb. {a, b} \<subseteq> {1, 2} \<and> xo_submissions xo_lab3 lab_feed a = Some sa \<and>
     xo_submissions xo_lab3 lab_feed b = Some sb \<and> sub_price sa * BPS \<le> 100 * (BPS + 200) \<and> 100 * BPS \<le> sub_price sb * (BPS + 200)"
proof -
  have r: "load_signers xo_lab2 = [1, 2, 3]" "load_threshold xo_lab2 = 2" "load_max_cluster_spread_bps xo_lab2 = 200"
    "xo_aggregates xo_lab3 lab_feed = Some lab_data" "xo_aggregates xo_lab2 lab_feed \<noteq> Some lab_data"
    "1000 \<le> xe_now lab_env" "rs_price lab_data = 100"
    by (simp_all add: lab_defs load_defs xo_default_defs)
  show ?thesis
    using faulty_signers_bounded [OF lab_reachable(1) r(6) lab_submit2 r(4,5), of "{3}"] r by auto
qed

section \<open>Reads and submissions\<close>

text \<open>
  The interfaces of the oracle agree. In a reachable state a feed read succeeds only with an aggregate
  no older than the staleness bound; that aggregate is what the newest-first history returns first, and an
  asset mapped to the feed reads the same price, converted without a panic.
\<close>

theorem reads_agree:
  assumes "xo_reachable t s" and "read_price_data_for_feed env f s = Inr d" and "xo_feed_mapping s ra = Some f"
  shows "xe_now env - rs_write_timestamp d div MS_PER_SECOND \<le> load_max_stale_seconds s \<and>
    read_price_history env f 1 s = Inr [d] \<and>
    lastprice env ra s = Inr (Some \<lparr>rf_price = rs_price d, rf_timestamp = rs_package_timestamp d div MS_PER_SECOND\<rparr>) \<and>
    prices_of env ra 1 s = Inr (Some [\<lparr>rf_price = rs_price d, rf_timestamp = rs_package_timestamp d div MS_PER_SECOND\<rparr>])"
proof -
  have agg: "xo_aggregates s f = Some d"
    and age: "xe_now env - rs_write_timestamp d div MS_PER_SECOND \<le> load_max_stale_seconds s"
    using assms(2) by (auto simp: read_price_data_for_feed_def load_aggregate_def flow_iff split: if_splits)
  obtain h where h: "xo_histories s f = Some h" "h \<noteq> []" "last h = d" and p: "price_ok (rs_price d)"
    using xo_reachable_inv [OF assms(1)] agg unfolding xo_inv_def prices_ok_def by (metis last_in_set)
  have hist: "read_price_history env f 1 s = Inr [d]"
    using assms(2) h by (cases h rule: rev_cases)
      (auto simp: read_price_history_def load_history_def min_def nth_append)
  have conv: "to_reflector_price_data d = Inr \<lparr>rf_price = rs_price d, rf_timestamp = rs_package_timestamp d div MS_PER_SECOND\<rparr>"
    using p by (simp add: to_reflector_price_data_def u256_to_i128_def try_u256_to_i128_def millis_to_seconds_def
        price_ok_def MAX_SUBMITTED_PRICE_def i128_bounds)
  show ?thesis
    using age hist conv assms(2,3)
    by (simp add: lastprice_def prices_of_def load_feed_id_def result_ok_def)
qed

theorem reads_agree_witness:
  "read_price_history lab_env lab_feed 1 xo_lab4 = Inr [lab_data] \<and>
   lastprice lab_env lab_asset xo_lab4 = Inr (Some \<lparr>rf_price = 100, rf_timestamp = 999\<rparr>)"
proof -
  have r: "read_price_data_for_feed lab_env lab_feed xo_lab4 = Inr lab_data" "xo_feed_mapping xo_lab4 lab_asset = Some lab_feed"
    "rs_price lab_data = 100" "rs_package_timestamp lab_data div MS_PER_SECOND = 999"
    by (simp_all add: read_price_data_for_feed_def load_aggregate_def lab_defs load_defs MS_PER_SECOND_def)
  show ?thesis using reads_agree [OF lab_reachable(3) r(1,2)] r by simp
qed

text \<open>
  C35. A submission is accepted exactly when its checks hold: in a reachable state, with a ledger time whose
  milliseconds fit 64 bits, the call succeeds if and only if the signer authorised it and is registered, the
  feed is known, the price is positive and at most the maximum, and the package timestamp is not more than
  a minute ahead, not too old, and not before the signer's previous one. The recomputation that follows
  never makes it fail.
\<close>

theorem submission_accepted_iff:
  assumes "xo_reachable t s" and "xe_now env * MS_PER_SECOND \<le> u64_max"
  shows "(\<exists>s'. submit_price env g f p ts s = Inr ((), s')) \<longleftrightarrow>
    xe_auth env g \<and> g \<in> set (load_signers s) \<and> f \<in> set (load_all_feeds s) \<and> 0 < p \<and> p \<le> MAX_SUBMITTED_PRICE \<and>
    ts div MS_PER_SECOND \<le> xe_now env + MAX_FUTURE_SKEW_SECONDS \<and>
    xe_now env - ts div MS_PER_SECOND \<le> load_max_submission_age s \<and>
    (case xo_submissions s f g of Some prev \<Rightarrow> sub_package_timestamp prev \<le> ts | None \<Rightarrow> True)"
proof -
  have inv: "xo_inv t s" using assms(1) by (rule xo_reachable_inv)
  have feeds: "f \<in> set (load_all_feeds s) \<longleftrightarrow> feed_index_contains f s"
    using inv ix.members_law by (auto simp: xo_inv_def registry_ok_def load_all_feeds_def feed_index_contains_def)
  have sat: "u64_saturating_add (xe_now env) MAX_FUTURE_SKEW_SECONDS = xe_now env + MAX_FUTURE_SKEW_SECONDS"
    using assms(2) by (simp add: u64_saturating_add_def MAX_FUTURE_SKEW_SECONDS_def u64_max_def MS_PER_SECOND_def)
  have rec: "\<exists>s'. recompute_aggregate env f Retain y = Inr ((), s')" if "config_ok y" for y
  proof (cases "quorum_reached env f y")
    case True
    then have "member_prices env f y \<noteq> []"
      using that by (auto simp: quorum_reached_def config_ok_def member_prices_def Let_def)
    then show ?thesis
      using True assms(2) by (simp add: recompute_aggregate_eq median_of_sort u64_native_def Let_def)
  qed (simp add: recompute_aggregate_eq)
  have ok: "config_ok (store_submission f g p ts s)" if "g \<in> set (load_signers s)" "feed_index_contains f s" "price_ok p"
    using store_submission_inv(1) [OF inv that] by (simp add: xo_inv_def)
  show ?thesis
    using rec [OF ok] unfolding feeds submit_price_def
    by (auto simp: xo_iff sat price_ok_def load_submission_def)
qed

theorem submission_accepted_iff_witness:
  "\<exists>s'. submit_price lab_env 3 lab_feed 102 999000 xo_lab3 = Inr ((), s')"
  using submission_accepted_iff [OF lab_reachable(2), of lab_env 3 lab_feed 102 999000]
  by (simp add: lab_defs load_defs MS_PER_SECOND_def u64_max_def MAX_SUBMITTED_PRICE_def MAX_FUTURE_SKEW_SECONDS_def
      load_all_feeds_def index_all_def index_count_def map_filter_def)

end
