(* ===== verification/Lp_Math.thy ===== *)
theory Lp_Math
  imports Observation
begin

text \<open>
  \<^verbatim>\<open>src/common/src/oracle/lp.rs\<close> and \<^verbatim>\<open>lp_stable.rs\<close>: the value of a pool share. Arithmetic on
  \<^verbatim>\<open>U256\<close> traps when a result does not fit, so each operation is checked; the Newton loop of the
  square root recurses on the decreasing iterate, the one of the stable invariant runs at most
  \<open>MAX_D_ITERATIONS\<close> times. An \<^verbatim>\<open>Err\<close> of the source is \<open>Inl (Oracle _)\<close>, a trap of the host
  \<open>Inl (Host _)\<close>. The square root is proved to be the integer square root of the product, and
  no operation of the square root traps.
\<close>

section \<open>256-bit arithmetic\<close>

definition u256_fits :: "int \<Rightarrow> bool" where
  "u256_fits x \<longleftrightarrow> 0 \<le> x \<and> x < 2 ^ 256"

definition u256 :: "int \<Rightarrow> int res" where
  "u256 x = (if u256_fits x then Inr x else Inl (Host ArithmeticTrap))"

definition u256_mul :: "int \<Rightarrow> int \<Rightarrow> int res" where
  "u256_mul a b = u256 (a * b)"

definition u256_add :: "int \<Rightarrow> int \<Rightarrow> int res" where
  "u256_add a b = u256 (a + b)"

definition u256_sub :: "int \<Rightarrow> int \<Rightarrow> int res" where
  "u256_sub a b = u256 (a - b)"

definition u256_div :: "int \<Rightarrow> int \<Rightarrow> int res" where
  "u256_div a b = (if b = 0 then Inl (Host ArithmeticTrap) else u256 (a div b))"

definition u256_checked_mul :: "int \<Rightarrow> int \<Rightarrow> int res" where
  "u256_checked_mul a b = (if u256_fits (a * b) then Inr (a * b) else Inl (Oracle InvalidPrice))"

lemma u256_Inr [res_iff]: "u256 x = Inr y \<longleftrightarrow> y = x \<and> u256_fits x"
  by (auto simp: u256_def)

lemmas u256_op_defs = u256_mul_def u256_add_def u256_sub_def u256_div_def

section \<open>Constant product\<close>

text \<open>\<^verbatim>\<open>u128::isqrt\<close> of the standard library: the largest root whose square is at most the argument.\<close>

primrec isqrt_bits :: "nat \<Rightarrow> int \<Rightarrow> int \<Rightarrow> int" where
  "isqrt_bits 0 n r = r"
| "isqrt_bits (Suc k) n r = isqrt_bits k n (if (r + 2 ^ k) * (r + 2 ^ k) \<le> n then r + 2 ^ k else r)"

definition u128_isqrt :: "int \<Rightarrow> int" where
  "u128_isqrt n = isqrt_bits 64 n 0"

definition newton_next :: "int \<Rightarrow> int \<Rightarrow> int res" where
  "newton_next n x = rbind (u256_div n x) (\<lambda>q. rbind (u256_add x q) (\<lambda>t. u256_div t 2))"

function newton_loop :: "int \<Rightarrow> int \<Rightarrow> int \<Rightarrow> int res" where
  "newton_loop n x y =
     (if 0 \<le> y \<and> y < x then rbind (newton_next n y) (\<lambda>y'. newton_loop n y y') else Inr x)"
  by pat_completeness auto
termination
  by (relation "measure (\<lambda>(n, x, y). nat x)") auto

definition isqrt_of_product :: "int \<Rightarrow> int \<Rightarrow> int res" where
  "isqrt_of_product a b =
     rbind (u256_mul a b) (\<lambda>n.
     if n \<le> 1 then Inr n
     else
       rbind (u256_mul (min (u128_isqrt a + 1) (2 ^ 128 - 1)) (min (u128_isqrt b + 1) (2 ^ 128 - 1))) (\<lambda>x.
       rbind (newton_next n x) (\<lambda>y. newton_loop n x y)))"

record lp_leg =
  leg_reserve :: int
  leg_decimals :: nat
  leg_price_wad :: int

record lp_supply =
  sup_total_shares :: int
  sup_decimals :: nat

definition reserve_value_wad :: "lp_leg \<Rightarrow> int res" where
  "reserve_value_wad leg =
     rbind (unwrap_or_panic (i128_checked_pow10 (leg_decimals leg)) (Oracle InvalidPrice)) (\<lambda>denom.
     unwrap_or_panic (try_mul_div_half_up (leg_reserve leg) (leg_price_wad leg) denom) (Oracle InvalidPrice))"

definition lp_inputs_positive :: "lp_leg \<Rightarrow> lp_leg \<Rightarrow> lp_supply \<Rightarrow> bool" where
  "lp_inputs_positive a b supply \<longleftrightarrow>
     \<not> (leg_reserve a \<le> 0 \<or> leg_reserve b \<le> 0 \<or> leg_price_wad a \<le> 0 \<or> leg_price_wad b \<le> 0 \<or> sup_total_shares supply \<le> 0)"

definition fair_lp_price_wad :: "lp_leg \<Rightarrow> lp_leg \<Rightarrow> lp_supply \<Rightarrow> int res" where
  "fair_lp_price_wad a b supply =
     rbind (assert_with_error (lp_inputs_positive a b supply) (Oracle InvalidPrice)) (\<lambda>_.
     rbind (reserve_value_wad a) (\<lambda>value_a.
     rbind (reserve_value_wad b) (\<lambda>value_b.
     rbind (isqrt_of_product value_a value_b) (\<lambda>root.
     rbind (u256_mul root 2) (\<lambda>total_value.
     rbind (try_amount_to_wad (sup_total_shares supply) (sup_decimals supply)) (\<lambda>share_supply_wad.
     rbind (assert_with_error (\<not> share_supply_wad \<le> 0) (Oracle InvalidPrice)) (\<lambda>_.
     rbind (u256_mul total_value WAD) (\<lambda>scaled.
     rbind (u256_div scaled share_supply_wad) (\<lambda>fair.
     unwrap_or_panic (try_u256_to_i128 fair) (Oracle InvalidPrice))))))))))"

section \<open>Stable swap\<close>

definition MAX_AMP :: int where
  "MAX_AMP = 1000000"

definition MAX_D_ITERATIONS :: nat where
  "MAX_D_ITERATIONS = 255"

definition MAX_NORMALIZED_RESERVE_WAD :: int where
  "MAX_NORMALIZED_RESERVE_WAD = 10 ^ 34"

definition stable_step :: "int \<Rightarrow> int \<Rightarrow> int \<Rightarrow> int \<Rightarrow> int \<Rightarrow> int res" where
  "stable_step ann s_tot x_smaller x_larger d =
     rbind (u256_mul d d) (\<lambda>dd. rbind (u256_mul x_smaller 2) (\<lambda>s2. rbind (u256_div dd s2) (\<lambda>d_p.
     rbind (u256_checked_mul d_p d) (\<lambda>dpd. rbind (u256_mul x_larger 2) (\<lambda>l2. rbind (u256_div dpd l2) (\<lambda>d_p.
     rbind (u256_mul ann s_tot) (\<lambda>as. rbind (u256_mul 2 d_p) (\<lambda>nd. rbind (u256_add as nd) (\<lambda>t.
     rbind (u256_checked_mul t d) (\<lambda>numerator.
     rbind (u256_sub ann 1) (\<lambda>a1. rbind (u256_mul a1 d) (\<lambda>a1d. rbind (u256_mul 3 d_p) (\<lambda>n1d.
     rbind (u256_add a1d n1d) (\<lambda>denominator.
     u256_div numerator denominator))))))))))))))"

primrec stable_loop :: "nat \<Rightarrow> int \<Rightarrow> int \<Rightarrow> int \<Rightarrow> int \<Rightarrow> int \<Rightarrow> int res" where
  "stable_loop 0 ann s_tot x_smaller x_larger d = Inl (Oracle InvalidPrice)"
| "stable_loop (Suc i) ann s_tot x_smaller x_larger d =
     rbind (stable_step ann s_tot x_smaller x_larger d) (\<lambda>d'.
     if (if d' \<ge> d then d' - d \<le> 1 else d - d' \<le> 1) then Inr d'
     else stable_loop i ann s_tot x_smaller x_larger d')"

definition solve_stable_d :: "int \<Rightarrow> int \<Rightarrow> int \<Rightarrow> int res" where
  "solve_stable_d xa_wad xb_wad amp =
     rbind (assert_with_error
              (\<not> (xa_wad \<le> 0 \<or> xb_wad \<le> 0 \<or> \<not> (1 \<le> amp \<and> amp \<le> MAX_AMP) \<or>
                  xa_wad > MAX_NORMALIZED_RESERVE_WAD \<or> xb_wad > MAX_NORMALIZED_RESERVE_WAD))
              (Oracle InvalidPrice)) (\<lambda>_.
     let x_smaller = min xa_wad xb_wad; x_larger = max xa_wad xb_wad in
     rbind (u256_add x_smaller x_larger) (\<lambda>s_tot.
     rbind (u256_mul amp 2) (\<lambda>ann.
     stable_loop MAX_D_ITERATIONS ann s_tot x_smaller x_larger s_tot)))"

definition fair_stable_lp_price_wad :: "lp_leg \<Rightarrow> lp_leg \<Rightarrow> lp_supply \<Rightarrow> int \<Rightarrow> int res" where
  "fair_stable_lp_price_wad a b supply amp =
     rbind (assert_with_error (lp_inputs_positive a b supply) (Oracle InvalidPrice)) (\<lambda>_.
     rbind (try_amount_to_wad (leg_reserve a) (leg_decimals a)) (\<lambda>xa_wad.
     rbind (try_amount_to_wad (leg_reserve b) (leg_decimals b)) (\<lambda>xb_wad.
     rbind (solve_stable_d xa_wad xb_wad amp) (\<lambda>d.
     let min_price = min (leg_price_wad a) (leg_price_wad b) in
     rbind (try_amount_to_wad (sup_total_shares supply) (sup_decimals supply)) (\<lambda>share_supply_wad.
     rbind (assert_with_error (\<not> share_supply_wad \<le> 0) (Oracle InvalidPrice)) (\<lambda>_.
     rbind (u256_mul d min_price) (\<lambda>v.
     rbind (u256_div v share_supply_wad) (\<lambda>fair.
     unwrap_or_panic (try_u256_to_i128 fair) (Oracle InvalidPrice)))))))))"

section \<open>Integer square roots\<close>

lemma isqrt_bits_spec:
  assumes "0 \<le> r" and "r * r \<le> n" and "n < (r + 2 ^ k) * (r + 2 ^ k)"
  shows "0 \<le> isqrt_bits k n r \<and> isqrt_bits k n r * isqrt_bits k n r \<le> n \<and>
    n < (isqrt_bits k n r + 1) * (isqrt_bits k n r + 1)"
  using assms
proof (induction k arbitrary: r)
  case (Suc k)
  show ?case
  proof (cases "(r + 2 ^ k) * (r + 2 ^ k) \<le> n")
    case True
    have "r + 2 ^ Suc k = (r + 2 ^ k) + 2 ^ k" by simp
    then show ?thesis using Suc.IH [of "r + 2 ^ k"] Suc.prems True by (simp only: isqrt_bits.simps if_True) simp
  next
    case False
    then show ?thesis using Suc by simp
  qed
qed simp

lemma u128_isqrt_spec:
  assumes "0 \<le> n" and "n < 2 ^ 128"
  shows "0 \<le> u128_isqrt n" and "u128_isqrt n * u128_isqrt n \<le> n" and "n < (u128_isqrt n + 1) * (u128_isqrt n + 1)"
  using isqrt_bits_spec [of 0 n 64] assms by (auto simp: u128_isqrt_def)

lemma half_bounds: "2 * (t div 2) \<le> t" "t \<le> 2 * (t div 2) + 1" for t :: int
  by presburger+

lemma square_le_iff: "0 \<le> a \<Longrightarrow> 0 \<le> b \<Longrightarrow> a * a \<le> b * b \<longleftrightarrow> a \<le> (b::int)"
  by (meson mult_mono not_le mult_strict_mono')

text \<open>
  One Newton step from above the root stays at or above it: the arithmetic mean of \<open>x\<close> and \<open>n / x\<close> is
  at least their geometric mean.
\<close>

definition newton :: "int \<Rightarrow> int \<Rightarrow> int" where
  "newton n x = (x + n div x) div 2"

lemma newton_above:
  assumes "0 < x" and "0 \<le> n"
  shows "n < (newton n x + 1) * (newton n x + 1)" and "0 \<le> newton n x"
proof -
  let ?q = "n div x" and ?y = "newton n x"
  have q: "0 \<le> ?q" using assms by (simp add: pos_imp_zdiv_nonneg_iff)
  then show nonneg: "0 \<le> ?y" using assms by (simp add: newton_def)
  have n: "n < (?q + 1) * x" using floor_bounds [OF assms(1), of n] by simp
  then have "n + 1 \<le> (?q + 1) * x" by simp
  have s: "x + ?q + 1 \<le> 2 * (?y + 1)" unfolding newton_def distrib_left using half_bounds(2) [of "x + ?q"] by simp
  have "4 * ((?q + 1) * x) \<le> (x + (?q + 1)) * (x + (?q + 1))"
    using sum_squares_ge_zero [of "x - (?q + 1)" 0] by (simp add: algebra_simps power2_eq_square)
  also have "\<dots> \<le> (2 * (?y + 1)) * (2 * (?y + 1))"
    using s q assms by (intro mult_mono) auto
  also have "\<dots> = 4 * ((?y + 1) * (?y + 1))" by (simp add: algebra_simps)
  finally have "(?q + 1) * x \<le> (?y + 1) * (?y + 1)" by (simp only: mult_le_cancel_left_pos zero_less_numeral)
  with n show "n < (?y + 1) * (?y + 1)" by simp
qed

lemma newton_next_eq:
  assumes "0 < x" and "0 \<le> n" and "x < 2 ^ 255" and "n < 2 ^ 255"
  shows "newton_next n x = Inr (newton n x)"
proof -
  have "n * 1 \<le> n * x" using assms by (intro mult_left_mono) auto
  then have q: "0 \<le> n div x" "n div x \<le> n"
    using assms floor_less_iff [of x n "n + 1"] by (auto simp: pos_imp_zdiv_nonneg_iff distrib_right)
  then have "u256_fits (n div x)" "u256_fits (x + n div x)" "u256_fits ((x + n div x) div 2)"
    using assms by (auto simp: u256_fits_def)
  then show ?thesis using assms(1) by (simp add: newton_next_def u256_op_defs u256_def newton_def)
qed

lemma newton_loop_root:
  assumes "0 < x" and "2 \<le> n" and "n < 2 ^ 255" and "x < 2 ^ 255" and "n < (x + 1) * (x + 1)" and "y = newton n x"
  shows "\<exists>r. newton_loop n x y = Inr r \<and> 0 \<le> r \<and> r * r \<le> n \<and> n < (r + 1) * (r + 1)"
  using assms
proof (induction n x y rule: newton_loop.induct)
  case (1 n x y)
  have above: "n < (y + 1) * (y + 1)" "0 \<le> y"
    using newton_above [of x n] "1.prems" by auto
  show ?case
  proof (cases "y < x")
    case True
    have "0 < y" using above \<open>2 \<le> n\<close> by (cases "y = 0") auto
    moreover have "newton_next n y = Inr (newton n y)"
      using \<open>0 < y\<close> True "1.prems" by (intro newton_next_eq) auto
    ultimately show ?thesis
      using "1.IH" [of "newton n y"] True above "1.prems" by (subst newton_loop.simps) auto
  next
    case False
    then have "x \<le> (x + n div x) div 2" using "1.prems"(6) by (simp add: newton_def)
    then have "x \<le> n div x" using half_bounds(1) [of "x + n div x"] by linarith
    then have "x * x \<le> n" using "1.prems"(1) by (simp add: floor_ge_iff)
    then show ?thesis using False "1.prems" by (subst newton_loop.simps) auto
  qed
qed

lemma isqrt_of_product_root:
  assumes "0 \<le> a" "a < 2 ^ 127" "0 \<le> b" "b < 2 ^ 127"
  shows "\<exists>r. isqrt_of_product a b = Inr r \<and> 0 \<le> r \<and> r * r \<le> a * b \<and> a * b < (r + 1) * (r + 1)"
proof -
  let ?n = "a * b" and ?ra = "u128_isqrt a" and ?rb = "u128_isqrt b"
  have n: "0 \<le> ?n" "?n < 2 ^ 255"
    using assms mult_strict_mono [of a "2 ^ 127" b "2 ^ 127"] by auto
  have ra: "0 \<le> ?ra" "?ra * ?ra \<le> a" "a < (?ra + 1) * (?ra + 1)" and rb: "0 \<le> ?rb" "?rb * ?rb \<le> b" "b < (?rb + 1) * (?rb + 1)"
    using u128_isqrt_spec [of a] u128_isqrt_spec [of b] assms by auto
  have small: "r < 2 ^ 64" if "r * r \<le> c" "c < 2 ^ 127" "0 \<le> r" for r c :: int
  proof (rule ccontr)
    assume "\<not> r < 2 ^ 64"
    then have "2 ^ 64 * 2 ^ 64 \<le> r * r" using that(3) square_le_iff [of "2 ^ 64" r] by simp
    then show False using that by simp
  qed
  have sa: "?ra < 2 ^ 64" and sb: "?rb < 2 ^ 64" using small ra rb assms by blast+
  let ?x = "(?ra + 1) * (?rb + 1)"
  show ?thesis
  proof (cases "?n \<le> 1")
    case True
    then have "?n = 0 \<or> ?n = 1" using n by linarith
    then show ?thesis using n by (auto simp: isqrt_of_product_def u256_mul_def u256_def u256_fits_def)
  next
    case False
    have "?x \<le> 2 ^ 64 * 2 ^ 64" using sa sb ra(1) rb(1) by (intro mult_mono) linarith+
    then have x: "0 < ?x" "?x \<le> 2 ^ 64 * 2 ^ 64" using ra(1) rb(1) by simp_all
    have "?n < ((?ra + 1) * (?ra + 1)) * ((?rb + 1) * (?rb + 1))"
      using ra rb assms by (intro mult_strict_mono') auto
    also have "\<dots> = ?x * ?x" by (simp add: algebra_simps)
    also have "\<dots> \<le> (?x + 1) * (?x + 1)" using x by (intro mult_mono) auto
    finally have above: "?n < (?x + 1) * (?x + 1)" .
    have "newton_next ?n ?x = Inr (newton ?n ?x)" using x n by (intro newton_next_eq) auto
    moreover have "u256_mul a b = Inr ?n" "u256_mul (?ra + 1) (?rb + 1) = Inr ?x"
      using n x by (auto simp: u256_mul_def u256_def u256_fits_def)
    ultimately have "isqrt_of_product a b = newton_loop ?n ?x (newton ?n ?x)"
      using False sa sb by (simp add: isqrt_of_product_def del: newton_loop.simps)
    then show ?thesis
      using newton_loop_root [of ?x ?n "newton ?n ?x"] x n above False by simp
  qed
qed

section \<open>The fair price of a constant-product share\<close>

lemma reserve_value_range:
  assumes "reserve_value_wad leg = Inr v" and "0 < leg_reserve leg" and "0 < leg_price_wad leg"
  shows "0 \<le> v" and "v < 2 ^ 127"
proof -
  from assms(1) obtain d where d: "i128_checked_pow10 (leg_decimals leg) = Some d"
    and v: "try_mul_div_half_up (leg_reserve leg) (leg_price_wad leg) d = Some v"
    by (auto simp: reserve_value_wad_def rbind_Inr_iff unwrap_Inr_iff)
  have "0 < d" using d by (auto simp: i128_checked_pow10_def to_i128_opt_def split: if_splits)
  then have "v = half_up_div (leg_reserve leg * leg_price_wad leg) d \<and> v \<le> i128_max"
    using v assms(2,3) by (auto simp: try_mul_div_half_up_eq to_i128_opt_def in_i128_def split: if_splits)
  then show "0 \<le> v" and "v < 2 ^ 127"
    using assms(2,3) \<open>0 < d\<close> by (auto simp: half_up_div_def i128_max_def intro!: div_int_pos_iff [THEN iffD2])
qed

lemma fair_lp_price_parts:
  assumes "fair_lp_price_wad a b supply = Inr p"
  obtains va vb sh r where "reserve_value_wad a = Inr va" and "reserve_value_wad b = Inr vb"
    and "try_amount_to_wad (sup_total_shares supply) (sup_decimals supply) = Inr sh" and "0 < sh"
    and "0 \<le> va" and "0 \<le> vb" and "0 \<le> r" and "r * r \<le> va * vb" and "va * vb < (r + 1) * (r + 1)" and "p = 2 * r * WAD div sh"
proof -
  from assms obtain va vb r sh where pos: "lp_inputs_positive a b supply" and v: "reserve_value_wad a = Inr va" "reserve_value_wad b = Inr vb"
    and r: "isqrt_of_product va vb = Inr r" and sh: "try_amount_to_wad (sup_total_shares supply) (sup_decimals supply) = Inr sh" "0 < sh"
    and p: "p = 2 * r * WAD div sh"
    by (auto simp: fair_lp_price_wad_def rbind_Inr_iff assert_Inr_iff unwrap_Inr_iff u256_op_defs u256_Inr try_u256_to_i128_def
      mult.commute split: if_splits)
  have A: "0 \<le> va" "va < 2 ^ 127" and B: "0 \<le> vb" "vb < 2 ^ 127"
    using reserve_value_range v pos by (auto simp: lp_inputs_positive_def)
  from isqrt_of_product_root [OF A B] r have "0 \<le> r" "r * r \<le> va * vb" "va * vb < (r + 1) * (r + 1)" by auto
  with that v sh A B p show thesis by blast
qed

lemma root_below_mean:
  fixes r va vb :: int
  assumes "0 \<le> va" and "0 \<le> vb" and "r * r \<le> va * vb"
  shows "2 * r \<le> va + vb"
proof (rule ccontr)
  assume "\<not> 2 * r \<le> va + vb"
  then have "(va + vb) * (va + vb) < (2 * r) * (2 * r)" using assms(1,2) by (intro mult_strict_mono) auto
  moreover have "4 * (va * vb) \<le> (va + vb) * (va + vb)"
    using zero_le_square [of "va - vb"] by (simp add: algebra_simps)
  ultimately show False using assms(3) by simp
qed

lemma root_mono:
  fixes r r' n n' :: int
  assumes "0 \<le> r" and "0 \<le> r'" and "r * r \<le> n" and "n \<le> n'" and "n' < (r' + 1) * (r' + 1)"
  shows "r \<le> r'"
proof (rule ccontr)
  assume "\<not> r \<le> r'"
  then have "(r' + 1) * (r' + 1) \<le> r * r" using assms(2) by (intro mult_mono) auto
  then show False using assms by linarith
qed

end
