(* ===== verification/Oracle_Types.thy ===== *)
theory Oracle_Types
  imports Lp_Math Flow
begin

text \<open>
  The configuration and result types of the price aggregator:
  \<^verbatim>\<open>src/common/src/types/composable_oracle.rs\<close> and \<^verbatim>\<open>src/common/src/types/oracle.rs\<close>. Structs are
  records, enums datatypes, contract addresses and code hashes numbers.
\<close>

definition MAX_RESOLUTION_DEPTH :: nat where
  "MAX_RESOLUTION_DEPTH = 3"

definition MIN_SOURCES :: nat where
  "MIN_SOURCES = 1"

definition MAX_SOURCES :: nat where
  "MAX_SOURCES = 2"

definition MAX_CURVE_COINS :: nat where
  "MAX_CURVE_COINS = 3"

datatype oracle_asset_ref = Asset_Stellar address | Asset_Symbol string | Asset_String string

datatype oracle_read_mode = Spot | Twap nat

datatype price_key = Token address | Ref string

record reflector_feed_ref =
  rff_contract :: address
  rff_asset :: oracle_asset_ref
  rff_read_mode :: oracle_read_mode

record chainlink_feed_ref =
  clf_contract :: address
  clf_data_id :: "nat list"

datatype feed_nature = Market | Fundamental

record multi_feed_ref =
  mff_contract :: address
  mff_feed_id :: string
  mff_nature :: feed_nature

datatype provider_ref =
    Reflector reflector_feed_ref
  | RedStone multi_feed_ref
  | XoxnoFeed multi_feed_ref
  | Chainlink chainlink_feed_ref

primrec provider_contract :: "provider_ref \<Rightarrow> address" where
  "provider_contract (Reflector r) = rff_contract r"
| "provider_contract (RedStone r) = mff_contract r"
| "provider_contract (XoxnoFeed r) = mff_contract r"
| "provider_contract (Chainlink r) = clf_contract r"

primrec is_smoothed :: "provider_ref \<Rightarrow> bool" where
  "is_smoothed (Reflector r) = (case rff_read_mode r of Twap n \<Rightarrow> True | Spot \<Rightarrow> False)"
| "is_smoothed (RedStone r) = False"
| "is_smoothed (XoxnoFeed r) = False"
| "is_smoothed (Chainlink r) = False"

primrec provider_nature :: "provider_ref \<Rightarrow> feed_nature" where
  "provider_nature (Reflector r) = Market"
| "provider_nature (RedStone r) = mff_nature r"
| "provider_nature (XoxnoFeed r) = mff_nature r"
| "provider_nature (Chainlink r) = Market"

definition is_unsmoothed_market_leg :: "provider_ref \<Rightarrow> bool" where
  "is_unsmoothed_market_leg p \<longleftrightarrow> provider_nature p = Market \<and> \<not> is_smoothed p"

record feed_source =
  fs_provider :: provider_ref
  fs_decimals :: nat
  fs_max_stale_seconds :: nat

record scaled_source =
  ss_factor :: feed_source
  ss_quote :: price_key
  ss_min_factor_wad :: int
  ss_max_factor_wad :: int

record aquarius_lp_source =
  aq_pool :: address
  aq_token_a :: address
  aq_token_b :: address
  aq_key_a :: price_key
  aq_key_b :: price_key
  aq_reserve_a_decimals :: nat
  aq_reserve_b_decimals :: nat
  aq_min_pool_value_wad :: int

record curve_stable_lp_source =
  cv_pool :: address
  cv_coins :: "address list"
  cv_wasm_hash :: nat
  cv_min_pool_value_wad :: int

datatype price_source =
    Feed feed_source
  | Scaled scaled_source
  | AquariusLp aquarius_lp_source
  | AquariusStableLp aquarius_lp_source
  | CurveStableLp curve_stable_lp_source

primrec is_lp :: "price_source \<Rightarrow> bool" where
  "is_lp (Feed f) = False"
| "is_lp (Scaled s) = False"
| "is_lp (AquariusLp l) = True"
| "is_lp (AquariusStableLp l) = True"
| "is_lp (CurveStableLp l) = True"

datatype independence_policy = RequireDisjoint | AllowShared "address list"

record asset_oracle =
  ao_asset_decimals :: nat
  ao_max_price_stale_seconds :: nat
  ao_sources :: "price_source list"
  ao_tolerance :: oracle_tolerance
  ao_independence :: independence_policy
  ao_min_sanity_price_wad :: int
  ao_max_sanity_price_wad :: int

definition has_lp_source :: "asset_oracle \<Rightarrow> bool" where
  "has_lp_source oracle = (case ao_sources oracle of [] \<Rightarrow> False | source # _ \<Rightarrow> is_lp source)"

record price_feed_raw =
  pr_price_wad :: int
  pr_asset_decimals :: nat
  pr_timestamp :: nat

record price_status =
  pst_final_wad :: int
  pst_primary_wad :: int
  pst_secondary_wad :: int
  pst_price_timestamp :: nat
  pst_stale :: bool
  pst_deviation :: bool
  pst_valid :: bool
  pst_error_code :: "nat option"

definition price_status_unusable :: price_status where
  "price_status_unusable =
     \<lparr>pst_final_wad = 0, pst_primary_wad = 0, pst_secondary_wad = 0, pst_price_timestamp = 0, pst_stale = False,
      pst_deviation = False, pst_valid = False, pst_error_code = None\<rparr>"

section \<open>Contracts the aggregator reads\<close>

record chainlink_round =
  clr_round_id :: nat
  clr_answer :: int
  clr_timestamp :: nat

record curve_pool_info =
  cpi_coin_decimals :: "nat list"
  cpi_coins :: "address list"
  cpi_rates :: "int list"
  cpi_precision :: int

text \<open>
  The price providers, the pools and the token contracts are not part of the repository. A call takes the
  state \<open>'w\<close> of all those contracts and returns an answer with the next state; a failed \<^verbatim>\<open>try_\<close> call
  answers \<open>None\<close>. No assumption is made about the answers.
\<close>

record 'w oracle_ext =
  ox_latest_round :: "address \<Rightarrow> nat list \<Rightarrow> nat \<Rightarrow> 'w \<Rightarrow> chainlink_round option \<times> 'w"
  ox_lastprice :: "address \<Rightarrow> reflector_asset \<Rightarrow> 'w \<Rightarrow> reflector_price_data option option \<times> 'w"
  ox_prices :: "address \<Rightarrow> reflector_asset \<Rightarrow> nat \<Rightarrow> 'w \<Rightarrow> reflector_price_data list option option \<times> 'w"
  ox_resolution :: "address \<Rightarrow> 'w \<Rightarrow> nat option \<times> 'w"
  ox_base :: "address \<Rightarrow> 'w \<Rightarrow> reflector_asset option \<times> 'w"
  ox_decimals :: "address \<Rightarrow> 'w \<Rightarrow> nat option \<times> 'w"
  ox_max_submission_age :: "address \<Rightarrow> 'w \<Rightarrow> nat option \<times> 'w"
  ox_read_feed :: "address \<Rightarrow> string \<Rightarrow> 'w \<Rightarrow> redstone_price_data option \<times> 'w"
  ox_read_feeds :: "address \<Rightarrow> string list \<Rightarrow> 'w \<Rightarrow> redstone_price_data list option \<times> 'w"
  ox_aquarius_a :: "address \<Rightarrow> 'w \<Rightarrow> int option \<times> 'w"
  ox_aquarius_pool_type :: "address \<Rightarrow> 'w \<Rightarrow> string option \<times> 'w"
  ox_aquarius_reserves :: "address \<Rightarrow> 'w \<Rightarrow> int list option \<times> 'w"
  ox_aquarius_tokens :: "address \<Rightarrow> 'w \<Rightarrow> address list option \<times> 'w"
  ox_aquarius_share_id :: "address \<Rightarrow> 'w \<Rightarrow> address option \<times> 'w"
  ox_aquarius_total_shares :: "address \<Rightarrow> 'w \<Rightarrow> int option \<times> 'w"
  ox_curve_pool_info :: "address \<Rightarrow> 'w \<Rightarrow> curve_pool_info option \<times> 'w"
  ox_curve_virtual_price :: "address \<Rightarrow> 'w \<Rightarrow> int option \<times> 'w"
  ox_curve_total_supply :: "address \<Rightarrow> 'w \<Rightarrow> int option \<times> 'w"
  ox_executable :: "address \<Rightarrow> 'w \<Rightarrow> nat option \<times> 'w"

end
