(* ===== verification/Aggregator_Sources.thy ===== *)
theory Aggregator_Sources
  imports Oracle_Types Soroban_Map
begin

text \<open>
  \<^verbatim>\<open>src/contracts/price-aggregator/src\<close>, the parts below the resolution engine: the registry of
  oracle configurations (\<^verbatim>\<open>registry.rs\<close>), the per-invocation \<open>session\<close> with its caches and its
  resolution stack (\<^verbatim>\<open>session.rs\<close>), observations (\<^verbatim>\<open>observation.rs\<close>), the tolerance band
  (\<^verbatim>\<open>tolerance.rs\<close>) and the feed providers (\<^verbatim>\<open>providers\<close>). A function of the source that returns
  \<^verbatim>\<open>Result<_, OracleError>\<close> is a flow whose value is a sum, so that an \<^verbatim>\<open>Err\<close> keeps the session while
  a panic ends the invocation.
\<close>

section \<open>Registry and session\<close>

text \<open>The registry is an association list, because a contract stores finitely many entries.\<close>

type_synonym oracle_registry = "(price_key \<times> asset_oracle) list"

record 'w session =
  se_oracles :: oracle_registry
  se_world :: 'w
  se_feed_cache :: "(address \<times> string) \<rightharpoonup> redstone_price_data"
  se_resolving_keys :: "price_key list"
  se_key_prices :: "price_key \<rightharpoonup> price_feed_raw"
  se_key_errors :: "price_key \<rightharpoonup> oracle_error"
  se_key_statuses :: "price_key \<rightharpoonup> price_status"
  se_now_secs :: nat

type_synonym ('w, 'a) sflow = "('w session, 'a) flow"
type_synonym ('w, 'a) eflow = "('w session, oracle_error + 'a) flow"

definition session_new :: "oracle_registry \<Rightarrow> nat \<Rightarrow> 'w \<Rightarrow> 'w session" where
  "session_new oracles now w =
     \<lparr>se_oracles = oracles, se_world = w, se_feed_cache = Map.empty, se_resolving_keys = [], se_key_prices = Map.empty,
      se_key_errors = Map.empty, se_key_statuses = Map.empty, se_now_secs = now\<rparr>"

definition get_oracle :: "oracle_registry \<Rightarrow> price_key \<Rightarrow> asset_oracle option" where
  "get_oracle oracles key = map_of oracles key"

definition oracle_call :: "('w \<Rightarrow> 'r \<times> 'w) \<Rightarrow> ('w, 'r) sflow" where
  "oracle_call f s = (case f (se_world s) of (r, w) \<Rightarrow> Inr (r, s\<lparr>se_world := w\<rparr>))"

definition oracle_call_hard :: "('w \<Rightarrow> 'r option \<times> 'w) \<Rightarrow> ('w, 'r) sflow" where
  "oracle_call_hard f = fbind (oracle_call f) (\<lambda>r. flift (unwrap_or_panic r (Host ExternalCallFailed)))"

definition ebind :: "('w, 'a) eflow \<Rightarrow> ('a \<Rightarrow> ('w, 'b) eflow) \<Rightarrow> ('w, 'b) eflow" where
  "ebind m f = fbind m (\<lambda>r. case r of Inl e \<Rightarrow> fret (Inl e) | Inr x \<Rightarrow> f x)"

definition eok :: "'a \<Rightarrow> ('w, 'a) eflow" where
  "eok x = fret (Inr x)"

definition eerr :: "oracle_error \<Rightarrow> ('w, 'a) eflow" where
  "eerr e = fret (Inl e)"

definition ok_or :: "'a option \<Rightarrow> oracle_error \<Rightarrow> ('w, 'a) eflow" where
  "ok_or m e = (case m of None \<Rightarrow> eerr e | Some x \<Rightarrow> eok x)"

definition of_result :: "'a res \<Rightarrow> ('w, 'a) eflow" where
  "of_result r = (case r of Inl (Oracle e) \<Rightarrow> eerr e | Inl e \<Rightarrow> flift (Inl e) | Inr x \<Rightarrow> eok x)"

definition is_resolving :: "price_key \<Rightarrow> 'w session \<Rightarrow> bool" where
  "is_resolving key s \<longleftrightarrow> key \<in> set (se_resolving_keys s)"

definition push_key :: "price_key \<Rightarrow> ('w, unit) sflow" where
  "push_key key s =
     (if is_resolving key s then Inl (Oracle OracleCycleDetected)
      else Inr ((), s\<lparr>se_resolving_keys := se_resolving_keys s @ [key]\<rparr>))"

definition pop_key :: "('w, unit) sflow" where
  "pop_key s = Inr ((), s\<lparr>se_resolving_keys := butlast (se_resolving_keys s)\<rparr>)"

definition store_price :: "price_key \<Rightarrow> price_feed_raw \<Rightarrow> ('w, unit) sflow" where
  "store_price key feed = fwrite (\<lambda>s. s\<lparr>se_key_prices := (se_key_prices s)(key \<mapsto> feed)\<rparr>)"

definition store_error :: "price_key \<Rightarrow> oracle_error \<Rightarrow> ('w, unit) sflow" where
  "store_error key err = fwrite (\<lambda>s. s\<lparr>se_key_errors := (se_key_errors s)(key \<mapsto> err)\<rparr>)"

definition store_status :: "price_key \<Rightarrow> price_status \<Rightarrow> ('w, unit) sflow" where
  "store_status key status = fwrite (\<lambda>s. s\<lparr>se_key_statuses := (se_key_statuses s)(key \<mapsto> status)\<rparr>)"

definition get_feed :: "address \<Rightarrow> string \<Rightarrow> 'w session \<Rightarrow> redstone_price_data option" where
  "get_feed adapter feed_id s = se_feed_cache s (adapter, feed_id)"

definition set_feed :: "address \<Rightarrow> string \<Rightarrow> redstone_price_data \<Rightarrow> ('w, unit) sflow" where
  "set_feed adapter feed_id d = fwrite (\<lambda>s. s\<lparr>se_feed_cache := (se_feed_cache s)((adapter, feed_id) \<mapsto> d)\<rparr>)"

section \<open>Observations and tolerance\<close>

record oracle_observation =
  ob_price_wad :: int
  ob_timestamp :: nat

definition from_chainlink :: "nat \<Rightarrow> chainlink_round \<Rightarrow> nat \<Rightarrow> oracle_observation option" where
  "from_chainlink now_secs round decimals =
     (if is_future_at now_secs (clr_timestamp round) then None
      else Option.bind (to_i128_opt (clr_answer round)) (\<lambda>answer.
           Option.bind (try_normalize_positive_price answer decimals) (\<lambda>price.
           Some \<lparr>ob_price_wad = price, ob_timestamp = clr_timestamp round\<rparr>)))"

definition from_multi_feed :: "nat \<Rightarrow> redstone_price_data \<Rightarrow> nat \<Rightarrow> oracle_observation option" where
  "from_multi_feed now_secs price_data decimals =
     (let package_ts = millis_to_seconds (rs_package_timestamp price_data);
          write_ts = millis_to_seconds (rs_write_timestamp price_data) in
      if is_future_at now_secs package_ts \<or> is_future_at now_secs write_ts then None
      else Option.bind (try_u256_to_i128 (rs_price price_data)) (\<lambda>raw_price.
           Option.bind (try_normalize_positive_price raw_price decimals) (\<lambda>price.
           Some \<lparr>ob_price_wad = price, ob_timestamp = min write_ts package_ts\<rparr>)))"

definition from_reflector :: "nat \<Rightarrow> reflector_price_data \<Rightarrow> nat \<Rightarrow> oracle_observation option" where
  "from_reflector now_secs price_data decimals =
     (if is_future_at now_secs (rf_timestamp price_data) then None
      else Option.bind (try_normalize_positive_price (rf_price price_data) decimals) (\<lambda>price.
           Some \<lparr>ob_price_wad = price, ob_timestamp = rf_timestamp price_data\<rparr>))"

definition within_tolerance_band :: "int \<Rightarrow> int \<Rightarrow> oracle_tolerance \<Rightarrow> bool" where
  "within_tolerance_band anchor primary tolerance =
     (let high = max anchor primary; low = min anchor primary in
      case try_mul_div_half_up high BPS low of
        None \<Rightarrow> False
      | Some ratio_bps \<Rightarrow> ratio_bps \<le> int (upper_ratio_bps tolerance))"

definition midpoint_price_or_zero :: "int \<Rightarrow> int \<Rightarrow> int" where
  "midpoint_price_or_zero anchor_price primary_price =
     (case i128_checked_add anchor_price primary_price of None \<Rightarrow> 0 | Some s \<Rightarrow> s sdiv 2)"

section \<open>Providers\<close>

definition MIN_ORACLE_RESOLUTION_SECONDS :: nat where
  "MIN_ORACLE_RESOLUTION_SECONDS = 60"

definition read_chainlink_source :: "'w oracle_ext \<Rightarrow> chainlink_feed_ref \<Rightarrow> nat \<Rightarrow> ('w, oracle_observation option) sflow" where
  "read_chainlink_source ext feed decimals =
     fbind (oracle_call (ox_latest_round ext (clf_contract feed) (clf_data_id feed) decimals)) (\<lambda>answer.
     fbind (fread se_now_secs) (\<lambda>now_secs.
     fret (Option.bind answer (\<lambda>round. from_chainlink now_secs round decimals))))"

definition read_price_data_cached :: "'w oracle_ext \<Rightarrow> address \<Rightarrow> string \<Rightarrow> ('w, redstone_price_data option) sflow" where
  "read_price_data_cached ext contract feed_id =
     fbind (fread (get_feed contract feed_id)) (\<lambda>cached.
     case cached of
       Some d \<Rightarrow> fret (Some d)
     | None \<Rightarrow>
         fbind (oracle_call (ox_read_feed ext contract feed_id)) (\<lambda>answer.
         case answer of
           None \<Rightarrow> fret None
         | Some d \<Rightarrow> fbind (set_feed contract feed_id d) (\<lambda>_. fret (Some d))))"

definition read_multi_feed_source :: "'w oracle_ext \<Rightarrow> multi_feed_ref \<Rightarrow> nat \<Rightarrow> ('w, oracle_observation option) sflow" where
  "read_multi_feed_source ext feed decimals =
     fbind (fread se_now_secs) (\<lambda>now_secs.
     fbind (read_price_data_cached ext (mff_contract feed) (mff_feed_id feed)) (\<lambda>answer.
     fret (Option.bind answer (\<lambda>price_data. from_multi_feed now_secs price_data decimals))))"

definition read_price_data_bulk :: "'w oracle_ext \<Rightarrow> address \<Rightarrow> string list \<Rightarrow> ('w, redstone_price_data list option) sflow" where
  "read_price_data_bulk ext contract feed_ids =
     fbind (oracle_call (ox_read_feeds ext contract feed_ids)) (\<lambda>answer.
     fret (case answer of Some d \<Rightarrow> if length d = length feed_ids then Some d else None | None \<Rightarrow> None))"

definition to_reflector_asset :: "oracle_asset_ref \<Rightarrow> reflector_asset res" where
  "to_reflector_asset ra =
     (case ra of
        Asset_Stellar a \<Rightarrow> Inr (Stellar a)
      | Asset_Symbol s \<Rightarrow> Inr (Other s)
      | Asset_String s \<Rightarrow> Inl (Oracle InvalidOracleTokenType))"

definition read_spot :: "'w oracle_ext \<Rightarrow> reflector_feed_ref \<Rightarrow> nat \<Rightarrow> ('w, oracle_observation option) sflow" where
  "read_spot ext feed decimals =
     fbind (fread se_now_secs) (\<lambda>now_secs.
     fbind (flift (to_reflector_asset (rff_asset feed))) (\<lambda>ra.
     fbind (oracle_call (ox_lastprice ext (rff_contract feed) ra)) (\<lambda>answer.
     fret (Option.bind (Option.bind answer id) (\<lambda>price_data. from_reflector now_secs price_data decimals)))))"

definition twap_required_span :: "nat \<Rightarrow> nat \<Rightarrow> nat" where
  "twap_required_span records resolution = u64_saturating_mul (records - 1) resolution"

primrec twap_scan :: "nat \<Rightarrow> nat \<Rightarrow> reflector_price_data list \<Rightarrow> nat option \<times> nat \<Rightarrow> oracle_error + (nat option \<times> nat)" where
  "twap_scan now_secs resolution [] acc = Inr acc"
| "twap_scan now_secs resolution (price_data # history) acc =
     (case acc of (previous_ts, oldest_ts) \<Rightarrow>
      if is_future_at now_secs (rf_timestamp price_data) then Inl PriceFeedStale
      else if (case previous_ts of
                 None \<Rightarrow> False
               | Some newer \<Rightarrow> newer < rf_timestamp price_data \<or> newer - rf_timestamp price_data < resolution)
      then Inl TwapInsufficientObservations
      else twap_scan now_secs resolution history (Some (rf_timestamp price_data), rf_timestamp price_data))"

primrec twap_sum :: "reflector_price_data list \<Rightarrow> int \<Rightarrow> int option" where
  "twap_sum [] acc = Some acc"
| "twap_sum (pd # history) acc =
     (if rf_price pd \<le> 0 then None else Option.bind (i128_checked_add acc (rf_price pd)) (twap_sum history))"

definition try_twap_mean_price :: "reflector_price_data list \<Rightarrow> int option" where
  "try_twap_mean_price history =
     Option.bind (twap_sum history 0) (\<lambda>s. if history = [] then None else Some (s sdiv int (length history)))"

definition read_twap :: "'w oracle_ext \<Rightarrow> reflector_feed_ref \<Rightarrow> nat \<Rightarrow> nat \<Rightarrow> ('w, oracle_observation) eflow" where
  "read_twap ext feed decimals records =
     fbind (fread se_now_secs) (\<lambda>now_secs.
     fbind (flift (validate_twap_records records)) (\<lambda>_.
     fbind (flift (to_reflector_asset (rff_asset feed))) (\<lambda>ra.
     fbind (oracle_call (ox_prices ext (rff_contract feed) ra records)) (\<lambda>answer.
     ebind (ok_or (Option.bind answer id) ReflectorHistoryEmpty) (\<lambda>history.
     if history = [] then eerr ReflectorHistoryEmpty
     else if length history > min u32_max (records + 1) then eerr TwapInsufficientObservations
     else
       fbind (oracle_call (ox_resolution ext (rff_contract feed))) (\<lambda>reported.
       ebind (ok_or (case reported of Some r \<Rightarrow> if r \<ge> MIN_ORACLE_RESOLUTION_SECONDS then Some r else None | None \<Rightarrow> None)
                InvalidOracleResolution) (\<lambda>resolution.
       ebind (fret (twap_scan now_secs resolution history (None, u64_max))) (\<lambda>(_, oldest_ts).
       if rf_timestamp (hd history) - oldest_ts < twap_required_span records resolution
       then eerr TwapInsufficientObservations
       else
         ebind (ok_or (try_twap_mean_price history) InvalidPrice) (\<lambda>raw_price.
         ebind (ok_or (try_normalize_positive_price raw_price decimals) InvalidPrice) (\<lambda>price_wad.
         eok \<lparr>ob_price_wad = price_wad, ob_timestamp = oldest_ts\<rparr>))))))))))"

definition read_reflector_source :: "'w oracle_ext \<Rightarrow> reflector_feed_ref \<Rightarrow> nat \<Rightarrow> ('w, oracle_observation option) sflow" where
  "read_reflector_source ext feed decimals =
     (case rff_read_mode feed of
        Spot \<Rightarrow> read_spot ext feed decimals
      | Twap records \<Rightarrow>
          fbind (read_twap ext feed decimals records) (\<lambda>r.
          fret (case r of Inl e \<Rightarrow> None | Inr observation \<Rightarrow> Some observation)))"

section \<open>Pool reads\<close>

definition i128_of_u128 :: "int \<Rightarrow> int option" where
  "i128_of_u128 x = (if x \<le> i128_max then Some x else None)"

definition aquarius_amp_call :: "'w oracle_ext \<Rightarrow> address \<Rightarrow> ('w, int option) sflow" where
  "aquarius_amp_call ext pool =
     fbind (oracle_call (ox_aquarius_a ext pool)) (\<lambda>answer.
     fret (case answer of Some amp \<Rightarrow> if amp > 0 then Some amp else None | None \<Rightarrow> None))"

definition aquarius_pool_kind_call :: "'w oracle_ext \<Rightarrow> address \<Rightarrow> string \<Rightarrow> ('w, bool) sflow" where
  "aquarius_pool_kind_call ext pool kind =
     fbind (oracle_call (ox_aquarius_pool_type ext pool)) (\<lambda>answer. fret (answer = Some kind))"

definition aquarius_pool_reserves_call :: "'w oracle_ext \<Rightarrow> address \<Rightarrow> ('w, (int \<times> int) option) sflow" where
  "aquarius_pool_reserves_call ext pool =
     fbind (oracle_call (ox_aquarius_reserves ext pool)) (\<lambda>answer.
     fret (case answer of
             Some [a, b] \<Rightarrow> Option.bind (i128_of_u128 a) (\<lambda>a. Option.bind (i128_of_u128 b) (\<lambda>b. Some (a, b)))
           | _ \<Rightarrow> None))"

definition aquarius_total_shares_call :: "'w oracle_ext \<Rightarrow> address \<Rightarrow> ('w, int option) sflow" where
  "aquarius_total_shares_call ext pool =
     fbind (oracle_call (ox_aquarius_total_shares ext pool)) (\<lambda>answer. fret (Option.bind answer i128_of_u128))"

definition pool_kind_matches :: "'w oracle_ext \<Rightarrow> aquarius_lp_source \<Rightarrow> bool \<Rightarrow> ('w, bool) sflow" where
  "pool_kind_matches ext lp is_stable =
     (if is_stable then aquarius_pool_kind_call ext (aq_pool lp) ''stable''
      else aquarius_pool_kind_call ext (aq_pool lp) ''constant_product'')"

definition bound_tokens :: "'w oracle_ext \<Rightarrow> price_key \<Rightarrow> aquarius_lp_source \<Rightarrow> ('w, address list option) sflow" where
  "bound_tokens ext key lp =
     (case key of
        Ref s \<Rightarrow> fret None
      | Token share \<Rightarrow>
          fbind (oracle_call (ox_aquarius_share_id ext (aq_pool lp))) (\<lambda>share_id.
          if share_id \<noteq> Some share then fret None
          else fbind (oracle_call (ox_aquarius_tokens ext (aq_pool lp))) (\<lambda>tokens.
               fret (if tokens = Some [aq_token_a lp, aq_token_b lp] then tokens else None))))"

definition token_decimals :: "'w oracle_ext \<Rightarrow> address \<Rightarrow> ('w, nat option) sflow" where
  "token_decimals ext tok = oracle_call (ox_decimals ext tok)"

definition decimals_match :: "'w oracle_ext \<Rightarrow> address \<Rightarrow> address list \<Rightarrow> nat \<Rightarrow> aquarius_lp_source \<Rightarrow> ('w, bool) sflow" where
  "decimals_match ext share tokens share_decimals lp =
     fbind (token_decimals ext share) (\<lambda>d.
     if d \<noteq> Some share_decimals then fret False
     else fbind (token_decimals ext (tokens ! 0)) (\<lambda>d.
          if d \<noteq> Some (aq_reserve_a_decimals lp) then fret False
          else fbind (token_decimals ext (tokens ! 1)) (\<lambda>d. fret (d = Some (aq_reserve_b_decimals lp)))))"

primrec curve_coins_bound :: "'w oracle_ext \<Rightarrow> curve_pool_info \<Rightarrow> nat \<Rightarrow> address list \<Rightarrow> ('w, bool) sflow" where
  "curve_coins_bound ext info i [] = fret True"
| "curve_coins_bound ext info i (coin # coins) =
     (if i \<ge> length (cpi_coin_decimals info) then fret False
      else let decimals = cpi_coin_decimals info ! i in
           if decimals > 18 then fret False
           else fbind (oracle_call (ox_decimals ext coin)) (\<lambda>d.
                if d \<noteq> Some decimals then fret False
                else if i \<ge> length (cpi_rates info) then fret False
                else if cpi_rates info ! i \<noteq> 10 ^ (36 - decimals) then fret False
                else curve_coins_bound ext info (Suc i) coins))"

definition bound_pool :: "'w oracle_ext \<Rightarrow> price_key \<Rightarrow> curve_stable_lp_source \<Rightarrow> nat \<Rightarrow> ('w, bool) sflow" where
  "bound_pool ext key lp decimals =
     (if key \<noteq> Token (cv_pool lp) \<or> decimals \<noteq> 18 then fret False
      else fbind (oracle_call (ox_executable ext (cv_pool lp))) (\<lambda>executable.
           if executable \<noteq> Some (cv_wasm_hash lp) then fret False
           else fbind (oracle_call (ox_curve_pool_info ext (cv_pool lp))) (\<lambda>answer.
                case answer of
                  None \<Rightarrow> fret False
                | Some info \<Rightarrow>
                    fbind (oracle_call (ox_decimals ext (cv_pool lp))) (\<lambda>d.
                    if d \<noteq> Some 18 \<or> cpi_coins info \<noteq> cv_coins lp \<or> cpi_precision info \<noteq> WAD then fret False
                    else curve_coins_bound ext info 0 (cv_coins lp)))))"

end
