(* ===== verification/Aggregator_Engine.thy ===== *)
theory Aggregator_Engine
  imports Aggregator_Sources
begin

text \<open>
  \<^verbatim>\<open>src/contracts/price-aggregator/src/engine.rs\<close> and the pool providers that call back into it. The
  recursion of the source goes through \<^verbatim>\<open>resolve_nested\<close>, always at \<^verbatim>\<open>depth + 1\<close>: the functions below it
  take it as the argument \<open>nested\<close>, and \<open>resolve_nested\<close> ties the knot. It is total because
  \<open>resolve_outcome\<close> stops beyond \<open>MAX_RESOLUTION_DEPTH\<close> before it reads any source; the guard in the
  defining equation only makes this visible to the termination proof, and \<open>resolve_nested_unfold\<close>
  states the equation of the source, without it.
\<close>

section \<open>Outcomes\<close>

record reading =
  rd_price_wad :: int
  rd_timestamp :: nat
  rd_stale :: bool
  rd_nature :: feed_nature

datatype leg_slot = Primary | Secondary

datatype legs = One reading | Two reading reading | Partial reading leg_slot | Empty

record outcome =
  oc_price_wad :: int
  oc_timestamp :: nat
  oc_first_wad :: int
  oc_second_wad :: int
  oc_stale :: bool
  oc_deviation :: bool
  oc_err :: "oracle_error option"

definition MAX_LEG_AGE_SPREAD_SECONDS :: nat where
  "MAX_LEG_AGE_SPREAD_SECONDS = 3600"

definition outcome_blank :: outcome where
  "outcome_blank = \<lparr>oc_price_wad = 0, oc_timestamp = 0, oc_first_wad = 0, oc_second_wad = 0, oc_stale = False,
                    oc_deviation = False, oc_err = None\<rparr>"

definition outcome_with_err :: "oracle_error \<Rightarrow> outcome" where
  "outcome_with_err err = outcome_blank\<lparr>oc_err := Some err\<rparr>"

definition outcome_unreadable :: outcome where
  "outcome_unreadable = outcome_with_err NoLastPrice"

definition outcome_one :: "reading \<Rightarrow> outcome" where
  "outcome_one r = \<lparr>oc_price_wad = rd_price_wad r, oc_timestamp = rd_timestamp r, oc_first_wad = rd_price_wad r,
                    oc_second_wad = rd_price_wad r, oc_stale = rd_stale r, oc_deviation = False, oc_err = None\<rparr>"

definition outcome_partial :: "reading \<Rightarrow> leg_slot \<Rightarrow> outcome" where
  "outcome_partial r slot =
     (case (case slot of Primary \<Rightarrow> (rd_price_wad r, 0) | Secondary \<Rightarrow> (0, rd_price_wad r)) of (first_wad, second_wad) \<Rightarrow>
      \<lparr>oc_price_wad = 0, oc_timestamp = rd_timestamp r, oc_first_wad = first_wad, oc_second_wad = second_wad,
       oc_stale = rd_stale r, oc_deviation = True, oc_err = None\<rparr>)"

definition outcome_failure :: "outcome \<Rightarrow> asset_oracle option \<Rightarrow> oracle_error option" where
  "outcome_failure oc oracle =
     (case oc_err oc of
        Some err \<Rightarrow> Some err
      | None \<Rightarrow>
          (case oracle of
             None \<Rightarrow> Some OracleNotConfigured
           | Some oracle \<Rightarrow>
               if oc_stale oc then Some PriceFeedStale
               else if oc_deviation oc then Some UnsafePriceNotAllowed
               else if oc_price_wad oc \<le> 0 then Some InvalidPrice
               else if oc_price_wad oc < ao_min_sanity_price_wad oracle \<or> oc_price_wad oc > ao_max_sanity_price_wad oracle
               then Some SanityBoundViolated
               else None))"

definition config_failure :: "outcome \<Rightarrow> oracle_error option" where
  "config_failure oc =
     (case oc_err oc of
        Some err \<Rightarrow> if err \<in> {OracleCycleDetected, OracleDepthExceeded, SourceCountOutOfRange, OracleNotConfigured}
                   then Some err else None
      | None \<Rightarrow> None)"

definition to_feed :: "outcome \<Rightarrow> nat \<Rightarrow> price_feed_raw" where
  "to_feed oc decimals = \<lparr>pr_price_wad = oc_price_wad oc, pr_asset_decimals = decimals, pr_timestamp = oc_timestamp oc\<rparr>"

definition force :: "outcome \<Rightarrow> asset_oracle option \<Rightarrow> price_feed_raw res" where
  "force oc oracle =
     (case outcome_failure oc oracle of
        Some err \<Rightarrow> Inl (Oracle err)
      | None \<Rightarrow>
          (case oracle of
             None \<Rightarrow> Inl (Oracle OracleNotConfigured)
           | Some oracle \<Rightarrow> Inr (to_feed oc (ao_asset_decimals oracle))))"

definition to_status :: "outcome \<Rightarrow> asset_oracle option \<Rightarrow> price_status" where
  "to_status oc oracle =
     (let failure = outcome_failure oc oracle;
          error_code = map_option oracle_code failure in
      if oc_err oc \<noteq> None then price_status_unusable\<lparr>pst_error_code := error_code\<rparr>
      else \<lparr>pst_final_wad = oc_price_wad oc, pst_primary_wad = oc_first_wad oc, pst_secondary_wad = oc_second_wad oc,
            pst_price_timestamp = oc_timestamp oc, pst_stale = oc_stale oc, pst_deviation = oc_deviation oc,
            pst_valid = (failure = None), pst_error_code = error_code\<rparr>)"

definition blend :: "asset_oracle \<Rightarrow> legs \<Rightarrow> outcome" where
  "blend oracle legs =
     (case legs of
        Empty \<Rightarrow> outcome_unreadable
      | One r \<Rightarrow> outcome_one r
      | Partial r slot \<Rightarrow> outcome_partial r slot
      | Two primary anchor \<Rightarrow>
          let spread_bounded = (rd_nature primary = Market \<and> rd_nature anchor = Market);
              age_spread = max (rd_timestamp primary) (rd_timestamp anchor) - min (rd_timestamp primary) (rd_timestamp anchor);
              is_old = (rd_stale primary \<or> rd_stale anchor \<or> (spread_bounded \<and> age_spread > MAX_LEG_AGE_SPREAD_SECONDS));
              ts = min (rd_timestamp primary) (rd_timestamp anchor);
              deviation = (\<not> within_tolerance_band (rd_price_wad anchor) (rd_price_wad primary) (ao_tolerance oracle)) in
          \<lparr>oc_price_wad = midpoint_price_or_zero (rd_price_wad anchor) (rd_price_wad primary), oc_timestamp = ts,
           oc_first_wad = rd_price_wad primary, oc_second_wad = rd_price_wad anchor, oc_stale = is_old,
           oc_deviation = deviation, oc_err = None\<rparr>)"

section \<open>Sources\<close>

primrec source_nature :: "price_source \<Rightarrow> feed_nature" where
  "source_nature (Feed feed) = provider_nature (fs_provider feed)"
| "source_nature (Scaled scaled) = provider_nature (fs_provider (ss_factor scaled))"
| "source_nature (AquariusLp lp) = Market"
| "source_nature (AquariusStableLp lp) = Market"
| "source_nature (CurveStableLp lp) = Market"

primrec dependencies :: "price_source \<Rightarrow> price_key list" where
  "dependencies (Feed feed) = []"
| "dependencies (Scaled scaled) = [ss_quote scaled]"
| "dependencies (AquariusLp lp) = [aq_key_a lp, aq_key_b lp]"
| "dependencies (AquariusStableLp lp) = [aq_key_a lp, aq_key_b lp]"
| "dependencies (CurveStableLp lp) = map Token (cv_coins lp)"

type_synonym 'w nested = "price_key \<Rightarrow> nat \<Rightarrow> ('w, price_feed_raw) eflow"

definition read_feed :: "'w oracle_ext \<Rightarrow> feed_source \<Rightarrow> ('w, (oracle_observation \<times> bool) option) sflow" where
  "read_feed ext feed =
     fbind (case fs_provider feed of
              Chainlink c \<Rightarrow> read_chainlink_source ext c (fs_decimals feed)
            | Reflector r \<Rightarrow> read_reflector_source ext r (fs_decimals feed)
            | RedStone r \<Rightarrow> read_multi_feed_source ext r (fs_decimals feed)
            | XoxnoFeed x \<Rightarrow> read_multi_feed_source ext x (fs_decimals feed)) (\<lambda>answer.
     fbind (fread se_now_secs) (\<lambda>now_secs.
     fret (map_option (\<lambda>observation.
             (observation, is_stale now_secs (ob_timestamp observation) (fs_max_stale_seconds feed))) answer)))"

definition read_scaled :: "'w oracle_ext \<Rightarrow> 'w nested \<Rightarrow> scaled_source \<Rightarrow> nat \<Rightarrow> ('w, (oracle_observation \<times> bool) option) eflow" where
  "read_scaled ext nested scaled depth =
     fbind (read_feed ext (ss_factor scaled)) (\<lambda>answer.
     case answer of
       None \<Rightarrow> eok None
     | Some (factor, factor_stale) \<Rightarrow>
         if ob_price_wad factor < ss_min_factor_wad scaled \<or> ob_price_wad factor > ss_max_factor_wad scaled
         then eerr FactorOutOfBounds
         else
           ebind (nested (ss_quote scaled) (Suc depth)) (\<lambda>quote.
           ebind (ok_or (wad_try_mul (ob_price_wad factor) (pr_price_wad quote)) InvalidPrice) (\<lambda>price_wad.
           eok (Some (\<lparr>ob_price_wad = price_wad, ob_timestamp = min (ob_timestamp factor) (pr_timestamp quote)\<rparr>,
                      factor_stale)))))"

definition aquarius_read :: "'w oracle_ext \<Rightarrow> 'w nested \<Rightarrow> price_key \<Rightarrow> aquarius_lp_source \<Rightarrow> nat \<Rightarrow> nat \<Rightarrow> bool \<Rightarrow>
    ('w, (oracle_observation \<times> bool) option) eflow" where
  "aquarius_read ext nested key lp share_decimals depth is_stable =
     fbind (bound_tokens ext key lp) (\<lambda>bound.
     ebind (ok_or bound NoLastPrice) (\<lambda>tokens.
     fbind (pool_kind_matches ext lp is_stable) (\<lambda>kind.
     if \<not> kind then eerr NoLastPrice
     else case key of
       Ref s \<Rightarrow> eerr NoLastPrice
     | Token share \<Rightarrow>
         fbind (decimals_match ext share tokens share_decimals lp) (\<lambda>matches.
         if \<not> matches then eerr NoLastPrice
         else
           ebind (nested (aq_key_a lp) (Suc depth)) (\<lambda>price_a.
           ebind (nested (aq_key_b lp) (Suc depth)) (\<lambda>price_b.
           fbind (aquarius_pool_reserves_call ext (aq_pool lp)) (\<lambda>answer.
           ebind (ok_or answer NoLastPrice) (\<lambda>(reserve_a, reserve_b).
           fbind (aquarius_total_shares_call ext (aq_pool lp)) (\<lambda>answer.
           ebind (ok_or answer NoLastPrice) (\<lambda>total_shares.
           let leg_a = \<lparr>leg_reserve = reserve_a, leg_decimals = aq_reserve_a_decimals lp, leg_price_wad = pr_price_wad price_a\<rparr>;
               leg_b = \<lparr>leg_reserve = reserve_b, leg_decimals = aq_reserve_b_decimals lp, leg_price_wad = pr_price_wad price_b\<rparr>;
               supply = \<lparr>sup_total_shares = total_shares, sup_decimals = share_decimals\<rparr> in
           ebind (if is_stable
                  then fbind (aquarius_amp_call ext (aq_pool lp)) (\<lambda>answer.
                       ebind (ok_or answer NoLastPrice) (\<lambda>amp. of_result (fair_stable_lp_price_wad leg_a leg_b supply amp)))
                  else of_result (fair_lp_price_wad leg_a leg_b supply)) (\<lambda>price_wad.
           ebind (ok_or (i128_checked_pow10 share_decimals) InvalidPrice) (\<lambda>share_unit.
           ebind (ok_or (try_mul_div_half_up price_wad total_shares share_unit) InvalidPrice) (\<lambda>pool_value_wad.
           if pool_value_wad < aq_min_pool_value_wad lp then eerr InsufficientAquariusLiquidity
           else eok (Some (\<lparr>ob_price_wad = price_wad, ob_timestamp = min (pr_timestamp price_a) (pr_timestamp price_b)\<rparr>,
                           False)))))))))))))))"

primrec curve_coin_prices :: "'w nested \<Rightarrow> nat \<Rightarrow> address list \<Rightarrow> int \<times> nat \<Rightarrow> ('w, int \<times> nat) eflow" where
  "curve_coin_prices nested depth [] acc = eok acc"
| "curve_coin_prices nested depth (coin # coins) acc =
     ebind (nested (Token coin) (Suc depth)) (\<lambda>price.
     curve_coin_prices nested depth coins (min (fst acc) (pr_price_wad price), min (snd acc) (pr_timestamp price)))"

definition curve_read :: "'w oracle_ext \<Rightarrow> 'w nested \<Rightarrow> price_key \<Rightarrow> curve_stable_lp_source \<Rightarrow> nat \<Rightarrow> nat \<Rightarrow>
    ('w, (oracle_observation \<times> bool) option) eflow" where
  "curve_read ext nested key lp decimals depth =
     fbind (bound_pool ext key lp decimals) (\<lambda>bound.
     if \<not> bound then eerr UnsupportedCurvePool
     else
       fbind (fread se_now_secs) (\<lambda>now_secs.
       ebind (curve_coin_prices nested depth (cv_coins lp) (i128_max, now_secs)) (\<lambda>(minimum, timestamp).
       fbind (oracle_call (ox_curve_virtual_price ext (cv_pool lp))) (\<lambda>answer.
       ebind (ok_or answer NoLastPrice) (\<lambda>virtual_price.
       fbind (oracle_call (ox_curve_total_supply ext (cv_pool lp))) (\<lambda>answer.
       ebind (ok_or answer NoLastPrice) (\<lambda>supply.
       fbind (flift (mul_div_floor_saturating virtual_price minimum WAD)) (\<lambda>price_wad.
       fbind (flift (mul_div_floor_saturating price_wad supply WAD)) (\<lambda>pool_value.
       if pool_value < cv_min_pool_value_wad lp then eerr InsufficientCurveLiquidity
       else eok (Some (\<lparr>ob_price_wad = price_wad, ob_timestamp = timestamp\<rparr>, False)))))))))))"

definition evaluate_source :: "'w oracle_ext \<Rightarrow> 'w nested \<Rightarrow> price_key \<Rightarrow> price_source \<Rightarrow> nat \<Rightarrow> nat \<Rightarrow>
    ('w, (oracle_observation \<times> bool) option) eflow" where
  "evaluate_source ext nested key source decimals depth =
     (case source of
        Feed feed \<Rightarrow> fbind (read_feed ext feed) eok
      | Scaled scaled \<Rightarrow> read_scaled ext nested scaled depth
      | AquariusLp lp \<Rightarrow> aquarius_read ext nested key lp decimals depth False
      | AquariusStableLp lp \<Rightarrow> aquarius_read ext nested key lp decimals depth True
      | CurveStableLp lp \<Rightarrow> curve_read ext nested key lp decimals depth)"

definition read_source :: "'w oracle_ext \<Rightarrow> 'w nested \<Rightarrow> price_key \<Rightarrow> asset_oracle \<Rightarrow> price_source \<Rightarrow> nat \<Rightarrow>
    ('w, reading option) eflow" where
  "read_source ext nested key oracle source depth =
     ebind (evaluate_source ext nested key source (ao_asset_decimals oracle) depth) (\<lambda>answer.
     case answer of
       None \<Rightarrow> eok None
     | Some (observation, component_stale) \<Rightarrow>
         fbind (fread se_now_secs) (\<lambda>now_secs.
         let timestamp = ob_timestamp observation;
             is_old = (component_stale \<or> is_stale now_secs timestamp (ao_max_price_stale_seconds oracle)) in
         eok (Some \<lparr>rd_price_wad = ob_price_wad observation, rd_timestamp = timestamp, rd_stale = is_old,
                    rd_nature = source_nature source\<rparr>)))"

definition compose :: "'w oracle_ext \<Rightarrow> 'w nested \<Rightarrow> price_key \<Rightarrow> asset_oracle \<Rightarrow> nat \<Rightarrow> ('w, legs) eflow" where
  "compose ext nested key oracle depth =
     (let count = length (ao_sources oracle) in
      if count = 0 \<or> count > 2 then eerr SourceCountOutOfRange
      else
        ebind (read_source ext nested key oracle (ao_sources oracle ! 0) depth) (\<lambda>first.
        if count = 1 then eok (case first of Some r \<Rightarrow> One r | None \<Rightarrow> Empty)
        else
          ebind (read_source ext nested key oracle (ao_sources oracle ! 1) depth) (\<lambda>second.
          eok (case (first, second) of
                 (Some primary, Some anchor) \<Rightarrow> Two primary anchor
               | (Some r, None) \<Rightarrow> Partial r Primary
               | (None, Some r) \<Rightarrow> Partial r Secondary
               | (None, None) \<Rightarrow> Empty))))"

section \<open>Resolution\<close>

definition resolve_outcome :: "'w oracle_ext \<Rightarrow> 'w nested \<Rightarrow> price_key \<Rightarrow> nat \<Rightarrow> asset_oracle option \<Rightarrow>
    ('w, outcome \<times> asset_oracle option) sflow" where
  "resolve_outcome ext nested key depth override_oracle =
     (if depth > MAX_RESOLUTION_DEPTH then fret (outcome_with_err OracleDepthExceeded, None)
      else
        fbind (fread (is_resolving key)) (\<lambda>resolving.
        if resolving then fret (outcome_with_err OracleCycleDetected, None)
        else
          fbind (push_key key) (\<lambda>_.
          fbind (case override_oracle of Some given \<Rightarrow> fret (Some given) | None \<Rightarrow> fread (\<lambda>s. get_oracle (se_oracles s) key)) (\<lambda>found.
          case found of
            None \<Rightarrow> fbind pop_key (\<lambda>_. fret (outcome_with_err OracleNotConfigured, None))
          | Some oracle \<Rightarrow>
              fbind (compose ext nested key oracle depth) (\<lambda>composed.
              let oc = (case composed of Inr legs \<Rightarrow> blend oracle legs | Inl err \<Rightarrow> outcome_with_err err) in
              fbind pop_key (\<lambda>_. fret (oc, Some oracle)))))))"

primrec first_err :: "('x \<Rightarrow> ('w, unit) eflow) \<Rightarrow> 'x list \<Rightarrow> ('w, unit) eflow" where
  "first_err f [] = eok ()"
| "first_err f (x # xs) = ebind (f x) (\<lambda>_. first_err f xs)"

definition cached_path_step :: "(price_key \<Rightarrow> nat \<Rightarrow> ('w, unit) eflow) \<Rightarrow> price_key \<Rightarrow> nat \<Rightarrow> ('w, unit) eflow" where
  "cached_path_step recurse key depth =
     (if depth > MAX_RESOLUTION_DEPTH then eerr OracleDepthExceeded
      else
        fbind (fread (is_resolving key)) (\<lambda>resolving.
        if resolving then eerr OracleCycleDetected
        else
          fbind (fread (\<lambda>s. get_oracle (se_oracles s) key)) (\<lambda>found.
          ebind (ok_or found OracleNotConfigured) (\<lambda>oracle.
          fbind (push_key key) (\<lambda>_.
          fbind (first_err (\<lambda>source. first_err (\<lambda>dependency. recurse dependency (Suc depth)) (dependencies source))
                   (ao_sources oracle)) (\<lambda>result.
          fbind pop_key (\<lambda>_. fret result)))))))"

function validate_cached_path :: "price_key \<Rightarrow> nat \<Rightarrow> ('w, unit) eflow" where
  "validate_cached_path key depth =
     cached_path_step (\<lambda>k d. if d = Suc depth \<and> depth \<le> MAX_RESOLUTION_DEPTH then validate_cached_path k d else eerr OracleDepthExceeded)
       key depth"
  by pat_completeness auto
termination
  by (relation "measure (\<lambda>(key, depth). Suc MAX_RESOLUTION_DEPTH - depth)") auto

definition nested_step :: "'w oracle_ext \<Rightarrow> 'w nested \<Rightarrow> price_key \<Rightarrow> nat \<Rightarrow> ('w, price_feed_raw) eflow" where
  "nested_step ext nested key depth =
     fbind (fread (\<lambda>s. se_key_prices s key)) (\<lambda>cached.
     case cached of
       Some feed \<Rightarrow> ebind (validate_cached_path key depth) (\<lambda>_. eok feed)
     | None \<Rightarrow>
         fbind (fread (\<lambda>s. se_key_errors s key)) (\<lambda>cached.
         case cached of
           Some err \<Rightarrow> ebind (validate_cached_path key depth) (\<lambda>_. eerr err)
         | None \<Rightarrow>
             fbind (resolve_outcome ext nested key depth None) (\<lambda>(oc, oracle).
             case outcome_failure oc oracle of
               Some err \<Rightarrow>
                 fbind (if config_failure oc = None then store_error key err else fret ()) (\<lambda>_. eerr err)
             | None \<Rightarrow>
                 ebind (ok_or oracle OracleNotConfigured) (\<lambda>oracle.
                 let feed = to_feed oc (ao_asset_decimals oracle) in
                 fbind (store_price key feed) (\<lambda>_. eok feed)))))"

function resolve_nested :: "'w oracle_ext \<Rightarrow> 'w nested" where
  "resolve_nested ext key depth =
     nested_step ext (\<lambda>k d. if d = Suc depth \<and> depth \<le> MAX_RESOLUTION_DEPTH then resolve_nested ext k d else eerr OracleDepthExceeded)
       key depth"
  by pat_completeness auto
termination
  by (relation "measure (\<lambda>(ext, key, depth). Suc MAX_RESOLUTION_DEPTH - depth)") auto

declare resolve_nested.simps [simp del] validate_cached_path.simps [simp del]

definition compute_hard :: "'w oracle_ext \<Rightarrow> price_key \<Rightarrow> nat \<Rightarrow> asset_oracle option \<Rightarrow> ('w, price_feed_raw \<times> outcome) sflow" where
  "compute_hard ext key depth override_oracle =
     fbind (resolve_outcome ext (resolve_nested ext) key depth override_oracle) (\<lambda>(oc, oracle).
     fbind (flift (force oc oracle)) (\<lambda>feed. fret (feed, oc)))"

definition resolve :: "'w oracle_ext \<Rightarrow> price_key \<Rightarrow> nat \<Rightarrow> ('w, price_feed_raw) sflow" where
  "resolve ext key depth =
     fbind (fread (\<lambda>s. se_key_prices s key)) (\<lambda>cached.
     case cached of
       Some feed \<Rightarrow> fret feed
     | None \<Rightarrow>
         fbind (compute_hard ext key depth None) (\<lambda>(feed, _).
         fbind (store_price key feed) (\<lambda>_. fret feed)))"

definition resolve_status :: "'w oracle_ext \<Rightarrow> price_key \<Rightarrow> nat \<Rightarrow> ('w, price_status) sflow" where
  "resolve_status ext key depth =
     fbind (fread (\<lambda>s. se_key_statuses s key)) (\<lambda>cached.
     case cached of
       Some status \<Rightarrow> fret status
     | None \<Rightarrow>
         fbind (resolve_outcome ext (resolve_nested ext) key depth None) (\<lambda>(oc, oracle).
         let status = to_status oc oracle in
         fbind (store_status key status) (\<lambda>_. fret status)))"

definition probe_priceable :: "'w oracle_ext \<Rightarrow> price_key \<Rightarrow> asset_oracle \<Rightarrow> ('w, unit) sflow" where
  "probe_priceable ext key oracle =
     fbind (resolve_outcome ext (resolve_nested ext) key 0 (Some oracle)) (\<lambda>(oc, resolved).
     fbind (flift (force oc (case resolved of Some found \<Rightarrow> Some found | None \<Rightarrow> Some oracle))) (\<lambda>_. fret ()))"

definition probe :: "'w oracle_ext \<Rightarrow> price_key \<Rightarrow> asset_oracle \<Rightarrow> ('w, unit) sflow" where
  "probe ext key oracle =
     fbind (resolve_outcome ext (resolve_nested ext) key 0 (Some oracle)) (\<lambda>(oc, _).
     case config_failure oc of
       Some err \<Rightarrow> flift (Inl (Oracle err))
     | None \<Rightarrow> fret ())"

definition resolve_detailed :: "'w oracle_ext \<Rightarrow> price_key \<Rightarrow> nat \<Rightarrow> ('w, price_feed_raw \<times> outcome) sflow" where
  "resolve_detailed ext key depth =
     fbind (compute_hard ext key depth None) (\<lambda>(feed, oc).
     fbind (store_price key feed) (\<lambda>_. fret (feed, oc)))"

end
