(* ===== verification/Aggregator.thy ===== *)
theory Aggregator
  imports Aggregator_Engine "HOL-Library.AList"
begin

text \<open>
  \<^verbatim>\<open>src/contracts/price-aggregator/src\<close>, the configuration side: the structural properties of a
  composition (\<^verbatim>\<open>properties.rs\<close>), the checks on a configuration (\<^verbatim>\<open>validation.rs\<close>), the bulk
  warming of a session (\<^verbatim>\<open>session.rs\<close>), the owner's operations (\<^verbatim>\<open>admin.rs\<close>) and the contract's
  entrypoints (\<^verbatim>\<open>lib.rs\<close>). The walk \<open>depends_on\<close> has no depth limit in the source; it terminates
  because a registered key that is on the current path is not entered again.
\<close>

section \<open>Structural properties\<close>

record source_properties =
  sp_unsmoothed :: bool
  sp_trust :: "address list"
  sp_loosest_max_stale :: nat
  sp_depth :: nat

definition properties_empty :: source_properties where
  "properties_empty = \<lparr>sp_unsmoothed = False, sp_trust = [], sp_loosest_max_stale = 0, sp_depth = 0\<rparr>"

definition properties_of_feed :: "feed_source \<Rightarrow> source_properties" where
  "properties_of_feed feed =
     \<lparr>sp_unsmoothed = is_unsmoothed_market_leg (fs_provider feed), sp_trust = [provider_contract (fs_provider feed)],
      sp_loosest_max_stale = fs_max_stale_seconds feed, sp_depth = 0\<rparr>"

definition push_unique :: "'a \<Rightarrow> 'a list \<Rightarrow> 'a list" where
  "push_unique x xs = (if x \<in> set xs then xs else xs @ [x])"

definition properties_join :: "source_properties \<Rightarrow> source_properties \<Rightarrow> source_properties" where
  "properties_join p q =
     \<lparr>sp_unsmoothed = (sp_unsmoothed p \<or> sp_unsmoothed q), sp_trust = fold push_unique (sp_trust q) (sp_trust p),
      sp_loosest_max_stale = max (sp_loosest_max_stale p) (sp_loosest_max_stale q), sp_depth = max (sp_depth p) (sp_depth q)\<rparr>"

definition shared_contracts_with :: "source_properties \<Rightarrow> source_properties \<Rightarrow> address list" where
  "shared_contracts_with p q =
     fold (\<lambda>contract shared. if contract \<in> set (sp_trust q) \<and> contract \<notin> set shared then shared @ [contract] else shared)
       (sp_trust p) []"

primrec local_properties :: "price_source \<Rightarrow> source_properties" where
  "local_properties (Feed feed) = properties_of_feed feed"
| "local_properties (Scaled scaled) = properties_of_feed (ss_factor scaled)"
| "local_properties (AquariusLp lp) = properties_empty\<lparr>sp_unsmoothed := True\<rparr>"
| "local_properties (AquariusStableLp lp) = properties_empty\<lparr>sp_unsmoothed := True\<rparr>"
| "local_properties (CurveStableLp lp) = properties_empty\<lparr>sp_unsmoothed := True\<rparr>"

definition require_depth :: "nat \<Rightarrow> ('w, unit) sflow" where
  "require_depth depth = fassert (\<not> depth > MAX_RESOLUTION_DEPTH) (Oracle OracleDepthExceeded)"

type_synonym 'w key_properties = "price_key \<Rightarrow> nat \<Rightarrow> ('w, source_properties) sflow"

definition source_properties_step :: "'w key_properties \<Rightarrow> price_source \<Rightarrow> nat \<Rightarrow> ('w, source_properties) sflow" where
  "source_properties_step recurse source depth =
     fbind (require_depth depth) (\<lambda>_.
     fbind (ffold (\<lambda>key properties.
              fbind (recurse key (Suc depth)) (\<lambda>dependency. fret (properties_join properties dependency)))
              (dependencies source) (local_properties source)) (\<lambda>properties.
     fret (properties\<lparr>sp_depth := max (sp_depth properties) depth\<rparr>)))"

definition key_properties_step :: "'w key_properties \<Rightarrow> price_key \<Rightarrow> nat \<Rightarrow> ('w, source_properties) sflow" where
  "key_properties_step recurse key depth =
     fbind (require_depth depth) (\<lambda>_.
     fbind (push_key key) (\<lambda>_.
     fbind (fread (\<lambda>s. get_oracle (se_oracles s) key)) (\<lambda>found.
     fbind (flift (unwrap_or_panic found (Oracle OracleNotConfigured))) (\<lambda>oracle.
     fbind (ffold (\<lambda>source joined.
              fbind (source_properties_step recurse source depth) (\<lambda>p. fret (properties_join joined p)))
              (ao_sources oracle) properties_empty) (\<lambda>joined.
     fbind pop_key (\<lambda>_. fret joined))))))"

function properties_of_key :: "'w key_properties" where
  "properties_of_key key depth =
     key_properties_step
       (\<lambda>k d. if d = Suc depth \<and> depth \<le> MAX_RESOLUTION_DEPTH then properties_of_key k d
              else flift (Inl (Oracle OracleDepthExceeded))) key depth"
  by pat_completeness auto
termination
  by (relation "measure (\<lambda>(key, depth). Suc MAX_RESOLUTION_DEPTH - depth)") auto

declare properties_of_key.simps [simp del]

definition properties_of_source :: "price_source \<Rightarrow> nat \<Rightarrow> ('w, source_properties) sflow" where
  "properties_of_source = source_properties_step properties_of_key"

definition source_count :: "nat \<Rightarrow> unit res" where
  "source_count count = assert_with_error (MIN_SOURCES \<le> count \<and> count \<le> MAX_SOURCES) (Oracle SourceCountOutOfRange)"

definition properties_of_config :: "price_source list \<Rightarrow> ('w, source_properties \<times> source_properties option) sflow" where
  "properties_of_config sources =
     fbind (flift (source_count (length sources))) (\<lambda>_.
     fbind (properties_of_source (sources ! 0) 0) (\<lambda>first.
     if length sources = 2
     then fbind (properties_of_source (sources ! 1) 0) (\<lambda>second. fret (first, Some second))
     else fret (first, None)))"

definition properties_combined :: "source_properties \<times> source_properties option \<Rightarrow> source_properties" where
  "properties_combined derived =
     (case snd derived of Some second \<Rightarrow> properties_join (fst derived) second | None \<Rightarrow> fst derived)"

section \<open>Checks on a configuration\<close>

definition MIN_PRICE_STALE_SECONDS :: nat where
  "MIN_PRICE_STALE_SECONDS = 60"

definition MAX_PRICE_STALE_SECONDS :: nat where
  "MAX_PRICE_STALE_SECONDS = 93600"

definition MIN_ORACLE_DECIMALS :: nat where
  "MIN_ORACLE_DECIMALS = 1"

definition MAX_ORACLE_DECIMALS :: nat where
  "MAX_ORACLE_DECIMALS = 18"

definition MIN_SMOOTHING_TWAP_RECORDS :: nat where
  "MIN_SMOOTHING_TWAP_RECORDS = 3"

definition composition_depth :: "source_properties \<Rightarrow> unit res" where
  "composition_depth p = assert_with_error (\<not> sp_depth p > MAX_RESOLUTION_DEPTH) (Oracle OracleDepthExceeded)"

definition staleness_envelope :: "nat \<Rightarrow> source_properties \<Rightarrow> unit res" where
  "staleness_envelope asset_max_stale_seconds p =
     assert_with_error
       (\<not> (\<not> (MIN_PRICE_STALE_SECONDS \<le> asset_max_stale_seconds \<and> asset_max_stale_seconds \<le> MAX_PRICE_STALE_SECONDS) \<or>
           sp_loosest_max_stale p > asset_max_stale_seconds)) (Oracle InvalidStalenessConfig)"

definition smoothing :: "source_properties \<Rightarrow> source_properties option \<Rightarrow> unit res" where
  "smoothing first second =
     assert_with_error
       (\<not> (sp_unsmoothed first \<and> (case second of None \<Rightarrow> True | Some source \<Rightarrow> sp_unsmoothed source)))
       (Generic SpotOnlyNotProductionSafe)"

definition covers :: "address list \<Rightarrow> address list \<Rightarrow> bool" where
  "covers outer inner \<longleftrightarrow> list_all (\<lambda>a. a \<in> set outer) inner"

definition same_address_set :: "address list \<Rightarrow> address list \<Rightarrow> bool" where
  "same_address_set left right \<longleftrightarrow> covers left right \<and> covers right left"

definition independence :: "source_properties \<Rightarrow> source_properties \<Rightarrow> independence_policy \<Rightarrow> bool \<Rightarrow> unit res" where
  "independence first second policy exact =
     (let shared = shared_contracts_with first second in
      case policy of
        RequireDisjoint \<Rightarrow> assert_with_error (shared = []) (Oracle IndependenceNotDeclared)
      | AllowShared declared \<Rightarrow>
          assert_with_error (\<not> (declared = [] \<or> \<not> covers declared shared \<or> (exact \<and> \<not> covers shared declared)))
            (Oracle IndependenceNotDeclared))"

definition feed_shape :: "feed_source \<Rightarrow> unit res" where
  "feed_shape feed =
     rbind (assert_with_error (MIN_ORACLE_DECIMALS \<le> fs_decimals feed \<and> fs_decimals feed \<le> MAX_ORACLE_DECIMALS)
              (Oracle InvalidOracleDecimals)) (\<lambda>_.
     rbind (assert_with_error
              (MIN_PRICE_STALE_SECONDS \<le> fs_max_stale_seconds feed \<and> fs_max_stale_seconds feed \<le> MAX_PRICE_STALE_SECONDS)
              (Oracle InvalidStalenessConfig)) (\<lambda>_.
     case fs_provider feed of
       Reflector r \<Rightarrow>
         rbind (assert_with_error (\<not> (case rff_asset r of Asset_String x \<Rightarrow> True | _ \<Rightarrow> False)) (Oracle InvalidOracleTokenType)) (\<lambda>_.
         case rff_read_mode r of
           Twap records \<Rightarrow>
             rbind (validate_twap_records records) (\<lambda>_.
             assert_with_error (\<not> records < MIN_SMOOTHING_TWAP_RECORDS) (Oracle TwapInsufficientObservations))
         | Spot \<Rightarrow> Inr ())
     | _ \<Rightarrow> Inr ()))"

definition factor_bounds :: "scaled_source \<Rightarrow> unit res" where
  "factor_bounds scaled =
     assert_with_error
       (\<not> (ss_min_factor_wad scaled \<le> 0 \<or> ss_max_factor_wad scaled < ss_min_factor_wad scaled \<or>
           ss_max_factor_wad scaled > MAX_REASONABLE_PRICE_WAD)) (Oracle InvalidSanityBounds)"

definition key_prices_token :: "price_key \<Rightarrow> address \<Rightarrow> bool" where
  "key_prices_token key tok = (case key of Token a \<Rightarrow> a = tok | Ref s \<Rightarrow> True)"

definition aquarius_lp_shape :: "aquarius_lp_source \<Rightarrow> unit res" where
  "aquarius_lp_shape lp =
     rbind (assert_with_error
              (list_all (\<lambda>d. MIN_ASSET_DECIMALS \<le> d \<and> d \<le> MAX_ASSET_DECIMALS) [aq_reserve_a_decimals lp, aq_reserve_b_decimals lp])
              (Oracle InvalidOracleDecimals)) (\<lambda>_.
     assert_with_error
       (\<not> (aq_token_a lp = aq_token_b lp \<or> aq_key_a lp = aq_key_b lp \<or> \<not> key_prices_token (aq_key_a lp) (aq_token_a lp) \<or>
           \<not> key_prices_token (aq_key_b lp) (aq_token_b lp) \<or> aq_min_pool_value_wad lp \<le> 0)) (Oracle InvalidOracleBase))"

primrec source_shape :: "price_source \<Rightarrow> unit res" where
  "source_shape (Feed feed) = feed_shape feed"
| "source_shape (Scaled scaled) = rbind (feed_shape (ss_factor scaled)) (\<lambda>_. factor_bounds scaled)"
| "source_shape (AquariusLp lp) = aquarius_lp_shape lp"
| "source_shape (AquariusStableLp lp) = aquarius_lp_shape lp"
| "source_shape (CurveStableLp lp) =
     assert_with_error
       (\<not> (\<not> (2 \<le> length (cv_coins lp) \<and> length (cv_coins lp) \<le> MAX_CURVE_COINS) \<or> cv_min_pool_value_wad lp \<le> 0))
       (Oracle InvalidOracleBase)"

definition validate_asset_decimals :: "price_key \<Rightarrow> nat \<Rightarrow> unit res" where
  "validate_asset_decimals key decimals =
     assert_with_error
       (case key of Token a \<Rightarrow> MIN_ASSET_DECIMALS \<le> decimals \<and> decimals \<le> MAX_ASSET_DECIMALS | Ref s \<Rightarrow> decimals = 0)
       (Oracle InvalidOracleDecimals)"

section \<open>Warming a session\<close>

type_synonym feeds_by_adapter = "(address, string list) smap"

definition collect_provider :: "provider_ref \<Rightarrow> feeds_by_adapter \<Rightarrow> feeds_by_adapter" where
  "collect_provider provider by_adapter =
     (let record_feed = (\<lambda>feed :: multi_feed_ref.
            let feeds = (case map_of by_adapter (mff_contract feed) of Some fs \<Rightarrow> fs | None \<Rightarrow> []) in
            smap_set (mff_contract feed) (push_unique (mff_feed_id feed) feeds) by_adapter) in
      case provider of
        RedStone feed \<Rightarrow> record_feed feed
      | XoxnoFeed feed \<Rightarrow> record_feed feed
      | Chainlink c \<Rightarrow> by_adapter
      | Reflector r \<Rightarrow> by_adapter)"

definition collect_step :: "oracle_registry \<Rightarrow> (price_key \<Rightarrow> nat \<Rightarrow> feeds_by_adapter \<times> price_key list \<Rightarrow> feeds_by_adapter \<times> price_key list) \<Rightarrow>
    price_key \<Rightarrow> nat \<Rightarrow> feeds_by_adapter \<times> price_key list \<Rightarrow> feeds_by_adapter \<times> price_key list" where
  "collect_step oracles recurse key depth acc =
     (if depth > MAX_RESOLUTION_DEPTH \<or> key \<in> set (snd acc) then acc
      else
        let acc = (fst acc, snd acc @ [key]) in
        case get_oracle oracles key of
          None \<Rightarrow> acc
        | Some oracle \<Rightarrow>
            fold (\<lambda>source acc.
              let acc = (case source of
                           Feed feed \<Rightarrow> (collect_provider (fs_provider feed) (fst acc), snd acc)
                         | Scaled scaled \<Rightarrow> (collect_provider (fs_provider (ss_factor scaled)) (fst acc), snd acc)
                         | _ \<Rightarrow> acc) in
              fold (\<lambda>dependency acc. recurse dependency (Suc depth) acc) (dependencies source) acc)
              (ao_sources oracle) acc)"

function collect_key :: "oracle_registry \<Rightarrow> price_key \<Rightarrow> nat \<Rightarrow> feeds_by_adapter \<times> price_key list \<Rightarrow> feeds_by_adapter \<times> price_key list" where
  "collect_key oracles key depth acc =
     collect_step oracles
       (\<lambda>k d a. if d = Suc depth \<and> depth \<le> MAX_RESOLUTION_DEPTH then collect_key oracles k d a else a) key depth acc"
  by pat_completeness auto
termination
  by (relation "measure (\<lambda>(oracles, key, depth, acc). Suc MAX_RESOLUTION_DEPTH - depth)") auto

declare collect_key.simps [simp del]

definition MIN_BULK_FEEDS :: nat where
  "MIN_BULK_FEEDS = 2"

definition warm_adapter :: "'w oracle_ext \<Rightarrow> address \<times> string list \<Rightarrow> ('w, unit) sflow" where
  "warm_adapter ext entry =
     (case entry of (adapter, feeds) \<Rightarrow>
      if length feeds < MIN_BULK_FEEDS then fret ()
      else
        fbind (read_price_data_bulk ext adapter feeds) (\<lambda>answer.
        case answer of
          None \<Rightarrow> fret ()
        | Some payloads \<Rightarrow> ffold (\<lambda>(feed_id, payload) _. set_feed adapter feed_id payload) (zip feeds payloads) ()))"

definition warm :: "'w oracle_ext \<Rightarrow> price_key list \<Rightarrow> ('w, unit) sflow" where
  "warm ext keys =
     fbind (fread se_oracles) (\<lambda>oracles.
     let (by_adapter, visited) = fold (\<lambda>key acc. collect_key oracles key 0 acc) keys ([], []) in
     ffold (\<lambda>entry _. warm_adapter ext entry) by_adapter ())"

section \<open>Contract state\<close>

record 'w aggregator =
  ag_owner :: "address option"
  ag_oracles :: oracle_registry
  ag_oracle_keys :: "price_key list option"
  ag_code :: "nat list"
  ag_now :: nat
  ag_auth :: "address \<Rightarrow> bool"
  ag_world :: 'w

type_synonym ('w, 'a) aflow = "('w aggregator, 'a) flow"

definition with_session :: "('w, 'a) sflow \<Rightarrow> ('w, 'a) aflow" where
  "with_session m a =
     rbind (m (session_new (ag_oracles a) (ag_now a) (ag_world a))) (\<lambda>(x, se). Inr (x, a\<lparr>ag_world := se_world se\<rparr>))"

definition oracle_keys :: "'w aggregator \<Rightarrow> price_key list" where
  "oracle_keys a = (case ag_oracle_keys a of Some keys \<Rightarrow> keys | None \<Rightarrow> [])"

definition store_oracle :: "price_key \<Rightarrow> asset_oracle \<Rightarrow> 'w aggregator \<Rightarrow> 'w aggregator" where
  "store_oracle key oracle a =
     (let a = a\<lparr>ag_oracles := AList.update key oracle (ag_oracles a)\<rparr>; registered = oracle_keys a in
      if key \<notin> set registered then a\<lparr>ag_oracle_keys := Some (registered @ [key])\<rparr> else a)"

definition ag_only_owner :: "('w, 'a) aflow \<Rightarrow> ('w, 'a) aflow" where
  "ag_only_owner body =
     fbind (fread ag_owner) (\<lambda>stored.
     fbind (flift (unwrap_or_panic stored (Host OwnableOwnerNotSet))) (\<lambda>owner.
     fbind (fread (\<lambda>a. ag_auth a owner)) (\<lambda>authorised.
     fbind (fassert authorised (Host AuthFailed)) (\<lambda>_. body))))"

section \<open>Attestation\<close>

definition CHAINLINK_DECIMALS :: nat where
  "CHAINLINK_DECIMALS = 18"

definition attest_base :: "reflector_asset \<Rightarrow> price_key option \<Rightarrow> unit res" where
  "attest_base base_asset quote =
     assert_with_error
       (case (base_asset, quote) of
          (Other symbol, None) \<Rightarrow> symbol = ''USD''
        | (Stellar a, Some (Token quote_asset)) \<Rightarrow> a = quote_asset
        | _ \<Rightarrow> False) (Oracle InvalidOracleBase)"

definition reflector_attest :: "'w oracle_ext \<Rightarrow> reflector_feed_ref \<Rightarrow> nat \<Rightarrow> nat \<Rightarrow> price_key option \<Rightarrow> ('w, unit) sflow" where
  "reflector_attest ext feed decimals max_stale quote =
     fbind (oracle_call_hard (ox_base ext (rff_contract feed))) (\<lambda>base_asset.
     fbind (flift (attest_base base_asset quote)) (\<lambda>_.
     fbind (oracle_call_hard (ox_decimals ext (rff_contract feed))) (\<lambda>d.
     fbind (fassert (d = decimals) (Oracle InvalidOracleDecimals)) (\<lambda>_.
     fbind (oracle_call_hard (ox_resolution ext (rff_contract feed))) (\<lambda>resolution.
     fbind (fassert (resolution \<ge> MIN_ORACLE_RESOLUTION_SECONDS \<and> resolution \<le> max_stale) (Oracle InvalidOracleResolution)) (\<lambda>_.
     case rff_read_mode feed of
       Twap records \<Rightarrow> fassert (twap_required_span records resolution \<le> max_stale) (Oracle InvalidOracleResolution)
     | Spot \<Rightarrow> fret ()))))))"

definition attest_feed :: "'w oracle_ext \<Rightarrow> feed_source \<Rightarrow> price_key option \<Rightarrow> ('w, unit) sflow" where
  "attest_feed ext feed quote =
     (case fs_provider feed of
        Reflector r \<Rightarrow> reflector_attest ext r (fs_decimals feed) (fs_max_stale_seconds feed) quote
      | RedStone r \<Rightarrow> fassert (fs_decimals feed = REDSTONE_DECIMALS) (Oracle InvalidOracleDecimals)
      | Chainlink c \<Rightarrow> fassert (fs_decimals feed = CHAINLINK_DECIMALS) (Oracle InvalidOracleDecimals)
      | XoxnoFeed x \<Rightarrow>
          fbind (oracle_call_hard (ox_decimals ext (mff_contract x))) (\<lambda>d.
          fbind (fassert (d = fs_decimals feed) (Oracle InvalidOracleDecimals)) (\<lambda>_.
          fbind (oracle_call_hard (ox_max_submission_age ext (mff_contract x))) (\<lambda>age.
          fassert (fs_max_stale_seconds feed \<ge> age) (Oracle InvalidStalenessConfig)))))"

definition aquarius_attest :: "'w oracle_ext \<Rightarrow> price_key \<Rightarrow> asset_oracle \<Rightarrow> aquarius_lp_source \<Rightarrow> bool \<Rightarrow> ('w, unit) sflow" where
  "aquarius_attest ext key oracle lp is_stable =
     fbind (bound_tokens ext key lp) (\<lambda>bound.
     fbind (flift (unwrap_or_panic bound (Oracle InvalidOracleBase))) (\<lambda>tokens.
     fbind (fbind (pool_kind_matches ext lp is_stable) (\<lambda>kind.
            if \<not> kind then fret False
            else fbind (if \<not> is_stable then fret True
                        else fbind (aquarius_amp_call ext (aq_pool lp)) (\<lambda>amp. fret (amp \<noteq> None))) (\<lambda>amp_ok.
                 if \<not> amp_ok then fret False
                 else fbind (aquarius_pool_reserves_call ext (aq_pool lp)) (\<lambda>reserves.
                      fret (case reserves of Some (a, b) \<Rightarrow> a > 0 \<and> b > 0 | None \<Rightarrow> False))))) (\<lambda>supported.
     fbind (fassert supported (Oracle UnsupportedAquariusPool)) (\<lambda>_.
     fbind (aquarius_total_shares_call ext (aq_pool lp)) (\<lambda>shares.
     fbind (fassert (case shares of Some n \<Rightarrow> n > 0 | None \<Rightarrow> False) (Oracle UnsupportedAquariusPool)) (\<lambda>_.
     case key of
       Ref s \<Rightarrow> flift (Inl (Oracle InvalidOracleBase))
     | Token share \<Rightarrow>
         fbind (decimals_match ext share tokens (ao_asset_decimals oracle) lp) (\<lambda>matches.
         fassert matches (Oracle InvalidOracleDecimals))))))))"

definition attest_source :: "'w oracle_ext \<Rightarrow> price_key \<Rightarrow> asset_oracle \<Rightarrow> price_source \<Rightarrow> ('w, unit) sflow" where
  "attest_source ext key oracle source =
     (case source of
        Feed feed \<Rightarrow> attest_feed ext feed None
      | Scaled scaled \<Rightarrow> attest_feed ext (ss_factor scaled) (Some (ss_quote scaled))
      | AquariusLp lp \<Rightarrow> aquarius_attest ext key oracle lp False
      | AquariusStableLp lp \<Rightarrow> aquarius_attest ext key oracle lp True
      | CurveStableLp lp \<Rightarrow> fret ())"

definition attest_sources :: "'w oracle_ext \<Rightarrow> price_key \<Rightarrow> asset_oracle \<Rightarrow> ('w, unit) sflow" where
  "attest_sources ext key oracle = ffold (\<lambda>source _. attest_source ext key oracle source) (ao_sources oracle) ()"

section \<open>Administration\<close>

function depends_on :: "oracle_registry \<Rightarrow> price_key \<Rightarrow> price_key \<Rightarrow> price_key list \<Rightarrow> bool" where
  "depends_on oracles root target visiting =
     (if root \<in> set visiting then False
      else case get_oracle oracles root of
             None \<Rightarrow> False
           | Some oracle \<Rightarrow>
               list_ex (\<lambda>source.
                 list_ex (\<lambda>dependency.
                   dependency = target \<or> depends_on oracles dependency target (visiting @ [root])) (dependencies source))
                 (ao_sources oracle))"
  by pat_completeness auto
termination
proof (relation "measure (\<lambda>(oracles, root, target, visiting). card (set (map fst oracles) - set visiting))", simp)
  fix oracles :: oracle_registry
  fix root target visiting asset_cfg dependency
  assume new: "root \<notin> set visiting" and found: "get_oracle oracles root = Some asset_cfg"
  from found have "root \<in> set (map fst oracles)"
    unfolding get_oracle_def by (metis map_of_eq_None_iff option.distinct(1) image_set)
  with new have "set (map fst oracles) - set (visiting @ [root]) \<subset> set (map fst oracles) - set visiting" by auto
  then have "card (set (map fst oracles) - set (visiting @ [root])) < card (set (map fst oracles) - set visiting)"
    by (intro psubset_card_mono) auto
  then show "((oracles, dependency, target, visiting @ [root]), oracles, root, target, visiting)
      \<in> measure (\<lambda>(oracles, root, target, visiting). card (set (map fst oracles) - set visiting))" by simp
qed

declare depends_on.simps [simp del]

definition validate_oracle :: "price_key \<Rightarrow> asset_oracle \<Rightarrow> bool \<Rightarrow> ('w, unit) sflow" where
  "validate_oracle key oracle exact_independence =
     fbind (push_key key) (\<lambda>_.
     fbind (properties_of_config (ao_sources oracle)) (\<lambda>derived.
     fbind pop_key (\<lambda>_.
     flift (
       rbind (validate_sanity_bounds (ao_min_sanity_price_wad oracle) (ao_max_sanity_price_wad oracle)) (\<lambda>_.
       rbind (if has_lp_source oracle
              then validate_lp_sanity_band (ao_min_sanity_price_wad oracle) (ao_max_sanity_price_wad oracle)
              else validate_single_source_sanity_band
                     (case snd derived of
                        None \<Rightarrow> False
                      | Some second \<Rightarrow> \<not> same_address_set (sp_trust (fst derived)) (sp_trust second))
                     (ao_min_sanity_price_wad oracle) (ao_max_sanity_price_wad oracle)) (\<lambda>_.
       rbind (validate_asset_decimals key (ao_asset_decimals oracle)) (\<lambda>_.
       rbind (rfold (\<lambda>source _. source_shape source) (ao_sources oracle) ()) (\<lambda>_.
       rbind (assert_with_error (\<not> (list_ex is_lp (ao_sources oracle) \<and> length (ao_sources oracle) \<noteq> 1))
                (Oracle SourceCountOutOfRange)) (\<lambda>_.
       rbind (composition_depth (fst derived)) (\<lambda>_.
       rbind (case snd derived of Some second \<Rightarrow> composition_depth second | None \<Rightarrow> Inr ()) (\<lambda>_.
       rbind (staleness_envelope (ao_max_price_stale_seconds oracle) (properties_combined derived)) (\<lambda>_.
       rbind (if \<not> has_lp_source oracle
              then rbind (smoothing (fst derived) (snd derived)) (\<lambda>_. validate_oracle_tolerance (ao_tolerance oracle))
              else Inr ()) (\<lambda>_.
       case snd derived of
         Some second \<Rightarrow> independence (fst derived) second (ao_independence oracle) exact_independence
       | None \<Rightarrow> Inr ()))))))))))))) "

definition revalidate_dependents :: "price_key \<Rightarrow> ('w, unit) aflow" where
  "revalidate_dependents changed =
     fbind (fread oracle_keys) (\<lambda>keys.
     ffold (\<lambda>candidate _.
       fbind (fread ag_oracles) (\<lambda>oracles.
       if candidate = changed \<or> \<not> depends_on oracles candidate changed [] then fret ()
       else
         fbind (flift (unwrap_or_panic (get_oracle oracles candidate) (Oracle OracleNotConfigured))) (\<lambda>oracle.
         with_session (validate_oracle candidate oracle False)))) keys ())"

definition set_oracle :: "'w oracle_ext \<Rightarrow> price_key \<Rightarrow> asset_oracle \<Rightarrow> ('w, unit) aflow" where
  "set_oracle ext key oracle =
     fbind (fread (\<lambda>a. get_oracle (ag_oracles a) key)) (\<lambda>stored.
     fbind (case stored of
              Some stored \<Rightarrow> fassert (ao_asset_decimals stored = ao_asset_decimals oracle) (Oracle InvalidOracleDecimals)
            | None \<Rightarrow> fret ()) (\<lambda>_.
     fbind (with_session (validate_oracle key oracle True)) (\<lambda>_.
     fbind (with_session (attest_sources ext key oracle)) (\<lambda>_.
     fbind (with_session (if has_lp_source oracle then probe_priceable ext key oracle else probe ext key oracle)) (\<lambda>_.
     fbind (fwrite (store_oracle key oracle)) (\<lambda>_.
     revalidate_dependents key))))))"

definition set_sanity_band :: "'w oracle_ext \<Rightarrow> price_key \<Rightarrow> int \<Rightarrow> int \<Rightarrow> ('w, unit) aflow" where
  "set_sanity_band ext key min_wad max_wad =
     fbind (fread (\<lambda>a. get_oracle (ag_oracles a) key)) (\<lambda>stored.
     fbind (flift (unwrap_or_panic stored (Oracle OracleNotConfigured))) (\<lambda>oracle.
     fbind (fassert (min_wad \<ge> ao_min_sanity_price_wad oracle \<and> max_wad \<le> ao_max_sanity_price_wad oracle)
              (Oracle SanityBandMustTighten)) (\<lambda>_.
     let oracle = oracle\<lparr>ao_min_sanity_price_wad := min_wad, ao_max_sanity_price_wad := max_wad\<rparr> in
     fbind (with_session (validate_oracle key oracle False)) (\<lambda>_.
     fbind (with_session (probe ext key oracle)) (\<lambda>_.
     fwrite (store_oracle key oracle))))))"

definition set_tolerance :: "'w oracle_ext \<Rightarrow> price_key \<Rightarrow> oracle_tolerance \<Rightarrow> ('w, unit) aflow" where
  "set_tolerance ext key tolerance =
     fbind (fread (\<lambda>a. get_oracle (ag_oracles a) key)) (\<lambda>stored.
     fbind (flift (unwrap_or_panic stored (Oracle OracleNotConfigured))) (\<lambda>oracle.
     fbind (fassert (\<not> has_lp_source oracle) (Oracle SourceCountOutOfRange)) (\<lambda>_.
     fbind (flift (validate_oracle_tolerance tolerance)) (\<lambda>_.
     let oracle = oracle\<lparr>ao_tolerance := tolerance\<rparr> in
     fbind (with_session (probe ext key oracle)) (\<lambda>_.
     fwrite (store_oracle key oracle))))))"

section \<open>Entrypoints\<close>

definition ag_constructor :: "address \<Rightarrow> ('w, unit) aflow" where
  "ag_constructor owner = fwrite (\<lambda>a. a\<lparr>ag_owner := Some owner\<rparr>)"

definition prices :: "'w oracle_ext \<Rightarrow> price_key list \<Rightarrow> ('w, price_key \<rightharpoonup> price_feed_raw) aflow" where
  "prices ext keys =
     with_session (
       fbind (warm ext keys) (\<lambda>_.
       ffold (\<lambda>key out. fbind (resolve ext key 0) (\<lambda>feed. fret (out(key \<mapsto> feed)))) keys Map.empty))"

definition quotes :: "'w oracle_ext \<Rightarrow> price_key list \<Rightarrow> ('w, price_key \<rightharpoonup> price_status) aflow" where
  "quotes ext keys =
     with_session (
       fbind (warm ext keys) (\<lambda>_.
       ffold (\<lambda>key out. fbind (resolve_status ext key 0) (\<lambda>status. fret (out(key \<mapsto> status)))) keys Map.empty))"

definition price_spread :: "'w oracle_ext \<Rightarrow> price_key \<Rightarrow> ('w, int \<times> int) aflow" where
  "price_spread ext key =
     with_session (
       fbind (warm ext [key]) (\<lambda>_.
       fbind (resolve_detailed ext key 0) (\<lambda>(_, oc).
       fret (min (oc_first_wad oc) (oc_second_wad oc), max (oc_first_wad oc) (oc_second_wad oc)))))"

datatype ag_call =
    Ag_Set_Oracle price_key asset_oracle
  | Ag_Set_Sanity_Band price_key int int
  | Ag_Set_Tolerance price_key oracle_tolerance
  | Ag_Upgrade "nat list"

primrec ag_dispatch :: "'w oracle_ext \<Rightarrow> ag_call \<Rightarrow> ('w, unit) aflow" where
  "ag_dispatch ext (Ag_Set_Oracle key oracle) = ag_only_owner (set_oracle ext key oracle)"
| "ag_dispatch ext (Ag_Set_Sanity_Band key min_wad max_wad) = ag_only_owner (set_sanity_band ext key min_wad max_wad)"
| "ag_dispatch ext (Ag_Set_Tolerance key tolerance) = ag_only_owner (set_tolerance ext key tolerance)"
| "ag_dispatch ext (Ag_Upgrade code) = ag_only_owner (fwrite (\<lambda>a. a\<lparr>ag_code := code\<rparr>))"

end
