(* ===== verification/Aggregator_Graph.thy ===== *)
theory Aggregator_Graph
  imports Aggregator
begin

text \<open>
  The dependency graph of the registry. First the recursions of the source without the depth guard
  that their definitions carry for termination. Then what the walks over the registry compute:
  \<open>depends_on\<close> is reachability in the graph, and a walk of \<^verbatim>\<open>properties_of_key\<close> that returns
  shows that every path from the key is acyclic, within the depth limit and fully configured
  (\<open>supported\<close>). Last, how \<open>supported\<close> behaves when one entry of the registry is replaced.
\<close>

section \<open>The recursions without their guards\<close>

lemma curve_coin_prices_cong:
  assumes eq: "\<And>k. n1 k (Suc depth) = n2 k (Suc depth)"
  shows "curve_coin_prices n1 depth coins acc = curve_coin_prices n2 depth coins acc"
  by (induction coins arbitrary: acc) (simp_all add: eq)

lemma evaluate_source_cong:
  assumes eq: "\<And>k. n1 k (Suc depth) = n2 k (Suc depth)"
  shows "evaluate_source ext n1 key source decimals depth = evaluate_source ext n2 key source decimals depth"
proof -
  have "read_scaled ext n1 scaled depth = read_scaled ext n2 scaled depth" for scaled
    unfolding read_scaled_def eq by (rule refl)
  moreover have "aquarius_read ext n1 key lp decimals depth st = aquarius_read ext n2 key lp decimals depth st" for lp st
    unfolding aquarius_read_def eq by (rule refl)
  moreover have "curve_read ext n1 key lp decimals depth = curve_read ext n2 key lp decimals depth" for lp
    unfolding curve_read_def curve_coin_prices_cong [of n1 depth n2, OF eq] by (rule refl)
  ultimately show ?thesis unfolding evaluate_source_def by presburger
qed

lemma compose_cong:
  assumes eq: "\<And>k. n1 k (Suc depth) = n2 k (Suc depth)"
  shows "compose ext n1 key cfg depth = compose ext n2 key cfg depth"
  unfolding compose_def read_source_def evaluate_source_cong [of n1 depth n2, OF eq] by (rule refl)

lemma resolve_outcome_cong:
  assumes eq: "\<And>k. depth \<le> MAX_RESOLUTION_DEPTH \<Longrightarrow> n1 k (Suc depth) = n2 k (Suc depth)"
  shows "resolve_outcome ext n1 key depth ov = resolve_outcome ext n2 key depth ov"
proof (cases "depth \<le> MAX_RESOLUTION_DEPTH")
  case True
  then have "compose ext n1 key cfg depth = compose ext n2 key cfg depth" for cfg
    by (intro compose_cong eq)
  then show ?thesis unfolding resolve_outcome_def by presburger
qed (simp add: resolve_outcome_def)

lemma resolve_nested_unfold: "resolve_nested ext key depth = nested_step ext (resolve_nested ext) key depth"
proof -
  let ?guarded = "\<lambda>k d. if d = Suc depth \<and> depth \<le> MAX_RESOLUTION_DEPTH then resolve_nested ext k d else eerr OracleDepthExceeded"
  have "resolve_outcome ext ?guarded key depth None = resolve_outcome ext (resolve_nested ext) key depth None"
    by (rule resolve_outcome_cong) simp
  then have "nested_step ext ?guarded key depth = nested_step ext (resolve_nested ext) key depth"
    unfolding nested_step_def by presburger
  then show ?thesis by (subst resolve_nested.simps)
qed

lemma validate_cached_path_unfold: "validate_cached_path key depth = cached_path_step validate_cached_path key depth"
proof (cases "depth \<le> MAX_RESOLUTION_DEPTH")
  case True
  then have guard: "(if Suc depth = Suc depth \<and> depth \<le> MAX_RESOLUTION_DEPTH then x else y) = x" for x y :: "('a, unit) eflow"
    by simp
  show ?thesis by (subst validate_cached_path.simps) (unfold cached_path_step_def guard, rule refl)
qed (subst validate_cached_path.simps, simp add: cached_path_step_def)

lemma properties_of_key_unfold: "properties_of_key key depth = key_properties_step properties_of_key key depth"
proof (cases "depth \<le> MAX_RESOLUTION_DEPTH")
  case True then show ?thesis
    by (subst properties_of_key.simps) (simp add: key_properties_step_def source_properties_step_def)
next
  case False
  then have "require_depth depth = (flift (Inl (Oracle OracleDepthExceeded)) :: ('a, unit) sflow)"
    by (simp add: require_depth_def fassert_def assert_with_error_def)
  then show ?thesis
    by (subst properties_of_key.simps) (simp add: key_properties_step_def fbind_def flift_def fun_eq_iff)
qed

section \<open>Reachability\<close>

definition dep_edges :: "oracle_registry \<Rightarrow> (price_key \<times> price_key) set" where
  "dep_edges R = {(k, d). \<exists>cfg. get_oracle R k = Some cfg \<and> (\<exists>source \<in> set (ao_sources cfg). d \<in> set (dependencies source))}"

lemma last_visit:
  assumes "(a, b) \<in> r\<^sup>+"
  shows "\<exists>d. (a, d) \<in> r \<and> (d, b) \<in> {(x, y) \<in> r. x \<noteq> a}\<^sup>*"
  using assms
proof (induction rule: trancl_induct)
  case (base y) then show ?case by blast
next
  case (step y z)
  show ?case
  proof (cases "y = a")
    case True with step.hyps(2) show ?thesis by blast
  next
    case False
    with step.hyps(2) step.IH show ?thesis by (blast intro: rtrancl_into_rtrancl)
  qed
qed

lemma depends_on_restricted:
  "depends_on R root target visiting \<longleftrightarrow> (root, target) \<in> {(x, y) \<in> dep_edges R. x \<notin> set visiting}\<^sup>+"
proof (induction R root target visiting rule: depends_on.induct)
  case (1 R root target visiting)
  let ?E = "\<lambda>V. {(x, y) \<in> dep_edges R. x \<notin> V}"
  have restrict: "{(x, y) \<in> ?E (set visiting). x \<noteq> root} = ?E (set (visiting @ [root]))" by auto
  have "(root, target) \<in> (?E (set visiting))\<^sup>+ \<longleftrightarrow>
      root \<notin> set visiting \<and> (\<exists>d. (root, d) \<in> dep_edges R \<and> (d = target \<or> (d, target) \<in> (?E (set (visiting @ [root])))\<^sup>+))"
    (is "?path \<longleftrightarrow> ?step")
  proof
    assume p: ?path
    from tranclD [OF p] have out: "root \<notin> set visiting" by auto
    from last_visit [OF p] show ?step unfolding restrict by (auto simp: rtrancl_eq_or_trancl out)
  next
    assume s: ?step
    have mono: "(?E (set (visiting @ [root])))\<^sup>+ \<subseteq> (?E (set visiting))\<^sup>+"
      by (rule subsetI, erule trancl_mono) auto
    from s obtain d where edge: "(root, d) \<in> ?E (set visiting)"
      and rest: "d = target \<or> (d, target) \<in> (?E (set (visiting @ [root])))\<^sup>+" by auto
    from rest mono have "d = target \<or> (d, target) \<in> (?E (set visiting))\<^sup>+" by blast
    with edge show ?path by (auto intro: trancl_into_trancl2)
  qed
  also have "\<dots> \<longleftrightarrow> depends_on R root target visiting"
  proof (cases "root \<in> set visiting")
    case True then show ?thesis by (subst depends_on.simps) simp
  next
    case False
    show ?thesis
    proof (cases "get_oracle R root")
      case None with False show ?thesis by (subst depends_on.simps) (simp add: dep_edges_def)
    next
      case (Some cfg)
      have "depends_on R root target visiting \<longleftrightarrow>
          (\<exists>source \<in> set (ao_sources cfg). \<exists>d \<in> set (dependencies source).
             d = target \<or> depends_on R d target (visiting @ [root]))"
        by (subst depends_on.simps) (simp add: False Some list_ex_iff)
      moreover have "(root, d) \<in> dep_edges R \<longleftrightarrow> (\<exists>source \<in> set (ao_sources cfg). d \<in> set (dependencies source))" for d
        by (simp add: dep_edges_def Some)
      ultimately show ?thesis using False "1.IH" [OF False Some] by auto
    qed
  qed
  finally show ?case by simp
qed

lemma depends_on_trancl: "depends_on R root target [] \<longleftrightarrow> (root, target) \<in> (dep_edges R)\<^sup>+"
  by (simp add: depends_on_restricted)

section \<open>Supported keys\<close>

primrec supported :: "oracle_registry \<Rightarrow> nat \<Rightarrow> price_key list \<Rightarrow> price_key \<Rightarrow> bool" where
  "supported R 0 path key = False"
| "supported R (Suc n) path key =
     (key \<notin> set path \<and>
      (case get_oracle R key of
         None \<Rightarrow> False
       | Some cfg \<Rightarrow> \<forall>source \<in> set (ao_sources cfg). \<forall>d \<in> set (dependencies source). supported R n (path @ [key]) d))"

abbreviation levels :: "nat \<Rightarrow> nat" where
  "levels depth \<equiv> Suc MAX_RESOLUTION_DEPTH - depth"

lemma ffold_each:
  assumes "ffold f xs acc s = Inr (acc', s')"
    and "\<And>x a a' t. x \<in> set xs \<Longrightarrow> f x a s = Inr (a', t) \<Longrightarrow> t = s \<and> Q x"
  shows "s' = s \<and> (\<forall>x \<in> set xs. Q x)"
  using assms
proof (induction xs arbitrary: acc)
  case Nil then show ?case by (simp add: fret_Inr)
next
  case (Cons x xs)
  from Cons.prems(1) obtain a t where f: "f x acc s = Inr (a, t)" and rest: "ffold f xs a t = Inr (acc', s')"
    by (auto simp: fbind_Inr)
  from Cons.prems(2) [OF _ f] have "t = s" "Q x" by simp_all
  from rest \<open>t = s\<close> have "ffold f xs a s = Inr (acc', s')" by simp
  then have "s' = s \<and> (\<forall>x \<in> set xs. Q x)"
    by (rule Cons.IH) (rule Cons.prems(2), simp_all)
  with \<open>Q x\<close> show ?case by simp
qed

lemma push_key_Inr: "push_key key s = Inr (u, s') \<longleftrightarrow>
    key \<notin> set (se_resolving_keys s) \<and> s' = s\<lparr>se_resolving_keys := se_resolving_keys s @ [key]\<rparr>"
  by (auto simp: push_key_def is_resolving_def)

lemma pop_key_Inr: "pop_key s = Inr (u, s') \<longleftrightarrow> s' = s\<lparr>se_resolving_keys := butlast (se_resolving_keys s)\<rparr>"
  by (auto simp: pop_key_def)

lemma source_properties_step_supported:
  assumes "source_properties_step rec source depth s = Inr (p, s')"
    and each: "\<And>k p t. rec k (Suc depth) s = Inr (p, t) \<Longrightarrow> t = s \<and> Q k"
  shows "depth \<le> MAX_RESOLUTION_DEPTH" and "s' = s" and "\<forall>d \<in> set (dependencies source). Q d"
proof -
  from assms(1) obtain acc where depth: "depth \<le> MAX_RESOLUTION_DEPTH" and
    loop: "ffold (\<lambda>key properties. fbind (rec key (Suc depth)) (\<lambda>d. fret (properties_join properties d)))
       (dependencies source) (local_properties source) s = Inr (acc, s')"
    by (auto simp: source_properties_step_def require_depth_def res_iff)
  from depth show "depth \<le> MAX_RESOLUTION_DEPTH" .
  have "s' = s \<and> (\<forall>d \<in> set (dependencies source). Q d)"
    by (rule ffold_each [OF loop]) (auto simp: res_iff dest: each)
  then show "s' = s" "\<forall>d \<in> set (dependencies source). Q d" by simp_all
qed

lemma properties_of_key_supported:
  assumes "properties_of_key key depth s = Inr (p, s')"
  shows "s' = s \<and> supported (se_oracles s) (levels depth) (se_resolving_keys s) key"
  using assms
proof (induction "levels depth" arbitrary: key depth s p s')
  case 0
  then show ?case
    by (subst (asm) properties_of_key_unfold) (auto simp: key_properties_step_def require_depth_def res_iff)
next
  case (Suc n)
  let ?t = "s\<lparr>se_resolving_keys := se_resolving_keys s @ [key]\<rparr>"
  from Suc.prems obtain cfg joined t where new: "key \<notin> set (se_resolving_keys s)"
    and cfg: "get_oracle (se_oracles s) key = Some cfg"
    and loop: "ffold (\<lambda>source joined.
              fbind (source_properties_step properties_of_key source depth) (\<lambda>p. fret (properties_join joined p)))
              (ao_sources cfg) properties_empty ?t = Inr (joined, t)"
    and s': "s' = t\<lparr>se_resolving_keys := butlast (se_resolving_keys t)\<rparr>"
    by (subst (asm) properties_of_key_unfold)
      (auto simp: key_properties_step_def require_depth_def res_iff push_key_Inr pop_key_Inr unwrap_or_panic_def split: option.splits)
  from Suc.hyps(2) have n: "n = levels (Suc depth)" by simp
  let ?Q = "\<lambda>d. supported (se_oracles s) n (se_resolving_keys s @ [key]) d"
  have "t = ?t \<and> (\<forall>source \<in> set (ao_sources cfg). \<forall>d \<in> set (dependencies source). ?Q d)"
  proof (rule ffold_each [OF loop])
    fix source a a' u
    assume "fbind (source_properties_step properties_of_key source depth) (\<lambda>p. fret (properties_join a p)) ?t = Inr (a', u)"
    then obtain p where step: "source_properties_step properties_of_key source depth ?t = Inr (p, u)" by (auto simp: res_iff)
    have each: "v = ?t \<and> ?Q k" if "properties_of_key k (Suc depth) ?t = Inr (p, v)" for k p v
      using Suc.hyps(1) [OF n that] n by simp
    show "u = ?t \<and> (\<forall>d \<in> set (dependencies source). ?Q d)"
      by (intro conjI source_properties_step_supported(2,3) [where Q = ?Q, OF step]) (blast dest: each)+
  qed
  then show ?case using new cfg s' Suc.hyps(2) [symmetric] by simp
qed

section \<open>Replacing an entry\<close>

lemma get_oracle_update: "get_oracle (AList.update key cfg R) k = (if k = key then Some cfg else get_oracle R k)"
  by (simp add: get_oracle_def update_conv')

lemma supported_update_on_path:
  "supported R n path k \<Longrightarrow> key \<in> set path \<Longrightarrow> supported (AList.update key cfg R) n path k"
  by (induction n arbitrary: path k) (auto simp: get_oracle_update split: option.splits)

lemma supported_update_unreached:
  assumes "supported R n path k" and "k \<noteq> key" and "(k, key) \<notin> (dep_edges (AList.update key cfg R))\<^sup>+"
  shows "supported (AList.update key cfg R) n path k"
  using assms
proof (induction n arbitrary: path k)
  case (Suc n)
  let ?R = "AList.update key cfg R"
  from Suc.prems obtain c where c: "get_oracle R k = Some c" and new: "k \<notin> set path"
    and deps: "\<forall>source \<in> set (ao_sources c). \<forall>d \<in> set (dependencies source). supported R n (path @ [k]) d"
    by (auto split: option.splits)
  have c': "get_oracle ?R k = Some c" using c Suc.prems(2) by (simp add: get_oracle_update)
  have "supported ?R n (path @ [k]) d" if "source \<in> set (ao_sources c)" and d: "d \<in> set (dependencies source)" for source d
  proof (rule Suc.IH)
    have edge: "(k, d) \<in> dep_edges ?R" using that c' by (auto simp: dep_edges_def)
    show "supported R n (path @ [k]) d" using deps that by blast
    show "d \<noteq> key" using edge Suc.prems(3) by blast
    show "(d, key) \<notin> (dep_edges ?R)\<^sup>+" using edge Suc.prems(3) by (blast intro: trancl_into_trancl2)
  qed
  with new c' show ?case by simp
qed simp

end
