(* ===== verification/Aggregator_Registry.thy ===== *)
theory Aggregator_Registry
  imports Aggregator_Graph
begin

text \<open>
  The states the aggregator can reach and the invariant of its registry: the list of keys is the
  domain of the registry, every configuration satisfies the checks that do not look at other entries
  (\<open>cfg_ok\<close>), and every registered key is \<open>supported\<close>. The interesting case is \<^verbatim>\<open>set_oracle\<close>, which
  validates the new entry against the old registry and then the entries that depend on it against
  the new one; an entry that does not depend on it keeps its support by
  \<open>supported_update_unreached\<close>.
\<close>

section \<open>Reachable states\<close>

inductive ag_reachable :: "'w oracle_ext \<Rightarrow> 'w aggregator \<Rightarrow> bool" for ext where
  ag_init: "ag_oracles a = [] \<Longrightarrow> ag_oracle_keys a = None \<Longrightarrow> ag_constructor owner a = Inr (u, a') \<Longrightarrow> ag_reachable ext a'"
| ag_step: "ag_reachable ext a \<Longrightarrow> ag_dispatch ext cl a = Inr (u, a') \<Longrightarrow> ag_reachable ext a'"
| ag_prices: "ag_reachable ext a \<Longrightarrow> prices ext keys a = Inr (out, a') \<Longrightarrow> ag_reachable ext a'"
| ag_quotes: "ag_reachable ext a \<Longrightarrow> quotes ext keys a = Inr (outs, a') \<Longrightarrow> ag_reachable ext a'"
| ag_spread: "ag_reachable ext a \<Longrightarrow> price_spread ext key a = Inr (bounds, a') \<Longrightarrow> ag_reachable ext a'"
| ag_env: "ag_reachable ext a \<Longrightarrow>
    ag_reachable ext (a\<lparr>ag_owner := new_owner, ag_now := now, ag_auth := auth, ag_world := w\<rparr>)"

section \<open>The invariant\<close>

definition cfg_ok :: "price_key \<Rightarrow> asset_oracle \<Rightarrow> bool" where
  "cfg_ok key cfg \<longleftrightarrow>
     0 < ao_min_sanity_price_wad cfg \<and> ao_min_sanity_price_wad cfg < ao_max_sanity_price_wad cfg \<and>
     ao_max_sanity_price_wad cfg \<le> MAX_REASONABLE_PRICE_WAD \<and>
     validate_asset_decimals key (ao_asset_decimals cfg) = Inr () \<and>
     (\<forall>source \<in> set (ao_sources cfg). source_shape source = Inr ()) \<and>
     length (ao_sources cfg) \<in> {1, 2} \<and>
     ((\<exists>source \<in> set (ao_sources cfg). is_lp source) \<longrightarrow> length (ao_sources cfg) = 1) \<and>
     MIN_PRICE_STALE_SECONDS \<le> ao_max_price_stale_seconds cfg \<and> ao_max_price_stale_seconds cfg \<le> MAX_PRICE_STALE_SECONDS \<and>
     (\<not> has_lp_source cfg \<longrightarrow> validate_oracle_tolerance (ao_tolerance cfg) = Inr ())"

definition registry_inv :: "'w aggregator \<Rightarrow> bool" where
  "registry_inv a \<longleftrightarrow>
     distinct (oracle_keys a) \<and>
     (\<forall>key. key \<in> set (oracle_keys a) \<longleftrightarrow> get_oracle (ag_oracles a) key \<noteq> None) \<and>
     (\<forall>key cfg. get_oracle (ag_oracles a) key = Some cfg \<longrightarrow>
        cfg_ok key cfg \<and> supported (ag_oracles a) (levels 0) [] key)"

section \<open>Validation\<close>

lemmas ag_iff = res_iff unwrap_Inr_iff rbind_Inr_iff assert_Inr_iff Let_def

definition deps_supported :: "oracle_registry \<Rightarrow> price_key \<Rightarrow> asset_oracle \<Rightarrow> bool" where
  "deps_supported R key cfg \<longleftrightarrow>
     (\<forall>source \<in> set (ao_sources cfg). \<forall>d \<in> set (dependencies source). supported R MAX_RESOLUTION_DEPTH [key] d)"

lemma properties_of_source_supported:
  assumes "properties_of_source source 0 s = Inr (p, s')"
  shows "s' = s" and "\<forall>d \<in> set (dependencies source). supported (se_oracles s) MAX_RESOLUTION_DEPTH (se_resolving_keys s) d"
proof -
  let ?Q = "supported (se_oracles s) MAX_RESOLUTION_DEPTH (se_resolving_keys s)"
  from assms have step: "source_properties_step properties_of_key source 0 s = Inr (p, s')"
    by (simp add: properties_of_source_def)
  have each: "t = s \<and> ?Q k" if "properties_of_key k (Suc 0) s = Inr (p, t)" for k p t
    using properties_of_key_supported [OF that] by simp
  show "s' = s" by (rule source_properties_step_supported(2) [where Q = ?Q, OF step]) (blast dest: each)
  show "\<forall>d \<in> set (dependencies source). ?Q d"
    by (rule source_properties_step_supported(3) [where Q = ?Q, OF step]) (blast dest: each)
qed

lemma two_sources: "length xs \<in> {1, 2} \<Longrightarrow> set xs = (if length xs = 2 then {xs ! 0, xs ! 1} else {xs ! 0})"
  by (cases xs rule: list.exhaust [case_product list.exhaust]) (auto simp: length_Suc_conv numeral_2_eq_2)

lemma properties_of_config_supported:
  assumes "properties_of_config sources s = Inr (derived, s')"
  shows "s' = s" and "length sources \<in> {1, 2}"
    and "\<forall>source \<in> set sources. \<forall>d \<in> set (dependencies source).
           supported (se_oracles s) MAX_RESOLUTION_DEPTH (se_resolving_keys s) d"
proof -
  from assms show len: "length sources \<in> {1, 2}"
    by (auto simp: properties_of_config_def source_count_def MIN_SOURCES_def MAX_SOURCES_def ag_iff)
  from assms obtain p t where first: "properties_of_source (sources ! 0) 0 s = Inr (p, t)"
    and second: "if length sources = 2 then \<exists>q. properties_of_source (sources ! 1) 0 t = Inr (q, s') else s' = t"
    by (auto simp: properties_of_config_def ag_iff split: if_splits)
  note f = properties_of_source_supported [OF first]
  show "s' = s" using second f(1) properties_of_source_supported(1) by (auto split: if_splits)
  show "\<forall>source \<in> set sources. \<forall>d \<in> set (dependencies source).
           supported (se_oracles s) MAX_RESOLUTION_DEPTH (se_resolving_keys s) d"
  proof (cases "length sources = 2")
    case True
    with second obtain q where "properties_of_source (sources ! 1) 0 s = Inr (q, s')" using f(1) by auto
    from properties_of_source_supported(2) [OF this] f(2) show ?thesis using True by (simp add: two_sources [OF len])
  next
    case False
    with f(2) show ?thesis by (simp add: two_sources [OF len])
  qed
qed

lemma rfold_unit_all: "rfold (\<lambda>x _. f x) xs () = Inr () \<longleftrightarrow> (\<forall>x \<in> set xs. f x = Inr ())"
  by (induction xs) (auto simp: rbind_Inr_iff)

lemma validate_sanity_bounds_Inr:
  "validate_sanity_bounds lo hi = Inr u \<Longrightarrow> 0 < lo \<and> lo < hi \<and> hi \<le> MAX_REASONABLE_PRICE_WAD"
  by (auto simp: validate_sanity_bounds_def ag_iff)

lemma validate_oracle_Inr:
  assumes "validate_oracle key cfg exact s = Inr (u, s')" and "se_resolving_keys s = []"
  shows "s' = s" and "cfg_ok key cfg" and "deps_supported (se_oracles s) key cfg"
proof -
  let ?t = "s\<lparr>se_resolving_keys := [key]\<rparr>"
  from assms obtain derived t where config: "properties_of_config (ao_sources cfg) ?t = Inr (derived, t)"
    and s': "s' = t\<lparr>se_resolving_keys := butlast (se_resolving_keys t)\<rparr>"
    and bounds: "validate_sanity_bounds (ao_min_sanity_price_wad cfg) (ao_max_sanity_price_wad cfg) = Inr ()"
    and decimals: "validate_asset_decimals key (ao_asset_decimals cfg) = Inr ()"
    and shapes: "rfold (\<lambda>source _. source_shape source) (ao_sources cfg) () = Inr ()"
    and lp: "list_ex is_lp (ao_sources cfg) \<longrightarrow> length (ao_sources cfg) = 1"
    and stale: "staleness_envelope (ao_max_price_stale_seconds cfg) (properties_combined derived) = Inr ()"
    and tol': "(if \<not> has_lp_source cfg
              then rbind (smoothing (fst derived) (snd derived)) (\<lambda>_. validate_oracle_tolerance (ao_tolerance cfg))
              else Inr ()) = Inr ()"
    by (auto simp: validate_oracle_def ag_iff push_key_Inr pop_key_Inr)
  from tol' have tol: "\<not> has_lp_source cfg \<longrightarrow> validate_oracle_tolerance (ao_tolerance cfg) = Inr ()"
    by (auto simp: rbind_Inr_iff split: if_splits)
  note c = properties_of_config_supported [OF config]
  show "s' = s" using s' c(1) assms(2) by simp
  show "deps_supported (se_oracles s) key cfg" using c(3) by (simp add: deps_supported_def)
  show "cfg_ok key cfg"
    using validate_sanity_bounds_Inr [OF bounds] decimals shapes lp stale tol c(2)
    by (auto simp: cfg_ok_def rfold_unit_all staleness_envelope_def ag_iff list_ex_iff)
qed

lemma validated_in_session:
  assumes "with_session (validate_oracle key cfg exact) a = Inr (u, a')"
  shows "a' = a" and "cfg_ok key cfg" and "deps_supported (ag_oracles a) key cfg"
proof -
  let ?s = "session_new (ag_oracles a) (ag_now a) (ag_world a)"
  from assms obtain se where v: "validate_oracle key cfg exact ?s = Inr ((), se)" and a': "a' = a\<lparr>ag_world := se_world se\<rparr>"
    by (auto simp: with_session_def ag_iff)
  have s: "se_resolving_keys ?s = []" "se_oracles ?s = ag_oracles a" "se_world ?s = ag_world a"
    by (simp_all add: session_new_def)
  note w = validate_oracle_Inr [OF v s(1)]
  show "a' = a" using a' w(1) s(3) by simp
  show "cfg_ok key cfg" by (rule w(2))
  show "deps_supported (ag_oracles a) key cfg" using w(3) s(2) by simp
qed

lemma with_session_frame: "with_session m a = Inr (x, a') \<Longrightarrow> \<exists>w. a' = a\<lparr>ag_world := w\<rparr>"
  by (auto simp: with_session_def ag_iff)

lemma supported_root:
  "get_oracle R key = Some cfg \<Longrightarrow> deps_supported R key cfg \<longleftrightarrow> supported R (levels 0) [] key"
  by (simp add: deps_supported_def)

section \<open>Preservation\<close>

lemma registry_inv_frame:
  "ag_oracles a' = ag_oracles a \<Longrightarrow> ag_oracle_keys a' = ag_oracle_keys a \<Longrightarrow> registry_inv a' \<longleftrightarrow> registry_inv a"
  by (simp add: registry_inv_def oracle_keys_def)

lemma store_oracle_fields:
  "ag_oracles (store_oracle key cfg a) = AList.update key cfg (ag_oracles a)"
  "oracle_keys (store_oracle key cfg a) = (if key \<in> set (oracle_keys a) then oracle_keys a else oracle_keys a @ [key])"
  by (auto simp: store_oracle_def oracle_keys_def Let_def)

lemma store_oracle_inv:
  assumes inv: "registry_inv a" and ok: "cfg_ok key cfg"
    and sup: "\<And>k. get_oracle (AList.update key cfg (ag_oracles a)) k \<noteq> None \<Longrightarrow>
                supported (AList.update key cfg (ag_oracles a)) (levels 0) [] k"
  shows "registry_inv (store_oracle key cfg a)"
proof -
  let ?R = "AList.update key cfg (ag_oracles a)"
  have keys: "distinct (oracle_keys (store_oracle key cfg a))"
    using inv by (auto simp: registry_inv_def store_oracle_fields)
  have dom: "k \<in> set (oracle_keys (store_oracle key cfg a)) \<longleftrightarrow> get_oracle ?R k \<noteq> None" for k
    using inv by (auto simp: registry_inv_def store_oracle_fields get_oracle_update)
  have cfgs: "get_oracle ?R k = Some c \<Longrightarrow> cfg_ok k c" for k c
    using inv ok by (auto simp: registry_inv_def get_oracle_update split: if_splits)
  show ?thesis unfolding registry_inv_def store_oracle_fields(1)
    using keys dom cfgs sup by (metis option.distinct(1))
qed

lemma supported_same_sources:
  assumes "get_oracle R key = Some old" and "ao_sources cfg = ao_sources old"
  shows "supported (AList.update key cfg R) n path k \<longleftrightarrow> supported R n path k"
proof (induction n arbitrary: path k)
  case (Suc n)
  show ?case
  proof (cases "k = key")
    case True then show ?thesis using assms by (simp add: get_oracle_update Suc.IH)
  next
    case False then show ?thesis by (simp add: get_oracle_update Suc.IH cong: option.case_cong)
  qed
qed simp

lemma store_same_sources_inv:
  assumes inv: "registry_inv a" and old: "get_oracle (ag_oracles a) key = Some old"
    and same: "ao_sources cfg = ao_sources old" and ok: "cfg_ok key cfg"
  shows "registry_inv (store_oracle key cfg a)"
proof (rule store_oracle_inv [OF inv ok])
  fix k
  assume "get_oracle (AList.update key cfg (ag_oracles a)) k \<noteq> None"
  then have "get_oracle (ag_oracles a) k \<noteq> None" using old by (auto simp: get_oracle_update split: if_splits)
  then have "supported (ag_oracles a) (levels 0) [] k" using inv by (auto simp: registry_inv_def)
  then show "supported (AList.update key cfg (ag_oracles a)) (levels 0) [] k"
    by (simp only: supported_same_sources [OF old same])
qed

lemma revalidated:
  assumes "revalidate_dependents key a = Inr (u, a')"
  shows "a' = a"
    and "\<forall>k \<in> set (oracle_keys a). k \<noteq> key \<longrightarrow> depends_on (ag_oracles a) k key [] \<longrightarrow> supported (ag_oracles a) (levels 0) [] k"
proof -
  let ?body = "\<lambda>k. fbind (fread ag_oracles) (\<lambda>oracles.
       if k = key \<or> \<not> depends_on oracles k key [] then fret ()
       else fbind (flift (unwrap_or_panic (get_oracle oracles k) (Oracle OracleNotConfigured))) (\<lambda>cfg.
            with_session (validate_oracle k cfg False)))"
  let ?Q = "\<lambda>k. k \<noteq> key \<longrightarrow> depends_on (ag_oracles a) k key [] \<longrightarrow> supported (ag_oracles a) (levels 0) [] k"
  from assms have loop: "ffold (\<lambda>k _. ?body k) (oracle_keys a) () a = Inr ((), a')"
    by (simp add: revalidate_dependents_def res_iff)
  have each: "t = a \<and> ?Q k" if body: "?body k a = Inr (v, t)" for k v t
  proof (cases "k = key \<or> \<not> depends_on (ag_oracles a) k key []")
    case True with body show ?thesis by (auto simp: res_iff)
  next
    case False
    with body obtain cfg where cfg: "get_oracle (ag_oracles a) k = Some cfg"
      and v: "with_session (validate_oracle k cfg False) a = Inr (v, t)"
      by (auto simp: ag_iff)
    from validated_in_session [OF v] supported_root [OF cfg] show ?thesis by blast
  qed
  have "a' = a \<and> (\<forall>k \<in> set (oracle_keys a). ?Q k)"
    by (rule ffold_each [where Q = ?Q, OF loop]) (rule each)
  then show "a' = a" "\<forall>k \<in> set (oracle_keys a). ?Q k" by blast+
qed

lemma set_oracle_inv:
  assumes "set_oracle ext key cfg a = Inr (u, a')" and inv: "registry_inv a"
  shows "registry_inv a'"
proof -
  let ?probe = "if has_lp_source cfg then probe_priceable ext key cfg else probe ext key cfg"
  from assms(1) obtain c d e where v: "with_session (validate_oracle key cfg True) a = Inr ((), c)"
    and attest: "with_session (attest_sources ext key cfg) c = Inr ((), d)"
    and probed: "with_session ?probe d = Inr ((), e)"
    and re: "revalidate_dependents key (store_oracle key cfg e) = Inr (u, a')"
    unfolding set_oracle_def fbind_Inr fread_Inr fwrite_Inr by (auto simp: fassert_Inr fret_Inr split: option.splits)
  note valid = validated_in_session [OF v]
  from with_session_frame [OF attest] with_session_frame [OF probed] valid(1)
  obtain w where e: "e = a\<lparr>ag_world := w\<rparr>" by auto
  note r = revalidated [OF re]
  let ?R = "AList.update key cfg (ag_oracles a)"
  have inv': "registry_inv e" using inv registry_inv_frame [of e a] e by simp
  have "registry_inv (store_oracle key cfg e)"
  proof (rule store_oracle_inv [OF inv' valid(2)])
    fix k
    assume reg: "get_oracle (AList.update key cfg (ag_oracles e)) k \<noteq> None"
    have R: "AList.update key cfg (ag_oracles e) = ?R" using e by simp
    consider "k = key" | "k \<noteq> key" "(k, key) \<in> (dep_edges ?R)\<^sup>+" | "k \<noteq> key" "(k, key) \<notin> (dep_edges ?R)\<^sup>+" by blast
    then have "supported ?R (levels 0) [] k"
    proof cases
      case 1
      have "deps_supported ?R key cfg"
        using valid(3) unfolding deps_supported_def by (auto intro: supported_update_on_path)
      then show ?thesis using 1 supported_root [of ?R key cfg] by (simp add: get_oracle_update)
    next
      case 2
      then have "k \<in> set (oracle_keys (store_oracle key cfg e))"
        using reg inv' by (auto simp: registry_inv_def store_oracle_fields get_oracle_update)
      with r(2) 2 R show ?thesis by (simp add: store_oracle_fields depends_on_trancl)
    next
      case 3
      then have "supported (ag_oracles a) (levels 0) [] k"
        using reg inv R by (auto simp: registry_inv_def get_oracle_update)
      then show ?thesis using 3 by (rule supported_update_unreached)
    qed
    then show "supported (AList.update key cfg (ag_oracles e)) (levels 0) [] k" by (simp only: R)
  qed
  then show ?thesis using r(1) by simp
qed

lemma set_sanity_band_inv:
  assumes "set_sanity_band ext key lo hi a = Inr (u, a')" and inv: "registry_inv a"
  shows "registry_inv a'"
proof -
  from assms(1) obtain old cfg b c where old: "get_oracle (ag_oracles a) key = Some old"
    and cfg: "cfg = old\<lparr>ao_min_sanity_price_wad := lo, ao_max_sanity_price_wad := hi\<rparr>"
    and v: "with_session (validate_oracle key cfg False) a = Inr ((), b)"
    and probed: "with_session (probe ext key cfg) b = Inr ((), c)" and a': "a' = store_oracle key cfg c"
    by (auto simp: set_sanity_band_def ag_iff)
  note valid = validated_in_session [OF v]
  from with_session_frame [OF probed] valid(1) obtain w where c: "c = a\<lparr>ag_world := w\<rparr>" by auto
  have "registry_inv c" using inv registry_inv_frame [of c a] c by simp
  from store_same_sources_inv [OF this, of key old cfg] old cfg valid(2) show ?thesis by (simp add: a' c)
qed

lemma set_tolerance_inv:
  assumes "set_tolerance ext key tol a = Inr (u, a')" and inv: "registry_inv a"
  shows "registry_inv a'"
proof -
  from assms(1) obtain old c where old: "get_oracle (ag_oracles a) key = Some old"
    and tol: "validate_oracle_tolerance tol = Inr ()"
    and probed: "with_session (probe ext key (old\<lparr>ao_tolerance := tol\<rparr>)) a = Inr ((), c)"
    and a': "a' = store_oracle key (old\<lparr>ao_tolerance := tol\<rparr>) c"
    by (auto simp: set_tolerance_def ag_iff)
  from with_session_frame [OF probed] obtain w where c: "c = a\<lparr>ag_world := w\<rparr>" by auto
  have invc: "registry_inv c" using inv registry_inv_frame [of c a] c by simp
  have "cfg_ok key old" using inv old by (simp add: registry_inv_def)
  then have "cfg_ok key (old\<lparr>ao_tolerance := tol\<rparr>)" using tol by (simp add: cfg_ok_def)
  from store_same_sources_inv [OF invc _ _ this, of old] old show ?thesis by (simp add: a' c)
qed

lemma ag_only_owner_Inr: "ag_only_owner body a = Inr (x, a') \<longleftrightarrow>
    (\<exists>owner. ag_owner a = Some owner \<and> ag_auth a owner) \<and> body a = Inr (x, a')"
  by (auto simp: ag_only_owner_def ag_iff)

lemma ag_dispatch_inv:
  assumes call: "ag_dispatch ext cl a = Inr (u, a')" and inv: "registry_inv a"
  shows "registry_inv a'"
proof (cases cl)
  case (Ag_Set_Oracle key cfg)
  then show ?thesis using call set_oracle_inv [OF _ inv] by (auto simp: ag_only_owner_Inr)
next
  case (Ag_Set_Sanity_Band key lo hi)
  then show ?thesis using call set_sanity_band_inv [OF _ inv] by (auto simp: ag_only_owner_Inr)
next
  case (Ag_Set_Tolerance key tol)
  then show ?thesis using call set_tolerance_inv [OF _ inv] by (auto simp: ag_only_owner_Inr)
next
  case (Ag_Upgrade code)
  then have "a' = a\<lparr>ag_code := code\<rparr>" using call by (auto simp: ag_only_owner_Inr fwrite_Inr)
  then show ?thesis using inv registry_inv_frame [of a' a] by simp
qed

lemma session_call_inv: "with_session m a = Inr (x, a') \<Longrightarrow> registry_inv a \<Longrightarrow> registry_inv a'"
  using with_session_frame [of m a x a'] registry_inv_frame [of a' a] by auto

lemma ag_reachable_inv: "ag_reachable ext a \<Longrightarrow> registry_inv a"
proof (induction rule: ag_reachable.induct)
  case (ag_init a owner u a')
  then have "ag_oracles a' = []" "ag_oracle_keys a' = None" by (auto simp: ag_constructor_def fwrite_Inr)
  then show ?case by (simp add: registry_inv_def oracle_keys_def get_oracle_def)
next
  case (ag_step a cl u a')
  then show ?case by (blast intro: ag_dispatch_inv)
next
  case (ag_env a)
  from ag_env.IH show ?case by (rule iffD2 [OF registry_inv_frame, rotated 2]) simp_all
qed (unfold prices_def quotes_def price_spread_def, (erule session_call_inv, assumption)+)

end
