(* ===== verification/Aggregator_Safety.thy ===== *)
theory Aggregator_Safety
  imports Aggregator_Registry
begin

text \<open>
  What a resolution does to its session. Reads of providers and pools are \<open>quiet\<close>: they touch only
  the outside world and the cache of feeds. Everything above them is proved in a small Hoare calculus,
  \<open>keeps P m Q\<close>: from a state with \<open>P\<close>, a run of \<open>m\<close> that returns ends in a state with \<open>P\<close> and gives a
  value with \<open>Q\<close>. The invariant of a session says that its resolution stack is the given path and that
  every cached price is safe for the key it is cached under.

  Resolution keeps the session invariant and returns safe prices, and on a supported key it
  never fails for a reason that lies in the configuration. Both are one induction over the levels
  that remain below \<open>MAX_RESOLUTION_DEPTH\<close>.
\<close>

section \<open>Quiet reads\<close>

definition quiet_rel :: "'w session \<Rightarrow> 'w session \<Rightarrow> bool" where
  "quiet_rel s s' \<longleftrightarrow>
     se_oracles s' = se_oracles s \<and> se_resolving_keys s' = se_resolving_keys s \<and> se_key_prices s' = se_key_prices s \<and>
     se_key_errors s' = se_key_errors s \<and> se_key_statuses s' = se_key_statuses s \<and> se_now_secs s' = se_now_secs s"

interpretation quiet: frame quiet_rel
  by unfold_locales (auto simp: quiet_rel_def)

named_theorems quiet_rules "flows that touch only the world and the feed cache"

lemmas [quiet_rules] = quiet.framed_fret quiet.framed_flift quiet.framed_fread quiet.framed_fassert quiet.framed_fbind
  quiet.framed_ffold

lemma quiet_if [quiet_rules]: "quiet.framed m \<Longrightarrow> quiet.framed n \<Longrightarrow> quiet.framed (if b then m else n)"
  by simp

lemma quiet_option [quiet_rules]:
  "quiet.framed m \<Longrightarrow> (\<And>x. quiet.framed (f x)) \<Longrightarrow> quiet.framed (case v of None \<Rightarrow> m | Some x \<Rightarrow> f x)"
  by (cases v) simp_all

lemma quiet_sum [quiet_rules]:
  "(\<And>e. quiet.framed (g e)) \<Longrightarrow> (\<And>x. quiet.framed (f x)) \<Longrightarrow> quiet.framed (case v of Inl e \<Rightarrow> g e | Inr x \<Rightarrow> f x)"
  by (cases v) simp_all

lemma quiet_key [quiet_rules]:
  "(\<And>a. quiet.framed (f a)) \<Longrightarrow> (\<And>r. quiet.framed (g r)) \<Longrightarrow> quiet.framed (case key of Token a \<Rightarrow> f a | Ref r \<Rightarrow> g r)"
  by (cases key) simp_all

lemma quiet_prod [quiet_rules]: "(\<And>x y. quiet.framed (f x y)) \<Longrightarrow> quiet.framed (case v of (x, y) \<Rightarrow> f x y)"
  by (cases v) simp

lemma quiet_prod_apply [quiet_rules]: "(\<And>x y. quiet.framed (f x y z)) \<Longrightarrow> quiet.framed ((case v of (x, y) \<Rightarrow> f x y) z)"
  by (cases v) simp

lemma quiet_oracle_call [quiet_rules]: "quiet.framed (oracle_call f)"
  by (rule quiet.framedI) (auto simp: oracle_call_def quiet_rel_def split: prod.splits)

lemma quiet_set_feed [quiet_rules]: "quiet.framed (set_feed adapter feed_id d)"
  unfolding set_feed_def by (rule quiet.framed_fwrite) (simp add: quiet_rel_def)

lemma quiet_eflow [quiet_rules]:
  "quiet.framed (eok x)" "quiet.framed (eerr e)" "quiet.framed (ok_or v e)"
  "quiet.framed m \<Longrightarrow> (\<And>x. quiet.framed (f x)) \<Longrightarrow> quiet.framed (ebind m f)"
  unfolding eok_def eerr_def ok_or_def ebind_def by (auto intro!: quiet_rules)

lemma quiet_read_twap [quiet_rules]: "quiet.framed (read_twap ext feed decimals records)"
  unfolding read_twap_def Let_def by (intro quiet_rules)

lemma quiet_read_feed [quiet_rules]: "quiet.framed (read_feed ext feed)"
  unfolding read_feed_def read_chainlink_source_def read_reflector_source_def read_spot_def read_multi_feed_source_def
    read_price_data_cached_def
  by (cases "fs_provider feed") (auto intro!: quiet_rules split: oracle_read_mode.splits)

lemma quiet_pool_reads [quiet_rules]:
  "quiet.framed (bound_tokens ext key lp)" "quiet.framed (pool_kind_matches ext lp st)"
  "quiet.framed (decimals_match ext share tokens share_decimals lp)"
  "quiet.framed (aquarius_pool_reserves_call ext pool)" "quiet.framed (aquarius_total_shares_call ext pool)"
  "quiet.framed (aquarius_amp_call ext pool)"
  unfolding bound_tokens_def pool_kind_matches_def decimals_match_def token_decimals_def aquarius_pool_reserves_call_def
    aquarius_total_shares_call_def aquarius_amp_call_def aquarius_pool_kind_call_def
  by (intro quiet_rules)+

lemma quiet_curve_coins_bound [quiet_rules]: "quiet.framed (curve_coins_bound ext info i coins)"
  by (induction coins arbitrary: i) (auto intro!: quiet_rules simp: Let_def)

lemma quiet_bound_pool [quiet_rules]: "quiet.framed (bound_pool ext key lp decimals)"
  unfolding bound_pool_def by (intro quiet_rules)

lemma quiet_warm [quiet_rules]: "quiet.framed (warm ext keys)"
  unfolding warm_def warm_adapter_def read_price_data_bulk_def Let_def
  by (intro quiet_rules)

section \<open>A calculus for invariants and results\<close>

definition keeps :: "('s \<Rightarrow> bool) \<Rightarrow> ('s, 'a) flow \<Rightarrow> ('a \<Rightarrow> bool) \<Rightarrow> bool" where
  "keeps P m Q \<longleftrightarrow> (\<forall>s x s'. P s \<longrightarrow> m s = Inr (x, s') \<longrightarrow> P s' \<and> Q x)"

lemma keepsI: "(\<And>s x s'. P s \<Longrightarrow> m s = Inr (x, s') \<Longrightarrow> P s' \<and> Q x) \<Longrightarrow> keeps P m Q"
  by (auto simp: keeps_def)

lemma keepsD: "keeps P m Q \<Longrightarrow> P s \<Longrightarrow> m s = Inr (x, s') \<Longrightarrow> P s' \<and> Q x"
  by (auto simp: keeps_def)

lemma keeps_weaken: "keeps P m Q \<Longrightarrow> (\<And>x. Q x \<Longrightarrow> Q' x) \<Longrightarrow> keeps P m Q'"
  by (auto simp: keeps_def)

lemma keeps_fret: "Q x \<Longrightarrow> keeps P (fret x) Q"
  by (auto simp: keeps_def fret_Inr)

lemma keeps_fread: "(\<And>s. P s \<Longrightarrow> Q (g s)) \<Longrightarrow> keeps P (fread g) Q"
  by (auto simp: keeps_def fread_Inr)

lemma keeps_fbind: "keeps P m Q \<Longrightarrow> (\<And>x. Q x \<Longrightarrow> keeps P (f x) Q') \<Longrightarrow> keeps P (fbind m f) Q'"
  unfolding keeps_def fbind_Inr by blast

lemma keeps_flift: "(\<And>x. r = Inr x \<Longrightarrow> Q x) \<Longrightarrow> keeps P (flift r) Q"
  by (auto simp: keeps_def flift_Inr)

lemma keeps_panic: "keeps P (flift (Inl e)) Q"
  by (simp add: keeps_def flift_Inr)

lemma keeps_fwrite: "(\<And>s. P s \<Longrightarrow> P (g s)) \<Longrightarrow> keeps P (fwrite g) (\<lambda>_. True)"
  by (auto simp: keeps_def fwrite_Inr)

abbreviation ekeeps :: "('w session \<Rightarrow> bool) \<Rightarrow> ('w, 'a) eflow \<Rightarrow> (oracle_error \<Rightarrow> bool) \<Rightarrow> ('a \<Rightarrow> bool) \<Rightarrow> bool" where
  "ekeeps P m E A \<equiv> keeps P m (\<lambda>r. case r of Inl e \<Rightarrow> E e | Inr x \<Rightarrow> A x)"

lemma ekeeps_eok: "A x \<Longrightarrow> ekeeps P (eok x) E A"
  by (simp add: eok_def keeps_fret)

lemma ekeeps_eerr: "E e \<Longrightarrow> ekeeps P (eerr e) E A"
  by (simp add: eerr_def keeps_fret)

lemma ekeeps_ok_or: "E e \<Longrightarrow> (\<And>x. v = Some x \<Longrightarrow> A x) \<Longrightarrow> ekeeps P (ok_or v e) E A"
  by (cases v) (simp_all add: ok_or_def ekeeps_eok ekeeps_eerr)

lemma ekeeps_ebind: "ekeeps P m E A \<Longrightarrow> (\<And>x. A x \<Longrightarrow> ekeeps P (f x) E B) \<Longrightarrow> ekeeps P (ebind m f) E B"
  unfolding ebind_def
proof (rule keeps_fbind, assumption)
  fix r
  assume f: "\<And>x. A x \<Longrightarrow> ekeeps P (f x) E B" and "case r of Inl e \<Rightarrow> E e | Inr x \<Rightarrow> A x"
  then show "ekeeps P (case r of Inl e \<Rightarrow> fret (Inl e) | Inr x \<Rightarrow> f x) E B"
    by (cases r) (simp_all add: keeps_fret)
qed

lemma ekeeps_of_result:
  "(\<And>e. r = Inl (Oracle e) \<Longrightarrow> E e) \<Longrightarrow> (\<And>x. r = Inr x \<Longrightarrow> A x) \<Longrightarrow> ekeeps P (of_result r) E A"
proof (cases r)
  case (Inl e)
  then show "(\<And>e. r = Inl (Oracle e) \<Longrightarrow> E e) \<Longrightarrow> ?thesis"
    by (cases e) (simp_all add: of_result_def ekeeps_eerr keeps_panic)
qed (simp add: of_result_def ekeeps_eok)

section \<open>Errors of the pool formulas\<close>

definition price_err :: "'a res \<Rightarrow> bool" where
  "price_err r \<longleftrightarrow> (\<forall>e. r = Inl (Oracle e) \<longrightarrow> e = InvalidPrice)"

named_theorems price_err_rules "computations whose only oracle error is InvalidPrice"

lemma price_err_Inr [price_err_rules]: "price_err (Inr x)"
  by (simp add: price_err_def)

lemma price_err_invalid [price_err_rules]:
  "price_err (Inl (Oracle InvalidPrice))" "price_err (unwrap_or_panic v (Oracle InvalidPrice))"
  "price_err (assert_with_error b (Oracle InvalidPrice))"
  by (auto simp: price_err_def unwrap_or_panic_def assert_with_error_def split: option.splits)

lemma price_err_rbind [price_err_rules]: "price_err r \<Longrightarrow> (\<And>x. price_err (f x)) \<Longrightarrow> price_err (rbind r f)"
  by (cases r) (auto simp: price_err_def)

lemma price_err_rbind': "price_err r \<Longrightarrow> (\<And>x. r = Inr x \<Longrightarrow> price_err (f x)) \<Longrightarrow> price_err (rbind r f)"
  by (cases r) (auto simp: price_err_def)

lemma price_err_if [price_err_rules]: "price_err r \<Longrightarrow> price_err q \<Longrightarrow> price_err (if b then r else q)"
  by simp

lemma price_err_u256 [price_err_rules]:
  "price_err (u256_mul x y)" "price_err (u256_add x y)" "price_err (u256_sub x y)" "price_err (u256_div x y)"
  "price_err (u256_checked_mul x y)"
  by (auto simp: price_err_def u256_op_defs u256_def u256_checked_mul_def)

lemma price_err_newton [price_err_rules]: "price_err (newton_next n x)" "price_err (newton_loop n x y)"
proof -
  show next_ok: "price_err (newton_next n x)" for n x unfolding newton_next_def by (intro price_err_rules)
  show "price_err (newton_loop n x y)"
  proof (induction n x y rule: newton_loop.induct)
    case (1 n x y)
    show ?case
    proof (cases "0 \<le> y \<and> y < x")
      case True
      have "price_err (rbind (newton_next n y) (newton_loop n y))"
        by (rule price_err_rbind' [OF next_ok]) (rule "1.IH" [OF True])
      with True show ?thesis by (subst newton_loop.simps) simp
    qed (subst newton_loop.simps, auto simp: price_err_def)
  qed
qed

lemma price_err_amount [price_err_rules]: "price_err (try_amount_to_wad amount decimals)"
  unfolding try_amount_to_wad_def by (intro price_err_rules)

lemma price_err_lp: "price_err (fair_lp_price_wad a b supply)"
  unfolding fair_lp_price_wad_def reserve_value_wad_def isqrt_of_product_def by (intro price_err_rules)

lemma price_err_stable_loop [price_err_rules]: "price_err (stable_loop i ann s_tot x_smaller x_larger d)"
proof (induction i arbitrary: d)
  case 0 show ?case by (simp add: price_err_rules)
next
  case (Suc i)
  show ?case unfolding stable_loop.simps stable_step_def by (intro price_err_rules Suc.IH)
qed

lemma price_err_stable_lp: "price_err (fair_stable_lp_price_wad a b supply amp)"
  unfolding fair_stable_lp_price_wad_def solve_stable_d_def Let_def by (intro price_err_rules)

section \<open>Safe prices\<close>

definition price_safe :: "asset_oracle \<Rightarrow> nat \<Rightarrow> price_feed_raw \<Rightarrow> bool" where
  "price_safe cfg now feed \<longleftrightarrow>
     0 < pr_price_wad feed \<and> ao_min_sanity_price_wad cfg \<le> pr_price_wad feed \<and> pr_price_wad feed \<le> ao_max_sanity_price_wad cfg \<and>
     pr_asset_decimals feed = ao_asset_decimals cfg \<and> \<not> is_stale now (pr_timestamp feed) (ao_max_price_stale_seconds cfg)"

definition safe_feed :: "oracle_registry \<Rightarrow> nat \<Rightarrow> price_key \<Rightarrow> price_feed_raw \<Rightarrow> bool" where
  "safe_feed R now key feed \<longleftrightarrow> (\<exists>cfg. get_oracle R key = Some cfg \<and> price_safe cfg now feed)"

definition config_error :: "oracle_error \<Rightarrow> bool" where
  "config_error err \<longleftrightarrow> err \<in> {OracleCycleDetected, OracleDepthExceeded, SourceCountOutOfRange, OracleNotConfigured}"

definition counts_ok :: "oracle_registry \<Rightarrow> bool" where
  "counts_ok R \<longleftrightarrow> (\<forall>key cfg. get_oracle R key = Some cfg \<longrightarrow> length (ao_sources cfg) \<in> {1, 2})"

definition status_ok :: "oracle_registry \<Rightarrow> nat \<Rightarrow> price_key \<Rightarrow> price_status \<Rightarrow> bool" where
  "status_ok R now key st \<longleftrightarrow>
     (pst_valid st \<longleftrightarrow> pst_error_code st = None) \<and>
     (pst_valid st \<longrightarrow> (\<exists>cfg. get_oracle R key = Some cfg \<and>
        price_safe cfg now \<lparr>pr_price_wad = pst_final_wad st, pr_asset_decimals = ao_asset_decimals cfg,
                            pr_timestamp = pst_price_timestamp st\<rparr>)) \<and>
     (counts_ok R \<and> supported R (levels 0) [] key \<longrightarrow> (\<forall>e. config_error e \<longrightarrow> pst_error_code st \<noteq> Some (oracle_code e)))"

definition sess_inv :: "oracle_registry \<Rightarrow> nat \<Rightarrow> price_key list \<Rightarrow> 'w session \<Rightarrow> bool" where
  "sess_inv R now path s \<longleftrightarrow>
     se_oracles s = R \<and> se_now_secs s = now \<and> se_resolving_keys s = path \<and>
     (\<forall>key feed. se_key_prices s key = Some feed \<longrightarrow> safe_feed R now key feed) \<and>
     (\<forall>key err. se_key_errors s key = Some err \<longrightarrow> \<not> config_error err) \<and>
     (\<forall>key st. se_key_statuses s key = Some st \<longrightarrow> status_ok R now key st)"

lemma sess_inv_quiet: "quiet_rel s s' \<Longrightarrow> sess_inv R now path s' \<longleftrightarrow> sess_inv R now path s"
  by (simp add: quiet_rel_def sess_inv_def)

lemma keeps_quiet: "quiet.framed m \<Longrightarrow> (\<And>x. Q x) \<Longrightarrow> keeps (sess_inv R now path) m Q"
  by (rule keepsI) (auto dest!: quiet.framedD simp: sess_inv_quiet)

lemma sess_inv_new: "sess_inv R now [] (session_new R now w)"
  by (simp add: sess_inv_def session_new_def)

section \<open>Sources\<close>

text \<open>What the induction assumes of the recursive call, and concludes.\<close>

definition nested_ok :: "oracle_registry \<Rightarrow> nat \<Rightarrow> price_key list \<Rightarrow> nat \<Rightarrow> 'w nested \<Rightarrow> bool" where
  "nested_ok R now path depth nested \<longleftrightarrow>
     (\<forall>key. ekeeps (sess_inv R now path) (nested key depth)
        (\<lambda>e. counts_ok R \<and> supported R (levels depth) path key \<longrightarrow> \<not> config_error e) (safe_feed R now key))"

definition reads_ok :: "oracle_registry \<Rightarrow> price_key list \<Rightarrow> nat \<Rightarrow> price_key list \<Rightarrow> bool" where
  "reads_ok R path depth deps \<longleftrightarrow> counts_ok R \<and> (\<forall>d \<in> set deps. supported R (levels depth) path d)"

lemma nested_okD:
  assumes "nested_ok R now path depth nested" and "key \<in> set deps"
  shows "ekeeps (sess_inv R now path) (nested key depth) (\<lambda>e. reads_ok R path depth deps \<longrightarrow> \<not> config_error e) (safe_feed R now key)"
proof -
  have "ekeeps (sess_inv R now path) (nested key depth)
        (\<lambda>e. counts_ok R \<and> supported R (levels depth) path key \<longrightarrow> \<not> config_error e) (safe_feed R now key)"
    using assms(1) by (simp add: nested_ok_def)
  then show ?thesis by (rule keeps_weaken) (use assms(2) in \<open>auto simp: reads_ok_def split: sum.splits\<close>)
qed

lemma not_config_errors [simp]:
  "\<not> config_error NoLastPrice" "\<not> config_error InvalidPrice" "\<not> config_error FactorOutOfBounds"
  "\<not> config_error InsufficientAquariusLiquidity" "\<not> config_error UnsupportedCurvePool" "\<not> config_error InsufficientCurveLiquidity"
  by (simp_all add: config_error_def)

lemma lp_errors:
  "fair_lp_price_wad a b sp = Inl (Oracle e) \<Longrightarrow> \<not> config_error e"
  "fair_stable_lp_price_wad a b sp amp = Inl (Oracle e) \<Longrightarrow> \<not> config_error e"
  using price_err_lp [of a b sp] price_err_stable_lp [of a b sp amp] by (auto simp: price_err_def)

abbreviation src_ok :: "oracle_registry \<Rightarrow> nat \<Rightarrow> price_key list \<Rightarrow> nat \<Rightarrow> price_key list \<Rightarrow> ('w, 'a) eflow \<Rightarrow> bool" where
  "src_ok R now path depth deps m \<equiv>
     ekeeps (sess_inv R now path) m (\<lambda>e. reads_ok R path (Suc depth) deps \<longrightarrow> \<not> config_error e) (\<lambda>_. True)"

lemmas quiet_bind = keeps_fbind [OF keeps_quiet [where Q = "\<lambda>_. True"]]
lemmas ok_or_bind = ekeeps_ebind [OF ekeeps_ok_or [where A = "\<lambda>_. True"]]

definition reading_fresh :: "asset_oracle \<Rightarrow> nat \<Rightarrow> reading \<Rightarrow> bool" where
  "reading_fresh cfg now r \<longleftrightarrow> rd_stale r \<or> \<not> is_stale now (rd_timestamp r) (ao_max_price_stale_seconds cfg)"

definition legs_ok :: "asset_oracle \<Rightarrow> nat \<Rightarrow> legs \<Rightarrow> bool" where
  "legs_ok cfg now legs \<longleftrightarrow>
     (case legs of
        One r \<Rightarrow> length (ao_sources cfg) = 1 \<and> reading_fresh cfg now r
      | Two p a \<Rightarrow> length (ao_sources cfg) = 2 \<and> reading_fresh cfg now p \<and> reading_fresh cfg now a
      | Partial r slot \<Rightarrow> True
      | Empty \<Rightarrow> True)"

definition composable :: "oracle_registry \<Rightarrow> price_key list \<Rightarrow> nat \<Rightarrow> asset_oracle \<Rightarrow> bool" where
  "composable R path depth cfg \<longleftrightarrow>
     counts_ok R \<and> length (ao_sources cfg) \<in> {1, 2} \<and>
     (\<forall>source \<in> set (ao_sources cfg). \<forall>d \<in> set (dependencies source). supported R (levels (Suc depth)) path d)"

text \<open>
  The interface between the engine and its recursion: what reading the sources of a key relies on is
  that the nested resolution one level deeper keeps the session and returns safe prices.
\<close>

locale resolver =
  fixes R :: oracle_registry and now :: nat and path :: "price_key list" and depth :: nat and nested :: "'w nested"
  assumes nested: "nested_ok R now path (Suc depth) nested"
begin

lemmas dep = nested_okD [OF nested]

lemma read_scaled_ok:
  assumes "ss_quote scaled \<in> set deps"
  shows "src_ok R now path depth deps (read_scaled ext nested scaled depth)"
  unfolding read_scaled_def
  by (auto intro!: quiet_bind quiet_rules ekeeps_eok ekeeps_eerr ekeeps_ebind [OF dep [OF assms]] ok_or_bind split: option.splits)

lemma aquarius_read_ok:
  assumes "aq_key_a lp \<in> set deps" and "aq_key_b lp \<in> set deps"
  shows "src_ok R now path depth deps (aquarius_read ext nested key lp share_decimals depth st)"
proof -
  have lp: "src_ok R now path depth deps
      (if st then fbind (aquarius_amp_call ext (aq_pool lp)) (\<lambda>answer.
            ebind (ok_or answer NoLastPrice) (\<lambda>amp. of_result (fair_stable_lp_price_wad x y sp amp)))
       else of_result (fair_lp_price_wad x y sp))" for x y sp
    by (cases st) (auto intro!: quiet_bind quiet_rules ok_or_bind ekeeps_of_result dest: lp_errors)
  show ?thesis unfolding aquarius_read_def Let_def
    by (auto intro!: quiet_bind quiet_rules ekeeps_eok ekeeps_eerr ekeeps_ebind [OF dep [OF assms(1)]]
        ekeeps_ebind [OF dep [OF assms(2)]] ekeeps_ebind [OF lp] ok_or_bind split: price_key.splits)
qed

lemma curve_coin_prices_ok:
  "\<forall>c \<in> set coins. Token c \<in> set deps \<Longrightarrow> src_ok R now path depth deps (curve_coin_prices nested depth coins acc)"
proof (induction coins arbitrary: acc)
  case Nil show ?case by (simp add: ekeeps_eok)
next
  case (Cons c coins)
  from Cons.prems have "Token c \<in> set deps" by simp
  from dep [OF this] show ?case unfolding curve_coin_prices.simps
    by (rule ekeeps_ebind) (use Cons in simp)
qed

lemma curve_read_ok:
  assumes "\<forall>c \<in> set (cv_coins lp). Token c \<in> set deps"
  shows "src_ok R now path depth deps (curve_read ext nested key lp decimals depth)"
  unfolding curve_read_def
  by (auto intro!: quiet_bind quiet_rules ekeeps_eok ekeeps_eerr ekeeps_ebind [OF curve_coin_prices_ok [OF assms]] ok_or_bind)

lemma evaluate_source_ok:
  "src_ok R now path depth (dependencies source) (evaluate_source ext nested key source decimals depth)"
proof (cases source)
  case (Feed feed)
  then show ?thesis unfolding evaluate_source_def by (auto intro!: quiet_bind quiet_rules ekeeps_eok)
next
  case (Scaled scaled)
  show ?thesis unfolding evaluate_source_def Scaled price_source.case by (rule read_scaled_ok) simp
next
  case (AquariusLp lp)
  show ?thesis unfolding evaluate_source_def AquariusLp price_source.case by (rule aquarius_read_ok) simp_all
next
  case (AquariusStableLp lp)
  show ?thesis unfolding evaluate_source_def AquariusStableLp price_source.case by (rule aquarius_read_ok) simp_all
next
  case (CurveStableLp lp)
  show ?thesis unfolding evaluate_source_def CurveStableLp price_source.case by (rule curve_read_ok) simp
qed

lemma read_source_ok:
  "ekeeps (sess_inv R now path) (read_source ext nested key cfg source depth)
     (\<lambda>e. reads_ok R path (Suc depth) (dependencies source) \<longrightarrow> \<not> config_error e) (\<lambda>v. \<forall>r. v = Some r \<longrightarrow> reading_fresh cfg now r)"
proof -
  have clock: "keeps (sess_inv R now path) (fread se_now_secs :: ('w, nat) sflow) (\<lambda>t. t = now)"
    by (rule keeps_fread) (simp add: sess_inv_def)
  show ?thesis unfolding read_source_def
    by (rule ekeeps_ebind [OF evaluate_source_ok])
      (auto simp: Let_def reading_fresh_def intro!: ekeeps_eok keeps_fbind [OF clock] split: option.splits)
qed

lemma read_source_ok':
  assumes "source \<in> set (ao_sources cfg)"
  shows "ekeeps (sess_inv R now path) (read_source ext nested key cfg source depth)
     (\<lambda>e. composable R path depth cfg \<longrightarrow> \<not> config_error e) (\<lambda>v. \<forall>r. v = Some r \<longrightarrow> reading_fresh cfg now r)"
  by (rule keeps_weaken [OF read_source_ok]) (use assms in \<open>auto simp: composable_def reads_ok_def split: sum.splits\<close>)

lemma compose_ok:
  "ekeeps (sess_inv R now path) (compose ext nested key cfg depth)
     (\<lambda>e. composable R path depth cfg \<longrightarrow> \<not> config_error e) (legs_ok cfg now)"
proof (cases "length (ao_sources cfg) = 0 \<or> length (ao_sources cfg) > 2")
  case True
  then show ?thesis by (auto simp: compose_def Let_def composable_def intro!: ekeeps_eerr)
next
  case False
  then have first: "ao_sources cfg ! 0 \<in> set (ao_sources cfg)" by (intro nth_mem) auto
  show ?thesis
  proof (cases "length (ao_sources cfg) = 1")
    case True
    then show ?thesis unfolding compose_def Let_def using False
      by (auto simp: legs_ok_def intro!: ekeeps_ebind [OF read_source_ok' [OF first]] ekeeps_eok split: option.splits)
  next
    case two: False
    from False two have len: "length (ao_sources cfg) = 2" by linarith
    then have second: "ao_sources cfg ! 1 \<in> set (ao_sources cfg)" by (intro nth_mem) auto
    from len show ?thesis unfolding compose_def Let_def
      by (auto simp: legs_ok_def intro!: ekeeps_ebind [OF read_source_ok' [OF first]]
          ekeeps_ebind [OF read_source_ok' [OF second, unfolded One_nat_def]] ekeeps_eok split: option.splits)
  qed
qed

end

section \<open>Outcomes\<close>

definition outcome_agrees :: "asset_oracle \<Rightarrow> outcome \<Rightarrow> bool" where
  "outcome_agrees cfg oc \<longleftrightarrow>
     (length (ao_sources cfg) = 1 \<and> oc_first_wad oc = oc_price_wad oc \<and> oc_second_wad oc = oc_price_wad oc) \<or>
     (length (ao_sources cfg) = 2 \<and> within_tolerance_band (oc_second_wad oc) (oc_first_wad oc) (ao_tolerance cfg) \<and>
      oc_price_wad oc = midpoint_price_or_zero (oc_second_wad oc) (oc_first_wad oc))"

definition outcome_ok :: "oracle_registry \<Rightarrow> nat \<Rightarrow> price_key \<Rightarrow> outcome \<Rightarrow> asset_oracle option \<Rightarrow> bool" where
  "outcome_ok R now key oc found \<longleftrightarrow>
     (outcome_failure oc found = None \<longrightarrow>
        (\<exists>cfg. found = Some cfg \<and> get_oracle R key = Some cfg \<and> price_safe cfg now (to_feed oc (ao_asset_decimals cfg)) \<and>
               outcome_agrees cfg oc))"

lemma is_stale_min: "\<not> is_stale now a n \<Longrightarrow> \<not> is_stale now b n \<Longrightarrow> \<not> is_stale now (min a b) n"
  by (simp add: min_def)

lemma blend_ok:
  assumes legs: "legs_ok cfg now legs" and fine: "outcome_failure (blend cfg legs) (Some cfg) = None"
  shows "price_safe cfg now (to_feed (blend cfg legs) (ao_asset_decimals cfg))" and "outcome_agrees cfg (blend cfg legs)"
proof -
  let ?oc = "blend cfg legs"
  from fine have err: "oc_err ?oc = None" and fresh: "\<not> oc_stale ?oc" and dev: "\<not> oc_deviation ?oc"
    and band: "0 < oc_price_wad ?oc" "ao_min_sanity_price_wad cfg \<le> oc_price_wad ?oc" "oc_price_wad ?oc \<le> ao_max_sanity_price_wad cfg"
    by (auto simp: outcome_failure_def split: option.splits if_splits)
  have "\<not> is_stale now (oc_timestamp ?oc) (ao_max_price_stale_seconds cfg) \<and> outcome_agrees cfg ?oc"
  proof (cases legs)
    case (One r)
    with legs fresh show ?thesis by (auto simp: blend_def outcome_one_def legs_ok_def reading_fresh_def outcome_agrees_def)
  next
    case (Two p a)
    with legs fresh dev show ?thesis
      by (auto simp: blend_def Let_def legs_ok_def reading_fresh_def outcome_agrees_def is_stale_min)
  next
    case (Partial r slot)
    with dev show ?thesis by (auto simp: blend_def outcome_partial_def split: leg_slot.splits)
  next
    case Empty
    with err show ?thesis by (simp add: blend_def outcome_unreadable_def outcome_with_err_def)
  qed
  then show "price_safe cfg now (to_feed ?oc (ao_asset_decimals cfg))" and "outcome_agrees cfg ?oc"
    using band by (simp_all add: price_safe_def to_feed_def)
qed

lemma blend_no_config_failure: "config_failure (blend cfg legs) = None"
  by (cases legs)
    (auto simp: blend_def Let_def config_failure_def outcome_one_def outcome_partial_def outcome_unreadable_def
      outcome_with_err_def split: leg_slot.splits)

lemma with_err_failure: "outcome_failure (outcome_with_err e) found = Some e"
  by (simp add: outcome_failure_def outcome_with_err_def)

lemma with_err_config: "config_failure (outcome_with_err e) = (if config_error e then Some e else None)"
  by (simp add: config_failure_def outcome_with_err_def config_error_def)

section \<open>The recursion\<close>

lemma sess_inv_push:
  "sess_inv R now path s \<Longrightarrow> sess_inv R now (path @ [key]) (s\<lparr>se_resolving_keys := se_resolving_keys s @ [key]\<rparr>)"
  by (simp add: sess_inv_def)

lemma sess_inv_pop:
  "sess_inv R now (path @ [key]) s \<Longrightarrow> sess_inv R now path (s\<lparr>se_resolving_keys := butlast (se_resolving_keys s)\<rparr>)"
  by (simp add: sess_inv_def)

lemma supported_levels:
  assumes "supported R (levels depth) path key"
  obtains cfg where "depth \<le> MAX_RESOLUTION_DEPTH" and "key \<notin> set path" and "get_oracle R key = Some cfg"
    and "\<forall>source \<in> set (ao_sources cfg). \<forall>d \<in> set (dependencies source). supported R (levels (Suc depth)) (path @ [key]) d"
proof -
  from assms have le: "depth \<le> MAX_RESOLUTION_DEPTH" by (cases "levels depth") simp_all
  then have "levels depth = Suc (levels (Suc depth))" by simp
  with assms le that show thesis by (auto split: option.splits)
qed

lemma resolve_outcome_ok:
  assumes rec: "depth \<le> MAX_RESOLUTION_DEPTH \<Longrightarrow> nested_ok R now (path @ [key]) (Suc depth) nested"
  shows "keeps (sess_inv R now path) (resolve_outcome ext nested key depth None)
     (\<lambda>(oc, found). outcome_ok R now key oc found \<and>
        (counts_ok R \<and> supported R (levels depth) path key \<longrightarrow> config_failure oc = None))"
proof (rule keepsI)
  fix s v s'
  assume inv: "sess_inv R now path s" and run: "resolve_outcome ext nested key depth None s = Inr (v, s')"
  let ?good = "counts_ok R \<and> supported R (levels depth) path key"
  let ?goal = "sess_inv R now path s' \<and> (case v of (oc, found) \<Rightarrow> outcome_ok R now key oc found \<and> (?good \<longrightarrow> config_failure oc = None))"
  have fail: ?goal if "v = (outcome_with_err e, found)" and "sess_inv R now path s'" and "\<not> ?good" for e found
    using that by (auto simp: outcome_ok_def with_err_failure)
  from inv have R: "se_oracles s = R" and p: "se_resolving_keys s = path" by (simp_all add: sess_inv_def)
  let ?t = "s\<lparr>se_resolving_keys := path @ [key]\<rparr>"
  consider "depth > MAX_RESOLUTION_DEPTH" | "depth \<le> MAX_RESOLUTION_DEPTH" "key \<in> set path"
    | "depth \<le> MAX_RESOLUTION_DEPTH" "key \<notin> set path" by linarith
  then show ?goal
  proof cases
    case 1
    with run have "v = (outcome_with_err OracleDepthExceeded, None)" and "s' = s"
      by (auto simp: resolve_outcome_def fret_Inr)
    moreover from 1 have "\<not> ?good" by (auto elim: supported_levels)
    ultimately show ?thesis using fail inv by blast
  next
    case 2
    with run p have "v = (outcome_with_err OracleCycleDetected, None)" and "s' = s"
      by (auto simp: resolve_outcome_def is_resolving_def res_iff)
    moreover from 2 have "\<not> ?good" by (auto elim: supported_levels)
    ultimately show ?thesis using fail inv by blast
  next
    case 3
    show ?thesis
    proof (cases "get_oracle R key")
      case None
      with 3 run R p have "v = (outcome_with_err OracleNotConfigured, None)" and "s' = s\<lparr>se_resolving_keys := path\<rparr>"
        by (auto simp: resolve_outcome_def is_resolving_def res_iff push_key_Inr pop_key_Inr)
      moreover have "s\<lparr>se_resolving_keys := path\<rparr> = s" using p by simp
      moreover from None have "\<not> ?good" by (auto elim: supported_levels)
      ultimately show ?thesis using fail inv by metis
    next
      case (Some cfg)
      with 3 run R p obtain composed t where c: "compose ext nested key cfg depth ?t = Inr (composed, t)"
        and s': "s' = t\<lparr>se_resolving_keys := butlast (se_resolving_keys t)\<rparr>"
        and v: "v = (case composed of Inr legs \<Rightarrow> blend cfg legs | Inl err \<Rightarrow> outcome_with_err err, Some cfg)"
        by (auto simp: resolve_outcome_def is_resolving_def res_iff push_key_Inr pop_key_Inr Let_def)
      have "sess_inv R now (path @ [key]) ?t" using sess_inv_push [OF inv] p by simp
      from keepsD [OF resolver.compose_ok [OF resolver.intro [OF rec [OF 3(1)]]] this c]
      have t: "sess_inv R now (path @ [key]) t"
        and r: "case composed of Inl e \<Rightarrow> composable R (path @ [key]) depth cfg \<longrightarrow> \<not> config_error e | Inr legs \<Rightarrow> legs_ok cfg now legs"
        by blast+
      have s'_ok: "sess_inv R now path s'" unfolding s' by (rule sess_inv_pop [OF t])
      show ?thesis
      proof (cases composed)
        case (Inl e)
        have "composable R (path @ [key]) depth cfg" if "?good"
          using that Some by (auto elim!: supported_levels simp: composable_def counts_ok_def)
        with r Inl v s'_ok show ?thesis by (auto simp: outcome_ok_def with_err_failure with_err_config)
      next
        case (Inr legs)
        with r v s'_ok Some blend_ok [of cfg now legs] show ?thesis by (auto simp: outcome_ok_def blend_no_config_failure)
      qed
    qed
  qed
qed

lemma ekeeps_first_err:
  "(\<And>x. x \<in> set xs \<Longrightarrow> ekeeps P (f x) E (\<lambda>_. True)) \<Longrightarrow> ekeeps P (first_err f xs) E (\<lambda>_. True)"
  by (induction xs) (auto intro!: ekeeps_eok intro: ekeeps_ebind)

lemma cached_path_ok:
  "ekeeps (sess_inv R now path) (validate_cached_path key depth :: ('w, unit) eflow) (\<lambda>e. \<not> supported R (levels depth) path key) (\<lambda>_. True)"
proof (induction "levels depth" arbitrary: key depth path)
  case 0
  then show ?case by (subst validate_cached_path_unfold) (auto simp: cached_path_step_def eerr_def intro!: keeps_fret)
next
  case (Suc n)
  from Suc.hyps(2) have le: "depth \<le> MAX_RESOLUTION_DEPTH" and n: "n = levels (Suc depth)" by simp_all
  show ?case
  proof (rule keepsI)
    fix s s' :: "'w session" and r
    assume inv: "sess_inv R now path s" and run: "validate_cached_path key depth s = Inr (r, s')"
    from inv have R: "se_oracles s = R" and p: "se_resolving_keys s = path" by (simp_all add: sess_inv_def)
    let ?t = "s\<lparr>se_resolving_keys := path @ [key]\<rparr>"
    show "sess_inv R now path s' \<and> (case r of Inl e \<Rightarrow> \<not> supported R (levels depth) path key | Inr x \<Rightarrow> True)"
    proof (cases "key \<in> set path \<or> get_oracle R key = None")
      case True
      with run le R p have "s' = s"
        by (subst (asm) validate_cached_path_unfold)
          (auto simp: cached_path_step_def is_resolving_def ebind_def ok_or_def eerr_def res_iff split: if_splits)
      with True inv show ?thesis by (auto elim: supported_levels split: sum.splits)
    next
      case False
      then obtain cfg where cfg: "get_oracle R key = Some cfg" and new: "key \<notin> set path" by auto
      with run le R p obtain t where
        walk: "first_err (\<lambda>source. first_err (\<lambda>d. validate_cached_path d (Suc depth)) (dependencies source)) (ao_sources cfg) ?t
          = Inr (r, t)"
        and s': "s' = t\<lparr>se_resolving_keys := butlast (se_resolving_keys t)\<rparr>"
        by (subst (asm) validate_cached_path_unfold)
          (auto simp: cached_path_step_def is_resolving_def ebind_def ok_or_def eok_def res_iff push_key_Inr pop_key_Inr)
      let ?E = "\<lambda>_ :: oracle_error. \<not> supported R (levels depth) path key"
      have dep: "ekeeps (sess_inv R now (path @ [key])) (validate_cached_path d (Suc depth) :: ('w, unit) eflow) ?E (\<lambda>_. True)"
        if "source \<in> set (ao_sources cfg)" "d \<in> set (dependencies source)" for source d
        by (rule keeps_weaken [OF Suc.hyps(1) [OF n]]) (use that cfg in \<open>auto elim!: supported_levels split: sum.splits\<close>)
      have all: "ekeeps (sess_inv R now (path @ [key]))
          (first_err (\<lambda>source. first_err (\<lambda>d. validate_cached_path d (Suc depth)) (dependencies source)) (ao_sources cfg) :: ('w, unit) eflow)
          ?E (\<lambda>_. True)"
        by (intro ekeeps_first_err dep)
      have "sess_inv R now (path @ [key]) ?t" using sess_inv_push [OF inv] p by simp
      from keepsD [OF all this walk] show ?thesis unfolding s' using sess_inv_pop by blast
    qed
  qed
qed

lemma outcome_failure_config:
  "outcome_failure oc (Some cfg) = Some err \<Longrightarrow> config_failure oc = None \<Longrightarrow> \<not> config_error err"
  by (auto simp: outcome_failure_def config_failure_def config_error_def split: option.splits if_splits)

lemma resolve_outcome_found:
  "resolve_outcome ext nested key depth ov s = Inr ((oc, None), s') \<Longrightarrow> config_failure oc \<noteq> None"
  by (auto simp: resolve_outcome_def res_iff Let_def with_err_config config_error_def split: if_splits option.splits)

lemma keeps_store_price:
  "safe_feed R now key feed \<Longrightarrow> keeps (sess_inv R now path) (store_price key feed) (\<lambda>_. True)"
  unfolding store_price_def by (rule keeps_fwrite) (auto simp: sess_inv_def)

lemma keeps_store_error:
  "\<not> config_error err \<Longrightarrow> keeps (sess_inv R now path) (store_error key err) (\<lambda>_. True)"
  unfolding store_error_def by (rule keeps_fwrite) (auto simp: sess_inv_def)

lemma nested_step_ok:
  assumes rec: "depth \<le> MAX_RESOLUTION_DEPTH \<Longrightarrow> nested_ok R now (path @ [key]) (Suc depth) nested"
  shows "ekeeps (sess_inv R now path) (nested_step ext nested key depth)
     (\<lambda>e. counts_ok R \<and> supported R (levels depth) path key \<longrightarrow> \<not> config_error e) (safe_feed R now key)"
    (is "ekeeps ?I _ ?E ?A")
proof (rule keepsI)
  fix s r s'
  assume inv: "?I s" and run: "nested_step ext nested key depth s = Inr (r, s')"
  let ?goal = "?I s' \<and> (case r of Inl e \<Rightarrow> ?E e | Inr x \<Rightarrow> ?A x)"
  have path_err: "ekeeps ?I (ebind (validate_cached_path key depth) f) ?E ?A" if "ekeeps ?I (f ()) ?E ?A" for f
    by (rule ekeeps_ebind [OF keeps_weaken [OF cached_path_ok]]) (use that in \<open>auto split: sum.splits\<close>)
  consider feed where "se_key_prices s key = Some feed" | err where "se_key_prices s key = None" "se_key_errors s key = Some err"
    | "se_key_prices s key = None" "se_key_errors s key = None" by fastforce
  then show ?goal
  proof cases
    case (1 feed)
    with run have cached: "ebind (validate_cached_path key depth) (\<lambda>_. eok feed) s = Inr (r, s')" by (simp add: nested_step_def res_iff)
    have "?A feed" using 1 inv by (auto simp: sess_inv_def)
    then have "ekeeps ?I (eok feed) ?E ?A" by (rule ekeeps_eok)
    from keepsD [OF path_err [OF this] inv cached] show ?thesis .
  next
    case (2 err)
    with run have cached: "ebind (validate_cached_path key depth) (\<lambda>_. eerr err) s = Inr (r, s')" by (simp add: nested_step_def res_iff)
    have "?E err" using 2 inv by (auto simp: sess_inv_def)
    then have "ekeeps ?I (eerr err) ?E ?A" by (rule ekeeps_eerr)
    from keepsD [OF path_err [OF this] inv cached] show ?thesis .
  next
    case 3
    with run obtain oc found t where out: "resolve_outcome ext nested key depth None s = Inr ((oc, found), t)"
      and rest: "(case outcome_failure oc found of
               Some err \<Rightarrow> fbind (if config_failure oc = None then store_error key err else fret ()) (\<lambda>_. eerr err)
             | None \<Rightarrow>
                 ebind (ok_or found OracleNotConfigured) (\<lambda>cfg.
                 let feed = to_feed oc (ao_asset_decimals cfg) in
                 fbind (store_price key feed) (\<lambda>_. eok feed))) t = Inr (r, s')"
      by (auto simp: nested_step_def res_iff)
    from keepsD [OF resolve_outcome_ok [OF rec] inv out]
    have t: "?I t" and ok: "outcome_ok R now key oc found" and conf: "counts_ok R \<and> supported R (levels depth) path key \<longrightarrow> config_failure oc = None"
      by auto
    show ?thesis
    proof (cases "outcome_failure oc found")
      case None
      with ok obtain cfg where cfg: "found = Some cfg" "get_oracle R key = Some cfg" "price_safe cfg now (to_feed oc (ao_asset_decimals cfg))"
        by (auto simp: outcome_ok_def)
      then have "?A (to_feed oc (ao_asset_decimals cfg))" by (simp add: safe_feed_def)
      moreover from rest None cfg obtain u where "store_price key (to_feed oc (ao_asset_decimals cfg)) t = Inr (u, s')"
        and "r = Inr (to_feed oc (ao_asset_decimals cfg))"
        by (auto simp: ebind_def ok_or_def eok_def Let_def res_iff)
      ultimately show ?thesis using keepsD [OF keeps_store_price t] by auto
    next
      case (Some err)
      with rest have r: "r = Inl err" and store: "(if config_failure oc = None then store_error key err else fret ()) t = Inr ((), s')"
        by (auto simp: eerr_def res_iff)
      have no_conf: "\<not> config_error err" if "config_failure oc = None"
        using that Some resolve_outcome_found out outcome_failure_config by (cases found) blast+
      have "?I s'"
      proof (cases "config_failure oc = None")
        case True
        then show ?thesis using store keepsD [OF keeps_store_error t] no_conf by auto
      qed (use store t in \<open>auto simp: fret_Inr\<close>)
      with r conf no_conf show ?thesis by auto
    qed
  qed
qed

lemma resolve_nested_ok: "nested_ok R now path depth (resolve_nested ext)"
proof (induction "levels depth" arbitrary: depth path)
  case 0
  then have deep: "\<not> depth \<le> MAX_RESOLUTION_DEPTH" by simp
  show ?case unfolding nested_ok_def
    by (subst resolve_nested_unfold) (intro allI nested_step_ok, use deep in simp)
next
  case (Suc n)
  show ?case unfolding nested_ok_def
  proof
    fix key
    have "nested_ok R now (path @ [key]) (Suc depth) (resolve_nested ext)" using Suc by simp
    then show "ekeeps (sess_inv R now path) (resolve_nested ext key depth)
        (\<lambda>e. counts_ok R \<and> supported R (levels depth) path key \<longrightarrow> \<not> config_error e) (safe_feed R now key)"
      by (subst resolve_nested_unfold) (rule nested_step_ok)
  qed
qed

interpretation engine: resolver R now path depth "resolve_nested ext" for R now path depth ext
  by unfold_locales (rule resolve_nested_ok)

end
