(* ===== verification/Aggregator_Lab.thy ===== *)
theory Aggregator_Lab
  imports Aggregator_Safety
begin

text \<open>
  A concrete history of the aggregator, on which the witnesses evaluate: the owner registers a token
  priced by two independent providers and a second token priced as a factor of the first.
\<close>

definition lab_redstone :: "string \<Rightarrow> redstone_price_data" where
  "lab_redstone feed_id =
     \<lparr>rs_price = (if feed_id = ''A'' then 100000000 else 200000000), rs_package_timestamp = 999000, rs_write_timestamp = 999000\<rparr>"

definition lab_ox :: "unit oracle_ext" where
  "lab_ox =
     \<lparr>ox_latest_round = (\<lambda>_ _ _ w. (Some \<lparr>clr_round_id = 1, clr_answer = 1010000000000000000, clr_timestamp = 990\<rparr>, w)),
      ox_lastprice = (\<lambda>_ _ w. (None, w)), ox_prices = (\<lambda>_ _ _ w. (None, w)), ox_resolution = (\<lambda>_ w. (None, w)),
      ox_base = (\<lambda>_ w. (None, w)), ox_decimals = (\<lambda>_ w. (Some 7, w)), ox_max_submission_age = (\<lambda>_ w. (None, w)),
      ox_read_feed = (\<lambda>_ feed_id w. (Some (lab_redstone feed_id), w)),
      ox_read_feeds = (\<lambda>_ feed_ids w. (Some (map lab_redstone feed_ids), w)),
      ox_aquarius_a = (\<lambda>_ w. (None, w)), ox_aquarius_pool_type = (\<lambda>_ w. (None, w)),
      ox_aquarius_reserves = (\<lambda>_ w. (None, w)), ox_aquarius_tokens = (\<lambda>_ w. (None, w)),
      ox_aquarius_share_id = (\<lambda>_ w. (None, w)), ox_aquarius_total_shares = (\<lambda>_ w. (None, w)),
      ox_curve_pool_info = (\<lambda>_ w. (None, w)), ox_curve_virtual_price = (\<lambda>_ w. (None, w)),
      ox_curve_total_supply = (\<lambda>_ w. (None, w)), ox_executable = (\<lambda>_ w. (None, w))\<rparr>"

definition lab_multi :: "string \<Rightarrow> feed_source" where
  "lab_multi feed_id =
     \<lparr>fs_provider = RedStone \<lparr>mff_contract = 10, mff_feed_id = feed_id, mff_nature = Fundamental\<rparr>, fs_decimals = 8,
      fs_max_stale_seconds = 3600\<rparr>"

definition lab_round :: feed_source where
  "lab_round = \<lparr>fs_provider = Chainlink \<lparr>clf_contract = 20, clf_data_id = [1]\<rparr>, fs_decimals = 18, fs_max_stale_seconds = 3600\<rparr>"

definition lab_oracle_a :: asset_oracle where
  "lab_oracle_a =
     \<lparr>ao_asset_decimals = 7, ao_max_price_stale_seconds = 3600, ao_sources = [Feed (lab_multi ''A''), Feed lab_round],
      ao_tolerance = \<lparr>upper_ratio_bps = 10200, lower_ratio_bps = 9804\<rparr>, ao_independence = RequireDisjoint,
      ao_min_sanity_price_wad = 500000000000000000, ao_max_sanity_price_wad = 1500000000000000000\<rparr>"

definition lab_oracle_b :: asset_oracle where
  "lab_oracle_b =
     \<lparr>ao_asset_decimals = 7, ao_max_price_stale_seconds = 3600,
      ao_sources = [Scaled \<lparr>ss_factor = lab_multi ''B'', ss_quote = Token 5, ss_min_factor_wad = 1, ss_max_factor_wad = 5000000000000000000\<rparr>,
                    Feed (lab_multi ''C'')],
      ao_tolerance = \<lparr>upper_ratio_bps = 10200, lower_ratio_bps = 9804\<rparr>, ao_independence = AllowShared [10],
      ao_min_sanity_price_wad = 1900000000000000000, ao_max_sanity_price_wad = 2100000000000000000\<rparr>"

definition lab_ag0 :: "unit aggregator" where
  "lab_ag0 = \<lparr>ag_owner = None, ag_oracles = [], ag_oracle_keys = None, ag_code = [], ag_now = 1000, ag_auth = (\<lambda>_. True), ag_world = ()\<rparr>"

definition lab_ag1 :: "unit aggregator" where
  "lab_ag1 = lab_ag0\<lparr>ag_owner := Some 9\<rparr>"

definition lab_ag2 :: "unit aggregator" where
  "lab_ag2 = lab_ag1\<lparr>ag_oracles := [(Token 5, lab_oracle_a)], ag_oracle_keys := Some [Token 5]\<rparr>"

definition lab_ag3 :: "unit aggregator" where
  "lab_ag3 = lab_ag2\<lparr>ag_oracles := [(Token 5, lab_oracle_a), (Token 6, lab_oracle_b)], ag_oracle_keys := Some [Token 5, Token 6]\<rparr>"

lemmas ag_lab_defs = lab_ag0_def lab_ag1_def lab_ag2_def lab_ag3_def lab_oracle_a_def lab_oracle_b_def lab_multi_def lab_round_def
lemmas sflow_eval = fbind_def flift_def fret_def fread_def fwrite_def fassert_def assert_with_error_def unwrap_or_panic_def
  ebind_def eok_def eerr_def ok_or_def push_key_def pop_key_def is_resolving_def get_oracle_def

lemma lab_ox_reads:
  "ox_latest_round lab_ox = (\<lambda>_ _ _ w. (Some \<lparr>clr_round_id = 1, clr_answer = 1010000000000000000, clr_timestamp = 990\<rparr>, w))"
  "ox_read_feed lab_ox = (\<lambda>_ feed_id w. (Some (lab_redstone feed_id), w))"
  "ox_read_feeds lab_ox = (\<lambda>_ feed_ids w. (Some (map lab_redstone feed_ids), w))"
  by (simp_all add: lab_ox_def)

lemmas ag_config_eval = validate_oracle_def properties_of_config_def properties_of_source_def source_properties_step_def
  key_properties_step_def require_depth_def source_count_def MIN_SOURCES_def MAX_SOURCES_def MAX_RESOLUTION_DEPTH_def
  has_lp_source_def properties_of_feed_def properties_join_def properties_combined_def properties_empty_def push_unique_def
  shared_contracts_with_def composition_depth_def staleness_envelope_def smoothing_def independence_def covers_def
  same_address_set_def feed_shape_def factor_bounds_def validate_asset_decimals_def is_unsmoothed_market_leg_def
  MIN_PRICE_STALE_SECONDS_def MAX_PRICE_STALE_SECONDS_def MIN_ORACLE_DECIMALS_def MAX_ORACLE_DECIMALS_def
  MIN_ASSET_DECIMALS_def MAX_ASSET_DECIMALS_def

lemmas ag_number_eval = validate_sanity_bounds_def validate_single_source_sanity_band_def validate_oracle_tolerance_def
  mul_div_floor_eq mul_div_ceil_eq mul_div_half_up_eq native_def in_i128_iff i128_max_def BPS_def MIN_TOLERANCE_def
  MAX_TOLERANCE_def MIN_SANITY_BAND_BPS_def MAX_SINGLE_SOURCE_SANITY_BAND_BPS_def MAX_REASONABLE_PRICE_WAD_def
  ceil_div_def half_up_div_def WAD_def

lemmas ag_read_eval = read_source_def evaluate_source_def read_feed_def read_scaled_def read_multi_feed_source_def
  read_price_data_cached_def read_chainlink_source_def get_feed_def set_feed_def oracle_call_def oracle_call_hard_def lab_ox_reads
  lab_redstone_def from_multi_feed_def from_chainlink_def millis_to_seconds_def is_future_at_def u64_checked_add_def u64_max_def
  MAX_FUTURE_SKEW_SECONDS_def try_u256_to_i128_def to_i128_opt_def normalized_price try_normalize_positive_price_def
  WAD_DECIMALS_def i128_checked_pow10_def i128_checked_mul_def i128_checked_add_def is_stale_def MS_PER_SECOND_def

lemmas ag_outcome_eval = resolve_outcome_def compose_def blend_def outcome_one_def outcome_failure_def config_failure_def
  within_tolerance_band_def try_mul_div_half_up_eq midpoint_price_or_zero_def MAX_LEG_AGE_SPREAD_SECONDS_def wad_try_mul_def

lemmas ag_admin_eval = set_oracle_def with_session_def attest_sources_def attest_source_def attest_feed_def REDSTONE_DECIMALS_def
  CHAINLINK_DECIMALS_def store_oracle_def oracle_keys_def revalidate_dependents_def

lemmas ag_lab_eval = ag_config_eval ag_number_eval ag_read_eval ag_outcome_eval ag_lab_defs sflow_eval session_new_def with_session_def
  Let_def

section \<open>Registering the two tokens\<close>

lemma lab_valid_a: "with_session (validate_oracle (Token 5) lab_oracle_a True) lab_ag1 = Inr ((), lab_ag1)"
  by (simp add: ag_lab_eval)

lemma lab_attest_a: "with_session (attest_sources lab_ox (Token 5) lab_oracle_a) lab_ag1 = Inr ((), lab_ag1)"
  by (simp add: ag_admin_eval ag_lab_eval)

lemma lab_probe_a: "with_session (probe lab_ox (Token 5) lab_oracle_a) lab_ag1 = Inr ((), lab_ag1)"
  by (simp add: probe_def ag_lab_eval)

lemma lab_set_a: "ag_dispatch lab_ox (Ag_Set_Oracle (Token 5) lab_oracle_a) lab_ag1 = Inr ((), lab_ag2)"
proof -
  have "\<not> has_lp_source lab_oracle_a" by (simp add: has_lp_source_def lab_oracle_a_def)
  moreover have "store_oracle (Token 5) lab_oracle_a lab_ag1 = lab_ag2"
    by (simp add: store_oracle_def oracle_keys_def lab_ag0_def lab_ag1_def lab_ag2_def Let_def)
  moreover have "revalidate_dependents (Token 5) lab_ag2 = Inr ((), lab_ag2)"
    by (simp add: revalidate_dependents_def oracle_keys_def sflow_eval lab_ag2_def)
  moreover have "get_oracle (ag_oracles lab_ag1) (Token 5) = None" "ag_owner lab_ag1 = Some 9" "ag_auth lab_ag1 9"
    by (simp_all add: get_oracle_def lab_ag0_def lab_ag1_def)
  ultimately show ?thesis
    by (simp add: set_oracle_def ag_only_owner_Inr fbind_Inr fread_Inr fwrite_Inr fret_Inr lab_valid_a lab_attest_a lab_probe_a)
qed

lemma lab_properties_a: "properties_of_key (Token 5) (Suc 0) (session_new [(Token 5, lab_oracle_a)] 1000 ()\<lparr>se_resolving_keys := [Token 6]\<rparr>) =
    Inr (\<lparr>sp_unsmoothed = True, sp_trust = [10, 20], sp_loosest_max_stale = 3600, sp_depth = 1\<rparr>,
      session_new [(Token 5, lab_oracle_a)] 1000 ()\<lparr>se_resolving_keys := [Token 6]\<rparr>)"
  by (subst properties_of_key_unfold) (simp add: ag_lab_eval)

lemma lab_valid_b: "with_session (validate_oracle (Token 6) lab_oracle_b True) lab_ag2 = Inr ((), lab_ag2)"
  using lab_properties_a by (simp add: ag_lab_eval)

lemma lab_attest_b: "with_session (attest_sources lab_ox (Token 6) lab_oracle_b) lab_ag2 = Inr ((), lab_ag2)"
  by (simp add: ag_admin_eval ag_lab_eval)

lemma lab_probe_b: "with_session (probe lab_ox (Token 6) lab_oracle_b) lab_ag2 = Inr ((), lab_ag2)"
  by (simp add: probe_def nested_step_def resolve_nested_unfold [of lab_ox "Token 5" "Suc 0"] store_price_def ag_lab_eval to_feed_def)

lemma lab_set_b: "ag_dispatch lab_ox (Ag_Set_Oracle (Token 6) lab_oracle_b) lab_ag2 = Inr ((), lab_ag3)"
proof -
  have "\<not> has_lp_source lab_oracle_b" by (simp add: has_lp_source_def lab_oracle_b_def)
  moreover have "store_oracle (Token 6) lab_oracle_b lab_ag2 = lab_ag3"
    by (simp add: store_oracle_def oracle_keys_def lab_ag0_def lab_ag1_def lab_ag2_def lab_ag3_def Let_def)
  moreover have "\<not> depends_on (ag_oracles lab_ag3) (Token 5) (Token 6) []"
    by (subst depends_on.simps) (simp add: get_oracle_def lab_ag3_def lab_oracle_a_def)
  then have "revalidate_dependents (Token 6) lab_ag3 = Inr ((), lab_ag3)"
    by (simp add: revalidate_dependents_def oracle_keys_def sflow_eval) (simp add: lab_ag3_def fbind_def fread_def fret_def)
  moreover have "get_oracle (ag_oracles lab_ag2) (Token 6) = None" "ag_owner lab_ag2 = Some 9" "ag_auth lab_ag2 9"
    by (simp_all add: get_oracle_def lab_ag0_def lab_ag1_def lab_ag2_def)
  ultimately show ?thesis
    by (simp add: set_oracle_def ag_only_owner_Inr fbind_Inr fread_Inr fwrite_Inr fret_Inr lab_valid_b lab_attest_b lab_probe_b)
qed

lemma ag_lab_reachable: "ag_reachable lab_ox lab_ag3"
proof -
  have "ag_constructor 9 lab_ag0 = Inr ((), lab_ag1)" by (simp add: ag_constructor_def fwrite_def lab_ag1_def)
  then have "ag_reachable lab_ox lab_ag1" by (rule ag_init [rotated 2]) (simp_all add: lab_ag0_def)
  from ag_step [OF ag_step [OF this lab_set_a] lab_set_b] show ?thesis .
qed

section \<open>Reading them\<close>

lemmas ag_warm_eval = warm_def collect_key.simps [of _ "Token 6" 0] collect_key.simps [of _ "Token 5" "Suc 0"]
  collect_key.simps [of _ "Token 5" 0] collect_step_def collect_provider_def warm_adapter_def read_price_data_bulk_def
  MIN_BULK_FEEDS_def smap_set_def

lemmas ag_resolve_eval = resolve_nested_unfold [of lab_ox "Token 5" "Suc 0"] nested_step_def store_price_def to_feed_def
  compute_hard_def resolve_def force_def

lemma lab_prices: "prices lab_ox [Token 6] lab_ag3 =
    Inr ([Token 6 \<mapsto> \<lparr>pr_price_wad = 2005000000000000000, pr_asset_decimals = 7, pr_timestamp = 990\<rparr>], lab_ag3)"
  by (simp add: prices_def ag_warm_eval ag_resolve_eval ag_lab_eval)

lemma lab_spread: "price_spread lab_ox (Token 5) lab_ag3 = Inr ((1000000000000000000, 1010000000000000000), lab_ag3)"
  by (simp add: price_spread_def resolve_detailed_def ag_warm_eval ag_resolve_eval ag_lab_eval)

lemma lab_quotes: "quotes lab_ox [Token 5] lab_ag3 =
    Inr ([Token 5 \<mapsto> \<lparr>pst_final_wad = 1005000000000000000, pst_primary_wad = 1000000000000000000,
      pst_secondary_wad = 1010000000000000000, pst_price_timestamp = 990, pst_stale = False, pst_deviation = False,
      pst_valid = True, pst_error_code = None\<rparr>], lab_ag3)"
  by (simp add: quotes_def resolve_status_def to_status_def store_status_def ag_warm_eval ag_resolve_eval ag_lab_eval)

lemma lab_band: "ag_dispatch lab_ox (Ag_Set_Sanity_Band (Token 5) 900000000000000000 1200000000000000000) lab_ag3 =
    Inr ((), store_oracle (Token 5) (lab_oracle_a\<lparr>ao_min_sanity_price_wad := 900000000000000000,
      ao_max_sanity_price_wad := 1200000000000000000\<rparr>) lab_ag3)"
  by (simp add: ag_only_owner_Inr set_sanity_band_def probe_def ag_lab_eval)

end
