(* ===== verification/Aggregator_Properties.thy ===== *)
theory Aggregator_Properties
  imports Aggregator_Lab
begin

text \<open>
  The properties of the price aggregator: the prices it returns, its two views, the
  structure of its registry, and what each operation of the owner may change. The external contracts
  are the parameter \<open>ext\<close>, about which nothing is assumed: the properties hold whatever the providers and
  the pools answer.
\<close>

lemma registry_invD:
  assumes "registry_inv a" and "get_oracle (ag_oracles a) key = Some cfg"
  shows "cfg_ok key cfg" and "supported (ag_oracles a) (levels 0) [] key"
  using assms unfolding registry_inv_def by blast+

section \<open>Prices\<close>

lemma resolve_keeps: "keeps (sess_inv R now []) (resolve ext key 0) (safe_feed R now key)"
proof (rule keepsI)
  fix s feed s'
  assume inv: "sess_inv R now [] s" and run: "resolve ext key 0 s = Inr (feed, s')"
  show "sess_inv R now [] s' \<and> safe_feed R now key feed"
  proof (cases "se_key_prices s key")
    case (Some cached)
    with run have "feed = cached" "s' = s" by (simp_all add: resolve_def res_iff)
    with Some inv show ?thesis by (auto simp: sess_inv_def)
  next
    case None
    with run obtain oc found t where out: "resolve_outcome ext (resolve_nested ext) key 0 None s = Inr ((oc, found), t)"
      and force: "force oc found = Inr feed" and store: "store_price key feed t = Inr ((), s')"
      by (auto simp: resolve_def compute_hard_def res_iff)
    from keepsD [OF resolve_outcome_ok [OF resolve_nested_ok] inv out]
    have t: "sess_inv R now [] t" and ok: "outcome_ok R now key oc found" by auto
    from force ok have safe: "safe_feed R now key feed"
      by (auto simp: force_def outcome_ok_def safe_feed_def split: option.splits)
    with keepsD [OF keeps_store_price t store] show ?thesis by blast
  qed
qed

lemma ffold_map_collect:
  assumes step: "\<And>x. keeps P (m x) (Q x)"
    and run: "ffold (\<lambda>x out. fbind (m x) (\<lambda>v. fret (out(x \<mapsto> v)))) xs out s = Inr (out', s')"
    and inv: "P s" and start: "\<forall>x v. out x = Some v \<longrightarrow> Q x v"
  shows "dom out' = dom out \<union> set xs \<and> (\<forall>x v. out' x = Some v \<longrightarrow> Q x v)"
  using run inv start
proof (induction xs arbitrary: out s)
  case Nil then show ?case by (simp add: fret_Inr)
next
  case (Cons x xs)
  let ?f = "\<lambda>x out. fbind (m x) (\<lambda>v. fret (out(x \<mapsto> v)))"
  from Cons.prems(1) have "fbind (?f x out) (ffold ?f xs) s = Inr (out', s')" by (simp only: ffold.simps)
  then obtain o1 t where "?f x out s = Inr (o1, t)" and rest': "ffold ?f xs o1 t = Inr (out', s')" by (rule fbind_cases)
  then obtain v where m: "m x s = Inr (v, t)" and o1: "o1 = out(x \<mapsto> v)" by (elim fbind_cases) (simp add: fret_Inr)
  from rest' have rest: "ffold ?f xs (out(x \<mapsto> v)) t = Inr (out', s')" by (simp only: o1)
  from keepsD [OF step Cons.prems(2) m] have t: "P t" and v: "Q x v" by simp_all
  have "\<forall>y w. (out(x \<mapsto> v)) y = Some w \<longrightarrow> Q y w" using v Cons.prems(3) by simp
  note ih = Cons.IH [OF rest t this]
  have d: "dom (out(x \<mapsto> v)) = insert x (dom out)" by (simp only: dom_fun_upd option.distinct if_False)
  from ih show ?case unfolding d by simp
qed

lemma warmed:
  assumes "warm ext keys (session_new R now w) = Inr (u, s)"
  shows "sess_inv R now [] s"
  using keepsD [OF keeps_quiet [OF quiet_warm, of "\<lambda>_. True"] sess_inv_new assms] by simp

text \<open>
  C13. Every price that \<^verbatim>\<open>prices\<close> returns can be used: for each requested key the map has an entry (and
  no other), the key is configured, and the price is positive, within the sanity band of the key, expressed with
  the decimals of the key, and no older than its staleness bound, whatever the providers answered and
  however the price was composed from other prices.
\<close>

theorem prices_are_safe:
  assumes "prices ext keys a = Inr (out, a')"
  shows "dom out = set keys \<and>
    (\<forall>key feed. out key = Some feed \<longrightarrow>
      (\<exists>cfg. get_oracle (ag_oracles a) key = Some cfg \<and> 0 < pr_price_wad feed \<and>
        ao_min_sanity_price_wad cfg \<le> pr_price_wad feed \<and> pr_price_wad feed \<le> ao_max_sanity_price_wad cfg \<and>
        pr_asset_decimals feed = ao_asset_decimals cfg \<and>
        ag_now a \<le> pr_timestamp feed + ao_max_price_stale_seconds cfg))"
proof -
  from assms obtain s s' where w: "warm ext keys (session_new (ag_oracles a) (ag_now a) (ag_world a)) = Inr ((), s)"
    and loop: "ffold (\<lambda>key out. fbind (resolve ext key 0) (\<lambda>feed. fret (out(key \<mapsto> feed)))) keys Map.empty s = Inr (out, s')"
    by (auto simp: prices_def with_session_def ag_iff)
  from ffold_map_collect [OF resolve_keeps loop warmed [OF w]]
  have "dom out = set keys" and "\<forall>key feed. out key = Some feed \<longrightarrow> safe_feed (ag_oracles a) (ag_now a) key feed" by simp_all
  then show ?thesis by (fastforce simp: safe_feed_def price_safe_def is_stale_def)
qed

theorem prices_are_safe_witness:
  "\<exists>out. prices lab_ox [Token 6] lab_ag3 = Inr (out, lab_ag3) \<and> dom out = {Token 6} \<and>
     out (Token 6) = Some \<lparr>pr_price_wad = 2005000000000000000, pr_asset_decimals = 7, pr_timestamp = 990\<rparr>"
  using prices_are_safe [OF lab_prices] lab_prices by auto

text \<open>
  \<^verbatim>\<open>price_spread\<close> reports the two legs of a usable price: the reported bounds are positive and
  enclose the price, they coincide for a key with one source, and for a key with two sources the
  higher one exceeds the lower one by at most the tolerance, up to half a basis point of rounding.
\<close>

theorem price_spread_sound:
  assumes "price_spread ext key a = Inr ((low, high), a')"
  shows "\<exists>cfg p. get_oracle (ag_oracles a) key = Some cfg \<and> 0 < low \<and> low \<le> p \<and> p \<le> high \<and>
    ao_min_sanity_price_wad cfg \<le> p \<and> p \<le> ao_max_sanity_price_wad cfg \<and>
    (length (ao_sources cfg) = 1 \<and> low = high \<or>
     length (ao_sources cfg) = 2 \<and> 2 * BPS * high < (2 * int (upper_ratio_bps (ao_tolerance cfg)) + 1) * low + 2)"
proof -
  from assms obtain s oc feed found t where w: "warm ext [key] (session_new (ag_oracles a) (ag_now a) (ag_world a)) = Inr ((), s)"
    and out: "resolve_outcome ext (resolve_nested ext) key 0 None s = Inr ((oc, found), t)"
    and force: "force oc found = Inr feed"
    and lh: "low = min (oc_first_wad oc) (oc_second_wad oc)" "high = max (oc_first_wad oc) (oc_second_wad oc)"
    by (auto simp: price_spread_def resolve_detailed_def compute_hard_def with_session_def ag_iff)
  from keepsD [OF resolve_outcome_ok [OF resolve_nested_ok] warmed [OF w] out]
  have ok: "outcome_ok (ag_oracles a) (ag_now a) key oc found" by auto
  with force obtain cfg where cfg: "get_oracle (ag_oracles a) key = Some cfg"
    and safe: "price_safe cfg (ag_now a) (to_feed oc (ao_asset_decimals cfg))" and agree: "outcome_agrees cfg oc"
    by (auto simp: force_def outcome_ok_def split: option.splits)
  from agree show ?thesis unfolding outcome_agrees_def
  proof (elim disjE conjE)
    assume "length (ao_sources cfg) = 1" "oc_first_wad oc = oc_price_wad oc" "oc_second_wad oc = oc_price_wad oc"
    with cfg safe lh show ?thesis by (intro exI [of _ cfg] exI [of _ "oc_price_wad oc"]) (simp add: price_safe_def to_feed_def)
  next
    assume two: "length (ao_sources cfg) = 2" and band: "within_tolerance_band (oc_second_wad oc) (oc_first_wad oc) (ao_tolerance cfg)"
      and mid: "oc_price_wad oc = midpoint_price_or_zero (oc_second_wad oc) (oc_first_wad oc)"
    have lh': "max (oc_second_wad oc) (oc_first_wad oc) = high" "min (oc_second_wad oc) (oc_first_wad oc) = low" using lh by simp_all
    from band obtain ratio where ratio: "try_mul_div_half_up high BPS low = Some ratio" "ratio \<le> int (upper_ratio_bps (ao_tolerance cfg))"
      by (auto simp: within_tolerance_band_def Let_def lh' split: option.splits)
    then have low: "0 < low" and r: "ratio = half_up_div (high * BPS) low"
      by (auto simp: try_mul_div_half_up_eq to_i128_opt_def split: if_splits)
    have "high * BPS + low div 2 < (int (upper_ratio_bps (ao_tolerance cfg)) + 1) * low"
      using ratio(2) r half_up_le_iff [OF low] by simp
    then have tol: "2 * BPS * high < (2 * int (upper_ratio_bps (ao_tolerance cfg)) + 1) * low + 2"
      by (simp add: algebra_simps)
    have "low \<le> oc_price_wad oc \<and> oc_price_wad oc \<le> high"
    proof (cases "i128_checked_add (oc_second_wad oc) (oc_first_wad oc)")
      case None
      with mid safe show ?thesis by (simp add: midpoint_price_or_zero_def price_safe_def to_feed_def)
    next
      case (Some sm)
      then have "sm = low + high" using lh by (auto simp: i128_checked_add_def to_i128_opt_def split: if_splits)
      moreover have "low \<le> high" using lh by simp
      then have "low \<le> (low + high) div 2" "(low + high) div 2 \<le> high" by presburger+
      ultimately show ?thesis using mid Some low by (simp add: midpoint_price_or_zero_def sdiv_nonneg)
    qed
    with cfg safe low two tol show ?thesis
      by (intro exI [of _ cfg] exI [of _ "oc_price_wad oc"]) (simp add: price_safe_def to_feed_def)
  qed
qed

theorem price_spread_sound_witness:
  "price_spread lab_ox (Token 5) lab_ag3 = Inr ((1000000000000000000, 1010000000000000000), lab_ag3) \<and>
   (\<exists>cfg. get_oracle (ag_oracles lab_ag3) (Token 5) = Some cfg)"
  using price_spread_sound [OF lab_spread] lab_spread by blast

section \<open>Quotes\<close>

lemma config_code: "oracle_code e = oracle_code e' \<Longrightarrow> config_error e' \<Longrightarrow> config_error e"
  by (cases e) (auto simp: config_error_def)

lemma to_status_ok:
  assumes ok: "outcome_ok R now key oc found" and found: "found = None \<Longrightarrow> config_failure oc \<noteq> None"
    and conf: "counts_ok R \<and> supported R (levels 0) [] key \<longrightarrow> config_failure oc = None"
  shows "status_ok R now key (to_status oc found)"
proof (cases "outcome_failure oc found")
  case None
  then have "oc_err oc = None" by (auto simp: outcome_failure_def split: option.splits)
  with None ok show ?thesis by (auto simp: outcome_ok_def to_status_def Let_def status_ok_def to_feed_def)
next
  case (Some err)
  have "\<not> config_error err" if good: "counts_ok R \<and> supported R (levels 0) [] key"
  proof -
    from good conf found obtain cfg where "found = Some cfg" and "config_failure oc = None" by auto
    with Some show ?thesis using outcome_failure_config by blast
  qed
  with Some config_code show ?thesis
    by (auto simp: to_status_def Let_def status_ok_def price_status_unusable_def)
qed

lemma keeps_store_status:
  "status_ok R now key st \<Longrightarrow> keeps (sess_inv R now path) (store_status key st) (\<lambda>_. True)"
  unfolding store_status_def by (rule keeps_fwrite) (auto simp: sess_inv_def)

lemma resolve_status_keeps: "keeps (sess_inv R now []) (resolve_status ext key 0) (status_ok R now key)"
proof (rule keepsI)
  fix s st s'
  assume inv: "sess_inv R now [] s" and run: "resolve_status ext key 0 s = Inr (st, s')"
  show "sess_inv R now [] s' \<and> status_ok R now key st"
  proof (cases "se_key_statuses s key")
    case (Some cached)
    with run have "st = cached" "s' = s" by (simp_all add: resolve_status_def res_iff)
    with Some inv show ?thesis by (auto simp: sess_inv_def)
  next
    case None
    with run obtain oc found t where out: "resolve_outcome ext (resolve_nested ext) key 0 None s = Inr ((oc, found), t)"
      and st: "st = to_status oc found" and store: "store_status key st t = Inr ((), s')"
      by (auto simp: resolve_status_def res_iff Let_def)
    from keepsD [OF resolve_outcome_ok [OF resolve_nested_ok] inv out] have t: "sess_inv R now [] t"
      and ok: "outcome_ok R now key oc found"
      and conf: "counts_ok R \<and> supported R (levels 0) [] key \<longrightarrow> config_failure oc = None" by auto
    have "status_ok R now key st" unfolding st
      by (rule to_status_ok [OF ok _ conf]) (use out resolve_outcome_found in blast)
    with keepsD [OF keeps_store_status t store] show ?thesis by blast
  qed
qed

text \<open>
  C36. In every reachable state a quote of a registered key never reports a defect of the configuration:
  no dependency cycle, no excess depth, no wrong number of sources and no missing dependency. A quote is valid
  exactly when it carries no error code, and a valid quote satisfies the bounds of \<^verbatim>\<open>prices\<close>.
\<close>

theorem quotes_never_misconfigured:
  assumes "ag_reachable ext a" and "quotes ext keys a = Inr (out, a')" and "out key = Some st"
    and "get_oracle (ag_oracles a) key = Some cfg"
  shows "pst_error_code st \<notin> Some ` oracle_code ` {OracleCycleDetected, OracleDepthExceeded, SourceCountOutOfRange, OracleNotConfigured} \<and>
    (pst_valid st \<longleftrightarrow> pst_error_code st = None) \<and>
    (pst_valid st \<longrightarrow> 0 < pst_final_wad st \<and> ao_min_sanity_price_wad cfg \<le> pst_final_wad st \<and>
       pst_final_wad st \<le> ao_max_sanity_price_wad cfg \<and> ag_now a \<le> pst_price_timestamp st + ao_max_price_stale_seconds cfg)"
proof -
  have inv: "registry_inv a" by (rule ag_reachable_inv [OF assms(1)])
  from assms(2) obtain s s' where w: "warm ext keys (session_new (ag_oracles a) (ag_now a) (ag_world a)) = Inr ((), s)"
    and loop: "ffold (\<lambda>key out. fbind (resolve_status ext key 0) (\<lambda>st. fret (out(key \<mapsto> st)))) keys Map.empty s = Inr (out, s')"
    by (auto simp: quotes_def with_session_def ag_iff)
  have "\<forall>k v. out k = Some v \<longrightarrow> status_ok (ag_oracles a) (ag_now a) k v"
    using ffold_map_collect [OF resolve_status_keeps loop warmed [OF w]] by simp
  with assms(3) have st: "status_ok (ag_oracles a) (ag_now a) key st" by blast
  have counts: "counts_ok (ag_oracles a)" using registry_invD(1) [OF inv] by (simp add: counts_ok_def cfg_ok_def)
  have sup: "supported (ag_oracles a) (levels 0) [] key" by (rule registry_invD(2) [OF inv assms(4)])
  have err: "pst_error_code st \<noteq> Some (oracle_code e)" if "config_error e" for e
    using st counts sup that unfolding status_ok_def by blast
  have "pst_error_code st \<notin> Some ` oracle_code ` {OracleCycleDetected, OracleDepthExceeded, SourceCountOutOfRange, OracleNotConfigured}"
    using err [of OracleCycleDetected] err [of OracleDepthExceeded] err [of SourceCountOutOfRange] err [of OracleNotConfigured]
    by (simp add: config_error_def del: oracle_code.simps)
  moreover have "pst_valid st \<longleftrightarrow> pst_error_code st = None" using st by (simp add: status_ok_def)
  moreover have "price_safe cfg (ag_now a) \<lparr>pr_price_wad = pst_final_wad st, pr_asset_decimals = ao_asset_decimals cfg,
      pr_timestamp = pst_price_timestamp st\<rparr>" if "pst_valid st"
  proof -
    from st that have "\<exists>c. get_oracle (ag_oracles a) key = Some c \<and>
        price_safe c (ag_now a) \<lparr>pr_price_wad = pst_final_wad st, pr_asset_decimals = ao_asset_decimals c,
          pr_timestamp = pst_price_timestamp st\<rparr>" unfolding status_ok_def by blast
    with assms(4) show ?thesis by auto
  qed
  ultimately show ?thesis by (auto simp: price_safe_def is_stale_def)
qed

theorem quotes_never_misconfigured_witness:
  "\<exists>out st. quotes lab_ox [Token 5] lab_ag3 = Inr (out, lab_ag3) \<and> out (Token 5) = Some st \<and> pst_valid st \<and> 0 < pst_final_wad st"
proof -
  have "get_oracle (ag_oracles lab_ag3) (Token 5) = Some lab_oracle_a" by (simp add: get_oracle_def lab_ag3_def)
  from quotes_never_misconfigured [OF ag_lab_reachable lab_quotes _ this] lab_quotes show ?thesis by auto
qed

section \<open>The registry\<close>

lemma supported_chain:
  assumes "supported R n path k" and "(k, k') \<in> dep_edges R ^^ m"
  shows "m < n \<and> get_oracle R k' \<noteq> None"
  using assms
proof (induction m arbitrary: n path k)
  case 0
  then show ?case by (cases n) (auto split: option.splits)
next
  case (Suc m)
  from Suc.prems(2) obtain d where edge: "(k, d) \<in> dep_edges R" and rest: "(d, k') \<in> dep_edges R ^^ m"
    by (meson relpow_Suc_D2)
  from Suc.prems(1) edge obtain n' where n: "n = Suc n'" and "supported R n' (path @ [k]) d"
    by (cases n) (auto simp: dep_edges_def split: option.splits)
  with Suc.IH [OF _ rest] show ?case by auto
qed

lemma registry_graph:
  assumes "registry_inv a"
  shows "dep_edges (ag_oracles a) ^^ Suc MAX_RESOLUTION_DEPTH = {}" and "acyclic (dep_edges (ag_oracles a))"
    and "(k, d) \<in> dep_edges (ag_oracles a) \<Longrightarrow> get_oracle (ag_oracles a) d \<noteq> None"
proof -
  let ?E = "dep_edges (ag_oracles a)"
  have sup: "supported (ag_oracles a) (levels 0) [] k" if "(k, d) \<in> ?E" for k d
    using that registry_invD(2) [OF assms] unfolding dep_edges_def by blast
  have short: "Suc m < levels 0" if "(k, k') \<in> ?E ^^ Suc m" for m k k'
  proof -
    from that obtain d where "(k, d) \<in> ?E" by (meson relpow_Suc_D2)
    from supported_chain [OF sup [OF this] that] show ?thesis by blast
  qed
  show none: "?E ^^ Suc MAX_RESOLUTION_DEPTH = {}"
  proof (rule ccontr)
    assume "?E ^^ Suc MAX_RESOLUTION_DEPTH \<noteq> {}"
    then obtain k k' where "(k, k') \<in> ?E ^^ Suc MAX_RESOLUTION_DEPTH" by (metis all_not_in_conv surj_pair)
    from short [OF this] show False by simp
  qed
  show "get_oracle (ag_oracles a) d \<noteq> None" if e: "(k, d) \<in> ?E"
    using supported_chain [OF sup [OF e], of d "Suc 0"] e by simp
  show "acyclic ?E"
  proof (rule acyclicI, rule allI, rule notI)
    fix k
    assume "(k, k) \<in> ?E\<^sup>+"
    then obtain m where m: "(k, k) \<in> ?E ^^ Suc m" by (metis trancl_power gr0_implies_Suc)
    have "(k, k) \<in> ?E ^^ (Suc m * j)" for j
    proof (induction j)
      case (Suc j)
      from relcompI [OF m Suc] show ?case by (simp only: mult_Suc_right relpow_add)
    qed simp
    from this [of "Suc MAX_RESOLUTION_DEPTH"] have "(k, k) \<in> ?E ^^ Suc (m + MAX_RESOLUTION_DEPTH + m * MAX_RESOLUTION_DEPTH)"
      by (simp only: mult_Suc mult_Suc_right add_Suc add_Suc_right ac_simps)
    from short [OF this] have False by simp
    then show False .
  qed
qed

text \<open>
  C15. The registry is sound in every reachable state. The listed keys are distinct and are exactly the
  configured ones. Every configuration has a positive sanity band below the ceiling, one or two sources, a pool
  source only on its own, a staleness bound within its range and decimals that fit its key. The
  dependency graph has no cycle, no edge to a key without a configuration and no path of more than
  \<^verbatim>\<open>MAX_RESOLUTION_DEPTH\<close> edges.
\<close>

theorem registry_sound:
  assumes "ag_reachable ext a"
  shows "distinct (oracle_keys a) \<and>
    (\<forall>key. key \<in> set (oracle_keys a) \<longleftrightarrow> get_oracle (ag_oracles a) key \<noteq> None) \<and>
    (\<forall>key cfg. get_oracle (ag_oracles a) key = Some cfg \<longrightarrow>
       0 < ao_min_sanity_price_wad cfg \<and> ao_min_sanity_price_wad cfg < ao_max_sanity_price_wad cfg \<and>
       ao_max_sanity_price_wad cfg \<le> MAX_REASONABLE_PRICE_WAD \<and> length (ao_sources cfg) \<in> {1, 2} \<and>
       ((\<exists>source \<in> set (ao_sources cfg). is_lp source) \<longrightarrow> length (ao_sources cfg) = 1) \<and>
       60 \<le> ao_max_price_stale_seconds cfg \<and> ao_max_price_stale_seconds cfg \<le> 93600 \<and>
       (case key of Token t \<Rightarrow> MIN_ASSET_DECIMALS \<le> ao_asset_decimals cfg \<and> ao_asset_decimals cfg \<le> MAX_ASSET_DECIMALS
                  | Ref r \<Rightarrow> ao_asset_decimals cfg = 0)) \<and>
    acyclic (dep_edges (ag_oracles a)) \<and>
    (\<forall>key dependency. (key, dependency) \<in> dep_edges (ag_oracles a) \<longrightarrow> get_oracle (ag_oracles a) dependency \<noteq> None) \<and>
    dep_edges (ag_oracles a) ^^ Suc MAX_RESOLUTION_DEPTH = {}"
proof -
  have inv: "registry_inv a" by (rule ag_reachable_inv [OF assms])
  then have keys: "distinct (oracle_keys a)" "\<forall>key. key \<in> set (oracle_keys a) \<longleftrightarrow> get_oracle (ag_oracles a) key \<noteq> None"
    unfolding registry_inv_def by blast+
  have cfgs: "0 < ao_min_sanity_price_wad cfg \<and> ao_min_sanity_price_wad cfg < ao_max_sanity_price_wad cfg \<and>
       ao_max_sanity_price_wad cfg \<le> MAX_REASONABLE_PRICE_WAD \<and> length (ao_sources cfg) \<in> {1, 2} \<and>
       ((\<exists>source \<in> set (ao_sources cfg). is_lp source) \<longrightarrow> length (ao_sources cfg) = 1) \<and>
       60 \<le> ao_max_price_stale_seconds cfg \<and> ao_max_price_stale_seconds cfg \<le> 93600 \<and>
       (case key of Token t \<Rightarrow> MIN_ASSET_DECIMALS \<le> ao_asset_decimals cfg \<and> ao_asset_decimals cfg \<le> MAX_ASSET_DECIMALS
                  | Ref r \<Rightarrow> ao_asset_decimals cfg = 0)"
    if "get_oracle (ag_oracles a) key = Some cfg" for key cfg
    using registry_invD(1) [OF inv that] unfolding cfg_ok_def validate_asset_decimals_def assert_Inr_iff
      MIN_PRICE_STALE_SECONDS_def MAX_PRICE_STALE_SECONDS_def by blast
  show ?thesis using keys cfgs registry_graph [OF inv] by blast
qed

theorem registry_sound_witness:
  "acyclic (dep_edges (ag_oracles lab_ag3)) \<and> (Token 6, Token 5) \<in> dep_edges (ag_oracles lab_ag3) \<and>
   get_oracle (ag_oracles lab_ag3) (Token 5) \<noteq> None"
proof -
  have "(Token 6, Token 5) \<in> dep_edges (ag_oracles lab_ag3)"
    by (simp add: dep_edges_def get_oracle_def lab_ag3_def lab_oracle_b_def)
  with registry_sound [OF ag_lab_reachable] show ?thesis by blast
qed

text \<open>
  C38. The walk \<^verbatim>\<open>depends_on\<close> that selects the entries to revalidate computes reachability: it returns true
  exactly when the target is reachable from the root along one or more dependencies, although it never
  enters a key that is on its current path.
\<close>

theorem depends_on_is_reachability: "depends_on R root target [] \<longleftrightarrow> (root, target) \<in> (dep_edges R)\<^sup>+"
  by (rule depends_on_trancl)

section \<open>Shares of liquidity pools\<close>

text \<open>
  C39. The price of a constant-product pool share is fair: when \<open>fair_lp_price_wad\<close> returns, its value per share times the
  number of shares is twice the integer square root of the product of the two reserve values (the 256-bit Newton
  iteration computes that root exactly), rounded down per share, and never more than the value of the reserves. It depends on the reserves only
  through that product: a pool state whose product of values is no larger, at the same share supply, never has a
  higher price, so a trade that moves the reserves along the constant-product curve cannot raise it.
\<close>

theorem lp_price_fair:
  assumes "fair_lp_price_wad a b supply = Inr p"
  shows "\<exists>va vb sh r. reserve_value_wad a = Inr va \<and> reserve_value_wad b = Inr vb \<and>
    try_amount_to_wad (sup_total_shares supply) (sup_decimals supply) = Inr sh \<and> 0 < sh \<and>
    0 \<le> r \<and> r * r \<le> va * vb \<and> va * vb < (r + 1) * (r + 1) \<and> p = 2 * r * WAD div sh \<and> p * sh \<le> (va + vb) * WAD \<and>
    (\<forall>a' b' va' vb' p'. fair_lp_price_wad a' b' supply = Inr p' \<and> reserve_value_wad a' = Inr va' \<and> reserve_value_wad b' = Inr vb' \<and>
      va' * vb' \<le> va * vb \<longrightarrow> p' \<le> p)"
proof (rule fair_lp_price_parts [OF assms])
  fix va vb sh r
  assume f: "reserve_value_wad a = Inr va" "reserve_value_wad b = Inr vb"
    "try_amount_to_wad (sup_total_shares supply) (sup_decimals supply) = Inr sh" "0 < sh"
    "0 \<le> va" "0 \<le> vb" "0 \<le> r" "r * r \<le> va * vb" "va * vb < (r + 1) * (r + 1)" "p = 2 * r * WAD div sh"
  have "p * sh \<le> 2 * r * WAD" unfolding f(10) using f(4) by (metis floor_ge_iff order_refl)
  also have "\<dots> \<le> (va + vb) * WAD" using root_below_mean [OF f(5,6,8)] by (intro mult_right_mono) (auto simp: WAD_def)
  finally have worth: "p * sh \<le> (va + vb) * WAD" .
  have mono: "p' \<le> p" if run: "fair_lp_price_wad a' b' supply = Inr p'" and v: "reserve_value_wad a' = Inr va'" "reserve_value_wad b' = Inr vb'"
    and le: "va' * vb' \<le> va * vb" for a' b' va' vb' p'
  proof (rule fair_lp_price_parts [OF run])
    fix wa wb sh' r'
    assume g: "reserve_value_wad a' = Inr wa" "reserve_value_wad b' = Inr wb"
      "try_amount_to_wad (sup_total_shares supply) (sup_decimals supply) = Inr sh'" "0 \<le> r'" "r' * r' \<le> wa * wb" "p' = 2 * r' * WAD div sh'"
    then have "wa * wb \<le> va * vb" "sh' = sh" using v le f(3) by simp_all
    moreover have "r' \<le> r" using root_mono [OF g(4) f(7) g(5) _ f(9)] calculation(1) by blast
    ultimately show "p' \<le> p" unfolding f(10) g(6) using f(4) by (simp add: zdiv_mono1 WAD_def)
  qed
  show ?thesis
    by (rule exI [of _ va], rule exI [of _ vb], rule exI [of _ sh], rule exI [of _ r]) (use f worth mono in blast)
qed

theorem lp_price_fair_witness:
  "\<exists>p. fair_lp_price_wad \<lparr>leg_reserve = 400, leg_decimals = 0, leg_price_wad = WAD\<rparr> \<lparr>leg_reserve = 100, leg_decimals = 0, leg_price_wad = WAD\<rparr>
      \<lparr>sup_total_shares = 10, sup_decimals = 0\<rparr> = Inr p \<and> p * (10 * WAD) \<le> (400 * WAD + 100 * WAD) * WAD"
proof -
  let ?a = "\<lparr>leg_reserve = 400, leg_decimals = 0, leg_price_wad = WAD\<rparr>" and ?b = "\<lparr>leg_reserve = 100, leg_decimals = 0, leg_price_wad = WAD\<rparr>"
    and ?s = "\<lparr>sup_total_shares = 10, sup_decimals = 0\<rparr>"
  have v: "reserve_value_wad ?a = Inr (400 * WAD)" "reserve_value_wad ?b = Inr (100 * WAD)"
    "try_amount_to_wad 10 0 = Inr (10 * WAD)"
    by (simp_all add: reserve_value_wad_def try_amount_to_wad_def i128_checked_pow10_def to_i128_opt_def try_mul_div_half_up_eq half_up_div_def in_i128_def
      WAD_def WAD_DECIMALS_def i128_max_def i128_min_def unwrap_or_panic_def)
  obtain r where r: "isqrt_of_product (400 * WAD) (100 * WAD) = Inr r" "0 \<le> r" "r * r \<le> 400 * WAD * (100 * WAD)"
      "400 * WAD * (100 * WAD) < (r + 1) * (r + 1)"
    using isqrt_of_product_root [of "400 * WAD" "100 * WAD"] by (auto simp: WAD_def)
  have "r = 200 * WAD"
    using root_mono [OF r(2) _ r(3), of "200 * WAD" "400 * WAD * (100 * WAD)"] root_mono [of "200 * WAD" r _ _, OF _ r(2) _ _ r(4)] by (simp add: WAD_def)
  with r(1) have "fair_lp_price_wad ?a ?b ?s = Inr (40 * WAD)"
    using v by (simp add: fair_lp_price_wad_def lp_inputs_positive_def u256_op_defs u256_def u256_fits_def try_u256_to_i128_def
      unwrap_or_panic_def i128_max_def WAD_def)
  then obtain p where run: "fair_lp_price_wad ?a ?b ?s = Inr p" by blast
  from lp_price_fair [OF run] v show ?thesis using run by auto
qed

section \<open>What the owner may change\<close>

lemma set_oracle_effect:
  assumes "set_oracle ext key cfg a = Inr (u, a')"
  shows "ag_oracles a' = AList.update key cfg (ag_oracles a)"
    and "get_oracle (ag_oracles a) key = Some old \<Longrightarrow> ao_asset_decimals old = ao_asset_decimals cfg"
proof -
  let ?probe = "if has_lp_source cfg then probe_priceable ext key cfg else probe ext key cfg"
  from assms obtain c d e where dec: "case get_oracle (ag_oracles a) key of Some stored \<Rightarrow> ao_asset_decimals stored = ao_asset_decimals cfg | None \<Rightarrow> True"
    and v: "with_session (validate_oracle key cfg True) a = Inr ((), c)"
    and attest: "with_session (attest_sources ext key cfg) c = Inr ((), d)"
    and probed: "with_session ?probe d = Inr ((), e)"
    and re: "revalidate_dependents key (store_oracle key cfg e) = Inr (u, a')"
    unfolding set_oracle_def fbind_Inr fread_Inr fwrite_Inr by (auto simp: fassert_Inr fret_Inr split: option.splits)
  show "ag_oracles a' = AList.update key cfg (ag_oracles a)"
    using revalidated(1) [OF re] with_session_frame [OF v] with_session_frame [OF attest] with_session_frame [OF probed]
    by (auto simp: store_oracle_fields)
  show "get_oracle (ag_oracles a) key = Some old \<Longrightarrow> ao_asset_decimals old = ao_asset_decimals cfg" using dec by simp
qed

lemma set_sanity_band_effect:
  assumes "set_sanity_band ext key lo hi a = Inr (u, a')"
  obtains old where "get_oracle (ag_oracles a) key = Some old" and "ao_min_sanity_price_wad old \<le> lo" and "hi \<le> ao_max_sanity_price_wad old"
    and "ag_oracles a' = AList.update key (old\<lparr>ao_min_sanity_price_wad := lo, ao_max_sanity_price_wad := hi\<rparr>) (ag_oracles a)"
proof -
  from assms obtain old b c where old: "get_oracle (ag_oracles a) key = Some old"
    and tight: "ao_min_sanity_price_wad old \<le> lo" "hi \<le> ao_max_sanity_price_wad old"
    and v: "with_session (validate_oracle key (old\<lparr>ao_min_sanity_price_wad := lo, ao_max_sanity_price_wad := hi\<rparr>) False) a = Inr ((), b)"
    and probed: "with_session (probe ext key (old\<lparr>ao_min_sanity_price_wad := lo, ao_max_sanity_price_wad := hi\<rparr>)) b = Inr ((), c)"
    and a': "a' = store_oracle key (old\<lparr>ao_min_sanity_price_wad := lo, ao_max_sanity_price_wad := hi\<rparr>) c"
    by (auto simp: set_sanity_band_def ag_iff)
  from with_session_frame [OF v] with_session_frame [OF probed] a'
  have "ag_oracles a' = AList.update key (old\<lparr>ao_min_sanity_price_wad := lo, ao_max_sanity_price_wad := hi\<rparr>) (ag_oracles a)"
    by (auto simp: store_oracle_fields)
  with old tight that show thesis by blast
qed

lemma set_tolerance_effect:
  assumes "set_tolerance ext key tol a = Inr (u, a')"
  obtains old where "get_oracle (ag_oracles a) key = Some old"
    and "ag_oracles a' = AList.update key (old\<lparr>ao_tolerance := tol\<rparr>) (ag_oracles a)"
proof -
  from assms obtain old c where old: "get_oracle (ag_oracles a) key = Some old"
    and probed: "with_session (probe ext key (old\<lparr>ao_tolerance := tol\<rparr>)) a = Inr ((), c)"
    and a': "a' = store_oracle key (old\<lparr>ao_tolerance := tol\<rparr>) c"
    by (auto simp: set_tolerance_def ag_iff)
  from with_session_frame [OF probed] a' have "ag_oracles a' = AList.update key (old\<lparr>ao_tolerance := tol\<rparr>) (ag_oracles a)"
    by (auto simp: store_oracle_fields)
  with old that show thesis by blast
qed

text \<open>
  C37. No call removes a configured key or changes its decimals. Only \<^verbatim>\<open>set_oracle\<close> on the key itself may
  widen its sanity band or replace its sources; every other call leaves the sources as they are
  and the new band within the old one.
\<close>

theorem configuration_only_tightens:
  assumes "ag_dispatch ext cl a = Inr (u, a')" and "get_oracle (ag_oracles a) key = Some old"
  shows "\<exists>cfg. get_oracle (ag_oracles a') key = Some cfg \<and> ao_asset_decimals cfg = ao_asset_decimals old \<and>
    ((\<exists>new. cl = Ag_Set_Oracle key new) \<or>
     ao_sources cfg = ao_sources old \<and> ao_min_sanity_price_wad old \<le> ao_min_sanity_price_wad cfg \<and>
     ao_max_sanity_price_wad cfg \<le> ao_max_sanity_price_wad old \<and> ao_max_price_stale_seconds cfg = ao_max_price_stale_seconds old)"
proof (cases cl)
  case (Ag_Set_Oracle k cfg)
  with assms(1) have "set_oracle ext k cfg a = Inr (u, a')" by (simp add: ag_only_owner_Inr)
  from set_oracle_effect [OF this] assms(2) Ag_Set_Oracle show ?thesis by (auto simp: get_oracle_update)
next
  case (Ag_Set_Sanity_Band k lo hi)
  with assms(1) have "set_sanity_band ext k lo hi a = Inr (u, a')" by (simp add: ag_only_owner_Inr)
  then show ?thesis by (rule set_sanity_band_effect) (use assms(2) in \<open>auto simp: get_oracle_update\<close>)
next
  case (Ag_Set_Tolerance k tol)
  with assms(1) have "set_tolerance ext k tol a = Inr (u, a')" by (simp add: ag_only_owner_Inr)
  then show ?thesis by (rule set_tolerance_effect) (use assms(2) in \<open>auto simp: get_oracle_update\<close>)
next
  case (Ag_Upgrade code)
  with assms(1) have "ag_oracles a' = ag_oracles a" by (auto simp: ag_only_owner_Inr fwrite_Inr)
  with assms(2) show ?thesis by simp
qed

theorem configuration_only_tightens_witness:
  "\<exists>a' cfg. ag_dispatch lab_ox (Ag_Set_Sanity_Band (Token 5) 900000000000000000 1200000000000000000) lab_ag3 = Inr ((), a') \<and>
     get_oracle (ag_oracles a') (Token 5) = Some cfg \<and> ao_sources cfg = ao_sources lab_oracle_a"
proof -
  have "get_oracle (ag_oracles lab_ag3) (Token 5) = Some lab_oracle_a" by (simp add: get_oracle_def lab_ag3_def)
  from configuration_only_tightens [OF lab_band this] lab_band show ?thesis by auto
qed

end
