(* ===== verification/Governance.thy ===== *)
theory Governance
  imports Controller_Config Oracle_Types
begin

text \<open>
  \<^verbatim>\<open>src/contracts/governance/src\<close>: the timelock that owns the controller and the price aggregator. An administrative
  operation is proposed, waits for the delay of its tier, and is executed within a grace period; a few
  operations that only restrict the protocol are immediate. The timelock, access-control and ownership
  libraries are third-party crates: their functions are fields of \<open>gov_ext\<close>, over library states of arbitrary
  types \<open>'t\<close> and \<open>'r\<close>, as are the contracts the governance calls, over the world \<open>'w\<close>.
\<close>

section \<open>Operations\<close>

record create_pool_args =
  cpa_hub_id :: nat
  cpa_asset :: address
  cpa_params :: market_params_raw

record relax_flags_args =
  rfa_spoke_id :: nat
  rfa_hub_asset :: hub_asset_key
  rfa_expected_epoch :: nat
  rfa_paused :: bool
  rfa_frozen :: bool
  rfa_no_seize :: bool

record deploy_nft_args =
  dna_wasm_hash :: bytes
  dna_uri :: string
  dna_name :: string
  dna_symbol :: string

record liquidation_curve_args =
  lca_spoke_id :: nat
  lca_target_hf_wad :: int
  lca_hf_for_max_bonus_wad :: int
  lca_liquidation_bonus_factor_bps :: nat

datatype admin_operation =
    SetSwapAggregator address
  | SetPriceAggregator address
  | SetAccumulator address
  | SetPositionLimits position_limits
  | SetMinBorrowCollateralUsd int
  | CreateHub
  | AddSpoke
  | RemoveSpoke nat
  | AddAssetToSpoke spoke_asset_args
  | EditAssetInSpoke spoke_asset_args
  | RemoveAssetFromSpoke hub_asset_key nat
  | ApproveBlendPool address
  | RevokeBlendPool address
  | CreateLiquidityPool create_pool_args
  | UpgradeLiquidityPoolParams hub_asset_key interest_rate_model
  | DeployPool bytes
  | DeployPositionNft deploy_nft_args
  | UpgradePool bytes
  | UpgradePositionNft bytes
  | UpgradePriceAggregator bytes
  | SetPositionManager address bool
  | UpgradeController bytes
  | MigrateController nat
  | TransferCtrlOwnership address nat
  | EditOracleTolerance price_key nat
  | SetSpokeLiquidationCurve liquidation_curve_args
  | ForceSocializeBadDebt nat
  | Unpause
  | UpgradeGov bytes
  | UpdateGovDelay nat
  | GrantGovRole address string
  | RevokeGovRole address string
  | TransferGovOwnership address nat
  | ConfigureAssetOracle price_key asset_oracle
  | RelaxSpokeAssetFlags relax_flags_args

text \<open>The argument vector of a call: one constructor per type that is encoded into a \<^verbatim>\<open>Val\<close>.\<close>

datatype val =
    V_Address address
  | V_Addresses "address list"
  | V_Bytes bytes
  | V_U32 nat
  | V_U64 nat
  | V_I128 int
  | V_Bool bool
  | V_Symbol string
  | V_String string
  | V_Limits position_limits
  | V_Spoke_Asset spoke_asset_args
  | V_Hub_Asset hub_asset_key
  | V_Market_Params market_params_raw
  | V_Rate_Model interest_rate_model
  | V_Key price_key
  | V_Oracle asset_oracle
  | V_Tolerance oracle_tolerance
  | V_Void

record operation =
  op_target :: address
  op_function :: string
  op_args :: "val list"
  op_predecessor :: bytes
  op_salt :: bytes

datatype delay_tier = Standard | Sensitive | Recovery

record resolved_operation =
  ro_target :: address
  ro_function :: string
  ro_args :: "val list"
  ro_delay_tier :: delay_tier

section \<open>State, libraries and other contracts\<close>

record ('t, 'r, 'w) governance =
  gv_self :: address
  gv_owner :: "address option"
  gv_controller :: "address option"
  gv_price_aggregator :: "address option"
  gv_revocation_targets :: "bytes \<rightharpoonup> address"
  gv_recovery_ops :: "bytes \<rightharpoonup> bool"
  gv_timelock :: 't
  gv_access :: 'r
  gv_code :: bytes
  gv_sequence :: nat
  gv_auth :: "address \<Rightarrow> bool"
  gv_world :: 'w

record ('t, 'r, 'w) gov_ext =
  tl_hash :: "operation \<Rightarrow> bytes"
  tl_min_delay :: "'t \<Rightarrow> nat res"
  tl_set_min_delay :: "nat \<Rightarrow> 't \<Rightarrow> 't"
  tl_ledger :: "'t \<Rightarrow> bytes \<Rightarrow> nat"
  tl_state :: "'t \<Rightarrow> nat \<Rightarrow> bytes \<Rightarrow> val"
  tl_schedule :: "operation \<Rightarrow> nat \<Rightarrow> nat \<Rightarrow> 't \<Rightarrow> (bytes \<times> 't) res"
  tl_set_execute :: "operation \<Rightarrow> nat \<Rightarrow> 't \<Rightarrow> 't res"
  tl_cancel :: "bytes \<Rightarrow> nat \<Rightarrow> 't \<Rightarrow> 't res"
  tl_remove :: "bytes \<Rightarrow> 't \<Rightarrow> 't"
  ac_has_role :: "'r \<Rightarrow> address \<Rightarrow> string \<Rightarrow> bool"
  ac_ensure_role :: "'r \<Rightarrow> address \<Rightarrow> string \<Rightarrow> unit res"
  ac_grant :: "address \<Rightarrow> string \<Rightarrow> 'r \<Rightarrow> 'r res"
  ac_revoke :: "address \<Rightarrow> string \<Rightarrow> 'r \<Rightarrow> 'r res"
  ac_count :: "'r \<Rightarrow> string \<Rightarrow> nat"
  ac_member :: "'r \<Rightarrow> string \<Rightarrow> nat \<Rightarrow> address res"
  ac_init_admin :: "address \<Rightarrow> 'r \<Rightarrow> 'r res"
  ac_admin :: "'r \<Rightarrow> address option"
  ac_set_admin :: "address \<Rightarrow> 'r \<Rightarrow> 'r"
  ac_clear_pending_admin :: "'r \<Rightarrow> 'r"
  rt_offer_owner :: "address \<Rightarrow> nat \<Rightarrow> nat \<Rightarrow> 'r \<Rightarrow> 'r res"
  rt_offer_admin :: "address \<Rightarrow> nat \<Rightarrow> nat \<Rightarrow> 'r \<Rightarrow> 'r res"
  rt_accept_owner :: "(address \<Rightarrow> bool) \<Rightarrow> nat \<Rightarrow> 'r \<Rightarrow> (address \<times> 'r) res"
  gx_invoke :: "address \<Rightarrow> string \<Rightarrow> val list \<Rightarrow> 'w \<Rightarrow> (val \<times> 'w) res"
  gx_deploy :: "bytes \<Rightarrow> bytes \<Rightarrow> address \<Rightarrow> 'w \<Rightarrow> (address \<times> 'w) res"
  gx_is_wasm :: "address \<Rightarrow> 'w \<Rightarrow> bool"
  gx_try_decimals :: "address \<Rightarrow> 'w \<Rightarrow> nat option \<times> 'w"
  gx_try_symbol :: "address \<Rightarrow> 'w \<Rightarrow> bool \<times> 'w"
  gx_oracle :: "address \<Rightarrow> price_key \<Rightarrow> 'w \<Rightarrow> (asset_oracle option \<times> 'w) res"
  gx_flags_epoch :: "address \<Rightarrow> nat \<Rightarrow> hub_asset_key \<Rightarrow> 'w \<Rightarrow> (nat \<times> 'w) res"

type_synonym ('t, 'r, 'w, 'a) gflow = "(('t, 'r, 'w) governance, 'a) flow"

definition on_timelock :: "('t \<Rightarrow> 't res) \<Rightarrow> ('t, 'r, 'w, unit) gflow" where
  "on_timelock f g = rbind (f (gv_timelock g)) (\<lambda>t. Inr ((), g\<lparr>gv_timelock := t\<rparr>))"

definition on_access :: "('r \<Rightarrow> 'r res) \<Rightarrow> ('t, 'r, 'w, unit) gflow" where
  "on_access f g = rbind (f (gv_access g)) (\<lambda>r. Inr ((), g\<lparr>gv_access := r\<rparr>))"

definition on_world :: "('w \<Rightarrow> ('a \<times> 'w) res) \<Rightarrow> ('t, 'r, 'w, 'a) gflow" where
  "on_world f g = rbind (f (gv_world g)) (\<lambda>(x, w). Inr (x, g\<lparr>gv_world := w\<rparr>))"

definition gv_require_auth :: "address \<Rightarrow> ('t, 'r, 'w, unit) gflow" where
  "gv_require_auth a = fbind (fread (\<lambda>g. gv_auth g a)) (\<lambda>ok. fassert ok (Host AuthFailed))"

definition gv_only_owner :: "('t, 'r, 'w, 'a) gflow \<Rightarrow> ('t, 'r, 'w, 'a) gflow" where
  "gv_only_owner body =
     fbind (fread gv_owner) (\<lambda>stored.
     fbind (flift (unwrap_or_panic stored (Host OwnableOwnerNotSet))) (\<lambda>owner.
     fbind (gv_require_auth owner) (\<lambda>_. body)))"

definition get_controller :: "('t, 'r, 'w, address) gflow" where
  "get_controller = fbind (fread gv_controller) (\<lambda>c. flift (unwrap_or_panic c (Generic PoolNotInitialized)))"

definition gov_get_price_aggregator :: "('t, 'r, 'w, address) gflow" where
  "gov_get_price_aggregator = fbind (fread gv_price_aggregator) (\<lambda>c. flift (unwrap_or_panic c (Generic AggregatorNotSet)))"

definition mark_role_revocation_target :: "bytes \<Rightarrow> address \<Rightarrow> ('t, 'r, 'w) governance \<Rightarrow> ('t, 'r, 'w) governance" where
  "mark_role_revocation_target op_id account g = g\<lparr>gv_revocation_targets := (gv_revocation_targets g)(op_id \<mapsto> account)\<rparr>"

definition mark_recovery_op :: "bytes \<Rightarrow> ('t, 'r, 'w) governance \<Rightarrow> ('t, 'r, 'w) governance" where
  "mark_recovery_op op_id g = g\<lparr>gv_recovery_ops := (gv_recovery_ops g)(op_id \<mapsto> True)\<rparr>"

definition is_recovery_op :: "bytes \<Rightarrow> ('t, 'r, 'w) governance \<Rightarrow> bool" where
  "is_recovery_op op_id g = (case gv_recovery_ops g op_id of Some b \<Rightarrow> b | None \<Rightarrow> False)"

definition clear_operation_sidecars :: "bytes \<Rightarrow> ('t, 'r, 'w) governance \<Rightarrow> ('t, 'r, 'w) governance" where
  "clear_operation_sidecars op_id g =
     g\<lparr>gv_recovery_ops := (gv_recovery_ops g)(op_id := None), gv_revocation_targets := (gv_revocation_targets g)(op_id := None)\<rparr>"

section \<open>Validation\<close>

definition TIMELOCK_MIN_DELAY_LEDGERS :: nat where "TIMELOCK_MIN_DELAY_LEDGERS = 34560"

definition TIMELOCK_MAX_DELAY_LEDGERS :: nat where "TIMELOCK_MAX_DELAY_LEDGERS = 241920"

definition TIMELOCK_SENSITIVE_MIN_DELAY_LEDGERS :: nat where "TIMELOCK_SENSITIVE_MIN_DELAY_LEDGERS = 12"

definition TIMELOCK_OPERATION_GRACE_LEDGERS :: nat where "TIMELOCK_OPERATION_GRACE_LEDGERS = 120960"

definition TIMELOCK_RECOVERY_MIN_DELAY_LEDGERS :: nat where "TIMELOCK_RECOVERY_MIN_DELAY_LEDGERS = 518400"

definition require_contract_address :: "('t, 'r, 'w) gov_ext \<Rightarrow> address \<Rightarrow> error \<Rightarrow> ('t, 'r, 'w, unit) gflow" where
  "require_contract_address ext a e = fbind (fread (\<lambda>g. gx_is_wasm ext a (gv_world g))) (\<lambda>ok. fassert ok e)"

definition require_nonzero_wasm_hash :: "bytes \<Rightarrow> ('t, 'r, 'w, unit) gflow" where
  "require_nonzero_wasm_hash h = fassert (h \<noteq> replicate 32 0) (Generic InvalidWasmHash)"

definition validate_and_fetch_token_decimals :: "('t, 'r, 'w) gov_ext \<Rightarrow> address \<Rightarrow> ('t, 'r, 'w, nat) gflow" where
  "validate_and_fetch_token_decimals ext tok =
     fbind (on_world (\<lambda>w. Inr (gx_try_decimals ext tok w))) (\<lambda>answer.
     fbind (flift (unwrap_or_panic answer (Generic InvalidAsset))) (\<lambda>decimals.
     fbind (on_world (\<lambda>w. Inr (gx_try_symbol ext tok w))) (\<lambda>has_symbol.
     fbind (fassert has_symbol (Generic InvalidAsset)) (\<lambda>_. fret decimals))))"

definition listed_token_decimals :: "('t, 'r, 'w) gov_ext \<Rightarrow> address \<Rightarrow> nat \<Rightarrow> ('t, 'r, 'w, nat) gflow" where
  "listed_token_decimals ext tok decimals =
     fbind (fread gv_price_aggregator) (\<lambda>stored.
     if stored = None then fret decimals
     else fbind gov_get_price_aggregator (\<lambda>aggregator.
          fbind (on_world (gx_oracle ext aggregator (Token tok))) (\<lambda>found.
          fret (case found of None \<Rightarrow> decimals | Some oracle \<Rightarrow> ao_asset_decimals oracle))))"

definition validate_position_limits :: "position_limits \<Rightarrow> unit res" where
  "validate_position_limits limits =
     assert_with_error
       (1 \<le> pl_max_supply_positions limits \<and> pl_max_supply_positions limits \<le> POSITION_LIMIT_MAX \<and>
        1 \<le> pl_max_borrow_positions limits \<and> pl_max_borrow_positions limits \<le> POSITION_LIMIT_MAX)
       (Generic InvalidPositionLimits)"

definition validate_market_creation :: "address \<Rightarrow> market_params_raw \<Rightarrow> nat \<Rightarrow> unit res" where
  "validate_market_creation tok params token_decimals =
     rbind (assert_with_error (mpr_asset_id params = tok) (Generic WrongToken)) (\<lambda>_.
     rbind (assert_with_error (mpr_asset_decimals params = token_decimals) (Generic InvalidAsset)) (\<lambda>_.
     rbind (assert_with_error (MIN_ASSET_DECIMALS \<le> mpr_asset_decimals params \<and> mpr_asset_decimals params \<le> MAX_ASSET_DECIMALS)
              (Generic InvalidAsset)) (\<lambda>_.
     market_params_raw_verify params)))"

definition validate_spoke_cap_args :: "int \<Rightarrow> int \<Rightarrow> unit res" where
  "validate_spoke_cap_args supply_cap borrow_cap =
     assert_with_error (supply_cap \<ge> 0 \<and> borrow_cap \<ge> 0) (Collateral InvalidBorrowParams)"

definition validate_spoke_asset :: "spoke_asset_args \<Rightarrow> unit res" where
  "validate_spoke_asset args =
     rbind (validate_risk_bounds (sg_ltv args) (sg_threshold args) (sg_bonus args)) (\<lambda>_.
     rbind (validate_liquidation_fees (sg_liquidation_fees args)) (\<lambda>_.
     validate_spoke_cap_args (sg_supply_cap args) (sg_borrow_cap args)))"

definition bps_i128_to_u32 :: "int \<Rightarrow> nat res" where
  "bps_i128_to_u32 v = (if 0 \<le> v \<and> v < 2 ^ 32 then Inr (nat v) else Inl (Generic MathOverflow))"

definition calculate_tolerance_range :: "nat \<Rightarrow> (int \<times> int) res" where
  "calculate_tolerance_range tolerance_bps =
     rbind (unwrap_or_panic (i128_checked_add BPS (int tolerance_bps)) (Generic MathOverflow)) (\<lambda>upper_bound.
     rbind (mul_div_half_up BPS BPS upper_bound) (\<lambda>lower_bound.
     Inr (upper_bound, lower_bound)))"

definition validate_and_calculate_tolerances :: "nat \<Rightarrow> oracle_tolerance res" where
  "validate_and_calculate_tolerances tolerance =
     rbind (assert_with_error (MIN_TOLERANCE \<le> tolerance \<and> tolerance \<le> MAX_TOLERANCE) (Oracle BadLastTolerance)) (\<lambda>_.
     rbind (calculate_tolerance_range tolerance) (\<lambda>(upper, lower).
     rbind (bps_i128_to_u32 upper) (\<lambda>u.
     rbind (bps_i128_to_u32 lower) (\<lambda>l.
     Inr \<lparr>upper_ratio_bps = u, lower_ratio_bps = l\<rparr>))))"

definition require_nonzero_delay :: "nat \<Rightarrow> unit res" where
  "require_nonzero_delay delay = assert_with_error (delay \<noteq> 0) (Generic InvalidTimelockDelay)"

definition get_min_delay :: "('t, 'r, 'w) gov_ext \<Rightarrow> ('t, 'r, 'w, nat) gflow" where
  "get_min_delay ext = fbind (fread gv_timelock) (\<lambda>t. flift (tl_min_delay ext t))"

definition validate_delay_update :: "('t, 'r, 'w) gov_ext \<Rightarrow> nat \<Rightarrow> ('t, 'r, 'w, unit) gflow" where
  "validate_delay_update ext new_delay =
     fbind (flift (require_nonzero_delay new_delay)) (\<lambda>_.
     fbind (get_min_delay ext) (\<lambda>current.
     fassert (new_delay \<le> TIMELOCK_MAX_DELAY_LEDGERS \<and> (new_delay \<ge> current \<or> new_delay \<ge> TIMELOCK_MIN_DELAY_LEDGERS))
       (Generic InvalidTimelockDelay)))"

definition resolve_oracle :: "('t, 'r, 'w) gov_ext \<Rightarrow> price_key \<Rightarrow> asset_oracle \<Rightarrow> ('t, 'r, 'w, asset_oracle) gflow" where
  "resolve_oracle ext key oracle =
     fbind (case key of
              Token tok \<Rightarrow>
                fbind (validate_and_fetch_token_decimals ext tok) (\<lambda>token_decimals.
                listed_token_decimals ext tok token_decimals)
            | Ref r \<Rightarrow> fret 0) (\<lambda>decimals.
     fret (oracle\<lparr>ao_asset_decimals := decimals\<rparr>))"

section \<open>Roles and ownership\<close>

definition ORACLE_ROLE :: string where "ORACLE_ROLE = ''ORACLE''"

definition PROPOSER_ROLE :: string where "PROPOSER_ROLE = ''PROPOSER''"

definition EXECUTOR_ROLE :: string where "EXECUTOR_ROLE = ''EXECUTOR''"

definition CANCELLER_ROLE :: string where "CANCELLER_ROLE = ''CANCELLER''"

definition GUARDIAN_ROLE :: string where "GUARDIAN_ROLE = ''GUARDIAN''"

definition default_operational_roles :: "string list" where
  "default_operational_roles = [ORACLE_ROLE, PROPOSER_ROLE, EXECUTOR_ROLE, CANCELLER_ROLE, GUARDIAN_ROLE]"

definition require_known_governance_role :: "string \<Rightarrow> ('t, 'r, 'w, unit) gflow" where
  "require_known_governance_role role = fassert (role \<in> set default_operational_roles) (Generic InvalidRole)"

definition has_role :: "('t, 'r, 'w) gov_ext \<Rightarrow> address \<Rightarrow> string \<Rightarrow> ('t, 'r, 'w, bool) gflow" where
  "has_role ext account role = fread (\<lambda>g. ac_has_role ext (gv_access g) account role)"

definition ensure_role :: "('t, 'r, 'w) gov_ext \<Rightarrow> string \<Rightarrow> address \<Rightarrow> ('t, 'r, 'w, unit) gflow" where
  "ensure_role ext role account = fbind (fread gv_access) (\<lambda>r. flift (ac_ensure_role ext r account role))"

definition owner_or_panic :: "('t, 'r, 'w, address) gflow" where
  "owner_or_panic = fbind (fread gv_owner) (\<lambda>stored. flift (unwrap_or_panic stored (Generic OwnerNotSet)))"

definition sync_pending_admin_transfer :: "('t, 'r, 'w) gov_ext \<Rightarrow> address \<Rightarrow> nat \<Rightarrow> ('t, 'r, 'w, unit) gflow" where
  "sync_pending_admin_transfer ext new_owner live_until_ledger =
     fbind (if live_until_ledger = 0 then on_access (\<lambda>r. Inr (ac_clear_pending_admin ext r))
            else fbind (fread gv_sequence) (\<lambda>now. on_access (rt_offer_admin ext new_owner live_until_ledger now))) (\<lambda>_.
     fbind (fread (\<lambda>g. case ac_admin ext (gv_access g) of Some admin \<Rightarrow> Some admin | None \<Rightarrow> gv_owner g)) (\<lambda>current.
     fbind (flift (unwrap_or_panic current (Generic OwnerNotSet))) (\<lambda>_. fret ())))"

definition sync_owner_access_control :: "('t, 'r, 'w) gov_ext \<Rightarrow> address \<Rightarrow> address \<Rightarrow> ('t, 'r, 'w, unit) gflow" where
  "sync_owner_access_control ext previous_owner new_owner =
     fbind (on_access (\<lambda>r. Inr (ac_set_admin ext new_owner r))) (\<lambda>_.
     fbind (on_access (\<lambda>r. Inr (ac_clear_pending_admin ext r))) (\<lambda>_.
     ffold (\<lambda>role _.
       fbind (on_access (ac_grant ext new_owner role)) (\<lambda>_.
       fbind (has_role ext previous_owner role) (\<lambda>held.
       if previous_owner \<noteq> new_owner \<and> held then on_access (ac_revoke ext previous_owner role) else fret ())))
       default_operational_roles ()))"

definition apply_upgrade :: "bytes \<Rightarrow> ('t, 'r, 'w, unit) gflow" where
  "apply_upgrade h = fwrite (\<lambda>g. g\<lparr>gv_code := h\<rparr>)"

definition apply_transfer_ownership :: "('t, 'r, 'w) gov_ext \<Rightarrow> address \<Rightarrow> nat \<Rightarrow> ('t, 'r, 'w, unit) gflow" where
  "apply_transfer_ownership ext new_owner live_until_ledger =
     fbind owner_or_panic (\<lambda>_.
     fbind (fread gv_sequence) (\<lambda>now.
     fbind (on_access (rt_offer_owner ext new_owner live_until_ledger now)) (\<lambda>_.
     sync_pending_admin_transfer ext new_owner live_until_ledger)))"

definition require_executor_canceller_separation ::
    "('t, 'r, 'w) gov_ext \<Rightarrow> address \<Rightarrow> address \<Rightarrow> string \<Rightarrow> ('t, 'r, 'w, unit) gflow" where
  "require_executor_canceller_separation ext owner account role =
     (if account = owner then fret ()
      else
        let conflicting = (if role = EXECUTOR_ROLE then Some CANCELLER_ROLE
                           else if role = CANCELLER_ROLE then Some EXECUTOR_ROLE else None) in
        case conflicting of
          None \<Rightarrow> fret ()
        | Some other \<Rightarrow> fbind (has_role ext account other) (\<lambda>held. fassert (\<not> held) (Generic InvalidRole)))"

definition apply_grant_role :: "('t, 'r, 'w) gov_ext \<Rightarrow> address \<Rightarrow> string \<Rightarrow> ('t, 'r, 'w, unit) gflow" where
  "apply_grant_role ext account role =
     fbind owner_or_panic (\<lambda>owner.
     fbind (require_executor_canceller_separation ext owner account role) (\<lambda>_.
     on_access (ac_grant ext account role)))"

primrec revoke_members :: "('t, 'r, 'w) gov_ext \<Rightarrow> address \<Rightarrow> string \<Rightarrow> nat \<Rightarrow> ('t, 'r, 'w, unit) gflow" where
  "revoke_members ext owner role 0 = fret ()"
| "revoke_members ext owner role (Suc count) =
     fbind (fread gv_access) (\<lambda>r.
     fbind (flift (ac_member ext r role count)) (\<lambda>holder.
     fbind (if holder \<noteq> owner then on_access (ac_revoke ext holder role) else fret ()) (\<lambda>_.
     revoke_members ext owner role count)))"

definition apply_canceller_reset :: "('t, 'r, 'w) gov_ext \<Rightarrow> address list \<Rightarrow> ('t, 'r, 'w, unit) gflow" where
  "apply_canceller_reset ext new_cancellers =
     fbind owner_or_panic (\<lambda>owner.
     fbind (fread (\<lambda>g. ac_count ext (gv_access g) CANCELLER_ROLE)) (\<lambda>count.
     fbind (revoke_members ext owner CANCELLER_ROLE count) (\<lambda>_.
     ffold (\<lambda>account _.
       fbind (has_role ext account CANCELLER_ROLE) (\<lambda>held.
       if account \<noteq> owner \<and> \<not> held
       then fbind (require_executor_canceller_separation ext owner account CANCELLER_ROLE) (\<lambda>_.
            on_access (ac_grant ext account CANCELLER_ROLE))
       else fret ())) new_cancellers ())))"

definition apply_revoke_role :: "('t, 'r, 'w) gov_ext \<Rightarrow> address \<Rightarrow> string \<Rightarrow> ('t, 'r, 'w, unit) gflow" where
  "apply_revoke_role ext account role =
     fbind (has_role ext account role) (\<lambda>held.
     fbind (fassert held (Generic InvalidRole)) (\<lambda>_.
     fbind owner_or_panic (\<lambda>owner.
     fbind (fassert (account \<noteq> owner) (Generic NotAuthorized)) (\<lambda>_.
     fbind (if role = PROPOSER_ROLE
            then fbind (fread (\<lambda>g. ac_count ext (gv_access g) role)) (\<lambda>count. fassert (count > 1) (Generic CannotRemoveLastProposer))
            else fret ()) (\<lambda>_.
     on_access (ac_revoke ext account role))))))"

definition accept_ownership :: "('t, 'r, 'w) gov_ext \<Rightarrow> ('t, 'r, 'w, unit) gflow" where
  "accept_ownership ext =
     fbind owner_or_panic (\<lambda>previous_owner.
     fbind (\<lambda>g. rbind (rt_accept_owner ext (gv_auth g) (gv_sequence g) (gv_access g)) (\<lambda>(accepted, r).
            Inr ((), g\<lparr>gv_owner := Some accepted, gv_access := r\<rparr>))) (\<lambda>_.
     fbind owner_or_panic (\<lambda>new_owner.
     sync_owner_access_control ext previous_owner new_owner)))"

definition gov_constructor :: "('t, 'r, 'w) gov_ext \<Rightarrow> address \<Rightarrow> nat \<Rightarrow> ('t, 'r, 'w, unit) gflow" where
  "gov_constructor ext admin min_delay =
     fbind (fwrite (\<lambda>g. g\<lparr>gv_owner := Some admin\<rparr>)) (\<lambda>_.
     fbind (on_access (ac_init_admin ext admin)) (\<lambda>_.
     fbind (ffold (\<lambda>role _. on_access (ac_grant ext admin role)) default_operational_roles ()) (\<lambda>_.
     fbind (flift (require_nonzero_delay min_delay)) (\<lambda>_.
     on_timelock (\<lambda>t. Inr (tl_set_min_delay ext min_delay t))))))"

section \<open>Resolving operations\<close>

definition controller_operation :: "string \<Rightarrow> val list \<Rightarrow> ('t, 'r, 'w, resolved_operation) gflow" where
  "controller_operation function args =
     fbind get_controller (\<lambda>target.
     fret \<lparr>ro_target = target, ro_function = function, ro_args = args, ro_delay_tier = Standard\<rparr>)"

definition sensitive_controller_operation :: "string \<Rightarrow> val list \<Rightarrow> ('t, 'r, 'w, resolved_operation) gflow" where
  "sensitive_controller_operation function args =
     fbind (controller_operation function args) (\<lambda>ro. fret (ro\<lparr>ro_delay_tier := Sensitive\<rparr>))"

definition price_aggregator_operation :: "string \<Rightarrow> val list \<Rightarrow> ('t, 'r, 'w, resolved_operation) gflow" where
  "price_aggregator_operation function args =
     fbind gov_get_price_aggregator (\<lambda>target.
     fret \<lparr>ro_target = target, ro_function = function, ro_args = args, ro_delay_tier = Standard\<rparr>)"

definition sensitive_price_aggregator_operation :: "string \<Rightarrow> val list \<Rightarrow> ('t, 'r, 'w, resolved_operation) gflow" where
  "sensitive_price_aggregator_operation function args =
     fbind (price_aggregator_operation function args) (\<lambda>ro. fret (ro\<lparr>ro_delay_tier := Sensitive\<rparr>))"

definition self_operation :: "string \<Rightarrow> val list \<Rightarrow> delay_tier \<Rightarrow> ('t, 'r, 'w, resolved_operation) gflow" where
  "self_operation function args tier =
     fbind (fread gv_self) (\<lambda>target.
     fret \<lparr>ro_target = target, ro_function = function, ro_args = args, ro_delay_tier = tier\<rparr>)"

fun resolve_op :: "('t, 'r, 'w) gov_ext \<Rightarrow> admin_operation \<Rightarrow> ('t, 'r, 'w, resolved_operation) gflow" where
  "resolve_op ext (UpgradeGov h) =
     fbind (require_nonzero_wasm_hash h) (\<lambda>_. self_operation ''upgrade'' [V_Bytes h] Sensitive)"
| "resolve_op ext (UpdateGovDelay new_delay) =
     fbind (validate_delay_update ext new_delay) (\<lambda>_. self_operation ''update_delay'' [V_U32 new_delay] Standard)"
| "resolve_op ext (GrantGovRole account role) =
     fbind (require_known_governance_role role) (\<lambda>_. self_operation ''grant_role'' [V_Address account, V_Symbol role] Sensitive)"
| "resolve_op ext (RevokeGovRole account role) =
     fbind (require_known_governance_role role) (\<lambda>_. self_operation ''revoke_role'' [V_Address account, V_Symbol role] Sensitive)"
| "resolve_op ext (TransferGovOwnership new_owner live_until) =
     self_operation ''transfer_ownership'' [V_Address new_owner, V_U32 live_until] Sensitive"
| "resolve_op ext (SetSwapAggregator a) =
     fbind (require_contract_address ext a (Oracle InvalidAggregator)) (\<lambda>_.
     sensitive_controller_operation ''set_swap_aggregator'' [V_Address a])"
| "resolve_op ext (SetPriceAggregator a) =
     fbind (require_contract_address ext a (Oracle InvalidAggregator)) (\<lambda>_.
     self_operation ''set_price_aggregator'' [V_Address a] Sensitive)"
| "resolve_op ext (SetAccumulator a) = controller_operation ''set_accumulator'' [V_Address a]"
| "resolve_op ext (SetPositionLimits limits) =
     fbind (flift (validate_position_limits limits)) (\<lambda>_. controller_operation ''set_position_limits'' [V_Limits limits])"
| "resolve_op ext (SetMinBorrowCollateralUsd floor_wad) =
     fbind (fassert (floor_wad \<ge> 0) (Collateral InvalidBorrowParams)) (\<lambda>_.
     controller_operation ''set_min_borrow_collateral_usd'' [V_I128 floor_wad])"
| "resolve_op ext CreateHub = controller_operation ''create_hub'' []"
| "resolve_op ext AddSpoke = controller_operation ''add_spoke'' []"
| "resolve_op ext (RemoveSpoke i) = controller_operation ''remove_spoke'' [V_U32 i]"
| "resolve_op ext (AddAssetToSpoke args) =
     fbind (flift (validate_spoke_asset args)) (\<lambda>_. controller_operation ''add_asset_to_spoke'' [V_Spoke_Asset args])"
| "resolve_op ext (EditAssetInSpoke args) =
     fbind (flift (validate_spoke_asset args)) (\<lambda>_. controller_operation ''edit_asset_in_spoke'' [V_Spoke_Asset args])"
| "resolve_op ext (RemoveAssetFromSpoke hub_asset spoke_id) =
     controller_operation ''remove_asset_from_spoke'' [V_Hub_Asset hub_asset, V_U32 spoke_id]"
| "resolve_op ext (RelaxSpokeAssetFlags args) =
     fbind get_controller (\<lambda>controller.
     fbind (on_world (gx_flags_epoch ext controller (rfa_spoke_id args) (rfa_hub_asset args))) (\<lambda>epoch.
     fbind (fassert (epoch = rfa_expected_epoch args) (Spoke SpokeFlagsEpochMismatch)) (\<lambda>_.
     controller_operation ''relax_spoke_asset_flags''
       [V_U32 (rfa_spoke_id args), V_Hub_Asset (rfa_hub_asset args), V_U64 (rfa_expected_epoch args), V_Bool (rfa_paused args),
        V_Bool (rfa_frozen args), V_Bool (rfa_no_seize args)])))"
| "resolve_op ext (ApproveBlendPool pool) =
     fbind (require_contract_address ext pool (Generic NotSmartContract)) (\<lambda>_.
     controller_operation ''approve_blend_pool'' [V_Address pool])"
| "resolve_op ext (RevokeBlendPool pool) =
     fbind (require_contract_address ext pool (Generic NotSmartContract)) (\<lambda>_.
     controller_operation ''revoke_blend_pool'' [V_Address pool])"
| "resolve_op ext (CreateLiquidityPool args) =
     fbind (validate_and_fetch_token_decimals ext (cpa_asset args)) (\<lambda>token_decimals.
     fbind (listed_token_decimals ext (cpa_asset args) token_decimals) (\<lambda>decimals.
     fbind (flift (validate_market_creation (cpa_asset args) (cpa_params args) decimals)) (\<lambda>_.
     controller_operation ''create_liquidity_pool''
       [V_U32 (cpa_hub_id args), V_Address (cpa_asset args), V_Market_Params (cpa_params args)])))"
| "resolve_op ext (UpgradeLiquidityPoolParams hub_asset params) =
     fbind (flift (interest_rate_model_verify params)) (\<lambda>_.
     controller_operation ''upgrade_liquidity_pool_params'' [V_Hub_Asset hub_asset, V_Rate_Model params])"
| "resolve_op ext (DeployPool h) =
     fbind (require_nonzero_wasm_hash h) (\<lambda>_. controller_operation ''deploy_pool'' [V_Bytes h])"
| "resolve_op ext (DeployPositionNft args) =
     fbind (require_nonzero_wasm_hash (dna_wasm_hash args)) (\<lambda>_.
     controller_operation ''deploy_position_nft''
       [V_Bytes (dna_wasm_hash args), V_String (dna_uri args), V_String (dna_name args), V_String (dna_symbol args)])"
| "resolve_op ext (UpgradePool h) =
     fbind (require_nonzero_wasm_hash h) (\<lambda>_. sensitive_controller_operation ''upgrade_pool'' [V_Bytes h])"
| "resolve_op ext (UpgradePositionNft h) =
     fbind (require_nonzero_wasm_hash h) (\<lambda>_. sensitive_controller_operation ''upgrade_position_nft'' [V_Bytes h])"
| "resolve_op ext (UpgradePriceAggregator h) =
     fbind (require_nonzero_wasm_hash h) (\<lambda>_. sensitive_price_aggregator_operation ''upgrade'' [V_Bytes h])"
| "resolve_op ext (SetPositionManager manager is_active) =
     sensitive_controller_operation ''set_position_manager'' [V_Address manager, V_Bool is_active]"
| "resolve_op ext (UpgradeController h) =
     fbind (require_nonzero_wasm_hash h) (\<lambda>_. sensitive_controller_operation ''upgrade'' [V_Bytes h])"
| "resolve_op ext (MigrateController version) = controller_operation ''migrate'' [V_U32 version]"
| "resolve_op ext (TransferCtrlOwnership new_owner live_until) =
     fbind (require_contract_address ext new_owner (Generic NotSmartContract)) (\<lambda>_.
     sensitive_controller_operation ''transfer_ownership'' [V_Address new_owner, V_U32 live_until])"
| "resolve_op ext (ConfigureAssetOracle key oracle) =
     fbind (resolve_oracle ext key oracle) (\<lambda>resolved.
     price_aggregator_operation ''set_oracle'' [V_Key key, V_Oracle resolved])"
| "resolve_op ext (EditOracleTolerance key tolerance) =
     fbind (flift (validate_and_calculate_tolerances tolerance)) (\<lambda>t.
     price_aggregator_operation ''set_tolerance'' [V_Key key, V_Tolerance t])"
| "resolve_op ext Unpause = controller_operation ''unpause'' []"
| "resolve_op ext (ForceSocializeBadDebt account_id) =
     sensitive_controller_operation ''force_socialize_bad_debt'' [V_U64 account_id]"
| "resolve_op ext (SetSpokeLiquidationCurve args) =
     fbind (flift (validate_liquidation_curve (lca_target_hf_wad args) (lca_hf_for_max_bonus_wad args)
              (lca_liquidation_bonus_factor_bps args))) (\<lambda>_.
     controller_operation ''set_spoke_liquidation_curve''
       [V_U32 (lca_spoke_id args), V_I128 (lca_target_hf_wad args), V_I128 (lca_hf_for_max_bonus_wad args),
        V_U32 (lca_liquidation_bonus_factor_bps args)])"

definition apply_update_delay :: "('t, 'r, 'w) gov_ext \<Rightarrow> nat \<Rightarrow> ('t, 'r, 'w, unit) gflow" where
  "apply_update_delay ext new_delay =
     fbind (validate_delay_update ext new_delay) (\<lambda>_. on_timelock (\<lambda>t. Inr (tl_set_min_delay ext new_delay t)))"

definition invoke_unit :: "('t, 'r, 'w) gov_ext \<Rightarrow> address \<Rightarrow> string \<Rightarrow> val list \<Rightarrow> ('t, 'r, 'w, unit) gflow" where
  "invoke_unit ext target function args = fbind (on_world (gx_invoke ext target function args)) (\<lambda>_. fret ())"

fun apply_self_op :: "('t, 'r, 'w) gov_ext \<Rightarrow> admin_operation \<Rightarrow> ('t, 'r, 'w, unit) gflow" where
  "apply_self_op ext (UpgradeGov h) = apply_upgrade h"
| "apply_self_op ext (UpdateGovDelay new_delay) = apply_update_delay ext new_delay"
| "apply_self_op ext (GrantGovRole account role) = apply_grant_role ext account role"
| "apply_self_op ext (RevokeGovRole account role) = apply_revoke_role ext account role"
| "apply_self_op ext (TransferGovOwnership new_owner live_until) = apply_transfer_ownership ext new_owner live_until"
| "apply_self_op ext (SetPriceAggregator a) =
     fbind (require_contract_address ext a (Oracle InvalidAggregator)) (\<lambda>_.
     fbind (fwrite (\<lambda>g. g\<lparr>gv_price_aggregator := Some a\<rparr>)) (\<lambda>_.
     fbind get_controller (\<lambda>controller.
     invoke_unit ext controller ''set_price_aggregator'' [V_Address a])))"
| "apply_self_op ext op = flift (Inl (Generic InternalError))"

section \<open>The timelock\<close>

definition operation_delay :: "('t, 'r, 'w) gov_ext \<Rightarrow> delay_tier \<Rightarrow> ('t, 'r, 'w, nat) gflow" where
  "operation_delay ext tier =
     fbind (get_min_delay ext) (\<lambda>min_delay.
     fret (case tier of
             Standard \<Rightarrow> min_delay
           | Sensitive \<Rightarrow> max min_delay TIMELOCK_SENSITIVE_MIN_DELAY_LEDGERS
           | Recovery \<Rightarrow> max min_delay TIMELOCK_RECOVERY_MIN_DELAY_LEDGERS))"

definition authorize_executor :: "('t, 'r, 'w) gov_ext \<Rightarrow> address option \<Rightarrow> ('t, 'r, 'w, unit) gflow" where
  "authorize_executor ext executor =
     (case executor of
        None \<Rightarrow> fret ()
      | Some exec \<Rightarrow> fbind (gv_require_auth exec) (\<lambda>_. ensure_role ext EXECUTOR_ROLE exec))"

definition require_operation_not_expired :: "('t, 'r, 'w) gov_ext \<Rightarrow> bytes \<Rightarrow> ('t, 'r, 'w, unit) gflow" where
  "require_operation_not_expired ext operation_id =
     fbind (fread (\<lambda>g. tl_ledger ext (gv_timelock g) operation_id)) (\<lambda>ready_ledger.
     if ready_ledger \<le> 1 then fret ()
     else
       let expires_at = min (2 ^ 32 - 1) (ready_ledger + TIMELOCK_OPERATION_GRACE_LEDGERS) in
       fbind (fread gv_sequence) (\<lambda>now. fassert (now \<le> expires_at) (Generic TimelockOperationExpired)))"

definition hash_operation_parts ::
    "('t, 'r, 'w) gov_ext \<Rightarrow> address \<Rightarrow> string \<Rightarrow> val list \<Rightarrow> bytes \<Rightarrow> bytes \<Rightarrow> bytes" where
  "hash_operation_parts ext target function args predecessor salt =
     tl_hash ext \<lparr>op_target = target, op_function = function, op_args = args, op_predecessor = predecessor, op_salt = salt\<rparr>"

definition operation_for_admin_op ::
    "('t, 'r, 'w) gov_ext \<Rightarrow> admin_operation \<Rightarrow> bytes \<Rightarrow> ('t, 'r, 'w, operation \<times> delay_tier) gflow" where
  "operation_for_admin_op ext op salt =
     fbind (resolve_op ext op) (\<lambda>resolved.
     fret (\<lparr>op_target = ro_target resolved, op_function = ro_function resolved, op_args = ro_args resolved,
            op_predecessor = replicate 32 0, op_salt = salt\<rparr>, ro_delay_tier resolved))"

definition canceller_reset_operation :: "address \<Rightarrow> address list \<Rightarrow> bytes \<Rightarrow> operation" where
  "canceller_reset_operation self new_cancellers salt =
     \<lparr>op_target = self, op_function = ''reset_cancellers'', op_args = [V_Addresses new_cancellers],
      op_predecessor = replicate 32 0, op_salt = salt\<rparr>"

definition begin_immediate :: "('t, 'r, 'w) gov_ext \<Rightarrow> address \<Rightarrow> string \<Rightarrow> ('t, 'r, 'w, unit) gflow" where
  "begin_immediate ext caller role = fbind (gv_require_auth caller) (\<lambda>_. ensure_role ext role caller)"

definition prepare_execute :: "('t, 'r, 'w) gov_ext \<Rightarrow> address option \<Rightarrow> operation \<Rightarrow> ('t, 'r, 'w, bytes) gflow" where
  "prepare_execute ext executor operation =
     fbind (authorize_executor ext executor) (\<lambda>_.
     let operation_id = tl_hash ext operation in
     fbind (require_operation_not_expired ext operation_id) (\<lambda>_. fret operation_id))"

definition finish_execute :: "('t, 'r, 'w) gov_ext \<Rightarrow> bytes \<Rightarrow> ('t, 'r, 'w, unit) gflow" where
  "finish_execute ext operation_id =
     fbind (on_timelock (\<lambda>t. Inr (tl_remove ext operation_id t))) (\<lambda>_.
     fwrite (clear_operation_sidecars operation_id))"

definition schedule_operation :: "('t, 'r, 'w) gov_ext \<Rightarrow> operation \<Rightarrow> nat \<Rightarrow> ('t, 'r, 'w, bytes) gflow" where
  "schedule_operation ext operation delay g =
     rbind (tl_schedule ext operation delay (gv_sequence g) (gv_timelock g)) (\<lambda>(operation_id, t).
     Inr (operation_id, g\<lparr>gv_timelock := t\<rparr>))"

definition set_execute_operation :: "('t, 'r, 'w) gov_ext \<Rightarrow> operation \<Rightarrow> ('t, 'r, 'w, unit) gflow" where
  "set_execute_operation ext operation =
     fbind (fread gv_sequence) (\<lambda>now. on_timelock (tl_set_execute ext operation now))"

definition execute_operation :: "('t, 'r, 'w) gov_ext \<Rightarrow> operation \<Rightarrow> ('t, 'r, 'w, val) gflow" where
  "execute_operation ext operation =
     fbind (set_execute_operation ext operation) (\<lambda>_.
     on_world (gx_invoke ext (op_target operation) (op_function operation) (op_args operation)))"

section \<open>Proposing, executing and cancelling\<close>

fun owner_only :: "admin_operation \<Rightarrow> bool" where
  "owner_only (TransferGovOwnership _ _) = True"
| "owner_only (TransferCtrlOwnership _ _) = True"
| "owner_only (UpgradeGov _) = True"
| "owner_only (UpgradeController _) = True"
| "owner_only (UpgradePool _) = True"
| "owner_only (UpgradePositionNft _) = True"
| "owner_only (UpgradePriceAggregator _) = True"
| "owner_only (MigrateController _) = True"
| "owner_only (UpdateGovDelay _) = True"
| "owner_only (SetPriceAggregator _) = True"
| "owner_only (ConfigureAssetOracle _ _) = True"
| "owner_only (EditOracleTolerance _ _) = True"
| "owner_only (SetSwapAggregator _) = True"
| "owner_only (ApproveBlendPool _) = True"
| "owner_only (SetAccumulator _) = True"
| "owner_only (GrantGovRole _ _) = True"
| "owner_only (SetPositionManager _ is_active) = is_active"
| "owner_only _ = False"

definition proposer_check :: "address \<Rightarrow> admin_operation \<Rightarrow> ('t, 'r, 'w, unit) gflow" where
  "proposer_check proposer op =
     (case op of
        RevokeGovRole account role \<Rightarrow>
          fbind (fassert (account \<noteq> proposer) (Generic NotAuthorized)) (\<lambda>_.
          fbind owner_or_panic (\<lambda>owner. fassert (account \<noteq> owner) (Generic NotAuthorized)))
      | _ \<Rightarrow>
          if owner_only op then fbind owner_or_panic (\<lambda>owner. fassert (proposer = owner) (Generic NotAuthorized))
          else fret ())"

definition record_revocation :: "admin_operation \<Rightarrow> bytes \<Rightarrow> ('t, 'r, 'w, unit) gflow" where
  "record_revocation op operation_id =
     (case op of
        RevokeGovRole account role \<Rightarrow> fwrite (mark_role_revocation_target operation_id account)
      | _ \<Rightarrow> fret ())"

definition propose :: "('t, 'r, 'w) gov_ext \<Rightarrow> address \<Rightarrow> admin_operation \<Rightarrow> bytes \<Rightarrow> ('t, 'r, 'w, bytes) gflow" where
  "propose ext proposer op salt =
     fbind (begin_immediate ext proposer PROPOSER_ROLE) (\<lambda>_.
     fbind (proposer_check proposer op) (\<lambda>_.
     fbind (operation_for_admin_op ext op salt) (\<lambda>(operation, delay_tier).
     fbind (operation_delay ext delay_tier) (\<lambda>delay.
     fbind (schedule_operation ext operation delay) (\<lambda>operation_id.
     fbind (record_revocation op operation_id) (\<lambda>_. fret operation_id))))))"

definition execute :: "('t, 'r, 'w) gov_ext \<Rightarrow> address option \<Rightarrow> operation \<Rightarrow> ('t, 'r, 'w, val) gflow" where
  "execute ext executor operation =
     fbind (fread gv_self) (\<lambda>self.
     fbind (fassert (op_target operation \<noteq> self) (Generic InternalError)) (\<lambda>_.
     fbind (prepare_execute ext executor operation) (\<lambda>operation_id.
     fbind (execute_operation ext operation) (\<lambda>result.
     fbind (finish_execute ext operation_id) (\<lambda>_. fret result)))))"

definition execute_self :: "('t, 'r, 'w) gov_ext \<Rightarrow> address option \<Rightarrow> admin_operation \<Rightarrow> bytes \<Rightarrow> ('t, 'r, 'w, unit) gflow" where
  "execute_self ext executor op salt =
     fbind (operation_for_admin_op ext op salt) (\<lambda>(operation, _).
     fbind (fread gv_self) (\<lambda>self.
     fbind (fassert (op_target operation = self) (Generic InternalError)) (\<lambda>_.
     fbind (prepare_execute ext executor operation) (\<lambda>operation_id.
     fbind (set_execute_operation ext operation) (\<lambda>_.
     fbind (apply_self_op ext op) (\<lambda>_.
     finish_execute ext operation_id))))))"

definition gov_cancel :: "('t, 'r, 'w) gov_ext \<Rightarrow> address \<Rightarrow> bytes \<Rightarrow> ('t, 'r, 'w, unit) gflow" where
  "gov_cancel ext canceller operation_id =
     fbind (gv_require_auth canceller) (\<lambda>_.
     fbind (ensure_role ext CANCELLER_ROLE canceller) (\<lambda>_.
     fbind (fread (is_recovery_op operation_id)) (\<lambda>recovery.
     fbind (fassert (\<not> recovery) (Generic OperationNotCancellable)) (\<lambda>_.
     fbind (fread (\<lambda>g. gv_revocation_targets g operation_id)) (\<lambda>found.
     fbind (case found of
              Some target \<Rightarrow> fassert (target \<noteq> canceller) (Generic OperationNotCancellable)
            | None \<Rightarrow> fret ()) (\<lambda>_.
     fbind (fread gv_sequence) (\<lambda>now.
     fbind (on_timelock (tl_cancel ext operation_id now)) (\<lambda>_.
     fwrite (clear_operation_sidecars operation_id)))))))))"

section \<open>Immediate actions\<close>

definition on_controller :: "('t, 'r, 'w) gov_ext \<Rightarrow> string \<Rightarrow> val list \<Rightarrow> ('t, 'r, 'w, val) gflow" where
  "on_controller ext function args = fbind get_controller (\<lambda>controller. on_world (gx_invoke ext controller function args))"

definition gov_pause :: "('t, 'r, 'w) gov_ext \<Rightarrow> address \<Rightarrow> ('t, 'r, 'w, val) gflow" where
  "gov_pause ext caller = fbind (begin_immediate ext caller GUARDIAN_ROLE) (\<lambda>_. on_controller ext ''pause'' [])"

definition gov_set_spoke_asset_flags ::
    "('t, 'r, 'w) gov_ext \<Rightarrow> address \<Rightarrow> nat \<Rightarrow> hub_asset_key \<Rightarrow> bool \<Rightarrow> bool \<Rightarrow> bool \<Rightarrow> ('t, 'r, 'w, val) gflow" where
  "gov_set_spoke_asset_flags ext caller spoke_id hub_asset paused frozen no_seize =
     fbind (begin_immediate ext caller GUARDIAN_ROLE) (\<lambda>_.
     on_controller ext ''set_spoke_asset_flags''
       [V_U32 spoke_id, V_Hub_Asset hub_asset, V_Bool paused, V_Bool frozen, V_Bool no_seize])"

definition gov_set_sanity_band ::
    "('t, 'r, 'w) gov_ext \<Rightarrow> address \<Rightarrow> price_key \<Rightarrow> int \<Rightarrow> int \<Rightarrow> ('t, 'r, 'w, val) gflow" where
  "gov_set_sanity_band ext caller key min_wad max_wad =
     fbind (begin_immediate ext caller ORACLE_ROLE) (\<lambda>_.
     fbind gov_get_price_aggregator (\<lambda>aggregator.
     on_world (gx_invoke ext aggregator ''set_sanity_band'' [V_Key key, V_I128 min_wad, V_I128 max_wad])))"

definition gov_create_hub :: "('t, 'r, 'w) gov_ext \<Rightarrow> address \<Rightarrow> ('t, 'r, 'w, val) gflow" where
  "gov_create_hub ext caller = fbind (begin_immediate ext caller GUARDIAN_ROLE) (\<lambda>_. on_controller ext ''create_hub'' [])"

definition gov_add_spoke :: "('t, 'r, 'w) gov_ext \<Rightarrow> address \<Rightarrow> ('t, 'r, 'w, val) gflow" where
  "gov_add_spoke ext caller = fbind (begin_immediate ext caller GUARDIAN_ROLE) (\<lambda>_. on_controller ext ''add_spoke'' [])"

definition deactivate_position_manager :: "('t, 'r, 'w) gov_ext \<Rightarrow> address \<Rightarrow> address \<Rightarrow> ('t, 'r, 'w, val) gflow" where
  "deactivate_position_manager ext caller manager =
     fbind (begin_immediate ext caller GUARDIAN_ROLE) (\<lambda>_.
     on_controller ext ''set_position_manager'' [V_Address manager, V_Bool False])"

definition gov_revoke_blend_pool :: "('t, 'r, 'w) gov_ext \<Rightarrow> address \<Rightarrow> address \<Rightarrow> ('t, 'r, 'w, val) gflow" where
  "gov_revoke_blend_pool ext caller pool =
     fbind (begin_immediate ext caller GUARDIAN_ROLE) (\<lambda>_. on_controller ext ''revoke_blend_pool'' [V_Address pool])"

definition revoke_role_immediate :: "('t, 'r, 'w) gov_ext \<Rightarrow> address \<Rightarrow> string \<Rightarrow> ('t, 'r, 'w, unit) gflow" where
  "revoke_role_immediate ext account role =
     fbind (fassert (role = GUARDIAN_ROLE \<or> role = ORACLE_ROLE) (Generic InvalidRole)) (\<lambda>_.
     fbind owner_or_panic (\<lambda>_. apply_revoke_role ext account role))"

section \<open>Recovery of the canceller set and deployment\<close>

definition propose_canceller_reset :: "('t, 'r, 'w) gov_ext \<Rightarrow> address list \<Rightarrow> bytes \<Rightarrow> ('t, 'r, 'w, bytes) gflow" where
  "propose_canceller_reset ext new_cancellers salt =
     fbind (fread gv_self) (\<lambda>self.
     let operation = canceller_reset_operation self new_cancellers salt in
     fbind (operation_delay ext Recovery) (\<lambda>delay.
     fbind (schedule_operation ext operation delay) (\<lambda>operation_id.
     fbind (fwrite (mark_recovery_op operation_id)) (\<lambda>_. fret operation_id))))"

definition execute_canceller_reset ::
    "('t, 'r, 'w) gov_ext \<Rightarrow> address option \<Rightarrow> address list \<Rightarrow> bytes \<Rightarrow> ('t, 'r, 'w, unit) gflow" where
  "execute_canceller_reset ext executor new_cancellers salt =
     fbind (fread gv_self) (\<lambda>self.
     let operation = canceller_reset_operation self new_cancellers salt in
     fbind (prepare_execute ext executor operation) (\<lambda>operation_id.
     fbind (set_execute_operation ext operation) (\<lambda>_.
     fbind (apply_canceller_reset ext new_cancellers) (\<lambda>_.
     finish_execute ext operation_id))))"

definition CONTROLLER_DEPLOY_SALT :: bytes where "CONTROLLER_DEPLOY_SALT = replicate 32 0"

definition PRICE_AGGREGATOR_DEPLOY_SALT :: bytes where "PRICE_AGGREGATOR_DEPLOY_SALT = replicate 32 1"

definition deploy_controller :: "('t, 'r, 'w) gov_ext \<Rightarrow> bytes \<Rightarrow> ('t, 'r, 'w, address) gflow" where
  "deploy_controller ext wasm_hash =
     fbind (require_nonzero_wasm_hash wasm_hash) (\<lambda>_.
     fbind (fread gv_controller) (\<lambda>stored.
     fbind (fassert (stored = None) (Generic PoolAlreadyDeployed)) (\<lambda>_.
     fbind (fread gv_self) (\<lambda>self.
     fbind (on_world (gx_deploy ext wasm_hash CONTROLLER_DEPLOY_SALT self)) (\<lambda>controller.
     fbind (fwrite (\<lambda>g. g\<lparr>gv_controller := Some controller\<rparr>)) (\<lambda>_. fret controller))))))"

definition deploy_price_aggregator :: "('t, 'r, 'w) gov_ext \<Rightarrow> bytes \<Rightarrow> ('t, 'r, 'w, address) gflow" where
  "deploy_price_aggregator ext wasm_hash =
     fbind (require_nonzero_wasm_hash wasm_hash) (\<lambda>_.
     fbind (fread gv_price_aggregator) (\<lambda>stored.
     fbind (fassert (stored = None) (Generic PoolAlreadyDeployed)) (\<lambda>_.
     fbind (fread gv_self) (\<lambda>self.
     fbind (on_world (gx_deploy ext wasm_hash PRICE_AGGREGATOR_DEPLOY_SALT self)) (\<lambda>aggregator.
     fbind (fwrite (\<lambda>g. g\<lparr>gv_price_aggregator := Some aggregator\<rparr>)) (\<lambda>_.
     fbind (fread gv_controller) (\<lambda>controller.
     fbind (if controller \<noteq> None then fbind get_controller (\<lambda>c. invoke_unit ext c ''set_price_aggregator'' [V_Address aggregator])
            else fret ()) (\<lambda>_.
     fret aggregator))))))))"

section \<open>Entrypoints\<close>

datatype gov_call =
    GC_deploy_controller bytes
  | GC_controller
  | GC_deploy_price_aggregator bytes
  | GC_price_aggregator
  | GC_execute "address option" operation
  | GC_cancel address bytes
  | GC_get_min_delay
  | GC_get_operation_state bytes
  | GC_get_operation_ledger bytes
  | GC_hash_operation address string "val list" bytes bytes
  | GC_resolve_oracle_tolerance nat
  | GC_resolve_asset_oracle price_key asset_oracle
  | GC_propose address admin_operation bytes
  | GC_pause address
  | GC_set_spoke_asset_flags address nat hub_asset_key bool bool bool
  | GC_set_sanity_band address price_key int int
  | GC_create_hub address
  | GC_add_spoke address
  | GC_deactivate_position_manager address address
  | GC_revoke_blend_pool address address
  | GC_revoke_role_immediate address string
  | GC_execute_self "address option" admin_operation bytes
  | GC_propose_canceller_reset "address list" bytes
  | GC_execute_canceller_reset "address option" "address list" bytes
  | GC_accept_ownership
  | GC_has_role address string

definition returning :: "('a \<Rightarrow> val) \<Rightarrow> ('t, 'r, 'w, 'a) gflow \<Rightarrow> ('t, 'r, 'w, val) gflow" where
  "returning enc m = fbind m (\<lambda>x. fret (enc x))"

fun gov_dispatch :: "('t, 'r, 'w) gov_ext \<Rightarrow> gov_call \<Rightarrow> ('t, 'r, 'w, val) gflow" where
  "gov_dispatch ext (GC_deploy_controller h) = gv_only_owner (returning V_Address (deploy_controller ext h))"
| "gov_dispatch ext GC_controller = returning V_Address get_controller"
| "gov_dispatch ext (GC_deploy_price_aggregator h) = gv_only_owner (returning V_Address (deploy_price_aggregator ext h))"
| "gov_dispatch ext GC_price_aggregator = returning V_Address gov_get_price_aggregator"
| "gov_dispatch ext (GC_execute executor operation) = execute ext executor operation"
| "gov_dispatch ext (GC_cancel canceller operation_id) = returning (\<lambda>_. V_Void) (gov_cancel ext canceller operation_id)"
| "gov_dispatch ext GC_get_min_delay = returning V_U32 (get_min_delay ext)"
| "gov_dispatch ext (GC_get_operation_state operation_id) =
     fread (\<lambda>g. tl_state ext (gv_timelock g) (gv_sequence g) operation_id)"
| "gov_dispatch ext (GC_get_operation_ledger operation_id) = fread (\<lambda>g. V_U32 (tl_ledger ext (gv_timelock g) operation_id))"
| "gov_dispatch ext (GC_hash_operation target function args predecessor salt) =
     fret (V_Bytes (hash_operation_parts ext target function args predecessor salt))"
| "gov_dispatch ext (GC_resolve_oracle_tolerance tolerance) =
     returning V_Tolerance (flift (validate_and_calculate_tolerances tolerance))"
| "gov_dispatch ext (GC_resolve_asset_oracle key cfg) = returning V_Oracle (resolve_oracle ext key cfg)"
| "gov_dispatch ext (GC_propose proposer op salt) = returning V_Bytes (propose ext proposer op salt)"
| "gov_dispatch ext (GC_pause caller) = gov_pause ext caller"
| "gov_dispatch ext (GC_set_spoke_asset_flags caller spoke_id hub_asset paused frozen no_seize) =
     gov_set_spoke_asset_flags ext caller spoke_id hub_asset paused frozen no_seize"
| "gov_dispatch ext (GC_set_sanity_band caller key min_wad max_wad) = gov_set_sanity_band ext caller key min_wad max_wad"
| "gov_dispatch ext (GC_create_hub caller) = gov_create_hub ext caller"
| "gov_dispatch ext (GC_add_spoke caller) = gov_add_spoke ext caller"
| "gov_dispatch ext (GC_deactivate_position_manager caller manager) = deactivate_position_manager ext caller manager"
| "gov_dispatch ext (GC_revoke_blend_pool caller pool) = gov_revoke_blend_pool ext caller pool"
| "gov_dispatch ext (GC_revoke_role_immediate account role) =
     gv_only_owner (returning (\<lambda>_. V_Void) (revoke_role_immediate ext account role))"
| "gov_dispatch ext (GC_execute_self executor op salt) = returning (\<lambda>_. V_Void) (execute_self ext executor op salt)"
| "gov_dispatch ext (GC_propose_canceller_reset new_cancellers salt) =
     gv_only_owner (returning V_Bytes (propose_canceller_reset ext new_cancellers salt))"
| "gov_dispatch ext (GC_execute_canceller_reset executor new_cancellers salt) =
     returning (\<lambda>_. V_Void) (execute_canceller_reset ext executor new_cancellers salt)"
| "gov_dispatch ext GC_accept_ownership = returning (\<lambda>_. V_Void) (accept_ownership ext)"
| "gov_dispatch ext (GC_has_role account role) = returning V_Bool (has_role ext account role)"

end
