(* ===== verification/Governance_Timelock.thy ===== *)
theory Governance_Timelock
  imports Governance
begin

text \<open>
  Frames for the governance contract: a relation between states that is reflexive, transitive and holds across
  a change of the outside world holds across every flow that only reads the contract's own storage: the
  guards, the validation and resolution of an operation, and the immediate calls.

  What the governance does to its timelock. The documented behaviour of the timelock library is the
  predicate \<open>timelock_laws\<close>. The frame \<open>tl_quiet\<close> covers the calls that leave the scheduled operations alone;
  \<open>gov_effect\<close> says what each entrypoint does to them. A run of the contract, \<open>gov_run\<close>, carries the log of its
  calls with the states they started from, newest first.
\<close>

named_theorems gov_rules "flows of the governance contract that stay within a frame"

locale gov_frame = frame rel for rel :: "('t, 'r, 'w) governance \<Rightarrow> ('t, 'r, 'w) governance \<Rightarrow> bool" +
  assumes world_step: "rel g (g\<lparr>gv_world := w\<rparr>)"
begin

lemmas basic_rules [gov_rules] = framed_fret framed_flift framed_fread framed_fassert framed_fbind framed_ffold

lemma gov_if [gov_rules]: "framed m \<Longrightarrow> framed n \<Longrightarrow> framed (if b then m else n)"
  by simp

lemma gov_option [gov_rules]:
  "framed m \<Longrightarrow> (\<And>x. framed (f x)) \<Longrightarrow> framed (case v of None \<Rightarrow> m | Some x \<Rightarrow> f x)"
  by (cases v) simp_all

lemma gov_key [gov_rules]:
  "(\<And>a. framed (f a)) \<Longrightarrow> (\<And>r. framed (h r)) \<Longrightarrow> framed (case key of Token a \<Rightarrow> f a | Ref r \<Rightarrow> h r)"
  by (cases key) simp_all

lemma gov_world [gov_rules]: "framed (on_world h)"
  by (rule framedI) (auto simp: on_world_def world_step rbind_Inr_iff)

lemma gov_reads [gov_rules]:
  "framed (gv_require_auth a)" "framed get_controller" "framed gov_get_price_aggregator"
  "framed owner_or_panic" "framed (has_role ext account role)" "framed (ensure_role ext role account)"
  "framed (get_min_delay ext)" "framed (require_contract_address ext a e)"
  "framed (require_nonzero_wasm_hash h)" "framed (require_known_governance_role role)"
  unfolding gv_require_auth_def get_controller_def gov_get_price_aggregator_def owner_or_panic_def has_role_def ensure_role_def
    get_min_delay_def require_contract_address_def require_nonzero_wasm_hash_def require_known_governance_role_def
  by (intro gov_rules)+

lemma gov_only_owner [gov_rules]: "framed m \<Longrightarrow> framed (gv_only_owner m)"
  unfolding gv_only_owner_def by (intro gov_rules)

lemma gov_returning [gov_rules]: "framed m \<Longrightarrow> framed (returning enc m)"
  unfolding returning_def by (intro gov_rules)

lemma gov_validation [gov_rules]:
  "framed (validate_and_fetch_token_decimals ext a)" "framed (listed_token_decimals ext a d)"
  "framed (validate_delay_update ext n)" "framed (operation_delay ext tier)"
  "framed (begin_immediate ext caller role)" "framed (authorize_executor ext executor)"
  "framed (require_operation_not_expired ext operation_id)"
  unfolding validate_and_fetch_token_decimals_def listed_token_decimals_def validate_delay_update_def operation_delay_def
    begin_immediate_def authorize_executor_def require_operation_not_expired_def Let_def
  by (intro gov_rules)+

lemma gov_prepare [gov_rules]: "framed (prepare_execute ext executor operation)"
  unfolding prepare_execute_def Let_def by (intro gov_rules)

lemma gov_targets [gov_rules]:
  "framed (controller_operation f args)" "framed (sensitive_controller_operation f args)"
  "framed (price_aggregator_operation f args)" "framed (sensitive_price_aggregator_operation f args)"
  "framed (self_operation f args tier)" "framed (resolve_oracle ext key cfg)"
  unfolding sensitive_controller_operation_def controller_operation_def sensitive_price_aggregator_operation_def
    price_aggregator_operation_def self_operation_def resolve_oracle_def
  by (intro gov_rules)+

lemma gov_resolve_op [gov_rules]: "framed (resolve_op ext op)"
  by (cases op; simp only: resolve_op.simps; intro gov_rules)

lemma gov_operation_for_admin_op [gov_rules]: "framed (operation_for_admin_op ext op salt)"
  unfolding operation_for_admin_op_def by (intro gov_rules)

lemma gov_invoke [gov_rules]: "framed (invoke_unit ext a f args)" "framed (on_controller ext f args)"
  unfolding invoke_unit_def on_controller_def by (intro gov_rules)+

lemma gov_separation [gov_rules]: "framed (require_executor_canceller_separation ext owner account role)"
  unfolding require_executor_canceller_separation_def Let_def by (intro gov_rules)

lemma gov_immediate [gov_rules]:
  "framed (gov_pause ext caller)" "framed (gov_set_spoke_asset_flags ext caller i k p f n)"
  "framed (gov_set_sanity_band ext caller key lo hi)" "framed (gov_create_hub ext caller)"
  "framed (gov_add_spoke ext caller)" "framed (deactivate_position_manager ext caller a)"
  "framed (gov_revoke_blend_pool ext caller a)"
  unfolding gov_pause_def gov_set_spoke_asset_flags_def gov_set_sanity_band_def gov_create_hub_def gov_add_spoke_def
    deactivate_position_manager_def gov_revoke_blend_pool_def
  by (intro gov_rules)+

end

section \<open>The library\<close>

definition timelock_laws :: "('t, 'r, 'w) gov_ext \<Rightarrow> bool" where
  "timelock_laws ext \<longleftrightarrow>
     (\<forall>operation delay now t operation_id t'. tl_schedule ext operation delay now t = Inr (operation_id, t') \<longrightarrow>
        operation_id = tl_hash ext operation \<and> tl_ledger ext t operation_id = 0 \<and>
        tl_ledger ext t' = (tl_ledger ext t)(operation_id := now + delay)) \<and>
     (\<forall>operation now t t'. tl_set_execute ext operation now t = Inr t' \<longrightarrow>
        2 \<le> tl_ledger ext t (tl_hash ext operation) \<and> tl_ledger ext t (tl_hash ext operation) \<le> now \<and>
        tl_ledger ext t' = (tl_ledger ext t)(tl_hash ext operation := 1)) \<and>
     (\<forall>operation_id now t t'. tl_cancel ext operation_id now t = Inr t' \<longrightarrow>
        2 \<le> tl_ledger ext t operation_id \<and> tl_ledger ext t' = (tl_ledger ext t)(operation_id := 0)) \<and>
     (\<forall>operation_id t. tl_ledger ext (tl_remove ext operation_id t) = (tl_ledger ext t)(operation_id := 0)) \<and>
     (\<forall>delay t. tl_ledger ext (tl_set_min_delay ext delay t) = tl_ledger ext t)"

lemma timelock_lawsD:
  assumes "timelock_laws ext"
  shows "tl_schedule ext operation delay now t = Inr (operation_id, t') \<Longrightarrow>
           operation_id = tl_hash ext operation \<and> tl_ledger ext t operation_id = 0 \<and>
           tl_ledger ext t' = (tl_ledger ext t)(operation_id := now + delay)"
    and "tl_set_execute ext operation now t = Inr t' \<Longrightarrow>
           2 \<le> tl_ledger ext t (tl_hash ext operation) \<and> tl_ledger ext t (tl_hash ext operation) \<le> now \<and>
           tl_ledger ext t' = (tl_ledger ext t)(tl_hash ext operation := 1)"
    and "tl_cancel ext operation_id now t = Inr t' \<Longrightarrow>
           2 \<le> tl_ledger ext t operation_id \<and> tl_ledger ext t' = (tl_ledger ext t)(operation_id := 0)"
    and "tl_ledger ext (tl_remove ext operation_id t) = (tl_ledger ext t)(operation_id := 0)"
    and "tl_ledger ext (tl_set_min_delay ext delay t) = tl_ledger ext t"
  using assms unfolding timelock_laws_def by blast+

abbreviation ready_at :: "('t, 'r, 'w) gov_ext \<Rightarrow> ('t, 'r, 'w) governance \<Rightarrow> bytes \<Rightarrow> nat" where
  "ready_at ext g \<equiv> tl_ledger ext (gv_timelock g)"

section \<open>Calls that leave the schedule alone\<close>

definition tl_quiet :: "('t, 'r, 'w) gov_ext \<Rightarrow> ('t, 'r, 'w) governance \<Rightarrow> ('t, 'r, 'w) governance \<Rightarrow> bool" where
  "tl_quiet ext g g' \<longleftrightarrow>
     gv_self g' = gv_self g \<and> gv_sequence g' = gv_sequence g \<and> ready_at ext g' = ready_at ext g \<and>
     gv_recovery_ops g' = gv_recovery_ops g \<and> gv_revocation_targets g' = gv_revocation_targets g"

interpretation tlq: gov_frame "tl_quiet ext" for ext
  by unfold_locales (auto simp: tl_quiet_def)

lemma tlq_on_access [gov_rules]: "tlq.framed ext (on_access f)"
  by (rule tlq.framedI) (auto simp: on_access_def tl_quiet_def rbind_Inr_iff)

lemma tlq_revoke_members [gov_rules]: "tlq.framed ext (revoke_members ext owner role n)"
  by (induction n) (auto intro!: gov_rules)

lemma tlq_access [gov_rules]:
  "tlq.framed ext (sync_pending_admin_transfer ext a n)" "tlq.framed ext (sync_owner_access_control ext a b)"
  "tlq.framed ext (apply_grant_role ext account role)" "tlq.framed ext (apply_revoke_role ext account role)"
  "tlq.framed ext (apply_canceller_reset ext accounts)" "tlq.framed ext (revoke_role_immediate ext account role)"
  unfolding sync_pending_admin_transfer_def sync_owner_access_control_def apply_grant_role_def apply_revoke_role_def
    apply_canceller_reset_def revoke_role_immediate_def
  by (intro gov_rules)+

lemma tlq_transfer [gov_rules]: "tlq.framed ext (apply_transfer_ownership ext a n)"
  unfolding apply_transfer_ownership_def by (intro gov_rules)

lemma tlq_accept [gov_rules]: "tlq.framed ext (accept_ownership ext)"
proof -
  have "tlq.framed ext (\<lambda>g. rbind (rt_accept_owner ext (gv_auth g) (gv_sequence g) (gv_access g)) (\<lambda>(accepted, r).
          Inr ((), g\<lparr>gv_owner := Some accepted, gv_access := r\<rparr>)))"
    by (rule tlq.framedI) (auto simp: tl_quiet_def rbind_Inr_iff)
  then show ?thesis unfolding accept_ownership_def by (intro gov_rules)
qed

lemma tlq_fwrite [gov_rules]:
  "tlq.framed ext (fwrite (\<lambda>g. g\<lparr>gv_code := h\<rparr>))" "tlq.framed ext (fwrite (\<lambda>g. g\<lparr>gv_controller := c\<rparr>))"
  "tlq.framed ext (fwrite (\<lambda>g. g\<lparr>gv_price_aggregator := c\<rparr>))"
  by (rule tlq.framed_fwrite, simp add: tl_quiet_def)+

lemma tlq_deploy [gov_rules]: "tlq.framed ext (deploy_controller ext h)" "tlq.framed ext (deploy_price_aggregator ext h)"
  unfolding deploy_controller_def deploy_price_aggregator_def by (intro gov_rules)+

lemma tlq_update_delay:
  assumes "timelock_laws ext"
  shows "tlq.framed ext (apply_update_delay ext n)"
proof -
  have "tlq.framed ext (on_timelock (\<lambda>t. Inr (tl_set_min_delay ext n t)))"
    by (rule tlq.framedI) (auto simp: on_timelock_def tl_quiet_def timelock_lawsD(5) [OF assms])
  then show ?thesis unfolding apply_update_delay_def by (intro gov_rules)
qed

lemma tlq_apply_self_op: "timelock_laws ext \<Longrightarrow> tlq.framed ext (apply_self_op ext op)"
  by (cases op; simp only: apply_self_op.simps apply_upgrade_def; intro gov_rules tlq_update_delay)

section \<open>What each call does to the schedule\<close>

fun proposed_operation ::
    "('t, 'r, 'w) gov_ext \<Rightarrow> gov_call \<Rightarrow> ('t, 'r, 'w) governance \<Rightarrow> (operation \<times> delay_tier \<times> nat) option" where
  "proposed_operation ext (GC_propose proposer op salt) g =
     (case fbind (operation_for_admin_op ext op salt) (\<lambda>(operation, tier).
             fbind (operation_delay ext tier) (\<lambda>delay. fret (operation, tier, delay))) g of
        Inr (proposal, _) \<Rightarrow> Some proposal
      | Inl _ \<Rightarrow> None)"
| "proposed_operation ext (GC_propose_canceller_reset new_cancellers salt) g =
     (case operation_delay ext Recovery g of
        Inr (delay, _) \<Rightarrow> Some (canceller_reset_operation (gv_self g) new_cancellers salt, Recovery, delay)
      | Inl _ \<Rightarrow> None)"
| "proposed_operation ext _ g = None"

fun executed_operation :: "('t, 'r, 'w) gov_ext \<Rightarrow> gov_call \<Rightarrow> ('t, 'r, 'w) governance \<Rightarrow> operation option" where
  "executed_operation ext (GC_execute executor operation) g = Some operation"
| "executed_operation ext (GC_execute_self executor op salt) g =
     (case operation_for_admin_op ext op salt g of Inr ((operation, _), _) \<Rightarrow> Some operation | Inl _ \<Rightarrow> None)"
| "executed_operation ext (GC_execute_canceller_reset executor new_cancellers salt) g =
     Some (canceller_reset_operation (gv_self g) new_cancellers salt)"
| "executed_operation ext _ g = None"

fun settled_id :: "('t, 'r, 'w) gov_ext \<Rightarrow> gov_call \<Rightarrow> ('t, 'r, 'w) governance \<Rightarrow> bytes option" where
  "settled_id ext (GC_cancel canceller operation_id) g = Some operation_id"
| "settled_id ext c g = map_option (tl_hash ext) (executed_operation ext c g)"

fun revocation_target :: "gov_call \<Rightarrow> address option" where
  "revocation_target (GC_propose proposer (RevokeGovRole account role) salt) = Some account"
| "revocation_target c = None"

text \<open>An operation may be executed from the ledger it is ready at, until its grace period ends.\<close>

definition in_window :: "('t, 'r, 'w) gov_ext \<Rightarrow> ('t, 'r, 'w) governance \<Rightarrow> bytes \<Rightarrow> bool" where
  "in_window ext g operation_id \<longleftrightarrow>
     2 \<le> ready_at ext g operation_id \<and> ready_at ext g operation_id \<le> gv_sequence g \<and>
     gv_sequence g \<le> ready_at ext g operation_id + TIMELOCK_OPERATION_GRACE_LEDGERS"

definition scheduled_by ::
    "('t, 'r, 'w) gov_ext \<Rightarrow> gov_call \<Rightarrow> operation \<Rightarrow> delay_tier \<Rightarrow> nat \<Rightarrow> ('t, 'r, 'w) governance \<Rightarrow>
     ('t, 'r, 'w) governance \<Rightarrow> bool" where
  "scheduled_by ext c operation tier delay g g' \<longleftrightarrow>
     ready_at ext g (tl_hash ext operation) = 0 \<and>
     ready_at ext g' = (ready_at ext g)(tl_hash ext operation := gv_sequence g + delay) \<and>
     gv_recovery_ops g' = (if tier = Recovery then (gv_recovery_ops g)(tl_hash ext operation \<mapsto> True) else gv_recovery_ops g) \<and>
     gv_revocation_targets g' =
       (case revocation_target c of
          Some account \<Rightarrow> (gv_revocation_targets g)(tl_hash ext operation \<mapsto> account)
        | None \<Rightarrow> gv_revocation_targets g)"

definition settled_by ::
    "('t, 'r, 'w) gov_ext \<Rightarrow> bytes \<Rightarrow> ('t, 'r, 'w) governance \<Rightarrow> ('t, 'r, 'w) governance \<Rightarrow> bool" where
  "settled_by ext operation_id g g' \<longleftrightarrow>
     ready_at ext g' = (ready_at ext g)(operation_id := 0) \<and>
     gv_recovery_ops g' = (gv_recovery_ops g)(operation_id := None) \<and>
     gv_revocation_targets g' = (gv_revocation_targets g)(operation_id := None)"

definition gov_effect ::
    "('t, 'r, 'w) gov_ext \<Rightarrow> gov_call \<Rightarrow> ('t, 'r, 'w) governance \<Rightarrow> ('t, 'r, 'w) governance \<Rightarrow> bool" where
  "gov_effect ext c g g' \<longleftrightarrow>
     gv_self g' = gv_self g \<and> gv_sequence g' = gv_sequence g \<and>
     (case proposed_operation ext c g of
        Some (operation, tier, delay) \<Rightarrow> scheduled_by ext c operation tier delay g g'
      | None \<Rightarrow>
          (case settled_id ext c g of
             Some operation_id \<Rightarrow> settled_by ext operation_id g g'
           | None \<Rightarrow> tl_quiet ext g g'))"

lemma quiet_effect: "tl_quiet ext g g' \<Longrightarrow> proposed_operation ext c g = None \<Longrightarrow> settled_id ext c g = None \<Longrightarrow> gov_effect ext c g g'"
  by (simp add: gov_effect_def) (simp add: tl_quiet_def)

lemma tl_quietD:
  assumes "tlq.framed ext m" and "m g = Inr (x, g')"
  shows "gv_self g' = gv_self g" "gv_sequence g' = gv_sequence g" "ready_at ext g' = ready_at ext g"
    "gv_recovery_ops g' = gv_recovery_ops g" "gv_revocation_targets g' = gv_revocation_targets g"
  using tlq.framedD [OF assms] by (simp_all add: tl_quiet_def)

text \<open>Guards only read: a call that passes one goes on from the same state.\<close>

lemma guards_read:
  "gv_require_auth a g = Inr (u, g') \<longleftrightarrow> gv_auth g a \<and> g' = g"
  "owner_or_panic g = Inr (owner, g') \<longleftrightarrow> gv_owner g = Some owner \<and> g' = g"
  "ensure_role ext role a g = Inr (u, g') \<longleftrightarrow> ac_ensure_role ext (gv_access g) a role = Inr u \<and> g' = g"
  "has_role ext a role g = Inr (b, g') \<longleftrightarrow> b = ac_has_role ext (gv_access g) a role \<and> g' = g"
  by (auto simp: gv_require_auth_def owner_or_panic_def ensure_role_def has_role_def res_iff unwrap_or_panic_def
      split: option.splits)

lemma gv_only_owner_Inr:
  "gv_only_owner m g = Inr (x, g') \<longleftrightarrow> (\<exists>owner. gv_owner g = Some owner \<and> gv_auth g owner \<and> m g = Inr (x, g'))"
  by (auto simp: gv_only_owner_def res_iff guards_read unwrap_or_panic_def split: option.splits)

lemma returning_Inr: "returning enc m g = Inr (v, g') \<longleftrightarrow> (\<exists>x. m g = Inr (x, g') \<and> v = enc x)"
  by (auto simp: returning_def res_iff)

lemma begin_immediate_Inr:
  "begin_immediate ext caller role g = Inr (u, g') \<longleftrightarrow>
     gv_auth g caller \<and> ac_ensure_role ext (gv_access g) caller role = Inr u \<and> g' = g"
  by (auto simp: begin_immediate_def res_iff guards_read)

lemma proposer_check_Inr:
  "proposer_check proposer op g = Inr (u, g') \<Longrightarrow> g' = g \<and> (owner_only op \<longrightarrow> gv_owner g = Some proposer)"
  by (auto simp: proposer_check_def res_iff guards_read split: admin_operation.splits if_splits)

lemma schedule_Inr:
  assumes "timelock_laws ext" and "schedule_operation ext operation delay g = Inr (operation_id, g')"
  shows "operation_id = tl_hash ext operation" "ready_at ext g operation_id = 0"
    "ready_at ext g' = (ready_at ext g)(operation_id := gv_sequence g + delay)"
    "\<exists>t. g' = g\<lparr>gv_timelock := t\<rparr>"
  using assms(2) timelock_lawsD(1) [OF assms(1)] by (auto simp: schedule_operation_def rbind_Inr_iff)

lemma set_execute_Inr:
  assumes "timelock_laws ext" and "set_execute_operation ext operation g = Inr (u, g')"
  shows "2 \<le> ready_at ext g (tl_hash ext operation)" "ready_at ext g (tl_hash ext operation) \<le> gv_sequence g"
    "ready_at ext g' = (ready_at ext g)(tl_hash ext operation := 1)" "\<exists>t. g' = g\<lparr>gv_timelock := t\<rparr>"
  using assms(2) timelock_lawsD(2) [OF assms(1)] by (auto simp: set_execute_operation_def on_timelock_def res_iff rbind_Inr_iff)

lemma prepare_execute_Inr:
  assumes "prepare_execute ext executor operation g = Inr (operation_id, g')"
  shows "g' = g" "operation_id = tl_hash ext operation"
    "2 \<le> ready_at ext g operation_id \<Longrightarrow> gv_sequence g \<le> ready_at ext g operation_id + TIMELOCK_OPERATION_GRACE_LEDGERS"
  using assms
  by (auto simp: prepare_execute_def authorize_executor_def require_operation_not_expired_def Let_def res_iff guards_read
      split: option.splits if_splits)

lemma finish_execute_Inr:
  assumes "timelock_laws ext" and "finish_execute ext operation_id g = Inr (u, g')"
  shows "gv_self g' = gv_self g" "gv_sequence g' = gv_sequence g" "settled_by ext operation_id g g'"
  using assms(2) timelock_lawsD(4) [OF assms(1)]
  by (auto simp: finish_execute_def on_timelock_def res_iff clear_operation_sidecars_def settled_by_def)

text \<open>The shape shared by the three executions: mark as done, act without touching the schedule, clean up.\<close>

lemma execution_effect:
  assumes laws: "timelock_laws ext"
    and exec: "set_execute_operation ext operation g = Inr (u, g1)"
    and act: "tlq.framed ext m" "m g1 = Inr (x, g2)"
    and fin: "finish_execute ext (tl_hash ext operation) g2 = Inr (w, g')"
  shows "gv_self g' = gv_self g" "gv_sequence g' = gv_sequence g" "settled_by ext (tl_hash ext operation) g g'"
  using set_execute_Inr(3,4) [OF laws exec] tl_quietD [OF act] finish_execute_Inr [OF laws fin]
  by (auto simp: settled_by_def fun_upd_def)

end
