(* ===== verification/Governance_Machine.thy ===== *)
theory Governance_Machine
  imports Governance_Timelock
begin

text \<open>
  Runs of the governance contract. Every entrypoint has its effect on the schedule (\<open>gov_effect\<close>), so along a run
  an operation that is pending was proposed at a known call of the log and has not been settled since;
  the marks that protect a recovery or a role revocation stay with it.
\<close>

section \<open>The effect of every entrypoint\<close>

lemma propose_Inr:
  assumes "propose ext proposer op salt g = Inr (operation_id, g')"
  obtains operation tier delay g1 g2 g3 where
    "gv_auth g proposer" "ac_ensure_role ext (gv_access g) proposer PROPOSER_ROLE = Inr ()"
    "owner_only op \<longrightarrow> gv_owner g = Some proposer"
    "operation_for_admin_op ext op salt g = Inr ((operation, tier), g1)" "operation_delay ext tier g1 = Inr (delay, g2)"
    "schedule_operation ext operation delay g2 = Inr (operation_id, g3)" "record_revocation op operation_id g3 = Inr ((), g')"
  using assms proposer_check_Inr
  by (fastforce simp: propose_def res_iff begin_immediate_Inr)

lemma record_revocation_Inr:
  assumes "record_revocation op operation_id g = Inr (u, g')"
  shows "gv_self g' = gv_self g" "gv_sequence g' = gv_sequence g" "ready_at ext g' = ready_at ext g"
    "gv_recovery_ops g' = gv_recovery_ops g"
    "gv_revocation_targets g' = (case revocation_target (GC_propose proposer op salt) of
       Some account \<Rightarrow> (gv_revocation_targets g)(operation_id \<mapsto> account) | None \<Rightarrow> gv_revocation_targets g)"
  using assms
  by (cases op; auto simp: record_revocation_def res_iff mark_role_revocation_target_def)+

lemma not_Recovery: "resolve_op ext op g = Inr (ro, g') \<Longrightarrow> ro_delay_tier ro \<noteq> Recovery"
  by (cases op)
    (auto simp: res_iff controller_operation_def sensitive_controller_operation_def price_aggregator_operation_def
      sensitive_price_aggregator_operation_def self_operation_def)

lemma propose_effect:
  assumes laws: "timelock_laws ext" and ok: "propose ext proposer op salt g = Inr (operation_id, g')"
  shows "gov_effect ext (GC_propose proposer op salt) g g'"
proof -
  from ok obtain operation tier delay g1 g2 g3 where res: "operation_for_admin_op ext op salt g = Inr ((operation, tier), g1)"
    and del: "operation_delay ext tier g1 = Inr (delay, g2)"
    and sch: "schedule_operation ext operation delay g2 = Inr (operation_id, g3)"
    and rec: "record_revocation op operation_id g3 = Inr ((), g')"
    by (rule propose_Inr)
  have "proposed_operation ext (GC_propose proposer op salt) g = Some (operation, tier, delay)"
    by (simp add: fbind_def res del fret_def)
  moreover have "tier \<noteq> Recovery" using res not_Recovery by (fastforce simp: operation_for_admin_op_def res_iff)
  moreover note tl_quietD [OF tlq.gov_operation_for_admin_op res] tl_quietD [OF tlq.gov_validation(4) del] schedule_Inr [OF laws sch]
    record_revocation_Inr(1,2,4) [OF rec] record_revocation_Inr(3) [OF rec, where ext = ext]
    record_revocation_Inr(5) [OF rec, where proposer = proposer and salt = salt]
  ultimately show ?thesis by (auto simp: gov_effect_def scheduled_by_def cong: option.case_cong)
qed

lemma propose_reset_effect:
  assumes laws: "timelock_laws ext" and ok: "propose_canceller_reset ext new_cancellers salt g = Inr (operation_id, g')"
  shows "gov_effect ext (GC_propose_canceller_reset new_cancellers salt) g g'"
proof -
  from ok obtain delay g2 g3 where del: "operation_delay ext Recovery g = Inr (delay, g2)"
    and sch: "schedule_operation ext (canceller_reset_operation (gv_self g) new_cancellers salt) delay g2 = Inr (operation_id, g3)"
    and mark: "g' = mark_recovery_op operation_id g3"
    by (auto simp: propose_canceller_reset_def Let_def res_iff)
  show ?thesis
    using tl_quietD [OF tlq.gov_validation(4) del] schedule_Inr [OF laws sch]
    by (auto simp: gov_effect_def scheduled_by_def del mark mark_recovery_op_def)
qed

lemma execute_effect:
  assumes laws: "timelock_laws ext" and ok: "execute ext executor operation g = Inr (v, g')"
  shows "gov_effect ext (GC_execute executor operation) g g'" "in_window ext g (tl_hash ext operation)"
proof -
  from ok obtain g1 g2 where prep: "prepare_execute ext executor operation g = Inr (tl_hash ext operation, g)"
    and exec: "set_execute_operation ext operation g = Inr ((), g1)"
    and act: "on_world (gx_invoke ext (op_target operation) (op_function operation) (op_args operation)) g1 = Inr (v, g2)"
    and fin: "finish_execute ext (tl_hash ext operation) g2 = Inr ((), g')"
    using prepare_execute_Inr by (fastforce simp: execute_def execute_operation_def res_iff)
  show "gov_effect ext (GC_execute executor operation) g g'"
    using execution_effect [OF laws exec tlq.gov_world act fin] by (simp add: gov_effect_def)
  show "in_window ext g (tl_hash ext operation)"
    using prepare_execute_Inr(3) [OF prep] set_execute_Inr [OF laws exec] by (simp add: in_window_def)
qed

lemma execute_reset_effect:
  assumes laws: "timelock_laws ext" and ok: "execute_canceller_reset ext executor new_cancellers salt g = Inr (u, g')"
  shows "gov_effect ext (GC_execute_canceller_reset executor new_cancellers salt) g g'"
    "in_window ext g (tl_hash ext (canceller_reset_operation (gv_self g) new_cancellers salt))"
proof -
  let ?op = "canceller_reset_operation (gv_self g) new_cancellers salt"
  from ok obtain g1 g2 where prep: "prepare_execute ext executor ?op g = Inr (tl_hash ext ?op, g)"
    and exec: "set_execute_operation ext ?op g = Inr ((), g1)"
    and act: "apply_canceller_reset ext new_cancellers g1 = Inr ((), g2)"
    and fin: "finish_execute ext (tl_hash ext ?op) g2 = Inr ((), g')"
    using prepare_execute_Inr by (fastforce simp: execute_canceller_reset_def Let_def res_iff)
  show "gov_effect ext (GC_execute_canceller_reset executor new_cancellers salt) g g'"
    using execution_effect [OF laws exec tlq_access(5) act fin] by (simp add: gov_effect_def)
  show "in_window ext g (tl_hash ext ?op)"
    using prepare_execute_Inr(3) [OF prep] set_execute_Inr [OF laws exec] by (simp add: in_window_def)
qed

lemma execute_self_effect:
  assumes laws: "timelock_laws ext" and ok: "execute_self ext executor op salt g = Inr (u, g')"
  shows "gov_effect ext (GC_execute_self executor op salt) g g'"
    "\<exists>operation. executed_operation ext (GC_execute_self executor op salt) g = Some operation \<and>
       in_window ext g (tl_hash ext operation)"
proof -
  from ok obtain operation tier g0 g1 g2 where res: "operation_for_admin_op ext op salt g = Inr ((operation, tier), g0)"
    and prep: "prepare_execute ext executor operation g0 = Inr (tl_hash ext operation, g0)"
    and exec: "set_execute_operation ext operation g0 = Inr ((), g1)"
    and act: "apply_self_op ext op g1 = Inr ((), g2)"
    and fin: "finish_execute ext (tl_hash ext operation) g2 = Inr ((), g')"
    using prepare_execute_Inr by (fastforce simp: execute_self_def res_iff)
  note quiet = tl_quietD [OF tlq.gov_operation_for_admin_op res]
  show "gov_effect ext (GC_execute_self executor op salt) g g'"
    using execution_effect [OF laws exec tlq_apply_self_op [OF laws] act fin] quiet
    by (simp add: gov_effect_def settled_by_def res)
  show "\<exists>operation. executed_operation ext (GC_execute_self executor op salt) g = Some operation \<and>
       in_window ext g (tl_hash ext operation)"
    using prepare_execute_Inr(3) [OF prep] set_execute_Inr [OF laws exec] quiet by (simp add: in_window_def res)
qed

lemma cancel_Inr:
  assumes "gov_cancel ext canceller operation_id g = Inr (u, g')"
  shows "\<not> is_recovery_op operation_id g" "gv_revocation_targets g operation_id \<noteq> Some canceller"
    "\<exists>t. tl_cancel ext operation_id (gv_sequence g) (gv_timelock g) = Inr t \<and>
         g' = clear_operation_sidecars operation_id (g\<lparr>gv_timelock := t\<rparr>)"
  using assms
  by (auto simp: gov_cancel_def res_iff guards_read on_timelock_def rbind_Inr_iff split: option.splits)

lemma cancel_effect:
  assumes "timelock_laws ext" and "gov_cancel ext canceller operation_id g = Inr (u, g')"
  shows "gov_effect ext (GC_cancel canceller operation_id) g g'"
  using cancel_Inr(3) [OF assms(2)] timelock_lawsD(3) [OF assms(1)]
  by (auto simp: gov_effect_def settled_by_def clear_operation_sidecars_def)

lemma dispatch_quiet:
  assumes "proposed_operation ext c g = None" and "settled_id ext c g = None" and "gov_dispatch ext c g = Inr (v, g')"
    and "case c of GC_propose _ _ _ \<Rightarrow> False | GC_propose_canceller_reset _ _ \<Rightarrow> False | GC_execute_self _ _ _ \<Rightarrow> False | _ \<Rightarrow> True"
  shows "tl_quiet ext g g'"
proof -
  have "tlq.framed ext (gov_dispatch ext c)"
    using assms(2,4) by (cases c; simp only: gov_dispatch.simps gov_call.case; (intro gov_rules)?) simp_all
  then show ?thesis using assms(3) by (rule tlq.framedD)
qed

lemma dispatch_effect:
  assumes laws: "timelock_laws ext" and ok: "gov_dispatch ext c g = Inr (v, g')"
  shows "gov_effect ext c g g'"
proof (cases "case c of GC_propose _ _ _ \<Rightarrow> False | GC_propose_canceller_reset _ _ \<Rightarrow> False | GC_execute_self _ _ _ \<Rightarrow> False
                | GC_execute _ _ \<Rightarrow> False | GC_execute_canceller_reset _ _ _ \<Rightarrow> False | GC_cancel _ _ \<Rightarrow> False | _ \<Rightarrow> True")
  case True
  then have "proposed_operation ext c g = None" "settled_id ext c g = None" by (cases c; simp)+
  moreover from this have "tl_quiet ext g g'" using ok True by (intro dispatch_quiet) (auto split: gov_call.splits)
  ultimately show ?thesis by (intro quiet_effect)
next
  case False
  with ok propose_effect [OF laws] propose_reset_effect [OF laws] execute_effect(1) [OF laws] execute_self_effect(1) [OF laws]
    execute_reset_effect(1) [OF laws] cancel_effect [OF laws]
  show ?thesis by (cases c) (auto simp: returning_Inr gv_only_owner_Inr)
qed

lemma dispatch_window:
  assumes laws: "timelock_laws ext" and ok: "gov_dispatch ext c g = Inr (v, g')" and "executed_operation ext c g = Some operation"
  shows "in_window ext g (tl_hash ext operation)"
  using assms(3) ok execute_effect(2) [OF laws] execute_self_effect(2) [OF laws] execute_reset_effect(2) [OF laws]
  by (cases c) (auto simp: returning_Inr, (metis option.inject)+)

section \<open>Runs\<close>

definition gov_fresh :: "('t, 'r, 'w) gov_ext \<Rightarrow> ('t, 'r, 'w) governance \<Rightarrow> bool" where
  "gov_fresh ext g \<longleftrightarrow>
     ready_at ext g = (\<lambda>_. 0) \<and> gv_recovery_ops g = Map.empty \<and> gv_revocation_targets g = Map.empty \<and>
     (\<forall>account role. \<not> ac_has_role ext (gv_access g) account role)"

type_synonym ('t, 'r, 'w) gov_log = "(gov_call \<times> ('t, 'r, 'w) governance) list"

inductive gov_run :: "('t, 'r, 'w) gov_ext \<Rightarrow> nat \<Rightarrow> ('t, 'r, 'w) gov_log \<Rightarrow> ('t, 'r, 'w) governance \<Rightarrow> bool" for ext min_delay where
  construct: "gov_fresh ext g \<Longrightarrow> gov_constructor ext admin min_delay g = Inr ((), g') \<Longrightarrow> gov_run ext min_delay [] g'"
| environment: "gov_run ext min_delay log g \<Longrightarrow> gv_sequence g \<le> now \<Longrightarrow>
    gov_run ext min_delay log (g\<lparr>gv_sequence := now, gv_auth := auth, gv_world := w\<rparr>)"
| call: "gov_run ext min_delay log g \<Longrightarrow> gov_dispatch ext c g = Inr (v, g') \<Longrightarrow> gov_run ext min_delay ((c, g) # log) g'"

lemma constructor_quiet:
  assumes laws: "timelock_laws ext" and "gov_constructor ext admin min_delay g = Inr ((), g')"
  shows "tl_quiet ext g g'"
proof -
  have "tlq.framed ext (fwrite (\<lambda>g. g\<lparr>gv_owner := Some admin\<rparr>))" by (rule tlq.framed_fwrite) (simp add: tl_quiet_def)
  moreover have "tlq.framed ext (on_timelock (\<lambda>t. Inr (tl_set_min_delay ext min_delay t)))"
    by (rule tlq.framedI) (auto simp: on_timelock_def tl_quiet_def timelock_lawsD(5) [OF laws])
  ultimately have "tlq.framed ext (gov_constructor ext admin min_delay)"
    unfolding gov_constructor_def by (intro gov_rules)
  then show ?thesis using assms(2) by (rule tlq.framedD)
qed

text \<open>The logged call that scheduled an operation, and that no later call of the log settled it.\<close>

definition unsettled_since :: "('t, 'r, 'w) gov_ext \<Rightarrow> bytes \<Rightarrow> ('t, 'r, 'w) gov_log \<Rightarrow> bool" where
  "unsettled_since ext operation_id later \<longleftrightarrow> (\<forall>(c, p) \<in> set later. settled_id ext c p \<noteq> Some operation_id)"

lemma unsettled_Nil [simp]: "unsettled_since ext operation_id []"
  by (simp add: unsettled_since_def)

lemma unsettled_Cons [simp]:
  "unsettled_since ext operation_id ((c, p) # later) \<longleftrightarrow> settled_id ext c p \<noteq> Some operation_id \<and> unsettled_since ext operation_id later"
  by (simp add: unsettled_since_def)

definition proposed_in ::
    "('t, 'r, 'w) gov_ext \<Rightarrow> ('t, 'r, 'w) gov_log \<Rightarrow> bytes \<Rightarrow> nat \<Rightarrow> bool" where
  "proposed_in ext log operation_id ready \<longleftrightarrow>
     (\<exists>later c p earlier operation tier delay. log = later @ (c, p) # earlier \<and> unsettled_since ext operation_id later \<and>
        proposed_operation ext c p = Some (operation, tier, delay) \<and> tl_hash ext operation = operation_id \<and>
        ready = gv_sequence p + delay)"

lemma proposed_in_Cons:
  assumes "proposed_in ext log operation_id ready" and "settled_id ext c g \<noteq> Some operation_id"
  shows "proposed_in ext ((c, g) # log) operation_id ready"
proof -
  from assms(1) obtain later c0 p earlier operation tier delay where "log = later @ (c0, p) # earlier"
    "unsettled_since ext operation_id later" "proposed_operation ext c0 p = Some (operation, tier, delay)"
    "tl_hash ext operation = operation_id" "ready = gv_sequence p + delay"
    by (auto simp: proposed_in_def)
  then show ?thesis using assms(2) unfolding proposed_in_def by (intro exI [of _ "(c, g) # later"]) auto
qed

lemma proposed_in_head:
  "proposed_operation ext c g = Some (operation, tier, delay) \<Longrightarrow>
   proposed_in ext ((c, g) # log) (tl_hash ext operation) (gv_sequence g + delay)"
  unfolding proposed_in_def by (intro exI [of _ "[]"]) auto

lemma proposal_not_settled: "proposed_operation ext c g = Some proposal \<Longrightarrow> settled_id ext c g = None"
  by (cases c) auto

lemma effect_proposed_in:
  assumes eff: "gov_effect ext c g g'" and IH: "\<And>i. 2 \<le> ready_at ext g i \<Longrightarrow> proposed_in ext log i (ready_at ext g i)"
    and pending: "2 \<le> ready_at ext g' operation_id"
  shows "proposed_in ext ((c, g) # log) operation_id (ready_at ext g' operation_id)"
proof (cases "proposed_operation ext c g")
  case (Some proposal)
  then obtain operation tier delay where p: "proposed_operation ext c g = Some (operation, tier, delay)"
    by (cases proposal) auto
  then have sch: "ready_at ext g' = (ready_at ext g)(tl_hash ext operation := gv_sequence g + delay)"
    using eff by (simp add: gov_effect_def scheduled_by_def)
  show ?thesis
  proof (cases "operation_id = tl_hash ext operation")
    case True
    then show ?thesis using proposed_in_head [OF p] sch by simp
  next
    case False
    then show ?thesis using sch IH pending proposal_not_settled [OF p] by (auto intro!: proposed_in_Cons)
  qed
next
  case None
  show ?thesis
  proof (cases "settled_id ext c g")
    case None': None
    then have "ready_at ext g' = ready_at ext g" using eff None by (simp add: gov_effect_def tl_quiet_def)
    then show ?thesis using IH pending None' by (auto intro!: proposed_in_Cons)
  next
    case (Some i)
    then have "ready_at ext g' = (ready_at ext g)(i := 0)" using eff None by (simp add: gov_effect_def settled_by_def)
    then show ?thesis using IH pending Some by (auto intro!: proposed_in_Cons split: if_splits)
  qed
qed

lemma pending_was_proposed:
  assumes "timelock_laws ext" and "gov_run ext min_delay log g" and "2 \<le> ready_at ext g operation_id"
  shows "proposed_in ext log operation_id (ready_at ext g operation_id)"
  using assms(2,3)
proof (induction arbitrary: operation_id)
  case (construct g admin g')
  then show ?case using constructor_quiet [OF assms(1) construct.hyps(2)] by (simp add: gov_fresh_def tl_quiet_def)
next
  case (environment log g now auth w)
  then show ?case by simp
next
  case (call log g c v g')
  then show ?case using effect_proposed_in [OF dispatch_effect [OF assms(1) call.hyps(2)]] by blast
qed

section \<open>Protected proposals\<close>

text \<open>While a scheduled operation is unsettled its ready ledger and its marks stay as the proposal left them.\<close>

lemma effect_keeps_marks:
  assumes "gov_effect ext c g g'" and "settled_id ext c g \<noteq> Some operation_id" and "2 \<le> ready_at ext g operation_id"
  shows "ready_at ext g' operation_id = ready_at ext g operation_id"
    "gv_recovery_ops g' operation_id = gv_recovery_ops g operation_id"
    "gv_revocation_targets g' operation_id = gv_revocation_targets g operation_id"
  using assms
  by (auto simp: gov_effect_def scheduled_by_def settled_by_def tl_quiet_def split: option.splits prod.splits)

lemma marks_stay:
  assumes "timelock_laws ext" and "gov_run ext min_delay log g" and "log = later @ (c, p) # earlier"
    and "proposed_operation ext c p = Some (operation, tier, delay)" and "2 \<le> delay"
    and "unsettled_since ext (tl_hash ext operation) later"
  shows "ready_at ext g (tl_hash ext operation) = gv_sequence p + delay \<and>
    (tier = Recovery \<longrightarrow> is_recovery_op (tl_hash ext operation) g) \<and>
    (\<forall>account. revocation_target c = Some account \<longrightarrow> gv_revocation_targets g (tl_hash ext operation) = Some account)"
  using assms(2,3,6)
proof (induction arbitrary: later)
  case (construct g admin g')
  then show ?case by simp
next
  case (environment log g now auth w)
  then show ?case by (simp add: is_recovery_op_def)
next
  case (call log g c1 v g')
  note eff = dispatch_effect [OF assms(1) call.hyps(2)]
  show ?case
  proof (cases later)
    case Nil
    then have "c1 = c" "g = p" using call.prems(1) by simp_all
    then show ?thesis using eff assms(4) by (auto simp: gov_effect_def scheduled_by_def is_recovery_op_def)
  next
    case (Cons x later')
    then have x: "x = (c1, g)" "log = later' @ (c, p) # earlier" using call.prems(1) by simp_all
    with Cons call.prems(2) have u: "settled_id ext c1 g \<noteq> Some (tl_hash ext operation)"
      "unsettled_since ext (tl_hash ext operation) later'" by simp_all
    note before = call.IH [OF x(2) u(2)]
    then have "2 \<le> ready_at ext g (tl_hash ext operation)" using assms(5) by simp
    from effect_keeps_marks [OF eff u(1) this] before show ?thesis by (simp add: is_recovery_op_def)
  qed
qed

end
