(* ===== verification/Governance_Roles.thy ===== *)
theory Governance_Roles
  imports Governance_Machine
begin

text \<open>
  Roles and ownership along a run. The documented behaviour of the access-control and ownership libraries is
  \<open>access_laws\<close>. The invariant \<open>role_inv\<close> says that the owner holds every operational role and is the only account
  that may hold both the executor and the canceller role; it is proved as a frame, with the transfer of
  ownership on its own. The last section relates the operations reserved for the owner to the calls
  that the timelock makes.

  The minimum delay along a run: it is never zero and never below the smaller of the delay the contract was
  constructed with and the floor of two days, so every proposal waits at least that long, and longer in
  the sensitive and recovery tiers.
\<close>

section \<open>The library\<close>

definition same_roles :: "('t, 'r, 'w) gov_ext \<Rightarrow> 'r \<Rightarrow> 'r \<Rightarrow> bool" where
  "same_roles ext r r' \<longleftrightarrow> (\<forall>a q. ac_has_role ext r' a q = ac_has_role ext r a q)"

definition access_laws :: "('t, 'r, 'w) gov_ext \<Rightarrow> bool" where
  "access_laws ext \<longleftrightarrow>
     (\<forall>account role r r'. ac_grant ext account role r = Inr r' \<longrightarrow>
        (\<forall>a q. ac_has_role ext r' a q \<longleftrightarrow> ac_has_role ext r a q \<or> a = account \<and> q = role)) \<and>
     (\<forall>account role r r'. ac_revoke ext account role r = Inr r' \<longrightarrow>
        (\<forall>a q. ac_has_role ext r' a q \<longleftrightarrow> ac_has_role ext r a q \<and> \<not> (a = account \<and> q = role))) \<and>
     (\<forall>account role r. ac_ensure_role ext r account role = Inr () \<longleftrightarrow> ac_has_role ext r account role) \<and>
     (\<forall>admin r r'. ac_init_admin ext admin r = Inr r' \<longrightarrow> same_roles ext r r') \<and>
     (\<forall>admin r. same_roles ext r (ac_set_admin ext admin r)) \<and>
     (\<forall>r. same_roles ext r (ac_clear_pending_admin ext r)) \<and>
     (\<forall>a live now r r'. rt_offer_owner ext a live now r = Inr r' \<longrightarrow> same_roles ext r r') \<and>
     (\<forall>a live now r r'. rt_offer_admin ext a live now r = Inr r' \<longrightarrow> same_roles ext r r') \<and>
     (\<forall>auth now r a r'. rt_accept_owner ext auth now r = Inr (a, r') \<longrightarrow> same_roles ext r r')"

lemma access_lawsD:
  assumes "access_laws ext"
  shows "ac_grant ext account role r = Inr r' \<Longrightarrow>
           ac_has_role ext r' a q \<longleftrightarrow> ac_has_role ext r a q \<or> a = account \<and> q = role"
    and "ac_revoke ext account role r = Inr r' \<Longrightarrow>
           ac_has_role ext r' a q \<longleftrightarrow> ac_has_role ext r a q \<and> \<not> (a = account \<and> q = role)"
    and "ac_ensure_role ext r account role = Inr () \<longleftrightarrow> ac_has_role ext r account role"
    and "ac_init_admin ext admin r = Inr r' \<Longrightarrow> same_roles ext r r'"
    and "same_roles ext r (ac_set_admin ext admin r)"
    and "same_roles ext r (ac_clear_pending_admin ext r)"
    and "rt_offer_owner ext a live now r = Inr r' \<Longrightarrow> same_roles ext r r'"
    and "rt_offer_admin ext a live now r = Inr r' \<Longrightarrow> same_roles ext r r'"
    and "rt_accept_owner ext auth now r = Inr (a, r') \<Longrightarrow> same_roles ext r r'"
proof -
  note laws = assms [unfolded access_laws_def]
  show "ac_grant ext account role r = Inr r' \<Longrightarrow>
           ac_has_role ext r' a q \<longleftrightarrow> ac_has_role ext r a q \<or> a = account \<and> q = role"
    using laws [THEN conjunct1] by blast
  show "ac_revoke ext account role r = Inr r' \<Longrightarrow>
           ac_has_role ext r' a q \<longleftrightarrow> ac_has_role ext r a q \<and> \<not> (a = account \<and> q = role)"
    using laws [THEN conjunct2, THEN conjunct1] by blast
  show "ac_ensure_role ext r account role = Inr () \<longleftrightarrow> ac_has_role ext r account role"
    using laws [THEN conjunct2, THEN conjunct2, THEN conjunct1] by blast
qed (use assms [unfolded access_laws_def, THEN conjunct2, THEN conjunct2, THEN conjunct2] in auto)

abbreviation holds_role :: "('t, 'r, 'w) gov_ext \<Rightarrow> ('t, 'r, 'w) governance \<Rightarrow> address \<Rightarrow> string \<Rightarrow> bool" where
  "holds_role ext g \<equiv> ac_has_role ext (gv_access g)"

section \<open>The invariant\<close>

definition role_inv_for :: "('t, 'r, 'w) gov_ext \<Rightarrow> address \<Rightarrow> 'r \<Rightarrow> bool" where
  "role_inv_for ext owner r \<longleftrightarrow>
     (\<forall>role \<in> set default_operational_roles. ac_has_role ext r owner role) \<and>
     (\<forall>a. ac_has_role ext r a EXECUTOR_ROLE \<and> ac_has_role ext r a CANCELLER_ROLE \<longrightarrow> a = owner)"

definition role_inv :: "('t, 'r, 'w) gov_ext \<Rightarrow> ('t, 'r, 'w) governance \<Rightarrow> bool" where
  "role_inv ext g \<longleftrightarrow> (case gv_owner g of Some owner \<Rightarrow> role_inv_for ext owner (gv_access g) | None \<Rightarrow> False)"

definition role_rel :: "('t, 'r, 'w) gov_ext \<Rightarrow> ('t, 'r, 'w) governance \<Rightarrow> ('t, 'r, 'w) governance \<Rightarrow> bool" where
  "role_rel ext g g' \<longleftrightarrow> (role_inv ext g \<longrightarrow> gv_owner g' = gv_owner g \<and> role_inv ext g')"

interpretation rolef: gov_frame "role_rel ext" for ext
  by unfold_locales (auto simp: role_rel_def role_inv_def split: option.splits)

lemma role_names [simp]:
  "EXECUTOR_ROLE \<noteq> CANCELLER_ROLE" "CANCELLER_ROLE \<noteq> EXECUTOR_ROLE" "GUARDIAN_ROLE \<noteq> PROPOSER_ROLE" "ORACLE_ROLE \<noteq> PROPOSER_ROLE"
  by (simp_all add: EXECUTOR_ROLE_def CANCELLER_ROLE_def GUARDIAN_ROLE_def PROPOSER_ROLE_def ORACLE_ROLE_def)

lemma role_inv_for_cong: "same_roles ext r r' \<Longrightarrow> role_inv_for ext owner r \<Longrightarrow> role_inv_for ext owner r'"
  by (simp add: role_inv_for_def same_roles_def)

lemma role_inv_for_revoke:
  assumes "access_laws ext" and "ac_revoke ext account role r = Inr r'" and "account \<noteq> owner" and "role_inv_for ext owner r"
  shows "role_inv_for ext owner r'"
  using assms(3,4) access_lawsD(2) [OF assms(1,2)] by (auto simp: role_inv_for_def)

lemma role_inv_for_grant:
  assumes "access_laws ext" and "ac_grant ext account role r = Inr r'" and "role_inv_for ext owner r"
    and "account = owner \<or> (role = EXECUTOR_ROLE \<longrightarrow> \<not> ac_has_role ext r account CANCELLER_ROLE) \<and>
           (role = CANCELLER_ROLE \<longrightarrow> \<not> ac_has_role ext r account EXECUTOR_ROLE)"
  shows "role_inv_for ext owner r'"
  using assms(3,4) access_lawsD(1) [OF assms(1,2)] by (auto simp: role_inv_for_def)

lemma on_access_Inr: "on_access f g = Inr (u, g') \<longleftrightarrow> (\<exists>r. f (gv_access g) = Inr r \<and> g' = g\<lparr>gv_access := r\<rparr>)"
  by (auto simp: on_access_def rbind_Inr_iff)

lemma separation_Inr:
  "require_executor_canceller_separation ext owner account role g = Inr (u, g') \<longleftrightarrow>
     g' = g \<and> (account = owner \<or>
       (role = EXECUTOR_ROLE \<longrightarrow> \<not> holds_role ext g account CANCELLER_ROLE) \<and>
       (role = CANCELLER_ROLE \<longrightarrow> \<not> holds_role ext g account EXECUTOR_ROLE))"
  by (auto simp: require_executor_canceller_separation_def Let_def res_iff guards_read)

text \<open>Changes of the library's state that keep every role.\<close>

lemma rolef_on_access:
  assumes f: "\<And>r r'. f r = Inr r' \<Longrightarrow> same_roles ext r r'"
  shows "rolef.framed ext (on_access f)"
  by (rule rolef.framedI) (auto simp: on_access_Inr role_rel_def role_inv_def intro: role_inv_for_cong [OF f] split: option.splits)

lemma rolef_fwrite:
  "(\<And>g. gv_owner (f g) = gv_owner g \<and> gv_access (f g) = gv_access g) \<Longrightarrow> rolef.framed ext (fwrite f)"
  by (rule rolef.framed_fwrite) (auto simp: role_rel_def role_inv_def split: option.splits)

lemma rolef_on_timelock [gov_rules]: "rolef.framed ext (on_timelock f)"
  by (rule rolef.framedI) (auto simp: on_timelock_def role_rel_def role_inv_def rbind_Inr_iff split: option.splits)

lemma rolef_writes [gov_rules]:
  "rolef.framed ext (fwrite (\<lambda>g. g\<lparr>gv_code := h\<rparr>))" "rolef.framed ext (fwrite (\<lambda>g. g\<lparr>gv_controller := c\<rparr>))"
  "rolef.framed ext (fwrite (\<lambda>g. g\<lparr>gv_price_aggregator := c\<rparr>))" "rolef.framed ext (fwrite (clear_operation_sidecars i))"
  "rolef.framed ext (fwrite (mark_recovery_op i))" "rolef.framed ext (fwrite (mark_role_revocation_target i a))"
  by (rule rolef_fwrite, simp add: clear_operation_sidecars_def mark_recovery_op_def mark_role_revocation_target_def)+

lemma rolef_transfer:
  assumes "access_laws ext"
  shows "rolef.framed ext (apply_transfer_ownership ext a n)"
  unfolding apply_transfer_ownership_def sync_pending_admin_transfer_def
  by (intro gov_rules rolef_on_access; use access_lawsD [OF assms] in auto)

lemma rolef_grant:
  assumes "access_laws ext"
  shows "rolef.framed ext (apply_grant_role ext account role)"
proof (rule rolef.framedI)
  fix g u g'
  assume "apply_grant_role ext account role g = Inr (u, g')"
  then show "role_rel ext g g'"
    using role_inv_for_grant [OF assms]
    by (auto simp: apply_grant_role_def res_iff guards_read separation_Inr on_access_Inr role_rel_def role_inv_def)
qed

lemma rolef_revoke:
  assumes "access_laws ext"
  shows "rolef.framed ext (apply_revoke_role ext account role)"
proof (rule rolef.framedI)
  fix g u g'
  assume "apply_revoke_role ext account role g = Inr (u, g')"
  then show "role_rel ext g g'"
    using role_inv_for_revoke [OF assms]
    by (auto simp: apply_revoke_role_def res_iff guards_read on_access_Inr role_rel_def role_inv_def split: if_splits)
qed

lemma revoke_members_keeps:
  assumes laws: "access_laws ext"
  shows "revoke_members ext owner role n g = Inr (u, g') \<Longrightarrow> gv_owner g = Some owner \<Longrightarrow> role_inv ext g \<Longrightarrow>
    gv_owner g' = Some owner \<and> role_inv ext g'"
proof (induction n arbitrary: g)
  case 0
  then show ?case by (simp add: res_iff)
next
  case (Suc n)
  then obtain holder g1 where
      step: "(if holder \<noteq> owner then on_access (ac_revoke ext holder role) else fret ()) g = Inr ((), g1)"
    and rest: "revoke_members ext owner role n g1 = Inr (u, g')"
    by (auto simp: res_iff)
  have "gv_owner g1 = Some owner \<and> role_inv ext g1"
    using step Suc.prems(2,3) role_inv_for_revoke [OF laws]
    by (auto simp: on_access_Inr res_iff role_inv_def split: if_splits)
  then show ?case using Suc.IH [OF rest] by simp
qed

lemma rolef_reset:
  assumes laws: "access_laws ext"
  shows "rolef.framed ext (apply_canceller_reset ext accounts)"
proof (rule rolef.framedI)
  fix g u g'
  assume "apply_canceller_reset ext accounts g = Inr (u, g')"
  then obtain owner g1 where owner: "gv_owner g = Some owner"
    and rev: "revoke_members ext owner CANCELLER_ROLE (ac_count ext (gv_access g) CANCELLER_ROLE) g = Inr ((), g1)"
    and grants: "ffold (\<lambda>account _.
       fbind (has_role ext account CANCELLER_ROLE) (\<lambda>held.
       if account \<noteq> owner \<and> \<not> held
       then fbind (require_executor_canceller_separation ext owner account CANCELLER_ROLE) (\<lambda>_.
            on_access (ac_grant ext account CANCELLER_ROLE))
       else fret ())) accounts () g1 = Inr (u, g')"
    by (auto simp: apply_canceller_reset_def res_iff guards_read)
  have "gv_owner g' = Some owner \<and> role_inv ext g'" if "role_inv ext g"
    by (rule ffold_invariant [where P = "\<lambda>_ g. gv_owner g = Some owner \<and> role_inv ext g",
          OF grants revoke_members_keeps [OF laws rev owner that]])
      (use role_inv_for_grant [OF laws] in
        \<open>auto simp: res_iff guards_read separation_Inr on_access_Inr role_inv_def split: if_splits\<close>)
  then show "role_rel ext g g'" using owner by (simp add: role_rel_def)
qed

text \<open>The handover of ownership: the new owner gets every role, the previous one loses them.\<close>

lemma handover_roles:
  assumes laws: "access_laws ext"
  shows "ffold (\<lambda>role _.
       fbind (on_access (ac_grant ext new_owner role)) (\<lambda>_.
       fbind (has_role ext previous_owner role) (\<lambda>held.
       if previous_owner \<noteq> new_owner \<and> held then on_access (ac_revoke ext previous_owner role) else fret ()))) roles () g
     = Inr (u, g') \<Longrightarrow>
     gv_owner g' = gv_owner g \<and>
     (\<forall>a q. holds_role ext g' a q \<longleftrightarrow>
        (holds_role ext g a q \<and> \<not> (a = previous_owner \<and> previous_owner \<noteq> new_owner \<and> q \<in> set roles)) \<or>
        a = new_owner \<and> q \<in> set roles)"
proof (induction roles arbitrary: g)
  case Nil
  then show ?case by (simp add: res_iff)
next
  case (Cons role roles)
  then obtain r g1 where r: "ac_grant ext new_owner role (gv_access g) = Inr r"
    and step: "(if previous_owner \<noteq> new_owner \<and> ac_has_role ext r previous_owner role
         then on_access (ac_revoke ext previous_owner role) else fret ()) (g\<lparr>gv_access := r\<rparr>) = Inr ((), g1)"
    and rest: "ffold (\<lambda>role _.
       fbind (on_access (ac_grant ext new_owner role)) (\<lambda>_.
       fbind (has_role ext previous_owner role) (\<lambda>held.
       if previous_owner \<noteq> new_owner \<and> held then on_access (ac_revoke ext previous_owner role) else fret ()))) roles () g1
     = Inr (u, g')"
    by (auto simp: res_iff guards_read on_access_Inr)
  have "gv_owner g1 = gv_owner g \<and> (\<forall>a q. holds_role ext g1 a q \<longleftrightarrow>
        (holds_role ext g a q \<and> \<not> (a = previous_owner \<and> previous_owner \<noteq> new_owner \<and> q = role)) \<or> a = new_owner \<and> q = role)"
    using step access_lawsD(1) [OF laws r] access_lawsD(2) [OF laws]
    by (auto simp: on_access_Inr res_iff split: if_splits)
  then show ?case using Cons.IH [OF rest] by auto
qed

lemma accept_keeps_roles:
  assumes laws: "access_laws ext" and ok: "accept_ownership ext g = Inr (u, g')" and inv: "role_inv ext g"
  shows "role_inv ext g'"
proof -
  from ok obtain previous_owner new_owner r g1 where prev: "gv_owner g = Some previous_owner"
    and acc: "rt_accept_owner ext (gv_auth g) (gv_sequence g) (gv_access g) = Inr (new_owner, r)"
    and sync: "sync_owner_access_control ext previous_owner new_owner (g\<lparr>gv_owner := Some new_owner, gv_access := r\<rparr>) = Inr (u, g')"
    by (auto simp: accept_ownership_def res_iff guards_read rbind_Inr_iff)
  from sync have fold: "ffold (\<lambda>role _.
       fbind (on_access (ac_grant ext new_owner role)) (\<lambda>_.
       fbind (has_role ext previous_owner role) (\<lambda>held.
       if previous_owner \<noteq> new_owner \<and> held then on_access (ac_revoke ext previous_owner role) else fret ())))
       default_operational_roles () (g\<lparr>gv_owner := Some new_owner,
         gv_access := ac_clear_pending_admin ext (ac_set_admin ext new_owner r)\<rparr>) = Inr (u, g')"
    by (auto simp: sync_owner_access_control_def res_iff on_access_Inr)
  have same: "ac_has_role ext (ac_clear_pending_admin ext (ac_set_admin ext new_owner r)) a q = holds_role ext g a q" for a q
    using access_lawsD(5,6,9) [OF laws] acc by (simp add: same_roles_def)
  have "EXECUTOR_ROLE \<in> set default_operational_roles" "CANCELLER_ROLE \<in> set default_operational_roles"
    by (simp_all add: default_operational_roles_def)
  then show ?thesis using handover_roles [OF laws fold] inv prev by (auto simp: role_inv_def role_inv_for_def same)
qed

lemma constructor_roles:
  assumes laws: "access_laws ext" and fresh: "gov_fresh ext g" and ok: "gov_constructor ext admin min_delay g = Inr ((), g')"
  shows "role_inv ext g'"
proof -
  from ok obtain r g1 where r: "ac_init_admin ext admin (gv_access g) = Inr r"
    and grants: "ffold (\<lambda>role _. on_access (ac_grant ext admin role)) default_operational_roles ()
       (g\<lparr>gv_owner := Some admin, gv_access := r\<rparr>) = Inr ((), g1)"
    and fin: "\<exists>t. g' = g1\<lparr>gv_timelock := t\<rparr>"
    by (auto simp: gov_constructor_def res_iff on_access_Inr on_timelock_def)
  have fold: "ffold (\<lambda>role _. on_access (ac_grant ext admin role)) roles () g = Inr (u, g') \<Longrightarrow>
      gv_owner g' = gv_owner g \<and> (\<forall>a q. holds_role ext g' a q \<longleftrightarrow> holds_role ext g a q \<or> a = admin \<and> q \<in> set roles)"
    for roles u g g'
    using access_lawsD(1) [OF laws]
    by (induction roles arbitrary: g) (auto simp: res_iff on_access_Inr)
  have "\<not> ac_has_role ext r a q" for a q
    using access_lawsD(4) [OF laws r] fresh by (simp add: same_roles_def gov_fresh_def)
  then show ?thesis using fold [OF grants] fin by (auto simp: role_inv_def role_inv_for_def)
qed

section \<open>Every call keeps the invariant\<close>

lemma rolef_timelock_flows [gov_rules]:
  "rolef.framed ext (schedule_operation ext operation delay)" "rolef.framed ext (set_execute_operation ext operation)"
  "rolef.framed ext (finish_execute ext i)" "rolef.framed ext (proposer_check proposer op)"
  "rolef.framed ext (record_revocation op i)"
proof -
  show "rolef.framed ext (schedule_operation ext operation delay)"
    by (rule rolef.framedI) (auto simp: schedule_operation_def role_rel_def role_inv_def rbind_Inr_iff split: option.splits)
  show "rolef.framed ext (set_execute_operation ext operation)" "rolef.framed ext (finish_execute ext i)"
    unfolding set_execute_operation_def finish_execute_def by (intro gov_rules)+
  show "rolef.framed ext (proposer_check proposer op)"
    by (rule rolef.framedI) (auto dest: proposer_check_Inr simp: role_rel_def)
  show "rolef.framed ext (record_revocation op i)"
    by (cases op) (auto simp: record_revocation_def intro: gov_rules)
qed

lemma rolef_prod [gov_rules]: "(\<And>x y. rolef.framed ext (f x y)) \<Longrightarrow> rolef.framed ext (case v of (x, y) \<Rightarrow> f x y)"
  by (cases v) simp

lemma rolef_apply_self_op: "access_laws ext \<Longrightarrow> rolef.framed ext (apply_self_op ext op)"
  by (cases op; simp only: apply_self_op.simps apply_upgrade_def apply_update_delay_def;
      intro gov_rules rolef_grant rolef_revoke rolef_transfer)

lemma rolef_lifecycle:
  assumes "access_laws ext"
  shows "rolef.framed ext (propose ext proposer op salt)" "rolef.framed ext (execute ext executor operation)"
    "rolef.framed ext (execute_self ext executor op salt)" "rolef.framed ext (gov_cancel ext canceller i)"
    "rolef.framed ext (propose_canceller_reset ext accounts salt)"
    "rolef.framed ext (execute_canceller_reset ext executor accounts salt)"
  unfolding propose_def execute_def execute_operation_def execute_self_def gov_cancel_def propose_canceller_reset_def
    execute_canceller_reset_def Let_def
  by (intro gov_rules rolef_apply_self_op rolef_reset assms)+

lemma rolef_admin:
  assumes "access_laws ext"
  shows "rolef.framed ext (revoke_role_immediate ext account role)" "rolef.framed ext (deploy_controller ext h)"
    "rolef.framed ext (deploy_price_aggregator ext h)"
  unfolding revoke_role_immediate_def deploy_controller_def deploy_price_aggregator_def
  by (intro gov_rules rolef_revoke assms)+

lemma rolef_dispatch: "access_laws ext \<Longrightarrow> c \<noteq> GC_accept_ownership \<Longrightarrow> rolef.framed ext (gov_dispatch ext c)"
  by (cases c; simp only: gov_dispatch.simps; (intro gov_rules rolef_lifecycle rolef_admin)?) simp_all

lemma dispatch_keeps_roles:
  assumes "access_laws ext" and "gov_dispatch ext c g = Inr (v, g')" and "role_inv ext g"
  shows "role_inv ext g'"
proof (cases "c = GC_accept_ownership")
  case True
  then show ?thesis using assms accept_keeps_roles by (auto simp: returning_Inr)
next
  case False
  then show ?thesis using rolef.framedD [OF rolef_dispatch [OF assms(1)] assms(2)] assms(3) by (simp add: role_rel_def)
qed

lemma run_role_inv:
  assumes "access_laws ext" and "gov_run ext min_delay log g"
  shows "role_inv ext g"
  using assms(2)
proof induction
  case (construct g admin g')
  then show ?case by (rule constructor_roles [OF assms(1)])
next
  case (environment log g now auth w)
  then show ?case by (auto simp: role_inv_def split: option.splits)
next
  case (call log g c v g')
  then show ?case using dispatch_keeps_roles [OF assms(1)] by blast
qed

section \<open>Operations reserved for the owner\<close>

text \<open>Seen from the timelock, the reserved operations are recognised by the function they call.\<close>

definition reserved_functions :: "string list" where
  "reserved_functions =
     [''transfer_ownership'', ''upgrade'', ''upgrade_pool'', ''upgrade_position_nft'', ''migrate'', ''update_delay'',
      ''set_price_aggregator'', ''set_oracle'', ''set_tolerance'', ''set_swap_aggregator'', ''approve_blend_pool'',
      ''set_accumulator'', ''grant_role'']"

definition reserved_call :: "operation \<Rightarrow> bool" where
  "reserved_call operation \<longleftrightarrow>
     op_function operation \<in> set reserved_functions \<or>
     op_function operation = ''set_position_manager'' \<and>
       (case op_args operation of [_, V_Bool active] \<Rightarrow> active | _ \<Rightarrow> False)"

lemma reserved_iff_owner_only:
  "operation_for_admin_op ext op salt g = Inr ((operation, tier), g') \<Longrightarrow> reserved_call operation \<longleftrightarrow> owner_only op"
  by (cases op)
    (auto simp: operation_for_admin_op_def res_iff controller_operation_def sensitive_controller_operation_def
      price_aggregator_operation_def sensitive_price_aggregator_operation_def self_operation_def reserved_call_def
      reserved_functions_def)

lemma reset_not_reserved: "\<not> reserved_call (canceller_reset_operation self accounts salt)"
  by (simp add: canceller_reset_operation_def reserved_call_def reserved_functions_def)

lemma logged_call:
  "gov_run ext min_delay log g \<Longrightarrow> log = later @ (c, p) # earlier \<Longrightarrow> (\<exists>v p'. gov_dispatch ext c p = Inr (v, p')) \<and> gov_run ext min_delay earlier p"
proof (induction arbitrary: later rule: gov_run.induct)
  case (call log g c' v g')
  then show ?case by (cases later) auto
qed simp_all

lemma reserved_proposer:
  assumes "gov_dispatch ext c p = Inr (v, p')" and "proposed_operation ext c p = Some (operation, tier, delay)"
    and "reserved_call operation"
  shows "\<exists>proposer op salt. c = GC_propose proposer op salt \<and> owner_only op \<and> gv_owner p = Some proposer \<and> gv_auth p proposer"
proof -
  from assms(2,3) obtain proposer op salt where c: "c = GC_propose proposer op salt"
    using reset_not_reserved by (cases c) (auto split: sum.splits)
  with assms(1) obtain i where pr: "propose ext proposer op salt p = Inr (i, p')" by (auto simp: returning_Inr)
  from pr obtain operation' tier' delay' g1 g2 where auth: "gv_auth p proposer" and own: "owner_only op \<longrightarrow> gv_owner p = Some proposer"
    and res: "operation_for_admin_op ext op salt p = Inr ((operation', tier'), g1)"
    and del: "operation_delay ext tier' g1 = Inr (delay', g2)"
    by (rule propose_Inr)
  then have "operation' = operation" using assms(2) c by (simp add: fbind_def res del fret_def)
  then show ?thesis using reserved_iff_owner_only [OF res] assms(3) auth own c by simp
qed

definition min_delay_laws :: "('t, 'r, 'w) gov_ext \<Rightarrow> bool" where
  "min_delay_laws ext \<longleftrightarrow>
     (\<forall>operation delay now t i t'. tl_schedule ext operation delay now t = Inr (i, t') \<longrightarrow> tl_min_delay ext t' = tl_min_delay ext t) \<and>
     (\<forall>operation now t t'. tl_set_execute ext operation now t = Inr t' \<longrightarrow> tl_min_delay ext t' = tl_min_delay ext t) \<and>
     (\<forall>i now t t'. tl_cancel ext i now t = Inr t' \<longrightarrow> tl_min_delay ext t' = tl_min_delay ext t) \<and>
     (\<forall>i t. tl_min_delay ext (tl_remove ext i t) = tl_min_delay ext t) \<and>
     (\<forall>delay t. tl_min_delay ext (tl_set_min_delay ext delay t) = Inr delay)"

definition delay_floor :: "('t, 'r, 'w) gov_ext \<Rightarrow> nat \<Rightarrow> 't \<Rightarrow> bool" where
  "delay_floor ext initial t \<longleftrightarrow>
     (case tl_min_delay ext t of
        Inr m \<Rightarrow> 0 < m \<and> min initial TIMELOCK_MIN_DELAY_LEDGERS \<le> m
      | Inl _ \<Rightarrow> False)"

definition delay_rel :: "('t, 'r, 'w) gov_ext \<Rightarrow> nat \<Rightarrow> ('t, 'r, 'w) governance \<Rightarrow> ('t, 'r, 'w) governance \<Rightarrow> bool" where
  "delay_rel ext initial g g' \<longleftrightarrow> (delay_floor ext initial (gv_timelock g) \<longrightarrow> delay_floor ext initial (gv_timelock g'))"

interpretation delayf: gov_frame "delay_rel ext initial" for ext initial
  by unfold_locales (auto simp: delay_rel_def)

lemma delayf_on_timelock:
  assumes f: "\<And>t t'. f t = Inr t' \<Longrightarrow> tl_min_delay ext t' = tl_min_delay ext t"
  shows "delayf.framed ext initial (on_timelock f)"
  by (rule delayf.framedI) (auto simp: on_timelock_def delay_rel_def rbind_Inr_iff delay_floor_def f)

lemma delayf_on_access [gov_rules]: "delayf.framed ext initial (on_access f)"
  by (rule delayf.framedI) (auto simp: on_access_def delay_rel_def rbind_Inr_iff)

lemma delayf_writes [gov_rules]:
  "delayf.framed ext initial (fwrite (\<lambda>g. g\<lparr>gv_code := h\<rparr>))" "delayf.framed ext initial (fwrite (\<lambda>g. g\<lparr>gv_controller := c\<rparr>))"
  "delayf.framed ext initial (fwrite (\<lambda>g. g\<lparr>gv_price_aggregator := c\<rparr>))"
  "delayf.framed ext initial (fwrite (clear_operation_sidecars i))" "delayf.framed ext initial (fwrite (mark_recovery_op i))"
  "delayf.framed ext initial (fwrite (mark_role_revocation_target i a))"
  by (rule delayf.framed_fwrite, simp add: delay_rel_def clear_operation_sidecars_def mark_recovery_op_def
      mark_role_revocation_target_def)+

lemma delayf_prod [gov_rules]:
  "(\<And>x y. delayf.framed ext initial (f x y)) \<Longrightarrow> delayf.framed ext initial (case v of (x, y) \<Rightarrow> f x y)"
  by (cases v) simp

lemma delayf_update_delay:
  assumes "min_delay_laws ext"
  shows "delayf.framed ext initial (apply_update_delay ext n)"
proof (rule delayf.framedI)
  fix g u g'
  assume "apply_update_delay ext n g = Inr (u, g')"
  then show "delay_rel ext initial g g'"
    using assms
    by (auto simp: apply_update_delay_def validate_delay_update_def require_nonzero_delay_def get_min_delay_def res_iff
        assert_Inr_iff on_timelock_def min_delay_laws_def delay_rel_def delay_floor_def)
qed

lemma delayf_revoke_members [gov_rules]: "delayf.framed ext initial (revoke_members ext owner role n)"
  by (induction n) (auto intro!: gov_rules)

lemma delayf_access [gov_rules]:
  "delayf.framed ext initial (apply_grant_role ext account role)" "delayf.framed ext initial (apply_revoke_role ext account role)"
  "delayf.framed ext initial (apply_canceller_reset ext accounts)" "delayf.framed ext initial (apply_transfer_ownership ext a n)"
  "delayf.framed ext initial (revoke_role_immediate ext account role)"
  "delayf.framed ext initial (deploy_controller ext h)" "delayf.framed ext initial (deploy_price_aggregator ext h)"
  unfolding apply_grant_role_def apply_revoke_role_def apply_canceller_reset_def apply_transfer_ownership_def
    sync_pending_admin_transfer_def revoke_role_immediate_def deploy_controller_def deploy_price_aggregator_def
  by (intro gov_rules)+

lemma delayf_accept [gov_rules]: "delayf.framed ext initial (accept_ownership ext)"
proof -
  have "delayf.framed ext initial (\<lambda>g. rbind (rt_accept_owner ext (gv_auth g) (gv_sequence g) (gv_access g)) (\<lambda>(accepted, r).
          Inr ((), g\<lparr>gv_owner := Some accepted, gv_access := r\<rparr>)))"
    by (rule delayf.framedI) (auto simp: delay_rel_def rbind_Inr_iff)
  then show ?thesis unfolding accept_ownership_def sync_owner_access_control_def by (intro gov_rules)
qed

lemma delayf_apply_self_op: "min_delay_laws ext \<Longrightarrow> delayf.framed ext initial (apply_self_op ext op)"
  by (cases op; simp only: apply_self_op.simps apply_upgrade_def; intro gov_rules delayf_update_delay)

lemma delayf_timelock_flows:
  assumes laws: "min_delay_laws ext"
  shows "delayf.framed ext initial (schedule_operation ext operation delay)"
    "delayf.framed ext initial (set_execute_operation ext operation)" "delayf.framed ext initial (finish_execute ext i)"
    "delayf.framed ext initial (proposer_check proposer op)" "delayf.framed ext initial (record_revocation op i)"
    "delayf.framed ext initial (on_timelock (tl_cancel ext i now))"
proof -
  show "delayf.framed ext initial (schedule_operation ext operation delay)"
    using laws
    by (intro delayf.framedI) (auto simp: schedule_operation_def delay_rel_def delay_floor_def rbind_Inr_iff min_delay_laws_def)
  show "delayf.framed ext initial (set_execute_operation ext operation)" "delayf.framed ext initial (finish_execute ext i)"
    unfolding set_execute_operation_def finish_execute_def
    by (intro gov_rules delayf_on_timelock; use laws in \<open>auto simp: min_delay_laws_def\<close>)+
  show "delayf.framed ext initial (on_timelock (tl_cancel ext i now))"
    by (intro delayf_on_timelock; use laws in \<open>auto simp: min_delay_laws_def\<close>)
  show "delayf.framed ext initial (proposer_check proposer op)"
    by (rule delayf.framedI) (auto dest: proposer_check_Inr simp: delay_rel_def)
  show "delayf.framed ext initial (record_revocation op i)"
    by (cases op) (auto simp: record_revocation_def intro: gov_rules)
qed

lemma delayf_lifecycle:
  assumes "min_delay_laws ext"
  shows "delayf.framed ext initial (propose ext proposer op salt)" "delayf.framed ext initial (execute ext executor operation)"
    "delayf.framed ext initial (execute_self ext executor op salt)" "delayf.framed ext initial (gov_cancel ext canceller i)"
    "delayf.framed ext initial (propose_canceller_reset ext accounts salt)"
    "delayf.framed ext initial (execute_canceller_reset ext executor accounts salt)"
  unfolding propose_def execute_def execute_operation_def execute_self_def gov_cancel_def propose_canceller_reset_def
    execute_canceller_reset_def Let_def
  by (intro gov_rules delayf_timelock_flows delayf_apply_self_op assms)+

lemma delayf_dispatch: "min_delay_laws ext \<Longrightarrow> delayf.framed ext initial (gov_dispatch ext c)"
  by (cases c; simp only: gov_dispatch.simps; intro gov_rules delayf_lifecycle)

lemma run_delay_floor:
  assumes laws: "min_delay_laws ext" and "gov_run ext initial log g"
  shows "delay_floor ext initial (gv_timelock g)"
  using assms(2)
proof induction
  case (construct g admin g')
  then show ?case
    using laws
    by (auto simp: gov_constructor_def res_iff on_timelock_def require_nonzero_delay_def assert_Inr_iff min_delay_laws_def
        delay_floor_def)
next
  case (environment log g now auth w)
  then show ?case by simp
next
  case (call log g c v g')
  then show ?case using delayf.framedD [OF delayf_dispatch [OF laws]] by (fastforce simp: delay_rel_def)
qed

section \<open>How long a proposal waits\<close>

definition waits_for :: "nat \<Rightarrow> delay_tier \<Rightarrow> nat \<Rightarrow> bool" where
  "waits_for initial tier delay \<longleftrightarrow>
     0 < delay \<and> min initial TIMELOCK_MIN_DELAY_LEDGERS \<le> delay \<and>
     (tier = Sensitive \<longrightarrow> TIMELOCK_SENSITIVE_MIN_DELAY_LEDGERS \<le> delay) \<and>
     (tier = Recovery \<longrightarrow> TIMELOCK_RECOVERY_MIN_DELAY_LEDGERS \<le> delay)"

lemma operation_delay_waits:
  "operation_delay ext tier g = Inr (delay, g') \<Longrightarrow> delay_floor ext initial (gv_timelock g) \<Longrightarrow> waits_for initial tier delay"
  by (cases tier) (auto simp: operation_delay_def get_min_delay_def res_iff delay_floor_def waits_for_def)

lemma proposal_waits:
  assumes "min_delay_laws ext" and run: "gov_run ext initial log g"
    and made: "proposed_operation ext c g = Some (operation, tier, delay)"
  shows "waits_for initial tier delay"
proof -
  note floor = run_delay_floor [OF assms(1,2)]
  obtain g1 g2 where "operation_delay ext tier g1 = Inr (delay, g2)" "delay_floor ext initial (gv_timelock g1)"
  proof (cases c)
    case (GC_propose proposer op salt)
    with made obtain g1 g2 where res: "operation_for_admin_op ext op salt g = Inr ((operation, tier), g1)"
      and del: "operation_delay ext tier g1 = Inr (delay, g2)"
      by (auto simp: fbind_Inr fret_Inr split: sum.splits)
    then show thesis using that floor delayf.framedD [OF delayf.gov_operation_for_admin_op res] by (auto simp: delay_rel_def)
  next
    case (GC_propose_canceller_reset accounts salt)
    with made that floor show thesis by (auto split: sum.splits)
  qed (use made in auto)
  then show ?thesis by (rule operation_delay_waits)
qed

end
