(* ===== verification/Governance_Lab.thy ===== *)
theory Governance_Lab
  imports Governance_Roles
begin

text \<open>
  A concrete timelock and access-control library, of maps and lists, that has the documented behaviour, and
  two histories of the governance contract on it, evaluated by the simplifier: an ownership transfer that is
  proposed, waits, is executed and accepted, and a proposed reset of the canceller set.
\<close>

section \<open>A concrete library\<close>

record tlab_timelock =
  lt_min_delay :: nat
  lt_ledger :: "bytes \<Rightarrow> nat"

record tlab_access =
  lb_roles :: "(address \<times> string) list"
  lb_pending :: "(address \<times> nat) option"
  lb_admin :: "address option"

definition tlab_transfer_args :: "val list" where
  "tlab_transfer_args = [V_Address 8, V_U32 500]"

definition tlab_transfer :: operation where
  "tlab_transfer = \<lparr>op_target = 5, op_function = ''transfer_ownership'', op_args = tlab_transfer_args,
     op_predecessor = replicate 32 0, op_salt = [3]\<rparr>"

definition tlab_hash :: "operation \<Rightarrow> bytes" where
  "tlab_hash operation = (if operation = tlab_transfer then [9] else 0 # op_salt operation)"

definition tlab_ext :: "(tlab_timelock, tlab_access, unit) gov_ext" where
  "tlab_ext =
     \<lparr>tl_hash = tlab_hash,
      tl_min_delay = (\<lambda>t. Inr (lt_min_delay t)),
      tl_set_min_delay = (\<lambda>d t. t\<lparr>lt_min_delay := d\<rparr>),
      tl_ledger = lt_ledger,
      tl_state = (\<lambda>t now i. V_U32 (lt_ledger t i)),
      tl_schedule = (\<lambda>operation delay now t.
        if lt_ledger t (tlab_hash operation) = 0 \<and> lt_min_delay t \<le> delay
        then Inr (tlab_hash operation, t\<lparr>lt_ledger := (lt_ledger t)(tlab_hash operation := now + delay)\<rparr>)
        else Inl (Generic InternalError)),
      tl_set_execute = (\<lambda>operation now t.
        if 2 \<le> lt_ledger t (tlab_hash operation) \<and> lt_ledger t (tlab_hash operation) \<le> now
        then Inr (t\<lparr>lt_ledger := (lt_ledger t)(tlab_hash operation := 1)\<rparr>) else Inl (Generic InternalError)),
      tl_cancel = (\<lambda>i now t. if 2 \<le> lt_ledger t i then Inr (t\<lparr>lt_ledger := (lt_ledger t)(i := 0)\<rparr>) else Inl (Generic InternalError)),
      tl_remove = (\<lambda>i t. t\<lparr>lt_ledger := (lt_ledger t)(i := 0)\<rparr>),
      ac_has_role = (\<lambda>r a role. (a, role) \<in> set (lb_roles r)),
      ac_ensure_role = (\<lambda>r a role. if (a, role) \<in> set (lb_roles r) then Inr () else Inl (Generic NotAuthorized)),
      ac_grant = (\<lambda>a role r. Inr (r\<lparr>lb_roles := (a, role) # lb_roles r\<rparr>)),
      ac_revoke = (\<lambda>a role r. Inr (r\<lparr>lb_roles := filter (\<lambda>x. x \<noteq> (a, role)) (lb_roles r)\<rparr>)),
      ac_count = (\<lambda>r role. length (filter (\<lambda>x. snd x = role) (lb_roles r))),
      ac_member = (\<lambda>r role i. case drop i (filter (\<lambda>x. snd x = role) (lb_roles r)) of
        x # _ \<Rightarrow> Inr (fst x) | [] \<Rightarrow> Inl (Generic InternalError)),
      ac_init_admin = (\<lambda>a r. case lb_admin r of None \<Rightarrow> Inr (r\<lparr>lb_admin := Some a\<rparr>) | Some _ \<Rightarrow> Inl (Generic InternalError)),
      ac_admin = lb_admin,
      ac_set_admin = (\<lambda>a r. r\<lparr>lb_admin := Some a\<rparr>),
      ac_clear_pending_admin = (\<lambda>r. r),
      rt_offer_owner = (\<lambda>a live now r. Inr (r\<lparr>lb_pending := Some (a, live)\<rparr>)),
      rt_offer_admin = (\<lambda>a live now r. Inr r),
      rt_accept_owner = (\<lambda>auth now r. case lb_pending r of
        Some (a, live) \<Rightarrow> if auth a \<and> now \<le> live then Inr (a, r\<lparr>lb_pending := None\<rparr>) else Inl (Generic NotAuthorized)
      | None \<Rightarrow> Inl (Generic NotAuthorized)),
      gx_invoke = (\<lambda>a f args w. Inr (V_Void, w)),
      gx_deploy = (\<lambda>h salt a w. Inr (6, w)),
      gx_is_wasm = (\<lambda>a w. True),
      gx_try_decimals = (\<lambda>a w. (Some 7, w)),
      gx_try_symbol = (\<lambda>a w. (True, w)),
      gx_oracle = (\<lambda>a key w. Inr (None, w)),
      gx_flags_epoch = (\<lambda>a i k w. Inr (0, w))\<rparr>"

lemma tlab_fields [simp]:
  "tl_hash tlab_ext = tlab_hash"
  "tl_min_delay tlab_ext = (\<lambda>t. Inr (lt_min_delay t))"
  "tl_set_min_delay tlab_ext = (\<lambda>d t. t\<lparr>lt_min_delay := d\<rparr>)"
  "tl_ledger tlab_ext = lt_ledger"
  "tl_state tlab_ext = (\<lambda>t now i. V_U32 (lt_ledger t i))"
  "tl_schedule tlab_ext = (\<lambda>operation delay now t. if lt_ledger t (tlab_hash operation) = 0 \<and> lt_min_delay t \<le> delay then Inr (tlab_hash operation, t\<lparr>lt_ledger := (lt_ledger t)(tlab_hash operation := now + delay)\<rparr>) else Inl (Generic InternalError))"
  "tl_set_execute tlab_ext = (\<lambda>operation now t. if 2 \<le> lt_ledger t (tlab_hash operation) \<and> lt_ledger t (tlab_hash operation) \<le> now then Inr (t\<lparr>lt_ledger := (lt_ledger t)(tlab_hash operation := 1)\<rparr>) else Inl (Generic InternalError))"
  "tl_cancel tlab_ext = (\<lambda>i now t. if 2 \<le> lt_ledger t i then Inr (t\<lparr>lt_ledger := (lt_ledger t)(i := 0)\<rparr>) else Inl (Generic InternalError))"
  "tl_remove tlab_ext = (\<lambda>i t. t\<lparr>lt_ledger := (lt_ledger t)(i := 0)\<rparr>)"
  "ac_has_role tlab_ext = (\<lambda>r a role. (a, role) \<in> set (lb_roles r))"
  "ac_ensure_role tlab_ext = (\<lambda>r a role. if (a, role) \<in> set (lb_roles r) then Inr () else Inl (Generic NotAuthorized))"
  "ac_grant tlab_ext = (\<lambda>a role r. Inr (r\<lparr>lb_roles := (a, role) # lb_roles r\<rparr>))"
  "ac_revoke tlab_ext = (\<lambda>a role r. Inr (r\<lparr>lb_roles := filter (\<lambda>x. x \<noteq> (a, role)) (lb_roles r)\<rparr>))"
  "ac_count tlab_ext = (\<lambda>r role. length (filter (\<lambda>x. snd x = role) (lb_roles r)))"
  "ac_member tlab_ext = (\<lambda>r role i. case drop i (filter (\<lambda>x. snd x = role) (lb_roles r)) of x # _ \<Rightarrow> Inr (fst x) | [] \<Rightarrow> Inl (Generic InternalError))"
  "ac_init_admin tlab_ext = (\<lambda>a r. case lb_admin r of None \<Rightarrow> Inr (r\<lparr>lb_admin := Some a\<rparr>) | Some _ \<Rightarrow> Inl (Generic InternalError))"
  "ac_admin tlab_ext = lb_admin"
  "ac_set_admin tlab_ext = (\<lambda>a r. r\<lparr>lb_admin := Some a\<rparr>)"
  "ac_clear_pending_admin tlab_ext = (\<lambda>r. r)"
  "rt_offer_owner tlab_ext = (\<lambda>a live now r. Inr (r\<lparr>lb_pending := Some (a, live)\<rparr>))"
  "rt_offer_admin tlab_ext = (\<lambda>a live now r. Inr r)"
  "rt_accept_owner tlab_ext = (\<lambda>auth now r. case lb_pending r of Some (a, live) \<Rightarrow> if auth a \<and> now \<le> live then Inr (a, r\<lparr>lb_pending := None\<rparr>) else Inl (Generic NotAuthorized) | None \<Rightarrow> Inl (Generic NotAuthorized))"
  "gx_invoke tlab_ext = (\<lambda>a f args w. Inr (V_Void, w))"
  "gx_deploy tlab_ext = (\<lambda>h salt a w. Inr (6, w))"
  "gx_is_wasm tlab_ext = (\<lambda>a w. True)"
  "gx_try_decimals tlab_ext = (\<lambda>a w. (Some 7, w))"
  "gx_try_symbol tlab_ext = (\<lambda>a w. (True, w))"
  "gx_oracle tlab_ext = (\<lambda>a key w. Inr (None, w))"
  "gx_flags_epoch tlab_ext = (\<lambda>a i k w. Inr (0, w))"
  by (simp_all add: tlab_ext_def)

lemma tlab_timelock_laws: "timelock_laws tlab_ext"
  unfolding timelock_laws_def by (auto split: if_splits)

lemma tlab_min_delay_laws: "min_delay_laws tlab_ext"
  unfolding min_delay_laws_def by (auto split: if_splits)

lemma tlab_access_laws: "access_laws tlab_ext"
  unfolding access_laws_def same_roles_def by (auto split: if_splits option.splits)

lemma tlab_hash_transfer: "tl_hash tlab_ext operation = tl_hash tlab_ext tlab_transfer \<Longrightarrow> operation = tlab_transfer"
  by (auto simp: tlab_hash_def split: if_splits)

section \<open>A history\<close>

definition tlab_state :: "(tlab_timelock, tlab_access, unit) governance" where
  "tlab_state = \<lparr>gv_self = 5, gv_owner = None, gv_controller = None, gv_price_aggregator = None,
     gv_revocation_targets = Map.empty, gv_recovery_ops = Map.empty,
     gv_timelock = \<lparr>lt_min_delay = 0, lt_ledger = (\<lambda>_. 0)\<rparr>,
     gv_access = \<lparr>lb_roles = [], lb_pending = None, lb_admin = None\<rparr>,
     gv_code = [], gv_sequence = 100, gv_auth = (\<lambda>a. a = 7), gv_world = ()\<rparr>"

definition tlab_roles :: "address \<Rightarrow> (address \<times> string) list" where
  "tlab_roles a = map (Pair a) (rev default_operational_roles)"

definition tlab_access_7 :: tlab_access where
  "tlab_access_7 = \<lparr>lb_roles = tlab_roles 7, lb_pending = None, lb_admin = Some 7\<rparr>"

definition tlab_new :: "(tlab_timelock, tlab_access, unit) governance" where
  "tlab_new = tlab_state\<lparr>gv_owner := Some 7, gv_access := tlab_access_7,
     gv_timelock := \<lparr>lt_min_delay = 10, lt_ledger = (\<lambda>_. 0)\<rparr>\<rparr>"

definition tlab_pending :: "(tlab_timelock, tlab_access, unit) governance" where
  "tlab_pending = tlab_new\<lparr>gv_timelock := \<lparr>lt_min_delay = 10, lt_ledger = (\<lambda>_. 0)([9] := 112)\<rparr>\<rparr>"

abbreviation tlab_propose :: gov_call where
  "tlab_propose \<equiv> GC_propose 7 (TransferGovOwnership 8 500) [3]"

abbreviation tlab_execute :: gov_call where
  "tlab_execute \<equiv> GC_execute_self None (TransferGovOwnership 8 500) [3]"

definition tlab_ready :: "(tlab_timelock, tlab_access, unit) governance" where
  "tlab_ready = tlab_pending\<lparr>gv_sequence := 120, gv_auth := (\<lambda>_. False), gv_world := ()\<rparr>"

definition tlab_offered :: "(tlab_timelock, tlab_access, unit) governance" where
  "tlab_offered = tlab_ready\<lparr>gv_timelock := \<lparr>lt_min_delay = 10, lt_ledger = (\<lambda>_. 0)\<rparr>,
     gv_access := tlab_access_7\<lparr>lb_pending := Some (8, 500)\<rparr>\<rparr>"

lemmas tlab_eval = fbind_def fret_def flift_def fread_def fwrite_def fassert_def assert_with_error_def rbind_def
  unwrap_or_panic_def returning_def on_timelock_def on_access_def on_world_def gv_require_auth_def gv_only_owner_def
  owner_or_panic_def ensure_role_def has_role_def get_min_delay_def

lemma tlab_constructed: "gov_constructor tlab_ext 7 10 tlab_state = Inr ((), tlab_new)"
  by (simp add: gov_constructor_def tlab_eval tlab_state_def tlab_new_def tlab_access_7_def tlab_roles_def
      default_operational_roles_def require_nonzero_delay_def)

lemma tlab_self [simp]: "tlab_transfer\<lparr>op_target := 5\<rparr> = tlab_transfer" "op_target tlab_transfer = 5" "tlab_hash tlab_transfer = [9]"
  by (simp_all add: tlab_transfer_def tlab_hash_def)

lemma tlab_operation:
  "operation_for_admin_op tlab_ext (TransferGovOwnership 8 500) [3] g =
     Inr ((tlab_transfer\<lparr>op_target := gv_self g\<rparr>, Sensitive), g)"
  by (simp add: operation_for_admin_op_def tlab_eval self_operation_def tlab_transfer_def tlab_transfer_args_def)

lemmas tlab_states = tlab_new_def tlab_pending_def tlab_ready_def tlab_offered_def tlab_state_def tlab_access_7_def tlab_roles_def
  default_operational_roles_def

lemma tlab_proposed: "gov_dispatch tlab_ext tlab_propose tlab_new = Inr (V_Bytes [9], tlab_pending)"
  by (simp add: propose_def begin_immediate_def proposer_check_def operation_delay_def schedule_operation_def
      record_revocation_def TIMELOCK_SENSITIVE_MIN_DELAY_LEDGERS_def tlab_states tlab_eval tlab_operation)

lemma tlab_executed: "gov_dispatch tlab_ext tlab_execute tlab_ready = Inr (V_Void, tlab_offered)"
  by (simp add: execute_self_def prepare_execute_def authorize_executor_def require_operation_not_expired_def
      set_execute_operation_def apply_transfer_ownership_def sync_pending_admin_transfer_def finish_execute_def
      clear_operation_sidecars_def TIMELOCK_OPERATION_GRACE_LEDGERS_def tlab_states tlab_eval tlab_operation Let_def
      fun_upd_idem)

definition tlab_final :: "(tlab_timelock, tlab_access, unit) governance" where
  "tlab_final = tlab_offered\<lparr>gv_owner := Some 8, gv_auth := (\<lambda>a. a = 8),
     gv_access := \<lparr>lb_roles = tlab_roles 8, lb_pending = None, lb_admin = Some 8\<rparr>\<rparr>"

lemma tlab_accepted:
  "gov_dispatch tlab_ext GC_accept_ownership (tlab_offered\<lparr>gv_sequence := 120, gv_auth := (\<lambda>a. a = 8), gv_world := ()\<rparr>) =
     Inr (V_Void, tlab_final)"
  by (simp add: tlab_final_def accept_ownership_def sync_owner_access_control_def tlab_states tlab_eval ORACLE_ROLE_def PROPOSER_ROLE_def
      EXECUTOR_ROLE_def CANCELLER_ROLE_def GUARDIAN_ROLE_def)

definition tlab_recovering :: "(tlab_timelock, tlab_access, unit) governance" where
  "tlab_recovering = tlab_new\<lparr>gv_timelock := \<lparr>lt_min_delay = 10, lt_ledger = (\<lambda>_. 0)([0, 4] := 518500)\<rparr>,
     gv_recovery_ops := [[0, 4] \<mapsto> True]\<rparr>"

lemma tlab_reset_hash: "tlab_hash (canceller_reset_operation 5 [20] [4]) = [0, 4]"
  by (simp add: tlab_hash_def canceller_reset_operation_def tlab_transfer_def)

lemma tlab_reset_proposed: "gov_dispatch tlab_ext (GC_propose_canceller_reset [20] [4]) tlab_new = Inr (V_Bytes [0, 4], tlab_recovering)"
  by (simp add: propose_canceller_reset_def operation_delay_def schedule_operation_def mark_recovery_op_def
      TIMELOCK_RECOVERY_MIN_DELAY_LEDGERS_def tlab_recovering_def tlab_states tlab_eval tlab_reset_hash Let_def)

lemma tlab_fresh: "gov_fresh tlab_ext tlab_state"
  by (simp add: gov_fresh_def tlab_state_def)

lemma tlab_run_new: "gov_run tlab_ext 10 [] tlab_new"
  by (rule gov_run.construct [OF tlab_fresh tlab_constructed])

lemma tlab_run_ready: "gov_run tlab_ext 10 [(tlab_propose, tlab_new)] tlab_ready"
  unfolding tlab_ready_def
  by (rule gov_run.environment [OF gov_run.call [OF tlab_run_new tlab_proposed]]) (simp add: tlab_states)

lemma tlab_run_final:
  "gov_run tlab_ext 10
     [(GC_accept_ownership, tlab_offered\<lparr>gv_sequence := 120, gv_auth := (\<lambda>a. a = 8), gv_world := ()\<rparr>),
      (tlab_execute, tlab_ready), (tlab_propose, tlab_new)] tlab_final"
  by (rule gov_run.call [OF gov_run.environment [OF gov_run.call [OF tlab_run_ready tlab_executed]] tlab_accepted])
    (simp add: tlab_states)

lemma tlab_run_reset: "gov_run tlab_ext 10 [(GC_propose_canceller_reset [20] [4], tlab_new)] tlab_recovering"
  by (rule gov_run.call [OF tlab_run_new tlab_reset_proposed])

lemma tlab_executes: "executed_operation tlab_ext tlab_execute tlab_ready = Some tlab_transfer"
  by (simp add: tlab_operation tlab_states)

end
