(* ===== verification/Governance_Properties.thy ===== *)
theory Governance_Properties
  imports Governance_Lab
begin

text \<open>
  The properties of the governance contract: what is executed was proposed and waited, what is reserved for
  the owner came from the owner, the roles stay sound, and a recovery cannot be blocked.
\<close>

lemma proposal_found:
  assumes "timelock_laws ext" and "min_delay_laws ext" and run: "gov_run ext initial log g"
    and ok: "gov_dispatch ext c g = Inr (v, g')" and exec: "executed_operation ext c g = Some operation"
  obtains later c0 p earlier operation' tier delay where "log = later @ (c0, p) # earlier"
    "proposed_operation ext c0 p = Some (operation', tier, delay)" "tl_hash ext operation' = tl_hash ext operation"
    "unsettled_since ext (tl_hash ext operation) later" "waits_for initial tier delay"
    "gv_sequence p + delay \<le> gv_sequence g" "gv_sequence g \<le> gv_sequence p + delay + TIMELOCK_OPERATION_GRACE_LEDGERS"
    "gov_run ext initial earlier p" "\<exists>v p'. gov_dispatch ext c0 p = Inr (v, p')"
proof -
  have win: "in_window ext g (tl_hash ext operation)" by (rule dispatch_window [OF assms(1) ok exec])
  then have "proposed_in ext log (tl_hash ext operation) (ready_at ext g (tl_hash ext operation))"
    by (intro pending_was_proposed [OF assms(1) run]) (simp add: in_window_def)
  then obtain later c0 p earlier operation' tier delay where split: "log = later @ (c0, p) # earlier"
    and uns: "unsettled_since ext (tl_hash ext operation) later"
    and made: "proposed_operation ext c0 p = Some (operation', tier, delay)"
    and same: "tl_hash ext operation' = tl_hash ext operation"
    and ready: "ready_at ext g (tl_hash ext operation) = gv_sequence p + delay"
    by (auto simp: proposed_in_def)
  note logged = logged_call [OF run split]
  have "waits_for initial tier delay" by (rule proposal_waits [OF assms(2) conjunct2 [OF logged] made])
  then show thesis using that [OF split made same uns] win ready logged by (simp add: in_window_def)
qed

text \<open>
  C14. Nothing is executed through the timelock that was not proposed and did not wait. In every run of the
  contract, a call that executes an operation finds a logged proposal of an operation with the same id that
  has not been executed or cancelled since; between the two at least the delay of its tier has passed, which
  is never zero and never below the smaller of the initial delay and two days, and the grace period has
  not ended.
\<close>

theorem timelock_respected:
  assumes "timelock_laws ext" and "min_delay_laws ext" and "gov_run ext initial log g"
    and "gov_dispatch ext c g = Inr (v, g')" and "executed_operation ext c g = Some operation"
  shows "\<exists>later c0 p earlier operation' tier delay. log = later @ (c0, p) # earlier \<and>
    proposed_operation ext c0 p = Some (operation', tier, delay) \<and> tl_hash ext operation' = tl_hash ext operation \<and>
    unsettled_since ext (tl_hash ext operation) later \<and> waits_for initial tier delay \<and>
    gv_sequence p + delay \<le> gv_sequence g \<and>
    gv_sequence g \<le> gv_sequence p + delay + TIMELOCK_OPERATION_GRACE_LEDGERS"
  using proposal_found [OF assms] by metis

theorem timelock_respected_witness:
  "\<exists>later c0 p earlier operation' tier delay. [(tlab_propose, tlab_new)] = later @ (c0, p) # earlier \<and>
    proposed_operation tlab_ext c0 p = Some (operation', tier, delay) \<and> tl_hash tlab_ext operation' = tl_hash tlab_ext tlab_transfer \<and>
    unsettled_since tlab_ext (tl_hash tlab_ext tlab_transfer) later \<and> waits_for 10 tier delay \<and>
    gv_sequence p + delay \<le> gv_sequence tlab_ready \<and>
    gv_sequence tlab_ready \<le> gv_sequence p + delay + TIMELOCK_OPERATION_GRACE_LEDGERS"
  by (rule timelock_respected [OF tlab_timelock_laws tlab_min_delay_laws tlab_run_ready tlab_executed tlab_executes])

text \<open>
  C16. What is reserved for the owner comes from the owner. When the timelock executes a call to a reserved
  function (ownership, upgrades, migration, the delay, oracles and aggregators, role grants, the activation of
  a position manager), and no other operation has the same id, the account that proposed it was the owner at
  that time and authorised the proposal. A proposer who is not the owner cannot reach such a call through
  another operation of the interface.
\<close>

theorem privileged_needs_owner:
  assumes "timelock_laws ext" and "min_delay_laws ext" and "gov_run ext initial log g"
    and "gov_dispatch ext c g = Inr (v, g')" and "executed_operation ext c g = Some operation"
    and "reserved_call operation" and "\<And>other. tl_hash ext other = tl_hash ext operation \<Longrightarrow> other = operation"
  shows "\<exists>later proposer op salt p earlier. log = later @ (GC_propose proposer op salt, p) # earlier \<and>
    owner_only op \<and> gv_owner p = Some proposer \<and> gv_auth p proposer \<and> gv_sequence p < gv_sequence g"
proof -
  from assms(1-5) obtain later c0 p earlier operation' tier delay v' p' where split: "log = later @ (c0, p) # earlier"
    and made: "proposed_operation ext c0 p = Some (operation', tier, delay)"
    and same: "tl_hash ext operation' = tl_hash ext operation" and wait: "waits_for initial tier delay"
    and time: "gv_sequence p + delay \<le> gv_sequence g" and ok: "gov_dispatch ext c0 p = Inr (v', p')"
    by (rule proposal_found) blast
  have "operation' = operation" by (rule assms(7) [OF same])
  then have "\<exists>proposer op salt. c0 = GC_propose proposer op salt \<and> owner_only op \<and> gv_owner p = Some proposer \<and> gv_auth p proposer"
    using reserved_proposer [OF ok made] assms(6) by simp
  then show ?thesis using split wait time by (fastforce simp: waits_for_def)
qed

theorem privileged_needs_owner_witness:
  "\<exists>later proposer op salt p earlier. [(tlab_propose, tlab_new)] = later @ (GC_propose proposer op salt, p) # earlier \<and>
    owner_only op \<and> gv_owner p = Some proposer \<and> gv_auth p proposer \<and> gv_sequence p < gv_sequence tlab_ready"
proof (rule privileged_needs_owner [OF tlab_timelock_laws tlab_min_delay_laws tlab_run_ready tlab_executed tlab_executes])
  show "reserved_call tlab_transfer" by (simp add: reserved_call_def tlab_transfer_def reserved_functions_def)
qed (rule tlab_hash_transfer)

text \<open>
  C17. Roles along every run. There is always an owner, the owner holds all five operational roles (so a
  proposer always exists), and no other account ever holds both the executor and the canceller role. This
  includes the handover of ownership, the reset of the canceller set and the immediate revocations.
\<close>

theorem roles_sound:
  assumes "access_laws ext" and "gov_run ext initial log g"
  shows "\<exists>owner. gv_owner g = Some owner \<and> (\<forall>role \<in> set default_operational_roles. ac_has_role ext (gv_access g) owner role) \<and>
    (\<forall>account. account \<noteq> owner \<longrightarrow>
       \<not> (ac_has_role ext (gv_access g) account EXECUTOR_ROLE \<and> ac_has_role ext (gv_access g) account CANCELLER_ROLE))"
  using run_role_inv [OF assms] by (auto simp: role_inv_def role_inv_for_def split: option.splits)

theorem roles_sound_witness:
  "\<exists>owner. gv_owner tlab_final = Some owner \<and> owner \<noteq> 7 \<and> ac_has_role tlab_ext (gv_access tlab_final) owner PROPOSER_ROLE \<and>
    \<not> (ac_has_role tlab_ext (gv_access tlab_final) 7 EXECUTOR_ROLE \<and> ac_has_role tlab_ext (gv_access tlab_final) 7 CANCELLER_ROLE)"
proof -
  have "PROPOSER_ROLE \<in> set default_operational_roles" "gv_owner tlab_final = Some 8"
    by (simp_all add: default_operational_roles_def tlab_final_def)
  then show ?thesis using roles_sound [OF tlab_access_laws tlab_run_final] by auto
qed

text \<open>
  C40. A recovery cannot be blocked, and nobody blocks their own removal. A proposal above the standard tier
  that has not been settled is still scheduled for the ledger it was given. If it resets the canceller set, no
  account can cancel it; if it revokes a role, the account that would lose the role cannot cancel it.
\<close>

theorem protected_proposals:
  assumes "timelock_laws ext" and "min_delay_laws ext" and "gov_run ext initial log g" and "log = later @ (c, p) # earlier"
    and "proposed_operation ext c p = Some (operation, tier, delay)" and "tier \<noteq> Standard"
    and "unsettled_since ext (tl_hash ext operation) later"
  shows "tl_ledger ext (gv_timelock g) (tl_hash ext operation) = gv_sequence p + delay \<and>
    (tier = Recovery \<longrightarrow> (\<forall>canceller. \<exists>e. gov_dispatch ext (GC_cancel canceller (tl_hash ext operation)) g = Inl e)) \<and>
    (\<forall>account. revocation_target c = Some account \<longrightarrow>
       (\<exists>e. gov_dispatch ext (GC_cancel account (tl_hash ext operation)) g = Inl e))"
proof -
  have "waits_for initial tier delay"
    by (rule proposal_waits [OF assms(2) _ assms(5)]) (use logged_call [OF assms(3,4)] in blast)
  then have "2 \<le> delay" using assms(6)
    by (cases tier) (auto simp: waits_for_def TIMELOCK_SENSITIVE_MIN_DELAY_LEDGERS_def TIMELOCK_RECOVERY_MIN_DELAY_LEDGERS_def)
  note marks = marks_stay [OF assms(1,3,4,5) this assms(7)]
  have refused: "\<exists>e. gov_dispatch ext (GC_cancel canceller (tl_hash ext operation)) g = Inl e"
    if "is_recovery_op (tl_hash ext operation) g \<or> gv_revocation_targets g (tl_hash ext operation) = Some canceller" for canceller
    using that cancel_Inr(1,2) [of ext canceller "tl_hash ext operation" g]
    by (cases "gov_dispatch ext (GC_cancel canceller (tl_hash ext operation)) g") (auto simp: returning_Inr)
  show ?thesis using marks refused by blast
qed

theorem protected_proposals_witness:
  "lt_ledger (gv_timelock tlab_recovering) [0, 4] = 518500 \<and>
   (\<exists>e. gov_dispatch tlab_ext (GC_cancel 7 [0, 4]) tlab_recovering = Inl e)"
proof -
  have made: "proposed_operation tlab_ext (GC_propose_canceller_reset [20] [4]) tlab_new =
      Some (canceller_reset_operation 5 [20] [4], Recovery, 518400)"
    by (simp add: operation_delay_def tlab_eval tlab_states TIMELOCK_RECOVERY_MIN_DELAY_LEDGERS_def)
  have "gv_sequence tlab_new = 100" by (simp add: tlab_states)
  then show ?thesis
    using protected_proposals [OF tlab_timelock_laws tlab_min_delay_laws tlab_run_reset, of "[]", OF _ made]
    by (simp del: gov_dispatch.simps add: tlab_reset_hash)
qed

end
