(* ===== verification/Spec2Isabelle.thy ===== *)
theory Spec2Isabelle
  imports Pool_Op_Properties Controller_Properties Xoxno_Properties Aggregator_Properties Governance_Properties
begin

text \<open>
  A verification development for the XOXNO lending protocol on Stellar (\<^verbatim>\<open>src/\<close>, Rust, Soroban contracts).

  \<^bold>\<open>The program.\<close> Five contracts carry the protocol and are modelled here.
  \<^item> The \<^emph>\<open>pool\<close> (\<^verbatim>\<open>contracts/pool\<close>) keeps the books of every market: cash, supply and debt shares, the
    supply and borrow indexes, protocol revenue. It accrues interest, moves tokens and is called only
    by its owner.
  \<^item> The \<^emph>\<open>controller\<close> (\<^verbatim>\<open>contracts/controller\<close>) owns the pool. It keeps the accounts with their positions,
    the hubs, spokes and listings, prices collateral and debt, gates borrowing and withdrawal by the risk of
    the account, liquidates, and socialises bad debt. Its strategies compose these operations with a swap, a
    callback or a migration into one call.
  \<^item> The \<^emph>\<open>price aggregator\<close> (\<^verbatim>\<open>contracts/price-aggregator\<close>) resolves the price of a key from one or two
    sources, each a feed, a feed times another key, or the share of a liquidity pool over other keys.
  \<^item> The \<^emph>\<open>xoxno oracle\<close> (\<^verbatim>\<open>contracts/xoxno-oracle\<close>) aggregates the prices of a set of signers by the median
    of a quorum, and is one of the feeds the aggregator can read.
  \<^item> The \<^emph>\<open>governance\<close> (\<^verbatim>\<open>contracts/governance\<close>) owns the controller and the aggregator. It turns administrative
    operations into timelocked calls, with roles for who may propose, execute and cancel.
  The shared code is \<^verbatim>\<open>common\<close>: fixed-point arithmetic, the rate engine, types, validation and LP pricing.

  \<^bold>\<open>Conventions.\<close> A panic is \<open>Inl e\<close> of the type \<open>'a res\<close>, with \<open>e\<close> the error of the source (\<open>Errors\<close>, with
  its numeric code) or a trap of the host; a returned value is \<open>Inr\<close>. Stateful code is a \<open>flow\<close>, a function from the
  state to a panic or a value with the next state (\<open>Flow\<close>). A panic discards the state, as the host
  does. Integers of the source are \<open>int\<close> or \<open>nat\<close> with the range check written at each operation that
  can leave the range: \<open>native\<close> and the \<open>checked\<close> and \<open>saturating\<close> operations for \<^verbatim>\<open>i128\<close>, \<open>u256\<close> for the 256-bit
  host arithmetic. A persistent entry is a field or a partial map, a Soroban \<^verbatim>\<open>Map\<close> is an association list
  sorted by key (\<open>Soroban_Map\<close>). Code outside the repository (token contracts, the position NFT, flash-loan
  and flash-position receivers, the Blend pools, price providers, liquidity pools) and the swap router is a record of functions on a world \<open>'w\<close> that is an argument
  of every operation that calls it. The host forbids re-entrance into a contract that is on the
  call stack, so such a call changes only the world; nothing is assumed about its answers unless a
  theorem says so.

  \<^bold>\<open>Shared code.\<close> \<open>Prelude\<close>: named collections, quotients by rounding mode, lemmas on lists, options and results.
  \<open>Constants\<close>, \<open>Errors\<close>, \<open>Fp_Core\<close>, \<open>Fp\<close>: \<^verbatim>\<open>common/src/constants\<close>, \<^verbatim>\<open>errors.rs\<close>, \<^verbatim>\<open>math\<close>; the primitives are proved
  equal to the exact rounded quotient. \<open>Pool_Types\<close>, \<open>Controller_Types\<close>, \<open>Validation\<close>: \<^verbatim>\<open>common/src/types\<close>, \<^verbatim>\<open>validation.rs\<close>. \<open>Rates_*\<close>:
  \<^verbatim>\<open>common/src/rates\<close>, with bounds of the curve and of compounding, conservation of value by an accrual step,
  and the share conversions. \<open>Observation\<close>, \<open>Oracle_Types\<close>, \<open>Lp_Math\<close>: \<^verbatim>\<open>common/src/oracle\<close> and its types; the square
  root of a product is proved to be the integer square root.

  \<^bold>\<open>Pool.\<close> \<open>Pool_Cache\<close>, \<open>Pool_Interest\<close>, \<open>Pool_Guards\<close>, \<open>Pool_Ops\<close>, \<open>Pool\<close> follow \<^verbatim>\<open>storage.rs\<close> with \<^verbatim>\<open>cache/\<close>,
  \<^verbatim>\<open>interest.rs\<close>, \<^verbatim>\<open>guards.rs\<close>, \<^verbatim>\<open>ops/\<close> and \<^verbatim>\<open>lib.rs\<close>. \<open>Pool_Entries\<close>, \<open>Pool_Exits\<close> and \<open>Pool_Treasury\<close> show that every
  operation keeps the invariant of a market and what it does to the exact gap between the claims of
  suppliers and debt plus cash; \<open>Pool_Machine\<close> lifts this to every sequence of calls, \<open>Pool_Books\<close> to the
  shares that users own. \<open>Pool_Properties\<close> and \<open>Pool_Op_Properties\<close> hold the properties of the contract.

  \<^bold>\<open>Controller.\<close> \<open>Controller_Store\<close>, \<open>Controller_Context\<close>, \<open>Controller_Account\<close>, \<open>Controller_Risk\<close>,
  \<open>Controller_Positions\<close>, \<open>Liquidation_Math\<close>, \<open>Liquidation\<close>, \<open>Controller_Config\<close> and \<open>Controller\<close>
  follow the files of the same names; \<open>Controller_Legs\<close> and \<open>Controller_Strategies\<close> are \<^verbatim>\<open>strategies/\<close> with \<^verbatim>\<open>external/blend.rs\<close>.
  The pool is called through its modelled entrypoints. The state of the system is the store of the controller, the
  pool and the world. \<open>Controller_Frame\<close> shows what each call leaves alone; \<open>Controller_Machine\<close> that the system
  simulates the pool machine; \<open>Controller_Ledger\<close>, \<open>Controller_Conservation\<close>, \<open>Strategy_Ledger\<close> and
  \<open>Controller_Shares\<close> that the shares of the pool are the shares of the accounts; \<open>Controller_Solvency\<close> and
  \<open>Strategy_Solvency\<close> what the risk gate means in exact arithmetic, for every call behind it, and who
  may make such a call; \<open>Strategy_Close\<close> what a closing repayment, a flash position and a swap leave behind;
  \<open>Liquidation_Plan\<close> what a plan guarantees. \<open>Controller_Samples\<close> and \<open>Strategy_Lab\<close> hold concrete runs,
  \<open>Controller_Properties\<close> the properties.

  \<^bold>\<open>Price aggregator.\<close> \<open>Aggregator_Sources\<close>: \<^verbatim>\<open>registry.rs\<close>, \<^verbatim>\<open>session.rs\<close>, \<^verbatim>\<open>observation.rs\<close>, \<^verbatim>\<open>tolerance.rs\<close>, \<^verbatim>\<open>providers/\<close>.
  \<open>Aggregator_Engine\<close>: \<^verbatim>\<open>engine.rs\<close>. \<open>Aggregator\<close>: \<^verbatim>\<open>properties.rs\<close>, \<^verbatim>\<open>validation.rs\<close>, \<^verbatim>\<open>admin.rs\<close>, \<^verbatim>\<open>lib.rs\<close>. Then
  \<open>Aggregator_Graph\<close> (the dependency graph and what the walks over it compute), \<open>Aggregator_Registry\<close> (reachable
  states and the registry invariant), \<open>Aggregator_Safety\<close> (a resolution keeps its
  session and returns only safe prices), \<open>Aggregator_Lab\<close> (a concrete history) and \<open>Aggregator_Properties\<close>.

  \<^bold>\<open>Xoxno oracle.\<close> \<open>Xoxno_Index\<close>, \<open>Xoxno_Store\<close>, \<open>Xoxno_Oracle\<close> are the contract; \<open>Xoxno_Aggregate\<close> shows
  what the insertion sort and the median compute; \<open>Xoxno_Machine\<close> and \<open>Xoxno_Invariant\<close> hold the reachable states
  and their invariant; \<open>Xoxno_Properties\<close> the properties.

  \<^bold>\<open>Governance.\<close> \<open>Governance\<close> is the contract: \<^verbatim>\<open>op.rs\<close>, \<^verbatim>\<open>access.rs\<close>, \<^verbatim>\<open>validate/\<close>, \<^verbatim>\<open>timelock/\<close>, \<^verbatim>\<open>deploy.rs\<close>, \<^verbatim>\<open>api.rs\<close>.
  \<open>Governance_Timelock\<close> holds the frames of its flows and the effect of a call on the schedule;
  \<open>Governance_Machine\<close> runs with their log of calls; \<open>Governance_Roles\<close> the invariants of roles and
  of the minimum delay; \<open>Governance_Lab\<close> a concrete library and histories; \<open>Governance_Properties\<close> the properties. The
  timelock, access-control and ownership crates are parameters; what is used of their documentation is
  \<open>timelock_laws\<close>, \<open>min_delay_laws\<close> and \<open>access_laws\<close>.

  \<^bold>\<open>Interfaces.\<close> The contracts between components are locales, each interpreted on the model: \<open>frame\<close>, \<open>ctx_frame\<close>,
  \<open>world_frame\<close>, \<open>pool_frame\<close>, \<open>ctl_frame\<close>, \<open>admin_frame\<close> and \<open>gov_frame\<close> (relations that the flows of a contract keep, each locale
  with the part of the system the flows may touch), \<open>batch_leg\<close> and \<open>share_leg\<close> (what a batch
  of the pool relies on in its legs), \<open>leg_merge\<close> and \<open>leg_settlement\<close> (how the controller books the answer of the
  pool), \<open>keyed_map\<close> (the sorted \<^verbatim>\<open>Map\<close>), \<open>registry\<close> (the slot index of the oracle), \<open>resolver\<close> (what the engine
  relies on in its recursive call).

  \<^bold>\<open>Loops and bounds.\<close> No definition uses fuel that the source does not have. A loop over a \<^verbatim>\<open>Vec\<close> is a fold.
  The accrual loop runs over chunks of at most \<^verbatim>\<open>MAX_COMPOUND_DELTA_MS\<close> and decreases the time left; Newton's
  iteration decreases its estimate; the stable-swap solver stops after \<^verbatim>\<open>MAX_D_ITERATIONS\<close> passes, as in
  the source; price resolution descends at most \<^verbatim>\<open>MAX_RESOLUTION_DEPTH\<close> levels; \<^verbatim>\<open>depends_on\<close> removes a
  registered key from the unvisited ones at each descent.

  \<^bold>\<open>Assumptions in theorems.\<close> The conservation of shares between controller and pool assumes that the position
  NFT issues no account id twice; the covering of accounts assumes that the controller is given no negative price,
  which is what \<open>prices_are_safe\<close> shows of the aggregator.

  \<^bold>\<open>Not modelled.\<close> Events and entry lifetimes (TTL), which no code of the contracts reads back; the
  inside of the third-party crates for ownership, pausing and tokens: the offer and the acceptance of an ownership are
  functions of the world the controller calls; the detailed market view and the plain storage getters of the controller; the swap aggregator, whose answers
  the controller does not trust and checks by balances; the DeFindex adapter; the position NFT; the off-chain
  keeper and exporter services, which do network I/O.
\<close>

end
